(* ===== verification/Numeral_Eval.thy ===== *)
theory Numeral_Eval
  imports Main
begin

text \<open>
  Arithmetic on long numerals in the simplifier.  The certificates of this development multiply
  numbers of 256 binary digits some thousand times; these equations add two digits at a time, with
  the carry in \<open>add1\<close>, where the rules of the library add one.
\<close>

definition add1 :: "num \<Rightarrow> num \<Rightarrow> num" where
  "add1 m n = m + n + num.One"

lemma add_pairs:
  "(num.Bit0 (num.Bit0 m)) + (num.Bit0 (num.Bit0 n)) = num.Bit0 (num.Bit0 (m + n))"
  "(num.Bit0 (num.Bit0 m)) + (num.Bit1 (num.Bit0 n)) = num.Bit1 (num.Bit0 (m + n))"
  "(num.Bit0 (num.Bit0 m)) + (num.Bit0 (num.Bit1 n)) = num.Bit0 (num.Bit1 (m + n))"
  "(num.Bit0 (num.Bit0 m)) + (num.Bit1 (num.Bit1 n)) = num.Bit1 (num.Bit1 (m + n))"
  "(num.Bit1 (num.Bit0 m)) + (num.Bit0 (num.Bit0 n)) = num.Bit1 (num.Bit0 (m + n))"
  "(num.Bit1 (num.Bit0 m)) + (num.Bit1 (num.Bit0 n)) = num.Bit0 (num.Bit1 (m + n))"
  "(num.Bit1 (num.Bit0 m)) + (num.Bit0 (num.Bit1 n)) = num.Bit1 (num.Bit1 (m + n))"
  "(num.Bit1 (num.Bit0 m)) + (num.Bit1 (num.Bit1 n)) = num.Bit0 (num.Bit0 (add1 m n))"
  "(num.Bit0 (num.Bit1 m)) + (num.Bit0 (num.Bit0 n)) = num.Bit0 (num.Bit1 (m + n))"
  "(num.Bit0 (num.Bit1 m)) + (num.Bit1 (num.Bit0 n)) = num.Bit1 (num.Bit1 (m + n))"
  "(num.Bit0 (num.Bit1 m)) + (num.Bit0 (num.Bit1 n)) = num.Bit0 (num.Bit0 (add1 m n))"
  "(num.Bit0 (num.Bit1 m)) + (num.Bit1 (num.Bit1 n)) = num.Bit1 (num.Bit0 (add1 m n))"
  "(num.Bit1 (num.Bit1 m)) + (num.Bit0 (num.Bit0 n)) = num.Bit1 (num.Bit1 (m + n))"
  "(num.Bit1 (num.Bit1 m)) + (num.Bit1 (num.Bit0 n)) = num.Bit0 (num.Bit0 (add1 m n))"
  "(num.Bit1 (num.Bit1 m)) + (num.Bit0 (num.Bit1 n)) = num.Bit1 (num.Bit0 (add1 m n))"
  "(num.Bit1 (num.Bit1 m)) + (num.Bit1 (num.Bit1 n)) = num.Bit0 (num.Bit1 (add1 m n))"
  "(num.Bit0 (num.Bit0 m)) + num.One = num.Bit1 (num.Bit0 m)" "num.One + (num.Bit0 (num.Bit0 m)) = num.Bit1 (num.Bit0 m)"
  "(num.Bit0 (num.Bit0 m)) + (num.Bit0 num.One) = num.Bit0 (num.Bit1 m)"
  "(num.Bit0 num.One) + (num.Bit0 (num.Bit0 m)) = num.Bit0 (num.Bit1 m)"
  "(num.Bit0 (num.Bit0 m)) + (num.Bit1 num.One) = num.Bit1 (num.Bit1 m)"
  "(num.Bit1 num.One) + (num.Bit0 (num.Bit0 m)) = num.Bit1 (num.Bit1 m)" "(num.Bit1 (num.Bit0 m)) + num.One = num.Bit0 (num.Bit1 m)"
  "num.One + (num.Bit1 (num.Bit0 m)) = num.Bit0 (num.Bit1 m)" "(num.Bit1 (num.Bit0 m)) + (num.Bit0 num.One) = num.Bit1 (num.Bit1 m)"
  "(num.Bit0 num.One) + (num.Bit1 (num.Bit0 m)) = num.Bit1 (num.Bit1 m)"
  "(num.Bit1 (num.Bit0 m)) + (num.Bit1 num.One) = num.Bit0 (num.Bit0 (Num.inc m))"
  "(num.Bit1 num.One) + (num.Bit1 (num.Bit0 m)) = num.Bit0 (num.Bit0 (Num.inc m))"
  "(num.Bit0 (num.Bit1 m)) + num.One = num.Bit1 (num.Bit1 m)" "num.One + (num.Bit0 (num.Bit1 m)) = num.Bit1 (num.Bit1 m)"
  "(num.Bit0 (num.Bit1 m)) + (num.Bit0 num.One) = num.Bit0 (num.Bit0 (Num.inc m))"
  "(num.Bit0 num.One) + (num.Bit0 (num.Bit1 m)) = num.Bit0 (num.Bit0 (Num.inc m))"
  "(num.Bit0 (num.Bit1 m)) + (num.Bit1 num.One) = num.Bit1 (num.Bit0 (Num.inc m))"
  "(num.Bit1 num.One) + (num.Bit0 (num.Bit1 m)) = num.Bit1 (num.Bit0 (Num.inc m))"
  "(num.Bit1 (num.Bit1 m)) + num.One = num.Bit0 (num.Bit0 (Num.inc m))"
  "num.One + (num.Bit1 (num.Bit1 m)) = num.Bit0 (num.Bit0 (Num.inc m))"
  "(num.Bit1 (num.Bit1 m)) + (num.Bit0 num.One) = num.Bit1 (num.Bit0 (Num.inc m))"
  "(num.Bit0 num.One) + (num.Bit1 (num.Bit1 m)) = num.Bit1 (num.Bit0 (Num.inc m))"
  "(num.Bit1 (num.Bit1 m)) + (num.Bit1 num.One) = num.Bit0 (num.Bit1 (Num.inc m))"
  "(num.Bit1 num.One) + (num.Bit1 (num.Bit1 m)) = num.Bit0 (num.Bit1 (Num.inc m))" "num.One + num.One = num.Bit0 num.One"
  "num.One + (num.Bit0 num.One) = num.Bit1 num.One" "num.One + (num.Bit1 num.One) = num.Bit0 (num.Bit0 num.One)"
  "(num.Bit0 num.One) + num.One = num.Bit1 num.One" "(num.Bit0 num.One) + (num.Bit0 num.One) = num.Bit0 (num.Bit0 num.One)"
  "(num.Bit0 num.One) + (num.Bit1 num.One) = num.Bit1 (num.Bit0 num.One)" "(num.Bit1 num.One) + num.One = num.Bit0 (num.Bit0 num.One)"
  "(num.Bit1 num.One) + (num.Bit0 num.One) = num.Bit1 (num.Bit0 num.One)"
  "(num.Bit1 num.One) + (num.Bit1 num.One) = num.Bit0 (num.Bit1 num.One)"
  by (simp_all add: num_eq_iff nat_of_num_add add1_def nat_of_num_inc del: add_num_simps)

lemma add1_pairs:
  "add1 (num.Bit0 (num.Bit0 m)) (num.Bit0 (num.Bit0 n)) = num.Bit1 (num.Bit0 (m + n))"
  "add1 (num.Bit0 (num.Bit0 m)) (num.Bit1 (num.Bit0 n)) = num.Bit0 (num.Bit1 (m + n))"
  "add1 (num.Bit0 (num.Bit0 m)) (num.Bit0 (num.Bit1 n)) = num.Bit1 (num.Bit1 (m + n))"
  "add1 (num.Bit0 (num.Bit0 m)) (num.Bit1 (num.Bit1 n)) = num.Bit0 (num.Bit0 (add1 m n))"
  "add1 (num.Bit1 (num.Bit0 m)) (num.Bit0 (num.Bit0 n)) = num.Bit0 (num.Bit1 (m + n))"
  "add1 (num.Bit1 (num.Bit0 m)) (num.Bit1 (num.Bit0 n)) = num.Bit1 (num.Bit1 (m + n))"
  "add1 (num.Bit1 (num.Bit0 m)) (num.Bit0 (num.Bit1 n)) = num.Bit0 (num.Bit0 (add1 m n))"
  "add1 (num.Bit1 (num.Bit0 m)) (num.Bit1 (num.Bit1 n)) = num.Bit1 (num.Bit0 (add1 m n))"
  "add1 (num.Bit0 (num.Bit1 m)) (num.Bit0 (num.Bit0 n)) = num.Bit1 (num.Bit1 (m + n))"
  "add1 (num.Bit0 (num.Bit1 m)) (num.Bit1 (num.Bit0 n)) = num.Bit0 (num.Bit0 (add1 m n))"
  "add1 (num.Bit0 (num.Bit1 m)) (num.Bit0 (num.Bit1 n)) = num.Bit1 (num.Bit0 (add1 m n))"
  "add1 (num.Bit0 (num.Bit1 m)) (num.Bit1 (num.Bit1 n)) = num.Bit0 (num.Bit1 (add1 m n))"
  "add1 (num.Bit1 (num.Bit1 m)) (num.Bit0 (num.Bit0 n)) = num.Bit0 (num.Bit0 (add1 m n))"
  "add1 (num.Bit1 (num.Bit1 m)) (num.Bit1 (num.Bit0 n)) = num.Bit1 (num.Bit0 (add1 m n))"
  "add1 (num.Bit1 (num.Bit1 m)) (num.Bit0 (num.Bit1 n)) = num.Bit0 (num.Bit1 (add1 m n))"
  "add1 (num.Bit1 (num.Bit1 m)) (num.Bit1 (num.Bit1 n)) = num.Bit1 (num.Bit1 (add1 m n))"
  "add1 (num.Bit0 (num.Bit0 m)) num.One = num.Bit0 (num.Bit1 m)" "add1 num.One (num.Bit0 (num.Bit0 m)) = num.Bit0 (num.Bit1 m)"
  "add1 (num.Bit0 (num.Bit0 m)) (num.Bit0 num.One) = num.Bit1 (num.Bit1 m)"
  "add1 (num.Bit0 num.One) (num.Bit0 (num.Bit0 m)) = num.Bit1 (num.Bit1 m)"
  "add1 (num.Bit0 (num.Bit0 m)) (num.Bit1 num.One) = num.Bit0 (num.Bit0 (Num.inc m))"
  "add1 (num.Bit1 num.One) (num.Bit0 (num.Bit0 m)) = num.Bit0 (num.Bit0 (Num.inc m))"
  "add1 (num.Bit1 (num.Bit0 m)) num.One = num.Bit1 (num.Bit1 m)" "add1 num.One (num.Bit1 (num.Bit0 m)) = num.Bit1 (num.Bit1 m)"
  "add1 (num.Bit1 (num.Bit0 m)) (num.Bit0 num.One) = num.Bit0 (num.Bit0 (Num.inc m))"
  "add1 (num.Bit0 num.One) (num.Bit1 (num.Bit0 m)) = num.Bit0 (num.Bit0 (Num.inc m))"
  "add1 (num.Bit1 (num.Bit0 m)) (num.Bit1 num.One) = num.Bit1 (num.Bit0 (Num.inc m))"
  "add1 (num.Bit1 num.One) (num.Bit1 (num.Bit0 m)) = num.Bit1 (num.Bit0 (Num.inc m))"
  "add1 (num.Bit0 (num.Bit1 m)) num.One = num.Bit0 (num.Bit0 (Num.inc m))"
  "add1 num.One (num.Bit0 (num.Bit1 m)) = num.Bit0 (num.Bit0 (Num.inc m))"
  "add1 (num.Bit0 (num.Bit1 m)) (num.Bit0 num.One) = num.Bit1 (num.Bit0 (Num.inc m))"
  "add1 (num.Bit0 num.One) (num.Bit0 (num.Bit1 m)) = num.Bit1 (num.Bit0 (Num.inc m))"
  "add1 (num.Bit0 (num.Bit1 m)) (num.Bit1 num.One) = num.Bit0 (num.Bit1 (Num.inc m))"
  "add1 (num.Bit1 num.One) (num.Bit0 (num.Bit1 m)) = num.Bit0 (num.Bit1 (Num.inc m))"
  "add1 (num.Bit1 (num.Bit1 m)) num.One = num.Bit1 (num.Bit0 (Num.inc m))"
  "add1 num.One (num.Bit1 (num.Bit1 m)) = num.Bit1 (num.Bit0 (Num.inc m))"
  "add1 (num.Bit1 (num.Bit1 m)) (num.Bit0 num.One) = num.Bit0 (num.Bit1 (Num.inc m))"
  "add1 (num.Bit0 num.One) (num.Bit1 (num.Bit1 m)) = num.Bit0 (num.Bit1 (Num.inc m))"
  "add1 (num.Bit1 (num.Bit1 m)) (num.Bit1 num.One) = num.Bit1 (num.Bit1 (Num.inc m))"
  "add1 (num.Bit1 num.One) (num.Bit1 (num.Bit1 m)) = num.Bit1 (num.Bit1 (Num.inc m))" "add1 num.One num.One = num.Bit1 num.One"
  "add1 num.One (num.Bit0 num.One) = num.Bit0 (num.Bit0 num.One)" "add1 num.One (num.Bit1 num.One) = num.Bit1 (num.Bit0 num.One)"
  "add1 (num.Bit0 num.One) num.One = num.Bit0 (num.Bit0 num.One)" "add1 (num.Bit0 num.One) (num.Bit0 num.One) = num.Bit1 (num.Bit0 num.One)"
  "add1 (num.Bit0 num.One) (num.Bit1 num.One) = num.Bit0 (num.Bit1 num.One)" "add1 (num.Bit1 num.One) num.One = num.Bit1 (num.Bit0 num.One)"
  "add1 (num.Bit1 num.One) (num.Bit0 num.One) = num.Bit0 (num.Bit1 num.One)"
  "add1 (num.Bit1 num.One) (num.Bit1 num.One) = num.Bit1 (num.Bit1 num.One)"
  by (simp_all add: num_eq_iff nat_of_num_add add1_def nat_of_num_inc del: add_num_simps)

definition sq :: "nat \<Rightarrow> nat" where
  "sq x = x * x"

lemma sq_numeral: "sq (numeral k) = numeral (Num.sqr k)"
  by (simp only: sq_def sqr_conv_mult numeral_mult)

lemma sq_one: "sq 1 = 1"
  by (simp add: sq_def)

lemmas chain_eval = sq_one sq_numeral sqr.simps add_pairs add1_pairs Num.inc.simps
  numeral_plus_numeral numeral_plus_one one_plus_numeral one_add_one add_0_left add_0_right
  numeral_times_numeral mult_num_simps mult_1_left mult_1_right mult_zero_left mult_zero_right

end
