(* ===== verification/Primality.thy ===== *)
theory Primality
  imports Numeral_Eval
begin

text \<open>
  Primality of natural numbers by Pocklington certificates.  The finite field the C code
  computes in is the integers modulo the prime 2^256 - 2^32 - 977; this theory holds the
  criterion by which that number is shown to be prime, and the checker of power chains by
  which its hypotheses are evaluated.
\<close>

definition is_prime :: "nat \<Rightarrow> bool" where
  "is_prime n \<longleftrightarrow> 1 < n \<and> (\<forall>d. d dvd n \<longrightarrow> d = 1 \<or> d = n)"

lemma is_prime_gt_1: "is_prime n \<Longrightarrow> 1 < n"
  by (simp add: is_prime_def)

lemma is_prime_coprime: "is_prime q \<Longrightarrow> \<not> q dvd a \<Longrightarrow> coprime q a"
  unfolding is_prime_def coprime_iff_gcd_eq_1
  by (metis gcd_dvd1 gcd_dvd2)

lemma is_prime_dvd_mult: "is_prime q \<Longrightarrow> q dvd a * b \<Longrightarrow> q dvd a \<or> q dvd b"
  using is_prime_coprime coprime_dvd_mult_right_iff by blast

lemma prime_divisor_exists:
  assumes "1 < n"
  shows "\<exists>r. is_prime r \<and> r dvd n"
  using assms
proof (induction n rule: less_induct)
  case (less n)
  show ?case
  proof (cases "is_prime n")
    case False
    then obtain d where d: "d dvd n" "d \<noteq> 1" "d \<noteq> n"
      using less.prems by (auto simp: is_prime_def)
    moreover from this less.prems have "d \<noteq> 0" by auto
    ultimately have "d < n" "1 < d"
      using less.prems dvd_imp_le [OF d(1)] by linarith+
    then show ?thesis
      using less.IH [of d] d(1) dvd_trans by blast
  qed auto
qed

lemma small_prime_divisor:
  assumes "1 < n" "\<not> is_prime n"
  shows "\<exists>r. is_prime r \<and> r dvd n \<and> r * r \<le> n"
proof -
  obtain d where d: "d dvd n" "d \<noteq> 1" "d \<noteq> n"
    using assms by (auto simp: is_prime_def)
  then obtain e where e: "n = d * e" by blast
  then have "d * e \<noteq> 0" using assms(1) by linarith
  then have nz: "d \<noteq> 0" "e \<noteq> 0" "e \<noteq> 1" using d e by auto
  define m where "m = min d e"
  have "1 < m" using nz d(2) unfolding m_def min_def by (simp split: if_splits)
  moreover have "m dvd n" "m * m \<le> n"
    using e by (auto simp: m_def min_def mult_le_mono)
  moreover obtain r where r: "is_prime r" "r dvd m"
    using prime_divisor_exists [OF \<open>1 < m\<close>] by blast
  moreover have "r * r \<le> m * m"
    using dvd_imp_le [OF r(2)] \<open>1 < m\<close> by (simp add: mult_le_mono)
  ultimately show ?thesis
    by (metis dvd_trans order_trans)
qed

lemma prime_dvd_choose:
  assumes r: "is_prime r" and k: "0 < k" "k < r"
  shows "r dvd (r choose k)"
proof -
  have "k * (r choose k) = r * ((r - 1) choose (k - 1))"
    using k times_binomial_minus1_eq [of k r] by simp
  then have "r dvd k * (r choose k)" by simp
  moreover have "\<not> r dvd k" using k by (auto dest: dvd_imp_le)
  ultimately show ?thesis
    using is_prime_dvd_mult [OF r] by blast
qed

lemma freshman:
  assumes r: "is_prime r"
  shows "(a + 1) ^ r mod r = (a ^ r + 1) mod r"
proof -
  have r0: "0 < r" using r by (simp add: is_prime_def)
  have "(a + 1) ^ r = (\<Sum>k\<le>r. (r choose k) * a ^ k)"
    using binomial [of a 1 r] by simp
  also have "{..r} = {0, r} \<union> {1..<r}" using r0 by auto
  also have "(\<Sum>k\<in>{0, r} \<union> {1..<r}. (r choose k) * a ^ k)
      = (\<Sum>k\<in>{0, r}. (r choose k) * a ^ k) + (\<Sum>k\<in>{1..<r}. (r choose k) * a ^ k)"
    by (rule sum.union_disjoint) auto
  also have "(\<Sum>k\<in>{0, r}. (r choose k) * a ^ k) = a ^ r + 1"
    using r0 by simp
  finally have e: "(a + 1) ^ r = (a ^ r + 1) + (\<Sum>k\<in>{1..<r}. (r choose k) * a ^ k)" .
  have "r dvd (\<Sum>k\<in>{1..<r}. (r choose k) * a ^ k)"
    by (intro dvd_sum dvd_mult2 prime_dvd_choose [OF r]) auto
  then show ?thesis
    unfolding e by (metis add.right_neutral mod_add_right_eq mod_eq_0_iff_dvd)
qed

lemma fermat_power: "is_prime r \<Longrightarrow> a ^ r mod r = a mod r"
proof (induction a)
  case 0
  then have "0 < r" by (simp add: is_prime_def)
  then show ?case by (simp add: zero_power)
next
  case (Suc a)
  then show ?case
    using freshman [of r a] by (metis Suc_eq_plus1 mod_add_left_eq)
qed

lemma fermat_little:
  assumes r: "is_prime r" and a: "\<not> r dvd a"
  shows "a ^ (r - 1) mod r = 1"
proof -
  have r1: "1 < r" using r by (simp add: is_prime_def)
  have "a * a ^ (r - 1) mod r = a mod r"
    using fermat_power [OF r, of a] r1 by (metis Suc_diff_1 less_trans less_numeral_extra(1) power_Suc)
  moreover have "coprime r a" using r a by (rule is_prime_coprime)
  moreover have "0 < a" using a by (cases a) auto
  ultimately have "r dvd a * (a ^ (r - 1) - 1)"
    using mod_eq_dvd_iff_nat [of a "a * a ^ (r-1)" r] by (simp add: diff_mult_distrib2)
  with \<open>coprime r a\<close> have "r dvd a ^ (r - 1) - 1"
    by (simp add: coprime_dvd_mult_right_iff)
  then have "a ^ (r - 1) mod r = 1 mod r"
    using \<open>0 < a\<close> mod_eq_dvd_iff_nat [of 1 "a ^ (r - 1)" r] by simp
  with r1 show ?thesis by simp
qed

lemma pow_mod_one: "b mod r = (1::nat) mod r \<Longrightarrow> b ^ k mod r = 1 mod r"
  by (metis power_mod power_one)

lemma order_dvd:
  assumes q: "is_prime q" and r: "is_prime r"
    and bq: "b ^ q mod r = 1" and b1: "b mod r \<noteq> 1"
  shows "q dvd r - 1"
proof (rule ccontr)
  assume "\<not> q dvd r - 1"
  then have "coprime q (r - 1)" using q by (simp add: is_prime_coprime)
  then have g: "gcd q (r - 1) = 1" by simp
  have q0: "q \<noteq> 0" and r1: "1 < r" using q r by (simp_all add: is_prime_def)
  obtain x y where xy: "q * x = (r - 1) * y + 1"
    using bezout_nat [OF q0, of "r - 1"] g by auto
  have "\<not> r dvd b"
  proof
    assume "r dvd b"
    then have "r dvd b ^ q" using q0 by (simp add: dvd_power dvd_trans)
    then show False using bq by simp
  qed
  then have f: "b ^ (r - 1) mod r = 1 mod r" using fermat_little [OF r] r1 by simp
  have "b ^ (q * x) mod r = 1 mod r"
    using pow_mod_one [of "b ^ q" r x] bq r1 by (simp add: power_mult)
  moreover have "b ^ (q * x) mod r = b mod r"
  proof -
    have "b ^ (q * x) = (b ^ (r - 1)) ^ y * b" unfolding xy by (simp add: power_add power_mult)
    also have "\<dots> mod r = ((b ^ (r - 1)) ^ y mod r) * b mod r" by (simp only: mod_mult_left_eq)
    also have "(b ^ (r - 1)) ^ y mod r = 1" using pow_mod_one [OF f, of y] r1 by simp
    finally show ?thesis by simp
  qed
  ultimately show False using b1 r1 by simp
qed

text \<open>Modulo every prime divisor of \<open>N\<close> the witness \<open>b\<close> has the order \<open>q\<close>.\<close>

definition pock_cert :: "nat \<Rightarrow> nat \<Rightarrow> bool" where
  "pock_cert N q \<longleftrightarrow> is_prime q \<and> (\<exists>b u. b ^ q mod N = 1 \<and> 0 < b \<and> (b - 1) * u mod N = 1)"

lemma pock_cert_dvd:
  assumes c: "pock_cert N q" and r: "is_prime r" "r dvd N" and N: "1 < N"
  shows "q dvd r - 1"
proof -
  obtain b u where q: "is_prime q" and bq: "b ^ q mod N = 1" and b: "0 < b" and u: "(b - 1) * u mod N = 1"
    using c by (auto simp: pock_cert_def)
  have r1: "1 < r" using r by (simp add: is_prime_def)
  have red: "x mod N = y mod N \<Longrightarrow> x mod r = y mod r" for x y
    using r(2) by (metis mod_mod_cancel)
  show ?thesis
  proof (rule order_dvd [OF q r(1)])
    show "b ^ q mod r = 1" using red [of "b ^ q" 1] bq N r1 by simp
    show "b mod r \<noteq> 1"
    proof
      assume "b mod r = 1"
      then have "r dvd b - 1" using b r1 mod_eq_dvd_iff_nat [of 1 b r] by simp
      then have "(b - 1) * u mod r = 0" by simp
      moreover have "(b - 1) * u mod r = 1"
        using red [of "(b - 1) * u" 1] u N r1 by simp
      ultimately show False by simp
    qed
  qed
qed

lemma distinct_primes_prod_dvd:
  assumes "distinct qs" "\<forall>q\<in>set qs. is_prime q" "\<forall>q\<in>set qs. q dvd m"
  shows "prod_list qs dvd m"
  using assms
proof (induction qs)
  case (Cons q qs)
  have "coprime q (prod_list qs)"
  proof (rule is_prime_coprime)
    show "is_prime q" using Cons.prems by simp
    then show "\<not> q dvd prod_list qs"
      using Cons.prems(1,2)
    proof (induction qs)
      case (Cons q' qs)
      then have "\<not> q dvd q'" by (auto simp: is_prime_def)
      with Cons show ?case using is_prime_dvd_mult by auto
    qed (simp add: is_prime_def)
  qed
  then show ?case using Cons by (simp add: divides_mult)
qed simp

theorem pocklington:
  assumes N: "1 < N" and qs: "distinct qs" "\<forall>q\<in>set qs. pock_cert N q"
    and F: "N < prod_list qs * prod_list qs"
  shows "is_prime N"
proof (rule ccontr)
  assume "\<not> is_prime N"
  then obtain r where r: "is_prime r" "r dvd N" "r * r \<le> N"
    using small_prime_divisor [OF N] by blast
  have "prod_list qs dvd r - 1"
    using qs pock_cert_dvd [OF _ r(1,2) N]
    by (intro distinct_primes_prod_dvd) (auto simp: pock_cert_def)
  then have "prod_list qs \<le> r"
    using is_prime_gt_1 [OF r(1)] dvd_imp_le [of "prod_list qs" "r - 1"] by simp
  then have "prod_list qs * prod_list qs \<le> N"
    using r(3) by (meson mult_le_mono order_trans)
  with F show False by simp
qed

text \<open>
  A chain takes the power \<open>a ^ e = x\<close> to \<open>a ^ e' = x'\<close>: an entry squares, or multiplies by \<open>a\<close>, and
  gives quotient and remainder of the result.  The modulus is \<open>K - C\<close>.
\<close>

fun chain :: "nat \<Rightarrow> nat \<Rightarrow> nat \<Rightarrow> nat \<Rightarrow> nat \<Rightarrow> (bool \<times> nat \<times> nat) list \<Rightarrow> nat \<Rightarrow> nat \<Rightarrow> bool" where
  "chain K C a e x [] e' x' \<longleftrightarrow> e = e' \<and> x = x'"
| "chain K C a e x ((b, q, r) # cs) e' x' \<longleftrightarrow>
     (if b then x * a + C * q = K * q + r \<and> chain K C a (e + 1) r cs e' x'
      else sq x + C * q = K * q + r \<and> chain K C a (2 * e) r cs e' x')"

lemma chain_nil: "e = e' \<Longrightarrow> chain K C a e x [] e' x"
  by simp

lemma chain_double:
  "sq x + C * q = K * q + r \<Longrightarrow> chain K C a (2 * e) r cs e' x'
    \<Longrightarrow> chain K C a e x ((False, q, r) # cs) e' x'"
  by simp

lemma chain_mult:
  "x * a + C * q = K * q + r \<Longrightarrow> chain K C a (e + 1) r cs e' x'
    \<Longrightarrow> chain K C a e x ((True, q, r) # cs) e' x'"
  by simp

lemma chain_step:
  fixes x y q r N C K :: nat
  assumes "N + C = K" "y + C * q = K * q + r"
  shows "y mod N = r mod N"
proof -
  have "y + C * q = N * q + C * q + r" using assms by (simp add: distrib_right flip: assms(1))
  then have "y = r + N * q" by simp
  then show ?thesis by simp
qed

lemma chain_power:
  "chain K C a e x cs e' x' \<Longrightarrow> N + C = K \<Longrightarrow> a ^ e mod N = x mod N \<Longrightarrow> a ^ e' mod N = x' mod N"
proof (induction K C a e x cs e' x' rule: chain.induct)
  case (2 K C a e x b q r cs e' x')
  show ?case
  proof (cases b)
    case True
    have "a ^ (e + 1) mod N = x * a mod N"
      using "2.prems"(3) by (simp add: mult.commute) (metis mod_mult_right_eq)
    with True 2 show ?thesis using chain_step [OF "2.prems"(2), of "x * a" q r] by simp
  next
    case False
    have "a ^ (2 * e) mod N = x * x mod N"
      using "2.prems"(3) by (metis mult_2 power_add mod_mult_eq)
    with False 2 show ?thesis using chain_step [OF "2.prems"(2), of "x * x" q r] by (simp add: sq_def)
  qed
qed simp

lemma pow_times3:
  fixes a N C K :: nat
  assumes ae: "a ^ e mod N = x mod N" and N: "N + C = K" and q: "sq x + C * q = K * q + r"
    and q': "r * x + C * q' = K * q' + s"
  shows "a ^ (3 * e) mod N = s mod N"
proof -
  have "a ^ (3 * e) = a ^ e * a ^ e * a ^ e" by (simp only: power_add [symmetric]) (simp add: numeral_3_eq_3 add.assoc)
  then have "a ^ (3 * e) mod N = x * x * x mod N" using ae by (metis mod_mult_eq)
  also have "x * x mod N = r mod N" using chain_step [OF N, of "x * x" q r] q by (simp add: sq_def)
  then have "x * x * x mod N = r * x mod N" by (metis mod_mult_left_eq)
  also have "r * x mod N = s mod N" by (rule chain_step [OF N q'])
  finally show ?thesis .
qed

lemma pock_orderI:
  assumes "is_prime q" "b ^ q mod N = 1 mod N" "b = c + 1" "c * u = k * N + 1" "1 < N"
  shows "pock_cert N q"
proof -
  have "(b - 1) * u mod N = 1"
    using assms(3,4,5) mod_mult_self3 [of k N 1] by simp
  with assms show ?thesis
    unfolding pock_cert_def by (intro conjI exI [of _ b] exI [of _ u]) simp_all
qed

lemma pock_certI:
  assumes "is_prime q" "N = M + 1" "q * e = M" "a ^ M mod N = 1 mod N" "a ^ e mod N = b mod N"
    and b: "b = c + 1" "c * u = k * N + 1" "1 < N"
  shows "pock_cert N q"
proof (rule pock_orderI [OF assms(1) _ b])
  have "b ^ q mod N = (a ^ e) ^ q mod N" by (metis assms(5) power_mod)
  also have "(a ^ e) ^ q = a ^ M" by (simp only: power_mult [symmetric] mult.commute [of e] assms(3))
  finally show "b ^ q mod N = 1 mod N" using assms(4) by simp
qed

lemmas pock_eval = chain_eval rel_simps refl simp_thms

lemma is_prime_small:
  "is_prime n \<longleftrightarrow> 1 < n \<and> (\<forall>d\<in>set [2..<n]. n mod d \<noteq> 0)"
proof
  assume "is_prime n"
  then show "1 < n \<and> (\<forall>d\<in>set [2..<n]. n mod d \<noteq> 0)"
    unfolding is_prime_def by (metis atLeastLessThan_iff less_irrefl mod_0_imp_dvd not_less_eq_eq
      numeral_2_eq_2 order_less_le set_upt Suc_1 le_refl)
next
  assume a: "1 < n \<and> (\<forall>d\<in>set [2..<n]. n mod d \<noteq> 0)"
  show "is_prime n"
    unfolding is_prime_def
  proof (intro conjI allI impI)
    fix d assume d: "d dvd n"
    show "d = 1 \<or> d = n"
    proof (rule ccontr)
      assume c: "\<not> ?thesis"
      moreover have "d \<noteq> 0" using d a by (metis dvd_0_left not_less_zero)
      moreover have "d \<le> n" using d a by (auto intro: dvd_imp_le)
      ultimately have "d \<in> set [2..<n]" by auto
      with a have "n mod d \<noteq> 0" by blast
      with d show False by simp
    qed
  qed (use a in simp)
qed

lemma is_prime_trial:
  assumes "1 < n" "n < m * m" "\<forall>d\<in>set [2..<m]. n mod d \<noteq> 0"
  shows "is_prime n"
proof (rule ccontr)
  assume "\<not> is_prime n"
  then obtain r where r: "is_prime r" "r dvd n" "r * r \<le> n" using small_prime_divisor [OF assms(1)] by blast
  have "r < m"
  proof (rule ccontr)
    assume "\<not> r < m"
    then have "m * m \<le> r * r" by (simp add: mult_le_mono)
    then show False using r(3) assms(2) by simp
  qed
  moreover have "2 \<le> r" using is_prime_gt_1 [OF r(1)] by simp
  ultimately have "n mod r \<noteq> 0" using assms(3) by (simp del: neq0_conv)
  with r(2) show False by simp
qed

end
