(* ===== verification/Field_Prime_Certificate.thy ===== *)
theory Field_Prime_Certificate
  imports Primality
begin

text \<open>
  The field prime 2^256 - 2^32 - 977 is prime: a Pocklington certificate, checked step by step.  The
  powers of 7 it computes also show that 7 is not a square and -7 not a cube.
\<close>

lemma pc_53: "is_prime 53"
  by (rule is_prime_trial [of _ 8]) (simp_all add: upt_rec_numeral)

lemma pc_29: "is_prime 29"
  by (rule is_prime_trial [of _ 6]) (simp_all add: upt_rec_numeral)

lemma pc_7: "is_prime 7"
  by (rule is_prime_trial [of _ 3]) (simp_all add: upt_rec_numeral)

lemma pc_107590001_pow0_0: "chain 107590001 0 26896163 1 26896163
    [(False, 6723706, 48858863),
     (True, 12214108, 51308561),
     (False, 24468523, 17852198),
     (False, 2962180, 24269024),
     (True, 6066954, 38427958),
     (False, 13725327, 10394437),
     (False, 1004222, 74562747),
     (True, 18639760, 1)]
    53 1"
  by ((rule chain_double chain_mult, simp only: chain_eval)+, rule chain_nil, simp only: chain_eval)

lemma pc_107590001_pow0: "26896163 ^ 53 mod 107590001 = (1::nat) mod 107590001"
proof -
  have N: "107590001 + 0 = (107590001::nat)" by (simp only: arith_simps)
  have c0: "26896163 ^ 1 mod 107590001 = (26896163::nat) mod 107590001" by (simp only: power_one_right)
  note c1 = chain_power [OF pc_107590001_pow0_0 N c0]
  show ?thesis by (rule c1)
qed

lemma pc_107590001_cert0: "pock_cert 107590001 53"
  by (rule pock_orderI [OF pc_53 pc_107590001_pow0, of 26896162 75712971 18927301])
     (simp_all only: pock_eval)

lemma pc_107590001_pow1_0: "chain 107590001 0 68236646 1 68236646
    [(False, 43277626, 32711690),
     (True, 20746686, 43105054),
     (False, 17269687, 38743229),
     (True, 24572060, 42197874),
     (False, 16550428, 5049448),
     (False, 236982, 31487722),
     (True, 19970411, 1)]
    29 1"
  by ((rule chain_double chain_mult, simp only: chain_eval)+, rule chain_nil, simp only: chain_eval)

lemma pc_107590001_pow1: "68236646 ^ 29 mod 107590001 = (1::nat) mod 107590001"
proof -
  have N: "107590001 + 0 = (107590001::nat)" by (simp only: arith_simps)
  have c0: "68236646 ^ 1 mod 107590001 = (68236646::nat) mod 107590001" by (simp only: power_one_right)
  note c1 = chain_power [OF pc_107590001_pow1_0 N c0]
  show ?thesis by (rule c1)
qed

lemma pc_107590001_cert1: "pock_cert 107590001 29"
  by (rule pock_orderI [OF pc_29 pc_107590001_pow1, of 68236645 100085220 63476899])
     (simp_all only: pock_eval)

lemma pc_107590001_pow2_0: "chain 107590001 0 95730224 1 95730224
    [(False, 85177764, 73152412),
     (True, 65088732, 45931556),
     (False, 19608772, 37492364),
     (True, 33359535, 1)]
    7 1"
  by ((rule chain_double chain_mult, simp only: chain_eval)+, rule chain_nil, simp only: chain_eval)

lemma pc_107590001_pow2: "95730224 ^ 7 mod 107590001 = (1::nat) mod 107590001"
proof -
  have N: "107590001 + 0 = (107590001::nat)" by (simp only: arith_simps)
  have c0: "95730224 ^ 1 mod 107590001 = (95730224::nat) mod 107590001" by (simp only: power_one_right)
  note c1 = chain_power [OF pc_107590001_pow2_0 N c0]
  show ?thesis by (rule c1)
qed

lemma pc_107590001_cert2: "pock_cert 107590001 7"
  by (rule pock_orderI [OF pc_7 pc_107590001_pow2, of 95730223 4923006 4380337])
     (simp_all only: pock_eval)

lemma pc_107590001: "is_prime 107590001"
  by (rule pocklington [of _ "[53, 29, 7]"])
     (simp_all only: pock_eval list.set ball_simps pc_107590001_cert0 pc_107590001_cert1 pc_107590001_cert2 distinct.simps prod_list.Cons prod_list.Nil insert_iff empty_iff)

lemma pc_419: "is_prime 419"
  by (rule is_prime_trial [of _ 21]) (simp_all add: upt_rec_numeral)

lemma pc_20113_pow0_0: "chain 20113 0 15069 1 15069
    [(False, 11289, 19104),
     (True, 14313, 807),
     (False, 32, 7633),
     (False, 2896, 15441),
     (True, 11568, 13245),
     (False, 8722, 4439),
     (False, 979, 14094),
     (False, 9876, 4848),
     (False, 1168, 11120),
     (True, 8331, 5877),
     (False, 1717, 5108),
     (True, 3827, 1)]
    419 1"
  by ((rule chain_double chain_mult, simp only: chain_eval)+, rule chain_nil, simp only: chain_eval)

lemma pc_20113_pow0: "15069 ^ 419 mod 20113 = (1::nat) mod 20113"
proof -
  have N: "20113 + 0 = (20113::nat)" by (simp only: arith_simps)
  have c0: "15069 ^ 1 mod 20113 = (15069::nat) mod 20113" by (simp only: power_one_right)
  note c1 = chain_power [OF pc_20113_pow0_0 N c0]
  show ?thesis by (rule c1)
qed

lemma pc_20113_cert0: "pock_cert 20113 419"
  by (rule pock_orderI [OF pc_419 pc_20113_pow0, of 15068 17111 12819])
     (simp_all only: pock_eval)

lemma pc_20113: "is_prime 20113"
  by (rule pocklington [of _ "[419]"])
     (simp_all only: pock_eval list.set ball_simps pc_20113_cert0 distinct.simps prod_list.Cons prod_list.Nil insert_iff empty_iff)

lemma pc_1206781_pow0_0: "chain 1206781 0 78448 1 78448
    [(False, 5099, 712385),
     (False, 420533, 1153952),
     (False, 1103435, 825569),
     (True, 53666, 1127766),
     (False, 1053924, 692112),
     (True, 44991, 518205),
     (False, 222522, 1100343),
     (True, 71528, 1076296),
     (False, 959919, 1068877),
     (False, 946731, 1058218),
     (True, 68790, 620674),
     (False, 319226, 342770),
     (False, 97359, 281521),
     (False, 65673, 1144828),
     (True, 74420, 824924),
     (False, 563896, 627000),
     (False, 325766, 780754),
     (False, 505126, 349110),
     (False, 100994, 151786),
     (True, 9867, 1)]
    20113 1"
  by ((rule chain_double chain_mult, simp only: chain_eval)+, rule chain_nil, simp only: chain_eval)

lemma pc_1206781_pow0: "78448 ^ 20113 mod 1206781 = (1::nat) mod 1206781"
proof -
  have N: "1206781 + 0 = (1206781::nat)" by (simp only: arith_simps)
  have c0: "78448 ^ 1 mod 1206781 = (78448::nat) mod 1206781" by (simp only: power_one_right)
  note c1 = chain_power [OF pc_1206781_pow0_0 N c0]
  show ?thesis by (rule c1)
qed

lemma pc_1206781_cert0: "pock_cert 1206781 20113"
  by (rule pock_orderI [OF pc_20113 pc_1206781_pow0, of 78447 709359 46112])
     (simp_all only: pock_eval)

lemma pc_1206781: "is_prime 1206781"
  by (rule pocklington [of _ "[20113]"])
     (simp_all only: pock_eval list.set ball_simps pc_1206781_cert0 distinct.simps prod_list.Cons prod_list.Nil insert_iff empty_iff)

lemma pc_7240687_pow0_0: "chain 7240687 0 64 1 64
    [(False, 0, 4096),
     (False, 2, 2295842),
     (False, 727954, 3424566),
     (True, 30, 1951614),
     (False, 526027, 344447),
     (False, 16385, 5079314),
     (False, 3563119, 1287843),
     (True, 11, 2774395),
     (False, 1063057, 4615866),
     (True, 40, 5787944),
     (False, 4626673, 4702785),
     (False, 3054432, 681441),
     (True, 6, 168102),
     (False, 3902, 5121730),
     (False, 3622876, 7037088),
     (False, 6839213, 6860413),
     (True, 60, 4625212),
     (False, 2954496, 5266192),
     (True, 46, 3964686),
     (False, 2170890, 77166),
     (True, 0, 4938624),
     (False, 3368465, 6277921),
     (True, 55, 3549159),
     (False, 1739687, 562312),
     (True, 4, 7025220),
     (False, 6816164, 5983732),
     (True, 52, 6443124),
     (False, 5733412, 5145332),
     (True, 45, 3470333),
     (False, 1663269, 905086),
     (False, 113135, 5543651),
     (True, 49, 1)]
    1206781 1"
  by ((rule chain_double chain_mult, simp only: chain_eval)+, rule chain_nil, simp only: chain_eval)

lemma pc_7240687_pow0: "64 ^ 1206781 mod 7240687 = (1::nat) mod 7240687"
proof -
  have N: "7240687 + 0 = (7240687::nat)" by (simp only: arith_simps)
  have c0: "64 ^ 1 mod 7240687 = (64::nat) mod 7240687" by (simp only: power_one_right)
  note c1 = chain_power [OF pc_7240687_pow0_0 N c0]
  show ?thesis by (rule c1)
qed

lemma pc_7240687_cert0: "pock_cert 7240687 1206781"
  by (rule pock_orderI [OF pc_1206781 pc_7240687_pow0, of 63 5746577 50])
     (simp_all only: pock_eval)

lemma pc_7240687: "is_prime 7240687"
  by (rule pocklington [of _ "[1206781]"])
     (simp_all only: pock_eval list.set ball_simps pc_7240687_cert0 distinct.simps prod_list.Cons prod_list.Nil insert_iff empty_iff)

lemma pc_239: "is_prime 239"
  by (rule is_prime_trial [of _ 16]) (simp_all add: upt_rec_numeral)

lemma pc_101: "is_prime 101"
  by (rule is_prime_trial [of _ 11]) (simp_all add: upt_rec_numeral)

lemma pc_96557_pow0_0: "chain 96557 0 29586 1 29586
    [(False, 9065, 42191),
     (True, 12927, 70587),
     (False, 51601, 86812),
     (True, 26600, 3632),
     (False, 136, 59672),
     (False, 36877, 15095),
     (True, 4625, 24545),
     (False, 6239, 37902),
     (True, 11613, 52131),
     (False, 28145, 44396),
     (True, 13603, 35185),
     (False, 12821, 26928),
     (True, 8251, 1)]
    239 1"
  by ((rule chain_double chain_mult, simp only: chain_eval)+, rule chain_nil, simp only: chain_eval)

lemma pc_96557_pow0: "29586 ^ 239 mod 96557 = (1::nat) mod 96557"
proof -
  have N: "96557 + 0 = (96557::nat)" by (simp only: arith_simps)
  have c0: "29586 ^ 1 mod 96557 = (29586::nat) mod 96557" by (simp only: power_one_right)
  note c1 = chain_power [OF pc_96557_pow0_0 N c0]
  show ?thesis by (rule c1)
qed

lemma pc_96557_cert0: "pock_cert 96557 239"
  by (rule pock_orderI [OF pc_239 pc_96557_pow0, of 29585 8329 2552])
     (simp_all only: pock_eval)

lemma pc_96557_pow1_0: "chain 96557 0 63065 1 63065
    [(False, 41190, 11395),
     (True, 7442, 48481),
     (False, 24342, 16867),
     (False, 2946, 38767),
     (False, 15564, 67141),
     (True, 43852, 29601),
     (False, 9074, 60983),
     (False, 38515, 33434),
     (True, 21837, 1)]
    101 1"
  by ((rule chain_double chain_mult, simp only: chain_eval)+, rule chain_nil, simp only: chain_eval)

lemma pc_96557_pow1: "63065 ^ 101 mod 96557 = (1::nat) mod 96557"
proof -
  have N: "96557 + 0 = (96557::nat)" by (simp only: arith_simps)
  have c0: "63065 ^ 1 mod 96557 = (63065::nat) mod 96557" by (simp only: power_one_right)
  note c1 = chain_power [OF pc_96557_pow1_0 N c0]
  show ?thesis by (rule c1)
qed

lemma pc_96557_cert1: "pock_cert 96557 101"
  by (rule pock_orderI [OF pc_101 pc_96557_pow1, of 63064 50445 32947])
     (simp_all only: pock_eval)

lemma pc_96557: "is_prime 96557"
  by (rule pocklington [of _ "[239, 101]"])
     (simp_all only: pock_eval list.set ball_simps pc_96557_cert0 pc_96557_cert1 distinct.simps prod_list.Cons prod_list.Nil insert_iff empty_iff)

lemma pc_b128_pow0_0: "chain 255515944373312847190720520512484175977 0 82381214149343919061612748413412685903 1 82381214149343919061612748413412685903
    [(False, 26560629949591867129313623614083112907, 45246611270643412694367342997586890270),
     (True, 14588016343798488105744349162021281911, 160450757379040941616056670245986011763),
     (False, 100754751750030980189838687178680441601, 95270476607819162804462806971818748992),
     (False, 35522103074006844979073895978570376129, 103109406594336183372543655402384963031),
     (False, 41608165605130595093123792064657324553, 249798824454319090464567045037581843680),
     (True, 80537950389349394455344352151413631773, 1319111626363371104706037064675125819),
     (False, 6809968305792961851955094775083498, 204219482661555519756415941079579693215),
     (True, 65842657983135183990934380024220690903, 189500286926694097755999619332320210914),
     (False, 140540578919152639316976227514658003888, 85176236765130775575042542416102516820),
     (False, 28393497428363837214111058004514404771, 129984832286317642259601788845810526133),
     (True, 41908571815388079912028976604318369137, 50349586458310175778637194733148581250),
     (False, 9921419435254725601714881466581663118, 184439922575191331839752942881409046214)]
    410 184439922575191331839752942881409046214"
  by ((rule chain_double chain_mult, simp only: chain_eval)+, rule chain_nil, simp only: chain_eval)

lemma pc_b128_pow0_1: "chain 255515944373312847190720520512484175977 0 82381214149343919061612748413412685903 410 184439922575191331839752942881409046214
    [(False, 133134881750633969531530688455386362447, 35059799585615723776330598058935398077),
     (False, 4810617787466425397061342186792782880, 48276150939195979403477091786982424169),
     (True, 15564774004934206555755365156582466015, 240046287432844679410341846016430867952),
     (False, 225513207215377949185772356004770322058, 189367918401394801001975664617023873638),
     (True, 61054346636186499979473656294412555152, 35322856786313359869842006603069941610),
     (False, 4883077706193896611998269641072979595, 133432303226433580720962891625099202785),
     (False, 69679328967035922691846177518186138863, 120671873878271990098261125534701062074),
     (True, 38905969285597485710165328727588569520, 45248772912117685746238097457689321782),
     (False, 8013008562240782086081092013199767173, 105384441243286045421684334523979852503),
     (True, 33977129072571692203441320901874751902, 246647452927619402432032285365223906955),
     (False, 238086770611862008564781841151218182897, 168862113981898550454680609766177706656),
     (False, 111595437256845653088119070648481433666, 145227835416341084904064305943990460654)]
    105068 145227835416341084904064305943990460654"
  by ((rule chain_double chain_mult, simp only: chain_eval)+, rule chain_nil, simp only: chain_eval)

lemma pc_b128_pow0_2: "chain 255515944373312847190720520512484175977 0 82381214149343919061612748413412685903 105068 145227835416341084904064305943990460654
    [(False, 82543280152026000411397678957113428824, 210882573053367967211763972362441946668),
     (False, 174045732162356058965613063324797311218, 141134662407921062285591986387408092238),
     (True, 45503402444175065660063468101146714475, 61721066194774679711517478167473153839),
     (False, 14909010948663275725372838898617799863, 8324203905721168327249173727101946770),
     (False, 271186093039995582138433893560482495, 217819310383876931642354418663305410285),
     (True, 70227395392515263902865613431719522422, 103484508813145107184651831290605456061),
     (False, 41911449364004560390410040183991646777, 209266397784057734152745869259708759592),
     (True, 67469840179221425891771427073254021651, 197351006089519592539244756651182353549),
     (False, 152426572439811433260874062440668520619, 73368379689103484346081539182983925638),
     (True, 23654790755945044600538728135138976870, 116753245463506477939857256483590229124),
     (False, 53348218091416717160235109576702709355, 11055357597310174052103311702313642541),
     (False, 478329960598611666472087413599793939, 64452957294669453188827141122110933278)]
    26897500 64452957294669453188827141122110933278"
  by ((rule chain_double chain_mult, simp only: chain_eval)+, rule chain_nil, simp only: chain_eval)

lemma pc_b128_pow0_3: "chain 255515944373312847190720520512484175977 0 82381214149343919061612748413412685903 26897500 64452957294669453188827141122110933278
    [(False, 16258021448396018690041292386706558269, 234354215875311285984662398633967321471),
     (False, 214945093282672957654228836113639749550, 204453328301669956521847430749851043491),
     (True, 65918052447474411690430676359927318636, 1)]
    107590001 1"
  by ((rule chain_double chain_mult, simp only: chain_eval)+, rule chain_nil, simp only: chain_eval)

lemma pc_b128_pow0: "82381214149343919061612748413412685903 ^ 107590001 mod 255515944373312847190720520512484175977 = (1::nat) mod 255515944373312847190720520512484175977"
proof -
  have N: "255515944373312847190720520512484175977 + 0 = (255515944373312847190720520512484175977::nat)" by (simp only: arith_simps)
  have c0: "82381214149343919061612748413412685903 ^ 1 mod 255515944373312847190720520512484175977 = (82381214149343919061612748413412685903::nat) mod 255515944373312847190720520512484175977" by (simp only: power_one_right)
  note c1 = chain_power [OF pc_b128_pow0_0 N c0]
  note c2 = chain_power [OF pc_b128_pow0_1 N c1]
  note c3 = chain_power [OF pc_b128_pow0_2 N c2]
  note c4 = chain_power [OF pc_b128_pow0_3 N c3]
  show ?thesis by (rule c4)
qed

lemma pc_b128_cert0: "pock_cert 255515944373312847190720520512484175977 107590001"
  by (rule pock_orderI [OF pc_107590001 pc_b128_pow0, of 82381214149343919061612748413412685902 235081362755335172132203715226758066727 75792875216320803940127491159486690489])
     (simp_all only: pock_eval)

lemma pc_b128_pow1_0: "chain 255515944373312847190720520512484175977 0 111233916942653821000329437866037388564 1 111233916942653821000329437866037388564
    [(False, 48423531098036224728971462366290159183, 91567789269041675572061395368803435305),
     (True, 39862263355643726668326195904237143498, 75297900531157434713800221605487504474),
     (False, 22189510867143576798549735079043935049, 246885868273838202147508087585895898803),
     (False, 238547273841644208883781711967561769054, 71255006555506101089203308687648017051),
     (True, 31019486867572718750054055044843697473, 6368882604885286274924894848702198643),
     (False, 158748080219791261698059836396458812, 24969108956813843464358798113590682125),
     (True, 10869817923285687327907999266125078719, 255436718773970535063531832617460485037),
     (False, 255357517739418520242471147533974722971, 216388596013580024244149716787512623702),
     (True, 94200583745747560880179934950897812868, 114412854949646491664160746075563071892),
     (False, 51230859232031758388663819033831961980, 26067727509009308321429777750067105204),
     (False, 2659428628419218197509053614575927891, 199082772563305148598100243589097407109),
     (False, 155113413484627226320790454244723656573, 242856515104470520362707037654638991060)]
    440 242856515104470520362707037654638991060"
  by ((rule chain_double chain_mult, simp only: chain_eval)+, rule chain_nil, simp only: chain_eval)

lemma pc_b128_pow1_1: "chain 255515944373312847190720520512484175977 0 111233916942653821000329437866037388564 440 242856515104470520362707037654638991060
    [(True, 105722879628385607894905159276718968782, 154259641820756407043735681325684887826),
     (False, 93129362838906332487902785435196331428, 21886775612094728347953365142235301120),
     (True, 9527983807622304360022317986510395890, 116814022480909878539567204148286857150),
     (False, 53403774397084995305984780502198659918, 166840809161841905698195378594617732614),
     (True, 72630914499172801964788725331454221141, 8289648246393671918187816331655696539),
     (False, 268939256285859016621429469791065965, 103021122635047210617038439339781255716),
     (True, 44848250181144731269043060674580128897, 155170621434584279924517323043847124455),
     (False, 94232560772085677809655444009123326277, 188895460407616508704705075734602799396),
     (False, 139644886154244002679632790006265987208, 191162570160621740843728999465515062600),
     (True, 83218922028302624044511841887842850719, 199972697296220778989263502513647128937),
     (False, 156503265430282760120717718293135128910, 153246648178097473494479137870082554899),
     (True, 66712959838928019634983972549856874861, 91804088823739638142439028395133360839)]
    28283 91804088823739638142439028395133360839"
  by ((rule chain_double chain_mult, simp only: chain_eval)+, rule chain_nil, simp only: chain_eval)

lemma pc_b128_pow1_2: "chain 255515944373312847190720520512484175977 0 111233916942653821000329437866037388564 28283 91804088823739638142439028395133360839
    [(False, 32984206701573382131835365655339304842, 103884839657139300283413759631002603287),
     (True, 45224252656187859078097069463893518738, 185793651080249967794655358244223652842),
     (False, 135096386514715705294133627240300207476, 97290352238431983797707565049739672912),
     (True, 42353470296163526127453764561403909863, 15718966327618737526677316330471417217),
     (False, 967007765463807133079478181745301156, 88651802151283405893044714788118495677),
     (True, 38592844847698556566353807109165915297, 119971129557884245347185395339179017659),
     (False, 56329447317644258174491905851399919504, 202110827128758553674212191232663284873),
     (False, 159867856946689008566797351516898052027, 203464252980554118437174389721181070750),
     (True, 88574221355721610823574120048168985402, 112687083009345174986119268727212815246),
     (False, 49697010917653410216039227455444826116, 179510047564964886683581999966620625184),
     (True, 78146222030043465115986573016608167252, 63974171733077146986212040822995490572),
     (False, 16017374802074015625792324645309797693, 32585984363295405260730433265260266123)]
    3620342 32585984363295405260730433265260266123"
  by ((rule chain_double chain_mult, simp only: chain_eval)+, rule chain_nil, simp only: chain_eval)

lemma pc_b128_pow1_3: "chain 255515944373312847190720520512484175977 0 111233916942653821000329437866037388564 3620342 32585984363295405260730433265260266123
    [(True, 14185677089746390774636156262567982233, 112441349675350781455757541332015400731),
     (False, 49480501687764738159717716228970107933, 160957000834133637844600485158259608820),
     (True, 70069512515292719422159611552628870327, 1)]
    7240687 1"
  by ((rule chain_double chain_mult, simp only: chain_eval)+, rule chain_nil, simp only: chain_eval)

lemma pc_b128_pow1: "111233916942653821000329437866037388564 ^ 7240687 mod 255515944373312847190720520512484175977 = (1::nat) mod 255515944373312847190720520512484175977"
proof -
  have N: "255515944373312847190720520512484175977 + 0 = (255515944373312847190720520512484175977::nat)" by (simp only: arith_simps)
  have c0: "111233916942653821000329437866037388564 ^ 1 mod 255515944373312847190720520512484175977 = (111233916942653821000329437866037388564::nat) mod 255515944373312847190720520512484175977" by (simp only: power_one_right)
  note c1 = chain_power [OF pc_b128_pow1_0 N c0]
  note c2 = chain_power [OF pc_b128_pow1_1 N c1]
  note c3 = chain_power [OF pc_b128_pow1_2 N c2]
  note c4 = chain_power [OF pc_b128_pow1_3 N c3]
  show ?thesis by (rule c4)
qed

lemma pc_b128_cert1: "pock_cert 255515944373312847190720520512484175977 7240687"
  by (rule pock_orderI [OF pc_7240687 pc_b128_pow1, of 111233916942653821000329437866037388563 175544394104025381149509263364095140941 76419851612027529596436277344255632966])
     (simp_all only: pock_eval)

lemma pc_b128_pow2_0: "chain 255515944373312847190720520512484175977 0 47418180093458530687350227428022525796 1 47418180093458530687350227428022525796
    [(False, 8799778850945584720834122568972933384, 226077134373014619405442180271731317448),
     (False, 200030063922900700251043135330701576056, 193169834656333911759260447671395625992),
     (True, 35848103455239141244122328060868937153, 111892603663993570191981526031382716151),
     (False, 48998722116595960316754796821409838953, 168102143328142849357832017785754822720),
     (True, 31196087296941265815387768785606024139, 216933060686330365536194309560020976317),
     (False, 184176188825162925133792746383946338753, 34849591507590289877056383828568147808),
     (True, 6467323244126184528933784390557301101, 33762611120138926037903588346561004491),
     (False, 4461224180923505756054650532166996918, 110190758531732632694891942134993530195),
     (True, 20448998771906876085041883393130085139, 160936890185807888357667151954223904417),
     (False, 101366209009788756351153499487738878661, 76155247611898252536097129295377983092),
     (False, 22697690169800891775223147860891336932, 46564689933688382160466959163950597900),
     (False, 8485851456113684945958823565161792136, 200822986481204826095269624264965693128)]
    376 200822986481204826095269624264965693128"
  by ((rule chain_double chain_mult, simp only: chain_eval)+, rule chain_nil, simp only: chain_eval)

lemma pc_b128_pow2_1: "chain 255515944373312847190720520512484175977 0 47418180093458530687350227428022525796 376 200822986481204826095269624264965693128
    [(True, 37268361327617192561916520347716984623, 219814819258658580876189644209064928217),
     (False, 189101916454663840868517061170717037847, 233718686568985082305569203125245597570),
     (False, 213780883950335159677606523971750896614, 88953232199812565143358373529680463022),
     (False, 30967451124041103352808150686852618962, 170283355315260438487148082815374296610),
     (True, 31600872615058403861091435211797028581, 44869306206477777371054864438177752923),
     (False, 7879174211176693672276177478038951205, 162415644386738677466053578445898841644),
     (False, 103237555708146545296847528750329861371, 212141662778310126682332951807410138269),
     (True, 39368860505435842303990644029181008787, 65061117908941050752994123811687977225),
     (False, 16566281505222719911298930732883996755, 109765877698723785047901347895601745990),
     (True, 20370150166559426532819314817730538285, 212167435280043305541719305730538778595),
     (False, 176173039626614086002339873235857627551, 7995792494600217089280636710022631698),
     (False, 250210208108572972047675677941142071, 236404406456797494571729429191032134837)]
    96556 236404406456797494571729429191032134837"
  by ((rule chain_double chain_mult, simp only: chain_eval)+, rule chain_nil, simp only: chain_eval)

lemma pc_b128_pow2_2: "chain 255515944373312847190720520512484175977 0 47418180093458530687350227428022525796 96556 236404406456797494571729429191032134837
    [(True, 43871495955954127194447394286129823163, 1)]
    96557 1"
  by ((rule chain_double chain_mult, simp only: chain_eval)+, rule chain_nil, simp only: chain_eval)

lemma pc_b128_pow2: "47418180093458530687350227428022525796 ^ 96557 mod 255515944373312847190720520512484175977 = (1::nat) mod 255515944373312847190720520512484175977"
proof -
  have N: "255515944373312847190720520512484175977 + 0 = (255515944373312847190720520512484175977::nat)" by (simp only: arith_simps)
  have c0: "47418180093458530687350227428022525796 ^ 1 mod 255515944373312847190720520512484175977 = (47418180093458530687350227428022525796::nat) mod 255515944373312847190720520512484175977" by (simp only: power_one_right)
  note c1 = chain_power [OF pc_b128_pow2_0 N c0]
  note c2 = chain_power [OF pc_b128_pow2_1 N c1]
  note c3 = chain_power [OF pc_b128_pow2_2 N c2]
  show ?thesis by (rule c3)
qed

lemma pc_b128_cert2: "pock_cert 255515944373312847190720520512484175977 96557"
  by (rule pock_orderI [OF pc_96557 pc_b128_pow2, of 47418180093458530687350227428022525795 52333299885033245219942804006191421971 9711917762783113719871713016506270872])
     (simp_all only: pock_eval)

lemma pc_b128: "is_prime 255515944373312847190720520512484175977"
  by (rule pocklington [of _ "[107590001, 7240687, 96557]"])
     (simp_all only: pock_eval list.set ball_simps pc_b128_cert0 pc_b128_cert1 pc_b128_cert2 distinct.simps prod_list.Cons prod_list.Nil insert_iff empty_iff)

lemma pc_b237_pow0_0: "chain 205115282021455665897114700593932402728804164701536103180137503955397371 0 53072002638256206696760401718638995221936714922431175139555783581918754 1 53072002638256206696760401718638995221936714922431175139555783581918754
    [(False, 13731972753451130689084485546961816963797067528361416817920574129386461, 80672951356374566821424995764842854548470195672103182835764878574518485),
     (True, 20873506084122833257277112375718626990343018797577645894463894891965700, 145139100993372588255986080324795675940125291133259206205342389138992990),
     (False, 102700093476998505366523343555175703866106011377460119188076612620508966, 84012143688801361477994631480522027119885238967250186292453686470811714),
     (False, 34410114242241173029478093430055333341740048939440107274578635944033272, 116451079446762753543045876951179864848217067305911825283523970834289884),
     (False, 66113327932814606852753357903589934267059654541176262497073033772765875, 86712968130849226658603214219909141672874726995944549993473717171218831),
     (False, 36658111321394129162618242482485363383190656708454801178965226851840660, 143622941106335339395379036196448201585785849950225158256306389014101701),
     (False, 100565638058485406430073683228832857136571269329109300830048395122169976, 45040355933455026827092035458633050868863666253250587203633889085560305),
     (False, 9890212190041092855239777434091228801505155414763588175983316544653948, 157500159609763471678516367075447353703500167609050006151237825767722317),
     (False, 120938332983430051733939837133696578038868001406095646888584715469213154, 118919799283122185899406570915454893760146898699329176437094865249630355),
     (False, 68946197095440121275790246479682934813809560737672454452751559941291110, 94623599515436378594918524673836123795536266932668056464012693297754215),
     (False, 43651674789990128146018079283862418015719074341789095408099560255470757, 9869647827589383792445039112432926104100000035722792167326941945086378),
     (True, 2553695513968053233258717182199852015351266345660511126081142562310613, 78398859759972593688682313882314797892225887338091108178811873162534589)]
    1537 78398859759972593688682313882314797892225887338091108178811873162534589"
  by ((rule chain_double chain_mult, simp only: chain_eval)+, rule chain_nil, simp only: chain_eval)

lemma pc_b237_pow0_1: "chain 205115282021455665897114700593932402728804164701536103180137503955397371 0 53072002638256206696760401718638995221936714922431175139555783581918754 1537 78398859759972593688682313882314797892225887338091108178811873162534589
    [(False, 29965496237481322014672146795328020511047555729706658480845706830138103, 78037357075271539478782793612814471294830631749685007417440390448271708),
     (True, 20191566321948304662747132146497258085963212003857823880260126724910166, 103802060705592539544867365566070392841040709390975322013957626965238246),
     (False, 52530790005205149311961299495192105741228681278505011474496285757487785, 184120603143749024222412302283040110105185615792442416703943435187543281),
     (True, 47639790850787162715530251539811492215507679524645293978079323231470201, 39744125868726060897918820836381795156223721719407327045305007900350303),
     (False, 7701013427677756812291131774399503648174356013343289498070731250621851, 141622365047279312705910869072773466390073319201584538725095198551638088),
     (False, 97783519998704097673573625314064472155775188709904855443745564472424810, 62508306749116864106412032269561091967698401517613051271192332663121234),
     (True, 16173543911540654041953510490394623720331292314368490312576107015906419, 59976011726011408640389739124869621245764387441213165871729827345597987),
     (False, 17537074503217114642982819660360834024927174850636745995250202903527035, 91448995008208973980469017448320864951141835907597648638414565752027184),
     (False, 40771797233209779959724381829812950310965981316565442255112186526241423, 146723482484135742534244691231893846738498656950987467416995358429470923),
     (True, 37963573326914065399325452249852735865343144520781139376776229077758726, 176558698843146001291664792871782524685731874858063711881773205998680596),
     (False, 151977823543756918751158612854380879668425188851260636308152277242607420, 97349125210071409172732591267772553635682574715568000416500774573822396),
     (False, 46202565141756985146644336383882327164707489565907579647080143314256953, 29713341603308512119598128063487958286815101512869992911788471436510253)]
    393684 29713341603308512119598128063487958286815101512869992911788471436510253"
  by ((rule chain_double chain_mult, simp only: chain_eval)+, rule chain_nil, simp only: chain_eval)

lemma pc_b237_pow0_2: "chain 205115282021455665897114700593932402728804164701536103180137503955397371 0 53072002638256206696760401718638995221936714922431175139555783581918754 393684 29713341603308512119598128063487958286815101512869992911788471436510253
    [(False, 4304324185569714498245969740913069124612501646330000197578669774266858, 133214288258310753455107620027853868534311851122815304384140233388493691),
     (True, 34468173157175843768700407701469350326878911366892587253822425465544468, 180503583572891868182715327918828435547072874736515475221158459792787386),
     (False, 158845032713105370344780451061414041568820322667562312104079283889927668, 85615177053386216183006207660891905470275851248038327665175636013352168),
     (False, 35735799252227019970479944586621599358267047892027981167193685979513476, 35858752024650380887009073046455388899322598606539387928818813560828628),
     (True, 9278176463993310130462745437992607095600706082342747206406718452863210, 64722068942435270935806209930656044402793484364839236971864094156668602),
     (False, 20422399379053424661460247563448710465240469187371474012319857778021855, 299011754196076947911732891693215997858813333953893935154180005091199),
     (False, 435891603328038696103539955497146049319557226522246625955840155396, 68419152084265827458998352505530338157316941142974826054686810737393685),
     (False, 22822192114579895576461737609626326447854079259436194499271060007562589, 76591851723304157978405379934795066862956208428950752191055342029325706),
     (True, 19817552922765294831741733484239411477716369893144888362996981345583415, 32546644570488509630373659608496460677726336238143071326787662143488359),
     (False, 5164335208757897096609360642440575450627320198613850835791675841268139, 21568236619426806713782204172823168467198805800172369028893514861850312),
     (False, 2267938430949885822248776430003246409046323001368802132730528547944443, 58589552868731652114048217331336166526144518807677724083246298998237991),
     (True, 15159596465846550173720101243097586095244517264607308807535927157870581, 200300439841190358040373761113010199458803307382199615989341754872540663)]
    100783269 200300439841190358040373761113010199458803307382199615989341754872540663"
  by ((rule chain_double chain_mult, simp only: chain_eval)+, rule chain_nil, simp only: chain_eval)

lemma pc_b237_pow0_3: "chain 205115282021455665897114700593932402728804164701536103180137503955397371 0 53072002638256206696760401718638995221936714922431175139555783581918754 100783269 200300439841190358040373761113010199458803307382199615989341754872540663
    [(False, 195598620469330115797919040631139716654528019663993015042180840074166276, 143584829068045084373320907499969299046935790497039722219934279481219173),
     (True, 37151470880242583033532235131285379658499337255046217033072030731605187, 20870946771667521776691289826944109602612350512601599577591423283307065),
     (False, 2123666334623542452718989442977220959412366034371533852411613858831624, 17925808008466540869891880444989081062405891941747307583480112377653721),
     (False, 1566604836019924747649491598619203958314777488889109740306722973809477, 73462245301744499496715975667619407560959812754715668547897029804460874),
     (False, 26310577308467785611504569515347799034042543291861122970878528310144899, 145007954105687699636069997409737505919580260870719987087935283663183347),
     (True, 37519693545116655547629584868661179946397248840992375456263262628329801, 157452575635492870788827006691141406465299252972927876953446164963436467),
     (False, 120865268203942787599748022005780369975699784353432352536309175340751182, 75887730442456754531308417729710545591689891047661882132424747497499567),
     (False, 28076638536881784697558557540367842703223679372918777432822607080619717, 169501777260007923663597623898949148139167252738138051405538203492623482),
     (True, 43857282018563927561849418358468115940448603029976472466793964518276921, 160732026421991265036090534546843016730032469408975790919624996063206737),
     (False, 125952508575237720231349911806461541738259595215576109068110599154612270, 164930274100251187365851255334807864058306410294635764905078000319844999),
     (True, 42674440714082151083986650820324131159221705234137860114859956001716979, 115421313092816871935115965281067527434494619022819005186035510068549037),
     (False, 64949229451740853203864394702998145054122741083442374773745279341278686, 194076250873149829636951189101371099928193797161752535091827384090892863)]
    25800517014 194076250873149829636951189101371099928193797161752535091827384090892863"
  by ((rule chain_double chain_mult, simp only: chain_eval)+, rule chain_nil, simp only: chain_eval)

lemma pc_b237_pow0_4: "chain 205115282021455665897114700593932402728804164701536103180137503955397371 0 53072002638256206696760401718638995221936714922431175139555783581918754 25800517014 194076250873149829636951189101371099928193797161752535091827384090892863
    [(False, 183631325670984659439984645320728159473314766687687226519147737239712321, 81225123099468158622621801273824565832645260599729591412687885264628678),
     (True, 21016376278471240009806449588407463477475917038359132850646997930048474, 64109386120062576604344000506213519635704127048786701099901378612265358),
     (False, 20037577640174819244062239023803146069498507775485422009957932589568475, 141003170497370612124600325472032005268284627403419647755908648567388939),
     (False, 96930340315797928694002915676213215576721225899996290651873094732500741, 130746123772612371704372473005365615401967446102846491498764272892593810),
     (False, 83341176303846212331683925564962201534653763541799881160457016166305167, 81935106878503065876327599090595197271657867341933099546265893314800143),
     (True, 21200079124123268231579219742496679526553379268297697508100995457022214, 106320379701232551486183271972303937834761602072693128727708789229382428),
     (False, 55110584781449041322809599978874288648602857354731026095212853677222453, 78257645972320558246868790821612335947632758320664671100554809096804121),
     (True, 20248564380845452768256580241308456285942501488075602011376209326933677, 91851976241621279320559134305939216342901385400735843417815216977222067),
     (False, 41131920822012897147272265467956232994151799138578800230036291634461445, 171786185650327342178581717285869436106123762953046740247880319677891394),
     (True, 44448355130830642660142459846656275055974250177390230892705811514779870, 171152749437748882178872888425598238303720894843072739272604917902081306),
     (False, 142813657526681450206957547073199972709940044025962235409098853630501596, 59749172171584749411391331045711943133407148143217172533864068404961520),
     (True, 15459639047237218030154718236479930114461708533870691192764900527029059, 121284715260550956589954641351436849519624783512395251618756380727142191)]
    3302466177871 121284715260550956589954641351436849519624783512395251618756380727142191"
  by ((rule chain_double chain_mult, simp only: chain_eval)+, rule chain_nil, simp only: chain_eval)

lemma pc_b237_pow0_5: "chain 205115282021455665897114700593932402728804164701536103180137503955397371 0 53072002638256206696760401718638995221936714922431175139555783581918754 3302466177871 121284715260550956589954641351436849519624783512395251618756380727142191
    [(False, 71715681108023020929416071124087904590470240747647787444101288798947792, 36850213336477806653147608279426800493777534329301941171123081889225649),
     (True, 9534709457724757276774515628380451037357703447740025492759538325802088, 181854906225514315327229033690466208360485374000231529247345002349410698),
     (False, 161232291384467682452156407987873767807599809210966811765162400180494895, 88144044593276065206446128719376476770539248869841156503308694714926159),
     (False, 37878077736054499160401313885532457167966319211649383221903671493518069, 69812568812376607826631238250170224953626819894344337301375591158896682),
     (False, 23761246437371768555541114564277026092150705359194315416706163250668476, 110804269114644973532099273900504198765209841218013463719985375587632528),
     (True, 28669752954669462974278150622332001653414818422744423884942413452054910, 86860547449065135747476551973759691777503975527053537216708536941988502),
     (False, 36782996511991203937274706985028253543150009935578379011995793549019510, 180502370077773302670809685125078413381198579083104572032372952418495794),
     (True, 46703600855917825003158277151588954711054135072345339397862660287949957, 124482948103551371346201372371827126675803112804717744447438198101357629),
     (False, 75547780817864833764370997569925615525504513297997224509684369328887296, 573834858061279679437886856333605709436133779395463990424608002802825),
     (False, 1605372554794647914750371544097737213546638846210501006048075088076, 108616631678869661360307848665079032995188811621745666002090069424132429),
     (False, 57516790367814580648324554436293206019448810440986028483262014231607326, 7603017038659884020652195448962922471360207764440689980194316964700095),
     (True, 1967222219416377732033331359572433126597227872529210005744604025807859, 66968806489371164965644214147517979345601284555033949862149804626342941)]
    845431341535129 66968806489371164965644214147517979345601284555033949862149804626342941"
  by ((rule chain_double chain_mult, simp only: chain_eval)+, rule chain_nil, simp only: chain_eval)

lemma pc_b237_pow0_6: "chain 205115282021455665897114700593932402728804164701536103180137503955397371 0 53072002638256206696760401718638995221936714922431175139555783581918754 845431341535129 66968806489371164965644214147517979345601284555033949862149804626342941
    [(False, 21864880073351706163494293951327398221019521492950503037818569259206955, 104076799431743836166567341131922124059080236210207481753011500388614176),
     (False, 52809230366474482850914145001704489158871028898777534617430712344722899, 32507700923980627398507155149745550145900164089246150731482277360060447),
     (False, 5151983845125843388971619771268874992164161795334759892315987645276812, 14887329770161718574306816704211103553431425801740912032992780741778557),
     (False, 1080526938321250697497287372591189484903970122771363052003156513131301, 67213765998597682920045870950129908279343946676299027740243772671792578),
     (True, 17391045324607140150144150874297364592663323251749603767227334135471747, 70719574584239379930556748262318419659581321689926080861811356007630675),
     (False, 24382669979961074016865527872344096208438162406817509374332061874954075, 196961582023123909693362877346742290456226120793248983631433648200218800),
     (False, 189132006210019078614051280322919438248280856883959665182620544717736299, 13422941526926775264269045009791852072984524744826921576217773737570071),
     (False, 878410216243411999485153741617670444792635586017401226123327757528355, 127636629814544392994312321308383211231103831577761562847441894809990336),
     (False, 79424161426991794677868074137691512131065993019583322790217195738822829, 55662370896928620730140841211091232580682710702309324675837391952010337),
     (False, 15105161854996035837738573373819513305898384249189124233499319774546457, 163030077703716821590710691225265271442745998172359589668178347019689022),
     (False, 129579843949899953708401428820318883700343238795022672185996926772409949, 2593204195583604823607497638493299916072778519187069990743597978472405),
     (True, 670971653370781002109166091130461915899417894896906993441515861582330, 26762590781961750391889176930232657883418499176007251641245147758928940)]
    865721693731972161 26762590781961750391889176930232657883418499176007251641245147758928940"
  by ((rule chain_double chain_mult, simp only: chain_eval)+, rule chain_nil, simp only: chain_eval)

lemma pc_b237_pow0_7: "chain 205115282021455665897114700593932402728804164701536103180137503955397371 0 53072002638256206696760401718638995221936714922431175139555783581918754 865721693731972161 26762590781961750391889176930232657883418499176007251641245147758928940
    [(False, 3491871782073378715845213735743387396884009056198638172813788620746157, 107375854205208831745900759297556107785447965927654753922044930513370353),
     (True, 27782676948798778875657785573436477808010933882550718653719607989486191, 130770508750255624909053832832847390903088737083678827134231679636096301),
     (False, 83372266514066345704564999367801571916360399909457921840877950239492686, 147860542106487841495034156034674787975342694992124047948974071567754095),
     (False, 106587572103660012008420656338579901474180550759426143441683435231627357, 132516040056623779737772040549955554800595525942415205489471078459790578),
     (False, 85612835373484447308473415195601593040610189296233968707792174582490386, 129780982582838650388399908682065500890518725988510889481183048200398878),
     (True, 33579831703185421425042827856755833535462665925368330510819059927566285, 160768762786239061006952380071224082399692204712534678827934897271521277),
     (False, 126010089707086647897895647699446972893615259018763201424563171257158797, 185074462962827502869052806889048164715361437326546945877754571280388042),
     (True, 47886594747287494001385066187603606368807324697339789225790555481982993, 81418168127226622782761025854235711763425028575543513230831811658228265),
     (False, 32318011782759007924702799298816676465210041367818802243626990069358268, 177797605870663559312303413082577526113839924895429929329107477940596797),
     (False, 154118154151152469209553449130626575203020606656744825052161211643107957, 26215402107115172052779807015071395231249498693489908349213369139678162),
     (True, 6783033794850201480657689202017224606229108240028350126431799883432439, 108920907151072836685447664832552769799616993711101726065725138315332279),
     (False, 57839493467735109883253827972554809700312639862167227649236347375126174, 6856125627899515917864514226560307799557721154701995471551630746445287)]
    221624753595384873370 6856125627899515917864514226560307799557721154701995471551630746445287"
  by ((rule chain_double chain_mult, simp only: chain_eval)+, rule chain_nil, simp only: chain_eval)

lemma pc_b237_pow0_8: "chain 205115282021455665897114700593932402728804164701536103180137503955397371 0 53072002638256206696760401718638995221936714922431175139555783581918754 221624753595384873370 6856125627899515917864514226560307799557721154701995471551630746445287
    [(False, 229170923601019238695355269221618256686686826187450196496020032339631, 84198327582022761106725315988655776379845205600939649811374175048002268),
     (False, 34562799503491148857199760509657166640359156457433060817216321391004459, 25632486931919172708918404558530443019322223419118198294179417555266535),
     (False, 3203195685079576212351958246263155228214355386636965295880873992215586, 71379423177162502892903563885608670850878530291144181159074311561281819),
     (False, 24839797419733401943494951850768444232772775423488533050945988496770847, 134190492241456227431031697845887548819674135235001565168954548126705524),
     (False, 87790085802191614465461100470160147588243282630436798832785783763592662, 199253709577602050573167029937393822529339687014542256233386693022422974),
     (False, 193559643090281455019682527100958650789460452786097998791897856201289964, 40014869780136741058944113128351368541764010977457265089504383348720032),
     (True, 10353539987911547147694359557636839649606409558708696402013716990035829, 160671365518741123296113961197605460311203729798403293914557313293874569),
     (False, 125857456564141127493520322749965227160100545487546906578405476298838810, 58282138035825728842114561500177778950447400337674542992903616878167251),
     (False, 16560480431056950747884406987417814890961510040478618195529799591057054, 169093129984385572592767631739244250797259090391428483392988006226291967),
     (True, 43751547676996549727052312685853529220575056864451290997308186308156370, 131693729616025505715769977694440141295366226163727152260508322721945848),
     (False, 84553614188360081803702746725361338997968895977684534295519066815685217, 156788789031638103429327834499045966125765083462675978655427770559074597),
     (True, 40567894030761111441301087319498984978624419576212620430344920534923546, 99648307655549866277914959865672895060063691174726386145863516344894572)]
    113471873840837055165451 99648307655549866277914959865672895060063691174726386145863516344894572"
  by ((rule chain_double chain_mult, simp only: chain_eval)+, rule chain_nil, simp only: chain_eval)

lemma pc_b237_pow0_9: "chain 205115282021455665897114700593932402728804164701536103180137503955397371 0 53072002638256206696760401718638995221936714922431175139555783581918754 113471873840837055165451 99648307655549866277914959865672895060063691174726386145863516344894572
    [(False, 48410752825215788400599181699256407728255885455558366968835182895347476, 136210203104713290403274486218464897672611746685330304646910995093177588),
     (True, 35243343096077005662366753277124246762738507648785144114766516632177663, 121305259318852017202984909107421002031250874522714517530507617674561379),
     (False, 71739978578849649772920016973050236504825659012392263903624722431198244, 153721291476981553938884386557430173881961320014127944688564477340965117),
     (False, 115204655745149837901372157429020837527794530112585649954043439279780689, 83172442761571319366237506827904398564053186474169208629174658283655070),
     (False, 33725693993893883222281268137532559809652132969028851808706000622798620, 125373559705045516001152893421009032435012199517451691209300294526276880),
     (True, 32439444910485693507854482298574233649057513020275510676425265996497549, 24661819270255232280653882285276097420889060529017411632251501746063841),
     (False, 2965187789640716478248762707881289686088915247673015832570410174926493, 110993599412174368842679484223769980933856581507871293473678536317223378),
     (True, 28718740713899079202973901722781385156029353376938845194436911844070294, 29456142406899972339276750331975993531843734394637301034137948038633938),
     (False, 4230130085601377267410077228925425950558417620603427315735997677044084, 130533888654181353756213659018255387098064265166566213911058752260684680),
     (False, 83070826899186749264304890147689762583659927449182245919811808668267043, 65718260996566744178022700430425425517272297535596814240964249378558447),
     (True, 17004094900284251055767406982268367534148691740304037623872770880741503, 102939444782202109342416655348461888260050781171224757962432211297626425),
     (False, 51661334970446564442655533848370103137266066914179362208599673683585527, 31635664904517479716248037369759112727573660638736415868658259508831108)]
    29048799703254286122355610 31635664904517479716248037369759112727573660638736415868658259508831108"
  by ((rule chain_double chain_mult, simp only: chain_eval)+, rule chain_nil, simp only: chain_eval)

lemma pc_b237_pow0_10: "chain 205115282021455665897114700593932402728804164701536103180137503955397371 0 53072002638256206696760401718638995221936714922431175139555783581918754 29048799703254286122355610 31635664904517479716248037369759112727573660638736415868658259508831108
    [(True, 8185485131721759944882169851770212160521951996124081686531309331285084, 136838245285178900635398245428141325067849703212132256859682425058685268),
     (False, 91288689892780031859141372730647368343170495622530785844216273973170996, 128618749161036619001350989102733455563820517710303484094627478568380308),
     (False, 80651146383228695427977590515958500892442912753691298427361813554472741, 186043864454053999669437263190511592784521831743794910323821477479610953),
     (False, 168745688570283447807346350846070161303148853345795307550395875881417893, 20004574337546578373106343565551459256207945270124451430811686513008906),
     (False, 1951015012058276568110248849839320082043338282342604366535165827276712, 72930234349235814102336265127230029162062754312873561716769822900992684),
     (True, 18870137571643321956820736181166400255848012878870192057760162698111347, 53449403971281975140365178337185196697453133969986460285383511447326999),
     (False, 13927966540233016760311223610433126663658682823559100936699178792675085, 26295842964836833704066424361464362912663229946870867940934936768144466),
     (True, 6803847248490291802186249753388117248631973612260737140747782284415723, 189689303596656370406805501316594187722259318236306603085163467521451131),
     (False, 175423457210860789658370372385146839260125302034669453948320198014998480, 198057613238482324859483959319960495570990897113271737860249229660183081),
     (False, 191242786861785401857352304444014219688610967124621505531554383348995762, 75347035714677141303436871083465023291536511859604432774611785933710859),
     (False, 27677975697563983898908275189942724897271682242825263888294036438888730, 85325778302755530193373977460456152779629825433298294193828913410989051),
     (True, 22077389293311751429332591451952308692761595809034823878888882662861625, 161401527112146669768671228132690616583317889723339338738780720603774579)]
    7436492724033097247323036441 161401527112146669768671228132690616583317889723339338738780720603774579"
  by ((rule chain_double chain_mult, simp only: chain_eval)+, rule chain_nil, simp only: chain_eval)

lemma pc_b237_pow0_11: "chain 205115282021455665897114700593932402728804164701536103180137503955397371 0 53072002638256206696760401718638995221936714922431175139555783581918754 7436492724033097247323036441 161401527112146669768671228132690616583317889723339338738780720603774579
    [(False, 127003959419308708499457491877775151873884360111734766427843521500562246, 73789533971584017914160160637894769966816825585943645015646619396371975),
     (True, 19092474744061055525232009675336051928131811920853450249662406602816047, 5774160383950658740070965028752203652084093277754101213056303312106713),
     (False, 162547265181819358271968504120153432651241169873499491692605033810871, 23716030910072953840872176355137397774206564740115854858295293035044228),
     (False, 2742117099147697005141637866838739091649495532016540426994215125862431, 158256593855669927372725988731094667291234006395564292274358512231047083),
     (False, 122102796300563640142487240367517877813830953465827933745428049188450191, 9485013662936006525067582733907876684197372555295675530106677516961028),
     (True, 2454174380291079236046859558747390112840592346810124393478399949707066, 9278100947434813130562918859247616870266451941432272002841838203795626),
     (False, 419681831321501553892768368144525091736646368154868367360239991239514, 196982523739997153293644780660809533775789119978357490925480996469814182),
     (False, 189172226840317660917612928200166059490854955470673736809381270054715611, 24662850891650126228842989995545514205794043339348700317720255706270443),
     (True, 6381323101277550848245823035988315816800396475654800461896227112521444, 116084884328282650296558919834267112415525848335028003989539914398864298),
     (False, 65698178296150379970105977808158390410405419021356088579048634857926250, 162191046802333133482248642771558896127385373473849934582718024457144054),
     (True, 41965686705364830905074872016206895945371981172874796811552477063720354, 123606965843536144497407166383058543493073262577589883650154788611399382),
     (False, 74488267546281196678837544127927688647787098071103183715088508551393339, 106584491659510327743532414377527896840717505777852393188286504842470155)]
    1903742137352472895314697329046 106584491659510327743532414377527896840717505777852393188286504842470155"
  by ((rule chain_double chain_mult, simp only: chain_eval)+, rule chain_nil, simp only: chain_eval)

lemma pc_b237_pow0_12: "chain 205115282021455665897114700593932402728804164701536103180137503955397371 0 53072002638256206696760401718638995221936714922431175139555783581918754 1903742137352472895314697329046 106584491659510327743532414377527896840717505777852393188286504842470155
    [(True, 27577917972777017063823787585935721893467435860435993267819486773229101, 198225379734599464196729281645975598753415224305099252361314404603693399),
     (False, 191566911951572483453712772801220125248706976127198393324691647794342430, 175556652254835775392409813341664878166608293872383611125759115700421671),
     (True, 45423934383677326148632034304606294618639798482098191280151729428416731, 40644461136430600918251917116400382206157051394257659696329238573103733),
     (False, 8053871972825585510703856400475571356053319027010870577735544760981580, 130326348403172066029530158690298344914325814511320025470049431867109109),
     (True, 33720940917332235718320255533701296731017092748488375655783026853075718, 167538420292897545530063262927518046183834339835434601851140275050192808),
     (False, 136845592379135703677989307675844099434335248394073284405311308496704902, 202920601020754158045641120056406293628551478619111348462342186441312222),
     (True, 52504145798378340113032109550403010643215775791784097207442684677168048, 171774287009760914139922562017206387873902010233538601892391447566809580),
     (False, 143852790425558148924582186922145118358718014014534349868607816759368558, 55867963167058062551351830376361778814441539612555230403816486046515382),
     (True, 14455406049589009726321438298027335575854870632607436062360568749140420, 128729268253580342469326396362645614197434363529392556869235947357438208),
     (False, 80789809232102211867659725015776748710255450768846334376574706655956766, 30218559586751886595263957444227332520688815996291554950095430812189078),
     (False, 4451942022547861502241702609107282974013663102372353145095024040544873, 134526838100976324080487220720941037367332944387747576571887690350761201),
     (False, 88230725624594106167854117890616686866714164758439086310763747324954135, 158164294981848263687896911341902484337820354147303832421270431852383316)]
    243678993581116530600281258118136 158164294981848263687896911341902484337820354147303832421270431852383316"
  by ((rule chain_double chain_mult, simp only: chain_eval)+, rule chain_nil, simp only: chain_eval)

lemma pc_b237_pow0_13: "chain 205115282021455665897114700593932402728804164701536103180137503955397371 0 53072002638256206696760401718638995221936714922431175139555783581918754 243678993581116530600281258118136 158164294981848263687896911341902484337820354147303832421270431852383316
    [(True, 40923795622778300243852066449911282274703986379231401524351836884144730, 15498516314325289036163791523406288730529052343222827490155342551603434),
     (False, 1171068316208058505013530660803025049650004099851762084278946554372232, 54661416244613089516778672205959927062187542611150990411841769392390284),
     (True, 14143221307330354497628565968596020644527472158703110981467572765946362, 54693452953854903173229033253384922986364938435438053790237024565171834),
     (False, 14583866041256901940192789019202032808905085102447944083433011970518213, 81554323135280390124632163037555851918658421084065292819896464739105533),
     (False, 32426192512355099553336518091318820369440392568877294500142178105039721, 107368749290108548541425908568342426134533936566205608460822238617240598),
     (False, 56202776363178619495653684207174502834810968275859541951500920805818496, 173286600914895159641659755230249464285985572218902030908008923237823588),
     (False, 146396922553518467336236603112535603114765493830322992000819326327728411, 77301092642345303177647016372656566486305220737100786225110965737786263),
     (False, 29132197585723527259006677661552624600290119143647249382324354603477819, 177151864923237890635233785688096027835123505236193748111695747142091320),
     (True, 45836683400287219596652114071149567202396139888024447335025381484903022, 194500437154228963693910941388173952389851385902106074154945912479860118),
     (False, 184434917185882798990715271744467338569898429278916529428204366424860511, 93956366247077308640515914707547110548266006539379307954264530595857343),
     (True, 24310487586313805885742202290255005014424291736176345892640192106721727, 107047727372628087789229012904048849079421449403658127484076181195930905),
     (False, 55867197327821926241286142708092849796967559850594431600996671783260619, 71150858183799817817705003772710596154949480676859176196565095333686376)]
    62381822356765831833672002078243206 71150858183799817817705003772710596154949480676859176196565095333686376"
  by ((rule chain_double chain_mult, simp only: chain_eval)+, rule chain_nil, simp only: chain_eval)

lemma pc_b237_pow0_14: "chain 205115282021455665897114700593932402728804164701536103180137503955397371 0 53072002638256206696760401718638995221936714922431175139555783581918754 62381822356765831833672002078243206 71150858183799817817705003772710596154949480676859176196565095333686376
    [(True, 18409737665718266500605835433625905439805515836683314569440095918284438, 140624456076070821595683241400539442088691510964631238548187301253283006),
     (False, 96410357394151759971002274759179740086604338499355993502483920815520783, 108399614598328115124909603053231930742012189339588005549620312054334543),
     (False, 57287181770478394562124311221718413781496954688901986473054552267155206, 181023768366610066212114523138880781957323012847993083657114283101655423),
     (False, 159761888001208498873573299296090368504557720404855822105851370955790909, 92899627838499122882684129915146051386411910853316159540478624341008690),
     (False, 42075562422642316843873253582186837264902486041898181830205393974034032, 14694516357880516878728527554079635471300172025863376048458594218186228),
     (False, 1052719275053485764921975887111709791428604596936214757851772605702452, 124195540370978449764200411367802830545684096309891703306256795839814292),
     (False, 75199332278059545959312464957594200229760729543393577960859758596539287, 145631399106717692559232241615432564430406669164077357767107679549446787),
     (True, 37681005147125960637249741250261576081247013672023659564603020364383165, 191190339445135844928621956243491598545267368343243522850736443802684183),
     (False, 178210738551029256408239261206614341286635592314309407846035101570084808, 199808832577492149575403344206203189561070593699584285414732613828137721),
     (True, 51698999631779360054478117296070799386090584030194535233207954510611223, 53308489513912642507665144439994897104783858671659324617301892687424901),
     (False, 13854623732802483172982486274789874961654812378840155540396750466179105, 97979576751257928271130484409765485196749677815785351845173022182726846),
     (False, 46802936211020371262870633386836892416089808257557969215269068222655244, 181526019503763903570263114568535593145555007548543080780526129492144192)]
    31939493046664105898840065064060521996 181526019503763903570263114568535593145555007548543080780526129492144192"
  by ((rule chain_double chain_mult, simp only: chain_eval)+, rule chain_nil, simp only: chain_eval)

lemma pc_b237_pow0_15: "chain 205115282021455665897114700593932402728804164701536103180137503955397371 0 53072002638256206696760401718638995221936714922431175139555783581918754 31939493046664105898840065064060521996 181526019503763903570263114568535593145555007548543080780526129492144192
    [(True, 46968462276780361439531699811742170957450467269329482897174325184824213, 74596901023147320417458545322223417641516776817030287967933255799632745),
     (False, 27129610175389827306414636173725409537296261842209172603014847834984499, 163711522654099186577461473056576669098867526174980833995207247705882896),
     (False, 130665362354230236321271910263673504391725256660341319903789259723185372, 57228964868449631481592489402886308039603047068394660967591678710889804),
     (False, 15967383744579554511577980441230891143974186971253352003847669958348926, 85577097095797457395016794171765585787531112996296967861212516030084870),
     (True, 22142416099290885312806694627091670971572972420609257867582938826804849, 1)]
    255515944373312847190720520512484175977 1"
  by ((rule chain_double chain_mult, simp only: chain_eval)+, rule chain_nil, simp only: chain_eval)

lemma pc_b237_pow0: "53072002638256206696760401718638995221936714922431175139555783581918754 ^ 255515944373312847190720520512484175977 mod 205115282021455665897114700593932402728804164701536103180137503955397371 = (1::nat) mod 205115282021455665897114700593932402728804164701536103180137503955397371"
proof -
  have N: "205115282021455665897114700593932402728804164701536103180137503955397371 + 0 = (205115282021455665897114700593932402728804164701536103180137503955397371::nat)" by (simp only: arith_simps)
  have c0: "53072002638256206696760401718638995221936714922431175139555783581918754 ^ 1 mod 205115282021455665897114700593932402728804164701536103180137503955397371 = (53072002638256206696760401718638995221936714922431175139555783581918754::nat) mod 205115282021455665897114700593932402728804164701536103180137503955397371" by (simp only: power_one_right)
  note c1 = chain_power [OF pc_b237_pow0_0 N c0]
  note c2 = chain_power [OF pc_b237_pow0_1 N c1]
  note c3 = chain_power [OF pc_b237_pow0_2 N c2]
  note c4 = chain_power [OF pc_b237_pow0_3 N c3]
  note c5 = chain_power [OF pc_b237_pow0_4 N c4]
  note c6 = chain_power [OF pc_b237_pow0_5 N c5]
  note c7 = chain_power [OF pc_b237_pow0_6 N c6]
  note c8 = chain_power [OF pc_b237_pow0_7 N c7]
  note c9 = chain_power [OF pc_b237_pow0_8 N c8]
  note c10 = chain_power [OF pc_b237_pow0_9 N c9]
  note c11 = chain_power [OF pc_b237_pow0_10 N c10]
  note c12 = chain_power [OF pc_b237_pow0_11 N c11]
  note c13 = chain_power [OF pc_b237_pow0_12 N c12]
  note c14 = chain_power [OF pc_b237_pow0_13 N c13]
  note c15 = chain_power [OF pc_b237_pow0_14 N c14]
  note c16 = chain_power [OF pc_b237_pow0_15 N c15]
  show ?thesis by (rule c16)
qed

lemma pc_b237_cert0: "pock_cert 205115282021455665897114700593932402728804164701536103180137503955397371 255515944373312847190720520512484175977"
  by (rule pock_orderI [OF pc_b128 pc_b237_pow0, of 53072002638256206696760401718638995221936714922431175139555783581918753 81475874003799270243122483189086420723726815346591292526890606927317739 21081256147611433302736580915228063873871010806801427666805511047392446])
     (simp_all only: pock_eval)

lemma pc_b237: "is_prime 205115282021455665897114700593932402728804164701536103180137503955397371"
  by (rule pocklington [of _ "[255515944373312847190720520512484175977]"])
     (simp_all only: pock_eval list.set ball_simps pc_b237_cert0 distinct.simps prod_list.Cons prod_list.Nil insert_iff empty_iff)

lemma pc_b256_pow_0: "chain 115792089237316195423570985008687907853269984665640564039457584007913129639936 4294968273 7 1 7
    [(False, 0, 49),
     (False, 0, 2401),
     (True, 0, 16807),
     (False, 0, 282475249),
     (False, 0, 79792266297612001),
     (True, 0, 558545864083284007),
     (False, 0, 311973482284542371301330321821976049),
     (False, 0, 97327453648743672783790144527749033795901408624680013074608083129650401),
     (True, 0, 681292175541205709486531011694243236571309860372760091522256581907552807),
     (False, 4008555606094764294196827160176316905890939207162045902078068830067, 87148117373801171930577940919474928790314434041307146863971672161775006287828),
     (False, 65589924249766962844401629219710146759796441441570562685625339364176552705483, 31416272023241395634231333427579640550715729341032598560527785957080136129355),
     (True, 1, 104121814925373574016048348984369576001740120721587625884236917691652118233822)]
    341 104121814925373574016048348984369576001740120721587625884236917691652118233822"
  by ((rule chain_double chain_mult, simp only: chain_eval)+, rule chain_nil, simp only: chain_eval)

lemma pc_b256_pow_1: "chain 115792089237316195423570985008687907853269984665640564039457584007913129639936 4294968273 7 341 104121814925373574016048348984369576001740120721587625884236917691652118233822
    [(False, 93627746202371101966337988111260625612859961873734848120172204736170419186899, 6290206582281333064583891106380535924855300648875041265288094855696568584647),
     (False, 341704680418049580209232345630502330830618463297085180969282344142715405553, 80008044964552276214929176270142246677390206156477534149813657797112162169970),
     (True, 4, 96887957802601151810220293856244095328651504432780482890865268548149796503138),
     (False, 81070100980036498749580599579596376784424320024044806999440173883419341529896, 63715549478547472247427046846895688580574588172528502549461527261681585309996),
     (False, 35060005153140678100623096153953521171847375145621293029161829226752510890050, 91917973772744407817554628161189333951744429588144691874827295844919773866866),
     (True, 5, 64465370222629877605027472084885798395861083788810022926503150874894243709747),
     (False, 35890050739333708888109664611266737169766278143250726918968327154399824424284, 45616462631252662483532343888479175542028943577518925198410187721079638939717),
     (False, 17970672061402563147651335302394087038851332035513150787077291321705449700639, 8359093992468886045549424575449269829408920592851698867171826282240753747432),
     (True, 0, 58513657947282202318845972028144888805862444149961892070202783975685276232024),
     (False, 29568929871835680370118069413853435532547756109645896978443965617038123445125, 106264381190160609101552613149668150170531843904815863574855309298169310143701),
     (False, 97520640521344532318479477006907113620150536519102395931596219494228403399946, 37845492052400274551292463100337247093947700181415284700163597415417488047203),
     (True, 2, 33334265892169531011905271684984913951093931938625864822230013892104746987095)]
    87381 33334265892169531011905271684984913951093931938625864822230013892104746987095"
  by ((rule chain_double chain_mult, simp only: chain_eval)+, rule chain_nil, simp only: chain_eval)

lemma pc_b256_pow_2: "chain 115792089237316195423570985008687907853269984665640564039457584007913129639936 4294968273 7 87381 33334265892169531011905271684984913951093931938625864822230013892104746987095
    [(False, 9596279762190872434612183629305579655658215141956430522337976028546375029996, 8946746289730628007270778589115420543442579651984516130737039258203660335677),
     (False, 691275800445726610880549093416420249082655085048337646277098020564510500346, 54397788026763906516213069318924001872431206548413441372179858745795561152931),
     (True, 3, 33408248475398759342778530206404289547208491841972397486886259196842424055528),
     (False, 9638923293857414766546166190500519397138962496784044627944139995338746033727, 59741106052438371505500988119956228571605064461268211022534154194821258180783),
     (False, 30822483434546328304969393734369359063821832820481633239724176061856659755050, 89085328337056607510865276907938881626272593660347623208445075306229954344939),
     (True, 5, 44636852172815275458202013312132632117558232294230542261827607104065507056258),
     (False, 17207121704266300271621139883715048060179621749845978323275652828036718889144, 36339241279265304517380107137055602084857002579201191268958955552571441836092),
     (False, 11404409968337373210734336613493887445952225967051419170914275254471963071875, 17303997128612180089540691916104073686665004194412771242316703612619699054339),
     (True, 1, 5335890662969065203213858404040607953385044695248834656759341280429058708710),
     (False, 245886652142596420299619734191394031537637825338978545917394579292003794877, 67045383516225953069918313113051530471537395933067066524800453062504333393649),
     (False, 38820298350651029647890734971681966699840983552666229179131509756880815879428, 18972802207956621852941256921135751280242003885738552214588615626014217286437),
     (True, 1, 17017526218380157547017813439262351108424042534529301462662725374190686333396)]
    22369621 17017526218380157547017813439262351108424042534529301462662725374190686333396"
  by ((rule chain_double chain_mult, simp only: chain_eval)+, rule chain_nil, simp only: chain_eval)

lemma pc_b256_pow_3: "chain 115792089237316195423570985008687907853269984665640564039457584007913129639936 4294968273 7 22369621 17017526218380157547017813439262351108424042534529301462662725374190686333396
    [(False, 2501001583965964073035331695619681957820758362786814087515139760271404129089, 109265180444758137226230957020464527071382209745848938229758874900426682587809),
     (False, 103106177082242556043363745301136297817405757972889315734420528535310433742808, 112110907649158851823668750893893196265567045154036611604777794860360127770777),
     (True, 6, 90023818120214790224255346205124926739349408084412896996699059975067886365461),
     (False, 69989995709739318262211245345490952328380861569772721292108213892654214008009, 18630464392908229227090407106585547139665925939739831433567577940309686393554),
     (False, 2997564045882710513216636692967478375975049892597818600749342686643569150642, 113947842661602125883117004354701127489963984651889834309591412844325117093270),
     (True, 6, 102882363207317708640393120430780445310127984569385455930394385862822811622912),
     (False, 91411949890885070671485989536964930848398146164959973631526721693803483889470, 23353503594186287250092159609746168004389456068718269296258898465101650271134),
     (False, 4710046547358701766560481490346010011347419676701959899605290617332900121380, 41444211775073469201374617897541000271874832647423140871897967999650567191016),
     (True, 2, 58525303950881893562480355265411186196583859200680858024370607981736300993786),
     (False, 29580701281960050775975652192188832903343509999537128048080622898220011371059, 3126471454098042949711442365070970076405764838111181588740610616718485012679),
     (False, 84417025529752760185471648326552196790955686440859304375255385467449081936, 47638030832202622994039164539960330095287136646082594596316928264867446377473),
     (True, 2, 101882037350785970111132181762346494960469987191297034095303329838254455298985)]
    5726623061 101882037350785970111132181762346494960469987191297034095303329838254455298985"
  by ((rule chain_double chain_mult, simp only: chain_eval)+, rule chain_nil, simp only: chain_eval)

lemma pc_b256_pow_4: "chain 115792089237316195423570985008687907853269984665640564039457584007913129639936 4294968273 7 5726623061 101882037350785970111132181762346494960469987191297034095303329838254455298985
    [(False, 89642993775448798283352142793538798942826018519232919873839499836898022653111, 87970157137084166613430101996368831136032452938770851709811861910473911536632),
     (False, 66833136854994425141921018184656477366043739335322952525884800714799266414673, 37266581773680076708593476418468348474087320395988521872399187149304317392225),
     (True, 2, 29281893941128146113012364911902623612071273440638525027879142029312552402249),
     (False, 7404904069242360521471024828756458957441695824500231527277808199189094705203, 38429792057460019363190176914530812591771258756951974985126372919240417495412),
     (False, 12754316182626357112343186852390796269257318580575890292826131243472019744795, 71544708204080194168327191042981192970109210519497892826715196902962162805659),
     (True, 4, 37644600479296577484006397266116719377684534973922993629176042289099800952961),
     (False, 12238452165255203276471973390060745275931974379453762161719061214061108022627, 56432906178872135595847772930535997378872438271104099918897170718739014948820),
     (False, 27503371955457071565625623636392606814699780741944955739406859354671512253567, 115250416837652262107768423398835305407657072471758227734596592940181573820479),
     (True, 6, 112000382439668662212953053739719690733979599308464209905430646533818008713375),
     (False, 108332838186578561839330629247046860990958498754576428392220717020543217912575, 20633019071260931739967835216741822645615008671823084849531947405862540028400),
     (False, 3676602424216563039767651936861845953489190502693010289193298882499667500455, 20357403463510228232434846961305632343899126977643672788704551924580978453335),
     (True, 1, 26709735007255402203472943720451518554023904177865145481474279464158014501682)]
    1466015503701 26709735007255402203472943720451518554023904177865145481474279464158014501682"
  by ((rule chain_double chain_mult, simp only: chain_eval)+, rule chain_nil, simp only: chain_eval)

lemma pc_b256_pow_5: "chain 115792089237316195423570985008687907853269984665640564039457584007913129639936 4294968273 7 1466015503701 26709735007255402203472943720451518554023904177865145481474279464158014501682
    [(False, 6161128526627316991786643936289957037331911613961702023485751554365516362093, 107727322279893299870510498874501721220064377783066138544746895754564906358465),
     (False, 100224255750417943457935215371597381144214178678196908021840627908270542472142, 58516933153498385508351823158686452686411588807389523398104926216116182844079),
     (True, 3, 62242264362540112287749807084741445245071167654804971668361731489086775893564),
     (False, 33457376047826148970479792545137502041539460788688520113938001473642393287286, 111873817380072923692494794364622016754743982547929724031527842365743614245478),
     (False, 108088135360774443872989802307367093740581309989294403276330177260966133339250, 54392696634968017212269639515177076003429777602721467181508462727863702775734),
     (True, 3, 33372608732827534215174521580175808464198489222128578152186487071319415415149),
     (False, 9618368758782838082834233433723844770844938387865697994390776762514846804553, 114155628388819053091842418049705075753529166283431698743579778943137530210562),
     (False, 112542295235195568411038759670031898236350208934833128583722909798407707867425, 63632601140632233926847630898496126008426339793286288327731178874606248078069),
     (True, 3, 98051940272477051217220461263409158499174424556082326175745500098517232531494),
     (False, 83029704831502896291516438306363341490501768764932531669540807062892192444162, 38794470726003736958038452252290654557410798609867798086230836169510970690630),
     (False, 12997528318417650650187794097748853327421862927067118586813631385208294392268, 62982302299307836056078480934391543741575716849058293563604472885767263895216),
     (True, 3, 93499848383206266121836411514677082631220063946486362826858558176644343251523)]
    375299968947541 93499848383206266121836411514677082631220063946486362826858558176644343251523"
  by ((rule chain_double chain_mult, simp only: chain_eval)+, rule chain_nil, simp only: chain_eval)

lemma pc_b256_pow_6: "chain 115792089237316195423570985008687907853269984665640564039457584007913129639936 4294968273 7 375299968947541 93499848383206266121836411514677082631220063946486362826858558176644343251523
    [(False, 75499299695382064106931407425191854892776894155426744364686128105099951368485, 87260780461196222333384727897123749802793553847534915841399952709899541078974),
     (False, 65759620167931002002033012647166458157137321794260887219866831353876869509559, 99243190329663120980886017144060144199714353673816071176032148130358499966059),
     (True, 5, 115741886121060869748347194964981470131650552388509678034937116872965326404098),
     (False, 115691704770997849147394070939597361447748914197875863129252679875788367481674, 7880995578728594602473907165513419281459664616281629116649978160799231589742),
     (False, 536393217542217915482178575161061197910442889933440975864987450292076290842, 107733704042605637429922192493223578511823457635282015856536750349588635816318),
     (True, 6, 59383392874342289468029437400437602463144295453130726759011748399667442684248),
     (False, 30454475538835354557708626990535362500707838573977682318962149509201948031091, 104230609484671125887923010162470258586316976466603874896183377026597126651171),
     (False, 93823507504732699179611815328999662040281603279743750719615333177068922051275, 27521198765495412691343707698337118431664131748196832902856660313838040150916),
     (True, 1, 76856302121151693415834968879671921168378937571737266280539038188957446384749),
     (False, 51012907830271177548771327775324914048354997470223176731690365390793189699866, 31607132951957223821076381449443975973195041457945554169368282216740514695843),
     (False, 8627626118699911904415798154096712032303225262847924605144413764442025187193, 77382518045359509450177828004992225017766715979721320630630263183124533868690),
     (True, 4, 78509269368251784456960856000193943711287073195486988256581506250236398394178)]
    96076792050570581 78509269368251784456960856000193943711287073195486988256581506250236398394178"
  by ((rule chain_double chain_mult, simp only: chain_eval)+, rule chain_nil, simp only: chain_eval)

lemma pc_b256_pow_7: "chain 115792089237316195423570985008687907853269984665640564039457584007913129639936 4294968273 7 96076792050570581 78509269368251784456960856000193943711287073195486988256581506250236398394178
    [(False, 53230798557440200892500307983019215388500036629628317797810447301402194461821, 87857953242140456237243911609150062306008050857365325667535925806171540217361),
     (False, 66662757350184663779769520078217663736380897729507342238681493725498211209539, 47298576553775431964982075316919608912783374133006451442910603616055967210964),
     (True, 2, 99505857401795632907732557201061446682943649599764032021459057296574101133422),
     (False, 85510294550204625567459213762257210614365411994864077728593715033827809955819, 2761165657123386019536889101935211447971311113845005878633619212301644173087),
     (False, 65842458118638298945988858079413552107606701420877838490222936321090785975, 80115764298389920799786945910260033793147192938248821925272098606736284783144),
     (True, 4, 97641993139464663904224681337068605138950411905179497319074354215518654795356),
     (False, 82336875403529428327245271226113618901162007503626681702629117490900082408499, 2515794628051404484441580330863594643174472080228955448554786264943333502899),
     (False, 54660233287271862164339465883156942275575727343206736240336845949004844453, 51200363148729867647227532113470449853295354267090163453816563742658999568862),
     (True, 3, 11026274329160487259879769768229425413257525872709452058343194174886492967045),
     (False, 1049974366838892001663729942359944311594334648275105904579361105398719498097, 99694589728260684704920004031300956481483404073924784426893665847624307706714),
     (False, 85834976176275659410274590321036857283842716469262535465354964048283590374814, 105985295049700744519030663560070601345747398676139900367140769475625045982114),
     (True, 6, 47144529924008039091788734868366762300611882739135918333239882281922313844820)]
    24595658764946068821 47144529924008039091788734868366762300611882739135918333239882281922313844820"
  by ((rule chain_double chain_mult, simp only: chain_eval)+, rule chain_nil, simp only: chain_eval)

lemma pc_b256_pow_8: "chain 115792089237316195423570985008687907853269984665640564039457584007913129639936 4294968273 7 24595658764946068821 47144529924008039091788734868366762300611882739135918333239882281922313844820
    [(False, 19194806108044661727525364107809922710505316241540705786390995561412485052800, 111797722323278646824335603533305635191266854938786215473429322116267822026000),
     (False, 107941145193923695165654599424334178552498245878995137917609327968534396326739, 114209435806022122277576604291809812996361204158786232373828925503992343503043),
     (True, 6, 104713515218257683401610319990541243854908521117660242380056974480493396491323),
     (False, 94694899639401532419682895868972580332463305800088464815533185774718436240947, 66873744855872365428699150311793129121923865169106542091186949786980513105468),
     (False, 38621789972912047561421493552058507069744237283830894158079118143924029703446, 64090591831811740907887627886365171817959030172945383818658107621296621848326),
     (True, 3, 101257875110733600084500440178492479165903257213695994612234001325349848923293),
     (False, 88547994422374139349616409207990505967120285366854076808694264698470778481368, 7216468390216749462989334423941514590146588808431606703519054689179354888865),
     (False, 449749342722927474667238573021888055482550851437976609248218398056258012480, 13470872022207549147110578896401833221173098529801460781442956595102744633985),
     (True, 0, 94296104155452844029774052274812832548211689708610225470100696165719212437895),
     (False, 76790697166473393740648675636079747099155679316780116580313423093713343117544, 37197434818240401096632559295813222360871770928658765135697485689707177075353),
     (False, 11949427341460699160566477939220364012048723770087784511271555256462868086768, 95355893972772711350256136530731337902265891274859730158766066573746365219425),
     (True, 5, 88530811622828002333938030671679826049511315595815290914074545976680383177660)]
    6296488643826193618261 88530811622828002333938030671679826049511315595815290914074545976680383177660"
  by ((rule chain_double chain_mult, simp only: chain_eval)+, rule chain_nil, simp only: chain_eval)

lemma pc_b256_pow_9: "chain 115792089237316195423570985008687907853269984665640564039457584007913129639936 4294968273 7 6296488643826193618261 88530811622828002333938030671679826049511315595815290914074545976680383177660
    [(False, 67687738067608929942954979947779313898237735394747870960061279531777656115178, 52311248902545033863250739187017611852338642793565623192202232359197382274586),
     (False, 23632588199834818509652898130822146663416907939372757989357013212298052141655, 66932605641706980071795799056579050411671335968194170987905175628267211049131),
     (True, 4, 5359882542684078808286653361301721468619413114796940757505893366235138657265),
     (False, 248102794073356209376246498357819850586995186475255834881496027884629571794, 79067011711656134237514482838270134380594726362498394711353888236606861406803),
     (False, 53989805194709917824664300327860922682960111362916485218141773868977973157793, 647139645210157019426078445111827769866197592808816328911273289887809961050),
     (True, 0, 4529977516471099135982549115782794389063383149661714302378913029214669727350),
     (False, 177220192112402821400761681595314202276371262854207623674819766570577862242, 72283782183776327376101422325261305561811906974081203715606579499638822974054),
     (False, 45123507151538486899841857659159270403005600106014306153819339026361929831066, 107934416833784866046456005774466870736905880041597184361485469189284389912158),
     (True, 6, 60788382412596889783766130369140648038721252297336906293652780277537721355128),
     (False, 31912606989642793211731872730453350289829046983867975614348117202400912411488, 31555166125647732967298197218793456950868266925661949432699457470374662631840),
     (False, 8599279240712877419544722388070211375374827314889259029811836193147769926808, 25484989759555961829130946651893674750429919207700844035573085770061160143896),
     (True, 1, 62602839079575537380345641554567815399739449788265344209554016382519286335609)]
    1611901092819505566274901 62602839079575537380345641554567815399739449788265344209554016382519286335609"
  by ((rule chain_double chain_mult, simp only: chain_eval)+, rule chain_nil, simp only: chain_eval)

lemma pc_b256_pow_10: "chain 115792089237316195423570985008687907853269984665640564039457584007913129639936 4294968273 7 1611901092819505566274901 62602839079575537380345641554567815399739449788265344209554016382519286335609
    [(False, 33846141706546053735054615246654538870218318941984699541051244885978978563053, 36349159474008570932271003179876595239318733902933559061923443582834183533742),
     (False, 11410636107955339682498813450010391554141564936672871448133114465872690391842, 84989609696450220196610009302675934370887873157359246991658193732111568749318),
     (True, 5, 15966821688570564258415140075292001329865188773311908744319436085236807886911),
     (False, 2201699585125443206124571190399319567223394684767304293594098790654625181807, 105556572277707243496999695154759207193206802556623582361690931584356439086880),
     (False, 96225830489878158861225250227901384677555478301762361872836525112744054761793, 29529947112069409419618237528740326549205887727296784711804347555415355962641),
     (True, 1, 90917540547169670513756677692494377991171229425436928943172848879998657066824),
     (False, 71386562187379258423779156672238813801673995222092828200503270585184627557571, 30906294687459664771907444567801968235505584981712969564350692192533786636403),
     (False, 8249260010763036643640909200969958542220447265827029358962582773911896574080, 20219785702963776713843491569479014978631088238552861942101280400817168483369),
     (True, 1, 25746410683430241573333455977665196997147633004229469555251378797811344711920),
     (False, 5724723229764697847608363381095114546934169284716283960862095734271617699892, 43972388463218012299204134280299126233125454068948759772279166055342699526004),
     (False, 16698644612908656800585813979958696311881378472410540409678920425514086245918, 55971510663734804898440730174249672914286249650332282416111498847016468186382),
     (True, 3, 44424306934195048018372156193683986840193793555404284794407739905388773289685)]
    412646679761793424966374741 44424306934195048018372156193683986840193793555404284794407739905388773289685"
  by ((rule chain_double chain_mult, simp only: chain_eval)+, rule chain_nil, simp only: chain_eval)

lemma pc_b256_pow_11: "chain 115792089237316195423570985008687907853269984665640564039457584007913129639936 4294968273 7 412646679761793424966374741 44424306934195048018372156193683986840193793555404284794407739905388773289685
    [(False, 17043643132984997636142767734644401454900818740077259411630058005745797279192, 550063334528049305474300730952148730298745814741443152544110601876865462929),
     (False, 2613042686983558352554374687895959128918641616381287524667874888400628238, 47585019448978457250804751998498302389171651385260117585990923337803817039247),
     (True, 2, 101510957668216809908491293972112301017661590365539695023021295348809049931403),
     (False, 88991178884418063845460559923110248104424000278050621337069315781333270885182, 14993685592828940183755108071085350984882568881645395913663784404978663550743),
     (False, 1941502300695656229477660630182917629031788521418905297322879121998030387203, 49583654241455608589803025722854777187228032101760623828686439989561273923460),
     (True, 2, 115501401215556869281479210042607624604056255381043238721889911911111248120894),
     (False, 115211442945946855934538543678375143294045380187249970061384419643024640262365, 48883022263437020073640603710263996923448302710736285166638683650261088496241),
     (False, 20636555410191196641708475749287752372978568844032234581356636938600666396115, 82820984932468960330652937952692845754871754515260925496008454578213147340836),
     (True, 5, 786448340701745196715640625410381017752358278623658274771262007947858027537),
     (False, 5341478823522294845881409115259262600722030016197691062289558161202235621, 84640006329275225471412150425949081727759455521127057108645724701379152378646),
     (False, 61868912795391878869466099959008643121721259351039398817076010011088848065529, 97650737668407877503682743162096287020018640909430346737018180465978333388589),
     (True, 5, 104594717492274165407924277091234469873780563037809606961839343222304160361808)]
    105637550019019116791391933781 104594717492274165407924277091234469873780563037809606961839343222304160361808"
  by ((rule chain_double chain_mult, simp only: chain_eval)+, rule chain_nil, simp only: chain_eval)

lemma pc_b256_pow_12: "chain 115792089237316195423570985008687907853269984665640564039457584007913129639936 4294968273 7 105637550019019116791391933781 104594717492274165407924277091234469873780563037809606961839343222304160361808
    [(False, 94480158354056221865370901466963463339233857059558964007826125996972075675262, 41920215069285921727067143122242626322678798368078710574736793106844683528158),
     (False, 15176377272661402288747345106064829703829286781495068778468600340424562925677, 29281383746032535415393837839691362056853642608699534191780299920507811882113),
     (True, 1, 89177596984911552484185879869151626544705513595256175303004515435645848503128),
     (False, 68680372350000018999653681509988395693018273461496008319250985718034771878110, 108082061671180633206629724164853790953242644435429040110840266123470518787454),
     (False, 100885407043232053251413735880377134195825152995631367605914461649307160357482, 61375123282638209572702831784905316694933603902757553889010645730139252369550),
     (True, 3, 82249595266518880738206867468273493304725273322381185104701768087248262571861),
     (False, 58423645052653708540494781942272096334559304628091900842553556000964148282061, 20940459371718519869340610013645750045802309543680221150848690612683741065878),
     (False, 3786984426888448757379303722911590167695386356520589837296828796728989269688, 60302878831467698779073935401388171002353989255018687304413108713239897459740),
     (True, 3, 74743884108325305182804592783653473456667970788209119012519008968952778203191),
     (False, 48247235613383861707148094123003318308944125588856403005795852473029891245757, 104168503235771234091070672623441175398732407346897755569879156830709345698590),
     (False, 93711730549585047269166357565499627068241857294024691763293198586644061424897, 40773203407279485680683036542077657455082697941838585781001015084066199394389),
     (True, 2, 53828245376324008917639285777167786479038916261588972388091937572645726417397)]
    27043212804868893898596335048021 53828245376324008917639285777167786479038916261588972388091937572645726417397"
  by ((rule chain_double chain_mult, simp only: chain_eval)+, rule chain_nil, simp only: chain_eval)

lemma pc_b256_pow_13: "chain 115792089237316195423570985008687907853269984665640564039457584007913129639936 4294968273 7 27043212804868893898596335048021 53828245376324008917639285777167786479038916261588972388091937572645726417397
    [(False, 25023125667551900401349373059949829883993750334850348117786277341569779145004, 32564908920831625350634667010459209849362748035902349907849005011229457433957),
     (False, 9158426106714564362728145086910644047477122928309423106879189768068402388002, 81348302570086989964704465322525417570325693204406063193800341013368216090523),
     (True, 4, 106269761041344148058647317222926291579199913768280186198772051061942173947009),
     (False, 97530515134231801260918314210479683478423731478664572721680936024107168619684, 82534086113414329682985725419380956781306943824724345309793160537432881231589),
     (False, 58828503876595018246749799588131831726804056643221480669190667629945078303209, 13024371240004266062095887282724336645688539976198764931058562365232777198354),
     (True, 0, 91170598680029862434671210979070356519819779833391354517409936556629440388478),
     (False, 71784507201000897005982565761223949785519223521426392117192485452159756113079, 27082922526434902397978725105952427321720099911785591037192037378025490176107),
     (False, 6334497437640979469301496575063425545240054414723937497131403169531461985443, 109283406951099426409520425570080548446179992871339746995555414780510883073740),
     (True, 6, 70231313233798812325217068938436392003640042105534844732142399416123173486202),
     (False, 42597360415830486317346994921752545861335062147140986679957119815817555663098, 70599706375645959209257353271105055400441236785686811931245315098257208992830),
     (False, 43045415046549946709720729080383897679432977942042588031368371681381146125579, 62249985457881443825966109465569056863350435836973798464356756220407960641023),
     (True, 3, 88373630493221520511049811232919674483643096861894897132124541519129220472172)]
    6923062478046436838040661772293461 88373630493221520511049811232919674483643096861894897132124541519129220472172"
  by ((rule chain_double chain_mult, simp only: chain_eval)+, rule chain_nil, simp only: chain_eval)

lemma pc_b256_pow_14: "chain 115792089237316195423570985008687907853269984665640564039457584007913129639936 4294968273 7 6923062478046436838040661772293461 88373630493221520511049811232919674483643096861894897132124541519129220472172
    [(False, 67447600418937468558476647113743290984235522699983013847391794625476114872946, 28809592468768867445241427692392117304752426605640637591254658739605754868386),
     (False, 7167956150402224490196259865825730947808513620850632346677096602076741284528, 69010145838937185792329981908217364576323203798379892972320938132338440314932),
     (True, 4, 19902663923295518852025933322769920621182487926096994648416230894733743517872),
     (False, 3420924813195209849103557344209917916934805709580975259818782147369182439228, 54748927645115882258045891438182958182688618709661654938735397158653152212220),
     (False, 25886440930751861899686128375904607100251871080201220286120655597328954550548, 91673192771245223945691658385253989851947672509484400829208119261538600607076),
     (True, 5, 62751903212135590501986683653338389697283784238187985607168914791226030891217),
     (False, 34007516253331422909318283406569647604697246786356366237358594555488491828726, 37305459626504707996167055577362779816020823913683305070292854261098646149751),
     (False, 12018932615443922305216314348732523801725930191631497122562913950680877592439, 94038084016656399070204210596430364956562246656635869148051855792704221005944),
     (True, 5, 79306141930013816373574549131573015429585803268248263839075070509385373683293),
     (False, 54316872501827150229809925548529027341114114744293307805576636593449755439442, 71013954711409468511419299414945954043602821310966129742837982661895117391803),
     (False, 43552040532048009671657268179449699914700441325181721914244191247419337973348, 60259601834275108330482640902912054807743954558087532376980732153647986753085),
     (True, 3, 74440945127977172042665531294320660094397727909691034520492373051809403256606)]
    1772303994379887830538409413707126101 74440945127977172042665531294320660094397727909691034520492373051809403256606"
  by ((rule chain_double chain_mult, simp only: chain_eval)+, rule chain_nil, simp only: chain_eval)

lemma pc_b256_pow_15: "chain 115792089237316195423570985008687907853269984665640564039457584007913129639936 4294968273 7 1772303994379887830538409413707126101 74440945127977172042665531294320660094397727909691034520492373051809403256606
    [(False, 47856933474870488691590671237183132177266128857521946952801389480850411753544, 2272027923591210979224239241343326390313126782280832902571918757880966015564),
     (False, 44580859707941097954561196160460905663788687022096319283016670333248895020, 25405603182633309853741780954253020672412480033812088747264471037150634419836),
     (True, 1, 62047133041116973552621481671083236853617375571044057191393713252145606267189),
     (False, 33247925173297448213323608226709204062022130679294533381936988319563125452006, 35952703341953888321856868750276804216698496589704149780514454482762983255743),
     (False, 11163084508695248992345918841570744156480023447054312275604230891442252640228, 40684138398433036751285419082095123422438970349931928606601520393478897022885),
     (True, 2, 53204790314398866411855963557290048250532823118242372167295474738534609816869),
     (False, 24446831653564194251853992993890750896431161740646645120602454899519487656741, 107191021377031068639704768314789668771281152002338196860852604765517733332878),
     (False, 99228843175137120083987589527846006145101645908586752476839133337738689635818, 48643866864705481940279556768096939461471787302580934188085286526448881337550),
     (True, 2, 108922889578305982734814927359302760523762541786785411237681837669324500019524),
     (False, 102461195339278635942816489317466022967098373309119973481650493377414615779430, 54483357038393815160253239932889160087931558429354006815121714057513501894486),
     (False, 25635915317921926324001178014902262647370209920843615738492011987402285692738, 55290412379393414931731155152794583299062590819445248810996924023448343720902),
     (True, 3, 39656618943805318251405131043498359533628181739195049558605716140411902031325)]
    453709822561251284617832809909024281941 39656618943805318251405131043498359533628181739195049558605716140411902031325"
  by ((rule chain_double chain_mult, simp only: chain_eval)+, rule chain_nil, simp only: chain_eval)

lemma pc_b256_pow_16: "chain 115792089237316195423570985008687907853269984665640564039457584007913129639936 4294968273 7 453709822561251284617832809909024281941 39656618943805318251405131043498359533628181739195049558605716140411902031325
    [(False, 13581648249139315080759401818017419754769991799940375360286450959761473196203, 76804524280316274113098701929627705678710553739382024913303811920332597960036),
     (False, 50944196523095884263954518435623049467928431864107614653345879343787161105979, 42641102702329077974240242573486564612476054172636762505621320699800241948219),
     (True, 2, 66903540441671154972539727997030136580792409877176209460434076882784024294207),
     (False, 38656213503986289114527819138272730852467855069536041772446699977883235972997, 21087251873606971364007228793177358291454416192763879037053352805105664674838),
     (False, 3840263998256252918160246963118723526019613248264152790134582832046902319750, 34082331611925890473926155616193321561320797321194201203582082452395980081994),
     (True, 2, 6992142808848842470341119295977435222705611917078280346159409150954191230632),
     (False, 422222807977289968425514132809575192258012853204156458936286428803931527911, 36393860264704856578973794199491090097449141794838427096791414865483009833431),
     (False, 11438718082478587958824542557756818794481113148682930111490963446311822891693, 19535155894056525282820950125613354142398164077397976819682762883227500036302),
     (True, 1, 20954002021079481556175665870605571143517163876145273698321756174683665582451),
     (False, 3791884260759190997656060963495102016226581802659568380974259946137807363848, 68736847097148343803659342534993881876485028603229304254988234166524422928177),
     (False, 40803773210908687214113432970163227311572368290636301909909485151663559079529, 68312369888457007136342231654817681741341583470906715322934431372997680856602),
     (True, 4, 15018232269934268260111681548972140776311145633784751102710683579348427309562)]
    116149714575680328862165199336710216176981 15018232269934268260111681548972140776311145633784751102710683579348427309562"
  by ((rule chain_double chain_mult, simp only: chain_eval)+, rule chain_nil, simp only: chain_eval)

lemma pc_b256_pow_17: "chain 115792089237316195423570985008687907853269984665640564039457584007913129639936 4294968273 7 116149714575680328862165199336710216176981 15018232269934268260111681548972140776311145633784751102710683579348427309562
    [(False, 1947864504382809869204002283733517960733466450876060598280047709466199940430, 62799089563126392353426359649915826547394516371987351399318011977604567596754),
     (False, 34058679448082968367940905659647246102856925280092635123015226153539188051752, 32075280427590432872048645001121456174821224369761798028576695679265579432940),
     (True, 1, 108734873755816834680769529999162285370478585922692022160579285746950221358917),
     (False, 102107776520566923918169014597681461501582117693108735925313687317789202775902, 34618392853918106716507644447139930162063293309130816420099381908647796747863),
     (False, 10349870459043332028744643073221956387075380430651837425101745841470444322066, 43207440183213224117415130866062596520596199883792633201054638724303459251011),
     (True, 2, 70867902807860177974763946045062359937633429855267304328467303054306545413751),
     (False, 43373080850896316121740165685435269718544654481211914502846820561457767949636, 70426463516621331026916903048894611182390395498774157590478963199492999525333),
     (False, 42834418103405097377341549678665304999512426778821887295814190703623923638786, 37106225736498296835400976307047452859283465088446736965164892522704786839771),
     (True, 2, 28159401680855687000664864131956354308444286287846030677239079643115838535071),
     (False, 6848066290596251806426740677216361594084969241062007783465086194826843104018, 16404779462004460048636370103417842325539313766650706669931643808380510933107),
     (False, 2324137952511140593923190451711108596442159383948715303512613777629160101171, 109442133808541743080618816145076598966224601209765592743786685806754181856076),
     (True, 6, 71342401235895029022905802963408745643952300474515764969761296599826264962554)]
    29734326931374164188714291030197815341307221 71342401235895029022905802963408745643952300474515764969761296599826264962554"
  by ((rule chain_double chain_mult, simp only: chain_eval)+, rule chain_nil, simp only: chain_eval)

lemma pc_b256_pow_18: "chain 115792089237316195423570985008687907853269984665640564039457584007913129639936 4294968273 7 29734326931374164188714291030197815341307221 71342401235895029022905802963408745643952300474515764969761296599826264962554
    [(False, 43955837118302654795270724917222173200033967348045728685156501280621471756718, 30563714579994482523175988397361939302314261245030651243352978405731677720882),
     (False, 8067396098302048581248890652582448550957048703617031915161177809765641434118, 5775962824008573462324232344361170905800369257232080555620235073856922859690),
     (True, 0, 40431739768060014236269626410528196340602584800624563889341645516998460017830),
     (False, 14117765656009118381350063054225610787270856532463544203673841142781534163005, 113542226404550688622607577902572428149383434324370396278626143156017221481585),
     (False, 111336078844560727727943964894326915213764126424608687669862682513305496033443, 24383483418176016418884345148296236340510262688811194262686081479464721686516),
     (True, 1, 54892294689915919508619431029385746530301854156037795799344986348344217133949),
     (False, 26022192329124347810589194349719735900840030137201350851245529438529775556917, 66320495699608858931358487788748648061703517608123390770123355669319144791630),
     (False, 37985394156135208235853945235559434976603520080644221578122244252777677162228, 100616195377522876199477430284923536298476420210098835374055611899258152511736),
     (True, 6, 9560832218762960854916101942337306969715033476848463381643779247354059552174),
     (False, 789427959348689538682275899259147319445630218163105360111096110280235169854, 4713518186954206388714244490935135103992822974838680677135137950968302479074),
     (False, 191871947773683815960464351860486561830515671680024439402237619100927687016, 54079344424629798796477250983822030776713724348845318528444582780961819669868),
     (True, 3, 31179143260460005304627801860690491877186116444995537580739327443006233674087)]
    7611987694431786032310858503730640727374648661 31179143260460005304627801860690491877186116444995537580739327443006233674087"
  by ((rule chain_double chain_mult, simp only: chain_eval)+, rule chain_nil, simp only: chain_eval)

lemma pc_b256_pow_19: "chain 115792089237316195423570985008687907853269984665640564039457584007913129639936 4294968273 7 7611987694431786032310858503730640727374648661 31179143260460005304627801860690491877186116444995537580739327443006233674087
    [(False, 8395556042381160873120115957215686502002113568494976428692346915565574514731, 115109932429464443046148764948985069703061418747623022900891792616113993515916),
     (False, 114431794358242831103679102076453247377404077181138105380826701165659168422037, 43206834549379859831545808061326296670532009572106620662701808116276636681525),
     (True, 2, 70863663371026627973678686411908260987184097673465216559997488798118787427349),
     (False, 43367891705194799034576232801846143743290375438399928863473184748306904213913, 18076938912679138970022450901967808010661276639992019336902850101581481720482),
     (False, 2822090201542227477388632611839822567260970558318219658537520993775249175706, 61514782075138858353604736350626091436377646691457862455079343257932872093246),
     (True, 3, 83227206814023422204520199428318916494833572843283345067182650781803600637733),
     (False, 59820735593325355598929705366599522734599890325231950673742289164382816813684, 32552367010794342621130455638503334697097512701776238637477919219310317942797),
     (False, 9151372990893037468814622994148845470883623327787096317464124289157393557027, 68004462437733769898582460859499304083207177900835713529174345189256952757308),
     (True, 4, 12862880114871607595793285981743497169370306643287738546390080293163330614504),
     (False, 1428885910422271188693058833391030695287941630440923416612750704595281519696, 86526498128133317626630141702813837074367111932637409868187941854288427591568),
     (False, 64657567953313032353227915797878416730543061813455751789348509590599450776147, 53543874723349301189527883808016390691975772581995284406817171205027767476163),
     (True, 3, 27430855351496522055982231630051011284020454077045298729347446411467868318152)]
    1948668849774537224271579776955044026207910057301 27430855351496522055982231630051011284020454077045298729347446411467868318152"
  by ((rule chain_double chain_mult, simp only: chain_eval)+, rule chain_nil, simp only: chain_eval)

lemma pc_b256_pow_20: "chain 115792089237316195423570985008687907853269984665640564039457584007913129639936 4294968273 7 1948668849774537224271579776955044026207910057301 27430855351496522055982231630051011284020454077045298729347446411467868318152
    [(False, 6498300793006449358379233786213656264495414891675748566797956567657955228419, 97295057363833635958625727837300621710348386114506051145619388231245061104307),
     (False, 81752805824501646110950717898107540419266147102088343797271962262192299913137, 94012779547696136476715308485624787908828753396679315040047356596477518613418),
     (True, 5, 79129010647291978219152234355933976095451350448552385083043576135798456935611),
     (False, 54074508606425527066508077646236227536299808356016833266202767759870695461385, 31202990417790643235432813288641803388915616814742264563088358317007829710066),
     (False, 8408403522431349925442800648885689429697190130177057325759319531591861733433, 18019950538175275103686556009834034429518138260017516206290121945243036915277),
     (True, 1, 10347564529910730302234907060150333153356983154482049404573269608792423735276),
     (False, 924692631473486377347542092671825326537678165563329067310763992521298541794, 11884417450457523770287002322943211174420363265326718726939123521017453812754),
     (False, 1219767076205601814740039878903610390800358934028881662415441677435090290580, 51859936785729264434427531859302292031489620862300781381890014953618131229976),
     (True, 3, 15643289788156264770279767989052320660617392039183777554857352651600414594843),
     (False, 2113378530503021866765641721575090593839079318069254557668917455557168383383, 100556213281901405356619926930785698037693303774351613818917765167590532018720),
     (False, 87325067681191862566201221088461432936931466930573608309771246639025667932563, 70612843272812605748601528694772182835802812024148724619875399952356299376131),
     (True, 4, 31121545960423458545926760828653648437539745506478816181297463634858756946265)]
    498859225542281529413524422900491270709224974669141 31121545960423458545926760828653648437539745506478816181297463634858756946265"
  by ((rule chain_double chain_mult, simp only: chain_eval)+, rule chain_nil, simp only: chain_eval)

lemma pc_b256_pow_21: "chain 115792089237316195423570985008687907853269984665640564039457584007913129639936 4294968273 7 498859225542281529413524422900491270709224974669141 31121545960423458545926760828653648437539745506478816181297463634858756946265
    [(False, 8364566434082578890984725658892653927829163016773361835929948047847964877295, 12063297397266672965241161667724755939078649295629608397460352714230688858640),
     (False, 1256762401070860847932628269346775417120061369645236531476446748150144530248, 100277105551696579158736482341255611171698387421293312117236846910689450687176),
     (True, 6, 7187203437978881569729466336661831082268803955209800583912424327373146780254),
     (False, 446109001047788023427390315725342509646793402539132543030956893483013270070, 42639796339947200859994826751723476010210938070819166578039597467986569278106),
     (False, 15701869133614705427917987181674333013129392813450120228479298944573246257499, 75632309007529622825214326120800868917106798756243457326556338925446754396399),
     (True, 4, 66257806103442578082216342810854451006667652631141945128064036446491942088141),
     (False, 37913616539415549539319376999325054444698802505308635123411812947063476609261, 110046373041040105685241540769040406061660660669158436787314938832525932764838),
     (False, 104585764876112242367578440162103354488763048629630167827452989324830486285082, 101773608868380061303644325121213187489335061751502649741301111953018924134878),
     (True, 6, 17662726654763256584084365796364865305725524266675163952362279623679460914168),
     (False, 2694242024094557563697265460534090910227362960238183971803413712925798451942, 66127419070458723933494103035893381332902000753136946168216864463193008412678),
     (False, 37764544898727321580724080105905562258029384762398698577113632210051817667945, 56862573776229492561921119546602217121259182755261484534592657114344716189149),
     (True, 3, 50661748721657861662734881800151796289004325289908699623775847776686509309054)]
    127707961738824071529862252262525765301561593515300181 50661748721657861662734881800151796289004325289908699623775847776686509309054"
  by ((rule chain_double chain_mult, simp only: chain_eval)+, rule chain_nil, simp only: chain_eval)

lemma pc_b256_pow_22: "chain 115792089237316195423570985008687907853269984665640564039457584007913129639936 4294968273 7 127707961738824071529862252262525765301561593515300181 50661748721657861662734881800151796289004325289908699623775847776686509309054
    [(False, 22165700614280499263328620440531375581487012295391322758076006616923614193858, 87280494561911244935264608446634960929635147117022267521373405193578625129062),
     (False, 65789336569952920926506478859356584478893819587060124070208013496227640201818, 58304050194538467293034795268787845908306233537742779363209881263455071316510),
     (True, 3, 60752083649820684780530611855451197798333680767277763424096416820458995200581),
     (False, 31874506212859440083453447462390708074725098402185643613050520502948317826265, 84006688438946083716829264011931749034497470460454721854088340049671270108866),
     (False, 60946509808753547643121234824854859949553759462992253124662645722899410810182, 54548153768086821375044522427309077043251470481051450425145844603060704533290),
     (True, 3, 34460808664659163354598701965099815742950339370438460857648160197698427718041),
     (False, 10255858942041944199249423682244092414787056760263324922632164996208923383551, 60366262703844161198300037241384471858893526474605100850588313584662496862368),
     (False, 31470938099760539627921846480175059709560529089564760370405165210667369265784, 103569865406433070878684308361674536423930997683166388137608218206665714288632),
     (True, 6, 30236522421134323609364248479594307847897075788321332726512023399206991990446),
     (False, 7895593681274775220981847339506454354048955271918260492420004423285363552241, 97442264923044366100228621716191438771295332692678317247966910575260372432133),
     (False, 82000377192199589075231095678238133630800808172540719992010963212303841598939, 114714197024160854893293621548594856962522336020574907798200606426566696764132),
     (True, 6, 108246843745228811711629440788036551618036444150180970350658740938513869318946)]
    32693238205138962311644736579206595917199767939916846421 108246843745228811711629440788036551618036444150180970350658740938513869318946"
  by ((rule chain_double chain_mult, simp only: chain_eval)+, rule chain_nil, simp only: chain_eval)

lemma pc_b256_pow_23: "chain 115792089237316195423570985008687907853269984665640564039457584007913129639936 4294968273 7 32693238205138962311644736579206595917199767939916846421 108246843745228811711629440788036551618036444150180970350658740938513869318946
    [(False, 101193261629377651730859389504994199739138498945515806737585300328819729713575, 50551371773477419817527402587000496480142510001407602590144314071685715625691),
     (False, 22069220833756147992760203357554839752925205063973790903567956917713372016729, 54562947228050051878709683333799475441030159515996073988477896767326760977154),
     (True, 3, 34564362884401776880254828310532604527401162615050825800972525347560822825089),
     (False, 10317588960296589547057882367819599402970757112337970520570744426210919995751, 24632732923219529134154976588509848579822841936798531804867943126285647754008),
     (False, 5240181218451663471560314085171418231836173359661282358932062533700402986698, 37919994318407409436584149147569953862853154299924568513731577673353493525290),
     (True, 2, 33855781754219475208947074015613861333432110768190851517205875697656785333704),
     (False, 9898896943125119408050659366272643709151585917404825632172878584375029998693, 96932837235087638730128035762894017843515115406816208020551824175746664223157),
     (False, 81145223273300794519174983074943597763475695215040962347291202477311921739236, 14185794318119532217872771242617111601902401308533148298511703726544330577181),
     (True, 0, 99300560226836725525109398698319781213316809159732038089581926085810314040267),
     (False, 85157814547713179600938865759285111449319348729170231497809222438596767311970, 81138277857917790009130749792060046992338312805118569845547311026363257725179),
     (False, 56855525944055946759461345813131946173429107828587109612668414037767476235583, 76409247975007889705726500445832505718377395350913559984555755022990848197512),
     (True, 4, 71696378875790446245801563086075908615561828793832663734059949129300598695932)]
    8369468980515574351781052564276888554803140592618712683861 71696378875790446245801563086075908615561828793832663734059949129300598695932"
  by ((rule chain_double chain_mult, simp only: chain_eval)+, rule chain_nil, simp only: chain_eval)

lemma pc_b256_pow_24: "chain 115792089237316195423570985008687907853269984665640564039457584007913129639936 4294968273 7 8369468980515574351781052564276888554803140592618712683861 71696378875790446245801563086075908615561828793832663734059949129300598695932
    [(False, 44393108180004309243946838049204473332382465477259029891006675160921516870150, 66780749579750956991657381445018314603354909259725027036937898207328337789174),
     (False, 38514448990494550241607132364210476842693363277802464210096127229992983750796, 25860039395043198110033450710334545396545697576668160791412733315293196708528),
     (True, 1, 65228186527986191346663169963653909922549898371036561500431549199143542288033),
     (False, 36744447274024971066367750894612791865644448433150795656713849534354066077612, 14957638267340832524584291279090351014419402205683968363206225868240439900333),
     (False, 1932178130736389941517070227576991392752726323645981679719804495577769544197, 104705649081548950502524479446619032713589667195242963695623797198981311521278),
     (True, 6, 38187008146945480976245446074205781875507762372857361632621076345416172618968),
     (False, 12593671992792169187470316987792144417279223384371052045108003514850165838517, 71558377608622861846853183637022701189597744193635015922221660589987339541253),
     (False, 44222376845481832032382572180125869714868654231820204214161576369273162761676, 95455742157116695304977650937969613273938203263953453207334289558318709222821),
     (True, 5, 89229748913235890016988631522347753651217499519471352254052106868686791201432),
     (False, 68760725741817195023844470007996774119503689814906030399245450323022734933061, 32398553090938844410539515942181354799069850286953113461965676316635780300181),
     (False, 9065094595841423919878061438321553506914126019706979057247285938965240490390, 64687756776260553693480338724845175179914361455525825955888824706813711814191),
     (True, 3, 105438029721875289583649416047852502699590576191759089572849020923969478684348)]
    2142584059011987034055949456454883470029603991710390447068501 105438029721875289583649416047852502699590576191759089572849020923969478684348"
  by ((rule chain_double chain_mult, simp only: chain_eval)+, rule chain_nil, simp only: chain_eval)

lemma pc_b256_pow_25: "chain 115792089237316195423570985008687907853269984665640564039457584007913129639936 4294968273 7 2142584059011987034055949456454883470029603991710390447068501 105438029721875289583649416047852502699590576191759089572849020923969478684348
    [(False, 96009824029052371567898129991717342113041646395935745881581081416870358873687, 27290498843891043091898394866958579276463611983721779323270385999825884953623),
     (False, 6431970716255128104039462580667064949411009679019719017776917186248377203017, 71746020307078851557432052263193827652538593044042498017575942185335372818858),
     (True, 4, 39053785200287179207740425807605162154690212645735229965201259265712271045354),
     (False, 13171868203744663950684009300463650562669764702162796016306829175540016120729, 62720256307150072992340190508170823678542083920663867449474328766212241782989),
     (False, 33973223707642085244409132241211302599255413489164596755709070159259403332342, 77841887882545625696060461987164158380618209222920994682914896406020130949375),
     (True, 4, 81724858228554598178139293875397477251247525897884706622573938810505577958973),
     (False, 57680559151055797666068412933453016101078576297483172545484611318245941334350, 55742143337033258325325824284345113329299925525974415391970522722962117690679),
     (False, 26834186724433084332002736789102239273614265762062223213718367562599388005682, 65811040478838040401478566505254787151687592851375695894871942470751075091875),
     (True, 3, 113301015639917696539637010510719786502003195962708179145730845271531021628136),
     (False, 110863533334536891688117373466256074548800838810884357153550029679999638374844, 106288369319057783908781584461272290922343276320876160071354438992126607988924),
     (False, 97564674123382874351060363565785981135094523652911249087451907923485330023860, 18247706444201330623944261187028838451654601500605987651806586223380650798596),
     (True, 1, 11941855872093118944038843300513961308312225838601349523188519555755720918509)]
    548501519107068680718323060852450168327578621877859954449536341 11941855872093118944038843300513961308312225838601349523188519555755720918509"
  by ((rule chain_double chain_mult, simp only: chain_eval)+, rule chain_nil, simp only: chain_eval)

lemma pc_b256_pow_26: "chain 115792089237316195423570985008687907853269984665640564039457584007913129639936 4294968273 7 548501519107068680718323060852450168327578621877859954449536341 11941855872093118944038843300513961308312225838601349523188519555755720918509
    [(False, 1231586048832486224129388776630172031536002974868957301580368718255179045316, 97444625851781361183753331129117330505570250373951668064078330551041960702573),
     (False, 82004350814784037854847967107134755256317723065393247200047728520658791721501, 96799930639994444923963183145337884407922890934543342007791794834755896294166),
     (True, 5, 98639068293380137349887356973925651589110313213600573857254643803747100700847),
     (False, 84027033779873638453091295910800452375633222300680180024997494460687759531437, 113956565367746925387003256365315248327978958763793663824244136512433964947678),
     (False, 112150138027119744555621287648469102190323058974170612161227719506321742624897, 94098169850914865588339997893851030538537650748223945836815780469912513397973),
     (True, 5, 79726742769823082000525060213517674503413631909364800660422543249843420427496),
     (False, 54894540331318952370525076488145515897125733676715369264415482593027721638078, 72178040321360069057126347549882656397681138120123153523239299979955744446302),
     (False, 44991583958336293680786882602655234289100996279882839659754662934745875576865, 43709720442070222522000904622026526041642959956670583310990879654563567598709),
     (True, 2, 74383864619859166806864362336809866584960750365412955098020989566127303847637),
     (False, 47783569259603922074570303081596955042008485145021698581497507103405622862262, 107733786724976900454515759094762723494403940245205900852953293741293467002063),
     (False, 100236284521260475200785080349476391312194382409202676581645320893262783078242, 109292815314089658256575023385146195788003839826653958250982653280184336999523),
     (True, 6, 70297171774730435254599253643895923396406970792734323520133068913837350966683)]
    140416388891409582263890703578227243091860127200732148339081303381 70297171774730435254599253643895923396406970792734323520133068913837350966683"
  by ((rule chain_double chain_mult, simp only: chain_eval)+, rule chain_nil, simp only: chain_eval)

lemma pc_b256_pow_27: "chain 115792089237316195423570985008687907853269984665640564039457584007913129639936 4294968273 7 140416388891409582263890703578227243091860127200732148339081303381 70297171774730435254599253643895923396406970792734323520133068913837350966683
    [(False, 42677288164288544047744735901495480876089514881804220336335220862200078008872, 25218770006344711906654714933791456087072877227418337872741717452783655028353),
     (False, 5492485409166907075125511017821878467384905914851999054545664351037372821337, 82097677177934768519508396653759683945172230221075845401530777694008878219178),
     (True, 4, 111515383296278597942274836541566156203125672884968661652885107826426808847594),
     (False, 107396634723715632959393448222081090917068259827494614504747211630729622895089, 65873599361807677953706524750899848350300395192192789547450267063499509425829),
     (False, 37475194734473425719518112407983574170108173488971761762755033943607389170519, 79888898594061554235949774645738519433774597747556358258858122743719968034144),
     (True, 4, 96053933209166097957364482485418004623342245570332251654176523174404437552356),
     (False, 79680383571294721894655800452754065193406607011479901948258481899272149333139, 51682805713523334951665757530306101513439611805278395303960343807024771010579),
     (False, 23068176971462603817465128372187359990301664033112719046169943287261661665474, 5301293233194660667164003282273788026743876831882006050292227044248396651979),
     (False, 242708376102592556474847461338993085854723211662581652115369328057094299121, 24994860522586346819204713226533248284801244304314904107946747959913300108218),
     (True, 1, 59171934420788232310862007577044830140338725464563764716169651711484266085863),
     (False, 30237970885231226718786818930320241394239643022583614246810125329703440801782, 672885681953254242761522009454931704021701085210100752768822380169053151303),
     (True, 0, 4710199773672779699330654066184521928151907596470705269381756661183372059121)]
    35946595556200853059556020116026174231516192563387429974804813665619 4710199773672779699330654066184521928151907596470705269381756661183372059121"
  by ((rule chain_double chain_mult, simp only: chain_eval)+, rule chain_nil, simp only: chain_eval)

lemma pc_b256_pow_28: "chain 115792089237316195423570985008687907853269984665640564039457584007913129639936 4294968273 7 35946595556200853059556020116026174231516192563387429974804813665619 4710199773672779699330654066184521928151907596470705269381756661183372059121
    [(False, 191601879316961593706782692739642915960718674315473756914899695619765373863, 52851107194904943195058096266849626205192810541297506622827710139399472348472),
     (True, 3, 22581482652386016094693718841883659876539719792160854241421218952069802424315),
     (False, 4403784076604070093847304332769997032676121356313410028332719440351139274804, 54423343945255133119094531187374229044851627782769482241606378327774034540173),
     (True, 3, 33587139904837345562948763285555879754151440482464683572871896270691737766222),
     (False, 9742426917223002377741508693555123846912220726718893451431559544200417063514, 12949821325282509465071845245213540402769460820989787111359122713393517149502),
     (True, 0, 90648749276977566255502916716494782819386225746928509779513858993754620046514),
     (False, 70965087508173172915362455606175892748951056156587832477499488102853270165918, 87890092382825132665431663975771059696894683615721541196505977270872460570562),
     (True, 5, 36270200493194951540166722786957878611912861981847968178253920856563050635619),
     (False, 11361116743652343162916479295898336778220882044358603124741556687258377681611, 17165662042662381690660465944079710392579222778533005120565906808979573624068),
     (True, 1, 4367545061320476411052276599870064894784574784090471804503763654948180696813),
     (False, 164738800278227113882944819897388584554818576767417526272445184219900358499, 6235376275142355741735842238912546158973651005935995232245086612771571843132),
     (True, 0, 43647633925996490192150895672387823112815557041551966625715606289401002901924)]
    2300582115596854595811585287425675150817036324056795518387508074599679 43647633925996490192150895672387823112815557041551966625715606289401002901924"
  by ((rule chain_double chain_mult, simp only: chain_eval)+, rule chain_nil, simp only: chain_eval)

lemma pc_b256_pow_29: "chain 115792089237316195423570985008687907853269984665640564039457584007913129639936 4294968273 7 2300582115596854595811585287425675150817036324056795518387508074599679 43647633925996490192150895672387823112815557041551966625715606289401002901924
    [(False, 16452902438207670418218850361809533099013833401509959184664154901473717684738, 64622771443427677289492536404717147694503993623350206251517415424652386722482),
     (True, 3, 104983132392045154755734799806956310301718001366529751642249155948840203042385),
     (False, 95183169760908043562874888996863137784555963710554629505088299779359835257672, 112009060134308184795847628053048960663482114648952081050936391952906984739689),
     (True, 6, 89310885516260121029507486319215277524754894548821183119809239622895885147845),
     (False, 68885830839020432319183189217023462822877552918011124884494394658291170636245, 37958873937104057982440778188994457633285417453622263666890347750626125918590),
     (True, 2, 34127939085096015029943477305585387726457952844074717589317266238565212086804),
     (False, 10058685648282372886452300734659229586908282058651180367004691556901962251856, 66813817433321669568041779381464429672490516869841570687738938135364558577888),
     (True, 4, 4528365083986905282008515635499376294353679426328738656342230915916571358564),
     (False, 177094052529309190977006703889371871308307693855703618884577526756575930659, 27958722084014227176469407137971041815171593069599632740424013580255735926179),
     (True, 1, 79918965350783394811714864957109384852931166821556865143510511053881316811590),
     (False, 55159562840683004117388034490169264391426030861959250986341530348923161354081, 96733826541638947641597168404458065558549249430435138628085373511987438221397),
     (True, 5, 98176339604891656373325253787766919643494822684843150199309694544367894191464)]
    147237255398198694131941458395243209652290324739634913176800516774379519 98176339604891656373325253787766919643494822684843150199309694544367894191464"
  by ((rule chain_double chain_mult, simp only: chain_eval)+, rule chain_nil, simp only: chain_eval)

lemma pc_b256_pow_30: "chain 115792089237316195423570985008687907853269984665640564039457584007913129639936 4294968273 7 147237255398198694131941458395243209652290324739634913176800516774379519 98176339604891656373325253787766919643494822684843150199309694544367894191464
    [(False, 83240519466409269201474984993803074697055605610802435511158368571030795288524, 16164183483268283261841104374195728882305429132282296535686115769473398567884),
     (True, 0, 113149284382877982832887730619370102176138003925976075749802810386313789975188),
     (False, 110566798135217195250626306701081001605431202551284798898720568439325007359661, 67178313750117194914289855695091080154645788013992847873847610974922169649101),
     (True, 4, 7079839301555582705745049830885929669440577435387678959102940792819848857055),
     (False, 432880388168154685921099964430197325695956521516446845787551519521253865111, 106999553645029796433626577733946201059438569595164669005700752309164447223432),
     (True, 6, 54244340091311402493960134085495960296450079172309298803159762116698122534046),
     (False, 25411480622923191517378079938010688736076062559376925460611367499733583773599, 14972878994459622574932900035138368326122729584114694075904995168656736304979),
     (True, 0, 104810152961217358024530300245968578282859107088802858531334966180597154134853),
     (False, 94869763868234973299217408573762612078128657906683935926192421591067941500468, 37956109715330147453374995773401962600400781801850411333577121472908568493325),
     (True, 2, 34108589532678641326483000396437922496265503281671751256124682294542310109949),
     (False, 10047282915194422480236938536998356911677813079229053184628286281847092724742, 112050001330341336109219543079162541235905906698825180426905346508884862396655),
     (True, 6, 89597473888492180223110891502010341531721438897932878751591921514741028746607)]
    9423184345484716424444253337295565417746580783336634443315233073560289279 89597473888492180223110891502010341531721438897932878751591921514741028746607"
  by ((rule chain_double chain_mult, simp only: chain_eval)+, rule chain_nil, simp only: chain_eval)

lemma pc_b256_pow_31: "chain 115792089237316195423570985008687907853269984665640564039457584007913129639936 4294968273 7 9423184345484716424444253337295565417746580783336634443315233073560289279 89597473888492180223110891502010341531721438897932878751591921514741028746607
    [(False, 69328633588657602409659985426069319736052796885291402119450602213037878759602, 48177625833046005744414934046318794265758895665283481170624603815056035454323),
     (True, 2, 105659202356689649363762568306855744153772300325703240115457058689574578836935),
     (False, 96413037507005476891472581069187223518814391354146700358365951464733239369946, 102057056660631727945387043437031386041597734404158752719979015994319420154027),
     (True, 6, 19646861200524923076283394007092255171564232835267884803107607912782933048211),
     (False, 3333553764986356925425416133670165431189193932491271064167429614601100610939, 109823122272801242163660062315132922468363963248656555557276691810793279178964),
     (True, 6, 74009320485711522604194526153803010158927834746752504664191338628099946222770),
     (False, 47303572764205465934503703126662940264855570761625488665793158379339914930397, 48182855768544207673659395879916164314193685121842011314843417349281473232689),
     (False, 20049621742762010950902249209981290630194846029909897864009906788922934864400, 66435064313908294819001144011446229714148149474422181087096419945086510673521),
     (True, 4, 1877093248093282038724068045371976585957107658393011451844603583970236027995),
     (False, 30429359080100955325529141566900335251124963959140705454433690671283256201, 16917694604137855099959345955774822495829732572303578119586360570209079987762),
     (False, 2471743904130533808642049393130538818250093211639837150580473489581963826356, 65413269020823465191679701981445502844682162053303492758822496217559664018616),
     (True, 3, 110516615433815670071044958844054796352965180376202757193384721499191144115323)]
    1206167596222043702328864427173832373471562340267089208744349833415717027829 110516615433815670071044958844054796352965180376202757193384721499191144115323"
  by ((rule chain_double chain_mult, simp only: chain_eval)+, rule chain_nil, simp only: chain_eval)

lemma pc_b256_pow_32: "chain 115792089237316195423570985008687907853269984665640564039457584007913129639936 4294968273 7 1206167596222043702328864427173832373471562340267089208744349833415717027829 110516615433815670071044958844054796352965180376202757193384721499191144115323
    [(False, 105481491588889442154677651142436851732418593089732097916206916536734884453192, 9822709401371578637942869451478690471865162881836474564029840737617711096033),
     (True, 0, 68758965809601050465600086160350833303056140172855321948208885163323977672231),
     (False, 40830037788818690491589943377716805600276496936883607989222222437743191666282, 70249041485789216442931811415566952272075492488975794251818140697137930550395),
     (True, 4, 28574933451259733406238739874217034491448508760268303604896648848330175166113),
     (False, 7051663262336070317997730990008235169532823747364253916481758078881232682153, 92918902052465737461182286990515267478741849099176759764925929837520548598330),
     (False, 74564008780776677743465221644549899226843788775427399560025213107788627803959, 41025536303280326245175339000168378350132274506567050328670525713937182275083),
     (True, 2, 55594575648329892869085402983802832744385952214688224221778511981742606582255)]
    19298681539552699237261830834781317975544997444273427339909597334651472445277 55594575648329892869085402983802832744385952214688224221778511981742606582255"
  by ((rule chain_double chain_mult, simp only: chain_eval)+, rule chain_nil, simp only: chain_eval)

lemma pc_b256_sixth: "7 ^ 19298681539552699237261830834781317975544997444273427339909597334651472445277 mod 115792089237316195423570985008687907853269984665640564039457584007908834671663 = (55594575648329892869085402983802832744385952214688224221778511981742606582255::nat) mod 115792089237316195423570985008687907853269984665640564039457584007908834671663"
proof -
  have N: "115792089237316195423570985008687907853269984665640564039457584007908834671663 + 4294968273 = (115792089237316195423570985008687907853269984665640564039457584007913129639936::nat)" by (simp only: arith_simps)
  have c0: "7 ^ 1 mod 115792089237316195423570985008687907853269984665640564039457584007908834671663 = (7::nat) mod 115792089237316195423570985008687907853269984665640564039457584007908834671663" by (simp only: power_one_right)
  note c1 = chain_power [OF pc_b256_pow_0 N c0]
  note c2 = chain_power [OF pc_b256_pow_1 N c1]
  note c3 = chain_power [OF pc_b256_pow_2 N c2]
  note c4 = chain_power [OF pc_b256_pow_3 N c3]
  note c5 = chain_power [OF pc_b256_pow_4 N c4]
  note c6 = chain_power [OF pc_b256_pow_5 N c5]
  note c7 = chain_power [OF pc_b256_pow_6 N c6]
  note c8 = chain_power [OF pc_b256_pow_7 N c7]
  note c9 = chain_power [OF pc_b256_pow_8 N c8]
  note c10 = chain_power [OF pc_b256_pow_9 N c9]
  note c11 = chain_power [OF pc_b256_pow_10 N c10]
  note c12 = chain_power [OF pc_b256_pow_11 N c11]
  note c13 = chain_power [OF pc_b256_pow_12 N c12]
  note c14 = chain_power [OF pc_b256_pow_13 N c13]
  note c15 = chain_power [OF pc_b256_pow_14 N c14]
  note c16 = chain_power [OF pc_b256_pow_15 N c15]
  note c17 = chain_power [OF pc_b256_pow_16 N c16]
  note c18 = chain_power [OF pc_b256_pow_17 N c17]
  note c19 = chain_power [OF pc_b256_pow_18 N c18]
  note c20 = chain_power [OF pc_b256_pow_19 N c19]
  note c21 = chain_power [OF pc_b256_pow_20 N c20]
  note c22 = chain_power [OF pc_b256_pow_21 N c21]
  note c23 = chain_power [OF pc_b256_pow_22 N c22]
  note c24 = chain_power [OF pc_b256_pow_23 N c23]
  note c25 = chain_power [OF pc_b256_pow_24 N c24]
  note c26 = chain_power [OF pc_b256_pow_25 N c25]
  note c27 = chain_power [OF pc_b256_pow_26 N c26]
  note c28 = chain_power [OF pc_b256_pow_27 N c27]
  note c29 = chain_power [OF pc_b256_pow_28 N c28]
  note c30 = chain_power [OF pc_b256_pow_29 N c29]
  note c31 = chain_power [OF pc_b256_pow_30 N c30]
  note c32 = chain_power [OF pc_b256_pow_31 N c31]
  note c33 = chain_power [OF pc_b256_pow_32 N c32]
  show ?thesis by (rule c33)
qed

lemma pc_b256_cube_0: "chain 115792089237316195423570985008687907853269984665640564039457584007913129639936 4294968273 7 19298681539552699237261830834781317975544997444273427339909597334651472445277 55594575648329892869085402983802832744385952214688224221778511981742606582255
    [(False, 26692297046159697023221301508138409497602950309272737873543598905544192531517, 55594575648329892869085402983802832744385952214688224221778511981742606582254)]
    38597363079105398474523661669562635951089994888546854679819194669302944890554 55594575648329892869085402983802832744385952214688224221778511981742606582254"
  by ((rule chain_double chain_mult, simp only: chain_eval)+, rule chain_nil, simp only: chain_eval)

lemma pc_b256_cube: "7 ^ 38597363079105398474523661669562635951089994888546854679819194669302944890554 mod 115792089237316195423570985008687907853269984665640564039457584007908834671663 = (55594575648329892869085402983802832744385952214688224221778511981742606582254::nat) mod 115792089237316195423570985008687907853269984665640564039457584007908834671663"
proof -
  have N: "115792089237316195423570985008687907853269984665640564039457584007908834671663 + 4294968273 = (115792089237316195423570985008687907853269984665640564039457584007913129639936::nat)" by (simp only: arith_simps)
  note c0 = pc_b256_sixth
  note c1 = chain_power [OF pc_b256_cube_0 N c0]
  show ?thesis by (rule c1)
qed

lemma pc_b256_full: "7 ^ 115792089237316195423570985008687907853269984665640564039457584007908834671662 mod 115792089237316195423570985008687907853269984665640564039457584007908834671663 = (1::nat) mod 115792089237316195423570985008687907853269984665640564039457584007908834671663"
proof -
  have N: "115792089237316195423570985008687907853269984665640564039457584007908834671663 + 4294968273 = (115792089237316195423570985008687907853269984665640564039457584007913129639936::nat)" by (simp only: arith_simps)
  have e: "115792089237316195423570985008687907853269984665640564039457584007908834671662 = 3 * (38597363079105398474523661669562635951089994888546854679819194669302944890554::nat)" by (simp only: arith_simps)
  have q: "sq 55594575648329892869085402983802832744385952214688224221778511981742606582254 + 4294968273 * 26692297046159697023221301508138409497602950309272737873543598905544192531516 = 115792089237316195423570985008687907853269984665640564039457584007913129639936 * 26692297046159697023221301508138409497602950309272737873543598905544192531516 + (60197513588986302554485582024885075108884032450952339817679072026166228089408::nat)"
    by (simp only: chain_eval)
  have q': "60197513588986302554485582024885075108884032450952339817679072026166228089408 * 55594575648329892869085402983802832744385952214688224221778511981742606582254 + 4294968273 * 28902278602170195845864101475664423246783001905415486348234913076198414050737 = 115792089237316195423570985008687907853269984665640564039457584007913129639936 * 28902278602170195845864101475664423246783001905415486348234913076198414050737 + (1::nat)"
    by (simp only: chain_eval)
  show ?thesis unfolding e by (rule pow_times3 [OF pc_b256_cube N q q'])
qed

lemma pc_b256_order_0: "chain 115792089237316195423570985008687907853269984665640564039457584007913129639936 4294968273 7 1 7
    [(False, 0, 49),
     (False, 0, 2401),
     (False, 0, 5764801),
     (False, 0, 33232930569601),
     (True, 0, 232630513987207),
     (False, 0, 54116956037952111668959660849),
     (False, 0, 2928644930813641516032715844013695341634232321209103400801),
     (False, 74072082015913318664422778326650264607, 106586029390090524464202670531167220360496168260436631704346444422808732710160),
     (True, 6, 51349670306736498707992783666043095403853269829213037693679606912208120941142),
     (False, 22771751144470938084300386618129296723272846884761710136492891722143813148679, 78469423510692212263798265829067002093898358845096967178604446950330661080987),
     (True, 4, 86117607625580704152303920768717383244208573253116514092400792620679288880257),
     (False, 64047918920901991863953374329174407859815685249653465475024451960804037763154, 54415486559707783833466084676276155765397409798530218716393505482090335080947)]
    550 54415486559707783833466084676276155765397409798530218716393505482090335080947"
  by ((rule chain_double chain_mult, simp only: chain_eval)+, rule chain_nil, simp only: chain_eval)

lemma pc_b256_order_1: "chain 115792089237316195423570985008687907853269984665640564039457584007913129639936 4294968273 7 550 54415486559707783833466084676276155765397409798530218716393505482090335080947
    [(True, 3, 33532138206005900563549637707869366797971914592789838896381786350905841551640),
     (False, 9710544995541198169675005050119207226703918971862993096273486756730449628399, 23482883271473645777369779614618652689548408027911570217720786464197261332063),
     (False, 4762378936020984526697013744729520076691846486304372653280930603708003604926, 72548108660179045793812198328104378249786658373378918877615378501127572424031),
     (True, 4, 44668403671988538862401448261979016335426669951090175985477313476257668281565),
     (False, 17231455963407099523852949655165215309962888130228998709658797157456703212863, 39922065561585754458364534728570092821832806479890295208560624562878315648056),
     (False, 13764077746599016243356490566020481599778309090453222888461314370867958542231, 45319088094012737060908926915192414387185594187464040847576466891424252078983),
     (False, 17737133505412256407105644845713013521575953199702367180044742102835145261135, 28140378655999147541482679685681695653844192199817324363316637461859550596784),
     (True, 1, 81190561354677837366807772791083961723639360733080706503758878225108019505825),
     (False, 56928822137215046067638525165279359662011012960460858316579465914509316715564, 8475196200031646607354922111417087920114042230301288456545264996591707067693),
     (False, 620326924767867662427970868592126216246370703821424367204110535090010045733, 53511338582388391113091071752200958929987169386535782717460090217725815178270),
     (True, 3, 27203102364770151520924547239342988950100231708828786903847879500354202232901),
     (False, 6390840541373370049297165273013115267300617823881218845598647969058284941753, 19505545404782706455824617962496818133628052457122035395518558173069412230562)]
    141130 19505545404782706455824617962496818133628052457122035395518558173069412230562"
  by ((rule chain_double chain_mult, simp only: chain_eval)+, rule chain_nil, simp only: chain_eval)

lemma pc_b256_order_2: "chain 115792089237316195423570985008687907853269984665640564039457584007913129639936 4294968273 7 141130 19505545404782706455824617962496818133628052457122035395518558173069412230562
    [(False, 3285771109615900073053039219307938233225567064280191854837899513416712501542, 15111322291260025474407842368122393629503650315659794187741615773801295631498),
     (True, 0, 105779256038820178320854896576856755406525552209618559314191310416609069420486),
     (False, 96632257711438951648700337119494976381306170578268796529905076550817358914183, 1744114336159105555045918014297526003984380423634028126075528989818877579867)]
    564522 1744114336159105555045918014297526003984380423634028126075528989818877579867"
  by ((rule chain_double chain_mult, simp only: chain_eval)+, rule chain_nil, simp only: chain_eval)

lemma pc_b256_order: "7 ^ 564522 mod 115792089237316195423570985008687907853269984665640564039457584007908834671663 = (1744114336159105555045918014297526003984380423634028126075528989818877579867::nat) mod 115792089237316195423570985008687907853269984665640564039457584007908834671663"
proof -
  have N: "115792089237316195423570985008687907853269984665640564039457584007908834671663 + 4294968273 = (115792089237316195423570985008687907853269984665640564039457584007913129639936::nat)" by (simp only: arith_simps)
  have c0: "7 ^ 1 mod 115792089237316195423570985008687907853269984665640564039457584007908834671663 = (7::nat) mod 115792089237316195423570985008687907853269984665640564039457584007908834671663" by (simp only: power_one_right)
  note c1 = chain_power [OF pc_b256_order_0 N c0]
  note c2 = chain_power [OF pc_b256_order_1 N c1]
  note c3 = chain_power [OF pc_b256_order_2 N c2]
  show ?thesis by (rule c3)
qed

lemma pc_b256_cert: "pock_cert 115792089237316195423570985008687907853269984665640564039457584007908834671663 205115282021455665897114700593932402728804164701536103180137503955397371"
  by (rule pock_certI [OF pc_b237 _ _ pc_b256_full pc_b256_order, of 1744114336159105555045918014297526003984380423634028126075528989818877579866 68004816438074239153009339380444909067988085201812819886878770128452230405596 1024320193708793953425656090900665526624424441537018528597109137349880653145])
     (simp_all only: pock_eval)

lemma pc_b256: "is_prime 115792089237316195423570985008687907853269984665640564039457584007908834671663"
  by (rule pocklington [of _ "[205115282021455665897114700593932402728804164701536103180137503955397371]"])
     (simp_all only: pock_eval list.set ball_simps pc_b256_cert distinct.simps prod_list.Cons prod_list.Nil insert_iff empty_iff)

end
