(* ===== verification/Prime_Field.thy ===== *)
theory Prime_Field
  imports Field_Prime_Certificate
begin

text \<open>
  The field of integers modulo the secp256k1 field prime, the value the header comments of
  field_5x52_impl.h and field_10x26_impl.h say a field element represents.
\<close>

definition field_prime :: int where
  "field_prime = 0xFFFFFFFFFFFFFFFFFFFFFFFFFFFFFFFFFFFFFFFFFFFFFFFFFFFFFFFEFFFFFC2F"

lemma field_prime_pos [simp]: "0 < field_prime" "1 < field_prime" "field_prime \<noteq> 0"
  by (simp_all add: field_prime_def)

typedef fp = "{x :: int. 0 \<le> x \<and> x < field_prime}"
  morphisms rep_fp Abs_fp
  by (rule exI [of _ 0]) simp

setup_lifting type_definition_fp

lemma rep_fp_range [simp]: "0 \<le> rep_fp x" "rep_fp x < field_prime"
  using rep_fp [of x] by simp_all

lemma rep_fp_mod [simp]: "rep_fp x mod field_prime = rep_fp x"
  by simp

instantiation fp :: comm_ring_1
begin

lift_definition zero_fp :: fp is 0 by simp
lift_definition one_fp :: fp is 1 by simp
lift_definition plus_fp :: "fp \<Rightarrow> fp \<Rightarrow> fp" is "\<lambda>x y. (x + y) mod field_prime" by simp
lift_definition minus_fp :: "fp \<Rightarrow> fp \<Rightarrow> fp" is "\<lambda>x y. (x - y) mod field_prime" by simp
lift_definition uminus_fp :: "fp \<Rightarrow> fp" is "\<lambda>x. (- x) mod field_prime" by simp
lift_definition times_fp :: "fp \<Rightarrow> fp \<Rightarrow> fp" is "\<lambda>x y. (x * y) mod field_prime" by simp

instance
  by standard (transfer; simp add: mod_simps algebra_simps)+

end

lemma rep_fp_0 [simp]: "rep_fp 0 = 0" by (rule zero_fp.rep_eq)
lemma rep_fp_1 [simp]: "rep_fp 1 = 1" by (rule one_fp.rep_eq)
lemma rep_fp_add: "rep_fp (x + y) = (rep_fp x + rep_fp y) mod field_prime" by (rule plus_fp.rep_eq)
lemma rep_fp_diff: "rep_fp (x - y) = (rep_fp x - rep_fp y) mod field_prime" by (rule minus_fp.rep_eq)
lemma rep_fp_uminus: "rep_fp (- x) = (- rep_fp x) mod field_prime" by (rule uminus_fp.rep_eq)
lemma rep_fp_mult: "rep_fp (x * y) = (rep_fp x * rep_fp y) mod field_prime" by (rule times_fp.rep_eq)

lemma fp_eq_iff: "x = y \<longleftrightarrow> rep_fp x = rep_fp y"
  by (simp add: rep_fp_inject)

lemma rep_fp_of_nat: "rep_fp (of_nat n) = int n mod field_prime"
proof (induction n)
  case (Suc n)
  then show ?case by (simp add: rep_fp_add mod_simps)
qed simp

lemma rep_fp_of_int: "rep_fp (of_int k) = k mod field_prime"
proof (cases k)
  case (nonneg n)
  then show ?thesis by (simp add: rep_fp_of_nat)
next
  case (neg n)
  then show ?thesis by (simp only: neg of_int_minus of_int_of_nat_eq rep_fp_uminus rep_fp_of_nat mod_minus_eq)
qed

lemma of_int_fp_eq_iff: "(of_int j :: fp) = of_int k \<longleftrightarrow> j mod field_prime = k mod field_prime"
  by (simp add: fp_eq_iff rep_fp_of_int)

lemma of_nat_fp_eq_iff: "(of_nat j :: fp) = of_nat k \<longleftrightarrow> int j mod field_prime = int k mod field_prime"
  by (simp add: fp_eq_iff rep_fp_of_nat)

lemma of_int_rep_fp [simp]: "of_int (rep_fp x) = x"
  by (simp add: fp_eq_iff rep_fp_of_int)

lemma of_int_field_prime [simp]: "(of_int field_prime :: fp) = 0"
  by (simp add: fp_eq_iff rep_fp_of_int)

lemma of_int_fp_0_iff: "(of_int k :: fp) = 0 \<longleftrightarrow> field_prime dvd k"
  by (simp add: fp_eq_iff rep_fp_of_int dvd_eq_mod_eq_0)

lemma rep_fp_numeral: "rep_fp (numeral k) = numeral k mod field_prime"
  using rep_fp_of_int [of "numeral k"] by simp

text \<open>
  The modulus is prime (\<open>Field_Prime_Certificate\<close>), so every non-zero element has an inverse:
  the type is a field, and the library's field automation applies to it.
\<close>

lemma field_prime_is_prime: "is_prime (nat field_prime)"
  unfolding field_prime_def nat_numeral by (rule pc_b256)

lemma fermat_fp:
  assumes "(x :: fp) \<noteq> 0"
  shows "x ^ nat (field_prime - 1) = 1"
proof -
  define a where "a = nat (rep_fp x)"
  have x: "x = of_nat a" by (simp add: fp_eq_iff rep_fp_of_nat a_def)
  have "a \<noteq> 0" by (metis assms x of_nat_0)
  moreover have "a < nat field_prime" unfolding a_def by simp
  ultimately have "\<not> nat field_prime dvd a" by (auto dest: dvd_imp_le)
  then have "a ^ (nat field_prime - 1) mod nat field_prime = 1"
    by (rule fermat_little [OF field_prime_is_prime])
  moreover have "nat field_prime - 1 = nat (field_prime - 1)" by (simp add: nat_diff_distrib)
  ultimately have "int (a ^ nat (field_prime - 1) mod nat field_prime) = 1" by simp
  then have "int (a ^ nat (field_prime - 1)) mod field_prime = 1"
    by (simp only: zmod_int nat_0_le field_prime_pos less_imp_le)
  moreover have "x ^ nat (field_prime - 1) = of_nat (a ^ nat (field_prime - 1))"
    by (simp add: x)
  ultimately show ?thesis by (simp only: fp_eq_iff rep_fp_of_nat rep_fp_1)
qed

instantiation fp :: field
begin

definition inverse_fp :: "fp \<Rightarrow> fp" where
  "inverse_fp x = x ^ nat (field_prime - 2)"

definition divide_fp :: "fp \<Rightarrow> fp \<Rightarrow> fp" where
  "divide_fp x y = x * inverse y"

instance
proof
  fix x y :: fp
  show "x \<noteq> 0 \<Longrightarrow> inverse x * x = 1"
  proof -
    assume "x \<noteq> 0"
    then have "x ^ nat (field_prime - 1) = 1" by (rule fermat_fp)
    moreover have "nat (field_prime - 1) = Suc (nat (field_prime - 2))"
      by (simp add: field_prime_def)
    ultimately show ?thesis by (simp add: inverse_fp_def mult.commute)
  qed
  show "x div y = x * inverse y" by (rule divide_fp_def)
  show "inverse (0 :: fp) = 0" by (simp add: inverse_fp_def field_prime_def zero_power)
qed

end

lemma of_int_fp_ne_0: "0 < k \<Longrightarrow> k < field_prime \<Longrightarrow> (of_int k :: fp) \<noteq> 0"
  by (auto simp: of_int_fp_0_iff zdvd_not_zless)

lemma numeral_fp_ne_0: "numeral k < field_prime \<Longrightarrow> (numeral k :: fp) \<noteq> 0"
  using of_int_fp_ne_0 [of "numeral k"] by simp

lemma two_fp_ne_0 [simp]: "(2 :: fp) \<noteq> 0"
  by (rule numeral_fp_ne_0) (simp add: field_prime_def)

end
