(* ===== verification/Curve.thy ===== *)
theory Curve
  imports Prime_Field
begin

text \<open>
  The specification of the group module: points of the curve \<open>y^2 = x^3 + 7\<close> over the prime
  field in affine coordinates, with the chord and tangent addition, and the identities by which
  the Jacobian formulas of group_impl.h implement it.
\<close>

section \<open>Affine points\<close>

datatype point = Infty | Pt fp fp

primrec on_curve :: "point \<Rightarrow> bool" where
  "on_curve Infty \<longleftrightarrow> True"
| "on_curve (Pt x y) \<longleftrightarrow> y ^ 2 = x ^ 3 + 7"

primrec pt_neg :: "point \<Rightarrow> point" where
  "pt_neg Infty = Infty"
| "pt_neg (Pt x y) = Pt x (- y)"

definition pt_chord :: "fp \<Rightarrow> fp \<Rightarrow> fp \<Rightarrow> fp \<Rightarrow> point" where
  "pt_chord l x1 y1 x2 = (let x3 = l ^ 2 - x1 - x2 in Pt x3 (l * (x1 - x3) - y1))"

fun pt_add :: "point \<Rightarrow> point \<Rightarrow> point" where
  "pt_add Infty Q = Q"
| "pt_add P Infty = P"
| "pt_add (Pt x1 y1) (Pt x2 y2) =
     (if x1 = x2 then
        if y1 = - y2 then Infty else pt_chord (3 * x1 ^ 2 / (2 * y1)) x1 y1 x1
      else pt_chord ((y2 - y1) / (x2 - x1)) x1 y1 x2)"

lemma pt_add_Infty [simp]: "pt_add P Infty = P"
  by (cases P) simp_all

lemma same_x_on_curve:
  "on_curve (Pt x y1) \<Longrightarrow> on_curve (Pt x y2) \<Longrightarrow> y1 = y2 \<or> y1 = - y2"
  using power2_eq_iff [of y1 y2] by simp

lemma pt_chord_on_curve:
  assumes l1: "y1 ^ 2 = x1 ^ 3 + 7" and l2: "y2 ^ 2 = x2 ^ 3 + (7 :: fp)"
    and l: "l * (x2 - x1) = y2 - y1" and ne: "x1 \<noteq> x2"
  shows "on_curve (pt_chord l x1 y1 x2)"
proof -
  define x3 where "x3 = l ^ 2 - x1 - x2"
  define y3 where "y3 = l * (x1 - x3) - y1"
  have "(x2 - x1) * (y3 ^ 2 - x3 ^ 3 - 7) = 0"
    using l1 l2 l unfolding x3_def y3_def by algebra
  then have "y3 ^ 2 - x3 ^ 3 - 7 = 0" using ne by simp
  then have "y3 ^ 2 = x3 ^ 3 + 7" by algebra
  then show ?thesis by (simp add: pt_chord_def Let_def x3_def [symmetric] y3_def [symmetric])
qed

lemma pt_tangent_on_curve:
  assumes c: "y1 ^ 2 = x1 ^ 3 + (7 :: fp)" and l: "l * (2 * y1) = 3 * x1 ^ 2" and y: "y1 \<noteq> 0"
  shows "on_curve (pt_chord l x1 y1 x1)"
proof -
  define x3 where "x3 = l ^ 2 - x1 - x1"
  define y3 where "y3 = l * (x1 - x3) - y1"
  have "(2 * y1) * (y3 ^ 2 - x3 ^ 3 - 7) = 0"
    using c l unfolding x3_def y3_def by algebra
  then have "y3 ^ 2 - x3 ^ 3 - 7 = 0" using y by simp
  then have "y3 ^ 2 = x3 ^ 3 + 7" by algebra
  then show ?thesis by (simp add: pt_chord_def Let_def x3_def [symmetric] y3_def [symmetric])
qed

text \<open>The sum of two points of the curve is a point of the curve.\<close>

lemma on_curve_pt_add:
  assumes "on_curve P" "on_curve Q"
  shows "on_curve (pt_add P Q)"
proof (cases P; cases Q)
  fix x1 y1 x2 y2
  assume PQ: "P = Pt x1 y1" "Q = Pt x2 y2"
  have c: "y1 ^ 2 = x1 ^ 3 + 7" "y2 ^ 2 = x2 ^ 3 + 7" using assms PQ by simp_all
  consider "x1 = x2" "y1 = - y2" | "x1 = x2" "y1 \<noteq> - y2" | "x1 \<noteq> x2" by blast
  then show ?thesis
  proof cases
    case 1 then show ?thesis by (simp add: PQ)
  next
    case 2
    then have "y1 = y2" using same_x_on_curve [of x2 y1 y2] assms PQ by simp
    with 2 have "y1 \<noteq> 0" by auto
    then have "on_curve (pt_chord (3 * x1 ^ 2 / (2 * y1)) x1 y1 x1)"
      by (intro pt_tangent_on_curve c) simp_all
    with 2 show ?thesis by (simp add: PQ)
  next
    case 3
    then have "on_curve (pt_chord ((y2 - y1) / (x2 - x1)) x1 y1 x2)"
      by (intro pt_chord_on_curve [OF c]) simp_all
    with 3 show ?thesis by (simp add: PQ)
  qed
qed (use assms in simp_all)

text \<open>
  No point of the curve has y coordinate 0: -7 is not a cube, by the power of 7 computed in the
  primality certificate.  The same power is the cube root of unity \<open>beta\<close> of the endomorphism.
\<close>

definition beta_fp :: fp where
  "beta_fp = of_nat 55594575648329892869085402983802832744385952214688224221778511981742606582254"

lemma seven_power: "(7 :: fp) ^ nat ((field_prime - 1) div 3) = beta_fp"
proof -
  have e: "nat ((field_prime - 1) div 3)
      = 38597363079105398474523661669562635951089994888546854679819194669302944890554"
    by (simp add: field_prime_def)
  have "(of_nat (7 ^ nat ((field_prime - 1) div 3)) :: fp) = beta_fp"
    unfolding beta_fp_def of_nat_fp_eq_iff e unfolding field_prime_def
    using arg_cong [OF pc_b256_cube, of int] by (simp only: zmod_int of_nat_numeral)
  then show ?thesis by simp
qed

lemma beta_fp_ne_1: "beta_fp \<noteq> 1"
proof
  assume "beta_fp = 1"
  then have "(of_nat 55594575648329892869085402983802832744385952214688224221778511981742606582254 :: fp) = of_nat 1"
    by (simp only: beta_fp_def of_nat_1)
  then show False unfolding of_nat_fp_eq_iff by (simp add: field_prime_def)
qed

lemma minus_seven_not_cube: "(x :: fp) ^ 3 \<noteq> - 7"
proof
  assume x: "x ^ 3 = - 7"
  have "(7 :: fp) \<noteq> 0" by (rule numeral_fp_ne_0) (simp add: field_prime_def)
  with x have "x \<noteq> 0" by auto
  have e: "nat (field_prime - 1) = 3 * nat ((field_prime - 1) div 3)" "even (nat ((field_prime - 1) div 3))"
    by (simp_all add: field_prime_def)
  have "1 = x ^ nat (field_prime - 1)" using fermat_fp [OF \<open>x \<noteq> 0\<close>] by simp
  also have "\<dots> = (- 7) ^ nat ((field_prime - 1) div 3)" unfolding e(1) power_mult x ..
  also have "\<dots> = beta_fp" unfolding seven_power [symmetric] by (rule power_minus_even [OF e(2)])
  finally show False using beta_fp_ne_1 by simp
qed

lemma on_curve_y_ne_0: "on_curve (Pt x y) \<Longrightarrow> y \<noteq> 0"
  using minus_seven_not_cube [of x] by (auto simp: eq_neg_iff_add_eq_0)

lemma beta_fp_cube: "beta_fp ^ 3 = 1"
proof -
  have "(7 :: fp) \<noteq> 0" by (rule numeral_fp_ne_0) (simp add: field_prime_def)
  then have "(7 :: fp) ^ nat (field_prime - 1) = 1" by (rule fermat_fp)
  moreover have "nat ((field_prime - 1) div 3) * 3 = nat (field_prime - 1)" by (simp add: field_prime_def)
  ultimately show ?thesis unfolding seven_power [symmetric] power_mult [symmetric] by simp
qed

text \<open>No point has the x coordinate 0, which marks an unset key object: 7 is not a square.\<close>

lemma seven_sixth: "(7 :: fp) ^ nat ((field_prime - 1) div 6) = beta_fp + 1"
proof -
  have e: "nat ((field_prime - 1) div 6)
      = 19298681539552699237261830834781317975544997444273427339909597334651472445277"
    by (simp add: field_prime_def)
  have b: "beta_fp + 1 = of_nat 55594575648329892869085402983802832744385952214688224221778511981742606582255"
    by (simp only: beta_fp_def of_nat_numeral numeral_plus_one add_num_simps)
  have "(of_nat (7 ^ nat ((field_prime - 1) div 6)) :: fp) = beta_fp + 1"
    unfolding b of_nat_fp_eq_iff e unfolding field_prime_def
    using arg_cong [OF pc_b256_sixth, of int] by (simp only: zmod_int of_nat_numeral)
  then show ?thesis by simp
qed

lemma seven_not_square: "(y :: fp) ^ 2 \<noteq> 7"
proof
  assume y: "y ^ 2 = 7"
  have n: "(7 :: fp) \<noteq> 0" "(2 :: fp) \<noteq> 0" by (rule numeral_fp_ne_0, simp add: field_prime_def)+
  with y have "y \<noteq> 0" by auto
  have e: "nat (field_prime - 1) = 2 * (nat ((field_prime - 1) div 6) * 3)" by (simp add: field_prime_def)
  have "1 = y ^ nat (field_prime - 1)" using fermat_fp [OF \<open>y \<noteq> 0\<close>] by simp
  also have "\<dots> = (beta_fp + 1) ^ 3" unfolding e power_mult y seven_sixth ..
  finally have "(beta_fp + 1) ^ 3 = 1" ..
  moreover have "(beta_fp - 1) * (beta_fp ^ 2 + beta_fp + 1) = 0" using beta_fp_cube by algebra
  then have "beta_fp ^ 2 + beta_fp + 1 = 0" using beta_fp_ne_1 by simp
  moreover have "(beta_fp + 1) ^ 3 = beta_fp ^ 3 + 3 * (beta_fp ^ 2 + beta_fp + 1) - 2" by algebra
  ultimately have "(2 :: fp) = 0" by (simp add: beta_fp_cube)
  then show False using n(2) by simp
qed

lemma on_curve_x_ne_0: "on_curve (Pt x y) \<Longrightarrow> x \<noteq> 0"
  using seven_not_square [of y] by auto

section \<open>Jacobian coordinates\<close>

definition jac :: "fp \<Rightarrow> fp \<Rightarrow> fp \<Rightarrow> point" where
  "jac X Y Z = Pt (X / Z ^ 2) (Y / Z ^ 3)"

lemma jac_eqI: "Z \<noteq> 0 \<Longrightarrow> X = x * Z ^ 2 \<Longrightarrow> Y = y * Z ^ 3 \<Longrightarrow> jac X Y Z = Pt x y"
  by (simp add: jac_def)

lemma jac_cases:
  assumes "Z \<noteq> 0"
  obtains x y where "X = x * Z ^ 2" "Y = y * Z ^ 3" "jac X Y Z = Pt x y"
  using assms by (intro that [of "X / Z ^ 2" "Y / Z ^ 3"]) (simp_all add: jac_def)

lemma jac_one: "jac X Y 1 = Pt X Y"
  by (simp add: jac_def)

lemma on_curve_jac:
  assumes "Z \<noteq> 0"
  shows "on_curve (jac X Y Z) \<longleftrightarrow> Y ^ 2 = X ^ 3 + 7 * Z ^ 6"
proof -
  obtain x y where xy: "X = x * Z ^ 2" "Y = y * Z ^ 3" "jac X Y Z = Pt x y"
    using assms by (rule jac_cases)
  have "Y ^ 2 - (X ^ 3 + 7 * Z ^ 6) = (y ^ 2 - (x ^ 3 + 7)) * Z ^ 6"
    unfolding xy(1,2) by algebra
  then have "Y ^ 2 - (X ^ 3 + 7 * Z ^ 6) = 0 \<longleftrightarrow> y ^ 2 - (x ^ 3 + 7) = 0" using assms by simp
  then show ?thesis unfolding xy(3) by simp
qed

lemma jac_rescale: "s \<noteq> 0 \<Longrightarrow> jac (X * s ^ 2) (Y * s ^ 3) (Z * s) = jac X Y Z"
  by (simp add: jac_def power_mult_distrib)

lemma jac_double:
  assumes Z: "Z \<noteq> 0" and Y: "Y \<noteq> 0"
  shows "jac (9 * X ^ 4 - 8 * X * Y ^ 2) (3 * X ^ 2 * (12 * X * Y ^ 2 - 9 * X ^ 4) - 8 * Y ^ 4) (2 * (Z * Y))
       = pt_add (jac X Y Z) (jac X Y Z)"
proof -
  obtain x y where xy: "X = x * Z ^ 2" "Y = y * Z ^ 3" "jac X Y Z = Pt x y"
    using Z by (rule jac_cases)
  have y: "y \<noteq> 0" using Y xy(2) by auto
  then have "y + y \<noteq> 0" by (metis mult_2 mult_eq_0_iff two_fp_ne_0)
  then have ne: "y \<noteq> - y" by (simp add: eq_neg_iff_add_eq_0)
  define l where "l = 3 * x ^ 2 / (2 * y)"
  have l: "l * (2 * y) = 3 * x ^ 2" using y by (simp add: l_def)
  define x3 where "x3 = l ^ 2 - x - x"
  define y3 where "y3 = l * (x - x3) - y"
  define D where "D = 2 * (Z * Y)"
  have "3 * X ^ 2 = 3 * x ^ 2 * Z ^ 4" unfolding xy(1) by algebra
  also have "\<dots> = l * D" unfolding l [symmetric] D_def xy(2) by algebra
  finally have D1: "3 * X ^ 2 = l * D" .
  have D2: "4 * X * Y ^ 2 = x * D ^ 2" unfolding xy(1,2) D_def by algebra
  have D3: "8 * Y ^ 4 = y * D ^ 3" unfolding xy(1,2) D_def by algebra
  note D = D1 D2 D3
  have x: "9 * X ^ 4 - 8 * X * Y ^ 2 = x3 * D ^ 2"
    using D(1,2) unfolding x3_def by algebra
  have "3 * X ^ 2 * (12 * X * Y ^ 2 - 9 * X ^ 4) - 8 * Y ^ 4 = l * D * (x * D ^ 2 - x3 * D ^ 2) - y * D ^ 3"
    using x D by algebra
  also have "\<dots> = y3 * D ^ 3" unfolding y3_def by algebra
  finally have "3 * X ^ 2 * (12 * X * Y ^ 2 - 9 * X ^ 4) - 8 * Y ^ 4 = y3 * (2 * (Z * Y)) ^ 3"
    unfolding D_def .
  moreover have "9 * X ^ 4 - 8 * X * Y ^ 2 = x3 * (2 * (Z * Y)) ^ 2" using x unfolding D_def .
  ultimately have "jac (9 * X ^ 4 - 8 * X * Y ^ 2) (3 * X ^ 2 * (12 * X * Y ^ 2 - 9 * X ^ 4) - 8 * Y ^ 4) (2 * (Z * Y))
      = Pt x3 y3"
    using Z Y by (intro jac_eqI) simp_all
  also have "\<dots> = pt_add (jac X Y Z) (jac X Y Z)"
    using ne by (simp add: xy(3) pt_chord_def Let_def l_def [symmetric] x3_def [symmetric] y3_def [symmetric])
  finally show ?thesis .
qed

text \<open>
  Addition of different points.  With \<open>u1 = x1 * W^2\<close>, \<open>s1 = y1 * W^3\<close> and the same for the
  second point, the sum has the z coordinate \<open>W * h\<close>.
\<close>

lemma jac_add:
  assumes W: "W \<noteq> 0" and h: "x2 * W ^ 2 \<noteq> x1 * W ^ 2"
    and H: "H = x2 * W ^ 2 - x1 * W ^ 2" and I: "I = y2 * W ^ 3 - y1 * W ^ 3"
    and X: "X3 = I ^ 2 - (2 * (x1 * W ^ 2 * H ^ 2) + H ^ 3)"
    and Y: "Y3 = (x1 * W ^ 2 * H ^ 2 - X3) * I - H ^ 3 * (y1 * W ^ 3)"
  shows "jac X3 Y3 (W * H) = pt_add (Pt x1 y1) (Pt x2 y2)"
proof -
  have ne: "x1 \<noteq> x2" using h by auto
  have H0: "H \<noteq> 0" using h H by simp
  define l where "l = (y2 - y1) / (x2 - x1)"
  have l: "l * (x2 - x1) = y2 - y1" using ne by (simp add: l_def)
  define x3 where "x3 = l ^ 2 - x1 - x2"
  define y3 where "y3 = l * (x1 - x3) - y1"
  have lH: "I = l * (W * H)" using l unfolding H I by algebra
  have H': "x2 * W ^ 2 = H + x1 * W ^ 2" using H by simp
  have x: "X3 = x3 * (W * H) ^ 2"
    using H' unfolding X x3_def lH by algebra
  have "Y3 = y3 * (W * H) ^ 3"
    unfolding Y y3_def x lH by algebra
  with x have "jac X3 Y3 (W * H) = Pt x3 y3"
    using W H0 by (intro jac_eqI) simp_all
  with ne show ?thesis
    by (simp add: pt_chord_def Let_def l_def [symmetric] x3_def [symmetric] y3_def [symmetric])
qed

text \<open>
  The unified formula.  \<open>l\<close> is the slope of the line through both points, given as the quotient
  \<open>R / (W * M)\<close> of the code; the y coordinate uses both points symmetrically.
\<close>

lemma pt_add_line:
  assumes ne: "x1 \<noteq> x2 \<Longrightarrow> l * (x2 - x1) = y2 - y1"
    and eq: "x1 = x2 \<Longrightarrow> y1 = y2 \<and> y1 \<noteq> 0 \<and> l * (2 * y1) = 3 * x1 ^ 2"
    and x3: "x3 = l ^ 2 - x1 - x2" and y3: "2 * y3 = l * (x1 + x2 - 2 * x3) - (y1 + y2)"
  shows "pt_add (Pt x1 y1) (Pt x2 y2) = Pt x3 y3"
proof (cases "x1 = x2")
  case True
  then have y: "y1 = y2" "y1 \<noteq> 0" "l * (2 * y1) = 3 * x1 ^ 2" using eq by blast+
  have "y1 + y1 \<noteq> 0" using y(2) by (metis mult_2 mult_eq_0_iff two_fp_ne_0)
  then have n: "y1 \<noteq> - y1" by (simp add: eq_neg_iff_add_eq_0)
  have "3 * x1 ^ 2 / (2 * y1) = l" unfolding y(3) [symmetric] using y(2) by simp
  moreover have "2 * (l * (x1 - x3) - y1) = 2 * y3" using y3 unfolding y(1) True by algebra
  then have "l * (x1 - x3) - y1 = y3" using two_fp_ne_0 mult_left_cancel by blast
  ultimately show ?thesis
    using n by (simp add: True [symmetric] y(1) [symmetric] pt_chord_def Let_def x3)
next
  case False
  then have l: "l * (x2 - x1) = y2 - y1" by (rule ne)
  have "(y2 - y1) / (x2 - x1) = l" unfolding l [symmetric] using False by simp
  moreover have "2 * (l * (x1 - x3) - y1) = 2 * y3" using y3 l by algebra
  then have "l * (x1 - x3) - y1 = y3" using two_fp_ne_0 mult_left_cancel by blast
  ultimately show ?thesis
    using False by (simp add: pt_chord_def Let_def x3)
qed

lemma jac_unified:
  assumes c: "y1 ^ 2 = x1 ^ 3 + 7" "y2 ^ 2 = x2 ^ 3 + (7 :: fp)" and W: "W \<noteq> 0"
    and u: "u1 = x1 * W ^ 2" "u2 = x2 * W ^ 2" "s1 = y1 * W ^ 3" "s2 = y2 * W ^ 3"
    and T: "T = u1 + u2" and M0: "M0 = s1 + s2" and R0: "R0 = T ^ 2 - u1 * u2"
    and deg: "deg \<longleftrightarrow> M0 = 0 \<and> R0 = 0"
    and R: "R = (if deg then 2 * s1 else R0)" and M: "M = (if deg then u1 - u2 else M0)"
    and N: "N = (if deg then M0 else M ^ 4)"
  shows "(if W * M = 0 then Infty
     else jac (4 * (R ^ 2 - T * M ^ 2)) (- (4 * ((2 * (R ^ 2 - T * M ^ 2) - T * M ^ 2) * R + N))) (2 * (W * M)))
       = pt_add (Pt x1 y1) (Pt x2 y2)"
proof (cases "M = 0")
  case True
  have "(u1 - u2) * R0 = 0" if "M0 = 0"
  proof -
    have "(u1 - u2) * R0 = (x1 ^ 3 - x2 ^ 3) * W ^ 6" unfolding R0 T u by algebra
    also have "\<dots> = (y1 ^ 2 - y2 ^ 2) * W ^ 6" using c by simp
    also have "\<dots> = (s1 - s2) * M0" unfolding M0 u by algebra
    finally show ?thesis using that by simp
  qed
  with True have us: "u1 = u2" "s1 + s2 = 0"
    unfolding M using M0 deg by (auto split: if_splits)
  have "(y1 + y2) * W ^ 3 = 0" using us(2) unfolding u by algebra
  then have "x1 = x2 \<and> y1 = - y2" using us(1) W unfolding u by (simp add: eq_neg_iff_add_eq_0)
  with True show ?thesis by simp
next
  case False
  define l where "l = R / (W * M)"
  have l: "R = l * (W * M)" using W False by (simp add: l_def)
  define x3 where "x3 = l ^ 2 - x1 - x2"
  define y3 where "y3 = (l * (x1 + x2 - 2 * x3) - (y1 + y2)) / 2"
  have y3: "2 * y3 = l * (x1 + x2 - 2 * x3) - (y1 + y2)" by (simp add: y3_def)
  have "pt_add (Pt x1 y1) (Pt x2 y2) = Pt x3 y3"
  proof (rule pt_add_line [OF _ _ x3_def y3])
    assume ne: "x1 \<noteq> x2"
    show "l * (x2 - x1) = y2 - y1"
    proof (cases deg)
      case True
      then have "y1 = - y2" using deg M0 W unfolding u by (simp add: distrib_right [symmetric] eq_neg_iff_add_eq_0 del: distrib_right)
      moreover have "M = (x1 - x2) * W ^ 2" "R = 2 * y1 * W ^ 3" using True M R u by (simp_all add: algebra_simps)
      then have "l = 2 * y1 / (x1 - x2)" using W ne unfolding l_def by (simp add: power2_eq_square power3_eq_cube)
      ultimately show ?thesis using ne by (simp add: field_simps)
    next
      case False
      then have "M = s1 + s2" "R = (u1 + u2) ^ 2 - u1 * u2" using M R M0 R0 T by simp_all
      then have MR: "M = (y1 + y2) * W ^ 3" "R = (x1 ^ 2 + x1 * x2 + x2 ^ 2) * W ^ 4"
        unfolding u by algebra+
      have "(l * (x2 - x1) - (y2 - y1)) * (W * M) = R * (x2 - x1) - (y2 - y1) * (W * M)"
        unfolding l by algebra
      also have "\<dots> = ((x2 ^ 3 - x1 ^ 3) - (y2 ^ 2 - y1 ^ 2)) * W ^ 4" unfolding MR by algebra
      also have "\<dots> = 0" using c by simp
      finally show ?thesis using W \<open>M \<noteq> 0\<close> by simp
    qed
  next
    assume eq: "x1 = x2"
    with False u M have nd: "\<not> deg" by auto
    then have "M = s1 + s2" "R = (u1 + u2) ^ 2 - u1 * u2" using M R M0 R0 T by simp_all
    then have MR: "M = (y1 + y2) * W ^ 3" "R = 3 * x1 ^ 2 * W ^ 4"
      unfolding u eq [symmetric] by algebra+
    have "y1 \<noteq> - y2" using MR(1) False by auto
    then have y: "y1 = y2" using same_x_on_curve [of x1 y1 y2] c eq by auto
    with \<open>y1 \<noteq> - y2\<close> have "y1 \<noteq> 0" by auto
    moreover have "(l * (2 * y1) - 3 * x1 ^ 2) * (W ^ 4) = 0"
      using l MR y by algebra
    then have "l * (2 * y1) = 3 * x1 ^ 2" using W by simp
    ultimately show "y1 = y2 \<and> y1 \<noteq> 0 \<and> l * (2 * y1) = 3 * x1 ^ 2" using y by blast
  qed
  moreover have "jac (4 * (R ^ 2 - T * M ^ 2)) (- (4 * ((2 * (R ^ 2 - T * M ^ 2) - T * M ^ 2) * R + N))) (2 * (W * M)) = Pt x3 y3"
  proof (rule jac_eqI)
    show "2 * (W * M) \<noteq> 0" using W False by simp
    have r: "R ^ 2 - T * M ^ 2 = x3 * (W * M) ^ 2" unfolding x3_def l T u by algebra
    then show "4 * (R ^ 2 - T * M ^ 2) = x3 * (2 * (W * M)) ^ 2" by algebra
    have n: "N = (y1 + y2) * (W * M) ^ 3"
    proof (cases deg)
      case True
      then have "M0 = 0" using deg by blast
      moreover from this have "y1 + y2 = 0" using M0 W unfolding u by (simp add: distrib_right [symmetric] del: distrib_right)
      ultimately show ?thesis using True N by simp
    next
      case False
      then have "M = (y1 + y2) * W ^ 3" using M M0 u by (simp add: distrib_right)
      moreover have "N = M ^ 4" using False N by simp
      ultimately show ?thesis by algebra
    qed
    have t: "T = (x1 + x2) * W ^ 2" unfolding T u by algebra
    show "- (4 * ((2 * (R ^ 2 - T * M ^ 2) - T * M ^ 2) * R + N)) = y3 * (2 * (W * M)) ^ 3"
      unfolding r unfolding n t unfolding l using y3 by algebra
  qed
  ultimately show ?thesis using W False by simp
qed

end
