(* ===== verification/Prelude.thy ===== *)
theory Prelude
  imports Main "HOL-Library.Word"
begin

text \<open>
  Shared vocabulary of the development: the machine integer types of the C code, the
  collection \<open>unat_simps\<close> of facts that read a machine operation as arithmetic on natural
  numbers, and the byte strings (big endian) through which field elements and scalars enter
  and leave the library.
\<close>

unbundle bit_operations_syntax

section \<open>Machine integers\<close>

type_synonym u8 = "8 word"
type_synonym u32 = "32 word"
type_synonym u64 = "64 word"
type_synonym u128 = "128 word"

text \<open>A C \<open>int\<close>: 32 bits, read as signed where the code converts it to a wider type.\<close>

type_synonym cint = "32 word"

named_theorems unat_simps

lemma unat_drop [unat_simps]: "unat (drop_bit n x) = unat x div 2 ^ n"
  for x :: "'a::len word"
  by (rule trans [OF unat_drop_bit_eq drop_bit_eq_div])

lemma unat_take [unat_simps]: "unat (take_bit n x) = unat x mod 2 ^ n"
  for x :: "'a::len word"
  by (rule trans [OF unsigned_take_bit_eq take_bit_eq_mod])

lemma unat_add_small:
  "unat x + unat y < 2 ^ LENGTH('a) \<Longrightarrow> unat (x + y) = unat x + unat y"
  for x y :: "'a::len word"
  by (simp add: unat_word_ariths)

lemma unat_mult_small:
  "unat x * unat y < 2 ^ LENGTH('a) \<Longrightarrow> unat (x * y) = unat x * unat y"
  for x y :: "'a::len word"
  by (simp add: unat_word_ariths)

lemma unat_diff_small: "unat y \<le> unat x \<Longrightarrow> unat (x - y) = unat x - unat y"
  for x y :: "'a::len word"
  by (simp add: unat_sub word_le_nat_alt)

lemma unat_less [simp]: "unat x < 2 ^ LENGTH('a)" for x :: "'a::len word"
  by (rule unsigned_less)

lemma unat_64 [simp]: "unat x < 2 ^ 64" for x :: u64
  using unat_less [of x] by simp

lemma unat_32 [simp]: "unat x < 2 ^ 32" for x :: u32
  using unat_less [of x] by simp

lemma unat_8 [simp]: "unat x < 2 ^ 8" for x :: u8
  using unat_less [of x] by simp

lemma unat_add64: "unat x + unat y < 2 ^ 64 \<Longrightarrow> unat (x + y) = unat x + unat y" for x y :: u64
  by (rule unat_add_small) simp

lemma unat_mult64: "unat x * unat y < 2 ^ 64 \<Longrightarrow> unat (x * y) = unat x * unat y" for x y :: u64
  by (rule unat_mult_small) simp

lemma unat_add128: "unat x + unat y < 2 ^ 128 \<Longrightarrow> unat (x + y) = unat x + unat y" for x y :: u128
  by (rule unat_add_small) simp

lemma unat_mult128: "unat x * unat y < 2 ^ 128 \<Longrightarrow> unat (x * y) = unat x * unat y" for x y :: u128
  by (rule unat_mult_small) simp

lemma unat_ucast_mod: "unat (ucast x :: 'b::len word) = unat x mod 2 ^ LENGTH('b)"
  for x :: "'a::len word"
  by (simp add: unsigned_ucast_eq take_bit_eq_mod)

lemma unat_ucast_small:
  "unat x < 2 ^ LENGTH('b) \<Longrightarrow> unat (ucast x :: 'b::len word) = unat x"
  for x :: "'a::len word"
  by (simp add: unat_ucast_mod)

lemma unat_ucast_64_128 [unat_simps]: "unat (ucast x :: u128) = unat x" for x :: u64
  by (rule unat_ucast_small) (rule less_trans [OF unat_64], simp)

lemma unat_ucast_32_64 [unat_simps]: "unat (ucast x :: u64) = unat x" for x :: u32
  by (rule unat_ucast_small) (rule less_trans [OF unat_32], simp)

lemma unat_ucast_8_64 [unat_simps]: "unat (ucast x :: u64) = unat x" for x :: u8
  by (rule unat_ucast_small) (rule less_trans [OF unat_8], simp)

lemma unat_ucast_128_64: "unat (ucast x :: u64) = unat x mod 2 ^ 64" for x :: u128
  by (simp add: unat_ucast_mod)

text \<open>The low bits of a word and the rest: the shape in which carries are propagated.\<close>

lemma divmod_pow2:
  fixes n :: nat
  obtains h l where "n = l + 2 ^ k * h" "l < 2 ^ k" "n div 2 ^ k = h" "n mod 2 ^ k = l"
  by (rule that [of "n mod 2 ^ k" "n div 2 ^ k"]) simp_all

lemma and_mask_take: "x AND mask n = take_bit n x" for x :: "'a::len word"
  by (simp add: take_bit_eq_mask)

lemma unat_and_mask: "unat (x AND mask n) = unat x mod 2 ^ n" for x :: "'a::len word"
  by (simp only: and_mask_take unat_take)

lemma mask_literals:
  "(0xFFFFFFFFFFFFF :: 'a::len word) = mask 52"
  "(0xFFFFFFFFFFFF :: 'a::len word) = mask 48"
  "(0xFFFFFFFFFFFFFFFF :: 'a::len word) = mask 64"
  "(0x3FFFFFF :: 'a::len word) = mask 26"
  "(0x3FFFFF :: 'a::len word) = mask 22"
  "(0xFFFFFFFF :: 'a::len word) = mask 32"
  by (simp_all add: mask_eq_exp_minus_1)

lemma unat_and_literal [unat_simps]:
  "unat (x AND 0xFFFFFFFFFFFFF) = unat x mod 2 ^ 52"
  "unat (x AND 0xFFFFFFFFFFFF) = unat x mod 2 ^ 48"
  "unat (x AND 0xFFFFFFFFFFFFFFFF) = unat x mod 2 ^ 64"
  "unat (x AND 0x3FFFFFF) = unat x mod 2 ^ 26"
  "unat (x AND 0x3FFFFF) = unat x mod 2 ^ 22"
  "unat (x AND 0xFFFFFFFF) = unat x mod 2 ^ 32"
  for x :: "'a::len word"
  by (simp_all only: mask_literals unat_and_mask)

lemma mult_less_pow2:
  fixes x y :: nat
  assumes "x < 2 ^ m" "y < 2 ^ n" "m + n = k"
  shows "x * y < 2 ^ k"
  using mult_strict_mono [OF assms(1,2)] by (simp add: power_add flip: assms(3))

lemma mod_less_pow2: "n mod 2 ^ k < (2 ^ k :: nat)"
  by simp

lemma word_eq_of_unat: "unat x = unat y \<Longrightarrow> x = y" for x y :: "'a::len word"
  by (rule word_unat_eq_iff [THEN iffD2])

section \<open>Bits of natural numbers\<close>

lemma bit_add_low:
  fixes x y :: nat
  assumes "y < 2 ^ k"
  shows "bit (x * 2 ^ k + y) j = (if j < k then bit y j else bit x (j - k))"
proof -
  have "x * 2 ^ k + y = push_bit k x OR y"
  proof -
    have "push_bit k x AND y = 0"
    proof (rule bit_eqI)
      fix j
      have "take_bit k y = y" using assms by (simp add: take_bit_nat_eq_self_iff)
      then have "bit y j \<Longrightarrow> j < k" by (metis bit_take_bit_iff)
      then show "bit (push_bit k x AND y) j = bit 0 j"
        by (auto simp: bit_and_iff bit_push_bit_iff)
    qed
    then show ?thesis using disjunctive_add_eq_or [of "push_bit k x" y] by (simp add: push_bit_eq_mult)
  qed
  moreover have "take_bit k y = y" using assms by (simp add: take_bit_nat_eq_self_iff)
  then have "bit y j \<Longrightarrow> j < k" by (metis bit_take_bit_iff)
  ultimately show ?thesis by (auto simp: bit_or_iff bit_push_bit_iff)
qed

lemma bit_nat_bound: "n < 2 ^ k \<Longrightarrow> bit n j \<Longrightarrow> j < k" for n :: nat
  by (metis bit_take_bit_iff take_bit_nat_eq_self_iff)

lemma bit_unat: "bit (unat x) j = bit x j" for x :: "'a::len word"
  by (rule bit_unsigned_iff [THEN trans]) (auto simp: bit_imp_le_length)

section \<open>Bit fields of words\<close>

lemma unat_scast_cint: "unat x < 2 ^ 31 \<Longrightarrow> unat (scast x :: u64) = unat x" for x :: cint
proof -
  assume a: "unat x < 2 ^ 31"
  then have "int (unat x) < int (2 ^ 31)" by (rule of_nat_less_iff [THEN iffD2])
  then have "uint x < 2 ^ 31" by (simp only: of_nat_unat of_nat_power of_nat_numeral)
  then have "signed_take_bit 31 (uint x) = uint x"
    by (intro signed_take_bit_int_eq_self order_trans [OF _ uint_ge_0]) simp_all
  then have "sint x = int (unat x)" by (simp add: sint_uint)
  then have "(scast x :: u64) = word_of_nat (unat x)" by (metis of_int_of_nat_eq of_int_sint)
  then show ?thesis by (simp add: unat_ucast_32_64)
qed

lemma take_bit_self: "unat x < 2 ^ k \<Longrightarrow> take_bit k x = x" for x :: "'a::len word"
  by (simp add: word_unat_eq_iff unat_take)

lemma bit_small: "unat x < 2 ^ k \<Longrightarrow> bit x j \<Longrightarrow> j < k" for x :: "'a::len word"
  by (metis bit_nat_bound bit_unat)

lemma len64: "LENGTH(64) = 64"
  by simp

lemma unat_or_push_bit:
  fixes x y :: u64
  assumes "unat x < 2 ^ k" "unat y * 2 ^ k < 2 ^ 64" "k < 64"
  shows "unat (x OR push_bit k y) = unat x + 2 ^ k * unat y"
proof -
  have "x AND push_bit k y = 0"
    by (rule bit_eqI) (use assms(1) in \<open>auto simp: bit_and_iff bit_push_bit_iff dest: bit_small\<close>)
  then have e: "x OR push_bit k y = x + push_bit k y"
    by (simp add: disjunctive_add_eq_or)
  have p: "unat (push_bit k y) = 2 ^ k * unat y"
    using mod_less [OF assms(2)]
    by (simp only: unsigned_push_bit_eq) (simp only: take_bit_eq_mod push_bit_eq_mult len64 mult.commute)
  have k: "(2 :: nat) ^ 64 = 2 ^ (64 - k) * 2 ^ k" using assms(3) by (simp flip: power_add)
  have "unat y + 1 \<le> 2 ^ (64 - k)" using assms(2) unfolding k by simp
  then have "(unat y + 1) * 2 ^ k \<le> 2 ^ 64" unfolding k by (rule mult_le_mono1)
  then have "unat x + 2 ^ k * unat y < 2 ^ 64" using assms(1) by (simp add: algebra_simps)
  then show ?thesis unfolding e by (subst unat_add64) (simp_all only: p)
qed

lemma unat_and_low:
  "unat (x AND 0xFFFFF) = unat x mod 2 ^ 20" "unat (x AND 0xFF) = unat x mod 2 ^ 8"
  "unat (x AND 0xFFFFFFF) = unat x mod 2 ^ 28" "unat (x AND 0xFFFF) = unat x mod 2 ^ 16"
  for x :: "'a::len word"
proof -
  have "(0xFFFFF :: 'a word) = mask 20" "(0xFF :: 'a word) = mask 8" "(0xFFFFFFF :: 'a word) = mask 28"
    "(0xFFFF :: 'a word) = mask 16"
    by (simp_all add: mask_eq_exp_minus_1)
  then show "unat (x AND 0xFFFFF) = unat x mod 2 ^ 20" "unat (x AND 0xFF) = unat x mod 2 ^ 8"
  "unat (x AND 0xFFFFFFF) = unat x mod 2 ^ 28" "unat (x AND 0xFFFF) = unat x mod 2 ^ 16"
    by (simp_all only: unat_and_mask)
qed

section \<open>Big-endian byte strings\<close>

primrec be_nat :: "u8 list \<Rightarrow> nat" where
  "be_nat [] = 0"
| "be_nat (b # bs) = unat b * 256 ^ length bs + be_nat bs"

lemma be_nat_less: "be_nat bs < 256 ^ length bs"
proof (induction bs)
  case (Cons b bs)
  have "unat b \<le> 255" using unat_8 [of b] by simp
  then have "unat b * 256 ^ length bs \<le> 255 * 256 ^ length bs" by (rule mult_le_mono1)
  moreover have "256 ^ length (b # bs) = 255 * 256 ^ length bs + (256 ^ length bs :: nat)" by simp
  ultimately show ?case using Cons by (simp only: be_nat.simps)
qed simp

lemma be_nat_less_32: "length bs = 32 \<Longrightarrow> be_nat bs < 2 ^ 256"
  using be_nat_less [of bs] by simp

lemma be_nat_append: "be_nat (xs @ ys) = be_nat xs * 256 ^ length ys + be_nat ys"
  by (induction xs) (simp_all add: power_add algebra_simps)

lemma bit_be_nat:
  "i < length bs \<Longrightarrow> m < 8 \<Longrightarrow> bit (be_nat bs) (8 * i + m) = bit (bs ! (length bs - 1 - i)) m"
proof (induction bs)
  case (Cons b bs)
  have lt: "be_nat bs < 2 ^ (8 * length bs)"
    using be_nat_less [of bs] by (simp add: power_mult)
  have e: "be_nat (b # bs) = unat b * 2 ^ (8 * length bs) + be_nat bs"
    by (simp add: power_mult)
  show ?case
  proof (cases "i < length bs")
    case True
    then have "8 * i + m < 8 * length bs" using Cons.prems(2) by linarith
    with True Cons show ?thesis
      unfolding e by (simp add: bit_add_low [OF lt] nth_Cons')
  next
    case False
    with Cons.prems have "i = length bs" by simp
    then show ?thesis
      unfolding e by (simp add: bit_add_low [OF lt] bit_unat)
  qed
qed simp

lemma be_nat_eqI:
  assumes len: "length bs = n" and N: "N < 2 ^ (8 * n)"
    and bits: "\<And>i m. i < n \<Longrightarrow> m < 8 \<Longrightarrow> bit (bs ! (n - 1 - i)) m = bit N (8 * i + m)"
  shows "be_nat bs = N"
proof (rule bit_eqI)
  fix j
  show "bit (be_nat bs) j = bit N j"
  proof (cases "j < 8 * n")
    case True
    define i m where "i = j div 8" and "m = j mod 8"
    have "j = 8 * i + m" "i < n" "m < 8" using True by (auto simp: i_def m_def)
    then show ?thesis using bits [of i m] bit_be_nat [of i bs m] len by simp
  next
    case False
    then show ?thesis
      using bit_nat_bound [OF N] bit_nat_bound [of "be_nat bs" "8 * n"] be_nat_less [of bs] len
      by (auto simp: power_mult)
  qed
qed

lemma be_nat_inj: "length xs = length ys \<Longrightarrow> be_nat xs = be_nat ys \<Longrightarrow> xs = ys"
proof (induction xs ys rule: list_induct2)
  case (Cons x xs y ys)
  have *: "be_nat xs < 256 ^ length ys" "be_nat ys < 256 ^ length ys"
    using be_nat_less [of xs] be_nat_less [of ys] Cons.hyps by simp_all
  have "(unat x * 256 ^ length ys + be_nat xs) div 256 ^ length ys
      = (unat y * 256 ^ length ys + be_nat ys) div 256 ^ length ys"
    using Cons.prems Cons.hyps by simp
  then have "unat x = unat y" using * by simp
  with Cons show ?case by (simp add: word_eq_of_unat)
qed simp

end
