(* ===== verification/Field_Interface.thy ===== *)
theory Field_Interface
  imports Prelude Prime_Field
begin

text \<open>
  The field element module as its clients see it: field.h.  The build selects one of two
  representations (field_5x52 or field_10x26) and everything above it is compiled against
  the prototypes of field.h.  Here those prototypes are the record \<open>field_ops\<close>; a client is
  a function of that record, and the contract the comments of field.h state (magnitudes,
  normal form, the value of each result) is the locale \<open>field_impl\<close>, interpreted on each
  representation in the theory that models it.
\<close>

section \<open>The operations of field.h\<close>

text \<open>
  The out-parameters of the C functions are results.  Functions that return a truth value as
  an \<open>int\<close> return a \<open>bool\<close>; \<open>fe_set_b32\<close> returns its verdict and the element it wrote.
\<close>

record ('fe, 'st) field_ops =
  fe_const :: "u32 \<Rightarrow> u32 \<Rightarrow> u32 \<Rightarrow> u32 \<Rightarrow> u32 \<Rightarrow> u32 \<Rightarrow> u32 \<Rightarrow> u32 \<Rightarrow> 'fe"
  fe_normalize :: "'fe \<Rightarrow> 'fe"
  fe_normalize_weak :: "'fe \<Rightarrow> 'fe"
  fe_normalize_var :: "'fe \<Rightarrow> 'fe"
  fe_normalizes_to_zero :: "'fe \<Rightarrow> bool"
  fe_normalizes_to_zero_var :: "'fe \<Rightarrow> bool"
  fe_set_int :: "cint \<Rightarrow> 'fe"
  fe_clear :: "'fe"
  fe_is_zero :: "'fe \<Rightarrow> bool"
  fe_is_odd :: "'fe \<Rightarrow> bool"
  fe_cmp_var :: "'fe \<Rightarrow> 'fe \<Rightarrow> int"
  fe_set_b32 :: "u8 list \<Rightarrow> bool \<times> 'fe"
  fe_get_b32 :: "'fe \<Rightarrow> u8 list"
  fe_negate :: "'fe \<Rightarrow> cint \<Rightarrow> 'fe"
  fe_mul_int :: "'fe \<Rightarrow> cint \<Rightarrow> 'fe"
  fe_add :: "'fe \<Rightarrow> 'fe \<Rightarrow> 'fe"
  fe_mul :: "'fe \<Rightarrow> 'fe \<Rightarrow> 'fe"
  fe_sqr :: "'fe \<Rightarrow> 'fe"
  fe_to_storage :: "'fe \<Rightarrow> 'st"
  fe_from_storage :: "'st \<Rightarrow> 'fe"
  fe_storage_cmov :: "'st \<Rightarrow> 'st \<Rightarrow> cint \<Rightarrow> 'st"
  fe_cmov :: "'fe \<Rightarrow> 'fe \<Rightarrow> cint \<Rightarrow> 'fe"

definition fe_const_nat :: "u32 \<Rightarrow> u32 \<Rightarrow> u32 \<Rightarrow> u32 \<Rightarrow> u32 \<Rightarrow> u32 \<Rightarrow> u32 \<Rightarrow> u32 \<Rightarrow> nat" where
  "fe_const_nat d7 d6 d5 d4 d3 d2 d1 d0 =
     unat d0 + 2 ^ 32 * unat d1 + 2 ^ 64 * unat d2 + 2 ^ 96 * unat d3 + 2 ^ 128 * unat d4
     + 2 ^ 160 * unat d5 + 2 ^ 192 * unat d6 + 2 ^ 224 * unat d7"

section \<open>The contract\<close>

text \<open>
  \<open>fval\<close> is the field element a representation stands for, \<open>mag m\<close> says its magnitude is at
  most \<open>m\<close> and \<open>nrm\<close> that it is in normal form.  Every law carries the magnitude its comment
  in field.h asks for; 32 is the largest magnitude both representations accept.
\<close>

locale field_impl =
  fixes F :: "('fe, 'st) field_ops"
    and fval :: "'fe \<Rightarrow> fp"
    and mag :: "nat \<Rightarrow> 'fe \<Rightarrow> bool"
    and nrm :: "'fe \<Rightarrow> bool"
  assumes mag_mono: "mag m a \<Longrightarrow> m \<le> k \<Longrightarrow> k \<le> 32 \<Longrightarrow> mag k a"
    and nrm_mag: "nrm a \<Longrightarrow> mag 1 a"
    and nrm_inj: "nrm a \<Longrightarrow> nrm b \<Longrightarrow> fval a = fval b \<Longrightarrow> a = b"
    and const_law: "fe_const_nat d7 d6 d5 d4 d3 d2 d1 d0 < nat field_prime \<Longrightarrow>
          nrm (fe_const F d7 d6 d5 d4 d3 d2 d1 d0) \<and>
          fval (fe_const F d7 d6 d5 d4 d3 d2 d1 d0) = of_nat (fe_const_nat d7 d6 d5 d4 d3 d2 d1 d0)"
    and normalize_law: "mag 32 a \<Longrightarrow> nrm (fe_normalize F a) \<and> fval (fe_normalize F a) = fval a"
    and normalize_var_law:
          "mag 32 a \<Longrightarrow> nrm (fe_normalize_var F a) \<and> fval (fe_normalize_var F a) = fval a"
    and normalize_weak_law:
          "mag 32 a \<Longrightarrow> mag 1 (fe_normalize_weak F a) \<and> fval (fe_normalize_weak F a) = fval a"
    and ntz_law: "mag 32 a \<Longrightarrow> fe_normalizes_to_zero F a \<longleftrightarrow> fval a = 0"
    and ntz_var_law: "mag 32 a \<Longrightarrow> fe_normalizes_to_zero_var F a \<longleftrightarrow> fval a = 0"
    and set_int_law: "unat w < 2 ^ 26 \<Longrightarrow> nrm (fe_set_int F w) \<and> fval (fe_set_int F w) = of_nat (unat w)"
    and clear_law: "nrm (fe_clear F) \<and> fval (fe_clear F) = 0"
    and is_zero_law: "nrm a \<Longrightarrow> fe_is_zero F a \<longleftrightarrow> fval a = 0"
    and is_odd_law: "nrm a \<Longrightarrow> fe_is_odd F a \<longleftrightarrow> odd (rep_fp (fval a))"
    and cmp_law: "nrm a \<Longrightarrow> nrm b \<Longrightarrow> fe_cmp_var F a b = sgn (rep_fp (fval a) - rep_fp (fval b))"
    and set_b32_law: "length bs = 32 \<Longrightarrow> fe_set_b32 F bs = (ok, r) \<Longrightarrow>
          ok = (be_nat bs < nat field_prime) \<and> mag 1 r \<and> fval r = of_nat (be_nat bs) \<and> (ok \<longrightarrow> nrm r)"
    and get_b32_law: "nrm a \<Longrightarrow> length (fe_get_b32 F a) = 32 \<and> int (be_nat (fe_get_b32 F a)) = rep_fp (fval a)"
    and negate_law: "mag (unat w) a \<Longrightarrow> unat w < 32 \<Longrightarrow>
          mag (unat w + 1) (fe_negate F a w) \<and> fval (fe_negate F a w) = - fval a"
    and mul_int_law: "mag m a \<Longrightarrow> m * unat w \<le> 32 \<Longrightarrow> 0 < m \<Longrightarrow>
          mag (m * unat w) (fe_mul_int F a w) \<and> fval (fe_mul_int F a w) = of_nat (unat w) * fval a"
    and add_law: "mag m a \<Longrightarrow> mag k b \<Longrightarrow> m + k \<le> 32 \<Longrightarrow>
          mag (m + k) (fe_add F a b) \<and> fval (fe_add F a b) = fval a + fval b"
    and mul_law: "mag 8 a \<Longrightarrow> mag 8 b \<Longrightarrow> mag 1 (fe_mul F a b) \<and> fval (fe_mul F a b) = fval a * fval b"
    and sqr_law: "mag 8 a \<Longrightarrow> mag 1 (fe_sqr F a) \<and> fval (fe_sqr F a) = fval a * fval a"
    and storage_law: "nrm a \<Longrightarrow> fe_from_storage F (fe_to_storage F a) = a"
    and storage_cmov_law: "fe_storage_cmov F s t (of_bool c) = (if c then t else s)"
    and cmov_law: "fe_cmov F r a (of_bool c) = (if c then a else r)"

end
