(* ===== verification/Field_5x52.thy ===== *)
theory Field_5x52
  imports Field_Interface
begin

text \<open>
  The 64-bit representation of field elements (field_5x52.h, field_5x52_impl.h): five limbs
  of 52 bits, each held in 64 bits so that carries can be postponed.  This theory models every
  operation of field_5x52_impl.h but the multiplication proper, which is in \<open>Field_5x52_Mul\<close>
  with the interpretation of the field contract.
\<close>

section \<open>Data\<close>

text \<open>\<open>secp256k1_fe\<close>: the array \<open>n[5]\<close>, least significant limb first.\<close>

datatype fe52 = Fe52 u64 u64 u64 u64 u64

text \<open>\<open>secp256k1_fe_storage\<close>: the array \<open>n[4]\<close> of full 64-bit limbs.\<close>

datatype fe52_storage = Fe52_Storage u64 u64 u64 u64

text \<open>The value of the limbs, \<open>sum(i=0..4, elem[i]*2^52)\<close>, and its residue.\<close>

fun fe52_val :: "fe52 \<Rightarrow> nat" where
  "fe52_val (Fe52 n0 n1 n2 n3 n4) =
     unat n0 + 2 ^ 52 * unat n1 + 2 ^ 104 * unat n2 + 2 ^ 156 * unat n3 + 2 ^ 208 * unat n4"

definition fe52_fval :: "fe52 \<Rightarrow> fp" where
  "fe52_fval a = of_nat (fe52_val a)"

text \<open>
  The check of a VERIFY build: the limbs are bounded by the magnitude, and a normalized element
  is below the field prime.
\<close>

fun fe52_verify :: "nat \<Rightarrow> bool \<Rightarrow> fe52 \<Rightarrow> bool" where
  "fe52_verify magnitude normalized (Fe52 d0 d1 d2 d3 d4) =
     (let m = (if normalized then 1 else 2 * magnitude);
          r = (unat d0 \<le> 0xFFFFFFFFFFFFF * m \<and> unat d1 \<le> 0xFFFFFFFFFFFFF * m \<and>
               unat d2 \<le> 0xFFFFFFFFFFFFF * m \<and> unat d3 \<le> 0xFFFFFFFFFFFFF * m \<and>
               unat d4 \<le> 0x0FFFFFFFFFFFF * m \<and> magnitude \<le> 2048)
      in r \<and> (normalized \<longrightarrow> magnitude \<le> 1 \<and>
           (d4 = 0x0FFFFFFFFFFFF \<and> d3 AND d2 AND d1 = 0xFFFFFFFFFFFFF \<longrightarrow>
              d0 < 0xFFFFEFFFFFC2F)))"

abbreviation fe52_mag :: "nat \<Rightarrow> fe52 \<Rightarrow> bool" where
  "fe52_mag m \<equiv> fe52_verify m False"

abbreviation fe52_nrm :: "fe52 \<Rightarrow> bool" where
  "fe52_nrm \<equiv> fe52_verify 1 True"

section \<open>Operations\<close>

text \<open>The constant macro of field_5x52.h: eight 32-bit words, most significant first.\<close>

definition fe52_const ::
  "u32 \<Rightarrow> u32 \<Rightarrow> u32 \<Rightarrow> u32 \<Rightarrow> u32 \<Rightarrow> u32 \<Rightarrow> u32 \<Rightarrow> u32 \<Rightarrow> fe52" where
  "fe52_const d7 d6 d5 d4 d3 d2 d1 d0 = Fe52
     (ucast d0 OR push_bit 32 (ucast d1 AND 0xFFFFF))
     (drop_bit 20 (ucast d1) OR push_bit 12 (ucast d2) OR push_bit 44 (ucast d3 AND 0xFF))
     (drop_bit 8 (ucast d3) OR push_bit 24 (ucast d4 AND 0xFFFFFFF))
     (drop_bit 28 (ucast d4) OR push_bit 4 (ucast d5) OR push_bit 36 (ucast d6 AND 0xFFFF))
     (drop_bit 16 (ucast d6) OR push_bit 16 (ucast d7))"

text \<open>The carry from each limb into the next, common to all normalizing functions.\<close>

primrec fe52_carry :: "fe52 \<Rightarrow> fe52" where
  "fe52_carry (Fe52 t0 t1 t2 t3 t4) =
     (let t1 = t1 + drop_bit 52 t0; t0 = t0 AND 0xFFFFFFFFFFFFF;
          t2 = t2 + drop_bit 52 t1; t1 = t1 AND 0xFFFFFFFFFFFFF;
          t3 = t3 + drop_bit 52 t2; t2 = t2 AND 0xFFFFFFFFFFFFF;
          t4 = t4 + drop_bit 52 t3; t3 = t3 AND 0xFFFFFFFFFFFFF
      in Fe52 t0 t1 t2 t3 t4)"

text \<open>The first pass: bits 256 and up of the value are folded in, then one carry.\<close>

primrec fe52_first_pass :: "fe52 \<Rightarrow> fe52" where
  "fe52_first_pass (Fe52 t0 t1 t2 t3 t4) =
     (let x = drop_bit 48 t4; t4 = t4 AND 0x0FFFFFFFFFFFF;
          t0 = t0 + x * 0x1000003D1
      in fe52_carry (Fe52 t0 t1 t2 t3 t4))"

text \<open>The test of the full normalization: does the value reach the field prime?\<close>

primrec fe52_needs_reduction :: "fe52 \<Rightarrow> u64" where
  "fe52_needs_reduction (Fe52 t0 t1 t2 t3 t4) =
     (let m = t1 AND t2 AND t3
      in drop_bit 48 t4 OR of_bool (t4 = 0x0FFFFFFFFFFFF \<and> m = 0xFFFFFFFFFFFFF
           \<and> 0xFFFFEFFFFFC2F \<le> t0))"

fun fe52_final_reduction :: "u64 \<Rightarrow> fe52 \<Rightarrow> fe52" where
  "fe52_final_reduction x (Fe52 t0 t1 t2 t3 t4) =
     (case fe52_carry (Fe52 (t0 + x * 0x1000003D1) t1 t2 t3 t4) of
        Fe52 t0 t1 t2 t3 t4 \<Rightarrow> Fe52 t0 t1 t2 t3 (t4 AND 0x0FFFFFFFFFFFF))"

definition fe52_normalize :: "fe52 \<Rightarrow> fe52" where
  "fe52_normalize r =
     (let t = fe52_first_pass r; x = fe52_needs_reduction t
      in fe52_final_reduction x t)"

definition fe52_normalize_weak :: "fe52 \<Rightarrow> fe52" where
  "fe52_normalize_weak r = fe52_first_pass r"

definition fe52_normalize_var :: "fe52 \<Rightarrow> fe52" where
  "fe52_normalize_var r =
     (let t = fe52_first_pass r; x = fe52_needs_reduction t
      in if x \<noteq> 0 then fe52_final_reduction 1 t else t)"

definition fe52_normalizes_to_zero :: "fe52 \<Rightarrow> bool" where
  "fe52_normalizes_to_zero r =
     (case fe52_first_pass r of Fe52 t0 t1 t2 t3 t4 \<Rightarrow>
        let z0 = t0 OR t1 OR t2 OR t3 OR t4;
            z1 = (t0 XOR 0x1000003D0) AND t1 AND t2 AND t3 AND (t4 XOR 0xF000000000000)
        in z0 = 0 \<or> z1 = 0xFFFFFFFFFFFFF)"

primrec fe52_normalizes_to_zero_var :: "fe52 \<Rightarrow> bool" where
  "fe52_normalizes_to_zero_var (Fe52 n0 n1 n2 n3 n4) =
     (let t0 = n0; t4 = n4;
          x = drop_bit 48 t4;
          t0 = t0 + x * 0x1000003D1;
          z0 = t0 AND 0xFFFFFFFFFFFFF;
          z1 = z0 XOR 0x1000003D0
      in if z0 \<noteq> 0 \<and> z1 \<noteq> 0xFFFFFFFFFFFFF then False
         else
           let t1 = n1; t2 = n2; t3 = n3;
               t4 = t4 AND 0x0FFFFFFFFFFFF;
               t1 = t1 + drop_bit 52 t0;
               t2 = t2 + drop_bit 52 t1; t1 = t1 AND 0xFFFFFFFFFFFFF; z0 = z0 OR t1; z1 = z1 AND t1;
               t3 = t3 + drop_bit 52 t2; t2 = t2 AND 0xFFFFFFFFFFFFF; z0 = z0 OR t2; z1 = z1 AND t2;
               t4 = t4 + drop_bit 52 t3; t3 = t3 AND 0xFFFFFFFFFFFFF; z0 = z0 OR t3; z1 = z1 AND t3;
               z0 = z0 OR t4; z1 = z1 AND (t4 XOR 0xF000000000000)
           in z0 = 0 \<or> z1 = 0xFFFFFFFFFFFFF)"

definition fe52_set_int :: "cint \<Rightarrow> fe52" where
  "fe52_set_int a = Fe52 (scast a) 0 0 0 0"

primrec fe52_is_zero :: "fe52 \<Rightarrow> bool" where
  "fe52_is_zero (Fe52 t0 t1 t2 t3 t4) = ((t0 OR t1 OR t2 OR t3 OR t4) = 0)"

primrec fe52_is_odd :: "fe52 \<Rightarrow> bool" where
  "fe52_is_odd (Fe52 n0 n1 n2 n3 n4) = (n0 AND 1 \<noteq> 0)"

definition fe52_clear :: fe52 where
  "fe52_clear = Fe52 0 0 0 0 0"

text \<open>The limb of index \<open>i\<close>; the loops of the code only use \<open>i < 5\<close>.\<close>

fun fe52_limb :: "fe52 \<Rightarrow> nat \<Rightarrow> u64" where
  "fe52_limb (Fe52 n0 n1 n2 n3 n4) i =
     (if i = 0 then n0 else if i = 1 then n1 else if i = 2 then n2 else if i = 3 then n3 else n4)"

fun fe52_cmp_loop :: "nat \<Rightarrow> fe52 \<Rightarrow> fe52 \<Rightarrow> int" where
  "fe52_cmp_loop 0 a b = 0"
| "fe52_cmp_loop (Suc i) a b =
     (if fe52_limb b i < fe52_limb a i then 1
      else if fe52_limb a i < fe52_limb b i then -1
      else fe52_cmp_loop i a b)"

definition fe52_cmp_var :: "fe52 \<Rightarrow> fe52 \<Rightarrow> int" where
  "fe52_cmp_var a b = fe52_cmp_loop 5 a b"

text \<open>\<open>r->n[limb] |= v\<close>.\<close>

fun fe52_or_limb :: "fe52 \<Rightarrow> nat \<Rightarrow> u64 \<Rightarrow> fe52" where
  "fe52_or_limb (Fe52 n0 n1 n2 n3 n4) i v =
     (if i = 0 then Fe52 (n0 OR v) n1 n2 n3 n4 else if i = 1 then Fe52 n0 (n1 OR v) n2 n3 n4
      else if i = 2 then Fe52 n0 n1 (n2 OR v) n3 n4 else if i = 3 then Fe52 n0 n1 n2 (n3 OR v) n4
      else Fe52 n0 n1 n2 n3 (n4 OR v))"

definition fe52_set_b32_step :: "u8 list \<Rightarrow> nat \<Rightarrow> nat \<Rightarrow> fe52 \<Rightarrow> fe52" where
  "fe52_set_b32_step a i j r =
     (let limb = (8 * i + 4 * j) div 52; shift = (8 * i + 4 * j) mod 52
      in fe52_or_limb r limb (push_bit shift (ucast (drop_bit (4 * j) (a ! (31 - i)) AND 0xF))))"

fun fe52_set_b32 :: "u8 list \<Rightarrow> bool \<times> fe52" where
  "fe52_set_b32 a =
     (let r = foldl (\<lambda>r i. foldl (\<lambda>r j. fe52_set_b32_step a i j r) r [0..<2])
                (Fe52 0 0 0 0 0) [0..<32]
      in case r of Fe52 n0 n1 n2 n3 n4 \<Rightarrow>
        if n4 = 0x0FFFFFFFFFFFF \<and> n3 AND n2 AND n1 = 0xFFFFFFFFFFFFF \<and> 0xFFFFEFFFFFC2F \<le> n0
        then (False, r) else (True, r))"

definition fe52_get_b32_byte :: "fe52 \<Rightarrow> nat \<Rightarrow> u8" where
  "fe52_get_b32_byte a i =
     ucast (foldl (\<lambda>c j. let limb = (8 * i + 4 * j) div 52; shift = (8 * i + 4 * j) mod 52
                     in c OR ucast (push_bit (4 * j) (drop_bit shift (fe52_limb a limb) AND 0xF)))
              (0 :: cint) [0..<2])"

text \<open>\<open>r[31 - i]\<close> is byte \<open>i\<close>: the string is big endian.\<close>

definition fe52_get_b32 :: "fe52 \<Rightarrow> u8 list" where
  "fe52_get_b32 a = map (\<lambda>k. fe52_get_b32_byte a (31 - k)) [0..<32]"

fun fe52_negate :: "fe52 \<Rightarrow> cint \<Rightarrow> fe52" where
  "fe52_negate (Fe52 n0 n1 n2 n3 n4) m = Fe52
     (0xFFFFEFFFFFC2F * 2 * scast (m + 1) - n0)
     (0xFFFFFFFFFFFFF * 2 * scast (m + 1) - n1)
     (0xFFFFFFFFFFFFF * 2 * scast (m + 1) - n2)
     (0xFFFFFFFFFFFFF * 2 * scast (m + 1) - n3)
     (0x0FFFFFFFFFFFF * 2 * scast (m + 1) - n4)"

fun fe52_mul_int :: "fe52 \<Rightarrow> cint \<Rightarrow> fe52" where
  "fe52_mul_int (Fe52 n0 n1 n2 n3 n4) a =
     Fe52 (n0 * scast a) (n1 * scast a) (n2 * scast a) (n3 * scast a) (n4 * scast a)"

fun fe52_add :: "fe52 \<Rightarrow> fe52 \<Rightarrow> fe52" where
  "fe52_add (Fe52 r0 r1 r2 r3 r4) (Fe52 a0 a1 a2 a3 a4) =
     Fe52 (r0 + a0) (r1 + a1) (r2 + a2) (r3 + a3) (r4 + a4)"

text \<open>The masks of a conditional move: \<open>mask0 = flag + ~0\<close>, \<open>mask1 = ~mask0\<close>.\<close>

definition cmov_limb64 :: "u64 \<Rightarrow> u64 \<Rightarrow> cint \<Rightarrow> u64" where
  "cmov_limb64 r a flag =
     (let mask0 = scast flag + NOT 0; mask1 = NOT mask0 in (r AND mask0) OR (a AND mask1))"

fun fe52_cmov :: "fe52 \<Rightarrow> fe52 \<Rightarrow> cint \<Rightarrow> fe52" where
  "fe52_cmov (Fe52 r0 r1 r2 r3 r4) (Fe52 a0 a1 a2 a3 a4) flag =
     Fe52 (cmov_limb64 r0 a0 flag) (cmov_limb64 r1 a1 flag) (cmov_limb64 r2 a2 flag)
       (cmov_limb64 r3 a3 flag) (cmov_limb64 r4 a4 flag)"

fun fe52_storage_cmov :: "fe52_storage \<Rightarrow> fe52_storage \<Rightarrow> cint \<Rightarrow> fe52_storage" where
  "fe52_storage_cmov (Fe52_Storage r0 r1 r2 r3) (Fe52_Storage a0 a1 a2 a3) flag =
     Fe52_Storage (cmov_limb64 r0 a0 flag) (cmov_limb64 r1 a1 flag) (cmov_limb64 r2 a2 flag)
       (cmov_limb64 r3 a3 flag)"

primrec fe52_to_storage :: "fe52 \<Rightarrow> fe52_storage" where
  "fe52_to_storage (Fe52 n0 n1 n2 n3 n4) = Fe52_Storage
     (n0 OR push_bit 52 n1)
     (drop_bit 12 n1 OR push_bit 40 n2)
     (drop_bit 24 n2 OR push_bit 28 n3)
     (drop_bit 36 n3 OR push_bit 16 n4)"

primrec fe52_from_storage :: "fe52_storage \<Rightarrow> fe52" where
  "fe52_from_storage (Fe52_Storage n0 n1 n2 n3) = Fe52
     (n0 AND 0xFFFFFFFFFFFFF)
     (drop_bit 52 n0 OR (push_bit 12 n1 AND 0xFFFFFFFFFFFFF))
     (drop_bit 40 n1 OR (push_bit 24 n2 AND 0xFFFFFFFFFFFFF))
     (drop_bit 28 n2 OR (push_bit 36 n3 AND 0xFFFFFFFFFFFFF))
     (drop_bit 16 n3)"


section \<open>Carries and normal form\<close>

text \<open>
  A carry pass keeps the value; its limbs are proper but for the top one, which grows by less
  than 2^12.  The hypotheses leave room for the carries.
\<close>

lemma fe52_carry_spec:
  assumes c: "fe52_carry (Fe52 t0 t1 t2 t3 t4) = Fe52 r0 r1 r2 r3 r4"
    and t: "unat t1 \<le> 2 ^ 64 - 2 ^ 12" "unat t2 \<le> 2 ^ 64 - 2 ^ 12" "unat t3 \<le> 2 ^ 64 - 2 ^ 12"
      "unat t4 \<le> 2 ^ 64 - 2 ^ 12"
  shows "fe52_val (Fe52 r0 r1 r2 r3 r4) = fe52_val (Fe52 t0 t1 t2 t3 t4)"
    and "unat r0 < 2 ^ 52" "unat r1 < 2 ^ 52" "unat r2 < 2 ^ 52" "unat r3 < 2 ^ 52"
    and "unat r4 < unat t4 + 2 ^ 12" "unat t4 \<le> unat r4"
proof -
  define s1 where "s1 = t1 + drop_bit 52 t0"
  define s2 where "s2 = t2 + drop_bit 52 s1"
  define s3 where "s3 = t3 + drop_bit 52 s2"
  have r: "r0 = t0 AND 0xFFFFFFFFFFFFF" "r1 = s1 AND 0xFFFFFFFFFFFFF" "r2 = s2 AND 0xFFFFFFFFFFFFF"
    "r3 = s3 AND 0xFFFFFFFFFFFFF" "r4 = t4 + drop_bit 52 s3"
    using c by (auto simp: Let_def s1_def s2_def s3_def)
  have lt: "unat x div 2 ^ 52 < 2 ^ 12" for x :: u64
    using unat_64 [of x] by (simp add: less_mult_imp_div_less)
  have s1: "unat s1 = unat t1 + unat t0 div 2 ^ 52"
    unfolding s1_def by (subst unat_add64) (use t lt [of t0] in \<open>simp_all add: unat_simps\<close>)
  have s2: "unat s2 = unat t2 + unat s1 div 2 ^ 52"
    unfolding s2_def by (subst unat_add64) (use t lt [of s1] in \<open>simp_all add: unat_simps\<close>)
  have s3: "unat s3 = unat t3 + unat s2 div 2 ^ 52"
    unfolding s3_def by (subst unat_add64) (use t lt [of s2] in \<open>simp_all add: unat_simps\<close>)
  have r4: "unat r4 = unat t4 + unat s3 div 2 ^ 52"
    unfolding r by (subst unat_add64) (use t lt [of s3] in \<open>simp_all add: unat_simps\<close>)
  show "unat r4 < unat t4 + 2 ^ 12" "unat t4 \<le> unat r4"
    using r4 lt [of s3] by simp_all
  have m: "unat r0 = unat t0 mod 2 ^ 52" "unat r1 = unat s1 mod 2 ^ 52" "unat r2 = unat s2 mod 2 ^ 52"
    "unat r3 = unat s3 mod 2 ^ 52"
    unfolding r by (simp_all only: unat_simps)
  then show "unat r0 < 2 ^ 52" "unat r1 < 2 ^ 52" "unat r2 < 2 ^ 52" "unat r3 < 2 ^ 52"
    by simp_all
  obtain h0 l0 where 0: "unat t0 = l0 + 2 ^ 52 * h0" "unat t0 div 2 ^ 52 = h0" "unat t0 mod 2 ^ 52 = l0"
    by (rule divmod_pow2)
  obtain h1 l1 where 1: "unat s1 = l1 + 2 ^ 52 * h1" "unat s1 div 2 ^ 52 = h1" "unat s1 mod 2 ^ 52 = l1"
    by (rule divmod_pow2)
  obtain h2 l2 where 2: "unat s2 = l2 + 2 ^ 52 * h2" "unat s2 div 2 ^ 52 = h2" "unat s2 mod 2 ^ 52 = l2"
    by (rule divmod_pow2)
  obtain h3 l3 where 3: "unat s3 = l3 + 2 ^ 52 * h3" "unat s3 div 2 ^ 52 = h3" "unat s3 mod 2 ^ 52 = l3"
    by (rule divmod_pow2)
  have "l1 + 2 ^ 52 * h1 = unat t1 + h0" "l2 + 2 ^ 52 * h2 = unat t2 + h1"
    "l3 + 2 ^ 52 * h3 = unat t3 + h2" "unat r4 = unat t4 + h3"
    using s1 s2 s3 r4 0 1 2 3 by simp_all
  then show "fe52_val (Fe52 r0 r1 r2 r3 r4) = fe52_val (Fe52 t0 t1 t2 t3 t4)"
    unfolding fe52_val.simps m 0(3) 1(3) 2(3) 3(3) by (simp add: 0(1))
qed

text \<open>
  The first pass, for every magnitude up to 2048: it subtracts a multiple of the prime and leaves
  a value below 2^256 + 2^220 with proper limbs.  It also loses 2^64 if folding the bits above
  2^256 into limb 0 wraps around, which takes magnitude 2048.
\<close>

lemma fe52_first_pass_wrap:
  assumes p: "fe52_first_pass (Fe52 n0 n1 n2 n3 n4) = Fe52 r0 r1 r2 r3 r4"
    and m: "fe52_mag m (Fe52 n0 n1 n2 n3 n4)" "m \<le> 2048"
  shows "fe52_val (Fe52 n0 n1 n2 n3 n4)
           = fe52_val (Fe52 r0 r1 r2 r3 r4) + (unat n4 div 2 ^ 48) * nat field_prime
             + (if 2 ^ 64 \<le> unat n0 + unat n4 div 2 ^ 48 * 0x1000003D1 then 2 ^ 64 else 0)"
    and "unat r0 < 2 ^ 52" "unat r1 < 2 ^ 52" "unat r2 < 2 ^ 52" "unat r3 < 2 ^ 52"
    and "unat r4 < 2 ^ 48 + 2 ^ 12"
proof -
  define x where "x = drop_bit 48 n4"
  define t0 where "t0 = n0 + x * 0x1000003D1"
  define t4 where "t4 = n4 AND 0x0FFFFFFFFFFFF"
  have c: "fe52_carry (Fe52 t0 n1 n2 n3 t4) = Fe52 r0 r1 r2 r3 r4"
    using p by (simp add: Let_def x_def t0_def t4_def)
  have b: "unat n0 \<le> 0xFFFFFFFFFFFFF * (2 * 2048)" "unat n1 \<le> 0xFFFFFFFFFFFFF * (2 * 2048)"
    "unat n2 \<le> 0xFFFFFFFFFFFFF * (2 * 2048)" "unat n3 \<le> 0xFFFFFFFFFFFFF * (2 * 2048)"
    using m by (auto simp: Let_def)
  obtain h l where n4: "unat n4 = l + 2 ^ 48 * h" "l < 2 ^ 48" "unat n4 div 2 ^ 48 = h" "unat n4 mod 2 ^ 48 = l"
    by (rule divmod_pow2)
  have h: "h < 2 ^ 16" using n4(1) unat_64 [of n4] by simp
  have x: "unat x = h" by (simp only: x_def unat_simps n4(3))
  have t4: "unat t4 = l" by (simp only: t4_def unat_simps n4(4))
  define w :: nat where "w = (if 2 ^ 64 \<le> unat n0 + h * 0x1000003D1 then 2 ^ 64 else 0)"
  have "unat (x * 0x1000003D1) = h * 0x1000003D1"
    by (subst unat_mult64) (use x h in simp_all)
  then have "unat t0 = (unat n0 + h * 0x1000003D1) mod 2 ^ 64"
    unfolding t0_def by (simp add: unat_word_ariths)
  moreover have "unat n0 + h * 0x1000003D1 < 2 * 2 ^ 64" using h b(1) by simp
  ultimately have t0: "unat t0 + w = unat n0 + h * 0x1000003D1"
    unfolding w_def by (simp add: le_mod_geq)
  note s = fe52_carry_spec [OF c]
  have n: "unat n1 \<le> 2 ^ 64 - 2 ^ 12" "unat n2 \<le> 2 ^ 64 - 2 ^ 12" "unat n3 \<le> 2 ^ 64 - 2 ^ 12"
    "unat t4 \<le> 2 ^ 64 - 2 ^ 12"
    using b n4(2) t4 by simp_all
  show "unat r0 < 2 ^ 52" "unat r1 < 2 ^ 52" "unat r2 < 2 ^ 52" "unat r3 < 2 ^ 52"
    by (rule s(2-5) [OF n])+
  show "unat r4 < 2 ^ 48 + 2 ^ 12"
    using s(6) [OF n] t4 n4(2) by simp
  have "fe52_val (Fe52 n0 n1 n2 n3 n4) = fe52_val (Fe52 t0 n1 n2 n3 t4) + h * nat field_prime + w"
    using t0 n4(1) by (simp add: t4 field_prime_def)
  then show "fe52_val (Fe52 n0 n1 n2 n3 n4)
      = fe52_val (Fe52 r0 r1 r2 r3 r4) + (unat n4 div 2 ^ 48) * nat field_prime
        + (if 2 ^ 64 \<le> unat n0 + unat n4 div 2 ^ 48 * 0x1000003D1 then 2 ^ 64 else 0)"
    by (simp only: s(1) [OF n] n4(3) w_def)
qed

lemma fe52_first_pass_spec:
  assumes p: "fe52_first_pass (Fe52 n0 n1 n2 n3 n4) = Fe52 r0 r1 r2 r3 r4"
    and m: "fe52_mag m (Fe52 n0 n1 n2 n3 n4)" "m \<le> 2047"
  shows "fe52_val (Fe52 n0 n1 n2 n3 n4)
           = fe52_val (Fe52 r0 r1 r2 r3 r4) + (unat n4 div 2 ^ 48) * nat field_prime"
    and "unat r0 < 2 ^ 52" "unat r1 < 2 ^ 52" "unat r2 < 2 ^ 52" "unat r3 < 2 ^ 52"
    and "unat r4 < 2 ^ 48 + 2 ^ 12"
proof -
  have m': "m \<le> 2048" using m(2) by simp
  note s = fe52_first_pass_wrap [OF p m(1) m']
  have "unat n0 \<le> 0xFFFFFFFFFFFFF * (2 * 2047)" using m by (auto simp: Let_def)
  moreover have "unat n4 div 2 ^ 48 < 2 ^ 16" using unat_64 [of n4] by (simp add: less_mult_imp_div_less)
  ultimately have "\<not> 2 ^ 64 \<le> unat n0 + unat n4 div 2 ^ 48 * 0x1000003D1" by simp
  then show "fe52_val (Fe52 n0 n1 n2 n3 n4)
      = fe52_val (Fe52 r0 r1 r2 r3 r4) + (unat n4 div 2 ^ 48) * nat field_prime"
    using s(1) by (simp only: if_False add_0_right)
  show "unat r0 < 2 ^ 52" "unat r1 < 2 ^ 52" "unat r2 < 2 ^ 52" "unat r3 < 2 ^ 52" "unat r4 < 2 ^ 48 + 2 ^ 12"
    by (rule s(2-6))+
qed

lemma and_all_ones52:
  fixes x y :: u64
  assumes "unat x < 2 ^ 52" "unat y < 2 ^ 52"
  shows "x AND y = 0xFFFFFFFFFFFFF \<longleftrightarrow> unat x = 0xFFFFFFFFFFFFF \<and> unat y = 0xFFFFFFFFFFFFF"
proof
  assume a: "x AND y = 0xFFFFFFFFFFFFF"
  have "x AND y \<le> x" "x AND y \<le> y" by (rule word_and_le2, rule word_and_le1)
  then have "0xFFFFFFFFFFFFF \<le> unat x" "0xFFFFFFFFFFFFF \<le> unat y"
    using a by (simp_all add: word_le_nat_alt)
  with assms show "unat x = 0xFFFFFFFFFFFFF \<and> unat y = 0xFFFFFFFFFFFFF" by simp
next
  assume "unat x = 0xFFFFFFFFFFFFF \<and> unat y = 0xFFFFFFFFFFFFF"
  then have "x = 0xFFFFFFFFFFFFF" "y = 0xFFFFFFFFFFFFF" by (simp_all add: word_eq_of_unat)
  then show "x AND y = 0xFFFFFFFFFFFFF" by simp
qed

lemma and_all_ones52_3:
  fixes x y z :: u64
  assumes "unat x < 2 ^ 52" "unat y < 2 ^ 52" "unat z < 2 ^ 52"
  shows "x AND y AND z = 0xFFFFFFFFFFFFF \<longleftrightarrow>
    unat x = 0xFFFFFFFFFFFFF \<and> unat y = 0xFFFFFFFFFFFFF \<and> unat z = 0xFFFFFFFFFFFFF"
proof -
  have "y AND z \<le> z" by (rule word_and_le1)
  then have lt: "unat (y AND z) < 2 ^ 52" using assms(3) by (simp add: word_le_nat_alt)
  have "unat (y AND z) = 0xFFFFFFFFFFFFF \<longleftrightarrow> y AND z = 0xFFFFFFFFFFFFF"
    by (auto simp: word_unat_eq_iff)
  then show ?thesis
    unfolding and_all_ones52 [OF assms(1) lt] and_all_ones52 [OF assms(2,3)] by simp
qed

text \<open>The comparison the code makes limb by limb is the comparison with the prime.\<close>

lemma fe52_reaches_prime:
  assumes "unat t0 < 2 ^ 52" "unat t1 < 2 ^ 52" "unat t2 < 2 ^ 52" "unat t3 < 2 ^ 52" "unat t4 < 2 ^ 48"
  shows "(t4 = 0x0FFFFFFFFFFFF \<and> t1 AND t2 AND t3 = 0xFFFFFFFFFFFFF \<and> 0xFFFFEFFFFFC2F \<le> t0)
    \<longleftrightarrow> nat field_prime \<le> fe52_val (Fe52 t0 t1 t2 t3 t4)"
proof -
  have "(t4 = 0x0FFFFFFFFFFFF \<and> t1 AND t2 AND t3 = 0xFFFFFFFFFFFFF \<and> 0xFFFFEFFFFFC2F \<le> t0)
    \<longleftrightarrow> unat t4 = 0xFFFFFFFFFFFF \<and> unat t1 = 0xFFFFFFFFFFFFF \<and> unat t2 = 0xFFFFFFFFFFFFF
        \<and> unat t3 = 0xFFFFFFFFFFFFF \<and> 0xFFFFEFFFFFC2F \<le> unat t0"
    unfolding and_all_ones52_3 [OF assms(2-4)] by (auto simp: word_unat_eq_iff word_le_nat_alt)
  also have "\<dots> \<longleftrightarrow> nat field_prime \<le> fe52_val (Fe52 t0 t1 t2 t3 t4)"
    using assms by (auto simp: field_prime_def)
  finally show ?thesis .
qed

lemma fe52_nrm_iff:
  "fe52_nrm (Fe52 n0 n1 n2 n3 n4) \<longleftrightarrow>
     unat n0 < 2 ^ 52 \<and> unat n1 < 2 ^ 52 \<and> unat n2 < 2 ^ 52 \<and> unat n3 < 2 ^ 52 \<and> unat n4 < 2 ^ 48
     \<and> fe52_val (Fe52 n0 n1 n2 n3 n4) < nat field_prime"
  (is "?l \<longleftrightarrow> ?r")
proof -
  have "?l \<longleftrightarrow> unat n0 < 2 ^ 52 \<and> unat n1 < 2 ^ 52 \<and> unat n2 < 2 ^ 52 \<and> unat n3 < 2 ^ 52
      \<and> unat n4 < 2 ^ 48 \<and> \<not> (n4 = 0x0FFFFFFFFFFFF \<and> n1 AND n2 AND n3 = 0xFFFFFFFFFFFFF
          \<and> 0xFFFFEFFFFFC2F \<le> n0)"
    by (auto simp: Let_def and.commute and.left_commute)
  also have "\<dots> \<longleftrightarrow> ?r"
    using fe52_reaches_prime [of n0 n1 n2 n3 n4] by (auto simp: not_le)
  finally show ?thesis .
qed

lemma fe52_needs_reduction_spec:
  assumes "unat t0 < 2 ^ 52" "unat t1 < 2 ^ 52" "unat t2 < 2 ^ 52" "unat t3 < 2 ^ 52"
    and t4: "unat t4 < 2 ^ 48 + 2 ^ 12"
  shows "fe52_needs_reduction (Fe52 t0 t1 t2 t3 t4)
    = of_bool (nat field_prime \<le> fe52_val (Fe52 t0 t1 t2 t3 t4))"
proof (cases "unat t4 < 2 ^ 48")
  case True
  then have "drop_bit 48 t4 = 0"
    by (simp add: word_unat_eq_iff unat_simps)
  then show ?thesis
    unfolding fe52_needs_reduction.simps Let_def and.assoc fe52_reaches_prime [OF assms(1-4) True]
    by (simp only: or.left_neutral)
next
  case False
  with t4 have "unat t4 div 2 ^ 48 = 1"
    by (intro div_nat_eqI) simp_all
  then have "drop_bit 48 t4 = 1"
    by (intro word_eq_of_unat) (simp only: unat_drop unat_1)
  moreover have "t4 \<noteq> 0x0FFFFFFFFFFFF"
    using False by auto
  moreover have "nat field_prime \<le> fe52_val (Fe52 t0 t1 t2 t3 t4)"
    using False by (simp add: field_prime_def)
  ultimately show ?thesis by (simp only: fe52_needs_reduction.simps Let_def simp_thms of_bool_eq or.right_neutral)
qed

lemma fe52_final_reduction_spec:
  fixes t0 t1 t2 t3 t4 :: u64
  defines "v \<equiv> fe52_val (Fe52 t0 t1 t2 t3 t4)"
  assumes t: "unat t0 < 2 ^ 52" "unat t1 < 2 ^ 52" "unat t2 < 2 ^ 52" "unat t3 < 2 ^ 52"
    "unat t4 < 2 ^ 48 + 2 ^ 12"
    and x: "x = of_bool (nat field_prime \<le> v)"
  shows "fe52_nrm (fe52_final_reduction x (Fe52 t0 t1 t2 t3 t4))
    \<and> fe52_val (fe52_final_reduction x (Fe52 t0 t1 t2 t3 t4)) = v mod nat field_prime"
proof -
  obtain r0 r1 r2 r3 r4 where c: "fe52_carry (Fe52 (t0 + x * 0x1000003D1) t1 t2 t3 t4) = Fe52 r0 r1 r2 r3 r4"
    by (cases "fe52_carry (Fe52 (t0 + x * 0x1000003D1) t1 t2 t3 t4)")
  have x1: "unat x = of_bool (nat field_prime \<le> v)" unfolding x by simp
  have "unat (x * 0x1000003D1) = unat x * 0x1000003D1"
    by (subst unat_mult64) (simp_all add: x1)
  then have t0: "unat (t0 + x * 0x1000003D1) = unat t0 + unat x * 0x1000003D1"
    by (subst unat_add64) (use t x1 in \<open>simp_all\<close>)
  have b: "unat t1 \<le> 2 ^ 64 - 2 ^ 12" "unat t2 \<le> 2 ^ 64 - 2 ^ 12" "unat t3 \<le> 2 ^ 64 - 2 ^ 12"
    "unat t4 \<le> 2 ^ 64 - 2 ^ 12" using t by simp_all
  note s = fe52_carry_spec [OF c b]
  have val: "fe52_val (Fe52 r0 r1 r2 r3 r4) = v + unat x * 0x1000003D1"
    unfolding s(1) v_def by (simp add: t0)
  have vlt: "v < 2 * nat field_prime" unfolding v_def using t by (simp add: field_prime_def)
  have res: "fe52_final_reduction x (Fe52 t0 t1 t2 t3 t4) = Fe52 r0 r1 r2 r3 (r4 AND 0x0FFFFFFFFFFFF)"
    by (simp only: fe52_final_reduction.simps c fe52.case)
  have m4: "unat (r4 AND 0x0FFFFFFFFFFFF) = unat r4 - unat x * 2 ^ 48 \<and> unat x * 2 ^ 48 \<le> unat r4
      \<and> v mod nat field_prime = v - unat x * nat field_prime \<and> unat x * nat field_prime \<le> v"
  proof (cases "nat field_prime \<le> v")
    case False
    then have "unat r4 < 2 ^ 48" using val x1 s(2-5) by (simp add: field_prime_def)
    then show ?thesis using False x1 by (simp add: unat_simps)
  next
    case True
    then have x1: "unat x = 1" using x1 by simp
    have v: "v mod nat field_prime = v - nat field_prime"
      using True vlt by (simp add: le_mod_geq)
    have "2 ^ 48 \<le> unat r4" "unat r4 < 2 ^ 48 + 2 ^ 48"
      using val True vlt x1 s(2-5) by (simp_all add: field_prime_def)
    then have "unat r4 mod 2 ^ 48 = unat r4 - 2 ^ 48"
      by (simp add: le_mod_geq)
    then show ?thesis using v True \<open>2 ^ 48 \<le> unat r4\<close> by (simp only: unat_simps x1 mult_1 simp_thms)
  qed
  have val': "fe52_val (Fe52 r0 r1 r2 r3 (r4 AND 0x0FFFFFFFFFFFF)) = v mod nat field_prime"
  proof -
    have "unat (r4 AND 0x0FFFFFFFFFFFF) + unat x * 2 ^ 48 = unat r4"
      "v mod nat field_prime + unat x * nat field_prime = v"
      using m4 by (metis le_add_diff_inverse2)+
    moreover have "nat field_prime = 2 ^ 256 - 0x1000003D1" by (simp add: field_prime_def)
    ultimately show ?thesis using val by simp
  qed
  moreover have "v mod nat field_prime < nat field_prime" by simp
  moreover have "unat (r4 AND 0x0FFFFFFFFFFFF) < 2 ^ 48" by (simp add: unat_simps)
  ultimately show ?thesis
    unfolding res fe52_nrm_iff using s(2-5) by simp
qed

text \<open>
  Full normalization: the result is in normal form and is the residue of the input, for every
  magnitude up to 2047.
\<close>

lemma fe52_first_pass_facts:
  assumes "fe52_mag m a" "m \<le> 2047"
  obtains r0 r1 r2 r3 r4 where "fe52_first_pass a = Fe52 r0 r1 r2 r3 r4"
    "unat r0 < 2 ^ 52" "unat r1 < 2 ^ 52" "unat r2 < 2 ^ 52" "unat r3 < 2 ^ 52"
    "unat r4 < 2 ^ 48 + 2 ^ 12"
    "fe52_val (Fe52 r0 r1 r2 r3 r4) mod nat field_prime = fe52_val a mod nat field_prime"
proof -
  obtain n0 n1 n2 n3 n4 where a: "a = Fe52 n0 n1 n2 n3 n4" by (cases a)
  obtain r0 r1 r2 r3 r4 where r: "fe52_first_pass a = Fe52 r0 r1 r2 r3 r4"
    by (cases "fe52_first_pass a")
  note s = fe52_first_pass_spec [OF r [unfolded a] assms [unfolded a]]
  have "fe52_val (Fe52 r0 r1 r2 r3 r4) mod nat field_prime = fe52_val a mod nat field_prime"
    unfolding a s(1) by simp
  with r s(2-6) show ?thesis by (rule that)
qed

lemma fe52_normalize_correct:
  assumes m: "fe52_mag m a" "m \<le> 2047"
  shows "fe52_nrm (fe52_normalize a) \<and> fe52_val (fe52_normalize a) = fe52_val a mod nat field_prime"
proof -
  obtain r0 r1 r2 r3 r4 where r: "fe52_first_pass a = Fe52 r0 r1 r2 r3 r4"
    and t: "unat r0 < 2 ^ 52" "unat r1 < 2 ^ 52" "unat r2 < 2 ^ 52" "unat r3 < 2 ^ 52"
      "unat r4 < 2 ^ 48 + 2 ^ 12"
    and v: "fe52_val (Fe52 r0 r1 r2 r3 r4) mod nat field_prime = fe52_val a mod nat field_prime"
    using m by (rule fe52_first_pass_facts)
  show ?thesis
    unfolding fe52_normalize_def Let_def r
    using fe52_final_reduction_spec [OF t fe52_needs_reduction_spec [OF t]] v by simp
qed

text \<open>The same at magnitude 2048, where limb 0 may wrap around.\<close>

lemma fe52_normalize_wrap:
  assumes m: "fe52_mag m (Fe52 n0 n1 n2 n3 n4)" "m \<le> 2048"
  shows "fe52_nrm (fe52_normalize (Fe52 n0 n1 n2 n3 n4))"
    and "(fe52_val (fe52_normalize (Fe52 n0 n1 n2 n3 n4))
        + (if 2 ^ 64 \<le> unat n0 + unat n4 div 2 ^ 48 * 0x1000003D1 then 2 ^ 64 else 0)) mod nat field_prime
      = fe52_val (Fe52 n0 n1 n2 n3 n4) mod nat field_prime"
proof -
  obtain r0 r1 r2 r3 r4 where r: "fe52_first_pass (Fe52 n0 n1 n2 n3 n4) = Fe52 r0 r1 r2 r3 r4"
    by (cases "fe52_first_pass (Fe52 n0 n1 n2 n3 n4)")
  note s = fe52_first_pass_wrap [OF r m]
  note f = fe52_final_reduction_spec [OF s(2-6) fe52_needs_reduction_spec [OF s(2-6)]]
  have n: "fe52_normalize (Fe52 n0 n1 n2 n3 n4) =
      fe52_final_reduction (fe52_needs_reduction (Fe52 r0 r1 r2 r3 r4)) (Fe52 r0 r1 r2 r3 r4)"
    by (simp only: fe52_normalize_def Let_def r)
  have absorb: "(v mod p + w) mod p = (v + h * p + w) mod p" for v p w h :: nat
    using mod_add_left_eq [of "v + h * p" p w] by simp
  show "fe52_nrm (fe52_normalize (Fe52 n0 n1 n2 n3 n4))" unfolding n by (rule conjunct1 [OF f])
  show "(fe52_val (fe52_normalize (Fe52 n0 n1 n2 n3 n4))
        + (if 2 ^ 64 \<le> unat n0 + unat n4 div 2 ^ 48 * 0x1000003D1 then 2 ^ 64 else 0)) mod nat field_prime
      = fe52_val (Fe52 n0 n1 n2 n3 n4) mod nat field_prime"
    unfolding n conjunct2 [OF f] s(1) by (rule absorb)
qed

lemma limb_split_unique:
  fixes a b c d :: nat
  assumes "a + 2 ^ k * b = c + 2 ^ k * d" "a < 2 ^ k" "c < 2 ^ k"
  shows "a = c" "b = d"
proof -
  have "a = (a + 2 ^ k * b) mod 2 ^ k" using assms(2) by simp
  also have "\<dots> = c" unfolding assms(1) using assms(3) by simp
  finally show "a = c" .
  with assms(1) show "b = d" by simp
qed

lemma mod_eq_0_below_twice: "v < 2 * p \<Longrightarrow> v mod p = 0 \<longleftrightarrow> v = 0 \<or> v = p" for v p :: nat
proof
  assume "v < 2 * p" "v mod p = 0"
  then obtain k where k: "v = p * k" by (auto elim: dvdE)
  with \<open>v < 2 * p\<close> have "k < 2" by (simp add: mult.commute)
  then show "v = 0 \<or> v = p" unfolding k by (auto simp: less_2_cases_iff)
qed auto

lemma fe52_limbs_unique:
  assumes v: "fe52_val (Fe52 n0 n1 n2 n3 n4) = fe52_val (Fe52 m0 m1 m2 m3 m4)"
    and n: "unat n0 < 2 ^ 52" "unat n1 < 2 ^ 52" "unat n2 < 2 ^ 52" "unat n3 < 2 ^ 52"
    and m: "unat m0 < 2 ^ 52" "unat m1 < 2 ^ 52" "unat m2 < 2 ^ 52" "unat m3 < 2 ^ 52"
  shows "Fe52 n0 n1 n2 n3 n4 = Fe52 m0 m1 m2 m3 m4"
proof -
  have "unat n0 + 2 ^ 52 * (unat n1 + 2 ^ 52 * (unat n2 + 2 ^ 52 * (unat n3 + 2 ^ 52 * unat n4)))
      = unat m0 + 2 ^ 52 * (unat m1 + 2 ^ 52 * (unat m2 + 2 ^ 52 * (unat m3 + 2 ^ 52 * unat m4)))"
    using v by simp
  note 0 = limb_split_unique [OF this n(1) m(1)]
  note 1 = limb_split_unique [OF 0(2) n(2) m(2)]
  note 2 = limb_split_unique [OF 1(2) n(3) m(3)]
  note 3 = limb_split_unique [OF 2(2) n(4) m(4)]
  show ?thesis using 0(1) 1(1) 2(1) 3 by (simp add: word_unat_eq_iff)
qed

lemma fe52_nrm_inj:
  assumes "fe52_nrm a" "fe52_nrm b" "fe52_val a = fe52_val b"
  shows "a = b"
proof (cases a; cases b)
  fix n0 n1 n2 n3 n4 m0 m1 m2 m3 m4
  assume ab: "a = Fe52 n0 n1 n2 n3 n4" "b = Fe52 m0 m1 m2 m3 m4"
  show ?thesis
    using assms fe52_limbs_unique [of n0 n1 n2 n3 n4 m0 m1 m2 m3 m4]
    unfolding ab fe52_nrm_iff by blast
qed

text \<open>The variable-time normalization computes the same element.\<close>

lemma fe52_normalize_var_eq:
  assumes m: "fe52_mag m a" "m \<le> 2047"
  shows "fe52_normalize_var a = fe52_normalize a"
proof -
  obtain r0 r1 r2 r3 r4 where r: "fe52_first_pass a = Fe52 r0 r1 r2 r3 r4"
    and t: "unat r0 < 2 ^ 52" "unat r1 < 2 ^ 52" "unat r2 < 2 ^ 52" "unat r3 < 2 ^ 52"
      "unat r4 < 2 ^ 48 + 2 ^ 12"
    and v: "fe52_val (Fe52 r0 r1 r2 r3 r4) mod nat field_prime = fe52_val a mod nat field_prime"
    using m by (rule fe52_first_pass_facts)
  note n = fe52_needs_reduction_spec [OF t]
  show ?thesis
  proof (cases "nat field_prime \<le> fe52_val (Fe52 r0 r1 r2 r3 r4)")
    case True
    then show ?thesis by (simp only: fe52_normalize_var_def fe52_normalize_def Let_def r n of_bool_eq) simp
  next
    case False
    then have "unat r4 < 2 ^ 48" by (simp add: field_prime_def)
    with False t have "fe52_nrm (Fe52 r0 r1 r2 r3 r4)" unfolding fe52_nrm_iff by simp
    moreover have "fe52_normalize_var a = Fe52 r0 r1 r2 r3 r4"
      using False by (simp only: fe52_normalize_var_def Let_def r n of_bool_eq) simp
    ultimately show ?thesis
      using fe52_normalize_correct [OF m] v False by (intro fe52_nrm_inj) simp_all
  qed
qed

lemma fe52_normalize_weak_correct:
  assumes m: "fe52_mag m a" "m \<le> 2047"
  shows "fe52_mag 1 (fe52_normalize_weak a)
    \<and> fe52_val (fe52_normalize_weak a) mod nat field_prime = fe52_val a mod nat field_prime"
proof -
  obtain r0 r1 r2 r3 r4 where r: "fe52_first_pass a = Fe52 r0 r1 r2 r3 r4"
    and t: "unat r0 < 2 ^ 52" "unat r1 < 2 ^ 52" "unat r2 < 2 ^ 52" "unat r3 < 2 ^ 52"
      "unat r4 < 2 ^ 48 + 2 ^ 12"
    and v: "fe52_val (Fe52 r0 r1 r2 r3 r4) mod nat field_prime = fe52_val a mod nat field_prime"
    using m by (rule fe52_first_pass_facts)
  then show ?thesis by (simp add: fe52_normalize_weak_def Let_def)
qed

section \<open>Zero tests, parity and order\<close>

lemma unat_xor52: "unat x < 2 ^ 52 \<Longrightarrow> unat y < 2 ^ 52 \<Longrightarrow> unat (x XOR y) < 2 ^ 52" for x y :: u64
proof -
  assume "unat x < 2 ^ 52" "unat y < 2 ^ 52"
  then have "take_bit 52 x = x" "take_bit 52 y = y"
    by (simp_all add: word_unat_eq_iff unat_take)
  then have "take_bit 52 (x XOR y) = x XOR y" by simp
  then have "unat (x XOR y) = unat (x XOR y) mod 2 ^ 52" by (metis unat_take)
  then show ?thesis by (metis mod_less_pow2)
qed

lemma and_all_ones_le: "x AND y = 0xFFFFFFFFFFFFF \<Longrightarrow> unat x < 2 ^ 52 \<Longrightarrow> x = 0xFFFFFFFFFFFFF" for x y :: u64
proof (rule word_eq_of_unat)
  assume a: "x AND y = 0xFFFFFFFFFFFFF" "unat x < 2 ^ 52"
  have "x AND y \<le> x" by (rule word_and_le2)
  with a show "unat x = unat (0xFFFFFFFFFFFFF :: u64)" by (simp add: word_le_nat_alt)
qed

lemma or_eq_0: "x OR y = 0 \<longleftrightarrow> x = 0 \<and> y = 0" for x y :: u64
  by (auto simp: bit_eq_iff bit_or_iff)

lemma xor_literal: "x XOR c = d \<longleftrightarrow> x = d XOR c" for x c d :: u64
  by (auto simp: bit_eq_iff bit_xor_iff)

lemma fe52_normalizes_to_zero_correct:
  assumes m: "fe52_mag m a" "m \<le> 2047"
  shows "fe52_normalizes_to_zero a \<longleftrightarrow> fe52_val a mod nat field_prime = 0"
proof -
  obtain t0 t1 t2 t3 t4 where r: "fe52_first_pass a = Fe52 t0 t1 t2 t3 t4"
    and t: "unat t0 < 2 ^ 52" "unat t1 < 2 ^ 52" "unat t2 < 2 ^ 52" "unat t3 < 2 ^ 52"
      "unat t4 < 2 ^ 48 + 2 ^ 12"
    and v: "fe52_val (Fe52 t0 t1 t2 t3 t4) mod nat field_prime = fe52_val a mod nat field_prime"
    using m by (rule fe52_first_pass_facts)
  define u0 where "u0 = t0 XOR 0x1000003D0"
  define u4 where "u4 = t4 XOR 0xF000000000000"
  have u: "unat u0 < 2 ^ 52" "unat u4 < 2 ^ 52"
    unfolding u0_def u4_def by (rule unat_xor52; use t in simp)+
  have e0: "u0 = 0xFFFFFFFFFFFFF \<longleftrightarrow> unat t0 = 0xFFFFEFFFFFC2F"
    unfolding u0_def xor_literal by (simp add: word_unat_eq_iff)
  have e4: "u4 = 0xFFFFFFFFFFFFF \<longleftrightarrow> unat t4 = 0xFFFFFFFFFFFF"
    unfolding u4_def xor_literal by (simp add: word_unat_eq_iff)
  have and_iff: "x AND y = 0xFFFFFFFFFFFFF \<longleftrightarrow> x = 0xFFFFFFFFFFFFF \<and> y = 0xFFFFFFFFFFFFF"
    if "unat x < 2 ^ 52" "unat y < 2 ^ 52" for x y :: u64
    unfolding and_all_ones52 [OF that] by (simp add: word_unat_eq_iff)
  have and_lt: "unat (x AND y) < 2 ^ 52" if "unat x < 2 ^ 52" for x y :: u64
    using word_and_le2 [of x y] that by (simp add: word_le_nat_alt)
  have z1: "u0 AND t1 AND t2 AND t3 AND u4 = 0xFFFFFFFFFFFFF
      \<longleftrightarrow> fe52_val (Fe52 t0 t1 t2 t3 t4) = nat field_prime"
  proof -
    have "u0 AND t1 AND t2 AND t3 AND u4 = 0xFFFFFFFFFFFFF \<longleftrightarrow> unat t0 = 0xFFFFEFFFFFC2F
        \<and> unat t1 = 0xFFFFFFFFFFFFF \<and> unat t2 = 0xFFFFFFFFFFFFF \<and> unat t3 = 0xFFFFFFFFFFFFF
        \<and> unat t4 = 0xFFFFFFFFFFFF"
      unfolding and_iff [OF u(1) and_lt [OF t(2)]] and_iff [OF t(2) and_lt [OF t(3)]]
        and_iff [OF t(3) and_lt [OF t(4)]] and_iff [OF t(4) u(2)] e0 e4
      by (simp add: word_unat_eq_iff)
    also have "\<dots> \<longleftrightarrow> Fe52 t0 t1 t2 t3 t4 = Fe52 0xFFFFEFFFFFC2F 0xFFFFFFFFFFFFF
        0xFFFFFFFFFFFFF 0xFFFFFFFFFFFFF 0xFFFFFFFFFFFF"
      by (simp add: word_unat_eq_iff)
    also have "\<dots> \<longleftrightarrow> fe52_val (Fe52 t0 t1 t2 t3 t4) = nat field_prime"
    proof
      assume "fe52_val (Fe52 t0 t1 t2 t3 t4) = nat field_prime"
      then show "Fe52 t0 t1 t2 t3 t4 = Fe52 0xFFFFEFFFFFC2F 0xFFFFFFFFFFFFF
        0xFFFFFFFFFFFFF 0xFFFFFFFFFFFFF 0xFFFFFFFFFFFF"
        by (intro fe52_limbs_unique t) (simp_all add: field_prime_def)
    qed (simp add: field_prime_def)
    finally show ?thesis .
  qed
  have z0: "t0 OR t1 OR t2 OR t3 OR t4 = 0 \<longleftrightarrow> fe52_val (Fe52 t0 t1 t2 t3 t4) = 0"
    unfolding or_eq_0 by (auto simp: word_unat_eq_iff)
  have "fe52_val (Fe52 t0 t1 t2 t3 t4) < 2 * nat field_prime"
    using t by (simp add: field_prime_def)
  then have "fe52_val (Fe52 t0 t1 t2 t3 t4) mod nat field_prime = 0
      \<longleftrightarrow> fe52_val (Fe52 t0 t1 t2 t3 t4) = 0 \<or> fe52_val (Fe52 t0 t1 t2 t3 t4) = nat field_prime"
    by (rule mod_eq_0_below_twice)
  with z0 z1 v show ?thesis
    by (simp only: fe52_normalizes_to_zero_def r fe52.case Let_def or.assoc and.assoc u0_def u4_def)
qed

text \<open>The variable-time test returns early on most inputs and agrees on all of them.\<close>

lemma fe52_normalizes_to_zero_var_eq:
  "fe52_normalizes_to_zero_var a = fe52_normalizes_to_zero a"
proof (cases a)
  case (Fe52 n0 n1 n2 n3 n4)
  define t0 where "t0 = n0 + drop_bit 48 n4 * 0x1000003D1"
  define z0 where "z0 = t0 AND 0xFFFFFFFFFFFFF"
  define z1 where "z1 = z0 XOR 0x1000003D0"
  have lt: "unat z1 < 2 ^ 52"
    unfolding z1_def by (rule unat_xor52) (simp_all add: z0_def unat_simps)
  have "z0 \<noteq> 0 \<Longrightarrow> z1 \<noteq> 0xFFFFFFFFFFFFF \<Longrightarrow> \<not> fe52_normalizes_to_zero a"
    using and_all_ones_le [OF _ lt]
    unfolding Fe52 fe52_normalizes_to_zero_def fe52_first_pass.simps fe52_carry.simps Let_def fe52.case
      t0_def [symmetric] z0_def [symmetric] z1_def [symmetric] and.assoc or_eq_0 by blast
  moreover have "z0 = 0 \<or> z1 = 0xFFFFFFFFFFFFF \<Longrightarrow> ?thesis"
    unfolding Fe52 fe52_normalizes_to_zero_def fe52_first_pass.simps fe52_carry.simps Let_def fe52.case
      fe52_normalizes_to_zero_var.simps
      t0_def [symmetric] z0_def [symmetric] z1_def [symmetric] and.assoc or.assoc by auto
  moreover have "z0 \<noteq> 0 \<Longrightarrow> z1 \<noteq> 0xFFFFFFFFFFFFF \<Longrightarrow> \<not> fe52_normalizes_to_zero_var a"
    unfolding Fe52 fe52_normalizes_to_zero_var.simps Let_def
      t0_def [symmetric] z0_def [symmetric] z1_def [symmetric] by simp
  ultimately show ?thesis by blast
qed

lemma fe52_is_zero_iff: "fe52_is_zero a \<longleftrightarrow> fe52_val a = 0"
  by (cases a) (simp only: fe52_is_zero.simps or_eq_0, auto simp: word_unat_eq_iff)

lemma fe52_is_odd_iff: "fe52_is_odd a \<longleftrightarrow> odd (fe52_val a)"
  by (cases a) (simp add: odd_iff_mod_2_eq_one and_one_eq word_unat_eq_iff unat_mod)

lemma fe52_cmp_var_correct:
  assumes "fe52_nrm a" "fe52_nrm b"
  shows "fe52_cmp_var a b = sgn (int (fe52_val a) - int (fe52_val b))"
proof -
  obtain n0 n1 n2 n3 n4 where a: "a = Fe52 n0 n1 n2 n3 n4" by (cases a)
  obtain m0 m1 m2 m3 m4 where b: "b = Fe52 m0 m1 m2 m3 m4" by (cases b)
  note n = assms(1) [unfolded a fe52_nrm_iff] and m = assms(2) [unfolded b fe52_nrm_iff]
  have five: "5 = Suc (Suc (Suc (Suc (Suc 0))))" by simp
  have e: "fe52_cmp_var a b =
     (if unat m4 < unat n4 then 1 else if unat n4 < unat m4 then -1 else
      if unat m3 < unat n3 then 1 else if unat n3 < unat m3 then -1 else
      if unat m2 < unat n2 then 1 else if unat n2 < unat m2 then -1 else
      if unat m1 < unat n1 then 1 else if unat n1 < unat m1 then -1 else
      if unat m0 < unat n0 then 1 else if unat n0 < unat m0 then -1 else 0)"
    unfolding fe52_cmp_var_def five a b by (simp add: word_less_nat_alt)
  consider "fe52_val a = fe52_val b" | "fe52_val a < fe52_val b" | "fe52_val b < fe52_val a" by linarith
  then show ?thesis
  proof cases
    case 1
    then have "a = b" by (rule fe52_nrm_inj [OF assms])
    with 1 show ?thesis unfolding e by (simp add: a b)
  next
    case 2
    then have "fe52_cmp_var a b = -1"
      unfolding e using n m by (simp add: a b)
    with 2 show ?thesis by simp
  next
    case 3
    then have "fe52_cmp_var a b = 1"
      unfolding e using n m by (simp add: a b)
    with 3 show ?thesis by simp
  qed
qed
end
