(* ===== verification/Field_5x52_Ops.thy ===== *)
theory Field_5x52_Ops
  imports Field_5x52
begin

text \<open>
  The remaining operations of field_5x52_impl.h: sums, small multiples, negation, conditional
  moves, the packed storage form and the 32-byte big-endian form.  Each lemma states the value
  and the magnitude the comments of field.h promise.
\<close>

section \<open>Sums, multiples, negation\<close>

lemma fe52_mag_iff:
  "fe52_mag m (Fe52 n0 n1 n2 n3 n4) \<longleftrightarrow> unat n0 \<le> 2 * 0xFFFFFFFFFFFFF * m \<and> unat n1 \<le> 2 * 0xFFFFFFFFFFFFF * m
     \<and> unat n2 \<le> 2 * 0xFFFFFFFFFFFFF * m \<and> unat n3 \<le> 2 * 0xFFFFFFFFFFFFF * m
     \<and> unat n4 \<le> 2 * 0xFFFFFFFFFFFF * m \<and> m \<le> 2048"
  by (auto simp: Let_def)

lemma fe52_add_correct:
  assumes "fe52_mag m a" "fe52_mag k b" "m + k \<le> 2047"
  shows "fe52_mag (m + k) (fe52_add a b) \<and> fe52_val (fe52_add a b) = fe52_val a + fe52_val b"
proof (cases a; cases b)
  fix a0 a1 a2 a3 a4 b0 b1 b2 b3 b4
  assume ab: "a = Fe52 a0 a1 a2 a3 a4" "b = Fe52 b0 b1 b2 b3 b4"
  note m = assms(1,2) [unfolded ab fe52_mag_iff]
  have s: "unat (a0 + b0) = unat a0 + unat b0" "unat (a1 + b1) = unat a1 + unat b1"
    "unat (a2 + b2) = unat a2 + unat b2" "unat (a3 + b3) = unat a3 + unat b3"
    "unat (a4 + b4) = unat a4 + unat b4"
    by (rule unat_add64; use m assms(3) in simp)+
  show ?thesis
    unfolding ab fe52_add.simps fe52_mag_iff fe52_val.simps s
    using m assms(3) by simp
qed

lemma mult_le_2047:
  fixes x n m a :: nat
  assumes "x \<le> 2 * c * m" "m * a \<le> 2047"
  shows "x * a \<le> 2 * c * (m * a)"
  using mult_le_mono1 [OF assms(1), of a] by (simp add: ac_simps)

lemma mult_lt_2047:
  fixes x m a :: nat
  assumes "x \<le> 2 * 0xFFFFFFFFFFFFF * m \<or> x \<le> 2 * 0xFFFFFFFFFFFF * m" "m * a \<le> 2047"
  shows "x * a < 2 ^ 64"
proof -
  have "x * a \<le> 2 * 0xFFFFFFFFFFFFF * (m * a)"
    by (rule mult_le_2047 [OF _ assms(2)]) (use assms(1) in linarith)
  also have "\<dots> \<le> 2 * 0xFFFFFFFFFFFFF * 2047" using assms(2) by (rule mult_le_mono2)
  finally show ?thesis by simp
qed

lemma fe52_mul_int_correct:
  assumes m: "fe52_mag m a" "m * unat w \<le> 2047" and "0 < m"
  shows "fe52_mag (m * unat w) (fe52_mul_int a w) \<and> fe52_val (fe52_mul_int a w) = fe52_val a * unat w"
proof (cases a)
  case (Fe52 a0 a1 a2 a3 a4)
  have "unat w \<le> m * unat w" using \<open>0 < m\<close> by simp
  also have "\<dots> < 2 ^ 31" using m(2) by simp
  finally have w: "unat (scast w :: u64) = unat w" by (rule unat_scast_cint)
  note b = m(1) [unfolded Fe52 fe52_mag_iff]
  have le: "unat a0 * unat w \<le> 2 * 0xFFFFFFFFFFFFF * (m * unat w)" "unat a1 * unat w \<le> 2 * 0xFFFFFFFFFFFFF * (m * unat w)"
    "unat a2 * unat w \<le> 2 * 0xFFFFFFFFFFFFF * (m * unat w)" "unat a3 * unat w \<le> 2 * 0xFFFFFFFFFFFFF * (m * unat w)"
    "unat a4 * unat w \<le> 2 * 0xFFFFFFFFFFFF * (m * unat w)"
    by (rule mult_le_2047 [OF _ m(2)]; use b in blast)+
  have s: "unat (a0 * scast w) = unat a0 * unat w" "unat (a1 * scast w) = unat a1 * unat w"
    "unat (a2 * scast w) = unat a2 * unat w" "unat (a3 * scast w) = unat a3 * unat w"
    "unat (a4 * scast w) = unat a4 * unat w"
    by (rule unat_mult64 [of _ "scast w", unfolded w], rule mult_lt_2047 [OF _ m(2)], use b in \<open>blast+\<close>)+
  show ?thesis
    unfolding Fe52 fe52_mul_int.simps fe52_mag_iff fe52_val.simps s
    using le m(2) by (simp add: algebra_simps)
qed

lemma fe52_negate_limb:
  fixes x c :: u64 and w :: cint
  assumes "unat x \<le> 2 * k * unat w" "unat w < 32" "k * unat w \<le> unat c * (unat w + 1)" "unat c < 2 ^ 52"
  shows "unat (c * 2 * scast (w + 1) - x) + unat x = 2 * unat c * (unat w + 1)"
proof -
  have "unat (w + 1) = unat w + 1" using assms(2) by (subst unat_add_small) simp_all
  then have w: "unat (scast (w + 1) :: u64) = unat w + 1"
    using assms(2) by (subst unat_scast_cint) simp_all
  have 1: "unat (c * 2) = unat c * 2" using assms(4) by (subst unat_mult64) simp_all
  have "unat c * 2 * (unat w + 1) \<le> unat c * 2 * 32" using assms(2) by (intro mult_le_mono2) simp
  also have "\<dots> < 2 ^ 64" using assms(4) by simp
  finally have 2: "unat (c * 2 * scast (w + 1)) = unat c * 2 * (unat w + 1)"
    by (subst unat_mult64) (simp_all only: 1 w)
  have "unat x \<le> unat c * 2 * (unat w + 1)" using assms(1,3) by simp
  then have "unat (c * 2 * scast (w + 1) - x) = unat c * 2 * (unat w + 1) - unat x"
    by (subst unat_diff_small) (simp_all only: 2)
  with \<open>unat x \<le> unat c * 2 * (unat w + 1)\<close> show ?thesis by (simp only: le_add_diff_inverse2 ac_simps)
qed

lemma fe52_negate_correct:
  assumes m: "fe52_mag (unat w) a" and w: "unat w < 32"
  shows "fe52_mag (unat w + 1) (fe52_negate a w) \<and>
    fe52_val (fe52_negate a w) + fe52_val a = 2 * (unat w + 1) * nat field_prime"
proof (cases a)
  case (Fe52 a0 a1 a2 a3 a4)
  note b = m [unfolded Fe52 fe52_mag_iff]
  obtain r0 r1 r2 r3 r4 where r: "fe52_negate a w = Fe52 r0 r1 r2 r3 r4" by (cases "fe52_negate a w")
  have e: "r0 = 0xFFFFEFFFFFC2F * 2 * scast (w + 1) - a0" "r1 = 0xFFFFFFFFFFFFF * 2 * scast (w + 1) - a1"
    "r2 = 0xFFFFFFFFFFFFF * 2 * scast (w + 1) - a2" "r3 = 0xFFFFFFFFFFFFF * 2 * scast (w + 1) - a3"
    "r4 = 0xFFFFFFFFFFFF * 2 * scast (w + 1) - a4"
    using r by (simp_all only: Fe52 fe52_negate.simps fe52.inject)
  have n: "unat r0 + unat a0 = 2 * 0xFFFFEFFFFFC2F * (unat w + 1)"
    "unat r1 + unat a1 = 2 * 0xFFFFFFFFFFFFF * (unat w + 1)"
    "unat r2 + unat a2 = 2 * 0xFFFFFFFFFFFFF * (unat w + 1)"
    "unat r3 + unat a3 = 2 * 0xFFFFFFFFFFFFF * (unat w + 1)"
    "unat r4 + unat a4 = 2 * 0xFFFFFFFFFFFF * (unat w + 1)"
    unfolding e
    using fe52_negate_limb [of a0 "0xFFFFFFFFFFFFF" w "0xFFFFEFFFFFC2F"]
      fe52_negate_limb [of a1 "0xFFFFFFFFFFFFF" w "0xFFFFFFFFFFFFF"]
      fe52_negate_limb [of a2 "0xFFFFFFFFFFFFF" w "0xFFFFFFFFFFFFF"]
      fe52_negate_limb [of a3 "0xFFFFFFFFFFFFF" w "0xFFFFFFFFFFFFF"]
      fe52_negate_limb [of a4 "0xFFFFFFFFFFFF" w "0xFFFFFFFFFFFF"] b w
    by simp_all
  have "nat field_prime = 0xFFFFEFFFFFC2F + 2 ^ 52 * 0xFFFFFFFFFFFFF + 2 ^ 104 * 0xFFFFFFFFFFFFF
     + 2 ^ 156 * 0xFFFFFFFFFFFFF + 2 ^ 208 * 0xFFFFFFFFFFFF" by (simp add: field_prime_def)
  then show ?thesis
    unfolding r unfolding Fe52 fe52_mag_iff fe52_val.simps using n w by simp
qed

section \<open>Small constants and conditional moves\<close>

lemma fe52_set_int_correct:
  "unat w < 2 ^ 26 \<Longrightarrow> fe52_nrm (fe52_set_int w) \<and> fe52_val (fe52_set_int w) = unat w"
  unfolding fe52_set_int_def fe52_nrm_iff by (simp add: unat_scast_cint field_prime_def)

lemma fe52_clear_correct: "fe52_nrm fe52_clear \<and> fe52_val fe52_clear = 0"
  unfolding fe52_clear_def fe52_nrm_iff by (simp add: field_prime_def)

lemma cmov_limb64_select: "cmov_limb64 r a (of_bool c) = (if c then a else r)"
  by (simp add: cmov_limb64_def Let_def)

lemma fe52_cmov_select: "fe52_cmov r a (of_bool c) = (if c then a else r)"
  by (cases r; cases a) (simp add: cmov_limb64_select)

lemma fe52_storage_cmov_select: "fe52_storage_cmov r a (of_bool c) = (if c then a else r)"
  by (cases r; cases a) (simp add: cmov_limb64_select)

section \<open>Storage form\<close>

lemma fe52_storage_roundtrip:
  assumes "fe52_nrm a"
  shows "fe52_from_storage (fe52_to_storage a) = a"
proof (cases a)
  case (Fe52 n0 n1 n2 n3 n4)
  note n = assms [unfolded Fe52 fe52_nrm_iff]
  have b: "bit n0 j \<Longrightarrow> j < 52" "bit n1 j \<Longrightarrow> j < 52" "bit n2 j \<Longrightarrow> j < 52" "bit n3 j \<Longrightarrow> j < 52"
    "bit n4 j \<Longrightarrow> j < 48" for j
    using n by (blast dest: bit_small)+
  note bits = bit_or_iff bit_and_iff bit_push_bit_iff bit_drop_bit_eq bit_take_bit_iff
  have 0: "(n0 OR push_bit 52 n1) AND 0xFFFFFFFFFFFFF = n0"
    unfolding mask_literals and_mask_take
    by (rule bit_eqI) (auto simp: bits dest: b)
  have 1: "drop_bit 52 (n0 OR push_bit 52 n1) OR (push_bit 12 (drop_bit 12 n1 OR push_bit 40 n2) AND 0xFFFFFFFFFFFFF) = n1"
    unfolding mask_literals and_mask_take
    by (rule bit_eqI) (auto simp: bits dest: b)
  have 2: "drop_bit 40 (drop_bit 12 n1 OR push_bit 40 n2) OR (push_bit 24 (drop_bit 24 n2 OR push_bit 28 n3) AND 0xFFFFFFFFFFFFF) = n2"
    unfolding mask_literals and_mask_take
    by (rule bit_eqI) (auto simp: bits dest: b)
  have 3: "drop_bit 28 (drop_bit 24 n2 OR push_bit 28 n3) OR (push_bit 36 (drop_bit 36 n3 OR push_bit 16 n4) AND 0xFFFFFFFFFFFFF) = n3"
    unfolding mask_literals and_mask_take
    by (rule bit_eqI) (auto simp: bits dest: b)
  have 4: "drop_bit 16 (drop_bit 36 n3 OR push_bit 16 n4) = n4"
    by (rule bit_eqI) (auto simp: bits dest: b)
  show ?thesis by (simp only: Fe52 fe52_to_storage.simps fe52_from_storage.simps 0 1 2 3 4)
qed

section \<open>Constants\<close>

lemma fe52_const_val:
  "fe52_val (fe52_const d7 d6 d5 d4 d3 d2 d1 d0) = fe_const_nat d7 d6 d5 d4 d3 d2 d1 d0"
  "fe52_const d7 d6 d5 d4 d3 d2 d1 d0 = Fe52 n0 n1 n2 n3 n4 \<Longrightarrow>
     unat n0 < 2 ^ 52 \<and> unat n1 < 2 ^ 52 \<and> unat n2 < 2 ^ 52 \<and> unat n3 < 2 ^ 52 \<and> unat n4 < 2 ^ 48"
proof -
  define c :: "u32 \<Rightarrow> u64" where "c d = ucast d" for d
  have c: "unat (c d) = unat d" "unat d < 2 ^ 32" for d :: u32
    unfolding c_def by (simp_all only: unat_ucast_32_64 unat_32)
  obtain h1 l1 where 1: "unat d1 = l1 + 2 ^ 20 * h1" "l1 < 2 ^ 20" "unat d1 div 2 ^ 20 = h1" "unat d1 mod 2 ^ 20 = l1"
    by (rule divmod_pow2)
  obtain h3 l3 where 3: "unat d3 = l3 + 2 ^ 8 * h3" "l3 < 2 ^ 8" "unat d3 div 2 ^ 8 = h3" "unat d3 mod 2 ^ 8 = l3"
    by (rule divmod_pow2)
  obtain h4 l4 where 4: "unat d4 = l4 + 2 ^ 28 * h4" "l4 < 2 ^ 28" "unat d4 div 2 ^ 28 = h4" "unat d4 mod 2 ^ 28 = l4"
    by (rule divmod_pow2)
  obtain h6 l6 where 6: "unat d6 = l6 + 2 ^ 16 * h6" "l6 < 2 ^ 16" "unat d6 div 2 ^ 16 = h6" "unat d6 mod 2 ^ 16 = l6"
    by (rule divmod_pow2)
  note lt = c(2) [of d0] c(2) [of d1] c(2) [of d2] c(2) [of d3] c(2) [of d4] c(2) [of d5] c(2) [of d6] c(2) [of d7]
  note parts = c unat_and_low unat_drop 1(3,4) 3(3,4) 4(3,4) 6(3,4)
  have low: "unat (c d1 AND 0xFFFFF) = l1" "unat (c d3 AND 0xFF) = l3" "unat (c d4 AND 0xFFFFFFF) = l4"
    "unat (c d6 AND 0xFFFF) = l6" "unat (drop_bit 20 (c d1)) = h1" "unat (drop_bit 8 (c d3)) = h3"
    "unat (drop_bit 28 (c d4)) = h4" "unat (drop_bit 16 (c d6)) = h6"
    by (simp_all only: parts)
  have n0: "unat (c d0 OR push_bit 32 (c d1 AND 0xFFFFF)) = unat d0 + 2 ^ 32 * l1"
    by (subst unat_or_push_bit) (use lt 1(2) in \<open>simp_all add: c(1) low del: unat_32\<close>)
  have n1a: "unat (drop_bit 20 (c d1) OR push_bit 12 (c d2)) = h1 + 2 ^ 12 * unat d2"
    by (subst unat_or_push_bit) (use lt 1(1) in \<open>simp_all add: c(1) low del: unat_32\<close>)
  have n1: "unat (drop_bit 20 (c d1) OR push_bit 12 (c d2) OR push_bit 44 (c d3 AND 0xFF))
      = h1 + 2 ^ 12 * unat d2 + 2 ^ 44 * l3"
    unfolding or.assoc [symmetric]
    by (subst unat_or_push_bit) (use lt 1(1) 3(2) in \<open>simp_all add: n1a c(1) low del: unat_32\<close>)
  have n2: "unat (drop_bit 8 (c d3) OR push_bit 24 (c d4 AND 0xFFFFFFF)) = h3 + 2 ^ 24 * l4"
    by (subst unat_or_push_bit) (use lt 3(1) 4(2) in \<open>simp_all add: c(1) low del: unat_32\<close>)
  have n3a: "unat (drop_bit 28 (c d4) OR push_bit 4 (c d5)) = h4 + 2 ^ 4 * unat d5"
    by (subst unat_or_push_bit) (use lt 4(1) in \<open>simp_all add: c(1) low del: unat_32\<close>)
  have n3: "unat (drop_bit 28 (c d4) OR push_bit 4 (c d5) OR push_bit 36 (c d6 AND 0xFFFF))
      = h4 + 2 ^ 4 * unat d5 + 2 ^ 36 * l6"
    unfolding or.assoc [symmetric]
    by (subst unat_or_push_bit) (use lt 4(1) 6(2) in \<open>simp_all add: n3a c(1) low del: unat_32\<close>)
  have n4: "unat (drop_bit 16 (c d6) OR push_bit 16 (c d7)) = h6 + 2 ^ 16 * unat d7"
    by (subst unat_or_push_bit) (use lt 6(1) in \<open>simp_all add: c(1) low del: unat_32\<close>)
  show "fe52_val (fe52_const d7 d6 d5 d4 d3 d2 d1 d0) = fe_const_nat d7 d6 d5 d4 d3 d2 d1 d0"
    unfolding fe52_const_def fe52_val.simps c_def [symmetric] or.assoc n0 n1 n2 n3 n4 fe_const_nat_def
    using 1(1) 3(1) 4(1) 6(1) by simp
  assume "fe52_const d7 d6 d5 d4 d3 d2 d1 d0 = Fe52 n0 n1 n2 n3 n4"
  then have "unat n0 = unat d0 + 2 ^ 32 * l1" "unat n1 = h1 + 2 ^ 12 * unat d2 + 2 ^ 44 * l3"
    "unat n2 = h3 + 2 ^ 24 * l4" "unat n3 = h4 + 2 ^ 4 * unat d5 + 2 ^ 36 * l6" "unat n4 = h6 + 2 ^ 16 * unat d7"
    unfolding fe52_const_def c_def [symmetric] fe52.inject or.assoc using n0 n1 n2 n3 n4 by simp_all
  then show "unat n0 < 2 ^ 52 \<and> unat n1 < 2 ^ 52 \<and> unat n2 < 2 ^ 52 \<and> unat n3 < 2 ^ 52 \<and> unat n4 < 2 ^ 48"
    using lt 1(1,2) 3(1,2) 4(1,2) 6(1,2) by simp
qed

lemma fe52_const_correct:
  assumes "fe_const_nat d7 d6 d5 d4 d3 d2 d1 d0 < nat field_prime"
  shows "fe52_nrm (fe52_const d7 d6 d5 d4 d3 d2 d1 d0)"
proof (cases "fe52_const d7 d6 d5 d4 d3 d2 d1 d0")
  case (Fe52 n0 n1 n2 n3 n4)
  show ?thesis
    using fe52_const_val(1) [of d7 d6 d5 d4 d3 d2 d1 d0] fe52_const_val(2) [OF Fe52] assms
    unfolding Fe52 fe52_nrm_iff by simp
qed

section \<open>The 32-byte form\<close>

text \<open>Bit \<open>j\<close> of the value is bit \<open>j mod 52\<close> of limb \<open>j div 52\<close>.\<close>

lemma bit_fe52_val:
  assumes "\<And>l. l < 5 \<Longrightarrow> unat (fe52_limb a l) < 2 ^ 52" "l < 5" "t < 52"
  shows "bit (fe52_val a) (52 * l + t) = bit (fe52_limb a l) t"
proof (cases a)
  case (Fe52 n0 n1 n2 n3 n4)
  have n: "unat n0 < 2 ^ 52" "unat n1 < 2 ^ 52" "unat n2 < 2 ^ 52" "unat n3 < 2 ^ 52"
    using assms(1) [of 0] assms(1) [of 1] assms(1) [of 2] assms(1) [of 3] by (simp_all add: Fe52)
  have v: "fe52_val a = (((unat n4 * 2 ^ 52 + unat n3) * 2 ^ 52 + unat n2) * 2 ^ 52 + unat n1) * 2 ^ 52 + unat n0"
    unfolding Fe52 by simp
  have l: "l = 0 \<or> l = 1 \<or> l = 2 \<or> l = 3 \<or> l = 4" using assms(2) by linarith
  show ?thesis
    unfolding v bit_add_low [OF n(1)] bit_add_low [OF n(2)] bit_add_low [OF n(3)] bit_add_low [OF n(4)]
    using l assms(3) by (auto simp: Fe52 bit_unat)
qed

lemma fe52_limb_or:
  "l < 5 \<Longrightarrow> k < 5 \<Longrightarrow> fe52_limb (fe52_or_limb r l v) k = (if k = l then fe52_limb r k OR v else fe52_limb r k)"
  by (cases r) auto

text \<open>
  The string is read nibble by nibble.  After \<open>k\<close> nibbles the limbs hold exactly the low
  \<open>4 k\<close> bits of the number the string denotes.
\<close>

definition fe52_loaded :: "u8 list \<Rightarrow> nat \<Rightarrow> fe52 \<Rightarrow> bool" where
  "fe52_loaded a k r \<longleftrightarrow> (\<forall>l<5. \<forall>t. bit (fe52_limb r l) t \<longleftrightarrow> t < 52 \<and> 52 * l + t < 4 * k \<and> bit (be_nat a) (52 * l + t))"

lemma fe52_set_b32_step_loaded:
  assumes a: "length a = 32" and ij: "i < 32" "j < 2" and r: "fe52_loaded a (2 * i + j) r"
  shows "fe52_loaded a (2 * i + j + 1) (fe52_set_b32_step a i j r)"
proof -
  define e where "e = 8 * i + 4 * j"
  define q where "q = e div 52"
  define s where "s = e mod 52"
  have e: "e = 52 * q + s" "s < 52" by (simp_all add: q_def s_def)
  have s48: "s \<le> 48"
  proof -
    have "4 dvd e" by (simp add: e_def)
    then have "4 dvd s" unfolding s_def by (simp add: dvd_mod_iff)
    with e(2) show ?thesis by (elim dvdE) simp
  qed
  have q: "q < 5" using ij unfolding q_def e_def by simp
  have b: "bit (push_bit s (ucast (drop_bit (4 * j) (a ! (31 - i)) AND 0xF)) :: u64) t
      \<longleftrightarrow> s \<le> t \<and> t < s + 4 \<and> bit (be_nat a) (52 * q + t)" for t
  proof -
    have F: "(0xF :: u8) = mask 4" by (simp add: mask_eq_exp_minus_1)
    have "bit (be_nat a) (52 * q + t) = bit (a ! (31 - i)) (4 * j + (t - s))" if "s \<le> t" "t < s + 4"
    proof -
      have "52 * q + t = 8 * i + (4 * j + (t - s))" using that e(1) unfolding e_def by linarith
      moreover have "4 * j + (t - s) < 8" using that ij(2) by linarith
      ultimately show ?thesis using bit_be_nat [of i a "4 * j + (t - s)"] a ij(1) by simp
    qed
    then show ?thesis unfolding F and_mask_take using s48 ij(2)
      by (auto simp: bit_push_bit_iff bit_ucast_iff bit_take_bit_iff bit_drop_bit_eq)
  qed
  have step: "fe52_set_b32_step a i j r = fe52_or_limb r q (push_bit s (ucast (drop_bit (4 * j) (a ! (31 - i)) AND 0xF)))"
    by (simp add: fe52_set_b32_step_def Let_def q_def s_def e_def)
  have k: "4 * (2 * i + j + 1) = 52 * q + s + 4" "4 * (2 * i + j) = 52 * q + s"
    using e(1) unfolding e_def by simp_all
  show ?thesis
    unfolding fe52_loaded_def step k
  proof (intro allI impI)
    fix l t :: nat
    assume l: "l < 5"
    note old = r [unfolded fe52_loaded_def k, rule_format, OF l, of t]
    show "bit (fe52_limb (fe52_or_limb r q (push_bit s (ucast (drop_bit (4 * j) (a ! (31 - i)) AND 0xF)))) l) t
        \<longleftrightarrow> t < 52 \<and> 52 * l + t < 52 * q + s + 4 \<and> bit (be_nat a) (52 * l + t)"
    proof (cases "l = q")
      case True
      show ?thesis using s48 old by (auto simp: True fe52_limb_or [OF q q] bit_or_iff b)
    next
      case False
      then have "52 * l + 52 \<le> 52 * q \<or> 52 * q + 52 \<le> 52 * l" by linarith
      with False show ?thesis using s48 by (auto simp: fe52_limb_or [OF q l] old)
    qed
  qed
qed

definition fe52_load :: "u8 list \<Rightarrow> nat \<Rightarrow> fe52" where
  "fe52_load a n = foldl (\<lambda>r i. foldl (\<lambda>r j. fe52_set_b32_step a i j r) r [0..<2]) (Fe52 0 0 0 0 0) [0..<n]"

lemma fe52_load_Suc: "fe52_load a (Suc n) = fe52_set_b32_step a n 1 (fe52_set_b32_step a n 0 (fe52_load a n))"
proof -
  have "[0..<2] = [0, 1 :: nat]" by (simp add: upt_conv_Cons)
  then show ?thesis by (simp add: fe52_load_def)
qed

lemma fe52_load_loaded:
  assumes a: "length a = 32"
  shows "n \<le> 32 \<Longrightarrow> fe52_loaded a (2 * n) (fe52_load a n)"
proof (induction n)
  case 0
  have "fe52_limb (Fe52 0 0 0 0 0) l = 0" for l by simp
  then show ?case by (simp add: fe52_load_def fe52_loaded_def)
next
  case (Suc n)
  then have n: "n < 32" and ih: "fe52_loaded a (2 * n + 0) (fe52_load a n)" by simp_all
  have "fe52_loaded a (2 * n + 1 + 1) (fe52_set_b32_step a n 1 (fe52_set_b32_step a n 0 (fe52_load a n)))"
    using fe52_set_b32_step_loaded [OF a n _ ih] by (intro fe52_set_b32_step_loaded [OF a n]) simp_all
  then show ?case unfolding fe52_load_Suc by simp
qed

lemma fe52_loaded_val:
  assumes a: "length a = 32" and r: "fe52_loaded a 64 r"
  shows "fe52_val r = be_nat a" "\<And>l. l < 5 \<Longrightarrow> unat (fe52_limb r l) < 2 ^ 52" "unat (fe52_limb r 4) < 2 ^ 48"
proof -
  have small: "unat w < 2 ^ k" if "\<And>t. bit w t \<Longrightarrow> t < k" for w :: u64 and k
  proof -
    have "take_bit k w = w" by (rule bit_eqI) (use that in \<open>auto simp: bit_take_bit_iff\<close>)
    then have "unat w = unat w mod 2 ^ k" by (metis unat_take)
    then show ?thesis by (metis mod_less_pow2)
  qed
  note bits = r [unfolded fe52_loaded_def, rule_format]
  show 1: "unat (fe52_limb r l) < 2 ^ 52" if "l < 5" for l
    by (rule small) (simp add: bits [OF that])
  show "unat (fe52_limb r 4) < 2 ^ 48"
    by (rule small) (use bits [of 4] in simp)
  show "fe52_val r = be_nat a"
  proof (rule bit_eqI)
    fix j
    show "bit (fe52_val r) j = bit (be_nat a) j"
    proof (cases "j < 260")
      case True
      define l t where "l = j div 52" and "t = j mod 52"
      have j: "j = 52 * l + t" "t < 52" "l < 5" using True by (auto simp: l_def t_def)
      have "bit (be_nat a) j \<Longrightarrow> j < 256" using bit_nat_bound [OF be_nat_less_32 [OF a]] .
      then show ?thesis using bit_fe52_val [of r l t] 1 j bits [OF j(3)] by auto
    next
      case False
      have "fe52_val r < 2 ^ 260"
        using 1 [of 0] 1 [of 1] 1 [of 2] 1 [of 3] 1 [of 4] by (cases r) simp
      then show ?thesis
        using False bit_nat_bound [of "fe52_val r" 260 j] bit_nat_bound [OF be_nat_less_32 [OF a], of j] by auto
    qed
  qed
qed

lemma fe52_set_b32_correct:
  assumes a: "length a = 32" and s: "fe52_set_b32 a = (ok, r)"
  shows "fe52_val r = be_nat a" "fe52_mag 1 r" "ok \<longleftrightarrow> be_nat a < nat field_prime" "ok \<Longrightarrow> fe52_nrm r"
proof -
  obtain n0 n1 n2 n3 n4 where n: "fe52_load a 32 = Fe52 n0 n1 n2 n3 n4" by (cases "fe52_load a 32")
  have L: "fe52_loaded a 64 (fe52_load a 32)" using fe52_load_loaded [OF a, of 32] by simp
  note v = fe52_loaded_val(1) [OF a L] and l = fe52_loaded_val(2) [OF a L] and l4 = fe52_loaded_val(3) [OF a L]
  have b: "unat n0 < 2 ^ 52" "unat n1 < 2 ^ 52" "unat n2 < 2 ^ 52" "unat n3 < 2 ^ 52" "unat n4 < 2 ^ 48"
    using l [of 0] l [of 1] l [of 2] l [of 3] l4 unfolding n by simp_all
  have r: "r = Fe52 n0 n1 n2 n3 n4"
    and ok: "ok \<longleftrightarrow> \<not> (n4 = 0x0FFFFFFFFFFFF \<and> n3 AND n2 AND n1 = 0xFFFFFFFFFFFFF \<and> 0xFFFFEFFFFFC2F \<le> n0)"
    using s n unfolding fe52_set_b32.simps fe52_load_def [symmetric] Let_def by (auto split: if_splits)
  show "fe52_val r = be_nat a" using v unfolding n r .
  show "fe52_mag 1 r" unfolding r fe52_mag_iff using b by simp
  have nrm: "fe52_nrm r \<longleftrightarrow> be_nat a < nat field_prime"
    unfolding r fe52_nrm_iff using b v unfolding n by simp
  have le: "unat n0 \<le> 0xFFFFFFFFFFFFF" "unat n1 \<le> 0xFFFFFFFFFFFFF" "unat n2 \<le> 0xFFFFFFFFFFFFF"
    "unat n3 \<le> 0xFFFFFFFFFFFFF" "unat n4 \<le> 0xFFFFFFFFFFFF"
    using b by simp_all
  have "fe52_nrm r \<longleftrightarrow> ok"
    unfolding r ok fe52_verify.simps Let_def using le by (auto simp: word_less_nat_alt word_le_nat_alt)
  with nrm show "ok \<longleftrightarrow> be_nat a < nat field_prime" "ok \<Longrightarrow> fe52_nrm r" by simp_all
qed

lemma fe52_get_b32_byte_bit:
  assumes a: "\<And>l. l < 5 \<Longrightarrow> unat (fe52_limb a l) < 2 ^ 52" and i: "i < 32" and m: "m < 8"
  shows "bit (fe52_get_b32_byte a i) m = bit (fe52_val a) (8 * i + m)"
proof -
  define nib :: "nat \<Rightarrow> cint" where
    "nib j = ucast (push_bit (4 * j) (drop_bit ((8 * i + 4 * j) mod 52) (fe52_limb a ((8 * i + 4 * j) div 52)) AND 0xF))" for j
  have two: "[0..<2] = [0, 1 :: nat]" by (simp add: upt_conv_Cons)
  have byte: "fe52_get_b32_byte a i = ucast (nib 0 OR nib 1)"
    unfolding fe52_get_b32_byte_def Let_def two by (simp add: nib_def)
  have F: "(0xF :: u64) = mask 4" by (simp add: mask_eq_exp_minus_1)
  have b: "bit (nib j) m \<longleftrightarrow> 4 * j \<le> m \<and> m < 4 * j + 4 \<and> bit (fe52_val a) (8 * i + m)" if "j < 2" for j
  proof -
    define e where "e = 8 * i + 4 * j"
    define q where "q = e div 52"
    define s where "s = e mod 52"
    have e: "e = 52 * q + s" "s < 52" by (simp_all add: q_def s_def)
    have s48: "s \<le> 48"
    proof -
      have "4 dvd e" by (simp add: e_def)
      then have "4 dvd s" unfolding s_def by (simp add: dvd_mod_iff)
      with e(2) show ?thesis by (elim dvdE) simp
    qed
    have q: "q < 5" using i that unfolding q_def e_def by simp
    have nj: "nib j = ucast (push_bit (4 * j) (take_bit 4 (drop_bit s (fe52_limb a q))))"
      unfolding nib_def F and_mask_take by (simp add: q_def s_def e_def)
    have "bit (fe52_limb a q) (s + (m - 4 * j)) = bit (fe52_val a) (8 * i + m)" if "4 * j \<le> m" "m < 4 * j + 4"
    proof -
      have "8 * i + m = 52 * q + (s + (m - 4 * j))" using that e(1) unfolding e_def by linarith
      moreover have "s + (m - 4 * j) < 52" using that s48 by linarith
      ultimately show ?thesis using bit_fe52_val [OF a q] by simp
    qed
    then show ?thesis
      unfolding nj using m that by (auto simp: bit_push_bit_iff bit_ucast_iff bit_take_bit_iff bit_drop_bit_eq)
  qed
  show ?thesis
    unfolding byte using m b [of 0] b [of 1] by (auto simp: bit_ucast_iff bit_or_iff)
qed

lemma fe52_get_b32_correct:
  assumes "fe52_nrm a"
  shows "length (fe52_get_b32 a) = 32 \<and> be_nat (fe52_get_b32 a) = fe52_val a"
proof
  show len: "length (fe52_get_b32 a) = 32" by (simp add: fe52_get_b32_def)
  obtain n0 n1 n2 n3 n4 where n: "a = Fe52 n0 n1 n2 n3 n4" by (cases a)
  note b = assms [unfolded n fe52_nrm_iff]
  have l: "unat (fe52_limb a l) < 2 ^ 52" if "l < 5" for l
  proof -
    have "l = 0 \<or> l = 1 \<or> l = 2 \<or> l = 3 \<or> l = 4" using that by linarith
    then show ?thesis using b unfolding n by auto
  qed
  have v: "fe52_val a < 2 ^ (8 * 32)" using b unfolding n by (simp add: field_prime_def)
  show "be_nat (fe52_get_b32 a) = fe52_val a"
  proof (rule be_nat_eqI [OF len v])
    fix i m :: nat
    assume "i < 32" "m < 8"
    have "map f [0..<32] ! (32 - 1 - i) = f (31 - i)" for f :: "nat \<Rightarrow> u8"
      by (subst nth_map) simp_all
    then have "fe52_get_b32 a ! (32 - 1 - i) = fe52_get_b32_byte a (31 - (31 - i))"
      unfolding fe52_get_b32_def .
    also have "31 - (31 - i) = i" using \<open>i < 32\<close> by simp
    finally have "fe52_get_b32 a ! (32 - 1 - i) = fe52_get_b32_byte a i" .
    then show "bit (fe52_get_b32 a ! (32 - 1 - i)) m = bit (fe52_val a) (8 * i + m)"
      using fe52_get_b32_byte_bit [OF l \<open>i < 32\<close> \<open>m < 8\<close>] by simp
  qed
qed

end
