(* ===== verification/Field_Impl.thy ===== *)
theory Field_Impl
  imports Field_Interface
begin

text \<open>
  The part of the field module that both representations share (field_impl.h): equality, square
  roots and inverses.  Its functions call only the operations of \<open>field_ops\<close>, so they are
  functions of that record; their lemmas are proved once, under the contract \<open>field_impl\<close>.
\<close>

section \<open>Definitions\<close>

definition fe_equal :: "('fe, 'st) field_ops \<Rightarrow> 'fe \<Rightarrow> 'fe \<Rightarrow> bool" where
  "fe_equal F a b =
     (let na = fe_negate F a 1;
          na = fe_add F na b
      in fe_normalizes_to_zero F na)"

definition fe_equal_var :: "('fe, 'st) field_ops \<Rightarrow> 'fe \<Rightarrow> 'fe \<Rightarrow> bool" where
  "fe_equal_var F a b =
     (let na = fe_negate F a 1;
          na = fe_add F na b
      in fe_normalizes_to_zero_var F na)"

text \<open>\<open>for (j=0; j<n; j++) secp256k1_fe_sqr(&x, &x)\<close>.\<close>

primrec fe_sqr_n :: "('fe, 'st) field_ops \<Rightarrow> nat \<Rightarrow> 'fe \<Rightarrow> 'fe" where
  "fe_sqr_n F 0 x = x"
| "fe_sqr_n F (Suc n) x = fe_sqr_n F n (fe_sqr F x)"

text \<open>
  The first half of \<open>secp256k1_fe_sqrt\<close> and of \<open>secp256k1_fe_inv\<close>: an addition chain for the
  powers \<open>2^n - 1\<close>; the second half uses x2, x22 and x223.
\<close>

definition fe_chain :: "('fe, 'st) field_ops \<Rightarrow> 'fe \<Rightarrow> 'fe \<times> 'fe \<times> 'fe" where
  "fe_chain F a =
     (let x2 = fe_sqr F a; x2 = fe_mul F x2 a;
          x3 = fe_sqr F x2; x3 = fe_mul F x3 a;
          x6 = fe_sqr_n F 3 x3; x6 = fe_mul F x6 x3;
          x9 = fe_sqr_n F 3 x6; x9 = fe_mul F x9 x3;
          x11 = fe_sqr_n F 2 x9; x11 = fe_mul F x11 x2;
          x22 = fe_sqr_n F 11 x11; x22 = fe_mul F x22 x11;
          x44 = fe_sqr_n F 22 x22; x44 = fe_mul F x44 x22;
          x88 = fe_sqr_n F 44 x44; x88 = fe_mul F x88 x44;
          x176 = fe_sqr_n F 88 x88; x176 = fe_mul F x176 x88;
          x220 = fe_sqr_n F 44 x176; x220 = fe_mul F x220 x44;
          x223 = fe_sqr_n F 3 x220; x223 = fe_mul F x223 x3
      in (x2, x22, x223))"

definition fe_sqrt :: "('fe, 'st) field_ops \<Rightarrow> 'fe \<Rightarrow> bool \<times> 'fe" where
  "fe_sqrt F a =
     (let (x2, x22, x223) = fe_chain F a;
          t1 = x223;
          t1 = fe_sqr_n F 23 t1; t1 = fe_mul F t1 x22;
          t1 = fe_sqr_n F 6 t1; t1 = fe_mul F t1 x2;
          t1 = fe_sqr F t1;
          r = fe_sqr F t1;
          t1 = fe_sqr F r
      in (fe_equal F t1 a, r))"

definition fe_inv :: "('fe, 'st) field_ops \<Rightarrow> 'fe \<Rightarrow> 'fe" where
  "fe_inv F a =
     (let (x2, x22, x223) = fe_chain F a;
          t1 = x223;
          t1 = fe_sqr_n F 23 t1; t1 = fe_mul F t1 x22;
          t1 = fe_sqr_n F 5 t1; t1 = fe_mul F t1 a;
          t1 = fe_sqr_n F 3 t1; t1 = fe_mul F t1 x2;
          t1 = fe_sqr_n F 2 t1
      in fe_mul F a t1)"

text \<open>The builtin inverse (\<open>USE_FIELD_INV_BUILTIN\<close>) is selected.\<close>

definition fe_inv_var :: "('fe, 'st) field_ops \<Rightarrow> 'fe \<Rightarrow> 'fe" where
  "fe_inv_var F a = fe_inv F a"

text \<open>
  Batch inversion (Montgomery's trick).  \<open>r\<close> is the output array on entry; the first loop runs
  \<open>i\<close> upwards over the prefix products, the second downwards.
\<close>

definition fe_inv_all_var :: "('fe, 'st) field_ops \<Rightarrow> 'fe list \<Rightarrow> 'fe list \<Rightarrow> nat \<Rightarrow> 'fe list" where
  "fe_inv_all_var F r a len =
     (if len < 1 then r
      else
        let r = r[0 := a ! 0];
            r = foldl (\<lambda>r i. r[i := fe_mul F (r ! (i - 1)) (a ! i)]) r [1..<len];
            u = fe_inv_var F (r ! (len - 1));
            (r, u) = foldl (\<lambda>(r, u) j. (r[j := fe_mul F (r ! (j - 1)) u], fe_mul F u (a ! j)))
                       (r, u) (rev [1..<len])
        in r[0 := u])"

text \<open>No bignum library is configured (\<open>USE_NUM_NONE\<close>): a square root is computed.\<close>

definition fe_is_quad_var :: "('fe, 'st) field_ops \<Rightarrow> 'fe \<Rightarrow> bool" where
  "fe_is_quad_var F a = fst (fe_sqrt F a)"

section \<open>Squares in the field\<close>

lemma fermat_square:
  fixes b :: fp
  shows "(b * b) ^ nat ((field_prime + 1) div 2) = b * b"
proof -
  have e: "2 * nat ((field_prime + 1) div 2) = nat (field_prime - 1) + 2"
    by (simp add: field_prime_def)
  have "(b * b) ^ nat ((field_prime + 1) div 2) = b ^ (2 * nat ((field_prime + 1) div 2))"
    by (simp add: power_mult power2_eq_square)
  also have "\<dots> = b ^ nat (field_prime - 1) * (b * b)"
    unfolding e by (simp only: power_add power2_eq_square)
  also have "\<dots> = b * b"
    by (cases "b = 0") (simp_all add: fermat_fp)
  finally show ?thesis .
qed

section \<open>Correctness under the contract\<close>

context field_impl
begin

lemma equal_law:
  assumes "mag 1 a" "mag 30 b"
  shows "fe_equal F a b \<longleftrightarrow> fval a = fval b" and "fe_equal_var F a b \<longleftrightarrow> fval a = fval b"
proof -
  have n: "mag 2 (fe_negate F a 1)" "fval (fe_negate F a 1) = - fval a"
    using negate_law [of 1 a] assms(1) by (simp_all add: numeral_2_eq_2)
  have "mag 32 (fe_add F (fe_negate F a 1) b) \<and> fval (fe_add F (fe_negate F a 1) b) = - fval a + fval b"
    using add_law [OF n(1) assms(2)] n(2) by simp
  then show "fe_equal F a b \<longleftrightarrow> fval a = fval b" "fe_equal_var F a b \<longleftrightarrow> fval a = fval b"
    unfolding fe_equal_def fe_equal_var_def Let_def by (auto simp: ntz_law ntz_var_law)
qed

lemma sqr_n_law:
  "mag 1 x \<Longrightarrow> mag 1 (fe_sqr_n F n x) \<and> fval (fe_sqr_n F n x) = fval x ^ (2 ^ n)"
proof (induction n arbitrary: x)
  case (Suc n)
  have "mag 8 x" using Suc.prems by (rule mag_mono) simp_all
  then have s: "mag 1 (fe_sqr F x)" "fval (fe_sqr F x) = fval x ^ 2"
    using sqr_law by (simp_all add: power2_eq_square)
  show ?case using Suc.IH [OF s(1)] s(2) by (simp add: power_mult)
qed simp

text \<open>\<open>x\<close> holds the power \<open>e\<close> of the value \<open>v\<close>: the state of an addition chain.\<close>

definition pow_of :: "fp \<Rightarrow> 'fe \<Rightarrow> nat \<Rightarrow> bool" where
  "pow_of v x e \<longleftrightarrow> mag 8 x \<and> fval x = v ^ e"

definition pow_of1 :: "fp \<Rightarrow> 'fe \<Rightarrow> nat \<Rightarrow> bool" where
  "pow_of1 v x e \<longleftrightarrow> mag 1 x \<and> fval x = v ^ e"

lemma pow_of1: "pow_of1 v x e \<Longrightarrow> pow_of v x e"
  unfolding pow_of_def pow_of1_def using mag_mono [of 1 x 8] by simp

lemma pow_of_mul: "pow_of v x e \<Longrightarrow> pow_of v y f \<Longrightarrow> pow_of1 v (fe_mul F x y) (e + f)"
  unfolding pow_of_def pow_of1_def using mul_law by (simp add: power_add)

lemma pow_of_sqr: "pow_of v x e \<Longrightarrow> pow_of1 v (fe_sqr F x) (e * 2)"
  unfolding pow_of_def pow_of1_def using sqr_law by (simp add: power_mult power2_eq_square)

lemma pow_of_sqr_n: "pow_of1 v x e \<Longrightarrow> pow_of1 v (fe_sqr_n F n x) (e * 2 ^ n)"
  unfolding pow_of1_def using sqr_n_law by (simp add: power_mult)

lemma pow_of_block:
  assumes "pow_of1 v x (2 ^ m - 1)" "pow_of1 v y (2 ^ n - 1)"
  shows "pow_of1 v (fe_mul F (fe_sqr_n F n x) y) (2 ^ (m + n) - 1)"
proof -
  have "(2 ^ m - 1) * 2 ^ n + (2 ^ n - 1) = (2 ^ (m + n) - 1 :: nat)"
    by (simp add: power_add diff_mult_distrib)
  then show ?thesis
    using pow_of_mul [OF pow_of1 [OF pow_of_sqr_n [OF assms(1), of n]] pow_of1 [OF assms(2)]] by simp
qed

lemma chain_law:
  assumes a: "mag 8 a"
  obtains x2 x22 x223 where "fe_chain F a = (x2, x22, x223)"
    "pow_of1 (fval a) x2 (2 ^ 2 - 1)" "pow_of1 (fval a) x22 (2 ^ 22 - 1)" "pow_of1 (fval a) x223 (2 ^ 223 - 1)"
proof -
  define v where "v = fval a"
  have p: "pow_of v a 1" using a by (simp add: pow_of_def v_def)
  define x2 where "x2 = fe_mul F (fe_sqr F a) a"
  have 2: "pow_of1 v x2 (2 ^ 2 - 1)"
    using pow_of_mul [OF pow_of1 [OF pow_of_sqr [OF p]] p] by (simp add: x2_def)
  define x3 where "x3 = fe_mul F (fe_sqr F x2) a"
  have 3: "pow_of1 v x3 (2 ^ 3 - 1)"
    using pow_of_mul [OF pow_of1 [OF pow_of_sqr [OF pow_of1 [OF 2]]] p] by (simp add: x3_def)
  define x6 where "x6 = fe_mul F (fe_sqr_n F 3 x3) x3"
  have 6: "pow_of1 v x6 (2 ^ 6 - 1)" using pow_of_block [OF 3 3] unfolding x6_def by simp
  define x9 where "x9 = fe_mul F (fe_sqr_n F 3 x6) x3"
  have 9: "pow_of1 v x9 (2 ^ 9 - 1)" using pow_of_block [OF 6 3] unfolding x9_def by simp
  define x11 where "x11 = fe_mul F (fe_sqr_n F 2 x9) x2"
  have 11: "pow_of1 v x11 (2 ^ 11 - 1)" using pow_of_block [OF 9 2] unfolding x11_def by simp
  define x22 where "x22 = fe_mul F (fe_sqr_n F 11 x11) x11"
  have 22: "pow_of1 v x22 (2 ^ 22 - 1)" using pow_of_block [OF 11 11] unfolding x22_def by simp
  define x44 where "x44 = fe_mul F (fe_sqr_n F 22 x22) x22"
  have 44: "pow_of1 v x44 (2 ^ 44 - 1)" using pow_of_block [OF 22 22] unfolding x44_def by simp
  define x88 where "x88 = fe_mul F (fe_sqr_n F 44 x44) x44"
  have 88: "pow_of1 v x88 (2 ^ 88 - 1)" using pow_of_block [OF 44 44] unfolding x88_def by simp
  define x176 where "x176 = fe_mul F (fe_sqr_n F 88 x88) x88"
  have 176: "pow_of1 v x176 (2 ^ 176 - 1)" using pow_of_block [OF 88 88] unfolding x176_def by simp
  define x220 where "x220 = fe_mul F (fe_sqr_n F 44 x176) x44"
  have 220: "pow_of1 v x220 (2 ^ 220 - 1)" using pow_of_block [OF 176 44] unfolding x220_def by simp
  define x223 where "x223 = fe_mul F (fe_sqr_n F 3 x220) x3"
  have 223: "pow_of1 v x223 (2 ^ 223 - 1)" using pow_of_block [OF 220 3] unfolding x223_def by simp
  have "fe_chain F a = (x2, x22, x223)"
    unfolding fe_chain_def Let_def x2_def [symmetric] x3_def [symmetric] x6_def [symmetric] x9_def [symmetric]
      x11_def [symmetric] x22_def [symmetric] x44_def [symmetric] x88_def [symmetric] x176_def [symmetric]
      x220_def [symmetric] x223_def [symmetric] ..
  from this 2 22 223 show ?thesis unfolding v_def by (rule that)
qed

lemma inv_law:
  assumes a: "mag 8 a"
  shows "mag 1 (fe_inv F a) \<and> fval (fe_inv F a) = inverse (fval a)"
proof -
  obtain x2 x22 x223 where c: "fe_chain F a = (x2, x22, x223)"
    and x: "pow_of1 (fval a) x2 (2 ^ 2 - 1)" "pow_of1 (fval a) x22 (2 ^ 22 - 1)" "pow_of1 (fval a) x223 (2 ^ 223 - 1)"
    using a by (rule chain_law)
  have p: "pow_of (fval a) a 1" using a by (simp add: pow_of_def)
  note t1 = pow_of_mul [OF pow_of1 [OF pow_of_sqr_n [OF x(3), of 23]] pow_of1 [OF x(2)]]
  note t2 = pow_of_mul [OF pow_of1 [OF pow_of_sqr_n [OF t1, of 5]] p]
  note t3 = pow_of_mul [OF pow_of1 [OF pow_of_sqr_n [OF t2, of 3]] pow_of1 [OF x(1)]]
  note t4 = pow_of_mul [OF p pow_of1 [OF pow_of_sqr_n [OF t3, of 2]]]
  have e: "1 + ((((2 ^ 223 - 1) * 2 ^ 23 + (2 ^ 22 - 1)) * 2 ^ 5 + 1) * 2 ^ 3 + (2 ^ 2 - 1)) * 2 ^ 2
      = nat (field_prime - 2)"
    by (simp add: field_prime_def)
  have "pow_of1 (fval a) (fe_inv F a) (nat (field_prime - 2))"
    using t4 unfolding e by (simp add: fe_inv_def c Let_def)
  then show ?thesis by (simp only: pow_of1_def inverse_fp_def)
qed

lemma inv_var_law:
  "mag 8 a \<Longrightarrow> mag 1 (fe_inv_var F a) \<and> fval (fe_inv_var F a) = inverse (fval a)"
  unfolding fe_inv_var_def by (rule inv_law)

lemma sqrt_law:
  assumes a: "mag 8 a" and s: "fe_sqrt F a = (ok, r)"
  shows "mag 1 r" and "ok \<longleftrightarrow> (\<exists>b. b * b = fval a)" and "ok \<longleftrightarrow> fval r * fval r = fval a"
    and "\<exists>c. fval r = c * c"
proof -
  obtain x2 x22 x223 where c: "fe_chain F a = (x2, x22, x223)"
    and x: "pow_of1 (fval a) x2 (2 ^ 2 - 1)" "pow_of1 (fval a) x22 (2 ^ 22 - 1)" "pow_of1 (fval a) x223 (2 ^ 223 - 1)"
    using a by (rule chain_law)
  note t1 = pow_of_mul [OF pow_of1 [OF pow_of_sqr_n [OF x(3), of 23]] pow_of1 [OF x(2)]]
  note t2 = pow_of_mul [OF pow_of1 [OF pow_of_sqr_n [OF t1, of 6]] pow_of1 [OF x(1)]]
  note t3 = pow_of_sqr [OF pow_of1 [OF t2]]
  note t4 = pow_of_sqr [OF pow_of1 [OF t3]]
  define t where "t = fe_sqr F (fe_mul F (fe_sqr_n F 6 (fe_mul F (fe_sqr_n F 23 x223) x22)) x2)"
  have r: "r = fe_sqr F t" and ok: "ok = fe_equal F (fe_sqr F r) a"
    using s by (auto simp: fe_sqrt_def c Let_def t_def)
  have mt: "mag 8 t" using pow_of1 [OF t3] unfolding pow_of_def t_def by simp
  have e: "((((2 ^ 223 - 1) * 2 ^ 23 + (2 ^ 22 - 1)) * 2 ^ 6 + (2 ^ 2 - 1)) * 2) * 2 = nat ((field_prime + 1) div 4)"
    by (simp add: field_prime_def)
  have pr: "pow_of1 (fval a) r (nat ((field_prime + 1) div 4))"
    using t4 unfolding e t_def [symmetric] r [symmetric] .
  then show m1: "mag 1 r" by (simp add: pow_of1_def)
  have m8: "mag 8 r" using m1 by (rule mag_mono) simp_all
  have "mag 30 a" using a by (rule mag_mono) simp_all
  then have okr: "ok \<longleftrightarrow> fval r * fval r = fval a"
    unfolding ok using sqr_law [OF m8] by (simp add: equal_law(1))
  then show "ok \<longleftrightarrow> fval r * fval r = fval a" .
  show "\<exists>c. fval r = c * c" using sqr_law [OF mt] unfolding r by blast
  have "2 * nat ((field_prime + 1) div 4) = nat ((field_prime + 1) div 2)" by (simp add: field_prime_def)
  then have "fval r * fval r = fval a ^ nat ((field_prime + 1) div 2)"
    using pr unfolding pow_of1_def by (metis power_add mult_2)
  then have "b * b = fval a \<Longrightarrow> fval r * fval r = fval a" for b
    using fermat_square [of b] by simp
  with okr show "ok \<longleftrightarrow> (\<exists>b. b * b = fval a)" by blast
qed

lemma is_quad_var_law: "mag 8 a \<Longrightarrow> fe_is_quad_var F a \<longleftrightarrow> (\<exists>b. b * b = fval a)"
  unfolding fe_is_quad_var_def by (cases "fe_sqrt F a") (simp add: sqrt_law(2))

text \<open>Batch inversion: the prefix products, and the inverses peeled off them from the end.\<close>

definition pprod :: "'fe list \<Rightarrow> nat \<Rightarrow> fp" where
  "pprod a i = (\<Prod>j\<le>i. fval (a ! j))"

lemma pprod_Suc: "pprod a (Suc i) = pprod a i * fval (a ! Suc i)"
  by (simp add: pprod_def mult.commute)

lemma inv_all_up:
  assumes a: "\<And>i. i < length a \<Longrightarrow> mag 8 (a ! i)" and r: "length r = length a" "r ! 0 = a ! 0"
  shows "Suc k \<le> length a \<Longrightarrow>
    (let s = foldl (\<lambda>r i. r[i := fe_mul F (r ! (i - 1)) (a ! i)]) r [1..<Suc k]
     in length s = length a \<and> (\<forall>i\<le>k. mag 8 (s ! i) \<and> fval (s ! i) = pprod a i))"
proof (induction k)
  case 0
  then have "mag 8 (a ! 0)" by (intro a) linarith
  with 0 show ?case using r by (simp add: pprod_def Let_def)
next
  case (Suc k)
  define s where "s = foldl (\<lambda>r i. r[i := fe_mul F (r ! (i - 1)) (a ! i)]) r [1..<Suc k]"
  have ih: "length s = length a" "\<forall>i\<le>k. mag 8 (s ! i) \<and> fval (s ! i) = pprod a i"
    using Suc unfolding s_def [symmetric] by (simp_all add: Let_def)
  have m: "mag 1 (fe_mul F (s ! k) (a ! Suc k))" "fval (fe_mul F (s ! k) (a ! Suc k)) = pprod a (Suc k)"
    using mul_law [of "s ! k" "a ! Suc k"] ih(2) a [of "Suc k"] Suc.prems by (simp_all add: pprod_Suc)
  have m8: "mag 8 (fe_mul F (s ! k) (a ! Suc k))" using m(1) by (rule mag_mono) simp_all
  have e: "foldl (\<lambda>r i. r[i := fe_mul F (r ! (i - 1)) (a ! i)]) r [1..<Suc (Suc k)]
      = s[Suc k := fe_mul F (s ! k) (a ! Suc k)]"
    by (simp add: s_def)
  show ?case unfolding e Let_def using ih m m8 Suc.prems by (auto simp: nth_list_update le_Suc_eq)
qed

lemma inv_all_down:
  assumes a: "\<And>i. i < length a \<Longrightarrow> mag 8 (a ! i) \<and> fval (a ! i) \<noteq> 0"
  shows "Suc k \<le> length a \<Longrightarrow> length r = length a \<Longrightarrow> mag 8 u \<Longrightarrow> fval u = inverse (pprod a k) \<Longrightarrow>
    (\<forall>i\<le>k. mag 8 (r ! i) \<and> fval (r ! i) = pprod a i) \<Longrightarrow>
    (case foldl (\<lambda>(r, u) j. (r[j := fe_mul F (r ! (j - 1)) u], fe_mul F u (a ! j))) (r, u) (rev [1..<Suc k])
     of (s, v) \<Rightarrow> length s = length a \<and> mag 8 v \<and> fval v = inverse (fval (a ! 0)) \<and>
       (\<forall>i. 0 < i \<and> i \<le> k \<longrightarrow> mag 8 (s ! i) \<and> fval (s ! i) = inverse (fval (a ! i))) \<and>
       (\<forall>i. k < i \<longrightarrow> s ! i = r ! i))"
proof (induction k arbitrary: r u)
  case 0
  then show ?case by (simp add: pprod_def)
next
  case (Suc k)
  define q where "q = r[Suc k := fe_mul F (r ! k) u]"
  define v where "v = fe_mul F u (a ! Suc k)"
  have nz: "fval (a ! Suc k) \<noteq> 0" "mag 8 (a ! Suc k)" using a [of "Suc k"] Suc.prems(1) by simp_all
  have pz: "pprod a k \<noteq> 0" using a Suc.prems(1) by (simp add: pprod_def)
  have v: "mag 1 v" "fval v = inverse (pprod a k)"
    using mul_law [of u "a ! Suc k"] Suc.prems nz by (simp_all add: v_def pprod_Suc)
  have v8: "mag 8 v" using v(1) by (rule mag_mono) simp_all
  have "mag 1 (fe_mul F (r ! k) u)" "fval (fe_mul F (r ! k) u) = inverse (fval (a ! Suc k))"
    using mul_law [of "r ! k" u] Suc.prems pz by (simp_all add: pprod_Suc)
  then have w: "mag 8 (fe_mul F (r ! k) u)" "fval (fe_mul F (r ! k) u) = inverse (fval (a ! Suc k))"
    using mag_mono [of 1 _ 8] by simp_all
  have q: "length q = length a" "\<forall>i\<le>k. mag 8 (q ! i) \<and> fval (q ! i) = pprod a i"
    "q ! Suc k = fe_mul F (r ! k) u" "\<forall>i. Suc k < i \<longrightarrow> q ! i = r ! i"
    using Suc.prems by (simp_all add: q_def)
  have rv: "rev [1..<Suc (Suc k)] = Suc k # rev [1..<Suc k]" by simp
  have kl: "Suc k \<le> length a" using Suc.prems(1) by simp
  obtain t y where t: "foldl (\<lambda>(r, u) j. (r[j := fe_mul F (r ! (j - 1)) u], fe_mul F u (a ! j)))
      (q, v) (rev [1..<Suc k]) = (t, y)"
    by (rule prod.exhaust)
  have ih: "length t = length a" "mag 8 y" "fval y = inverse (fval (a ! 0))"
    "\<And>i. 0 < i \<Longrightarrow> i \<le> k \<Longrightarrow> mag 8 (t ! i) \<and> fval (t ! i) = inverse (fval (a ! i))"
    "\<And>i. k < i \<Longrightarrow> t ! i = q ! i"
    using Suc.IH [OF kl q(1) v8 v(2) q(2), unfolded t prod.case] by blast+
  have "foldl (\<lambda>(r, u) j. (r[j := fe_mul F (r ! (j - 1)) u], fe_mul F u (a ! j))) (r, u) (rev [1..<Suc (Suc k)]) = (t, y)"
    unfolding rv foldl_Cons
    by (simp only: prod.case diff_Suc_1 q_def [symmetric] v_def [symmetric] t)
  moreover have "mag 8 (t ! i) \<and> fval (t ! i) = inverse (fval (a ! i))" if "0 < i" "i \<le> Suc k" for i
    using that ih(4,5) [of i] q(3) w by (cases "i = Suc k") simp_all
  moreover have "t ! i = r ! i" if "Suc k < i" for i
    using that ih(5) [of i] q(4) by simp
  ultimately show ?case using ih(1-3) by (simp only: prod.case simp_thms) blast
qed

lemma inv_all_var_law:
  assumes a: "\<And>i. i < length a \<Longrightarrow> mag 8 (a ! i) \<and> fval (a ! i) \<noteq> 0" and r: "length r = length a"
    and i: "i < length a"
  shows "fval (fe_inv_all_var F r a (length a) ! i) = inverse (fval (a ! i))"
    and "mag 8 (fe_inv_all_var F r a (length a) ! i)"
    and "length (fe_inv_all_var F r a (length a)) = length a"
proof -
  obtain k where k: "length a = Suc k" using i by (cases "length a") simp_all
  define s where "s = foldl (\<lambda>r i. r[i := fe_mul F (r ! (i - 1)) (a ! i)]) (r[0 := a ! 0]) [1..<Suc k]"
  have up: "length s = length a" "\<forall>i\<le>k. mag 8 (s ! i) \<and> fval (s ! i) = pprod a i"
    using inv_all_up [of a "r[0 := a ! 0]" k] a r k unfolding s_def [symmetric] Let_def by simp_all
  define u where "u = fe_inv_var F (s ! k)"
  have u: "mag 8 u" "fval u = inverse (pprod a k)"
    using inv_var_law [of "s ! k"] up(2) mag_mono [of 1 u 8] by (simp_all add: u_def)
  obtain t v where t: "foldl (\<lambda>(r, u) j. (r[j := fe_mul F (r ! (j - 1)) u], fe_mul F u (a ! j))) (s, u) (rev [1..<Suc k]) = (t, v)"
    by (rule prod.exhaust)
  have d: "length t = length a" "mag 8 v" "fval v = inverse (fval (a ! 0))"
    "\<forall>i. 0 < i \<and> i \<le> k \<longrightarrow> mag 8 (t ! i) \<and> fval (t ! i) = inverse (fval (a ! i))"
    using inv_all_down [OF a eq_refl [OF k [symmetric]] up(1) u up(2), unfolded t prod.case] by blast+
  have e: "fe_inv_all_var F r a (length a) = t[0 := v]"
    unfolding fe_inv_all_var_def Let_def k s_def [symmetric] diff_Suc_1 u_def [symmetric] t prod.case by simp
  show "fval (fe_inv_all_var F r a (length a) ! i) = inverse (fval (a ! i))"
    and "mag 8 (fe_inv_all_var F r a (length a) ! i)"
    and "length (fe_inv_all_var F r a (length a)) = length a"
    unfolding e using d i k by (auto simp: nth_list_update)
qed

end

end
