(* ===== verification/Field_5x52_Mul.thy ===== *)
theory Field_5x52_Mul
  imports Field_5x52_Ops Field_Impl
begin

text \<open>
  Multiplication and squaring of field elements with 128-bit products
  (field_5x52_int128_impl.h), and the interpretation of the field contract on this
  representation.

  The code is straight-line; it is cut here where its comments cut it, into the steps that
  consume the column sums p0 .. p8 of the schoolbook product.  Multiplication and squaring
  differ in how they form the columns and in the signedness of the temporaries t3, t4, tx, u0.
\<close>

section \<open>Multiplication\<close>

definition umul128 :: "u64 \<Rightarrow> u64 \<Rightarrow> u128" where
  "umul128 x y = ucast x * ucast y"

text \<open>Columns 3, 8 and 4: limbs t3 and t4, the four bits tx above bit 256, and a carry d.\<close>

definition fe52_mul_hi :: "u128 \<Rightarrow> u128 \<Rightarrow> u128 \<Rightarrow> u128 \<times> u64 \<times> u64 \<times> u64" where
  "fe52_mul_hi p3 p8 p4 =
     (let d = p3; c = p8;
          d = d + (c AND 0xFFFFFFFFFFFFF) * 0x1000003D10; c = drop_bit 52 c;
          t3 = ucast (d AND 0xFFFFFFFFFFFFF); d = drop_bit 52 d;
          d = d + p4;
          d = d + c * 0x1000003D10;
          t4 = ucast (d AND 0xFFFFFFFFFFFFF); d = drop_bit 52 d;
          tx = drop_bit 48 t4; t4 = t4 AND drop_bit 4 0xFFFFFFFFFFFFF
      in (d, t3, t4, tx))"

text \<open>Columns 0 and 5: limb r0.\<close>

definition fe52_mul_r0 :: "u128 \<Rightarrow> u128 \<Rightarrow> u128 \<Rightarrow> u64 \<Rightarrow> u128 \<times> u128 \<times> u64" where
  "fe52_mul_r0 p0 d p5 tx =
     (let c = p0;
          d = d + p5;
          u0 = ucast (d AND 0xFFFFFFFFFFFFF); d = drop_bit 52 d;
          u0 = push_bit 4 u0 OR tx;
          c = c + ucast (u0 :: u64) * ucast (drop_bit 4 0x1000003D10 :: u64);
          r = ucast (c AND 0xFFFFFFFFFFFFF); c = drop_bit 52 c
      in (c, d, r))"

text \<open>Columns 1 and 6 give limb r1, columns 2 and 7 give limb r2.\<close>

definition fe52_mul_mid :: "u128 \<Rightarrow> u128 \<Rightarrow> u128 \<Rightarrow> u128 \<Rightarrow> u128 \<times> u128 \<times> u64" where
  "fe52_mul_mid c p d q =
     (let c = c + p;
          d = d + q;
          c = c + (d AND 0xFFFFFFFFFFFFF) * 0x1000003D10; d = drop_bit 52 d;
          r = ucast (c AND 0xFFFFFFFFFFFFF); c = drop_bit 52 c
      in (c, d, r))"

text \<open>What is left goes to limbs r3 and r4.\<close>

definition fe52_mul_top :: "u128 \<Rightarrow> u128 \<Rightarrow> u64 \<Rightarrow> u64 \<Rightarrow> u64 \<times> u64" where
  "fe52_mul_top c d t3 t4 =
     (let c = c + (d * 0x1000003D10 + ucast t3);
          r3 = ucast (c AND 0xFFFFFFFFFFFFF); c = drop_bit 52 c;
          c = c + ucast t4
      in (r3, ucast c))"

fun fe52_mul_inner :: "fe52 \<Rightarrow> fe52 \<Rightarrow> fe52" where
  "fe52_mul_inner (Fe52 a0 a1 a2 a3 a4) (Fe52 b0 b1 b2 b3 b4) =
     (let (d, t3, t4, tx) = fe52_mul_hi
            (umul128 a0 b3 + umul128 a1 b2 + umul128 a2 b1 + umul128 a3 b0)
            (umul128 a4 b4)
            (umul128 a0 b4 + umul128 a1 b3 + umul128 a2 b2 + umul128 a3 b1 + umul128 a4 b0);
          (c, d, r0) = fe52_mul_r0 (umul128 a0 b0) d
            (umul128 a1 b4 + umul128 a2 b3 + umul128 a3 b2 + umul128 a4 b1) tx;
          (c, d, r1) = fe52_mul_mid c (umul128 a0 b1 + umul128 a1 b0)
            d (umul128 a2 b4 + umul128 a3 b3 + umul128 a4 b2);
          (c, d, r2) = fe52_mul_mid c (umul128 a0 b2 + umul128 a1 b1 + umul128 a2 b0)
            d (umul128 a3 b4 + umul128 a4 b3);
          (r3, r4) = fe52_mul_top c d t3 t4
      in Fe52 r0 r1 r2 r3 r4)"

definition fe52_mul :: "fe52 \<Rightarrow> fe52 \<Rightarrow> fe52" where
  "fe52_mul a b = fe52_mul_inner a b"

section \<open>Squaring\<close>

text \<open>Here t3, t4, tx and u0 are \<open>int64_t\<close>: they widen by sign extension and shift arithmetically.\<close>

definition fe52_sqr_hi :: "u128 \<Rightarrow> u128 \<Rightarrow> u128 \<Rightarrow> u128 \<times> u64 \<times> u64 \<times> u64" where
  "fe52_sqr_hi p3 p8 p4 =
     (let d = p3; c = p8;
          d = d + (c AND 0xFFFFFFFFFFFFF) * 0x1000003D10; c = drop_bit 52 c;
          t3 = ucast (d AND 0xFFFFFFFFFFFFF); d = drop_bit 52 d;
          d = d + p4;
          d = d + c * 0x1000003D10;
          t4 = ucast (d AND 0xFFFFFFFFFFFFF); d = drop_bit 52 d;
          tx = signed_drop_bit 48 t4; t4 = t4 AND drop_bit 4 0xFFFFFFFFFFFFF
      in (d, t3, t4, tx))"

definition fe52_sqr_r0 :: "u128 \<Rightarrow> u128 \<Rightarrow> u128 \<Rightarrow> u64 \<Rightarrow> u128 \<times> u128 \<times> u64" where
  "fe52_sqr_r0 p0 d p5 tx =
     (let c = p0;
          d = d + p5;
          u0 = ucast (d AND 0xFFFFFFFFFFFFF); d = drop_bit 52 d;
          u0 = push_bit 4 u0 OR tx;
          c = c + scast (u0 :: u64) * ucast (drop_bit 4 0x1000003D10 :: u64);
          r = ucast (c AND 0xFFFFFFFFFFFFF); c = drop_bit 52 c
      in (c, d, r))"

definition fe52_sqr_top :: "u128 \<Rightarrow> u128 \<Rightarrow> u64 \<Rightarrow> u64 \<Rightarrow> u64 \<times> u64" where
  "fe52_sqr_top c d t3 t4 =
     (let c = c + (d * 0x1000003D10 + scast t3);
          r3 = ucast (c AND 0xFFFFFFFFFFFFF); c = drop_bit 52 c;
          c = c + scast t4
      in (r3, ucast c))"

primrec fe52_sqr_inner :: "fe52 \<Rightarrow> fe52" where
  "fe52_sqr_inner (Fe52 a0 a1 a2 a3 a4) =
     (let p8 = umul128 a4 a4;
          p3 = umul128 (a0 * 2) a3 + umul128 (a1 * 2) a2;
          a4 = a4 * 2;
          (d, t3, t4, tx) = fe52_sqr_hi p3 p8 (umul128 a0 a4 + umul128 (a1 * 2) a3 + umul128 a2 a2);
          (c, d, r0) = fe52_sqr_r0 (umul128 a0 a0) d (umul128 a1 a4 + umul128 (a2 * 2) a3) tx;
          a0 = a0 * 2;
          (c, d, r1) = fe52_mul_mid c (umul128 a0 a1) d (umul128 a2 a4 + umul128 a3 a3);
          (c, d, r2) = fe52_mul_mid c (umul128 a0 a2 + umul128 a1 a1) d (umul128 a3 a4);
          (r3, r4) = fe52_sqr_top c d t3 t4
      in Fe52 r0 r1 r2 r3 r4)"

definition fe52_sqr :: "fe52 \<Rightarrow> fe52" where
  "fe52_sqr a = fe52_sqr_inner a"

section \<open>The steps in terms of numbers\<close>

lemma lit_R4: "(drop_bit 4 0x1000003D10 :: u64) = 0x1000003D1" "(drop_bit 4 0xFFFFFFFFFFFFF :: u64) = 0xFFFFFFFFFFFF"
  by (simp_all add: word_unat_eq_iff unat_drop)

lemma unat_ucast_and52: "unat (ucast (d AND 0xFFFFFFFFFFFFF) :: u64) = unat d mod 2 ^ 52" for d :: u128
  unfolding unat_ucast_128_64 unat_and_literal
  by (rule mod_less) (rule less_trans [OF mod_less_pow2], simp)

lemma fe52_mul_hi_spec:
  assumes "fe52_mul_hi p3 p8 p4 = (d, t3, t4, tx)"
    and p: "unat p3 < 2 ^ 114" "unat p4 < 2 ^ 115" "unat p8 < 2 ^ 112"
  shows "unat t3 + 2 ^ 52 * (unat t4 + 2 ^ 48 * unat tx) + 2 ^ 104 * unat d
       = unat p3 + 2 ^ 52 * unat p4 + 0x1000003D10 * unat p8"
    and "unat t3 < 2 ^ 52" "unat t4 < 2 ^ 48" "unat tx < 2 ^ 4" "unat d < 2 ^ 64"
proof -
  define d1 where "d1 = p3 + (p8 AND 0xFFFFFFFFFFFFF) * 0x1000003D10"
  define d2 where "d2 = drop_bit 52 d1 + p4 + drop_bit 52 p8 * 0x1000003D10"
  define s where "s = (ucast (d2 AND 0xFFFFFFFFFFFFF) :: u64)"
  have r: "d = drop_bit 52 d2" "t3 = ucast (d1 AND 0xFFFFFFFFFFFFF)" "tx = drop_bit 48 s" "t4 = s AND 0xFFFFFFFFFFFF"
    using assms(1) unfolding fe52_mul_hi_def Let_def d1_def [symmetric] d2_def [symmetric] s_def [symmetric] lit_R4
    by simp_all
  obtain h8 l8 where 8: "unat p8 = l8 + 2 ^ 52 * h8" "l8 < 2 ^ 52" "unat p8 div 2 ^ 52 = h8" "unat p8 mod 2 ^ 52 = l8"
    by (rule divmod_pow2)
  have h8: "h8 < 2 ^ 60" using 8(1) p(3) by simp
  have m1: "unat ((p8 AND 0xFFFFFFFFFFFFF) * 0x1000003D10) = l8 * 0x1000003D10"
    by (subst unat_mult128) (use 8(2) in \<open>simp_all add: unat_and_literal 8(4) [simplified]\<close>)
  have e1: "unat d1 = unat p3 + l8 * 0x1000003D10"
    unfolding d1_def by (subst unat_add128) (use p(1) 8(2) in \<open>simp_all only: m1, simp\<close>)
  obtain h1 l1 where 1: "unat d1 = l1 + 2 ^ 52 * h1" "l1 < 2 ^ 52" "unat d1 div 2 ^ 52 = h1" "unat d1 mod 2 ^ 52 = l1"
    by (rule divmod_pow2)
  have h1: "h1 < 2 ^ 63" using 1(1) e1 p(1) 8(2) by simp
  have m2: "unat (drop_bit 52 p8 * 0x1000003D10) = h8 * 0x1000003D10"
    by (subst unat_mult128) (use h8 in \<open>simp_all add: unat_drop 8(3) [simplified]\<close>)
  have a2: "unat (drop_bit 52 d1 + p4) = h1 + unat p4"
    by (subst unat_add128) (use p(2) h1 in \<open>simp_all only: unat_drop 1(3), simp\<close>)
  have e2: "unat d2 = h1 + unat p4 + h8 * 0x1000003D10"
    unfolding d2_def by (subst unat_add128) (use p(2) h1 h8 in \<open>simp_all only: a2 m2, simp\<close>)
  obtain h2 l2 where 2: "unat d2 = l2 + 2 ^ 52 * h2" "l2 < 2 ^ 52" "unat d2 div 2 ^ 52 = h2" "unat d2 mod 2 ^ 52 = l2"
    by (rule divmod_pow2)
  obtain hx lx where x: "l2 = lx + 2 ^ 48 * hx" "lx < 2 ^ 48" "l2 div 2 ^ 48 = hx" "l2 mod 2 ^ 48 = lx"
    by (rule divmod_pow2)
  have s: "unat s = l2" unfolding s_def unat_ucast_and52 2(4) ..
  have u: "unat t3 = l1" "unat tx = hx" "unat t4 = lx" "unat d = h2"
    unfolding r by (simp_all only: unat_ucast_and52 1(4) unat_drop unat_and_literal s x(3,4) 2(3))
  show "unat t3 + 2 ^ 52 * (unat t4 + 2 ^ 48 * unat tx) + 2 ^ 104 * unat d
       = unat p3 + 2 ^ 52 * unat p4 + 0x1000003D10 * unat p8"
    unfolding u using 1(1) e1 2(1) e2 8(1) x(1) by simp
  show "unat t3 < 2 ^ 52" "unat t4 < 2 ^ 48" unfolding u by (rule 1(2) x(2))+
  show "unat tx < 2 ^ 4" unfolding u using x(1) 2(2) by simp
  show "unat d < 2 ^ 64" unfolding u using 2(1) e2 p(2) h1 h8 by simp
qed

lemma fe52_mul_r0_spec:
  assumes "fe52_mul_r0 p0 d p5 tx = (c', d', r)"
    and p: "unat p0 < 2 ^ 112" "unat d < 2 ^ 64" "unat p5 < 2 ^ 114" "unat tx < 2 ^ 4"
  obtains u where "unat d + unat p5 = u + 2 ^ 52 * unat d'"
    "unat p0 + (16 * u + unat tx) * 0x1000003D1 = unat r + 2 ^ 52 * unat c'"
    "unat r < 2 ^ 52" "unat c' < 2 ^ 61" "unat d' < 2 ^ 63"
proof -
  define d1 where "d1 = d + p5"
  define u0 where "u0 = (push_bit 4 (ucast (d1 AND 0xFFFFFFFFFFFFF)) OR tx :: u64)"
  define c1 where "c1 = p0 + ucast u0 * ucast (0x1000003D1 :: u64)"
  have r: "c' = drop_bit 52 c1" "d' = drop_bit 52 d1" "r = ucast (c1 AND 0xFFFFFFFFFFFFF)"
    using assms(1) unfolding fe52_mul_r0_def Let_def d1_def [symmetric] lit_R4 u0_def [symmetric] c1_def [symmetric]
    by simp_all
  have e1: "unat d1 = unat d + unat p5"
    unfolding d1_def by (rule unat_add128) (use p in simp)
  obtain h1 l1 where 1: "unat d1 = l1 + 2 ^ 52 * h1" "l1 < 2 ^ 52" "unat d1 div 2 ^ 52 = h1" "unat d1 mod 2 ^ 52 = l1"
    by (rule divmod_pow2)
  have u0: "unat u0 = 16 * l1 + unat tx"
    unfolding u0_def or.commute [of _ tx]
    by (subst unat_or_push_bit) (use p(4) 1(2) in \<open>simp_all only: unat_ucast_and52 1(4), simp_all\<close>)
  have m: "unat (ucast u0 * ucast (0x1000003D1 :: u64) :: u128) = (16 * l1 + unat tx) * 0x1000003D1"
    by (subst unat_mult128) (use p(4) 1(2) in \<open>simp_all only: unat_ucast_64_128 u0, simp_all\<close>)
  have e2: "unat c1 = unat p0 + (16 * l1 + unat tx) * 0x1000003D1"
    unfolding c1_def by (subst unat_add128) (use p(1,4) 1(2) in \<open>simp_all only: m, simp\<close>)
  obtain h2 l2 where 2: "unat c1 = l2 + 2 ^ 52 * h2" "l2 < 2 ^ 52" "unat c1 div 2 ^ 52 = h2" "unat c1 mod 2 ^ 52 = l2"
    by (rule divmod_pow2)
  have u: "unat c' = h2" "unat d' = h1" "unat r = l2"
    unfolding r by (simp_all only: unat_ucast_and52 unat_drop 1(3) 2(3,4))
  show ?thesis
  proof (rule that [of l1])
    show "unat d + unat p5 = l1 + 2 ^ 52 * unat d'" unfolding u using 1(1) e1 by simp
    show "unat p0 + (16 * l1 + unat tx) * 0x1000003D1 = unat r + 2 ^ 52 * unat c'" unfolding u using 2(1) e2 by simp
    show "unat r < 2 ^ 52" unfolding u by (rule 2(2))
    show "unat c' < 2 ^ 61" unfolding u using 2(1) e2 p(1,4) 1(2) by simp
    show "unat d' < 2 ^ 63" unfolding u using 1(1) e1 p(2,3) by simp
  qed
qed

lemma fe52_mul_mid_spec:
  assumes "fe52_mul_mid c p d q = (c', d', r)"
    and p: "unat c < 2 ^ 63" "unat d < 2 ^ 63" "unat p < 2 ^ 114" "unat q < 2 ^ 114"
  obtains u where "unat d + unat q = u + 2 ^ 52 * unat d'"
    "unat c + unat p + u * 0x1000003D10 = unat r + 2 ^ 52 * unat c'"
    "unat r < 2 ^ 52" "unat c' < 2 ^ 63" "unat d' < 2 ^ 63"
proof -
  define d1 where "d1 = d + q"
  define c1 where "c1 = c + p + (d1 AND 0xFFFFFFFFFFFFF) * 0x1000003D10"
  have r: "c' = drop_bit 52 c1" "d' = drop_bit 52 d1" "r = ucast (c1 AND 0xFFFFFFFFFFFFF)"
    using assms(1) unfolding fe52_mul_mid_def Let_def d1_def [symmetric] c1_def [symmetric]
    by simp_all
  have e1: "unat d1 = unat d + unat q"
    unfolding d1_def by (rule unat_add128) (use p in simp)
  obtain h1 l1 where 1: "unat d1 = l1 + 2 ^ 52 * h1" "l1 < 2 ^ 52" "unat d1 div 2 ^ 52 = h1" "unat d1 mod 2 ^ 52 = l1"
    by (rule divmod_pow2)
  have m: "unat ((d1 AND 0xFFFFFFFFFFFFF) * 0x1000003D10) = l1 * 0x1000003D10"
    by (subst unat_mult128) (use 1(2) in \<open>simp_all only: unat_and_literal 1(4), simp_all\<close>)
  have a: "unat (c + p) = unat c + unat p"
    by (rule unat_add128) (use p in simp)
  have e2: "unat c1 = unat c + unat p + l1 * 0x1000003D10"
    unfolding c1_def by (subst unat_add128) (use p 1(2) in \<open>simp_all only: a m, simp\<close>)
  obtain h2 l2 where 2: "unat c1 = l2 + 2 ^ 52 * h2" "l2 < 2 ^ 52" "unat c1 div 2 ^ 52 = h2" "unat c1 mod 2 ^ 52 = l2"
    by (rule divmod_pow2)
  have u: "unat c' = h2" "unat d' = h1" "unat r = l2"
    unfolding r by (simp_all only: unat_ucast_and52 unat_drop 1(3) 2(3,4))
  show ?thesis
  proof (rule that [of l1])
    show "unat d + unat q = l1 + 2 ^ 52 * unat d'" unfolding u using 1(1) e1 by simp
    show "unat c + unat p + l1 * 0x1000003D10 = unat r + 2 ^ 52 * unat c'" unfolding u using 2(1) e2 by simp
    show "unat r < 2 ^ 52" unfolding u by (rule 2(2))
    show "unat c' < 2 ^ 63" unfolding u using 2(1) e2 p 1(2) by simp
    show "unat d' < 2 ^ 63" unfolding u using 1(1) e1 p by simp
  qed
qed

lemma fe52_mul_top_spec:
  assumes "fe52_mul_top c d t3 t4 = (r3, r4)"
    and p: "unat c < 2 ^ 63" "unat d < 2 ^ 59" "unat t3 < 2 ^ 52" "unat t4 < 2 ^ 48"
  obtains c' where "unat c + unat d * 0x1000003D10 + unat t3 = unat r3 + 2 ^ 52 * c'"
    "unat r4 = c' + unat t4" "unat r3 < 2 ^ 52" "unat r4 < 2 ^ 48 + 2 ^ 46"
proof -
  define c1 where "c1 = c + (d * 0x1000003D10 + ucast t3)"
  define c2 where "c2 = drop_bit 52 c1 + ucast t4"
  have r: "r3 = ucast (c1 AND 0xFFFFFFFFFFFFF)" "r4 = ucast c2"
    using assms(1) unfolding fe52_mul_top_def Let_def c1_def [symmetric] c2_def [symmetric] by simp_all
  have m: "unat (d * 0x1000003D10) = unat d * 0x1000003D10"
    by (subst unat_mult128) (use p in simp_all)
  have a: "unat (d * 0x1000003D10 + ucast t3) = unat d * 0x1000003D10 + unat t3"
    by (subst unat_add128) (use p in \<open>simp_all only: m unat_ucast_64_128, simp\<close>)
  have e1: "unat c1 = unat c + (unat d * 0x1000003D10 + unat t3)"
    unfolding c1_def by (subst unat_add128) (use p in \<open>simp_all only: a, simp\<close>)
  obtain h1 l1 where 1: "unat c1 = l1 + 2 ^ 52 * h1" "l1 < 2 ^ 52" "unat c1 div 2 ^ 52 = h1" "unat c1 mod 2 ^ 52 = l1"
    by (rule divmod_pow2)
  have h1: "h1 < 2 ^ 46" using 1(1) e1 p by simp
  have "unat c2 = h1 + unat t4"
    unfolding c2_def by (subst unat_add128) (use p h1 in \<open>simp_all only: unat_drop 1(3) unat_ucast_64_128, simp\<close>)
  then have u: "unat r3 = l1" "unat r4 = h1 + unat t4"
    unfolding r using h1 p(4) by (simp_all only: unat_ucast_and52 1(4)) (simp add: unat_ucast_128_64)
  show ?thesis
    by (rule that [of h1]) (unfold u, use 1(1,2) e1 h1 p(4) in simp_all)
qed

section \<open>The whole reduction\<close>

text \<open>
  The steps in sequence replace the nine columns by five limbs of the same residue.  The
  multiple of the prime that is subtracted can be read off the carries.
\<close>

lemma fe52_columns:
  assumes hi: "fe52_mul_hi p3 p8 p4 = (d1, t3, t4, tx)"
    and r0: "fe52_mul_r0 p0 d1 p5 tx = (c0, d2, r0)"
    and r1: "fe52_mul_mid c0 p1 d2 p6 = (c1, d3, r1)"
    and r2: "fe52_mul_mid c1 p2 d3 p7 = (c2, d4, r2)"
    and top: "fe52_mul_top c2 d4 t3 t4 = (r3, r4)"
    and p: "unat p0 < 2 ^ 112" "unat p1 < 2 ^ 114" "unat p2 < 2 ^ 114" "unat p3 < 2 ^ 114" "unat p4 < 2 ^ 115"
      "unat p5 < 2 ^ 114" "unat p6 < 2 ^ 114" "unat p7 < 2 ^ 110" "unat p8 < 2 ^ 112"
  shows "fe52_mag 1 (Fe52 r0 r1 r2 r3 r4)"
    and "fe52_val (Fe52 r0 r1 r2 r3 r4) mod nat field_prime
       = (unat p0 + 2 ^ 52 * unat p1 + 2 ^ 104 * unat p2 + 2 ^ 156 * unat p3 + 2 ^ 208 * unat p4
          + 2 ^ 260 * unat p5 + 2 ^ 312 * unat p6 + 2 ^ 364 * unat p7 + 2 ^ 416 * unat p8) mod nat field_prime"
proof -
  note h = fe52_mul_hi_spec [OF hi p(4,5,9)]
  obtain u0 where 0: "unat d1 + unat p5 = u0 + 2 ^ 52 * unat d2"
    "unat p0 + (16 * u0 + unat tx) * 0x1000003D1 = unat r0 + 2 ^ 52 * unat c0"
    "unat r0 < 2 ^ 52" "unat c0 < 2 ^ 61" "unat d2 < 2 ^ 63"
    by (rule fe52_mul_r0_spec [OF r0 p(1) h(5) p(6) h(4)])
  have c0: "unat c0 < 2 ^ 63" using 0(4) by simp
  obtain u1 where 1: "unat d2 + unat p6 = u1 + 2 ^ 52 * unat d3"
    "unat c0 + unat p1 + u1 * 0x1000003D10 = unat r1 + 2 ^ 52 * unat c1"
    "unat r1 < 2 ^ 52" "unat c1 < 2 ^ 63" "unat d3 < 2 ^ 63"
    by (rule fe52_mul_mid_spec [OF r1 c0 0(5) p(2,7)])
  have p7: "unat p7 < 2 ^ 114" using p(8) by simp
  obtain u2 where 2: "unat d3 + unat p7 = u2 + 2 ^ 52 * unat d4"
    "unat c1 + unat p2 + u2 * 0x1000003D10 = unat r2 + 2 ^ 52 * unat c2"
    "unat r2 < 2 ^ 52" "unat c2 < 2 ^ 63" "unat d4 < 2 ^ 63"
    by (rule fe52_mul_mid_spec [OF r2 1(4,5) p(3) p7])
  have d4: "unat d4 < 2 ^ 59" using 2(1) 1(5) p(8) by simp
  obtain c' where 3: "unat c2 + unat d4 * 0x1000003D10 + unat t3 = unat r3 + 2 ^ 52 * c'"
    "unat r4 = c' + unat t4" "unat r3 < 2 ^ 52" "unat r4 < 2 ^ 48 + 2 ^ 46"
    by (rule fe52_mul_top_spec [OF top 2(4) d4 h(2,3)])
  show "fe52_mag 1 (Fe52 r0 r1 r2 r3 r4)"
    unfolding fe52_mag_iff using 0(3) 1(3) 2(3) 3(3,4) by simp
  define k where "k = unat tx + 16 * (unat d1 + (unat p5 + 2 ^ 52 * unat p6 + 2 ^ 104 * unat p7 + 2 ^ 156 * unat p8))"
  have P: "nat field_prime = 2 ^ 256 - 0x1000003D1" by (simp add: field_prime_def)
  have "fe52_val (Fe52 r0 r1 r2 r3 r4) + k * nat field_prime
       = unat p0 + 2 ^ 52 * unat p1 + 2 ^ 104 * unat p2 + 2 ^ 156 * unat p3 + 2 ^ 208 * unat p4
          + 2 ^ 260 * unat p5 + 2 ^ 312 * unat p6 + 2 ^ 364 * unat p7 + 2 ^ 416 * unat p8"
    unfolding fe52_val.simps k_def P using h(1) 0(1,2) 1(1,2) 2(1,2) 3(1,2) by simp
  then show "fe52_val (Fe52 r0 r1 r2 r3 r4) mod nat field_prime
       = (unat p0 + 2 ^ 52 * unat p1 + 2 ^ 104 * unat p2 + 2 ^ 156 * unat p3 + 2 ^ 208 * unat p4
          + 2 ^ 260 * unat p5 + 2 ^ 312 * unat p6 + 2 ^ 364 * unat p7 + 2 ^ 416 * unat p8) mod nat field_prime"
    by (metis mod_mult_self1)
qed

lemma unat_umul128: "unat (umul128 x y) = unat x * unat y"
proof -
  have "unat x * unat y < 2 ^ 128" by (rule mult_less_pow2 [OF unat_64 unat_64]) simp
  then show ?thesis
    unfolding umul128_def by (subst unat_mult128) (simp_all only: unat_ucast_64_128)
qed

lemma unat_sum2: "unat x < 2 ^ 114 \<Longrightarrow> unat y < 2 ^ 114 \<Longrightarrow> unat (x + y) = unat x + unat y" for x y :: u128
  by (rule unat_add128) simp

text \<open>Magnitude 8 is what the code asks of both factors: 56-bit limbs, 52 bits in the top one.\<close>

lemma fe52_mag8:
  "fe52_mag 8 (Fe52 a0 a1 a2 a3 a4) \<Longrightarrow>
     unat a0 < 2 ^ 56 \<and> unat a1 < 2 ^ 56 \<and> unat a2 < 2 ^ 56 \<and> unat a3 < 2 ^ 56 \<and> unat a4 < 2 ^ 52"
  unfolding fe52_mag_iff by simp

lemma fe52_mul_correct:
  assumes "fe52_mag 8 a" "fe52_mag 8 b"
  shows "fe52_mag 1 (fe52_mul a b)
    \<and> fe52_val (fe52_mul a b) mod nat field_prime = fe52_val a * fe52_val b mod nat field_prime"
proof (cases a; cases b)
  fix a0 a1 a2 a3 a4 b0 b1 b2 b3 b4
  assume ab: "a = Fe52 a0 a1 a2 a3 a4" "b = Fe52 b0 b1 b2 b3 b4"
  define p0 where "p0 = umul128 a0 b0"
  define p1 where "p1 = umul128 a0 b1 + umul128 a1 b0"
  define p2 where "p2 = umul128 a0 b2 + umul128 a1 b1 + umul128 a2 b0"
  define p3 where "p3 = umul128 a0 b3 + umul128 a1 b2 + umul128 a2 b1 + umul128 a3 b0"
  define p4 where "p4 = umul128 a0 b4 + umul128 a1 b3 + umul128 a2 b2 + umul128 a3 b1 + umul128 a4 b0"
  define p5 where "p5 = umul128 a1 b4 + umul128 a2 b3 + umul128 a3 b2 + umul128 a4 b1"
  define p6 where "p6 = umul128 a2 b4 + umul128 a3 b3 + umul128 a4 b2"
  define p7 where "p7 = umul128 a3 b4 + umul128 a4 b3"
  define p8 where "p8 = umul128 a4 b4"
  have "unat a0 < 2 ^ 56 \<and> unat a1 < 2 ^ 56 \<and> unat a2 < 2 ^ 56 \<and> unat a3 < 2 ^ 56 \<and> unat a4 < 2 ^ 52"
    "unat b0 < 2 ^ 56 \<and> unat b1 < 2 ^ 56 \<and> unat b2 < 2 ^ 56 \<and> unat b3 < 2 ^ 56 \<and> unat b4 < 2 ^ 52"
    by (rule fe52_mag8; use assms ab in simp)+
  then have lo: "unat x * unat y < 2 ^ 112" if "x \<in> {a0, a1, a2, a3}" "y \<in> {b0, b1, b2, b3}" for x y
    by (intro mult_less_pow2 [of _ 56 _ 56]) (use that in auto)
  have "unat a0 < 2 ^ 56 \<and> unat a1 < 2 ^ 56 \<and> unat a2 < 2 ^ 56 \<and> unat a3 < 2 ^ 56 \<and> unat a4 < 2 ^ 52"
    "unat b0 < 2 ^ 56 \<and> unat b1 < 2 ^ 56 \<and> unat b2 < 2 ^ 56 \<and> unat b3 < 2 ^ 56 \<and> unat b4 < 2 ^ 52"
    by (rule fe52_mag8; use assms ab in simp)+
  then have m1: "unat x * unat b4 < 2 ^ 108" "unat a4 * unat y < 2 ^ 108"
    if "x \<in> {a0, a1, a2, a3}" "y \<in> {b0, b1, b2, b3}" for x y
    using mult_less_pow2 [of "unat x" 56 "unat b4" 52 108] mult_less_pow2 [of "unat a4" 52 "unat y" 56 108] that by auto
  have "unat a4 < 2 ^ 52" "unat b4 < 2 ^ 52"
    using fe52_mag8 assms ab by blast+
  then have hh: "unat a4 * unat b4 < 2 ^ 104" by (rule mult_less_pow2) simp
  have l: "unat a0 * unat b0 < 2 ^ 112" "unat a0 * unat b1 < 2 ^ 112" "unat a0 * unat b2 < 2 ^ 112"
    "unat a0 * unat b3 < 2 ^ 112" "unat a1 * unat b0 < 2 ^ 112" "unat a1 * unat b1 < 2 ^ 112"
    "unat a1 * unat b2 < 2 ^ 112" "unat a1 * unat b3 < 2 ^ 112" "unat a2 * unat b0 < 2 ^ 112"
    "unat a2 * unat b1 < 2 ^ 112" "unat a2 * unat b2 < 2 ^ 112" "unat a2 * unat b3 < 2 ^ 112"
    "unat a3 * unat b0 < 2 ^ 112" "unat a3 * unat b1 < 2 ^ 112" "unat a3 * unat b2 < 2 ^ 112"
    "unat a3 * unat b3 < 2 ^ 112"
    by (rule lo; simp)+
  have m: "unat a0 * unat b4 < 2 ^ 108" "unat a1 * unat b4 < 2 ^ 108" "unat a2 * unat b4 < 2 ^ 108"
    "unat a3 * unat b4 < 2 ^ 108" "unat a4 * unat b0 < 2 ^ 108" "unat a4 * unat b1 < 2 ^ 108"
    "unat a4 * unat b2 < 2 ^ 108" "unat a4 * unat b3 < 2 ^ 108"
    by (rule m1 [where x = a0 and y = b0] m1 [where x = a1 and y = b1] m1 [where x = a2 and y = b2]
      m1 [where x = a3 and y = b3]; simp)+
  have e: "unat p0 = unat a0 * unat b0" "unat p1 = unat a0 * unat b1 + unat a1 * unat b0"
    "unat p2 = unat a0 * unat b2 + unat a1 * unat b1 + unat a2 * unat b0"
    "unat p3 = unat a0 * unat b3 + unat a1 * unat b2 + unat a2 * unat b1 + unat a3 * unat b0"
    "unat p4 = unat a0 * unat b4 + unat a1 * unat b3 + unat a2 * unat b2 + unat a3 * unat b1 + unat a4 * unat b0"
    "unat p5 = unat a1 * unat b4 + unat a2 * unat b3 + unat a3 * unat b2 + unat a4 * unat b1"
    "unat p6 = unat a2 * unat b4 + unat a3 * unat b3 + unat a4 * unat b2"
    "unat p7 = unat a3 * unat b4 + unat a4 * unat b3"
    "unat p8 = unat a4 * unat b4"
    unfolding p0_def p1_def p2_def p3_def p4_def p5_def p6_def p7_def p8_def using l m
    by (simp_all add: unat_sum2 unat_umul128)
  have b: "unat p0 < 2 ^ 112" "unat p1 < 2 ^ 114" "unat p2 < 2 ^ 114" "unat p3 < 2 ^ 114" "unat p4 < 2 ^ 115"
      "unat p5 < 2 ^ 114" "unat p6 < 2 ^ 114" "unat p7 < 2 ^ 110" "unat p8 < 2 ^ 112"
    unfolding e using l m hh by simp_all
  obtain d1 t3 t4 tx where hi: "fe52_mul_hi p3 p8 p4 = (d1, t3, t4, tx)" by (cases "fe52_mul_hi p3 p8 p4")
  obtain c0 d2 r0 where r0: "fe52_mul_r0 p0 d1 p5 tx = (c0, d2, r0)" by (cases "fe52_mul_r0 p0 d1 p5 tx")
  obtain c1 d3 r1 where r1: "fe52_mul_mid c0 p1 d2 p6 = (c1, d3, r1)" by (cases "fe52_mul_mid c0 p1 d2 p6")
  obtain c2 d4 r2 where r2: "fe52_mul_mid c1 p2 d3 p7 = (c2, d4, r2)" by (cases "fe52_mul_mid c1 p2 d3 p7")
  obtain r3 r4 where top: "fe52_mul_top c2 d4 t3 t4 = (r3, r4)" by (cases "fe52_mul_top c2 d4 t3 t4")
  have r: "fe52_mul a b = Fe52 r0 r1 r2 r3 r4"
    unfolding fe52_mul_def ab fe52_mul_inner.simps Let_def
      p0_def [symmetric] p1_def [symmetric] p2_def [symmetric] p3_def [symmetric] p4_def [symmetric]
      p5_def [symmetric] p6_def [symmetric] p7_def [symmetric] p8_def [symmetric]
    by (simp only: hi r0 r1 r2 top prod.case)
  have "unat p0 + 2 ^ 52 * unat p1 + 2 ^ 104 * unat p2 + 2 ^ 156 * unat p3 + 2 ^ 208 * unat p4
      + 2 ^ 260 * unat p5 + 2 ^ 312 * unat p6 + 2 ^ 364 * unat p7 + 2 ^ 416 * unat p8 = fe52_val a * fe52_val b"
    unfolding e ab fe52_val.simps by (simp add: algebra_simps)
  with fe52_columns [OF hi r0 r1 r2 top b] show ?thesis unfolding r by simp
qed

section \<open>Squaring is multiplication\<close>

text \<open>The signed temporaries stay below 2^63, where sign extension and arithmetic shift are the unsigned ones.\<close>

lemma not_bit_63: "unat x < 2 ^ 63 \<Longrightarrow> \<not> bit x 63" for x :: u64
  using bit_small [of x 63 63] by blast

lemma scast_128_pos: "unat x < 2 ^ 63 \<Longrightarrow> (scast x :: u128) = ucast x" for x :: u64
proof -
  assume "unat x < 2 ^ 63"
  then have "int (unat x) < int (2 ^ 63)" by (rule of_nat_less_iff [THEN iffD2])
  then have "uint x < 2 ^ 63" by (simp only: of_nat_unat of_nat_power of_nat_numeral)
  then have "signed_take_bit 63 (uint x) = uint x"
    by (intro signed_take_bit_int_eq_self order_trans [OF _ uint_ge_0]) simp_all
  then have "sint x = uint x" by (simp add: sint_uint)
  then show ?thesis by (simp only: scast_eq ucast_eq)
qed

lemma signed_drop_bit_pos: "unat x < 2 ^ 63 \<Longrightarrow> signed_drop_bit n x = drop_bit n x" for x :: u64
  by (rule bit_eqI) (auto simp: bit_simps not_bit_63 dest: bit_imp_le_length)

lemma fe52_sqr_hi_eq: "fe52_sqr_hi p3 p8 p4 = fe52_mul_hi p3 p8 p4"
proof -
  have "signed_drop_bit 48 (ucast (d AND 0xFFFFFFFFFFFFF) :: u64) = drop_bit 48 (ucast (d AND 0xFFFFFFFFFFFFF))"
    for d :: u128
    by (rule signed_drop_bit_pos) (unfold unat_ucast_and52, rule less_trans [OF mod_less_pow2], simp)
  then show ?thesis unfolding fe52_sqr_hi_def fe52_mul_hi_def Let_def by simp
qed

lemma fe52_sqr_r0_eq:
  assumes "unat tx < 2 ^ 4"
  shows "fe52_sqr_r0 p0 d p5 tx = fe52_mul_r0 p0 d p5 tx"
proof -
  have "(scast (push_bit 4 (ucast (d AND 0xFFFFFFFFFFFFF)) OR tx) :: u128) = ucast (push_bit 4 (ucast (d AND 0xFFFFFFFFFFFFF)) OR tx :: u64)"
    for d :: u128
  proof (rule scast_128_pos)
    define l where "l = unat d mod 2 ^ 52"
    have l: "l < 2 ^ 52" by (simp add: l_def)
    show "unat (push_bit 4 (ucast (d AND 0xFFFFFFFFFFFFF)) OR tx) < 2 ^ 63"
      unfolding or.commute [of _ tx]
      by (subst unat_or_push_bit) (use assms l in \<open>simp_all only: unat_ucast_and52 l_def [symmetric], simp_all\<close>)
  qed
  then show ?thesis unfolding fe52_sqr_r0_def fe52_mul_r0_def Let_def by simp
qed

lemma fe52_sqr_top_eq:
  "unat t3 < 2 ^ 52 \<Longrightarrow> unat t4 < 2 ^ 48 \<Longrightarrow> fe52_sqr_top c d t3 t4 = fe52_mul_top c d t3 t4"
  unfolding fe52_sqr_top_def fe52_mul_top_def Let_def by (simp add: scast_128_pos)

lemma umul128_double:
  assumes "unat x < 2 ^ 63"
  shows "umul128 (x * 2) y = umul128 x y + umul128 y x"
proof -
  have "unat (x * 2) = unat x * 2" using assms by (subst unat_mult64) simp_all
  then have "(ucast (x * 2) :: u128) = ucast x * 2"
    using assms by (intro word_eq_of_unat) (subst unat_mult128, simp_all add: unat_ucast_64_128)
  then show ?thesis by (simp add: umul128_def)
qed

lemma umul128_commute: "umul128 x y = umul128 y x"
  by (simp add: umul128_def)

lemma fe52_sqr_eq_mul:
  assumes "fe52_mag 8 a"
  shows "fe52_sqr a = fe52_mul a a"
proof (cases a)
  case (Fe52 a0 a1 a2 a3 a4)
  have "unat a0 < 2 ^ 56 \<and> unat a1 < 2 ^ 56 \<and> unat a2 < 2 ^ 56 \<and> unat a3 < 2 ^ 56 \<and> unat a4 < 2 ^ 52"
    by (rule fe52_mag8) (use assms Fe52 in simp)
  then have lt: "unat a0 < 2 ^ 63" "unat a1 < 2 ^ 63" "unat a2 < 2 ^ 63" "unat a4 < 2 ^ 63" by simp_all
  note dbl = lt [THEN umul128_double]
  have d4: "umul128 y (a4 * 2) = umul128 y a4 + umul128 a4 y" for y
    unfolding umul128_commute [of y "a4 * 2"] dbl by (simp add: add.commute)
  define p3 where "p3 = umul128 a0 a3 + umul128 a1 a2 + umul128 a2 a1 + umul128 a3 a0"
  define p4 where "p4 = umul128 a0 a4 + umul128 a1 a3 + umul128 a2 a2 + umul128 a3 a1 + umul128 a4 a0"
  define p5 where "p5 = umul128 a1 a4 + umul128 a2 a3 + umul128 a3 a2 + umul128 a4 a1"
  have col: "umul128 (a0 * 2) a3 + umul128 (a1 * 2) a2 = p3"
    "umul128 a0 (a4 * 2) + umul128 (a1 * 2) a3 + umul128 a2 a2 = p4"
    "umul128 a1 (a4 * 2) + umul128 (a2 * 2) a3 = p5"
    "umul128 (a0 * 2) a1 = umul128 a0 a1 + umul128 a1 a0"
    "umul128 a2 (a4 * 2) + umul128 a3 a3 = umul128 a2 a4 + umul128 a3 a3 + umul128 a4 a2"
    "umul128 (a0 * 2) a2 + umul128 a1 a1 = umul128 a0 a2 + umul128 a1 a1 + umul128 a2 a0"
    "umul128 a3 (a4 * 2) = umul128 a3 a4 + umul128 a4 a3"
    unfolding d4 dbl p3_def p4_def p5_def by (simp_all only: ac_simps)
  obtain d1 t3 t4 tx where hi: "fe52_mul_hi p3 (umul128 a4 a4) p4 = (d1, t3, t4, tx)"
    by (cases "fe52_mul_hi p3 (umul128 a4 a4) p4")
  have small: "unat t3 < 2 ^ 52" "unat t4 < 2 ^ 48" "unat tx < 2 ^ 4"
  proof -
    have "unat t3 < 2 ^ 52 \<and> unat t4 < 2 ^ 48 \<and> unat tx < 2 ^ 4"
      using hi unfolding fe52_mul_hi_def Let_def lit_R4
      by (auto simp only: prod.inject unat_ucast_and52 unat_and_literal unat_drop mod_less_pow2)
        (simp add: less_mult_imp_div_less)
    then show "unat t3 < 2 ^ 52" "unat t4 < 2 ^ 48" "unat tx < 2 ^ 4" by simp_all
  qed
  show ?thesis
    unfolding fe52_mul_def fe52_sqr_def Fe52 fe52_mul_inner.simps fe52_sqr_inner.simps Let_def
      col fe52_sqr_hi_eq p3_def [symmetric] p4_def [symmetric] p5_def [symmetric]
    by (simp only: hi prod.case fe52_sqr_r0_eq [OF small(3)] fe52_sqr_top_eq [OF small(1,2)])
qed

section \<open>Field elements in 5x52 form satisfy the contract of field.h\<close>

definition fe52_ops :: "(fe52, fe52_storage) field_ops" where
  "fe52_ops = \<lparr> fe_const = fe52_const, fe_normalize = fe52_normalize, fe_normalize_weak = fe52_normalize_weak,
     fe_normalize_var = fe52_normalize_var, fe_normalizes_to_zero = fe52_normalizes_to_zero,
     fe_normalizes_to_zero_var = fe52_normalizes_to_zero_var, fe_set_int = fe52_set_int, fe_clear = fe52_clear,
     fe_is_zero = fe52_is_zero, fe_is_odd = fe52_is_odd, fe_cmp_var = fe52_cmp_var, fe_set_b32 = fe52_set_b32,
     fe_get_b32 = fe52_get_b32, fe_negate = fe52_negate, fe_mul_int = fe52_mul_int, fe_add = fe52_add,
     fe_mul = fe52_mul, fe_sqr = fe52_sqr, fe_to_storage = fe52_to_storage, fe_from_storage = fe52_from_storage,
     fe_storage_cmov = fe52_storage_cmov, fe_cmov = fe52_cmov \<rparr>"

lemma of_nat_fp_mod: "x mod nat field_prime = y mod nat field_prime \<Longrightarrow> (of_nat x :: fp) = of_nat y"
proof -
  assume "x mod nat field_prime = y mod nat field_prime"
  then have "int (x mod nat field_prime) = int (y mod nat field_prime)" by simp
  then show ?thesis by (simp add: of_nat_fp_eq_iff zmod_int order_less_imp_le [OF field_prime_pos(1)])
qed

lemma fe52_fval_modI: "fe52_val r mod nat field_prime = n mod nat field_prime \<Longrightarrow> fe52_fval r = of_nat n"
  unfolding fe52_fval_def by (rule of_nat_fp_mod)

lemma fe52_rep_fval:
  assumes "fe52_nrm a"
  shows "rep_fp (fe52_fval a) = int (fe52_val a)"
proof -
  have "fe52_val a < nat field_prime" using assms by (cases a) (simp only: fe52_nrm_iff)
  then show ?thesis unfolding fe52_fval_def by (simp add: rep_fp_of_nat field_prime_def)
qed

lemma fe52_nrm_mag: "fe52_nrm a \<Longrightarrow> fe52_mag 1 a"
  by (cases a) (simp only: fe52_nrm_iff fe52_mag_iff, simp)

lemma fe52_mag_mono: "fe52_mag m a \<Longrightarrow> m \<le> k \<Longrightarrow> k \<le> 2048 \<Longrightarrow> fe52_mag k a"
  by (cases a) (simp only: fe52_mag_iff, simp)

lemma fe52_ops_sel [simp]:
  "fe_const fe52_ops = fe52_const" "fe_normalize fe52_ops = fe52_normalize"
  "fe_normalize_weak fe52_ops = fe52_normalize_weak" "fe_normalize_var fe52_ops = fe52_normalize_var"
  "fe_normalizes_to_zero fe52_ops = fe52_normalizes_to_zero"
  "fe_normalizes_to_zero_var fe52_ops = fe52_normalizes_to_zero_var" "fe_set_int fe52_ops = fe52_set_int"
  "fe_clear fe52_ops = fe52_clear" "fe_is_zero fe52_ops = fe52_is_zero" "fe_is_odd fe52_ops = fe52_is_odd"
  "fe_cmp_var fe52_ops = fe52_cmp_var" "fe_set_b32 fe52_ops = fe52_set_b32" "fe_get_b32 fe52_ops = fe52_get_b32"
  "fe_negate fe52_ops = fe52_negate" "fe_mul_int fe52_ops = fe52_mul_int" "fe_add fe52_ops = fe52_add"
  "fe_mul fe52_ops = fe52_mul" "fe_sqr fe52_ops = fe52_sqr" "fe_to_storage fe52_ops = fe52_to_storage"
  "fe_from_storage fe52_ops = fe52_from_storage" "fe_storage_cmov fe52_ops = fe52_storage_cmov"
  "fe_cmov fe52_ops = fe52_cmov"
  by (simp_all add: fe52_ops_def)

lemma fe52_fval_0_iff: "fe52_fval a = 0 \<longleftrightarrow> fe52_val a mod nat field_prime = 0"
proof -
  have "fe52_fval a = 0 \<longleftrightarrow> int (fe52_val a) mod field_prime = 0"
    unfolding fe52_fval_def using of_nat_fp_eq_iff [of "fe52_val a" 0] by simp
  also have "\<dots> \<longleftrightarrow> int (fe52_val a mod nat field_prime) = 0"
    by (simp only: zmod_int int_nat_eq order_less_imp_le [OF field_prime_pos(1)] if_True)
  finally show ?thesis by simp
qed

lemma fe52_normalize_law:
  assumes "fe52_mag 32 a"
  shows "fe52_nrm (fe52_normalize a) \<and> fe52_fval (fe52_normalize a) = fe52_fval a"
    and "fe52_nrm (fe52_normalize_var a) \<and> fe52_fval (fe52_normalize_var a) = fe52_fval a"
    and "fe52_mag 1 (fe52_normalize_weak a) \<and> fe52_fval (fe52_normalize_weak a) = fe52_fval a"
    and "fe52_normalizes_to_zero a \<longleftrightarrow> fe52_fval a = 0"
    and "fe52_normalizes_to_zero_var a \<longleftrightarrow> fe52_fval a = 0"
proof -
  have le: "(32 :: nat) \<le> 2047" by simp
  have "fe52_fval (fe52_normalize a) = of_nat (fe52_val a)"
    by (rule fe52_fval_modI) (simp only: fe52_normalize_correct [OF assms le] mod_mod_trivial)
  then show n: "fe52_nrm (fe52_normalize a) \<and> fe52_fval (fe52_normalize a) = fe52_fval a"
    using fe52_normalize_correct [OF assms le] unfolding fe52_fval_def by blast
  then show "fe52_nrm (fe52_normalize_var a) \<and> fe52_fval (fe52_normalize_var a) = fe52_fval a"
    unfolding fe52_normalize_var_eq [OF assms le] .
  show "fe52_mag 1 (fe52_normalize_weak a) \<and> fe52_fval (fe52_normalize_weak a) = fe52_fval a"
    using fe52_normalize_weak_correct [OF assms le] fe52_fval_modI unfolding fe52_fval_def [of a] by blast
  show z: "fe52_normalizes_to_zero a \<longleftrightarrow> fe52_fval a = 0"
    unfolding fe52_normalizes_to_zero_correct [OF assms le] fe52_fval_0_iff ..
  then show "fe52_normalizes_to_zero_var a \<longleftrightarrow> fe52_fval a = 0"
    unfolding fe52_normalizes_to_zero_var_eq .
qed

lemma fe52_compare_law:
  assumes "fe52_nrm a" "fe52_nrm b"
  shows "fe52_is_zero a \<longleftrightarrow> fe52_fval a = 0" and "fe52_is_odd a \<longleftrightarrow> odd (rep_fp (fe52_fval a))"
    and "fe52_cmp_var a b = sgn (rep_fp (fe52_fval a) - rep_fp (fe52_fval b))"
  unfolding fe52_rep_fval [OF assms(1)] fe52_rep_fval [OF assms(2)] fe52_is_odd_iff fe52_is_zero_iff fp_eq_iff
    fe52_cmp_var_correct [OF assms]
  by simp_all

lemma fe52_negate_law:
  assumes "fe52_mag (unat w) a" "unat w < 32"
  shows "fe52_mag (unat w + 1) (fe52_negate a w) \<and> fe52_fval (fe52_negate a w) = - fe52_fval a"
proof -
  note n = fe52_negate_correct [OF assms]
  have "fe52_fval (fe52_negate a w) + fe52_fval a = of_nat (2 * (unat w + 1) * nat field_prime)"
    unfolding fe52_fval_def of_nat_add [symmetric] using n by simp
  also have "\<dots> = of_nat 0" by (rule of_nat_fp_mod) (simp only: mod_mult_self2_is_0 mod_0)
  finally have "fe52_fval (fe52_negate a w) = - fe52_fval a" by (simp add: eq_neg_iff_add_eq_0)
  with n show ?thesis by simp
qed

interpretation f52: field_impl fe52_ops fe52_fval fe52_mag fe52_nrm
proof (unfold_locales, unfold fe52_ops_sel)
  show "fe52_mag m a \<Longrightarrow> m \<le> k \<Longrightarrow> k \<le> 32 \<Longrightarrow> fe52_mag k a" for m k a
    by (rule fe52_mag_mono) simp_all
  show "fe52_nrm a \<Longrightarrow> fe52_mag 1 a" for a by (rule fe52_nrm_mag)
  show "fe52_nrm a \<Longrightarrow> fe52_nrm b \<Longrightarrow> fe52_fval a = fe52_fval b \<Longrightarrow> a = b" for a b
    using fe52_rep_fval [of a] fe52_rep_fval [of b] by (intro fe52_nrm_inj) simp_all
  show "fe52_nrm (fe52_const d7 d6 d5 d4 d3 d2 d1 d0) \<and>
      fe52_fval (fe52_const d7 d6 d5 d4 d3 d2 d1 d0) = of_nat (fe_const_nat d7 d6 d5 d4 d3 d2 d1 d0)"
    if "fe_const_nat d7 d6 d5 d4 d3 d2 d1 d0 < nat field_prime" for d7 d6 d5 d4 d3 d2 d1 d0
    using fe52_const_correct [OF that] by (simp only: fe52_fval_def fe52_const_val(1))
  show "fe52_nrm (fe52_set_int w) \<and> fe52_fval (fe52_set_int w) = of_nat (unat w)" if "unat w < 2 ^ 26" for w
    using fe52_set_int_correct [OF that] by (simp add: fe52_fval_def)
  show "fe52_nrm fe52_clear \<and> fe52_fval fe52_clear = 0"
    using fe52_clear_correct by (simp add: fe52_fval_def)
  show "ok = (be_nat bs < nat field_prime) \<and> fe52_mag 1 r \<and> fe52_fval r = of_nat (be_nat bs) \<and> (ok \<longrightarrow> fe52_nrm r)"
    if "length bs = 32" "fe52_set_b32 bs = (ok, r)" for bs ok r
    using fe52_set_b32_correct [OF that] by (simp add: fe52_fval_def)
  show "length (fe52_get_b32 a) = 32 \<and> int (be_nat (fe52_get_b32 a)) = rep_fp (fe52_fval a)" if "fe52_nrm a" for a
    using fe52_get_b32_correct [OF that] fe52_rep_fval [OF that] by simp
  show "fe52_mag (m * unat w) (fe52_mul_int a w) \<and> fe52_fval (fe52_mul_int a w) = of_nat (unat w) * fe52_fval a"
    if "fe52_mag m a" "m * unat w \<le> 32" "0 < m" for m a w
  proof -
    have "m * unat w \<le> 2047" using that(2) by simp
    from fe52_mul_int_correct [OF that(1) this that(3)] show ?thesis by (simp add: fe52_fval_def)
  qed
  show "fe52_mag (m + k) (fe52_add a b) \<and> fe52_fval (fe52_add a b) = fe52_fval a + fe52_fval b"
    if "fe52_mag m a" "fe52_mag k b" "m + k \<le> 32" for m a k b
  proof -
    have "m + k \<le> 2047" using that(3) by simp
    from fe52_add_correct [OF that(1,2) this] show ?thesis by (simp add: fe52_fval_def)
  qed
  show "fe52_mag 1 (fe52_mul a b) \<and> fe52_fval (fe52_mul a b) = fe52_fval a * fe52_fval b"
    if "fe52_mag 8 a" "fe52_mag 8 b" for a b
  proof -
    note m = fe52_mul_correct [OF that]
    from m have "fe52_fval (fe52_mul a b) = of_nat (fe52_val a * fe52_val b)"
      by (intro fe52_fval_modI) simp
    with m show ?thesis by (simp add: fe52_fval_def)
  qed
  then show "fe52_mag 1 (fe52_sqr a) \<and> fe52_fval (fe52_sqr a) = fe52_fval a * fe52_fval a"
    if "fe52_mag 8 a" for a
    using that by (simp only: fe52_sqr_eq_mul)
qed (rule fe52_normalize_law fe52_compare_law fe52_negate_law fe52_storage_roundtrip fe52_storage_cmov_select
    fe52_cmov_select; assumption)+

section \<open>Properties\<close>

text \<open>
  C9: multiplying two elements of magnitude at most 8 gives an element of magnitude 1 whose
  value is the product modulo the field prime.  The arithmetic is that of the 64 and 128 bit words of the
  code, which wraps around.
\<close>

theorem fe52_mul_is_field_product:
  "fe52_mag 8 a \<Longrightarrow> fe52_mag 8 b \<Longrightarrow>
     fe52_mag 1 (fe52_mul a b) \<and>
     fe52_val (fe52_mul a b) mod nat field_prime = fe52_val a * fe52_val b mod nat field_prime"
  by (rule fe52_mul_correct)

lemma fe52_mul_is_field_product_witness:
  "fe52_mag 1 (fe52_mul (Fe52 (2 ^ 55) 3 0 0 (2 ^ 51)) (Fe52 7 0 (2 ^ 55) 1 2)) \<and>
   fe52_val (fe52_mul (Fe52 (2 ^ 55) 3 0 0 (2 ^ 51)) (Fe52 7 0 (2 ^ 55) 1 2)) mod nat field_prime =
     fe52_val (Fe52 (2 ^ 55) 3 0 0 (2 ^ 51)) * fe52_val (Fe52 7 0 (2 ^ 55) 1 2) mod nat field_prime"
  by (rule fe52_mul_is_field_product) simp_all

text \<open>
  The separate squaring routine, with its doubled limbs and signed temporaries, returns
  limb for limb what the multiplication routine returns on two equal factors.
\<close>

theorem fe52_sqr_agrees_with_mul: "fe52_mag 8 a \<Longrightarrow> fe52_sqr a = fe52_mul a a"
  by (rule fe52_sqr_eq_mul)

lemma fe52_sqr_agrees_with_mul_witness:
  "fe52_sqr (Fe52 (2 ^ 55) 3 (2 ^ 55 + 9) 0 (2 ^ 51)) =
     fe52_mul (Fe52 (2 ^ 55) 3 (2 ^ 55 + 9) 0 (2 ^ 51)) (Fe52 (2 ^ 55) 3 (2 ^ 55 + 9) 0 (2 ^ 51))"
  by (rule fe52_sqr_agrees_with_mul) simp

text \<open>
  C23: normalization of any element of magnitude up to 2047 gives its unique representation
  below the field prime, and the variable-time version gives the same limbs.
\<close>

theorem fe52_normalize_canonical:
  "fe52_mag m a \<Longrightarrow> m \<le> 2047 \<Longrightarrow>
     fe52_nrm (fe52_normalize a) \<and> fe52_val (fe52_normalize a) = fe52_val a mod nat field_prime \<and>
     fe52_normalize_var a = fe52_normalize a"
  using fe52_normalize_correct fe52_normalize_var_eq by blast

lemma fe52_normalize_canonical_witness:
  "fe52_nrm (fe52_normalize (Fe52 (2 ^ 60) (2 ^ 63) 1 0 (2 ^ 59))) \<and>
   fe52_val (fe52_normalize (Fe52 (2 ^ 60) (2 ^ 63) 1 0 (2 ^ 59)))
     = fe52_val (Fe52 (2 ^ 60) (2 ^ 63) 1 0 (2 ^ 59)) mod nat field_prime \<and>
   fe52_normalize_var (Fe52 (2 ^ 60) (2 ^ 63) 1 0 (2 ^ 59)) = fe52_normalize (Fe52 (2 ^ 60) (2 ^ 63) 1 0 (2 ^ 59))"
  by (rule fe52_normalize_canonical [of 2047]) simp_all

text \<open>
  C40: one magnitude further.  Up to magnitude 2048, the largest that secp256k1_fe_verify admits,
  normalization still gives proper limbs below the prime, and it gives the right residue exactly when
  folding the bits above 2^256 does not wrap limb 0 around; when it does, the residue is too small by 2^64.
\<close>

theorem fe52_normalize_magnitude_2048:
  assumes "fe52_mag m (Fe52 n0 n1 n2 n3 n4)" "m \<le> 2048"
  shows "fe52_nrm (fe52_normalize (Fe52 n0 n1 n2 n3 n4))
    \<and> (fe52_val (fe52_normalize (Fe52 n0 n1 n2 n3 n4)) = fe52_val (Fe52 n0 n1 n2 n3 n4) mod nat field_prime
         \<longleftrightarrow> unat n0 + unat n4 div 2 ^ 48 * 0x1000003D1 < 2 ^ 64)
    \<and> (2 ^ 64 \<le> unat n0 + unat n4 div 2 ^ 48 * 0x1000003D1 \<longrightarrow>
         (fe52_val (fe52_normalize (Fe52 n0 n1 n2 n3 n4)) + 2 ^ 64) mod nat field_prime
           = fe52_val (Fe52 n0 n1 n2 n3 n4) mod nat field_prime)"
proof -
  define v where "v = fe52_val (fe52_normalize (Fe52 n0 n1 n2 n3 n4))"
  note w = fe52_normalize_wrap [OF assms, folded v_def]
  have v: "v < nat field_prime"
    using w(1) unfolding v_def by (cases "fe52_normalize (Fe52 n0 n1 n2 n3 n4)") (simp only: fe52_nrm_iff)
  have "(v + 2 ^ 64) mod nat field_prime \<noteq> v"
    using v mod_eq_dvd_iff_nat [of v "v + 2 ^ 64" "nat field_prime"]
    by (auto simp: field_prime_def dest: dvd_imp_le)
  then have "v = fe52_val (Fe52 n0 n1 n2 n3 n4) mod nat field_prime
      \<longleftrightarrow> unat n0 + unat n4 div 2 ^ 48 * 0x1000003D1 < 2 ^ 64"
    using w(2) v by (cases "2 ^ 64 \<le> unat n0 + unat n4 div 2 ^ 48 * 0x1000003D1") auto
  moreover have "(v + 2 ^ 64) mod nat field_prime = fe52_val (Fe52 n0 n1 n2 n3 n4) mod nat field_prime"
    if "2 ^ 64 \<le> unat n0 + unat n4 div 2 ^ 48 * 0x1000003D1"
    using w(2) unfolding if_P [OF that] .
  ultimately show ?thesis using w(1) unfolding v_def [symmetric] by blast
qed

lemma fe52_normalize_magnitude_2048_witness:
  "fe52_mag 2048 (Fe52 0xFFFFFFFFFFFFF000 0 0 0 0x1000000000000) \<and>
   fe52_val (fe52_normalize (Fe52 0xFFFFFFFFFFFFF000 0 0 0 0x1000000000000))
     \<noteq> fe52_val (Fe52 0xFFFFFFFFFFFFF000 0 0 0 0x1000000000000) mod nat field_prime"
proof -
  have m: "fe52_mag 2048 (Fe52 0xFFFFFFFFFFFFF000 0 0 0 0x1000000000000)" by simp
  moreover have "\<not> unat (0xFFFFFFFFFFFFF000 :: u64) + unat (0x1000000000000 :: u64) div 2 ^ 48 * 0x1000003D1 < 2 ^ 64"
    by simp
  ultimately show ?thesis using fe52_normalize_magnitude_2048 [OF m le_refl] by blast
qed

lemma be_nat_zeros: "be_nat (replicate n 0) = 0"
  by (induction n) simp_all

text \<open>
  C26: reading 32 bytes and writing them back is the identity on encodings of numbers below the
  field prime, and every other string is reported as an overflow.
\<close>

theorem fe52_b32_roundtrip:
  "length bs = 32 \<Longrightarrow> fe52_set_b32 bs = (ok, r) \<Longrightarrow>
     (ok \<longleftrightarrow> be_nat bs < nat field_prime) \<and> fe52_val r = be_nat bs \<and> (ok \<longrightarrow> fe52_get_b32 r = bs)"
proof -
  assume a: "length bs = 32" "fe52_set_b32 bs = (ok, r)"
  note s = fe52_set_b32_correct [OF a]
  have "fe52_get_b32 r = bs" if ok
    using fe52_get_b32_correct [OF s(4) [OF that]] s(1) a(1) by (intro be_nat_inj) simp_all
  with s show ?thesis by blast
qed

lemma fe52_b32_roundtrip_witness:
  "\<exists>r. fe52_set_b32 (replicate 31 0 @ [7]) = (True, r) \<and> fe52_get_b32 r = replicate 31 0 @ [7]"
proof -
  obtain ok r where r: "fe52_set_b32 (replicate 31 0 @ [7]) = (ok, r)" by (rule prod.exhaust)
  have "be_nat (replicate 31 0 @ [7]) < nat field_prime"
    by (simp add: be_nat_append be_nat_zeros field_prime_def)
  then show ?thesis using fe52_b32_roundtrip [OF _ r] r by simp
qed

end
