(* ===== verification/Field_Theorems.thy ===== *)
theory Field_Theorems
  imports Field_5x52_Mul
begin

text \<open>
  What field_impl.h computes when it is compiled against the 5x52 representation: the lemmas of
  the contract, read on \<open>fe52_ops\<close>.
\<close>

lemma fe52_fval_witness: "fe52_fval (Fe52 4 0 0 0 0) = 2 * 2" "fe52_mag 8 (Fe52 4 0 0 0 0)"
  by (simp_all add: fe52_fval_def)

text \<open>
  C24: the addition chain of \<open>secp256k1_fe_inv\<close> computes the inverse modulo the field prime of
  every element of magnitude at most 8, and 0 for an element that represents 0.
\<close>

theorem fe52_inv_is_inverse:
  "fe52_mag 8 a \<Longrightarrow>
     fe52_mag 1 (fe_inv fe52_ops a) \<and>
     fe52_fval (fe_inv fe52_ops a) * fe52_fval a = (if fe52_fval a = 0 then 0 else 1) \<and>
     (fe52_fval a = 0 \<longrightarrow> fe52_fval (fe_inv fe52_ops a) = 0)"
  using f52.inv_law [of a] by simp

lemma fe52_inv_is_inverse_witness:
  "fe52_fval (fe_inv fe52_ops (Fe52 4 0 0 0 0)) * fe52_fval (Fe52 4 0 0 0 0) = 1"
proof -
  have v: "fe52_fval (Fe52 4 0 0 0 0) = 4" by (simp add: fe52_fval_def)
  have "(4 :: fp) \<noteq> 0" by (rule numeral_fp_ne_0) (simp add: field_prime_def)
  then show ?thesis using fe52_inv_is_inverse [OF fe52_fval_witness(2)] by (simp add: v)
qed

text \<open>
  C25: \<open>secp256k1_fe_sqrt\<close> succeeds exactly on the squares of the field.  When it succeeds its
  result squares to the argument, and the result is always itself a square.
\<close>

theorem fe52_sqrt_correct:
  "fe52_mag 8 a \<Longrightarrow> fe_sqrt fe52_ops a = (ok, r) \<Longrightarrow>
     fe52_mag 1 r \<and> (ok \<longleftrightarrow> (\<exists>b. b * b = fe52_fval a)) \<and>
     (ok \<longleftrightarrow> fe52_fval r * fe52_fval r = fe52_fval a) \<and> (\<exists>c. fe52_fval r = c * c)"
  by (intro conjI) (rule f52.sqrt_law; assumption)+

lemma fe52_sqrt_correct_witness:
  "\<exists>r. fe_sqrt fe52_ops (Fe52 4 0 0 0 0) = (True, r) \<and> fe52_fval r * fe52_fval r = 4"
proof -
  obtain ok r where r: "fe_sqrt fe52_ops (Fe52 4 0 0 0 0) = (ok, r)" by (rule prod.exhaust)
  have v: "fe52_fval (Fe52 4 0 0 0 0) = 4" by (simp add: fe52_fval_def)
  have "(2 :: fp) * 2 = 4" by simp
  then have "\<exists>b. b * b = fe52_fval (Fe52 4 0 0 0 0)" unfolding v ..
  then show ?thesis using fe52_sqrt_correct [OF fe52_fval_witness(2) r] r v by auto
qed

text \<open>
  Batch inversion with one field inversion gives, at every index, the inverse of the
  element there, whatever the output array held before.
\<close>

theorem fe52_inv_all_correct:
  "(\<forall>i<length a. fe52_mag 8 (a ! i) \<and> fe52_fval (a ! i) \<noteq> 0) \<Longrightarrow> length r = length a \<Longrightarrow> i < length a \<Longrightarrow>
     fe52_fval (fe_inv_all_var fe52_ops r a (length a) ! i) = inverse (fe52_fval (a ! i)) \<and>
     length (fe_inv_all_var fe52_ops r a (length a)) = length a"
  using f52.inv_all_var_law [of a r i] by blast

lemma fe52_inv_all_correct_witness:
  "fe52_fval (fe_inv_all_var fe52_ops (replicate 3 fe52_clear) (replicate 3 (Fe52 4 0 0 0 0)) 3 ! 1) = inverse 4"
proof -
  have "fe52_fval (Fe52 4 0 0 0 0) = 4" by (simp add: fe52_fval_def)
  moreover have "(4 :: fp) \<noteq> 0" by (rule numeral_fp_ne_0) (simp add: field_prime_def)
  ultimately show ?thesis
    using fe52_inv_all_correct [of "replicate 3 (Fe52 4 0 0 0 0)" "replicate 3 fe52_clear" 1] fe52_fval_witness(2)
    by (simp del: fe52_verify.simps)
qed

end
