(* ===== verification/Group.thy ===== *)
theory Group
  imports Field_Theorems
begin

text \<open>
  Points of the curve in affine and in Jacobian coordinates (group.h, group_impl.h).  The
  functions use the field only through its interface; \<open>F\<close> is the representation they are
  compiled against.

  A function that leaves part of its result unwritten on some path takes the old contents \<open>r\<close>
  of the result.  A pointer \<open>rzr\<close> that may be NULL is a flag, and the value stored through it,
  if any, is a second result.
\<close>

section \<open>Data\<close>

record 'fe ge =
  ge_x :: 'fe
  ge_y :: 'fe
  ge_infinity :: bool

record 'fe gej =
  gej_x :: 'fe
  gej_y :: 'fe
  gej_z :: 'fe
  gej_infinity :: bool

record 'st ge_storage =
  ges_x :: 'st
  ges_y :: 'st

definition curve_b :: cint where
  "curve_b = 7"

definition ge_const_g :: "('fe, 'st) field_ops \<Rightarrow> 'fe ge" where
  "ge_const_g F = \<lparr>
     ge_x = fe_const F 0x79BE667E 0xF9DCBBAC 0x55A06295 0xCE870B07
                       0x029BFCDB 0x2DCE28D9 0x59F2815B 0x16F81798,
     ge_y = fe_const F 0x483ADA77 0x26A3C465 0x5DA4FBFC 0x0E1108A8
                       0xFD17B448 0xA6855419 0x9C47D08F 0xFB10D4B8,
     ge_infinity = False \<rparr>"

section \<open>Conversions\<close>

definition ge_set_gej_zinv :: "('fe, 'st) field_ops \<Rightarrow> 'fe gej \<Rightarrow> 'fe \<Rightarrow> 'fe ge" where
  "ge_set_gej_zinv F a zi =
     (let zi2 = fe_sqr F zi;
          zi3 = fe_mul F zi2 zi
      in \<lparr> ge_x = fe_mul F (gej_x a) zi2, ge_y = fe_mul F (gej_y a) zi3, ge_infinity = gej_infinity a \<rparr>)"

definition ge_set_xy :: "'fe \<Rightarrow> 'fe \<Rightarrow> 'fe ge" where
  "ge_set_xy x y = \<lparr> ge_x = x, ge_y = y, ge_infinity = False \<rparr>"

definition ge_is_infinity :: "'fe ge \<Rightarrow> bool" where
  "ge_is_infinity a = ge_infinity a"

definition ge_neg :: "('fe, 'st) field_ops \<Rightarrow> 'fe ge \<Rightarrow> 'fe ge" where
  "ge_neg F a = a \<lparr> ge_y := fe_negate F (fe_normalize_weak F (ge_y a)) 1 \<rparr>"

text \<open>Both conversions also rescale their argument in place.\<close>

definition ge_set_gej :: "('fe, 'st) field_ops \<Rightarrow> 'fe gej \<Rightarrow> 'fe ge \<times> 'fe gej" where
  "ge_set_gej F a =
     (let a = a \<lparr> gej_z := fe_inv F (gej_z a) \<rparr>;
          z2 = fe_sqr F (gej_z a);
          z3 = fe_mul F (gej_z a) z2;
          a = a \<lparr> gej_x := fe_mul F (gej_x a) z2 \<rparr>;
          a = a \<lparr> gej_y := fe_mul F (gej_y a) z3 \<rparr>;
          a = a \<lparr> gej_z := fe_set_int F 1 \<rparr>
      in (\<lparr> ge_x = gej_x a, ge_y = gej_y a, ge_infinity = gej_infinity a \<rparr>, a))"

definition ge_set_gej_var :: "('fe, 'st) field_ops \<Rightarrow> 'fe ge \<Rightarrow> 'fe gej \<Rightarrow> 'fe ge \<times> 'fe gej" where
  "ge_set_gej_var F r a =
     (let r = r \<lparr> ge_infinity := gej_infinity a \<rparr>
      in if gej_infinity a then (r, a)
         else
           let a = a \<lparr> gej_z := fe_inv_var F (gej_z a) \<rparr>;
               z2 = fe_sqr F (gej_z a);
               z3 = fe_mul F (gej_z a) z2;
               a = a \<lparr> gej_x := fe_mul F (gej_x a) z2 \<rparr>;
               a = a \<lparr> gej_y := fe_mul F (gej_y a) z3 \<rparr>;
               a = a \<lparr> gej_z := fe_set_int F 1 \<rparr>
           in (r \<lparr> ge_x := gej_x a, ge_y := gej_y a \<rparr>, a))"

text \<open>
  Batch conversion with one inversion.  \<open>azi\<close> is the uninitialised array the inverses are
  written to; the allocations are assumed to succeed.
\<close>

definition ge_set_all_gej_var ::
  "('fe, 'st) field_ops \<Rightarrow> 'fe list \<Rightarrow> 'fe ge list \<Rightarrow> 'fe gej list \<Rightarrow> nat \<Rightarrow> 'fe ge list" where
  "ge_set_all_gej_var F azi r a len =
     (let (az, count) = foldl (\<lambda>(az, count) i.
              if \<not> gej_infinity (a ! i) then (az @ [gej_z (a ! i)], count + 1) else (az, count))
            ([], 0) [0..<len];
          azi = fe_inv_all_var F azi az count;
          (r, count) = foldl (\<lambda>(r, count) i.
              let r = r[i := (r ! i) \<lparr> ge_infinity := gej_infinity (a ! i) \<rparr>]
              in if \<not> gej_infinity (a ! i)
                 then (r[i := ge_set_gej_zinv F (a ! i) (azi ! count)], count + 1) else (r, count))
            (r, 0) [0..<len]
      in r)"

definition ge_set_table_gej_var ::
  "('fe, 'st) field_ops \<Rightarrow> 'fe ge list \<Rightarrow> 'fe gej list \<Rightarrow> 'fe list \<Rightarrow> nat \<Rightarrow> 'fe ge list" where
  "ge_set_table_gej_var F r a zr len =
     (if len > 0 then
        let i = len - 1;
            zi = fe_inv F (gej_z (a ! i));
            r = r[i := ge_set_gej_zinv F (a ! i) zi]
        in fst (foldl (\<lambda>(r, zi) i. let zi = fe_mul F zi (zr ! i)
                        in (r[i - 1 := ge_set_gej_zinv F (a ! (i - 1)) zi], zi))
                 (r, zi) (rev [1..<len]))
      else r)"

definition ge_globalz_set_table_gej ::
  "('fe, 'st) field_ops \<Rightarrow> nat \<Rightarrow> 'fe ge list \<Rightarrow> 'fe \<Rightarrow> 'fe gej list \<Rightarrow> 'fe list \<Rightarrow> 'fe ge list \<times> 'fe" where
  "ge_globalz_set_table_gej F len r globalz a zr =
     (if len > 0 then
        let i = len - 1;
            r = r[i := \<lparr> ge_x = gej_x (a ! i), ge_y = gej_y (a ! i), ge_infinity = False \<rparr>];
            globalz = gej_z (a ! i);
            zs = zr ! i
        in (fst (foldl (\<lambda>(r, zs) i. let zs = (if i \<noteq> len - 1 then fe_mul F zs (zr ! i) else zs)
                        in (r[i - 1 := ge_set_gej_zinv F (a ! (i - 1)) zs], zs))
                 (r, zs) (rev [1..<len])), globalz)
      else (r, globalz))"

definition gej_set_infinity :: "('fe, 'st) field_ops \<Rightarrow> 'fe gej" where
  "gej_set_infinity F = \<lparr> gej_x = fe_clear F, gej_y = fe_clear F, gej_z = fe_clear F, gej_infinity = True \<rparr>"

definition gej_clear :: "('fe, 'st) field_ops \<Rightarrow> 'fe gej" where
  "gej_clear F = \<lparr> gej_x = fe_clear F, gej_y = fe_clear F, gej_z = fe_clear F, gej_infinity = False \<rparr>"

definition ge_clear :: "('fe, 'st) field_ops \<Rightarrow> 'fe ge" where
  "ge_clear F = \<lparr> ge_x = fe_clear F, ge_y = fe_clear F, ge_infinity = False \<rparr>"

definition ge_set_xquad :: "('fe, 'st) field_ops \<Rightarrow> 'fe \<Rightarrow> bool \<times> 'fe ge" where
  "ge_set_xquad F x =
     (let x2 = fe_sqr F x;
          x3 = fe_mul F x x2;
          c = fe_set_int F curve_b;
          c = fe_add F c x3;
          (ok, y) = fe_sqrt F c
      in (ok, \<lparr> ge_x = x, ge_y = y, ge_infinity = False \<rparr>))"

definition ge_set_xo_var :: "('fe, 'st) field_ops \<Rightarrow> 'fe \<Rightarrow> bool \<Rightarrow> bool \<times> 'fe ge" where
  "ge_set_xo_var F x is_odd =
     (let (ok, r) = ge_set_xquad F x
      in if \<not> ok then (False, r)
         else
           let r = r \<lparr> ge_y := fe_normalize_var F (ge_y r) \<rparr>;
               r = (if fe_is_odd F (ge_y r) \<noteq> is_odd then r \<lparr> ge_y := fe_negate F (ge_y r) 1 \<rparr> else r)
           in (True, r))"

definition gej_set_ge :: "('fe, 'st) field_ops \<Rightarrow> 'fe ge \<Rightarrow> 'fe gej" where
  "gej_set_ge F a =
     \<lparr> gej_x = ge_x a, gej_y = ge_y a, gej_z = fe_set_int F 1, gej_infinity = ge_infinity a \<rparr>"

section \<open>Comparison, negation, validity\<close>

definition gej_eq_x_var :: "('fe, 'st) field_ops \<Rightarrow> 'fe \<Rightarrow> 'fe gej \<Rightarrow> bool" where
  "gej_eq_x_var F x a =
     (let r = fe_sqr F (gej_z a); r = fe_mul F r x;
          r2 = fe_normalize_weak F (gej_x a)
      in fe_equal_var F r r2)"

definition gej_neg :: "('fe, 'st) field_ops \<Rightarrow> 'fe gej \<Rightarrow> 'fe gej" where
  "gej_neg F a =
     \<lparr> gej_x = gej_x a, gej_y = fe_negate F (fe_normalize_weak F (gej_y a)) 1, gej_z = gej_z a,
       gej_infinity = gej_infinity a \<rparr>"

definition gej_is_infinity :: "'fe gej \<Rightarrow> bool" where
  "gej_is_infinity a = gej_infinity a"

definition gej_is_valid_var :: "('fe, 'st) field_ops \<Rightarrow> 'fe gej \<Rightarrow> bool" where
  "gej_is_valid_var F a =
     (if gej_infinity a then False
      else
        let y2 = fe_sqr F (gej_y a);
            x3 = fe_sqr F (gej_x a); x3 = fe_mul F x3 (gej_x a);
            z2 = fe_sqr F (gej_z a);
            z6 = fe_sqr F z2; z6 = fe_mul F z6 z2;
            z6 = fe_mul_int F z6 curve_b;
            x3 = fe_add F x3 z6;
            x3 = fe_normalize_weak F x3
        in fe_equal_var F y2 x3)"

definition ge_is_valid_var :: "('fe, 'st) field_ops \<Rightarrow> 'fe ge \<Rightarrow> bool" where
  "ge_is_valid_var F a =
     (if ge_infinity a then False
      else
        let y2 = fe_sqr F (ge_y a);
            x3 = fe_sqr F (ge_x a); x3 = fe_mul F x3 (ge_x a);
            c = fe_set_int F curve_b;
            x3 = fe_add F x3 c;
            x3 = fe_normalize_weak F x3
        in fe_equal_var F y2 x3)"

section \<open>Doubling and addition\<close>

definition gej_double_var ::
  "('fe, 'st) field_ops \<Rightarrow> 'fe gej \<Rightarrow> 'fe gej \<Rightarrow> bool \<Rightarrow> 'fe gej \<times> 'fe option" where
  "gej_double_var F r a rzr =
     (let r = r \<lparr> gej_infinity := gej_infinity a \<rparr>
      in if gej_infinity r then (r, if rzr then Some (fe_set_int F 1) else None)
         else
           let rz = (if rzr then Some (fe_mul_int F (fe_normalize_weak F (gej_y a)) 2) else None);
               z = fe_mul F (gej_z a) (gej_y a);
               z = fe_mul_int F z 2;
               t1 = fe_sqr F (gej_x a);
               t1 = fe_mul_int F t1 3;
               t2 = fe_sqr F t1;
               t3 = fe_sqr F (gej_y a);
               t3 = fe_mul_int F t3 2;
               t4 = fe_sqr F t3;
               t4 = fe_mul_int F t4 2;
               t3 = fe_mul F t3 (gej_x a);
               x = t3;
               x = fe_mul_int F x 4;
               x = fe_negate F x 4;
               x = fe_add F x t2;
               t2 = fe_negate F t2 1;
               t3 = fe_mul_int F t3 6;
               t3 = fe_add F t3 t2;
               y = fe_mul F t1 t3;
               t2 = fe_negate F t4 2;
               y = fe_add F y t2
           in (r \<lparr> gej_x := x, gej_y := y, gej_z := z \<rparr>, rz))"

definition gej_double_nonzero ::
  "('fe, 'st) field_ops \<Rightarrow> 'fe gej \<Rightarrow> 'fe gej \<Rightarrow> bool \<Rightarrow> 'fe gej \<times> 'fe option" where
  "gej_double_nonzero F r a rzr = gej_double_var F r a rzr"

text \<open>The coordinates of a sum, from \<open>u1\<close>, \<open>s1\<close> and the differences \<open>h\<close>, \<open>i\<close>.\<close>

definition gej_add_xy :: "('fe, 'st) field_ops \<Rightarrow> 'fe \<Rightarrow> 'fe \<Rightarrow> 'fe \<Rightarrow> 'fe \<Rightarrow> 'fe \<times> 'fe" where
  "gej_add_xy F u1 s1 h i =
     (let i2 = fe_sqr F i;
          h2 = fe_sqr F h;
          h3 = fe_mul F h h2;
          t = fe_mul F u1 h2;
          x = t; x = fe_mul_int F x 2; x = fe_add F x h3; x = fe_negate F x 3; x = fe_add F x i2;
          y = fe_negate F x 5; y = fe_add F y t; y = fe_mul F y i;
          h3 = fe_mul F h3 s1; h3 = fe_negate F h3 1;
          y = fe_add F y h3
      in (x, y))"

definition gej_add_var ::
  "('fe, 'st) field_ops \<Rightarrow> 'fe gej \<Rightarrow> 'fe gej \<Rightarrow> 'fe gej \<Rightarrow> bool \<Rightarrow> 'fe gej \<times> 'fe option" where
  "gej_add_var F r a b rzr =
     (if gej_infinity a then (b, None)
      else if gej_infinity b then (a, if rzr then Some (fe_set_int F 1) else None)
      else
        let r = r \<lparr> gej_infinity := False \<rparr>;
            z22 = fe_sqr F (gej_z b);
            z12 = fe_sqr F (gej_z a);
            u1 = fe_mul F (gej_x a) z22;
            u2 = fe_mul F (gej_x b) z12;
            s1 = fe_mul F (gej_y a) z22; s1 = fe_mul F s1 (gej_z b);
            s2 = fe_mul F (gej_y b) z12; s2 = fe_mul F s2 (gej_z a);
            h = fe_negate F u1 1; h = fe_add F h u2;
            i = fe_negate F s1 1; i = fe_add F i s2
        in if fe_normalizes_to_zero_var F h then
             if fe_normalizes_to_zero_var F i then gej_double_var F r a rzr
             else (r \<lparr> gej_infinity := True \<rparr>, if rzr then Some (fe_set_int F 0) else None)
           else
             let (x, y) = gej_add_xy F u1 s1 h i;
                 h = fe_mul F h (gej_z b);
                 rz = (if rzr then Some h else None);
                 z = fe_mul F (gej_z a) h
             in (r \<lparr> gej_x := x, gej_y := y, gej_z := z \<rparr>, rz))"

definition gej_add_ge_var ::
  "('fe, 'st) field_ops \<Rightarrow> 'fe gej \<Rightarrow> 'fe gej \<Rightarrow> 'fe ge \<Rightarrow> bool \<Rightarrow> 'fe gej \<times> 'fe option" where
  "gej_add_ge_var F r a b rzr =
     (if gej_infinity a then (gej_set_ge F b, None)
      else if ge_infinity b then (a, if rzr then Some (fe_set_int F 1) else None)
      else
        let r = r \<lparr> gej_infinity := False \<rparr>;
            z12 = fe_sqr F (gej_z a);
            u1 = fe_normalize_weak F (gej_x a);
            u2 = fe_mul F (ge_x b) z12;
            s1 = fe_normalize_weak F (gej_y a);
            s2 = fe_mul F (ge_y b) z12; s2 = fe_mul F s2 (gej_z a);
            h = fe_negate F u1 1; h = fe_add F h u2;
            i = fe_negate F s1 1; i = fe_add F i s2
        in if fe_normalizes_to_zero_var F h then
             if fe_normalizes_to_zero_var F i then gej_double_var F r a rzr
             else (r \<lparr> gej_infinity := True \<rparr>, if rzr then Some (fe_set_int F 0) else None)
           else
             let rz = (if rzr then Some h else None);
                 z = fe_mul F (gej_z a) h;
                 (x, y) = gej_add_xy F u1 s1 h i
             in (r \<lparr> gej_x := x, gej_y := y, gej_z := z \<rparr>, rz))"

definition gej_add_zinv_var ::
  "('fe, 'st) field_ops \<Rightarrow> 'fe gej \<Rightarrow> 'fe gej \<Rightarrow> 'fe ge \<Rightarrow> 'fe \<Rightarrow> 'fe gej" where
  "gej_add_zinv_var F r a b bzinv =
     (if ge_infinity b then a
      else if gej_infinity a then
        let bzinv2 = fe_sqr F bzinv;
            bzinv3 = fe_mul F bzinv2 bzinv
        in \<lparr> gej_x = fe_mul F (ge_x b) bzinv2, gej_y = fe_mul F (ge_y b) bzinv3, gej_z = fe_set_int F 1,
             gej_infinity = ge_infinity b \<rparr>
      else
        let r = r \<lparr> gej_infinity := False \<rparr>;
            az = fe_mul F (gej_z a) bzinv;
            z12 = fe_sqr F az;
            u1 = fe_normalize_weak F (gej_x a);
            u2 = fe_mul F (ge_x b) z12;
            s1 = fe_normalize_weak F (gej_y a);
            s2 = fe_mul F (ge_y b) z12; s2 = fe_mul F s2 az;
            h = fe_negate F u1 1; h = fe_add F h u2;
            i = fe_negate F s1 1; i = fe_add F i s2
        in if fe_normalizes_to_zero_var F h then
             if fe_normalizes_to_zero_var F i then fst (gej_double_var F r a False)
             else r \<lparr> gej_infinity := True \<rparr>
           else
             let z = fe_mul F (gej_z a) h;
                 (x, y) = gej_add_xy F u1 s1 h i
             in r \<lparr> gej_x := x, gej_y := y, gej_z := z \<rparr>)"

text \<open>The unified constant-time addition (Brier and Joye).\<close>

definition gej_add_ge :: "('fe, 'st) field_ops \<Rightarrow> 'fe gej \<Rightarrow> 'fe ge \<Rightarrow> 'fe gej" where
  "gej_add_ge F a b =
     (let fe_1 = fe_const F 0 0 0 0 0 0 0 1;
          zz = fe_sqr F (gej_z a);
          u1 = fe_normalize_weak F (gej_x a);
          u2 = fe_mul F (ge_x b) zz;
          s1 = fe_normalize_weak F (gej_y a);
          s2 = fe_mul F (ge_y b) zz;
          s2 = fe_mul F s2 (gej_z a);
          t = fe_add F u1 u2;
          m = fe_add F s1 s2;
          rr = fe_sqr F t;
          m_alt = fe_negate F u2 1;
          tt = fe_mul F u1 m_alt;
          rr = fe_add F rr tt;
          degenerate = fe_normalizes_to_zero F m \<and> fe_normalizes_to_zero F rr;
          rr_alt = s1;
          rr_alt = fe_mul_int F rr_alt 2;
          m_alt = fe_add F m_alt u1;
          rr_alt = fe_cmov F rr_alt rr (of_bool (\<not> degenerate));
          m_alt = fe_cmov F m_alt m (of_bool (\<not> degenerate));
          n = fe_sqr F m_alt;
          q = fe_mul F n t;
          n = fe_sqr F n;
          n = fe_cmov F n m (of_bool degenerate);
          t = fe_sqr F rr_alt;
          z = fe_mul F (gej_z a) m_alt;
          infinity = fe_normalizes_to_zero F z \<and> \<not> gej_infinity a;
          z = fe_mul_int F z 2;
          q = fe_negate F q 1;
          t = fe_add F t q;
          t = fe_normalize_weak F t;
          x = t;
          t = fe_mul_int F t 2;
          t = fe_add F t q;
          t = fe_mul F t rr_alt;
          t = fe_add F t n;
          y = fe_negate F t 3;
          y = fe_normalize_weak F y;
          x = fe_mul_int F x 4;
          y = fe_mul_int F y 4;
          x = fe_cmov F x (ge_x b) (of_bool (gej_infinity a));
          y = fe_cmov F y (ge_y b) (of_bool (gej_infinity a));
          z = fe_cmov F z fe_1 (of_bool (gej_infinity a))
      in \<lparr> gej_x = x, gej_y = y, gej_z = z, gej_infinity = infinity \<rparr>)"

section \<open>Rescaling, storage, endomorphism\<close>

definition gej_rescale :: "('fe, 'st) field_ops \<Rightarrow> 'fe gej \<Rightarrow> 'fe \<Rightarrow> 'fe gej" where
  "gej_rescale F r s =
     (let zz = fe_sqr F s;
          r = r \<lparr> gej_x := fe_mul F (gej_x r) zz \<rparr>;
          r = r \<lparr> gej_y := fe_mul F (gej_y r) zz \<rparr>;
          r = r \<lparr> gej_y := fe_mul F (gej_y r) s \<rparr>;
          r = r \<lparr> gej_z := fe_mul F (gej_z r) s \<rparr>
      in r)"

definition ge_to_storage :: "('fe, 'st) field_ops \<Rightarrow> 'fe ge \<Rightarrow> 'st ge_storage" where
  "ge_to_storage F a =
     (let x = fe_normalize F (ge_x a);
          y = fe_normalize F (ge_y a)
      in \<lparr> ges_x = fe_to_storage F x, ges_y = fe_to_storage F y \<rparr>)"

definition ge_from_storage :: "('fe, 'st) field_ops \<Rightarrow> 'st ge_storage \<Rightarrow> 'fe ge" where
  "ge_from_storage F a =
     \<lparr> ge_x = fe_from_storage F (ges_x a), ge_y = fe_from_storage F (ges_y a), ge_infinity = False \<rparr>"

definition ge_storage_cmov ::
  "('fe, 'st) field_ops \<Rightarrow> 'st ge_storage \<Rightarrow> 'st ge_storage \<Rightarrow> cint \<Rightarrow> 'st ge_storage" where
  "ge_storage_cmov F r a flag =
     \<lparr> ges_x = fe_storage_cmov F (ges_x r) (ges_x a) flag, ges_y = fe_storage_cmov F (ges_y r) (ges_y a) flag \<rparr>"

definition ge_mul_lambda :: "('fe, 'st) field_ops \<Rightarrow> 'fe ge \<Rightarrow> 'fe ge" where
  "ge_mul_lambda F a =
     (let beta = fe_const F 0x7ae96a2b 0x657c0710 0x6e64479e 0xac3434e9
                            0x9cf04975 0x12f58995 0xc1396c28 0x719501ee
      in a \<lparr> ge_x := fe_mul F (ge_x a) beta \<rparr>)"

definition gej_has_quad_y_var :: "('fe, 'st) field_ops \<Rightarrow> 'fe gej \<Rightarrow> bool" where
  "gej_has_quad_y_var F a =
     (if gej_infinity a then False
      else let yz = fe_mul F (gej_y a) (gej_z a) in fe_is_quad_var F yz)"

end
