(* ===== verification/Group_Correct.thy ===== *)
theory Group_Correct
  imports Curve Group
begin

text \<open>
  The functions of group_impl.h compute the affine group operations of \<open>Curve\<close>, whatever
  representation of the field satisfies the contract of field.h.  Every lemma also tracks the
  magnitudes, so that the results can be used as arguments again.
\<close>

section \<open>The point a representation stands for\<close>

definition ge_pt :: "('fe \<Rightarrow> fp) \<Rightarrow> 'fe ge \<Rightarrow> point" where
  "ge_pt fval a = (if ge_infinity a then Infty else Pt (fval (ge_x a)) (fval (ge_y a)))"

definition gej_pt :: "('fe \<Rightarrow> fp) \<Rightarrow> 'fe gej \<Rightarrow> point" where
  "gej_pt fval a =
     (if gej_infinity a then Infty else jac (fval (gej_x a)) (fval (gej_y a)) (fval (gej_z a)))"

text \<open>
  Well-formed: the coordinates that matter have magnitude at most 8 and the point is on the
  curve; a Jacobian point that is not infinity has a nonzero z coordinate.
\<close>

definition ge_wf :: "(nat \<Rightarrow> 'fe \<Rightarrow> bool) \<Rightarrow> ('fe \<Rightarrow> fp) \<Rightarrow> 'fe ge \<Rightarrow> bool" where
  "ge_wf mag fval a \<longleftrightarrow> ge_infinity a \<or>
     (mag 8 (ge_x a) \<and> mag 8 (ge_y a) \<and> on_curve (Pt (fval (ge_x a)) (fval (ge_y a))))"

definition gej_wf :: "(nat \<Rightarrow> 'fe \<Rightarrow> bool) \<Rightarrow> ('fe \<Rightarrow> fp) \<Rightarrow> 'fe gej \<Rightarrow> bool" where
  "gej_wf mag fval a \<longleftrightarrow> gej_infinity a \<or>
     (mag 8 (gej_x a) \<and> mag 8 (gej_y a) \<and> mag 8 (gej_z a) \<and> fval (gej_z a) \<noteq> 0 \<and>
      on_curve (jac (fval (gej_x a)) (fval (gej_y a)) (fval (gej_z a))))"

section \<open>Symbolic evaluation of field expressions\<close>

named_theorems rep_rules

context field_impl
begin

definition rep :: "nat \<Rightarrow> fp \<Rightarrow> 'fe \<Rightarrow> bool" where
  "rep m v x \<longleftrightarrow> mag m x \<and> fval x = v"

lemma rep_self: "mag m x \<Longrightarrow> rep m (fval x) x"
  by (simp add: rep_def)

lemma rep_fval: "rep m v x \<Longrightarrow> fval x = v"
  by (simp add: rep_def)

lemma rep_mag: "rep m v x \<Longrightarrow> mag m x"
  by (simp add: rep_def)

lemma rep_weaken: "rep m v x \<Longrightarrow> m \<le> k \<Longrightarrow> k \<le> 32 \<Longrightarrow> v = w \<Longrightarrow> rep k w x"
  unfolding rep_def using mag_mono by blast

lemma rep_mul [rep_rules]:
  "rep m v x \<Longrightarrow> rep k w y \<Longrightarrow> m \<le> 8 \<Longrightarrow> k \<le> 8 \<Longrightarrow> rep 1 (v * w) (fe_mul F x y)"
  unfolding rep_def using mul_law mag_mono [of _ _ 8] by force

lemma rep_sqr [rep_rules]: "rep m v x \<Longrightarrow> m \<le> 8 \<Longrightarrow> rep 1 (v ^ 2) (fe_sqr F x)"
  unfolding rep_def using sqr_law mag_mono [of _ _ 8] by (force simp: power2_eq_square)

lemma rep_add [rep_rules]:
  "rep m v x \<Longrightarrow> rep k w y \<Longrightarrow> m + k \<le> 32 \<Longrightarrow> rep (m + k) (v + w) (fe_add F x y)"
  unfolding rep_def using add_law by blast

lemma rep_mul_int [rep_rules]:
  "rep m v x \<Longrightarrow> m * unat w \<le> 32 \<Longrightarrow> 0 < m \<Longrightarrow> rep (m * unat w) (of_nat (unat w) * v) (fe_mul_int F x w)"
  unfolding rep_def using mul_int_law by blast

lemma rep_negate [rep_rules]:
  "rep m v x \<Longrightarrow> m \<le> unat w \<Longrightarrow> unat w < 32 \<Longrightarrow> rep (unat w + 1) (- v) (fe_negate F x w)"
  unfolding rep_def using negate_law mag_mono [of m x "unat w"] by simp

lemma rep_weak [rep_rules]: "rep m v x \<Longrightarrow> m \<le> 32 \<Longrightarrow> rep 1 v (fe_normalize_weak F x)"
  unfolding rep_def using normalize_weak_law mag_mono [of m x 32] by auto

lemma rep_zero_var: "rep m v x \<Longrightarrow> m \<le> 32 \<Longrightarrow> fe_normalizes_to_zero_var F x \<longleftrightarrow> v = 0"
  unfolding rep_def using ntz_var_law mag_mono [of m x 32] by auto

lemma rep_zero: "rep m v x \<Longrightarrow> m \<le> 32 \<Longrightarrow> fe_normalizes_to_zero F x \<longleftrightarrow> v = 0"
  unfolding rep_def using ntz_law mag_mono [of m x 32] by auto

lemma rep_set_int: "unat w < 2 ^ 26 \<Longrightarrow> rep 1 (of_nat (unat w)) (fe_set_int F w)"
  unfolding rep_def using set_int_law nrm_mag by blast

lemma double_rep:
  assumes a: "rep 8 X (gej_x a)" "rep 8 Y (gej_y a)" "rep 8 Z (gej_z a)" and i: "\<not> gej_infinity a"
    and r: "gej_double_var F r a f = (r', rz)"
  shows "rep 6 (9 * X ^ 4 - 8 * X * Y ^ 2) (gej_x r')"
    and "rep 4 (3 * X ^ 2 * (12 * X * Y ^ 2 - 9 * X ^ 4) - 8 * Y ^ 4) (gej_y r')"
    and "rep 2 (2 * (Z * Y)) (gej_z r')"
    and "\<not> gej_infinity r'"
    and "f \<Longrightarrow> \<exists>q. rz = Some q \<and> rep 2 (2 * Y) q"
proof -
  note d = r [unfolded gej_double_var_def Let_def, simplified i, simplified]
  show "rep 6 (9 * X ^ 4 - 8 * X * Y ^ 2) (gej_x r')"
    unfolding d [THEN conjunct1, symmetric] by (simp, rule rep_weaken, (rule rep_rules a | (simp; fail))+, (simp?, algebra)?)
  show "rep 4 (3 * X ^ 2 * (12 * X * Y ^ 2 - 9 * X ^ 4) - 8 * Y ^ 4) (gej_y r')"
    unfolding d [THEN conjunct1, symmetric] by (simp, rule rep_weaken, (rule rep_rules a | (simp; fail))+, (simp?, algebra)?)
  show "rep 2 (2 * (Z * Y)) (gej_z r')"
    unfolding d [THEN conjunct1, symmetric] by (simp, rule rep_weaken, (rule rep_rules a | (simp; fail))+, (simp?, algebra)?)
  show "\<not> gej_infinity r'"
    using d i by auto
  show "\<exists>q. rz = Some q \<and> rep 2 (2 * Y) q" if f
  proof -
    have "rep 2 (2 * Y) (fe_mul_int F (fe_normalize_weak F (gej_y a)) 2)"
      by (rule rep_weaken, (rule rep_rules a | (simp; fail))+)
    with that d show ?thesis by auto
  qed
qed

lemma wf_gejE:
  assumes "gej_wf mag fval a" "\<not> gej_infinity a"
  obtains X Y Z where "rep 8 X (gej_x a)" "rep 8 Y (gej_y a)" "rep 8 Z (gej_z a)" "Z \<noteq> 0" "Y \<noteq> 0"
    "gej_pt fval a = jac X Y Z" "on_curve (jac X Y Z)"
proof -
  have w: "mag 8 (gej_x a)" "mag 8 (gej_y a)" "mag 8 (gej_z a)" "fval (gej_z a) \<noteq> 0"
    "on_curve (jac (fval (gej_x a)) (fval (gej_y a)) (fval (gej_z a)))"
    using assms by (simp_all add: gej_wf_def)
  obtain x y where xy: "fval (gej_y a) = y * fval (gej_z a) ^ 3"
    "jac (fval (gej_x a)) (fval (gej_y a)) (fval (gej_z a)) = Pt x y"
    using w(4) by (rule jac_cases)
  have "y \<noteq> 0" using w(5) on_curve_y_ne_0 unfolding xy(2) by blast
  then have "fval (gej_y a) \<noteq> 0" using xy(1) w(4) by simp
  with w show ?thesis
    using assms(2) by (intro that [of "fval (gej_x a)" "fval (gej_y a)" "fval (gej_z a)"])
      (simp_all add: rep_def gej_pt_def)
qed

lemma wf_geE:
  assumes "ge_wf mag fval b" "\<not> ge_infinity b"
  obtains x y where "rep 8 x (ge_x b)" "rep 8 y (ge_y b)" "ge_pt fval b = Pt x y" "on_curve (Pt x y)"
  using assms by (intro that [of "fval (ge_x b)" "fval (ge_y b)"]) (simp_all add: ge_wf_def ge_pt_def rep_def)

lemma gej_wfI:
  assumes "rep m X (gej_x a)" "rep k Y (gej_y a)" "rep j Z (gej_z a)" "m \<le> 8" "k \<le> 8" "j \<le> 8" "Z \<noteq> 0"
    "\<not> gej_infinity a" "jac X Y Z = P" "on_curve P"
  shows "gej_wf mag fval a \<and> gej_pt fval a = P"
  using assms mag_mono [of m _ 8] mag_mono [of k _ 8] mag_mono [of j _ 8]
  by (auto simp: gej_wf_def gej_pt_def rep_def)

lemma gej_wf_infinity: "gej_infinity a \<Longrightarrow> gej_wf mag fval a \<and> gej_pt fval a = Infty"
  by (simp add: gej_wf_def gej_pt_def)

section \<open>Doubling\<close>

lemma double_pt:
  assumes a: "gej_wf mag fval a" and r: "gej_double_var F r a f = (r', rz)"
  shows "gej_wf mag fval r' \<and> gej_pt fval r' = pt_add (gej_pt fval a) (gej_pt fval a)"
proof (cases "gej_infinity a")
  case True
  then have "gej_infinity r'" using r by (auto simp: gej_double_var_def Let_def)
  with True show ?thesis using gej_wf_infinity [of r'] gej_wf_infinity [of a] by simp
next
  case False
  obtain X Y Z where x: "rep 8 X (gej_x a)" "rep 8 Y (gej_y a)" "rep 8 Z (gej_z a)" and nz: "Z \<noteq> 0" "Y \<noteq> 0"
    and p: "gej_pt fval a = jac X Y Z" "on_curve (jac X Y Z)"
    using a False by (rule wf_gejE)
  note d = double_rep [OF x False r]
  show ?thesis
    unfolding p(1)
  proof (rule gej_wfI [OF d(1,2,3) _ _ _ _ d(4) jac_double [OF nz]])
    show "on_curve (pt_add (jac X Y Z) (jac X Y Z))" by (rule on_curve_pt_add [OF p(2) p(2)])
  qed (use nz in simp_all)
qed

text \<open>The ratio of the z coordinates, as the callers that pass \<open>rzr\<close> rely on it.\<close>

lemma double_rzr:
  assumes a: "gej_wf mag fval a" "\<not> gej_infinity a" and r: "gej_double_var F r a True = (r', rz)"
  obtains q where "rz = Some q" "mag 2 q" "fval (gej_z r') = fval (gej_z a) * fval q"
proof -
  obtain X Y Z where x: "rep 8 X (gej_x a)" "rep 8 Y (gej_y a)" "rep 8 Z (gej_z a)"
    using a by (rule wf_gejE)
  note d = double_rep [OF x a(2) r]
  obtain q where "rz = Some q" "rep 2 (2 * Y) q" using d(5) by blast
  with d(3) x(3) show ?thesis by (intro that [of q]) (simp_all add: rep_def)
qed

section \<open>Addition\<close>

lemma add_xy_rep:
  assumes a: "rep 1 U u1" "rep 1 S s1" "rep 3 H h" "rep 3 I i" and r: "gej_add_xy F u1 s1 h i = (x, y)"
  shows "rep 5 (I ^ 2 - (2 * (U * H ^ 2) + H ^ 3)) x"
    and "rep 3 ((U * H ^ 2 - (I ^ 2 - (2 * (U * H ^ 2) + H ^ 3))) * I - H ^ 3 * S) y"
proof -
  note d = r [unfolded gej_add_xy_def Let_def prod.inject]
  define t where "t = fe_mul F u1 (fe_sqr F h)"
  define h3 where "h3 = fe_mul F h (fe_sqr F h)"
  have t: "rep 1 (U * H ^ 2) t" unfolding t_def by (rule rep_weaken, (rule rep_rules a | (simp; fail))+)
  have h3: "rep 1 (H ^ 3) h3" unfolding h3_def by (rule rep_weaken, (rule rep_rules a | (simp; fail))+, (simp?, algebra)?)
  show x: "rep 5 (I ^ 2 - (2 * (U * H ^ 2) + H ^ 3)) x"
    unfolding d [THEN conjunct1, symmetric] t_def [symmetric] h3_def [symmetric]
    by (rule rep_weaken, (rule rep_rules a t h3 | (simp; fail))+, (simp?, algebra)?)
  have y: "y = fe_add F (fe_mul F (fe_add F (fe_negate F x 5) t) i) (fe_negate F (fe_mul F h3 s1) 1)"
    using d by (auto simp: t_def h3_def)
  show "rep 3 ((U * H ^ 2 - (I ^ 2 - (2 * (U * H ^ 2) + H ^ 3))) * I - H ^ 3 * S) y"
    unfolding y
    by (rule rep_weaken, (rule rep_rules a t h3 x | (simp; fail))+, (simp?, algebra)?)
qed

text \<open>
  The common core of the three variable-time additions: the first point at scale \<open>W\<close>, the
  differences \<open>h\<close> and \<open>i\<close>, and the tests on them.
\<close>

lemma add_core:
  assumes W: "W \<noteq> 0" and c: "on_curve (Pt x1 y1)" "on_curve (Pt x2 y2)"
    and u: "rep 1 (x1 * W ^ 2) u1" "rep 1 (x2 * W ^ 2) u2" "rep 1 (y1 * W ^ 3) s1" "rep 1 (y2 * W ^ 3) s2"
    and h: "h = fe_add F (fe_negate F u1 1) u2" and i: "i = fe_add F (fe_negate F s1 1) s2"
  shows "fe_normalizes_to_zero_var F h \<Longrightarrow> fe_normalizes_to_zero_var F i \<Longrightarrow> x1 = x2 \<and> y1 = y2"
    and "fe_normalizes_to_zero_var F h \<Longrightarrow> \<not> fe_normalizes_to_zero_var F i \<Longrightarrow> pt_add (Pt x1 y1) (Pt x2 y2) = Infty"
    and "\<not> fe_normalizes_to_zero_var F h \<Longrightarrow> \<exists>X Y H. rep 5 X (fst (gej_add_xy F u1 s1 h i)) \<and>
       rep 3 Y (snd (gej_add_xy F u1 s1 h i)) \<and> rep 3 H h \<and> H \<noteq> 0 \<and> jac X Y (W * H) = pt_add (Pt x1 y1) (Pt x2 y2)"
proof -
  have hr: "rep 3 (x2 * W ^ 2 - x1 * W ^ 2) h"
    unfolding h by (rule rep_weaken, (rule rep_rules u | (simp; fail))+)
  have ir: "rep 3 (y2 * W ^ 3 - y1 * W ^ 3) i"
    unfolding i by (rule rep_weaken, (rule rep_rules u | (simp; fail))+)
  have hz: "fe_normalizes_to_zero_var F h \<longleftrightarrow> x1 = x2" using rep_zero_var [OF hr] W by auto
  have iz: "fe_normalizes_to_zero_var F i \<longleftrightarrow> y1 = y2" using rep_zero_var [OF ir] W by auto
  show "fe_normalizes_to_zero_var F h \<Longrightarrow> fe_normalizes_to_zero_var F i \<Longrightarrow> x1 = x2 \<and> y1 = y2"
    using hz iz by blast
  show "fe_normalizes_to_zero_var F h \<Longrightarrow> \<not> fe_normalizes_to_zero_var F i \<Longrightarrow> pt_add (Pt x1 y1) (Pt x2 y2) = Infty"
    using hz iz same_x_on_curve [of x2 y1 y2] c by auto
  assume "\<not> fe_normalizes_to_zero_var F h"
  then have ne: "x2 * W ^ 2 \<noteq> x1 * W ^ 2" using hz W by auto
  obtain x y where xy: "gej_add_xy F u1 s1 h i = (x, y)" by (rule prod.exhaust)
  note r = add_xy_rep [OF u(1,3) hr ir xy]
  have H0: "x2 * W ^ 2 - x1 * W ^ 2 \<noteq> 0" using ne by simp
  note j = jac_add [OF W ne refl refl refl refl]
  show "\<exists>X Y H. rep 5 X (fst (gej_add_xy F u1 s1 h i)) \<and>
       rep 3 Y (snd (gej_add_xy F u1 s1 h i)) \<and> rep 3 H h \<and> H \<noteq> 0 \<and> jac X Y (W * H) = pt_add (Pt x1 y1) (Pt x2 y2)"
    unfolding xy fst_conv snd_conv using r hr H0 j by blast
qed

text \<open>A Jacobian point seen at a larger scale.\<close>

lemma jac_at_scale:
  assumes "Z \<noteq> 0" "V \<noteq> 0" "jac X Y Z = Pt x y"
  shows "X * V ^ 2 = x * (Z * V) ^ 2" "Y * V ^ 3 = y * (Z * V) ^ 3"
  using assms by (auto simp: jac_def power_mult_distrib)

lemma on_curve_jac_add:
  "on_curve P \<Longrightarrow> on_curve Q \<Longrightarrow> jac X Y Z = pt_add P Q \<Longrightarrow> on_curve (jac X Y Z)"
  using on_curve_pt_add by simp

lemma add_finish:
  assumes xy: "(x, y) = gej_add_xy F u1 s1 h i"
    and e: "rep 5 X (fst (gej_add_xy F u1 s1 h i))" "rep 3 Y (snd (gej_add_xy F u1 s1 h i))"
    and z: "rep m (W * H) z" "m \<le> 8" "W * H \<noteq> 0" and j: "jac X Y (W * H) = P" "on_curve P"
    and r': "r' = r \<lparr> gej_infinity := False, gej_x := x, gej_y := y, gej_z := z \<rparr>"
  shows "gej_wf mag fval r' \<and> gej_pt fval r' = P"
proof (rule gej_wfI)
  show "rep 5 X (gej_x r')" "rep 3 Y (gej_y r')" using e unfolding r' xy [symmetric] by simp_all
  show "rep m (W * H) (gej_z r')" using z(1) unfolding r' by simp
qed (use z j in \<open>simp_all add: r'\<close>)

lemma add_var_pt:
  assumes a: "gej_wf mag fval a" and b: "gej_wf mag fval b" and r: "gej_add_var F r a b f = (r', rz)"
  shows "gej_wf mag fval r' \<and> gej_pt fval r' = pt_add (gej_pt fval a) (gej_pt fval b)"
proof -
  consider "gej_infinity a" | "\<not> gej_infinity a" "gej_infinity b" | "\<not> gej_infinity a" "\<not> gej_infinity b" by blast
  then show ?thesis
  proof cases
    case 1
    then show ?thesis using r b by (auto simp: gej_add_var_def gej_pt_def)
  next
    case 2
    then show ?thesis using r a by (auto simp: gej_add_var_def gej_pt_def)
  next
    case 3
    obtain X1 Y1 Z1 where x1: "rep 8 X1 (gej_x a)" "rep 8 Y1 (gej_y a)" "rep 8 Z1 (gej_z a)" and nz1: "Z1 \<noteq> 0"
      and p1: "gej_pt fval a = jac X1 Y1 Z1" "on_curve (jac X1 Y1 Z1)"
      using a 3(1) by (rule wf_gejE)
    obtain X2 Y2 Z2 where x2: "rep 8 X2 (gej_x b)" "rep 8 Y2 (gej_y b)" "rep 8 Z2 (gej_z b)" and nz2: "Z2 \<noteq> 0"
      and p2: "gej_pt fval b = jac X2 Y2 Z2" "on_curve (jac X2 Y2 Z2)"
      using b 3(2) by (rule wf_gejE)
    obtain x y where xy: "jac X1 Y1 Z1 = Pt x y" using nz1 by (rule jac_cases)
    obtain x' y' where xy': "jac X2 Y2 Z2 = Pt x' y'" using nz2 by (rule jac_cases)
    note s1 = jac_at_scale [OF nz1 nz2 xy] and s2 = jac_at_scale [OF nz2 nz1 xy', unfolded mult.commute [of Z2 Z1]]
    define u1 where "u1 = fe_mul F (gej_x a) (fe_sqr F (gej_z b))"
    define u2 where "u2 = fe_mul F (gej_x b) (fe_sqr F (gej_z a))"
    define v1 where "v1 = fe_mul F (fe_mul F (gej_y a) (fe_sqr F (gej_z b))) (gej_z b)"
    define v2 where "v2 = fe_mul F (fe_mul F (gej_y b) (fe_sqr F (gej_z a))) (gej_z a)"
    define h where "h = fe_add F (fe_negate F u1 1) u2"
    define i where "i = fe_add F (fe_negate F v1 1) v2"
    have u: "rep 1 (x * (Z1 * Z2) ^ 2) u1" "rep 1 (x' * (Z1 * Z2) ^ 2) u2"
      unfolding u1_def u2_def s1(1) [symmetric] s2(1) [symmetric]
      by ((rule rep_weaken, (rule rep_rules x1 x2 | (simp; fail))+, (simp?, algebra)?)[1])+
    have v: "rep 1 (y * (Z1 * Z2) ^ 3) v1" "rep 1 (y' * (Z1 * Z2) ^ 3) v2"
      unfolding v1_def v2_def s1(2) [symmetric] s2(2) [symmetric]
      by ((rule rep_weaken, (rule rep_rules x1 x2 | (simp; fail))+, (simp?, algebra)?)[1])+
    have W: "Z1 * Z2 \<noteq> 0" using nz1 nz2 by simp
    have c: "on_curve (Pt x y)" "on_curve (Pt x' y')" using p1(2) p2(2) xy xy' by simp_all
    note core = add_core [OF W c u v h_def i_def]
    note d = r [unfolded gej_add_var_def Let_def, simplified 3 if_False,
        folded u1_def u2_def v1_def v2_def, folded h_def i_def]
    have cc: "on_curve (pt_add (Pt x y) (Pt x' y'))" by (rule on_curve_pt_add [OF c])
    show ?thesis
    proof (cases "fe_normalizes_to_zero_var F h")
      case True
      note hz = True
      show ?thesis
      proof (cases "fe_normalizes_to_zero_var F i")
        case True
        then have "gej_double_var F (r \<lparr> gej_infinity := False \<rparr>) a f = (r', rz)" using d hz by simp
        from double_pt [OF a this] core(1) [OF hz True] show ?thesis
          by (simp add: p1(1) p2(1) xy xy')
      next
        case False
        then have "gej_infinity r'" using d hz by auto
        then show ?thesis using core(2) [OF hz False] gej_wf_infinity [of r'] by (simp add: p1(1) p2(1) xy xy')
      qed
    next
      case False
      obtain X Y H where e: "rep 5 X (fst (gej_add_xy F u1 v1 h i))" "rep 3 Y (snd (gej_add_xy F u1 v1 h i))"
        "rep 3 H h" "H \<noteq> 0" "jac X Y (Z1 * Z2 * H) = pt_add (Pt x y) (Pt x' y')"
        using core(3) [OF False] by blast
      obtain gx gy where g: "gej_add_xy F u1 v1 h i = (gx, gy)" by (rule prod.exhaust)
      have z: "rep 1 (Z1 * Z2 * H) (fe_mul F (gej_z a) (fe_mul F h (gej_z b)))"
        by (rule rep_weaken, (rule rep_rules x1 x2 e(3) | (simp; fail))+, (simp?, algebra)?)
      show ?thesis
        unfolding p1(1) p2(1) xy xy'
      proof (rule add_finish [OF g [symmetric] e(1,2) z _ _ e(5) cc])
        show "r' = r \<lparr> gej_infinity := False, gej_x := gx, gej_y := gy, gej_z := fe_mul F (gej_z a) (fe_mul F h (gej_z b)) \<rparr>"
          using d False g by simp
      qed (use W e(4) in simp_all)
    qed
  qed
qed

text \<open>The part shared by the two additions of an affine point: both work at the scale of \<open>a\<close>.\<close>

lemma add_affine_pt:
  assumes a: "gej_wf mag fval a" "\<not> gej_infinity a" and c: "on_curve (Pt x' y')"
    and Z: "rep 8 Z (gej_z a)"
    and v: "rep 1 (x' * Z ^ 2) u2" "rep 1 (y' * Z ^ 3) v2"
    and h: "h = fe_add F (fe_negate F (fe_normalize_weak F (gej_x a)) 1) u2"
    and i: "i = fe_add F (fe_negate F (fe_normalize_weak F (gej_y a)) 1) v2"
    and g: "gej_add_xy F (fe_normalize_weak F (gej_x a)) (fe_normalize_weak F (gej_y a)) h i = (gx, gy)"
    and r': "r' = (if fe_normalizes_to_zero_var F h then
        if fe_normalizes_to_zero_var F i then fst (gej_double_var F (r \<lparr> gej_infinity := False \<rparr>) a f)
        else r \<lparr> gej_infinity := True \<rparr>
      else r \<lparr> gej_infinity := False, gej_x := gx, gej_y := gy, gej_z := fe_mul F (gej_z a) h \<rparr>)"
  shows "gej_wf mag fval r' \<and> gej_pt fval r' = pt_add (gej_pt fval a) (Pt x' y')"
proof -
  obtain X1 Y1 Z1 where x1: "rep 8 X1 (gej_x a)" "rep 8 Y1 (gej_y a)" "rep 8 Z1 (gej_z a)" and nz: "Z1 \<noteq> 0"
    and p1: "gej_pt fval a = jac X1 Y1 Z1" "on_curve (jac X1 Y1 Z1)"
    using a by (rule wf_gejE)
  have ZZ: "Z1 = Z" using x1(3) Z by (simp add: rep_def)
  obtain x y where xy: "X1 = x * Z1 ^ 2" "Y1 = y * Z1 ^ 3" "jac X1 Y1 Z1 = Pt x y" using nz by (rule jac_cases)
  have u: "rep 1 (x * Z ^ 2) (fe_normalize_weak F (gej_x a))" "rep 1 (y * Z ^ 3) (fe_normalize_weak F (gej_y a))"
    unfolding xy(1,2) [symmetric] ZZ [symmetric]
    by ((rule rep_weaken, (rule rep_rules x1 | (simp; fail))+)[1])+
  have W: "Z \<noteq> 0" using nz ZZ by simp
  have c1: "on_curve (Pt x y)" using p1(2) xy(3) by simp
  note core = add_core [OF W c1 c u(1) v(1) u(2) v(2) h i]
  have cc: "on_curve (pt_add (Pt x y) (Pt x' y'))" by (rule on_curve_pt_add [OF c1 c])
  show ?thesis
  proof (cases "fe_normalizes_to_zero_var F h")
    case True
    note hz = True
    show ?thesis
    proof (cases "fe_normalizes_to_zero_var F i")
      case True
      obtain rd rz where dv: "gej_double_var F (r \<lparr> gej_infinity := False \<rparr>) a f = (rd, rz)" by (rule prod.exhaust)
      have "r' = rd" using r' hz True dv by simp
      with double_pt [OF a(1) dv] core(1) [OF hz True] show ?thesis by (simp add: p1(1) xy(3))
    next
      case False
      then have "gej_infinity r'" using r' hz by simp
      then show ?thesis using core(2) [OF hz False] gej_wf_infinity [of r'] by (simp add: p1(1) xy(3))
    qed
  next
    case False
    obtain X Y H where e: "rep 5 X gx" "rep 3 Y gy" "rep 3 H h" "H \<noteq> 0" "jac X Y (Z * H) = pt_add (Pt x y) (Pt x' y')"
      using core(3) [OF False] g by auto
    have z: "rep 1 (Z * H) (fe_mul F (gej_z a) h)"
      by (rule rep_weaken, (rule rep_rules Z e(3) | (simp; fail))+)
    show ?thesis
      unfolding p1(1) xy(3)
      by (rule add_finish [OF g [symmetric] _ _ z _ _ e(5) cc, where r = r]) (use e W r' False g in simp_all)
  qed
qed

lemma gej_set_ge_pt:
  assumes "ge_wf mag fval b"
  shows "gej_wf mag fval (gej_set_ge F b) \<and> gej_pt fval (gej_set_ge F b) = ge_pt fval b"
proof (cases "ge_infinity b")
  case True
  then have "gej_infinity (gej_set_ge F b)" by (simp add: gej_set_ge_def)
  from gej_wf_infinity [OF this] show ?thesis using True by (simp add: ge_pt_def)
next
  case False
  obtain x y where xy: "rep 8 x (ge_x b)" "rep 8 y (ge_y b)" "ge_pt fval b = Pt x y" "on_curve (Pt x y)"
    using assms False by (rule wf_geE)
  have o: "rep 1 1 (fe_set_int F 1)" using rep_set_int [of 1] by simp
  show ?thesis
    unfolding xy(3)
  proof (rule gej_wfI)
    show "rep 8 x (gej_x (gej_set_ge F b))" "rep 8 y (gej_y (gej_set_ge F b))" "rep 1 1 (gej_z (gej_set_ge F b))"
      using xy o by (simp_all add: gej_set_ge_def)
    show "jac x y 1 = Pt x y" by (rule jac_one)
  qed (use False xy(4) in \<open>simp_all add: gej_set_ge_def\<close>)
qed

lemma add_ge_var_pt:
  assumes a: "gej_wf mag fval a" and b: "ge_wf mag fval b" and r: "gej_add_ge_var F r a b f = (r', rz)"
  shows "gej_wf mag fval r' \<and> gej_pt fval r' = pt_add (gej_pt fval a) (ge_pt fval b)"
proof -
  consider "gej_infinity a" | "\<not> gej_infinity a" "ge_infinity b" | "\<not> gej_infinity a" "\<not> ge_infinity b" by blast
  then show ?thesis
  proof cases
    case 1
    then show ?thesis using r gej_set_ge_pt [OF b] by (auto simp: gej_add_ge_var_def gej_pt_def [of _ a])
  next
    case 2
    then show ?thesis using r a by (auto simp: gej_add_ge_var_def ge_pt_def)
  next
    case 3
    obtain x' y' where b': "rep 8 x' (ge_x b)" "rep 8 y' (ge_y b)" "ge_pt fval b = Pt x' y'" "on_curve (Pt x' y')"
      using b 3(2) by (rule wf_geE)
    obtain X1 Y1 Z where x1: "rep 8 X1 (gej_x a)" "rep 8 Y1 (gej_y a)" "rep 8 Z (gej_z a)"
      using a 3(1) by (rule wf_gejE)
    define u2 where "u2 = fe_mul F (ge_x b) (fe_sqr F (gej_z a))"
    define v2 where "v2 = fe_mul F (fe_mul F (ge_y b) (fe_sqr F (gej_z a))) (gej_z a)"
    define h where "h = fe_add F (fe_negate F (fe_normalize_weak F (gej_x a)) 1) u2"
    define i where "i = fe_add F (fe_negate F (fe_normalize_weak F (gej_y a)) 1) v2"
    have v: "rep 1 (x' * Z ^ 2) u2" "rep 1 (y' * Z ^ 3) v2"
      unfolding u2_def v2_def by ((rule rep_weaken, (rule rep_rules x1 b' | (simp; fail))+, (simp?, algebra)?)[1])+
    obtain gx gy where g: "gej_add_xy F (fe_normalize_weak F (gej_x a)) (fe_normalize_weak F (gej_y a)) h i = (gx, gy)"
      by (rule prod.exhaust)
    note d = r [unfolded gej_add_ge_var_def Let_def, simplified 3 if_False,
        folded u2_def v2_def, folded h_def i_def, unfolded g]
    show ?thesis
      unfolding b'(3)
      by (rule add_affine_pt [OF a 3(1) b'(4) x1(3) v h_def i_def g, where f = f and r = r])
        (use d in \<open>auto split: if_splits\<close>)
  qed
qed

text \<open>Here \<open>b\<close> holds the x and y of a Jacobian point whose z is the inverse of \<open>bzinv\<close>.\<close>

lemma add_zinv_var_pt:
  assumes a: "gej_wf mag fval a" and b: "\<not> ge_infinity b \<Longrightarrow> mag 8 (ge_x b) \<and> mag 8 (ge_y b)"
    and bz: "mag 8 bzinv" "fval bzinv \<noteq> 0"
    and bP: "(if ge_infinity b then Infty else jac (fval (ge_x b)) (fval (ge_y b)) (inverse (fval bzinv))) = P" "on_curve P"
    and r: "gej_add_zinv_var F r a b bzinv = r'"
  shows "gej_wf mag fval r' \<and> gej_pt fval r' = pt_add (gej_pt fval a) P"
proof (cases "ge_infinity b")
  case True
  then show ?thesis using r a bP by (auto simp: gej_add_zinv_var_def)
next
  case False
  define q where "q = fval bzinv"
  have b8: "rep 8 (fval (ge_x b)) (ge_x b)" "rep 8 (fval (ge_y b)) (ge_y b)" "rep 8 q bzinv"
    using b [OF False] bz(1) by (simp_all add: rep_def q_def)
  define x' where "x' = fval (ge_x b) * q ^ 2"
  define y' where "y' = fval (ge_y b) * q ^ 3"
  have P: "P = Pt x' y'" using bP(1) False bz(2) by (simp add: jac_def x'_def y'_def q_def field_simps)
  have c: "on_curve (Pt x' y')" using bP(2) P by simp
  show ?thesis
  proof (cases "gej_infinity a")
    case True
    have e: "r' = \<lparr> gej_x = fe_mul F (ge_x b) (fe_sqr F bzinv), gej_y = fe_mul F (ge_y b) (fe_mul F (fe_sqr F bzinv) bzinv),
        gej_z = fe_set_int F 1, gej_infinity = False \<rparr>"
      using r True False by (auto simp: gej_add_zinv_var_def Let_def)
    have o: "rep 1 1 (fe_set_int F 1)" using rep_set_int [of 1] by simp
    have "gej_wf mag fval r' \<and> gej_pt fval r' = Pt x' y'"
    proof (rule gej_wfI)
      show "rep 1 x' (gej_x r')" "rep 1 y' (gej_y r')" "rep 1 1 (gej_z r')"
        unfolding e x'_def y'_def
        by ((simp, rule rep_weaken, (rule rep_rules b8 o | (simp; fail))+, (simp?, algebra)?)[1])+
      show "jac x' y' 1 = Pt x' y'" by (rule jac_one)
    qed (use c in \<open>simp_all add: e\<close>)
    then show ?thesis using True P by (simp add: gej_pt_def [of _ a])
  next
    case na: False
    obtain X1 Y1 Z where x1: "rep 8 X1 (gej_x a)" "rep 8 Y1 (gej_y a)" "rep 8 Z (gej_z a)"
      using a na by (rule wf_gejE)
    define az where "az = fe_mul F (gej_z a) bzinv"
    define u2 where "u2 = fe_mul F (ge_x b) (fe_sqr F az)"
    define v2 where "v2 = fe_mul F (fe_mul F (ge_y b) (fe_sqr F az)) az"
    define h where "h = fe_add F (fe_negate F (fe_normalize_weak F (gej_x a)) 1) u2"
    define i where "i = fe_add F (fe_negate F (fe_normalize_weak F (gej_y a)) 1) v2"
    have v: "rep 1 (x' * Z ^ 2) u2" "rep 1 (y' * Z ^ 3) v2"
      unfolding u2_def v2_def az_def x'_def y'_def
      by ((rule rep_weaken, (rule rep_rules x1 b8 | (simp; fail))+, (simp?, algebra)?)[1])+
    obtain gx gy where g: "gej_add_xy F (fe_normalize_weak F (gej_x a)) (fe_normalize_weak F (gej_y a)) h i = (gx, gy)"
      by (rule prod.exhaust)
    note d = r [unfolded gej_add_zinv_var_def Let_def, simplified na False if_False,
        folded az_def, folded u2_def v2_def, folded h_def i_def, unfolded g]
    show ?thesis
      unfolding P
      by (rule add_affine_pt [OF a na c x1(3) v h_def i_def g, where f = False and r = r])
        (use d in \<open>auto split: if_splits\<close>)
  qed
qed

section \<open>The constant-time addition\<close>

lemma rep_cmov:
  "rep m v r \<Longrightarrow> rep k w a \<Longrightarrow> m \<le> j \<Longrightarrow> k \<le> j \<Longrightarrow> j \<le> 32 \<Longrightarrow>
     rep j (if c then w else v) (fe_cmov F r a (of_bool c))"
  unfolding cmov_law using rep_weaken [of m v r j v] rep_weaken [of k w a j w] by simp

lemma one_rep: "rep 1 1 (fe_const F 0 0 0 0 0 0 0 1)"
proof -
  have "fe_const_nat 0 0 0 0 0 0 0 1 < nat field_prime" by (simp add: fe_const_nat_def field_prime_def)
  from const_law [OF this] nrm_mag [of "fe_const F 0 0 0 0 0 0 0 1"] show ?thesis
    unfolding rep_def by (simp add: fe_const_nat_def)
qed

text \<open>
  What the formula computes before the final selection, for any coordinates of \<open>a\<close>; the selection
  replaces it by \<open>b\<close> when \<open>a\<close> is infinity.
\<close>

lemma add_ge_rep:
  assumes a: "rep 8 X (gej_x a)" "rep 8 Y (gej_y a)" "rep 8 Z (gej_z a)"
    and b: "rep 8 x2 (ge_x b)" "rep 8 y2 (ge_y b)"
    and T: "T = X + x2 * Z ^ 2" and M0: "M0 = Y + y2 * Z ^ 3" and R0: "R0 = T ^ 2 - X * (x2 * Z ^ 2)"
    and deg: "deg \<longleftrightarrow> M0 = 0 \<and> R0 = 0"
    and R: "R = (if deg then 2 * Y else R0)" and M: "M = (if deg then X - x2 * Z ^ 2 else M0)"
    and N: "N = (if deg then M0 else M ^ 4)"
  shows "rep 8 (if gej_infinity a then x2 else 4 * (R ^ 2 - T * M ^ 2)) (gej_x (gej_add_ge F a b))"
    and "rep 8 (if gej_infinity a then y2
           else - (4 * ((2 * (R ^ 2 - T * M ^ 2) - T * M ^ 2) * R + N))) (gej_y (gej_add_ge F a b))"
    and "rep 2 (if gej_infinity a then 1 else 2 * (Z * M)) (gej_z (gej_add_ge F a b))"
    and "gej_infinity (gej_add_ge F a b) \<longleftrightarrow> Z * M = 0 \<and> \<not> gej_infinity a"
proof -
  define u1 where "u1 = fe_normalize_weak F (gej_x a)"
  define zz where "zz = fe_sqr F (gej_z a)"
  define u2 where "u2 = fe_mul F (ge_x b) zz"
  define s1 where "s1 = fe_normalize_weak F (gej_y a)"
  define s2 where "s2 = fe_mul F (fe_mul F (ge_y b) zz) (gej_z a)"
  define t where "t = fe_add F u1 u2"
  define m where "m = fe_add F s1 s2"
  define m_alt where "m_alt = fe_negate F u2 1"
  define rr where "rr = fe_add F (fe_sqr F t) (fe_mul F u1 m_alt)"
  define dg where "dg = (fe_normalizes_to_zero F m \<and> fe_normalizes_to_zero F rr)"
  define ralt where "ralt = fe_cmov F (fe_mul_int F s1 2) rr (of_bool (\<not> dg))"
  define malt where "malt = fe_cmov F (fe_add F m_alt u1) m (of_bool (\<not> dg))"
  define n where "n = fe_cmov F (fe_sqr F (fe_sqr F malt)) m (of_bool dg)"
  define q where "q = fe_negate F (fe_mul F (fe_sqr F malt) t) 1"
  define z where "z = fe_mul F (gej_z a) malt"
  define x where "x = fe_normalize_weak F (fe_add F (fe_sqr F ralt) q)"
  define y where "y = fe_normalize_weak F (fe_negate F
     (fe_add F (fe_mul F (fe_add F (fe_mul_int F x 2) q) ralt) n) 3)"
  have u1: "rep 1 X u1" unfolding u1_def by (rule rep_weaken, (rule rep_rules a | (simp; fail))+)
  have zz: "rep 1 (Z ^ 2) zz" unfolding zz_def by (rule rep_weaken, (rule rep_rules a | (simp; fail))+)
  have u2: "rep 1 (x2 * Z ^ 2) u2" unfolding u2_def by (rule rep_weaken, (rule rep_rules b zz | (simp; fail))+)
  have s1: "rep 1 Y s1" unfolding s1_def by (rule rep_weaken, (rule rep_rules a | (simp; fail))+)
  have s2: "rep 1 (y2 * Z ^ 3) s2"
    unfolding s2_def by (rule rep_weaken, (rule rep_rules a b zz | (simp; fail))+, (simp?, algebra)?)
  have t: "rep 2 T t" unfolding t_def T by (rule rep_weaken, (rule rep_rules u1 u2 | (simp; fail))+)
  have m: "rep 2 M0 m" unfolding m_def M0 by (rule rep_weaken, (rule rep_rules s1 s2 | (simp; fail))+)
  have ma: "rep 2 (- (x2 * Z ^ 2)) m_alt"
    unfolding m_alt_def by (rule rep_weaken, (rule rep_rules u2 | (simp; fail))+)
  have rr: "rep 2 R0 rr"
    unfolding rr_def R0 by (rule rep_weaken, (rule rep_rules t u1 ma | (simp; fail))+)
  have dg: "dg \<longleftrightarrow> deg" unfolding dg_def deg using rep_zero [OF m] rep_zero [OF rr] by simp
  have r0: "rep 2 (2 * Y) (fe_mul_int F s1 2)" by (rule rep_weaken, (rule rep_rules s1 | (simp; fail))+)
  have m0: "rep 3 (X - x2 * Z ^ 2) (fe_add F m_alt u1)" by (rule rep_weaken, (rule rep_rules ma u1 | (simp; fail))+)
  have ralt: "rep 2 R ralt"
    using rep_cmov [OF r0 rr, of 2 "\<not> dg"] unfolding ralt_def R dg by (cases deg) simp_all
  have malt: "rep 3 M malt"
    using rep_cmov [OF m0 m, of 3 "\<not> dg"] unfolding malt_def M dg by (cases deg) simp_all
  have n0: "rep 1 (M ^ 4) (fe_sqr F (fe_sqr F malt))"
    by (rule rep_weaken, (rule rep_rules malt | (simp; fail))+)
  have n: "rep 2 N n"
    using rep_cmov [OF n0 m, of 2 dg] unfolding n_def N dg by (cases deg) simp_all
  have q: "rep 2 (- (T * M ^ 2)) q"
    unfolding q_def by (rule rep_weaken, (rule rep_rules malt t | (simp; fail))+)
  have z: "rep 1 (Z * M) z" unfolding z_def by (rule rep_weaken, (rule rep_rules a malt | (simp; fail))+)
  have x: "rep 1 (R ^ 2 - T * M ^ 2) x"
    unfolding x_def by (rule rep_weaken, (rule rep_rules ralt q | (simp; fail))+)
  have y: "rep 1 (- ((2 * (R ^ 2 - T * M ^ 2) - T * M ^ 2) * R + N)) y"
    unfolding y_def by (rule rep_weaken, (rule rep_rules x q ralt n | (simp; fail))+)
  have x4: "rep 4 (4 * (R ^ 2 - T * M ^ 2)) (fe_mul_int F x 4)"
    by (rule rep_weaken, (rule rep_rules x | (simp; fail))+)
  have y4: "rep 4 (- (4 * ((2 * (R ^ 2 - T * M ^ 2) - T * M ^ 2) * R + N))) (fe_mul_int F y 4)"
    by (rule rep_weaken, (rule rep_rules y | (simp; fail))+, (simp?, algebra)?)
  have z2: "rep 2 (2 * (Z * M)) (fe_mul_int F z 2)"
    by (rule rep_weaken, (rule rep_rules z | (simp; fail))+)
  note d = gej_add_ge_def [of F a b, unfolded Let_def, folded u1_def zz_def s1_def,
      folded u2_def s2_def, folded t_def m_def m_alt_def, folded rr_def, folded dg_def,
      folded ralt_def malt_def, folded n_def q_def z_def, folded x_def, folded y_def]
  show "rep 8 (if gej_infinity a then x2 else 4 * (R ^ 2 - T * M ^ 2)) (gej_x (gej_add_ge F a b))"
    unfolding d gej.select_convs by (rule rep_cmov [OF x4 b(1)]) simp_all
  show "rep 8 (if gej_infinity a then y2
           else - (4 * ((2 * (R ^ 2 - T * M ^ 2) - T * M ^ 2) * R + N))) (gej_y (gej_add_ge F a b))"
    unfolding d gej.select_convs by (rule rep_cmov [OF y4 b(2)]) simp_all
  show "rep 2 (if gej_infinity a then 1 else 2 * (Z * M)) (gej_z (gej_add_ge F a b))"
    unfolding d gej.select_convs by (rule rep_cmov [OF z2 one_rep]) simp_all
  show "gej_infinity (gej_add_ge F a b) \<longleftrightarrow> Z * M = 0 \<and> \<not> gej_infinity a"
    unfolding d gej.select_convs using rep_zero [OF z] by simp
qed

lemma add_ge_pt:
  assumes a: "gej_wf mag fval a" and m: "mag 8 (gej_x a)" "mag 8 (gej_y a)" "mag 8 (gej_z a)"
    and b: "ge_wf mag fval b" "\<not> ge_infinity b"
  shows "gej_wf mag fval (gej_add_ge F a b) \<and> gej_pt fval (gej_add_ge F a b) = pt_add (gej_pt fval a) (ge_pt fval b)"
proof -
  obtain x2 y2 where b': "rep 8 x2 (ge_x b)" "rep 8 y2 (ge_y b)" "ge_pt fval b = Pt x2 y2" "on_curve (Pt x2 y2)"
    using b by (rule wf_geE)
  define Z where "Z = fval (gej_z a)"
  define T where "T = fval (gej_x a) + x2 * Z ^ 2"
  define M0 where "M0 = fval (gej_y a) + y2 * Z ^ 3"
  define R0 where "R0 = T ^ 2 - fval (gej_x a) * (x2 * Z ^ 2)"
  define deg where "deg = (M0 = 0 \<and> R0 = 0)"
  define R where "R = (if deg then 2 * fval (gej_y a) else R0)"
  define M where "M = (if deg then fval (gej_x a) - x2 * Z ^ 2 else M0)"
  define N where "N = (if deg then M0 else M ^ 4)"
  have ra: "rep 8 (fval (gej_x a)) (gej_x a)" "rep 8 (fval (gej_y a)) (gej_y a)" "rep 8 Z (gej_z a)"
    using m by (simp_all add: rep_def Z_def)
  note r = add_ge_rep [OF ra b'(1,2) T_def M0_def R0_def deg_def R_def M_def N_def]
  show ?thesis
  proof (cases "gej_infinity a")
    case True
    have "gej_pt fval a = Infty" using True by (simp add: gej_pt_def)
    then show ?thesis
      unfolding b'(3) using True b'(4) r(4)
      by (intro gej_wfI [OF r(1,2,3)]) (simp_all add: jac_one)
  next
    case False
    obtain X1 Y1 Z1 where x1: "rep 8 X1 (gej_x a)" "rep 8 Y1 (gej_y a)" "rep 8 Z1 (gej_z a)" and nz: "Z1 \<noteq> 0"
      and p1: "gej_pt fval a = jac X1 Y1 Z1" "on_curve (jac X1 Y1 Z1)"
      using a False by (rule wf_gejE)
    have e: "fval (gej_x a) = X1" "fval (gej_y a) = Y1" "Z = Z1"
      using x1 by (simp_all add: rep_def Z_def)
    obtain x y where xy: "X1 = x * Z1 ^ 2" "Y1 = y * Z1 ^ 3" "jac X1 Y1 Z1 = Pt x y" using nz by (rule jac_cases)
    have c: "y ^ 2 = x ^ 3 + 7" "y2 ^ 2 = x2 ^ 3 + 7" using p1(2) b'(4) xy(3) by simp_all
    have Z0: "Z \<noteq> 0" using nz e by simp
    have u: "fval (gej_x a) = x * Z ^ 2" "fval (gej_y a) = y * Z ^ 3" using e xy by simp_all
    note j = jac_unified [OF c Z0 u(1) refl u(2) refl T_def M0_def R0_def deg_def R_def M_def N_def]
    show ?thesis
    proof (cases "Z * M = 0")
      case True
      then have "gej_infinity (gej_add_ge F a b)" using r(4) False by simp
      from gej_wf_infinity [OF this] show ?thesis using j True by (simp add: p1(1) xy(3) b'(3))
    next
      case nz: False
      have "on_curve (pt_add (Pt x y) (Pt x2 y2))" using c by (intro on_curve_pt_add) simp_all
      then show ?thesis
        unfolding p1(1) xy(3) b'(3) using r False nz j
        by (intro gej_wfI [OF r(1,2,3)]) simp_all
    qed
  qed
qed

end

end
