(* ===== verification/Group_Convert.thy ===== *)
theory Group_Convert
  imports Group_Correct
begin

text \<open>
  The remaining functions of group_impl.h: negation, validity, decompression, conversions between
  coordinate systems one by one and in batches, storage, and the endomorphism.
\<close>

context field_impl
begin

section \<open>Negation and validity\<close>

lemma on_curve_neg: "on_curve P \<Longrightarrow> on_curve (pt_neg P)"
  by (cases P) simp_all

lemma jac_neg: "jac X (- Y) Z = pt_neg (jac X Y Z)"
  by (simp add: jac_def)

lemma ge_neg_pt:
  assumes "ge_wf mag fval a"
  shows "ge_wf mag fval (ge_neg F a) \<and> ge_pt fval (ge_neg F a) = pt_neg (ge_pt fval a)"
proof (cases "ge_infinity a")
  case False
  obtain x y where xy: "rep 8 x (ge_x a)" "rep 8 y (ge_y a)" "ge_pt fval a = Pt x y" "on_curve (Pt x y)"
    using assms False by (rule wf_geE)
  have n: "rep 8 (- y) (fe_negate F (fe_normalize_weak F (ge_y a)) 1)"
    by (rule rep_weaken, (rule rep_rules xy | (simp; fail))+)
  show ?thesis using n xy False by (simp add: ge_neg_def ge_wf_def ge_pt_def rep_def)
qed (simp add: ge_neg_def ge_wf_def ge_pt_def)

lemma gej_neg_pt:
  assumes "gej_wf mag fval a"
  shows "gej_wf mag fval (gej_neg F a) \<and> gej_pt fval (gej_neg F a) = pt_neg (gej_pt fval a)"
proof (cases "gej_infinity a")
  case True
  then have "gej_infinity (gej_neg F a)" by (simp add: gej_neg_def)
  from gej_wf_infinity [OF this] show ?thesis using True by (simp add: gej_pt_def)
next
  case False
  obtain X Y Z where x: "rep 8 X (gej_x a)" "rep 8 Y (gej_y a)" "rep 8 Z (gej_z a)" "Z \<noteq> 0"
    and p: "gej_pt fval a = jac X Y Z" "on_curve (jac X Y Z)"
    using assms False by (rule wf_gejE)
  have n: "rep 2 (- Y) (fe_negate F (fe_normalize_weak F (gej_y a)) 1)"
    by (rule rep_weaken, (rule rep_rules x | (simp; fail))+)
  show ?thesis
    unfolding p(1)
  proof (rule gej_wfI)
    show "rep 8 X (gej_x (gej_neg F a))" "rep 2 (- Y) (gej_y (gej_neg F a))" "rep 8 Z (gej_z (gej_neg F a))"
      using x n by (simp_all add: gej_neg_def)
    show "jac X (- Y) Z = pt_neg (jac X Y Z)" by (rule jac_neg)
  qed (use False x p on_curve_neg in \<open>simp_all add: gej_neg_def\<close>)
qed

lemma seven_rep: "rep 1 7 (fe_set_int F curve_b)"
  using rep_set_int [of 7] by (simp add: curve_b_def)

lemma rep_equal_var:
  "rep m v a \<Longrightarrow> rep k w b \<Longrightarrow> m \<le> 1 \<Longrightarrow> k \<le> 30 \<Longrightarrow> fe_equal_var F a b \<longleftrightarrow> v = w"
  unfolding rep_def using equal_law(2) mag_mono [of m a 1] mag_mono [of k b 30] by auto

lemma ge_is_valid_var_iff:
  assumes "mag 8 (ge_x a)" "mag 8 (ge_y a)"
  shows "ge_is_valid_var F a \<longleftrightarrow> \<not> ge_infinity a \<and> on_curve (Pt (fval (ge_x a)) (fval (ge_y a)))"
proof -
  note x = assms [THEN rep_self]
  have y2: "rep 1 (fval (ge_y a) ^ 2) (fe_sqr F (ge_y a))"
    by (rule rep_weaken, (rule rep_rules x | (simp; fail))+)
  have x3: "rep 1 (fval (ge_x a) ^ 3 + 7)
      (fe_normalize_weak F (fe_add F (fe_mul F (fe_sqr F (ge_x a)) (ge_x a)) (fe_set_int F curve_b)))"
    by (rule rep_weaken, (rule rep_rules x seven_rep | (simp; fail))+, (simp?, algebra)?)
  show ?thesis using rep_equal_var [OF y2 x3] by (simp add: ge_is_valid_var_def Let_def)
qed

lemma gej_is_valid_var_iff:
  assumes "mag 8 (gej_x a)" "mag 8 (gej_y a)" "mag 8 (gej_z a)" "fval (gej_z a) \<noteq> 0"
  shows "gej_is_valid_var F a \<longleftrightarrow> \<not> gej_infinity a \<and> on_curve (jac (fval (gej_x a)) (fval (gej_y a)) (fval (gej_z a)))"
proof -
  note x = assms(1-3) [THEN rep_self]
  have y2: "rep 1 (fval (gej_y a) ^ 2) (fe_sqr F (gej_y a))"
    by (rule rep_weaken, (rule rep_rules x | (simp; fail))+)
  have z6: "rep 7 (7 * fval (gej_z a) ^ 6)
      (fe_mul_int F (fe_mul F (fe_sqr F (fe_sqr F (gej_z a))) (fe_sqr F (gej_z a))) curve_b)"
    unfolding curve_b_def by (rule rep_weaken, (rule rep_rules x | (simp; fail))+, (simp?, algebra)?)
  have x3: "rep 1 (fval (gej_x a) ^ 3 + 7 * fval (gej_z a) ^ 6)
      (fe_normalize_weak F (fe_add F (fe_mul F (fe_sqr F (gej_x a)) (gej_x a))
        (fe_mul_int F (fe_mul F (fe_sqr F (fe_sqr F (gej_z a))) (fe_sqr F (gej_z a))) curve_b)))"
    by (rule rep_weaken, (rule rep_rules x z6 | (simp; fail))+, (simp?, algebra)?)
  show ?thesis
    using rep_equal_var [OF y2 x3] on_curve_jac [OF assms(4)] by (simp add: gej_is_valid_var_def Let_def)
qed

lemma gej_eq_x_var_iff:
  assumes a: "gej_wf mag fval a" "\<not> gej_infinity a" and x: "mag 8 x"
  shows "gej_eq_x_var F x a \<longleftrightarrow> (\<exists>y. gej_pt fval a = Pt (fval x) y)"
proof -
  obtain X Y Z where r: "rep 8 X (gej_x a)" "rep 8 Y (gej_y a)" "rep 8 Z (gej_z a)" "Z \<noteq> 0"
    and p: "gej_pt fval a = jac X Y Z"
    using a by (rule wf_gejE)
  have l: "rep 1 (Z ^ 2 * fval x) (fe_mul F (fe_sqr F (gej_z a)) x)"
    by (rule rep_weaken, (rule rep_rules r rep_self [OF x] | (simp; fail))+)
  have n: "rep 1 X (fe_normalize_weak F (gej_x a))" by (rule rep_weaken, (rule rep_rules r | (simp; fail))+)
  have "gej_eq_x_var F x a \<longleftrightarrow> Z ^ 2 * fval x = X"
    using rep_equal_var [OF l n] by (simp add: gej_eq_x_var_def Let_def)
  also have "\<dots> \<longleftrightarrow> X / Z ^ 2 = fval x" using r(4) by (auto simp: field_simps)
  finally show ?thesis unfolding p jac_def by auto
qed

section \<open>Decompression\<close>

lemma ge_set_xquad_law:
  assumes x: "mag 8 x" and r: "ge_set_xquad F x = (ok, r)"
  shows "ok \<longleftrightarrow> (\<exists>y. on_curve (Pt (fval x) y))" and "ge_x r = x" "\<not> ge_infinity r" "mag 1 (ge_y r)"
    and "ok \<Longrightarrow> on_curve (Pt (fval x) (fval (ge_y r)))" and "\<exists>c. fval (ge_y r) = c * c"
proof -
  define c where "c = fe_add F (fe_set_int F curve_b) (fe_mul F x (fe_sqr F x))"
  have c: "rep 2 (fval x ^ 3 + 7) c"
    unfolding c_def by (rule rep_weaken, (rule rep_rules rep_self [OF x] seven_rep | (simp; fail))+, (simp?, algebra)?)
  then have m: "mag 8 c" "fval c = fval x ^ 3 + 7" using mag_mono [of 2 c 8] by (simp_all add: rep_def)
  obtain y where s: "fe_sqrt F c = (ok, y)" and r': "r = \<lparr> ge_x = x, ge_y = y, ge_infinity = False \<rparr>"
    using r by (auto simp: ge_set_xquad_def Let_def c_def split: prod.splits)
  note q = sqrt_law [OF m(1) s, unfolded m(2)]
  show "ok \<longleftrightarrow> (\<exists>y. on_curve (Pt (fval x) y))" using q(2) by (simp add: power2_eq_square)
  show "ge_x r = x" "\<not> ge_infinity r" "mag 1 (ge_y r)" using r' q(1) by simp_all
  show "ok \<Longrightarrow> on_curve (Pt (fval x) (fval (ge_y r)))" using q(3) r' by (simp add: power2_eq_square)
  show "\<exists>c. fval (ge_y r) = c * c" using q(4) r' by simp
qed

lemma rep_fp_minus_odd:
  assumes "x \<noteq> 0"
  shows "odd (rep_fp (- x)) \<longleftrightarrow> even (rep_fp x)"
proof -
  have "rep_fp x \<noteq> 0" using assms by (simp add: fp_eq_iff)
  then have "0 < rep_fp x" using rep_fp_range(1) [of x] by linarith
  then have "rep_fp (- x) = field_prime - rep_fp x"
    using rep_fp_range(2) [of x] by (simp add: rep_fp_uminus zmod_zminus1_eq_if)
  moreover have "odd field_prime" by (simp add: field_prime_def)
  ultimately show ?thesis by simp
qed

lemma ge_set_xo_var_law:
  assumes x: "mag 8 x" and r: "ge_set_xo_var F x odd' = (ok, r)"
  shows "ok \<longleftrightarrow> (\<exists>y. on_curve (Pt (fval x) y))"
    and "ok \<Longrightarrow> ge_wf mag fval r \<and> \<not> ge_infinity r \<and> ge_x r = x \<and> (odd (rep_fp (fval (ge_y r))) \<longleftrightarrow> odd')"
proof -
  obtain k s where s: "ge_set_xquad F x = (k, s)" by (rule prod.exhaust)
  note q = ge_set_xquad_law [OF x s]
  have ks: "ok = k" using r s by (auto simp: ge_set_xo_var_def Let_def split: if_splits)
  then show "ok \<longleftrightarrow> (\<exists>y. on_curve (Pt (fval x) y))" using q(1) by simp
  assume ok
  with ks have k by simp
  define y where "y = fe_normalize_var F (ge_y s)"
  have "mag 32 (ge_y s)" using q(4) by (rule mag_mono) simp_all
  then have y: "nrm y" "fval y = fval (ge_y s)" using normalize_var_law unfolding y_def by blast+
  have c: "on_curve (Pt (fval x) (fval y))" using q(5) \<open>k\<close> y(2) by simp
  then have y0: "fval y \<noteq> 0" by (rule on_curve_y_ne_0)
  have m: "mag 1 y" using nrm_mag [OF y(1)] .
  have n: "rep 2 (- fval y) (fe_negate F y 1)" by (rule rep_weaken, (rule rep_rules rep_self [OF m] | (simp; fail))+)
  have o: "fe_is_odd F y \<longleftrightarrow> odd (rep_fp (fval y))" by (rule is_odd_law [OF y(1)])
  have r': "r = s \<lparr> ge_y := (if fe_is_odd F y \<noteq> odd' then fe_negate F y 1 else y) \<rparr>"
    using r s \<open>k\<close> by (auto simp: ge_set_xo_var_def Let_def y_def split: if_splits)
  have "on_curve (Pt (fval x) (- fval y))" using c by simp
  then show "ge_wf mag fval r \<and> \<not> ge_infinity r \<and> ge_x r = x \<and> (odd (rep_fp (fval (ge_y r))) \<longleftrightarrow> odd')"
    using c q(2,3) x m n o rep_fp_minus_odd [OF y0] mag_mono [of 1 y 8] mag_mono [of 2 "fe_negate F y 1" 8]
    unfolding r' by (auto simp: ge_wf_def rep_def)
qed

section \<open>Affine and Jacobian coordinates\<close>

lemma ge_set_gej_zinv_pt:
  assumes m: "mag 8 (gej_x a)" "mag 8 (gej_y a)" and zi: "mag 8 zi" "fval zi \<noteq> 0"
    and P: "(if gej_infinity a then Infty else jac (fval (gej_x a)) (fval (gej_y a)) (inverse (fval zi))) = P" "on_curve P"
  shows "ge_wf mag fval (ge_set_gej_zinv F a zi) \<and> ge_pt fval (ge_set_gej_zinv F a zi) = P"
proof -
  note x = m [THEN rep_self] and z = rep_self [OF zi(1)]
  have rx: "rep 1 (fval (gej_x a) * fval zi ^ 2) (ge_x (ge_set_gej_zinv F a zi))"
    by (simp add: ge_set_gej_zinv_def Let_def, rule rep_weaken, (rule rep_rules x z | (simp; fail))+)
  have ry: "rep 1 (fval (gej_y a) * fval zi ^ 3) (ge_y (ge_set_gej_zinv F a zi))"
    by (simp add: ge_set_gej_zinv_def Let_def, rule rep_weaken, (rule rep_rules x z | (simp; fail))+, (simp?, algebra)?)
  have j: "jac (fval (gej_x a)) (fval (gej_y a)) (inverse (fval zi)) = Pt (fval (gej_x a) * fval zi ^ 2) (fval (gej_y a) * fval zi ^ 3)"
    using zi(2) by (simp add: jac_def field_simps)
  have i: "ge_infinity (ge_set_gej_zinv F a zi) = gej_infinity a" by (simp add: ge_set_gej_zinv_def Let_def)
  show ?thesis
    using rx ry P j i mag_mono [of 1 _ 8] by (auto simp: ge_wf_def ge_pt_def rep_def)
qed

lemma set_gej_core:
  assumes a: "gej_wf mag fval a" "\<not> gej_infinity a"
  shows "rep 1 (fval (gej_x a) / fval (gej_z a) ^ 2) (fe_mul F (gej_x a) (fe_sqr F (fe_inv F (gej_z a))))"
    and "rep 1 (fval (gej_y a) / fval (gej_z a) ^ 3)
      (fe_mul F (gej_y a) (fe_mul F (fe_inv F (gej_z a)) (fe_sqr F (fe_inv F (gej_z a)))))"
proof -
  obtain X Y Z where r: "rep 8 X (gej_x a)" "rep 8 Y (gej_y a)" "rep 8 Z (gej_z a)" "Z \<noteq> 0"
    using a by (rule wf_gejE)
  have e: "fval (gej_x a) = X" "fval (gej_y a) = Y" "fval (gej_z a) = Z" using r by (simp_all add: rep_def)
  have zi: "rep 1 (inverse Z) (fe_inv F (gej_z a))" using inv_law [of "gej_z a"] r(3) by (simp add: rep_def)
  show "rep 1 (fval (gej_x a) / fval (gej_z a) ^ 2) (fe_mul F (gej_x a) (fe_sqr F (fe_inv F (gej_z a))))"
    unfolding e by (rule rep_weaken, (rule rep_rules r zi | (simp; fail))+, (simp add: field_simps)?)
  show "rep 1 (fval (gej_y a) / fval (gej_z a) ^ 3)
      (fe_mul F (gej_y a) (fe_mul F (fe_inv F (gej_z a)) (fe_sqr F (fe_inv F (gej_z a)))))"
    unfolding e by (rule rep_weaken, (rule rep_rules r zi | (simp; fail))+, (simp add: field_simps power2_eq_square power3_eq_cube)?)
qed

text \<open>Both conversions give the affine point, and leave the argument a representation of it.\<close>

lemma ge_set_gej_pt:
  assumes a: "gej_wf mag fval a" and r: "ge_set_gej F a = (r, a') \<or> ge_set_gej_var F r0 a = (r, a')"
  shows "ge_wf mag fval r \<and> ge_pt fval r = gej_pt fval a \<and> gej_wf mag fval a' \<and> gej_pt fval a' = gej_pt fval a"
proof (cases "gej_infinity a")
  case True
  then have "ge_infinity r" "gej_infinity a'"
    using r by (auto simp: ge_set_gej_def ge_set_gej_var_def Let_def)
  then show ?thesis using True by (simp add: ge_wf_def ge_pt_def gej_wf_def gej_pt_def)
next
  case False
  note c = set_gej_core [OF a False]
  obtain X Y Z where x: "rep 8 X (gej_x a)" "rep 8 Y (gej_y a)" "rep 8 Z (gej_z a)"
    and p: "gej_pt fval a = jac X Y Z" "on_curve (jac X Y Z)"
    using a False by (rule wf_gejE)
  have e: "fval (gej_x a) = X" "fval (gej_y a) = Y" "fval (gej_z a) = Z" using x by (simp_all add: rep_def)
  define gx where "gx = fe_mul F (gej_x a) (fe_sqr F (fe_inv F (gej_z a)))"
  define gy where "gy = fe_mul F (gej_y a) (fe_mul F (fe_inv F (gej_z a)) (fe_sqr F (fe_inv F (gej_z a))))"
  have g: "rep 1 (X / Z ^ 2) gx" "rep 1 (Y / Z ^ 3) gy" using c unfolding e gx_def gy_def .
  have r': "ge_x r = gx" "ge_y r = gy" "\<not> ge_infinity r"
    using r False by (auto simp: ge_set_gej_def ge_set_gej_var_def fe_inv_var_def Let_def gx_def gy_def)
  have a': "gej_x a' = gx" "gej_y a' = gy" "gej_z a' = fe_set_int F 1" "\<not> gej_infinity a'"
    using r False by (auto simp: ge_set_gej_def ge_set_gej_var_def fe_inv_var_def Let_def gx_def gy_def)
  have o: "rep 1 1 (fe_set_int F 1)" using rep_set_int [of 1] by simp
  have J: "jac (X / Z ^ 2) (Y / Z ^ 3) 1 = jac X Y Z" by (simp add: jac_def)
  have "gej_wf mag fval a' \<and> gej_pt fval a' = jac X Y Z"
    by (rule gej_wfI [OF g [folded a'(1,2)] o [folded a'(3)] _ _ _ _ a'(4) J p(2)]) simp_all
  moreover have "ge_wf mag fval r \<and> ge_pt fval r = jac X Y Z"
    using g r' p(2) mag_mono [of 1 _ 8] by (auto simp: ge_wf_def ge_pt_def rep_def jac_def)
  ultimately show ?thesis unfolding p(1) by blast
qed

section \<open>Rescaling, the endomorphism, quadratic residues, storage\<close>

lemma gej_rescale_pt:
  assumes a: "gej_wf mag fval a" and s: "mag 8 s" "fval s \<noteq> 0"
  shows "gej_wf mag fval (gej_rescale F a s) \<and> gej_pt fval (gej_rescale F a s) = gej_pt fval a"
proof (cases "gej_infinity a")
  case True
  then have "gej_infinity (gej_rescale F a s)" by (simp add: gej_rescale_def Let_def)
  from gej_wf_infinity [OF this] True show ?thesis by (simp add: gej_pt_def)
next
  case False
  obtain X Y Z where x: "rep 8 X (gej_x a)" "rep 8 Y (gej_y a)" "rep 8 Z (gej_z a)" "Z \<noteq> 0"
    and p: "gej_pt fval a = jac X Y Z" "on_curve (jac X Y Z)"
    using a False by (rule wf_gejE)
  show ?thesis
    unfolding p(1)
  proof (rule gej_wfI)
    show "rep 1 (X * fval s ^ 2) (gej_x (gej_rescale F a s))" "rep 1 (Y * fval s ^ 3) (gej_y (gej_rescale F a s))"
      "rep 1 (Z * fval s) (gej_z (gej_rescale F a s))"
      by ((simp add: gej_rescale_def Let_def, rule rep_weaken, (rule rep_rules x rep_self [OF s(1)] | (simp; fail))+, (simp?, algebra)?)[1])+
    show "jac (X * fval s ^ 2) (Y * fval s ^ 3) (Z * fval s) = jac X Y Z" by (rule jac_rescale [OF s(2)])
  qed (use x s False p in \<open>simp_all add: gej_rescale_def Let_def\<close>)
qed

lemma beta_rep: "rep 1 beta_fp (fe_const F 0x7ae96a2b 0x657c0710 0x6e64479e 0xac3434e9 0x9cf04975 0x12f58995 0xc1396c28 0x719501ee)"
proof -
  have e: "fe_const_nat 0x7ae96a2b 0x657c0710 0x6e64479e 0xac3434e9 0x9cf04975 0x12f58995 0xc1396c28 0x719501ee
      = 55594575648329892869085402983802832744385952214688224221778511981742606582254"
    by (simp add: fe_const_nat_def)
  then have "fe_const_nat 0x7ae96a2b 0x657c0710 0x6e64479e 0xac3434e9 0x9cf04975 0x12f58995 0xc1396c28 0x719501ee < nat field_prime"
    by (simp add: field_prime_def)
  from const_law [OF this] nrm_mag show ?thesis unfolding rep_def e beta_fp_def by blast
qed

lemma ge_mul_lambda_pt:
  assumes "ge_wf mag fval a"
  shows "ge_wf mag fval (ge_mul_lambda F a) \<and>
    ge_pt fval (ge_mul_lambda F a) = (case ge_pt fval a of Infty \<Rightarrow> Infty | Pt x y \<Rightarrow> Pt (x * beta_fp) y)"
proof (cases "ge_infinity a")
  case False
  obtain x y where xy: "rep 8 x (ge_x a)" "rep 8 y (ge_y a)" "ge_pt fval a = Pt x y" "on_curve (Pt x y)"
    using assms False by (rule wf_geE)
  have r: "rep 8 (x * beta_fp) (ge_x (ge_mul_lambda F a))"
    by (simp add: ge_mul_lambda_def Let_def, rule rep_weaken, (rule rep_rules xy beta_rep | (simp; fail))+)
  have "on_curve (Pt (x * beta_fp) y)" using xy(4) by (simp add: power_mult_distrib beta_fp_cube)
  moreover have "ge_y (ge_mul_lambda F a) = ge_y a" "\<not> ge_infinity (ge_mul_lambda F a)"
    using False by (simp_all add: ge_mul_lambda_def Let_def)
  ultimately show ?thesis using r xy False by (simp add: ge_wf_def ge_pt_def rep_def)
qed (simp add: ge_mul_lambda_def Let_def ge_wf_def ge_pt_def)

lemma gej_has_quad_y_var_iff:
  assumes a: "gej_wf mag fval a"
  shows "gej_has_quad_y_var F a \<longleftrightarrow> (\<exists>x c. gej_pt fval a = Pt x (c * c))"
proof (cases "gej_infinity a")
  case False
  obtain X Y Z where x: "rep 8 X (gej_x a)" "rep 8 Y (gej_y a)" "rep 8 Z (gej_z a)" "Z \<noteq> 0"
    and p: "gej_pt fval a = jac X Y Z"
    using a False by (rule wf_gejE)
  have yz: "rep 1 (Y * Z) (fe_mul F (gej_y a) (gej_z a))" by (rule rep_weaken, (rule rep_rules x | (simp; fail))+)
  have "mag 8 (fe_mul F (gej_y a) (gej_z a))" using rep_mag [OF yz] by (rule mag_mono) simp_all
  then have "gej_has_quad_y_var F a \<longleftrightarrow> (\<exists>b. b * b = Y * Z)"
    using False rep_fval [OF yz] by (simp add: gej_has_quad_y_var_def Let_def is_quad_var_law)
  also have "\<dots> \<longleftrightarrow> (\<exists>c. Y / Z ^ 3 = c * c)"
  proof
    assume "\<exists>b. b * b = Y * Z"
    then obtain b where "b * b = Y * Z" by blast
    then have "Y / Z ^ 3 = (b / Z ^ 2) * (b / Z ^ 2)" using x(4) by (simp add: field_simps power2_eq_square power3_eq_cube)
    then show "\<exists>c. Y / Z ^ 3 = c * c" by blast
  next
    assume "\<exists>c. Y / Z ^ 3 = c * c"
    then obtain c where "Y / Z ^ 3 = c * c" by blast
    then have "Y = c * c * Z ^ 3" using x(4) by (simp add: field_simps)
    then have "(c * Z ^ 2) * (c * Z ^ 2) = Y * Z" by (simp add: power2_eq_square power3_eq_cube)
    then show "\<exists>b. b * b = Y * Z" by blast
  qed
  finally show ?thesis unfolding p jac_def by auto
qed (simp add: gej_has_quad_y_var_def gej_pt_def)

lemma ge_storage_roundtrip:
  assumes "mag 8 (ge_x a)" "mag 8 (ge_y a)" "\<not> ge_infinity a"
  shows "ge_pt fval (ge_from_storage F (ge_to_storage F a)) = ge_pt fval a"
    and "nrm (ge_x (ge_from_storage F (ge_to_storage F a)))" "nrm (ge_y (ge_from_storage F (ge_to_storage F a)))"
proof -
  have "mag 32 (ge_x a)" "mag 32 (ge_y a)" using assms mag_mono [of 8 _ 32] by simp_all
  note n = this [THEN normalize_law]
  then have e: "ge_from_storage F (ge_to_storage F a) = \<lparr> ge_x = fe_normalize F (ge_x a), ge_y = fe_normalize F (ge_y a), ge_infinity = False \<rparr>"
    by (simp add: ge_from_storage_def ge_to_storage_def Let_def storage_law)
  show "ge_pt fval (ge_from_storage F (ge_to_storage F a)) = ge_pt fval a"
    "nrm (ge_x (ge_from_storage F (ge_to_storage F a)))" "nrm (ge_y (ge_from_storage F (ge_to_storage F a)))"
    using n assms(3) unfolding e by (simp_all add: ge_pt_def)
qed

end

end
