(* ===== verification/Group_Theorems.thy ===== *)
theory Group_Theorems
  imports Group_Convert
begin

text \<open>
  The group module on the 5x52 representation: what its functions compute on well-formed points,
  as addition in the affine group law of \<open>Curve\<close>.
\<close>

section \<open>The generator\<close>

definition gen_x :: nat where
  "gen_x = 55066263022277343669578718895168534326250603453777594175500187360389116729240"

definition gen_y :: nat where
  "gen_y = 32670510020758816978083085130507043184471273380659243275938904335757337482424"

lemma gen_square: "55066263022277343669578718895168534326250603453777594175500187360389116729240 * 55066263022277343669578718895168534326250603453777594175500187360389116729240 = 26187396247976283472853352193639785130011348079443841416178081230925261213881 * 115792089237316195423570985008687907853269984665640564039457584007908834671663 + (60300556597753154781239923047219078515410877540607532238537983597388018023497 :: nat)"
  by (simp only: arith_simps)

lemma gen_cube: "60300556597753154781239923047219078515410877540607532238537983597388018023497 * 55066263022277343669578718895168534326250603453777594175500187360389116729240 + 7 = 28676624904799576878370641386091001092335193693854522746901794248340229297955 * 115792089237316195423570985008687907853269984665640564039457584007908834671663 + (32748224938747404814623910738487752935528512903530129802856995983256684603122 :: nat)"
  by (simp only: arith_simps)

lemma gen_y_square: "32670510020758816978083085130507043184471273380659243275938904335757337482424 * 32670510020758816978083085130507043184471273380659243275938904335757337482424 = 9217920084583157935602994580951900810186344190718383666107426471107247357458 * 115792089237316195423570985008687907853269984665640564039457584007908834671663 + (32748224938747404814623910738487752935528512903530129802856995983256684603122 :: nat)"
  by (simp only: arith_simps)

lemma of_nat_prime_part: "(of_nat (k * 115792089237316195423570985008687907853269984665640564039457584007908834671663 + n) :: fp) = of_nat n"
  by (rule of_nat_fp_mod) (simp only: field_prime_def nat_numeral mod_mult_self3)

definition gen_pt :: point where
  "gen_pt = Pt (of_nat gen_x) (of_nat gen_y)"

lemma gen_on_curve: "on_curve gen_pt"
proof -
  have "(of_nat gen_y :: fp) ^ 2 = of_nat 32748224938747404814623910738487752935528512903530129802856995983256684603122"
    unfolding power2_eq_square of_nat_mult [symmetric] gen_y_def gen_y_square by (rule of_nat_prime_part)
  moreover have "(of_nat gen_x :: fp) * of_nat gen_x = of_nat 60300556597753154781239923047219078515410877540607532238537983597388018023497"
    unfolding of_nat_mult [symmetric] gen_x_def gen_square by (rule of_nat_prime_part)
  then have "(of_nat gen_x :: fp) ^ 3 + 7 = of_nat (60300556597753154781239923047219078515410877540607532238537983597388018023497 * gen_x + 7)"
    by (simp only: power3_eq_cube of_nat_add of_nat_mult of_nat_numeral)
  then have "(of_nat gen_x :: fp) ^ 3 + 7 = of_nat 32748224938747404814623910738487752935528512903530129802856995983256684603122"
    unfolding gen_x_def gen_cube of_nat_prime_part .
  ultimately show ?thesis by (simp only: gen_pt_def on_curve.simps)
qed

context field_impl
begin

lemma ge_const_g_law:
  "ge_wf mag fval (ge_const_g F) \<and> \<not> ge_infinity (ge_const_g F) \<and> ge_pt fval (ge_const_g F) = gen_pt \<and>
   nrm (ge_x (ge_const_g F)) \<and> nrm (ge_y (ge_const_g F))"
proof -
  have x: "fe_const_nat 0x79BE667E 0xF9DCBBAC 0x55A06295 0xCE870B07 0x029BFCDB 0x2DCE28D9 0x59F2815B 0x16F81798 = gen_x"
    by (simp add: fe_const_nat_def gen_x_def)
  have y: "fe_const_nat 0x483ADA77 0x26A3C465 0x5DA4FBFC 0x0E1108A8 0xFD17B448 0xA6855419 0x9C47D08F 0xFB10D4B8 = gen_y"
    by (simp add: fe_const_nat_def gen_y_def)
  have "gen_x < nat field_prime" "gen_y < nat field_prime" by (simp_all add: gen_x_def gen_y_def field_prime_def)
  note c = const_law [OF this(1) [folded x], unfolded x] const_law [OF this(2) [folded y], unfolded y]
  define gx where "gx = fe_const F 0x79BE667E 0xF9DCBBAC 0x55A06295 0xCE870B07 0x029BFCDB 0x2DCE28D9 0x59F2815B 0x16F81798"
  define gy where "gy = fe_const F 0x483ADA77 0x26A3C465 0x5DA4FBFC 0x0E1108A8 0xFD17B448 0xA6855419 0x9C47D08F 0xFB10D4B8"
  have g: "ge_const_g F = \<lparr> ge_x = gx, ge_y = gy, ge_infinity = False \<rparr>"
    unfolding ge_const_g_def gx_def gy_def ..
  have "nrm gx" "fval gx = of_nat gen_x" "nrm gy" "fval gy = of_nat gen_y"
    using c unfolding gx_def gy_def by blast+
  moreover from this nrm_mag have "mag 8 gx" "mag 8 gy" using mag_mono [of 1 _ 8] by auto
  ultimately show ?thesis
    using gen_on_curve unfolding g gen_pt_def by (simp add: ge_wf_def ge_pt_def)
qed

end

section \<open>Properties on the 5x52 representation\<close>

abbreviation ge52_wf :: "fe52 ge \<Rightarrow> bool" where "ge52_wf \<equiv> ge_wf fe52_mag fe52_fval"
abbreviation ge52_pt :: "fe52 ge \<Rightarrow> point" where "ge52_pt \<equiv> ge_pt fe52_fval"
abbreviation gej52_wf :: "fe52 gej \<Rightarrow> bool" where "gej52_wf \<equiv> gej_wf fe52_mag fe52_fval"
abbreviation gej52_pt :: "fe52 gej \<Rightarrow> point" where "gej52_pt \<equiv> gej_pt fe52_fval"

abbreviation g52 :: "fe52 ge" where "g52 \<equiv> ge_const_g fe52_ops"
abbreviation gj52 :: "fe52 gej" where "gj52 \<equiv> gej_set_ge fe52_ops g52"
abbreviation zj52 :: "fe52 gej" where "zj52 \<equiv> gej_clear fe52_ops"

lemmas g52 = f52.ge_const_g_law [THEN conjunct1] f52.ge_const_g_law [THEN conjunct2, THEN conjunct1]
  f52.ge_const_g_law [THEN conjunct2, THEN conjunct2, THEN conjunct1]

lemmas gj52 = f52.gej_set_ge_pt [OF g52(1), THEN conjunct1] f52.gej_set_ge_pt [OF g52(1), THEN conjunct2, unfolded g52(3)]

lemma gj52_mag: "fe52_mag 8 (gej_x gj52)" "fe52_mag 8 (gej_y gj52)" "fe52_mag 8 (gej_z gj52)" "\<not> gej_infinity gj52"
  using g52 gj52 by (auto simp: gej_set_ge_def gej_wf_def simp del: fe52_verify.simps)

text \<open>
  Doubling a well-formed point in Jacobian coordinates gives a well-formed point that is the
  double of the argument in the affine group law.  No point of the curve has y coordinate 0,
  so the case the code does not check cannot arise.
\<close>

theorem gej52_double_correct:
  "gej52_wf a \<Longrightarrow> gej_double_var fe52_ops r a f = (r', rz) \<Longrightarrow>
     gej52_wf r' \<and> gej52_pt r' = pt_add (gej52_pt a) (gej52_pt a)"
  by (rule f52.double_pt)

lemma gej52_double_correct_witness:
  "\<exists>r' rz. gej_double_var fe52_ops zj52 gj52 True = (r', rz) \<and> gej52_wf r' \<and> gej52_pt r' = pt_add gen_pt gen_pt"
proof -
  obtain r' rz where r: "gej_double_var fe52_ops zj52 gj52 True = (r', rz)" by (rule prod.exhaust)
  show ?thesis using gej52_double_correct [OF gj52(1) r] r unfolding gj52(2) by blast
qed

text \<open>
  C12: the variable-time addition of two Jacobian points computes the affine sum on every branch:
  either argument infinity, equal points, opposite points, and the general case.
\<close>

theorem gej52_add_var_correct:
  "gej52_wf a \<Longrightarrow> gej52_wf b \<Longrightarrow> gej_add_var fe52_ops r a b f = (r', rz) \<Longrightarrow>
     gej52_wf r' \<and> gej52_pt r' = pt_add (gej52_pt a) (gej52_pt b)"
  by (rule f52.add_var_pt)

lemma gej52_add_var_correct_witness:
  "\<exists>r' rz. gej_add_var fe52_ops zj52 gj52 (gej_neg fe52_ops gj52) False = (r', rz) \<and> gej52_wf r' \<and>
     gej52_pt r' = Infty"
proof -
  obtain r' rz where r: "gej_add_var fe52_ops zj52 gj52 (gej_neg fe52_ops gj52) False = (r', rz)" by (rule prod.exhaust)
  note n = f52.gej_neg_pt [OF gj52(1)]
  have "pt_add gen_pt (pt_neg gen_pt) = Infty" by (simp add: gen_pt_def)
  then show ?thesis
    using gej52_add_var_correct [OF gj52(1) n [THEN conjunct1] r] r n unfolding gj52(2) by auto
qed

text \<open>
  C11: the constant-time unified addition computes the affine sum for every first argument,
  infinity included, and every finite second argument, also when the two points are equal,
  opposite, or related by the cube root of unity.
\<close>

theorem gej52_add_ge_correct:
  "gej52_wf a \<Longrightarrow> fe52_mag 8 (gej_x a) \<Longrightarrow> fe52_mag 8 (gej_y a) \<Longrightarrow> fe52_mag 8 (gej_z a) \<Longrightarrow>
     ge52_wf b \<Longrightarrow> \<not> ge_infinity b \<Longrightarrow>
     gej52_wf (gej_add_ge fe52_ops a b) \<and>
     gej52_pt (gej_add_ge fe52_ops a b) = pt_add (gej52_pt a) (ge52_pt b)"
  by (rule f52.add_ge_pt)

lemma gej52_add_ge_correct_witness:
  "gej52_wf (gej_add_ge fe52_ops gj52 g52) \<and> gej52_pt (gej_add_ge fe52_ops gj52 g52) = pt_add gen_pt gen_pt"
  using gej52_add_ge_correct [OF gj52(1) gj52_mag(1-3) g52(1,2)] unfolding gj52(2) g52(3) .

text \<open>
  The variable-time and the constant-time addition of an affine point represent the same
  point, although they use different formulas.
\<close>

theorem gej52_add_ge_var_agrees:
  "gej52_wf a \<Longrightarrow> fe52_mag 8 (gej_x a) \<Longrightarrow> fe52_mag 8 (gej_y a) \<Longrightarrow> fe52_mag 8 (gej_z a) \<Longrightarrow>
     ge52_wf b \<Longrightarrow> \<not> ge_infinity b \<Longrightarrow>
     gej52_pt (fst (gej_add_ge_var fe52_ops r a b f)) = gej52_pt (gej_add_ge fe52_ops a b)"
  using f52.add_ge_pt [of a b] f52.add_ge_var_pt [of a b r f]
  by (cases "gej_add_ge_var fe52_ops r a b f") simp

lemma gej52_add_ge_var_agrees_witness:
  "gej52_pt (fst (gej_add_ge_var fe52_ops zj52 gj52 g52 True)) = gej52_pt (gej_add_ge fe52_ops gj52 g52)"
  by (rule gej52_add_ge_var_agrees [OF gj52(1) gj52_mag(1-3) g52(1,2)])

text \<open>
  Adding a point whose x and y are given with the inverse of its z coordinate computes the
  affine sum.
\<close>

theorem gej52_add_zinv_correct:
  "gej52_wf a \<Longrightarrow> fe52_mag 8 (ge_x b) \<Longrightarrow> fe52_mag 8 (ge_y b) \<Longrightarrow> fe52_mag 8 zi \<Longrightarrow> fe52_fval zi \<noteq> 0 \<Longrightarrow>
     P = (if ge_infinity b then Infty else jac (fe52_fval (ge_x b)) (fe52_fval (ge_y b)) (inverse (fe52_fval zi))) \<Longrightarrow>
     on_curve P \<Longrightarrow>
     gej52_wf (gej_add_zinv_var fe52_ops r a b zi) \<and>
     gej52_pt (gej_add_zinv_var fe52_ops r a b zi) = pt_add (gej52_pt a) P"
  using f52.add_zinv_var_pt [of a b zi P r] by (simp del: fe52_verify.simps)

lemma gej52_add_zinv_correct_witness:
  "gej52_pt (gej_add_zinv_var fe52_ops zj52 gj52 g52 (Fe52 1 0 0 0 0)) = pt_add gen_pt gen_pt"
proof -
  have "fe52_fval (Fe52 1 0 0 0 0) = 1" by (simp add: fe52_fval_def)
  moreover have "fe52_mag 8 (Fe52 1 0 0 0 0)" by simp
  moreover have "fe52_mag 8 (ge_x g52)" "fe52_mag 8 (ge_y g52)" "Pt (fe52_fval (ge_x g52)) (fe52_fval (ge_y g52)) = gen_pt"
    using g52 by (auto simp: ge_wf_def ge_pt_def simp del: fe52_verify.simps)
  ultimately show ?thesis
    using gej52_add_zinv_correct [OF gj52(1), of g52 "Fe52 1 0 0 0 0" gen_pt zj52] g52(2) gen_on_curve
    unfolding gj52(2) by (simp add: jac_def del: fe52_verify.simps)
qed

text \<open>
  Converting to affine coordinates, in constant or variable time, keeps the point, and the
  argument that is rescaled in place still represents it.
\<close>

theorem ge52_set_gej_correct:
  "gej52_wf a \<Longrightarrow> ge_set_gej fe52_ops a = (r, a') \<Longrightarrow> ge_set_gej_var fe52_ops r0 a = (s, a'') \<Longrightarrow>
     ge52_wf r \<and> ge52_pt r = gej52_pt a \<and> ge52_pt s = gej52_pt a \<and> gej52_pt a' = gej52_pt a \<and> gej52_pt a'' = gej52_pt a"
  using f52.ge_set_gej_pt [of a r a' r0] f52.ge_set_gej_pt [of a s a'' r0] by blast

lemma ge52_set_gej_correct_witness:
  "ge52_pt (fst (ge_set_gej fe52_ops gj52)) = gen_pt \<and> ge52_pt (fst (ge_set_gej_var fe52_ops g52 gj52)) = gen_pt"
proof -
  obtain r a' where 1: "ge_set_gej fe52_ops gj52 = (r, a')" by (rule prod.exhaust)
  obtain s a'' where 2: "ge_set_gej_var fe52_ops g52 gj52 = (s, a'')" by (rule prod.exhaust)
  show ?thesis using ge52_set_gej_correct [OF gj52(1) 1 2] unfolding 1 2 gj52(2) by simp
qed

text \<open>
  Decompression succeeds exactly when a point of the curve has the given x coordinate, and
  then returns the one whose y coordinate has the requested parity.
\<close>

theorem ge52_set_xo_var_correct:
  "fe52_mag 8 x \<Longrightarrow> ge_set_xo_var fe52_ops x is_odd = (ok, r) \<Longrightarrow>
     (ok \<longleftrightarrow> (\<exists>y. on_curve (Pt (fe52_fval x) y))) \<and>
     (ok \<longrightarrow> ge52_wf r \<and> \<not> ge_infinity r \<and> ge_x r = x \<and> (odd (rep_fp (fe52_fval (ge_y r))) \<longleftrightarrow> is_odd))"
  using f52.ge_set_xo_var_law [of x is_odd ok r] by blast

lemma ge52_set_xo_var_correct_witness:
  "\<exists>r. ge_set_xo_var fe52_ops (ge_x g52) True = (True, r) \<and> ge52_wf r"
proof -
  obtain ok r where r: "ge_set_xo_var fe52_ops (ge_x g52) True = (ok, r)" by (rule prod.exhaust)
  have "fe52_mag 8 (ge_x g52)" "on_curve (Pt (fe52_fval (ge_x g52)) (fe52_fval (ge_y g52)))"
    using g52 by (auto simp: ge_wf_def simp del: fe52_verify.simps)
  then have "ok \<and> ge52_wf r" using ge52_set_xo_var_correct [OF _ r] by blast
  with r show ?thesis by auto
qed

end
