(* ===== verification/Scalar_Interface.thy ===== *)
theory Scalar_Interface
  imports Prelude
begin

text \<open>
  The scalar module as its clients see it: scalar.h.  A scalar is an integer modulo the order of
  the group.  The prototypes are the record \<open>scalar_ops\<close>, the contract of the comments is the
  locale \<open>scalar_impl\<close>; the build selects one of two representations (scalar_4x64, scalar_8x32)
  and each interprets the locale in its own theory.
\<close>

section \<open>The operations of scalar.h\<close>

text \<open>
  Out-parameters are results: \<open>sc_set_b32\<close> returns the scalar and the overflow flag,
  \<open>sc_shr_int\<close> and \<open>sc_cond_negate\<close> the updated scalar and the returned \<open>int\<close>.
\<close>

record 's scalar_ops =
  sc_const :: "u32 \<Rightarrow> u32 \<Rightarrow> u32 \<Rightarrow> u32 \<Rightarrow> u32 \<Rightarrow> u32 \<Rightarrow> u32 \<Rightarrow> u32 \<Rightarrow> 's"
  sc_clear :: "'s"
  sc_get_bits :: "'s \<Rightarrow> nat \<Rightarrow> nat \<Rightarrow> u32"
  sc_get_bits_var :: "'s \<Rightarrow> nat \<Rightarrow> nat \<Rightarrow> u32"
  sc_set_b32 :: "u8 list \<Rightarrow> 's \<times> bool"
  sc_set_int :: "u32 \<Rightarrow> 's"
  sc_get_b32 :: "'s \<Rightarrow> u8 list"
  sc_add :: "'s \<Rightarrow> 's \<Rightarrow> 's \<times> bool"
  sc_cadd_bit :: "'s \<Rightarrow> nat \<Rightarrow> bool \<Rightarrow> 's"
  sc_mul :: "'s \<Rightarrow> 's \<Rightarrow> 's"
  sc_shr_int :: "'s \<Rightarrow> nat \<Rightarrow> 's \<times> u32"
  sc_sqr :: "'s \<Rightarrow> 's"
  sc_negate :: "'s \<Rightarrow> 's"
  sc_is_zero :: "'s \<Rightarrow> bool"
  sc_is_one :: "'s \<Rightarrow> bool"
  sc_is_even :: "'s \<Rightarrow> bool"
  sc_is_high :: "'s \<Rightarrow> bool"
  sc_cond_negate :: "'s \<Rightarrow> bool \<Rightarrow> 's \<times> int"
  sc_eq :: "'s \<Rightarrow> 's \<Rightarrow> bool"
  sc_split_128 :: "'s \<Rightarrow> 's \<times> 's"
  sc_mul_shift_var :: "'s \<Rightarrow> 's \<Rightarrow> nat \<Rightarrow> 's"

section \<open>The order of the group\<close>

definition group_order :: nat where
  "group_order = 0xFFFFFFFFFFFFFFFFFFFFFFFFFFFFFFFEBAAEDCE6AF48A03BBFD25E8CD0364141"

lemma group_order_pos [simp]: "0 < group_order" "1 < group_order" "group_order \<noteq> 0" "Suc 0 < group_order"
  by (simp_all add: group_order_def)

text \<open>The integer eight 32-bit words stand for, most significant first (\<open>SECP256K1_SCALAR_CONST\<close>).\<close>

definition words_nat :: "u32 \<Rightarrow> u32 \<Rightarrow> u32 \<Rightarrow> u32 \<Rightarrow> u32 \<Rightarrow> u32 \<Rightarrow> u32 \<Rightarrow> u32 \<Rightarrow> nat" where
  "words_nat d7 d6 d5 d4 d3 d2 d1 d0 =
     unat d0 + 2 ^ 32 * unat d1 + 2 ^ 64 * unat d2 + 2 ^ 96 * unat d3 + 2 ^ 128 * unat d4
     + 2 ^ 160 * unat d5 + 2 ^ 192 * unat d6 + 2 ^ 224 * unat d7"

section \<open>The contract\<close>

text \<open>
  \<open>sval\<close> is the integer below 2^256 a representation stands for.  A scalar is valid when it is
  below the order (\<open>swf\<close>); every operation that promises a result modulo the order returns a
  valid one.
\<close>

locale scalar_impl =
  fixes S :: "'s scalar_ops"
    and sval :: "'s \<Rightarrow> nat"
  assumes sval_less: "sval a < 2 ^ 256"
    and sval_inj: "sval a = sval b \<Longrightarrow> a = b"
    and sconst_law: "sval (sc_const S d7 d6 d5 d4 d3 d2 d1 d0) = words_nat d7 d6 d5 d4 d3 d2 d1 d0"
    and sclear_law: "sval (sc_clear S) = 0"
    and get_bits_law: "0 < c \<Longrightarrow> c < 32 \<Longrightarrow> i + c \<le> 256 \<Longrightarrow> (i + c - 1) div 32 = i div 32 \<Longrightarrow>
          unat (sc_get_bits S a i c) = sval a div 2 ^ i mod 2 ^ c"
    and get_bits_var_law: "0 < c \<Longrightarrow> c < 32 \<Longrightarrow> i + c \<le> 256 \<Longrightarrow>
          unat (sc_get_bits_var S a i c) = sval a div 2 ^ i mod 2 ^ c"
    and sset_b32_law: "length bs = 32 \<Longrightarrow> sc_set_b32 S bs = (r, ov) \<Longrightarrow>
          sval r = be_nat bs mod group_order \<and> ov = (group_order \<le> be_nat bs)"
    and sset_int_law: "sval (sc_set_int S w) = unat w"
    and sget_b32_law: "length (sc_get_b32 S a) = 32 \<and> be_nat (sc_get_b32 S a) = sval a"
    and sadd_law: "sval a < group_order \<Longrightarrow> sval b < group_order \<Longrightarrow> sc_add S a b = (r, ov) \<Longrightarrow>
          sval r = (sval a + sval b) mod group_order \<and> ov = (group_order \<le> sval a + sval b)"
    and cadd_bit_law: "i < 256 \<Longrightarrow> sval a + (if f then 2 ^ i else 0) < 2 ^ 256 \<Longrightarrow>
          sval (sc_cadd_bit S a i f) = sval a + (if f then 2 ^ i else 0)"
    and smul_law: "sval (sc_mul S a b) = sval a * sval b mod group_order"
    and shr_int_law: "0 < k \<Longrightarrow> k < 16 \<Longrightarrow> sc_shr_int S a k = (r, l) \<Longrightarrow>
          sval r = sval a div 2 ^ k \<and> unat l = sval a mod 2 ^ k"
    and ssqr_law: "sval (sc_sqr S a) = sval a * sval a mod group_order"
    and snegate_law: "sval a < group_order \<Longrightarrow> sval (sc_negate S a) = (group_order - sval a) mod group_order"
    and sis_zero_law: "sc_is_zero S a \<longleftrightarrow> sval a = 0"
    and sis_one_law: "sc_is_one S a \<longleftrightarrow> sval a = 1"
    and sis_even_law: "sc_is_even S a \<longleftrightarrow> even (sval a)"
    and sis_high_law: "sc_is_high S a \<longleftrightarrow> group_order div 2 < sval a"
    and cond_negate_law: "sval a < group_order \<Longrightarrow> sc_cond_negate S a f =
          (if f then (sc_negate S a, - 1) else (a, 1))"
    and seq_law: "sc_eq S a b \<longleftrightarrow> sval a = sval b"
    and split_128_law: "sc_split_128 S a = (r1, r2) \<Longrightarrow>
          sval r1 = sval a mod 2 ^ 128 \<and> sval r2 = sval a div 2 ^ 128"
    and mul_shift_law: "256 \<le> k \<Longrightarrow> k \<le> 512 \<Longrightarrow>
          sval (sc_mul_shift_var S a b k) = (sval a * sval b + 2 ^ (k - 1)) div 2 ^ k"

context scalar_impl
begin

definition swf :: "'s \<Rightarrow> bool" where
  "swf a \<longleftrightarrow> sval a < group_order"

lemma smul_wf: "swf (sc_mul S a b)" and ssqr_wf: "swf (sc_sqr S a)"
  by (simp_all add: swf_def smul_law ssqr_law)

end

end
