(* ===== verification/Scalar_4x64.thy ===== *)
theory Scalar_4x64
  imports Scalar_Interface
begin

text \<open>
  Scalars as four 64-bit limbs (scalar_4x64.h, scalar_4x64_impl.h, the C paths with 128-bit
  products).  Definitions first, in the order of the file; then the value of each operation and
  the interpretation of the contract of scalar.h.
\<close>

section \<open>Definitions\<close>

datatype sc64 = Sc64 (sd0: u64) (sd1: u64) (sd2: u64) (sd3: u64)

abbreviation (input) sc64_N0 :: u64 where "sc64_N0 \<equiv> 0xBFD25E8CD0364141"
abbreviation (input) sc64_N1 :: u64 where "sc64_N1 \<equiv> 0xBAAEDCE6AF48A03B"
abbreviation (input) sc64_N2 :: u64 where "sc64_N2 \<equiv> 0xFFFFFFFFFFFFFFFE"
abbreviation (input) sc64_N3 :: u64 where "sc64_N3 \<equiv> 0xFFFFFFFFFFFFFFFF"

definition sc64_NC0 :: u64 where "sc64_NC0 = NOT sc64_N0 + 1"
definition sc64_NC1 :: u64 where "sc64_NC1 = NOT sc64_N1"
definition sc64_NC2 :: u32 where "sc64_NC2 = 1"

abbreviation (input) sc64_NH0 :: u64 where "sc64_NH0 \<equiv> 0xDFE92F46681B20A0"
abbreviation (input) sc64_NH1 :: u64 where "sc64_NH1 \<equiv> 0x5D576E7357A4501D"
abbreviation (input) sc64_NH2 :: u64 where "sc64_NH2 \<equiv> 0xFFFFFFFFFFFFFFFF"
abbreviation (input) sc64_NH3 :: u64 where "sc64_NH3 \<equiv> 0x7FFFFFFFFFFFFFFF"

definition sc64_const :: "u32 \<Rightarrow> u32 \<Rightarrow> u32 \<Rightarrow> u32 \<Rightarrow> u32 \<Rightarrow> u32 \<Rightarrow> u32 \<Rightarrow> u32 \<Rightarrow> sc64" where
  "sc64_const d7 d6 d5 d4 d3 d2 d1 d0 =
     Sc64 (push_bit 32 (ucast d1) OR ucast d0) (push_bit 32 (ucast d3) OR ucast d2)
          (push_bit 32 (ucast d5) OR ucast d4) (push_bit 32 (ucast d7) OR ucast d6)"

definition sc64_clear :: sc64 where
  "sc64_clear = Sc64 0 0 0 0"

definition sc64_set_int :: "u32 \<Rightarrow> sc64" where
  "sc64_set_int v = Sc64 (ucast v) 0 0 0"

text \<open>\<open>a->d[i]\<close>\<close>

definition sc64_limb :: "sc64 \<Rightarrow> nat \<Rightarrow> u64" where
  "sc64_limb a i = [sd0 a, sd1 a, sd2 a, sd3 a] ! i"

definition sc64_get_bits :: "sc64 \<Rightarrow> nat \<Rightarrow> nat \<Rightarrow> u32" where
  "sc64_get_bits a offset count =
     ucast (drop_bit (offset mod 64) (sc64_limb a (offset div 64)) AND (push_bit count 1 - 1))"

definition sc64_get_bits_var :: "sc64 \<Rightarrow> nat \<Rightarrow> nat \<Rightarrow> u32" where
  "sc64_get_bits_var a offset count =
     (if (offset + count - 1) div 64 = offset div 64 then sc64_get_bits a offset count
      else ucast ((drop_bit (offset mod 64) (sc64_limb a (offset div 64))
                   OR push_bit (64 - offset mod 64) (sc64_limb a (offset div 64 + 1)))
                  AND (push_bit count 1 - 1)))"

text \<open>The truth values \<open>yes\<close> and \<open>no\<close> of the code are 0 or 1 and combined bitwise.\<close>

definition sc64_check_overflow :: "sc64 \<Rightarrow> bool" where
  "sc64_check_overflow a =
     (let yes = False; no = False;
          no = (no \<or> sd3 a < sc64_N3);
          no = (no \<or> sd2 a < sc64_N2);
          yes = (yes \<or> sd2 a > sc64_N2 \<and> \<not> no);
          no = (no \<or> sd1 a < sc64_N1);
          yes = (yes \<or> sd1 a > sc64_N1 \<and> \<not> no);
          yes = (yes \<or> sd0 a \<ge> sc64_N0 \<and> \<not> no)
      in yes)"

definition sc64_reduce :: "sc64 \<Rightarrow> u32 \<Rightarrow> sc64 \<times> u32" where
  "sc64_reduce r overflow =
     (let t = ucast (sd0 r) + ucast (ucast overflow * sc64_NC0 :: u64) :: u128;
          r0 = ucast (t AND 0xFFFFFFFFFFFFFFFF); t = drop_bit 64 t;
          t = t + (ucast (sd1 r) + ucast (ucast overflow * sc64_NC1 :: u64));
          r1 = ucast (t AND 0xFFFFFFFFFFFFFFFF); t = drop_bit 64 t;
          t = t + (ucast (sd2 r) + ucast (overflow * sc64_NC2));
          r2 = ucast (t AND 0xFFFFFFFFFFFFFFFF); t = drop_bit 64 t;
          t = t + ucast (sd3 r);
          r3 = ucast (t AND 0xFFFFFFFFFFFFFFFF)
      in (Sc64 r0 r1 r2 r3, overflow))"

definition sc64_add :: "sc64 \<Rightarrow> sc64 \<Rightarrow> sc64 \<times> bool" where
  "sc64_add a b =
     (let t = ucast (sd0 a) + ucast (sd0 b) :: u128;
          r0 = ucast (t AND 0xFFFFFFFFFFFFFFFF); t = drop_bit 64 t;
          t = t + (ucast (sd1 a) + ucast (sd1 b));
          r1 = ucast (t AND 0xFFFFFFFFFFFFFFFF); t = drop_bit 64 t;
          t = t + (ucast (sd2 a) + ucast (sd2 b));
          r2 = ucast (t AND 0xFFFFFFFFFFFFFFFF); t = drop_bit 64 t;
          t = t + (ucast (sd3 a) + ucast (sd3 b));
          r3 = ucast (t AND 0xFFFFFFFFFFFFFFFF); t = drop_bit 64 t;
          r = Sc64 r0 r1 r2 r3;
          overflow = ucast (t + of_bool (sc64_check_overflow r)) :: u32
      in (fst (sc64_reduce r overflow), overflow \<noteq> 0))"

definition sc64_cadd_bit :: "sc64 \<Rightarrow> nat \<Rightarrow> bool \<Rightarrow> sc64" where
  "sc64_cadd_bit r pos flag =
     (let pos = of_nat pos + ((of_bool flag - 1) AND 0x100) :: u32;
          s = unat (pos AND 0x3F);
          t = ucast (sd0 r) + ucast (push_bit s (of_bool (drop_bit 6 pos = 0)) :: u64) :: u128;
          r0 = ucast (t AND 0xFFFFFFFFFFFFFFFF); t = drop_bit 64 t;
          t = t + (ucast (sd1 r) + ucast (push_bit s (of_bool (drop_bit 6 pos = 1)) :: u64));
          r1 = ucast (t AND 0xFFFFFFFFFFFFFFFF); t = drop_bit 64 t;
          t = t + (ucast (sd2 r) + ucast (push_bit s (of_bool (drop_bit 6 pos = 2)) :: u64));
          r2 = ucast (t AND 0xFFFFFFFFFFFFFFFF); t = drop_bit 64 t;
          t = t + (ucast (sd3 r) + ucast (push_bit s (of_bool (drop_bit 6 pos = 3)) :: u64));
          r3 = ucast (t AND 0xFFFFFFFFFFFFFFFF)
      in Sc64 r0 r1 r2 r3)"

text \<open>The eight bytes \<open>b[i] .. b[i+7]\<close> as a limb.\<close>

definition sc64_load_limb :: "u8 list \<Rightarrow> nat \<Rightarrow> u64" where
  "sc64_load_limb b i =
     ucast (b ! (i + 7)) OR push_bit 8 (ucast (b ! (i + 6))) OR push_bit 16 (ucast (b ! (i + 5)))
     OR push_bit 24 (ucast (b ! (i + 4))) OR push_bit 32 (ucast (b ! (i + 3)))
     OR push_bit 40 (ucast (b ! (i + 2))) OR push_bit 48 (ucast (b ! (i + 1))) OR push_bit 56 (ucast (b ! i))"

definition sc64_set_b32 :: "u8 list \<Rightarrow> sc64 \<times> bool" where
  "sc64_set_b32 b32 =
     (let r = Sc64 (sc64_load_limb b32 24) (sc64_load_limb b32 16) (sc64_load_limb b32 8) (sc64_load_limb b32 0);
          (r, over) = sc64_reduce r (of_bool (sc64_check_overflow r))
      in (r, over \<noteq> 0))"

definition sc64_get_b32 :: "sc64 \<Rightarrow> u8 list" where
  "sc64_get_b32 a =
     concat (map (\<lambda>d. [ucast (drop_bit 56 d), ucast (drop_bit 48 d), ucast (drop_bit 40 d), ucast (drop_bit 32 d),
                       ucast (drop_bit 24 d), ucast (drop_bit 16 d), ucast (drop_bit 8 d), ucast d])
             [sd3 a, sd2 a, sd1 a, sd0 a])"

definition sc64_is_zero :: "sc64 \<Rightarrow> bool" where
  "sc64_is_zero a \<longleftrightarrow> sd0 a OR sd1 a OR sd2 a OR sd3 a = 0"

definition sc64_negate :: "sc64 \<Rightarrow> sc64" where
  "sc64_negate a =
     (let nonzero = ucast (0xFFFFFFFFFFFFFFFF * of_bool (\<not> sc64_is_zero a) :: u64) :: u128;
          t = ucast (NOT (sd0 a)) + ucast sc64_N0 + 1 :: u128;
          r0 = ucast (t AND nonzero); t = drop_bit 64 t;
          t = t + (ucast (NOT (sd1 a)) + ucast sc64_N1);
          r1 = ucast (t AND nonzero); t = drop_bit 64 t;
          t = t + (ucast (NOT (sd2 a)) + ucast sc64_N2);
          r2 = ucast (t AND nonzero); t = drop_bit 64 t;
          t = t + (ucast (NOT (sd3 a)) + ucast sc64_N3);
          r3 = ucast (t AND nonzero)
      in Sc64 r0 r1 r2 r3)"

definition sc64_is_one :: "sc64 \<Rightarrow> bool" where
  "sc64_is_one a \<longleftrightarrow> (sd0 a XOR 1) OR sd1 a OR sd2 a OR sd3 a = 0"

definition sc64_is_high :: "sc64 \<Rightarrow> bool" where
  "sc64_is_high a =
     (let yes = False; no = False;
          no = (no \<or> sd3 a < sc64_NH3);
          yes = (yes \<or> sd3 a > sc64_NH3 \<and> \<not> no);
          no = (no \<or> sd2 a < sc64_NH2 \<and> \<not> yes);
          no = (no \<or> sd1 a < sc64_NH1 \<and> \<not> yes);
          yes = (yes \<or> sd1 a > sc64_NH1 \<and> \<not> no);
          yes = (yes \<or> sd0 a > sc64_NH0 \<and> \<not> no)
      in yes)"

definition sc64_cond_negate :: "sc64 \<Rightarrow> bool \<Rightarrow> sc64 \<times> int" where
  "sc64_cond_negate r flag =
     (let mask = of_bool (\<not> flag) - 1 :: u64;
          nonzero = ucast (of_bool (sc64_is_zero r) - 1 :: u64) :: u128;
          t = ucast (sd0 r XOR mask) + ucast ((sc64_N0 + 1) AND mask) :: u128;
          r0 = ucast (t AND nonzero); t = drop_bit 64 t;
          t = t + (ucast (sd1 r XOR mask) + ucast (sc64_N1 AND mask));
          r1 = ucast (t AND nonzero); t = drop_bit 64 t;
          t = t + (ucast (sd2 r XOR mask) + ucast (sc64_N2 AND mask));
          r2 = ucast (t AND nonzero); t = drop_bit 64 t;
          t = t + (ucast (sd3 r XOR mask) + ucast (sc64_N3 AND mask));
          r3 = ucast (t AND nonzero)
      in (Sc64 r0 r1 r2 r3, 2 * of_bool (mask = 0) - 1))"

subsection \<open>The accumulator macros\<close>

text \<open>
  A 160 or 192 bit accumulator (c0, c1, c2): \<open>c2\<close> is a \<open>uint32_t\<close> in the products and a
  \<open>uint64_t\<close> in the reduction, so its width is a type variable.
\<close>

type_synonym 'a acc = "u64 \<times> u64 \<times> 'a word"

fun sc_muladd :: "u64 \<Rightarrow> u64 \<Rightarrow> 'a::len acc \<Rightarrow> 'a acc" where
  "sc_muladd a b (c0, c1, c2) =
     (let t = ucast a * ucast b :: u128;
          th = ucast (drop_bit 64 t); tl = ucast t;
          c0 = c0 + tl;
          th = th + (if c0 < tl then 1 else 0);
          c1 = c1 + th;
          c2 = c2 + (if c1 < th then 1 else 0)
      in (c0, c1, c2))"

fun sc_muladd_fast :: "u64 \<Rightarrow> u64 \<Rightarrow> 'a::len acc \<Rightarrow> 'a acc" where
  "sc_muladd_fast a b (c0, c1, c2) =
     (let t = ucast a * ucast b :: u128;
          th = ucast (drop_bit 64 t); tl = ucast t;
          c0 = c0 + tl;
          th = th + (if c0 < tl then 1 else 0);
          c1 = c1 + th
      in (c0, c1, c2))"

fun sc_muladd2 :: "u64 \<Rightarrow> u64 \<Rightarrow> 'a::len acc \<Rightarrow> 'a acc" where
  "sc_muladd2 a b (c0, c1, c2) =
     (let t = ucast a * ucast b :: u128;
          th = ucast (drop_bit 64 t); tl = ucast t;
          th2 = th + th;
          c2 = c2 + (if th2 < th then 1 else 0);
          tl2 = tl + tl;
          th2 = th2 + (if tl2 < tl then 1 else 0);
          c0 = c0 + tl2;
          th2 = th2 + (if c0 < tl2 then 1 else 0);
          c2 = c2 + of_bool (c0 < tl2 \<and> th2 = 0);
          c1 = c1 + th2;
          c2 = c2 + (if c1 < th2 then 1 else 0)
      in (c0, c1, c2))"

fun sc_sumadd :: "u64 \<Rightarrow> 'a::len acc \<Rightarrow> 'a acc" where
  "sc_sumadd a (c0, c1, c2) =
     (let c0 = c0 + a;
          over = (if c0 < a then 1 else 0) :: u32;
          c1 = c1 + ucast over;
          c2 = c2 + (if c1 < ucast over then 1 else 0)
      in (c0, c1, c2))"

fun sc_sumadd_fast :: "u64 \<Rightarrow> 'a::len acc \<Rightarrow> 'a acc" where
  "sc_sumadd_fast a (c0, c1, c2) =
     (let c0 = c0 + a;
          c1 = c1 + (if c0 < a then 1 else 0)
      in (c0, c1, c2))"

fun sc_extract :: "'a::len acc \<Rightarrow> u64 \<times> 'a acc" where
  "sc_extract (c0, c1, c2) = (c0, (c1, ucast c2, 0))"

fun sc_extract_fast :: "'a::len acc \<Rightarrow> u64 \<times> 'a acc" where
  "sc_extract_fast (c0, c1, c2) = (c0, (c1, 0, c2))"

subsection \<open>Reduction of a 512-bit product\<close>

text \<open>512 bits into 385: m[0..6] = l[0..3] + l[4..7] * SECP256K1_N_C.\<close>

definition sc64_reduce_385 :: "u64 list \<Rightarrow> u64 \<times> u64 \<times> u64 \<times> u64 \<times> u64 \<times> u64 \<times> u32" where
  "sc64_reduce_385 l =
     (let n0 = l ! 4; n1 = l ! 5; n2 = l ! 6; n3 = l ! 7;
          c = (l ! 0, 0, 0 :: u64);
          c = sc_muladd_fast n0 sc64_NC0 c;
          (m0, c) = sc_extract_fast c;
          c = sc_sumadd_fast (l ! 1) c;
          c = sc_muladd n1 sc64_NC0 c;
          c = sc_muladd n0 sc64_NC1 c;
          (m1, c) = sc_extract c;
          c = sc_sumadd (l ! 2) c;
          c = sc_muladd n2 sc64_NC0 c;
          c = sc_muladd n1 sc64_NC1 c;
          c = sc_sumadd n0 c;
          (m2, c) = sc_extract c;
          c = sc_sumadd (l ! 3) c;
          c = sc_muladd n3 sc64_NC0 c;
          c = sc_muladd n2 sc64_NC1 c;
          c = sc_sumadd n1 c;
          (m3, c) = sc_extract c;
          c = sc_muladd n3 sc64_NC1 c;
          c = sc_sumadd n2 c;
          (m4, c) = sc_extract c;
          c = sc_sumadd_fast n3 c;
          (m5, c) = sc_extract_fast c
      in (m0, m1, m2, m3, m4, m5, ucast (fst c)))"

text \<open>385 bits into 258: p[0..4] = m[0..3] + m[4..6] * SECP256K1_N_C.\<close>

fun sc64_reduce_258 :: "u64 \<times> u64 \<times> u64 \<times> u64 \<times> u64 \<times> u64 \<times> u32 \<Rightarrow> u64 \<times> u64 \<times> u64 \<times> u64 \<times> u32" where
  "sc64_reduce_258 (m0, m1, m2, m3, m4, m5, m6) =
     (let c = (m0, 0, 0 :: u64);
          c = sc_muladd_fast m4 sc64_NC0 c;
          (p0, c) = sc_extract_fast c;
          c = sc_sumadd_fast m1 c;
          c = sc_muladd m5 sc64_NC0 c;
          c = sc_muladd m4 sc64_NC1 c;
          (p1, c) = sc_extract c;
          c = sc_sumadd m2 c;
          c = sc_muladd (ucast m6) sc64_NC0 c;
          c = sc_muladd m5 sc64_NC1 c;
          c = sc_sumadd m4 c;
          (p2, c) = sc_extract c;
          c = sc_sumadd_fast m3 c;
          c = sc_muladd_fast (ucast m6) sc64_NC1 c;
          c = sc_sumadd_fast m5 c;
          (p3, c) = sc_extract_fast c
      in (p0, p1, p2, p3, ucast (fst c + ucast m6)))"

text \<open>258 bits into 256 and a carry: r[0..3] = p[0..3] + p[4] * SECP256K1_N_C.\<close>

fun sc64_reduce_256 :: "u64 \<times> u64 \<times> u64 \<times> u64 \<times> u32 \<Rightarrow> sc64 \<times> u128" where
  "sc64_reduce_256 (p0, p1, p2, p3, p4) =
     (let c = ucast p0 + ucast sc64_NC0 * ucast p4 :: u128;
          r0 = ucast (c AND 0xFFFFFFFFFFFFFFFF); c = drop_bit 64 c;
          c = c + (ucast p1 + ucast sc64_NC1 * ucast p4);
          r1 = ucast (c AND 0xFFFFFFFFFFFFFFFF); c = drop_bit 64 c;
          c = c + (ucast p2 + ucast p4);
          r2 = ucast (c AND 0xFFFFFFFFFFFFFFFF); c = drop_bit 64 c;
          c = c + ucast p3;
          r3 = ucast (c AND 0xFFFFFFFFFFFFFFFF); c = drop_bit 64 c
      in (Sc64 r0 r1 r2 r3, c))"

definition sc64_reduce_512 :: "u64 list \<Rightarrow> sc64" where
  "sc64_reduce_512 l =
     (let (r, c) = sc64_reduce_256 (sc64_reduce_258 (sc64_reduce_385 l))
      in fst (sc64_reduce r (ucast (c + of_bool (sc64_check_overflow r)))))"

subsection \<open>Products\<close>

fun sc64_mul_512 :: "sc64 \<Rightarrow> sc64 \<Rightarrow> u64 list" where
  "sc64_mul_512 (Sc64 a0 a1 a2 a3) (Sc64 b0 b1 b2 b3) =
     (let c = (0, 0, 0 :: u32);
          c = sc_muladd_fast a0 b0 c;
          (l0, c) = sc_extract_fast c;
          c = sc_muladd a0 b1 c; c = sc_muladd a1 b0 c;
          (l1, c) = sc_extract c;
          c = sc_muladd a0 b2 c; c = sc_muladd a1 b1 c; c = sc_muladd a2 b0 c;
          (l2, c) = sc_extract c;
          c = sc_muladd a0 b3 c; c = sc_muladd a1 b2 c; c = sc_muladd a2 b1 c; c = sc_muladd a3 b0 c;
          (l3, c) = sc_extract c;
          c = sc_muladd a1 b3 c; c = sc_muladd a2 b2 c; c = sc_muladd a3 b1 c;
          (l4, c) = sc_extract c;
          c = sc_muladd a2 b3 c; c = sc_muladd a3 b2 c;
          (l5, c) = sc_extract c;
          c = sc_muladd_fast a3 b3 c;
          (l6, c) = sc_extract_fast c
      in [l0, l1, l2, l3, l4, l5, l6, fst c])"

primrec sc64_sqr_512 :: "sc64 \<Rightarrow> u64 list" where
  "sc64_sqr_512 (Sc64 a0 a1 a2 a3) =
     (let c = (0, 0, 0 :: u32);
          c = sc_muladd_fast a0 a0 c;
          (l0, c) = sc_extract_fast c;
          c = sc_muladd2 a0 a1 c;
          (l1, c) = sc_extract c;
          c = sc_muladd2 a0 a2 c; c = sc_muladd a1 a1 c;
          (l2, c) = sc_extract c;
          c = sc_muladd2 a0 a3 c; c = sc_muladd2 a1 a2 c;
          (l3, c) = sc_extract c;
          c = sc_muladd2 a1 a3 c; c = sc_muladd a2 a2 c;
          (l4, c) = sc_extract c;
          c = sc_muladd2 a2 a3 c;
          (l5, c) = sc_extract c;
          c = sc_muladd_fast a3 a3 c;
          (l6, c) = sc_extract_fast c
      in [l0, l1, l2, l3, l4, l5, l6, fst c])"

definition sc64_mul :: "sc64 \<Rightarrow> sc64 \<Rightarrow> sc64" where
  "sc64_mul a b = sc64_reduce_512 (sc64_mul_512 a b)"

definition sc64_sqr :: "sc64 \<Rightarrow> sc64" where
  "sc64_sqr a = sc64_reduce_512 (sc64_sqr_512 a)"

definition sc64_shr_int :: "sc64 \<Rightarrow> nat \<Rightarrow> sc64 \<times> u32" where
  "sc64_shr_int r n =
     (Sc64 (drop_bit n (sd0 r) + push_bit (64 - n) (sd1 r)) (drop_bit n (sd1 r) + push_bit (64 - n) (sd2 r))
           (drop_bit n (sd2 r) + push_bit (64 - n) (sd3 r)) (drop_bit n (sd3 r)),
      ucast (sd0 r AND ucast (push_bit n 1 - 1 :: cint)))"

definition sc64_split_128 :: "sc64 \<Rightarrow> sc64 \<times> sc64" where
  "sc64_split_128 a = (Sc64 (sd0 a) (sd1 a) 0 0, Sc64 (sd2 a) (sd3 a) 0 0)"

definition sc64_eq :: "sc64 \<Rightarrow> sc64 \<Rightarrow> bool" where
  "sc64_eq a b \<longleftrightarrow> (sd0 a XOR sd0 b) OR (sd1 a XOR sd1 b) OR (sd2 a XOR sd2 b) OR (sd3 a XOR sd3 b) = 0"

definition sc64_mul_shift_var :: "sc64 \<Rightarrow> sc64 \<Rightarrow> nat \<Rightarrow> sc64" where
  "sc64_mul_shift_var a b shift =
     (let l = sc64_mul_512 a b;
          shiftlimbs = shift div 64;
          shiftlow = shift mod 64;
          shifthigh = 64 - shiftlow;
          r0 = (if shift < 512 then drop_bit shiftlow (l ! (0 + shiftlimbs))
                  OR (if shift < 448 \<and> shiftlow \<noteq> 0 then push_bit shifthigh (l ! (1 + shiftlimbs)) else 0) else 0);
          r1 = (if shift < 448 then drop_bit shiftlow (l ! (1 + shiftlimbs))
                  OR (if shift < 384 \<and> shiftlow \<noteq> 0 then push_bit shifthigh (l ! (2 + shiftlimbs)) else 0) else 0);
          r2 = (if shift < 384 then drop_bit shiftlow (l ! (2 + shiftlimbs))
                  OR (if shift < 320 \<and> shiftlow \<noteq> 0 then push_bit shifthigh (l ! (3 + shiftlimbs)) else 0) else 0);
          r3 = (if shift < 320 then drop_bit shiftlow (l ! (3 + shiftlimbs)) else 0)
      in sc64_cadd_bit (Sc64 r0 r1 r2 r3) 0
           (drop_bit ((shift - 1) mod 64) (l ! ((shift - 1) div 64)) AND 1 \<noteq> 0))"

text \<open>scalar_impl.h\<close>

definition sc64_is_even :: "sc64 \<Rightarrow> bool" where
  "sc64_is_even a \<longleftrightarrow> \<not> (sd0 a AND 1 \<noteq> 0)"

end
