(* ===== verification/Scalar_4x64_Correct.thy ===== *)
theory Scalar_4x64_Correct
  imports Scalar_4x64
begin

text \<open>
  The value of every operation of scalar_4x64_impl.h, and the interpretation of the contract of
  scalar.h on this representation.
\<close>

primrec sc64_val :: "sc64 \<Rightarrow> nat" where
  "sc64_val (Sc64 a0 a1 a2 a3) = unat a0 + 2 ^ 64 * unat a1 + 2 ^ 128 * unat a2 + 2 ^ 192 * unat a3"

lemma sc64_val_less: "sc64_val a < 2 ^ 256"
proof (cases a)
  case (Sc64 a0 a1 a2 a3)
  show ?thesis
    unfolding Sc64 sc64_val.simps
    using unat_64 [of a0] unat_64 [of a1] unat_64 [of a2] unat_64 [of a3] by simp
qed

lemma sc64_val_sel: "sc64_val a = unat (sd0 a) + 2 ^ 64 * unat (sd1 a) + 2 ^ 128 * unat (sd2 a) + 2 ^ 192 * unat (sd3 a)"
  by (cases a) simp

lemma low_high_unique:
  fixes x y :: nat
  assumes "x + 2 ^ k * y = x' + 2 ^ k * y'" "x < 2 ^ k" "x' < 2 ^ k"
  shows "x = x' \<and> y = y'"
proof -
  have "(x + 2 ^ k * y) mod 2 ^ k = (x' + 2 ^ k * y') mod 2 ^ k" "(x + 2 ^ k * y) div 2 ^ k = (x' + 2 ^ k * y') div 2 ^ k"
    using assms(1) by simp_all
  then show ?thesis using assms(2,3) by simp
qed

lemma limbs_unique:
  fixes a0 a1 a2 a3 b0 b1 b2 b3 :: nat
  assumes "a0 + 2 ^ 64 * a1 + 2 ^ 128 * a2 + 2 ^ 192 * a3 = b0 + 2 ^ 64 * b1 + 2 ^ 128 * b2 + 2 ^ 192 * b3"
    and "a0 < 2 ^ 64" "a1 < 2 ^ 64" "a2 < 2 ^ 64" "b0 < 2 ^ 64" "b1 < 2 ^ 64" "b2 < 2 ^ 64"
  shows "a0 = b0 \<and> a1 = b1 \<and> a2 = b2 \<and> a3 = b3"
proof -
  have e: "a0 + 2 ^ 64 * (a1 + 2 ^ 64 * (a2 + 2 ^ 64 * a3)) = b0 + 2 ^ 64 * (b1 + 2 ^ 64 * (b2 + 2 ^ 64 * b3))"
    using assms(1) by simp
  show ?thesis
    using low_high_unique [OF e assms(2,5)] low_high_unique [OF _ assms(3,6), of "a2 + 2 ^ 64 * a3" "b2 + 2 ^ 64 * b3"]
      low_high_unique [OF _ assms(4,7), of a3 b3] by simp
qed

lemma sc64_val_inj: "sc64_val a = sc64_val b \<Longrightarrow> a = b"
proof (cases a; cases b)
  fix a0 a1 a2 a3 b0 b1 b2 b3
  assume e: "sc64_val a = sc64_val b" and ab: "a = Sc64 a0 a1 a2 a3" "b = Sc64 b0 b1 b2 b3"
  have "unat a0 = unat b0 \<and> unat a1 = unat b1 \<and> unat a2 = unat b2 \<and> unat a3 = unat b3"
    by (rule limbs_unique [OF e [unfolded ab sc64_val.simps]]) (rule unat_64)+
  then show ?thesis unfolding ab by (simp add: word_eq_of_unat)
qed

lemma unat_mod64: "unat x mod 18446744073709551616 = unat x" for x :: u64
  using mod_less [OF unat_64 [of x]] by simp

section \<open>Carry chains\<close>

lemma split64:
  "unat (ucast (t AND 0xFFFFFFFFFFFFFFFF) :: u64) + 2 ^ 64 * unat (drop_bit 64 t) = unat t" for t :: u128
  by (simp add: unat_ucast_mod unat_and_literal unat_drop)

text \<open>
  Sums, the final reduction, negation and the addition of a bit all propagate a carry through
  four 128-bit sums.
\<close>

lemma carry4:
  fixes x0 x1 x2 x3 t1 t2 t3 :: u128
  assumes "t1 = drop_bit 64 x0 + x1" "t2 = drop_bit 64 t1 + x2" "t3 = drop_bit 64 t2 + x3"
    and "unat x0 < 2 ^ 127" "unat x1 < 2 ^ 127" "unat x2 < 2 ^ 127" "unat x3 < 2 ^ 127"
  shows "sc64_val (Sc64 (ucast (x0 AND 0xFFFFFFFFFFFFFFFF)) (ucast (t1 AND 0xFFFFFFFFFFFFFFFF))
             (ucast (t2 AND 0xFFFFFFFFFFFFFFFF)) (ucast (t3 AND 0xFFFFFFFFFFFFFFFF)))
         + 2 ^ 256 * unat (drop_bit 64 t3)
       = unat x0 + 2 ^ 64 * unat x1 + 2 ^ 128 * unat x2 + 2 ^ 192 * unat x3"
proof -
  have d: "unat (drop_bit 64 t) < 2 ^ 64" for t :: u128
  proof -
    have "unat t < 2 ^ 128" using unat_less [of t] by simp
    then show ?thesis by (simp add: unat_drop)
  qed
  have s: "unat (drop_bit 64 t + x) = unat (drop_bit 64 t) + unat x" if "unat x < 2 ^ 127" for t x :: u128
    by (rule unat_add128) (use d [of t] that in simp)
  have u: "unat t1 = unat (drop_bit 64 x0) + unat x1" "unat t2 = unat (drop_bit 64 t1) + unat x2"
    "unat t3 = unat (drop_bit 64 t2) + unat x3"
    using assms s by simp_all
  show ?thesis
    unfolding sc64_val.simps
    using split64 [of x0] split64 [of t1, unfolded u(1)] split64 [of t2, unfolded u(2)] split64 [of t3, unfolded u(3)]
    by simp
qed

lemma sc64_check_overflow_iff: "sc64_check_overflow a \<longleftrightarrow> group_order \<le> sc64_val a"
proof (cases a)
  case (Sc64 a0 a1 a2 a3)
  have "unat a0 < 2 ^ 64" "unat a1 < 2 ^ 64" "unat a2 < 2 ^ 64" "unat a3 < 2 ^ 64" by (rule unat_64)+
  then show ?thesis
    unfolding Sc64 sc64_check_overflow_def Let_def group_order_def sc64.sel sc64_val.simps
      word_less_nat_alt word_le_nat_alt
    by (simp; linarith)
qed

lemma NC_lit: "sc64_NC0 = 0x402DA1732FC9BEBF" "sc64_NC1 = 0x4551231950B75FC4" "sc64_NC2 = 1"
  unfolding sc64_NC0_def sc64_NC1_def sc64_NC2_def by simp_all

lemma unat_of_bool_mult:
  "unat (ucast (of_bool b :: u32) * c :: u64) = of_bool b * unat c"
  by (cases b) simp_all

lemma unat_ucast_sum:
  "unat (ucast a + ucast b :: u128) = unat a + unat b" for a b :: u64
  by (subst unat_add128) (use unat_64 [of a] unat_64 [of b] in \<open>simp_all add: unat_ucast_64_128 del: unat_64\<close>)

lemma ucast_sum_less: "unat (ucast a + ucast b :: u128) < 2 ^ 127" for a b :: u64
  using unat_64 [of a] unat_64 [of b] unfolding unat_ucast_sum by simp

lemma sc64_reduce_val:
  "sc64_reduce r (of_bool b) = (r', ov) \<Longrightarrow>
     sc64_val r' = (sc64_val r + (if b then 2 ^ 256 - group_order else 0)) mod 2 ^ 256 \<and> ov = of_bool b"
proof -
  assume e: "sc64_reduce r (of_bool b) = (r', ov)"
  define x0 where "x0 = (ucast (sd0 r) + ucast (ucast (of_bool b :: u32) * sc64_NC0 :: u64) :: u128)"
  define x1 where "x1 = (ucast (sd1 r) + ucast (ucast (of_bool b :: u32) * sc64_NC1 :: u64) :: u128)"
  define x2 where "x2 = (ucast (sd2 r) + ucast (of_bool b * sc64_NC2 :: u32) :: u128)"
  define x3 where "x3 = (ucast (sd3 r) :: u128)"
  define t1 where "t1 = drop_bit 64 x0 + x1"
  define t2 where "t2 = drop_bit 64 t1 + x2"
  define t3 where "t3 = drop_bit 64 t2 + x3"
  have r': "r' = Sc64 (ucast (x0 AND 0xFFFFFFFFFFFFFFFF)) (ucast (t1 AND 0xFFFFFFFFFFFFFFFF))
             (ucast (t2 AND 0xFFFFFFFFFFFFFFFF)) (ucast (t3 AND 0xFFFFFFFFFFFFFFFF))" and ov: "ov = of_bool b"
    using e unfolding sc64_reduce_def Let_def x0_def [symmetric] x1_def [symmetric] x2_def [symmetric]
      x3_def [symmetric] t1_def [symmetric] t2_def [symmetric] t3_def [symmetric]
    by simp_all
  have c32: "(ucast (of_bool b * sc64_NC2 :: u32) :: u128) = ucast (of_bool b :: u64)"
    unfolding NC_lit by (cases b) simp_all
  have x: "unat x0 = unat (sd0 r) + of_bool b * 0x402DA1732FC9BEBF" "unat x1 = unat (sd1 r) + of_bool b * 0x4551231950B75FC4"
    "unat x2 = unat (sd2 r) + of_bool b" "unat x3 = unat (sd3 r)"
    unfolding x0_def x1_def x2_def x3_def c32 unat_ucast_sum unat_of_bool_mult
    by (simp_all add: NC_lit unat_ucast_64_128)
  have xb: "unat x0 < 2 ^ 127" "unat x1 < 2 ^ 127" "unat x2 < 2 ^ 127" "unat x3 < 2 ^ 127"
    unfolding x using unat_64 [of "sd0 r"] unat_64 [of "sd1 r"] unat_64 [of "sd2 r"] unat_64 [of "sd3 r"]
    by (cases b; simp)+
  have "sc64_val r' + 2 ^ 256 * unat (drop_bit 64 t3) = sc64_val r + of_bool b * (2 ^ 256 - group_order)"
    unfolding r' carry4 [OF t1_def t2_def t3_def xb] x sc64_val_sel [of r] group_order_def by (cases b) simp_all
  then have "sc64_val r' mod 2 ^ 256 = (sc64_val r + of_bool b * (2 ^ 256 - group_order)) mod 2 ^ 256"
    by (metis mod_mult_self2)
  then show ?thesis using ov sc64_val_less [of r'] by (cases b) simp_all
qed

section \<open>Sums\<close>

lemma sc64_reduce_mod:
  assumes "sc64_reduce r (of_bool b) = (r', ov)" "b = (group_order \<le> sc64_val r + k * 2 ^ 256)"
    and "sc64_val r + k * 2 ^ 256 < 2 * group_order" "k \<le> 1"
  shows "sc64_val r' = (sc64_val r + k * 2 ^ 256) mod group_order"
proof -
  note v = sc64_reduce_val [OF assms(1), THEN conjunct1]
  have G: "group_order < 2 ^ 256" "2 ^ 256 < 2 * group_order" by (simp_all add: group_order_def)
  show ?thesis
  proof (cases b)
    case False
    then have "sc64_val r + k * 2 ^ 256 < group_order" using assms(2) by simp
    moreover have "k = 0" using calculation G by (cases k) simp_all
    ultimately show ?thesis using v False sc64_val_less [of r] by simp
  next
    case True
    define q where "q = sc64_val r + k * 2 ^ 256 - group_order"
    have q: "sc64_val r + k * 2 ^ 256 = q + group_order" "q < group_order"
      using True assms(2,3) by (simp_all add: q_def)
    have "(sc64_val r + k * 2 ^ 256) mod group_order = q" unfolding q(1) using q(2) by simp
    moreover have "(sc64_val r + (2 ^ 256 - group_order)) mod 2 ^ 256 = q"
    proof -
      have "(sc64_val r + (2 ^ 256 - group_order)) mod 2 ^ 256 = (sc64_val r + (2 ^ 256 - group_order) + k * 2 ^ 256) mod 2 ^ 256"
        by simp
      also have "sc64_val r + (2 ^ 256 - group_order) + k * 2 ^ 256 = q + 2 ^ 256" using q(1) G(1) by linarith
      finally show ?thesis using q(2) G(1) by simp
    qed
    ultimately show ?thesis using v True by simp
  qed
qed

lemma ucast_flag:
  fixes c :: u128
  assumes "unat c \<le> 1" "\<not> (unat c = 1 \<and> b)"
  shows "(ucast (c + of_bool b) :: u32) = of_bool (unat c = 1 \<or> b)"
proof -
  have "c = 0 \<or> c = 1" using assms(1) by (auto simp: le_Suc_eq word_unat_eq_iff)
  then show ?thesis using assms(2) by auto
qed

lemma sc64_add_correct:
  assumes "sc64_val a < group_order" "sc64_val b < group_order" "sc64_add a b = (r, ov)"
  shows "sc64_val r = (sc64_val a + sc64_val b) mod group_order \<and> ov = (group_order \<le> sc64_val a + sc64_val b)"
proof -
  define x0 where "x0 = (ucast (sd0 a) + ucast (sd0 b) :: u128)"
  define x1 where "x1 = (ucast (sd1 a) + ucast (sd1 b) :: u128)"
  define x2 where "x2 = (ucast (sd2 a) + ucast (sd2 b) :: u128)"
  define x3 where "x3 = (ucast (sd3 a) + ucast (sd3 b) :: u128)"
  define t1 where "t1 = drop_bit 64 x0 + x1"
  define t2 where "t2 = drop_bit 64 t1 + x2"
  define t3 where "t3 = drop_bit 64 t2 + x3"
  define s where "s = Sc64 (ucast (x0 AND 0xFFFFFFFFFFFFFFFF)) (ucast (t1 AND 0xFFFFFFFFFFFFFFFF))
             (ucast (t2 AND 0xFFFFFFFFFFFFFFFF)) (ucast (t3 AND 0xFFFFFFFFFFFFFFFF))"
  define c where "c = drop_bit 64 t3"
  have rs: "r = fst (sc64_reduce s (ucast (c + of_bool (sc64_check_overflow s))))"
    "ov = ((ucast (c + of_bool (sc64_check_overflow s)) :: u32) \<noteq> 0)"
    using assms(3) unfolding sc64_add_def Let_def x0_def [symmetric] x1_def [symmetric] x2_def [symmetric]
      x3_def [symmetric] t1_def [symmetric] t2_def [symmetric] t3_def [symmetric] s_def [symmetric] c_def [symmetric]
    by simp_all
  have xb: "unat x0 < 2 ^ 127" "unat x1 < 2 ^ 127" "unat x2 < 2 ^ 127" "unat x3 < 2 ^ 127"
    unfolding x0_def x1_def x2_def x3_def by (rule ucast_sum_less)+
  have sum: "sc64_val s + 2 ^ 256 * unat c = sc64_val a + sc64_val b"
    unfolding s_def c_def carry4 [OF t1_def t2_def t3_def xb]
    unfolding x0_def x1_def x2_def x3_def unat_ucast_sum sc64_val_sel [of a] sc64_val_sel [of b] by simp
  have G: "group_order < 2 ^ 256" by (simp add: group_order_def)
  have c1: "unat c \<le> 1" using sum assms(1,2) by (simp add: group_order_def)
  have nb: "\<not> (unat c = 1 \<and> sc64_check_overflow s)"
    unfolding sc64_check_overflow_iff using sum assms(1,2) G by auto
  have f: "(unat c = 1 \<or> sc64_check_overflow s) = (group_order \<le> sc64_val s + unat c * 2 ^ 256)"
    unfolding sc64_check_overflow_iff using c1 by (auto simp: le_Suc_eq group_order_def)
  have u: "(ucast (c + of_bool (sc64_check_overflow s)) :: u32) = of_bool (unat c = 1 \<or> sc64_check_overflow s)"
    by (rule ucast_flag [OF c1 nb])
  have "sc64_reduce s (of_bool (unat c = 1 \<or> sc64_check_overflow s)) = (r, snd (sc64_reduce s (of_bool (unat c = 1 \<or> sc64_check_overflow s))))"
    unfolding rs(1) u by simp
  from sc64_reduce_mod [OF this f _ c1] have "sc64_val r = (sc64_val s + unat c * 2 ^ 256) mod group_order"
    using sum assms(1,2) by simp
  moreover have "sc64_val s + unat c * 2 ^ 256 = sc64_val a + sc64_val b" using sum by simp
  ultimately show ?thesis using rs(2) f unfolding u by simp
qed

section \<open>Comparisons\<close>

lemma or_eq_0_iff: "x OR y = 0 \<longleftrightarrow> x = 0 \<and> y = 0" for x y :: "'a::len word"
  by (auto simp: bit_eq_iff bit_or_iff)

lemma xor_eq_0_iff: "x XOR y = 0 \<longleftrightarrow> x = y" for x y :: "'a::len word"
  by (auto simp: bit_eq_iff bit_xor_iff)

lemma sc64_is_zero_iff: "sc64_is_zero a \<longleftrightarrow> sc64_val a = 0"
  unfolding sc64_is_zero_def sc64_val_sel or_eq_0_iff by (simp add: word_unat_eq_iff)

lemma sc64_eq_iff: "sc64_eq a b \<longleftrightarrow> sc64_val a = sc64_val b"
proof -
  have "sc64_eq a b \<longleftrightarrow> a = b"
    unfolding sc64_eq_def or_eq_0_iff xor_eq_0_iff by (cases a; cases b) auto
  then show ?thesis using sc64_val_inj by blast
qed

lemma sc64_is_one_iff: "sc64_is_one a \<longleftrightarrow> sc64_val a = 1"
proof -
  have "sc64_is_one a \<longleftrightarrow> a = Sc64 1 0 0 0"
    unfolding sc64_is_one_def or_eq_0_iff xor_eq_0_iff by (cases a) auto
  also have "\<dots> \<longleftrightarrow> sc64_val a = sc64_val (Sc64 1 0 0 0)" using sc64_val_inj by blast
  finally show ?thesis by simp
qed

lemma sc64_is_even_iff: "sc64_is_even a \<longleftrightarrow> even (sc64_val a)"
proof -
  have "unat (sd0 a AND 1) = unat (sd0 a) mod 2" using unat_and_mask [of "sd0 a" 1] by simp
  then have "sd0 a AND 1 \<noteq> 0 \<longleftrightarrow> odd (unat (sd0 a))" by (simp add: word_unat_eq_iff odd_iff_mod_2_eq_one)
  then show ?thesis unfolding sc64_is_even_def sc64_val_sel by simp
qed

lemma sc64_is_high_iff: "sc64_is_high a \<longleftrightarrow> group_order div 2 < sc64_val a"
proof (cases a)
  case (Sc64 a0 a1 a2 a3)
  have "unat a0 < 2 ^ 64" "unat a1 < 2 ^ 64" "unat a2 < 2 ^ 64" "unat a3 < 2 ^ 64" by (rule unat_64)+
  then show ?thesis
    unfolding Sc64 sc64_is_high_def Let_def group_order_def sc64.sel sc64_val.simps
      word_less_nat_alt word_le_nat_alt
    by (simp; linarith)
qed

section \<open>Negation\<close>

lemma unat_not64: "unat (NOT x) = 2 ^ 64 - 1 - unat x" for x :: u64
proof -
  have m: "unat (- 1 :: u64) = 2 ^ 64 - 1" by (simp add: unsigned_minus_1_eq_mask mask_eq_exp_minus_1)
  have "NOT x = - 1 - x" by (simp add: not_eq_complement)
  also have "unat \<dots> = unat (- 1 :: u64) - unat x"
    by (rule unat_diff_small) (use unat_64 [of x] in \<open>simp add: m\<close>)
  finally show ?thesis unfolding m .
qed


lemma ucast_full: "(ucast (0xFFFFFFFFFFFFFFFF :: u64) :: u128) = 0xFFFFFFFFFFFFFFFF"
  by simp

lemma unat_sum3: "unat (ucast a + ucast b + 1 :: u128) = unat a + unat b + 1" for a b :: u64
proof (subst unat_add128)
  show "unat (ucast a + ucast b :: u128) + unat (1 :: u128) < 2 ^ 128"
    using unat_64 [of a] unat_64 [of b] unfolding unat_ucast_sum by simp
qed (simp add: unat_ucast_sum)

text \<open>
  The number the four sums of \<open>secp256k1_scalar_negate\<close> propagate: the complement of the limbs
  plus the order plus one.
\<close>

lemma sc64_complement:
  fixes a0 a1 a2 a3 :: u64
  defines "x0 \<equiv> ucast (NOT a0) + ucast sc64_N0 + 1 :: u128"
    and "x1 \<equiv> ucast (NOT a1) + ucast sc64_N1 :: u128"
    and "x2 \<equiv> ucast (NOT a2) + ucast sc64_N2 :: u128"
    and "x3 \<equiv> ucast (NOT a3) + ucast sc64_N3 :: u128"
  assumes "t1 = drop_bit 64 x0 + x1" "t2 = drop_bit 64 t1 + x2" "t3 = drop_bit 64 t2 + x3"
    and a: "0 < sc64_val (Sc64 a0 a1 a2 a3)" "sc64_val (Sc64 a0 a1 a2 a3) < group_order"
  shows "sc64_val (Sc64 (ucast (x0 AND 0xFFFFFFFFFFFFFFFF)) (ucast (t1 AND 0xFFFFFFFFFFFFFFFF))
             (ucast (t2 AND 0xFFFFFFFFFFFFFFFF)) (ucast (t3 AND 0xFFFFFFFFFFFFFFFF)))
       = group_order - sc64_val (Sc64 a0 a1 a2 a3)" (is "sc64_val ?r = _")
proof -
  have u: "unat x0 = 2 ^ 64 - 1 - unat a0 + unat sc64_N0 + 1" "unat x1 = 2 ^ 64 - 1 - unat a1 + unat sc64_N1"
    "unat x2 = 2 ^ 64 - 1 - unat a2 + unat sc64_N2" "unat x3 = 2 ^ 64 - 1 - unat a3 + unat sc64_N3"
    unfolding x0_def x1_def x2_def x3_def unat_sum3 unat_ucast_sum unat_not64 by (rule refl)+
  have b: "unat x0 < 2 ^ 127" "unat x1 < 2 ^ 127" "unat x2 < 2 ^ 127" "unat x3 < 2 ^ 127"
    unfolding u by simp_all
  have le: "unat a0 \<le> 2 ^ 64 - 1" "unat a1 \<le> 2 ^ 64 - 1" "unat a2 \<le> 2 ^ 64 - 1" "unat a3 \<le> 2 ^ 64 - 1"
    using unat_64 [of a0] unat_64 [of a1] unat_64 [of a2] unat_64 [of a3] by linarith+
  have "sc64_val ?r + 2 ^ 256 * unat (drop_bit 64 t3) + sc64_val (Sc64 a0 a1 a2 a3) = 2 ^ 256 + group_order"
    unfolding carry4 [OF assms(5-7) b] u unfolding sc64_val.simps group_order_def using le by simp
  moreover have "sc64_val ?r < 2 ^ 256" by (rule sc64_val_less)
  moreover have "group_order < 2 ^ 256" by (simp add: group_order_def)
  moreover have "unat (drop_bit 64 t3) = 1"
  proof -
    have "unat (drop_bit 64 t3) < 2" "0 < unat (drop_bit 64 t3)"
      using calculation a by (simp_all add: group_order_def)
    then show ?thesis by linarith
  qed
  ultimately show ?thesis by simp
qed

lemma sc64_negate_correct:
  assumes "sc64_val a < group_order"
  shows "sc64_val (sc64_negate a) = (group_order - sc64_val a) mod group_order"
proof (cases "sc64_val a = 0")
  case True
  then have "sc64_is_zero a" by (simp add: sc64_is_zero_iff)
  with True show ?thesis unfolding sc64_negate_def Let_def by simp
next
  case False
  then have z: "\<not> sc64_is_zero a" by (simp add: sc64_is_zero_iff)
  have m: "(ucast (0xFFFFFFFFFFFFFFFF * of_bool (\<not> sc64_is_zero a) :: u64) :: u128) = 0xFFFFFFFFFFFFFFFF"
    using z by simp
  have "sc64_val (sc64_negate a) = group_order - sc64_val a"
    unfolding sc64_negate_def Let_def m
    using sc64_complement [of _ "sd0 a" "sd1 a" _ "sd2 a" _ "sd3 a", OF refl refl refl] False assms by simp
  then show ?thesis using False by simp
qed

lemma sc64_cond_negate_correct:
  assumes "sc64_val a < group_order"
  shows "sc64_cond_negate a f = (if f then (sc64_negate a, - 1) else (a, 1))"
proof (cases f)
  case True
  have x: "x XOR 0xFFFFFFFFFFFFFFFF = NOT x" for x :: u64
    by (rule bit_eqI) (simp add: bit_xor_iff bit_not_iff mask_literals bit_mask_iff)
  have s: "(ucast ((sc64_N0 + 1) AND 0xFFFFFFFFFFFFFFFF) :: u128) = ucast sc64_N0 + 1"
    by simp
  have z: "of_bool (sc64_is_zero a) - 1 = 0xFFFFFFFFFFFFFFFF * (of_bool (\<not> sc64_is_zero a) :: u64)"
    by simp
  show ?thesis
    unfolding sc64_cond_negate_def sc64_negate_def Let_def z using True by (simp add: x add.assoc)
next
  case False
  show ?thesis
  proof (cases "sc64_is_zero a")
    case True
    then have "a = Sc64 0 0 0 0" using sc64_is_zero_iff sc64_val_inj [of a "Sc64 0 0 0 0"] by simp
    then show ?thesis using False True unfolding sc64_cond_negate_def Let_def by simp
  next
    case nz: False
    have "unat (ucast x AND 0xFFFFFFFFFFFFFFFF :: u128) = unat x" for x :: u64
      unfolding unat_and_literal unat_ucast_64_128 by (simp add: unat_mod64)
    then have l: "(ucast (ucast x AND 0xFFFFFFFFFFFFFFFF :: u128) :: u64) = x" for x :: u64
      by (intro word_eq_of_unat) (simp add: unat_ucast_mod unat_mod64)
    have h: "drop_bit 64 (ucast x :: u128) = 0" for x :: u64
      using div_less [OF unat_64 [of x]] by (intro word_eq_of_unat) (simp add: unat_drop unat_ucast_64_128)
    have m1: "(ucast (- 1 :: u64) :: u128) = 0xFFFFFFFFFFFFFFFF"
      by (rule word_eq_of_unat) (simp add: unat_ucast_64_128 unsigned_minus_1_eq_mask mask_eq_exp_minus_1)
    show ?thesis using False nz unfolding sc64_cond_negate_def Let_def by (simp add: l h m1)
  qed
qed

end
