(* ===== verification/Scalar_4x64_Mul.thy ===== *)
theory Scalar_4x64_Mul
  imports Scalar_4x64_Correct
begin

text \<open>
  Products of scalars (scalar_4x64_impl.h): what the accumulator macros add, the 512-bit product
  and square, and the reduction modulo the group order.
\<close>

section \<open>Accumulators\<close>

fun acc_val :: "'a::len acc \<Rightarrow> nat" where
  "acc_val (c0, c1, c2) = unat c0 + 2 ^ 64 * unat c1 + 2 ^ 128 * unat c2"

text \<open>A carry test after a wrapped sum: \<open>c < a\<close> holds exactly when the sum overflowed.\<close>

lemma add_carry:
  fixes c a :: u64
  shows "unat (c + a) + 2 ^ 64 * of_bool (c + a < a) = unat c + unat a"
proof -
  have s: "unat (c + a) = (unat c + unat a) mod 2 ^ 64" by (simp add: unat_word_ariths)
  have b: "unat c < 2 ^ 64" "unat a < 2 ^ 64" by (rule unat_64)+
  show ?thesis
  proof (cases "unat c + unat a < 2 ^ 64")
    case True
    then have "unat (c + a) = unat c + unat a" using s by simp
    then show ?thesis by (simp add: word_less_nat_alt)
  next
    case False
    then have "unat (c + a) = unat c + unat a - 2 ^ 64"
      unfolding s using b by (subst le_mod_geq) simp_all
    then show ?thesis using False b by (simp add: word_less_nat_alt)
  qed
qed

lemma if_of_bool: "(if P then 1 else 0) = (of_bool P :: 'a::zero_neq_one)"
  by simp

lemma unat_of_bool [simp]: "unat (of_bool P :: 'a::len word) = of_bool P"
  by (cases P) simp_all

lemma add_bit:
  "unat t + of_bool P < 2 ^ LENGTH('a) \<Longrightarrow> unat (t + of_bool P) = unat t + of_bool P" for t :: "'a::len word"
  by (subst unat_add_small) simp_all

lemma prod_halves:
  fixes a b :: u64
  defines "t \<equiv> ucast a * ucast b :: u128"
  shows "unat (ucast t :: u64) + 2 ^ 64 * unat (ucast (drop_bit 64 t) :: u64) = unat a * unat b"
    and "unat (ucast (drop_bit 64 t) :: u64) \<le> 0xFFFFFFFFFFFFFFFE"
proof -
  have b: "unat a \<le> 2 ^ 64 - 1" "unat b \<le> 2 ^ 64 - 1" using unat_64 [of a] unat_64 [of b] by linarith+
  have p: "unat a * unat b \<le> (2 ^ 64 - 1) * (2 ^ 64 - 1)" using b by (rule mult_le_mono)
  have t: "unat t = unat a * unat b"
    unfolding t_def by (subst unat_mult128) (use p in \<open>simp_all add: unat_ucast_64_128\<close>)
  have h: "unat a * unat b div 2 ^ 64 \<le> 0xFFFFFFFFFFFFFFFE" using div_le_mono [OF p, of "2 ^ 64"] by simp
  have "unat (ucast (drop_bit 64 t) :: u64) = unat a * unat b div 2 ^ 64"
    unfolding unat_ucast_128_64 unat_drop t using h by (intro mod_less) simp
  then show "unat (ucast t :: u64) + 2 ^ 64 * unat (ucast (drop_bit 64 t) :: u64) = unat a * unat b"
    "unat (ucast (drop_bit 64 t) :: u64) \<le> 0xFFFFFFFFFFFFFFFE"
    using h unfolding unat_ucast_128_64 t by simp_all
qed

lemma acc_top: "2 ^ 128 * x < 2 ^ 128 * y \<Longrightarrow> x < y" for x y :: nat
  by (simp only: nat_mult_less_cancel_disj)

lemma muladd_val:
  fixes c :: "'a::len acc"
  assumes "acc_val c + unat a * unat b < 2 ^ 128 * 2 ^ LENGTH('a)"
  shows "acc_val (sc_muladd a b c) = acc_val c + unat a * unat b"
proof (cases c)
  case (fields c0 c1 c2)
  define th tl where "th = (ucast (drop_bit 64 (ucast a * ucast b :: u128)) :: u64)"
    and "tl = (ucast (ucast a * ucast b :: u128) :: u64)"
  note p = prod_halves [of a b, folded th_def tl_def]
  define th' where "th' = th + of_bool (c0 + tl < tl)"
  have th': "unat th' = unat th + of_bool (c0 + tl < tl)"
    unfolding th'_def by (rule add_bit) (use p(2) in \<open>cases "c0 + tl < tl"; simp\<close>)
  define e where "e = (of_bool (c1 + th' < th') :: nat)"
  have e: "unat (c1 + th') + 2 ^ 64 * e = unat c1 + unat th'" unfolding e_def by (rule add_carry)
  note s = add_carry [of c0 tl] e
  have sum: "acc_val (c0, c1, c2) + unat a * unat b = unat (c0 + tl) + 2 ^ 64 * unat (c1 + th') + 2 ^ 128 * (unat c2 + e)"
    using s p(1) th' by simp
  then have "2 ^ 128 * (unat c2 + e) \<le> acc_val (c0, c1, c2) + unat a * unat b" by simp
  also have "\<dots> < 2 ^ 128 * 2 ^ LENGTH('a)" using assms unfolding fields .
  finally have "unat c2 + e < 2 ^ LENGTH('a)" by (rule acc_top)
  then have "unat (c2 + of_bool (c1 + th' < th')) = unat c2 + e"
    unfolding e_def by (rule add_bit)
  with sum show ?thesis
    unfolding fields sc_muladd.simps Let_def if_of_bool th_def [symmetric] tl_def [symmetric] th'_def [symmetric]
      acc_val.simps by simp
qed

lemma muladd_fast_val:
  fixes c :: "'a::len acc"
  assumes "acc_val c + unat a * unat b < 2 ^ 128"
  shows "acc_val (sc_muladd_fast a b c) = acc_val c + unat a * unat b"
proof (cases c)
  case (fields c0 c1 c2)
  define th tl where "th = (ucast (drop_bit 64 (ucast a * ucast b :: u128)) :: u64)"
    and "tl = (ucast (ucast a * ucast b :: u128) :: u64)"
  note p = prod_halves [of a b, folded th_def tl_def]
  define th' where "th' = th + of_bool (c0 + tl < tl)"
  have th': "unat th' = unat th + of_bool (c0 + tl < tl)"
    unfolding th'_def by (rule add_bit) (use p(2) in \<open>cases "c0 + tl < tl"; simp\<close>)
  note s = add_carry [of c0 tl]
  have "unat (c0 + tl) + 2 ^ 64 * (unat c1 + unat th') + 2 ^ 128 * unat c2 = acc_val c + unat a * unat b"
    using s p(1) th' unfolding fields by simp
  moreover from this have "unat c1 + unat th' < 2 ^ 64" using assms by simp
  then have "unat (c1 + th') = unat c1 + unat th'" by (rule unat_add64)
  ultimately show ?thesis
    unfolding fields sc_muladd_fast.simps Let_def if_of_bool th_def [symmetric] tl_def [symmetric] th'_def [symmetric]
      acc_val.simps by simp
qed

lemma muladd2_val:
  fixes c :: "'a::len acc"
  assumes "acc_val c + 2 * (unat a * unat b) < 2 ^ 128 * 2 ^ LENGTH('a)"
  shows "acc_val (sc_muladd2 a b c) = acc_val c + 2 * (unat a * unat b)"
proof (cases c)
  case (fields c0 c1 c2)
  define th tl where "th = (ucast (drop_bit 64 (ucast a * ucast b :: u128)) :: u64)"
    and "tl = (ucast (ucast a * ucast b :: u128) :: u64)"
  note p = prod_halves [of a b, folded th_def tl_def]
  define tl2 where "tl2 = tl + tl"
  define t1 where "t1 = (th + th) + of_bool (tl2 < tl)"
  define e3 where "e3 = (c0 + tl2 < tl2)"
  define t2 where "t2 = t1 + of_bool e3"
  define e4 where "e4 = (e3 \<and> t2 = 0)"
  have 1: "unat (th + th) + 2 ^ 64 * of_bool (th + th < th) = unat th + unat th" by (rule add_carry)
  have 2: "unat tl2 + 2 ^ 64 * of_bool (tl2 < tl) = unat tl + unat tl" unfolding tl2_def by (rule add_carry)
  have 3: "unat (c0 + tl2) + 2 ^ 64 * of_bool e3 = unat c0 + unat tl2" unfolding e3_def by (rule add_carry)
  have le: "unat (th + th) \<le> 2 ^ 64 - 2"
  proof (cases "th + th < th")
    case True
    then show ?thesis using 1 p(2) by simp
  next
    case False
    then have e: "unat (th + th) = 2 * unat th" using 1 by simp
    have "2 * unat th < 2 * 2 ^ 63" using unat_64 [of "th + th"] unfolding e by simp
    then show ?thesis unfolding e by simp
  qed
  have t1: "unat t1 = unat (th + th) + of_bool (tl2 < tl)"
    unfolding t1_def by (rule add_bit) (use le in \<open>cases "tl2 < tl"; simp\<close>)
  have 4: "unat t2 + 2 ^ 64 * of_bool e4 = unat t1 + of_bool e3"
  proof (cases e3)
    case True
    have m: "unat t2 = (unat t1 + 1) mod 2 ^ 64" unfolding t2_def using True by (simp add: unat_word_ariths)
    show ?thesis
    proof (cases "unat t1 + 1 < 2 ^ 64")
      case True
      then have "unat t2 = unat t1 + 1" using m by simp
      then show ?thesis using \<open>e3\<close> by (auto simp: e4_def)
    next
      case False
      then have t1: "unat t1 + 1 = 2 ^ 64" using unat_64 [of t1] by linarith
      then have "unat t2 = 0" using m by simp
      then show ?thesis using t1 \<open>e3\<close> by (simp add: e4_def word_unat_eq_iff)
    qed
  qed (simp add: t2_def e4_def)
  define e5 where "e5 = (c1 + t2 < t2)"
  have 5: "unat (c1 + t2) + 2 ^ 64 * of_bool e5 = unat c1 + unat t2" unfolding e5_def by (rule add_carry)
  define k :: nat where "k = unat c2 + of_bool (th + th < th) + of_bool e4 + of_bool e5"
  have sum: "acc_val c + 2 * (unat a * unat b) = unat (c0 + tl2) + 2 ^ 64 * unat (c1 + t2) + 2 ^ 128 * k"
    unfolding fields k_def using 1 2 3 4 5 t1 p(1) by simp
  then have "2 ^ 128 * k \<le> acc_val c + 2 * (unat a * unat b)" by simp
  also have "\<dots> < 2 ^ 128 * 2 ^ LENGTH('a)" by (rule assms)
  finally have k: "k < 2 ^ LENGTH('a)" by (rule acc_top)
  have "unat (c2 + of_bool (th + th < th)) = unat c2 + of_bool (th + th < th)"
    by (rule add_bit) (use k in \<open>simp add: k_def\<close>)
  then have "unat (c2 + of_bool (th + th < th) + of_bool e4) = unat c2 + of_bool (th + th < th) + of_bool e4"
    by (subst add_bit) (use k in \<open>simp_all add: k_def\<close>)
  then have "unat (c2 + of_bool (th + th < th) + of_bool e4 + of_bool e5) = k"
    by (subst add_bit) (use k in \<open>simp_all add: k_def\<close>)
  with sum show ?thesis
    unfolding fields sc_muladd2.simps Let_def if_of_bool th_def [symmetric] tl_def [symmetric] tl2_def [symmetric]
      t1_def [symmetric] e3_def [symmetric] t2_def [symmetric] e4_def [symmetric] e5_def [symmetric]
      acc_val.simps by simp
qed

lemma sumadd_val:
  fixes c :: "'a::len acc"
  assumes "acc_val c + unat a < 2 ^ 128 * 2 ^ LENGTH('a)"
  shows "acc_val (sc_sumadd a c) = acc_val c + unat a"
proof (cases c)
  case (fields c0 c1 c2)
  define ov where "ov = (ucast (of_bool (c0 + a < a) :: u32) :: u64)"
  have ov: "unat ov = of_bool (c0 + a < a)" unfolding ov_def by simp
  define e where "e = (c1 + ov < ov)"
  have e: "unat (c1 + ov) + 2 ^ 64 * of_bool e = unat c1 + unat ov" unfolding e_def by (rule add_carry)
  have sum: "acc_val c + unat a = unat (c0 + a) + 2 ^ 64 * unat (c1 + ov) + 2 ^ 128 * (unat c2 + of_bool e)"
    using add_carry [of c0 a] e ov unfolding fields by simp
  then have "2 ^ 128 * (unat c2 + of_bool e) \<le> acc_val c + unat a" by simp
  also have "\<dots> < 2 ^ 128 * 2 ^ LENGTH('a)" by (rule assms)
  finally have "unat c2 + of_bool e < 2 ^ LENGTH('a)" by (rule acc_top)
  then have "unat (c2 + of_bool e) = unat c2 + of_bool e" by (rule add_bit)
  with sum show ?thesis
    unfolding fields sc_sumadd.simps Let_def if_of_bool ov_def [symmetric] e_def [symmetric] acc_val.simps by simp
qed

lemma sumadd_fast_val:
  fixes c :: "'a::len acc"
  assumes "acc_val c + unat a < 2 ^ 128"
  shows "acc_val (sc_sumadd_fast a c) = acc_val c + unat a"
proof (cases c)
  case (fields c0 c1 c2)
  define e where "e = (c0 + a < a)"
  have sum: "unat (c0 + a) + 2 ^ 64 * (unat c1 + of_bool e) + 2 ^ 128 * unat c2 = acc_val c + unat a"
    using add_carry [of c0 a] unfolding fields e_def by simp
  then have "unat c1 + of_bool e < 2 ^ LENGTH(64)" using assms by simp
  then have "unat (c1 + of_bool e) = unat c1 + of_bool e" by (rule add_bit)
  with sum show ?thesis
    unfolding fields sc_sumadd_fast.simps Let_def if_of_bool e_def [symmetric] acc_val.simps by simp
qed

lemma extract_val:
  fixes c :: "'a::len acc"
  assumes "sc_extract c = (n, c')" "LENGTH('a) \<le> 64"
  shows "acc_val c = unat n + 2 ^ 64 * acc_val c'"
proof (cases c)
  case (fields c0 c1 c2)
  have "unat c2 < 2 ^ LENGTH('a)" by (rule unat_less)
  also have "\<dots> \<le> 2 ^ LENGTH(64)" using assms(2) by (intro power_increasing) simp_all
  finally have "unat (ucast c2 :: u64) = unat c2" by (rule unat_ucast_small)
  then show ?thesis using assms(1) unfolding fields by auto
qed

lemma extract_fast_val:
  fixes c :: "'a::len acc"
  assumes "sc_extract_fast c = (n, c')" "acc_val c < 2 ^ 128"
  shows "acc_val c = unat n + 2 ^ 64 * acc_val c'"
proof (cases c)
  case (fields c0 c1 c2)
  have "unat c2 = 0" using assms(2) unfolding fields by simp
  then show ?thesis using assms(1) unfolding fields by auto
qed

lemma acc_fst: "acc_val c < 2 ^ 64 \<Longrightarrow> unat (fst c) = acc_val c"
  by (cases c) auto

section \<open>The 512-bit products\<close>

definition limbs8 :: "u64 list \<Rightarrow> nat" where
  "limbs8 l = unat (l ! 0) + 2 ^ 64 * unat (l ! 1) + 2 ^ 128 * unat (l ! 2) + 2 ^ 192 * unat (l ! 3)
     + 2 ^ 256 * unat (l ! 4) + 2 ^ 320 * unat (l ! 5) + 2 ^ 384 * unat (l ! 6) + 2 ^ 448 * unat (l ! 7)"

lemma nth8:
  "[l0, l1, l2, l3, l4, l5, l6, l7] ! 0 = l0" "[l0, l1, l2, l3, l4, l5, l6, l7] ! 1 = l1"
  "[l0, l1, l2, l3, l4, l5, l6, l7] ! 2 = l2" "[l0, l1, l2, l3, l4, l5, l6, l7] ! 3 = l3"
  "[l0, l1, l2, l3, l4, l5, l6, l7] ! 4 = l4" "[l0, l1, l2, l3, l4, l5, l6, l7] ! 5 = l5"
  "[l0, l1, l2, l3, l4, l5, l6, l7] ! 6 = l6" "[l0, l1, l2, l3, l4, l5, l6, l7] ! 7 = l7"
  by simp_all

text \<open>
  A column adds up to four products to what the previous column left (below 2^67) and extracts a
  limb; what is left stays below 2^67.
\<close>

lemma prod_le: "unat x * unat y \<le> 340282366920938463426481119284349108225" for x y :: u64
proof -
  have "unat x \<le> 2 ^ 64 - 1" "unat y \<le> 2 ^ 64 - 1" using unat_64 [of x] unat_64 [of y] by linarith+
  then have "unat x * unat y \<le> (2 ^ 64 - 1) * (2 ^ 64 - 1)" by (rule mult_le_mono)
  then show ?thesis by simp
qed

lemma muladd_le:
  fixes c :: "32 acc"
  assumes "acc_val c \<le> B" "B \<le> 2 ^ 131"
  shows "acc_val (sc_muladd a b c) = acc_val c + unat a * unat b"
    and "acc_val (sc_muladd a b c) \<le> B + 340282366920938463426481119284349108225"
proof -
  show e: "acc_val (sc_muladd a b c) = acc_val c + unat a * unat b"
    by (rule muladd_val) (use assms prod_le [of a b] in simp)
  show "acc_val (sc_muladd a b c) \<le> B + 340282366920938463426481119284349108225"
    unfolding e by (rule add_mono [OF assms(1) prod_le])
qed

lemma muladd2_le:
  fixes c :: "32 acc"
  assumes "acc_val c \<le> B" "B \<le> 2 ^ 131"
  shows "acc_val (sc_muladd2 a b c) = acc_val c + 2 * (unat a * unat b)"
    and "acc_val (sc_muladd2 a b c) \<le> B + 680564733841876926852962238568698216450"
proof -
  show e: "acc_val (sc_muladd2 a b c) = acc_val c + 2 * (unat a * unat b)"
    by (rule muladd2_val) (use assms prod_le [of a b] in simp)
  show "acc_val (sc_muladd2 a b c) \<le> B + 680564733841876926852962238568698216450"
    unfolding e using add_mono [OF assms(1) mult_le_mono2 [OF prod_le [of a b], of 2]] by simp
qed

lemma column:
  fixes c :: "32 acc"
  assumes "sc_extract c = (l, d)" "acc_val c = s" "s \<le> 2 ^ 131"
  shows "s = unat l + 2 ^ 64 * acc_val d \<and> acc_val d \<le> 2 ^ 67"
  using extract_val [OF assms(1)] assms(2,3) by simp

lemma column_first:
  assumes "sc_extract_fast (sc_muladd_fast a b (0 :: u64, 0 :: u64, 0 :: u32)) = (l, d)"
  shows "unat a * unat b = unat l + 2 ^ 64 * acc_val d \<and> acc_val d \<le> 2 ^ 67"
proof -
  have "acc_val (sc_muladd_fast a b (0 :: u64, 0 :: u64, 0 :: u32)) = 0 + unat a * unat b"
    by (subst muladd_fast_val) (use prod_le [of a b] in simp_all)
  then show ?thesis using extract_fast_val [OF assms] prod_le [of a b] by simp
qed

lemma column_last:
  fixes c :: "32 acc"
  assumes "sc_extract_fast (sc_muladd_fast a b c) = (l, d)" "acc_val c + unat a * unat b < 2 ^ 128"
  shows "acc_val c + unat a * unat b = unat l + 2 ^ 64 * unat (fst d)"
proof -
  have v: "acc_val (sc_muladd_fast a b c) = acc_val c + unat a * unat b"
    by (rule muladd_fast_val [OF assms(2)])
  then have "acc_val c + unat a * unat b = unat l + 2 ^ 64 * acc_val d"
    using extract_fast_val [OF assms(1)] assms(2) by simp
  moreover from this have "acc_val d < 2 ^ 64" using assms(2) by simp
  ultimately show ?thesis using acc_fst [of d] by simp
qed

lemma column1:
  fixes c :: "32 acc"
  assumes "sc_extract (sc_muladd2 a b c) = (l, d)" "acc_val c \<le> 2 ^ 67"
  shows "acc_val c + 2 * (unat a * unat b) = unat l + 2 ^ 64 * acc_val d \<and> acc_val d \<le> 2 ^ 67"
  by (rule column [OF assms(1) muladd2_le(1) [OF assms(2)]])
     (use muladd2_le [OF assms(2), of a b] in simp_all)

lemma column2:
  fixes c :: "32 acc"
  assumes "sc_extract (sc_muladd a' b' (sc_muladd a b c)) = (l, d)" "acc_val c \<le> 2 ^ 67"
  shows "acc_val c + unat a * unat b + unat a' * unat b' = unat l + 2 ^ 64 * acc_val d \<and> acc_val d \<le> 2 ^ 67"
proof -
  note 1 = muladd_le [OF assms(2), of a b, simplified]
  note 2 = muladd_le [OF 1(2), of a' b', simplified]
  show ?thesis using column [OF assms(1) refl] 1(1) 2 by simp
qed

lemma column3:
  fixes c :: "32 acc"
  assumes "sc_extract (sc_muladd a'' b'' (sc_muladd a' b' (sc_muladd a b c))) = (l, d)" "acc_val c \<le> 2 ^ 67"
  shows "acc_val c + unat a * unat b + unat a' * unat b' + unat a'' * unat b'' = unat l + 2 ^ 64 * acc_val d
    \<and> acc_val d \<le> 2 ^ 67"
proof -
  note 1 = muladd_le [OF assms(2), of a b, simplified]
  note 2 = muladd_le [OF 1(2), of a' b', simplified]
  note 3 = muladd_le [OF 2(2), of a'' b'', simplified]
  show ?thesis using column [OF assms(1) refl] 1(1) 2(1) 3 by simp
qed

lemma column4:
  fixes c :: "32 acc"
  assumes "sc_extract (sc_muladd a3 b3 (sc_muladd a2 b2 (sc_muladd a1 b1 (sc_muladd a0 b0 c)))) = (l, d)"
    and "acc_val c \<le> 2 ^ 67"
  shows "acc_val c + unat a0 * unat b0 + unat a1 * unat b1 + unat a2 * unat b2 + unat a3 * unat b3
       = unat l + 2 ^ 64 * acc_val d \<and> acc_val d \<le> 2 ^ 67"
proof -
  note 1 = muladd_le [OF assms(2), of a0 b0, simplified]
  note 2 = muladd_le [OF 1(2), of a1 b1, simplified]
  note 3 = muladd_le [OF 2(2), of a2 b2, simplified]
  note 4 = muladd_le [OF 3(2), of a3 b3, simplified]
  show ?thesis using column [OF assms(1) refl] 1(1) 2(1) 3(1) 4 by simp
qed

lemma column21:
  fixes c :: "32 acc"
  assumes "sc_extract (sc_muladd a' b' (sc_muladd2 a b c)) = (l, d)" "acc_val c \<le> 2 ^ 67"
  shows "acc_val c + 2 * (unat a * unat b) + unat a' * unat b' = unat l + 2 ^ 64 * acc_val d \<and> acc_val d \<le> 2 ^ 67"
proof -
  note 1 = muladd2_le [OF assms(2), of a b, simplified]
  note 2 = muladd_le [OF 1(2), of a' b', simplified]
  show ?thesis using column [OF assms(1) refl] 1(1) 2 by simp
qed

lemma column22:
  fixes c :: "32 acc"
  assumes "sc_extract (sc_muladd2 a' b' (sc_muladd2 a b c)) = (l, d)" "acc_val c \<le> 2 ^ 67"
  shows "acc_val c + 2 * (unat a * unat b) + 2 * (unat a' * unat b') = unat l + 2 ^ 64 * acc_val d
    \<and> acc_val d \<le> 2 ^ 67"
proof -
  note 1 = muladd2_le [OF assms(2), of a b, simplified]
  note 2 = muladd2_le [OF 1(2), of a' b', simplified]
  show ?thesis using column [OF assms(1) refl] 1(1) 2 by simp
qed

lemma sc64_mul_512_val:
  "limbs8 (sc64_mul_512 a b) = sc64_val a * sc64_val b \<and> length (sc64_mul_512 a b) = 8"
proof (cases a; cases b)
  fix a0 a1 a2 a3 b0 b1 b2 b3
  assume ab: "a = Sc64 a0 a1 a2 a3" "b = Sc64 b0 b1 b2 b3"
  obtain l0 c0 where 0: "sc_extract_fast (sc_muladd_fast a0 b0 (0, 0, 0 :: u32)) = (l0, c0)" by (rule prod.exhaust)
  obtain l1 c1 where 1: "sc_extract (sc_muladd a1 b0 (sc_muladd a0 b1 c0)) = (l1, c1)" by (rule prod.exhaust)
  obtain l2 c2 where 2: "sc_extract (sc_muladd a2 b0 (sc_muladd a1 b1 (sc_muladd a0 b2 c1))) = (l2, c2)"
    by (rule prod.exhaust)
  obtain l3 c3 where 3: "sc_extract (sc_muladd a3 b0 (sc_muladd a2 b1 (sc_muladd a1 b2 (sc_muladd a0 b3 c2)))) = (l3, c3)"
    by (rule prod.exhaust)
  obtain l4 c4 where 4: "sc_extract (sc_muladd a3 b1 (sc_muladd a2 b2 (sc_muladd a1 b3 c3))) = (l4, c4)"
    by (rule prod.exhaust)
  obtain l5 c5 where 5: "sc_extract (sc_muladd a3 b2 (sc_muladd a2 b3 c4)) = (l5, c5)" by (rule prod.exhaust)
  obtain l6 c6 where 6: "sc_extract_fast (sc_muladd_fast a3 b3 c5) = (l6, c6)" by (rule prod.exhaust)
  have l: "sc64_mul_512 a b = [l0, l1, l2, l3, l4, l5, l6, fst c6]"
    unfolding ab sc64_mul_512.simps Let_def 0 prod.case 1 2 3 4 5 6 ..
  note v0 = column_first [OF 0]
  note v1 = column2 [OF 1 v0 [THEN conjunct2]]
  note v2 = column3 [OF 2 v1 [THEN conjunct2]]
  note v3 = column4 [OF 3 v2 [THEN conjunct2]]
  note v4 = column3 [OF 4 v3 [THEN conjunct2]]
  note v5 = column2 [OF 5 v4 [THEN conjunct2]]
  note v = v0 [THEN conjunct1] v1 [THEN conjunct1] v2 [THEN conjunct1] v3 [THEN conjunct1] v4 [THEN conjunct1]
    v5 [THEN conjunct1]
  have "sc64_val a * sc64_val b < 2 ^ 512" by (rule mult_less_pow2 [OF sc64_val_less sc64_val_less]) simp
  then have "acc_val c5 + unat a3 * unat b3 < 2 ^ 128"
    using v unfolding ab sc64_val.simps by (simp add: algebra_simps)
  note v6 = column_last [OF 6 this]
  have "limbs8 [l0, l1, l2, l3, l4, l5, l6, fst c6] = sc64_val a * sc64_val b"
    unfolding limbs8_def nth8 ab sc64_val.simps using v v6 by (simp add: algebra_simps)
  then show ?thesis unfolding l by simp
qed

lemma sc64_sqr_512_val:
  "limbs8 (sc64_sqr_512 a) = sc64_val a * sc64_val a \<and> length (sc64_sqr_512 a) = 8"
proof (cases a)
  case a: (Sc64 a0 a1 a2 a3)
  obtain l0 c0 where 0: "sc_extract_fast (sc_muladd_fast a0 a0 (0, 0, 0 :: u32)) = (l0, c0)" by (rule prod.exhaust)
  obtain l1 c1 where 1: "sc_extract (sc_muladd2 a0 a1 c0) = (l1, c1)" by (rule prod.exhaust)
  obtain l2 c2 where 2: "sc_extract (sc_muladd a1 a1 (sc_muladd2 a0 a2 c1)) = (l2, c2)" by (rule prod.exhaust)
  obtain l3 c3 where 3: "sc_extract (sc_muladd2 a1 a2 (sc_muladd2 a0 a3 c2)) = (l3, c3)" by (rule prod.exhaust)
  obtain l4 c4 where 4: "sc_extract (sc_muladd a2 a2 (sc_muladd2 a1 a3 c3)) = (l4, c4)" by (rule prod.exhaust)
  obtain l5 c5 where 5: "sc_extract (sc_muladd2 a2 a3 c4) = (l5, c5)" by (rule prod.exhaust)
  obtain l6 c6 where 6: "sc_extract_fast (sc_muladd_fast a3 a3 c5) = (l6, c6)" by (rule prod.exhaust)
  have l: "sc64_sqr_512 a = [l0, l1, l2, l3, l4, l5, l6, fst c6]"
    unfolding a sc64_sqr_512.simps Let_def 0 prod.case 1 2 3 4 5 6 ..
  note v0 = column_first [OF 0]
  note v1 = column1 [OF 1 v0 [THEN conjunct2]]
  note v2 = column21 [OF 2 v1 [THEN conjunct2]]
  note v3 = column22 [OF 3 v2 [THEN conjunct2]]
  note v4 = column21 [OF 4 v3 [THEN conjunct2]]
  note v5 = column1 [OF 5 v4 [THEN conjunct2]]
  note v = v0 [THEN conjunct1] v1 [THEN conjunct1] v2 [THEN conjunct1] v3 [THEN conjunct1] v4 [THEN conjunct1]
    v5 [THEN conjunct1]
  have "sc64_val a * sc64_val a < 2 ^ 512" by (rule mult_less_pow2 [OF sc64_val_less sc64_val_less]) simp
  then have "acc_val c5 + unat a3 * unat a3 < 2 ^ 128"
    using v unfolding a sc64_val.simps by (simp add: algebra_simps)
  note v6 = column_last [OF 6 this]
  have "limbs8 [l0, l1, l2, l3, l4, l5, l6, fst c6] = sc64_val a * sc64_val a"
    unfolding limbs8_def nth8 a sc64_val.simps using v v6 by (simp add: algebra_simps)
  then show ?thesis unfolding l by simp
qed

end
