(* ===== verification/Scalar_4x64_Reduce.thy ===== *)
theory Scalar_4x64_Reduce
  imports Scalar_4x64_Mul
begin

text \<open>
  The reduction of a 512-bit product modulo the group order (\<open>secp256k1_scalar_reduce_512\<close>):
  each of its three passes folds the words above bit 256 back in, multiplied by 2^256 minus the
  order.
\<close>

definition order_compl :: nat where
  "order_compl = 0x402DA1732FC9BEBF + 2 ^ 64 * 0x4551231950B75FC4 + 2 ^ 128"

lemma order_compl: "group_order + order_compl = 2 ^ 256"
  by (simp add: order_compl_def group_order_def)

lemma unat_NC: "unat sc64_NC0 = 0x402DA1732FC9BEBF" "unat sc64_NC1 = 0x4551231950B75FC4"
  by (simp_all add: NC_lit)

lemma mul64:
  fixes c :: "64 acc"
  assumes "acc_val c < 2 ^ 191"
  shows "acc_val (sc_muladd a b c) = acc_val c + unat a * unat b"
  by (rule muladd_val) (use assms prod_le [of a b] in simp)

lemma sum64:
  fixes c :: "64 acc"
  assumes "acc_val c < 2 ^ 191"
  shows "acc_val (sc_sumadd a c) = acc_val c + unat a"
  by (rule sumadd_val) (use assms unat_64 [of a] in simp)

lemma ext64:
  fixes c :: "64 acc"
  assumes "sc_extract c = (n, d)" "acc_val c = s"
  shows "s = unat n + 2 ^ 64 * acc_val d"
  using extract_val [OF assms(1)] assms(2) by simp

lemma ext_fast64:
  fixes c :: "64 acc"
  assumes "sc_extract_fast c = (n, d)" "acc_val c = s" "s < 2 ^ 128"
  shows "s = unat n + 2 ^ 64 * acc_val d"
  using extract_fast_val [OF assms(1)] assms(2,3) by simp

lemma sc64_reduce_385_val:
  assumes "sc64_reduce_385 l = (m0, m1, m2, m3, m4, m5, m6)"
  defines "L \<equiv> unat (l ! 0) + 2 ^ 64 * unat (l ! 1) + 2 ^ 128 * unat (l ! 2) + 2 ^ 192 * unat (l ! 3)"
    and "H \<equiv> unat (l ! 4) + 2 ^ 64 * unat (l ! 5) + 2 ^ 128 * unat (l ! 6) + 2 ^ 192 * unat (l ! 7)"
  shows "unat m0 + 2 ^ 64 * unat m1 + 2 ^ 128 * unat m2 + 2 ^ 192 * unat m3
       + 2 ^ 256 * (unat m4 + 2 ^ 64 * unat m5 + 2 ^ 128 * unat m6) = L + H * order_compl"
    and "unat m6 \<le> 1"
proof -
  define n0 n1 n2 n3 where "n0 = l ! 4" and "n1 = l ! 5" and "n2 = l ! 6" and "n3 = l ! 7"
  note n = unat_64 [of n0] unat_64 [of n1] unat_64 [of n2] unat_64 [of n3]
    unat_64 [of "l ! 0"] unat_64 [of "l ! 1"] unat_64 [of "l ! 2"] unat_64 [of "l ! 3"]
  obtain l0 c0 where 0: "sc_extract_fast (sc_muladd_fast n0 sc64_NC0 (l ! 0, 0, 0 :: u64)) = (l0, c0)"
    by (rule prod.exhaust)
  obtain l1 c1 where 1: "sc_extract (sc_muladd n0 sc64_NC1 (sc_muladd n1 sc64_NC0 (sc_sumadd_fast (l ! 1) c0))) = (l1, c1)"
    by (rule prod.exhaust)
  obtain l2 c2 where 2: "sc_extract (sc_sumadd n0 (sc_muladd n1 sc64_NC1 (sc_muladd n2 sc64_NC0 (sc_sumadd (l ! 2) c1)))) = (l2, c2)"
    by (rule prod.exhaust)
  obtain l3 c3 where 3: "sc_extract (sc_sumadd n1 (sc_muladd n2 sc64_NC1 (sc_muladd n3 sc64_NC0 (sc_sumadd (l ! 3) c2)))) = (l3, c3)"
    by (rule prod.exhaust)
  obtain l4 c4 where 4: "sc_extract (sc_sumadd n2 (sc_muladd n3 sc64_NC1 c3)) = (l4, c4)"
    by (rule prod.exhaust)
  obtain l5 c5 where 5: "sc_extract_fast (sc_sumadd_fast n3 c4) = (l5, c5)"
    by (rule prod.exhaust)
  have m: "m0 = l0" "m1 = l1" "m2 = l2" "m3 = l3" "m4 = l4" "m5 = l5" "m6 = ucast (fst c5)"
    using assms(1) unfolding sc64_reduce_385_def Let_def n0_def [symmetric] n1_def [symmetric] n2_def [symmetric]
      n3_def [symmetric] 0 prod.case 1 2 3 4 5 by simp_all
  have "acc_val (sc_muladd_fast n0 sc64_NC0 (l ! 0, 0, 0 :: u64)) = unat (l ! 0) + unat n0 * unat sc64_NC0"
    by (subst muladd_fast_val) (use n in \<open>simp_all add: unat_NC\<close>)
  from ext_fast64 [OF 0 this] have v0: "unat (l ! 0) + unat n0 * unat sc64_NC0 = unat l0 + 2 ^ 64 * acc_val c0"
    using n by (simp add: unat_NC)
  have b0: "acc_val c0 < 2 ^ 64" using v0 n by (simp add: unat_NC)
  have "acc_val (sc_sumadd_fast (l ! 1) c0) = acc_val c0 + unat (l ! 1)"
    by (rule sumadd_fast_val) (use b0 n in simp)
  then have "acc_val (sc_muladd n0 sc64_NC1 (sc_muladd n1 sc64_NC0 (sc_sumadd_fast (l ! 1) c0)))
      = acc_val c0 + unat (l ! 1) + unat n1 * unat sc64_NC0 + unat n0 * unat sc64_NC1"
    using b0 n by (simp add: mul64 unat_NC)
  note v1 = ext64 [OF 1 this]
  have b1: "acc_val c1 < 2 ^ 66" using v1 b0 n by (simp add: unat_NC)
  have "acc_val (sc_sumadd n0 (sc_muladd n1 sc64_NC1 (sc_muladd n2 sc64_NC0 (sc_sumadd (l ! 2) c1))))
      = acc_val c1 + unat (l ! 2) + unat n2 * unat sc64_NC0 + unat n1 * unat sc64_NC1 + unat n0"
    using b1 n by (simp add: mul64 sum64 unat_NC)
  note v2 = ext64 [OF 2 this]
  have b2: "acc_val c2 < 2 ^ 66" using v2 b1 n by (simp add: unat_NC)
  have "acc_val (sc_sumadd n1 (sc_muladd n2 sc64_NC1 (sc_muladd n3 sc64_NC0 (sc_sumadd (l ! 3) c2))))
      = acc_val c2 + unat (l ! 3) + unat n3 * unat sc64_NC0 + unat n2 * unat sc64_NC1 + unat n1"
    using b2 n by (simp add: mul64 sum64 unat_NC)
  note v3 = ext64 [OF 3 this]
  have b3: "acc_val c3 < 2 ^ 66" using v3 b2 n by (simp add: unat_NC)
  have "acc_val (sc_sumadd n2 (sc_muladd n3 sc64_NC1 c3)) = acc_val c3 + unat n3 * unat sc64_NC1 + unat n2"
    using b3 n by (simp add: mul64 sum64 unat_NC)
  note v4 = ext64 [OF 4 this]
  have b4: "acc_val c4 < 2 ^ 63" using v4 b3 n by (simp add: unat_NC)
  have "acc_val (sc_sumadd_fast n3 c4) = acc_val c4 + unat n3"
    by (rule sumadd_fast_val) (use b4 n in simp)
  from ext_fast64 [OF 5 this] have v5: "acc_val c4 + unat n3 = unat l5 + 2 ^ 64 * acc_val c5"
    using b4 n by simp
  have b5: "acc_val c5 \<le> 1" using v5 b4 n by simp
  then have "unat (fst c5) = acc_val c5" by (intro acc_fst) simp
  then have m6: "unat m6 = acc_val c5" unfolding m using b5 by (simp add: unat_ucast_mod)
  show "unat m6 \<le> 1" using m6 b5 by simp
  show "unat m0 + 2 ^ 64 * unat m1 + 2 ^ 128 * unat m2 + 2 ^ 192 * unat m3
       + 2 ^ 256 * (unat m4 + 2 ^ 64 * unat m5 + 2 ^ 128 * unat m6) = L + H * order_compl"
    unfolding m6 L_def H_def m(1-6) n0_def [symmetric] n1_def [symmetric] n2_def [symmetric] n3_def [symmetric]
    using v0 v1 v2 v3 v4 v5 by (simp add: unat_NC order_compl_def)
qed

lemma sc64_reduce_258_val:
  assumes "sc64_reduce_258 (m0, m1, m2, m3, m4, m5, m6) = (p0, p1, p2, p3, p4)"
  defines "L \<equiv> unat m0 + 2 ^ 64 * unat m1 + 2 ^ 128 * unat m2 + 2 ^ 192 * unat m3"
    and "H \<equiv> unat m4 + 2 ^ 64 * unat m5 + 2 ^ 128 * unat m6"
  assumes H: "H \<le> order_compl" and m6: "unat m6 \<le> 1"
  shows "unat p0 + 2 ^ 64 * unat p1 + 2 ^ 128 * unat p2 + 2 ^ 192 * unat p3 + 2 ^ 256 * unat p4
       = L + H * order_compl"
    and "unat p4 \<le> 2"
proof -
  note n = unat_64 [of m0] unat_64 [of m1] unat_64 [of m2] unat_64 [of m3] unat_64 [of m4] unat_64 [of m5] m6
  have u6: "unat (ucast m6 :: u64) = unat m6" by (simp add: unat_ucast_32_64)
  obtain l0 c0 where 0: "sc_extract_fast (sc_muladd_fast m4 sc64_NC0 (m0, 0, 0 :: u64)) = (l0, c0)"
    by (rule prod.exhaust)
  obtain l1 c1 where 1: "sc_extract (sc_muladd m4 sc64_NC1 (sc_muladd m5 sc64_NC0 (sc_sumadd_fast m1 c0))) = (l1, c1)"
    by (rule prod.exhaust)
  obtain l2 c2 where 2: "sc_extract (sc_sumadd m4 (sc_muladd m5 sc64_NC1 (sc_muladd (ucast m6) sc64_NC0 (sc_sumadd m2 c1)))) = (l2, c2)"
    by (rule prod.exhaust)
  obtain l3 c3 where 3: "sc_extract_fast (sc_sumadd_fast m5 (sc_muladd_fast (ucast m6) sc64_NC1 (sc_sumadd_fast m3 c2))) = (l3, c3)"
    by (rule prod.exhaust)
  have p: "p0 = l0" "p1 = l1" "p2 = l2" "p3 = l3" "p4 = ucast (fst c3 + ucast m6)"
    using assms(1) unfolding sc64_reduce_258.simps Let_def 0 prod.case 1 2 3 by simp_all
  have "acc_val (sc_muladd_fast m4 sc64_NC0 (m0, 0, 0 :: u64)) = unat m0 + unat m4 * unat sc64_NC0"
    by (subst muladd_fast_val) (use n in \<open>simp_all add: unat_NC\<close>)
  from ext_fast64 [OF 0 this] have v0: "unat m0 + unat m4 * unat sc64_NC0 = unat l0 + 2 ^ 64 * acc_val c0"
    using n by (simp add: unat_NC)
  have b0: "acc_val c0 < 2 ^ 64" using v0 n by (simp add: unat_NC)
  have "acc_val (sc_sumadd_fast m1 c0) = acc_val c0 + unat m1"
    by (rule sumadd_fast_val) (use b0 n in simp)
  then have "acc_val (sc_muladd m4 sc64_NC1 (sc_muladd m5 sc64_NC0 (sc_sumadd_fast m1 c0)))
      = acc_val c0 + unat m1 + unat m5 * unat sc64_NC0 + unat m4 * unat sc64_NC1"
    using b0 n by (simp add: mul64 unat_NC)
  note v1 = ext64 [OF 1 this]
  have b1: "acc_val c1 < 2 ^ 66" using v1 b0 n by (simp add: unat_NC)
  have "acc_val (sc_sumadd m4 (sc_muladd m5 sc64_NC1 (sc_muladd (ucast m6) sc64_NC0 (sc_sumadd m2 c1))))
      = acc_val c1 + unat m2 + unat m6 * unat sc64_NC0 + unat m5 * unat sc64_NC1 + unat m4"
    using b1 n by (simp add: mul64 sum64 unat_NC u6)
  note v2 = ext64 [OF 2 this]
  have b2: "acc_val c2 < 2 ^ 66" using v2 b1 n by (simp add: unat_NC)
  have "acc_val (sc_sumadd_fast m3 c2) = acc_val c2 + unat m3"
    by (rule sumadd_fast_val) (use b2 n in simp)
  moreover from this have "acc_val (sc_muladd_fast (ucast m6) sc64_NC1 (sc_sumadd_fast m3 c2))
      = acc_val c2 + unat m3 + unat m6 * unat sc64_NC1"
    by (subst muladd_fast_val) (use b2 n in \<open>simp_all add: unat_NC u6\<close>)
  ultimately have "acc_val (sc_sumadd_fast m5 (sc_muladd_fast (ucast m6) sc64_NC1 (sc_sumadd_fast m3 c2)))
      = acc_val c2 + unat m3 + unat m6 * unat sc64_NC1 + unat m5"
    by (subst sumadd_fast_val) (use b2 n in \<open>simp_all add: unat_NC\<close>)
  from ext_fast64 [OF 3 this] have v3: "acc_val c2 + unat m3 + unat m6 * unat sc64_NC1 + unat m5 = unat l3 + 2 ^ 64 * acc_val c3"
    using b2 n by (simp add: unat_NC)
  have b3: "acc_val c3 < 2 ^ 10" using v3 b2 n by (simp add: unat_NC)
  have f3: "unat (fst c3) = acc_val c3" by (rule acc_fst) (use b3 in simp)
  have sum: "unat l0 + 2 ^ 64 * unat l1 + 2 ^ 128 * unat l2 + 2 ^ 192 * unat l3 + 2 ^ 256 * (acc_val c3 + unat m6)
       = L + H * order_compl"
    unfolding L_def H_def using v0 v1 v2 v3 by (simp add: unat_NC order_compl_def)
  have "H * order_compl \<le> order_compl * order_compl" using H by (rule mult_le_mono1)
  then have s2: "acc_val c3 + unat m6 \<le> 2"
    using sum n unfolding L_def order_compl_def by simp
  have "unat (fst c3 + ucast m6) = acc_val c3 + unat m6"
    by (subst unat_add64) (use s2 in \<open>simp_all add: f3 u6\<close>)
  then have p4: "unat p4 = acc_val c3 + unat m6" unfolding p using s2 by (simp add: unat_ucast_mod)
  show "unat p4 \<le> 2" unfolding p4 by (rule s2)
  show "unat p0 + 2 ^ 64 * unat p1 + 2 ^ 128 * unat p2 + 2 ^ 192 * unat p3 + 2 ^ 256 * unat p4
       = L + H * order_compl"
    unfolding p4 p(1-4) by (rule sum)
qed

lemma sc64_reduce_256_val:
  assumes "sc64_reduce_256 (p0, p1, p2, p3, p4) = (r, c)" "unat p4 \<le> 2"
  shows "sc64_val r + 2 ^ 256 * unat c
       = unat p0 + 2 ^ 64 * unat p1 + 2 ^ 128 * unat p2 + 2 ^ 192 * unat p3 + unat p4 * order_compl"
proof -
  define x0 where "x0 = (ucast p0 + ucast sc64_NC0 * ucast p4 :: u128)"
  define x1 where "x1 = (ucast p1 + ucast sc64_NC1 * ucast p4 :: u128)"
  define x2 where "x2 = (ucast p2 + ucast p4 :: u128)"
  define x3 where "x3 = (ucast p3 :: u128)"
  define t1 where "t1 = drop_bit 64 x0 + x1"
  define t2 where "t2 = drop_bit 64 t1 + x2"
  define t3 where "t3 = drop_bit 64 t2 + x3"
  have r: "r = Sc64 (ucast (x0 AND 0xFFFFFFFFFFFFFFFF)) (ucast (t1 AND 0xFFFFFFFFFFFFFFFF))
             (ucast (t2 AND 0xFFFFFFFFFFFFFFFF)) (ucast (t3 AND 0xFFFFFFFFFFFFFFFF))" and c: "c = drop_bit 64 t3"
    using assms(1) unfolding sc64_reduce_256.simps Let_def x0_def [symmetric] x1_def [symmetric] x2_def [symmetric]
      x3_def [symmetric] t1_def [symmetric] t2_def [symmetric] t3_def [symmetric]
    by simp_all
  have p4: "unat (ucast p4 :: u128) = unat p4"
    by (rule unat_ucast_small) (use assms(2) in simp)
  have m: "unat (ucast x * ucast p4 :: u128) = unat x * unat p4" if "unat x < 2 ^ 63" for x :: u64
  proof (subst unat_mult128)
    have "unat x * unat p4 \<le> 2 ^ 63 * 2" using that assms(2) by (intro mult_le_mono) simp_all
    then show "unat (ucast x :: u128) * unat (ucast p4 :: u128) < 2 ^ 128" by (simp add: unat_ucast_64_128 p4)
  qed (simp add: unat_ucast_64_128 p4)
  have n: "unat p0 < 2 ^ 64" "unat p1 < 2 ^ 64" "unat p2 < 2 ^ 64" "unat p3 < 2 ^ 64" by (rule unat_64)+
  have u: "unat x0 = unat p0 + 0x402DA1732FC9BEBF * unat p4" "unat x1 = unat p1 + 0x4551231950B75FC4 * unat p4"
    "unat x2 = unat p2 + unat p4" "unat x3 = unat p3"
    unfolding x0_def x1_def x2_def x3_def
    by (subst unat_add128; use n assms(2) in \<open>simp add: m unat_NC unat_ucast_64_128 p4\<close>)+
       (simp add: unat_ucast_64_128)
  have b: "unat x0 < 2 ^ 127" "unat x1 < 2 ^ 127" "unat x2 < 2 ^ 127" "unat x3 < 2 ^ 127"
    unfolding u using n assms(2) by simp_all
  show ?thesis
    unfolding r c carry4 [OF t1_def t2_def t3_def b] u by (simp add: order_compl_def)
qed

text \<open>Folding the part above bit 256 back in does not change the residue.\<close>

lemma fold_order: "(L + H * order_compl) mod group_order = (L + 2 ^ 256 * H) mod group_order"
proof -
  have "L + 2 ^ 256 * H = (L + H * order_compl) + H * group_order"
    using order_compl by (metis add.assoc add.commute distrib_left mult.commute)
  then show ?thesis by (simp only: mod_mult_self1)
qed

lemma sc64_reduce_512_correct:
  "sc64_val (sc64_reduce_512 l) = limbs8 l mod group_order"
proof -
  obtain m0 m1 m2 m3 m4 m5 m6 where m: "sc64_reduce_385 l = (m0, m1, m2, m3, m4, m5, m6)"
    by (rule prod_cases7)
  obtain p0 p1 p2 p3 p4 where p: "sc64_reduce_258 (m0, m1, m2, m3, m4, m5, m6) = (p0, p1, p2, p3, p4)"
    by (rule prod_cases5)
  obtain r c where r: "sc64_reduce_256 (p0, p1, p2, p3, p4) = (r, c)" by (rule prod.exhaust)
  note 1 = sc64_reduce_385_val [OF m]
  have less4: "unat x0 + 2 ^ 64 * unat x1 + 2 ^ 128 * unat x2 + 2 ^ 192 * unat x3 < 2 ^ 256" for x0 x1 x2 x3 :: u64
    using sc64_val_less [of "Sc64 x0 x1 x2 x3"] by simp
  have H: "unat m4 + 2 ^ 64 * unat m5 + 2 ^ 128 * unat m6 \<le> order_compl"
    using 1(1) less4 [of "l ! 0" "l ! 1" "l ! 2" "l ! 3"] less4 [of "l ! 4" "l ! 5" "l ! 6" "l ! 7"]
    by (simp add: order_compl_def)
  note 2 = sc64_reduce_258_val [OF p H 1(2)]
  note 3 = sc64_reduce_256_val [OF r 2(2)]
  define T where "T = sc64_val r + unat c * 2 ^ 256"
  have T: "T = unat p0 + 2 ^ 64 * unat p1 + 2 ^ 128 * unat p2 + 2 ^ 192 * unat p3 + unat p4 * order_compl"
    unfolding T_def using 3 by simp
  have Tl: "T < 2 * group_order" "T < 2 ^ 256 + 2 * order_compl"
    unfolding T using less4 [of p0 p1 p2 p3] 2(2) by (simp_all add: order_compl_def group_order_def)
  have Tm: "T mod group_order = limbs8 l mod group_order"
  proof -
    have "T mod group_order = (unat p0 + 2 ^ 64 * unat p1 + 2 ^ 128 * unat p2 + 2 ^ 192 * unat p3
        + 2 ^ 256 * unat p4) mod group_order"
      unfolding T by (rule fold_order)
    also have "\<dots> = (unat m0 + 2 ^ 64 * unat m1 + 2 ^ 128 * unat m2 + 2 ^ 192 * unat m3
        + 2 ^ 256 * (unat m4 + 2 ^ 64 * unat m5 + 2 ^ 128 * unat m6)) mod group_order"
      unfolding 2(1) by (rule fold_order)
    also have "\<dots> = limbs8 l mod group_order"
      unfolding 1(1) fold_order by (simp add: limbs8_def add.assoc)
    finally show ?thesis .
  qed
  have c1: "unat c \<le> 1" using Tl(2) unfolding T_def order_compl_def by simp
  have nb: "\<not> (unat c = 1 \<and> sc64_check_overflow r)"
    using Tl(2) unfolding T_def sc64_check_overflow_iff order_compl_def by (auto simp: group_order_def)
  have f: "(unat c = 1 \<or> sc64_check_overflow r) = (group_order \<le> sc64_val r + unat c * 2 ^ 256)"
    unfolding sc64_check_overflow_iff using c1 by (auto simp: le_Suc_eq group_order_def)
  obtain r' ov where r': "sc64_reduce r (of_bool (unat c = 1 \<or> sc64_check_overflow r)) = (r', ov)"
    by (rule prod.exhaust)
  have "sc64_reduce_512 l = r'"
    unfolding sc64_reduce_512_def Let_def m p r prod.case ucast_flag [OF c1 nb] r' by simp
  then show ?thesis
    using sc64_reduce_mod [OF r' f _ c1] Tl(1) Tm unfolding T_def by simp
qed

lemma sc64_mul_correct: "sc64_val (sc64_mul a b) = sc64_val a * sc64_val b mod group_order"
  unfolding sc64_mul_def sc64_reduce_512_correct by (simp add: sc64_mul_512_val)

lemma sc64_sqr_correct: "sc64_val (sc64_sqr a) = sc64_val a * sc64_val a mod group_order"
  unfolding sc64_sqr_def sc64_reduce_512_correct by (simp add: sc64_sqr_512_val)

end
