(* ===== verification/Scalar_4x64_Bits.thy ===== *)
theory Scalar_4x64_Bits
  imports Scalar_4x64_Reduce
begin

text \<open>
  Bit windows, shifts and byte strings of scalars (scalar_4x64_impl.h), the interpretation of the
  contract of scalar.h on the record of these operations, and the properties of the module.
\<close>

section \<open>Bits of limbs\<close>

primrec le64 :: "u64 list \<Rightarrow> nat" where
  "le64 [] = 0"
| "le64 (x # xs) = unat x + 2 ^ 64 * le64 xs"

lemma bit_le64: "bit (le64 l) j \<longleftrightarrow> j < 64 * length l \<and> bit (l ! (j div 64)) (j mod 64)"
proof (induction l arbitrary: j)
  case (Cons x xs)
  have e: "le64 (x # xs) = le64 xs * 2 ^ 64 + unat x" by simp
  show ?case
  proof (cases "j < 64")
    case True
    then show ?thesis unfolding e bit_add_low [OF unat_64] by (simp add: bit_unat)
  next
    case False
    then obtain i where j: "j = 64 + i" by (metis add.commute le_add_diff_inverse2 not_less)
    have d: "j div 64 = Suc (i div 64)" "j mod 64 = i mod 64" unfolding j by simp_all
    show ?thesis unfolding e bit_add_low [OF unat_64] by (simp add: False Cons.IH d, simp add: j)
  qed
qed simp

definition limbs4 :: "sc64 \<Rightarrow> u64 list" where
  "limbs4 a = [sd0 a, sd1 a, sd2 a, sd3 a]"

lemma sc64_val_le64: "sc64_val a = le64 (limbs4 a)"
  unfolding sc64_val_sel limbs4_def by simp

lemma bit_sc64_val: "bit (sc64_val a) j \<longleftrightarrow> j < 256 \<and> bit (sc64_limb a (j div 64)) (j mod 64)"
  unfolding sc64_val_le64 bit_le64 by (simp add: sc64_limb_def limbs4_def)

lemma limbs8_le64: "length l = 8 \<Longrightarrow> limbs8 l = le64 l"
proof -
  assume l: "length l = 8"
  have "l = map (nth l) [0..<8]" unfolding l [symmetric] by (rule map_nth [symmetric])
  then have "l = [l ! 0, l ! 1, l ! 2, l ! 3, l ! 4, l ! 5, l ! 6, l ! 7]" by (simp add: upt_rec numeral_eq_Suc)
  then have "le64 l = le64 [l ! 0, l ! 1, l ! 2, l ! 3, l ! 4, l ! 5, l ! 6, l ! 7]" by (rule arg_cong)
  then show "limbs8 l = le64 l" unfolding limbs8_def by simp
qed

lemma bit_div_mod: "bit (n div 2 ^ i mod 2 ^ c) j \<longleftrightarrow> j < c \<and> bit n (i + j)" for n :: nat
  by (simp flip: drop_bit_eq_div take_bit_eq_mod add: bit_take_bit_iff bit_drop_bit_eq)

lemma bit_div: "bit (n div 2 ^ i) j \<longleftrightarrow> bit n (i + j)" for n :: nat
  by (simp flip: drop_bit_eq_div add: bit_drop_bit_eq)

lemma push_bit_mask: "push_bit c 1 - 1 = (mask c :: 'a::len word)"
  by (simp add: mask_eq_exp_minus_1 push_bit_eq_mult)

lemma div_mod_64_add:
  fixes i j :: nat
  assumes "i mod 64 + j < 64"
  shows "(i + j) div 64 = i div 64" "(i + j) mod 64 = i mod 64 + j"
proof -
  have "i + j = i div 64 * 64 + (i mod 64 + j)" by simp
  then show "(i + j) div 64 = i div 64" "(i + j) mod 64 = i mod 64 + j"
    using assms by (metis div_mult_self3 add.commute add_0 div_less zero_neq_numeral, metis mod_mult_self3 mod_less)
qed

lemma div_mod_64_next:
  fixes i j :: nat
  assumes "64 \<le> i mod 64 + j" "j < 64"
  shows "(i + j) div 64 = Suc (i div 64)" "(i + j) mod 64 = i mod 64 + j - 64"
proof -
  have "i + j = Suc (i div 64) * 64 + (i mod 64 + j - 64)" using assms by simp
  moreover have "i mod 64 + j - 64 < 64" using assms by (simp add: less_diff_conv2 add.commute add_less_le_mono)
  ultimately show "(i + j) div 64 = Suc (i div 64)" "(i + j) mod 64 = i mod 64 + j - 64"
    by (metis div_mult_self3 add.commute add_0 div_less zero_neq_numeral, metis mod_mult_self3 mod_less)
qed

lemma divmod64I: "j = 64 * i + t \<Longrightarrow> t < 64 \<Longrightarrow> j div 64 = i \<and> j mod 64 = t" for i j t :: nat
  by simp

lemma high_bit64: "\<not> k < 64 \<Longrightarrow> \<not> bit x k" for x :: u64
  by (auto dest: bit_imp_le_length)

section \<open>Windows\<close>

lemma sc64_get_bits_bit:
  assumes "i mod 64 + c \<le> 64" "i < 256" "0 < c" "c < 32"
  shows "unat (sc64_get_bits a i c) = sc64_val a div 2 ^ i mod 2 ^ c"
proof (rule bit_eqI)
  fix j
  have "j < c \<Longrightarrow> i + j < 256"
  proof -
    assume "j < c"
    then have "(i + j) div 64 = i div 64" using assms(1) by (intro div_mod_64_add) simp
    moreover have "i div 64 < 4" using assms(2) by simp
    ultimately have "(i + j) div 64 < 4" by simp
    then show "i + j < 256" by (simp add: div_less_iff_less_mult)
  qed
  then show "bit (unat (sc64_get_bits a i c)) j = bit (sc64_val a div 2 ^ i mod 2 ^ c) j"
    unfolding bit_unat bit_div_mod sc64_get_bits_def push_bit_mask and_mask_take bit_sc64_val
    using div_mod_64_add [of i j] assms
    by (auto simp: bit_ucast_iff bit_take_bit_iff bit_drop_bit_eq)
qed

lemma same_limb: "(i + c - 1) div 64 = i div 64 \<longleftrightarrow> i mod 64 + c \<le> 64" if "0 < c" "c \<le> 64" for i c :: nat
proof (cases "i mod 64 + c \<le> 64")
  case True
  then show ?thesis using div_mod_64_add [of i "c - 1"] that by simp
next
  case False
  then show ?thesis using div_mod_64_next [of i "c - 1"] that by simp
qed

lemma sc64_get_bits_correct:
  assumes "0 < c" "c < 32" "i + c \<le> 256" "(i + c - 1) div 32 = i div 32"
  shows "unat (sc64_get_bits a i c) = sc64_val a div 2 ^ i mod 2 ^ c"
proof (rule sc64_get_bits_bit)
  have "(i + c - 1) div 32 div 2 = i div 32 div 2" using assms(4) by simp
  then have "(i + c - 1) div 64 = i div 64" by (simp only: div_mult2_eq [symmetric]) simp
  then show "i mod 64 + c \<le> 64" using same_limb assms(1,2) by simp
qed (use assms in simp_all)

lemma sc64_get_bits_var_correct:
  assumes "0 < c" "c < 32" "i + c \<le> 256"
  shows "unat (sc64_get_bits_var a i c) = sc64_val a div 2 ^ i mod 2 ^ c"
proof (cases "(i + c - 1) div 64 = i div 64")
  case True
  then have "i mod 64 + c \<le> 64" using same_limb assms by simp
  then show ?thesis
    unfolding sc64_get_bits_var_def using True sc64_get_bits_bit assms by simp
next
  case False
  then have gt: "64 < i mod 64 + c" using same_limb assms by simp
  show ?thesis
  proof (rule bit_eqI)
    fix j
    have s: "bit (drop_bit (i mod 64) (sc64_limb a (i div 64)) OR push_bit (64 - i mod 64) (sc64_limb a (i div 64 + 1))) j
        = bit (sc64_val a) (i + j)" if "j < c"
    proof (cases "i mod 64 + j < 64")
      case True
      then show ?thesis
        unfolding bit_sc64_val div_mod_64_add [OF True] using that assms
        by (auto simp: bit_or_iff bit_drop_bit_eq bit_push_bit_iff)
    next
      case False
      have j: "j < 64" using that assms by simp
      have "\<not> bit (sc64_limb a (i div 64)) (i mod 64 + j)"
        using False by (auto dest: bit_imp_le_length)
      then show ?thesis
        unfolding bit_sc64_val div_mod_64_next [OF False [unfolded not_less] j] using that assms False j
        by (auto simp: bit_or_iff bit_drop_bit_eq bit_push_bit_iff add.commute)
    qed
    show "bit (unat (sc64_get_bits_var a i c)) j = bit (sc64_val a div 2 ^ i mod 2 ^ c) j"
      unfolding bit_unat bit_div_mod sc64_get_bits_var_def push_bit_mask and_mask_take
      using False assms by (cases "j < c") (simp_all add: bit_ucast_iff bit_take_bit_iff s [unfolded Suc_eq_plus1 [symmetric]] del: take_bit_or)
  qed
qed

section \<open>Shifts\<close>

lemma or_eq_plus:
  "(\<And>j. bit x j \<Longrightarrow> \<not> bit y j) \<Longrightarrow> x + y = x OR y" for x y :: "'a::len word"
  by (rule disjunctive_add_eq_or, rule bit_eqI) (auto simp: bit_and_iff)

lemma shr_plus: "0 < n \<Longrightarrow> n < 64 \<Longrightarrow> drop_bit n x + push_bit (64 - n) y = drop_bit n x OR push_bit (64 - n) y"
  for x y :: u64
  by (rule or_eq_plus) (auto simp: bit_drop_bit_eq bit_push_bit_iff dest: bit_imp_le_length)

text \<open>A 64-bit window \<open>s\<close> bits into limb \<open>i\<close>, the next limb filling it up.\<close>

lemma window_bit:
  fixes x y :: u64
  assumes "t < 64" "s < 64"
  shows "bit (drop_bit s x OR (if s \<noteq> 0 then push_bit (64 - s) y else 0)) t
       \<longleftrightarrow> (if s + t < 64 then bit x (s + t) else bit y (s + t - 64))"
  using assms
  by (auto simp: bit_or_iff bit_drop_bit_eq bit_push_bit_iff dest: bit_imp_le_length)
     (simp_all add: add.commute)

lemma sc64_shr_int_correct:
  assumes n: "0 < n" "n < 16" and r: "sc64_shr_int a n = (r, l)"
  shows "sc64_val r = sc64_val a div 2 ^ n \<and> unat l = sc64_val a mod 2 ^ n"
proof
  have e: "r = Sc64 (drop_bit n (sd0 a) OR push_bit (64 - n) (sd1 a)) (drop_bit n (sd1 a) OR push_bit (64 - n) (sd2 a))
      (drop_bit n (sd2 a) OR push_bit (64 - n) (sd3 a)) (drop_bit n (sd3 a))"
    and l: "l = ucast (sd0 a AND ucast (push_bit n 1 - 1 :: cint))"
    using r n unfolding sc64_shr_int_def by (simp_all add: shr_plus)
  have w: "bit (drop_bit n x OR push_bit (64 - n) y) t \<longleftrightarrow> (if n + t < 64 then bit x (n + t) else bit y (n + t - 64))"
    if "t < 64" for t and x y :: u64
    using window_bit [OF that, of n x y] n by simp
  show "sc64_val r = sc64_val a div 2 ^ n"
  proof (rule bit_eqI)
    fix j
    show "bit (sc64_val r) j = bit (sc64_val a div 2 ^ n) j"
    proof (cases "j < 256")
      case True
      define i t where "i = j div 64" and "t = j mod 64"
      have j: "j = 64 * i + t" "t < 64" "i < 4" using True by (auto simp: i_def t_def)
      have i: "i = 0 \<or> i = 1 \<or> i = 2 \<or> i = 3" using j(3) by linarith
      show ?thesis
      proof (cases "n + t < 64")
        case True
        moreover have "n + j = 64 * i + (n + t)" using j by simp
        ultimately have "(n + j) div 64 = i" "(n + j) mod 64 = n + t" using divmod64I by blast+
        then show ?thesis
          unfolding bit_div bit_sc64_val using j i True
          by (auto simp: sc64_limb_def e w bit_drop_bit_eq)
      next
        case False
        then have "n + j = 64 * (i + 1) + (n + t - 64)" "n + t - 64 < 64" using j n by simp_all
        then have "(n + j) div 64 = i + 1" "(n + j) mod 64 = n + t - 64" using divmod64I by blast+
        then show ?thesis
          unfolding bit_div bit_sc64_val using j i False n
          by (auto simp: sc64_limb_def e w bit_drop_bit_eq high_bit64)
      qed
    qed (simp add: bit_div bit_sc64_val)
  qed
  have "(ucast (push_bit n 1 - 1 :: cint) :: u64) = mask n"
    unfolding push_bit_mask by (rule bit_eqI) (use n in \<open>auto simp: bit_ucast_iff bit_mask_iff\<close>)
  then have "unat l = unat (sd0 a) mod 2 ^ n"
  proof -
    assume m: "(ucast (push_bit n 1 - 1 :: cint) :: u64) = mask n"
    have "unat (sd0 a) mod 2 ^ n < 2 ^ n" by simp
    also have "\<dots> \<le> 2 ^ LENGTH(32)" using n by (intro power_increasing) simp_all
    finally show ?thesis unfolding l m by (subst unat_ucast_small) (simp_all only: unat_and_mask)
  qed
  also have "\<dots> = sc64_val a mod 2 ^ n"
  proof -
    have "(2 :: nat) ^ 64 = 2 ^ n * 2 ^ (64 - n)" using n by (simp flip: power_add)
    then have "sc64_val a = unat (sd0 a) + 2 ^ n * (2 ^ (64 - n) * (unat (sd1 a) + 2 ^ 64 * unat (sd2 a) + 2 ^ 128 * unat (sd3 a)))"
      unfolding sc64_val_sel by (simp add: mult.assoc [symmetric])
    then show ?thesis by (simp only: mod_mult_self2)
  qed
  finally show "unat l = sc64_val a mod 2 ^ n" .
qed

section \<open>Adding a bit\<close>

lemma unat_push_of_bool: "s < 64 \<Longrightarrow> unat (push_bit s (of_bool P) :: u64) = of_bool P * 2 ^ s"
proof -
  assume s: "s < 64"
  have "(2 :: nat) ^ s < 2 ^ 64" using s by (intro power_strict_increasing) simp_all
  then have "unat (0 OR push_bit s (1 :: u64)) = unat (0 :: u64) + 2 ^ s * unat (1 :: u64)"
    using s by (intro unat_or_push_bit) simp_all
  then show ?thesis by (cases P) simp_all
qed

lemma sc64_cadd_bit_correct:
  assumes i: "i < 256" and less: "sc64_val a + (if f then 2 ^ i else 0) < 2 ^ 256"
  shows "sc64_val (sc64_cadd_bit a i f) = sc64_val a + (if f then 2 ^ i else 0)"
proof -
  define pos where "pos = (of_nat i + ((of_bool f - 1) AND 0x100) :: u32)"
  have pos: "unat pos = i + 256 * of_bool (\<not> f)"
    unfolding pos_def using i by (cases f) (simp_all add: unat_of_nat take_bit_eq_mod unat_word_ariths)
  define s where "s = i mod 64"
  have s: "unat (pos AND 0x3F) = s" "s < 64"
  proof -
    have "(0x3F :: u32) = mask 6" by (simp add: mask_eq_exp_minus_1)
    then have "unat (pos AND 0x3F) = unat pos mod 2 ^ 6" by (simp only: unat_and_mask)
    then show "unat (pos AND 0x3F) = s" unfolding pos s_def using mod_mult_self2 [of i 64 4] by (cases f) simp_all
  qed (simp add: s_def)
  have q: "drop_bit 6 pos = k \<longleftrightarrow> f \<and> i div 64 = unat k" if "unat k < 4" for k
    unfolding word_unat_eq_iff unat_drop pos using that by (cases f) simp_all
  define x where "x y k = (ucast y + ucast (push_bit s (of_bool (drop_bit 6 pos = k)) :: u64) :: u128)" for y :: u64 and k
  have x: "unat (x y k) = unat y + of_bool (f \<and> i div 64 = unat k) * 2 ^ s" "unat (x y k) < 2 ^ 127" if "unat k < 4" for y k
  proof -
    show e: "unat (x y k) = unat y + of_bool (f \<and> i div 64 = unat k) * 2 ^ s"
      unfolding x_def unat_ucast_sum unat_push_of_bool [OF s(2)] q [OF that] ..
    have "(2 :: nat) ^ s \<le> 2 ^ 64" using s(2) by (intro power_increasing) simp_all
    then show "unat (x y k) < 2 ^ 127"
      unfolding e using unat_64 [of y] by (cases "f \<and> i div 64 = unat k") (simp_all del: unat_64)
  qed
  have k: "unat (0 :: u32) < 4" "unat (1 :: u32) < 4" "unat (2 :: u32) < 4" "unat (3 :: u32) < 4" by simp_all
  define t1 where "t1 = drop_bit 64 (x (sd0 a) 0) + x (sd1 a) 1"
  define t2 where "t2 = drop_bit 64 t1 + x (sd2 a) 2"
  define t3 where "t3 = drop_bit 64 t2 + x (sd3 a) 3"
  have r: "sc64_cadd_bit a i f = Sc64 (ucast (x (sd0 a) 0 AND 0xFFFFFFFFFFFFFFFF)) (ucast (t1 AND 0xFFFFFFFFFFFFFFFF))
             (ucast (t2 AND 0xFFFFFFFFFFFFFFFF)) (ucast (t3 AND 0xFFFFFFFFFFFFFFFF))"
    unfolding sc64_cadd_bit_def Let_def pos_def [symmetric] s(1) x_def [symmetric] t1_def [symmetric]
      t2_def [symmetric] t3_def [symmetric] ..
  have d: "i = 64 * (i div 64) + s" "i div 64 < 4" using i by (simp_all add: s_def)
  have "i div 64 = 0 \<or> i div 64 = 1 \<or> i div 64 = 2 \<or> i div 64 = 3" using d(2) by linarith
  then have "of_bool (f \<and> i div 64 = 0) * 2 ^ s + 2 ^ 64 * (of_bool (f \<and> i div 64 = 1) * 2 ^ s)
      + 2 ^ 128 * (of_bool (f \<and> i div 64 = 2) * 2 ^ s) + 2 ^ 192 * (of_bool (f \<and> i div 64 = 3) * 2 ^ s)
      = (if f then 2 ^ i else 0 :: nat)"
    by (subst (5) d(1)) (elim disjE; cases f; simp add: power_add)
  then have "sc64_val (sc64_cadd_bit a i f) + 2 ^ 256 * unat (drop_bit 64 t3) = sc64_val a + (if f then 2 ^ i else 0)"
    unfolding r carry4 [OF t1_def t2_def t3_def x(2) x(2) x(2) x(2), OF k] x(1) [OF k(1)] x(1) [OF k(2)] x(1) [OF k(3)]
      x(1) [OF k(4)] sc64_val_sel [of a]
    by (simp add: distrib_left)
  moreover define T where "T = sc64_val a + (if f then 2 ^ i else 0)"
  ultimately show ?thesis using less unfolding T_def [symmetric] by (cases "unat (drop_bit 64 t3)") simp_all
qed

section \<open>Rounded products\<close>

text \<open>Limb \<open>i\<close> of the product shifted right by \<open>k\<close>: the code guards every access to \<open>l\<close>.\<close>

definition shifted_limb :: "u64 list \<Rightarrow> nat \<Rightarrow> nat \<Rightarrow> u64" where
  "shifted_limb l k i =
     (if i + k div 64 < 8 then drop_bit (k mod 64) (l ! (i + k div 64))
        OR (if i + k div 64 < 7 \<and> k mod 64 \<noteq> 0 then push_bit (64 - k mod 64) (l ! (i + 1 + k div 64)) else 0)
      else 0)"

lemma shifted_limb_bit:
  assumes "length l = 8" "t < 64"
  shows "bit (shifted_limb l k i) t \<longleftrightarrow> bit (le64 l) (64 * i + t + k)"
proof -
  define q s where "q = i + k div 64" and "s = k mod 64"
  have e: "64 * i + t + k = 64 * q + (s + t)" "s < 64" unfolding q_def s_def by simp_all
  have w: "bit (drop_bit s x OR (if P \<and> s \<noteq> 0 then push_bit (64 - s) y else 0)) t
       \<longleftrightarrow> (if s + t < 64 then bit x (s + t) else P \<and> bit y (s + t - 64))" for x y :: u64 and P
    using window_bit [OF assms(2) e(2), of x y] assms(2) e(2)
    by (cases P) (auto simp: bit_drop_bit_eq high_bit64)
  have sl: "bit (shifted_limb l k i) t
      \<longleftrightarrow> q < 8 \<and> (if s + t < 64 then bit (l ! q) (s + t) else q < 7 \<and> bit (l ! (q + 1)) (s + t - 64))"
  proof -
    have "i + k div 64 = q" "i + 1 + k div 64 = q + 1" by (simp_all add: q_def)
    then show ?thesis unfolding shifted_limb_def s_def [symmetric] by (cases "q < 8") (simp_all only: w if_True if_False, simp_all)
  qed
  show ?thesis
  proof (cases "s + t < 64")
    case True
    then have "(64 * q + (s + t)) div 64 = q \<and> (64 * q + (s + t)) mod 64 = s + t" by (intro divmod64I) simp_all
    then show ?thesis unfolding sl bit_le64 e(1) assms(1) using True by auto
  next
    case False
    then have "(64 * q + (s + t)) div 64 = q + 1 \<and> (64 * q + (s + t)) mod 64 = s + t - 64"
      using assms(2) e(2) by (intro divmod64I) simp_all
    then show ?thesis unfolding sl bit_le64 e(1) assms(1) using False assms(2) e(2) by auto
  qed
qed

lemma round_shift: "X div 2 ^ Suc k + of_bool (bit X k) = (X + 2 ^ k) div 2 ^ Suc k" for X :: nat
proof -
  have b: "bit X k \<longleftrightarrow> X div 2 ^ k mod 2 = 1" by (simp add: bit_iff_odd odd_iff_mod_2_eq_one)
  have "X div 2 ^ Suc k = X div 2 ^ k div 2" unfolding power_Suc2 div_mult2_eq ..
  moreover have "(X + 2 ^ k) div 2 ^ Suc k = (X div 2 ^ k + 1) div 2"
    unfolding power_Suc2 div_mult2_eq by (subst div_add_self2) simp_all
  moreover have "Y div 2 + of_bool (Y mod 2 = 1) = (Y + 1) div 2" for Y :: nat
    by (cases "even Y") (auto elim!: evenE oddE)
  ultimately show ?thesis unfolding b by simp
qed

lemma sc64_mul_shift_correct:
  assumes k: "256 \<le> k" "k \<le> 512"
  shows "sc64_val (sc64_mul_shift_var a b k) = (sc64_val a * sc64_val b + 2 ^ (k - 1)) div 2 ^ k"
proof -
  define l where "l = sc64_mul_512 a b"
  define X where "X = sc64_val a * sc64_val b"
  have len: "length l = 8" and X: "le64 l = X"
    using sc64_mul_512_val [of a b] limbs8_le64 [of l] unfolding l_def X_def by simp_all
  define r where "r = Sc64 (shifted_limb l k 0) (shifted_limb l k 1) (shifted_limb l k 2) (shifted_limb l k 3)"
  have Xb: "X \<le> (2 ^ 256 - 1) * (2 ^ 256 - 1)"
  proof -
    have "sc64_val a \<le> 2 ^ 256 - 1" "sc64_val b \<le> 2 ^ 256 - 1" using sc64_val_less [of a] sc64_val_less [of b] by linarith+
    then show ?thesis unfolding X_def by (rule mult_le_mono)
  qed
  have rv: "sc64_val r = X div 2 ^ k"
  proof (rule bit_eqI)
    fix j
    show "bit (sc64_val r) j = bit (X div 2 ^ k) j"
    proof (cases "j < 256")
      case True
      define i t where "i = j div 64" and "t = j mod 64"
      have j: "j = 64 * i + t" "t < 64" "i < 4" using True by (auto simp: i_def t_def)
      have "i = 0 \<or> i = 1 \<or> i = 2 \<or> i = 3" using j(3) by linarith
      then have "sc64_limb r i = shifted_limb l k i" by (auto simp: sc64_limb_def r_def)
      then have "bit (sc64_val r) j = bit (shifted_limb l k i) t"
        unfolding bit_sc64_val using True divmod64I [OF j(1,2)] by simp
      also have "\<dots> = bit X (j + k)" unfolding shifted_limb_bit [OF len j(2)] X j(1) ..
      finally show ?thesis by (simp add: bit_div add.commute)
    next
      case False
      have "X < 2 ^ 512" using Xb by simp
      then have "\<not> bit X (k + j)" using bit_nat_bound [of X 512 "k + j"] False k by auto
      then show ?thesis using False by (simp add: bit_sc64_val bit_div)
    qed
  qed
  obtain k' where k': "k = Suc k'" "k - 1 = k'" using k(1) by (cases k) simp_all
  have f: "drop_bit ((k - 1) mod 64) (l ! ((k - 1) div 64)) AND 1 \<noteq> 0 \<longleftrightarrow> bit X (k - 1)"
  proof -
    have "(k - 1) div 64 < 8" using k by (simp add: div_less_iff_less_mult)
    then have "bit X (k - 1) \<longleftrightarrow> bit (l ! ((k - 1) div 64)) ((k - 1) mod 64)"
      unfolding X [symmetric] bit_le64 len using k by auto
    also have "\<dots> \<longleftrightarrow> bit (drop_bit ((k - 1) mod 64) (l ! ((k - 1) div 64))) 0"
      by (simp add: bit_drop_bit_eq)
    also have "\<dots> \<longleftrightarrow> drop_bit ((k - 1) mod 64) (l ! ((k - 1) div 64)) AND 1 \<noteq> 0"
      by (simp add: and_one_eq bit_0 mod_2_eq_odd)
    finally show ?thesis by simp
  qed
  have c: "(k < 512) = (0 + k div 64 < 8)" "(k < 448) = (0 + k div 64 < 7)" "(k < 448) = (1 + k div 64 < 8)"
    "(k < 384) = (1 + k div 64 < 7)" "(k < 384) = (2 + k div 64 < 8)" "(k < 320) = (2 + k div 64 < 7)"
    "(k < 320) = (3 + k div 64 < 8)" "\<not> 3 + k div 64 < 7"
    using k by (auto simp: div_less_iff_less_mult less_diff_conv2)
  have "sc64_mul_shift_var a b k = sc64_cadd_bit r 0 (bit X (k - 1))"
    unfolding sc64_mul_shift_var_def Let_def l_def [symmetric] f r_def shifted_limb_def
    using c by simp
  moreover have "sc64_val r + (if bit X (k - 1) then 2 ^ 0 else 0) < 2 ^ 256"
  proof -
    have "X div 2 ^ k \<le> X div 2 ^ 256" using k(1) by (intro div_le_mono2 power_increasing) simp_all
    also have "\<dots> \<le> (2 ^ 256 - 1) * (2 ^ 256 - 1) div 2 ^ 256" by (rule div_le_mono [OF Xb])
    finally have "sc64_val r \<le> (2 ^ 256 - 1) * (2 ^ 256 - 1) div 2 ^ 256" unfolding rv .
    then have "sc64_val r < 2 ^ 256 - 1" by simp
    then show ?thesis by (cases "bit X (k - 1)") simp_all
  qed
  ultimately have "sc64_val (sc64_mul_shift_var a b k) = X div 2 ^ k + of_bool (bit X (k - 1))"
    using sc64_cadd_bit_correct [of 0 r "bit X (k - 1)"] rv by simp
  also have "\<dots> = (X + 2 ^ (k - 1)) div 2 ^ k" unfolding k'(2) unfolding k'(1) by (rule round_shift)
  finally show ?thesis unfolding X_def .
qed

section \<open>Bytes, words and halves\<close>

lemma sc64_const_correct: "sc64_val (sc64_const d7 d6 d5 d4 d3 d2 d1 d0) = words_nat d7 d6 d5 d4 d3 d2 d1 d0"
proof -
  have p: "unat (push_bit 32 (ucast h) OR ucast l :: u64) = unat l + 2 ^ 32 * unat h" for h l :: u32
    unfolding or.commute [of "push_bit 32 (ucast h)"]
    by (subst unat_or_push_bit) (use unat_32 [of l] unat_32 [of h] in \<open>simp_all add: unat_ucast_32_64 del: unat_32\<close>)
  show ?thesis unfolding sc64_const_def sc64_val.simps p words_nat_def by simp
qed

lemma take_drop_Suc: "i < length b \<Longrightarrow> take (Suc n) (drop i b) = b ! i # take n (drop (Suc i) b)"
  by (simp flip: Cons_nth_drop_Suc)

lemma sc64_load_limb_val:
  assumes "i + 8 \<le> length b"
  shows "unat (sc64_load_limb b i) = be_nat (take 8 (drop i b))"
proof -
  define x where "x j = (ucast (b ! (i + j)) :: u64)" for j
  have x: "unat (x j) = unat (b ! (i + j))" "unat (x j) < 2 ^ 8" for j
    unfolding x_def unat_ucast_8_64 by (rule refl unat_8)+
  have s: "unat (y OR push_bit k (x j)) = unat y + 2 ^ k * unat (x j)" if "unat y < 2 ^ k" "k \<le> 56" for y k j
  proof (rule unat_or_push_bit [OF that(1)])
    have "unat (x j) * 2 ^ k < 2 ^ 8 * 2 ^ k" using x(2) by simp
    also have "\<dots> \<le> 2 ^ 8 * (2 ^ 56 :: nat)" using that(2) by (intro mult_le_mono2 power_increasing) simp_all
    finally show "unat (x j) * 2 ^ k < 2 ^ 64" by simp
  qed (use that in simp)
  note b = x(2) [of 0] x(2) [of 1] x(2) [of 2] x(2) [of 3] x(2) [of 4] x(2) [of 5] x(2) [of 6] x(2) [of 7]
  have l: "sc64_load_limb b i = ((((((x 7 OR push_bit 8 (x 6)) OR push_bit 16 (x 5)) OR push_bit 24 (x 4))
      OR push_bit 32 (x 3)) OR push_bit 40 (x 2)) OR push_bit 48 (x 1)) OR push_bit 56 (x 0)"
    unfolding sc64_load_limb_def x_def by (simp add: or.assoc)
  have "unat (sc64_load_limb b i) = unat (x 7) + 2 ^ 8 * unat (x 6) + 2 ^ 16 * unat (x 5) + 2 ^ 24 * unat (x 4)
      + 2 ^ 32 * unat (x 3) + 2 ^ 40 * unat (x 2) + 2 ^ 48 * unat (x 1) + 2 ^ 56 * unat (x 0)"
    unfolding l using b by (simp add: s del: unat_64)
  moreover have "take 8 (drop i b) = [b ! (i + 0), b ! (i + 1), b ! (i + 2), b ! (i + 3), b ! (i + 4), b ! (i + 5),
      b ! (i + 6), b ! (i + 7)]"
    using assms by (simp add: numeral_eq_Suc take_drop_Suc)
  ultimately show ?thesis by (simp only: x be_nat.simps) simp
qed

lemma sc64_set_b32_correct:
  assumes "length bs = 32" "sc64_set_b32 bs = (r, ov)"
  shows "sc64_val r = be_nat bs mod group_order \<and> ov = (group_order \<le> be_nat bs)"
proof -
  define s where "s = Sc64 (sc64_load_limb bs 24) (sc64_load_limb bs 16) (sc64_load_limb bs 8) (sc64_load_limb bs 0)"
  have d: "bs = take 8 (drop 0 bs) @ take 8 (drop 8 bs) @ take 8 (drop 16 bs) @ take 8 (drop 24 bs)"
  proof -
    have "drop k bs = take 8 (drop k bs) @ drop (8 + k) bs" for k
      using append_take_drop_id [of 8 "drop k bs", symmetric] unfolding drop_drop .
    from this [of 0] this [of 8] this [of 16] show ?thesis using assms(1) by simp
  qed
  have s: "sc64_val s = be_nat bs"
    by (subst d) (simp add: be_nat_append s_def sc64_load_limb_val assms(1))
  obtain r' c where r': "sc64_reduce s (of_bool (sc64_check_overflow s)) = (r', c)" by (rule prod.exhaust)
  have r: "r = r'" "ov = (c \<noteq> 0)"
    using assms(2) unfolding sc64_set_b32_def Let_def s_def [symmetric] r' by simp_all
  have f: "sc64_check_overflow s = (group_order \<le> sc64_val s + 0 * 2 ^ 256)"
    by (simp add: sc64_check_overflow_iff)
  have "sc64_val s + 0 * 2 ^ 256 < 2 * group_order"
    using sc64_val_less [of s] by (simp add: group_order_def)
  from sc64_reduce_mod [OF r' f this] have "sc64_val r' = sc64_val s mod group_order" by simp
  moreover have "c = of_bool (sc64_check_overflow s)" using sc64_reduce_val [OF r'] by simp
  ultimately show ?thesis unfolding r s by (simp add: sc64_check_overflow_iff s)
qed

lemma bytes_of_limb:
  "be_nat [ucast (drop_bit 56 d), ucast (drop_bit 48 d), ucast (drop_bit 40 d), ucast (drop_bit 32 d),
     ucast (drop_bit 24 d), ucast (drop_bit 16 d), ucast (drop_bit 8 d), ucast d] = unat d" (is "be_nat ?l = _")
  for d :: u64
proof (rule be_nat_eqI [where n = 8])
  fix i m :: nat
  assume i: "i < 8" and m: "m < 8"
  have "i = 0 \<or> i = 1 \<or> i = 2 \<or> i = 3 \<or> i = 4 \<or> i = 5 \<or> i = 6 \<or> i = 7" using i by linarith
  then show "bit (?l ! (8 - 1 - i)) m = bit (unat d) (8 * i + m)"
    using m by (elim disjE) (simp_all add: bit_unat bit_ucast_iff bit_drop_bit_eq)
qed (use unat_64 [of d] in simp_all)

lemma sc64_get_b32_correct: "length (sc64_get_b32 a) = 32 \<and> be_nat (sc64_get_b32 a) = sc64_val a"
proof
  define f :: "u64 \<Rightarrow> u8 list" where "f d = [ucast (drop_bit 56 d), ucast (drop_bit 48 d), ucast (drop_bit 40 d),
     ucast (drop_bit 32 d), ucast (drop_bit 24 d), ucast (drop_bit 16 d), ucast (drop_bit 8 d), ucast d]" for d
  have g: "sc64_get_b32 a = f (sd3 a) @ f (sd2 a) @ f (sd1 a) @ f (sd0 a)"
    unfolding sc64_get_b32_def f_def by (simp only: list.map concat.simps append_Nil2)
  have l: "length (f d) = 8" and v: "be_nat (f d) = unat d" for d
    unfolding f_def by (simp, rule bytes_of_limb)
  show "length (sc64_get_b32 a) = 32" unfolding g by (simp add: l)
  show "be_nat (sc64_get_b32 a) = sc64_val a"
    unfolding g be_nat_append v sc64_val_sel by (simp add: l)
qed

lemma sc64_split_128_correct:
  assumes "sc64_split_128 a = (r1, r2)"
  shows "sc64_val r1 = sc64_val a mod 2 ^ 128 \<and> sc64_val r2 = sc64_val a div 2 ^ 128"
proof -
  have r: "r1 = Sc64 (sd0 a) (sd1 a) 0 0" "r2 = Sc64 (sd2 a) (sd3 a) 0 0"
    using assms unfolding sc64_split_128_def by simp_all
  have e: "sc64_val a = sc64_val r1 + 2 ^ 128 * sc64_val r2" unfolding r sc64_val_sel [of a] by simp
  have "sc64_val r1 < 2 ^ 128" unfolding r using unat_64 [of "sd0 a"] unat_64 [of "sd1 a"] by simp
  then show ?thesis unfolding e by simp
qed

section \<open>The contract of scalar.h\<close>

definition sc64_ops :: "sc64 scalar_ops" where
  "sc64_ops = \<lparr>
     sc_const = sc64_const, sc_clear = sc64_clear, sc_get_bits = sc64_get_bits,
     sc_get_bits_var = sc64_get_bits_var, sc_set_b32 = sc64_set_b32, sc_set_int = sc64_set_int,
     sc_get_b32 = sc64_get_b32, sc_add = sc64_add, sc_cadd_bit = sc64_cadd_bit, sc_mul = sc64_mul,
     sc_shr_int = sc64_shr_int, sc_sqr = sc64_sqr, sc_negate = sc64_negate, sc_is_zero = sc64_is_zero,
     sc_is_one = sc64_is_one, sc_is_even = sc64_is_even, sc_is_high = sc64_is_high,
     sc_cond_negate = sc64_cond_negate, sc_eq = sc64_eq, sc_split_128 = sc64_split_128,
     sc_mul_shift_var = sc64_mul_shift_var\<rparr>"

lemma sc64_ops_sel [simp]:
  "sc_const sc64_ops = sc64_const" "sc_clear sc64_ops = sc64_clear" "sc_get_bits sc64_ops = sc64_get_bits"
  "sc_get_bits_var sc64_ops = sc64_get_bits_var" "sc_set_b32 sc64_ops = sc64_set_b32"
  "sc_set_int sc64_ops = sc64_set_int" "sc_get_b32 sc64_ops = sc64_get_b32" "sc_add sc64_ops = sc64_add"
  "sc_cadd_bit sc64_ops = sc64_cadd_bit" "sc_mul sc64_ops = sc64_mul" "sc_shr_int sc64_ops = sc64_shr_int"
  "sc_sqr sc64_ops = sc64_sqr" "sc_negate sc64_ops = sc64_negate" "sc_is_zero sc64_ops = sc64_is_zero"
  "sc_is_one sc64_ops = sc64_is_one" "sc_is_even sc64_ops = sc64_is_even" "sc_is_high sc64_ops = sc64_is_high"
  "sc_cond_negate sc64_ops = sc64_cond_negate" "sc_eq sc64_ops = sc64_eq"
  "sc_split_128 sc64_ops = sc64_split_128" "sc_mul_shift_var sc64_ops = sc64_mul_shift_var"
  by (simp_all add: sc64_ops_def)

interpretation s64: scalar_impl sc64_ops sc64_val
proof (unfold_locales, unfold sc64_ops_sel)
  fix w show "sc64_val (sc64_set_int w) = unat w" by (simp add: sc64_set_int_def unat_ucast_32_64)
qed (rule sc64_val_less sc64_val_inj sc64_const_correct sc64_get_bits_correct sc64_get_bits_var_correct
      sc64_set_b32_correct sc64_get_b32_correct sc64_add_correct sc64_cadd_bit_correct sc64_mul_correct
      sc64_shr_int_correct sc64_sqr_correct sc64_negate_correct sc64_is_zero_iff sc64_is_one_iff
      sc64_is_even_iff sc64_is_high_iff sc64_cond_negate_correct sc64_eq_iff sc64_split_128_correct
      sc64_mul_shift_correct | simp add: sc64_clear_def; assumption)+

end
