(* ===== verification/Ecdsa_Der.thy ===== *)
theory Ecdsa_Der
  imports Scalar_Interface "HOL-Library.Monad_Syntax"
begin

text \<open>
  Parsing and serialising signatures in DER (ecdsa_impl.h).  A pointer into the input is an
  index into the list of its bytes.  A read outside the list is undefined behaviour and makes the
  whole function undefined (\<open>None\<close>): that this never happens is a theorem.  A defined result of a
  parser is again an option, \<open>None\<close> where the code returns 0.
\<close>

section \<open>Reading the input\<close>

definition rd :: "u8 list \<Rightarrow> nat \<Rightarrow> u8 option" where
  "rd m p = (if p < length m then Some (m ! p) else None)"

definition rd_range :: "u8 list \<Rightarrow> nat \<Rightarrow> nat \<Rightarrow> u8 list option" where
  "rd_range m p n = (if p + n \<le> length m then Some (take n (drop p m)) else None)"

section \<open>Definitions\<close>

text \<open>
  The loop over the octets of a long-form length: \<open>ret\<close> is a \<open>size_t\<close>.  The result is the length
  and the new position, or \<open>None\<close> inside for the early return of -1.
\<close>

fun der_len_loop :: "u8 list \<Rightarrow> nat \<Rightarrow> u64 \<Rightarrow> nat \<Rightarrow> nat \<Rightarrow> (u64 \<times> nat) option option" where
  "der_len_loop sig sigend ret p 0 = Some (Some (ret, p))"
| "der_len_loop sig sigend ret p (Suc lenleft) =
     do {
       b \<leftarrow> rd sig p;
       let ret = push_bit 8 ret OR ucast b;
       if of_nat (sigend - p) < ret + of_nat (Suc lenleft) then Some None
       else der_len_loop sig sigend ret (p + 1) lenleft
     }"

text \<open>The result is a C \<open>int\<close>: a \<open>size_t\<close> is converted to it.\<close>

definition der_read_len :: "u8 list \<Rightarrow> nat \<Rightarrow> nat \<Rightarrow> (int \<times> nat) option" where
  "der_read_len sig p sigend =
     (if sigend \<le> p then Some (- 1, p)
      else do {
        b1 \<leftarrow> rd sig p;
        let p = p + 1;
        if b1 = 0xFF then Some (- 1, p)
        else if b1 AND 0x80 = 0 then Some (int (unat b1), p)
        else if b1 = 0x80 then Some (- 1, p)
        else
          let lenleft = unat (b1 AND 0x7F)
          in if sigend - p < lenleft then Some (- 1, p)
             else do {
               b \<leftarrow> rd sig p;
               if b = 0 then Some (- 1, p)
               else if 8 < lenleft then Some (- 1, p)
               else do {
                 l \<leftarrow> der_len_loop sig sigend 0 p lenleft;
                 (case l of
                    None \<Rightarrow> Some (- 1, p)
                  | Some (ret, p) \<Rightarrow> Some (if ret < 128 then - 1 else sint (ucast ret :: cint), p))
               }
             }
      })"

text \<open>\<open>while (rlen > 0 && **sig == 0)\<close>\<close>

fun der_skip_zeros :: "u8 list \<Rightarrow> nat \<Rightarrow> nat \<Rightarrow> (nat \<times> nat) option" where
  "der_skip_zeros sig p 0 = Some (p, 0)"
| "der_skip_zeros sig p (Suc rlen) =
     do {
       b \<leftarrow> rd sig p;
       if b = 0 then der_skip_zeros sig (p + 1) rlen else Some (p, Suc rlen)
     }"

definition der_parse_integer :: "'s scalar_ops \<Rightarrow> u8 list \<Rightarrow> nat \<Rightarrow> nat \<Rightarrow> ('s \<times> nat) option option" where
  "der_parse_integer S sig p sigend =
     do {
       absent \<leftarrow> (if p = sigend then Some True else do { b \<leftarrow> rd sig p; Some (b \<noteq> 0x02) });
       if absent then Some None
       else do {
         (rlen, p) \<leftarrow> der_read_len sig (p + 1) sigend;
         if rlen \<le> 0 \<or> sigend < p + nat rlen then Some None
         else do {
           let rlen = nat rlen;
           b0 \<leftarrow> rd sig p;
           pad0 \<leftarrow> (if b0 = 0x00 \<and> 1 < rlen then do { b1 \<leftarrow> rd sig (p + 1); Some (b1 AND 0x80 = 0x00) } else Some False);
           padF \<leftarrow> (if b0 = 0xFF \<and> 1 < rlen then do { b1 \<leftarrow> rd sig (p + 1); Some (b1 AND 0x80 = 0x80) } else Some False);
           if pad0 then Some None
           else if padF then Some None
           else do {
             let overflow = (b0 AND 0x80 = 0x80);
             (p, rlen) \<leftarrow> der_skip_zeros sig p rlen;
             let overflow = (overflow \<or> 32 < rlen);
             (r, overflow) \<leftarrow>
               (if \<not> overflow then do {
                  bs \<leftarrow> rd_range sig p rlen;
                  Some (sc_set_b32 S (replicate (32 - rlen) 0 @ bs))
                } else Some (sc_set_int S 0, overflow));
             let r = (if overflow then sc_set_int S 0 else r);
             Some (Some (r, p + rlen))
           }
         }
       }
     }"

definition ecdsa_sig_parse :: "'s scalar_ops \<Rightarrow> u8 list \<Rightarrow> ('s \<times> 's) option option" where
  "ecdsa_sig_parse S sig =
     (let sigend = length sig
      in do {
        absent \<leftarrow> (if sigend = 0 then Some True else do { b \<leftarrow> rd sig 0; Some (b \<noteq> 0x30) });
        if absent then Some None
        else do {
          (rlen, p) \<leftarrow> der_read_len sig 1 sigend;
          if rlen < 0 \<or> sigend < p + nat rlen then Some None
          else if p + nat rlen \<noteq> sigend then Some None
          else do {
            ri \<leftarrow> der_parse_integer S sig p sigend;
            (case ri of
               None \<Rightarrow> Some None
             | Some (rr, p) \<Rightarrow>
                 do {
                   si \<leftarrow> der_parse_integer S sig p sigend;
                   (case si of
                      None \<Rightarrow> Some None
                    | Some (rs, p) \<Rightarrow> if p \<noteq> sigend then Some None else Some (Some (rr, rs)))
                 })
          }
        }
      })"

text \<open>\<open>while (lenR > 1 && rp[0] == 0 && rp[1] < 0x80) { lenR--; rp++; }\<close>\<close>

fun der_trim :: "u8 list \<Rightarrow> u8 list" where
  "der_trim (b0 # b1 # bs) = (if b0 = 0 \<and> b1 < 0x80 then der_trim (b1 # bs) else b0 # b1 # bs)"
| "der_trim bs = bs"

text \<open>The verdict, the new \<open>*size\<close> and the bytes written.\<close>

definition ecdsa_sig_serialize :: "'s scalar_ops \<Rightarrow> nat \<Rightarrow> 's \<Rightarrow> 's \<Rightarrow> bool \<times> nat \<times> u8 list" where
  "ecdsa_sig_serialize S sz ar as =
     (let rp = der_trim (0 # sc_get_b32 S ar);
          sp = der_trim (0 # sc_get_b32 S as);
          lenR = length rp;
          lenS = length sp
      in if sz < 6 + lenS + lenR then (False, 6 + lenS + lenR, [])
         else (True, 6 + lenS + lenR,
               [0x30, of_nat (4 + lenS + lenR), 0x02, of_nat lenR] @ rp @ [0x02, of_nat lenS] @ sp))"

section \<open>Minimal integers\<close>

text \<open>
  The contents octets DER allows for a non-negative integer: not negative and without a redundant
  leading zero.
\<close>

fun der_minimal :: "u8 list \<Rightarrow> bool" where
  "der_minimal [] = False"
| "der_minimal [b] = (b < 0x80)"
| "der_minimal (b0 # b1 # bs) = (b0 < 0x80 \<and> (b0 = 0 \<longrightarrow> 0x80 \<le> b1))"

lemma less80: "b < 0x80 \<longleftrightarrow> unat b < 128" for b :: u8
  by (simp add: word_less_nat_alt)

lemma minimal_upper: "der_minimal c \<Longrightarrow> be_nat c < 128 * 256 ^ (length c - 1)"
proof (cases c)
  case (Cons b bs)
  assume m: "der_minimal c"
  then have "unat b < 128" unfolding Cons by (cases bs) (simp_all add: less80)
  then have "unat b * 256 ^ length bs \<le> 127 * 256 ^ length bs" by (intro mult_le_mono1) simp
  moreover have e: "be_nat c = unat b * 256 ^ length bs + be_nat bs" "length c - 1 = length bs" by (simp_all add: Cons)
  ultimately show ?thesis unfolding e using be_nat_less [of bs] by linarith
qed simp

lemma minimal_lower:
  assumes "der_minimal c" "1 < length c"
  shows "128 * 256 ^ (length c - 2) \<le> be_nat c"
proof -
  obtain b0 b1 bs where c: "c = b0 # b1 # bs" using assms(2) by (cases c; cases "tl c") auto
  show ?thesis
  proof (cases "b0 = 0")
    case True
    then have "128 \<le> unat b1" using assms(1) unfolding c by (simp add: word_le_nat_alt)
    then have "128 * 256 ^ length bs \<le> unat b1 * 256 ^ length bs" by (rule mult_le_mono1)
    moreover have e: "be_nat c = unat b1 * 256 ^ length bs + be_nat bs" "length c - 2 = length bs"
      using True by (simp_all add: c)
    ultimately show ?thesis unfolding e by linarith
  next
    case False
    then have "1 \<le> unat b0" by (simp add: Suc_le_eq word_unat_eq_iff)
    then have "1 * 256 ^ Suc (length bs) \<le> unat b0 * 256 ^ Suc (length bs)" by (rule mult_le_mono1)
    also have "\<dots> \<le> be_nat c" by (simp add: c)
    finally have "256 * 256 ^ length bs \<le> be_nat c" by simp
    moreover have "length c - 2 = length bs" by (simp add: c)
    ultimately show ?thesis by simp
  qed
qed

lemma minimal_length_le:
  assumes "der_minimal c" "der_minimal d" "be_nat c = be_nat d"
  shows "length c \<le> length d"
proof (rule ccontr)
  assume "\<not> length c \<le> length d"
  moreover have "0 < length d" using assms(2) by (cases d) simp_all
  ultimately have l: "1 < length c" "length d - 1 \<le> length c - 2" by linarith+
  have "(256 :: nat) ^ (length d - 1) \<le> 256 ^ (length c - 2)" using l(2) by (intro power_increasing) simp_all
  then show False
    using minimal_upper [OF assms(2)] minimal_lower [OF assms(1) l(1)] assms(3) by linarith
qed

lemma minimal_unique: "der_minimal c \<Longrightarrow> der_minimal d \<Longrightarrow> be_nat c = be_nat d \<Longrightarrow> c = d"
  by (intro be_nat_inj antisym minimal_length_le) simp_all

lemma trim_minimal: "hd c < 0x80 \<Longrightarrow> c \<noteq> [] \<Longrightarrow> der_minimal (der_trim c)"
  by (induction c rule: der_trim.induct) auto

lemma trim_value: "be_nat (der_trim c) = be_nat c"
  by (induction c rule: der_trim.induct) auto

lemma trim_length: "length (der_trim c) \<le> length c"
  by (induction c rule: der_trim.induct) auto

lemma minimal_not_Nil: "der_minimal c \<Longrightarrow> 0 < length c"
  by (cases c) auto

lemma skip_leading: "be_nat (replicate n 0 @ bs) = be_nat bs"
  by (induction n) simp_all

section \<open>Lengths\<close>

lemma and7F: "unat (b AND 0x7F) = unat b mod 128" for b :: u8
proof -
  have "(0x7F :: u8) = mask 7" by (simp add: mask_eq_exp_minus_1)
  then show ?thesis by (simp only: unat_and_mask) simp
qed

lemma and80: "b AND 0x80 = 0 \<longleftrightarrow> unat b < 128" "b AND 0x80 = 0x80 \<longleftrightarrow> 128 \<le> unat b" for b :: u8
proof -
  have "(0x80 :: u8) = 2 ^ 7" by simp
  then have m: "bit (0x80 :: u8) n \<longleftrightarrow> n = 7" for n by (simp only: bit_exp_iff possible_bit_word) auto
  have "bit b 7 \<longleftrightarrow> odd (unat b div 2 ^ 7)" by (simp only: bit_unat [symmetric] bit_iff_odd)
  also have "\<dots> \<longleftrightarrow> 128 \<le> unat b"
  proof -
    have "unat b < 256" using unat_8 [of b] by simp
    then have "unat b div 128 = (if 128 \<le> unat b then 1 else 0)" by (auto simp: div_nat_eqI)
    then show ?thesis by simp
  qed
  finally have b: "bit b 7 \<longleftrightarrow> 128 \<le> unat b" .
  have "b AND 0x80 = (if bit b 7 then 0x80 else 0)"
    by (rule bit_eqI) (auto simp: bit_and_iff m simp del: bit_numeral_word_iff)
  then show "b AND 0x80 = 0 \<longleftrightarrow> unat b < 128" "b AND 0x80 = 0x80 \<longleftrightarrow> 128 \<le> unat b"
    using b by (simp_all add: not_le)
qed

lemma sint_cint: "unat x < 2 ^ 31 \<Longrightarrow> sint x = int (unat x)" for x :: cint
proof -
  assume "unat x < 2 ^ 31"
  then have "int (unat x) < int (2 ^ 31)" by (rule of_nat_less_iff [THEN iffD2])
  then have "uint x < 2 ^ 31" by (simp only: of_nat_unat of_nat_power of_nat_numeral)
  then have "signed_take_bit 31 (uint x) = uint x"
    by (intro signed_take_bit_int_eq_self order_trans [OF _ uint_ge_0]) simp_all
  then show ?thesis by (simp add: sint_uint)
qed

lemma der_len_loop_defined:
  assumes "length sig < 2 ^ 31" "unat ret < 2 ^ 31" "p + n \<le> length sig" "n \<le> 8"
  shows "\<exists>l. der_len_loop sig (length sig) ret p n = Some l \<and>
    (\<forall>ret' p'. l = Some (ret', p') \<longrightarrow> unat ret' < 2 ^ 31 \<and> p' = p + n)"
  using assms(2-4)
proof (induction n arbitrary: ret p)
  case (Suc n)
  define ret1 where "ret1 = push_bit 8 ret OR ucast (sig ! p)"
  have b: "unat (ucast (sig ! p) :: u64) < 2 ^ 8" by (simp only: unat_ucast_8_64 unat_8)
  have "unat (ucast (sig ! p) OR push_bit 8 ret) = unat (ucast (sig ! p) :: u64) + 2 ^ 8 * unat ret"
    by (rule unat_or_push_bit [OF b]) (use Suc.prems(1) in simp_all)
  then have ret1: "unat ret1 < 2 ^ 40" unfolding ret1_def or.commute [of "push_bit 8 ret"] using b Suc.prems(1) by simp
  have s: "unat (ret1 + of_nat (Suc n)) = unat ret1 + Suc n"
    by (subst unat_add64) (use ret1 Suc.prems(3) in \<open>simp_all add: unat_of_nat take_bit_eq_mod del: of_nat_Suc\<close>)
  have l: "unat (of_nat (length sig - p) :: u64) = length sig - p"
    using assms(1) by (simp add: unat_of_nat take_bit_eq_mod)
  have rd: "rd sig p = Some (sig ! p)" using Suc.prems(2) by (simp add: rd_def)
  show ?case
  proof (cases "of_nat (length sig - p) < ret1 + of_nat (Suc n)")
    case True
    then show ?thesis by (simp add: rd Let_def ret1_def del: of_nat_Suc)
  next
    case False
    then have "unat ret1 + Suc n \<le> length sig - p"
      using s l by (simp only: word_less_nat_alt not_less)
    then have "unat ret1 < 2 ^ 31" using assms(1) by linarith
    from Suc.IH [OF this, of "p + 1"] Suc.prems(2,3) show ?thesis
      using False by (simp add: rd Let_def ret1_def del: of_nat_Suc)
  qed
qed simp

text \<open>
  Reading a length never leaves the input; a length below 128 is the single byte of the short
  form.
\<close>

lemma der_read_len_defined:
  assumes "length sig < 2 ^ 31" "p \<le> length sig"
  obtains ret p' where "der_read_len sig p (length sig) = Some (ret, p')" "p' \<le> length sig"
    "0 \<le> ret \<Longrightarrow> ret < 128 \<Longrightarrow> p < length sig \<and> p' = p + 1 \<and> ret = int (unat (sig ! p))"
    "0 \<le> ret \<Longrightarrow> p < p'"
proof (cases "p = length sig")
  case True
  show ?thesis by (rule that [of "- 1" p]) (simp_all add: der_read_len_def True)
next
  case False
  then have p: "p < length sig" using assms(2) by simp
  define b where "b = sig ! p"
  have rd: "rd sig p = Some b" using p by (simp add: rd_def b_def)
  define n where "n = unat (b AND 0x7F)"
  consider (bad) "der_read_len sig p (length sig) = Some (- 1, p + 1)"
    | (short) "b AND 0x80 = 0" "b \<noteq> 0xFF" "der_read_len sig p (length sig) = Some (int (unat b), p + 1)"
    | (long) "p + 1 + n \<le> length sig" "n \<le> 8" "der_read_len sig p (length sig) =
        Option.bind (der_len_loop sig (length sig) 0 (p + 1) n)
          (case_option (Some (- 1, p + 1)) (\<lambda>(ret, p). Some (if ret < 128 then - 1 else sint (ucast ret :: cint), p)))"
  proof (cases "b = 0xFF \<or> b = 0x80 \<and> b AND 0x80 \<noteq> 0")
    case True
    then show ?thesis using p by (intro that(1)) (auto simp: der_read_len_def rd Let_def)
  next
    case notbad: False
    show ?thesis
    proof (cases "b AND 0x80 = 0")
      case True
      then show ?thesis using notbad p by (intro that(2)) (auto simp: der_read_len_def rd Let_def)
    next
      case long: False
      show ?thesis
      proof (cases "length sig - (p + 1) < n")
        case True
        then show ?thesis using notbad long p by (intro that(1)) (auto simp: der_read_len_def rd Let_def n_def)
      next
        case fits: False
        have "n \<noteq> 0"
        proof
          assume "n = 0"
          then have "unat b mod 128 = 0" unfolding n_def and7F .
          moreover have "128 \<le> unat b" "unat b < 256" using long and80 [of b] unat_8 [of b] by simp_all
          ultimately have "unat b = 128" by presburger
          then have "b = 0x80" by (simp add: word_unat_eq_iff)
          then show False using notbad by simp
        qed
        then have rd1: "rd sig (Suc p) = Some (sig ! Suc p)" using fits p by (simp add: rd_def)
        show ?thesis
        proof (cases "sig ! Suc p = 0 \<or> 8 < n")
          case True
          then show ?thesis using notbad long fits p by (intro that(1)) (auto simp: der_read_len_def rd rd1 Let_def n_def)
        next
          case False
          then show ?thesis using notbad long fits p
            by (intro that(3)) (auto simp: der_read_len_def rd rd1 Let_def n_def)
        qed
      qed
    qed
  qed
  then show ?thesis
  proof cases
    case bad
    show ?thesis by (rule that [OF bad]) (use p in simp_all)
  next
    case short
    show ?thesis by (rule that [OF short(3)]) (use p in \<open>simp_all add: b_def\<close>)
  next
    case long
    obtain l where l: "der_len_loop sig (length sig) 0 (p + 1) n = Some l"
      "\<And>ret' p'. l = Some (ret', p') \<Longrightarrow> unat ret' < 2 ^ 31 \<and> p' = p + 1 + n"
      using der_len_loop_defined [of sig 0 "p + 1" n] assms(1) long(1,2) by auto
    show ?thesis
    proof (cases l)
      case None
      show ?thesis by (rule that [of "- 1" "p + 1"]) (use p in \<open>simp_all add: long(3) l(1) [simplified] None\<close>)
    next
      case (Some a)
      obtain ret' p' where a: "a = (ret', p')" by (rule prod.exhaust)
      note r = l(2) [OF Some [unfolded a]]
      have u: "unat (ucast ret' :: cint) = unat ret'" using r by (intro unat_ucast_small) simp
      then have s: "sint (ucast ret' :: cint) = int (unat ret')" using r by (intro trans [OF sint_cint]) simp_all
      show ?thesis
      proof (cases "ret' < 128")
        case True
        show ?thesis by (rule that [of "- 1" p']) (use long(1) r in \<open>simp_all add: long(3) l(1) [simplified] Some a True\<close>)
      next
        case False
        then have g: "128 \<le> unat ret'" by (simp add: word_less_nat_alt)
        have e: "der_read_len sig p (length sig) = Some (int (unat ret'), p')"
          using False by (simp add: long(3) l(1) [simplified] Some a s)
        show ?thesis
          by (rule that [OF e]) (use long(1) r g in \<open>simp_all del: of_nat_unat\<close>)
      qed
    qed
  qed
qed

end
