(* ===== verification/Scalar_Impl.thy ===== *)
theory Scalar_Impl
  imports Scalar_4x64_Bits
begin

text \<open>
  The part of the scalar module that both representations share (scalar_impl.h): the inverse by
  Fermat's little theorem and the decomposition of a scalar along the endomorphism.  The
  functions call only operations of \<open>scalar_ops\<close>; their lemmas are proved under its contract.
\<close>

section \<open>Definitions\<close>

primrec sc_sqr_n :: "'s scalar_ops \<Rightarrow> nat \<Rightarrow> 's \<Rightarrow> 's" where
  "sc_sqr_n S 0 t = t"
| "sc_sqr_n S (Suc n) t = sc_sqr_n S n (sc_sqr S t)"

text \<open>First part of \<open>secp256k1_scalar_inverse\<close>: the powers 2^N - 1 the second part uses.\<close>

definition sc_inv_powers :: "'s scalar_ops \<Rightarrow> 's \<Rightarrow> 's \<times> 's \<times> 's \<times> 's \<times> 's \<times> 's" where
  "sc_inv_powers S x =
     (let x2 = sc_sqr S x; x2 = sc_mul S x2 x;
          x3 = sc_sqr S x2; x3 = sc_mul S x3 x;
          x4 = sc_sqr S x3; x4 = sc_mul S x4 x;
          x6 = sc_sqr S x4; x6 = sc_sqr S x6; x6 = sc_mul S x6 x2;
          x7 = sc_sqr S x6; x7 = sc_mul S x7 x;
          x8 = sc_sqr S x7; x8 = sc_mul S x8 x;
          x15 = sc_sqr S x8; x15 = sc_sqr_n S 6 x15; x15 = sc_mul S x15 x7;
          x30 = sc_sqr S x15; x30 = sc_sqr_n S 14 x30; x30 = sc_mul S x30 x15;
          x60 = sc_sqr S x30; x60 = sc_sqr_n S 29 x60; x60 = sc_mul S x60 x30;
          x120 = sc_sqr S x60; x120 = sc_sqr_n S 59 x120; x120 = sc_mul S x120 x60;
          x127 = sc_sqr S x120; x127 = sc_sqr_n S 6 x127; x127 = sc_mul S x127 x7
      in (x2, x3, x4, x6, x8, x127))"

text \<open>
  Second part: each entry stands for a loop of squarings of \<open>t\<close> followed by a product, in the
  order of the code.
\<close>

definition sc_inverse :: "'s scalar_ops \<Rightarrow> 's \<Rightarrow> 's" where
  "sc_inverse S x =
     (let (x2, x3, x4, x6, x8, x127) = sc_inv_powers S x
      in foldl (\<lambda>t (k, y). sc_mul S (sc_sqr_n S k t) y) x127
           [(2, x), (4, x3), (2, x), (2, x), (2, x), (4, x3), (3, x2), (4, x3), (5, x3), (4, x2), (2, x), (2, x),
            (5, x4), (2, x), (3, x), (4, x), (2, x), (10, x3), (4, x3), (9, x8), (2, x), (3, x), (3, x), (5, x4),
            (2, x), (5, x2), (4, x2), (2, x), (8, x2), (3, x2), (3, x), (6, x), (8, x6)])"

text \<open>The builtin inverse (\<open>USE_SCALAR_INV_BUILTIN\<close>) is selected.\<close>

definition sc_inverse_var :: "'s scalar_ops \<Rightarrow> 's \<Rightarrow> 's" where
  "sc_inverse_var S x = sc_inverse S x"

definition sc_split_lambda :: "'s scalar_ops \<Rightarrow> 's \<Rightarrow> 's \<times> 's" where
  "sc_split_lambda S a =
     (let minus_lambda = sc_const S 0xAC9C52B3 0x3FA3CF1F 0x5AD9E3FD 0x77ED9BA4
                                    0xA880B9FC 0x8EC739C2 0xE0CFC810 0xB51283CF;
          minus_b1 = sc_const S 0x00000000 0x00000000 0x00000000 0x00000000
                                0xE4437ED6 0x010E8828 0x6F547FA9 0x0ABFE4C3;
          minus_b2 = sc_const S 0xFFFFFFFF 0xFFFFFFFF 0xFFFFFFFF 0xFFFFFFFE
                                0x8A280AC5 0x0774346D 0xD765CDA8 0x3DB1562C;
          g1 = sc_const S 0x00000000 0x00000000 0x00000000 0x00003086
                          0xD221A7D4 0x6BCDE86C 0x90E49284 0xEB153DAB;
          g2 = sc_const S 0x00000000 0x00000000 0x00000000 0x0000E443
                          0x7ED6010E 0x88286F54 0x7FA90ABF 0xE4C42212;
          c1 = sc_mul_shift_var S a g1 272;
          c2 = sc_mul_shift_var S a g2 272;
          c1 = sc_mul S c1 minus_b1;
          c2 = sc_mul S c2 minus_b2;
          (r2, _) = sc_add S c1 c2;
          r1 = sc_mul S r2 minus_lambda;
          (r1, _) = sc_add S r1 a
      in (r1, r2))"

section \<open>The inverse\<close>

context scalar_impl
begin

definition pow_at :: "nat \<Rightarrow> 's \<Rightarrow> nat \<Rightarrow> bool" where
  "pow_at v x e \<longleftrightarrow> sval x mod group_order = v ^ e mod group_order"

lemma pow_at_mul: "pow_at v x e \<Longrightarrow> pow_at v y f \<Longrightarrow> pow_at v (sc_mul S x y) (e + f)"
  unfolding pow_at_def smul_law power_add mod_mod_trivial by (metis mod_mult_eq)

lemma pow_at_sqr: "pow_at v x e \<Longrightarrow> pow_at v (sc_sqr S x) (e * 2)"
  unfolding pow_at_def ssqr_law power_mult power2_eq_square mod_mod_trivial by (metis mod_mult_eq)

lemma pow_at_sqr_n: "pow_at v x e \<Longrightarrow> pow_at v (sc_sqr_n S n x) (e * 2 ^ n)"
proof (induction n arbitrary: x e)
  case (Suc n)
  from Suc.IH [OF pow_at_sqr [OF Suc.prems]] show ?case by (simp add: mult.assoc)
qed simp

lemma sqr_n_Suc: "sc_sqr_n S n (sc_sqr S x) = sc_sqr_n S (Suc n) x"
  by simp

lemma pow_at_block:
  assumes "pow_at v x (2 ^ m - 1)" "pow_at v y (2 ^ n - 1)"
  shows "pow_at v (sc_mul S (sc_sqr_n S n x) y) (2 ^ (m + n) - 1)"
proof -
  have "(2 ^ m - 1) * 2 ^ n + (2 ^ n - 1) = (2 ^ (m + n) - 1 :: nat)"
    by (simp add: power_add diff_mult_distrib)
  then show ?thesis using pow_at_mul [OF pow_at_sqr_n [OF assms(1), of n] assms(2)] by simp
qed

lemma inv_powers_law:
  assumes "pow_at v x 1"
  obtains x2 x3 x4 x6 x8 x127 where "sc_inv_powers S x = (x2, x3, x4, x6, x8, x127)"
    "pow_at v x2 (2 ^ 2 - 1)" "pow_at v x3 (2 ^ 3 - 1)" "pow_at v x4 (2 ^ 4 - 1)" "pow_at v x6 (2 ^ 6 - 1)"
    "pow_at v x8 (2 ^ 8 - 1)" "pow_at v x127 (2 ^ 127 - 1)"
proof -
  have 1: "pow_at v x (2 ^ 1 - 1)" using assms by simp
  have s1: "sc_sqr S y = sc_sqr_n S 1 y" for y by simp
  define x2 where "x2 = sc_mul S (sc_sqr_n S 1 x) x"
  have 2: "pow_at v x2 (2 ^ 2 - 1)" using pow_at_block [OF 1 1] unfolding x2_def by simp
  define x3 where "x3 = sc_mul S (sc_sqr_n S 1 x2) x"
  have 3: "pow_at v x3 (2 ^ 3 - 1)" using pow_at_block [OF 2 1] unfolding x3_def by simp
  define x4 where "x4 = sc_mul S (sc_sqr_n S 1 x3) x"
  have 4: "pow_at v x4 (2 ^ 4 - 1)" using pow_at_block [OF 3 1] unfolding x4_def by simp
  define x6 where "x6 = sc_mul S (sc_sqr_n S 2 x4) x2"
  have 6: "pow_at v x6 (2 ^ 6 - 1)" using pow_at_block [OF 4 2] unfolding x6_def by simp
  define x7 where "x7 = sc_mul S (sc_sqr_n S 1 x6) x"
  have 7: "pow_at v x7 (2 ^ 7 - 1)" using pow_at_block [OF 6 1] unfolding x7_def by simp
  define x8 where "x8 = sc_mul S (sc_sqr_n S 1 x7) x"
  have 8: "pow_at v x8 (2 ^ 8 - 1)" using pow_at_block [OF 7 1] unfolding x8_def by simp
  define x15 where "x15 = sc_mul S (sc_sqr_n S 7 x8) x7"
  have 15: "pow_at v x15 (2 ^ 15 - 1)" using pow_at_block [OF 8 7] unfolding x15_def by simp
  define x30 where "x30 = sc_mul S (sc_sqr_n S 15 x15) x15"
  have 30: "pow_at v x30 (2 ^ 30 - 1)" using pow_at_block [OF 15 15] unfolding x30_def by simp
  define x60 where "x60 = sc_mul S (sc_sqr_n S 30 x30) x30"
  have 60: "pow_at v x60 (2 ^ 60 - 1)" using pow_at_block [OF 30 30] unfolding x60_def by simp
  define x120 where "x120 = sc_mul S (sc_sqr_n S 60 x60) x60"
  have 120: "pow_at v x120 (2 ^ 120 - 1)" using pow_at_block [OF 60 60] unfolding x120_def by simp
  define x127 where "x127 = sc_mul S (sc_sqr_n S 7 x120) x7"
  have 127: "pow_at v x127 (2 ^ 127 - 1)" using pow_at_block [OF 120 7] unfolding x127_def by simp
  have n: "7 = Suc 6" "15 = Suc 14" "30 = Suc 29" "60 = Suc 59" "2 = Suc 1" by simp_all
  have "sc_inv_powers S x = (x2, x3, x4, x6, x8, x127)"
    unfolding sc_inv_powers_def Let_def x127_def x120_def x60_def x30_def x15_def x8_def x7_def x6_def x4_def x3_def x2_def n
    by (simp only: sc_sqr_n.simps One_nat_def)
  from this 2 3 4 6 8 127 show ?thesis by (rule that)
qed

lemma pow_at_steps:
  assumes "list_all2 (\<lambda>(k, y) (k', f). k = k' \<and> pow_at v y f) steps es" "pow_at v t e"
  shows "pow_at v (foldl (\<lambda>t (k, y). sc_mul S (sc_sqr_n S k t) y) t steps) (foldl (\<lambda>e (k, f). e * 2 ^ k + f) e es)"
  using assms
proof (induction steps es arbitrary: t e rule: list_all2_induct)
  case (Cons s ss f fs)
  obtain k y f' where sf: "s = (k, y)" "f = (k, f')" "pow_at v y f'"
    using Cons.hyps(1) by (cases s; cases f) auto
  have "pow_at v (sc_mul S (sc_sqr_n S k t) y) (e * 2 ^ k + f')"
    by (rule pow_at_mul [OF pow_at_sqr_n [OF Cons.prems] sf(3)])
  from Cons.IH [OF this] show ?case by (simp add: sf)
qed simp

lemma inverse_law: "sval (sc_inverse S x) = sval x ^ (group_order - 2) mod group_order"
proof -
  define v where "v = sval x"
  have 1: "pow_at v x 1" by (simp add: pow_at_def v_def)
  obtain x2 x3 x4 x6 x8 x127 where p: "sc_inv_powers S x = (x2, x3, x4, x6, x8, x127)"
    "pow_at v x2 (2 ^ 2 - 1)" "pow_at v x3 (2 ^ 3 - 1)" "pow_at v x4 (2 ^ 4 - 1)" "pow_at v x6 (2 ^ 6 - 1)"
    "pow_at v x8 (2 ^ 8 - 1)" "pow_at v x127 (2 ^ 127 - 1)"
    using 1 by (rule inv_powers_law)
  note e = p(2-6) [simplified]
  let ?steps = "[(2, x), (4, x3), (2, x), (2, x), (2, x), (4, x3), (3, x2), (4, x3), (5, x3), (4, x2), (2, x), (2, x),
            (5, x4), (2, x), (3, x), (4, x), (2, x), (10, x3), (4, x3), (9, x8), (2, x), (3, x), (3, x), (5, x4),
            (2, x), (5, x2), (4, x2), (2, x), (8, x2), (3, x2), (3, x), (6, x), (8, x6)] :: (nat \<times> 's) list"
  let ?es = "[(2, 1), (4, 7), (2, 1), (2, 1), (2, 1), (4, 7), (3, 3), (4, 7), (5, 7), (4, 3), (2, 1), (2, 1),
            (5, 15), (2, 1), (3, 1), (4, 1), (2, 1), (10, 7), (4, 7), (9, 255), (2, 1), (3, 1), (3, 1), (5, 15),
            (2, 1), (5, 3), (4, 3), (2, 1), (8, 3), (3, 3), (3, 1), (6, 1), (8, 63)] :: (nat \<times> nat) list"
  have l: "list_all2 (\<lambda>(k, y) (k', f). k = k' \<and> pow_at v y f) ?steps ?es"
    using e 1 by simp
  have "foldl (\<lambda>e (k, f). e * 2 ^ k + f) (2 ^ 127 - 1) ?es = group_order - 2"
    by (simp add: group_order_def)
  then have "pow_at v (sc_inverse S x) (group_order - 2)"
    using pow_at_steps [OF l p(7)] unfolding sc_inverse_def p(1) by simp
  moreover have "sval (sc_inverse S x) < group_order"
    unfolding sc_inverse_def p(1) by (simp add: smul_law)
  ultimately show ?thesis unfolding pow_at_def v_def by simp
qed

lemma inverse_wf: "swf (sc_inverse S x)"
  by (simp add: swf_def inverse_law)

end

section \<open>The decomposition along the endomorphism\<close>

definition sc_lambda :: nat where
  "sc_lambda = 0x5363AD4CC05C30E0A5261C028812645A122E22EA20816678DF02967C1B23BD72"

text \<open>
  The two halves for a scalar \<open>A\<close>: the roundings \<open>c1\<close>, \<open>c2\<close> and the combinations of the lattice
  basis (a1, b1), (a2, b2) of the comment in scalar_impl.h they select.
\<close>

definition lattice_c1 :: "nat \<Rightarrow> int" where
  "lattice_c1 A = int ((A * 0x3086D221A7D46BCDE86C90E49284EB153DAB + 2 ^ 271) div 2 ^ 272)"

definition lattice_c2 :: "nat \<Rightarrow> int" where
  "lattice_c2 A = int ((A * 0xE4437ED6010E88286F547FA90ABFE4C42212 + 2 ^ 271) div 2 ^ 272)"

definition lattice_k1 :: "nat \<Rightarrow> int" where
  "lattice_k1 A = int A - lattice_c1 A * 0x3086D221A7D46BCDE86C90E49284EB15
                        - lattice_c2 A * 0x114CA50F7A8E2F3F657C1108D9D44CFD8"

definition lattice_k2 :: "nat \<Rightarrow> int" where
  "lattice_k2 A = lattice_c1 A * 0xE4437ED6010E88286F547FA90ABFE4C3 - lattice_c2 A * 0x3086D221A7D46BCDE86C90E49284EB15"

lemma div_bounds:
  fixes x :: nat
  shows "2 ^ k * int (x div 2 ^ k) \<le> int x" "int x < 2 ^ k * int (x div 2 ^ k) + 2 ^ k"
proof -
  have "x div 2 ^ k * 2 ^ k + x mod 2 ^ k = x" by (rule div_mult_mod_eq)
  then have "int x = int (x div 2 ^ k) * 2 ^ k + int (x mod 2 ^ k)" by (metis of_nat_add of_nat_mult of_nat_numeral of_nat_power)
  moreover have "int (x mod 2 ^ k) < 2 ^ k" by (metis mod_less_pow2 of_nat_less_iff of_nat_numeral of_nat_power)
  ultimately show "2 ^ k * int (x div 2 ^ k) \<le> int x" "int x < 2 ^ k * int (x div 2 ^ k) + 2 ^ k"
    by (simp_all add: mult.commute)
qed

lemma lattice_bounds:
  assumes "A < 2 ^ 256"
  shows "\<bar>lattice_k1 A\<bar> < 2 ^ 128" "\<bar>lattice_k2 A\<bar> < 2 ^ 128"
proof -
  define a where "a = int A"
  have a: "0 \<le> a" "a < 2 ^ 256" unfolding a_def using of_nat_less_iff [where 'a = int, THEN iffD2, OF assms] by simp_all
  have c1: "2 ^ 272 * lattice_c1 A \<le> a * 0x3086D221A7D46BCDE86C90E49284EB153DAB + 2 ^ 271"
    "a * 0x3086D221A7D46BCDE86C90E49284EB153DAB + 2 ^ 271 < 2 ^ 272 * lattice_c1 A + 2 ^ 272"
    unfolding lattice_c1_def a_def
    using div_bounds [of 272 "A * 0x3086D221A7D46BCDE86C90E49284EB153DAB + 2 ^ 271"] by simp_all
  have c2: "2 ^ 272 * lattice_c2 A \<le> a * 0xE4437ED6010E88286F547FA90ABFE4C42212 + 2 ^ 271"
    "a * 0xE4437ED6010E88286F547FA90ABFE4C42212 + 2 ^ 271 < 2 ^ 272 * lattice_c2 A + 2 ^ 272"
    unfolding lattice_c2_def a_def
    using div_bounds [of 272 "A * 0xE4437ED6010E88286F547FA90ABFE4C42212 + 2 ^ 271"] by simp_all
  show "\<bar>lattice_k1 A\<bar> < 2 ^ 128" "\<bar>lattice_k2 A\<bar> < 2 ^ 128"
    unfolding lattice_k1_def lattice_k2_def a_def [symmetric] abs_less_iff
    using c1 c2 a by simp_all
qed

lemma add_mult_residue: "x = k mod n \<Longrightarrow> (x * c + y) mod n = (y + k * c) mod n" for x y c k n :: int
  by (metis add.commute mod_add_left_eq mod_mult_left_eq)

lemma lattice_relation:
  "int A + lattice_k2 A * 0xAC9C52B33FA3CF1F5AD9E3FD77ED9BA4A880B9FC8EC739C2E0CFC810B51283CF
   = lattice_k1 A + int group_order * (lattice_k2 A - lattice_c1 A * 98834128363575826231712400374302886273
       + lattice_c2 A * 21011179226632705335158493575954588082)"
  unfolding lattice_k1_def lattice_k2_def group_order_def by (simp add: algebra_simps)

context scalar_impl
begin

lemma split_lambda_law:
  assumes a: "sval a < group_order" and r: "sc_split_lambda S a = (r1, r2)"
  shows "swf r1" "swf r2"
    and "int (sval r1) = lattice_k1 (sval a) mod int group_order"
    and "int (sval r2) = lattice_k2 (sval a) mod int group_order"
    and "(sval r1 + sval r2 * sc_lambda) mod group_order = sval a"
proof -
  let ?n = "int group_order"
  define c1 where "c1 = sc_mul_shift_var S a (sc_const S 0x00000000 0x00000000 0x00000000 0x00003086
                          0xD221A7D4 0x6BCDE86C 0x90E49284 0xEB153DAB) 272"
  define c2 where "c2 = sc_mul_shift_var S a (sc_const S 0x00000000 0x00000000 0x00000000 0x0000E443
                          0x7ED6010E 0x88286F54 0x7FA90ABF 0xE4C42212) 272"
  have c: "int (sval c1) = lattice_c1 (sval a)" "int (sval c2) = lattice_c2 (sval a)"
    unfolding c1_def c2_def by (simp_all add: mul_shift_law sconst_law words_nat_def lattice_c1_def lattice_c2_def)
  define d1 where "d1 = sc_mul S c1 (sc_const S 0x00000000 0x00000000 0x00000000 0x00000000
                                0xE4437ED6 0x010E8828 0x6F547FA9 0x0ABFE4C3)"
  define d2 where "d2 = sc_mul S c2 (sc_const S 0xFFFFFFFF 0xFFFFFFFF 0xFFFFFFFF 0xFFFFFFFE
                                0x8A280AC5 0x0774346D 0xD765CDA8 0x3DB1562C)"
  have d: "sval d1 = sval c1 * 0xE4437ED6010E88286F547FA90ABFE4C3 mod group_order"
    "sval d2 = sval c2 * (group_order - 0x3086D221A7D46BCDE86C90E49284EB15) mod group_order"
    unfolding d1_def d2_def smul_law sconst_law by (simp_all add: words_nat_def group_order_def)
  obtain s o1 where s: "sc_add S d1 d2 = (s, o1)" by (rule prod.exhaust)
  have sv: "sval s = (sval d1 + sval d2) mod group_order"
    using sadd_law [OF _ _ s] by (simp add: d)
  define e where "e = sc_mul S s (sc_const S 0xAC9C52B3 0x3FA3CF1F 0x5AD9E3FD 0x77ED9BA4
                                    0xA880B9FC 0x8EC739C2 0xE0CFC810 0xB51283CF)"
  have ev: "sval e = sval s * 0xAC9C52B33FA3CF1F5AD9E3FD77ED9BA4A880B9FC8EC739C2E0CFC810B51283CF mod group_order"
    unfolding e_def smul_law sconst_law by (simp add: words_nat_def)
  obtain t o2 where t: "sc_add S e a = (t, o2)" by (rule prod.exhaust)
  have tv: "sval t = (sval e + sval a) mod group_order"
    using sadd_law [OF _ a t] by (simp add: ev)
  have rs: "r1 = t" "r2 = s"
    using r unfolding sc_split_lambda_def Let_def c1_def [symmetric] c2_def [symmetric] d1_def [symmetric]
      d2_def [symmetric] s prod.case e_def [symmetric] t by simp_all
  show "swf r1" "swf r2" unfolding rs swf_def sv tv by simp_all
  have "int (sval s) = (int (sval c1) * 0xE4437ED6010E88286F547FA90ABFE4C3
      + int (sval c2) * (?n - 0x3086D221A7D46BCDE86C90E49284EB15)) mod ?n"
    unfolding sv d zmod_int of_nat_add of_nat_mult mod_add_eq
    by (simp add: of_nat_diff group_order_def)
  also have "\<dots> = (lattice_k2 (sval a) + lattice_c2 (sval a) * ?n) mod ?n"
    unfolding c lattice_k2_def by (simp add: algebra_simps)
  finally show s2: "int (sval r2) = lattice_k2 (sval a) mod ?n" unfolding rs by simp
  have "int (sval t) = (int (sval s) * 0xAC9C52B33FA3CF1F5AD9E3FD77ED9BA4A880B9FC8EC739C2E0CFC810B51283CF + int (sval a)) mod ?n"
    unfolding tv ev zmod_int of_nat_add of_nat_mult by (simp add: mod_simps)
  also have "\<dots> = (int (sval a) + lattice_k2 (sval a) * 0xAC9C52B33FA3CF1F5AD9E3FD77ED9BA4A880B9FC8EC739C2E0CFC810B51283CF) mod ?n"
    by (rule add_mult_residue) (use s2 in \<open>simp only: rs\<close>)
  also have "\<dots> = lattice_k1 (sval a) mod ?n" unfolding lattice_relation by simp
  finally show "int (sval r1) = lattice_k1 (sval a) mod ?n" unfolding rs .
  have "(sval t + sval s * sc_lambda) mod group_order
      = (sval s * 0xAC9C52B33FA3CF1F5AD9E3FD77ED9BA4A880B9FC8EC739C2E0CFC810B51283CF + sval a + sval s * sc_lambda) mod group_order"
    unfolding tv ev by (simp add: mod_simps)
  also have "sval s * 0xAC9C52B33FA3CF1F5AD9E3FD77ED9BA4A880B9FC8EC739C2E0CFC810B51283CF + sval a + sval s * sc_lambda
      = sval a + sval s * group_order"
    by (simp add: sc_lambda_def group_order_def algebra_simps)
  finally show "(sval r1 + sval r2 * sc_lambda) mod group_order = sval a" unfolding rs using a by simp
qed

end

end
