(* ===== verification/Ecdsa_Der_Correct.thy ===== *)
theory Ecdsa_Der_Correct
  imports Ecdsa_Der Scalar_Impl
begin

text \<open>
  What the DER code of ecdsa_impl.h accepts and returns: no read leaves the input, parsing inverts
  serialising, and a signature that parses to non-zero values has no other encoding.
\<close>

section \<open>Integers\<close>

lemma skip_zeros_spec:
  assumes "p + n \<le> length sig"
  obtains p' n' where "der_skip_zeros sig p n = Some (p', n')" "p' + n' = p + n"
    "take n (drop p sig) = replicate (n - n') 0 @ take n' (drop p' sig)" "n' \<le> n"
    "0 < n' \<Longrightarrow> sig ! p' \<noteq> 0"
  using assms
proof (induction n arbitrary: p thesis)
  case 0
  show ?case by (rule "0.prems"(1) [of p 0]) simp_all
next
  case (Suc n)
  have p: "p < length sig" using Suc.prems(2) by simp
  have d: "take (Suc n) (drop p sig) = sig ! p # take n (drop (p + 1) sig)"
    using p by (simp add: Cons_nth_drop_Suc [symmetric])
  have rd: "rd sig p = Some (sig ! p)" using p by (simp add: rd_def)
  show ?case
  proof (cases "sig ! p = 0")
    case True
    obtain p' n' where r: "der_skip_zeros sig (p + 1) n = Some (p', n')" "p' + n' = p + 1 + n"
      "take n (drop (p + 1) sig) = replicate (n - n') 0 @ take n' (drop p' sig)" "n' \<le> n"
      "0 < n' \<Longrightarrow> sig ! p' \<noteq> 0"
      using Suc.IH [of "p + 1"] Suc.prems(2) by auto
    show ?thesis
      by (rule Suc.prems(1) [of p' n']) (use r True in \<open>simp_all add: rd d Suc_diff_le\<close>)
  next
    case False
    show ?thesis
      by (rule Suc.prems(1) [of p "Suc n"]) (use False in \<open>simp_all add: rd\<close>)
  qed
qed

text \<open>The contents octets the code refuses: a redundant leading octet.\<close>

definition der_padded :: "u8 list \<Rightarrow> bool" where
  "der_padded c \<longleftrightarrow> 1 < length c \<and> (c ! 0 = 0 \<and> c ! 1 < 0x80 \<or> c ! 0 = 0xFF \<and> 0x80 \<le> c ! 1)"

lemma and80_less: "b AND 0x80 = 0 \<longleftrightarrow> b < 0x80" "b AND 0x80 = 0x80 \<longleftrightarrow> 0x80 \<le> b" for b :: u8
  by (simp_all add: and80 word_less_nat_alt word_le_nat_alt)

lemma minimal_iff: "der_minimal c \<longleftrightarrow> c \<noteq> [] \<and> \<not> der_padded c \<and> c ! 0 < 0x80"
  by (cases c rule: der_minimal.cases) (auto simp: der_padded_def not_less)

lemma byte_of_length: "int (unat b) = int n \<Longrightarrow> b = of_nat n" for b :: u8
  by (simp only: of_nat_eq_iff) auto

context scalar_impl
begin

lemma parse_integer_view:
  assumes p: "p < length sig" "sig ! p = 0x02"
    and len: "der_read_len sig (p + 1) (length sig) = Some (int n, p1)" "0 < n" "p1 + n \<le> length sig"
  defines "c \<equiv> take n (drop p1 sig)"
  obtains r where "der_parse_integer S sig p (length sig) = Some (if der_padded c then None else Some (r, p1 + n))"
    "sval r = (if 0x80 \<le> c ! 0 \<or> group_order \<le> be_nat c then 0 else be_nat c)"
proof -
  have rd0: "rd sig p = Some 0x02" "rd sig p1 = Some (sig ! p1)" using p len(2,3) by (simp_all add: rd_def)
  have rd1: "rd sig (p1 + 1) = Some (sig ! (p1 + 1))" if "1 < n" using that len(3) by (simp add: rd_def)
  have c: "length c = n" "c ! 0 = sig ! p1" using len(2,3) by (simp_all add: c_def)
  have c1: "c ! 1 = sig ! (p1 + 1)" if "1 < n" using that len(3) by (simp add: c_def)
  obtain p' n' where z: "der_skip_zeros sig p1 n = Some (p', n')" "p' + n' = p1 + n"
    "c = replicate (n - n') 0 @ take n' (drop p' sig)" "n' \<le> n" "0 < n' \<Longrightarrow> sig ! p' \<noteq> 0"
    using skip_zeros_spec [OF len(3)] unfolding c_def by metis
  define v where "v = take n' (drop p' sig)"
  have v: "length v = n'" "be_nat c = be_nat v"
    using z(2) len(3) unfolding v_def z(3) skip_leading by simp_all
  define neg where "neg = (0x80 \<le> c ! 0)"
  define bs where "bs = replicate (32 - n') 0 @ v"
  obtain r0 o0 where s: "sc_set_b32 S bs = (r0, o0)" by (rule prod.exhaust)
  define r where "r = (if neg \<or> 32 < n' then sc_set_int S 0 else if o0 then sc_set_int S 0 else r0)"
  have pad: "(if sig ! p1 = 0x00 \<and> 1 < n then do { b1 \<leftarrow> rd sig (p1 + 1); Some (b1 AND 0x80 = 0x00) } else Some False)
      = Some (sig ! p1 = 0x00 \<and> 1 < n \<and> sig ! (p1 + 1) < 0x80)"
    "(if sig ! p1 = 0xFF \<and> 1 < n then do { b1 \<leftarrow> rd sig (p1 + 1); Some (b1 AND 0x80 = 0x80) } else Some False)
      = Some (sig ! p1 = 0xFF \<and> 1 < n \<and> 0x80 \<le> sig ! (p1 + 1))"
    using rd1 by (auto simp: and80_less)
  have dp: "der_padded c \<longleftrightarrow> (sig ! p1 = 0x00 \<and> 1 < n \<and> sig ! (p1 + 1) < 0x80) \<or> (sig ! p1 = 0xFF \<and> 1 < n \<and> 0x80 \<le> sig ! (p1 + 1))"
    unfolding der_padded_def c using c1 by auto
  have rg: "rd_range sig p' n' = Some v" using z(2) len(3) by (simp add: rd_range_def v_def)
  have "der_parse_integer S sig p (length sig) = Some (if der_padded c then None else Some (r, p1 + n))"
  proof -
    have ne: "p \<noteq> length sig" using p(1) by simp
    have oth: "(if \<not> (neg \<or> 32 < n') then do { bs \<leftarrow> rd_range sig p' n'; Some (sc_set_b32 S (replicate (32 - n') 0 @ bs)) }
        else Some (sc_set_int S 0, neg \<or> 32 < n'))
      = Some (if neg \<or> 32 < n' then (sc_set_int S 0, True) else (r0, o0))"
      using s unfolding bs_def by (simp add: rg)
    have neg: "(sig ! p1 AND 0x80 = 0x80) = neg" unfolding neg_def c by (rule and80_less)
    have l: "\<not> (int n \<le> 0 \<or> length sig < p1 + n)" using len(2,3) by simp
    show ?thesis
      unfolding der_parse_integer_def using ne l z(2)
      by (simp add: rd0 len(1) [simplified] pad [simplified] Let_def neg z(1) oth [simplified] dp r_def)
  qed
  moreover have "sval r = (if 0x80 \<le> c ! 0 \<or> group_order \<le> be_nat c then 0 else be_nat c)"
  proof (cases "neg \<or> 32 < n'")
    case True
    have "group_order \<le> be_nat c" if big: "32 < n'"
    proof -
      obtain b bs' where b: "v = b # bs'" using big v(1) by (cases v) auto
      have "v ! 0 = sig ! p'" using z(2) len(3) big unfolding v_def by simp
      then have "b = sig ! p'" using b by simp
      then have "1 \<le> unat b" using z(5) big by (simp add: Suc_le_eq word_unat_eq_iff)
      then have "1 * 256 ^ length bs' \<le> unat b * 256 ^ length bs'" by (rule mult_le_mono1)
      moreover have "(256 :: nat) ^ 32 \<le> 256 ^ length bs'" using big v(1) b by (intro power_increasing) simp_all
      moreover have "group_order < 256 ^ 32" by (simp add: group_order_def)
      moreover have "be_nat c = unat b * 256 ^ length bs' + be_nat bs'" unfolding v(2) b by simp
      ultimately show ?thesis by linarith
    qed
    then show ?thesis using True unfolding r_def neg_def by (auto simp: sset_int_law)
  next
    case False
    then have l: "length bs = 32" "be_nat bs = be_nat c" unfolding bs_def v(2) by (simp_all add: v(1) skip_leading)
    show ?thesis
      using False sset_b32_law [OF l(1) s] unfolding l(2) r_def neg_def
      by (simp add: sset_int_law)
  qed
  ultimately show ?thesis by (rule that)
qed

text \<open>Every integer that parses: defined, inside the input, and minimally encoded unless it counts as 0.\<close>

lemma parse_integer_defined:
  assumes len: "length sig < 2 ^ 31" and p: "p \<le> length sig"
  obtains ri where "der_parse_integer S sig p (length sig) = Some ri"
    "\<And>r p'. ri = Some (r, p') \<Longrightarrow> p' \<le> length sig \<and> sval r < group_order \<and>
       (sval r \<noteq> 0 \<longrightarrow> (\<exists>c. der_minimal c \<and> length c \<le> 33 \<and> be_nat c = sval r \<and> p' = p + 2 + length c
          \<and> take (2 + length c) (drop p sig) = 0x02 # of_nat (length c) # c))"
proof (cases "p < length sig \<and> sig ! p = 0x02")
  case False
  then have "der_parse_integer S sig p (length sig) = Some None"
    using p by (auto simp: der_parse_integer_def rd_def)
  then show ?thesis by (rule that) simp
next
  case True
  then have pl: "p < length sig" and two: "sig ! p = 0x02" by simp_all
  obtain ret p1 where d: "der_read_len sig (p + 1) (length sig) = Some (ret, p1)" "p1 \<le> length sig"
    "0 \<le> ret \<Longrightarrow> ret < 128 \<Longrightarrow> p + 1 < length sig \<and> p1 = p + 1 + 1 \<and> ret = int (unat (sig ! (p + 1)))"
  proof -
    have "p + 1 \<le> length sig" using pl by simp
    from der_read_len_defined [OF len this] that show thesis by blast
  qed
  show ?thesis
  proof (cases "ret \<le> 0 \<or> length sig < p1 + nat ret")
    case True
    then have "der_parse_integer S sig p (length sig) = Some None"
      using pl two d(1) by (auto simp: der_parse_integer_def rd_def)
    then show ?thesis by (rule that) simp
  next
    case False
    define n where "n = nat ret"
    have n: "ret = int n" "0 < n" "p1 + n \<le> length sig" using False by (simp_all add: n_def)
    define c where "c = take n (drop p1 sig)"
    obtain r where r: "der_parse_integer S sig p (length sig) = Some (if der_padded c then None else Some (r, p1 + n))"
      "sval r = (if 0x80 \<le> c ! 0 \<or> group_order \<le> be_nat c then 0 else be_nat c)"
      using parse_integer_view [OF pl two d(1) [unfolded n(1)] n(2,3)] unfolding c_def by metis
    have cl: "length c = n" using n(3) by (simp add: c_def)
    have goal: "der_minimal c \<and> length c \<le> 33 \<and> be_nat c = sval r \<and> p1 + n = p + 2 + length c
          \<and> take (2 + length c) (drop p sig) = 0x02 # of_nat (length c) # c"
      if nz: "sval r \<noteq> 0" and np: "\<not> der_padded c"
    proof -
      have v: "c ! 0 < 0x80" "be_nat c = sval r" "be_nat c < group_order"
        using r(2) nz by (simp_all add: not_le split: if_splits)
      have m: "der_minimal c" unfolding minimal_iff using np v(1) n(2) cl by auto
      have l: "length c \<le> 33"
      proof (rule ccontr)
        assume "\<not> length c \<le> 33"
        then have "1 < length c" "32 \<le> length c - 2" by simp_all
        then have "128 * 256 ^ 32 \<le> 128 * (256 :: nat) ^ (length c - 2)" "128 * 256 ^ (length c - 2) \<le> be_nat c"
          using minimal_lower [OF m] by (intro mult_le_mono2 power_increasing, simp_all)
        then show False using v(3) by (simp add: group_order_def)
      qed
      then have "p + 1 < length sig" "p1 = p + 2" "ret = int (unat (sig ! (p + 1)))"
        using d(3) n(1) cl by simp_all
      moreover from this n(1) cl have "sig ! (p + 1) = of_nat (length c)" by (intro byte_of_length) (simp only:)
      moreover have "drop p sig = sig ! p # sig ! (p + 1) # drop (p + 2) sig"
        using \<open>p + 1 < length sig\<close> by (simp add: Cons_nth_drop_Suc)
      ultimately show ?thesis using m l v(2) two cl by (simp add: c_def)
    qed
    show ?thesis
    proof (rule that [OF r(1)])
      fix r' p'
      assume "(if der_padded c then None else Some (r, p1 + n)) = Some (r', p')"
      then have e: "\<not> der_padded c" "r' = r" "p' = p1 + n" by (simp_all split: if_splits)
      have "sval r < group_order" unfolding r(2) by (auto simp: not_le)
      then show "p' \<le> length sig \<and> sval r' < group_order \<and>
       (sval r' \<noteq> 0 \<longrightarrow> (\<exists>c. der_minimal c \<and> length c \<le> 33 \<and> be_nat c = sval r' \<and> p' = p + 2 + length c
          \<and> take (2 + length c) (drop p sig) = 0x02 # of_nat (length c) # c))"
        unfolding e(2,3) using n(3) goal e(1) by blast
    qed
  qed
qed

text \<open>A minimally encoded integer below the order parses to itself.\<close>

lemma short_length:
  assumes "p < length sig" "sig ! p = of_nat n" "n < 128"
  shows "der_read_len sig p (length sig) = Some (int n, p + 1)"
proof -
  have u: "unat (of_nat n :: u8) = n" using assms(3) by (simp add: unat_of_nat take_bit_eq_mod)
  have "(of_nat n :: u8) AND 0x80 = 0" using assms(3) by (simp add: and80 u)
  moreover have "(of_nat n :: u8) \<noteq> 0xFF" using u assms(3) by (auto simp: word_unat_eq_iff)
  ultimately show ?thesis using assms by (simp add: der_read_len_def rd_def Let_def u)
qed

lemma parse_integer_encoded:
  assumes t: "drop p sig = 0x02 # of_nat (length c) # c @ rest"
    and c: "der_minimal c" "length c < 128" "be_nat c < group_order"
  obtains r where "der_parse_integer S sig p (length sig) = Some (Some (r, p + 2 + length c))"
    "sval r = be_nat c" "drop (p + 2 + length c) sig = rest"
proof -
  have pl: "p + 2 + length c \<le> length sig"
  proof -
    have "length (drop p sig) = 2 + length c + length rest" unfolding t by simp
    then show ?thesis by simp
  qed
  have n: "sig ! p = 0x02" "sig ! (p + 1) = of_nat (length c)" "drop (p + 2) sig = c @ rest"
  proof -
    have "drop p sig = sig ! p # sig ! (p + 1) # drop (p + 2) sig"
      using pl by (simp add: Cons_nth_drop_Suc)
    then show "sig ! p = 0x02" "sig ! (p + 1) = of_nat (length c)" "drop (p + 2) sig = c @ rest" using t by simp_all
  qed
  have d: "der_read_len sig (p + 1) (length sig) = Some (int (length c), p + 1 + 1)"
    by (rule short_length) (use pl n c(2) in simp_all)
  have tk: "take (length c) (drop (p + 1 + 1) sig) = c" using n(3) by simp
  obtain r where r: "der_parse_integer S sig p (length sig) = Some (if der_padded c then None else Some (r, p + 1 + 1 + length c))"
    "sval r = (if 0x80 \<le> c ! 0 \<or> group_order \<le> be_nat c then 0 else be_nat c)"
    using parse_integer_view [of p sig, OF _ n(1) d minimal_not_Nil [OF c(1)]] pl unfolding tk by auto
  have m: "\<not> der_padded c" "c ! 0 < 0x80" using c(1) by (simp_all add: minimal_iff)
  show ?thesis
  proof (rule that)
    show "der_parse_integer S sig p (length sig) = Some (Some (r, p + 2 + length c))" using r(1) m by simp
    show "sval r = be_nat c" using r(2) m c(3) by (auto simp: not_le)
    have "drop (p + 2 + length c) sig = drop (length c) (drop (p + 2) sig)" by (simp only: drop_drop add.commute)
    then show "drop (p + 2 + length c) sig = rest" unfolding n(3) by simp
  qed
qed

end

section \<open>Signatures\<close>

context scalar_impl
begin

text \<open>The encoding of a signature, as \<open>secp256k1_ecdsa_sig_serialize\<close> builds it.\<close>

definition der_int :: "'s \<Rightarrow> u8 list" where
  "der_int a = der_trim (0 # sc_get_b32 S a)"

definition der_sig :: "'s \<Rightarrow> 's \<Rightarrow> u8 list" where
  "der_sig r s = [0x30, of_nat (4 + length (der_int s) + length (der_int r)), 0x02, of_nat (length (der_int r))] @ der_int r
     @ [0x02, of_nat (length (der_int s))] @ der_int s"

lemma der_int_spec: "der_minimal (der_int a)" "length (der_int a) \<le> 33" "be_nat (der_int a) = sval a"
  unfolding der_int_def using sget_b32_law [of a] trim_length [of "0 # sc_get_b32 S a"]
  by (simp_all add: trim_value trim_minimal)

lemma der_int_pos: "0 < length (der_int a)"
  by (rule minimal_not_Nil [OF der_int_spec(1)])

lemma serialize_spec:
  "ecdsa_sig_serialize S sz r s =
     (let n = 6 + length (der_int s) + length (der_int r)
      in if sz < n then (False, n, []) else (True, n, der_sig r s))"
  by (simp add: ecdsa_sig_serialize_def der_sig_def der_int_def Let_def)

lemma sig_parse_serialize:
  assumes "sval r < group_order" "sval s < group_order"
  shows "ecdsa_sig_parse S (der_sig r s) = Some (Some (r, s))"
proof -
  define c d where "c = der_int r" and "d = der_int s"
  note c = der_int_spec [of r, folded c_def] and d = der_int_spec [of s, folded d_def]
  define sig where "sig = der_sig r s"
  have e: "drop 2 sig = 0x02 # of_nat (length c) # c @ [0x02, of_nat (length d)] @ d" "sig ! 0 = 0x30"
    "sig ! 1 = of_nat (4 + length d + length c)" and ls: "length sig = 6 + length d + length c"
    unfolding sig_def der_sig_def c_def [symmetric] d_def [symmetric] by (simp_all add: numeral_2_eq_2)
  have l: "der_read_len sig 1 (length sig) = Some (int (4 + length d + length c), 1 + 1)"
    by (rule short_length) (use e ls c(2) d(2) in simp_all)
  obtain r' where r': "der_parse_integer S sig 2 (length sig) = Some (Some (r', 2 + 2 + length c))"
    "sval r' = be_nat c" "drop (2 + 2 + length c) sig = [0x02, of_nat (length d)] @ d"
    by (rule parse_integer_encoded [OF e(1) c(1)]) (use c assms(1) in simp_all)
  obtain s' where s': "der_parse_integer S sig (2 + 2 + length c) (length sig) = Some (Some (s', 2 + 2 + length c + 2 + length d))"
    "sval s' = be_nat d"
    by (rule parse_integer_encoded [of "2 + 2 + length c" sig d "[]"]) (use r'(3) d assms(2) in simp_all)
  have "r' = r" "s' = s" using r'(2) c(3) s'(2) d(3) by (simp_all add: sval_inj)
  moreover have "rd sig 0 = Some 0x30" using e ls by (simp add: rd_def)
  ultimately show ?thesis
    unfolding sig_def [symmetric] ecdsa_sig_parse_def Let_def using ls r' s' l by (simp add: eval_nat_numeral)
qed

lemma sig_parse_defined:
  assumes len: "length sig < 2 ^ 31"
  obtains res where "ecdsa_sig_parse S sig = Some res"
    "\<And>r s. res = Some (r, s) \<Longrightarrow> sval r < group_order \<and> sval s < group_order \<and>
       (sval r \<noteq> 0 \<and> sval s \<noteq> 0 \<longrightarrow> sig = der_sig r s)"
proof (cases "0 < length sig \<and> sig ! 0 = 0x30")
  case False
  then have "ecdsa_sig_parse S sig = Some None" by (auto simp: ecdsa_sig_parse_def Let_def rd_def)
  then show ?thesis by (rule that) simp
next
  case True
  then have pl: "0 < length sig" and h: "rd sig 0 = Some 0x30" "sig ! 0 = 0x30" by (simp_all add: rd_def)
  have "1 \<le> length sig" using pl by linarith
  then obtain ret p where d: "der_read_len sig 1 (length sig) = Some (ret, p)" "p \<le> length sig"
    "0 \<le> ret \<Longrightarrow> ret < 128 \<Longrightarrow> 1 < length sig \<and> p = 1 + 1 \<and> ret = int (unat (sig ! 1))"
    using der_read_len_defined [OF len] that by blast
  obtain ri where r: "der_parse_integer S sig p (length sig) = Some ri"
    "\<And>r p'. ri = Some (r, p') \<Longrightarrow> p' \<le> length sig \<and> sval r < group_order \<and>
       (sval r \<noteq> 0 \<longrightarrow> (\<exists>c. der_minimal c \<and> length c \<le> 33 \<and> be_nat c = sval r \<and> p' = p + 2 + length c
          \<and> take (2 + length c) (drop p sig) = 0x02 # of_nat (length c) # c))"
    using parse_integer_defined [OF len d(2)] by blast
  show ?thesis
  proof (cases "\<exists>r p'. 0 \<le> ret \<and> p + nat ret = length sig \<and> ri = Some (r, p')")
    case False
    then have "ecdsa_sig_parse S sig = Some None"
      using pl d(1) r(1) h(1) by (cases ri) (auto simp: ecdsa_sig_parse_def Let_def)
    then show ?thesis by (rule that) simp
  next
    case True
    then obtain r p' where ret: "0 \<le> ret" "p + nat ret = length sig" and ri: "ri = Some (r, p')" by blast
    note r' = r(2) [OF ri]
    then have p': "p' \<le> length sig" by blast
    obtain si where s: "der_parse_integer S sig p' (length sig) = Some si"
      "\<And>s q. si = Some (s, q) \<Longrightarrow> q \<le> length sig \<and> sval s < group_order \<and>
         (sval s \<noteq> 0 \<longrightarrow> (\<exists>c. der_minimal c \<and> length c \<le> 33 \<and> be_nat c = sval s \<and> q = p' + 2 + length c
            \<and> take (2 + length c) (drop p' sig) = 0x02 # of_nat (length c) # c))"
      using parse_integer_defined [OF len p'] by blast
    have res: "ecdsa_sig_parse S sig = Some (case si of None \<Rightarrow> None | Some (s, q) \<Rightarrow> if q \<noteq> length sig then None else Some (r, s))"
      using pl d(1) r(1) h(1) ret ri s(1) by (auto simp: ecdsa_sig_parse_def Let_def split: option.splits)
    show ?thesis
    proof (rule that [OF res])
      fix r'' s''
      assume "(case si of None \<Rightarrow> None | Some (s, q) \<Rightarrow> if q \<noteq> length sig then None else Some (r, s)) = Some (r'', s'')"
      then have si: "si = Some (s'', length sig)" and "r'' = r" by (auto split: option.splits if_splits)
      note s' = s(2) [OF si]
      have "sig = der_sig r s''" if nz: "sval r \<noteq> 0" "sval s'' \<noteq> 0"
      proof -
        obtain c where c: "der_minimal c" "length c \<le> 33" "be_nat c = sval r" "p' = p + 2 + length c"
          "take (2 + length c) (drop p sig) = 0x02 # of_nat (length c) # c" using r' nz by blast
        obtain e where e: "der_minimal e" "length e \<le> 33" "be_nat e = sval s''" "length sig = p' + 2 + length e"
          "take (2 + length e) (drop p' sig) = 0x02 # of_nat (length e) # e" using s' nz by blast
        have ce: "c = der_int r" "e = der_int s''"
          using c(1,3) e(1,3) der_int_spec by (auto intro: minimal_unique)
        have rl: "nat ret = 4 + length e + length c" using ret(2) c(4) e(4) by simp
        then have "ret < 128" using c(2) e(2) by linarith
        with d(3) ret(1) have p2: "1 < length sig" "p = 2" "ret = int (unat (sig ! 1))" by simp_all
        then have "sig ! 1 = of_nat (4 + length e + length c)" using rl ret(1) by (intro byte_of_length) simp
        moreover have "drop (2 + length c) (drop 2 sig) = 0x02 # of_nat (length e) # e"
        proof -
          have "length (drop p' sig) = 2 + length e" using e(4) by simp
          then have "take (2 + length e) (drop p' sig) = drop p' sig" by (metis order_refl take_all)
          moreover have "drop (2 + length c) (drop 2 sig) = drop p' sig" unfolding c(4) p2(2) drop_drop by (simp only: add_ac)
          ultimately show ?thesis using e(5) by metis
        qed
        then have "drop 2 sig = 0x02 # of_nat (length c) # c @ 0x02 # of_nat (length e) # e"
          using append_take_drop_id [of "2 + length c" "drop 2 sig"] c(5) p2(2) by simp
        moreover have "sig = sig ! 0 # sig ! 1 # drop 2 sig"
          using p2(1) by (metis Cons_nth_drop_Suc One_nat_def drop_0 numeral_2_eq_2 pl)
        ultimately show ?thesis using h(2) unfolding der_sig_def ce by simp
      qed
      then show "sval r'' < group_order \<and> sval s'' < group_order \<and>
         (sval r'' \<noteq> 0 \<and> sval s'' \<noteq> 0 \<longrightarrow> sig = der_sig r'' s'')"
        using r' s' \<open>r'' = r\<close> by blast
    qed
  qed
qed

end

end
