(* ===== verification/Scalar_Theorems.thy ===== *)
theory Scalar_Theorems
  imports Scalar_4x64_Bits Ecdsa_Der_Correct
begin

text \<open>
  The properties of the 4x64 scalars and of the signature encoding on top of them.  They are the
  facts of the interpretation of \<open>scalar_impl\<close> by the 64-bit representation.
\<close>

interpretation sc64: scalar_impl sc64_ops sc64_val
  by (rule s64.scalar_impl_axioms)

text \<open>
  C10: secp256k1_scalar_mul returns the product modulo the order of the group for every content of
  the limbs: neither the 160-bit accumulator of the multiplication nor the three folds of the
  reduction lose a carry, and the last conditional subtraction leaves the result below the order.
\<close>

theorem sc64_mul_mod_order: "sc64_val (sc64_mul a b) = sc64_val a * sc64_val b mod group_order"
  using s64.smul_law [of a b] by simp

text \<open>
  secp256k1_scalar_sqr, which computes the mixed products once and doubles them in the
  accumulator, returns the very limbs of secp256k1_scalar_mul of the scalar with itself.
\<close>

theorem sc64_sqr_agrees_with_mul: "sc64_sqr a = sc64_mul a a"
  by (rule s64.sval_inj) (simp add: s64.smul_law [simplified] s64.ssqr_law [simplified])

text \<open>
  secp256k1_scalar_set_b32 reduces any 32 bytes modulo the order and reports whether it had
  to; where it had not, secp256k1_scalar_get_b32 gives the bytes back, and the other way round every
  valid scalar is read back from its bytes without overflow.
\<close>

theorem sc64_b32_roundtrip:
  assumes "length bs = 32" "sc64_set_b32 bs = (r, ov)"
  shows "sc64_val r = be_nat bs mod group_order \<and> ov = (group_order \<le> be_nat bs)
    \<and> (\<not> ov \<longrightarrow> sc64_get_b32 r = bs)
    \<and> (\<forall>a. sc64_val a < group_order \<longrightarrow> sc64_set_b32 (sc64_get_b32 a) = (a, False))"
proof (intro conjI allI impI)
  note l = s64.sset_b32_law [unfolded sc64_ops_sel] and g = s64.sget_b32_law [unfolded sc64_ops_sel]
  show r: "sc64_val r = be_nat bs mod group_order" "ov = (group_order \<le> be_nat bs)"
    using l [OF assms] by simp_all
  show "sc64_get_b32 r = bs" if "\<not> ov"
    using r that g [of r] assms(1) by (intro be_nat_inj) simp_all
  fix a assume a: "sc64_val a < group_order"
  obtain r' ov' where s: "sc64_set_b32 (sc64_get_b32 a) = (r', ov')" by (rule prod.exhaust)
  have "sc64_val r' = sc64_val a" "\<not> ov'" using l [OF _ s] g [of a] a by simp_all
  then show "sc64_set_b32 (sc64_get_b32 a) = (a, False)" unfolding s by (simp add: s64.sval_inj)
qed

theorem sc64_b32_roundtrip_witness:
  "sc64_get_b32 (fst (sc64_set_b32 (replicate 31 0 @ [7]))) = replicate 31 0 @ [7]
   \<and> sc64_set_b32 (sc64_get_b32 (Sc64 5 0 0 0)) = (Sc64 5 0 0 0, False)"
proof -
  obtain r ov where s: "sc64_set_b32 (replicate 31 0 @ [7]) = (r, ov)" by (rule prod.exhaust)
  have l: "length (replicate 31 0 @ [7 :: u8]) = 32" by simp
  have v: "sc64_val (Sc64 5 0 0 0) < group_order" by (simp add: group_order_def)
  from sc64_b32_roundtrip [OF l s] v show ?thesis
    unfolding s by (simp add: skip_leading group_order_def)
qed

text \<open>
  C28: secp256k1_scalar_split_lambda_var splits a scalar into two that recombine along the
  eigenvalue lambda of the endomorphism, each congruent to an integer of less than 128 bits, which is
  what lets secp256k1_ecmult work on half-length digits.
\<close>

theorem sc64_split_lambda_short:
  assumes "sc64_val a < group_order" "sc_split_lambda sc64_ops a = (r1, r2)"
  shows "(sc64_val r1 + sc64_val r2 * sc_lambda) mod group_order = sc64_val a
    \<and> (\<exists>k1 k2. \<bar>k1\<bar> < 2 ^ 128 \<and> \<bar>k2\<bar> < 2 ^ 128
           \<and> int (sc64_val r1) = k1 mod int group_order \<and> int (sc64_val r2) = k2 mod int group_order)"
  using s64.split_lambda_law [OF assms] lattice_bounds [OF s64.sval_less [of a]] by blast

theorem sc64_split_lambda_short_witness:
  "case sc_split_lambda sc64_ops (Sc64 1 2 3 4) of (r1, r2) \<Rightarrow>
     (sc64_val r1 + sc64_val r2 * sc_lambda) mod group_order = 4 * 2 ^ 192 + 3 * 2 ^ 128 + 2 * 2 ^ 64 + 1"
proof -
  obtain r1 r2 where s: "sc_split_lambda sc64_ops (Sc64 1 2 3 4) = (r1, r2)" by (rule prod.exhaust)
  show ?thesis using sc64_split_lambda_short [OF _ s, THEN conjunct1] unfolding s by (simp add: group_order_def)
qed

text \<open>
  secp256k1_scalar_inverse, a chain of 254 squarings and 40 multiplications, raises its
  argument to the power (order - 2), the inverse by Fermat's theorem.
\<close>

theorem sc64_inverse_power: "sc64_val (sc_inverse sc64_ops x) = sc64_val x ^ (group_order - 2) mod group_order"
  by (rule s64.inverse_law)

text \<open>
  C13: secp256k1_ecdsa_sig_parse never reads outside its input, whatever the bytes are; a signature
  it accepts has both numbers below the order, and if they are not zero the input is exactly the DER
  encoding secp256k1_ecdsa_sig_serialize would produce, so no signature has two encodings.
\<close>

theorem ecdsa_sig_parse_safe_canonical:
  assumes "length sig < 2 ^ 31"
  shows "\<exists>res. ecdsa_sig_parse sc64_ops sig = Some res \<and>
    (\<forall>r s. res = Some (r, s) \<longrightarrow> sc64_val r < group_order \<and> sc64_val s < group_order
       \<and> (sc64_val r \<noteq> 0 \<and> sc64_val s \<noteq> 0 \<longrightarrow>
            ecdsa_sig_serialize sc64_ops (length sig) r s = (True, length sig, sig)))"
proof -
  obtain res where res: "ecdsa_sig_parse sc64_ops sig = Some res"
    "\<And>r s. res = Some (r, s) \<Longrightarrow> sc64_val r < group_order \<and> sc64_val s < group_order \<and>
       (sc64_val r \<noteq> 0 \<and> sc64_val s \<noteq> 0 \<longrightarrow> sig = s64.der_sig r s)"
    by (rule s64.sig_parse_defined [OF assms]) blast
  have "ecdsa_sig_serialize sc64_ops (length sig) r s = (True, length sig, sig)" if e: "sig = s64.der_sig r s" for r s
  proof -
    have "length sig = 6 + length (s64.der_int s) + length (s64.der_int r)" unfolding e by (simp add: s64.der_sig_def)
    then show ?thesis using e by (simp add: s64.serialize_spec Let_def)
  qed
  then show ?thesis using res by blast
qed

theorem ecdsa_sig_parse_safe_canonical_witness:
  "ecdsa_sig_parse sc64_ops [0x30, 6, 2, 1, 1, 2, 1] = Some None
   \<and> ecdsa_sig_serialize sc64_ops 8 (Sc64 1 0 0 0) (Sc64 9 0 0 0) = (True, 8, [0x30, 6, 2, 1, 1, 2, 1, 9])"
proof
  let ?short = "[0x30, 6, 2, 1, 1, 2, 1] :: u8 list" and ?sig = "[0x30, 6, 2, 1, 1, 2, 1, 9] :: u8 list"
  show "ecdsa_sig_parse sc64_ops ?short = Some None" by code_simp
  have p: "ecdsa_sig_parse sc64_ops ?sig = Some (Some (Sc64 1 0 0 0, Sc64 9 0 0 0))" by code_simp
  have l: "length ?sig = 8" by simp
  have v: "sc64_val (Sc64 1 0 0 0) \<noteq> 0" "sc64_val (Sc64 9 0 0 0) \<noteq> 0" by simp_all
  have "length ?sig < 2 ^ 31" unfolding l by simp
  from ecdsa_sig_parse_safe_canonical [OF this, unfolded p l option.inject] v
  show "ecdsa_sig_serialize sc64_ops 8 (Sc64 1 0 0 0) (Sc64 9 0 0 0) = (True, 8, ?sig)"
    by blast
qed

text \<open>
  C14: parsing undoes serialising: the bytes secp256k1_ecdsa_sig_serialize writes for two valid
  scalars, at most 72 of them, parse to the same two scalars; if the buffer is too small nothing is
  written and the needed size is reported.
\<close>

theorem ecdsa_sig_serialize_parse:
  assumes "sc64_val r < group_order" "sc64_val s < group_order"
  shows "\<exists>bs. ecdsa_sig_parse sc64_ops bs = Some (Some (r, s)) \<and> length bs \<le> 72 \<and>
    (\<forall>sz. ecdsa_sig_serialize sc64_ops sz r s =
       (if sz < length bs then (False, length bs, []) else (True, length bs, bs)))"
proof (intro exI conjI allI)
  show "ecdsa_sig_parse sc64_ops (s64.der_sig r s) = Some (Some (r, s))"
    using assms by (rule s64.sig_parse_serialize)
  have l: "length (s64.der_sig r s) = 6 + length (s64.der_int s) + length (s64.der_int r)"
    by (simp add: s64.der_sig_def)
  then show "length (s64.der_sig r s) \<le> 72" using s64.der_int_spec(2) [of r] s64.der_int_spec(2) [of s] by simp
  show "ecdsa_sig_serialize sc64_ops sz r s = (if sz < length (s64.der_sig r s) then (False, length (s64.der_sig r s), [])
      else (True, length (s64.der_sig r s), s64.der_sig r s))" for sz
    by (simp add: s64.serialize_spec l Let_def)
qed

theorem ecdsa_sig_serialize_parse_witness:
  "\<exists>bs. ecdsa_sig_parse sc64_ops bs = Some (Some (Sc64 5 0 0 0, Sc64 0 0 0 1)) \<and> length bs \<le> 72"
  using ecdsa_sig_serialize_parse [of "Sc64 5 0 0 0" "Sc64 0 0 0 1"] by (auto simp: group_order_def)

end
