(* ===== verification/Hash.thy ===== *)
theory Hash
  imports Prelude
begin

text \<open>
  SHA-256, HMAC-SHA256 and the RFC 6979 generator (hash.h, hash_impl.h).  The memory of the
  message buffer is a list of bytes; a \<open>uint32_t\<close> read from it or written to it is little
  endian, as on the machines without \<open>WORDS_BIGENDIAN\<close>, and the macro \<open>BE32\<close> swaps it.  The
  digest is compared with the functions of FIPS 180-4 in \<open>Hash_Correct\<close>.
\<close>

section \<open>Words in memory\<close>

definition le32_load :: "u8 list \<Rightarrow> nat \<Rightarrow> u32" where
  "le32_load m i = ucast (m ! i) OR push_bit 8 (ucast (m ! (i + 1))) OR push_bit 16 (ucast (m ! (i + 2)))
     OR push_bit 24 (ucast (m ! (i + 3)))"

definition le32_bytes :: "u32 \<Rightarrow> u8 list" where
  "le32_bytes w = [ucast w, ucast (drop_bit 8 w), ucast (drop_bit 16 w), ucast (drop_bit 24 w)]"

definition be32 :: "u32 \<Rightarrow> u32" where
  "be32 p = push_bit 24 (p AND 0xFF) OR push_bit 8 (p AND 0xFF00) OR drop_bit 8 (p AND 0xFF0000)
     OR drop_bit 24 (p AND 0xFF000000)"

section \<open>The compression function\<close>

definition Ch :: "u32 \<Rightarrow> u32 \<Rightarrow> u32 \<Rightarrow> u32" where
  "Ch x y z = z XOR (x AND (y XOR z))"

definition Maj :: "u32 \<Rightarrow> u32 \<Rightarrow> u32 \<Rightarrow> u32" where
  "Maj x y z = (x AND y) OR (z AND (x OR y))"

definition Sigma0 :: "u32 \<Rightarrow> u32" where
  "Sigma0 x = (drop_bit 2 x OR push_bit 30 x) XOR (drop_bit 13 x OR push_bit 19 x) XOR (drop_bit 22 x OR push_bit 10 x)"

definition Sigma1 :: "u32 \<Rightarrow> u32" where
  "Sigma1 x = (drop_bit 6 x OR push_bit 26 x) XOR (drop_bit 11 x OR push_bit 21 x) XOR (drop_bit 25 x OR push_bit 7 x)"

definition sigma0 :: "u32 \<Rightarrow> u32" where
  "sigma0 x = (drop_bit 7 x OR push_bit 25 x) XOR (drop_bit 18 x OR push_bit 14 x) XOR drop_bit 3 x"

definition sigma1 :: "u32 \<Rightarrow> u32" where
  "sigma1 x = (drop_bit 17 x OR push_bit 15 x) XOR (drop_bit 19 x OR push_bit 13 x) XOR drop_bit 10 x"

text \<open>The macro \<open>Round\<close> changes its arguments \<open>d\<close> and \<open>h\<close>: their new values.\<close>

definition sha_round :: "u32 \<Rightarrow> u32 \<Rightarrow> u32 \<Rightarrow> u32 \<Rightarrow> u32 \<Rightarrow> u32 \<Rightarrow> u32 \<Rightarrow> u32 \<Rightarrow> u32 \<Rightarrow> u32 \<Rightarrow> u32 \<times> u32" where
  "sha_round a b c d e f g h k w =
     (let t1 = h + Sigma1 e + Ch e f g + k + w;
          t2 = Sigma0 a + Maj a b c
      in (d + t1, t1 + t2))"

type_synonym sha_regs = "u32 \<times> u32 \<times> u32 \<times> u32 \<times> u32 \<times> u32 \<times> u32 \<times> u32"

text \<open>
  The 64 calls of \<open>Round\<close> are four groups of sixteen lines.  The last three groups differ only
  in their constants, here the list \<open>k\<close>.
\<close>

definition sha_rounds_first :: "u32 list \<Rightarrow> u32 list \<Rightarrow> sha_regs \<Rightarrow> u32 list \<times> sha_regs" where
  "sha_rounds_first k chunk st =
     (let (a, b, c, d, e, f, g, h) = st;
          w0 = be32 (chunk ! 0);
          (d, h) = sha_round a b c d e f g h (k ! 0) w0;
          w1 = be32 (chunk ! 1);
          (c, g) = sha_round h a b c d e f g (k ! 1) w1;
          w2 = be32 (chunk ! 2);
          (b, f) = sha_round g h a b c d e f (k ! 2) w2;
          w3 = be32 (chunk ! 3);
          (a, e) = sha_round f g h a b c d e (k ! 3) w3;
          w4 = be32 (chunk ! 4);
          (h, d) = sha_round e f g h a b c d (k ! 4) w4;
          w5 = be32 (chunk ! 5);
          (g, c) = sha_round d e f g h a b c (k ! 5) w5;
          w6 = be32 (chunk ! 6);
          (f, b) = sha_round c d e f g h a b (k ! 6) w6;
          w7 = be32 (chunk ! 7);
          (e, a) = sha_round b c d e f g h a (k ! 7) w7;
          w8 = be32 (chunk ! 8);
          (d, h) = sha_round a b c d e f g h (k ! 8) w8;
          w9 = be32 (chunk ! 9);
          (c, g) = sha_round h a b c d e f g (k ! 9) w9;
          w10 = be32 (chunk ! 10);
          (b, f) = sha_round g h a b c d e f (k ! 10) w10;
          w11 = be32 (chunk ! 11);
          (a, e) = sha_round f g h a b c d e (k ! 11) w11;
          w12 = be32 (chunk ! 12);
          (h, d) = sha_round e f g h a b c d (k ! 12) w12;
          w13 = be32 (chunk ! 13);
          (g, c) = sha_round d e f g h a b c (k ! 13) w13;
          w14 = be32 (chunk ! 14);
          (f, b) = sha_round c d e f g h a b (k ! 14) w14;
          w15 = be32 (chunk ! 15);
          (e, a) = sha_round b c d e f g h a (k ! 15) w15
      in ([w0, w1, w2, w3, w4, w5, w6, w7, w8, w9, w10, w11, w12, w13, w14, w15], (a, b, c, d, e, f, g, h)))"

definition sha_rounds_next :: "u32 list \<Rightarrow> u32 list \<times> sha_regs \<Rightarrow> u32 list \<times> sha_regs" where
  "sha_rounds_next k x =
     (let (ws, a, b, c, d, e, f, g, h) = x;
          w0 = ws ! 0;
          w1 = ws ! 1;
          w2 = ws ! 2;
          w3 = ws ! 3;
          w4 = ws ! 4;
          w5 = ws ! 5;
          w6 = ws ! 6;
          w7 = ws ! 7;
          w8 = ws ! 8;
          w9 = ws ! 9;
          w10 = ws ! 10;
          w11 = ws ! 11;
          w12 = ws ! 12;
          w13 = ws ! 13;
          w14 = ws ! 14;
          w15 = ws ! 15;
          w0 = w0 + (sigma1 w14 + w9 + sigma0 w1);
          (d, h) = sha_round a b c d e f g h (k ! 0) w0;
          w1 = w1 + (sigma1 w15 + w10 + sigma0 w2);
          (c, g) = sha_round h a b c d e f g (k ! 1) w1;
          w2 = w2 + (sigma1 w0 + w11 + sigma0 w3);
          (b, f) = sha_round g h a b c d e f (k ! 2) w2;
          w3 = w3 + (sigma1 w1 + w12 + sigma0 w4);
          (a, e) = sha_round f g h a b c d e (k ! 3) w3;
          w4 = w4 + (sigma1 w2 + w13 + sigma0 w5);
          (h, d) = sha_round e f g h a b c d (k ! 4) w4;
          w5 = w5 + (sigma1 w3 + w14 + sigma0 w6);
          (g, c) = sha_round d e f g h a b c (k ! 5) w5;
          w6 = w6 + (sigma1 w4 + w15 + sigma0 w7);
          (f, b) = sha_round c d e f g h a b (k ! 6) w6;
          w7 = w7 + (sigma1 w5 + w0 + sigma0 w8);
          (e, a) = sha_round b c d e f g h a (k ! 7) w7;
          w8 = w8 + (sigma1 w6 + w1 + sigma0 w9);
          (d, h) = sha_round a b c d e f g h (k ! 8) w8;
          w9 = w9 + (sigma1 w7 + w2 + sigma0 w10);
          (c, g) = sha_round h a b c d e f g (k ! 9) w9;
          w10 = w10 + (sigma1 w8 + w3 + sigma0 w11);
          (b, f) = sha_round g h a b c d e f (k ! 10) w10;
          w11 = w11 + (sigma1 w9 + w4 + sigma0 w12);
          (a, e) = sha_round f g h a b c d e (k ! 11) w11;
          w12 = w12 + (sigma1 w10 + w5 + sigma0 w13);
          (h, d) = sha_round e f g h a b c d (k ! 12) w12;
          w13 = w13 + (sigma1 w11 + w6 + sigma0 w14);
          (g, c) = sha_round d e f g h a b c (k ! 13) w13;
          w14 = w14 + (sigma1 w12 + w7 + sigma0 w15);
          (f, b) = sha_round c d e f g h a b (k ! 14) w14;
          w15 = w15 + (sigma1 w13 + w8 + sigma0 w0);
          (e, a) = sha_round b c d e f g h a (k ! 15) w15
      in ([w0, w1, w2, w3, w4, w5, w6, w7, w8, w9, w10, w11, w12, w13, w14, w15], (a, b, c, d, e, f, g, h)))"

definition sha_K0 :: "u32 list" where
  "sha_K0 = [0x428A2F98, 0x71374491, 0xB5C0FBCF, 0xE9B5DBA5, 0x3956C25B, 0x59F111F1, 0x923F82A4, 0xAB1C5ED5,
      0xD807AA98, 0x12835B01, 0x243185BE, 0x550C7DC3, 0x72BE5D74, 0x80DEB1FE, 0x9BDC06A7, 0xC19BF174]"

definition sha_K1 :: "u32 list" where
  "sha_K1 = [0xE49B69C1, 0xEFBE4786, 0x0FC19DC6, 0x240CA1CC, 0x2DE92C6F, 0x4A7484AA, 0x5CB0A9DC, 0x76F988DA,
      0x983E5152, 0xA831C66D, 0xB00327C8, 0xBF597FC7, 0xC6E00BF3, 0xD5A79147, 0x06CA6351, 0x14292967]"

definition sha_K2 :: "u32 list" where
  "sha_K2 = [0x27B70A85, 0x2E1B2138, 0x4D2C6DFC, 0x53380D13, 0x650A7354, 0x766A0ABB, 0x81C2C92E, 0x92722C85,
      0xA2BFE8A1, 0xA81A664B, 0xC24B8B70, 0xC76C51A3, 0xD192E819, 0xD6990624, 0xF40E3585, 0x106AA070]"

definition sha_K3 :: "u32 list" where
  "sha_K3 = [0x19A4C116, 0x1E376C08, 0x2748774C, 0x34B0BCB5, 0x391C0CB3, 0x4ED8AA4A, 0x5B9CCA4F, 0x682E6FF3,
      0x748F82EE, 0x78A5636F, 0x84C87814, 0x8CC70208, 0x90BEFFFA, 0xA4506CEB, 0xBEF9A3F7, 0xC67178F2]"

fun sha_add_regs :: "sha_regs \<Rightarrow> sha_regs \<Rightarrow> sha_regs" where
  "sha_add_regs (s0, s1, s2, s3, s4, s5, s6, s7) (a, b, c, d, e, f, g, h) =
     (s0 + a, s1 + b, s2 + c, s3 + d, s4 + e, s5 + f, s6 + g, s7 + h)"

definition sha256_transform :: "sha_regs \<Rightarrow> u32 list \<Rightarrow> sha_regs" where
  "sha256_transform s chunk =
     sha_add_regs s (snd (sha_rounds_next sha_K3 (sha_rounds_next sha_K2 (sha_rounds_next sha_K1
       (sha_rounds_first sha_K0 chunk s)))))"

section \<open>Hashing a message\<close>

text \<open>\<open>secp256k1_sha256_t\<close>: the buffer is kept as its 64 bytes.\<close>

record sha256 =
  sh_s :: sha_regs
  sh_buf :: "u8 list"
  sh_bytes :: u64

definition sha256_initialize :: "u8 list \<Rightarrow> sha256" where
  "sha256_initialize buf = \<lparr>
     sh_s = (0x6a09e667, 0xbb67ae85, 0x3c6ef372, 0xa54ff53a, 0x510e527f, 0x9b05688c, 0x1f83d9ab, 0x5be0cd19),
     sh_buf = buf, sh_bytes = 0\<rparr>"

text \<open>The buffer seen as sixteen \<open>uint32_t\<close>.\<close>

definition sha_chunk :: "u8 list \<Rightarrow> u32 list" where
  "sha_chunk buf = map (\<lambda>i. le32_load buf (4 * i)) [0..<16]"

text \<open>\<open>memcpy(buf + pos, data, n)\<close>\<close>

definition buf_copy :: "u8 list \<Rightarrow> nat \<Rightarrow> u8 list \<Rightarrow> u8 list" where
  "buf_copy buf pos data = take pos buf @ data @ drop (pos + length data) buf"

text \<open>The loop of \<open>secp256k1_sha256_write\<close>: the words, the buffer, its fill and the data left.\<close>

function sha256_write_loop :: "sha_regs \<Rightarrow> u8 list \<Rightarrow> nat \<Rightarrow> u8 list \<Rightarrow> sha_regs \<times> u8 list \<times> nat \<times> u8 list" where
  "sha256_write_loop s buf bufsize data =
     (if 64 \<le> bufsize + length data then
        let buf = buf_copy buf bufsize (take (64 - bufsize) data);
            data = drop (64 - bufsize) data;
            s = sha256_transform s (sha_chunk buf)
        in sha256_write_loop s buf 0 data
      else (s, buf, bufsize, data))"
  by pat_completeness auto
termination
  by (relation "measures [\<lambda>(s, buf, bufsize, data). length data, \<lambda>(s, buf, bufsize, data). bufsize]") auto

definition sha256_write :: "sha256 \<Rightarrow> u8 list \<Rightarrow> sha256" where
  "sha256_write hash data =
     (let bufsize = unat (sh_bytes hash AND 0x3F);
          bytes = sh_bytes hash + of_nat (length data);
          (s, buf, bufsize, data) = sha256_write_loop (sh_s hash) (sh_buf hash) bufsize data;
          buf = (if length data \<noteq> 0 then buf_copy buf bufsize data else buf)
      in \<lparr>sh_s = s, sh_buf = buf, sh_bytes = bytes\<rparr>)"

definition sha_pad :: "u8 list" where
  "sha_pad = 0x80 # replicate 63 0"

fun sha_out :: "sha_regs \<Rightarrow> u8 list" where
  "sha_out (s0, s1, s2, s3, s4, s5, s6, s7) =
     concat (map (\<lambda>s. le32_bytes (be32 s)) [s0, s1, s2, s3, s4, s5, s6, s7])"

definition sha256_finalize :: "sha256 \<Rightarrow> sha256 \<times> u8 list" where
  "sha256_finalize hash =
     (let sizedesc0 = be32 (ucast (drop_bit 29 (sh_bytes hash)));
          sizedesc1 = be32 (ucast (push_bit 3 (sh_bytes hash)));
          hash = sha256_write hash (take (unat (1 + (119 - sh_bytes hash mod 64) mod 64)) sha_pad);
          hash = sha256_write hash (le32_bytes sizedesc0 @ le32_bytes sizedesc1);
          out = sha_out (sh_s hash);
          hash = hash\<lparr>sh_s := (0, 0, 0, 0, 0, 0, 0, 0)\<rparr>
      in (hash, out))"

section \<open>HMAC\<close>

record hmac =
  hm_inner :: sha256
  hm_outer :: sha256

text \<open>
  \<open>buf\<close> stands for the bytes of the message buffers, which \<open>secp256k1_sha256_initialize\<close> leaves
  as they are in memory.
\<close>

definition hmac_key :: "u8 list \<Rightarrow> u8 list \<Rightarrow> u8 list" where
  "hmac_key buf key =
     (if length key \<le> 64 then key @ replicate (64 - length key) 0
      else
        let sha = sha256_initialize buf;
            sha = sha256_write sha key;
            (sha, rkey) = sha256_finalize sha
        in rkey @ replicate 32 0)"

definition hmac_initialize :: "u8 list \<Rightarrow> u8 list \<Rightarrow> hmac" where
  "hmac_initialize buf key =
     (let rkey = hmac_key buf key;
          outer = sha256_initialize buf;
          rkey = map (\<lambda>b. b XOR 0x5c) rkey;
          outer = sha256_write outer rkey;
          inner = sha256_initialize buf;
          rkey = map (\<lambda>b. b XOR (0x5c XOR 0x36)) rkey;
          inner = sha256_write inner rkey
      in \<lparr>hm_inner = inner, hm_outer = outer\<rparr>)"

definition hmac_write :: "hmac \<Rightarrow> u8 list \<Rightarrow> hmac" where
  "hmac_write h data = h\<lparr>hm_inner := sha256_write (hm_inner h) data\<rparr>"

definition hmac_finalize :: "hmac \<Rightarrow> hmac \<times> u8 list" where
  "hmac_finalize h =
     (let (inner, temp) = sha256_finalize (hm_inner h);
          outer = sha256_write (hm_outer h) temp;
          (outer, out) = sha256_finalize outer
      in (\<lparr>hm_inner = inner, hm_outer = outer\<rparr>, out))"

section \<open>The generator of RFC 6979\<close>

record rfc6979 =
  rng_v :: "u8 list"
  rng_k :: "u8 list"
  rng_retry :: bool

text \<open>One HMAC computation over a sequence of writes, as the code repeats it.\<close>

definition hmac_run :: "u8 list \<Rightarrow> u8 list \<Rightarrow> u8 list list \<Rightarrow> u8 list" where
  "hmac_run buf key parts = snd (hmac_finalize (foldl hmac_write (hmac_initialize buf key) parts))"

definition rfc6979_initialize :: "u8 list \<Rightarrow> u8 list \<Rightarrow> rfc6979" where
  "rfc6979_initialize buf key =
     (let v = replicate 32 0x01;
          k = replicate 32 0x00;
          k = hmac_run buf k [v, [0x00], key];
          v = hmac_run buf k [v];
          k = hmac_run buf k [v, [0x01], key];
          v = hmac_run buf k [v]
      in \<lparr>rng_v = v, rng_k = k, rng_retry = False\<rparr>)"

text \<open>The output loop: each turn refreshes \<open>v\<close> and copies at most 32 bytes of it.\<close>

function rfc6979_output :: "u8 list \<Rightarrow> u8 list \<Rightarrow> u8 list \<Rightarrow> nat \<Rightarrow> u8 list \<times> u8 list" where
  "rfc6979_output buf k v outlen =
     (if 0 < outlen then
        let v = hmac_run buf k [v];
            now = (if 32 < outlen then 32 else outlen);
            (v', out) = rfc6979_output buf k v (outlen - now)
        in (v', take now v @ out)
      else (v, []))"
  by pat_completeness auto
termination
  by (relation "measure (\<lambda>(buf, k, v, outlen). outlen)") auto

definition rfc6979_generate :: "u8 list \<Rightarrow> rfc6979 \<Rightarrow> nat \<Rightarrow> rfc6979 \<times> u8 list" where
  "rfc6979_generate buf rng outlen =
     (let (k, v) = (if rng_retry rng then
                      let k = hmac_run buf (rng_k rng) [rng_v rng, [0x00]];
                          v = hmac_run buf k [rng_v rng]
                      in (k, v)
                    else (rng_k rng, rng_v rng));
          (v, out) = rfc6979_output buf k v outlen
      in (\<lparr>rng_v = v, rng_k = k, rng_retry = True\<rparr>, out))"

definition rfc6979_finalize :: "rfc6979 \<Rightarrow> rfc6979" where
  "rfc6979_finalize rng = \<lparr>rng_v = replicate 32 0, rng_k = replicate 32 0, rng_retry = False\<rparr>"

end
