(* ===== verification/Fips_Constants.thy ===== *)
theory Fips_Constants
  imports Complex_Main Prelude Primality
begin

text \<open>
  The constants of FIPS 180-4 computed from their definition in the standard (sections 4.2.2 and
  5.3.3): the first 32 bits of the fractional parts of the cube roots of the first 64 primes and
  of the square roots of the first 8.  They are independent of the tables in the code.
\<close>

section \<open>Integer roots, bit by bit\<close>

primrec root_bits :: "nat \<Rightarrow> nat \<Rightarrow> nat \<Rightarrow> nat \<Rightarrow> nat" where
  "root_bits e n 0 r = r"
| "root_bits e n (Suc b) r = root_bits e n b (if (r + 2 ^ b) ^ e \<le> n then r + 2 ^ b else r)"

lemma root_bits_spec:
  "r ^ e \<le> n \<Longrightarrow> n < (r + 2 ^ b) ^ e \<Longrightarrow> root_bits e n b r ^ e \<le> n \<and> n < (root_bits e n b r + 1) ^ e"
proof (induction b arbitrary: r)
  case (Suc b)
  have "r + 2 ^ Suc b = r + 2 ^ b + 2 ^ b" by simp
  then have "n < (r + 2 ^ b + 2 ^ b) ^ e" using Suc.prems(2) by (simp only:)
  then show ?case
    using Suc.IH [of "r + 2 ^ b"] Suc.IH [of r] Suc.prems(1)
    unfolding root_bits.simps by (simp only: not_le split: if_split) blast
qed simp

lemma root_bits_unique:
  assumes "k ^ e \<le> n" "n < (k + 1) ^ e" "k < 2 ^ b"
  shows "root_bits e n b 0 = k"
proof -
  have e: "e \<noteq> 0" using assms(1,2) by (intro notI) simp
  have "n < (2 ^ b) ^ e"
    using assms(2) power_mono [of "k + 1" "2 ^ b" e] assms(3) by (simp add: less_le_trans)
  then have s: "root_bits e n b 0 ^ e \<le> n" "n < (root_bits e n b 0 + 1) ^ e"
    using root_bits_spec [of 0 e n b] e by (simp_all add: zero_power)
  have "root_bits e n b 0 < k + 1" "k < root_bits e n b 0 + 1"
    by (rule power_less_imp_less_base [of _ e], use s assms in simp_all)+
  then show ?thesis by simp
qed

section \<open>The constants\<close>

text \<open>
  \<open>fips_frac e p\<close> is the e-th root of p times 2^32, rounded down and reduced modulo 2^32: the
  first 32 bits of the fractional part.  Forty bits hold the roots below 2^8.
\<close>

definition fips_frac :: "nat \<Rightarrow> nat \<Rightarrow> u32" where
  "fips_frac e p = of_nat (root_bits e (p * 2 ^ (32 * e)) 40 0)"

text \<open>The primes below 312: a composite number below 18 * 18 has a proper factor below 18.\<close>

definition no_small_factor :: "nat \<Rightarrow> bool" where
  "no_small_factor p \<longleftrightarrow> list_all (\<lambda>d. p mod d = 0 \<longrightarrow> p \<le> d) [2..<18]"

definition fips_primes :: "nat list" where
  "fips_primes = filter no_small_factor [2..<312]"

definition fips_K :: "u32 list" where
  "fips_K = map (fips_frac 3) fips_primes"

definition fips_H0 :: "u32 \<times> u32 \<times> u32 \<times> u32 \<times> u32 \<times> u32 \<times> u32 \<times> u32" where
  "fips_H0 = (fips_frac 2 2, fips_frac 2 3, fips_frac 2 5, fips_frac 2 7, fips_frac 2 11, fips_frac 2 13,
     fips_frac 2 17, fips_frac 2 19)"

text \<open>The integer root is the real one rounded down.\<close>

lemma fips_frac_root:
  assumes "0 < e" "p < 2 ^ (8 * e)"
  shows "unat (fips_frac e p) = nat \<lfloor>frac (root e (real p)) * 2 ^ 32\<rfloor>"
proof -
  define k where "k = root_bits e (p * 2 ^ (32 * e)) 40 0"
  define x where "x = root e (real p) * 2 ^ 32"
  have "p * 2 ^ (32 * e) < 2 ^ (8 * e) * 2 ^ (32 * e)" using assms(2) by simp
  also have "\<dots> = (2 ^ 40) ^ e" by (simp only: power_add [symmetric] power_mult [symmetric] distrib_right [symmetric]) simp
  finally have k: "k ^ e \<le> p * 2 ^ (32 * e)" "p * 2 ^ (32 * e) < (k + 1) ^ e"
    using root_bits_spec [of 0 e "p * 2 ^ (32 * e)" 40] assms(1) unfolding k_def by (simp_all add: zero_power)
  have xe: "x ^ e = real (p * 2 ^ (32 * e))" "0 \<le> x"
    unfolding x_def using assms(1) by (simp_all add: power_mult_distrib power_mult)
  have "real k ^ e \<le> x ^ e" "x ^ e < real (k + 1) ^ e"
    unfolding xe of_nat_power [symmetric] of_nat_le_iff of_nat_less_iff by (rule k)+
  then have "real k \<le> x" "x < real (k + 1)"
    using assms(1) xe(2) by (simp_all only: power_mono_iff of_nat_0_le_iff) (rule power_less_imp_less_base, simp_all)
  then have fx: "\<lfloor>x\<rfloor> = int k" by (intro floor_unique) simp_all
  define w where "w = \<lfloor>root e (real p)\<rfloor>"
  have "frac (root e (real p)) * 2 ^ 32 = x - of_int (w * 2 ^ 32)"
    unfolding frac_def x_def w_def by (simp add: algebra_simps)
  then have f: "\<lfloor>frac (root e (real p)) * 2 ^ 32\<rfloor> = int k - w * 2 ^ 32"
    by (simp only: floor_diff_of_int fx)
  have "0 \<le> frac (root e (real p)) * 2 ^ 32" "frac (root e (real p)) * 2 ^ 32 < 2 ^ 32"
    using frac_lt_1 [of "root e (real p)"] by (simp_all add: frac_ge_0)
  then have r: "0 \<le> int k - w * 2 ^ 32" "int k - w * 2 ^ 32 < 2 ^ 32"
    unfolding f [symmetric] by (simp_all only: zero_le_floor floor_less_iff) simp_all
  have "int k mod 2 ^ 32 = (int k - w * 2 ^ 32) mod 2 ^ 32" by (simp add: mod_diff_eq [symmetric])
  also have "\<dots> = int k - w * 2 ^ 32" using r by (simp only: mod_pos_pos_trivial)
  finally have "nat \<lfloor>frac (root e (real p)) * 2 ^ 32\<rfloor> = nat (int k mod 2 ^ 32)" unfolding f by simp
  also have "\<dots> = k mod 2 ^ 32" by (simp add: nat_mod_distrib)
  also have "\<dots> = unat (fips_frac e p)" by (simp add: fips_frac_def k_def unat_of_nat)
  finally show ?thesis by simp
qed

text \<open>A root is recognised by two comparisons.\<close>

lemma fips_frac_eq:
  "k ^ e \<le> p * 2 ^ (32 * e) \<Longrightarrow> p * 2 ^ (32 * e) < (k + 1) ^ e \<Longrightarrow> k < 2 ^ 40 \<Longrightarrow> fips_frac e p = of_nat k"
  unfolding fips_frac_def by (simp add: root_bits_unique)

lemma fips_primes_prime: "p \<in> set fips_primes \<longleftrightarrow> is_prime p \<and> p < 312"
proof
  assume "p \<in> set fips_primes"
  then have p: "2 \<le> p" "p < 312" "\<And>d. 2 \<le> d \<Longrightarrow> d < 18 \<Longrightarrow> d dvd p \<Longrightarrow> p \<le> d"
    unfolding fips_primes_def no_small_factor_def list_all_iff set_filter set_upt by (simp_all add: dvd_eq_mod_eq_0)
  have "d = 1 \<or> d = p" if "d dvd p" for d
  proof (rule ccontr)
    assume d: "\<not> (d = 1 \<or> d = p)"
    obtain f where f: "p = d * f" using \<open>d dvd p\<close> by (rule dvdE)
    have b: "2 \<le> d" "2 \<le> f" "d < p" "f < p"
      using d f p(1) by (cases d; cases f; auto simp: not_less_eq_eq numeral_2_eq_2)+
    have "d < 18 \<or> f < 18" using p(2) f mult_le_mono [of 18 d 18 f] by linarith
    then show False using p(3) [of d] p(3) [of f] b f by auto
  qed
  with p show "is_prime p \<and> p < 312" by (simp add: is_prime_def)
next
  assume "is_prime p \<and> p < 312"
  then show "p \<in> set fips_primes"
    unfolding fips_primes_def no_small_factor_def list_all_iff set_filter set_upt is_prime_def dvd_eq_mod_eq_0 [symmetric] by auto
qed

lemma no_small_factor_iff:
  "no_small_factor p \<longleftrightarrow> (p mod 2 = 0 \<longrightarrow> p \<le> 2) \<and> (p mod 3 = 0 \<longrightarrow> p \<le> 3) \<and> (p mod 5 = 0 \<longrightarrow> p \<le> 5)
     \<and> (p mod 7 = 0 \<longrightarrow> p \<le> 7) \<and> (p mod 11 = 0 \<longrightarrow> p \<le> 11) \<and> (p mod 13 = 0 \<longrightarrow> p \<le> 13)
     \<and> (p mod 17 = 0 \<longrightarrow> p \<le> 17)" (is "_ = ?r") if "2 \<le> p"
proof
  show ?r if "no_small_factor p" using that by (simp add: no_small_factor_def)
next
  assume r: ?r
  have mult: "p mod d = 0 \<longrightarrow> p \<le> d" if "q dvd d" "p mod q = 0 \<longrightarrow> p \<le> q" "q \<le> d" for d q
    using that by (meson dvd_trans le_trans mod_eq_0_iff_dvd)
  show "no_small_factor p"
    using r unfolding no_small_factor_def
    by (simp add: mult [of 2 4] mult [of 2 6] mult [of 2 8] mult [of 3 9] mult [of 2 10] mult [of 2 12]
      mult [of 2 14] mult [of 3 15] mult [of 2 16])
qed

lemma fips_primes_eq:
  "fips_primes =
    [2, 3, 5, 7, 11, 13, 17, 19, 23, 29, 31, 37, 41, 43, 47, 53, 59, 61, 67, 71, 73, 79, 83, 89, 97,
     101, 103, 107, 109, 113, 127, 131, 137, 139, 149, 151, 157, 163, 167, 173, 179, 181, 191, 193,
     197, 199, 211, 223, 227, 229, 233, 239, 241, 251, 257, 263, 269, 271, 277, 281, 283, 293, 307,
     311]"
  unfolding fips_primes_def by (simp add: no_small_factor_iff)

lemma length_fips_primes: "length fips_primes = 64"
  by (simp add: fips_primes_eq)

lemma fips_roots:
  "list_all2 (\<lambda>p k. k ^ 3 \<le> p * 2 ^ 96 \<and> p * 2 ^ 96 < (k + 1) ^ 3 \<and> k < 2 ^ 40) fips_primes
    [5411319704, 6194414737, 7344290767, 8215976869, 9551921755, 10098905585, 11043570340,
     11460697813, 12214315672, 13195500289, 13492127166, 14311783875, 14809980276, 15046980094,
     15499789991, 16133124468, 16720292289, 16907126662, 17444216262, 17784676812, 17950125167,
     18429019306, 18734950876, 19175934170, 19734090066, 20001703533, 20132865992, 20390182855,
     20516441075, 20764397895, 21588763473, 21813078375, 22141143685, 22248366392, 22769593852,
     22871018771, 23170020180, 23461497531, 23651862830, 23931792517, 24205322401, 24295138891,
     24734567280, 24820601251, 24990902297, 25075189284, 25569408389, 26045227120, 26200031510,
     26276752392, 26428864332, 26653801653, 26727943347, 27092625994, 27306805839, 27517677555,
     27725365998, 27793908591, 27997534228, 28131656200, 28198240250, 28526537963, 28973835255,
     29099129074]"
  unfolding fips_primes_eq by simp

lemma fips_K_of_roots:
  "list_all2 (\<lambda>p k. k ^ 3 \<le> p * 2 ^ 96 \<and> p * 2 ^ 96 < (k + 1) ^ 3 \<and> k < 2 ^ 40) ps ks \<Longrightarrow>
     map (fips_frac 3) ps = map of_nat ks"
proof (induction rule: list_all2_induct)
  case (Cons p ps k ks)
  then show ?case using fips_frac_eq [of k 3 p] by simp
qed simp

lemmas fips_K_eq = fips_K_of_roots [OF fips_roots, folded fips_K_def]

lemma fips_H0_eq:
  "fips_H0 = (0x6a09e667, 0xbb67ae85, 0x3c6ef372, 0xa54ff53a, 0x510e527f, 0x9b05688c, 0x1f83d9ab, 0x5be0cd19)"
  unfolding fips_H0_def
  using fips_frac_eq [of 6074000999 2 2] fips_frac_eq [of 7439101573 2 3] fips_frac_eq [of 9603838834 2 5]
    fips_frac_eq [of 11363415354 2 7] fips_frac_eq [of 14244795007 2 11] fips_frac_eq [of 15485724812 2 13]
    fips_frac_eq [of 17708603819 2 17] fips_frac_eq [of 18721328409 2 19]
  by simp

end
