(* ===== verification/Hash_Correct.thy ===== *)
theory Hash_Correct
  imports Hash Fips_Constants
begin

text \<open>
  The SHA-256 code against FIPS 180-4: the functions of the standard (with its constants from
  \<open>Fips_Constants\<close>, computed from roots of primes), the compression of one
  block, and the digest of a message however it is cut into writes; HMAC and the generator of
  RFC 6979 on top of it.
\<close>

section \<open>FIPS 180-4\<close>

definition fips_Ch :: "u32 \<Rightarrow> u32 \<Rightarrow> u32 \<Rightarrow> u32" where
  "fips_Ch x y z = (x AND y) XOR (NOT x AND z)"

definition fips_Maj :: "u32 \<Rightarrow> u32 \<Rightarrow> u32 \<Rightarrow> u32" where
  "fips_Maj x y z = (x AND y) XOR (x AND z) XOR (y AND z)"

definition fips_Sigma0 :: "u32 \<Rightarrow> u32" where
  "fips_Sigma0 x = word_rotr 2 x XOR word_rotr 13 x XOR word_rotr 22 x"

definition fips_Sigma1 :: "u32 \<Rightarrow> u32" where
  "fips_Sigma1 x = word_rotr 6 x XOR word_rotr 11 x XOR word_rotr 25 x"

definition fips_sigma0 :: "u32 \<Rightarrow> u32" where
  "fips_sigma0 x = word_rotr 7 x XOR word_rotr 18 x XOR drop_bit 3 x"

definition fips_sigma1 :: "u32 \<Rightarrow> u32" where
  "fips_sigma1 x = word_rotr 17 x XOR word_rotr 19 x XOR drop_bit 10 x"

text \<open>The message schedule.\<close>

fun fips_W :: "u32 list \<Rightarrow> nat \<Rightarrow> u32" where
  "fips_W M t = (if t < 16 then M ! t
     else fips_sigma1 (fips_W M (t - 2)) + fips_W M (t - 7) + fips_sigma0 (fips_W M (t - 15)) + fips_W M (t - 16))"

declare fips_W.simps [simp del]

fun fips_round :: "u32 \<Rightarrow> u32 \<Rightarrow> sha_regs \<Rightarrow> sha_regs" where
  "fips_round k w (a, b, c, d, e, f, g, h) =
     (h + fips_Sigma1 e + fips_Ch e f g + k + w + (fips_Sigma0 a + fips_Maj a b c), a, b, c,
      d + (h + fips_Sigma1 e + fips_Ch e f g + k + w), e, f, g)"

definition fips_compress :: "sha_regs \<Rightarrow> u32 list \<Rightarrow> sha_regs" where
  "fips_compress H M = sha_add_regs H (foldl (\<lambda>st t. fips_round (fips_K ! t) (fips_W M t) st) H [0..<64])"

text \<open>The sixteen words of a block and the blocks of a message.\<close>

definition fips_words :: "u8 list \<Rightarrow> u32 list" where
  "fips_words block = map (\<lambda>i. of_nat (be_nat (take 4 (drop (4 * i) block)))) [0..<16]"

function fips_blocks :: "sha_regs \<Rightarrow> u8 list \<Rightarrow> sha_regs" where
  "fips_blocks H m = (if length m < 64 then H else fips_blocks (fips_compress H (fips_words (take 64 m))) (drop 64 m))"
  by pat_completeness auto
termination
  by (relation "measure (\<lambda>(H, m). length m)") auto

declare fips_blocks.simps [simp del]

text \<open>
  Padding: a one bit, zeros up to 56 modulo 64 bytes, and the length in bits as 64 bits, most
  significant byte first.
\<close>

definition nat_be :: "nat \<Rightarrow> nat \<Rightarrow> u8 list" where
  "nat_be n x = map (\<lambda>i. of_nat (x div 256 ^ (n - 1 - i))) [0..<n]"

definition fips_pad :: "u8 list \<Rightarrow> u8 list" where
  "fips_pad m = m @ 0x80 # replicate ((119 - length m mod 64) mod 64) 0 @ nat_be 8 (8 * length m)"

fun fips_bytes :: "sha_regs \<Rightarrow> u8 list" where
  "fips_bytes (a, b, c, d, e, f, g, h) = concat (map (\<lambda>w. nat_be 4 (unat w)) [a, b, c, d, e, f, g, h])"

definition fips_sha256 :: "u8 list \<Rightarrow> u8 list" where
  "fips_sha256 m = fips_bytes (fips_blocks fips_H0 (fips_pad m))"

section \<open>The logical functions\<close>

lemma Ch_fips: "Ch x y z = fips_Ch x y z"
  unfolding Ch_def fips_Ch_def by (rule bit_eqI) (auto simp: bit_and_iff bit_xor_iff bit_not_iff)

lemma Maj_fips: "Maj x y z = fips_Maj x y z"
  unfolding Maj_def fips_Maj_def by (rule bit_eqI) (auto simp: bit_and_iff bit_xor_iff bit_or_iff)

lemma rotr_code: "0 < n \<Longrightarrow> n < 32 \<Longrightarrow> drop_bit n x OR push_bit (32 - n) x = word_rotr n x" for x :: u32
proof (rule bit_word_eqI)
  fix j
  assume n: "0 < n" "n < 32" and "j < LENGTH(32)"
  then have j: "j < 32" by simp
  show "bit (drop_bit n x OR push_bit (32 - n) x) j = bit (word_rotr n x) j"
  proof (cases "j + n < 32")
    case True
    then show ?thesis using n j
      by (auto simp: bit_or_iff bit_drop_bit_eq bit_push_bit_iff bit_word_rotr_iff add.commute)
  next
    case False
    then have "(j + n) mod 32 = j + n - 32" using j n by (simp add: mod_if)
    moreover have "\<not> bit x (n + j)" using False by (auto dest: bit_imp_le_length)
    ultimately show ?thesis using n j False
      by (auto simp: bit_or_iff bit_drop_bit_eq bit_push_bit_iff bit_word_rotr_iff)
  qed
qed

lemma sigmas_fips: "Sigma0 x = fips_Sigma0 x" "Sigma1 x = fips_Sigma1 x" "sigma0 x = fips_sigma0 x" "sigma1 x = fips_sigma1 x"
  using rotr_code [of 2 x] rotr_code [of 13 x] rotr_code [of 22 x] rotr_code [of 6 x] rotr_code [of 11 x]
    rotr_code [of 25 x] rotr_code [of 7 x] rotr_code [of 18 x] rotr_code [of 17 x] rotr_code [of 19 x]
  unfolding Sigma0_def Sigma1_def sigma0_def sigma1_def fips_Sigma0_def fips_Sigma1_def fips_sigma0_def fips_sigma1_def
  by simp_all

section \<open>The unrolled rounds\<close>

lemma sha_round_fips:
  "sha_round a b c d e f g h k w = (d', h') \<Longrightarrow> fips_round k w (a, b, c, d, e, f, g, h) = (h', a, b, c, d', e, f, g)"
  by (auto simp: sha_round_def Let_def Ch_fips Maj_fips sigmas_fips)

lemma let_eqI: "(\<And>x. x = t \<Longrightarrow> f x = r) \<Longrightarrow> (let x = t in f x) = r"
  by simp

lemma let_subst: "t = t' \<Longrightarrow> f t' = r \<Longrightarrow> (let x = t in f x) = r"
  by simp

lemma let_pair_eqI: "(\<And>x y. p = (x, y) \<Longrightarrow> f x y = r) \<Longrightarrow> (let (x, y) = p in f x y) = r"
  by (cases p) simp

lemma regs_exhaust: obtains a b c d e f g h where "(st :: sha_regs) = (a, b, c, d, e, f, g, h)"
  by (metis prod.exhaust)

lemma upt16: "[0..<16] = [0, 1, 2, 3, 4, 5, 6, 7, 8, 9, 10, 11, 12, 13, 14, 15 :: nat]"
  by (simp add: upt_rec)

lemma sha_rounds_first_fips:
  "sha_rounds_first k chunk st =
     (map (\<lambda>i. be32 (chunk ! i)) [0..<16], foldl (\<lambda>st i. fips_round (k ! i) (be32 (chunk ! i)) st) st [0..<16])"
proof -
  obtain a b c d e f g h where st: "st = (a, b, c, d, e, f, g, h)" by (rule regs_exhaust)
  show ?thesis
    unfolding st sha_rounds_first_def Let_def [of "(a, b, c, d, e, f, g, h)"] prod.case
    by ((rule let_pair_eqI | rule let_eqI)+) (simp only: upt16 foldl.simps list.map sha_round_fips)
qed

text \<open>Sixteen consecutive words of the schedule.\<close>

definition W_window :: "u32 list \<Rightarrow> nat \<Rightarrow> u32 list" where
  "W_window M j = map (\<lambda>i. fips_W M (j + i)) [0..<16]"

lemma W_step:
  "16 \<le> i \<Longrightarrow> fips_W M (j + (i - 16)) + (sigma1 (fips_W M (j + (i - 2))) + fips_W M (j + (i - 7))
     + sigma0 (fips_W M (j + (i - 15)))) = fips_W M (j + i)"
  by (subst (5) fips_W.simps) (simp add: sigmas_fips ac_simps)

lemma sha_rounds_next_fips:
  "sha_rounds_next k (W_window M j, st) =
     (W_window M (j + 16), foldl (\<lambda>st i. fips_round (k ! i) (fips_W M (j + 16 + i)) st) st [0..<16])"
proof -
  obtain a b c d e f g h where st: "st = (a, b, c, d, e, f, g, h)" by (rule regs_exhaust)
  define W where "W i = fips_W M (j + i)" for i
  have win: "W_window M j = [W 0, W 1, W 2, W 3, W 4, W 5, W 6, W 7, W 8, W 9, W 10, W 11, W 12, W 13, W 14, W 15]"
    "W_window M (j + 16) = [W 16, W 17, W 18, W 19, W 20, W 21, W 22, W 23, W 24, W 25, W 26, W 27, W 28, W 29, W 30, W 31]"
    unfolding W_window_def W_def upt16 by (simp_all add: ac_simps)
  have W: "fips_W M (j + 16 + i) = W (16 + i)" for i unfolding W_def by (simp add: ac_simps)
  have step: "W (i - 16) + (sigma1 (W (i - 2)) + W (i - 7) + sigma0 (W (i - 15))) = W i" if "16 \<le> i" for i
    unfolding W_def by (rule W_step [OF that])
  note steps = step [of 16, simplified, folded One_nat_def] step [of 17, simplified, folded One_nat_def]
    step [of 18, simplified, folded One_nat_def] step [of 19, simplified, folded One_nat_def]
    step [of 20, simplified, folded One_nat_def] step [of 21, simplified, folded One_nat_def]
    step [of 22, simplified, folded One_nat_def] step [of 23, simplified, folded One_nat_def]
    step [of 24, simplified, folded One_nat_def] step [of 25, simplified, folded One_nat_def]
    step [of 26, simplified, folded One_nat_def] step [of 27, simplified, folded One_nat_def]
    step [of 28, simplified, folded One_nat_def] step [of 29, simplified, folded One_nat_def]
    step [of 30, simplified, folded One_nat_def] step [of 31, simplified, folded One_nat_def]
  let ?l = "[W 0, W 1, W 2, W 3, W 4, W 5, W 6, W 7, W 8, W 9, W 10, W 11, W 12, W 13, W 14, W 15]"
  have nths:
    "?l ! 0 = W 0"
    "?l ! 1 = W 1"
    "?l ! 2 = W 2"
    "?l ! 3 = W 3"
    "?l ! 4 = W 4"
    "?l ! 5 = W 5"
    "?l ! 6 = W 6"
    "?l ! 7 = W 7"
    "?l ! 8 = W 8"
    "?l ! 9 = W 9"
    "?l ! 10 = W 10"
    "?l ! 11 = W 11"
    "?l ! 12 = W 12"
    "?l ! 13 = W 13"
    "?l ! 14 = W 14"
    "?l ! 15 = W 15"
    by simp_all
  show ?thesis
    unfolding st win W sha_rounds_next_def Let_def [of "(_, _, _, _, _, _, _, _, _)"] prod.case
    by ((rule let_pair_eqI | rule nths [THEN let_subst] | rule steps [THEN let_subst])+)
       (simp only: upt16 foldl.simps sha_round_fips arith_simps add_0_right numeral_plus_one semiring_norm)
qed

lemma foldl_upt_shift: "foldl (\<lambda>st t. f t st) st [n..<n + 16] = foldl (\<lambda>st i. f (n + i) st) st [0..<16]"
proof -
  have "[n..<n + 16] = map ((+) n) [0..<16]" by (rule nth_equalityI) simp_all
  then show ?thesis by (simp add: foldl_map)
qed

lemma foldl_upt64:
  "foldl (\<lambda>st t. f t st) st [0..<64] =
     foldl (\<lambda>st i. f (48 + i) st) (foldl (\<lambda>st i. f (32 + i) st) (foldl (\<lambda>st i. f (16 + i) st)
       (foldl (\<lambda>st i. f i st) st [0..<16]) [0..<16]) [0..<16]) [0..<16]"
proof -
  have "[0..<64] = [0..<16] @ [16..<16 + 16] @ [32..<32 + 16] @ [48..<48 + 16 :: nat]"
    using upt_add_eq_append [of 0 16 48] upt_add_eq_append [of 16 32 32] upt_add_eq_append [of 32 48 16] by simp
  then show ?thesis by (simp only: foldl_append foldl_upt_shift)
qed

text \<open>The four tables of the code are the constants of the standard.\<close>

lemma fips_K_tables: "fips_K = sha_K0 @ sha_K1 @ sha_K2 @ sha_K3"
  unfolding fips_K_eq sha_K0_def sha_K1_def sha_K2_def sha_K3_def by simp

lemma fips_K_nth: "i < 16 \<Longrightarrow> fips_K ! i = sha_K0 ! i" "i < 16 \<Longrightarrow> fips_K ! (16 + i) = sha_K1 ! i"
  "i < 16 \<Longrightarrow> fips_K ! (32 + i) = sha_K2 ! i" "i < 16 \<Longrightarrow> fips_K ! (48 + i) = sha_K3 ! i"
proof -
  have l: "length sha_K0 = 16" "length sha_K1 = 16" "length sha_K2 = 16"
    by (simp_all add: sha_K0_def sha_K1_def sha_K2_def)
  show "i < 16 \<Longrightarrow> fips_K ! i = sha_K0 ! i" "i < 16 \<Longrightarrow> fips_K ! (16 + i) = sha_K1 ! i"
    "i < 16 \<Longrightarrow> fips_K ! (32 + i) = sha_K2 ! i" "i < 16 \<Longrightarrow> fips_K ! (48 + i) = sha_K3 ! i"
    unfolding fips_K_tables by (simp_all add: nth_append l)
qed

lemma foldl_cong16: "(\<And>st i. i < 16 \<Longrightarrow> f st i = g st i) \<Longrightarrow> foldl f st [0..<16] = foldl g st [0..<16]"
  by (rule foldl_cong) simp_all

lemma transform_fips:
  "sha256_transform s chunk = fips_compress s (map (\<lambda>i. be32 (chunk ! i)) [0..<16])"
proof -
  define M where "M = map (\<lambda>i. be32 (chunk ! i)) [0..<16]"
  have M: "fips_W M i = be32 (chunk ! i)" if "i < 16" for i
    using that by (subst fips_W.simps) (simp add: M_def)
  have "W_window M 0 = M" unfolding W_window_def using M by (simp add: M_def)
  then have 1: "sha_rounds_first sha_K0 chunk s
      = (W_window M 0, foldl (\<lambda>st i. fips_round (sha_K0 ! i) (be32 (chunk ! i)) st) s [0..<16])"
    unfolding sha_rounds_first_fips by (simp add: M_def)
  show ?thesis
    unfolding sha256_transform_def fips_compress_def foldl_upt64 1 M_def [symmetric]
      sha_rounds_next_fips [of _ M 0, unfolded add_0] sha_rounds_next_fips snd_conv
    by (intro arg_cong2 [where f = sha_add_regs] foldl_cong refl) (simp_all add: fips_K_nth M)
qed

section \<open>Bytes and words\<close>

lemma be32_bit:
  "bit (be32 p) j \<longleftrightarrow> (if j < 8 then bit p (j + 24) else if j < 16 then bit p (j + 8)
     else if j < 24 then bit p (j - 8) else j < 32 \<and> bit p (j - 24))"
proof -
  have m: "(0xFF :: u32) = mask 8" "(0xFF00 :: u32) = push_bit 8 (mask 8)" "(0xFF0000 :: u32) = push_bit 16 (mask 8)"
    "(0xFF000000 :: u32) = push_bit 24 (mask 8)"
    by (simp_all add: mask_eq_exp_minus_1 push_bit_eq_mult)
  show ?thesis
    unfolding be32_def m
    by (auto simp: bit_or_iff bit_push_bit_iff bit_drop_bit_eq bit_and_iff bit_mask_iff add.commute dest: bit_imp_le_length)
qed

lemma le32_load_bit:
  "bit (le32_load m i) j \<longleftrightarrow> (if j < 8 then bit (m ! i) j else if j < 16 then bit (m ! (i + 1)) (j - 8)
     else if j < 24 then bit (m ! (i + 2)) (j - 16) else j < 32 \<and> bit (m ! (i + 3)) (j - 24))"
  unfolding le32_load_def
  by (auto simp: bit_or_iff bit_push_bit_iff bit_ucast_iff dest: bit_imp_le_length)

lemma be32_load:
  assumes "i + 4 \<le> length m"
  shows "be32 (le32_load m i) = of_nat (be_nat (take 4 (drop i m)))"
proof -
  have t: "take 4 (drop i m) = [m ! i, m ! (i + 1), m ! (i + 2), m ! (i + 3)]" (is "_ = ?l")
    using assms by (simp add: numeral_eq_Suc Cons_nth_drop_Suc [symmetric])
  have "be_nat ?l = unat (be32 (le32_load m i))"
  proof (rule be_nat_eqI [where n = 4])
    fix k t :: nat
    assume "k < 4" "t < 8"
    then have "k = 0 \<or> k = 1 \<or> k = 2 \<or> k = 3" by linarith
    then show "bit (?l ! (4 - 1 - k)) t = bit (unat (be32 (le32_load m i))) (8 * k + t)"
      using \<open>t < 8\<close> by (elim disjE) (simp_all add: bit_unat be32_bit le32_load_bit)
  qed (use unat_32 [of "be32 (le32_load m i)"] in simp_all)
  then show ?thesis unfolding t by simp
qed

lemma chunk_fips: "length buf = 64 \<Longrightarrow> map (\<lambda>i. be32 (sha_chunk buf ! i)) [0..<16] = fips_words buf"
  unfolding fips_words_def sha_chunk_def by (simp add: be32_load)

lemma bit_word_of_nat: "bit (word_of_nat m :: 'a::len word) j \<longleftrightarrow> j < LENGTH('a) \<and> bit m j"
  by (metis bit_of_nat_iff_bit bit_word_of_int_iff of_int_of_nat_eq)

lemma le32_be32: "le32_bytes (be32 w) = nat_be 4 (unat w)"
proof -
  have e: "ucast (drop_bit (8 * k) (be32 w)) = (of_nat (unat w div 256 ^ (3 - k)) :: u8)" if "k < 4" for k
  proof (rule bit_word_eqI)
    fix j
    assume "j < LENGTH(8)"
    then have j: "j < 8" by simp
    have "256 ^ (3 - k) = (2 ^ (8 * (3 - k)) :: nat)" by (simp add: power_mult)
    then have "bit (of_nat (unat w div 256 ^ (3 - k)) :: u8) j \<longleftrightarrow> bit w (8 * (3 - k) + j)"
      using j by (simp add: bit_word_of_nat bit_unat bit_drop_bit_eq flip: drop_bit_eq_div)
    moreover have "k = 0 \<or> k = 1 \<or> k = 2 \<or> k = 3" using that by linarith
    ultimately show "bit (ucast (drop_bit (8 * k) (be32 w)) :: u8) j = bit (of_nat (unat w div 256 ^ (3 - k)) :: u8) j"
      using j by (elim disjE) (simp_all add: bit_ucast_iff bit_drop_bit_eq be32_bit add.commute)
  qed
  have "[0..<4] = [0, 1, 2, 3 :: nat]" by (simp add: upt_rec)
  then show ?thesis
    unfolding le32_bytes_def nat_be_def using e [of 0] e [of 1] e [of 2] e [of 3] by simp
qed

lemma sha_out_fips: "sha_out s = fips_bytes s"
  by (cases s rule: regs_exhaust) (simp add: le32_be32)

lemma unat_of_nat64: "n < 2 ^ 64 \<Longrightarrow> unat (of_nat n :: u64) = n"
  by (simp add: unat_of_nat take_bit_eq_mod)

section \<open>Writing a message\<close>

text \<open>
  What the context holds after the bytes \<open>m\<close>: their number, the words after all complete blocks,
  and the rest at the start of the buffer.
\<close>

definition sha_tail :: "u8 list \<Rightarrow> u8 list" where
  "sha_tail m = drop (length m - length m mod 64) m"

definition sha_holds :: "sha256 \<Rightarrow> u8 list \<Rightarrow> bool" where
  "sha_holds hash m \<longleftrightarrow> sh_bytes hash = of_nat (length m) \<and> sh_s hash = fips_blocks fips_H0 m
     \<and> length (sh_buf hash) = 64 \<and> take (length m mod 64) (sh_buf hash) = sha_tail m"

lemma length_sha_tail [simp]: "length (sha_tail m) = length m mod 64"
  unfolding sha_tail_def by simp

lemma fips_blocks_short: "length m < 64 \<Longrightarrow> fips_blocks H m = H"
  by (subst fips_blocks.simps) simp

lemma fips_blocks_step:
  "length b = 64 \<Longrightarrow> fips_blocks H (b @ m) = fips_blocks (fips_compress H (fips_words b)) m"
  by (subst fips_blocks.simps) simp

text \<open>Blocks and rest of a message that is continued.\<close>

lemma fips_blocks_append: "fips_blocks H (m @ d) = fips_blocks (fips_blocks H m) (sha_tail m @ d)"
proof (induction H m rule: fips_blocks.induct)
  case (1 H m)
  show ?case
  proof (cases "length m < 64")
    case True
    then show ?thesis by (simp add: fips_blocks_short sha_tail_def)
  next
    case False
    define b r where "b = take 64 m" and "r = drop 64 m"
    have m: "m = b @ r" "length b = 64" using False by (simp_all add: b_def r_def)
    have t: "sha_tail m = sha_tail r"
      unfolding m(1) sha_tail_def using m(2) mod_less_eq_dividend [of "length r" 64] by simp
    have "fips_blocks H (m @ d) = fips_blocks (fips_compress H (fips_words b)) (r @ d)"
      unfolding m(1) append_assoc fips_blocks_step [OF m(2)] ..
    also have "\<dots> = fips_blocks (fips_blocks (fips_compress H (fips_words b)) r) (sha_tail r @ d)"
      using 1 [OF False] unfolding b_def r_def .
    also have "fips_blocks (fips_compress H (fips_words b)) r = fips_blocks H m"
      unfolding m(1) fips_blocks_step [OF m(2)] ..
    finally show ?thesis unfolding t .
  qed
qed

lemma sha_tail_append: "sha_tail (m @ d) = sha_tail (sha_tail m @ d)"
proof -
  define q where "q = length m - length m mod 64"
  have q: "q \<le> length m" "64 dvd q" "length m = q + length m mod 64" by (simp_all add: q_def)
  define l where "l = length m mod 64 + length d"
  have l: "length (m @ d) = q + l" "length (sha_tail m @ d) = l" using q(3) by (simp_all add: l_def)
  have "(q + l) mod 64 = l mod 64" using q(2) by (metis dvd_eq_mod_eq_0 add_0 mod_add_left_eq)
  then have e: "q + l - (q + l) mod 64 = (l - l mod 64) + q" by simp
  have "sha_tail (m @ d) = drop (l - l mod 64) (drop q (m @ d))"
    unfolding sha_tail_def [of "m @ d"] l(1) e by (simp only: drop_drop)
  also have "drop q (m @ d) = sha_tail m @ d" unfolding sha_tail_def q_def by simp
  finally show ?thesis unfolding sha_tail_def [of "sha_tail m @ d"] l(2) .
qed

lemma length_buf_copy: "pos + length d \<le> length buf \<Longrightarrow> length (buf_copy buf pos d) = length buf"
  unfolding buf_copy_def by simp

lemma take_buf_copy: "pos \<le> length buf \<Longrightarrow> take (pos + length d) (buf_copy buf pos d) = take pos buf @ d"
  unfolding buf_copy_def by simp

text \<open>The loop consumes whole blocks of what the buffer and the data hold together.\<close>

lemma write_loop_blocks:
  assumes "length buf = 64" "n < 64" "sha256_write_loop s buf n data = (s', buf', n', data')"
  shows "s' = fips_blocks s (take n buf @ data) \<and> length buf' = 64 \<and> n' + length data' < 64
    \<and> take n' buf' @ data' = sha_tail (take n buf @ data)"
  using assms
proof (induction s buf n data rule: sha256_write_loop.induct)
  case (1 s buf n data)
  show ?case
  proof (cases "64 \<le> n + length data")
    case True
    define b where "b = buf_copy buf n (take (64 - n) data)"
    define d where "d = drop (64 - n) data"
    have b: "b = take n buf @ take (64 - n) data" "length b = 64"
      using True 1(2,3) unfolding b_def buf_copy_def by simp_all
    have p: "take n buf @ data = b @ d" unfolding b(1) d_def by simp
    have t: "sha256_transform s (sha_chunk b) = fips_compress s (fips_words b)"
      unfolding transform_fips chunk_fips [OF b(2)] ..
    have "sha256_write_loop (sha256_transform s (sha_chunk b)) b 0 d = (s', buf', n', data')"
      using 1(4) True by (simp add: Let_def b_def d_def del: sha256_write_loop.simps)
        (subst (asm) sha256_write_loop.simps, simp add: Let_def del: sha256_write_loop.simps)
    from 1(1) [OF True b_def d_def refl b(2) _ this]
    have "s' = fips_blocks (fips_compress s (fips_words b)) d \<and> length buf' = 64 \<and> n' + length data' < 64
       \<and> take n' buf' @ data' = sha_tail d"
      unfolding t by simp
    then show ?thesis
      unfolding p fips_blocks_step [OF b(2)] sha_tail_append [of b d] using b(2) by (simp add: sha_tail_def [of b])
  next
    case False
    then have "s' = s" "buf' = buf" "n' = n" "data' = data"
      using 1(4) by (simp_all add: sha256_write_loop.simps)
    then show ?thesis
      using False 1(2,3) by (simp add: fips_blocks_short sha_tail_def)
  qed
qed

declare sha256_write_loop.simps [simp del]

lemma write_holds:
  assumes "sha_holds hash m"
  shows "sha_holds (sha256_write hash d) (m @ d)"
proof -
  note h = assms [unfolded sha_holds_def]
  define n where "n = unat (sh_bytes hash AND 0x3F)"
  have "(0x3F :: u64) = mask 6" by (simp add: mask_eq_exp_minus_1)
  then have "n = unat (sh_bytes hash) mod 64" unfolding n_def by (simp only: unat_and_mask) simp
  also have "\<dots> = length m mod 64" using h by (simp add: unat_of_nat) (simp add: mod_mod_cancel)
  finally have n: "n = length m mod 64" .
  obtain s' buf' n' d' where l: "sha256_write_loop (sh_s hash) (sh_buf hash) n d = (s', buf', n', d')"
    by (metis prod.exhaust)
  have n64: "n < 64" using n by simp
  have t: "take n (sh_buf hash) = sha_tail m" using h n by simp
  note w = write_loop_blocks [OF _ n64 l, unfolded t]
  define buf where "buf = (if length d' \<noteq> 0 then buf_copy buf' n' d' else buf')"
  have r: "sha256_write hash d = \<lparr>sh_s = s', sh_buf = buf, sh_bytes = sh_bytes hash + of_nat (length d)\<rparr>"
    unfolding sha256_write_def Let_def n_def [symmetric] l prod.case buf_def ..
  have w': "s' = fips_blocks (sh_s hash) (sha_tail m @ d)" "length buf' = 64" "n' + length d' < 64"
    "take n' buf' @ d' = sha_tail (sha_tail m @ d)"
    using w h by simp_all
  have "length (take n' buf' @ d') = length (m @ d) mod 64"
    unfolding w'(4) sha_tail_append [symmetric] by (rule length_sha_tail)
  then have nl: "n' + length d' = length (m @ d) mod 64" using w'(2,3) by simp
  have "length buf = 64" "take (length (m @ d) mod 64) buf = sha_tail (m @ d)"
    unfolding buf_def nl [symmetric] sha_tail_append [of m d] w'(4) [symmetric]
    using w'(2,3) by (simp_all add: length_buf_copy take_buf_copy)
  then show ?thesis
    unfolding sha_holds_def r using h w'(1) by (simp add: fips_blocks_append [of _ m d])
qed

section \<open>The digest\<close>

lemma initialize_holds: "length buf = 64 \<Longrightarrow> sha_holds (sha256_initialize buf) []"
  by (simp add: sha_holds_def sha256_initialize_def fips_blocks_short fips_H0_eq sha_tail_def)

lemma writes_hold: "sha_holds hash m \<Longrightarrow> sha_holds (foldl sha256_write hash parts) (m @ concat parts)"
proof (induction parts arbitrary: hash m)
  case (Cons d parts)
  from Cons.IH [OF write_holds [OF Cons.prems, of d]] show ?case by simp
qed simp

text \<open>The length field: the bytes above and below bit 32 of the length in bits.\<close>

lemma nat_be_8: "nat_be 4 (x div 2 ^ 32) @ nat_be 4 (x mod 2 ^ 32) = nat_be 8 x"
proof (rule nth_equalityI)
  have b: "(of_nat (x mod 2 ^ 32 div 256 ^ k) :: u8) = of_nat (x div 256 ^ k)" if "k < 4" for k
  proof (rule bit_word_eqI)
    fix j
    assume "j < LENGTH(8)"
    moreover have "256 ^ k = (2 ^ (8 * k) :: nat)" by (simp add: power_mult)
    moreover from calculation have "8 * k + j < 32" using that by simp
    ultimately show "bit (of_nat (x mod 2 ^ 32 div 256 ^ k) :: u8) j = bit (of_nat (x div 256 ^ k) :: u8) j"
      by (simp only: bit_word_of_nat flip: drop_bit_eq_div take_bit_eq_mod) (simp add: bit_drop_bit_eq bit_take_bit_iff)
  qed
  fix i
  assume "i < length (nat_be 4 (x div 2 ^ 32) @ nat_be 4 (x mod 2 ^ 32))"
  then have i: "i < 8" by (simp add: nat_be_def)
  show "(nat_be 4 (x div 2 ^ 32) @ nat_be 4 (x mod 2 ^ 32)) ! i = nat_be 8 x ! i"
  proof (cases "i < 4")
    case True
    have "x div 2 ^ 32 div 256 ^ (3 - i) = x div (2 ^ 32 * 256 ^ (3 - i))" by (rule div_mult2_eq [symmetric])
    also have "2 ^ 32 * 256 ^ (3 - i) = (256 ^ 4 * 256 ^ (3 - i) :: nat)" by simp
    also have "\<dots> = 256 ^ (7 - i)" using True by (simp only: power_add [symmetric]) simp
    finally show ?thesis using True by (simp add: nat_be_def nth_append)
  next
    case False
    then have "3 - (i - 4) = 7 - i" "7 - i < 4" using i by simp_all
    then show ?thesis using False i b [of "7 - i"] by (simp add: nat_be_def nth_append)
  qed
qed (simp add: nat_be_def)

lemma length_field:
  assumes "n < 2 ^ 61"
  shows "le32_bytes (be32 (ucast (drop_bit 29 (of_nat n :: u64)))) @ le32_bytes (be32 (ucast (push_bit 3 (of_nat n :: u64))))
       = nat_be 8 (8 * n)"
proof -
  have u: "unat (of_nat n :: u64) = n" using assms by (intro unat_of_nat64) simp
  have "unat (ucast (drop_bit 29 (of_nat n :: u64)) :: u32) = n div 2 ^ 29"
    by (subst unat_ucast_small) (use assms in \<open>simp_all add: unat_drop u\<close>)
  also have "\<dots> = 8 * n div 2 ^ 32" by simp
  finally have h: "unat (ucast (drop_bit 29 (of_nat n :: u64)) :: u32) = 8 * n div 2 ^ 32" .
  have "unat (push_bit 3 (of_nat n :: u64)) = 8 * n"
    unfolding push_bit_eq_mult by (subst unat_mult64) (use assms in \<open>simp_all add: u\<close>)
  then have l: "unat (ucast (push_bit 3 (of_nat n :: u64)) :: u32) = 8 * n mod 2 ^ 32"
    by (simp add: unat_ucast_mod)
  show ?thesis unfolding le32_be32 h l by (rule nat_be_8)
qed

lemma pad_length: "length (fips_pad m) mod 64 = 0"
proof -
  define r where "r = length m mod 64"
  have r: "r < 64" by (simp add: r_def)
  have "length (fips_pad m) mod 64 = (r + (9 + (119 - r) mod 64)) mod 64"
    unfolding fips_pad_def r_def by (simp add: nat_be_def mod_simps) 
  also have "\<dots> = 0"
  proof (cases "r \<le> 55")
    case True
    then have "(119 - r) mod 64 = 55 - r" by (subst le_mod_geq) simp_all
    then show ?thesis using True by simp
  next
    case False
    then have "(119 - r) mod 64 = 119 - r" using r by (intro mod_less) simp
    then show ?thesis using r False by simp
  qed
  finally show ?thesis .
qed

lemma finalize_digest:
  assumes h: "sha_holds hash m" and len: "length m < 2 ^ 61"
  shows "snd (sha256_finalize hash) = fips_sha256 m" "length (sh_buf (fst (sha256_finalize hash))) = 64"
proof -
  have bytes: "sh_bytes hash = of_nat (length m)" using h by (simp add: sha_holds_def)
  have u: "unat (sh_bytes hash) = length m" unfolding bytes using len by (intro unat_of_nat64) simp
  define r where "r = length m mod 64"
  have r: "r < 64" by (simp add: r_def)
  have "unat (sh_bytes hash mod 64) = r" unfolding r_def by (simp add: unat_mod u)
  then have "unat (119 - sh_bytes hash mod 64) = 119 - r"
    using r by (subst unat_diff_small) simp_all
  then have "unat ((119 - sh_bytes hash mod 64) mod 64) = (119 - r) mod 64" by (simp add: unat_mod)
  then have "unat (1 + (119 - sh_bytes hash mod 64) mod 64) = Suc ((119 - r) mod 64)"
    by (subst unat_add64) (simp_all add: less_trans [OF mod_less_divisor])
  moreover have "take (Suc ((119 - r) mod 64)) sha_pad = 0x80 # replicate ((119 - r) mod 64) 0"
    unfolding sha_pad_def using mod_less_divisor [of 64 "119 - r"] by (simp add: min_def)
  ultimately have p: "take (unat (1 + (119 - sh_bytes hash mod 64) mod 64)) sha_pad = 0x80 # replicate ((119 - r) mod 64) 0"
    by simp
  define h1 where "h1 = sha256_write (sha256_write hash (0x80 # replicate ((119 - r) mod 64) 0)) (nat_be 8 (8 * length m))"
  have f: "sha256_finalize hash = (h1\<lparr>sh_s := (0, 0, 0, 0, 0, 0, 0, 0)\<rparr>, sha_out (sh_s h1))"
    unfolding sha256_finalize_def Let_def p unfolding bytes length_field [OF len] h1_def [symmetric] ..
  have "sha_holds h1 (fips_pad m)"
    unfolding h1_def fips_pad_def r_def
    using write_holds [OF write_holds [OF h, of "0x80 # replicate ((119 - length m mod 64) mod 64) 0"], of "nat_be 8 (8 * length m)"]
    by simp
  then show "snd (sha256_finalize hash) = fips_sha256 m" "length (sh_buf (fst (sha256_finalize hash))) = 64"
    unfolding f fips_sha256_def sha_out_fips sha_holds_def by simp_all
qed

end
