(* ===== verification/Hash_Theorems.thy ===== *)
theory Hash_Theorems
  imports Hash_Correct
begin

text \<open>
  HMAC and the RFC 6979 generator in terms of the FIPS digest, and the properties of the module.
\<close>

section \<open>HMAC\<close>

text \<open>FIPS 198-1: the key padded to a block, and the two nested digests.\<close>

definition hmac_block_key :: "u8 list \<Rightarrow> u8 list" where
  "hmac_block_key key = (if length key \<le> 64 then key @ replicate (64 - length key) 0
     else fips_sha256 key @ replicate 32 0)"

definition hmac_spec :: "u8 list \<Rightarrow> u8 list \<Rightarrow> u8 list" where
  "hmac_spec key m =
     fips_sha256 (map (\<lambda>b. b XOR 0x5c) (hmac_block_key key)
       @ fips_sha256 (map (\<lambda>b. b XOR 0x36) (hmac_block_key key) @ m))"

lemma length_fips_sha256 [simp]: "length (fips_sha256 m) = 32"
  unfolding fips_sha256_def
  by (cases "fips_blocks fips_H0 (fips_pad m)" rule: regs_exhaust) (simp add: nat_be_def)

lemma length_hmac_block_key [simp]: "length (hmac_block_key key) = 64"
  by (simp add: hmac_block_key_def)

lemma digest_of_writes:
  assumes "length buf = 64" "length (concat parts) < 2 ^ 61"
  shows "snd (sha256_finalize (foldl sha256_write (sha256_initialize buf) parts)) = fips_sha256 (concat parts)"
  using writes_hold [OF initialize_holds [OF assms(1)], of parts] finalize_digest(1) assms(2) by simp

lemma hmac_key_spec: "length buf = 64 \<Longrightarrow> length key < 2 ^ 61 \<Longrightarrow> hmac_key buf key = hmac_block_key key"
  unfolding hmac_key_def hmac_block_key_def Let_def
  using digest_of_writes [of buf "[key]"] by (auto simp: split_def)

lemma xor_pads: "(b XOR 0x5c) XOR 0x6a = b XOR 0x36" for b :: u8
  unfolding xor.assoc by simp

lemma hmac_writes: "foldl hmac_write h parts = h\<lparr>hm_inner := foldl sha256_write (hm_inner h) parts\<rparr>"
  by (induction parts arbitrary: h) (simp_all add: hmac_write_def)

lemma hmac_run_spec:
  assumes buf: "length buf = 64" and key: "length key < 2 ^ 61" and m: "length (concat parts) < 2 ^ 60"
  shows "hmac_run buf key parts = hmac_spec key (concat parts)"
proof -
  define k where "k = hmac_block_key key"
  define ik where "ik = map (\<lambda>b. b XOR 0x36) k"
  define ok where "ok = map (\<lambda>b. b XOR 0x5c) k"
  have l: "length ik = 64" "length ok = 64" by (simp_all add: ik_def ok_def k_def)
  have ik: "map ((\<lambda>b. b XOR (0x5c XOR 0x36)) \<circ> (\<lambda>b. b XOR 0x5c)) k = ik"
    unfolding ik_def by (simp add: comp_def xor_pads)
  have init: "hmac_initialize buf key = \<lparr>hm_inner = sha256_write (sha256_initialize buf) ik,
      hm_outer = sha256_write (sha256_initialize buf) ok\<rparr>"
    unfolding hmac_initialize_def Let_def hmac_key_spec [OF buf key] k_def [symmetric] map_map ik ok_def [symmetric] ..
  have inner: "snd (sha256_finalize (foldl sha256_write (sha256_write (sha256_initialize buf) ik) parts))
      = fips_sha256 (ik @ concat parts)"
    using digest_of_writes [OF buf, of "ik # parts"] m l by simp
  have outer: "snd (sha256_finalize (sha256_write (sha256_write (sha256_initialize buf) ok) t)) = fips_sha256 (ok @ t)"
    if "length t = 32" for t
    using digest_of_writes [OF buf, of "[ok, t]"] l that by simp
  show ?thesis
    unfolding hmac_run_def hmac_finalize_def hmac_writes init
    using inner outer [of "fips_sha256 (ik @ concat parts)"]
    by (simp add: split_def hmac_spec_def ik_def ok_def k_def)
qed

section \<open>The generator of RFC 6979\<close>

definition rfc_start :: "u8 list \<Rightarrow> u8 list \<times> u8 list" where
  "rfc_start seed =
     (let v0 = replicate 32 1; k0 = replicate 32 0;
          k1 = hmac_spec k0 (v0 @ 0 # seed); v1 = hmac_spec k1 v0;
          k2 = hmac_spec k1 (v1 @ 1 # seed); v2 = hmac_spec k2 v1
      in (k2, v2))"

text \<open>The successive 32-byte candidates: the state after \<open>n\<close> rejected ones.\<close>

primrec rfc_state :: "u8 list \<Rightarrow> nat \<Rightarrow> u8 list \<times> u8 list" where
  "rfc_state seed 0 = rfc_start seed"
| "rfc_state seed (Suc n) =
     (let (k, v) = rfc_state seed n;
          v = hmac_spec k v;
          k' = hmac_spec k (v @ [0])
      in (k', hmac_spec k' v))"

definition rfc_nonce :: "u8 list \<Rightarrow> nat \<Rightarrow> u8 list" where
  "rfc_nonce seed n = (let (k, v) = rfc_state seed n in hmac_spec k v)"

text \<open>The same candidates drawn from the code's generator.\<close>

primrec rng_after :: "u8 list \<Rightarrow> rfc6979 \<Rightarrow> nat \<Rightarrow> rfc6979" where
  "rng_after buf rng 0 = rng"
| "rng_after buf rng (Suc n) = fst (rfc6979_generate buf (rng_after buf rng n) 32)"

lemma length_hmac_spec [simp]: "length (hmac_spec k m) = 32"
  by (simp add: hmac_spec_def)

lemma rfc_state_length: "rfc_state seed n = (k, v) \<Longrightarrow> length k = 32 \<and> length v = 32"
  by (cases n) (auto simp: rfc_start_def Let_def split: prod.splits)

lemma initialize_spec:
  assumes "length buf = 64" "length seed < 2 ^ 59"
  shows "rfc6979_initialize buf seed = \<lparr>rng_v = snd (rfc_start seed), rng_k = fst (rfc_start seed), rng_retry = False\<rparr>"
  unfolding rfc6979_initialize_def rfc_start_def Let_def
  using assms by (simp add: hmac_run_spec)

lemma output32: "rfc6979_output buf k v 32 = (hmac_run buf k [v], take 32 (hmac_run buf k [v]))"
  by (simp add: rfc6979_output.simps [of buf k v] rfc6979_output.simps [of buf k _ 0] Let_def)

lemma rng_after_spec:
  assumes "length buf = 64" "length seed < 2 ^ 59"
  shows "rfc6979_generate buf (rng_after buf (rfc6979_initialize buf seed) n) 32 =
    (\<lparr>rng_v = rfc_nonce seed n, rng_k = fst (rfc_state seed n), rng_retry = True\<rparr>, rfc_nonce seed n)"
proof (induction n)
  case 0
  obtain k v where s: "rfc_start seed = (k, v)" by (rule prod.exhaust)
  then have "length k = 32" "length v = 32" using rfc_state_length [of seed 0 k v] by simp_all
  then show ?case
    by (simp add: initialize_spec [OF assms] rfc6979_generate_def s output32 hmac_run_spec [OF assms(1)] rfc_nonce_def Let_def)
next
  case (Suc n)
  obtain k v where s: "rfc_state seed n = (k, v)" by (rule prod.exhaust)
  then have l: "length k = 32" "length v = 32" using rfc_state_length [OF s] by simp_all
  have r: "rng_after buf (rfc6979_initialize buf seed) (Suc n)
      = \<lparr>rng_v = rfc_nonce seed n, rng_k = fst (rfc_state seed n), rng_retry = True\<rparr>"
    by (simp only: rng_after.simps Suc.IH fst_conv)
  show ?case
    unfolding r using l by (simp add: rfc6979_generate_def s output32 hmac_run_spec [OF assms(1)] rfc_nonce_def Let_def)
qed

section \<open>Properties\<close>

text \<open>
  C21: Hashing is independent of how the message is cut into writes and computes SHA-256 of
  FIPS 180-4: after initialisation (whatever the buffer held) and any sequence of
  \<open>secp256k1_sha256_write\<close> calls of together less than 2^61 bytes, \<open>secp256k1_sha256_finalize\<close>
  returns the digest the standard defines for the concatenated message; the unrolled rounds,
  the in-place message schedule, the buffering and the padding are those of the standard, and so are
  the constants: those of the standard are computed in \<open>Fips_Constants\<close> from the roots of primes.
\<close>

theorem sha256_writes_fips:
  assumes "length buf = 64" "length (concat parts) < 2 ^ 61"
  shows "snd (sha256_finalize (foldl sha256_write (sha256_initialize buf) parts)) = fips_sha256 (concat parts)"
  by (rule digest_of_writes [OF assms])

theorem sha256_writes_fips_witness:
  "snd (sha256_finalize (foldl sha256_write (sha256_initialize (replicate 64 7)) [[0x61], [], [0x62, 0x63]]))
     = fips_sha256 [0x61, 0x62, 0x63]"
  using sha256_writes_fips [of "replicate 64 7" "[[0x61], [], [0x62, 0x63]]"] by simp

text \<open>
  The unrolled compression function is the one of the standard: 64 straight-line rounds whose
  registers are renamed instead of moved, with the schedule updated in place in sixteen
  variables, equal the 64 iterations over the 64-entry schedule W of FIPS 180-4.
\<close>

theorem sha256_transform_fips:
  "sha256_transform s chunk = fips_compress s (map (\<lambda>i. be32 (chunk ! i)) [0..<16])"
  by (rule transform_fips)

text \<open>
  C39: An invariant of the hash context: it holds the number of bytes written, the chaining value
  after the complete blocks, and the incomplete block in its buffer; every write keeps it.
\<close>

theorem sha256_write_invariant:
  assumes "sha_holds hash m"
  shows "sha_holds (sha256_write hash d) (m @ d)"
  by (rule write_holds [OF assms])

theorem sha256_write_invariant_witness:
  "sha_holds (sha256_write (sha256_initialize (replicate 64 0)) [1, 2, 3]) ([] @ [1, 2, 3])"
  by (rule sha256_write_invariant [OF initialize_holds]) simp

text \<open>
  C22: The nonce generator computes the candidates of RFC 6979, section 3.2: seeded with \<open>seed\<close>,
  the call number \<open>n\<close> of \<open>secp256k1_rfc6979_hmac_sha256_generate\<close> for 32 bytes returns the
  candidate after \<open>n\<close> rejected ones, with HMAC the function of FIPS 198-1.
\<close>

theorem rfc6979_candidates:
  assumes "length buf = 64" "length seed < 2 ^ 59"
  shows "snd (rfc6979_generate buf (rng_after buf (rfc6979_initialize buf seed) n) 32) = rfc_nonce seed n"
  by (simp add: rng_after_spec [OF assms])

theorem rfc6979_candidates_witness:
  "snd (rfc6979_generate (replicate 64 0) (rng_after (replicate 64 0) (rfc6979_initialize (replicate 64 0) [1, 2]) 3) 32)
     = rfc_nonce [1, 2] 3"
  by (rule rfc6979_candidates) simp_all

end
