(* ===== verification/Ecmult.thy ===== *)
theory Ecmult
  imports Group_Theorems Scalar_Impl
begin

text \<open>
  Multiplication of a point by a scalar, sped up by tables of odd multiples and signed digits
  (ecmult.h, ecmult_impl.h), for the build with the endomorphism.  Memory allocation is assumed to
  succeed.  A local variable or array the code leaves uninitialised starts cleared here; under the
  contract of the functions nothing reads such a value.

  C \<open>int\<close>s that hold digits, positions and signs are integers; \<open>wnaf_digits\<close> in theory \<open>Wnaf\<close> bounds
  them far below the width of the type.
\<close>

section \<open>Tables of odd multiples\<close>

abbreviation (input) window_a :: nat where "window_a \<equiv> 5"
abbreviation (input) window_g :: nat where "window_g \<equiv> 15"

definition ecmult_table_size :: "nat \<Rightarrow> nat" where
  "ecmult_table_size w = 2 ^ (w - 2)"

definition ecmult_odd_multiples_table ::
  "('fe, 'st) field_ops \<Rightarrow> nat \<Rightarrow> 'fe gej list \<Rightarrow> 'fe list \<Rightarrow> 'fe gej \<Rightarrow> 'fe gej list \<times> 'fe list" where
  "ecmult_odd_multiples_table F n prej zr a =
     (let d = fst (gej_double_var F (gej_clear F) a False);
          d_ge = \<lparr> ge_x = gej_x d, ge_y = gej_y d, ge_infinity = False \<rparr>;
          a_ge = ge_set_gej_zinv F a (gej_z d);
          prej = prej[0 := \<lparr> gej_x = ge_x a_ge, gej_y = ge_y a_ge, gej_z = gej_z a, gej_infinity = False \<rparr>];
          zr = zr[0 := gej_z d];
          (prej, zr) = foldl (\<lambda>(prej, zr) i.
              let (r, rz) = gej_add_ge_var F (prej ! i) (prej ! (i - 1)) d_ge True
              in (prej[i := r], case rz of None \<Rightarrow> zr | Some z \<Rightarrow> zr[i := z]))
            (prej, zr) [1..<n];
          prej = prej[n - 1 := (prej ! (n - 1)) \<lparr> gej_z := fe_mul F (gej_z (prej ! (n - 1))) (gej_z d) \<rparr>]
      in (prej, zr))"

definition ecmult_odd_multiples_table_globalz_windowa ::
  "('fe, 'st) field_ops \<Rightarrow> 'fe ge list \<Rightarrow> 'fe \<Rightarrow> 'fe gej \<Rightarrow> 'fe ge list \<times> 'fe" where
  "ecmult_odd_multiples_table_globalz_windowa F pre globalz a =
     (let n = ecmult_table_size window_a;
          (prej, zr) = ecmult_odd_multiples_table F n (replicate n (gej_clear F)) (replicate n (fe_clear F)) a
      in ge_globalz_set_table_gej F n pre globalz prej zr)"

definition ecmult_odd_multiples_table_storage_var ::
  "('fe, 'st) field_ops \<Rightarrow> nat \<Rightarrow> 'fe gej \<Rightarrow> 'st ge_storage list" where
  "ecmult_odd_multiples_table_storage_var F n a =
     (let (prej, zr) = ecmult_odd_multiples_table F n (replicate n (gej_clear F)) (replicate n (fe_clear F)) a;
          prea = ge_set_table_gej_var F (replicate n (ge_clear F)) prej zr n
      in map (ge_to_storage F) (take n prea))"

text \<open>\<open>ECMULT_TABLE_GET_GE\<close> and \<open>ECMULT_TABLE_GET_GE_STORAGE\<close>; the argument \<open>w\<close> serves only their checks.\<close>

definition ecmult_table_get_ge :: "('fe, 'st) field_ops \<Rightarrow> 'fe ge list \<Rightarrow> int \<Rightarrow> 'fe ge" where
  "ecmult_table_get_ge F pre n =
     (if 0 < n then pre ! nat ((n - 1) div 2) else ge_neg F (pre ! nat ((- n - 1) div 2)))"

definition ecmult_table_get_ge_storage :: "('fe, 'st) field_ops \<Rightarrow> 'st ge_storage list \<Rightarrow> int \<Rightarrow> 'fe ge" where
  "ecmult_table_get_ge_storage F pre n =
     (if 0 < n then ge_from_storage F (pre ! nat ((n - 1) div 2))
      else ge_neg F (ge_from_storage F (pre ! nat ((- n - 1) div 2))))"

section \<open>The context\<close>

text \<open>A pointer to a table that may be NULL is an option.\<close>

record 'st ecmult_context =
  pre_g :: "'st ge_storage list option"
  pre_g_128 :: "'st ge_storage list option"

definition ecmult_context_init :: "'st ecmult_context" where
  "ecmult_context_init = \<lparr> pre_g = None, pre_g_128 = None \<rparr>"

definition ecmult_context_build :: "('fe, 'st) field_ops \<Rightarrow> 'st ecmult_context \<Rightarrow> 'st ecmult_context" where
  "ecmult_context_build F ctx =
     (if pre_g ctx \<noteq> None then ctx
      else
        let gj = gej_set_ge F (ge_const_g F);
            n = ecmult_table_size window_g;
            ctx = ctx \<lparr> pre_g := Some (ecmult_odd_multiples_table_storage_var F n gj) \<rparr>;
            g_128j = ((\<lambda>g. fst (gej_double_var F g g False)) ^^ 128) gj
        in ctx \<lparr> pre_g_128 := Some (ecmult_odd_multiples_table_storage_var F n g_128j) \<rparr>)"

definition ecmult_context_clone :: "'st ecmult_context \<Rightarrow> 'st ecmult_context" where
  "ecmult_context_clone src = \<lparr> pre_g = pre_g src, pre_g_128 = pre_g_128 src \<rparr>"

definition ecmult_context_is_built :: "'st ecmult_context \<Rightarrow> bool" where
  "ecmult_context_is_built ctx \<longleftrightarrow> pre_g ctx \<noteq> None"

definition ecmult_context_clear :: "'st ecmult_context \<Rightarrow> 'st ecmult_context" where
  "ecmult_context_clear ctx = ecmult_context_init"

section \<open>Non-adjacent form\<close>

text \<open>
  The loop of \<open>secp256k1_ecmult_wnaf\<close>.  Every turn advances \<open>bit\<close>, so the \<open>len\<close> turns the first
  argument allows are enough (\<open>wnaf_loop_ends\<close> in theory \<open>Wnaf\<close>).  The state is the array, \<open>bit\<close> (here \<open>pos\<close>),
  \<open>carry\<close> and \<open>last_set_bit\<close>.
\<close>

type_synonym wnaf_state = "int list \<times> nat \<times> int \<times> int"

definition wnaf_step :: "'s scalar_ops \<Rightarrow> nat \<Rightarrow> 's \<Rightarrow> int \<Rightarrow> nat \<Rightarrow> wnaf_state \<Rightarrow> wnaf_state" where
  "wnaf_step S len s sg w st =
     (let (wnaf, pos, carry, last_set_bit) = st
      in if int (unat (sc_get_bits S s pos 1)) = carry then (wnaf, pos + 1, carry, last_set_bit)
         else
           let now = w;
               now = (if len - pos < now then len - pos else now);
               word = int (unat (sc_get_bits_var S s pos now)) + carry;
               carry = word div 2 ^ (w - 1) mod 2;
               word = word - carry * 2 ^ w
           in (wnaf[pos := sg * word], pos + now, carry, int pos))"

primrec wnaf_loop :: "'s scalar_ops \<Rightarrow> nat \<Rightarrow> 's \<Rightarrow> int \<Rightarrow> nat \<Rightarrow> nat \<Rightarrow> wnaf_state \<Rightarrow> wnaf_state" where
  "wnaf_loop S len s sg w 0 st = st"
| "wnaf_loop S len s sg w (Suc fuel) st =
     (if fst (snd st) < len then wnaf_loop S len s sg w fuel (wnaf_step S len s sg w st) else st)"

text \<open>The returned count and the array.\<close>

definition ecmult_wnaf :: "'s scalar_ops \<Rightarrow> nat \<Rightarrow> 's \<Rightarrow> nat \<Rightarrow> int \<times> int list" where
  "ecmult_wnaf S len a w =
     (let (s, sg) = (if sc_get_bits S a 255 1 \<noteq> 0 then (sc_negate S a, - 1) else (a, 1));
          (wnaf, pos, carry, last_set_bit) = wnaf_loop S len s sg w len (replicate len 0, 0, 0, - 1)
      in (last_set_bit + 1, wnaf))"

section \<open>R = na * A + ng * G\<close>

text \<open>One position of the main loop: a digit adds a multiple from the table of its scalar.\<close>

definition ecmult_add_a :: "('fe, 'st) field_ops \<Rightarrow> 'fe ge list \<Rightarrow> int \<Rightarrow> int list \<Rightarrow> nat \<Rightarrow> 'fe gej \<Rightarrow> 'fe gej" where
  "ecmult_add_a F pre bits wnaf i r =
     (if int i < bits \<and> wnaf ! i \<noteq> 0
      then fst (gej_add_ge_var F r r (ecmult_table_get_ge F pre (wnaf ! i)) False) else r)"

definition ecmult_add_g ::
  "('fe, 'st) field_ops \<Rightarrow> 'st ge_storage list \<Rightarrow> 'fe \<Rightarrow> int \<Rightarrow> int list \<Rightarrow> nat \<Rightarrow> 'fe gej \<Rightarrow> 'fe gej" where
  "ecmult_add_g F pre Z bits wnaf i r =
     (if int i < bits \<and> wnaf ! i \<noteq> 0
      then gej_add_zinv_var F r r (ecmult_table_get_ge_storage F pre (wnaf ! i)) Z else r)"

text \<open>The tables of the context must be built.\<close>

definition ecmult ::
  "('fe, 'st) field_ops \<Rightarrow> 's scalar_ops \<Rightarrow> 'st ecmult_context \<Rightarrow> 'fe gej \<Rightarrow> 's \<Rightarrow> 's \<Rightarrow> 'fe gej" where
  "ecmult F S ctx a na ng =
     (let (na_1, na_lam) = sc_split_lambda S na;
          (bits_na_1, wnaf_na_1) = ecmult_wnaf S 130 na_1 window_a;
          (bits_na_lam, wnaf_na_lam) = ecmult_wnaf S 130 na_lam window_a;
          bits = bits_na_1;
          bits = (if bits < bits_na_lam then bits_na_lam else bits);
          n = ecmult_table_size window_a;
          (pre_a, Z) = ecmult_odd_multiples_table_globalz_windowa F (replicate n (ge_clear F)) (fe_clear F) a;
          pre_a_lam = map (\<lambda>i. ge_mul_lambda F (pre_a ! i)) [0..<n];
          (ng_1, ng_128) = sc_split_128 S ng;
          (bits_ng_1, wnaf_ng_1) = ecmult_wnaf S 129 ng_1 window_g;
          (bits_ng_128, wnaf_ng_128) = ecmult_wnaf S 129 ng_128 window_g;
          bits = (if bits < bits_ng_1 then bits_ng_1 else bits);
          bits = (if bits < bits_ng_128 then bits_ng_128 else bits);
          r = gej_set_infinity F;
          r = foldl (\<lambda>r i.
                let r = fst (gej_double_var F r r False);
                    r = ecmult_add_a F pre_a bits_na_1 wnaf_na_1 i r;
                    r = ecmult_add_a F pre_a_lam bits_na_lam wnaf_na_lam i r;
                    r = ecmult_add_g F (the (pre_g ctx)) Z bits_ng_1 wnaf_ng_1 i r;
                    r = ecmult_add_g F (the (pre_g_128 ctx)) Z bits_ng_128 wnaf_ng_128 i r
                in r) r (rev [0..<nat bits])
      in if \<not> gej_infinity r then r \<lparr> gej_z := fe_mul F (gej_z r) Z \<rparr> else r)"

end
