(* ===== verification/Ecmult_Const.thy ===== *)
theory Ecmult_Const
  imports Ecmult
begin

text \<open>
  Constant-time multiplication of a point (ecmult_const.h, ecmult_const_impl.h), for the build
  with the endomorphism: both halves of the scalar become a fixed number of odd digits.
\<close>

section \<open>Signed digits\<close>

abbreviation (input) wnaf_bits :: nat where "wnaf_bits \<equiv> 128"

definition wnaf_size :: "nat \<Rightarrow> nat" where
  "wnaf_size w = (wnaf_bits + w - 1) div w"

text \<open>
  One turn of the loop of \<open>secp256k1_wnaf_const\<close> on \<open>s\<close>, \<open>u_last\<close>, \<open>u\<close> and the digits stored so far.
  The loop runs while \<open>word * w < WNAF_BITS\<close>, that is for \<open>word\<close> from 0 to \<open>WNAF_SIZE(w) - 1\<close>.
\<close>

definition wnaf_const_step ::
  "'s scalar_ops \<Rightarrow> nat \<Rightarrow> int \<Rightarrow> 's \<times> int \<times> int \<times> int list \<Rightarrow> 's \<times> int \<times> int \<times> int list" where
  "wnaf_const_step S w global_sign st =
     (let (s, u_last, u, wnaf) = st;
          (s, low) = sc_shr_int S s w;
          u = int (unat low);
          even = of_bool (u mod 2 = 0);
          sign = 2 * of_bool (0 < u_last) - 1;
          u = u + sign * even;
          u_last = u_last - sign * even * 2 ^ w;
          wnaf = wnaf @ [u_last * global_sign];
          u_last = u
      in (s, u_last, u, wnaf))"

text \<open>The returned skew and the digits.\<close>

definition wnaf_const :: "'s scalar_ops \<Rightarrow> 's \<Rightarrow> nat \<Rightarrow> int \<times> int list" where
  "wnaf_const S s w =
     (let flip = sc_is_high S s;
          pos = (of_bool (flip \<noteq> (\<not> sc_is_even S s)) :: nat);
          neg_s = sc_negate S s;
          not_neg_one = (\<not> sc_is_one S neg_s);
          s = sc_cadd_bit S s pos not_neg_one;
          (s, global_sign) = sc_cond_negate S s flip;
          global_sign = global_sign * (of_bool not_neg_one * 2 - 1);
          skew = 2 ^ pos;
          (s, low) = sc_shr_int S s w;
          u_last = int (unat low);
          (s, u_last, u, wnaf) = foldl (\<lambda>st word. wnaf_const_step S w global_sign st) (s, u_last, 0, [])
                                   [0..<wnaf_size w];
          wnaf = wnaf @ [u * global_sign]
      in (skew, wnaf))"

section \<open>Table lookup\<close>

definition ecmult_const_table_get_ge ::
  "('fe, 'st) field_ops \<Rightarrow> 'fe ge \<Rightarrow> 'fe ge list \<Rightarrow> int \<Rightarrow> nat \<Rightarrow> 'fe ge" where
  "ecmult_const_table_get_ge F r pre n w =
     (let abs_n = n * (of_bool (0 < n) * 2 - 1);
          idx_n = abs_n div 2;
          r = foldl (\<lambda>r m. r \<lparr> ge_x := fe_cmov F (ge_x r) (ge_x (pre ! m)) (of_bool (int m = idx_n)),
                              ge_y := fe_cmov F (ge_y r) (ge_y (pre ! m)) (of_bool (int m = idx_n)) \<rparr>)
                r [0..<ecmult_table_size w];
          r = r \<lparr> ge_infinity := False \<rparr>;
          neg_y = fe_negate F (ge_y r) 1
      in r \<lparr> ge_y := fe_cmov F (ge_y r) neg_y (of_bool (n \<noteq> abs_n)) \<rparr>)"

section \<open>The multiplication\<close>

text \<open>Correction of the skew: subtract \<open>a\<close> or \<open>2 a\<close>, and the same times lambda.\<close>

definition ecmult_const_skew :: "('fe, 'st) field_ops \<Rightarrow> 'fe ge \<Rightarrow> int \<Rightarrow> int \<Rightarrow> 'fe gej \<Rightarrow> 'fe gej" where
  "ecmult_const_skew F a skew_1 skew_lam r =
     (let correction = a;
          tmpj = gej_set_ge F correction;
          tmpj = fst (gej_double_var F tmpj tmpj False);
          correction = fst (ge_set_gej F tmpj);
          correction_1_stor = ge_to_storage F a;
          correction_lam_stor = ge_to_storage F a;
          a2_stor = ge_to_storage F correction;
          correction_1_stor = ge_storage_cmov F correction_1_stor a2_stor (of_bool (skew_1 = 2));
          correction_lam_stor = ge_storage_cmov F correction_lam_stor a2_stor (of_bool (skew_lam = 2));
          correction = ge_from_storage F correction_1_stor;
          correction = ge_neg F correction;
          r = gej_add_ge F r correction;
          correction = ge_from_storage F correction_lam_stor;
          correction = ge_neg F correction;
          correction = ge_mul_lambda F correction;
          r = gej_add_ge F r correction
      in r)"

definition ecmult_const :: "('fe, 'st) field_ops \<Rightarrow> 's scalar_ops \<Rightarrow> 'fe ge \<Rightarrow> 's \<Rightarrow> 'fe gej" where
  "ecmult_const F S a scalar =
     (let (q_1, q_lam) = sc_split_lambda S scalar;
          (skew_1, wnaf_1) = wnaf_const S q_1 (window_a - 1);
          (skew_lam, wnaf_lam) = wnaf_const S q_lam (window_a - 1);
          n = ecmult_table_size window_a;
          r = gej_set_ge F a;
          (pre_a, Z) = ecmult_odd_multiples_table_globalz_windowa F (replicate n (ge_clear F)) (fe_clear F) r;
          pre_a = map (\<lambda>p. p \<lparr> ge_y := fe_normalize_weak F (ge_y p) \<rparr>) pre_a;
          pre_a_lam = map (ge_mul_lambda F) pre_a;
          size = wnaf_size (window_a - 1);
          tmpa = ecmult_const_table_get_ge F (ge_clear F) pre_a (wnaf_1 ! size) window_a;
          r = gej_set_ge F tmpa;
          tmpa = ecmult_const_table_get_ge F tmpa pre_a_lam (wnaf_lam ! size) window_a;
          r = gej_add_ge F r tmpa;
          (r, tmpa) = foldl (\<lambda>(r, tmpa) i.
              let r = ((\<lambda>r. fst (gej_double_nonzero F r r False)) ^^ (window_a - 1)) r;
                  tmpa = ecmult_const_table_get_ge F tmpa pre_a (wnaf_1 ! i) window_a;
                  r = gej_add_ge F r tmpa;
                  tmpa = ecmult_const_table_get_ge F tmpa pre_a_lam (wnaf_lam ! i) window_a;
                  r = gej_add_ge F r tmpa
              in (r, tmpa)) (r, tmpa) (rev [0..<size]);
          r = r \<lparr> gej_z := fe_mul F (gej_z r) Z \<rparr>
      in ecmult_const_skew F a skew_1 skew_lam r)"

end
