(* ===== verification/Wnaf.thy ===== *)
theory Wnaf
  imports Ecmult_Const
begin

text \<open>
  The signed digits of \<open>secp256k1_ecmult_wnaf\<close>: the loop ends, the digits add up to the scalar,
  they are zero or odd and small, and non-zero digits are at least \<open>w\<close> positions apart.
\<close>

section \<open>Values of digit strings\<close>

definition wnaf_value :: "int list \<Rightarrow> int" where
  "wnaf_value ws = (\<Sum>j<length ws. ws ! j * 2 ^ j)"

text \<open>The integer a scalar stands for in signed arithmetic: the upper half is negative.\<close>

definition signed_value :: "nat \<Rightarrow> int" where
  "signed_value a = (if a < 2 ^ 255 then int a else int a - int group_order)"

text \<open>What the comment of \<open>secp256k1_ecmult_wnaf\<close> promises of the array.\<close>

definition wnaf_shape :: "nat \<Rightarrow> int list \<Rightarrow> bool" where
  "wnaf_shape w ws \<longleftrightarrow> (\<forall>j < length ws. ws ! j \<noteq> 0 \<longrightarrow>
     odd (ws ! j) \<and> \<bar>ws ! j\<bar> < 2 ^ (w - 1) \<and> (\<forall>k < length ws. j < k \<and> k < j + w \<longrightarrow> ws ! k = 0))"

lemma wnaf_value_update:
  assumes "p < length ws" "ws ! p = 0"
  shows "wnaf_value (ws[p := x]) = wnaf_value ws + x * 2 ^ p"
proof -
  have s: "(\<Sum>j<length ws. f j) = f p + (\<Sum>j\<in>{..<length ws} - {p}. f j)" for f :: "nat \<Rightarrow> int"
    using assms(1) by (intro sum.remove) simp_all
  show ?thesis unfolding wnaf_value_def length_list_update by (subst (1 2) s) (simp add: assms)
qed

lemma wnaf_value_zeros: "wnaf_value (replicate n 0) = 0"
  by (simp add: wnaf_value_def)

section \<open>Arithmetic of one digit\<close>

lemma mod_pow_split: "int (m mod 2 ^ (p + n)) = int (m mod 2 ^ p) + 2 ^ p * int (m div 2 ^ p mod 2 ^ n)" for m :: nat
  unfolding power_add mod_mult2_eq by simp

lemma wnaf_digit:
  fixes B c :: nat and w now :: nat
  assumes B: "B < 2 ^ now" and c: "c \<le> 1" and o: "B mod 2 \<noteq> c" and w: "2 \<le> w" "0 < now" "now \<le> w"
    and word: "word = int B + int c" and c': "c' = word div 2 ^ (w - 1) mod 2"
  shows "c' = 0 \<or> c' = 1" "c' * 2 ^ w = c' * 2 ^ now" "odd (word - c' * 2 ^ w)" "\<bar>word - c' * 2 ^ w\<bar> < 2 ^ (w - 1)"
    and "c' = 1 \<Longrightarrow> now = w \<and> 2 ^ (w - 1) \<le> B"
proof -
  obtain v where v: "w = Suc (Suc v)" using w(1) by (metis One_nat_def add_2_eq_Suc le_Suc_ex)
  have "c = 0 \<or> c = 1" using c by linarith
  then have odd: "odd word" using o unfolding word by (elim disjE) (auto simp: mod2_eq_if split: if_splits)
  have ev: "even ((2 :: int) ^ now)" using w(2) by simp
  have "int B < 2 ^ now" using B by (metis of_nat_less_iff of_nat_numeral of_nat_power)
  then have wl: "word < 2 ^ now" using c odd ev unfolding word by (smt (verit) of_nat_le_1_iff)
  have w0: "0 \<le> word" unfolding word by simp
  have "(2 :: int) ^ now \<le> 2 ^ w" using w(3) by (intro power_increasing) simp_all
  then have ww: "word < 2 * 2 ^ (w - 1)" using wl unfolding v by simp
  define q where "q = word div 2 ^ (w - 1)"
  have q: "q = (if word < 2 ^ (w - 1) then 0 else 1)"
  proof (cases "word < 2 ^ (w - 1)")
    case True
    then show ?thesis using w0 by (simp add: q_def)
  next
    case False
    have "q = 1"
      unfolding q_def by (rule int_div_pos_eq [where r = "word - 2 ^ (w - 1)"]) (use False ww in simp_all)
    then show ?thesis using False by simp
  qed
  have cq: "c' = q" unfolding c' q_def [symmetric] q by simp
  show "c' = 0 \<or> c' = 1" unfolding cq q by simp
  show top: "now = w \<and> 2 ^ (w - 1) \<le> B" if "c' = 1"
  proof -
    have g: "2 ^ (w - 1) \<le> word" using that unfolding cq q by (simp split: if_splits)
    have "now = w"
    proof (rule ccontr)
      assume "now \<noteq> w"
      then have "(2 :: int) ^ now \<le> 2 ^ (w - 1)" using w(3) by (intro power_increasing) simp_all
      then show False using g wl by linarith
    qed
    moreover have "even ((2 :: int) ^ (w - 1))" unfolding v by simp
    then have "2 ^ (w - 1) + 1 \<le> word" using g odd by (metis add1_zle_eq order_le_less)
    then have "(2 :: int) ^ (w - 1) \<le> int B" using c unfolding word by linarith
    then have "2 ^ (w - 1) \<le> B" by (metis of_nat_le_iff of_nat_numeral of_nat_power)
    ultimately show ?thesis by blast
  qed
  show "c' * 2 ^ w = c' * 2 ^ now" using top cq q by (cases "c' = 1") auto
  show "odd (word - c' * 2 ^ w)" using odd w(1) by simp
  show "\<bar>word - c' * 2 ^ w\<bar> < 2 ^ (w - 1)"
  proof (cases "word < 2 ^ (w - 1)")
    case True
    then show ?thesis using w0 by (simp add: cq q)
  next
    case False
    have "even ((2 :: int) ^ (w - 1))" unfolding v by simp
    then have "2 ^ (w - 1) < word" using False odd by (metis linorder_neqE)
    moreover have "(2 :: int) ^ w = 2 * 2 ^ (w - 1)" unfolding v by simp
    ultimately show ?thesis using False ww by (simp add: cq q)
  qed
qed

section \<open>The loop\<close>

text \<open>
  The invariant of the loop on the magnitude \<open>m\<close> of the scalar: the digits so far stand for the
  bits below \<open>pos\<close>, short of a carry, and a carry comes from a set bit.
\<close>

definition wnaf_inv :: "nat \<Rightarrow> nat \<Rightarrow> int \<Rightarrow> nat \<Rightarrow> wnaf_state \<Rightarrow> bool" where
  "wnaf_inv m len sg w st \<longleftrightarrow> (case st of (ws, pos, carry, lst) \<Rightarrow>
     length ws = len \<and> pos \<le> len \<and> (carry = 0 \<or> carry = 1) \<and>
     wnaf_value ws = sg * (int (m mod 2 ^ pos) - carry * 2 ^ pos) \<and>
     (carry = 1 \<longrightarrow> 0 < pos \<and> bit m (pos - 1)) \<and>
     (\<forall>j < len. pos \<le> j \<longrightarrow> ws ! j = 0) \<and>
     (\<forall>j < len. ws ! j \<noteq> 0 \<longrightarrow> j + w \<le> pos \<or> pos = len) \<and>
     wnaf_shape w ws \<and>
     (lst = - 1 \<or> 0 \<le> lst \<and> nat lst < len \<and> ws ! nat lst \<noteq> 0) \<and> (\<forall>j < len. lst < int j \<longrightarrow> ws ! j = 0))"

lemma wnaf_loop_stop: "len \<le> fst (snd st) \<Longrightarrow> wnaf_loop S len s sg w k st = st"
  by (cases k) simp_all

lemma wnaf_loop_fuel:
  "wnaf_loop S len s sg w (m + k) st = wnaf_loop S len s sg w k (wnaf_loop S len s sg w m st)"
  by (induction m arbitrary: st) (simp_all add: wnaf_loop_stop)

context scalar_impl
begin

lemma wnaf_step_inv:
  assumes inv: "wnaf_inv (sval s) len sg w (ws, pos, carry, lst)" and p: "pos < len" "len \<le> 256"
    and w: "2 \<le> w" "w \<le> 30" and sg: "sg = 1 \<or> sg = - 1"
  shows "wnaf_inv (sval s) len sg w (wnaf_step S len s sg w (ws, pos, carry, lst))"
    and "pos < fst (snd (wnaf_step S len s sg w (ws, pos, carry, lst)))"
proof -
  let ?m = "sval s"
  note i = inv [unfolded wnaf_inv_def prod.case]
  have l: "length ws = len" and z: "\<And>j. j < len \<Longrightarrow> pos \<le> j \<Longrightarrow> ws ! j = 0"
    and sep: "\<And>j. j < len \<Longrightarrow> ws ! j \<noteq> 0 \<Longrightarrow> j + w \<le> pos" and sh: "wnaf_shape w ws"
    and cc: "carry = 0 \<or> carry = 1" and v: "wnaf_value ws = sg * (int (?m mod 2 ^ pos) - carry * 2 ^ pos)"
    using i p by auto
  have b: "unat (sc_get_bits S s pos 1) = ?m div 2 ^ pos mod 2"
    using get_bits_law [of 1 pos s] p by simp
  have split1: "int (?m mod 2 ^ (pos + 1)) = int (?m mod 2 ^ pos) + 2 ^ pos * int (?m div 2 ^ pos mod 2)"
    using mod_pow_split [of ?m pos 1] by simp
  show "wnaf_inv ?m len sg w (wnaf_step S len s sg w (ws, pos, carry, lst))"
    and "pos < fst (snd (wnaf_step S len s sg w (ws, pos, carry, lst)))"
  proof (atomize (full), cases "int (?m div 2 ^ pos mod 2) = carry")
    case True
    then have e: "wnaf_step S len s sg w (ws, pos, carry, lst) = (ws, pos + 1, carry, lst)"
      by (simp add: wnaf_step_def b del: of_nat_unat One_nat_def)
    have "bit ?m pos" if "carry = 1" using True that by (simp add: bit_iff_odd odd_iff_mod_2_eq_one)
    moreover have "wnaf_value ws = sg * (int (?m mod 2 ^ (pos + 1)) - carry * 2 ^ (pos + 1))"
      unfolding v split1 True by (simp add: algebra_simps)
    moreover have "j + w \<le> pos + 1" if "j < len" "ws ! j \<noteq> 0" for j using sep [OF that] by simp
    ultimately show "wnaf_inv ?m len sg w (wnaf_step S len s sg w (ws, pos, carry, lst))
        \<and> pos < fst (snd (wnaf_step S len s sg w (ws, pos, carry, lst)))"
      using i p(1) unfolding e wnaf_inv_def by auto
  next
    case False
    define now where "now = min w (len - pos)"
    define B where "B = ?m div 2 ^ pos mod 2 ^ now"
    define word where "word = int B + carry"
    define c' where "c' = word div 2 ^ (w - 1) mod 2"
    define x where "x = word - c' * 2 ^ w"
    have now: "0 < now" "now \<le> w" "pos + now \<le> len" unfolding now_def using p(1) w(1) by linarith+
    have "unat (sc_get_bits_var S s pos now) = B"
      unfolding B_def using now p(2) w(2) by (intro get_bits_var_law) linarith+
    moreover have "(if len - pos < w then len - pos else w) = now" by (simp add: now_def)
    ultimately have e: "wnaf_step S len s sg w (ws, pos, carry, lst) = (ws[pos := sg * x], pos + now, c', int pos)"
      using False by (simp add: wnaf_step_def b Let_def x_def c'_def word_def del: of_nat_unat One_nat_def)
    have "B mod 2 = ?m div 2 ^ pos mod 2"
    proof -
      have "(2 :: nat) dvd 2 ^ now" using now(1) by simp
      then show ?thesis unfolding B_def by (rule mod_mod_cancel)
    qed
    then have o: "B mod 2 \<noteq> nat carry" using False cc by auto
    have "B < 2 ^ now" unfolding B_def by simp
    from wnaf_digit [OF this _ o w(1) now(1,2) _ c'_def] cc
    have d: "c' = 0 \<or> c' = 1" "c' * 2 ^ w = c' * 2 ^ now" "odd x" "\<bar>x\<bar> < 2 ^ (w - 1)"
      "c' = 1 \<Longrightarrow> now = w \<and> 2 ^ (w - 1) \<le> B" unfolding x_def word_def by auto
    have x0: "sg * x \<noteq> 0" "odd (sg * x)" "\<bar>sg * x\<bar> < 2 ^ (w - 1)" using d(3,4) sg by auto
    have "wnaf_value (ws[pos := sg * x]) = wnaf_value ws + sg * x * 2 ^ pos"
      by (rule wnaf_value_update) (use l p z in auto)
    also have "\<dots> = sg * (int (?m mod 2 ^ (pos + now)) - c' * 2 ^ now * 2 ^ pos)"
      unfolding v mod_pow_split B_def [symmetric] d(2) [symmetric] x_def word_def by (simp add: algebra_simps)
    finally have val: "wnaf_value (ws[pos := sg * x]) = sg * (int (?m mod 2 ^ (pos + now)) - c' * 2 ^ (pos + now))"
      by (simp add: power_add mult_ac)
    have top: "bit ?m (pos + now - 1)" if "c' = 1"
    proof -
      have t: "now = w" "2 ^ (w - 1) \<le> B" using d(5) [OF that] by auto
      have "B < 2 * 2 ^ (w - 1)" using \<open>B < 2 ^ now\<close> t(1) w(1) by (metis Suc_1 Suc_diff_1 Suc_le_eq less_imp_le_nat power_Suc not_gr_zero not_less0)
      then have "B div 2 ^ (w - 1) = 1" using t(2) by (simp add: div_nat_eqI)
      then have "bit B (w - 1)" by (simp add: bit_iff_odd)
      then have "bit ?m (pos + (w - 1))" unfolding B_def bit_div_mod by simp
      then show ?thesis using t(1) w(1) by simp
    qed
    have shape: "wnaf_shape w (ws[pos := sg * x])"
      unfolding wnaf_shape_def length_list_update
    proof (intro allI impI)
      fix j assume j: "j < length ws" "ws[pos := sg * x] ! j \<noteq> 0"
      show "odd (ws[pos := sg * x] ! j) \<and> \<bar>ws[pos := sg * x] ! j\<bar> < 2 ^ (w - 1)
          \<and> (\<forall>k<length ws. j < k \<and> k < j + w \<longrightarrow> ws[pos := sg * x] ! k = 0)"
      proof (cases "j = pos")
        case True
        then show ?thesis using x0 z l p by (auto simp: nth_list_update)
      next
        case False
        then have "ws ! j \<noteq> 0" using j by simp
        have b: "odd (ws ! j)" "\<bar>ws ! j\<bar> < 2 ^ (w - 1)" "\<forall>k<length ws. j < k \<and> k < j + w \<longrightarrow> ws ! k = 0"
          using sh j(1) \<open>ws ! j \<noteq> 0\<close> unfolding wnaf_shape_def by blast+
        have far: "j + w \<le> pos" using sep \<open>ws ! j \<noteq> 0\<close> j(1) l by simp
        have "ws[pos := sg * x] ! k = 0" if "k < length ws" "j < k \<and> k < j + w" for k
        proof -
          have "k \<noteq> pos" using that far by linarith
          then show ?thesis using b(3) that by simp
        qed
        then show ?thesis using b(1,2) False by simp
      qed
    qed
    have far: "j + w \<le> pos + now \<or> pos + now = len" if "j < len" "ws[pos := sg * x] ! j \<noteq> 0" for j
    proof (cases "j = pos")
      case True
      then show ?thesis using p(1) unfolding now_def by (auto simp: min_def)
    next
      case False
      then show ?thesis using sep [OF that(1)] that(2) by simp
    qed
    show "wnaf_inv ?m len sg w (wnaf_step S len s sg w (ws, pos, carry, lst))
        \<and> pos < fst (snd (wnaf_step S len s sg w (ws, pos, carry, lst)))"
    proof
      let ?ws = "ws[pos := sg * x]"
      have z1: "\<forall>j<len. pos + now \<le> j \<longrightarrow> ?ws ! j = 0" and z2: "\<forall>j<len. int pos < int j \<longrightarrow> ?ws ! j = 0"
        using z now(1) by (auto simp: nth_list_update)
      have "?ws ! nat (int pos) \<noteq> 0" "length ?ws = len" "0 \<le> int pos" "nat (int pos) < len" "0 < pos + now"
        using x0(1) p(1) l now(1) by simp_all
      then show "wnaf_inv ?m len sg w (wnaf_step S len s sg w (ws, pos, carry, lst))"
        unfolding e wnaf_inv_def prod.case using d(1) val shape top far z1 z2 now(3) by blast
    qed (use now(1) in \<open>simp add: e\<close>)
  qed
qed

lemma wnaf_loop_inv:
  assumes "wnaf_inv (sval s) len sg w st" "len - fst (snd st) \<le> fuel"
    and p: "len \<le> 256" "2 \<le> w" "w \<le> 30" "sg = 1 \<or> sg = - 1"
  shows "wnaf_inv (sval s) len sg w (wnaf_loop S len s sg w fuel st) \<and> fst (snd (wnaf_loop S len s sg w fuel st)) = len"
  using assms(1,2)
proof (induction fuel arbitrary: st)
  case 0
  then show ?case by (auto simp: wnaf_inv_def)
next
  case (Suc fuel)
  obtain ws pos carry lst where st: "st = (ws, pos, carry, lst)" by (cases st)
  show ?case
  proof (cases "pos < len")
    case True
    note n = wnaf_step_inv [OF Suc.prems(1) [unfolded st] True p]
    show ?thesis using Suc.IH [OF n(1)] n(2) Suc.prems(2) True unfolding st by simp
  next
    case False
    then show ?thesis using Suc.prems(1) unfolding st by (auto simp: wnaf_inv_def)
  qed
qed

text \<open>The loop ends: after as many turns as the array has elements, further turns change nothing.\<close>

lemma wnaf_inv_start: "wnaf_inv m len sg w (replicate len 0, 0, 0, - 1)"
  by (simp add: wnaf_inv_def wnaf_value_zeros wnaf_shape_def)

lemma wnaf_loop_ends:
  assumes "len \<le> 256" "2 \<le> w" "w \<le> 30" "sg = 1 \<or> sg = - 1" "len \<le> fuel"
  shows "fst (snd (wnaf_loop S len s sg w fuel (replicate len 0, 0, 0, - 1))) = len"
  using wnaf_loop_inv [OF wnaf_inv_start _ assms(1-4), of fuel] assms(5) by simp

text \<open>The array the function leaves, under the contract of its checks.\<close>

lemma ecmult_wnaf_law:
  assumes a: "sval a < group_order" and v: "\<bar>signed_value (sval a)\<bar> < 2 ^ (len - 1)" and l: "0 < len" "len \<le> 256"
    and w: "2 \<le> w" "w \<le> 30" and r: "ecmult_wnaf S len a w = (bits, ws)"
  shows "length ws = len" "wnaf_value ws = signed_value (sval a)" "wnaf_shape w ws"
    and "0 \<le> bits" "bits \<le> int len" "\<forall>j < len. bits \<le> int j \<longrightarrow> ws ! j = 0"
proof -
  define neg where "neg \<longleftrightarrow> 2 ^ 255 \<le> sval a"
  define s where "s = (if neg then sc_negate S a else a)"
  define sg :: int where "sg = (if neg then - 1 else 1)"
  have "unat (sc_get_bits S a 255 1) = sval a div 2 ^ 255" using get_bits_law [of 1 255 a] sval_less [of a] by simp
  then have t: "sc_get_bits S a 255 1 \<noteq> 0 \<longleftrightarrow> neg"
    unfolding neg_def by (simp only: word_unat_eq_iff unat_0) (simp add: div_eq_0_iff not_less)
  have s: "sval s < group_order" "sg * int (sval s) = signed_value (sval a)"
    using snegate_law [OF a] a unfolding s_def sg_def neg_def signed_value_def
    by (auto simp: of_nat_diff group_order_def not_less)
  have "int (sval s) = \<bar>signed_value (sval a)\<bar>" using s(2) by (auto simp: sg_def split: if_splits)
  then have "int (sval s) < 2 ^ (len - 1)" using v by simp
  then have m: "sval s < 2 ^ (len - 1)" by (metis of_nat_less_iff of_nat_numeral of_nat_power)
  obtain ws' pos carry lst where e: "wnaf_loop S len s sg w len (replicate len 0, 0, 0, - 1) = (ws', pos, carry, lst)"
    by (metis prod_cases4)
  from wnaf_loop_inv [OF wnaf_inv_start _ l(2) w, where sg = sg and s = s and fuel = len, unfolded e]
  have i: "wnaf_inv (sval s) len sg w (ws', len, carry, lst)" and pos: "pos = len" by (auto simp: sg_def)
  have rs: "bits = lst + 1" "ws = ws'"
  proof -
    have "(if sc_get_bits S a 255 1 \<noteq> 0 then (sc_negate S a, - 1) else (a, 1)) = (s, sg)"
      unfolding t s_def sg_def by simp
    then show "bits = lst + 1" "ws = ws'" using r e unfolding ecmult_wnaf_def Let_def by simp_all
  qed
  note i = i [unfolded wnaf_inv_def prod.case]
  have "\<not> bit (sval s) (len - 1)" using m by (simp add: bit_iff_odd)
  then have c: "carry = 0" using i by auto
  have "sval s < 2 ^ len" using m by (rule less_le_trans) (simp add: power_increasing)
  then have "wnaf_value ws = sg * int (sval s)" using i c rs by simp
  then show "wnaf_value ws = signed_value (sval a)" using s(2) by simp
  show "length ws = len" "wnaf_shape w ws" "0 \<le> bits" "bits \<le> int len" "\<forall>j < len. bits \<le> int j \<longrightarrow> ws ! j = 0"
    using i rs by auto
qed

end

end
