(* ===== verification/Wnaf_Const.thy ===== *)
theory Wnaf_Const
  imports Wnaf
begin

text \<open>
  The signed digits of \<open>secp256k1_wnaf_const\<close>: a fixed number of odd digits that add up to the
  scalar plus the skew.
\<close>

section \<open>Values of digit strings\<close>

definition radix_value :: "nat \<Rightarrow> int list \<Rightarrow> int" where
  "radix_value w ws = (\<Sum>j<length ws. ws ! j * 2 ^ (w * j))"

lemma radix_value_append: "radix_value w (ws @ [x]) = radix_value w ws + x * 2 ^ (w * length ws)"
  unfolding radix_value_def by (simp add: nth_append)

definition odd_digits :: "nat \<Rightarrow> int list \<Rightarrow> bool" where
  "odd_digits w ws \<longleftrightarrow> (\<forall>d \<in> set ws. odd d \<and> \<bar>d\<bar> < 2 ^ w)"

lemma odd_digits_append: "odd_digits w (xs @ ys) \<longleftrightarrow> odd_digits w xs \<and> odd_digits w ys"
  unfolding odd_digits_def set_append by blast

lemma odd_digits_sign: "odd x \<Longrightarrow> \<bar>x\<bar> < 2 ^ w \<Longrightarrow> sg = 1 \<or> sg = - 1 \<Longrightarrow> odd_digits w [x * sg]"
  by (elim disjE) (simp_all add: odd_digits_def)

lemma digit_step_arith:
  fixes sg R u P x low W y t m :: int
  assumes "sg = 1 \<or> sg = - 1" "sg * R + u * P + x * (W * P) = m" "x = low + W * y"
  shows "sg * (R + (u - t * W) * sg * P) + (low + t) * (W * P) + y * (W * (W * P)) = m"
  using assms by (elim disjE) (simp_all add: algebra_simps)

section \<open>The loop\<close>

context scalar_impl
begin

text \<open>
  The invariant: with \<open>k\<close> digits stored, those digits, the pending one and the bits still in \<open>s\<close>
  stand for the number \<open>m\<close> the loop started from.
\<close>

definition const_inv :: "nat \<Rightarrow> nat \<Rightarrow> int \<Rightarrow> nat \<Rightarrow> 's \<times> int \<times> int \<times> int list \<Rightarrow> bool" where
  "const_inv m w sg k st \<longleftrightarrow> (case st of (s, u_last, u, ws) \<Rightarrow>
     length ws = k \<and> odd u_last \<and> \<bar>u_last\<bar> < 2 ^ w \<and> (0 < k \<longrightarrow> u = u_last) \<and> odd_digits w ws \<and>
     sval s = m div 2 ^ (w * Suc k) \<and>
     sg * radix_value w ws + u_last * 2 ^ (w * k) + int (sval s) * 2 ^ (w * Suc k) = int m)"

lemma const_step_inv:
  assumes i: "const_inv m w sg k st" and w: "0 < w" "w < 16" and sg: "sg = 1 \<or> sg = - 1"
  shows "const_inv m w sg (Suc k) (wnaf_const_step S w sg st)"
proof -
  obtain s u_last u ws where st: "st = (s, u_last, u, ws)" by (cases st)
  obtain s' low where sh: "sc_shr_int S s w = (s', low)" by (rule prod.exhaust)
  note sl = shr_int_law [OF w sh]
  note i = i [unfolded const_inv_def st prod.case]
  define low' where "low' = int (unat low)"
  have low: "0 \<le> low'" "low' < 2 ^ w"
  proof -
    have "unat low < 2 ^ w" using sl by simp
    then show "low' < 2 ^ w" unfolding low'_def by (metis of_nat_less_iff of_nat_numeral of_nat_power)
  qed (simp add: low'_def)
  have sp: "int (sval s) = low' + 2 ^ w * int (sval s')"
  proof -
    have "sval s = sval s mod 2 ^ w + 2 ^ w * (sval s div 2 ^ w)" by simp
    then have "int (sval s) = int (sval s mod 2 ^ w) + 2 ^ w * int (sval s div 2 ^ w)"
      by (metis of_nat_add of_nat_mult of_nat_numeral of_nat_power)
    then show ?thesis using sl unfolding low'_def by simp
  qed
  have ev: "even ((2 :: int) ^ w)" using w(1) by simp
  define e :: int where "e = of_bool (low' mod 2 = 0)"
  define g :: int where "g = 2 * of_bool (0 < u_last) - 1"
  have st': "wnaf_const_step S w sg st = (s', low' + g * e, low' + g * e, ws @ [(u_last - g * e * 2 ^ w) * sg])"
    unfolding st wnaf_const_step_def by (simp add: sh Let_def low'_def [symmetric] e_def [symmetric] g_def [symmetric] del: of_nat_unat)
  have ul: "odd u_last" "\<bar>u_last\<bar> < 2 ^ w" "u_last \<noteq> 0" using i by auto
  have d: "odd (u_last - g * e * 2 ^ w)" "\<bar>u_last - g * e * 2 ^ w\<bar> < 2 ^ w"
    using ul w(1) by (auto simp: e_def g_def)
  have n: "odd (low' + g * e)" "\<bar>low' + g * e\<bar> < 2 ^ w"
  proof -
    show "odd (low' + g * e)" by (auto simp: e_def g_def odd_iff_mod_2_eq_one)
    have "low' + 1 < 2 ^ w" if "even low'"
      using low(2) that ev by (metis add1_zle_eq even_plus_one_iff order_le_less)
    moreover have "(1 :: int) < 2 ^ w" using w(1) by (intro one_less_power) simp_all
    ultimately show "\<bar>low' + g * e\<bar> < 2 ^ w" using low by (auto simp: e_def g_def even_iff_mod_2_eq_zero)
  qed
  have dg: "odd_digits w (ws @ [(u_last - g * e * 2 ^ w) * sg])"
    unfolding odd_digits_append using i odd_digits_sign [OF d sg] by blast
  have v: "sg * radix_value w (ws @ [(u_last - g * e * 2 ^ w) * sg]) + (low' + g * e) * 2 ^ (w * Suc k)
      + int (sval s') * 2 ^ (w * Suc (Suc k)) = int m"
  proof -
    have p: "(2 :: int) ^ (w * Suc k) = 2 ^ w * 2 ^ (w * k)" "(2 :: int) ^ (w * Suc (Suc k)) = 2 ^ w * (2 ^ w * 2 ^ (w * k))"
      by (simp_all add: power_add)
    have h: "sg * radix_value w ws + u_last * 2 ^ (w * k) + int (sval s) * (2 ^ w * 2 ^ (w * k)) = int m"
      using i unfolding p by blast
    have l: "length ws = k" using i by blast
    show ?thesis unfolding radix_value_append p l by (rule digit_step_arith [OF sg h sp])
  qed
  have "sval s' = m div 2 ^ (w * Suc (Suc k))"
    using sl i by (simp add: div_mult2_eq [symmetric] power_add [symmetric] add.commute)
  then show ?thesis unfolding const_inv_def st' prod.case using i n dg v by simp
qed

lemma const_loop_inv:
  assumes "const_inv m w sg 0 st" "0 < w" "w < 16" "sg = 1 \<or> sg = - 1"
  shows "const_inv m w sg k (foldl (\<lambda>st word. wnaf_const_step S w sg st) st [0..<k])"
  by (induction k) (use assms const_step_inv in \<open>simp_all add: assms\<close>)

text \<open>
  The number the loop splits: the scalar plus the skew, up to the sign.  The scalar minus one is
  special: adding two to it would overflow.
\<close>

lemma const_prepare:
  assumes s: "sval s < group_order" and v: "\<bar>v\<bar> < 2 ^ 200" "int (sval s) = v mod int group_order"
    and fl: "flip = sc_is_high S s" and p: "p = of_bool (flip \<noteq> (\<not> sc_is_even S s))"
    and nn: "nno = (\<not> sc_is_one S (sc_negate S s))" and s1: "s1 = sc_cadd_bit S s p nno"
    and s2: "sc_cond_negate S s1 flip = (s2, g)"
  shows "g * (of_bool nno * 2 - 1) = 1 \<or> g * (of_bool nno * 2 - 1) = - 1"
    and "g * (of_bool nno * 2 - 1) * int (sval s2) = v + 2 ^ p" "odd (sval s2)" "sval s2 \<le> nat \<bar>v\<bar> + 2"
proof -
  let ?n = "int group_order"
  have n: "odd ?n" "2 ^ 255 + 2 ^ 201 < ?n" by (simp_all add: group_order_def)
  have vb: "- (2 ^ 200) < v" "v < 2 ^ 200" using v(1) by (simp_all add: abs_less_iff)
  have nb: "(2 :: int) ^ 200 + 1 < ?n" by (simp add: group_order_def)
  have neg: "v < 0" if "flip"
  proof (rule ccontr)
    assume "\<not> v < 0"
    then have "int (sval s) = v" using v n by (simp add: mod_pos_pos_trivial)
    then have "sval s < 2 ^ 200" using v(1) by (metis abs_of_nonneg of_nat_less_iff of_nat_numeral of_nat_power not_less \<open>\<not> v < 0\<close>)
    then show False using that unfolding fl sis_high_law by (simp add: group_order_def)
  qed
  have pos: "0 \<le> v" if "\<not> flip"
  proof (rule ccontr)
    assume "\<not> 0 \<le> v"
    then have "int (sval s) = v + ?n" using v n by (simp add: mod_pos_neg_trivial mod_add_self2 [symmetric, of v ?n] mod_pos_pos_trivial del: mod_add_self2)
    then have "?n - 2 ^ 200 < int (sval s)" using v(1) by linarith
    then have "group_order div 2 < sval s" by (simp add: group_order_def)
    then show False using that unfolding fl sis_high_law by simp
  qed
  have par: "flip \<noteq> (\<not> sc_is_even S s) \<longleftrightarrow> odd v" and sv: "int (sval s) = (if flip then ?n + v else v)"
  proof -
    show sv: "int (sval s) = (if flip then ?n + v else v)"
    proof (cases flip)
      case True
      then have "0 \<le> ?n + v" "?n + v < ?n" using vb nb neg [OF True] by simp_all
      then have "(?n + v) mod ?n = ?n + v" by (rule mod_pos_pos_trivial)
      then show ?thesis using v(2) True by simp
    next
      case False
      then show ?thesis using v n pos by (simp add: mod_pos_pos_trivial)
    qed
    have "even (sval s) \<longleftrightarrow> (if flip then odd v else even v)" using sv n(1) by (metis even_add even_of_nat)
    then show "flip \<noteq> (\<not> sc_is_even S s) \<longleftrightarrow> odd v" unfolding sis_even_law by auto
  qed
  have pv: "(2 :: int) ^ p = (if odd v then 2 else 1)" unfolding p par by simp
  have ng: "int (sval (sc_negate S s)) = (- v) mod ?n"
    unfolding snegate_law [OF s] zmod_int using s v(2) by (simp add: of_nat_diff mod_simps)
  have nno: "nno \<longleftrightarrow> v \<noteq> - 1"
  proof -
    have "nno \<longleftrightarrow> (- v) mod ?n \<noteq> 1" unfolding nn sis_one_law ng [symmetric] by simp
    moreover have "(- v) mod ?n = (if v \<le> 0 then - v else ?n - v)"
    proof (cases "v \<le> 0")
      case True
      then show ?thesis using v(1) n by (simp add: mod_pos_pos_trivial)
    next
      case False
      then have "(?n - v) mod ?n = ?n - v" using vb nb by (intro mod_pos_pos_trivial) simp_all
      then show ?thesis using False by (simp add: mod_simps)
    qed
    ultimately show ?thesis using v(1) n by auto
  qed
  have s1: "int (sval s1) = int (sval s) + (if nno then 2 ^ p else 0)"
  proof -
    have "sval s + (if nno then 2 ^ p else 0) < 2 ^ 256"
      using s unfolding p by (simp add: group_order_def)
    then have "sval s1 = sval s + (if nno then 2 ^ p else 0)"
      unfolding s1 by (intro cadd_bit_law) (simp_all add: p)
    then show ?thesis by simp
  qed
  have s1n: "sval s1 < group_order"
  proof -
    have low: "v + 2 ^ p < 0" if "v < 0" "v \<noteq> - 1"
    proof (cases "v = - 2")
      case False
      then show ?thesis using that unfolding pv by simp
    qed (simp add: pv)
    show ?thesis
    proof (cases flip)
      case True
      then have "int (sval s1) < ?n" using s1 sv nno neg low by (cases "v = - 1") simp_all
      then show ?thesis by simp
    next
      case False
      then have "int (sval s1) < 2 ^ 200 + 2" using s1 sv nno vb pv by (simp split: if_splits)
      then show ?thesis by (simp add: group_order_def)
    qed
  qed
  have s2: "s2 = (if flip then sc_negate S s1 else s1)" "g = (if flip then - 1 else 1)"
    using s2 cond_negate_law [OF s1n, of flip] by auto
  have s1p: "0 < sval s1" if flip
  proof -
    have "0 < int (sval s1)" using s1 sv vb nb that pv by (simp split: if_splits)
    then show ?thesis by simp
  qed
  then have s2v: "int (sval s2) = (if flip then ?n - int (sval s1) else int (sval s1))"
    unfolding s2(1) using s1n by (auto simp: snegate_law [OF s1n] of_nat_diff)
  show "g * (of_bool nno * 2 - 1) = 1 \<or> g * (of_bool nno * 2 - 1) = - 1" using s2(2) by auto
  show val: "g * (of_bool nno * 2 - 1) * int (sval s2) = v + 2 ^ p"
    unfolding s2v s1 sv s2(2) pv using nno neg pos by (auto simp: algebra_simps)
  then have "odd (g * (of_bool nno * 2 - 1) * int (sval s2))" unfolding pv by simp
  then show "odd (sval s2)" by simp
  have "\<bar>g * (of_bool nno * 2 - 1) * int (sval s2)\<bar> = int (sval s2)" using s2(2) by (auto simp: abs_mult)
  then have "int (sval s2) \<le> \<bar>v\<bar> + 2" unfolding val pv by (simp split: if_splits)
  then show "sval s2 \<le> nat \<bar>v\<bar> + 2" by linarith
qed

lemma wnaf_const_law:
  assumes s: "sval s < group_order" and v: "\<bar>v\<bar> < 2 ^ 128" "int (sval s) = v mod int group_order"
    and w: "2 \<le> w" "w < 16" and r: "wnaf_const S s w = (skew, ws)"
  shows "length ws = Suc (wnaf_size w)" "odd_digits w ws" "radix_value w ws = v + skew" "skew = 1 \<or> skew = 2"
proof -
  define flip where "flip = sc_is_high S s"
  define p :: nat where "p = of_bool (flip \<noteq> (\<not> sc_is_even S s))"
  define nno where "nno = (\<not> sc_is_one S (sc_negate S s))"
  define s1 where "s1 = sc_cadd_bit S s p nno"
  obtain s2 g where s2: "sc_cond_negate S s1 flip = (s2, g)" by (rule prod.exhaust)
  define sg where "sg = g * (of_bool nno * 2 - 1)"
  have "\<bar>v\<bar> < 2 ^ 200" using v(1) by simp
  note pr = const_prepare [OF s this v(2) flip_def p_def nno_def s1_def s2, folded sg_def]
  obtain s3 low where s3: "sc_shr_int S s2 w = (s3, low)" by (rule prod.exhaust)
  have w0: "0 < w" using w(1) by simp
  note sl = shr_int_law [OF w0 w(2) s3]
  define m where "m = sval s2"
  define k where "k = wnaf_size w"
  obtain s4 u_last u ds where st: "foldl (\<lambda>st word. wnaf_const_step S w sg st) (s3, int (unat low), 0, []) [0..<k] = (s4, u_last, u, ds)"
    by (metis prod_cases4)
  have e: "skew = 2 ^ p" "ws = ds @ [u * sg]"
    using r unfolding wnaf_const_def Let_def flip_def [symmetric] p_def [symmetric] nno_def [symmetric] s1_def [symmetric]
      s2 prod.case s3 sg_def [symmetric] k_def [symmetric] st by simp_all
  have "const_inv m w sg 0 (s3, int (unat low), 0, [])"
  proof -
    have "odd (m mod 2 ^ w)" using pr(3) w0 unfolding m_def by (simp add: dvd_mod_iff)
    then have "odd (int (unat low))" using sl by (simp add: m_def)
    moreover have "unat low < 2 ^ w" using sl by simp
    then have "int (unat low) < 2 ^ w" by (metis of_nat_less_iff of_nat_numeral of_nat_power)
    moreover have "int (unat low) + int (sval s3) * 2 ^ w = int m"
    proof -
      have "unat low + sval s3 * 2 ^ w = m"
        unfolding m_def conjunct1 [OF sl] conjunct2 [OF sl] by (rule mod_div_mult_eq)
      then show ?thesis by (metis of_nat_add of_nat_mult of_nat_numeral of_nat_power)
    qed
    ultimately show ?thesis using sl by (simp add: const_inv_def radix_value_def odd_digits_def m_def del: of_nat_unat)
  qed
  from const_loop_inv [OF this w0 w(2), of k, unfolded st] pr(1)
  have i: "const_inv m w sg k (s4, u_last, u, ds)" by simp
  note i = i [unfolded const_inv_def prod.case]
  have size: "128 \<le> w * k" "0 < k"
  proof -
    have "127 + w = w * ((127 + w) div w) + (127 + w) mod w" by (rule mult_div_mod_eq [symmetric])
    moreover have "(127 + w) mod w < w" using w0 by simp
    ultimately show "128 \<le> w * k" unfolding k_def wnaf_size_def by (simp add: add.commute)
    then show "0 < k" by (cases k) simp_all
  qed
  have "int m \<le> \<bar>v\<bar> + 2" using pr(4) unfolding m_def by linarith
  then have "int m < 2 ^ 130" using v(1) by simp
  then have "m < 2 ^ 130" by (metis of_nat_less_iff of_nat_numeral of_nat_power)
  also have "(2 :: nat) ^ 130 \<le> 2 ^ (w * Suc k)" using size(1) w(1) by (intro power_increasing) simp_all
  finally have "sval s4 = 0" using i by simp
  moreover have "u = u_last" "sg * radix_value w ds + u_last * 2 ^ (w * k) + int (sval s4) * 2 ^ (w * Suc k) = int m"
    using i size(2) by blast+
  ultimately have "sg * radix_value w ds + u * 2 ^ (w * k) = int m" by simp
  then have "sg * (sg * radix_value w ds + u * 2 ^ (w * k)) = v + 2 ^ p" using pr(2) unfolding m_def by simp
  moreover have "sg * (sg * x) = x" for x using pr(1) by auto
  ultimately show "radix_value w ws = v + skew"
    unfolding e radix_value_append using i by (simp add: algebra_simps)
  show "length ws = Suc (wnaf_size w)" unfolding e using i by (simp add: k_def)
  show "odd_digits w ws" unfolding e unfolding odd_digits_append using i size(2) odd_digits_sign [OF _ _ pr(1)] by blast
  show "skew = 1 \<or> skew = 2" unfolding e p_def by simp
qed

end

end
