(* ===== verification/Ecmult_Theorems.thy ===== *)
theory Ecmult_Theorems
  imports Wnaf Wnaf_Const Scalar_Theorems
begin

text \<open>
  The digits the point multiplications work with, on the 4x64 scalars.
\<close>

text \<open>
  C29: the digits secp256k1_ecmult_wnaf writes for a scalar that is short as a signed number
  stand for this number, every non-zero digit is odd, smaller than 2^(w-1) and followed by w - 1
  zeros, and the returned count bounds their positions.
\<close>

theorem sc64_wnaf_digits:
  assumes "sc64_val a < group_order" "\<bar>signed_value (sc64_val a)\<bar> < 2 ^ (len - 1)" "0 < len" "len \<le> 256"
    and "2 \<le> w" "w \<le> 30" "ecmult_wnaf sc64_ops len a w = (bits, ws)"
  shows "length ws = len \<and> wnaf_value ws = signed_value (sc64_val a) \<and> wnaf_shape w ws
    \<and> 0 \<le> bits \<and> bits \<le> int len \<and> (\<forall>j < len. bits \<le> int j \<longrightarrow> ws ! j = 0)"
  using s64.ecmult_wnaf_law [OF assms] by blast

theorem sc64_wnaf_digits_witness:
  "ecmult_wnaf sc64_ops 8 (Sc64 29 0 0 0) 5 = (6, [- 3, 0, 0, 0, 0, 1, 0, 0])
   \<and> wnaf_value [- 3, 0, 0, 0, 0, 1, 0, 0] = 29"
proof
  show r: "ecmult_wnaf sc64_ops 8 (Sc64 29 0 0 0) 5 = (6, [- 3, 0, 0, 0, 0, 1, 0, 0])" by code_simp
  have "sc64_val (Sc64 29 0 0 0) = 29" by simp
  then show "wnaf_value [- 3, 0, 0, 0, 0, 1, 0, 0] = 29"
    using sc64_wnaf_digits [OF _ _ _ _ _ _ r] by (simp add: signed_value_def group_order_def)
qed

text \<open>
  C30: the loop of secp256k1_ecmult_wnaf ends for every scalar, array length up to 256 and window:
  the turns the model allows, one for each array element, bring the position to the end of the
  array, and more turns change nothing.
\<close>

theorem sc64_wnaf_loop_ends:
  assumes "len \<le> 256" "2 \<le> w" "w \<le> 30" "sg = 1 \<or> sg = - 1" "len \<le> fuel"
  shows "fst (snd (wnaf_loop sc64_ops len s sg w fuel (replicate len 0, 0, 0, - 1))) = len
    \<and> wnaf_loop sc64_ops len s sg w fuel (replicate len 0, 0, 0, - 1)
        = wnaf_loop sc64_ops len s sg w len (replicate len 0, 0, 0, - 1)"
proof
  show "fst (snd (wnaf_loop sc64_ops len s sg w fuel (replicate len 0, 0, 0, - 1))) = len"
    by (rule s64.wnaf_loop_ends [OF assms])
  have "fst (snd (wnaf_loop sc64_ops len s sg w len (replicate len 0, 0, 0, - 1))) = len"
    by (rule s64.wnaf_loop_ends [OF assms(1-4) order_refl])
  then show "wnaf_loop sc64_ops len s sg w fuel (replicate len 0, 0, 0, - 1)
        = wnaf_loop sc64_ops len s sg w len (replicate len 0, 0, 0, - 1)"
    using wnaf_loop_fuel [of sc64_ops len s sg w len "fuel - len"] assms(5)
    by (simp add: wnaf_loop_stop [OF order_eq_refl [OF sym]])
qed

theorem sc64_wnaf_loop_ends_witness:
  "fst (snd (wnaf_loop sc64_ops 129 (Sc64 1 2 3 4) 1 5 1000 (replicate 129 0, 0, 0, - 1))) = 129"
  by (rule sc64_wnaf_loop_ends [of 129 5 1 1000 "Sc64 1 2 3 4", THEN conjunct1]) simp_all

text \<open>
  secp256k1_wnaf_const turns a scalar that is short as a signed number into WNAF_SIZE(w) + 1
  odd digits below 2^w in absolute value, which stand for the number plus the returned skew, 1 or 2.
\<close>

theorem sc64_wnaf_const_digits:
  assumes "sc64_val s < group_order" "\<bar>v\<bar> < 2 ^ 128" "int (sc64_val s) = v mod int group_order"
    and "2 \<le> w" "w < 16" "wnaf_const sc64_ops s w = (skew, ws)"
  shows "length ws = Suc (wnaf_size w) \<and> odd_digits w ws \<and> radix_value w ws = v + skew \<and> (skew = 1 \<or> skew = 2)"
  using s64.wnaf_const_law [OF assms] by blast

theorem sc64_wnaf_const_digits_witness:
  "case wnaf_const sc64_ops (Sc64 6 0 0 0) 4 of (skew, ws) \<Rightarrow>
     length ws = 33 \<and> odd_digits 4 ws \<and> radix_value 4 ws = 6 + skew"
proof -
  obtain skew ws where r: "wnaf_const sc64_ops (Sc64 6 0 0 0) 4 = (skew, ws)" by (rule prod.exhaust)
  have "sc64_val (Sc64 6 0 0 0) = 6" by simp
  then show ?thesis
    using sc64_wnaf_const_digits [OF _ _ _ _ _ r, of 6] unfolding r by (simp add: group_order_def wnaf_size_def)
qed

end
