(* ===== verification/Ecmult_Gen.thy ===== *)
theory Ecmult_Gen
  imports Ecmult Hash_Theorems "HOL-Library.Monad_Syntax"
begin

text \<open>
  Multiples of the generator from a table of blinded multiples (ecmult_gen.h, ecmult_gen_impl.h),
  for the build that computes the table at run time.  The loops that draw random values until one is
  in range have no bound: they are partial functions, and a result \<open>None\<close> means they do not end.
\<close>

section \<open>Definitions\<close>

record ('fe, 'st, 's) ecmult_gen_context =
  gen_prec :: "'st ge_storage list list option"
  gen_blind :: 's
  gen_initial :: "'fe gej"

definition ecmult_gen_context_init ::
  "('fe, 'st, 's) ecmult_gen_context \<Rightarrow> ('fe, 'st, 's) ecmult_gen_context" where
  "ecmult_gen_context_init ctx = ctx \<lparr> gen_prec := None \<rparr>"

definition ecmult_gen_context_is_built :: "('fe, 'st, 's) ecmult_gen_context \<Rightarrow> bool" where
  "ecmult_gen_context_is_built ctx \<longleftrightarrow> gen_prec ctx \<noteq> None"

definition ecmult_gen_context_clone ::
  "('fe, 'st, 's) ecmult_gen_context \<Rightarrow> ('fe, 'st, 's) ecmult_gen_context \<Rightarrow> ('fe, 'st, 's) ecmult_gen_context" where
  "ecmult_gen_context_clone dst src =
     (if gen_prec src = None then dst \<lparr> gen_prec := None \<rparr>
      else dst \<lparr> gen_prec := gen_prec src, gen_initial := gen_initial src, gen_blind := gen_blind src \<rparr>)"

definition ecmult_gen_context_clear ::
  "('fe, 'st) field_ops \<Rightarrow> 's scalar_ops \<Rightarrow> ('fe, 'st, 's) ecmult_gen_context \<Rightarrow> ('fe, 'st, 's) ecmult_gen_context" where
  "ecmult_gen_context_clear F S ctx =
     ctx \<lparr> gen_blind := sc_clear S, gen_initial := gej_clear F, gen_prec := None \<rparr>"

text \<open>A storage element wiped by \<open>memset\<close>: the storage of zero has all bits clear.\<close>

definition ge_storage_zero :: "('fe, 'st) field_ops \<Rightarrow> 'st ge_storage" where
  "ge_storage_zero F = \<lparr> ges_x = fe_to_storage F (fe_clear F), ges_y = fe_to_storage F (fe_clear F) \<rparr>"

text \<open>The table of the context must be built.\<close>

definition ecmult_gen ::
  "('fe, 'st) field_ops \<Rightarrow> 's scalar_ops \<Rightarrow> ('fe, 'st, 's) ecmult_gen_context \<Rightarrow> 's \<Rightarrow> 'fe gej" where
  "ecmult_gen F S ctx gn =
     (let adds = ge_storage_zero F;
          r = gen_initial ctx;
          gnb = fst (sc_add S gn (gen_blind ctx));
          (r, adds) = foldl (\<lambda>(r, adds) j.
              let bits = unat (sc_get_bits S gnb (j * 4) 4);
                  adds = foldl (\<lambda>adds i. ge_storage_cmov F adds (the (gen_prec ctx) ! j ! i) (of_bool (i = bits)))
                           adds [0..<16];
                  add = ge_from_storage F adds;
                  r = gej_add_ge F r add
              in (r, adds)) (r, adds) [0..<64]
      in r)"

text \<open>
  The two loops of \<open>secp256k1_ecmult_gen_blind\<close>.  The message buffers of the hash start cleared;
  \<open>rng_after_spec\<close> shows that nothing depends on them.
\<close>

definition hash_buf :: "u8 list" where
  "hash_buf = replicate 64 0"

partial_function (option) gen_blind_draw_fe ::
  "('fe, 'st) field_ops \<Rightarrow> rfc6979 \<Rightarrow> (rfc6979 \<times> 'fe) option" where
  "gen_blind_draw_fe F rng =
     (let (rng, nonce32) = rfc6979_generate hash_buf rng 32;
          (ok, s) = fe_set_b32 F nonce32;
          retry = (\<not> ok);
          retry = (retry \<or> fe_is_zero F s)
      in if retry then gen_blind_draw_fe F rng else Some (rng, s))"

partial_function (option) gen_blind_draw_scalar ::
  "'s scalar_ops \<Rightarrow> rfc6979 \<Rightarrow> (rfc6979 \<times> 's) option" where
  "gen_blind_draw_scalar S rng =
     (let (rng, nonce32) = rfc6979_generate hash_buf rng 32;
          (b, retry) = sc_set_b32 S nonce32;
          retry = (retry \<or> sc_is_zero S b)
      in if retry then gen_blind_draw_scalar S rng else Some (rng, b))"

definition ecmult_gen_blind ::
  "('fe, 'st) field_ops \<Rightarrow> 's scalar_ops \<Rightarrow> ('fe, 'st, 's) ecmult_gen_context \<Rightarrow> u8 list option
     \<Rightarrow> ('fe, 'st, 's) ecmult_gen_context option" where
  "ecmult_gen_blind F S ctx seed32 =
     (let ctx = (if seed32 = None
                 then ctx \<lparr> gen_initial := gej_neg F (gej_set_ge F (ge_const_g F)), gen_blind := sc_set_int S 1 \<rparr>
                 else ctx);
          nonce32 = sc_get_b32 S (gen_blind ctx);
          keydata = (case seed32 of None \<Rightarrow> nonce32 | Some seed \<Rightarrow> nonce32 @ take 32 seed);
          rng = rfc6979_initialize hash_buf keydata
      in do {
        (rng, s) \<leftarrow> gen_blind_draw_fe F rng;
        let ctx = ctx \<lparr> gen_initial := gej_rescale F (gen_initial ctx) s \<rparr>;
        (rng, b) \<leftarrow> gen_blind_draw_scalar S rng;
        let gb = ecmult_gen F S ctx b;
        let b = sc_negate S b;
        Some (ctx \<lparr> gen_blind := b, gen_initial := gb \<rparr>)
      })"

definition nums_b32 :: "u8 list" where
  "nums_b32 = map of_char ''The scalar for this x is unknown''"

text \<open>The point with no known scalar the table is blinded with.\<close>

definition gen_nums :: "('fe, 'st) field_ops \<Rightarrow> 'fe gej" where
  "gen_nums F =
     (let (r, nums_x) = fe_set_b32 F nums_b32;
          (r, nums_ge) = ge_set_xo_var F nums_x False;
          nums_gej = gej_set_ge F nums_ge
      in fst (gej_add_ge_var F nums_gej nums_gej (ge_const_g F) False))"

text \<open>The table in Jacobian coordinates: one turn of the loop over \<open>j\<close>.\<close>

definition gen_precj_step ::
  "('fe, 'st) field_ops \<Rightarrow> 'fe gej \<Rightarrow> nat \<Rightarrow> 'fe gej list \<times> 'fe gej \<times> 'fe gej \<Rightarrow> 'fe gej list \<times> 'fe gej \<times> 'fe gej" where
  "gen_precj_step F nums_gej j st =
     (let (precj, gbase, numsbase) = st;
          precj = precj[j * 16 := numsbase];
          precj = foldl (\<lambda>precj i.
                    precj[j * 16 + i := fst (gej_add_var F (precj ! (j * 16 + i)) (precj ! (j * 16 + i - 1)) gbase False)])
                  precj [1..<16];
          gbase = ((\<lambda>g. fst (gej_double_var F g g False)) ^^ 4) gbase;
          numsbase = fst (gej_double_var F numsbase numsbase False);
          numsbase = (if j = 62 then
                        let numsbase = gej_neg F numsbase
                        in fst (gej_add_var F numsbase numsbase nums_gej False)
                      else numsbase)
      in (precj, gbase, numsbase))"

definition gen_prec_table :: "('fe, 'st) field_ops \<Rightarrow> 'st ge_storage list list" where
  "gen_prec_table F =
     (let gj = gej_set_ge F (ge_const_g F);
          nums_gej = gen_nums F;
          (precj, gbase, numsbase) = foldl (\<lambda>st j. gen_precj_step F nums_gej j st)
                                       (replicate 1024 (gej_clear F), gj, nums_gej) [0..<64];
          prec = ge_set_all_gej_var F (replicate 1024 (fe_clear F)) (replicate 1024 (ge_clear F)) precj 1024
      in map (\<lambda>j. map (\<lambda>i. ge_to_storage F (prec ! (j * 16 + i))) [0..<16]) [0..<64])"

definition ecmult_gen_context_build ::
  "('fe, 'st) field_ops \<Rightarrow> 's scalar_ops \<Rightarrow> ('fe, 'st, 's) ecmult_gen_context
     \<Rightarrow> ('fe, 'st, 's) ecmult_gen_context option" where
  "ecmult_gen_context_build F S ctx =
     (if gen_prec ctx \<noteq> None then Some ctx
      else ecmult_gen_blind F S (ctx \<lparr> gen_prec := Some (gen_prec_table F) \<rparr>) None)"

end
