(* ===== verification/Ecdsa_Sig.thy ===== *)
theory Ecdsa_Sig
  imports Ecmult_Gen Ecdsa_Der_Correct
begin

text \<open>
  Signing and verification (ecdsa_impl.h), on top of the point multiplications.
\<close>

section \<open>Definitions\<close>

definition ecdsa_const_order_as_fe :: "('fe, 'st) field_ops \<Rightarrow> 'fe" where
  "ecdsa_const_order_as_fe F = fe_const F 0xFFFFFFFF 0xFFFFFFFF 0xFFFFFFFF 0xFFFFFFFE
                                          0xBAAEDCE6 0xAF48A03B 0xBFD25E8C 0xD0364141"

definition ecdsa_const_p_minus_order :: "('fe, 'st) field_ops \<Rightarrow> 'fe" where
  "ecdsa_const_p_minus_order F = fe_const F 0 0 0 1 0x45512319 0x50B75FC4 0x402DA172 0x2FC9BAEE"

text \<open>The comparison of \<open>r\<close> with the x coordinate of the point, modulo the order.\<close>

definition ecdsa_check_r :: "('fe, 'st) field_ops \<Rightarrow> 's scalar_ops \<Rightarrow> 's \<Rightarrow> 'fe gej \<Rightarrow> bool" where
  "ecdsa_check_r F S sigr pr =
     (let c = sc_get_b32 S sigr;
          xr = snd (fe_set_b32 F c)
      in if gej_eq_x_var F xr pr then True
         else if fe_cmp_var F xr (ecdsa_const_p_minus_order F) \<ge> 0 then False
         else
           let xr = fe_add F xr (ecdsa_const_order_as_fe F)
           in if gej_eq_x_var F xr pr then True else False)"

definition ecdsa_sig_verify ::
  "('fe, 'st) field_ops \<Rightarrow> 's scalar_ops \<Rightarrow> 'st ecmult_context \<Rightarrow> 's \<Rightarrow> 's \<Rightarrow> 'fe ge \<Rightarrow> 's \<Rightarrow> bool" where
  "ecdsa_sig_verify F S ctx sigr sigs pubkey message =
     (if sc_is_zero S sigr \<or> sc_is_zero S sigs then False
      else
        let sn = sc_inverse_var S sigs;
            u1 = sc_mul S sn message;
            u2 = sc_mul S sn sigr;
            pubkeyj = gej_set_ge F pubkey;
            pr = ecmult F S ctx pubkeyj u2 u1
        in if gej_is_infinity pr then False else ecdsa_check_r F S sigr pr)"

text \<open>The verdict, \<open>sigr\<close>, \<open>sigs\<close> and the recovery id.\<close>

definition ecdsa_sig_sign ::
  "('fe, 'st) field_ops \<Rightarrow> 's scalar_ops \<Rightarrow> ('fe, 'st, 's) ecmult_gen_context \<Rightarrow> 's \<Rightarrow> 's \<Rightarrow> 's
     \<Rightarrow> bool \<times> 's \<times> 's \<times> int" where
  "ecdsa_sig_sign F S ctx seckey message nonce =
     (let rp = ecmult_gen F S ctx nonce;
          r = fst (ge_set_gej F rp);
          r = r \<lparr> ge_x := fe_normalize F (ge_x r) \<rparr>;
          r = r \<lparr> ge_y := fe_normalize F (ge_y r) \<rparr>;
          b = fe_get_b32 F (ge_x r);
          (sigr, overflow) = sc_set_b32 S b;
          recid = (if overflow then 2 else 0) OR (if fe_is_odd F (ge_y r) then 1 else 0);
          n = sc_mul S sigr seckey;
          n = fst (sc_add S n message);
          sigs = sc_inverse S nonce;
          sigs = sc_mul S sigs n
      in if sc_is_zero S sigs then (False, sigr, sigs, recid)
         else if sc_is_high S sigs then (True, sigr, sc_negate S sigs, recid XOR 1)
         else (True, sigr, sigs, recid))"

end
