(* ===== verification/Eckey.thy ===== *)
theory Eckey
  imports Ecmult
begin

text \<open>
  Keys: public keys as byte strings, and the tweaks of private and public keys (eckey.h,
  eckey_impl.h).
\<close>

section \<open>Definitions\<close>

text \<open>The verdict and the key, which is meaningful only with a positive verdict.\<close>

definition eckey_pubkey_parse :: "('fe, 'st) field_ops \<Rightarrow> 'fe ge \<Rightarrow> u8 list \<Rightarrow> bool \<times> 'fe ge" where
  "eckey_pubkey_parse F elem pub =
     (let sz = length pub
      in if sz = 33 \<and> (pub ! 0 = 0x02 \<or> pub ! 0 = 0x03) then
           let (ok, x) = fe_set_b32 F (take 32 (drop 1 pub))
           in if ok then ge_set_xo_var F x (pub ! 0 = 0x03) else (False, elem)
         else if sz = 65 \<and> (pub ! 0 = 0x04 \<or> pub ! 0 = 0x06 \<or> pub ! 0 = 0x07) then
           let (okx, x) = fe_set_b32 F (take 32 (drop 1 pub));
               (oky, y) = fe_set_b32 F (take 32 (drop 33 pub))
           in if \<not> okx \<or> \<not> oky then (False, elem)
              else
                let elem = ge_set_xy x y
                in if (pub ! 0 = 0x06 \<or> pub ! 0 = 0x07) \<and> fe_is_odd F y \<noteq> (pub ! 0 = 0x07) then (False, elem)
                   else (ge_is_valid_var F elem, elem)
         else (False, elem))"

text \<open>The bytes written, of which there are none for the point at infinity.\<close>

definition eckey_pubkey_serialize :: "('fe, 'st) field_ops \<Rightarrow> 'fe ge \<Rightarrow> bool \<Rightarrow> u8 list option" where
  "eckey_pubkey_serialize F elem compressed =
     (if ge_is_infinity elem then None
      else
        let x = fe_normalize_var F (ge_x elem);
            y = fe_normalize_var F (ge_y elem)
        in Some (if compressed then (0x02 OR (if fe_is_odd F y then 0x01 else 0x00)) # fe_get_b32 F x
                 else 0x04 # fe_get_b32 F x @ fe_get_b32 F y))"

definition eckey_privkey_tweak_add :: "'s scalar_ops \<Rightarrow> 's \<Rightarrow> 's \<Rightarrow> bool \<times> 's" where
  "eckey_privkey_tweak_add S key tweak =
     (let key = fst (sc_add S key tweak)
      in if sc_is_zero S key then (False, key) else (True, key))"

definition eckey_pubkey_tweak_add ::
  "('fe, 'st) field_ops \<Rightarrow> 's scalar_ops \<Rightarrow> 'st ecmult_context \<Rightarrow> 'fe ge \<Rightarrow> 's \<Rightarrow> bool \<times> 'fe ge" where
  "eckey_pubkey_tweak_add F S ctx key tweak =
     (let pt = gej_set_ge F key;
          one = sc_set_int S 1;
          pt = ecmult F S ctx pt one tweak
      in if gej_is_infinity pt then (False, key) else (True, fst (ge_set_gej F pt)))"

definition eckey_privkey_tweak_mul :: "'s scalar_ops \<Rightarrow> 's \<Rightarrow> 's \<Rightarrow> bool \<times> 's" where
  "eckey_privkey_tweak_mul S key tweak =
     (if sc_is_zero S tweak then (False, key) else (True, sc_mul S key tweak))"

definition eckey_pubkey_tweak_mul ::
  "('fe, 'st) field_ops \<Rightarrow> 's scalar_ops \<Rightarrow> 'st ecmult_context \<Rightarrow> 'fe ge \<Rightarrow> 's \<Rightarrow> bool \<times> 'fe ge" where
  "eckey_pubkey_tweak_mul F S ctx key tweak =
     (if sc_is_zero S tweak then (False, key)
      else
        let zero = sc_set_int S 0;
            pt = gej_set_ge F key;
            pt = ecmult F S ctx pt tweak zero
        in (True, fst (ge_set_gej F pt)))"

section \<open>Public keys as points\<close>

text \<open>The byte strings of SEC 1 that stand for a point, and which of them are accepted.\<close>

definition fp_bytes :: "u8 list \<Rightarrow> fp" where
  "fp_bytes bs = of_nat (be_nat bs)"

fun pubkey_accepted :: "u8 list \<Rightarrow> bool" where
  "pubkey_accepted [] = False"
| "pubkey_accepted (h # bs) =
     (let x = take 32 bs; y = drop 32 bs
      in if length bs = 32 then (h = 2 \<or> h = 3) \<and> be_nat x < nat field_prime \<and> (\<exists>y. on_curve (Pt (fp_bytes x) y))
         else length bs = 64 \<and> (h = 4 \<or> h = 6 \<or> h = 7) \<and> be_nat x < nat field_prime \<and> be_nat y < nat field_prime
           \<and> (h \<noteq> 4 \<longrightarrow> odd (be_nat y) = (h = 7)) \<and> on_curve (Pt (fp_bytes x) (fp_bytes y)))"

lemma fp_bytes_rep: "be_nat bs < nat field_prime \<Longrightarrow> rep_fp (fp_bytes bs) = int (be_nat bs)"
  unfolding fp_bytes_def rep_fp_of_nat by (rule mod_pos_pos_trivial) simp_all

context field_impl
begin

lemma pubkey_parse_compressed:
  assumes p: "pub = h # bs" "length bs = 32" and h: "h = 2 \<or> h = 3" and r: "eckey_pubkey_parse F elem pub = (ok, q)"
  shows "ok = pubkey_accepted pub"
    and "ok \<Longrightarrow> ge_wf mag fval q \<and> \<not> ge_infinity q \<and>
           (\<exists>y. ge_pt fval q = Pt (fp_bytes bs) y \<and> (odd (rep_fp y) \<longleftrightarrow> h = 3))"
proof -
  obtain k x where x: "fe_set_b32 F bs = (k, x)" by (rule prod.exhaust)
  note sx = set_b32_law [OF p(2) x]
  have m: "mag 8 x" using sx mag_mono [of 1 x 8] by simp
  obtain ok' q' where q: "ge_set_xo_var F x (h = 3) = (ok', q')" by (rule prod.exhaust)
  note xo = ge_set_xo_var_law [OF m q]
  have fx: "fval x = fp_bytes bs" using sx by (simp add: fp_bytes_def)
  have e: "(ok, q) = (if k then (ok', q') else (False, elem))"
  proof -
    have d: "pub ! 0 = h" "take 32 (drop 1 pub) = bs" "length pub = 33" using p by simp_all
    show ?thesis using r h unfolding eckey_pubkey_parse_def Let_def d x prod.case q by auto
  qed
  have "pubkey_accepted pub \<longleftrightarrow> k \<and> ok'"
    using p h sx xo(1) fx by auto
  then show "ok = pubkey_accepted pub" using e by (simp split: if_splits)
  assume ok
  then have "k" "ok'" "q = q'" using e by (simp_all split: if_splits)
  then show "ge_wf mag fval q \<and> \<not> ge_infinity q \<and>
           (\<exists>y. ge_pt fval q = Pt (fp_bytes bs) y \<and> (odd (rep_fp y) \<longleftrightarrow> h = 3))"
    using xo(2) fx by (auto simp: ge_pt_def)
qed

lemma pubkey_parse_full:
  assumes p: "pub = h # bs @ cs" "length bs = 32" "length cs = 32" and h: "h = 4 \<or> h = 6 \<or> h = 7"
    and r: "eckey_pubkey_parse F elem pub = (ok, q)"
  shows "ok = pubkey_accepted pub"
    and "ok \<Longrightarrow> ge_wf mag fval q \<and> \<not> ge_infinity q \<and> ge_pt fval q = Pt (fp_bytes bs) (fp_bytes cs)"
proof -
  obtain k x where x: "fe_set_b32 F bs = (k, x)" by (rule prod.exhaust)
  obtain l y where y: "fe_set_b32 F cs = (l, y)" by (rule prod.exhaust)
  note sx = set_b32_law [OF p(2) x] and sy = set_b32_law [OF p(3) y]
  have m: "mag 8 x" "mag 8 y" using sx sy mag_mono [of 1 x 8] mag_mono [of 1 y 8] by simp_all
  have fv: "fval x = fp_bytes bs" "fval y = fp_bytes cs" using sx sy by (simp_all add: fp_bytes_def)
  define q' where "q' = ge_set_xy x y"
  have v: "ge_is_valid_var F q' \<longleftrightarrow> on_curve (Pt (fp_bytes bs) (fp_bytes cs))"
    using ge_is_valid_var_iff [of q'] m fv by (simp add: q'_def ge_set_xy_def)
  have o: "fe_is_odd F y \<longleftrightarrow> odd (be_nat cs)" if l
    using is_odd_law [of y] sy that fv fp_bytes_rep [of cs] by simp
  have d: "take 32 (drop 1 pub) = bs" "take 32 (drop 33 pub) = cs" "pub ! 0 = h" "length pub = 65"
    using p by simp_all
  have "(0x04 :: u8) \<noteq> 0x06" "(0x04 :: u8) \<noteq> 0x07" by simp_all
  then have e: "(ok, q) = (if \<not> k \<or> \<not> l then (False, elem)
      else if h \<noteq> 4 \<and> fe_is_odd F y \<noteq> (h = 7) then (False, q') else (ge_is_valid_var F q', q'))"
    using r h unfolding eckey_pubkey_parse_def Let_def d x y prod.case q'_def [symmetric] by auto
  have "pubkey_accepted pub \<longleftrightarrow> k \<and> l \<and> (h \<noteq> 4 \<longrightarrow> fe_is_odd F y = (h = 7)) \<and> ge_is_valid_var F q'"
    using p h sx sy v o by auto
  then show "ok = pubkey_accepted pub" using e by (auto split: if_splits)
  assume ok
  then have "q = q'" "ge_is_valid_var F q'" using e by (auto split: if_splits)
  then show "ge_wf mag fval q \<and> \<not> ge_infinity q \<and> ge_pt fval q = Pt (fp_bytes bs) (fp_bytes cs)"
    using v fv m by (auto simp: ge_wf_def ge_pt_def q'_def ge_set_xy_def)
qed

lemma pubkey_parse_other:
  assumes "\<not> (length pub = 33 \<and> (pub ! 0 = 2 \<or> pub ! 0 = 3))"
    "\<not> (length pub = 65 \<and> (pub ! 0 = 4 \<or> pub ! 0 = 6 \<or> pub ! 0 = 7))"
  shows "eckey_pubkey_parse F elem pub = (False, elem)" "\<not> pubkey_accepted pub"
  using assms by (cases pub; auto simp: eckey_pubkey_parse_def Let_def)+

text \<open>A well-formed point serialises to bytes that parse to it.\<close>

lemma pubkey_serialize_law:
  assumes q: "ge_wf mag fval q" "\<not> ge_infinity q" and pt: "ge_pt fval q = Pt x y"
  shows "\<exists>xs ys. length xs = 32 \<and> length ys = 32 \<and> int (be_nat xs) = rep_fp x \<and> int (be_nat ys) = rep_fp y
    \<and> eckey_pubkey_serialize F q c = Some (if c then (if odd (rep_fp y) then 3 else 2) # xs else 4 # xs @ ys)"
proof -
  have m: "mag 32 (ge_x q)" "mag 32 (ge_y q)"
    using q mag_mono [of 8 _ 32] by (auto simp: ge_wf_def)
  note nx = normalize_var_law [OF m(1)] and ny = normalize_var_law [OF m(2)]
  have v: "fval (ge_x q) = x" "fval (ge_y q) = y" using pt q(2) by (simp_all add: ge_pt_def)
  have "(0x02 :: u8) OR 0x01 = 3" "(0x02 :: u8) OR 0x00 = 2" by simp_all
  then show ?thesis
    using get_b32_law [of "fe_normalize_var F (ge_x q)"] get_b32_law [of "fe_normalize_var F (ge_y q)"] nx ny v q(2)
      is_odd_law [of "fe_normalize_var F (ge_y q)"]
    by (intro exI [of _ "fe_get_b32 F (fe_normalize_var F (ge_x q))"] exI [of _ "fe_get_b32 F (fe_normalize_var F (ge_y q))"])
      (auto simp: eckey_pubkey_serialize_def Let_def ge_is_infinity_def)
qed

lemma fp_bytes_of_rep: "int (be_nat bs) = rep_fp x \<Longrightarrow> fp_bytes bs = x"
  unfolding fp_bytes_def by (metis of_int_of_nat_eq of_int_rep_fp)

lemma rep_fp_less_prime: "int (be_nat bs) = rep_fp x \<Longrightarrow> be_nat bs < nat field_prime"
  using rep_fp_range(2) [of x] by linarith

lemma same_parity_point:
  assumes "on_curve (Pt x y)" "on_curve (Pt x z)" "odd (rep_fp y) = odd (rep_fp z)"
  shows "y = z"
proof (rule ccontr)
  assume ne: "y \<noteq> z"
  then have "z = - y" using same_x_on_curve [OF assms(1,2)] by auto
  then show False using rep_fp_minus_odd [of y] on_curve_y_ne_0 [OF assms(1)] assms(3) by simp
qed

lemma pubkey_serialize_parse:
  assumes q: "ge_wf mag fval q" "\<not> ge_infinity q" and r: "eckey_pubkey_serialize F q c = Some bs"
  shows "\<exists>q'. eckey_pubkey_parse F elem bs = (True, q') \<and> ge_wf mag fval q' \<and> ge_pt fval q' = ge_pt fval q"
proof -
  obtain x y where pt: "ge_pt fval q = Pt x y" using q(2) by (simp add: ge_pt_def)
  have cv: "on_curve (Pt x y)" using q pt by (auto simp: ge_wf_def ge_pt_def)
  obtain xs ys where s: "length xs = 32" "length ys = 32" "int (be_nat xs) = rep_fp x" "int (be_nat ys) = rep_fp y"
    "bs = (if c then (if odd (rep_fp y) then 3 else 2) # xs else 4 # xs @ ys)"
    using pubkey_serialize_law [OF q pt, of c] r by auto
  note b = fp_bytes_of_rep [OF s(3)] fp_bytes_of_rep [OF s(4)] rep_fp_less_prime [OF s(3)] rep_fp_less_prime [OF s(4)]
  obtain ok q' where p: "eckey_pubkey_parse F elem bs = (ok, q')" by (rule prod.exhaust)
  show ?thesis
  proof (cases c)
    case True
    define h :: u8 where "h = (if odd (rep_fp y) then 3 else 2)"
    have bs: "bs = h # xs" and h: "h = 2 \<or> h = 3" "h = 3 \<longleftrightarrow> odd (rep_fp y)" using s(5) True by (auto simp: h_def)
    note l = pubkey_parse_compressed [OF bs s(1) h(1) p]
    have ok: ok using l(1) s(1) h b cv unfolding bs by auto
    obtain y' where y': "ge_wf mag fval q'" "\<not> ge_infinity q'" "ge_pt fval q' = Pt x y'" "odd (rep_fp y') \<longleftrightarrow> h = 3"
      using l(2) [OF ok] b(1) by auto
    have "on_curve (Pt x y')" using y'(1-3) by (auto simp: ge_wf_def ge_pt_def)
    then have "y' = y" using same_parity_point [OF _ cv, of y'] y'(4) h(2) by simp
    then show ?thesis using p ok y' pt by auto
  next
    case False
    then have bs: "bs = 4 # xs @ ys" using s(5) by simp
    note l = pubkey_parse_full [OF bs s(1,2) _ p]
    have ok using l(1) s(1,2) b cv unfolding bs by auto
    then show ?thesis using l(2) p b(1,2) pt by auto
  qed
qed

end

end
