(* ===== verification/Secp256k1.thy ===== *)
theory Secp256k1
  imports Ecdsa_Sig Eckey
begin

text \<open>
  The public interface of the library (include/secp256k1.h, secp256k1.c) for the 64-bit build on a
  little-endian machine: 5x52 field elements and 4x64 scalars.

  \<^item> A pointer that may be NULL is an option.  An output object is passed in with its old contents
    and returned with the new ones.
  \<^item> The opaque objects are the bytes of their memory: \<open>memcpy\<close> of a structure copies the
    little-endian bytes of its limbs.
  \<^item> A function reports an illegal argument by calling the callback of the context with the text of
    the violated condition and returning 0.  A result of type \<open>'a api\<close> carries the texts of these
    calls in order; with the default callback, which aborts, the program ends at the first of them.
  \<^item> The key, nonce and message arguments are the 32 bytes they point to.
\<close>

section \<open>Objects in memory\<close>

definition le64_bytes :: "u64 \<Rightarrow> u8 list" where
  "le64_bytes w = [ucast w, ucast (drop_bit 8 w), ucast (drop_bit 16 w), ucast (drop_bit 24 w),
     ucast (drop_bit 32 w), ucast (drop_bit 40 w), ucast (drop_bit 48 w), ucast (drop_bit 56 w)]"

definition le64_load :: "u8 list \<Rightarrow> nat \<Rightarrow> u64" where
  "le64_load m i =
     ucast (m ! i) OR push_bit 8 (ucast (m ! (i + 1))) OR push_bit 16 (ucast (m ! (i + 2)))
     OR push_bit 24 (ucast (m ! (i + 3))) OR push_bit 32 (ucast (m ! (i + 4)))
     OR push_bit 40 (ucast (m ! (i + 5))) OR push_bit 48 (ucast (m ! (i + 6))) OR push_bit 56 (ucast (m ! (i + 7)))"

fun fe_storage_bytes :: "fe52_storage \<Rightarrow> u8 list" where
  "fe_storage_bytes (Fe52_Storage n0 n1 n2 n3) = le64_bytes n0 @ le64_bytes n1 @ le64_bytes n2 @ le64_bytes n3"

definition fe_storage_load :: "u8 list \<Rightarrow> nat \<Rightarrow> fe52_storage" where
  "fe_storage_load m i = Fe52_Storage (le64_load m i) (le64_load m (i + 8)) (le64_load m (i + 16)) (le64_load m (i + 24))"

definition scalar_bytes :: "sc64 \<Rightarrow> u8 list" where
  "scalar_bytes a = le64_bytes (sd0 a) @ le64_bytes (sd1 a) @ le64_bytes (sd2 a) @ le64_bytes (sd3 a)"

definition scalar_load :: "u8 list \<Rightarrow> nat \<Rightarrow> sc64" where
  "scalar_load m i = Sc64 (le64_load m i) (le64_load m (i + 8)) (le64_load m (i + 16)) (le64_load m (i + 24))"

section \<open>Illegal arguments\<close>

type_synonym 'a api = "string list \<times> 'a"

text \<open>\<open>ARG_CHECK(cond)\<close>: the result so far if the condition fails, the rest of the function otherwise.\<close>

definition arg_check :: "bool \<Rightarrow> string \<Rightarrow> 'a \<Rightarrow> 'a api \<Rightarrow> 'a api" where
  "arg_check cond txt fail rest = (if cond then rest else ([txt], fail))"

definition api_bind :: "'a api \<Rightarrow> ('a \<Rightarrow> 'b api) \<Rightarrow> 'b api" where
  "api_bind x f = (let (l, a) = x; (k, b) = f a in (l @ k, b))"

section \<open>Contexts\<close>

datatype callback = Default_Illegal_Callback | Default_Error_Callback | User_Callback nat nat

record secp256k1_context =
  ecmult_ctx :: "fe52_storage ecmult_context"
  ecmult_gen_ctx :: "(fe52, fe52_storage, sc64) ecmult_gen_context"
  illegal_callback :: callback
  error_callback :: callback

abbreviation (input) flags_type_mask :: u32 where "flags_type_mask \<equiv> 0xFF"
abbreviation (input) flags_type_context :: u32 where "flags_type_context \<equiv> 0x1"
abbreviation (input) flags_type_compression :: u32 where "flags_type_compression \<equiv> 0x2"
abbreviation (input) flags_bit_context_verify :: u32 where "flags_bit_context_verify \<equiv> 0x100"
abbreviation (input) flags_bit_context_sign :: u32 where "flags_bit_context_sign \<equiv> 0x200"
abbreviation (input) flags_bit_compression :: u32 where "flags_bit_compression \<equiv> 0x100"
abbreviation (input) context_verify :: u32 where "context_verify \<equiv> 0x101"
abbreviation (input) context_sign :: u32 where "context_sign \<equiv> 0x201"
abbreviation (input) ec_compressed :: u32 where "ec_compressed \<equiv> 0x102"
abbreviation (input) ec_uncompressed :: u32 where "ec_uncompressed \<equiv> 0x2"

text \<open>\<open>mem\<close> is the allocated memory.  The outer option is for the loops of the blinding.\<close>

definition context_create :: "secp256k1_context \<Rightarrow> u32 \<Rightarrow> secp256k1_context option api option" where
  "context_create mem flags =
     (let ret = mem \<lparr> illegal_callback := Default_Illegal_Callback, error_callback := Default_Error_Callback \<rparr>
      in if flags AND flags_type_mask \<noteq> flags_type_context then Some ([''Invalid flags''], None)
         else
           let ret = ret \<lparr> ecmult_ctx := ecmult_context_init,
                           ecmult_gen_ctx := ecmult_gen_context_init (ecmult_gen_ctx ret) \<rparr>
           in do {
             ret \<leftarrow> (if flags AND flags_bit_context_sign \<noteq> 0
                     then do {
                       g \<leftarrow> ecmult_gen_context_build fe52_ops sc64_ops (ecmult_gen_ctx ret);
                       Some (ret \<lparr> ecmult_gen_ctx := g \<rparr>)
                     } else Some ret);
             let ret = (if flags AND flags_bit_context_verify \<noteq> 0
                        then ret \<lparr> ecmult_ctx := ecmult_context_build fe52_ops (ecmult_ctx ret) \<rparr> else ret);
             Some ([], Some ret)
           })"

definition context_clone :: "secp256k1_context \<Rightarrow> secp256k1_context \<Rightarrow> secp256k1_context" where
  "context_clone mem ctx =
     mem \<lparr> illegal_callback := illegal_callback ctx, error_callback := error_callback ctx,
           ecmult_ctx := ecmult_context_clone (ecmult_ctx ctx),
           ecmult_gen_ctx := ecmult_gen_context_clone (ecmult_gen_ctx mem) (ecmult_gen_ctx ctx) \<rparr>"

text \<open>The contents of the memory when it is freed.\<close>

definition context_destroy :: "secp256k1_context option \<Rightarrow> secp256k1_context option" where
  "context_destroy ctx = map_option (\<lambda>ctx.
     ctx \<lparr> ecmult_ctx := ecmult_context_clear (ecmult_ctx ctx),
           ecmult_gen_ctx := ecmult_gen_context_clear fe52_ops sc64_ops (ecmult_gen_ctx ctx) \<rparr>) ctx"

definition context_set_illegal_callback :: "secp256k1_context \<Rightarrow> nat option \<Rightarrow> nat \<Rightarrow> secp256k1_context" where
  "context_set_illegal_callback ctx f data =
     ctx \<lparr> illegal_callback := (case f of None \<Rightarrow> Default_Illegal_Callback | Some f \<Rightarrow> User_Callback f data) \<rparr>"

definition context_set_error_callback :: "secp256k1_context \<Rightarrow> nat option \<Rightarrow> nat \<Rightarrow> secp256k1_context" where
  "context_set_error_callback ctx f data =
     ctx \<lparr> error_callback := (case f of None \<Rightarrow> Default_Error_Callback | Some f \<Rightarrow> User_Callback f data) \<rparr>"

definition context_randomize ::
  "secp256k1_context \<Rightarrow> u8 list option \<Rightarrow> (bool \<times> secp256k1_context) api option" where
  "context_randomize ctx seed32 =
     (if \<not> ecmult_gen_context_is_built (ecmult_gen_ctx ctx)
      then Some ([''secp256k1_ecmult_gen_context_is_built(&ctx->ecmult_gen_ctx)''], (False, ctx))
      else do {
        g \<leftarrow> ecmult_gen_blind fe52_ops sc64_ops (ecmult_gen_ctx ctx) seed32;
        Some ([], (True, ctx \<lparr> ecmult_gen_ctx := g \<rparr>))
      })"

section \<open>Public keys\<close>

text \<open>A key object is 64 bytes, the size of \<open>secp256k1_ge_storage\<close>.\<close>

definition pubkey_load :: "u8 list \<Rightarrow> (bool \<times> fe52 ge) api" where
  "pubkey_load pubkey =
     (let s = \<lparr> ges_x = fe_storage_load pubkey 0, ges_y = fe_storage_load pubkey 32 \<rparr>;
          ge = ge_from_storage fe52_ops s
      in arg_check (\<not> fe_is_zero fe52_ops (ge_x ge)) ''!secp256k1_fe_is_zero(&ge->x)'' (False, ge)
           ([], (True, ge)))"

definition pubkey_save :: "fe52 ge \<Rightarrow> u8 list" where
  "pubkey_save ge =
     (let s = ge_to_storage fe52_ops ge
      in fe_storage_bytes (ges_x s) @ fe_storage_bytes (ges_y s))"

definition ec_pubkey_parse :: "u8 list option \<Rightarrow> u8 list option \<Rightarrow> (bool \<times> u8 list option) api" where
  "ec_pubkey_parse pubkey input =
     arg_check (pubkey \<noteq> None) ''pubkey != NULL'' (False, pubkey)
       (let pubkey = Some (replicate 64 0)
        in arg_check (input \<noteq> None) ''input != NULL'' (False, pubkey)
             (let (ok, Q) = eckey_pubkey_parse fe52_ops (ge_clear fe52_ops) (the input)
              in if \<not> ok then ([], (False, pubkey)) else ([], (True, Some (pubkey_save Q)))))"

text \<open>\<open>output\<close> has at least \<open>*outputlen\<close> bytes.  The results are the verdict, \<open>*outputlen\<close> and \<open>output\<close>.\<close>

definition ec_pubkey_serialize ::
  "u8 list option \<Rightarrow> nat option \<Rightarrow> u8 list option \<Rightarrow> u32 \<Rightarrow> (bool \<times> nat option \<times> u8 list option) api" where
  "ec_pubkey_serialize output outputlen pubkey flags =
     (let compressed = (flags AND flags_bit_compression \<noteq> 0)
      in arg_check (outputlen \<noteq> None) ''outputlen != NULL'' (False, outputlen, output)
      (arg_check ((if compressed then 33 else 65) \<le> the outputlen)
         ''*outputlen >= ((flags & SECP256K1_FLAGS_BIT_COMPRESSION) ? 33 : 65)'' (False, outputlen, output)
      (let len = the outputlen;
           outputlen = Some 0
       in arg_check (output \<noteq> None) ''output != NULL'' (False, outputlen, output)
      (let output = Some (replicate len 0 @ drop len (the output))
       in arg_check (pubkey \<noteq> None) ''pubkey != NULL'' (False, outputlen, output)
      (arg_check (flags AND flags_type_mask = flags_type_compression)
         ''(flags & SECP256K1_FLAGS_TYPE_MASK) == SECP256K1_FLAGS_TYPE_COMPRESSION'' (False, outputlen, output)
      (api_bind (pubkey_load (the pubkey)) (\<lambda>(ok, Q).
         if \<not> ok then ([], (False, outputlen, output))
         else case eckey_pubkey_serialize fe52_ops Q compressed of
                None \<Rightarrow> ([], (False, outputlen, output))
              | Some bs \<Rightarrow> ([], (True, Some (length bs), Some (bs @ drop (length bs) (the output)))))))))))"

section \<open>Signatures\<close>

text \<open>A signature object is 64 bytes, twice the size of \<open>secp256k1_scalar\<close>.\<close>

definition ecdsa_signature_load :: "u8 list \<Rightarrow> sc64 \<times> sc64" where
  "ecdsa_signature_load sig = (scalar_load sig 0, scalar_load sig 32)"

definition ecdsa_signature_save :: "sc64 \<Rightarrow> sc64 \<Rightarrow> u8 list" where
  "ecdsa_signature_save r s = scalar_bytes r @ scalar_bytes s"

text \<open>The outer option is the undefined behaviour of a read outside the input.\<close>

definition ecdsa_signature_parse_der ::
  "u8 list option \<Rightarrow> u8 list option \<Rightarrow> (bool \<times> u8 list option) api option" where
  "ecdsa_signature_parse_der sig input =
     (if sig = None then Some ([''sig != NULL''], (False, sig))
      else if input = None then Some ([''input != NULL''], (False, sig))
      else do {
        res \<leftarrow> ecdsa_sig_parse sc64_ops (the input);
        (case res of
           Some (r, s) \<Rightarrow> Some ([], (True, Some (ecdsa_signature_save r s)))
         | None \<Rightarrow> Some ([], (False, Some (replicate 64 0))))
      })"

definition ecdsa_signature_parse_compact ::
  "u8 list option \<Rightarrow> u8 list option \<Rightarrow> (bool \<times> u8 list option) api" where
  "ecdsa_signature_parse_compact sig input64 =
     arg_check (sig \<noteq> None) ''sig != NULL'' (False, sig)
     (arg_check (input64 \<noteq> None) ''input64 != NULL'' (False, sig)
     (let ret = True;
          (r, overflow) = sc_set_b32 sc64_ops (take 32 (the input64));
          ret = (ret \<and> \<not> overflow);
          (s, overflow) = sc_set_b32 sc64_ops (take 32 (drop 32 (the input64)));
          ret = (ret \<and> \<not> overflow)
      in if ret then ([], (ret, Some (ecdsa_signature_save r s)))
         else ([], (ret, Some (replicate 64 0)))))"

definition ecdsa_signature_serialize_der ::
  "u8 list option \<Rightarrow> nat option \<Rightarrow> u8 list option \<Rightarrow> (bool \<times> nat option \<times> u8 list option) api" where
  "ecdsa_signature_serialize_der output outputlen sig =
     arg_check (output \<noteq> None) ''output != NULL'' (False, outputlen, output)
     (arg_check (outputlen \<noteq> None) ''outputlen != NULL'' (False, outputlen, output)
     (arg_check (sig \<noteq> None) ''sig != NULL'' (False, outputlen, output)
     (let (r, s) = ecdsa_signature_load (the sig);
          (ret, n, bs) = ecdsa_sig_serialize sc64_ops (the outputlen) r s
      in ([], (ret, Some n, Some (bs @ drop (length bs) (the output)))))))"

definition ecdsa_signature_serialize_compact ::
  "u8 list option \<Rightarrow> u8 list option \<Rightarrow> (bool \<times> u8 list option) api" where
  "ecdsa_signature_serialize_compact output64 sig =
     arg_check (output64 \<noteq> None) ''output64 != NULL'' (False, output64)
     (arg_check (sig \<noteq> None) ''sig != NULL'' (False, output64)
     (let (r, s) = ecdsa_signature_load (the sig)
      in ([], (True, Some (sc_get_b32 sc64_ops r @ sc_get_b32 sc64_ops s)))))"

definition ecdsa_signature_normalize ::
  "u8 list option \<Rightarrow> u8 list option \<Rightarrow> (bool \<times> u8 list option) api" where
  "ecdsa_signature_normalize sigout sigin =
     arg_check (sigin \<noteq> None) ''sigin != NULL'' (False, sigout)
     (let (r, s) = ecdsa_signature_load (the sigin);
          ret = sc_is_high sc64_ops s
      in if sigout \<noteq> None then
           let s = (if ret then sc_negate sc64_ops s else s)
           in ([], (ret, Some (ecdsa_signature_save r s)))
         else ([], (ret, sigout)))"

definition ecdsa_verify ::
  "secp256k1_context \<Rightarrow> u8 list option \<Rightarrow> u8 list option \<Rightarrow> u8 list option \<Rightarrow> bool api" where
  "ecdsa_verify ctx sig msg32 pubkey =
     arg_check (ecmult_context_is_built (ecmult_ctx ctx)) ''secp256k1_ecmult_context_is_built(&ctx->ecmult_ctx)'' False
     (arg_check (msg32 \<noteq> None) ''msg32 != NULL'' False
     (arg_check (sig \<noteq> None) ''sig != NULL'' False
     (arg_check (pubkey \<noteq> None) ''pubkey != NULL'' False
     (let m = fst (sc_set_b32 sc64_ops (the msg32));
          (r, s) = ecdsa_signature_load (the sig)
      in if sc_is_high sc64_ops s then ([], False)
         else api_bind (pubkey_load (the pubkey)) (\<lambda>(ok, q).
                ([], ok \<and> ecdsa_sig_verify fe52_ops sc64_ops (ecmult_ctx ctx) r s q m))))))"

section \<open>Signing\<close>

text \<open>
  A nonce function gets the message, the key, the name of the algorithm, the extra data and the
  attempt; it returns a verdict and the nonce.
\<close>

type_synonym nonce_function =
  "u8 list \<Rightarrow> u8 list \<Rightarrow> u8 list option \<Rightarrow> u8 list option \<Rightarrow> u32 \<Rightarrow> bool \<times> u8 list"

text \<open>
  The loop counts an \<open>unsigned int\<close> up to \<open>counter\<close>: \<open>counter + 1\<close> turns as long as the counter is
  not the largest value of its type.
\<close>

definition nonce_function_rfc6979 :: nonce_function where
  "nonce_function_rfc6979 msg32 key32 algo16 data counter =
     (let keydata = take 32 key32 @ take 32 msg32;
          keydata = (case data of None \<Rightarrow> keydata | Some d \<Rightarrow> keydata @ take 32 d);
          keydata = (case algo16 of None \<Rightarrow> keydata | Some a \<Rightarrow> keydata @ take 16 a);
          rng = rfc6979_initialize hash_buf keydata;
          (rng, nonce32) = ((\<lambda>(rng, nonce32 :: u8 list). rfc6979_generate hash_buf rng 32) ^^ (unat counter + 1)) (rng, [])
      in (True, nonce32))"

text \<open>
  The loop of the signing functions over the attempts; \<open>None\<close> inside is the failure of the nonce
  function, otherwise the signature and the recovery id.
\<close>

partial_function (option) sign_loop ::
  "(fe52, fe52_storage, sc64) ecmult_gen_context \<Rightarrow> (u32 \<Rightarrow> bool \<times> u8 list) \<Rightarrow> sc64 \<Rightarrow> sc64 \<Rightarrow> u32
     \<Rightarrow> (sc64 \<times> sc64 \<times> int) option option" where
  "sign_loop ctx noncefp sec msg count =
     (let (ret, nonce32) = noncefp count
      in if \<not> ret then Some None
         else
           let (non, overflow) = sc_set_b32 sc64_ops nonce32
           in if \<not> overflow \<and> \<not> sc_is_zero sc64_ops non then
                let (ok, r, s, recid) = ecdsa_sig_sign fe52_ops sc64_ops ctx sec msg non
                in if ok then Some (Some (r, s, recid)) else sign_loop ctx noncefp sec msg (count + 1)
              else sign_loop ctx noncefp sec msg (count + 1))"

text \<open>The part common to both signing functions, from the key to the loop.\<close>

definition sign_core ::
  "secp256k1_context \<Rightarrow> u8 list \<Rightarrow> u8 list \<Rightarrow> nonce_function option \<Rightarrow> u8 list option
     \<Rightarrow> (sc64 \<times> sc64 \<times> int) option option" where
  "sign_core ctx msg32 seckey noncefp noncedata =
     (let noncefp = (case noncefp of None \<Rightarrow> nonce_function_rfc6979 | Some f \<Rightarrow> f);
          (sec, overflow) = sc_set_b32 sc64_ops seckey
      in if \<not> overflow \<and> \<not> sc_is_zero sc64_ops sec then
           let msg = fst (sc_set_b32 sc64_ops msg32)
           in sign_loop (ecmult_gen_ctx ctx) (noncefp msg32 seckey None noncedata) sec msg 0
         else Some None)"

definition ecdsa_sign ::
  "secp256k1_context \<Rightarrow> u8 list option \<Rightarrow> u8 list option \<Rightarrow> u8 list option \<Rightarrow> nonce_function option
     \<Rightarrow> u8 list option \<Rightarrow> (bool \<times> u8 list option) api option" where
  "ecdsa_sign ctx signature msg32 seckey noncefp noncedata =
     (if \<not> ecmult_gen_context_is_built (ecmult_gen_ctx ctx)
      then Some ([''secp256k1_ecmult_gen_context_is_built(&ctx->ecmult_gen_ctx)''], (False, signature))
      else if msg32 = None then Some ([''msg32 != NULL''], (False, signature))
      else if signature = None then Some ([''signature != NULL''], (False, signature))
      else if seckey = None then Some ([''seckey != NULL''], (False, signature))
      else do {
        res \<leftarrow> sign_core ctx (the msg32) (the seckey) noncefp noncedata;
        (case res of
           Some (r, s, recid) \<Rightarrow> Some ([], (True, Some (ecdsa_signature_save r s)))
         | None \<Rightarrow> Some ([], (False, Some (replicate 64 0))))
      })"

section \<open>Keys\<close>

definition ec_seckey_verify :: "u8 list option \<Rightarrow> bool api" where
  "ec_seckey_verify seckey =
     arg_check (seckey \<noteq> None) ''seckey != NULL'' False
     (let (sec, overflow) = sc_set_b32 sc64_ops (the seckey)
      in ([], \<not> overflow \<and> \<not> sc_is_zero sc64_ops sec))"

definition ec_pubkey_create ::
  "secp256k1_context \<Rightarrow> u8 list option \<Rightarrow> u8 list option \<Rightarrow> (bool \<times> u8 list option) api" where
  "ec_pubkey_create ctx pubkey seckey =
     arg_check (pubkey \<noteq> None) ''pubkey != NULL'' (False, pubkey)
     (let pubkey = Some (replicate 64 0)
      in arg_check (ecmult_gen_context_is_built (ecmult_gen_ctx ctx))
           ''secp256k1_ecmult_gen_context_is_built(&ctx->ecmult_gen_ctx)'' (False, pubkey)
     (arg_check (seckey \<noteq> None) ''seckey != NULL'' (False, pubkey)
     (let (sec, overflow) = sc_set_b32 sc64_ops (the seckey);
          ret = (\<not> overflow \<and> \<not> sc_is_zero sc64_ops sec)
      in if ret then
           let pj = ecmult_gen fe52_ops sc64_ops (ecmult_gen_ctx ctx) sec;
               p = fst (ge_set_gej fe52_ops pj)
           in ([], (ret, Some (pubkey_save p)))
         else ([], (ret, pubkey)))))"

text \<open>The tweaks of a secret key: the operation on scalars is a parameter.\<close>

definition privkey_tweak ::
  "(sc64 \<Rightarrow> sc64 \<Rightarrow> bool \<times> sc64) \<Rightarrow> u8 list option \<Rightarrow> u8 list option \<Rightarrow> (bool \<times> u8 list option) api" where
  "privkey_tweak eckey_tweak seckey tweak =
     arg_check (seckey \<noteq> None) ''seckey != NULL'' (False, seckey)
     (arg_check (tweak \<noteq> None) ''tweak != NULL'' (False, seckey)
     (let (term, overflow) = sc_set_b32 sc64_ops (the tweak);
          sec = fst (sc_set_b32 sc64_ops (the seckey));
          (ok, sec) = (if overflow then (False, sec) else eckey_tweak sec term);
          ret = (\<not> overflow \<and> ok)
      in ([], (ret, Some (if ret then sc_get_b32 sc64_ops sec else replicate 32 0)))))"

definition ec_privkey_tweak_add :: "u8 list option \<Rightarrow> u8 list option \<Rightarrow> (bool \<times> u8 list option) api" where
  "ec_privkey_tweak_add = privkey_tweak (eckey_privkey_tweak_add sc64_ops)"

definition ec_privkey_tweak_mul :: "u8 list option \<Rightarrow> u8 list option \<Rightarrow> (bool \<times> u8 list option) api" where
  "ec_privkey_tweak_mul = privkey_tweak (eckey_privkey_tweak_mul sc64_ops)"

definition pubkey_tweak ::
  "(fe52_storage ecmult_context \<Rightarrow> fe52 ge \<Rightarrow> sc64 \<Rightarrow> bool \<times> fe52 ge) \<Rightarrow> secp256k1_context
     \<Rightarrow> u8 list option \<Rightarrow> u8 list option \<Rightarrow> (bool \<times> u8 list option) api" where
  "pubkey_tweak eckey_tweak ctx pubkey tweak =
     arg_check (ecmult_context_is_built (ecmult_ctx ctx)) ''secp256k1_ecmult_context_is_built(&ctx->ecmult_ctx)''
       (False, pubkey)
     (arg_check (pubkey \<noteq> None) ''pubkey != NULL'' (False, pubkey)
     (arg_check (tweak \<noteq> None) ''tweak != NULL'' (False, pubkey)
     (let (term, overflow) = sc_set_b32 sc64_ops (the tweak);
          zero = Some (replicate 64 0)
      in if overflow then ([], (False, zero))
         else api_bind (pubkey_load (the pubkey)) (\<lambda>(ok, p).
                if \<not> ok then ([], (False, zero))
                else
                  let (ok, p) = eckey_tweak (ecmult_ctx ctx) p term
                  in if ok then ([], (True, Some (pubkey_save p))) else ([], (False, zero))))))"

definition ec_pubkey_tweak_add ::
  "secp256k1_context \<Rightarrow> u8 list option \<Rightarrow> u8 list option \<Rightarrow> (bool \<times> u8 list option) api" where
  "ec_pubkey_tweak_add = pubkey_tweak (eckey_pubkey_tweak_add fe52_ops sc64_ops)"

definition ec_pubkey_tweak_mul ::
  "secp256k1_context \<Rightarrow> u8 list option \<Rightarrow> u8 list option \<Rightarrow> (bool \<times> u8 list option) api" where
  "ec_pubkey_tweak_mul = pubkey_tweak (eckey_pubkey_tweak_mul fe52_ops sc64_ops)"

text \<open>
  The sum of keys.  The verdict of \<open>secp256k1_pubkey_load\<close> is not used: an invalid key is reported
  and its coordinates are added all the same.
\<close>

fun combine_loop :: "u8 list list \<Rightarrow> fe52 gej \<Rightarrow> fe52 gej api" where
  "combine_loop [] Qj = ([], Qj)"
| "combine_loop (k # ks) Qj =
     api_bind (pubkey_load k) (\<lambda>(ok, Q). combine_loop ks (gej_add_ge fe52_ops Qj Q))"

definition ec_pubkey_combine ::
  "u8 list option \<Rightarrow> u8 list list option \<Rightarrow> nat \<Rightarrow> (bool \<times> u8 list option) api" where
  "ec_pubkey_combine pubnonce pubnonces n =
     arg_check (pubnonce \<noteq> None) ''pubnonce != NULL'' (False, pubnonce)
     (let pubnonce = Some (replicate 64 0)
      in arg_check (1 \<le> n) ''n >= 1'' (False, pubnonce)
     (arg_check (pubnonces \<noteq> None) ''pubnonces != NULL'' (False, pubnonce)
     (api_bind (combine_loop (take n (the pubnonces)) (gej_set_infinity fe52_ops)) (\<lambda>Qj.
        if gej_is_infinity Qj then ([], (False, pubnonce))
        else ([], (True, Some (pubkey_save (fst (ge_set_gej fe52_ops Qj)))))))))"

end
