(* ===== verification/Secp256k1_Objects.thy ===== *)
theory Secp256k1_Objects
  imports Secp256k1
begin

text \<open>
  What the opaque objects hold: the bytes of a structure copied to memory load back as the
  structure, and the 32-byte big-endian encodings of numbers.
\<close>

section \<open>Limbs in memory\<close>

lemma le64_bytes_length [simp]: "length (le64_bytes w) = 8"
  by (simp add: le64_bytes_def)

lemma le64_load_val:
  assumes "i + 8 \<le> length m"
  shows "unat (le64_load m i) = be_nat (rev (take 8 (drop i m)))"
proof -
  have t: "take 8 (drop i m) = [m ! (i + 0), m ! (i + 1), m ! (i + 2), m ! (i + 3), m ! (i + 4), m ! (i + 5),
      m ! (i + 6), m ! (i + 7)]"
    using assms by (simp add: numeral_eq_Suc take_drop_Suc)
  define r where "r = rev (take 8 (drop i m))"
  have r: "r = [m ! (i + 7), m ! (i + 6), m ! (i + 5), m ! (i + 4), m ! (i + 3), m ! (i + 2), m ! (i + 1), m ! (i + 0)]"
    unfolding r_def t by simp
  have l: "le64_load m i = sc64_load_limb r 0"
    unfolding le64_load_def sc64_load_limb_def r by (simp add: numeral_eq_Suc)
  have "take 8 (drop 0 r) = r" "0 + 8 \<le> length r" unfolding r by simp_all
  then show ?thesis unfolding l r_def [symmetric] using sc64_load_limb_val [of 0 r] by simp
qed

lemma le64_bytes_val: "be_nat (rev (le64_bytes w)) = unat w"
proof -
  define q where "q k = unat w div 2 ^ k" for k
  define r where "r k = q k mod 2 ^ 8" for k
  have d: "q k = r k + 2 ^ 8 * q j" if "j = k + 8" for k j
    unfolding that q_def r_def power_add div_mult2_eq by (rule mod_mult_div_eq [symmetric])
  have b: "unat (ucast (drop_bit k w) :: u8) = unat w div 2 ^ k mod 2 ^ 8" for k
    by (simp add: unat_ucast_mod unat_drop)
  have b0: "unat (ucast w :: u8) = unat w div 2 ^ 0 mod 2 ^ 8"
    by (simp add: unat_ucast_mod)
  have e: "q 0 = r 0 + 2 ^ 8 * q 8" "q 8 = r 8 + 2 ^ 8 * q 16" "q 16 = r 16 + 2 ^ 8 * q 24" "q 24 = r 24 + 2 ^ 8 * q 32"
    "q 32 = r 32 + 2 ^ 8 * q 40" "q 40 = r 40 + 2 ^ 8 * q 48" "q 48 = r 48 + 2 ^ 8 * q 56" "q 56 = r 56 + 2 ^ 8 * q 64"
    by (rule d, simp)+
  have "q 64 = 0" "q 0 = unat w" unfolding q_def using unat_64 [of w] by simp_all
  then show ?thesis
    unfolding le64_bytes_def rev.simps append.simps be_nat.simps b b0 q_def [symmetric] r_def [symmetric] using e by simp
qed

lemma le64_load_bytes: "le64_load (xs @ le64_bytes w @ ys) (length xs) = w"
  by (rule word_eq_of_unat) (simp add: le64_load_val le64_bytes_val)

lemma le64_bytes_load: "i + 8 \<le> length m \<Longrightarrow> le64_bytes (le64_load m i) = take 8 (drop i m)"
proof -
  assume l: "i + 8 \<le> length m"
  have "rev (le64_bytes (le64_load m i)) = rev (take 8 (drop i m))"
    by (rule be_nat_inj) (use l in \<open>simp_all add: le64_bytes_val le64_load_val\<close>)
  then show ?thesis by simp
qed


lemma limbs_length [simp]: "length (fe_storage_bytes f) = 32" "length (scalar_bytes a) = 32"
  by (cases f) (simp_all add: scalar_bytes_def)

lemma scalar_load_bytes: "scalar_load (xs @ scalar_bytes a @ ys) (length xs) = a"
proof -
  obtain a0 a1 a2 a3 where a: "a = Sc64 a0 a1 a2 a3" by (cases a)
  have "le64_load (xs @ scalar_bytes a @ ys) (length xs) = a0"
    "le64_load (xs @ scalar_bytes a @ ys) (length xs + 8) = a1"
    "le64_load (xs @ scalar_bytes a @ ys) (length xs + 16) = a2"
    "le64_load (xs @ scalar_bytes a @ ys) (length xs + 24) = a3"
    using le64_load_bytes [of xs a0] le64_load_bytes [of "xs @ le64_bytes a0" a1]
      le64_load_bytes [of "xs @ le64_bytes a0 @ le64_bytes a1" a2]
      le64_load_bytes [of "xs @ le64_bytes a0 @ le64_bytes a1 @ le64_bytes a2" a3 ys]
    unfolding a scalar_bytes_def by (simp_all add: add.commute)
  then show ?thesis unfolding scalar_load_def a by simp
qed

lemma fe_storage_load_bytes: "fe_storage_load (xs @ fe_storage_bytes f @ ys) (length xs) = f"
proof -
  obtain a0 a1 a2 a3 where a: "f = Fe52_Storage a0 a1 a2 a3" by (cases f)
  have "le64_load (xs @ fe_storage_bytes f @ ys) (length xs) = a0"
    "le64_load (xs @ fe_storage_bytes f @ ys) (length xs + 8) = a1"
    "le64_load (xs @ fe_storage_bytes f @ ys) (length xs + 16) = a2"
    "le64_load (xs @ fe_storage_bytes f @ ys) (length xs + 24) = a3"
    using le64_load_bytes [of xs a0] le64_load_bytes [of "xs @ le64_bytes a0" a1]
      le64_load_bytes [of "xs @ le64_bytes a0 @ le64_bytes a1" a2]
      le64_load_bytes [of "xs @ le64_bytes a0 @ le64_bytes a1 @ le64_bytes a2" a3 ys]
    unfolding a fe_storage_bytes.simps by (simp_all add: add.commute)
  then show ?thesis unfolding fe_storage_load_def a by simp
qed

lemma take_8_split: "take 8 (drop i m) @ take n (drop (i + 8) m) = take (8 + n) (drop i m)"
  by (simp only: take_add drop_drop add.commute [of 8 i])

lemma scalar_bytes_load: "i + 32 \<le> length m \<Longrightarrow> scalar_bytes (scalar_load m i) = take 32 (drop i m)"
  unfolding scalar_bytes_def scalar_load_def
  using take_8_split [of i m 24] take_8_split [of "i + 8" m 16] take_8_split [of "i + 16" m 8]
  by (simp add: le64_bytes_load add.assoc)

section \<open>Signature objects\<close>

lemma signature_load_save [simp]: "ecdsa_signature_load (ecdsa_signature_save r s) = (r, s)"
  using scalar_load_bytes [of "[]" r] scalar_load_bytes [of "scalar_bytes r" s "[]"]
  by (simp add: ecdsa_signature_load_def ecdsa_signature_save_def)

lemma signature_save_load: "length sig = 64 \<Longrightarrow> ecdsa_signature_load sig = (r, s) \<Longrightarrow> ecdsa_signature_save r s = sig"
  by (auto simp: ecdsa_signature_load_def ecdsa_signature_save_def scalar_bytes_load append_take_drop_id
      simp flip: take_add [of 32 32, simplified])

lemma signature_save_length [simp]: "length (ecdsa_signature_save r s) = 64"
  by (simp add: ecdsa_signature_save_def)

section \<open>Numbers as bytes\<close>

lemma nat_be_length [simp]: "length (nat_be n x) = n"
  by (simp add: nat_be_def)

lemma nat_be_Suc: "nat_be (Suc n) x = of_nat (x div 256 ^ n) # nat_be n x"
  by (rule nth_equalityI) (auto simp: nat_be_def nth_Cons' simp del: upt_Suc)

lemma be_nat_nat_be: "be_nat (nat_be n x) = x mod 256 ^ n"
proof (induction n)
  case (Suc n)
  have "x mod 256 ^ Suc n = 256 ^ n * (x div 256 ^ n mod 256) + x mod 256 ^ n"
    unfolding power_Suc2 by (rule mod_mult2_eq)
  then show ?case unfolding nat_be_Suc be_nat.simps Suc.IH by (simp add: unat_of_nat mult.commute)
qed (simp add: nat_be_def)

lemma nat_be_be_nat: "nat_be (length bs) (be_nat bs) = bs"
  by (rule be_nat_inj) (simp_all add: be_nat_nat_be be_nat_less)

lemma nat_be_32: "x < 2 ^ 256 \<Longrightarrow> be_nat (nat_be 32 x) = x"
  by (simp add: be_nat_nat_be)

lemma sc64_get_b32_nat: "sc_get_b32 sc64_ops a = nat_be 32 (sc64_val a)"
  using s64.sget_b32_law [of a] nat_be_32 [OF s64.sval_less [of a]] by (intro be_nat_inj) simp_all

end
