(* ===== verification/Recovery.thy ===== *)
theory Recovery
  imports Secp256k1
begin

text \<open>
  Signatures that carry a recovery id and the recovery of the public key
  (include/secp256k1_recovery.h, modules/recovery/main_impl.h).  The object is 65 bytes: those of a
  signature and the id.
\<close>

section \<open>Definitions\<close>

definition ecdsa_recoverable_signature_load :: "u8 list \<Rightarrow> sc64 \<times> sc64 \<times> int" where
  "ecdsa_recoverable_signature_load sig = (scalar_load sig 0, scalar_load sig 32, int (unat (sig ! 64)))"

definition ecdsa_recoverable_signature_save :: "sc64 \<Rightarrow> sc64 \<Rightarrow> int \<Rightarrow> u8 list" where
  "ecdsa_recoverable_signature_save r s recid = scalar_bytes r @ scalar_bytes s @ [word_of_int recid]"

definition ecdsa_recoverable_signature_parse_compact ::
  "u8 list option \<Rightarrow> u8 list option \<Rightarrow> int \<Rightarrow> (bool \<times> u8 list option) api" where
  "ecdsa_recoverable_signature_parse_compact sig input64 recid =
     arg_check (sig \<noteq> None) ''sig != NULL'' (False, sig)
     (arg_check (input64 \<noteq> None) ''input64 != NULL'' (False, sig)
     (arg_check (0 \<le> recid \<and> recid \<le> 3) ''recid >= 0 && recid <= 3'' (False, sig)
     (let ret = True;
          (r, overflow) = sc_set_b32 sc64_ops (take 32 (the input64));
          ret = (ret \<and> \<not> overflow);
          (s, overflow) = sc_set_b32 sc64_ops (take 32 (drop 32 (the input64)));
          ret = (ret \<and> \<not> overflow)
      in if ret then ([], (ret, Some (ecdsa_recoverable_signature_save r s recid)))
         else ([], (ret, Some (replicate 65 0))))))"

definition ecdsa_recoverable_signature_serialize_compact ::
  "u8 list option \<Rightarrow> int option \<Rightarrow> u8 list option \<Rightarrow> (bool \<times> u8 list option \<times> int option) api" where
  "ecdsa_recoverable_signature_serialize_compact output64 recid sig =
     arg_check (output64 \<noteq> None) ''output64 != NULL'' (False, output64, recid)
     (arg_check (sig \<noteq> None) ''sig != NULL'' (False, output64, recid)
     (arg_check (recid \<noteq> None) ''recid != NULL'' (False, output64, recid)
     (let (r, s, recid) = ecdsa_recoverable_signature_load (the sig)
      in ([], (True, Some (sc_get_b32 sc64_ops r @ sc_get_b32 sc64_ops s), Some recid)))))"

definition ecdsa_recoverable_signature_convert ::
  "u8 list option \<Rightarrow> u8 list option \<Rightarrow> (bool \<times> u8 list option) api" where
  "ecdsa_recoverable_signature_convert sig sigin =
     arg_check (sig \<noteq> None) ''sig != NULL'' (False, sig)
     (arg_check (sigin \<noteq> None) ''sigin != NULL'' (False, sig)
     (let (r, s, recid) = ecdsa_recoverable_signature_load (the sigin)
      in ([], (True, Some (ecdsa_signature_save r s)))))"

text \<open>The verdict and the key; \<open>pubkey\<close> is its old contents.\<close>

definition ecdsa_sig_recover ::
  "('fe, 'st) field_ops \<Rightarrow> 's scalar_ops \<Rightarrow> 'st ecmult_context \<Rightarrow> 's \<Rightarrow> 's \<Rightarrow> 'fe ge \<Rightarrow> 's \<Rightarrow> int \<Rightarrow> bool \<times> 'fe ge" where
  "ecdsa_sig_recover F S ctx sigr sigs pubkey message recid =
     (if sc_is_zero S sigr \<or> sc_is_zero S sigs then (False, pubkey)
      else
        let brx = sc_get_b32 S sigr;
            (r, fx) = fe_set_b32 F brx
        in if recid AND 2 \<noteq> 0 \<and> fe_cmp_var F fx (ecdsa_const_p_minus_order F) \<ge> 0 then (False, pubkey)
           else
             let fx = (if recid AND 2 \<noteq> 0 then fe_add F fx (ecdsa_const_order_as_fe F) else fx);
                 (ok, x) = ge_set_xo_var F fx (recid AND 1 \<noteq> 0)
             in if \<not> ok then (False, pubkey)
                else
                  let xj = gej_set_ge F x;
                      rn = sc_inverse_var S sigr;
                      u1 = sc_mul S rn message;
                      u1 = sc_negate S u1;
                      u2 = sc_mul S rn sigs;
                      qj = ecmult F S ctx xj u2 u1;
                      (pubkey, qj) = ge_set_gej_var F pubkey qj
                  in (\<not> gej_is_infinity qj, pubkey))"

definition ecdsa_sign_recoverable ::
  "secp256k1_context \<Rightarrow> u8 list option \<Rightarrow> u8 list option \<Rightarrow> u8 list option \<Rightarrow> nonce_function option
     \<Rightarrow> u8 list option \<Rightarrow> (bool \<times> u8 list option) api option" where
  "ecdsa_sign_recoverable ctx signature msg32 seckey noncefp noncedata =
     (if \<not> ecmult_gen_context_is_built (ecmult_gen_ctx ctx)
      then Some ([''secp256k1_ecmult_gen_context_is_built(&ctx->ecmult_gen_ctx)''], (False, signature))
      else if msg32 = None then Some ([''msg32 != NULL''], (False, signature))
      else if signature = None then Some ([''signature != NULL''], (False, signature))
      else if seckey = None then Some ([''seckey != NULL''], (False, signature))
      else do {
        res \<leftarrow> sign_core ctx (the msg32) (the seckey) noncefp noncedata;
        (case res of
           Some (r, s, recid) \<Rightarrow> Some ([], (True, Some (ecdsa_recoverable_signature_save r s recid)))
         | None \<Rightarrow> Some ([], (False, Some (replicate 65 0))))
      })"

definition ecdsa_recover ::
  "secp256k1_context \<Rightarrow> u8 list option \<Rightarrow> u8 list option \<Rightarrow> u8 list option \<Rightarrow> (bool \<times> u8 list option) api" where
  "ecdsa_recover ctx pubkey signature msg32 =
     arg_check (ecmult_context_is_built (ecmult_ctx ctx)) ''secp256k1_ecmult_context_is_built(&ctx->ecmult_ctx)''
       (False, pubkey)
     (arg_check (msg32 \<noteq> None) ''msg32 != NULL'' (False, pubkey)
     (arg_check (signature \<noteq> None) ''signature != NULL'' (False, pubkey)
     (arg_check (pubkey \<noteq> None) ''pubkey != NULL'' (False, pubkey)
     (let (r, s, recid) = ecdsa_recoverable_signature_load (the signature);
          m = fst (sc_set_b32 sc64_ops (the msg32));
          (ok, q) = ecdsa_sig_recover fe52_ops sc64_ops (ecmult_ctx ctx) r s (ge_clear fe52_ops) m recid
      in if ok then ([], (True, Some (pubkey_save q)))
         else ([], (False, Some (replicate 64 0)))))))"

end
