(* ===== verification/Ecdh_Ext.thy ===== *)
theory Ecdh_Ext
  imports Recovery Ecmult_Const
begin

text \<open>
  Diffie-Hellman key agreement (modules/ecdh/main_impl.h) and the functions the Go package calls
  (ext.h).
\<close>

section \<open>ECDH\<close>

text \<open>The verdict of \<open>secp256k1_pubkey_load\<close> is not used.\<close>

definition ecdh :: "u8 list option \<Rightarrow> u8 list option \<Rightarrow> u8 list option \<Rightarrow> (bool \<times> u8 list option) api" where
  "ecdh result point scalar =
     arg_check (result \<noteq> None) ''result != NULL'' (False, result)
     (arg_check (point \<noteq> None) ''point != NULL'' (False, result)
     (arg_check (scalar \<noteq> None) ''scalar != NULL'' (False, result)
     (api_bind (pubkey_load (the point)) (\<lambda>(ok, pt).
        let (s, overflow) = sc_set_b32 sc64_ops (the scalar)
        in if overflow \<or> sc_is_zero sc64_ops s then ([], (False, result))
           else
             let res = ecmult_const fe52_ops sc64_ops pt s;
                 pt = fst (ge_set_gej fe52_ops res);
                 pt = pt \<lparr> ge_x := fe_normalize fe52_ops (ge_x pt) \<rparr>;
                 pt = pt \<lparr> ge_y := fe_normalize fe52_ops (ge_y pt) \<rparr>;
                 x = fe_get_b32 fe52_ops (ge_x pt);
                 y = [0x02 OR of_bool (fe_is_odd fe52_ops (ge_y pt))];
                 sha = sha256_initialize hash_buf;
                 sha = sha256_write sha y;
                 sha = sha256_write sha x;
                 (sha, out) = sha256_finalize sha
             in ([], (True, Some out))))))"

section \<open>Functions for the Go package\<close>

definition context_create_sign_verify :: "secp256k1_context \<Rightarrow> secp256k1_context option api option" where
  "context_create_sign_verify mem = context_create mem (context_sign OR context_verify)"

definition ext_ecdsa_recover ::
  "secp256k1_context \<Rightarrow> u8 list option \<Rightarrow> u8 list \<Rightarrow> u8 list \<Rightarrow> (bool \<times> u8 list option) api" where
  "ext_ecdsa_recover ctx pubkey_out sigdata msgdata =
     api_bind (ecdsa_recoverable_signature_parse_compact (Some (replicate 65 0)) (Some sigdata) (int (unat (sigdata ! 64))))
       (\<lambda>(ok, sig).
          if \<not> ok then ([], (False, pubkey_out))
          else api_bind (ecdsa_recover ctx (Some (replicate 64 0)) sig (Some msgdata)) (\<lambda>(ok, pubkey).
                 if \<not> ok then ([], (False, pubkey_out))
                 else api_bind (ec_pubkey_serialize pubkey_out (Some 65) pubkey ec_uncompressed)
                        (\<lambda>(ok, outputlen, pubkey_out). ([], (ok, pubkey_out)))))"

definition ext_ecdsa_verify ::
  "secp256k1_context \<Rightarrow> u8 list \<Rightarrow> u8 list \<Rightarrow> u8 list \<Rightarrow> bool api" where
  "ext_ecdsa_verify ctx sigdata msgdata pubkeydata =
     api_bind (ecdsa_signature_parse_compact (Some (replicate 64 0)) (Some sigdata)) (\<lambda>(ok, sig).
       if \<not> ok then ([], False)
       else api_bind (ec_pubkey_parse (Some (replicate 64 0)) (Some pubkeydata)) (\<lambda>(ok, pubkey).
              if \<not> ok then ([], False)
              else ecdsa_verify ctx sig (Some msgdata) pubkey))"

definition ext_reencode_pubkey ::
  "u8 list option \<Rightarrow> nat \<Rightarrow> u8 list \<Rightarrow> (bool \<times> u8 list option) api" where
  "ext_reencode_pubkey out outlen pubkeydata =
     api_bind (ec_pubkey_parse (Some (replicate 64 0)) (Some pubkeydata)) (\<lambda>(ok, pubkey).
       if \<not> ok then ([], (False, out))
       else
         let flag = (if outlen = 33 then ec_compressed else ec_uncompressed)
         in api_bind (ec_pubkey_serialize out (Some outlen) pubkey flag)
              (\<lambda>(ok, outlen, out). ([], (ok, out))))"

definition ext_scalar_mul :: "u8 list option \<Rightarrow> u8 list option \<Rightarrow> (bool \<times> u8 list option) api" where
  "ext_scalar_mul point scalar =
     arg_check (point \<noteq> None) ''point != NULL'' (False, point)
     (arg_check (scalar \<noteq> None) ''scalar != NULL'' (False, point)
     (let feX = snd (fe_set_b32 fe52_ops (take 32 (the point)));
          feY = snd (fe_set_b32 fe52_ops (take 32 (drop 32 (the point))));
          ge = ge_set_xy feX feY;
          (s, overflow) = sc_set_b32 sc64_ops (the scalar)
      in if overflow \<or> sc_is_zero sc64_ops s then ([], (False, point))
         else
           let res = ecmult_const fe52_ops sc64_ops ge s;
               ge = fst (ge_set_gej fe52_ops res);
               ge = ge \<lparr> ge_x := fe_normalize fe52_ops (ge_x ge) \<rparr>;
               ge = ge \<lparr> ge_y := fe_normalize fe52_ops (ge_y ge) \<rparr>
           in ([], (True, Some (fe_get_b32 fe52_ops (ge_x ge) @ fe_get_b32 fe52_ops (ge_y ge))))))"

end
