(* ===== verification/Secp256k1_Keys.thy ===== *)
theory Secp256k1_Keys
  imports Secp256k1_Objects Recovery Ecdh_Ext
begin

text \<open>
  Public keys through the public functions: what byte string stands for which point, what a key
  object holds, and that parsing and serialising keep the point.
\<close>

section \<open>Points and their encodings\<close>

fun point_bytes :: "bool \<Rightarrow> point \<Rightarrow> u8 list" where
  "point_bytes compressed Infty = []"
| "point_bytes compressed (Pt x y) =
     (if compressed then (if odd (rep_fp y) then 3 else 2) # nat_be 32 (nat (rep_fp x))
      else 4 # nat_be 32 (nat (rep_fp x)) @ nat_be 32 (nat (rep_fp y)))"

fun pubkey_denotes :: "u8 list \<Rightarrow> point \<Rightarrow> bool" where
  "pubkey_denotes (h # bs) (Pt x y) \<longleftrightarrow> on_curve (Pt x y) \<and> x = fp_bytes (take 32 bs) \<and>
     (if length bs = 32 then odd (rep_fp y) = (h = 3) else y = fp_bytes (drop 32 bs))"
| "pubkey_denotes bs P \<longleftrightarrow> False"

lemma pubkey_denotes_unique: "pubkey_denotes bs P \<Longrightarrow> pubkey_denotes bs Q \<Longrightarrow> P = Q"
proof (induction bs P rule: pubkey_denotes.induct)
  case (1 h bs x y)
  from "1"(2) obtain x' y' where q: "Q = Pt x' y'" by (cases Q) simp_all
  show ?case
  proof (cases "length bs = 32")
    case True
    then have "x = x'" "odd (rep_fp y) = odd (rep_fp y')" "on_curve (Pt x y)" "on_curve (Pt x' y')"
      using 1 q by simp_all
    then show ?thesis using f52.same_parity_point [of x y y'] q by simp
  qed (use 1 q in simp)
qed simp_all

lemma pubkey_denotes_curve: "pubkey_denotes bs P \<Longrightarrow> on_curve P \<and> P \<noteq> Infty"
  by (induction bs P rule: pubkey_denotes.induct) simp_all

lemma nat_be_rep: "length bs = 32 \<Longrightarrow> int (be_nat bs) = rep_fp x \<Longrightarrow> nat_be 32 (nat (rep_fp x)) = bs"
  using nat_be_be_nat [of bs] by (metis nat_int)

lemma rep_fp_be: "int (be_nat (nat_be 32 (nat (rep_fp x)))) = rep_fp x"
proof -
  have "nat (rep_fp x) < 2 ^ 256" using rep_fp_range [of x] by (simp add: field_prime_def nat_less_iff)
  then show ?thesis using rep_fp_range(1) [of x] by (simp add: nat_be_32)
qed

lemma fp_bytes_be: "fp_bytes (nat_be 32 (nat (rep_fp x))) = x"
  by (rule f52.fp_bytes_of_rep) (rule rep_fp_be)

lemma point_bytes_denote: "on_curve P \<Longrightarrow> P \<noteq> Infty \<Longrightarrow> pubkey_denotes (point_bytes c P) P"
  by (cases P) (simp_all add: fp_bytes_be)

lemma point_bytes_accepted: "on_curve P \<Longrightarrow> P \<noteq> Infty \<Longrightarrow> pubkey_accepted (point_bytes c P)"
  using f52.rep_fp_less_prime [OF rep_fp_be] rep_fp_be
  by (cases P) (auto simp: fp_bytes_be Let_def)

lemma point_bytes_length: "P \<noteq> Infty \<Longrightarrow> length (point_bytes c P) = (if c then 33 else 65)"
  by (cases P) simp_all

section \<open>Key objects\<close>

text \<open>The object holds the point: loading it succeeds with normalized coordinates of the point.\<close>

definition key_object :: "u8 list \<Rightarrow> point \<Rightarrow> bool" where
  "key_object obj P \<longleftrightarrow> length obj = 64 \<and> P \<noteq> Infty \<and>
     (\<exists>q. pubkey_load obj = ([], (True, q)) \<and> fe52_nrm (ge_x q) \<and> fe52_nrm (ge_y q) \<and> \<not> ge_infinity q
        \<and> ge52_wf q \<and> ge52_pt q = P)"

lemma key_objectE:
  assumes "key_object obj P"
  obtains q where "pubkey_load obj = ([], (True, q))" "fe52_nrm (ge_x q)" "fe52_nrm (ge_y q)" "\<not> ge_infinity q"
    "ge52_wf q" "ge52_pt q = P" "length obj = 64" "on_curve P" "P \<noteq> Infty"
proof -
  from assms obtain q where q: "pubkey_load obj = ([], (True, q))" "fe52_nrm (ge_x q)" "fe52_nrm (ge_y q)"
    "\<not> ge_infinity q" "ge52_wf q" "ge52_pt q = P" "length obj = 64" "P \<noteq> Infty"
    unfolding key_object_def by blast
  moreover have "on_curve P" using q(4-6) by (auto simp: ge_wf_def ge_pt_def)
  ultimately show thesis using that by blast
qed

lemma key_object_unique: "key_object obj P \<Longrightarrow> key_object obj Q \<Longrightarrow> P = Q"
  unfolding key_object_def by auto

lemma pubkey_load_save:
  assumes "ge52_wf q" "\<not> ge_infinity q"
  shows "key_object (pubkey_save q) (ge52_pt q)"
proof -
  have m: "fe52_mag 8 (ge_x q)" "fe52_mag 8 (ge_y q)" "on_curve (Pt (fe52_fval (ge_x q)) (fe52_fval (ge_y q)))"
    using assms unfolding ge_wf_def by blast+
  define s where "s = ge_to_storage fe52_ops q"
  define q' where "q' = ge_from_storage fe52_ops s"
  have r: "ge52_pt q' = ge52_pt q" "fe52_nrm (ge_x q')" "fe52_nrm (ge_y q')"
    using f52.ge_storage_roundtrip [OF m(1,2) assms(2)] unfolding q'_def s_def by simp_all
  have i: "\<not> ge_infinity q'" unfolding q'_def by (simp add: ge_from_storage_def)
  have v: "fe52_fval (ge_x q') = fe52_fval (ge_x q)" "fe52_fval (ge_y q') = fe52_fval (ge_y q)"
    using r(1) i assms(2) by (simp_all add: ge_pt_def)
  have "fe52_mag 8 (ge_x q')" "fe52_mag 8 (ge_y q')"
    using f52.mag_mono [OF f52.nrm_mag [OF r(2)], of 8] f52.mag_mono [OF f52.nrm_mag [OF r(3)], of 8] by simp_all
  then have w: "ge52_wf q'" using m(3) unfolding ge_wf_def v by blast
  have "\<not> fe_is_zero fe52_ops (ge_x q')"
    using f52.is_zero_law [OF r(2)] on_curve_x_ne_0 [OF m(3)] v(1) by simp
  moreover have l: "fe_storage_load (pubkey_save q) 0 = ges_x s" "fe_storage_load (pubkey_save q) 32 = ges_y s"
    using fe_storage_load_bytes [of "[]" "ges_x s"] fe_storage_load_bytes [of "fe_storage_bytes (ges_x s)" "ges_y s" "[]"]
    by (simp_all add: pubkey_save_def s_def Let_def)
  moreover have e: "ge_from_storage fe52_ops \<lparr> ges_x = ges_x s, ges_y = ges_y s \<rparr> = q'" unfolding q'_def by (cases s) simp
  ultimately have "pubkey_load (pubkey_save q) = ([], (True, q'))"
    unfolding pubkey_load_def Let_def l e arg_check_def by simp
  moreover have "length (pubkey_save q) = 64" by (simp add: pubkey_save_def Let_def)
  moreover have "ge52_pt q \<noteq> Infty" using assms(2) by (simp add: ge_pt_def)
  ultimately show ?thesis unfolding key_object_def using r i w by blast
qed


section \<open>Parsing and serialising\<close>

lemma pubkey_shape:
  obtains (compressed) h bs where "pub = h # bs" "length bs = 32" "h = 2 \<or> h = 3"
  | (full) h bs cs where "pub = h # bs @ cs" "length bs = 32" "length cs = 32" "h = 4 \<or> h = 6 \<or> h = 7"
  | (other) "\<not> (length pub = 33 \<and> (pub ! 0 = 2 \<or> pub ! 0 = 3))"
      "\<not> (length pub = 65 \<and> (pub ! 0 = 4 \<or> pub ! 0 = 6 \<or> pub ! 0 = 7))"
proof -
  consider "length pub = 33 \<and> (pub ! 0 = 2 \<or> pub ! 0 = 3)" | "length pub = 65 \<and> (pub ! 0 = 4 \<or> pub ! 0 = 6 \<or> pub ! 0 = 7)"
    | "\<not> (length pub = 33 \<and> (pub ! 0 = 2 \<or> pub ! 0 = 3))" "\<not> (length pub = 65 \<and> (pub ! 0 = 4 \<or> pub ! 0 = 6 \<or> pub ! 0 = 7))"
    by blast
  then show thesis
  proof cases
    case 1
    then show ?thesis by (cases pub) (auto intro: compressed)
  next
    case 2
    then obtain h bs where b: "pub = h # bs" by (cases pub) simp_all
    have "pub = h # take 32 bs @ drop 32 bs" unfolding b by simp
    then show ?thesis by (rule full) (use 2 b in auto)
  qed (rule other)
qed

lemma eckey_parse_law:
  assumes r: "eckey_pubkey_parse fe52_ops elem pub = (ok, q)"
  shows "ok = pubkey_accepted pub"
    and "ok \<Longrightarrow> ge52_wf q \<and> \<not> ge_infinity q \<and> pubkey_denotes pub (ge52_pt q)"
proof -
  have cv: "on_curve (ge52_pt q)" if "ge52_wf q" "\<not> ge_infinity q"
    using that by (auto simp: ge_wf_def ge_pt_def)
  have "ok = pubkey_accepted pub \<and> (ok \<longrightarrow> ge52_wf q \<and> \<not> ge_infinity q \<and> pubkey_denotes pub (ge52_pt q))"
  proof (cases rule: pubkey_shape [of pub])
    case (compressed h bs)
    note l = f52.pubkey_parse_compressed [OF compressed r]
    show ?thesis using l(1) l(2) cv compressed by (auto simp del: pubkey_accepted.simps)
  next
    case (full h bs cs)
    note l = f52.pubkey_parse_full [OF full r]
    show ?thesis using l(1) l(2) cv full by (auto simp del: pubkey_accepted.simps)
  next
    case other
    note l = f52.pubkey_parse_other(1) [OF other, of elem] f52.pubkey_parse_other(2) [OF other]
    show ?thesis using l r by (simp del: pubkey_accepted.simps)
  qed
  then show "ok = pubkey_accepted pub"
    "ok \<Longrightarrow> ge52_wf q \<and> \<not> ge_infinity q \<and> pubkey_denotes pub (ge52_pt q)" by blast+
qed

lemma ec_pubkey_parse_law:
  "\<exists>obj. ec_pubkey_parse (Some old) (Some pub) = ([], (pubkey_accepted pub, Some obj)) \<and>
     (if pubkey_accepted pub then \<exists>P. pubkey_denotes pub P \<and> key_object obj P else obj = replicate 64 0)"
proof -
  obtain ok q where r: "eckey_pubkey_parse fe52_ops (ge_clear fe52_ops) pub = (ok, q)" by (rule prod.exhaust)
  note l = eckey_parse_law [OF r]
  show ?thesis
  proof (cases ok)
    case True
    then show ?thesis using l pubkey_load_save [of q] r
      by (auto simp: ec_pubkey_parse_def arg_check_def simp del: pubkey_accepted.simps)
  next
    case False
    then show ?thesis using l r by (simp add: ec_pubkey_parse_def arg_check_def)
  qed
qed

lemma eckey_serialize_law:
  assumes "ge52_wf q" "\<not> ge_infinity q"
  shows "eckey_pubkey_serialize fe52_ops q c = Some (point_bytes c (ge52_pt q))"
proof -
  obtain x y where pt: "ge52_pt q = Pt x y" using assms(2) by (simp add: ge_pt_def)
  from f52.pubkey_serialize_law [OF assms pt, of c] show ?thesis
    unfolding pt by (auto simp: nat_be_rep)
qed

lemma flags_bits:
  "(if c then ec_compressed else ec_uncompressed) AND flags_bit_compression \<noteq> 0 \<longleftrightarrow> c"
  "(if c then ec_compressed else ec_uncompressed) AND flags_type_mask = flags_type_compression"
  by simp_all

lemma ec_pubkey_serialize_law:
  assumes k: "key_object obj P" and n: "(if c then 33 else 65) \<le> n"
  shows "ec_pubkey_serialize (Some out) (Some n) (Some obj) (if c then ec_compressed else ec_uncompressed) =
    ([], (True, Some (length (point_bytes c P)),
      Some (point_bytes c P @ replicate (n - length (point_bytes c P)) 0 @ drop n out)))"
proof -
  from k obtain q where q: "pubkey_load obj = ([], (True, q))" "ge52_wf q" "\<not> ge_infinity q" "ge52_pt q = P" "P \<noteq> Infty"
    by (rule key_objectE) blast
  have s: "eckey_pubkey_serialize fe52_ops q c = Some (point_bytes c P)"
    using eckey_serialize_law [OF q(2,3), of c] q(4) by simp
  have l: "length (point_bytes c P) \<le> n" using point_bytes_length [OF q(5)] n by simp
  show ?thesis
    unfolding ec_pubkey_serialize_def Let_def flags_bits option.sel arg_check_def
    using n l by (simp add: api_bind_def q(1) s)
qed

lemma reencode_law:
  assumes n: "n = 33 \<or> n = 65" and o: "length out = n" and a: "pubkey_accepted pub" "pubkey_denotes pub P"
  shows "ext_reencode_pubkey (Some out) n pub = ([], (True, Some (point_bytes (n = 33) P)))"
proof -
  obtain obj where obj: "ec_pubkey_parse (Some (replicate 64 0)) (Some pub) = ([], (True, Some obj))" "key_object obj P"
    using ec_pubkey_parse_law [of "replicate 64 0" pub, unfolded eqTrueI [OF a(1)] if_True]
      pubkey_denotes_unique [OF a(2)] by blast
  have "P \<noteq> Infty" using obj(2) by (simp add: key_object_def)
  then have l: "length (point_bytes (n = 33) P) = n" using n point_bytes_length [of P "n = 33"] by auto
  have "(if n = 33 then 33 else 65) \<le> n" using n by auto
  note s = ec_pubkey_serialize_law [OF obj(2) this, of out]
  have d: "replicate (n - length (point_bytes (n = 33) P)) 0 @ drop n out = []" unfolding l using o by simp
  show ?thesis
    unfolding ext_reencode_pubkey_def obj(1) api_bind_def Let_def prod.case s unfolding d by simp
qed


section \<open>Secret keys\<close>

lemma seckey_verify_law:
  "length k = 32 \<Longrightarrow> ec_seckey_verify (Some k) = ([], 0 < be_nat k \<and> be_nat k < group_order)"
proof -
  assume l: "length k = 32"
  obtain r ov where r: "sc_set_b32 sc64_ops k = (r, ov)" by (rule prod.exhaust)
  note v = s64.sset_b32_law [OF l r]
  show ?thesis
    using v s64.sis_zero_law [of r] by (auto simp: ec_seckey_verify_def arg_check_def r [simplified])
qed

lemma privkey_tweak_law:
  assumes l: "length k = 32" "length t = 32"
    and law: "\<And>sec tw ok sec'. sc64_val sec < group_order \<Longrightarrow> sc64_val tw < group_order \<Longrightarrow> f sec tw = (ok, sec') \<Longrightarrow>
      ok = (P (sc64_val sec) (sc64_val tw)) \<and> sc64_val sec' = g (sc64_val sec) (sc64_val tw)"
  defines "ok \<equiv> be_nat t < group_order \<and> P (be_nat k mod group_order) (be_nat t)"
  shows "privkey_tweak f (Some k) (Some t) =
    ([], (ok, Some (if ok then nat_be 32 (g (be_nat k mod group_order) (be_nat t)) else replicate 32 0)))"
proof -
  obtain r ov where r: "sc_set_b32 sc64_ops k = (r, ov)" by (rule prod.exhaust)
  obtain tw ovt where t: "sc_set_b32 sc64_ops t = (tw, ovt)" by (rule prod.exhaust)
  obtain b sec' where f: "f r tw = (b, sec')" by (rule prod.exhaust)
  note v = s64.sset_b32_law [OF l(1) r] s64.sset_b32_law [OF l(2) t]
  have lt: "sc64_val r < group_order" "sc64_val tw < group_order" using v by simp_all
  note e = law [OF lt f]
  show ?thesis
  proof (cases ovt)
    case True
    then show ?thesis using v by (simp add: privkey_tweak_def arg_check_def r [simplified] t [simplified] ok_def)
  next
    case False
    then have "sc64_val tw = be_nat t" "be_nat t < group_order" using v by simp_all
    then show ?thesis using False v e sc64_get_b32_nat [of sec', simplified]
      by (simp add: privkey_tweak_def arg_check_def r [simplified] t [simplified] f ok_def)
  qed
qed

lemma privkey_tweak_add_law:
  assumes "length k = 32" "length t = 32"
    and "x = (be_nat k + be_nat t) mod group_order" and "ok = (be_nat t < group_order \<and> x \<noteq> 0)"
  shows "ec_privkey_tweak_add (Some k) (Some t) = ([], (ok, Some (if ok then nat_be 32 x else replicate 32 0)))"
proof -
  have f: "ok = ((sc64_val sec + sc64_val tw) mod group_order \<noteq> 0) \<and> sc64_val sec' = (sc64_val sec + sc64_val tw) mod group_order"
    if "sc64_val sec < group_order" "sc64_val tw < group_order" "eckey_privkey_tweak_add sc64_ops sec tw = (ok, sec')"
    for sec tw ok sec'
  proof -
    obtain r ov where r: "sc_add sc64_ops sec tw = (r, ov)" by (rule prod.exhaust)
    show ?thesis using s64.sadd_law [OF that(1,2) r] s64.sis_zero_law [of r] that(3)
      by (auto simp: eckey_privkey_tweak_add_def r [simplified])
  qed
  show ?thesis unfolding ec_privkey_tweak_add_def
    using privkey_tweak_law [of k t _ "\<lambda>a b. (a + b) mod group_order \<noteq> 0" "\<lambda>a b. (a + b) mod group_order", OF assms(1,2) f] assms(3,4)
    by (simp add: mod_simps)
qed

lemma privkey_tweak_mul_law:
  assumes "length k = 32" "length t = 32"
    and "x = be_nat k * be_nat t mod group_order" and "ok = (be_nat t < group_order \<and> be_nat t \<noteq> 0)"
  shows "ec_privkey_tweak_mul (Some k) (Some t) = ([], (ok, Some (if ok then nat_be 32 x else replicate 32 0)))"
proof -
  have f: "ok = (sc64_val tw \<noteq> 0) \<and> sc64_val sec' = (if sc64_val tw = 0 then sc64_val sec else sc64_val sec * sc64_val tw mod group_order)"
    if "sc64_val sec < group_order" "sc64_val tw < group_order" "eckey_privkey_tweak_mul sc64_ops sec tw = (ok, sec')"
    for sec tw ok sec'
    using s64.smul_law [of sec tw] s64.sis_zero_law [of tw] that(3)
    by (auto simp: eckey_privkey_tweak_mul_def split: if_splits)
  show ?thesis unfolding ec_privkey_tweak_mul_def
    using privkey_tweak_law [of k t _ "\<lambda>a b. b \<noteq> 0" "\<lambda>a b. if b = 0 then a else a * b mod group_order", OF assms(1,2) f] assms(3,4)
    by (simp add: mod_simps)
qed

section \<open>Signature objects\<close>

lemma signature_parse_compact_law:
  assumes l: "length bs = 64" and rs: "r = be_nat (take 32 bs)" "s = be_nat (drop 32 bs)"
  shows "\<exists>obj. ecdsa_signature_parse_compact (Some old) (Some bs) = ([], (r < group_order \<and> s < group_order, Some obj)) \<and>
    (if r < group_order \<and> s < group_order
     then (\<exists>a b. obj = ecdsa_signature_save a b \<and> sc64_val a = r \<and> sc64_val b = s) else obj = replicate 64 0)"
proof -
  obtain a ova where a: "sc_set_b32 sc64_ops (take 32 bs) = (a, ova)" by (rule prod.exhaust)
  obtain b ovb where b: "sc_set_b32 sc64_ops (drop 32 bs) = (b, ovb)" by (rule prod.exhaust)
  have l': "length (take 32 bs) = 32" "length (drop 32 bs) = 32" using l by simp_all
  note v = s64.sset_b32_law [OF l'(1) a] s64.sset_b32_law [OF l'(2) b]
  have d: "take 32 (drop 32 bs) = drop 32 bs" using l by simp
  show ?thesis
    using v rs by (auto simp: ecdsa_signature_parse_compact_def arg_check_def a [simplified] b [simplified] d; blast)
qed

lemma signature_serialize_compact_law:
  "ecdsa_signature_serialize_compact (Some out) (Some (ecdsa_signature_save a b)) =
     ([], (True, Some (nat_be 32 (sc64_val a) @ nat_be 32 (sc64_val b))))"
  using sc64_get_b32_nat [of a] sc64_get_b32_nat [of b]
  by (simp add: ecdsa_signature_serialize_compact_def arg_check_def)

lemma signature_normalize_law:
  assumes "ecdsa_signature_load sig = (r, s)" "sc64_val s < group_order"
  shows "\<exists>s'. ecdsa_signature_normalize (Some old) (Some sig) =
      ([], (group_order div 2 < sc64_val s, Some (ecdsa_signature_save r s')))
    \<and> sc64_val s' = min (sc64_val s) (group_order - sc64_val s)"
proof -
  have "sc64_val (sc_negate sc64_ops s) = group_order - sc64_val s" if "group_order div 2 < sc64_val s"
    using s64.snegate_law [OF assms(2)] that by simp
  then show ?thesis
    using assms s64.sis_high_law [of s]
    by (intro exI [of _ "if sc_is_high sc64_ops s then sc_negate sc64_ops s else s"])
      (auto simp: ecdsa_signature_normalize_def arg_check_def min_def)
qed

end
