(* ===== verification/Group_Scaled.thy ===== *)
theory Group_Scaled
  imports Group_Convert
begin

text \<open>
  Points on an isomorphic curve.  The multiplication functions work with coordinates in which all z
  coordinates are divided by a common factor \<open>S\<close> (they call it working on an isomorphic curve): the
  formulas of group_impl.h do not mention the constant 7 of the curve, so they are the same there.
  \<open>gej_at S a P\<close> says that \<open>a\<close> stands for \<open>P\<close> when its z coordinate is multiplied by \<open>S\<close>, and
  \<open>ge_at S b P\<close> the same for an affine \<open>b\<close>, whose z coordinate is then \<open>S\<close> itself.
\<close>

definition gej_at :: "(nat \<Rightarrow> 'fe \<Rightarrow> bool) \<Rightarrow> ('fe \<Rightarrow> fp) \<Rightarrow> fp \<Rightarrow> 'fe gej \<Rightarrow> point \<Rightarrow> bool" where
  "gej_at mag fval S a P \<longleftrightarrow> on_curve P \<and>
     (if gej_infinity a then P = Infty
      else mag 8 (gej_x a) \<and> mag 8 (gej_y a) \<and> mag 8 (gej_z a) \<and> fval (gej_z a) \<noteq> 0 \<and>
           P = jac (fval (gej_x a)) (fval (gej_y a)) (fval (gej_z a) * S))"

definition ge_at :: "(nat \<Rightarrow> 'fe \<Rightarrow> bool) \<Rightarrow> ('fe \<Rightarrow> fp) \<Rightarrow> fp \<Rightarrow> 'fe ge \<Rightarrow> point \<Rightarrow> bool" where
  "ge_at mag fval S b P \<longleftrightarrow> on_curve P \<and> \<not> ge_infinity b \<and> mag 8 (ge_x b) \<and> mag 8 (ge_y b) \<and>
     P = jac (fval (ge_x b)) (fval (ge_y b)) S"

context field_impl
begin

lemma gej_at_one: "gej_at mag fval 1 a P \<longleftrightarrow> gej_wf mag fval a \<and> gej_pt fval a = P"
  by (auto simp: gej_at_def gej_wf_def gej_pt_def)

lemma ge_at_one: "ge_at mag fval 1 b P \<longleftrightarrow> ge_wf mag fval b \<and> \<not> ge_infinity b \<and> ge_pt fval b = P"
  by (auto simp: ge_at_def ge_wf_def ge_pt_def jac_one)

lemma gej_atI:
  assumes "rep m X (gej_x a)" "rep k Y (gej_y a)" "rep j Z (gej_z a)" "m \<le> 8" "k \<le> 8" "j \<le> 8" "Z \<noteq> 0"
    "\<not> gej_infinity a" "jac X Y (Z * S) = P" "on_curve P"
  shows "gej_at mag fval S a P"
  using assms mag_mono [of m _ 8] mag_mono [of k _ 8] mag_mono [of j _ 8]
  by (auto simp: gej_at_def rep_def)

lemma gej_atE:
  assumes "gej_at mag fval S a P" "\<not> gej_infinity a" "S \<noteq> 0"
  obtains X Y Z x y where "rep 8 X (gej_x a)" "rep 8 Y (gej_y a)" "rep 8 Z (gej_z a)" "Z \<noteq> 0" "Y \<noteq> 0"
    "P = jac X Y (Z * S)" "P = Pt x y" "on_curve (Pt x y)" "X = x * (Z * S) ^ 2" "Y = y * (Z * S) ^ 3"
proof -
  let ?X = "fval (gej_x a)" and ?Y = "fval (gej_y a)" and ?Z = "fval (gej_z a)"
  have w: "mag 8 (gej_x a)" "mag 8 (gej_y a)" "mag 8 (gej_z a)" "?Z \<noteq> 0" "P = jac ?X ?Y (?Z * S)" "on_curve P"
    using assms by (auto simp: gej_at_def)
  have "?Z * S \<noteq> 0" using w(4) assms(3) by simp
  then obtain x y where xy: "?X = x * (?Z * S) ^ 2" "?Y = y * (?Z * S) ^ 3" "jac ?X ?Y (?Z * S) = Pt x y"
    by (rule jac_cases)
  have p: "P = Pt x y" using w(5) xy(3) by simp
  have c: "on_curve (Pt x y)" using w(6) p by simp
  have "y \<noteq> 0" using c by (rule on_curve_y_ne_0)
  then have "?Y \<noteq> 0" using xy(2) \<open>?Z * S \<noteq> 0\<close> by simp
  with w xy p c show ?thesis by (intro that [of ?X ?Y ?Z x y]) (simp_all add: rep_def)
qed

lemma ge_atE:
  assumes "ge_at mag fval S b P" "S \<noteq> 0"
  obtains x y where "rep 8 (x * S ^ 2) (ge_x b)" "rep 8 (y * S ^ 3) (ge_y b)" "P = Pt x y" "on_curve (Pt x y)"
proof -
  obtain x y where xy: "fval (ge_x b) = x * S ^ 2" "fval (ge_y b) = y * S ^ 3"
      "jac (fval (ge_x b)) (fval (ge_y b)) S = Pt x y"
    using assms(2) by (rule jac_cases)
  show ?thesis using assms(1) xy by (intro that [of x y]) (auto simp: ge_at_def rep_def)
qed

lemma gej_at_infinity: "gej_infinity a \<Longrightarrow> gej_at mag fval S a P \<longleftrightarrow> P = Infty"
  by (auto simp: gej_at_def)

section \<open>Doubling and addition\<close>

lemma double_at:
  assumes a: "gej_at mag fval S a P" and S: "S \<noteq> 0" and r: "gej_double_var F r a f = (r', rz)"
  shows "gej_at mag fval S r' (pt_add P P)"
proof (cases "gej_infinity a")
  case True
  then have "P = Infty" "gej_infinity r'" using a r by (auto simp: gej_at_def gej_double_var_def Let_def)
  then show ?thesis by (simp add: gej_at_infinity)
next
  case False
  obtain X Y Z x y where x: "rep 8 X (gej_x a)" "rep 8 Y (gej_y a)" "rep 8 Z (gej_z a)" "Z \<noteq> 0" "Y \<noteq> 0"
    and p: "P = jac X Y (Z * S)" "P = Pt x y" "on_curve (Pt x y)"
    using a False S by (rule gej_atE)
  note d = double_rep [OF x(1-3) False r]
  have n: "Z * S \<noteq> 0" "2 * (Z * Y) \<noteq> 0" using x(4,5) S by simp_all
  have "jac (9 * X ^ 4 - 8 * X * Y ^ 2) (3 * X ^ 2 * (12 * X * Y ^ 2 - 9 * X ^ 4) - 8 * Y ^ 4) (2 * (Z * Y) * S) = pt_add P P"
    using jac_double [OF n(1) x(5), of X] unfolding p(1) by (simp only: mult.assoc mult.commute [of S Y])
  moreover have "on_curve (pt_add P P)" using p(3) unfolding p(2) by (intro on_curve_pt_add)
  ultimately show ?thesis using d n(2) by (intro gej_atI [OF d(1-3)]) simp_all
qed

lemma add_affine_at:
  assumes a: "gej_at mag fval S a P" "\<not> gej_infinity a" and S: "S \<noteq> 0" and c: "on_curve (Pt x' y')"
    and Z: "rep 8 Z (gej_z a)"
    and v: "rep 1 (x' * (Z * S) ^ 2) u2" "rep 1 (y' * (Z * S) ^ 3) v2"
    and h: "h = fe_add F (fe_negate F (fe_normalize_weak F (gej_x a)) 1) u2"
    and i: "i = fe_add F (fe_negate F (fe_normalize_weak F (gej_y a)) 1) v2"
    and g: "gej_add_xy F (fe_normalize_weak F (gej_x a)) (fe_normalize_weak F (gej_y a)) h i = (gx, gy)"
    and r': "r' = (if fe_normalizes_to_zero_var F h then
        if fe_normalizes_to_zero_var F i then fst (gej_double_var F (r \<lparr> gej_infinity := False \<rparr>) a f)
        else r \<lparr> gej_infinity := True \<rparr>
      else r \<lparr> gej_infinity := False, gej_x := gx, gej_y := gy, gej_z := fe_mul F (gej_z a) h \<rparr>)"
  shows "gej_at mag fval S r' (pt_add P (Pt x' y'))"
    and "P \<noteq> Pt x' y' \<Longrightarrow> P \<noteq> Pt x' (- y') \<Longrightarrow> \<not> fe_normalizes_to_zero_var F h \<and> mag 8 h
      \<and> fval (fe_mul F (gej_z a) h) = Z * fval h \<and> fval h \<noteq> 0"
proof -
  obtain X1 Y1 Z1 x y where x1: "rep 8 X1 (gej_x a)" "rep 8 Y1 (gej_y a)" "rep 8 Z1 (gej_z a)" and nz: "Z1 \<noteq> 0"
    and xy: "P = Pt x y" "on_curve (Pt x y)" "X1 = x * (Z1 * S) ^ 2" "Y1 = y * (Z1 * S) ^ 3"
    using a S by (rule gej_atE)
  have ZZ: "Z1 = Z" using x1(3) Z by (simp add: rep_def)
  have W: "Z * S \<noteq> 0" using nz ZZ S by simp
  have u: "rep 1 (x * (Z * S) ^ 2) (fe_normalize_weak F (gej_x a))" "rep 1 (y * (Z * S) ^ 3) (fe_normalize_weak F (gej_y a))"
    unfolding ZZ [symmetric] xy(3,4) [symmetric] by ((rule rep_weaken, (rule rep_rules x1 | (simp; fail))+)[1])+
  note core = add_core [OF W xy(2) c u(1) v(1) u(2) v(2) h i]
  have cc: "on_curve (pt_add (Pt x y) (Pt x' y'))" by (rule on_curve_pt_add [OF xy(2) c])
  have hr: "rep 3 (x' * (Z * S) ^ 2 - x * (Z * S) ^ 2) h"
    unfolding h by (rule rep_weaken, (rule rep_rules u v | (simp; fail))+)
  have z: "rep 1 (Z * fval h) (fe_mul F (gej_z a) h)"
    by (rule rep_weaken, (rule rep_rules Z rep_self [OF rep_mag [OF hr]] | (simp; fail))+)
  show "gej_at mag fval S r' (pt_add P (Pt x' y'))"
  proof (cases "fe_normalizes_to_zero_var F h")
    case True
    note hz = True
    show ?thesis
    proof (cases "fe_normalizes_to_zero_var F i")
      case True
      obtain rd rz where dv: "gej_double_var F (r \<lparr> gej_infinity := False \<rparr>) a f = (rd, rz)" by (rule prod.exhaust)
      have "r' = rd" using r' hz True dv by simp
      with double_at [OF a(1) S dv] core(1) [OF hz True] show ?thesis by (simp add: xy(1))
    next
      case False
      then have "gej_infinity r'" using r' hz by simp
      then show ?thesis using core(2) [OF hz False] by (simp add: gej_at_infinity xy(1))
    qed
  next
    case False
    obtain X Y H where e: "rep 5 X gx" "rep 3 Y gy" "rep 3 H h" "H \<noteq> 0" "jac X Y (Z * S * H) = pt_add (Pt x y) (Pt x' y')"
      using core(3) [OF False] g by auto
    have H: "fval h = H" using e(3) by (rule rep_fval)
    have r'': "r' = r \<lparr> gej_infinity := False, gej_x := gx, gej_y := gy, gej_z := fe_mul F (gej_z a) h \<rparr>"
      using r' False by simp
    show ?thesis unfolding xy(1)
    proof (rule gej_atI)
      show "rep 5 X (gej_x r')" "rep 3 Y (gej_y r')" "rep 1 (Z * H) (gej_z r')"
        using e z unfolding r'' H by simp_all
      show "jac X Y (Z * H * S) = pt_add (Pt x y) (Pt x' y')" using e(5) by (simp only: mult_ac)
    qed (use e(4) W cc in \<open>simp_all add: r''\<close>)
  qed
  assume "P \<noteq> Pt x' y'" "P \<noteq> Pt x' (- y')"
  then have "x \<noteq> x'" using same_x_on_curve [of x y y'] xy(1,2) c by auto
  then have ne: "x' * (Z * S) ^ 2 - x * (Z * S) ^ 2 \<noteq> 0" using W by auto
  have "\<not> fe_normalizes_to_zero_var F h" using rep_zero_var [OF hr] ne by simp
  moreover have "mag 8 h" using rep_mag [OF hr] mag_mono [of 3 h 8] by simp
  ultimately show "\<not> fe_normalizes_to_zero_var F h \<and> mag 8 h \<and> fval (fe_mul F (gej_z a) h) = Z * fval h \<and> fval h \<noteq> 0"
    using rep_fval [OF z] rep_fval [OF hr] ne by simp
qed

lemma add_ge_at:
  assumes a: "gej_at mag fval S a P" and b: "ge_at mag fval S b Q" and S: "S \<noteq> 0"
    and r: "gej_add_ge_var F r a b f = (r', rz)"
  shows "gej_at mag fval S r' (pt_add P Q)"
    and "\<lbrakk>f; P \<noteq> Infty; P \<noteq> Q; P \<noteq> pt_neg Q\<rbrakk> \<Longrightarrow> \<exists>z. rz = Some z \<and> mag 8 z \<and> fval z \<noteq> 0 \<and> \<not> gej_infinity r'
      \<and> fval (gej_z r') = fval (gej_z a) * fval z"
proof (atomize (full), cases "gej_infinity a")
  case True
  obtain x y where b': "rep 8 (x * S ^ 2) (ge_x b)" "rep 8 (y * S ^ 3) (ge_y b)" "Q = Pt x y" "on_curve (Pt x y)"
    using b S by (rule ge_atE)
  have o: "rep 1 1 (fe_set_int F 1)" using rep_set_int [of 1] by simp
  have "r' = gej_set_ge F b" "P = Infty" using r a True by (auto simp: gej_add_ge_var_def gej_at_def)
  moreover have "gej_at mag fval S (gej_set_ge F b) Q"
  proof (rule gej_atI)
    show "rep 8 (x * S ^ 2) (gej_x (gej_set_ge F b))" "rep 8 (y * S ^ 3) (gej_y (gej_set_ge F b))" "rep 1 1 (gej_z (gej_set_ge F b))"
      using b' o by (simp_all add: gej_set_ge_def)
    show "jac (x * S ^ 2) (y * S ^ 3) (1 * S) = Q" using S b'(3) by (simp add: jac_def)
  qed (use b b' in \<open>simp_all add: gej_set_ge_def ge_at_def\<close>)
  ultimately show "gej_at mag fval S r' (pt_add P Q) \<and> (f \<longrightarrow> P \<noteq> Infty \<longrightarrow> P \<noteq> Q \<longrightarrow> P \<noteq> pt_neg Q \<longrightarrow>
      (\<exists>z. rz = Some z \<and> mag 8 z \<and> fval z \<noteq> 0 \<and> \<not> gej_infinity r' \<and> fval (gej_z r') = fval (gej_z a) * fval z))" by simp
next
  case False
  have nb: "\<not> ge_infinity b" using b by (simp add: ge_at_def)
  obtain x' y' where b': "rep 8 (x' * S ^ 2) (ge_x b)" "rep 8 (y' * S ^ 3) (ge_y b)" "Q = Pt x' y'" "on_curve (Pt x' y')"
    using b S by (rule ge_atE)
  obtain X1 Y1 Z where x1: "rep 8 X1 (gej_x a)" "rep 8 Y1 (gej_y a)" "rep 8 Z (gej_z a)"
    using a False S by (rule gej_atE)
  define u2 where "u2 = fe_mul F (ge_x b) (fe_sqr F (gej_z a))"
  define v2 where "v2 = fe_mul F (fe_mul F (ge_y b) (fe_sqr F (gej_z a))) (gej_z a)"
  define h where "h = fe_add F (fe_negate F (fe_normalize_weak F (gej_x a)) 1) u2"
  define i where "i = fe_add F (fe_negate F (fe_normalize_weak F (gej_y a)) 1) v2"
  have v: "rep 1 (x' * (Z * S) ^ 2) u2" "rep 1 (y' * (Z * S) ^ 3) v2"
    unfolding u2_def v2_def by ((rule rep_weaken, (rule rep_rules x1 b' | (simp; fail))+, (simp?, algebra)?)[1])+
  obtain gx gy where g: "gej_add_xy F (fe_normalize_weak F (gej_x a)) (fe_normalize_weak F (gej_y a)) h i = (gx, gy)"
    by (rule prod.exhaust)
  note d = r [unfolded gej_add_ge_var_def Let_def, simplified False nb if_False,
      folded u2_def v2_def, folded h_def i_def, unfolded g]
  have r': "r' = (if fe_normalizes_to_zero_var F h then
        if fe_normalizes_to_zero_var F i then fst (gej_double_var F (r \<lparr> gej_infinity := False \<rparr>) a f)
        else r \<lparr> gej_infinity := True \<rparr>
      else r \<lparr> gej_infinity := False, gej_x := gx, gej_y := gy, gej_z := fe_mul F (gej_z a) h \<rparr>)"
    using d by (auto split: if_splits)
  note A = add_affine_at [OF a False S b'(4) x1(3) v h_def i_def g r']
  have Z: "fval (gej_z a) = Z" using x1(3) by (rule rep_fval)
  show "gej_at mag fval S r' (pt_add P Q) \<and> (f \<longrightarrow> P \<noteq> Infty \<longrightarrow> P \<noteq> Q \<longrightarrow> P \<noteq> pt_neg Q \<longrightarrow>
      (\<exists>z. rz = Some z \<and> mag 8 z \<and> fval z \<noteq> 0 \<and> \<not> gej_infinity r' \<and> fval (gej_z r') = fval (gej_z a) * fval z))"
    using A d unfolding b'(3) Z by (auto split: if_splits)
qed

text \<open>The second argument on the curve itself, with the scale as the inverse of its z coordinate.\<close>

lemma add_zinv_at:
  assumes a: "gej_at mag fval S a P" and b: "ge_at mag fval 1 b Q" and S: "S \<noteq> 0" "rep 8 S zi"
    and r: "gej_add_zinv_var F r a b zi = r'"
  shows "gej_at mag fval S r' (pt_add P Q)"
proof -
  have nb: "\<not> ge_infinity b" using b by (simp add: ge_at_def)
  obtain x' y' where b': "rep 8 x' (ge_x b)" "rep 8 y' (ge_y b)" "Q = Pt x' y'" "on_curve (Pt x' y')"
    using b by (rule ge_atE) simp_all
  show ?thesis
  proof (cases "gej_infinity a")
    case True
    have e: "r' = \<lparr> gej_x = fe_mul F (ge_x b) (fe_sqr F zi), gej_y = fe_mul F (ge_y b) (fe_mul F (fe_sqr F zi) zi),
        gej_z = fe_set_int F 1, gej_infinity = False \<rparr>"
      using r True nb by (auto simp: gej_add_zinv_var_def Let_def)
    have o: "rep 1 1 (fe_set_int F 1)" using rep_set_int [of 1] by simp
    have "gej_at mag fval S r' Q"
    proof (rule gej_atI)
      show "rep 1 (x' * S ^ 2) (gej_x r')" "rep 1 (y' * S ^ 3) (gej_y r')" "rep 1 1 (gej_z r')"
        unfolding e by ((simp, rule rep_weaken, (rule rep_rules b' S o | (simp; fail))+, (simp?, algebra)?)[1])+
      show "jac (x' * S ^ 2) (y' * S ^ 3) (1 * S) = Q" using S b'(3) by (simp add: jac_def)
    qed (use b' in \<open>simp_all add: e\<close>)
    moreover have "P = Infty" using a True by (simp add: gej_at_def)
    ultimately show ?thesis by simp
  next
    case False
    obtain X1 Y1 Z where x1: "rep 8 X1 (gej_x a)" "rep 8 Y1 (gej_y a)" "rep 8 Z (gej_z a)"
      using a False S(1) by (rule gej_atE)
    define az where "az = fe_mul F (gej_z a) zi"
    define u2 where "u2 = fe_mul F (ge_x b) (fe_sqr F az)"
    define v2 where "v2 = fe_mul F (fe_mul F (ge_y b) (fe_sqr F az)) az"
    define h where "h = fe_add F (fe_negate F (fe_normalize_weak F (gej_x a)) 1) u2"
    define i where "i = fe_add F (fe_negate F (fe_normalize_weak F (gej_y a)) 1) v2"
    have v: "rep 1 (x' * (Z * S) ^ 2) u2" "rep 1 (y' * (Z * S) ^ 3) v2"
      unfolding u2_def v2_def az_def by ((rule rep_weaken, (rule rep_rules x1 b' S | (simp; fail))+, (simp?, algebra)?)[1])+
    obtain gx gy where g: "gej_add_xy F (fe_normalize_weak F (gej_x a)) (fe_normalize_weak F (gej_y a)) h i = (gx, gy)"
      by (rule prod.exhaust)
    note d = r [unfolded gej_add_zinv_var_def Let_def, simplified False nb if_False,
        folded az_def, folded u2_def v2_def, folded h_def i_def, unfolded g]
    show ?thesis
      unfolding b'(3)
      by (rule add_affine_at(1) [OF a False S(1) b'(4) x1(3) v h_def i_def g, where f = False and r = r])
        (use d in \<open>auto split: if_splits\<close>)
  qed
qed

section \<open>Conversions\<close>

lemma set_zinv_at:
  assumes a: "mag 8 (gej_x a)" "mag 8 (gej_y a)" "\<not> gej_infinity a" and z: "mag 8 z" "fval z \<noteq> 0"
    and P: "jac (fval (gej_x a)) (fval (gej_y a)) T = P" "on_curve P" and S: "S = T * fval z" "T \<noteq> 0"
  shows "ge_at mag fval S (ge_set_gej_zinv F a z) P"
proof -
  note x = a(1,2) [THEN rep_self] and z' = rep_self [OF z(1)]
  have rx: "rep 1 (fval (gej_x a) * fval z ^ 2) (ge_x (ge_set_gej_zinv F a z))"
    by (simp add: ge_set_gej_zinv_def Let_def, rule rep_weaken, (rule rep_rules x z' | (simp; fail))+)
  have ry: "rep 1 (fval (gej_y a) * fval z ^ 3) (ge_y (ge_set_gej_zinv F a z))"
    by (simp add: ge_set_gej_zinv_def Let_def, rule rep_weaken, (rule rep_rules x z' | (simp; fail))+, (simp?, algebra)?)
  have "jac (fval (gej_x a) * fval z ^ 2) (fval (gej_y a) * fval z ^ 3) (T * fval z) = P"
    using jac_rescale [OF z(2)] P(1) by simp
  then show ?thesis
    using rx ry P(2) a(3) mag_mono [of 1 _ 8] S by (auto simp: ge_at_def rep_def ge_set_gej_zinv_def Let_def)
qed

lemma ge_neg_at:
  assumes "ge_at mag fval S b P"
  shows "ge_at mag fval S (ge_neg F b) (pt_neg P)"
proof -
  have b: "mag 8 (ge_x b)" "mag 8 (ge_y b)" using assms by (simp_all add: ge_at_def)
  have n: "rep 8 (- fval (ge_y b)) (fe_negate F (fe_normalize_weak F (ge_y b)) 1)"
    by (rule rep_weaken, (rule rep_rules rep_self [OF b(2)] | (simp; fail))+)
  show ?thesis using n assms on_curve_neg by (auto simp: ge_neg_def ge_at_def rep_def jac_neg)
qed

end

end
