(* ===== verification/Curve_Ring.thy ===== *)
theory Curve_Ring
  imports Curve
begin

text \<open>
  The coordinate ring of the curve: polynomials in \<open>x\<close> over the prime field, and the ring of the
  \<open>a + b y\<close> with \<open>y^2 = x^3 + 7\<close>.  It carries the proof that the addition of points is associative
  (theory \<open>Curve_Group\<close>).
\<close>

section \<open>Polynomials\<close>

typedef pol = "{f :: nat \<Rightarrow> fp. \<exists>n. \<forall>i>n. f i = 0}"
  morphisms cf Abs_pol
  by (rule exI [of _ "\<lambda>i. 0"]) simp

setup_lifting type_definition_pol

lemma pol_eqI: "(\<And>i. cf p i = cf q i) \<Longrightarrow> p = q"
  by (simp add: cf_inject [symmetric] fun_eq_iff)

lemma sum_split:
  fixes F :: "nat \<Rightarrow> nat \<Rightarrow> nat \<Rightarrow> fp"
  shows "(\<Sum>k\<le>n. \<Sum>j\<le>k. F j (k - j) (n - k)) = (\<Sum>j\<le>n. \<Sum>i\<le>n - j. F j i (n - (j + i)))"
proof -
  have s: "{(j, i). j + i \<le> n} = (SIGMA j:{..n}. {..n - j})" by auto
  have "(\<Sum>k\<le>n. \<Sum>j\<le>k. F j (k - j) (n - k)) = (\<Sum>k\<le>n. \<Sum>j\<le>k. (\<lambda>j i. F j i (n - (j + i))) j (k - j))"
    by (intro sum.cong) simp_all
  also have "\<dots> = (\<Sum>(j, i)\<in>{(j, i). j + i \<le> n}. F j i (n - (j + i)))"
    by (rule sum.triangle_reindex_eq [symmetric])
  also have "\<dots> = (\<Sum>j\<le>n. \<Sum>i\<le>n - j. F j i (n - (j + i)))"
    unfolding s by (rule sum.Sigma [symmetric]) simp_all
  finally show ?thesis .
qed

instantiation pol :: comm_ring_1
begin

lift_definition zero_pol :: pol is "\<lambda>i. 0" by simp
lift_definition one_pol :: pol is "\<lambda>i. if i = 0 then 1 else 0" by (rule exI [of _ 0]) simp
lift_definition plus_pol :: "pol \<Rightarrow> pol \<Rightarrow> pol" is "\<lambda>f g i. f i + g i"
proof -
  fix f g :: "nat \<Rightarrow> fp"
  assume "\<exists>n. \<forall>i>n. f i = 0" "\<exists>n. \<forall>i>n. g i = 0"
  then obtain m n where "\<forall>i>m. f i = 0" "\<forall>i>n. g i = 0" by blast
  then show "\<exists>n. \<forall>i>n. f i + g i = 0" by (intro exI [of _ "max m n"]) simp
qed
lift_definition uminus_pol :: "pol \<Rightarrow> pol" is "\<lambda>f i. - f i" by simp
lift_definition minus_pol :: "pol \<Rightarrow> pol \<Rightarrow> pol" is "\<lambda>f g i. f i - g i"
proof -
  fix f g :: "nat \<Rightarrow> fp"
  assume "\<exists>n. \<forall>i>n. f i = 0" "\<exists>n. \<forall>i>n. g i = 0"
  then obtain m n where "\<forall>i>m. f i = 0" "\<forall>i>n. g i = 0" by blast
  then show "\<exists>n. \<forall>i>n. f i - g i = 0" by (intro exI [of _ "max m n"]) simp
qed
lift_definition times_pol :: "pol \<Rightarrow> pol \<Rightarrow> pol" is "\<lambda>f g i. \<Sum>k\<le>i. f k * g (i - k)"
proof -
  fix f g :: "nat \<Rightarrow> fp"
  assume "\<exists>n. \<forall>i>n. f i = 0" "\<exists>n. \<forall>i>n. g i = 0"
  then obtain m n where mn: "\<forall>i>m. f i = 0" "\<forall>i>n. g i = 0" by blast
  have "(\<Sum>k\<le>i. f k * g (i - k)) = 0" if i: "i > m + n" for i
  proof (rule sum.neutral, rule ballI)
    fix k
    show "f k * g (i - k) = 0" by (cases "k > m") (use mn i in simp_all)
  qed
  then show "\<exists>n. \<forall>i>n. (\<Sum>k\<le>i. f k * g (i - k)) = 0" by blast
qed

instance
proof
  fix p q r :: pol
  show "p * q * r = p * (q * r)"
    by (rule pol_eqI) (simp add: times_pol.rep_eq sum_distrib_left sum_distrib_right mult.assoc
        sum_split [where F = "\<lambda>j i k. cf p j * (cf q i * cf r k)"])
  show "p * q = q * p"
  proof (rule pol_eqI)
    fix i
    show "cf (p * q) i = cf (q * p) i"
      unfolding times_pol.rep_eq
      by (rule sum.reindex_bij_witness [where i = "\<lambda>k. i - k" and j = "\<lambda>k. i - k"]) (simp_all add: mult.commute)
  qed
  show "1 * p = p"
  proof (rule pol_eqI)
    fix i
    have "(\<Sum>k\<le>i. (if k = 0 then 1 else 0) * cf p (i - k)) = (\<Sum>k\<le>i. if k = 0 then cf p i else 0)"
      by (rule sum.cong) simp_all
    then show "cf (1 * p) i = cf p i" by (simp add: times_pol.rep_eq one_pol.rep_eq)
  qed
  show "(p + q) * r = p * r + q * r"
    by (rule pol_eqI) (simp add: times_pol.rep_eq plus_pol.rep_eq distrib_right sum.distrib)
  show "p + q + r = p + (q + r)" "p + q = q + p" "0 + p = p" "- p + p = 0" "p - q = p + - q"
    by (rule pol_eqI, simp add: plus_pol.rep_eq minus_pol.rep_eq uminus_pol.rep_eq zero_pol.rep_eq add.assoc)+
  show "(0 :: pol) \<noteq> 1" by transfer (auto dest: fun_cong [of _ _ 0])
qed

end

text \<open>Degrees.\<close>

definition lead :: "pol \<Rightarrow> nat \<Rightarrow> bool" where
  "lead p n \<longleftrightarrow> cf p n \<noteq> 0 \<and> (\<forall>i>n. cf p i = 0)"

lemma lead_ex: "p \<noteq> 0 \<Longrightarrow> \<exists>n. lead p n"
proof -
  assume "p \<noteq> 0"
  then obtain k where k: "cf p k \<noteq> 0" using pol_eqI [of p 0] by (auto simp: zero_pol.rep_eq)
  obtain m where m: "\<forall>i>m. cf p i = 0" using cf [of p] by blast
  define n where "n = Max {i. i \<le> m \<and> cf p i \<noteq> 0}"
  have s: "finite {i. i \<le> m \<and> cf p i \<noteq> 0}" by simp
  have "k \<in> {i. i \<le> m \<and> cf p i \<noteq> 0}" using k m by (auto simp: not_less [symmetric])
  have "n \<in> {i. i \<le> m \<and> cf p i \<noteq> 0}" unfolding n_def by (rule Max_in [OF s]) (use \<open>k \<in> _\<close> in blast)
  moreover have "cf p i = 0" if "i > n" for i
  proof (rule ccontr)
    assume "cf p i \<noteq> 0"
    then have "i \<in> {i. i \<le> m \<and> cf p i \<noteq> 0}" using m by (auto simp: not_less [symmetric])
    then have "i \<le> n" unfolding n_def using s by (intro Max_ge)
    then show False using that by simp
  qed
  ultimately show ?thesis by (auto simp: lead_def)
qed

lemma lead_unique: "lead p m \<Longrightarrow> lead p n \<Longrightarrow> m = n"
  unfolding lead_def by (metis linorder_neqE_nat)

lemma lead_nonzero: "lead p n \<Longrightarrow> p \<noteq> 0"
  by (auto simp: lead_def zero_pol.rep_eq)

lemma lead_mult:
  assumes p: "lead p m" and q: "lead q n"
  shows "lead (p * q) (m + n)"
proof -
  have "cf (p * q) (m + n) = (\<Sum>k\<le>m + n. if k = m then cf p m * cf q n else 0)"
    unfolding times_pol.rep_eq
  proof (rule sum.cong)
    fix k assume "k \<in> {..m + n}"
    show "cf p k * cf q (m + n - k) = (if k = m then cf p m * cf q n else 0)"
      using p q by (cases k m rule: linorder_cases) (auto simp: lead_def)
  qed simp
  then have "cf (p * q) (m + n) \<noteq> 0" using p q by (simp add: lead_def)
  moreover have "cf (p * q) i = 0" if "i > m + n" for i
    unfolding times_pol.rep_eq
  proof (rule sum.neutral, rule ballI)
    fix k
    show "cf p k * cf q (i - k) = 0" using p q that by (cases "k > m") (auto simp: lead_def)
  qed
  ultimately show ?thesis by (simp add: lead_def)
qed

lemma lead_add: "lead p m \<Longrightarrow> (\<And>i. i \<ge> m \<Longrightarrow> cf q i = 0) \<Longrightarrow> lead (p + q) m"
  by (simp add: lead_def plus_pol.rep_eq)

lemma lead_minus: "lead p m \<Longrightarrow> lead (- p) m"
  by (simp add: lead_def uminus_pol.rep_eq)

instance pol :: idom
proof
  fix p q :: pol
  assume "p \<noteq> 0" "q \<noteq> 0"
  then obtain m n where "lead p m" "lead q n" using lead_ex by blast
  then show "p * q \<noteq> 0" using lead_mult lead_nonzero by blast
qed

text \<open>Constants and the variable.\<close>

definition con :: "fp \<Rightarrow> pol" where
  "con c = Abs_pol (\<lambda>i. if i = 0 then c else 0)"

definition var :: pol where
  "var = Abs_pol (\<lambda>i. if i = 1 then 1 else 0)"

lemma cf_con: "cf (con c) i = (if i = 0 then c else 0)"
  unfolding con_def by (subst Abs_pol_inverse) (auto intro: exI [of _ 0])

lemma cf_var: "cf var i = (if i = 1 then 1 else 0)"
  unfolding var_def by (subst Abs_pol_inverse) (auto intro: exI [of _ 1])

lemma con_simps: "con 0 = 0" "con 1 = 1" "con (a + b) = con a + con b" "con (a - b) = con a - con b" "con (- a) = - con a"
  by (rule pol_eqI, simp add: cf_con zero_pol.rep_eq one_pol.rep_eq plus_pol.rep_eq minus_pol.rep_eq uminus_pol.rep_eq)+

lemma cf_con_mult: "cf (con a * p) i = a * cf p i"
proof -
  have "(\<Sum>k\<le>i. (if k = 0 then a else 0) * cf p (i - k)) = (\<Sum>k\<le>i. if k = 0 then a * cf p i else 0)"
    by (rule sum.cong) simp_all
  then show ?thesis by (simp add: times_pol.rep_eq cf_con)
qed

lemma con_mult: "con (a * b) = con a * con b"
  by (rule pol_eqI) (simp add: cf_con_mult cf_con)

lemma con_power: "con (a ^ n) = con a ^ n"
  by (induction n) (simp_all add: con_simps con_mult)

lemma con_numeral: "con (numeral n) = numeral n"
proof -
  have "con (of_nat k) = of_nat k" for k by (induction k) (simp_all add: con_simps)
  from this [of "numeral n"] show ?thesis by simp
qed

lemma con_eq_0: "con a = 0 \<longleftrightarrow> a = 0"
  by (metis cf_con con_simps(1))

lemma lead_con: "a \<noteq> 0 \<Longrightarrow> lead (con a) 0"
  by (simp add: lead_def cf_con)

lemma lead_var: "lead var 1"
  by (simp add: lead_def cf_var)

lemma lead_lin: "lead (var - con a) 1"
  by (simp add: lead_def cf_var cf_con minus_pol.rep_eq)


section \<open>The coordinate ring\<close>

definition weier :: pol where
  "weier = var ^ 3 + 7"

lemma lead_weier: "lead weier 3"
proof -
  have "lead (var * (var * var)) (1 + (1 + 1))" by (intro lead_mult lead_var)
  then have "lead (var ^ 3) 3" by (simp add: power3_eq_cube mult.assoc numeral_3_eq_3)
  then have "lead (var ^ 3 + con 7) 3" by (rule lead_add) (simp add: cf_con)
  then show ?thesis by (simp add: weier_def con_numeral)
qed

text \<open>\<open>Crd a b\<close> is \<open>a + b y\<close>.\<close>

datatype crd = Crd pol pol

instantiation crd :: comm_ring_1
begin

definition zero_crd :: crd where "0 = Crd 0 0"
definition one_crd :: crd where "1 = Crd 1 0"
fun plus_crd :: "crd \<Rightarrow> crd \<Rightarrow> crd" where "Crd a b + Crd c d = Crd (a + c) (b + d)"
fun minus_crd :: "crd \<Rightarrow> crd \<Rightarrow> crd" where "Crd a b - Crd c d = Crd (a - c) (b - d)"
fun uminus_crd :: "crd \<Rightarrow> crd" where "- Crd a b = Crd (- a) (- b)"
fun times_crd :: "crd \<Rightarrow> crd \<Rightarrow> crd" where "Crd a b * Crd c d = Crd (a * c + b * d * weier) (a * d + b * c)"

instance
proof
  fix u v w :: crd
  show "u * v * w = u * (v * w)" "u * v = v * u" "(u + v) * w = u * w + v * w"
    by (cases u; cases v; cases w; simp add: algebra_simps)+
  show "u + v + w = u + (v + w)" "u + v = v + u" "u - v = u + - v"
    by (cases u; cases v; cases w; simp add: algebra_simps)+
  show "1 * u = u" "0 + u = u" "- u + u = 0" by (cases u; simp add: one_crd_def zero_crd_def)+
  show "(0 :: crd) \<noteq> 1" by (simp add: one_crd_def zero_crd_def)
qed

end

fun norm_crd :: "crd \<Rightarrow> pol" where
  "norm_crd (Crd a b) = a * a - b * b * weier"

fun conj_crd :: "crd \<Rightarrow> crd" where
  "conj_crd (Crd a b) = Crd a (- b)"

definition emb :: "pol \<Rightarrow> crd" where
  "emb p = Crd p 0"

definition yy :: crd where
  "yy = Crd 0 1"

lemma conj_simps: "conj_crd (u + v) = conj_crd u + conj_crd v" "conj_crd (u * v) = conj_crd u * conj_crd v"
  "conj_crd (conj_crd u) = u" "conj_crd (emb p) = emb p" "conj_crd yy = - yy" "conj_crd 0 = 0" "conj_crd (u - v) = conj_crd u - conj_crd v"
  by (cases u; cases v; simp add: emb_def yy_def zero_crd_def algebra_simps)+

lemma norm_conj: "u * conj_crd u = emb (norm_crd u)"
  by (cases u) (simp add: emb_def algebra_simps)

lemma emb_simps: "emb 0 = 0" "emb 1 = 1" "emb (p + q) = emb p + emb q" "emb (p - q) = emb p - emb q"
  "emb (p * q) = emb p * emb q" "emb (- p) = - emb p"
  by (simp_all add: emb_def zero_crd_def one_crd_def)

lemma emb_eq_iff: "emb p = emb q \<longleftrightarrow> p = q"
  by (simp add: emb_def)

lemma emb_power: "emb (p ^ n) = emb p ^ n"
  by (induction n) (simp_all add: emb_simps)

lemma emb_numeral: "emb (numeral n) = numeral n"
proof -
  have "emb (of_nat k) = of_nat k" for k by (induction k) (simp_all add: emb_simps)
  from this [of "numeral n"] show ?thesis by simp
qed

lemma norm_lead:
  assumes "u = Crd a b" "b \<noteq> 0"
  shows "\<exists>n. lead (norm_crd u) n \<and> 3 \<le> n"
proof -
  obtain n where n: "lead b n" using lead_ex [OF assms(2)] by blast
  have w: "lead (b * b * weier) (n + n + 3)" by (intro lead_mult n lead_weier)
  show ?thesis
  proof (cases "a = 0")
    case True
    have "norm_crd u = - (b * b * weier)" unfolding assms(1) True by simp
    then show ?thesis using lead_minus [OF w] by (intro exI [of _ "n + n + 3"]) simp
  next
    case False
    then obtain m where m: "lead a m" using lead_ex by blast
    then have a: "lead (a * a) (m + m)" by (intro lead_mult)
    have e: "norm_crd u = a * a + - (b * b * weier)" "norm_crd u = - (b * b * weier) + a * a" unfolding assms(1) by simp_all
    have "m + m \<noteq> n + n + 3" by presburger
    then consider "n + n + 3 < m + m" | "m + m < n + n + 3" by linarith
    then show ?thesis
    proof cases
      case 1
      then have "lead (norm_crd u) (m + m)" unfolding e(1)
        using lead_minus [OF w] by (intro lead_add a) (simp add: lead_def)
      then show ?thesis using 1 by (intro exI [of _ "m + m"]) simp
    next
      case 2
      then have "lead (norm_crd u) (n + n + 3)" unfolding e(2)
        using a by (intro lead_add lead_minus w) (simp add: lead_def)
      then show ?thesis by (intro exI [of _ "n + n + 3"]) simp
    qed
  qed
qed

lemma norm_eq_0: "norm_crd u = 0 \<longleftrightarrow> u = 0"
proof
  assume z: "norm_crd u = 0"
  obtain a b where u: "u = Crd a b" by (cases u)
  have "b = 0" using norm_lead [OF u] z lead_nonzero by auto
  then show "u = 0" using z u by (simp add: zero_crd_def)
qed (simp add: zero_crd_def)

lemma norm_mult: "norm_crd (u * v) = norm_crd u * norm_crd v"
  by (cases u; cases v) (simp add: algebra_simps)

instance crd :: idom
proof
  fix u v :: crd
  assume "u \<noteq> 0" "v \<noteq> 0"
  then have "norm_crd (u * v) \<noteq> 0" by (simp add: norm_mult norm_eq_0)
  then show "u * v \<noteq> 0" by (simp only: norm_eq_0 not_False_eq_True)
qed

text \<open>The coordinates and constants as elements of the ring.\<close>

definition xx :: crd where "xx = emb var"
definition kk :: "fp \<Rightarrow> crd" where "kk c = emb (con c)"

lemma yy_square: "yy * yy = xx ^ 3 + 7"
proof -
  have "yy * yy = emb weier" by (simp add: yy_def emb_def)
  then show ?thesis by (simp add: weier_def emb_simps emb_power emb_numeral xx_def)
qed

lemma kk_simps: "kk 0 = 0" "kk 1 = 1" "kk (a + b) = kk a + kk b" "kk (a - b) = kk a - kk b" "kk (- a) = - kk a"
  "kk (a * b) = kk a * kk b" "kk (a ^ n) = kk a ^ n" "kk (numeral m) = numeral m"
  by (simp_all add: kk_def con_simps con_mult con_power con_numeral emb_simps emb_power emb_numeral)

lemma kk_eq_0: "kk a = 0 \<longleftrightarrow> a = 0"
  by (simp add: kk_def emb_eq_iff [of _ 0, unfolded emb_simps] con_eq_0)

lemma kk_inverse: "a \<noteq> 0 \<Longrightarrow> kk (inverse a) * kk a = 1"
  by (simp add: kk_simps(6) [symmetric] kk_simps(2))

end
