(* ===== verification/Curve_Ideals.thy ===== *)
theory Curve_Ideals
  imports Curve_Ring
begin

text \<open>
  Products of ideals, and the ideal of the functions that vanish at a point of the curve.
\<close>

section \<open>Ideals\<close>

definition ideal :: "'a::comm_ring_1 set \<Rightarrow> bool" where
  "ideal I \<longleftrightarrow> 0 \<in> I \<and> (\<forall>a\<in>I. \<forall>b\<in>I. a + b \<in> I) \<and> (\<forall>a\<in>I. \<forall>r. r * a \<in> I)"

lemma idealD:
  assumes "ideal I"
  shows "0 \<in> I" "a \<in> I \<Longrightarrow> b \<in> I \<Longrightarrow> a + b \<in> I" "a \<in> I \<Longrightarrow> r * a \<in> I" "a \<in> I \<Longrightarrow> a * r \<in> I"
    "a \<in> I \<Longrightarrow> b \<in> I \<Longrightarrow> a - b \<in> I" "a \<in> I \<Longrightarrow> - a \<in> I"
proof -
  show *: "0 \<in> I" "\<And>a b. a \<in> I \<Longrightarrow> b \<in> I \<Longrightarrow> a + b \<in> I" "\<And>a r. a \<in> I \<Longrightarrow> r * a \<in> I"
    using assms by (simp_all add: ideal_def)
  show "a \<in> I \<Longrightarrow> a * r \<in> I" using *(3) by (simp add: mult.commute)
  show m: "a \<in> I \<Longrightarrow> - a \<in> I" for a using *(3) [of a "- 1"] by simp
  show "a \<in> I \<Longrightarrow> b \<in> I \<Longrightarrow> a - b \<in> I" using *(2) [of a "- b"] m [of b] by simp
qed

lemma ideal_UNIV: "ideal UNIV"
  by (simp add: ideal_def)

text \<open>The product: finite sums of products.\<close>

inductive_set iprod :: "'a::comm_ring_1 set \<Rightarrow> 'a set \<Rightarrow> 'a set" for I J where
  zero: "0 \<in> iprod I J"
| step: "i \<in> I \<Longrightarrow> j \<in> J \<Longrightarrow> z \<in> iprod I J \<Longrightarrow> i * j + z \<in> iprod I J"

lemma iprod_mult: "i \<in> I \<Longrightarrow> j \<in> J \<Longrightarrow> i * j \<in> iprod I J"
  using iprod.step [OF _ _ iprod.zero] by fastforce

lemma iprod_add: "u \<in> iprod I J \<Longrightarrow> v \<in> iprod I J \<Longrightarrow> u + v \<in> iprod I J"
  by (induction rule: iprod.induct) (simp_all add: iprod.step add.assoc)

lemma iprod_smult:
  assumes "ideal I" "z \<in> iprod I J"
  shows "r * z \<in> iprod I J"
  using assms(2)
proof (induction rule: iprod.induct)
  case (step i j z)
  then have "(r * i) * j + r * z \<in> iprod I J" using idealD(3) [OF assms(1)] by (intro iprod.step)
  then show ?case by (simp add: algebra_simps)
qed (simp add: iprod.zero)

lemma ideal_iprod: "ideal I \<Longrightarrow> ideal (iprod I J)"
  using iprod.zero iprod_add iprod_smult unfolding ideal_def by blast

lemma iprod_subset_commute: "iprod I J \<subseteq> iprod J I"
proof
  fix z
  assume "z \<in> iprod I J"
  then show "z \<in> iprod J I"
  proof (induction rule: iprod.induct)
    case (step i j z)
    then show ?case using iprod.step [of j J i I z] by (simp add: mult.commute)
  qed (rule iprod.zero)
qed

lemma iprod_commute: "iprod I J = iprod J I"
  using iprod_subset_commute by (rule equalityI) (rule iprod_subset_commute)

lemma iprod_assoc_subset: "iprod (iprod I J) K \<subseteq> iprod I (iprod J K)"
proof
  fix z
  assume "z \<in> iprod (iprod I J) K"
  then show "z \<in> iprod I (iprod J K)"
  proof (induction rule: iprod.induct)
    case (step u k z)
    have "u * k \<in> iprod I (iprod J K)" using step(1)
    proof (induction rule: iprod.induct)
      case (step i j u)
      then have "i * (j * k) + u * k \<in> iprod I (iprod J K)"
        by (intro iprod.step [OF _ iprod_mult [OF _ \<open>k \<in> K\<close>]])
      then show ?case by (simp add: algebra_simps)
    qed (simp add: iprod.zero)
    then show ?case using step(4) by (rule iprod_add)
  qed (simp add: iprod.zero)
qed

lemma iprod_assoc: "iprod (iprod I J) K = iprod I (iprod J K)"
proof
  have "iprod I (iprod J K) = iprod (iprod K J) I" by (simp only: iprod_commute)
  also have "\<dots> \<subseteq> iprod K (iprod J I)" by (rule iprod_assoc_subset)
  also have "\<dots> = iprod (iprod I J) K" by (simp only: iprod_commute)
  finally show "iprod I (iprod J K) \<subseteq> iprod (iprod I J) K" .
qed (rule iprod_assoc_subset)

text \<open>Multiples of an ideal by an element.\<close>

definition scal :: "'a::comm_ring_1 \<Rightarrow> 'a set \<Rightarrow> 'a set" where
  "scal a I = (\<lambda>z. a * z) ` I"

lemma scal_scal: "scal a (scal b I) = scal (a * b) I"
  by (auto simp: scal_def mult.assoc image_image)

lemma scal_1 [simp]: "scal 1 I = I"
  by (simp add: scal_def)

lemma ideal_scal: "ideal I \<Longrightarrow> ideal (scal a I)"
proof -
  assume i: "ideal I"
  have "0 \<in> scal a I" unfolding scal_def by (rule image_eqI [OF _ idealD(1) [OF i]]) simp
  moreover have "u + v \<in> scal a I" if "u \<in> scal a I" "v \<in> scal a I" for u v
    using that idealD(2) [OF i] unfolding scal_def by (auto simp: distrib_left [symmetric])
  moreover have "r * u \<in> scal a I" if "u \<in> scal a I" for r u
    using that idealD(3) [OF i] unfolding scal_def by (auto simp: mult.left_commute)
  ultimately show ?thesis unfolding ideal_def by blast
qed

lemma scal_iprod: "iprod (scal a I) J = scal a (iprod I J)"
proof
  show "iprod (scal a I) J \<subseteq> scal a (iprod I J)"
  proof
    fix z assume "z \<in> iprod (scal a I) J"
    then show "z \<in> scal a (iprod I J)"
    proof (induction rule: iprod.induct)
      case zero
      show ?case unfolding scal_def by (rule image_eqI [OF _ iprod.zero]) simp
    next
      case (step i j z)
      then obtain i' z' where "i = a * i'" "i' \<in> I" "z = a * z'" "z' \<in> iprod I J" by (auto simp: scal_def)
      then show ?case using step(2) unfolding scal_def
        by (intro image_eqI [OF _ iprod.step [of i' I j J z']]) (simp_all add: algebra_simps)
    qed
  qed
  show "scal a (iprod I J) \<subseteq> iprod (scal a I) J"
  proof
    fix w assume "w \<in> scal a (iprod I J)"
    then obtain z where w: "w = a * z" and "z \<in> iprod I J" by (auto simp: scal_def)
    from this(2) show "w \<in> iprod (scal a I) J" unfolding w
    proof (induction rule: iprod.induct)
      case (step i j z)
      then have "(a * i) * j + a * z \<in> iprod (scal a I) J" by (intro iprod.step) (simp_all add: scal_def)
      then show ?case by (simp add: algebra_simps)
    qed (simp add: iprod.zero)
  qed
qed

lemma scal_iprod_right: "iprod I (scal a J) = scal a (iprod I J)"
  using scal_iprod [of a J I] by (simp only: iprod_commute [of I])

lemma iprod_UNIV:
  assumes "ideal J"
  shows "iprod UNIV J = J"
proof
  show "iprod UNIV J \<subseteq> J"
  proof
    fix z assume "z \<in> iprod UNIV J"
    then show "z \<in> J" by (induction rule: iprod.induct) (simp_all add: idealD [OF assms])
  qed
  show "J \<subseteq> iprod UNIV J" using iprod_mult [of 1 UNIV _ J] by fastforce
qed

lemma iprod_principal: "ideal J \<Longrightarrow> iprod (scal a UNIV) J = scal a J"
  by (simp add: scal_iprod iprod_UNIV)

lemma scal_cancel:
  fixes a :: "'a::idom"
  assumes "a \<noteq> 0" "scal a I = scal a J"
  shows "I = J"
proof -
  have "inj (\<lambda>z. a * z)" using assms(1) by (simp add: inj_def)
  then show ?thesis using assms(2) unfolding scal_def by (simp add: inj_image_eq_iff)
qed

lemma ideal_one: "ideal I \<Longrightarrow> 1 \<in> I \<Longrightarrow> I = UNIV"
  using idealD(4) [of I 1] by auto

text \<open>Ideals are equivalent if they differ by a factor.\<close>

definition iequiv :: "'a::idom set \<Rightarrow> 'a set \<Rightarrow> bool" where
  "iequiv I J \<longleftrightarrow> (\<exists>a b. a \<noteq> 0 \<and> b \<noteq> 0 \<and> scal a I = scal b J)"

lemma iequivI: "a \<noteq> 0 \<Longrightarrow> b \<noteq> 0 \<Longrightarrow> scal a I = scal b J \<Longrightarrow> iequiv I J"
  unfolding iequiv_def by blast

lemma iequiv_sym: "iequiv I J \<Longrightarrow> iequiv J I"
  unfolding iequiv_def by metis

lemma iequiv_trans: "iequiv I J \<Longrightarrow> iequiv J K \<Longrightarrow> iequiv I K"
proof -
  assume "iequiv I J" "iequiv J K"
  then obtain a b c d where ab: "a \<noteq> 0" "b \<noteq> 0" "scal a I = scal b J" and cd: "c \<noteq> 0" "d \<noteq> 0" "scal c J = scal d K"
    unfolding iequiv_def by blast
  have "scal (c * a) I = scal c (scal b J)" using ab(3) by (simp only: scal_scal [symmetric])
  also have "\<dots> = scal b (scal c J)" by (simp add: scal_scal mult.commute)
  also have "\<dots> = scal (b * d) K" using cd(3) by (simp only: scal_scal)
  finally show ?thesis by (rule iequivI [rotated 2]) (use ab cd in simp_all)
qed

lemma iequiv_iprod: "iequiv I J \<Longrightarrow> iequiv (iprod I K) (iprod J K)"
  unfolding iequiv_def by (metis scal_iprod)


section \<open>The ideal of a point\<close>

fun pid :: "point \<Rightarrow> crd set" where
  "pid Infty = UNIV"
| "pid (Pt u v) = {r * (xx - kk u) + s * (yy - kk v) | r s. True}"

lemma ideal_pid: "ideal (pid P)"
proof (cases P)
  case (Pt u v)
  have "0 \<in> pid P" unfolding Pt pid.simps by (rule CollectI, rule exI [of _ 0], rule exI [of _ 0]) simp
  moreover have "a + b \<in> pid P" if ab: "a \<in> pid P" "b \<in> pid P" for a b
  proof -
    obtain r s r' s' where "a = r * (xx - kk u) + s * (yy - kk v)" "b = r' * (xx - kk u) + s' * (yy - kk v)"
      using ab unfolding Pt by auto
    then have "a + b = (r + r') * (xx - kk u) + (s + s') * (yy - kk v)" by algebra
    then show ?thesis unfolding Pt by auto
  qed
  moreover have "q * a \<in> pid P" if a: "a \<in> pid P" for a q
  proof -
    obtain r s where "a = r * (xx - kk u) + s * (yy - kk v)" using a unfolding Pt by auto
    then have "q * a = (q * r) * (xx - kk u) + (q * s) * (yy - kk v)" by algebra
    then show ?thesis unfolding Pt by auto
  qed
  ultimately show ?thesis unfolding ideal_def by blast
qed (simp add: ideal_UNIV)

lemma pid_gen: "xx - kk u \<in> pid (Pt u v)" "yy - kk v \<in> pid (Pt u v)"
proof -
  have "xx - kk u = 1 * (xx - kk u) + 0 * (yy - kk v)" "yy - kk v = 0 * (xx - kk u) + 1 * (yy - kk v)" by simp_all
  then show "xx - kk u \<in> pid (Pt u v)" "yy - kk v \<in> pid (Pt u v)" unfolding pid.simps by blast+
qed

text \<open>On a line \<open>y = l x + m\<close> through the point its ideal is generated by \<open>x\<close> and the line.\<close>

lemma pid_line:
  assumes "v = l * u + m"
  shows "pid (Pt u v) = {r * (xx - kk u) + s * (yy - kk l * xx - kk m) | r s. True}"
proof -
  have e: "r * (xx - kk u) + s * (yy - kk v) = (r + s * kk l) * (xx - kk u) + s * (yy - kk l * xx - kk m)" for r s
    unfolding assms kk_simps by (simp add: algebra_simps)
  have e': "r * (xx - kk u) + s * (yy - kk l * xx - kk m) = (r - s * kk l) * (xx - kk u) + s * (yy - kk v)" for r s
    unfolding assms kk_simps by (simp add: algebra_simps)
  show ?thesis unfolding pid.simps using e e' by blast
qed

text \<open>A constant other than 0 in an ideal makes it the whole ring.\<close>

lemma unit_in_ideal: "ideal I \<Longrightarrow> kk c \<in> I \<Longrightarrow> c \<noteq> 0 \<Longrightarrow> 1 \<in> I"
  using idealD(3) [of I "kk c" "kk (inverse c)"] kk_inverse [of c] by simp

lemma pid_proper:
  assumes "on_curve (Pt u v)"
  shows "1 \<notin> pid (Pt u v)"
proof
  assume "1 \<in> pid (Pt u v)"
  then obtain r s where e: "1 = r * (xx - kk u) + s * (yy - kk v)" by auto
  have c: "kk v * kk v = kk u ^ 3 + 7" using assms by (simp add: kk_simps [symmetric] power2_eq_square)
  define t where "t = r * (yy + kk v) + s * (xx ^ 2 + xx * kk u + kk u ^ 2)"
  have "yy + kk v = r * (xx - kk u) * (yy + kk v) + s * ((yy - kk v) * (yy + kk v))"
    using arg_cong [OF e, of "\<lambda>z. z * (yy + kk v)"] by (simp add: algebra_simps)
  also have "(yy - kk v) * (yy + kk v) = (xx - kk u) * (xx ^ 2 + xx * kk u + kk u ^ 2)"
    using c yy_square by algebra
  finally have "yy + kk v = (xx - kk u) * t" unfolding t_def by (simp add: algebra_simps)
  moreover obtain a b where "t = Crd a b" by (cases t)
  ultimately have "1 = (var - con u) * b"
    by (simp add: yy_def kk_def xx_def emb_def)
  moreover have "b \<noteq> 0" using calculation by auto
  then obtain n where "lead b n" using lead_ex by blast
  then have "lead ((var - con u) * b) (1 + n)" by (intro lead_mult lead_lin)
  ultimately have "lead 1 (1 + n)" by simp
  moreover have "lead 1 0" using lead_con [of 1] by (simp add: con_simps)
  ultimately show False using lead_unique by fastforce
qed

lemma pid_inj:
  assumes "on_curve P" "on_curve Q" "pid P = pid Q"
  shows "P = Q"
proof (cases P; cases Q)
  fix u v u' v'
  assume P: "P = Pt u v" and Q: "Q = Pt u' v'"
  note i = ideal_pid [of Q, unfolded Q]
  have n: "1 \<notin> pid (Pt u' v')" using assms(2) unfolding Q by (rule pid_proper)
  have m: "xx - kk u \<in> pid (Pt u' v')" "yy - kk v \<in> pid (Pt u' v')" 
    using pid_gen(1) [of u v] pid_gen(2) [of v u] assms(3) [unfolded P Q] by blast+
  have "kk (u - u') \<in> pid (Pt u' v')" using idealD(5) [OF i pid_gen(1) m(1)] by (simp add: kk_simps)
  then have "u - u' = 0" using unit_in_ideal [OF i] n by blast
  then have "u = u'" by simp
  have "kk (v - v') \<in> pid (Pt u' v')" using idealD(5) [OF i pid_gen(2) m(2)] by (simp add: kk_simps)
  then have "v - v' = 0" using unit_in_ideal [OF i] n by blast
  then have "v = v'" by simp
  with \<open>u = u'\<close> show ?thesis by (simp add: P Q)
next
  fix u v assume "P = Infty" and q: "Q = Pt u v"
  then have "1 \<in> pid (Pt u v)" using assms(3) by (metis UNIV_I pid.simps(1))
  then show ?thesis using pid_proper assms(2) q by blast
next
  fix u v assume p: "P = Pt u v" and "Q = Infty"
  then have "1 \<in> pid (Pt u v)" using assms(3) by (metis UNIV_I pid.simps(1))
  then show ?thesis using pid_proper assms(1) p by blast
qed simp

end
