(* ===== verification/Curve_Group.thy ===== *)
theory Curve_Group
  imports Curve_Ideals
begin

text \<open>
  The points of the curve form an abelian group.  The map that takes a point to the class of its
  ideal turns addition into the product of ideals and is injective, and that product is associative.
\<close>

section \<open>A point and its negative\<close>

lemma iprod_neg:
  assumes "on_curve (Pt u v)"
  shows "iprod (pid (Pt u v)) (pid (Pt u (- v))) = scal (xx - kk u) UNIV"
proof
  let ?T = "iprod (pid (Pt u v)) (pid (Pt u (- v)))"
  have c: "kk v * kk v = kk u ^ 3 + 7" using assms by (simp add: kk_simps [symmetric] power2_eq_square)
  note it = ideal_iprod [OF ideal_pid [of "Pt u v"], of "pid (Pt u (- v))"]
  show "?T \<subseteq> scal (xx - kk u) UNIV"
  proof
    fix z assume "z \<in> ?T"
    then show "z \<in> scal (xx - kk u) UNIV"
    proof (induction rule: iprod.induct)
      case zero
      show ?case by (simp add: scal_def image_iff)
    next
      case (step i j z)
      obtain r s r' s' where i: "i = r * (xx - kk u) + s * (yy - kk v)" and j: "j = r' * (xx - kk u) + s' * (yy - kk (- v))"
        using step(1,2) by auto
      obtain t where z: "z = (xx - kk u) * t" using step(4) by (auto simp: scal_def)
      have "i * j + z = (xx - kk u) * (r * (r' * (xx - kk u) + s' * (yy + kk v)) + s * r' * (yy - kk v)
          + s * s' * (xx ^ 2 + xx * kk u + kk u ^ 2) + t)"
        unfolding i j z kk_simps using c yy_square by algebra
      then show ?case unfolding scal_def by (intro image_eqI [OF _ UNIV_I])
    qed
  qed
  define K where "K = {k. (xx - kk u) * k \<in> ?T}"
  have ik: "ideal K" unfolding ideal_def K_def using idealD [OF it]
    by (auto simp: distrib_left mult.left_commute)
  have g: "xx - kk u \<in> pid (Pt u w)" "yy - kk w \<in> pid (Pt u w)" for w by (rule pid_gen)+
  have "(xx - kk u) * (yy - kk (- v)) \<in> ?T" "(yy - kk v) * (xx - kk u) \<in> ?T"
    by (rule iprod_mult [OF g(1) g(2)], rule iprod_mult [OF g(2) g(1)])
  then have "yy - kk (- v) \<in> K" "yy - kk v \<in> K" unfolding K_def by (simp_all add: mult.commute)
  then have "kk (2 * v) \<in> K" using idealD(5) [OF ik, of "yy - kk (- v)" "yy - kk v"] by (simp add: kk_simps)
  moreover have "2 * v \<noteq> 0" using on_curve_y_ne_0 [OF assms] by simp
  ultimately have "1 \<in> K" by (rule unit_in_ideal [OF ik])
  then have "xx - kk u \<in> ?T" by (simp add: K_def)
  then show "scal (xx - kk u) UNIV \<subseteq> ?T" using idealD(4) [OF it] by (auto simp: scal_def)
qed

lemma lin_ne_0: "xx - kk u \<noteq> 0"
  unfolding xx_def kk_def emb_simps(4) [symmetric] emb_simps(1) [symmetric] emb_eq_iff
  by (rule lead_nonzero [OF lead_lin])

lemma line_ne_0: "yy - kk l * xx - kk m \<noteq> 0"
  by (simp add: yy_def xx_def kk_def emb_def zero_crd_def)

section \<open>Three points on a line\<close>

lemma line_identity:
  assumes "x1 + x2 + x3 = l ^ 2" "x1 * x2 + x1 * x3 + x2 * x3 = - 2 * l * m" "x1 * x2 * x3 = m ^ 2 - 7"
  shows "(xx - kk x1) * (xx - kk x2) * (xx - kk x3) = (yy - kk l * xx - kk m) * (yy + kk l * xx + kk m)"
proof -
  have "kk x1 + kk x2 + kk x3 = kk l ^ 2" "kk x1 * kk x2 + kk x1 * kk x3 + kk x2 * kk x3 = - 2 * kk l * kk m"
    "kk x1 * kk x2 * kk x3 = kk m ^ 2 - 7"
    using assms [THEN arg_cong [where f = kk]] by (simp_all add: kk_simps)
  then show ?thesis using yy_square by algebra
qed

lemma three_fp_ne_0: "(3 :: fp) \<noteq> 0" "(7 :: fp) \<noteq> 0" "(4 :: fp) \<noteq> 0"
  by (rule numeral_fp_ne_0, simp add: field_prime_def)+

text \<open>
  The functions by which the line divides the products contain a constant: otherwise the curve
  would have a singular point on the line.
\<close>

lemma line_unit:
  assumes K: "ideal K" and s: "x1 + x2 + x3 = l ^ 2" "x1 * x2 + x1 * x3 + x2 * x3 = - 2 * l * m" "x1 * x2 * x3 = m ^ 2 - 7"
    and p: "(xx - kk x1) * (xx - kk x2) \<in> K" "(xx - kk x1) * (xx - kk x3) \<in> K" "(xx - kk x2) * (xx - kk x3) \<in> K"
    and q: "(yy - kk l * xx - kk m) * (xx - kk x1) \<in> K" "(yy - kk l * xx - kk m) * (xx - kk x2) \<in> K"
      "(yy - kk l * xx - kk m) * (xx - kk x3) \<in> K"
    and r: "(yy - kk l * xx - kk m) * (yy - kk l * xx - kk m) \<in> K" "yy + kk l * xx + kk m \<in> K"
    and v: "l * x1 + m \<noteq> 0"
  shows "1 \<in> K"
proof -
  let ?l = "yy - kk l * xx - kk m"
  note d = idealD [OF K]
  show ?thesis
  proof (cases "x1 = x2 \<and> x1 = x3")
    case False
    have "?l \<in> K"
    proof -
      have n: "?l \<in> K" if "kk (a - b) * ?l \<in> K" "a \<noteq> b" for a b
      proof -
        have "kk (inverse (a - b)) * (kk (a - b) * ?l) \<in> K" using that(1) by (rule d(3))
        moreover have "kk (inverse (a - b)) * (kk (a - b) * ?l) = ?l"
          using kk_inverse [of "a - b"] that(2) by (simp add: mult.assoc [symmetric])
        ultimately show ?thesis by simp
      qed
      have e: "kk (a - b) * ?l = ?l * (xx - kk b) - ?l * (xx - kk a)" for a b
        unfolding kk_simps by (simp add: algebra_simps)
      have "kk (x1 - x2) * ?l \<in> K" "kk (x1 - x3) * ?l \<in> K" unfolding e by (rule d(5) [OF q(2) q(1)], rule d(5) [OF q(3) q(1)])
      then show ?thesis using n False by blast
    qed
    have y: "2 * yy \<in> K" "2 * (kk l * xx + kk m) \<in> K"
      using d(2) [OF r(2) \<open>?l \<in> K\<close>] d(5) [OF r(2) \<open>?l \<in> K\<close>] by (simp_all add: algebra_simps)
    have ks: "kk x1 + kk x2 + kk x3 = kk l ^ 2" "kk x1 * kk x2 + kk x1 * kk x3 + kk x2 * kk x3 = - 2 * kk l * kk m"
      using s(1,2) [THEN arg_cong [where f = kk]] by (simp_all add: kk_simps)
    have "(xx - kk x1) * (xx - kk x2) + (xx - kk x1) * (xx - kk x3) + (xx - kk x2) * (xx - kk x3) + kk l * (2 * (kk l * xx + kk m)) \<in> K"
      by (intro d(2) p d(3) y)
    moreover have "(xx - kk x1) * (xx - kk x2) + (xx - kk x1) * (xx - kk x3) + (xx - kk x2) * (xx - kk x3) + kk l * (2 * (kk l * xx + kk m))
        = 3 * xx ^ 2" using ks by algebra
    ultimately have x: "3 * xx ^ 2 \<in> K" by simp
    have "3 * (yy * (2 * yy)) - 2 * (xx * (3 * xx ^ 2)) \<in> K" by (intro d(5) d(3) x y)
    moreover have "3 * (yy * (2 * yy)) - 2 * (xx * (3 * xx ^ 2)) = kk 42"
      unfolding kk_simps using yy_square by algebra
    ultimately have "kk 42 \<in> K" by simp
    moreover have "(42 :: fp) \<noteq> 0" by (rule numeral_fp_ne_0) (simp add: field_prime_def)
    ultimately show ?thesis by (rule unit_in_ideal [OF K])
  next
    case True
    define a w where "a = xx - kk x1" and "w = l * x1 + m"
    have w: "kk w = kk l * kk x1 + kk m" "w \<noteq> 0" using v by (simp_all add: w_def kk_simps)
    have a2: "a * a \<in> K" using p(1) True by (simp add: a_def)
    have "(yy + kk l * xx + kk m) * a - ?l * a - 2 * kk l * (a * a) \<in> K"
      by (rule d(5) [OF d(5) [OF d(4) [OF r(2)] q(1) [folded a_def]] d(3) [OF a2]])
    moreover have "(yy + kk l * xx + kk m) * a - ?l * a - 2 * kk l * (a * a) = kk (2 * w) * a"
      unfolding kk_simps w a_def by algebra
    ultimately have "kk (2 * w) * a \<in> K" by simp
    then have "kk (inverse (2 * w)) * (kk (2 * w) * a) \<in> K" by (rule d(3))
    moreover have "kk (inverse (2 * w)) * kk (2 * w) = 1" using w(2) by (intro kk_inverse) simp
    ultimately have a: "a \<in> K" by (simp add: mult.assoc [symmetric])
    have "?l * ?l - (yy + kk l * xx + kk m) * (?l - 2 * (kk l * xx + kk m)) - 4 * kk l * (kk l * xx + kk m + kk w) * a \<in> K"
      by (intro d(5) r d(4) [OF r(2)] d(3) a)
    moreover have "?l * ?l - (yy + kk l * xx + kk m) * (?l - 2 * (kk l * xx + kk m)) - 4 * kk l * (kk l * xx + kk m + kk w) * a = kk (4 * w ^ 2)"
      unfolding kk_simps w a_def by algebra
    ultimately have "kk (4 * w ^ 2) \<in> K" by simp
    moreover have "4 * w ^ 2 \<noteq> 0" using w(2) three_fp_ne_0 by simp
    ultimately show ?thesis by (rule unit_in_ideal [OF K])
  qed
qed

lemma iprod_line:
  assumes s: "x1 + x2 + x3 = l ^ 2" "x1 * x2 + x1 * x3 + x2 * x3 = - 2 * l * m" "x1 * x2 * x3 = m ^ 2 - 7"
    and v: "l * x1 + m \<noteq> 0"
  shows "iprod (iprod (pid (Pt x1 (l * x1 + m))) (pid (Pt x2 (l * x2 + m)))) (pid (Pt x3 (l * x3 + m)))
    = scal (yy - kk l * xx - kk m) UNIV" (is "?T = scal ?l UNIV")
proof
  note id = line_identity [OF s]
  let ?a = "\<lambda>x. xx - kk x"
  note P = pid_line [OF refl, of x1 l m] pid_line [OF refl, of x2 l m] pid_line [OF refl, of x3 l m]
  have sub12: "\<exists>r t. z = r * (?a x1 * ?a x2) + t * ?l" if "z \<in> iprod (pid (Pt x1 (l * x1 + m))) (pid (Pt x2 (l * x2 + m)))" for z
    using that
  proof (induction rule: iprod.induct)
    case zero
    show ?case by (rule exI [of _ 0], rule exI [of _ 0]) simp
  next
    case (step i j z)
    obtain r t r' t' r'' t'' where "i = r * ?a x1 + t * ?l" "j = r' * ?a x2 + t' * ?l" "z = r'' * (?a x1 * ?a x2) + t'' * ?l"
      using step(1,2,4) unfolding P by blast
    then have "i * j + z = (r * r' + r'') * (?a x1 * ?a x2) + (r * ?a x1 * t' + t * r' * ?a x2 + t * t' * ?l + t'') * ?l" by algebra
    then show ?case by blast
  qed
  show "?T \<subseteq> scal ?l UNIV"
  proof
    fix z assume "z \<in> ?T"
    then show "z \<in> scal ?l UNIV"
    proof (induction rule: iprod.induct)
      case zero
      show ?case by (simp add: scal_def image_iff)
    next
      case (step i j z)
      obtain r t r' t' where ij: "i = r * (?a x1 * ?a x2) + t * ?l" "j = r' * ?a x3 + t' * ?l"
        using sub12 [OF step(1)] step(2) unfolding P by blast
      obtain z' where z: "z = ?l * z'" using step(4) by (auto simp: scal_def)
      have "i * j + z = ?l * (r * r' * (yy + kk l * xx + kk m) + r * t' * (?a x1 * ?a x2) + t * r' * ?a x3 + t * t' * ?l + z')"
        unfolding ij z using id by algebra
      then show ?case unfolding scal_def by (intro image_eqI [OF _ UNIV_I])
    qed
  qed
  note it = ideal_iprod [OF ideal_iprod [OF ideal_pid [of "Pt x1 (l * x1 + m)"], of "pid (Pt x2 (l * x2 + m))"], of "pid (Pt x3 (l * x3 + m))"]
  define K where "K = {k. ?l * k \<in> ?T}"
  have K: "ideal K" unfolding ideal_def K_def using idealD [OF it] by (auto simp: distrib_left mult.left_commute)
  have g: "?a x \<in> pid (Pt x (l * x + m))" "?l \<in> pid (Pt x (l * x + m))" for x
  proof -
    show "?a x \<in> pid (Pt x (l * x + m))" by (rule pid_gen)
    have "?l = 0 * ?a x + 1 * ?l" by simp
    then show "?l \<in> pid (Pt x (l * x + m))" unfolding pid_line [OF refl] by blast
  qed
  have t: "f * h * k \<in> ?T" if "f \<in> pid (Pt x1 (l * x1 + m))" "h \<in> pid (Pt x2 (l * x2 + m))" "k \<in> pid (Pt x3 (l * x3 + m))" for f h k
    using that by (intro iprod_mult)
  have "1 \<in> K"
  proof (rule line_unit [OF K s])
    show "?a x1 * ?a x2 \<in> K" using t [OF g(1) g(1) g(2)] by (simp add: K_def algebra_simps)
    show "?a x1 * ?a x3 \<in> K" using t [OF g(1) g(2) g(1)] by (simp add: K_def algebra_simps)
    show "?a x2 * ?a x3 \<in> K" using t [OF g(2) g(1) g(1)] by (simp add: K_def algebra_simps)
    show "?l * ?a x1 \<in> K" using t [OF g(1) g(2) g(2)] by (simp add: K_def algebra_simps)
    show "?l * ?a x2 \<in> K" using t [OF g(2) g(1) g(2)] by (simp add: K_def algebra_simps)
    show "?l * ?a x3 \<in> K" using t [OF g(2) g(2) g(1)] by (simp add: K_def algebra_simps)
    show "?l * ?l \<in> K" using t [OF g(2) g(2) g(2)] by (simp add: K_def algebra_simps)
    show "yy + kk l * xx + kk m \<in> K" using t [OF g(1) g(1) g(1)] unfolding id by (simp add: K_def)
  qed (rule v)
  then have "?l \<in> ?T" by (simp add: K_def)
  then show "scal ?l UNIV \<subseteq> ?T" using idealD(4) [OF it] by (auto simp: scal_def)
qed


section \<open>The sum of two points\<close>

text \<open>The third intersection of the line through two points, and that \<open>pt_add\<close> finds it.\<close>

lemma chord_sums:
  assumes c: "y1 ^ 2 = x1 ^ 3 + 7" "y2 ^ 2 = x2 ^ 3 + (7 :: fp)" and ne: "x1 \<noteq> x2" and l: "l * (x2 - x1) = y2 - y1"
    and m: "m = y1 - l * x1" and x3: "x3 = l ^ 2 - x1 - x2"
  shows "x1 + x2 + x3 = l ^ 2" "x1 * x2 + x1 * x3 + x2 * x3 = - 2 * l * m" "x1 * x2 * x3 = m ^ 2 - 7"
proof -
  show e1: "x1 + x2 + x3 = l ^ 2" by (simp add: x3)
  have y2: "y2 = y1 + l * (x2 - x1)" using l by simp
  have "(x2 - x1) * (x1 * x2 + x1 * x3 + x2 * x3 + 2 * l * m) = 0"
    using c unfolding x3 m y2 by algebra
  then show e2: "x1 * x2 + x1 * x3 + x2 * x3 = - 2 * l * m" using ne by (simp add: eq_neg_iff_add_eq_0)
  show "x1 * x2 * x3 = m ^ 2 - 7" using c(1) e1 e2 m by algebra
qed

lemma tangent_sums:
  assumes c: "y1 ^ 2 = x1 ^ 3 + (7 :: fp)" and l: "l * (2 * y1) = 3 * x1 ^ 2"
    and m: "m = y1 - l * x1" and x3: "x3 = l ^ 2 - x1 - x1"
  shows "x1 + x1 + x3 = l ^ 2" "x1 * x1 + x1 * x3 + x1 * x3 = - 2 * l * m" "x1 * x1 * x3 = m ^ 2 - 7"
proof -
  show "x1 + x1 + x3 = l ^ 2" by (simp add: x3)
  show "x1 * x1 + x1 * x3 + x1 * x3 = - 2 * l * m" unfolding m x3 using l by algebra
  show "x1 * x1 * x3 = m ^ 2 - 7" unfolding m x3 using l c by algebra
qed

lemma iprod_chord:
  assumes s: "x1 + x2 + x3 = l ^ 2" "x1 * x2 + x1 * x3 + x2 * x3 = - 2 * l * m" "x1 * x2 * x3 = m ^ 2 - 7"
    and y: "y1 = l * x1 + m" "y2 = l * x2 + m" "y3 = - (l * x3 + m)" and c: "on_curve (Pt x1 y1)" "on_curve (Pt x3 y3)"
  shows "iequiv (iprod (pid (Pt x1 y1)) (pid (Pt x2 y2))) (pid (Pt x3 y3))"
proof -
  let ?I = "iprod (pid (Pt x1 y1)) (pid (Pt x2 y2))" and ?l = "yy - kk l * xx - kk m"
  have "l * x1 + m \<noteq> 0" using on_curve_y_ne_0 [OF c(1)] y(1) by simp
  moreover have y3: "l * x3 + m = - y3" unfolding y(3) by simp
  ultimately have t: "iprod ?I (pid (Pt x3 (- y3))) = scal ?l UNIV"
    using iprod_line [OF s] unfolding y(1,2) [symmetric] y3 by simp
  have "scal (xx - kk x3) ?I = iprod ?I (scal (xx - kk x3) UNIV)"
    by (simp only: iprod_commute [of ?I "scal (xx - kk x3) UNIV"] iprod_principal [OF ideal_iprod [OF ideal_pid]])
  also have "\<dots> = iprod ?I (iprod (pid (Pt x3 (- y3))) (pid (Pt x3 y3)))"
    by (simp only: iprod_neg [OF c(2)] iprod_commute [of "pid (Pt x3 (- y3))" "pid (Pt x3 y3)"])
  also have "\<dots> = iprod (scal ?l UNIV) (pid (Pt x3 y3))" using t by (simp only: iprod_assoc [symmetric])
  also have "\<dots> = scal ?l (pid (Pt x3 y3))" by (rule iprod_principal [OF ideal_pid])
  finally show ?thesis by (rule iequivI [OF lin_ne_0 line_ne_0])
qed

lemma iprod_UNIV_right: "ideal J \<Longrightarrow> iprod J UNIV = J"
  unfolding iprod_commute [of J] by (rule iprod_UNIV)

lemma iequiv_refl: "iequiv I I"
  by (rule iequivI [of 1 1]) simp_all

lemma iequiv_add:
  assumes "on_curve P" "on_curve Q"
  shows "iequiv (iprod (pid P) (pid Q)) (pid (pt_add P Q))"
proof (cases P; cases Q)
  fix x1 y1 x2 y2
  assume PQ: "P = Pt x1 y1" "Q = Pt x2 y2"
  have c: "y1 ^ 2 = x1 ^ 3 + 7" "y2 ^ 2 = x2 ^ 3 + 7" using assms PQ by simp_all
  note oc = on_curve_pt_add [OF assms]
  consider "x1 = x2" "y1 = - y2" | "x1 = x2" "y1 = y2" "y1 \<noteq> - y2" | "x1 \<noteq> x2"
    using same_x_on_curve [of x1 y1 y2] assms unfolding PQ by blast
  then show ?thesis
  proof cases
    case 1
    then have "iprod (pid P) (pid Q) = scal (xx - kk x1) UNIV" using iprod_neg [of x1 y1] assms(1) PQ by simp
    then show ?thesis using 1 PQ lin_ne_0 [of x1] by (intro iequivI [of 1 "xx - kk x1"]) simp_all
  next
    case 2
    define l where "l = 3 * x1 ^ 2 / (2 * y1)"
    define m x3 where "m = y1 - l * x1" and "x3 = l ^ 2 - x1 - x1"
    have y0: "y1 \<noteq> 0" using 2 by auto
    then have l: "l * (2 * y1) = 3 * x1 ^ 2" by (simp add: l_def)
    have a: "pt_add P Q = Pt x3 (l * (x1 - x3) - y1)" using 2 PQ by (simp add: pt_chord_def l_def x3_def Let_def)
    show ?thesis unfolding a unfolding PQ
    proof (rule iprod_chord)
      show "x1 + x2 + x3 = l ^ 2" "x1 * x2 + x1 * x3 + x2 * x3 = - 2 * l * m" "x1 * x2 * x3 = m ^ 2 - 7"
        using tangent_sums [OF c(1) l m_def x3_def] 2(1) by simp_all
    qed (use 2 assms(1) oc a PQ in \<open>simp_all add: m_def algebra_simps\<close>)
  next
    case 3
    define l where "l = (y2 - y1) / (x2 - x1)"
    define m x3 where "m = y1 - l * x1" and "x3 = l ^ 2 - x1 - x2"
    have l: "l * (x2 - x1) = y2 - y1" using 3 by (simp add: l_def)
    have a: "pt_add P Q = Pt x3 (l * (x1 - x3) - y1)" using 3 PQ by (simp add: pt_chord_def l_def x3_def Let_def)
    show ?thesis unfolding a unfolding PQ
    proof (rule iprod_chord)
      show "x1 + x2 + x3 = l ^ 2" "x1 * x2 + x1 * x3 + x2 * x3 = - 2 * l * m" "x1 * x2 * x3 = m ^ 2 - 7"
        by (rule chord_sums [OF c 3 l m_def x3_def])+
      show "y2 = l * x2 + m" using l by (simp add: m_def algebra_simps)
    qed (use assms(1) oc a PQ in \<open>simp_all add: m_def algebra_simps\<close>)
  qed
qed (simp_all add: iprod_UNIV iprod_UNIV_right ideal_pid ideal_UNIV iequiv_refl del: pid.simps(2))


section \<open>Points with equivalent ideals are equal\<close>

fun lin_pol :: "point \<Rightarrow> pol" where
  "lin_pol Infty = 1"
| "lin_pol (Pt u v) = var - con u"

lemma lead_lin_pol: "lead (lin_pol P) (if P = Infty then 0 else 1)"
  using lead_con [of 1] by (cases P) (simp_all add: con_simps lead_lin [unfolded One_nat_def])

lemma iprod_neg_pid: "on_curve P \<Longrightarrow> iprod (pid P) (pid (pt_neg P)) = scal (emb (lin_pol P)) UNIV"
  using iprod_neg by (cases P) (simp_all add: iprod_UNIV ideal_UNIV emb_simps xx_def kk_def del: pid.simps(2))

lemma conj_pid: "conj_crd ` pid P = pid (pt_neg P)"
proof -
  have sub: "conj_crd ` pid P \<subseteq> pid (pt_neg P)" for P
  proof (cases P)
    case (Pt u v)
    show ?thesis
    proof
      fix z assume "z \<in> conj_crd ` pid P"
      then obtain r s where "z = conj_crd (r * (xx - kk u) + s * (yy - kk v))" unfolding Pt by auto
      then have "z = conj_crd r * (xx - kk u) + (- conj_crd s) * (yy - kk (- v))"
        unfolding xx_def kk_def conj_simps by (simp add: con_simps emb_simps algebra_simps)
      then show "z \<in> pid (pt_neg P)" unfolding Pt pt_neg.simps pid.simps by blast
    qed
  qed simp
  have "pt_neg (pt_neg P) = P" by (cases P) simp_all
  then have "conj_crd ` conj_crd ` pid (pt_neg P) \<subseteq> conj_crd ` pid P" using sub [of "pt_neg P"] by (intro image_mono) simp
  then show ?thesis using sub [of P] by (auto simp: image_image conj_simps)
qed

lemma conj_iprod: "conj_crd ` iprod I J = iprod (conj_crd ` I) (conj_crd ` J)"
proof -
  have sub: "conj_crd z \<in> iprod (conj_crd ` I) (conj_crd ` J)" if "z \<in> iprod I J" for z I J
    using that
  proof (induction rule: iprod.induct)
    case (step i j z)
    then show ?case unfolding conj_simps by (intro iprod.step) simp_all
  qed (simp add: conj_simps iprod.zero)
  show ?thesis
  proof
    show "conj_crd ` iprod I J \<subseteq> iprod (conj_crd ` I) (conj_crd ` J)" using sub by blast
    show "iprod (conj_crd ` I) (conj_crd ` J) \<subseteq> conj_crd ` iprod I J"
    proof
      fix z assume "z \<in> iprod (conj_crd ` I) (conj_crd ` J)"
      from sub [OF this] have "conj_crd z \<in> iprod I J" by (simp add: image_image conj_simps)
      then show "z \<in> conj_crd ` iprod I J" by (intro image_eqI [of _ _ "conj_crd z"]) (simp_all add: conj_simps)
    qed
  qed
qed

lemma conj_scal: "conj_crd ` scal f UNIV = scal (conj_crd f) UNIV"
proof -
  have "surj conj_crd" by (rule surjI [of _ conj_crd]) (simp add: conj_simps)
  then show ?thesis unfolding scal_def image_image conj_simps by (metis image_image)
qed

lemma cf_var_mult: "cf (var * p) i = (if i = 0 then 0 else cf p (i - 1))"
proof -
  have "(\<Sum>k\<le>i. (if k = 1 then 1 else 0) * cf p (i - k)) = (\<Sum>k\<le>i. if k = 1 then cf p (i - 1) else 0)"
    by (rule sum.cong) simp_all
  then show ?thesis by (auto simp: times_pol.rep_eq cf_var)
qed

lemma quadratic_eq_0:
  assumes "con a * (var * var) + con b * var + con c = 0"
  shows "a = 0" "b = 0" "c = 0"
proof -
  have e: "a * cf (var * var) i + b * cf var i + cf (con c) i = 0" for i
    using arg_cong [OF assms, of "\<lambda>p. cf p i"] by (simp add: plus_pol.rep_eq cf_con_mult zero_pol.rep_eq)
  show "a = 0" "b = 0" "c = 0" using e [of 2] e [of 1] e [of 0] by (simp_all add: cf_var_mult cf_var cf_con)
qed

lemma lead_0: "lead p 0 \<Longrightarrow> \<exists>c. c \<noteq> 0 \<and> p = con c"
  by (rule exI [of _ "cf p 0"]) (auto simp: lead_def cf_con intro!: pol_eqI)

lemma lead_1: "lead p 1 \<Longrightarrow> \<exists>a b. b \<noteq> 0 \<and> p = con a + con b * var"
  by (rule exI [of _ "cf p 0"], rule exI [of _ "cf p 1"])
    (auto simp: lead_def cf_con plus_pol.rep_eq cf_con_mult cf_var not_less_eq intro!: pol_eqI dest!: less_antisym)

text \<open>A square that is the product of two linear factors up to a constant is the square of one of them.\<close>

lemma square_of_linear:
  assumes "lead p 1" "(var - con u) * (var - con u') = p * p * con c"
  shows "\<exists>d. d \<noteq> 0 \<and> p = con d * (var - con u)"
proof -
  obtain a b where p: "b \<noteq> 0" "p = con a + con b * var" using lead_1 [OF assms(1)] by blast
  have "con (c * b * b - 1) * (var * var) + con (2 * a * b * c + (u + u')) * var + con (a * a * c - u * u') = 0"
    using assms(2) unfolding p(2) con_simps con_mult con_numeral by algebra
  then have q: "c * b * b = 1" "2 * a * b * c + (u + u') = 0" "a * a * c = u * u'"
    using quadratic_eq_0 [of "c * b * b - 1" "2 * a * b * c + (u + u')" "a * a * c - u * u'"] by simp_all
  have "(a + b * u) * (a + b * u) * c = 0" using q by algebra
  moreover have "c \<noteq> 0" using q(1) by auto
  ultimately have "a = - (b * u)" by (simp add: eq_neg_iff_add_eq_0)
  then have "p = con b * (var - con u)" unfolding p(2) by (simp add: con_simps con_mult algebra_simps)
  then show ?thesis using p(1) by blast
qed

lemma scal_unit: "c \<noteq> 0 \<Longrightarrow> scal (kk c * f) UNIV = scal f UNIV"
proof -
  assume c: "c \<noteq> 0"
  have "scal (kk c) UNIV = UNIV"
  proof (rule ideal_one [OF ideal_scal [OF ideal_UNIV]])
    show "1 \<in> scal (kk c) UNIV" unfolding scal_def
      using kk_inverse [OF c] by (intro image_eqI [of _ _ "kk (inverse c)"]) (simp_all add: mult.commute)
  qed
  then have "scal f (scal (kk c) UNIV) = scal f UNIV" by simp
  then show ?thesis by (simp add: scal_scal mult.commute)
qed

lemma emb_dvd:
  assumes "scal (emb p) UNIV = scal (emb q) UNIV"
  shows "\<exists>t. p = q * t"
proof -
  have "emb p \<in> scal (emb p) UNIV" unfolding scal_def by (rule image_eqI [of _ _ 1]) simp_all
  then obtain z where "emb p = emb q * z" unfolding assms by (auto simp: scal_def)
  moreover obtain a b where "z = Crd a b" by (cases z)
  ultimately show ?thesis by (auto simp: emb_def)
qed


lemma principal_quotient:
  assumes "on_curve A" "iequiv (pid A) (pid B)"
  shows "\<exists>f. iprod (pid B) (pid (pt_neg A)) = scal f UNIV"
proof -
  let ?J = "iprod (pid B) (pid (pt_neg A))"
  obtain a b where ab: "a \<noteq> 0" "b \<noteq> 0" "scal a (pid A) = scal b (pid B)" using assms(2) unfolding iequiv_def by blast
  define c where "c = a * emb (lin_pol A)"
  have e: "scal b ?J = scal c UNIV"
    unfolding c_def scal_scal [symmetric] iprod_neg_pid [OF assms(1), symmetric] scal_iprod [symmetric] ab(3) ..
  have "c \<in> scal c UNIV" unfolding scal_def by (rule image_eqI [of _ _ 1]) simp_all
  then obtain f where "c = b * f" unfolding e [symmetric] by (auto simp: scal_def)
  then have "scal b ?J = scal b (scal f UNIV)" unfolding e scal_scal by simp
  then have "?J = scal f UNIV" by (rule scal_cancel [OF ab(2)])
  then show ?thesis by blast
qed

lemma pid_equiv_inj:
  assumes c: "on_curve A" "on_curve B" and e: "iequiv (pid A) (pid B)"
  shows "A = B"
proof -
  obtain f where f: "iprod (pid B) (pid (pt_neg A)) = scal f UNIV" using principal_quotient [OF c(1) e] by blast
  have "iprod (pid (pt_neg B)) (pid A) = scal (conj_crd f) UNIV"
  proof -
    have "pt_neg (pt_neg A) = A" by (cases A) simp_all
    then show ?thesis using arg_cong [OF f, of "image conj_crd"] unfolding conj_iprod conj_pid conj_scal by simp
  qed
  then have "iprod (iprod (pid B) (pid (pt_neg A))) (iprod (pid (pt_neg B)) (pid A)) = scal f (scal (conj_crd f) UNIV)"
    unfolding f by (simp add: iprod_principal ideal_scal ideal_UNIV)
  also have "\<dots> = scal (emb (norm_crd f)) UNIV" unfolding scal_scal norm_conj ..
  also have "iprod (iprod (pid B) (pid (pt_neg A))) (iprod (pid (pt_neg B)) (pid A))
      = iprod (iprod (pid B) (pid (pt_neg B))) (iprod (pid A) (pid (pt_neg A)))"
    by (metis iprod_assoc iprod_commute)
  also have "\<dots> = scal (emb (lin_pol B * lin_pol A)) UNIV"
    unfolding iprod_neg_pid [OF c(1)] iprod_neg_pid [OF c(2)] emb_simps(5)
    by (simp add: iprod_principal ideal_scal ideal_UNIV scal_scal)
  finally have n: "scal (emb (lin_pol B * lin_pol A)) UNIV = scal (emb (norm_crd f)) UNIV" .
  obtain t t' where t: "lin_pol B * lin_pol A = norm_crd f * t" "norm_crd f = lin_pol B * lin_pol A * t'"
    using emb_dvd [OF n] emb_dvd [OF n [symmetric]] by blast
  define d where "d = (if B = Infty then 0 else 1) + (if A = Infty then 0 else 1 :: nat)"
  have d: "lead (lin_pol B * lin_pol A) d" unfolding d_def by (intro lead_mult lead_lin_pol)
  have nz: "norm_crd f \<noteq> 0" "t \<noteq> 0" "t' \<noteq> 0" using t lead_nonzero [OF d] by auto
  then obtain k j j' where k: "lead (norm_crd f) k" "lead t j" "lead t' j'" using lead_ex by metis
  have "lead (lin_pol B * lin_pol A) (k + j)" unfolding t(1) by (rule lead_mult [OF k(1,2)])
  moreover have "lead (norm_crd f) (d + j')" unfolding t(2) by (rule lead_mult [OF d k(3)])
  ultimately have kd: "d = k + j" "k = d + j'" using lead_unique d k(1) by blast+
  then have kd': "k = d" "j = 0" by simp_all
  obtain p q where pq: "f = Crd p q" by (cases f)
  have "q = 0"
  proof (rule ccontr)
    assume "q \<noteq> 0"
    then obtain m where "lead (norm_crd f) m" "3 \<le> m" using norm_lead [OF pq] by blast
    then have "3 \<le> d" using lead_unique [OF k(1)] kd'(1) by simp
    then show False by (simp add: d_def split: if_splits)
  qed
  then have np: "norm_crd f = p * p" using pq by simp
  then have "p \<noteq> 0" using nz(1) by auto
  then obtain i where i: "lead p i" using lead_ex by blast
  then have "lead (norm_crd f) (i + i)" unfolding np by (intro lead_mult)
  then have di: "d = i + i" using lead_unique k(1) kd'(1) by blast
  show ?thesis
  proof (cases "A = Infty \<or> B = Infty")
    case True
    have "even d" using di by simp
    then show ?thesis using True by (auto simp: d_def split: if_splits)
  next
    case False
    then have "i = 1" using di by (simp add: d_def)
    obtain u v u' v' where A: "A = Pt u v" and B: "B = Pt u' v'" using False by (metis point.exhaust)
    obtain w where w: "t = con w" using lead_0 k(2) kd'(2) by blast
    have "(var - con u) * (var - con u') = p * p * con w"
      using t(1) unfolding np w A B by (simp add: mult.commute)
    then obtain h where h: "h \<noteq> 0" "p = con h * (var - con u)" using square_of_linear i \<open>i = 1\<close> by blast
    have fe: "f = kk h * (xx - kk u)" using pq \<open>q = 0\<close> h(2) by (simp add: kk_def xx_def emb_def)
    have "scal f UNIV = scal (emb (lin_pol A)) UNIV"
      unfolding fe scal_unit [OF h(1)] unfolding A lin_pol.simps emb_simps(4) xx_def kk_def ..
    then have "iprod (iprod (pid B) (pid (pt_neg A))) (pid A) = scal (emb (lin_pol A)) (pid A)"
      unfolding f by (simp add: iprod_principal ideal_pid)
    moreover have "iprod (iprod (pid B) (pid (pt_neg A))) (pid A) = iprod (pid B) (iprod (pid A) (pid (pt_neg A)))"
      by (metis iprod_assoc iprod_commute)
    moreover have "\<dots> = scal (emb (lin_pol A)) (pid B)"
      unfolding iprod_neg_pid [OF c(1)] by (simp add: scal_iprod_right iprod_UNIV_right ideal_pid)
    ultimately have "scal (emb (lin_pol A)) (pid A) = scal (emb (lin_pol A)) (pid B)" by simp
    moreover have "emb (lin_pol A) \<noteq> 0"
      using lead_nonzero [OF lead_lin_pol [of A]] emb_eq_iff [of "lin_pol A" 0] by (simp add: emb_simps)
    ultimately have "pid A = pid B" by (metis scal_cancel)
    then show ?thesis by (rule pid_inj [OF c])
  qed
qed

section \<open>The group laws\<close>

lemma pt_add_commute:
  assumes "on_curve P" "on_curve Q"
  shows "pt_add P Q = pt_add Q P"
proof (rule pid_equiv_inj)
  show "on_curve (pt_add P Q)" "on_curve (pt_add Q P)" using assms by (simp_all add: on_curve_pt_add)
  show "iequiv (pid (pt_add P Q)) (pid (pt_add Q P))"
    using iequiv_trans [OF iequiv_sym [OF iequiv_add [OF assms]]] iequiv_add [OF assms(2,1)]
    unfolding iprod_commute [of "pid Q"] by blast
qed

theorem pt_add_assoc:
  assumes "on_curve P" "on_curve Q" "on_curve R"
  shows "pt_add (pt_add P Q) R = pt_add P (pt_add Q R)"
proof (rule pid_equiv_inj)
  note c = on_curve_pt_add [OF assms(1,2)] on_curve_pt_add [OF assms(2,3)]
  show "on_curve (pt_add (pt_add P Q) R)" "on_curve (pt_add P (pt_add Q R))"
    by (rule on_curve_pt_add [OF c(1) assms(3)], rule on_curve_pt_add [OF assms(1) c(2)])
  have "iequiv (iprod (iprod (pid P) (pid Q)) (pid R)) (pid (pt_add (pt_add P Q) R))"
    using iequiv_iprod [OF iequiv_add [OF assms(1,2)]] iequiv_add [OF c(1) assms(3)] by (rule iequiv_trans)
  moreover have "iequiv (iprod (iprod (pid P) (pid Q)) (pid R)) (pid (pt_add P (pt_add Q R)))"
  proof -
    have "iequiv (iprod (iprod (pid Q) (pid R)) (pid P)) (iprod (pid (pt_add Q R)) (pid P))"
      by (rule iequiv_iprod [OF iequiv_add [OF assms(2,3)]])
    then have "iequiv (iprod (iprod (pid Q) (pid R)) (pid P)) (pid (pt_add P (pt_add Q R)))"
      using iequiv_add [OF assms(1) c(2)] unfolding iprod_commute [of "pid P"] by (rule iequiv_trans)
    moreover have "iprod (iprod (pid P) (pid Q)) (pid R) = iprod (iprod (pid Q) (pid R)) (pid P)"
      by (metis iprod_assoc iprod_commute)
    ultimately show ?thesis by simp
  qed
  ultimately show "iequiv (pid (pt_add (pt_add P Q) R)) (pid (pt_add P (pt_add Q R)))"
    using iequiv_sym iequiv_trans by blast
qed

lemma pt_add_neg: "pt_add (pt_neg P) P = Infty" "on_curve (pt_neg P) = on_curve P"
  by (cases P; simp)+

end
