(* ===== verification/Curve_Multiples.thy ===== *)
theory Curve_Multiples
  imports Curve_Group
begin

text \<open>
  The points of the curve as an abelian group, and the multiples of a point by an integer, which
  the multiplication functions of the library compute.
\<close>

section \<open>The group\<close>

typedef cpt = "{P. on_curve P}"
  morphisms cpt_pt Cpt
  by (rule exI [of _ Infty]) simp

setup_lifting type_definition_cpt

lemma cpt_on_curve [simp]: "on_curve (cpt_pt P)"
  using cpt_pt [of P] by simp

lemma cpt_eq_iff: "P = Q \<longleftrightarrow> cpt_pt P = cpt_pt Q"
  by (simp add: cpt_pt_inject)

instantiation cpt :: ab_group_add
begin

lift_definition zero_cpt :: cpt is Infty by simp
lift_definition plus_cpt :: "cpt \<Rightarrow> cpt \<Rightarrow> cpt" is pt_add by (rule on_curve_pt_add)
lift_definition uminus_cpt :: "cpt \<Rightarrow> cpt" is pt_neg by (simp add: pt_add_neg)
definition minus_cpt :: "cpt \<Rightarrow> cpt \<Rightarrow> cpt" where "minus_cpt P Q = P + - Q"

instance
proof
  fix P Q R :: cpt
  show "P + Q + R = P + (Q + R)" by transfer (rule pt_add_assoc)
  show "P + Q = Q + P" by transfer (rule pt_add_commute)
  show "0 + P = P" by transfer simp
  show "- P + P = 0" by transfer (rule pt_add_neg)
  show "P - Q = P + - Q" by (rule minus_cpt_def)
qed

end

lemma cpt_pt_add: "cpt_pt (P + Q) = pt_add (cpt_pt P) (cpt_pt Q)" by (rule plus_cpt.rep_eq)
lemma cpt_pt_neg: "cpt_pt (- P) = pt_neg (cpt_pt P)" by (rule uminus_cpt.rep_eq)
lemma cpt_pt_0 [simp]: "cpt_pt 0 = Infty" by (rule zero_cpt.rep_eq)
lemma cpt_pt_eq_Infty [simp]: "cpt_pt P = Infty \<longleftrightarrow> P = 0" by (simp add: cpt_eq_iff)

section \<open>Multiples\<close>

primrec nmul :: "nat \<Rightarrow> 'a::ab_group_add \<Rightarrow> 'a" where
  "nmul 0 P = 0"
| "nmul (Suc n) P = P + nmul n P"

definition zmul :: "int \<Rightarrow> 'a::ab_group_add \<Rightarrow> 'a" where
  "zmul k P = (if 0 \<le> k then nmul (nat k) P else - nmul (nat (- k)) P)"

lemma nmul_add: "nmul (m + n) P = nmul m P + nmul n P"
  by (induction m) (simp_all add: algebra_simps)

lemma nmul_mult: "nmul (m * n) P = nmul m (nmul n P)"
  by (induction m) (simp_all add: nmul_add)

lemma nmul_plus: "nmul n (P + Q) = nmul n P + nmul n Q"
  by (induction n) (simp_all add: algebra_simps)

lemma nmul_0 [simp]: "nmul n 0 = 0" by (induction n) simp_all
lemma nmul_neg: "nmul n (- P) = - nmul n P" by (induction n) simp_all

lemma zmul_nat [simp]: "zmul (int n) P = nmul n P" by (simp add: zmul_def)
lemma zmul_diff_nat: "zmul (int m - int n) P = nmul m P - nmul n P"
proof (cases "n \<le> m")
  case True
  then obtain d where "m = n + d" using le_Suc_ex by blast
  then show ?thesis by (simp add: nmul_add)
next
  case False
  then obtain d where d: "n = m + d" "0 < d" using less_imp_add_positive not_le by blast
  then have "zmul (int m - int n) P = - nmul d P" by (simp add: zmul_def)
  then show ?thesis by (simp add: d nmul_add)
qed

lemma int_diff_cases: obtains m n where "k = int m - int n"
  by (metis int_diff_cases)

lemma zmul_add: "zmul (j + k) P = zmul j P + zmul k P"
proof -
  obtain a b where j: "j = int a - int b" by (rule int_diff_cases)
  obtain c d where k: "k = int c - int d" by (rule int_diff_cases)
  have "j + k = int (a + c) - int (b + d)" by (simp add: j k)
  then show ?thesis by (simp only: zmul_diff_nat j k nmul_add) simp
qed

lemma zmul_simps [simp]: "zmul 0 P = 0" "zmul 1 P = P" "zmul k 0 = 0"
  by (simp_all add: zmul_def)

lemma zmul_minus: "zmul (- k) P = - zmul k P"
  using zmul_add [of k "- k" P] by (simp add: eq_neg_iff_add_eq_0 add.commute)

lemma zmul_diff: "zmul (j - k) P = zmul j P - zmul k P"
  using zmul_add [of j "- k" P] by (simp add: zmul_minus)

lemma zmul_plus: "zmul k (P + Q) = zmul k P + zmul k Q"
  by (simp add: zmul_def nmul_plus)

lemma zmul_neg: "zmul k (- P) = - zmul k P"
  by (simp add: zmul_def nmul_neg)

lemma zmul_sub: "zmul k (P - Q) = zmul k P - zmul k Q"
  using zmul_plus [of k P "- Q"] by (simp add: zmul_neg)

lemma zmul_mult: "zmul (j * k) P = zmul j (zmul k P)"
proof -
  obtain a b where j: "j = int a - int b" by (rule int_diff_cases)
  have n: "zmul (int n * k) P = nmul n (zmul k P)" for n
    by (induction n) (simp_all add: distrib_right zmul_add)
  show ?thesis by (simp only: j left_diff_distrib zmul_diff n zmul_nat)
qed

lemma zmul_2: "zmul 2 P = P + P"
  using zmul_add [of 1 1 P] by simp

lemma zmul_minus_one [simp]: "zmul (- 1) P = - P"
  by (simp add: zmul_minus)

text \<open>Horner's scheme, most significant digit first.\<close>

lemma zmul_horner: "zmul (2 * v + d) P = zmul v P + zmul v P + zmul d P"
  by (simp add: zmul_add zmul_mult zmul_2 distrib_right)

end
