(* ===== verification/Curve_Endo.thy ===== *)
theory Curve_Endo
  imports Curve_Multiples Group_Theorems
begin

text \<open>
  The endomorphism \<open>(x, y) \<mapsto> (beta x, y)\<close> of the curve that \<open>secp256k1_ge_mul_lambda\<close> computes: it
  is a homomorphism of the group and satisfies \<open>endo (endo P) + endo P + P = 0\<close>.
\<close>

lemma beta_quadratic: "beta_fp ^ 2 + beta_fp + 1 = 0"
proof -
  have "(beta_fp - 1) * (beta_fp ^ 2 + beta_fp + 1) = 0" using beta_fp_cube by algebra
  then show ?thesis using beta_fp_ne_1 by simp
qed

lemma beta_fp_ne_0: "beta_fp \<noteq> 0"
  using beta_fp_cube by auto

primrec pt_endo :: "point \<Rightarrow> point" where
  "pt_endo Infty = Infty"
| "pt_endo (Pt x y) = Pt (beta_fp * x) y"

lemma on_curve_endo: "on_curve P \<Longrightarrow> on_curve (pt_endo P)"
  using beta_fp_cube by (cases P) (simp_all add: power_mult_distrib)

lemma pt_chord_endo:
  assumes "m = l * beta_fp ^ 2"
  shows "pt_chord m (beta_fp * x1) y1 (beta_fp * x2) = pt_endo (pt_chord l x1 y1 x2)"
proof -
  have "m ^ 2 = beta_fp * l ^ 2" using beta_fp_cube unfolding assms by algebra
  then have e: "m ^ 2 - beta_fp * x1 - beta_fp * x2 = beta_fp * (l ^ 2 - x1 - x2)" by (simp add: algebra_simps)
  have "m * (beta_fp * x1 - beta_fp * (l ^ 2 - x1 - x2)) - y1 = l * (x1 - (l ^ 2 - x1 - x2)) - y1"
    using beta_fp_cube unfolding assms by algebra
  then show ?thesis by (simp add: pt_chord_def Let_def e)
qed

lemma pt_endo_add: "pt_endo (pt_add P Q) = pt_add (pt_endo P) (pt_endo Q)"
proof (cases P; cases Q)
  fix x1 y1 x2 y2 assume PQ: "P = Pt x1 y1" "Q = Pt x2 y2"
  have i: "inverse beta_fp = beta_fp ^ 2"
    using beta_fp_cube by (intro inverse_unique) (simp add: power2_eq_square power3_eq_cube mult.assoc)
  consider "x1 = x2" "y1 = - y2" | "x1 = x2" "y1 \<noteq> - y2" | "x1 \<noteq> x2" by blast
  then show ?thesis
  proof cases
    case 1 then show ?thesis by (simp add: PQ)
  next
    case 2
    have "3 * (beta_fp * x1) ^ 2 / (2 * y1) = 3 * x1 ^ 2 / (2 * y1) * beta_fp ^ 2"
      by (simp add: power_mult_distrib)
    from pt_chord_endo [OF this, of x1 y1 x1] 2 show ?thesis by (simp add: PQ)
  next
    case 3
    have "(y2 - y1) / (beta_fp * x2 - beta_fp * x1) = (y2 - y1) / (x2 - x1) * beta_fp ^ 2"
      unfolding right_diff_distrib [symmetric] i [symmetric] by (simp add: divide_inverse inverse_mult_distrib)
    from pt_chord_endo [OF this, of x1 y1 x2] 3 beta_fp_ne_0 show ?thesis by (simp add: PQ)
  qed
qed simp_all

lift_definition endo :: "cpt \<Rightarrow> cpt" is pt_endo by (rule on_curve_endo)

lemma endo_add: "endo (P + Q) = endo P + endo Q"
  by transfer (rule pt_endo_add)

lemma endo_0 [simp]: "endo 0 = 0"
  by transfer simp

lemma endo_nmul: "endo (nmul n P) = nmul n (endo P)"
  by (induction n) (simp_all add: endo_add)

lemma endo_minus: "endo (- P) = - endo P"
  using endo_add [of P "- P"] by (simp add: eq_neg_iff_add_eq_0 add.commute)

lemma endo_zmul: "endo (zmul k P) = zmul k (endo P)"
  by (simp add: zmul_def endo_nmul endo_minus)

lemma pt_endo_sum:
  assumes "on_curve P"
  shows "pt_add P (pt_endo P) = pt_neg (pt_endo (pt_endo P))"
proof (cases P)
  case (Pt x y)
  have "x \<noteq> 0" using assms on_curve_x_ne_0 unfolding Pt by blast
  then have ne: "x \<noteq> beta_fp * x" using beta_fp_ne_1 by simp
  have "0 - x - beta_fp * x = beta_fp * (beta_fp * x)" using beta_quadratic by algebra
  then show ?thesis using ne by (simp add: Pt pt_chord_def Let_def)
qed simp

lemma endo_quadratic: "P + endo P = - endo (endo P)"
  by transfer (rule pt_endo_sum)

end
