(* ===== verification/Curve_Chain.thy ===== *)
theory Curve_Chain
  imports Curve_Endo
begin

text \<open>
  A checker for chains of doublings and additions that compute the combination
  \<open>a * G + b * endo G\<close> for the generator \<open>G\<close>.  Every step gives the slope of the line and the
  quotients of the divisions by the field prime, so that it is checked on integers.
\<close>

definition gen :: cpt where
  "gen = Cpt gen_pt"

lemma cpt_gen [simp]: "cpt_pt gen = gen_pt"
  using gen_on_curve by (simp add: gen_def Cpt_inverse)

definition cpt_at :: "nat \<Rightarrow> nat \<Rightarrow> cpt \<Rightarrow> bool" where
  "cpt_at x y P \<longleftrightarrow> cpt_pt P = Pt (of_nat x) (of_nat y)"

definition comb :: "nat \<Rightarrow> nat \<Rightarrow> cpt" where
  "comb a b = nmul a gen + nmul b (endo gen)"

lemma comb_add: "comb a b + comb c d = comb (a + c) (b + d)"
  by (simp add: comb_def nmul_add)

text \<open>The field prime is \<open>fK - fC\<close>.\<close>

abbreviation (input) fK :: nat where "fK \<equiv> 115792089237316195423570985008687907853269984665640564039457584007913129639936"
abbreviation (input) fC :: nat where "fC \<equiv> 4294968273"

lemma field_prime_K: "int fK = field_prime + int fC" "nat field_prime + fC = fK"
  by (simp_all add: field_prime_def)

lemma fp_of_K: "(of_nat fK :: fp) = of_nat fC"
  unfolding of_nat_fp_eq_iff field_prime_K by simp

lemma fp_division:
  assumes "z + fC * q = fK * q + r"
  shows "(of_nat z :: fp) = of_nat r"
proof -
  have "(of_nat z :: fp) + of_nat fC * of_nat q = of_nat fK * of_nat q + of_nat r"
    by (simp only: assms flip: of_nat_add of_nat_mult)
  then show ?thesis unfolding fp_of_K by simp
qed

lemma fp_difference:
  assumes "d + y + fC = x + fK"
  shows "(of_nat d :: fp) = of_nat x - of_nat y"
proof -
  have "(of_nat d :: fp) + of_nat y + of_nat fC = of_nat x + of_nat fK"
    by (simp only: assms flip: of_nat_add)
  then show ?thesis unfolding fp_of_K by (simp add: algebra_simps)
qed

lemma fp_distinct:
  assumes "x + fC < fK" "u + fC < fK" "x \<noteq> u"
  shows "(of_nat x :: fp) \<noteq> of_nat u"
proof -
  have "int x < field_prime" "int u < field_prime" using assms(1,2) field_prime_K(2) by linarith+
  then show ?thesis using assms(3) by (simp add: of_nat_fp_eq_iff)
qed

lemma chord_value:
  assumes "(of_nat x3 :: fp) + (of_nat x + of_nat u) = m ^ 2" "m * (of_nat x - of_nat x3) = of_nat y3 + of_nat y"
  shows "pt_chord m (of_nat x) (of_nat y) (of_nat u) = Pt (of_nat x3) (of_nat y3)"
proof -
  have "m ^ 2 - of_nat x - of_nat u = (of_nat x3 :: fp)" using assms(1) by (simp add: algebra_simps)
  then show ?thesis using assms(2) by (simp add: pt_chord_def Let_def)
qed

lemma dbl_step:
  assumes P: "cpt_at x y P" and l: "l * (y + y) + fC * q1 = fK * q1 + 3 * sq x"
    and x3: "sq l + fC * q2 = fK * q2 + (x3 + (x + x))"
    and d: "d + x3 + fC = x + fK" and y3: "l * d + fC * q3 = fK * q3 + (y3 + y)"
  shows "cpt_at x3 y3 (P + P)"
proof -
  have p: "cpt_pt P = Pt (of_nat x) (of_nat y)" using P by (simp add: cpt_at_def)
  have y0: "(of_nat y :: fp) \<noteq> 0" using on_curve_y_ne_0 cpt_on_curve [of P] unfolding p by blast
  then have "(of_nat y :: fp) + of_nat y \<noteq> 0" by (metis mult_2 mult_eq_0_iff two_fp_ne_0)
  then have n: "(of_nat y :: fp) \<noteq> - of_nat y" by (simp add: eq_neg_iff_add_eq_0)
  have "(of_nat l :: fp) * (2 * of_nat y) = 3 * of_nat x ^ 2"
    using fp_division [OF l] by (simp add: sq_def power2_eq_square algebra_simps)
  then have s: "3 * of_nat x ^ 2 / (2 * of_nat y) = (of_nat l :: fp)" using y0 by (simp add: field_simps)
  have "pt_chord (of_nat l) (of_nat x) (of_nat y) (of_nat x) = Pt (of_nat x3) (of_nat y3)"
    using fp_division [OF x3] fp_division [OF y3] fp_difference [OF d]
    by (intro chord_value) (simp_all add: sq_def power2_eq_square)
  then show ?thesis using n s by (simp add: cpt_at_def cpt_pt_add p)
qed

lemma add_step:
  assumes P: "cpt_at x y P" and Q: "cpt_at u v Q" and ne: "x + fC < fK" "u + fC < fK" "x \<noteq> u"
    and e: "e + x + fC = u + fK" and f: "f + y + fC = v + fK" and l: "l * e + fC * q1 = fK * q1 + f"
    and x3: "sq l + fC * q2 = fK * q2 + (x3 + (x + u))"
    and d: "d + x3 + fC = x + fK" and y3: "l * d + fC * q3 = fK * q3 + (y3 + y)"
  shows "cpt_at x3 y3 (P + Q)"
proof -
  have pq: "cpt_pt P = Pt (of_nat x) (of_nat y)" "cpt_pt Q = Pt (of_nat u) (of_nat v)"
    using P Q by (simp_all add: cpt_at_def)
  note n = fp_distinct [OF ne]
  have "(of_nat l :: fp) * (of_nat u - of_nat x) = of_nat v - of_nat y"
    using fp_division [OF l] fp_difference [OF e] fp_difference [OF f] by simp
  then have s: "(of_nat v - of_nat y) / (of_nat u - of_nat x) = (of_nat l :: fp)" using n by (simp add: field_simps)
  have "pt_chord (of_nat l) (of_nat x) (of_nat y) (of_nat u) = Pt (of_nat x3) (of_nat y3)"
    using fp_division [OF x3] fp_division [OF y3] fp_difference [OF d]
    by (intro chord_value) (simp_all add: sq_def power2_eq_square)
  then show ?thesis using n s by (simp add: cpt_at_def cpt_pt_add pq)
qed

section \<open>Chains\<close>

text \<open>
  The multiples added are those of the digits \<open>(1, 0)\<close>, \<open>(0, 1)\<close> and \<open>(1, 1)\<close>.  An entry \<open>Dbl\<close> or
  \<open>Add\<close> ends with the coordinates it leads to.
\<close>

datatype digit = DG | DE | DS

primrec dig_a :: "digit \<Rightarrow> nat" where "dig_a DG = 1" | "dig_a DE = 0" | "dig_a DS = 1"
primrec dig_b :: "digit \<Rightarrow> nat" where "dig_b DG = 0" | "dig_b DE = 1" | "dig_b DS = 1"
primrec dig_x :: "digit \<Rightarrow> nat" where
  "dig_x DG = 55066263022277343669578718895168534326250603453777594175500187360389116729240"
| "dig_x DE = 85340279321737800624759429340272274763154997815782306132637707972559913914315"
| "dig_x DS = 91177636130617246552803821781935006617134368061721227770777272682868638699771"
primrec dig_y :: "digit \<Rightarrow> nat" where
  "dig_y DG = 32670510020758816978083085130507043184471273380659243275938904335757337482424"
| "dig_y DE = 32670510020758816978083085130507043184471273380659243275938904335757337482424"
| "dig_y DS = 83121579216557378445487899878180864668798711284981320763518679672151497189239"

datatype ec_step = Dbl nat nat nat nat nat nat nat | Add digit nat nat nat nat nat nat nat nat nat

fun ec_chain :: "nat \<Rightarrow> nat \<Rightarrow> nat \<Rightarrow> nat \<Rightarrow> ec_step list \<Rightarrow> nat \<Rightarrow> nat \<Rightarrow> nat \<Rightarrow> nat \<Rightarrow> bool" where
  "ec_chain a b x y [] a' b' x' y' \<longleftrightarrow> a = a' \<and> b = b' \<and> x = x' \<and> y = y'"
| "ec_chain a b x y (Dbl l q1 q2 d q3 x3 y3 # ss) a' b' x' y' \<longleftrightarrow>
     l * (y + y) + fC * q1 = fK * q1 + 3 * sq x \<and> sq l + fC * q2 = fK * q2 + (x3 + (x + x)) \<and>
     d + x3 + fC = x + fK \<and> l * d + fC * q3 = fK * q3 + (y3 + y) \<and>
     ec_chain (2 * a) (2 * b) x3 y3 ss a' b' x' y'"
| "ec_chain a b x y (Add g e f l q1 q2 d q3 x3 y3 # ss) a' b' x' y' \<longleftrightarrow>
     x + fC < fK \<and> x \<noteq> dig_x g \<and> e + x + fC = dig_x g + fK \<and> f + y + fC = dig_y g + fK \<and>
     l * e + fC * q1 = fK * q1 + f \<and> sq l + fC * q2 = fK * q2 + (x3 + (x + dig_x g)) \<and>
     d + x3 + fC = x + fK \<and> l * d + fC * q3 = fK * q3 + (y3 + y) \<and>
     ec_chain (a + dig_a g) (b + dig_b g) x3 y3 ss a' b' x' y'"

lemma ec_nil: "a = a' \<Longrightarrow> b = b' \<Longrightarrow> ec_chain a b x y [] a' b' x y"
  by simp

lemma ec_dbl:
  "l * (y + y) + fC * q1 = fK * q1 + 3 * sq x \<Longrightarrow> sq l + fC * q2 = fK * q2 + (x3 + (x + x)) \<Longrightarrow>
   d + x3 + fC = x + fK \<Longrightarrow> l * d + fC * q3 = fK * q3 + (y3 + y) \<Longrightarrow>
   ec_chain (2 * a) (2 * b) x3 y3 ss a' b' x' y' \<Longrightarrow>
   ec_chain a b x y (Dbl l q1 q2 d q3 x3 y3 # ss) a' b' x' y'"
  by simp

lemma ec_add:
  "x + fC < fK \<Longrightarrow> x \<noteq> dig_x g \<Longrightarrow> e + x + fC = dig_x g + fK \<Longrightarrow> f + y + fC = dig_y g + fK \<Longrightarrow>
   l * e + fC * q1 = fK * q1 + f \<Longrightarrow> sq l + fC * q2 = fK * q2 + (x3 + (x + dig_x g)) \<Longrightarrow>
   d + x3 + fC = x + fK \<Longrightarrow> l * d + fC * q3 = fK * q3 + (y3 + y) \<Longrightarrow>
   ec_chain (a + dig_a g) (b + dig_b g) x3 y3 ss a' b' x' y' \<Longrightarrow>
   ec_chain a b x y (Add g e f l q1 q2 d q3 x3 y3 # ss) a' b' x' y'"
  by simp

lemmas ec_eval = chain_eval dig_a.simps dig_b.simps dig_x.simps dig_y.simps rel_simps if_True not_False_eq_True

lemma dig_less: "dig_x g + fC < fK"
  by (cases g) simp_all

lemma endo_x: "beta_fp * of_nat (dig_x DG) = of_nat (dig_x DE)" "beta_fp * of_nat (dig_x DE) = of_nat (dig_x DS)"
proof -
  show "beta_fp * of_nat (dig_x DG) = of_nat (dig_x DE)"
    unfolding beta_fp_def of_nat_mult [symmetric] dig_x.simps
    by (rule fp_division [of _ 26438641408296132114761290994571098985836333119158771404572048992047309067915]) (simp only: chain_eval)
  show "beta_fp * of_nat (dig_x DE) = of_nat (dig_x DS)"
    unfolding beta_fp_def of_nat_mult [symmetric] dig_x.simps
    by (rule fp_division [of _ 40973927026035249816303162779058321673389327999404093526564873451702826608753]) (simp only: chain_eval)
qed

lemma dig_y_DS: "(of_nat (dig_y DS) :: fp) = - of_nat (dig_y DG)"
proof -
  have "(of_nat (dig_y DS + dig_y DG) :: fp) = of_nat 0"
    unfolding dig_y.simps by (rule fp_division [of _ 1]) (simp only: chain_eval)
  then show ?thesis unfolding of_nat_add eq_neg_iff_add_eq_0 by (rule trans) simp
qed

lemma gen_digits: "cpt_at (dig_x DG) (dig_y DG) gen" "cpt_at (dig_x DE) (dig_y DE) (endo gen)"
    "cpt_at (dig_x DS) (dig_y DS) (gen + endo gen)"
proof -
  have g: "gen_pt = Pt (of_nat (dig_x DG)) (of_nat (dig_y DG))"
    unfolding gen_pt_def gen_x_def gen_y_def dig_x.simps dig_y.simps ..
  have y: "dig_y DE = dig_y DG" by (simp only: dig_y.simps)
  have e: "cpt_pt (endo P) = pt_endo (cpt_pt P)" for P by (rule endo.rep_eq)
  show "cpt_at (dig_x DG) (dig_y DG) gen" by (simp only: cpt_at_def cpt_gen g)
  show "cpt_at (dig_x DE) (dig_y DE) (endo gen)"
    by (simp only: cpt_at_def e cpt_gen g pt_endo.simps endo_x y)
  show "cpt_at (dig_x DS) (dig_y DS) (gen + endo gen)"
    by (simp only: cpt_at_def endo_quadratic cpt_pt_neg e cpt_gen g pt_endo.simps pt_neg.simps endo_x dig_y_DS)
qed

lemma cpt_at_digit: "cpt_at (dig_x g) (dig_y g) (comb (dig_a g) (dig_b g))"
  using gen_digits by (cases g) (simp_all add: comb_def del: dig_x.simps dig_y.simps)

lemma ec_chain_comb:
  "ec_chain a b x y ss a' b' x' y' \<Longrightarrow> cpt_at x y (comb a b) \<Longrightarrow> cpt_at x' y' (comb a' b')"
proof (induction ss arbitrary: a b x y)
  case (Cons s ss)
  show ?case
  proof (cases s)
    case (Dbl l q1 q2 d q3 x3 y3)
    note c = Cons.prems(1) [unfolded Dbl ec_chain.simps]
    have "cpt_at x3 y3 (comb a b + comb a b)"
      using c by (elim conjE) (rule dbl_step [OF Cons.prems(2)])
    then have "cpt_at x3 y3 (comb (2 * a) (2 * b))" unfolding comb_add mult_2 .
    moreover have "ec_chain (2 * a) (2 * b) x3 y3 ss a' b' x' y'" using c by (elim conjE)
    ultimately show ?thesis by (intro Cons.IH)
  next
    case (Add g e f l q1 q2 d q3 x3 y3)
    note c = Cons.prems(1) [unfolded Add ec_chain.simps]
    have "cpt_at x3 y3 (comb a b + comb (dig_a g) (dig_b g))"
      using c by (elim conjE) (rule add_step [OF Cons.prems(2) cpt_at_digit _ dig_less])
    then have "cpt_at x3 y3 (comb (a + dig_a g) (b + dig_b g))" unfolding comb_add .
    moreover have "ec_chain (a + dig_a g) (b + dig_b g) x3 y3 ss a' b' x' y'" using c by (elim conjE)
    ultimately show ?thesis by (intro Cons.IH)
  qed
qed simp

end
