(* ===== verification/Curve_Order_Certificate.thy ===== *)
theory Curve_Order_Certificate
  imports Curve_Chain
begin

text \<open>
  A combination \<open>a * G + b * endo G\<close> with coefficients of 129 digits that is the point at infinity.
  Its norm \<open>a^2 - a b + b^2\<close> is the order of the group, so \<open>Curve_Order\<close> derives from it both that the
  order annihilates the generator and which multiple of the generator \<open>endo G\<close> is.
\<close>

lemma order_chain_0: "ec_chain 1 0 55066263022277343669578718895168534326250603453777594175500187360389116729240 32670510020758816978083085130507043184471273380659243275938904335757337482424
    [Dbl 207706472467934331185261960205895686252820046474922330199604857838526749527520 38645755854642855990185235606969586365614389627414045918008735623209750704320 372581399897303537084360589356167821136512530077321309132533345252285154690821 81292460333046534861896783477920749818876442289795948381273441455000762414306 145821448470549507593329997637748069186131030250758373790572554483164153866882 89565891926547004231252920425935692360644145829622209833684329913297188986597 12158399299693830322967808612713398636155367887041628176798871954788371653930,
     Dbl 1090446408056637440039408767227764001721096359553917625511685000168159212132619 21158774442042697955901866068551432453306081759452603001753738108428085161151 10269038037707512231972127684971873406793645925698903004690774681550609585138468 101969407168228119295074741180407001905125295191239172395338818686919528664577 960274354756398204031377257972502907579239159401109979864413840853076721032305 103388573995635080359749164254216598308788835304023601477803095234286494993683 37057141145242123013015316630864329550140216928701153669873286428255828810018,
     Dbl 531275026276112945680499423102951514700882312996635772272917291129267310021929 63108590758586697630476082284199002647287997088884801507185824193769117274279 2437585809218848367133462435005123638034976052152445350001435319689881227808182 197918605926799647829724464172624074883874990482488289139269489995478973718337 908086323140681354846515839373677347825222168619883891525916295587528217249837 21262057306151627953595685090280431278183829487175876377991189246716355947009 41749993296225487051377864631615517161996906063147759678534462689479575333124,
     Add DE 179870311252902368094734729258679751338241152994246993794104102733752392638969 106712605961849525350276205507579433875744351983152047636862025654186596820963 84740559779172736994060313579340823006197372855966668037171809217243376462139 131635165783958030499554260052086180981501149262220608963621484767672662256256 62016002293301284756661928043591707473090886674861064906686993118346104092819 127265494901732270836405543943042837597269233551379176187222058349981701112672 93137185360247574463821079760151975425638153117034738685719650420731458810617 9788651641735552540761126155925501534184580601437264230226714904643489506000 56325461831952365794842700550988090755452405650816964708444748564441912346213,
     Dbl 24066223328531782503814493097250446731868311574049713328751296312741424242667 20930870149548180430919643078713040740509567158598136610322708451510930517234 5001922921623169532939031455836093289186792274671183878835585765070695258121 13116556757259263295462081131612237729322646016763131106415982644034869241997 2726144646847210739025784054839372764056186902332070139700376068140616456100 112464184121792484668870030033001171658131919250314697163268316268517454935666 3676653612846503146740664478461188058684152667548718321728374893498009845486,
     Add DS 94505541246140957307504776757621742812272433477047094646966540422260018435768 195237014841027070722318220408407584463384543283073166481247888786562322015416 26240954002922391916693165820446052712579778971104061681616338052568999043472 21416968785999501384277246328490656852105071006512786297019863836080292575160 5946759157028650251521529678104395139074178369019040907591741556681173756471 133081163731761611169348100958824740205359253839029381897149398900535044009255 30159026572042539547404245471917409369047970004396371185733625041624465143560 95175109627347068923092914082864339306042650076925879305576501375891245598074 100898642397164641760829414642556829828293659407151486670436274832680146547594]
    17 3 95175109627347068923092914082864339306042650076925879305576501375891245598074 100898642397164641760829414642556829828293659407151486670436274832680146547594"
  by ((rule ec_dbl ec_add, (simp only: ec_eval)+)+, rule ec_nil, (simp only: ec_eval)+)

lemma order_chain_1: "ec_chain 17 3 95175109627347068923092914082864339306042650076925879305576501375891245598074 100898642397164641760829414642556829828293659407151486670436274832680146547594
    [Dbl 188513982428630786203570577501070345167114665094264860173996989344310601224854 93846698800465145804715362413359136147265753747261594382388226188806624236148 306908026318342625833009969820066547928594944592482488716582393834481665433268 166019123376346298502174969589105701873860281225163414038004572416316921229253 270285529116260259121146269408613340227844046479810764531479558367774855466383 44948075488316965844488929502446545285452353517403029307029512967483159040484 45810979491528881651665046675571343181587829099479549248472050073062449701539,
     Dbl 82021675762459599828965885437919839178495811707783385956404084691327120202731 12556973034137436975503626757739711183973835874819986456548391561732146692750 58100301490319516338482962951414564453303394803699587440533246195815480522489 112891571832944831678752873673516317847152959932968874292187792245449774463961 79967085508049979725408058994993868247509711988208711932560022308739425907573 47848592892688329589307040837618135291569378250074719054299304729942219248186 10793191935207882681304983505243828414492414682171714594722860763863483372053,
     Add DG 123009759366905209503842663066238306887951209869343439160658466638355732152717 137669407322867129720349086633951122623248843364128092720673627579802688782034 28113824322094654330346504055930988444342063650060132728699358890406019747290 29866243778161451618602565683592513743154586529173162967910962969355484051392 6825916374940782402958161878911043005798396219840830527774540899809898095097 125518893740047747239261387148995951951877619807132848521520157492718072689486 30475450878851065138158064159124802000850364703234182616580809897141615346627 38121788389956777773616638697310091192961743108582434572236731245132981230363 66046499180299752648263456009689483898847786884380328315315278222901397090186,
     Dbl 120387586183433845954550197629350684307741459254044908673705347215356457262344 99683363952112927709292377866172073158936087537044927715081873473996541879547 125165466851279619391058171688358000864417427058814719974494327761686726155024 80243296170003357225516879279152784469855601206022469495423031280160015873328 83427950881085514587491441418633128786767823361464873779608038172258292616182 73670581457269615971670744426845214576376126568200529116271283972881800028698 37715319466018248145401186007239854466440650001079313819090637424436520619980,
     Dbl 306655202333376798505217747810863583921142098348849542466892993247771298561219 59150276777937990164738170181092451296655433806359109031060706541206751107556 812122950173170589705300414881192032143593642425346689729635233842412052364856 149011267428604038326177402474267972860493321662174346020021742161920184267324 394630416155798884213651293630469188489978521739780860522908348709734084430463 40451403265981773069064326961265149569152789571666747135707125818870450433037 73924204428695744300693229310721224564379988630884899790454058665163394618007,
     Dbl 115891502426858112117351844786589749555066300903478499334927605315459973027075 105580840935395940990192714204789851722679723707574365594964481124997519142561 115991000967500609109465787805059502212704346626545801422050865098830669744413 155308073252055623690230998479341087493046380615816105222230153866958486583968 155441412852586993680742663642498815577055587278355075892381140818450705199575 935419251242344802404313490611969929376393621491205952934555959820798520732 106114533165018724778301610622524374793825256681495534082091479211821718172368]
    552 96 935419251242344802404313490611969929376393621491205952934555959820798520732 106114533165018724778301610622524374793825256681495534082091479211821718172368"
  by ((rule ec_dbl ec_add, (simp only: ec_eval)+)+, rule ec_nil, (simp only: ec_eval)+)

lemma order_chain_2: "ec_chain 552 96 935419251242344802404313490611969929376393621491205952934555959820798520732 106114533165018724778301610622524374793825256681495534082091479211821718172368
    [Add DS 206034306116691097173970493300010944541027959105870585857300300730956674850702 92799135288854849090757274264344397728243439269126350720884784468238613688534 45394268282326041682557021870375231225992308754093066700925194506898814776493 80772154892683769957477977916365504435285361549740439908250732517667837198304 17796030855480167928219102212462423451528920496238539463686442813782905495794 24455598047279441427491623025878278314620121476096257544905805042355742519271 9587390521019866790981638137842407065063716595029967927186829622872721205374 92271910441279098798483675473421599468026256811035512447486334925373890673124 79069690709289717456654514203344034657405360887669630584889411424382011007273,
     Dbl 269037894643620200006464499256931919236805741708336825972867419745265471964628 146842240947917518524169830335055990471667707382504745181701992655446915512520 625097873533707761253524843358656872408161278280001497368053542019686490998524 156372084914102636589925464599617496465942756091172831930892599568744981138063 363323753664215919701051836828290768383817335801604645576719823869995473384605 51691914764492657632129195882492010855353485385503244556051319364537744206724 13076056950364522916973939965368332815986765061455777425429466518265415480176,
     Add DG 119166437495100881461020508021364431324167102733914913658906452003760207194179 135386542307710489484680130173826618221754492984844029889967021825400756673911 77525141332963014026266491937713283439970038927853697820433623938896681207378 79784335612247947800090012118682123788290064642506023228337223445253352028977 51904647185163719918906780355262655127936288851651197293085871122333745343478 164575180850720490847933085013180939049053026338323332814114505195388886643381 110186405991872515549493735307196935985131177963032184706154284892673266252603 2908823151088362207767095877998979659570443712820475781394398177057692235006 11231744304539719369588110879412369274403560649061075263178012246561452496053,
     Dbl 102174772918719950761612533227635194514650238071485077285151175987273952679147 19602531625196111794409815505938745662683240759183675116512403186817093173598 90158872594446648406971762938173980470565449960493149587984127318953856047730 53309138264710304611551498419410568328140995533518099064399513845724189204062 47039906893173748376432378177392934779882787799342976468706004543879922345356 65391774123694253019786582467276319184699432844942940756452468339242337702607 66264147928899196867492634458999576497902422242034515271570487492999789752033,
     Dbl 163366244765617207705625250307269078065052225954557796236208742151937752795940 76191713168426818356323128153352046578004492297381619569185399961802722968811 230486642952968389005331287723081623307564671821719876722391236149428699142901 171829681698148907152470746414737455629399482488862707127708723726988419610247 242427354262223841878989151438490344897979382777598087257559373631476364207817 9354181662861541290886821061226771408569935021720797668201328620162752764023 73439497918173648083304275024186942247137287121664495508332649839681241255476,
     Dbl 96461771723720770268383383838366386489576326520916924608739505210032155143565 120092021097657539328074165390746222682040398914421159299948217315950593454011 80358455101443528738186415423345101832788678059693675182856059456202179500196 19799090507715809281280845377755676815437886605602001558253769688332436200455 16493832708884935432874747585723449517110427316969195751178028003031800270830 105347180392461927433176960692159002446402033081759360149405142939739151235231 44273793663769570116605773697692963017877474617746534076216628684574875576309]
    8856 1552 105347180392461927433176960692159002446402033081759360149405142939739151235231 44273793663769570116605773697692963017877474617746534076216628684574875576309"
  by ((rule ec_dbl ec_add, (simp only: ec_eval)+)+, rule ec_nil, (simp only: ec_eval)+)

lemma order_chain_3: "ec_chain 8856 1552 105347180392461927433176960692159002446402033081759360149405142939739151235231 44273793663769570116605773697692963017877474617746534076216628684574875576309
    [Add DG 65511171867131611659972743211697439733118555037658798065552628428558800165672 104188805594305442285048296441501988019863783428553273239179859659091296577778 100226002755163572505314825303791369804801210153357255687746590395132736671449 56704416815489448232720946089074543128465004365648518711031479330144554780650 86752486240146216281791809470779243526614027486122001947899199203905151396615 115120555665233391913034720930983419565423795077809137725467961832315896732509 99644744345465014723735266391738299778074448399778254636284739336953016825746 106018713964544730943713224769863490734248222669590786463394765115332089174385 86042128761391865824952162097759697017027037328542490987163423827104499823634,
     Dbl 250613187084722507015447188580595059974092098363527275615646053909697823622375 81237683461484938121388180019049757338245279129541193312864013617944515046775 542411575388704426688141654711268089911586424122890642576918019636238206083547 173132632151331671145469752632503087108532731139132623739816598884905392982854 374717487330983367868741159216095883825388538939006526689269390092389774752096 48678171050529255221814457146048311478985476196098726763035750238335530863194 89301332218157621897060680208305143845026625538550215385054792415284664878968,
     Add DE 152454197508524740826515957202911871137439506285324143409059541742133217722784 59161267039917390504593389930889807192714632507749591930341695928381507275119 50879408148510251708635980430926716310107443848593929911373940689212291544864 66988853816190198357952192753217815235767371104275102453524800488949076587839 22356571943676694557271235896807556701031986902902956496762199166170797882477 104261404885600054843515021708189662736703768319253643165052165683116041683121 45812789183200668981477148424143859583523548046466241911997124274503563888021 60208855402245395801870420446546556595551692542485647637441168563128323851736 43467320733890658915887663502284199733366987575462641703719939604181944312653,
     Dbl 188198683284171885807984325352947874438796928546463349310143374548277095643509 47375138367437525148551380073201449564074608102850124621607364630166894685182 305882246560947936509487260030160858177923292224531886967983747688234250769563 133660863466428785417403698445288844615963021889320710106336841509221171387059 217241079910498420878788378129770647301368077253065408145136057491043943799096 42340081173132805808037707009945619832858655318805501570561911061815987136340 73360290540061802366822854462128555689815479092530748196215594203671779420730,
     Add DS 164629644194800636168337099780677294637545697408556290239672945628961486235094 125553377913811771502236030424740216832253216858091136606760669476388552440172 62421144394075609821240954631632932885126881116825427344491453869541306098439 88748470292884107762373048012576245654218066457364641341296043658082583012338 33649960831783216637741140840360758846729384463310870620756772837722597458383 92006020023709347440037907849973909060651163574807471791066088071189201308322 49598561515317606209454298563717377360760167481511062887121841434824464148547 66126150386739653791570784168659618625477476409638593818953406998535620499681 40708997472190707335263817105465595777055002913145193236658470497036738964967,
     Dbl 192351899167633734442198724711103507944248018399693439315433081218206891245014 21960935982869733579038949935489615952260753724202986319538304510909609548511 319531786299886752188672262102494343864529082441275373825672782066787099263566 87290776171527609242610308758046950880619872249832835612602009125267424840768 145005990366042141388788691380860264314669498161768819707648189257422792756541 94627463452528239972531460419300575598127588825446322245808981881177030330576 41851485009377173321939426340225404179567827829950416997035755680691054368102]
    70858 12422 94627463452528239972531460419300575598127588825446322245808981881177030330576 41851485009377173321939426340225404179567827829950416997035755680691054368102"
  by ((rule ec_dbl ec_add, (simp only: ec_eval)+)+, rule ec_nil, (simp only: ec_eval)+)

lemma order_chain_4: "ec_chain 70858 12422 94627463452528239972531460419300575598127588825446322245808981881177030330576 41851485009377173321939426340225404179567827829950416997035755680691054368102
    [Dbl 391037263005064962690594778793741377255060842322700582482323861775054041626497 50676257953371155989202242239941320266869784572915511311430486190182236357620 1320557751964407566411409360443087787855512571012816128861244669274046660289551 168602244766771849092613161438946544213882493446401482440301010359782267865695 569380523007796170128906655862170033126154814812652096604515417255958816541546 41817307923072586303489283989041939237515080044685403844965555529303597136544 103792382870482364388022786933454225249442538381197155224213346577791386541315,
     Add DE 159315060635981409744841130359918243378909902436737466327129736451165151449434 44670216387592648013631283205740725788298719665102652091183141765874785612772 106606612867077247917794847546639333093490976715194476217616454886871954658068 146677023490837742335621109550105718338072085103357739080573925499097314557980 98149795740349274903598783172762465958424869398568829022046036694144436702682 122148176003080387614393733916701920053394541702356908079071928970674966866608 112458488290091954296254380044862094229448447979368848197043654219153323123810 35461221157308394112666535081027927037390523007969059805351210566537464941599 61374368847163936441005115419426722296693365596351461431820459697409772855999,
     Dbl 135828892312664566411368156078351858578123645543156257797156432561742915794902 111409428233534152902089809528568240147118090364681740510861265740196110168511 159332888009932635000868783999949404683600549360892571443907076745031916614363 143883843131783845080256474050831777993419566098164234208166124559842395202525 168781677254520933497446618663142424698197101810077998594197441683754453383087 7369467262840744455981046038884056897240941575445389636642670014603904410737 77854313056415229752191563621374398535292314334334399772112845410168677307870,
     Add DS 199600258105092697520393760751738857573163411151916402173592186676173568960697 121059355397458344116867321265494373986776381616287485030863418269891654553032 72118853151366982233689694609140080699772458339808253747855643191657170859846 124317142890078234530153276790157331142923249617338678760915883520841864581010 44917826546930227691364668061789082438948158507466580447082634964892608323387 99117142871508594773108185789829319576056670233881076562988729867339376131773 61733186771361418505990238175926280919625728380143622125499350889809913740412 24044413628648345106443845257742645174454256007204877113111524155173362950627 35778265368641111578391401462576436309665808145402275935112049409610898833932,
     Dbl 29351032159463623541400383605426472430736240105647522061238555442881320173316 3159598872969663636479633143164230895644367793394664434854536700032983561099 7439913162463594332685636419629944039372298397131937964916759654809144145597 32335034054921107791667457236697806244194286527376393742457342908372807205499 8196299338534485844082542621080492165215627181224118340570888705528638803035 107501468811043432738347373029732746783529954145469047410111765254709390416791 31378553998920330441318191567558949480871850816501877157778079395585856533547,
     Dbl 616823540390445603309100591938142115437647605969524369504347283682755915503575 34893265825937874251838821330483437628374120147640784720877870137566649490089 3285814104278115031478247655303329035132630194205353297068407435380586620354635 209007419674318531659662201177241797284402405215046097023539181707524013349416 1113380865830665864577308270649408391623373561501454608306473233943284582337449 14286138374041096502256156861178857352397533596063514426030167555094211739038 83925476775273046578309096965940932704259783235223988949836137176681231620966]
    1133732 198764 14286138374041096502256156861178857352397533596063514426030167555094211739038 83925476775273046578309096965940932704259783235223988949836137176681231620966"
  by ((rule ec_dbl ec_add, (simp only: ec_eval)+)+, rule ec_nil, (simp only: ec_eval)+)

lemma order_chain_5: "ec_chain 1133732 198764 14286138374041096502256156861178857352397533596063514426030167555094211739038 83925476775273046578309096965940932704259783235223988949836137176681231620966
    [Add DS 192683586993892345474118649929444057118006819131298277384204689135683261632396 114988191678600527290749787920927839817808912715397895853140126503379100239936 18596733193154995779973822726978171816278140075444305915431678243333572709682 30945855469293185721013058415573695661646330221674111154558966207251609056872 2986719453248623126048973183543811806585370114025633763416910243641669489065 67397660977634019857124657352153456204349154092287643807498148678928284173481 10824369154225861277738176220532835970577809038692647723242060151779846694119 62680566633723272068702484517713309001318364169416434657989602884074762237220 6559700422072953070724549441205443052108183593271479510557234062174346672179,
     Dbl 989762621778350458306806310280782461412650978006786851458279085997615076526067 10350726746390175660142707210627860310503240793043270340841493876283977831422 8460250211582240548421769430950424686126739500394811746268254605345729639948152 113513822086729589538112388900870878743351898661723917790203218653415454511610 970288548178602396473332205336970678119257681499287679915142473037255259693822 64958833784309877954161080625530338111236450173333080907243968238568142397273 18368397011910117469200271171429041655473579165684716492680921290251292899705,
     Dbl 444109061718326140277439199886046904522526045240076023645370749269087408115812 31575497848666012679550426457492228222234466684843653559402284050144149280091 1703336212339193115146190100946189348451105185608753869651135928612657517140136 129083978334208146919436270863306812056668404417416522815429728034105576610306 495088782648884881421291089389703986342882064288619755299500248334448270078056 51666944687417926458295794770911433907838030421557122131271824212371400458630 112375824194585954698977236013424615013030884172368926780206372172041806531639,
     Dbl 89505124792721413378192525238943654352681630084797936413483853464714006707762 104566770460710642862021145363349662475238547489817927927877161805072255461872 69185791679962908116213810922147755724683237475240612470392398878859728274120 102728757167752879040291632143849651422143205395311889894143159463140825260469 79407412809144765668484648148925374308780179019502348777600348112098586188579 64730276756981242841575147635749690338964809691885796276586248757139409869824 36762719043792968061153252033847987501809723201062283924120622210452941991862,
     Add DE 136402091802072753206755266713210492277460172789537073895509043223329338716154 111699880214282044340500818105346963535931534845237523391275866133213230162225 65252240746727211849064708929314995416775396956806251790011105492109631848086 76866582089078232925362167828149217419220508999829258373407105879788975739813 36771552793579551302717017731721034718755121319405264341426224449364392086862 105693006814279264074700076431132051641647105722819536028756338096816932453736 59561111396444483396382625662722151093563138578814940702734642844139691545421 74829359180018174190446056213305546550587688634706824287287494668231312087751 31780822322119797294024892936412432266190400671796302099240463486263847052311,
     Dbl 347596073116048742095420204496121100744609120506318310459702936303381745515863 45732650029362584083305661725868619126079716962661672159777921518876300718241 1043448052811884074877803787712336785004016607308432016100450917676301659574464 133203401870117470360466989469084694167951270992043863824273972901084525513779 399863062500390638023982900747315686809545964116913721335467451584648942688028 57418046547216899253550051752908760235906402308303524502471105775055621245635 28936918335833250738750226534143709623676095178206088044766172784853601573402]
    18139728 3180242 57418046547216899253550051752908760235906402308303524502471105775055621245635 28936918335833250738750226534143709623676095178206088044766172784853601573402"
  by ((rule ec_dbl ec_add, (simp only: ec_eval)+)+, rule ec_nil, (simp only: ec_eval)+)

lemma order_chain_6: "ec_chain 18139728 3180242 57418046547216899253550051752908760235906402308303524502471105775055621245635 28936918335833250738750226534143709623676095178206088044766172784853601573402
    [Dbl 213644807268988019670349688745233507510249284725735247260885797195616462388951 21365436015837121191182666928960776292219352940002660830008529575514815912383 394190172866259663645434131645440619861053062270827609879432860820753260739319 168808671336373767825616676245915499894226022756317391271692331040513690745664 311464248469323370232306390327788383984662199706235207410475579317511056841329 4401464448159326851504360515681168194950364217626697270236358742450765171634 21678897002545410563547184058216601954084331964117088301902806924824779624935,
     Add DG 166456887811434212241645343388175273984570223901791460944721412625847186229269 126783702255529601838106886080978349083656926082182719013493681418841392529152 73669631490514988088775974649213162156620589678267900539697933253798925934 105903759616891245699911491172311843617534392652829305588374966606769797338 46870340104367464980847614996635680997368131213617284408353326462711141 99453521663089238753728420767507665234053211415383767526269359119991011069298 63274653213464639761787661308046085934015248828985661324520311229881161140 20740032022386283521346924756861410814167137467883493783424583630368588773999 32932373869831513167990012738164681664674770004241274150756086452531368973577,
     Dbl 100262417437354388816282310685935237672462243135794951254191830710068957405998 45886658427258063013914851416887069828028911318695604798127872119044861974903 86815536506812417732462460341575457255192272205981695823231542544555840737086 51800895204271633656276588929693460639241239744296552286335461957516312011674 44853521624908800753608682458606823491019963804997984374588545379817948724824 84731226055430845288641320835855858028195882389227505536546705680761111433988 57817221837151742866673938443391749623862571047501279506404431376527187184763,
     Add DG 86127126204162693804508383068000584151324705730190652678411065687536839966915 90645377420923269534980131695803201413878686998798527808992056967138984969324 27947369758987588901148658026141245293011420141986336227666003555388992022960 20787487799563893172914342219791648628247331379114762915850693373172427780252 6745326745463575865025616873002721078003551684778570087032734518366477723453 133366028722912872059345719207549783993598045840122747754238984274517976719618 32188984088265633877977963967706318371642258129916625563433314213734093508718 67157286569834168652866586636993981887867821214745321821765305414151969386033 101247464573154867226595698866974860184234680309228302023989801453200193186483,
     Dbl 164683504082543046662298713887664535921177490414619707855795384055814483442338 171145293284038841917384798442130863127746124692804817255867703794853089663207 234218561004811948093738368805604589059838931157662989073617983579298576352927 153992457941948215244591478957417306461745326873592938571785983272352625931119 219013386347907098555341469649447077986277199532524010286070214311702752371548 28956917865202148831846092688264583279392479006792947289436906149708178126577 11934198876826882551133120206863183365695433733165008982342535378024240085415,
     Add DS 178012807502731293144528714102358331191011873720568844520797950541069295244857 186979469577046691317925764680005589156373262217456875820633728302036091775487 87266022570295855406920211493800228404898017714277252459423758092914480837431 134158298547469364854549257437006241159100100182145364900645304167807670381760 65767521299591440282918546449890291353332394859696943098951200651040313862402 129965273808887397452099667683461982339554495432240986935597276984279809459353 97947559218112960350376166132901919237188688949990965362429140653819996313883 14783733293630946803317410013490508793107968240192524393297213173337203338887 18480420359793322329680814281797898052791199184515295724544310099495961759299]
    145117831 25441937 14783733293630946803317410013490508793107968240192524393297213173337203338887 18480420359793322329680814281797898052791199184515295724544310099495961759299"
  by ((rule ec_dbl ec_add, (simp only: ec_eval)+)+, rule ec_nil, (simp only: ec_eval)+)

lemma order_chain_7: "ec_chain 145117831 25441937 14783733293630946803317410013490508793107968240192524393297213173337203338887 18480420359793322329680814281797898052791199184515295724544310099495961759299
    [Dbl 100701853269231724069007458212419810836631361557295349541251843638227924446580 26481505504880673485352149203731819385744780757541561909077802903766824224491 87578204337207784699514216425618488904212419060040713057578206127424348774085 67491162536892016914187909198701846098080078743034420464306770661258709245279 58695591309614896019886867013687284460556088593618598302461866402418346542757 63084659994055125312700485823476570548297874162798667968448026519987328765271 10801813911284372152193199625730418604038714724708979751731429184940305141630,
     Add DG 107773692265538413780449218080379871631222713956619490246509744848310622635632 137660785346790640249460870513464532433702543321590827563665059158725867012457 76163886716122365395768932737129578315757190439080469642855607264894212207081 70889672539437763546574009955752796124496205014044081060446281276703543298345 50097875234095515485331071360198594697531444628963558238825213573030739704451 153187600743977698018724104875132022410395950744468369693214386605341627062897 100761314060640255603038448383257232319383334692310813623471167652305898276520 25689148487393622717547365957032455991171908083970862314691223922554536374037 105444368173816475649602614418087912473758945831297174364993073920453888379267,
     Dbl 68680195631727183878911842215502927098403630918234571752043638060951569410441 107987365123311158168207203814468656455708982937922584497087444970234888997349 40736541702299512523562107224642406470574616419535605343343430666371791728031 37127882787349977965801304016486720333562703554322018970960774815613402464846 22021800193974417528332147714806334323257756278075149824386952816762601665146 104353354937359840175317046949233643510879189195289407383188033114849968580854 66520102203312135152167090577090618557992974804472344162019423108488578520021,
     Dbl 323571985754412764962561361798420567306350325051845249403654098808620685911752 89636650770713289563319306089880532684776361331621801984956787347507310889372 904196743099378458566016312333648850673144926594044944180865104106690679191517 141520053733594595784281548985906303342885734060490652920423512216866198587492 395466781126988111118204997130143747876364804516981090027544331716069580233656 78625390441081439814606482972015248021263439800439318502222104905892604665025 4677699850021579721152109145188943808078654172398844928325676786292402396035,
     Add DG 92232961818512099278543220931841194158257148318978839712735666462405346735878 143784899408053432680501960994006007229662603873900962387070811557373769758052 52715605873150205558874184779056212128693294253233678717739379221183938020863 41990057315341071674867830059250555291209421451060672844451035755817373683274 23999351949491761470228478611739134396175100000794202706707362101028054173177 118638804795539282600494306626628156818389665836831660278720439685181474049535 54011604040112127163639978524963372086606014374849538966380828598089958513900 75778674882858352637683161354074999056143758629248222262959249228619965287153 93132457252175401501622798691077064722949145681844398083925928895571601436970,
     Dbl 146046528334926077826937414753210908573397486744763568255598174140591002207503 86155466048378515843490786220750716563329304741622579979559896859205679887111 184205920967271929780034358912859488384918391346114136066314988283554615503513 162039908772532461601529254295386682800733746915741826995486617834796439090232 204378090798882365309877176712910592998570622424807759764059124609222915595914 29530855347642086459724892067376224108679996379146959306930215401732360868584 3311338547340393238877794034686185441516816320771099408576115969159228588744]
    2321885306 407070992 29530855347642086459724892067376224108679996379146959306930215401732360868584 3311338547340393238877794034686185441516816320771099408576115969159228588744"
  by ((rule ec_dbl ec_add, (simp only: ec_eval)+)+, rule ec_nil, (simp only: ec_eval)+)

lemma order_chain_8: "ec_chain 2321885306 407070992 29530855347642086459724892067376224108679996379146959306930215401732360868584 3311338547340393238877794034686185441516816320771099408576115969159228588744
    [Add DG 141327496911951452633424811836480218070840591740271198908027555966565590532319 145151260710734619162776276104508765596224441725528707906820372374506943565343 31341782756924102972476705210617981903833732357864092936810755338287924577664 38253526082563923490438464935629744116848467337564816757836344570255233653871 8483371816264438419040057688560678021649054348163161535781079557281551178859 68031291050929635458493771641829623812206031579292425961485373383419757413692 18414228112089047183881787275898394938747712049795702769598734909505964413910 77291653534028646424802105434234508149743949465495097384902426026221438126555 101789075397500499860687319099680731313451987599885110506394042271385722354414,
     Dbl 186114749652421342259548737791330008314994635403846992860437975968971499546097 172437491916389154526705845772127040671961059206250982917080732842155185462207 299145652059108823187744550465493146040115857895484850090254334947954654488066 105966471119126246608439805320054990946146133596138120294133665763968582991677 170321853364840697975960954746853675949835266571172942602842676564001957362656 87117271652218595239933285122867425056867800534997541130226344270161689806541 66675804798187102374760029769230383624822647357422095703754522276302928863327,
     Add DS 119852453715714846736441521667755489413536552192364250680008512420615783564893 132237863655686471494298855117638388897246048593199789099221741403757402997575 70888864091181225877991253364723541118774795622387936342423041326086542182780 73374652434458667820492837537549531987679937705149062780358202733632691444555 43398742394558048074478285979214020785133903587046409628204910628363763113304 116849559562605565076890623230637423534618113320974885880505856405525431560668 71536256073342103245315044620996647324333207044394161214543894040784972339771 86059801326929225586613646900917909375519671879663219289178071872545092917536 89194322972679305885200327843155549754271973052833854263049033956094124424540,
     Dbl 206614513615894143356022293592418418003877757855812300505695018289717112050056 126423274679018339580905769826766299099722073330329541404528429860763439992384 368674211838773761591585223176398722996224080479496831327054428625247393443486 116670462522100693600439285596717542355006467279300830416970379681202819958353 208181845807620911925131639829257161806496700396325394378182694773534334445588 85181428042144727409745346312888274873783189266002952911665276199251107630846 54542791217572634390447863612207411157486274124037896491642733294497127920384,
     Add DS 121788297325788714566629460477734639596621163461358838898569580491526365740588 144370877236300939478611021274661361364582421826583988311333530385563203940518 11196610082191709521751577748677124922311545742173425161778442055139117482333 11776418291720712903332289851637801092865024716692585716309997050784813686922 1082665302598548245574516659433913640541617705980450540003476850322868400412 181692213878676622815793578171156883267290780071852794324567215681405155435393 17568876139719219366701056738364341551035422520307056718074198319312550000142 19281303400784300017522753150419299459762393859790722626555644525754786867116 79243719720308352194323125524023624056635319293940411736791446970582299115339,
     Dbl 68533543169812266919373536098551042461968593396909506847766220362455000392318 84171551394171248150317090930959846137238506518089508134942703933666184236572 40562758391744034647433576327509032231653515611415604629239064832114862548738 70496257713020425310947891982332217722861229726983212712067357894314846871181 41724424812679686232489673627743860010644558623134954180367731214336266752282 64577134925080070130145846176774989590171148798448073953945870639348774667598 39389603684159059642851941737942866251352041872686939226440222493472682887253]
    18575082462 3256567942 64577134925080070130145846176774989590171148798448073953945870639348774667598 39389603684159059642851941737942866251352041872686939226440222493472682887253"
  by ((rule ec_dbl ec_add, (simp only: ec_eval)+)+, rule ec_nil, (simp only: ec_eval)+)

lemma order_chain_9: "ec_chain 18575082462 3256567942 64577134925080070130145846176774989590171148798448073953945870639348774667598 39389603684159059642851941737942866251352041872686939226440222493472682887253
    [Dbl 223809528226979032266538763464029326184811445183356473003730452223455959474677 44225112471261355204026770317051568434897326033350823127647000733032866000250 432591770777379195516784895130435492059488417294837800276380221658776191161015 120137678429298227870248201964855708203517697465457955521189242764019645238073 232208929890182842755263794589033689803892922576472329054525987438062001294699 60231545733098037683468629220607189239923435998630682472214211883237964101188 90353671052224824221004236101981959476239357627821843299670008847750429475731,
     Add DS 146738179634835404292906177570015725230480916728731109338020644807539509270246 108559997401648749648054648784886813045829338322800041503306254832309902385171 60218468314039145995343458010249749418733828958380084447246128181852911980381 76312194373572450730672879539511387691418332506163706457694737740952229754485 31317026490962599763978623326057042684271418629068778674799382535815819138813 150386909656871567180824558534697914900957832537522138410286088813318347224668 78209741387929790736103369374043653094312872200337712058914718296655831992085 25636725313542665926215055694597182192235588126749108101385707077828451548183 75958008192304330557645289933296437060140433010920532741076615617966395975422,
     Dbl 56303410675840747988970737166620924539065245397435051154057107363814098463854 56840366623363326833458521621108283019307425945586127944684491605079093243643 27377293860164338984615918777828767376557826402334224214535819622203141423222 50775220893903926150961247108449385472002409369190143043943233003072538341082 24689235102122107673304340969901487113504850428388272975432154837395779021336 90653593656954935198824793594835704573503163423199529096900058082664747878764 18011045694310926536229842392158545790717989207854492091624342565400272672838,
     Dbl 778615320198411587632538042302977873159516152105721743269335170217026938173604 29303643403938584117712146882377831708511441038429687098752600275091251980032 5235606515443216372510185921221875281541801178968278501212780214084795762496021 131577134300498348267912820351431625573675036556142507899374973554758714912062 884757959105518279259552348982975716463391242323269677309698255644660732253326 74868548593772782354482958252091986853098111532697585236982668535814867638365 56145601451872725081744534441890146318698885411990080850208223758980127237472,
     Add DG 95989803665820756738666745651764455326422476586720572977975102832483083762538 92316997806202287319909535697304804719042372634309726465188264584686044916615 104628986070807134741042520240210959246300969351726877307604057320394545043885 86735768365893019181280184230314128954806502237259521067196949972563643080405 94542077946005337018060622175105808675021553165379721665928102835540765922623 182886057924697244650594533162580589629522162824774801209421915085324579516457 165254664055075184462446145591393685415886429574696944554404491198784130617007 7774579906391733127459410098199305076845933373563348067018337458399122793571 70947192596799675539015285002992579468414374790930029952838815099256568705332,
     Dbl 97405622108191355811497533912692483516755354138253168501299345498786712434268 117797154150350447537786688367416637928557594873853296100185262035306795084683 81938716891431089707918787254589064359777892426070038598733915138264938606536 114124526164978265669758755361019950415817187188119734527362686951222288145920 96002849090314269269649386116335820642596386714414761102689821204450983140799 9442142978729662881271639745867262514298730851084177579113234515085669319314 32330363269490173951002429496510823444194795428823386919769879775779359202491]
    297201319402 52105087080 9442142978729662881271639745867262514298730851084177579113234515085669319314 32330363269490173951002429496510823444194795428823386919769879775779359202491"
  by ((rule ec_dbl ec_add, (simp only: ec_eval)+)+, rule ec_nil, (simp only: ec_eval)+)

lemma order_chain_10: "ec_chain 297201319402 52105087080 9442142978729662881271639745867262514298730851084177579113234515085669319314 32330363269490173951002429496510823444194795428823386919769879775779359202491
    [Add DE 191690225580324333167058774603092920102126251630338692592982057465383079266664 116132235988584838450651640642684127593546462617476420395626608567886812951596 96515225411176520973237432026271495934703518033979428874441970300177635273853 159777973200624940230803565184560997407112272101299802748204411966736329638692 80447540048083163147424810335075886485565602759312599456367573085668874032960 121668359332881023484136250423617193668780708589081292278096111897918021771477 101413224372815607541408772646626402589655857385066683010104721141939610628378 3565872883164834820706374330937976698788006927643449340474706625076482219500 16978359730481663365162191244838575812021856946007335789797036182568979835776,
     Dbl 36742907821848970319277450158452735097497893194552968576254228429459031593874 10445638150210508674093181527783037551027528139649118273392576733437168715696 11659184009004078453489923982974362856950061328346308293320782864410872065920 89446678753770815690005948780178378808646797234754477737278915214535099027247 28383036302977344354553308354230462829462066021794148179582232974815794935061 29911283366710214554271410559447505743411194358529535642653375418450217863916 99318196035413499941416388965823174306986485952250853330789220034546042572659,
     Add DE 171221085192343781494059003789512676873013788122893334529441916562018530722062 49144403222661512460237681173371776730754772094048953984607268309120129581428 57121583647711482641468276087962807201471030019611431479015170510304441101402 84465351687552707689356790522336463845919932162772209767632390434232366275592 28178741224154166455222493147093021024203747283883327722041238663104612065567 103728073797898706856281270073371697875688450612993783486453314354079010876127 51170264593111608586745841399188912846643274082258401578189365450069716782707 41975298806127703121561125494763715720992728411176316195657645072280041659452 58769136873217321376510989413960476981181139105758613186109837574377764125654,
     Dbl 47271782424742311863505006589258450602642680562861137535669400757817145659273 2335794917525156082417210765671454944022890100690118677587911475387156035044 19298567184778172403155671856504654631079149434871252955805930186346388239322 146299894307904547272576965320829164145862637526535165596538835758177684493976 59726504790081065783984951845242727441973124644378825336361058650381775448405 11467493735539351272555145182622459428400075550281714638576393322011191837139 40485657057880765935004306717893907125941570069846518323368841079077380866279,
     Add DE 189664874823514644775775269166337723188024906931141155533518898658457556748839 107976942200194246466649763421301043911799687976453288992027647264588791287808 13675502924283304122667764575663943412283490939542360958541568891829027237334 22400170576133902304703954370739632433850323460495900533149014827777832298886 1615130890753551258473389747577528683791735610797868900331744591727797342674 118883948471695523686769303622001899488529274119171512184055263712175457279562 14040663707543447858870191931351302787624626776343903265400137203505413796969 8375634501160023009356826569308467793140786096750766493978713617744569229240 58017618731812539549355248274329077723279674807997485604387916622075521111982,
     Dbl 35468496930988633488407471750126013034692621942472626044700938092238906236286 33725461987048690141301429803774662806931345468443421756539560743876511113208 10864423319672957147374889136104253146895958799796099779098480723906354703576 88727630427760682069340953313744128320375684366387911781067263316510131252475 27178330646328225571512006586565913907301265586239519421697527166851400532276 35440093310715536363586858264252247326035086396003418752369034309143272648428 51032378661850623095975934240956019135236619663939590559358152799828057100880]
    2377610555216 416840696654 35440093310715536363586858264252247326035086396003418752369034309143272648428 51032378661850623095975934240956019135236619663939590559358152799828057100880"
  by ((rule ec_dbl ec_add, (simp only: ec_eval)+)+, rule ec_nil, (simp only: ec_eval)+)

lemma order_chain_11: "ec_chain 2377610555216 416840696654 35440093310715536363586858264252247326035086396003418752369034309143272648428 51032378661850623095975934240956019135236619663939590559358152799828057100880
    [Add DS 171529632057217905612787948526370667144369266331358373057865822381634200723006 147881289792022950773082950645912753386832076286682294243618110880232274760022 33019214108233898884702513841720709295844813429180602451802806634734724786731 48913303871700077381302872961777110966655612574369403846154246553579611363628 9415742539120132411631508917950365897847904014984124922295451305564998505787 46880900482255798341438495875900290809945577395593936000986716385164335415710 13368534075223743527717272848899582654446189896540644317564610900954721894676 104351282065775933445719347397039864369359493666050046790839901931887771904381 41189753867359575048895660675663820801273159219213389779615924925712192076942,
     Dbl 418657031253756205746028635293234531733613727020786394176400385088655665225152 15728103275841605986541296123087363896230084012899810656738930207607703908395 1513693301266761541546539481721775103442444293841939776938552523731792101120891 209634362569731442564195748611415114025859348369694165594818622596815551973435 757952468603817316828906967452464879263415141230857219827037475552873619961033 10509008733360686305094583794312658196770129961996445235478863342981054602609 109673379862497857435089486383473933587568857265294588232364222581035596452299,
     Add DS 196460716634572755671280222996310256273634222765365346574755993347796418768825 89240288591375716433969398503394838934499838685327296570612041099024735408603 32620690361865756853938243263878119883767625177013139157938010744474397680879 55346477015990545836877914676618807978835868174969345594009558376879577135844 9189828482184360201456017042804756416507998932833795673820320235429141316686 51288109811390037122524914396667869927319180542463433899963045055714373632829 14448772454340951022688970803925673182503752397945985569828628235581135392672 75012988159286844606140654406332696122720934085173575374973402295175515641443 2933484864015607066396182729176183809002173272925587519990694935342567270856,
     Dbl 2928082685589883643365525958281354169530480690922141313344275419222171531512243 2574677611708421385189539080126232300297851443902619457010420434463061909563 74043643828547816779310775520423297870429654146189447452431090189977781317603320 101174642549007269572424293705588780336509688245258543394032813777919201426103 2558445235937778332549489809636423154403931238462386185392655458113060968346464 89630434847595770457287345709431823639481230505555596020398172525165148887003 46564364767369238980018678255047945559437332646233691001698539109581769958541,
     Add DG 81227917411997768635862358194424618540039357613862562194559598843132802513900 101898234490705773421635391884147005478303925400066116313697949234084402195546 101336673089143394779314239299582234764697693866004164346737917020248505249911 71087472095104425018636973546771431316329697793553209134096513716551440924358 88685862569845575622490595084633599465154411192921415800451291284974791999481 96117082549452537759760727816303388444302553323833819922134839192333585073891 84117882635605143185166389506630113447246867422958452877797688268232748993482 109305441535459428121097602901816343048448661847362340137720917340740398484775 95741453709087982463490531903099348916313379731212550396634992647173389114594,
     Dbl 218808910730035559777946677804896506490871818969048742599457377218841735805852 52293103852682981608033093600291364234862886395687626563802065866388036707827 413476773156238126285149679177118522239845629571948377641571090689584088935357 118872042662204590272292045011740282258778512154717630453921166797984519368775 224629008272432162238163421008580972387264019255930524623327773173575574682126 106225488110571033272376542898763968642940134358285273723257334550664713787663 55330771876195630911386387318512270757769561411094629842933192771034797161168]
    19020884441742 3334725573244 106225488110571033272376542898763968642940134358285273723257334550664713787663 55330771876195630911386387318512270757769561411094629842933192771034797161168"
  by ((rule ec_dbl ec_add, (simp only: ec_eval)+)+, rule ec_nil, (simp only: ec_eval)+)

lemma order_chain_12: "ec_chain 19020884441742 3334725573244 106225488110571033272376542898763968642940134358285273723257334550664713787663 55330771876195630911386387318512270757769561411094629842933192771034797161168
    [Add DE 94906880448482962775953871450196213973484848123137596448837957429804034798315 93131827381879381490267682820682680279971696635205177472463295572631374992919 36245109741808207741059966904681265107234010558726927212127665978581471331020 29707645140229151911827608072727956670533476886302186197178775380351501189987 11345403549142914571568579871034814195295454340298257717213497077404508952755 114520218619294724783682511708787243918647074497865152022184556761462166202469 35846990229230026141217353199113287379279966721693533198331000302697355968298 107497358728592503912265016198664632577563044526060685740530361797111382256857 61117187488198936316523908909057478122340199309465195400495195240727176187638,
     Dbl 397000802666602389269154798746401734558436791159807299558573920352131137867867 119698147511640410790157980911820857139195901997459191418449954051710685902015 1361143393784917371301039022779659440569269609786761036103328636121999342870037 135701064530371057919399715630569178015553906956833241702620357293377205974076 465260035431746772463922502556377025893707918625763541641537921224143771972939 87588383435537641416436285576783362415279122234868008077367588511643010954444 52636742206307864456681036271322001585404959480363364627948174823936553100697,
     Dbl 252477368861718864213172597588780147919861654670226183409302759190821698485110 30779284149072360083724026390304484324153616189910331616114047346834075806564 550511025469894270793386627348132312451656095530693191343197505485496630904155 183793126330707327490423468391095751685711388853920154704360432666177223282660 400749353919525328749751992287785397366114494529966833772354511640753942180213 19587346342146509349583802194375518582837718046588417412464739853374622343447 44417978448248562430766402690195645167862901820459176404816072106238547687684,
     Add DE 181545022216907486698746612154584664033587264434834452759630552127094126242531 104044620809826449970887667448999305869878356225840630910580416237427624466403 91483719994537800013841309080242715836847290584804251724047991924868504773004 143433062554512855000167012201346107804284513831502040969310226562867483873167 72278435246868652553962837789922261008488095656037328981449450383416524242272 119252178596029299279370128028344255283219920838336006775060605362441411227192 94217428731754174929706363879902823498693882455721180378523764027972031990708 16127256983433405493784659174719171152887781873892974676861718498842045787918 22800164488363829812569627188906197652997822314287744464126681445529037729680,
     Dbl 27743023913725100200595713533568451607255147299273586643517274226183565237267 4187037016426318699517080929889584660346728576945823924416988581739504273196 6647046278783959431745007260695814449840990495322541350260567740295963552462 100936494249869964862403227781802747501788841314972474646127547367561811690434 24183720944895724773720514907360860049899085677510635360879145804383516842178 30982851970879636054952416401604331504368925224561064070191755139189068769147 18387644126658900363090656475290910188420695537895242707544092245289306672184,
     Add DG 139875500288713903038197287502252110675151662894857094144766016229108882631756 130074955131416112038563413663904040849320562508404564607852396098376865481903 103437899161829702374180787091769489299227125379963487199728694279137620198657 124951782020457274961442070611854362945627503250153634999956276351500273839603 92401813055505053720703556627404593358480832296589050339040215610029376213325 53643104279675904474015764628195555489941602341703518550518869859212564845023 47919767643508829147947499941900364102519327460682636472108513550336231656102 93131836928519927004507636782096683867697307548498109559130469287885338595787 70456328736996249792173161246994717298809595335272361521985745594102470624301]
    152167075533937 26677804585962 93131836928519927004507636782096683867697307548498109559130469287885338595787 70456328736996249792173161246994717298809595335272361521985745594102470624301"
  by ((rule ec_dbl ec_add, (simp only: ec_eval)+)+, rule ec_nil, (simp only: ec_eval)+)

lemma order_chain_13: "ec_chain 152167075533937 26677804585962 93131836928519927004507636782096683867697307548498109559130469287885338595787 70456328736996249792173161246994717298809595335272361521985745594102470624301
    [Dbl 212490213494607916382110548658564160954568930756366890746304450101090454611304 33870565316961389570822672456668423529544553784864752105531904340619637778027 389941067031312664066367448872329548054826949521021116015242148672766216601696 109020195416620473388937338637009849295652256115987944475924242790530934819056 200063102340465984140638403341562264955528324543971554326113809507968828848197 99903730749215649039141283153774742425315036098150729122663810505263238448394 9511711963442292610794361457461975277182079504610197224874046238604617043112,
     Dbl 1629126787210749887888229299526106709197034569335003646042126229797545557004568 9061959740338674853667346512992935428971871917607002387929570215978480019948 22920858465280205953049946788504121820837905188017586731074780767205116680583529 209097249135985916126170996109813692167943164976154582671477737337515737988948 2941875666491859757776684502831736488885800180049401673832545844578535234599999 6598570850545928336541272052648958110641855787636710490643657175656335131109 4149097480280905945271413269827060244684404982826253352914693966022247343015,
     Add DG 164259781409047610756608431851207484068878732331781447724314114192641616269794 144313501777794106456382656869367890793056853063473553962481794377643924811072 70775327329865641043676700393666121663663793260480872852696432239520175837917 100400121225301917757122515214226462171123841495004823203069605787208870456902 43259837452136875187473220617367591359934484611977986831009189952773585542724 87781245239197703011029016787018509924450369347874508706685079009767765394244 53654324800154414271785102992092974809973502597153354654073050505300924025695 34609414848664420749083240274318356039461471105402765823416162173797404408528 83569033631864536834893818792871442046467137454506747235377342109502801025948,
     Dbl 85723997361157990036683235114897131888993372902246479015200514568998766541509 92703297084173894773447539097251922245309397014933388061219821076618506731624 63463780401395462579833592902113794365757094380578253792868192418159856625602 97327563705861191097776491764833237921075961187280641196190302057600817616292 72054212591237984443518632574968616449856413467003711871273726644275483599155 53073940380119425074877733518173025971655494583762688666683444124105421463899 96668426786376734523405968281243869348600326494533298040567267017563522393915,
     Add DS 153895784987814016901497073272449888498748858143599103143551412566672051907535 102245241667496839345652916605624903173468369456088586762408996662496809466987 9945686166537421837922135308012718746848759673531294110003017799854580375722 13218512507402402980043864851714300157778326637648825409332813086939224992741 854261063728834289284875992963838846899960395285435075195090364897900632647 96718197649553006213528993153624701325396942433678435025794833132569852859909 8307379603835593638882454426334363665378404504397720704182655088573923721136 72147831967882614284919725373236232499528536815724817680346194999444403275653 17688141512431655733865850390365991105284584395320718920632725750482194966215,
     Dbl 466949224838264641853751346253544607499031106625624969894798989925368481872670 7798451250592870164947161856848299577323305832237183700683772458146226471671 1883043824610327467801438793102248193021904900787771095155978535815965072755551 151135754446710418730170517828017616966660811953103154166452343143951697221035 609477934538332353880264828450251375080749431334094201925788593816809858905071 36804166758488390978320192553906523386137709528262227553351435863401540726281 64870236005316813962045734457421240217538345633545369112706235067770549944162]
    2434673208542998 426844873375394 36804166758488390978320192553906523386137709528262227553351435863401540726281 64870236005316813962045734457421240217538345633545369112706235067770549944162"
  by ((rule ec_dbl ec_add, (simp only: ec_eval)+)+, rule ec_nil, (simp only: ec_eval)+)

lemma order_chain_14: "ec_chain 2434673208542998 426844873375394 36804166758488390978320192553906523386137709528262227553351435863401540726281 64870236005316813962045734457421240217538345633545369112706235067770549944162
    [Add DS 170165558609445050998054614236716391084266643199099564256883420827375932645153 134043432448556759907013150429447532304530350317076515690270028612289781916740 78279481875355082342285473402793396817154654987500455163057809761873657540770 115037839361179367716520041347643406784514410609095233383259409656107559357890 52919653864396158540230588421666245720689170255496769872416881033504107705072 57090496955428952935427764360213962145296364531656701675795129938195902405832 38595162684371797295507201290686745804253742368552169540630459003046540049640 95505759040375633466463413202380469094111329662246089917013889933114472992112 12950390001037575021687868133392227600669901867848641499566227251591954475158,
     Dbl 1153688997662193735946092569576946389942597010582732107101771326072889993839623 21740646586562475704832333608185832674986202080644091966760093538002825186572 11494725694074944052263615844169829923598383475245254872207628863797860843854054 113376612532220127424630515342287792251311546156933935047156857769640590337672 1129622509898359596046788151146248025221103374382424297595985736259329978258209 97921235745471701465403882868780584696069768170952718909314616171382717326103 60711482932239506250449431289594246964847308526945807403630718334200279270931,
     Add DG 72937116514121837627745821035075857483450819948465439305643155196915234074800 87751116325835506151204638849600704072893949519353999911765770009465892883156 40699278673901359032309551426229063805399650730660769890324936293299869974054 25636362986724709748866687404233843556680427675805058590075757508897820431988 14305219773528929376675061664712804263516801621653521399955399047017075047464 162800051558539706191108498524711598419687395201855943795637927292491333670825 57221911359823817267533821435980085268053129286348219137996854406901946707732 50913273424248190697866369352756894129652357634737339153134272886800218326941 111071115419007905094689183186746732221166411297166142452029950999813004105303,
     Dbl 66172438020104190146827328957870844415182718661843083653615233379034071273618 59789997875160304039156623250594298004558702201063630384165220417606814982255 37815981923861703506265192356228779598566144291019823398773805619011118481453 146545269760678818266060681235305710822681072714859025321001418547085277008901 83747152713545156340306068103992866160462478891058442422341450509827925805424 20160092900885567855376673126139091160241269585518877871590438347623775989703 9356031256506784031862681077793849568701292163314373466784686859931723868403,
     Add DE 180972275658168428192953741222821091456183712895903992300504853632844972596275 139106568001568228369791389061401101469039965882985433848611801483734448285684 59147872899262775320758952305242097972382465156078211654022681331501676672507 92442629107257575903906169377161350522575551396659589967538584315806124920707 30213384105517074659178611533090425855365198862514319970382575047402708105137 53164934174034428268179452971131001202930843566505045625039576932234849533166 27157233192145009858977048173912855194804535314246457366393544773829593688663 82787247964167335010768205163695997810580410684654396286008445423297761128200 19239155585623975527435744088042885361004404034843530577328790158874842542190,
     Dbl 609680820775160822588817983826592701399219977270846117559895682360834780081151 25030233754111000196511447397961787443270156527479992486481660025261859863260 3210156286749880605487519971142305091231864763575029324902777224312367888614987 143892772191077056759882777325958045376588652814821342883789456046597938584843 757639524693858548505013920428911718545015455113159984443010896589079570286084 54686565010406473674456412846425860287261742535473617441676573384608657215020 21998062746649785686425704362156026110397173198089228156253537723395678014411]
    19477385668343996 3414758987003162 54686565010406473674456412846425860287261742535473617441676573384608657215020 21998062746649785686425704362156026110397173198089228156253537723395678014411"
  by ((rule ec_dbl ec_add, (simp only: ec_eval)+)+, rule ec_nil, (simp only: ec_eval)+)

lemma order_chain_15: "ec_chain 19477385668343996 3414758987003162 54686565010406473674456412846425860287261742535473617441676573384608657215020 21998062746649785686425704362156026110397173198089228156253537723395678014411
    [Dbl 292812303648971569781020842298789067044570708967984101496505672281821328555212 33773858863492554345155829728066314907055762967704958578490395751868161487528 740456845825582503764234069897379081314637997071435665926653666510423619749052 168689836324993057603441498326398098146778288470681069016431784444740349465255 426578878590359528159925154456779513790124232905969936454744930108203469564889 1788817922729611494585899528715669993753438730433112464702372947777142421428 57605310114101913211416315031640335745659108957262250931540982683162477104242,
     Add DS 205180907445203830481788907261907244476650913996928679345532483743000330950006 141308358339771660657642569855228436776409586993359633871435280996897854756660 94233826231956399545551257729714417501517245115224126285198530158403666077142 166980163374368086229289096626510124835190706295359176054239815487081069085584 76689297730131992657177651883935326311806908120565798483329074983367128518887 49615363968786066988464230917055299861746511853460283527470477737910802525207 40377936156653315654441298348368499957101366888932979446075125416233816670630 67965543191259739929692653620348277985276911542613392976689479217775174567884 106239915513777016376004633226996872517959193718893095664017781778822919056462,
     Dbl 179686272897963831772590256578340084636495458651641363120463283603277640293548 210046851038621624129945721864448693889668136385296318538183024495545640710368 278837327149257302278254015932321951953998823170911812974552890056153537893751 146990861405819773074493552917300251302768553072967948656612786811833412424924 228100556869139436123165027329061417107689743014717194857332070191804082131746 36766771022756162278770085711735934535778343135286008359534276413850596814623 114746878270212612392327808246184383419866520551859549203742601073165933620292,
     Add DS 170202954345177279697604721078886979934626009592075783450700580276926876556811 84166790183660961476731076640684389102202175398762335599233662606894398240610 7091520612850397428106093918190063560819345710205120783656531888547995649361 10423836093268121909671742425669500833065468157579298365425753533703492853047 434310020086201871037522770916358984130673943154806837444731198410476967889 42363522086186046412697056817996084207679604290791406357014824497517716521766 2594493216988391663977075677414928276229625653419493136213537396892044944761 110195338173886311289644013902427758181368723510135166041977035924241714964520 89830689213810992792051652282223149661095568960177085991768649726409119863691,
     Dbl 268447014719669085633776405691291690277313978660603214680867880463098557440480 101911305955963680039270969075982382059026157566667091256126246101861394600320 622355121032554142840422787161044742372903822905305803380058290720035827447396 130759780196934369827290920760464548137480227046018193932724927749332301274371 303147415945879891512677461691494398630896221065819597334099943457226483934163 95227647214268136885924078150651117897158481129757536148709692182818248361812 32018378782101035829660383073747427497645779247036426964217164562864248351320,
     Add DS 111742078153665305090450728639971796573245871597604255661525164507959225009622 166895289671772538039398501813121345024422916703585457838759099117196083509582 32373057340839075126835778806119647991086697199150524759839094364534697733938 31240758563732193196464117535364487238259414907751711918145826821062275685858 9050832820239951968340551885623837929949758387356734755623424728155932338079 208182992333226340787668162583029701056648707068132252801117224010653610262591 58203630252998836533061216540149047540994214381660930271624119782675962773865 2836744118357991521826900576309324693779758727265847387050052180073472770884 47966492184909735905345981068029909141914455254564986572387230064156591674543]
    155819085346751975 27318071896025303 2836744118357991521826900576309324693779758727265847387050052180073472770884 47966492184909735905345981068029909141914455254564986572387230064156591674543"
  by ((rule ec_dbl ec_add, (simp only: ec_eval)+)+, rule ec_nil, (simp only: ec_eval)+)

lemma order_chain_16: "ec_chain 155819085346751975 27318071896025303 2836744118357991521826900576309324693779758727265847387050052180073472770884 47966492184909735905345981068029909141914455254564986572387230064156591674543
    [Dbl 103905933280262766950797418520730594611568580174754489808728155724705033384156 85876893553132626122070616424566348297790251809204422655383545639946771569896 93239901291659735171627915373678209395424999159142680768472980417676564148753 7783235167084993256838874329337846417431676898384403371021622618557227038218 6984279490097510047009556353971906456708345170211794432991325862259551841910 110845598188589193688559011255659386129618066494522008055486013569425080404329 15589427468212212444318754457386131801179544558667267540223839776102963203135,
     Add DS 96124127179344248287815795534963528340786286232839783754748843121352392967105 183324240985661361424740130429482640720889151391954617262752423903957368657767 105918867499432358688475548831107801542851563170873937044507759296710591880737 87927929768507988326644409714321762506907881509151400435731655980734526981286 96887503855028771450116579077767920168039342331554406212593315340108098282474 184710544334276181868752585962451444020919629281895182953631371353872819851185 168960865979307752107683443148429771679885225334332515805173612802221102836728 41927143091629207243377410301895849961968421878267389141312226223461095224807 100275989364804125073370931378501773646066945443725816726075189899584867681546,
     Dbl 61364749871348973054181203630207937150904532640725313652702762098449228007970 60739607289183331510802285319648905434565931350167428912948340771407076756411 32520637217759754794088644465552204650284923837526319752736713688589673430898 91516208361588701743456224788079887338120237593714434867650547802176286068558 48499593299274591514032336313509513466343284878067655888213416822713444623849 66203023967356700923492170522503870477118168950193518313119262429193643827912 25359837552724280228341618425819254540745783390974404122264037741049868434827,
     Add DG 104655328292236838169657533381352571702402419169224639901838508939104307572991 123102761705350732173312451713375696496995474655325403193132450602616303719260 11844650898521676612564218503136755089691151260233214910459408406165438616530 10705444875004791223278661298616842135023766690487843256542816586251181962190 1211617786948414391358777368007395265737074124997832510649179240694619578240 127970923816992844993605171495636305778021873461865819500880698147766789228947 13090453136802953717848679859745351913449424927202196979264719542182654524743 54024189387680051353457984035555472552366280153968262851696148289335689270628 9845071911909086688091415240051208104672438888512608618382321288481525801474,
     Dbl 463840945213380066701037814500865165168656890167427383984734365959316566655947 3258044725890270661001182021691980732182111973715979019200400315500117223108 1858058040696498562322407141722080033911145083859627869263693053405757057484214 58011461745296715703442904501445976094378879643607385371568782981097127644620 232382811523506262861585799568064801456272783261647972898674982155956510114972 111804816879699531073586064542797404311257385176001441519584949316147396297671 32467454420693033938052377739013360004266980407948566456841398103964499315230,
     Add DG 59053535379894008019563639361059037868263202943416716695372822052150555103232 115995144837381978463601692400181591033474277638351240858555090239701672838857 68743846064352549166976760905010967035999208102827984030579880171130059762753 35059106131085838175504340226395955364019445595111584313906628749558348568953 40812083129738087441927570275883009119549174965707424162210881304966295124708 201159195929265967770062066151863930615612959260678637811713132488778916606640 119424883776377284040032356484589206962210089883277533637915059926408879177450 26437710187749758727094983399621381548914410580963367747329400835277314362694 25248582144550116635455304493311182939716413466521040734126173788397461565340]
    1246552682774015807 218544575168202428 26437710187749758727094983399621381548914410580963367747329400835277314362694 25248582144550116635455304493311182939716413466521040734126173788397461565340"
  by ((rule ec_dbl ec_add, (simp only: ec_eval)+)+, rule ec_nil, (simp only: ec_eval)+)

lemma order_chain_17: "ec_chain 1246552682774015807 218544575168202428 26437710187749758727094983399621381548914410580963367747329400835277314362694 25248582144550116635455304493311182939716413466521040734126173788397461565340
    [Dbl 93058553432608533366566219352354339351596064910286659847419001796997037633052 22474208025943895614711209347899984156199282354268805616368731864042370526604 74788307422462866772984663325065421712724836254474938880092978713631304723400 36798900173640809760817413252716608796119260555221991028761416537346207939241 29574148291353102510439667905571790544819156840707367962083793013506720135776 105430899251425144389848555155592680606065134691381940758025568305839941095116 93123482820219088025880656805107025972520621904050178198625174982248068112704,
     Add DE 95701469307628851658481859193367502010359847790040929414069723674628807490862 55339116437855924375773413334087925065220636142249629116771313361418104041383 103055639329813612234580642175980037498142113806783825147739309971923108381940 85174869624183480842953559091052629255360386658816706695066048938158803401119 91720124126182362310084839624815306181948565333937232725219466874814808570272 160192597353019828163723072820663911561891785179562171231404807101615295214946 142572352263928306410097288842481550714091814443010509310110009956473144286107 61030391135721511649696467343616676897443334177460333566078345212133480551833 36369063362686534720322277065626489464691233587917622391530678317698618876595,
     Dbl 183388170376352005214164318632708274558630347776363543500531911965808167765488 18698911682942177920708465030132514495906757910103727428196093025951415198531 290444893563140000394539302008858460507696941400073891477709240323881647993404 92002743963193164327096326872381631295855462048163869181244176215109442159870 145711291644753982932471259753990496358170903327841168823339035955173871479521 84819736409844542746171125479922953454857856794937028424291753004932873063626 75397640970948388958815037843832145688028592513466931124445567130591682176542,
     Add DS 122149988958088899230203681310699961015546495932424763385943103685844600307808 123516027482925184910243847043036626834040103437154953678530696549468649684360 52643277156479688649017535144851631192342584824730914107343271913073429426711 55533808619710931844686467116022653385399818241690380325944295013045822974056 23933540261926870456206410027325027799953942205234548953615489442844160683798 132285145779533808217317112966820028416713630114669562848734344229905993037239 60141617953578311053351076081195388996475589237694963965516256968924352820718 68326679867626929952424997521790832891414211345908029615014992782935714698050 31438183125776532014526682419445686008787483167354788015799204096014328200353,
     Dbl 224046519224361014030145894929707960523296482079517451617659012039425820428820 704931187222387678119658493439576006239034673916594435755511076892626098340 433508395151877831776960947416209928579577671905898181418955150146978318220914 147899265839422402486829367425558450772142401517955983378979751078572781933395 286170807741866235535729060996892063855852130853846150211495810492321721891728 36219503265520722889166615104920289972541794493592610275492825712271767436318 106046037500829096988120486245995090560113768495325129265120562640177134539883,
     Add DG 134638848994072816203983088798936152206978793625825547939464945656026183964585 42416561757245915413533583893199860477627489550974678050275925703489037614204 62122698870081030606665542024926379063460847245949140645523664697899001881871 72234025030248774967675051021685998426141759165416610387612720367167017525637 33328958310729374379981846829121179383590867197529936962174616260722407160322 138913796641940768646606965295133709913454504908592642673226908003487119168384 74527543414475981989038639836668253745736039820702120104808189121850038344369 13097795860896149666130634818474487912357274250640531641723501716693482939597 22825857319354807566940468909163922191962987595362791197889535281915151510934]
    9972421462192126459 1748356601345619430 13097795860896149666130634818474487912357274250640531641723501716693482939597 22825857319354807566940468909163922191962987595362791197889535281915151510934"
  by ((rule ec_dbl ec_add, (simp only: ec_eval)+)+, rule ec_nil, (simp only: ec_eval)+)

lemma order_chain_18: "ec_chain 9972421462192126459 1748356601345619430 13097795860896149666130634818474487912357274250640531641723501716693482939597 22825857319354807566940468909163922191962987595362791197889535281915151510934
    [Dbl 58136542070688973574930402154100101587416256734273674870413766380864347099319 18476012252155217187381654721209975635243733903855534071221174287839970618455 29189019268923993298905320309207438288845506455611904183324529286657047763110 22461265151576001636277466834680879418269246796978475997332183057805486978623 11277284096405033400936299969448408212364137008640220725279303332996046183489 106428619946636343453424152992481516347358012119302619683848902666796830632637 109507260610764775871547949400452753853051086397726164112377883481690692574596,
     Add DE 94703748612417652594906261356478666269066970362120250488246389313671917953341 38955338647310236530106120738742197184690171648573643203018604861975479579491 14082101985992069854835449620460174050013355280826175514720278308096005010746 11517434871414631190142689137742025490976324439501010284196234524418240809665 1712600555444283848024593588470940380988530872518363681671854721097968096371 179789640627287682609387141249676106110764703838769065165187352008509761209709 21865190204396128060162297027940669024576668923095460709451182219366373802172 42431068556664856267607996751493318089863292946174118558119134666195904094591 62660165408847927830884639034575422500707950669183250176407079670401275706282,
     Dbl 111723100072493468917339358813827638598532716503272493366635834651269890492442 74270955651007743597448309023720822069562413409074944028744449581957851301515 107797097124885562711196036110339427442478344717537126453476416534429772243918 65412562413832519076172371956587773838576093690209959210505906270997566527706 63113933816159727636347547734865470623990693035519098330934787347788830327961 92810595380148532615006609803593452104557183921604723387070812403107172238548 46316279825691960164100047270510743301999224662541525758941673783575057622627,
     Add DE 108321773178905463433323804545366730511867798559818146785024479577361576347430 102146319432383052237554022868684207735742033383758281556454814560091114531460 43323943289432935861993312442056465101976833898086317164676067228968945431445 40528903046179198420985506253199217915919686505196865551353791778492594385030 16209778012547629815956383921842314988881429700904905149921744339440347898378 101324674729923380532356355415033350801562079498848248642142742791407618537663 37910918532807228857194254664860379840008911469669873707333326209254515555641 107278009887541347506221239397248009156265089088397038784385653619608388372548 64343110788158621167540642631885280328632782473432042629874606718166216889425,
     Dbl 268635543668044780533093497015907101240239488845822825515029411786887091730533 379809015761558614482112050404935799907789875027792330736915806820969556326 623229581547004657734185140364916785641346416233689271767544749395372146839274 138626812936191954948820922539760625875929776740585531330115017895710338617880 321611687856832834477422325121339180262696254089609387059869532006896078242009 84443286188665587980971301866175291133605297013452071493728219731806884426331 74630874351021082744422922546952937330475749920119812004835457894814630349648,
     Add DS 122526439179267853995403504924447623336799055713909720316506636958970588945103 124282794102852491124635962339915835191592946030502072798140805785245701511254 80136592909720957986365778940025801630803547356870905610867707678820674505368 84797255510805323176976245263965475654601181965227439913494892319213886849550 55460382185666349093656675985868835503742193171929306191156663667987564736397 85734161052458342189976838862570594787455143197730146896290665334704422026883 59334308655890261221305028364894143946063121165684527223864070797330756850220 114501214373523441214565448012292604199420138481362488636895138405011297071111 29744988042332484929688330267474434992774247436623178736990310852733624142436]
    79779371697537011673 13986852810764955447 114501214373523441214565448012292604199420138481362488636895138405011297071111 29744988042332484929688330267474434992774247436623178736990310852733624142436"
  by ((rule ec_dbl ec_add, (simp only: ec_eval)+)+, rule ec_nil, (simp only: ec_eval)+)

lemma order_chain_19: "ec_chain 79779371697537011673 13986852810764955447 114501214373523441214565448012292604199420138481362488636895138405011297071111 29744988042332484929688330267474434992774247436623178736990310852733624142436
    [Dbl 667929197923127412488684403824258814438704211962015888693641430188665577516181 3484760783913325679287308601894948412582645806875420838128686925414691624763 3852848811837990857812883895832169058276957450563063724121496421666515295333725 142443950195672244777961410149532382908418928295203766362161277189709794794910 821666437058601799200122598014456615152701663201364721370066742502878104569953 87849353415167391860175022871448129144271194851799286314191445223210336947864 75134861255587386924582370679615900760950368773194808648955043014651906954435,
     Add DE 113283015143886604188155391477512053472153787629623583857903846757258411638114 73327738002487625477071699459579050276790889273104998666441445329014265199652 31201056164873513306708970771803912093523481030603936956064963273748161893651 30524967131273999510024137588011406059366632457492982285790135161922181960574 8407361091899711063164427109308902808207222542457540215702104057952255625073 118241845643006504196817826235316276488946225022605321821329376523903973778304 31861161597875488753448556835374100968966489140396231441832733893681311852182 85399597009477083086928181644819760508594954494834528532319652707215197841223 85084199892959656495466307856420421465623330919475957973492214426179632074803,
     Dbl 135972325075197181874250116465389078533545795089817420649409651814873746834143 10872240697667308698502128819842779412505520835490033942992759561502528189417 159669570763706674752852922307337130981928385978893958736267969200417971929988 175482733766508015278381290031134493758222040945007134407205504421633681180927 206065850248898656863991755807725719710443219916718858443972455299356013074169 25708952480285263232117876622373174603642898215467958164571732293490351331959 75186350912160367748923800439577399369913791880421954899926976255665830342711,
     Add DG 145149399779308275861031827281483267575877689903950200050386039074807600068944 73276248345914644652730269699617551667827466165877852415469512088000341811376 22404354422544985840321234800573592678223982093956404311838034620136831452094 28084635300174580689214463418806014232941637778769385654699804409974601520720 4334968825566768701824376041668023352518377520408175571184636989515444076100 88834807199646079985545640665322747852522407438867831080455724183107922634285 17188449734940219488442765224127837435917708013097716503077598374011672416334 52666234517955378670143220965738334604390475442240691123573592118291263369337 104388414438579924074721507723433731595712145219620505477546027442935700956637,
     Dbl 71166874183713798782380599221650594681998788616951866913718228098345751738137 56452885351067229620831216688093107023508773342016754286419160500233860858137 43739809985640593110144876292913343758611558998751965745320841200415458998273 90397933761453799374819848180691704737884495204239173395482826881906843586904 55559394608416920967868623728293386710365703296101250667138885735048842329271 78060389993817774718894357793734537719775964903642081767548349244293254454096 39128484593561691439974582439231763632547541333457363292744209748248490453538,
     Add DE 123071978565236221329436056555225644896649017577780788404546942736175494131882 109334114664513320961679487699963187405193716712842444022652278595417681700549 34723578529986378186061044910124299187210778352888006582514196722703449505976 36906662110502484827718314441313189667709153974510847092669386736067733348741 10412860791007842152762978974453730183535571341307529549169739963970316169556 193381387101778299893521447365796590179458111931790354033971198395903894273222 57990954524571199306851337542715958893979583894564585815155006214589254647430 471092129355670248943895436625855393587837637492291773034734856298194852537 71265135291984020923622862379282581355593141495481826276517237093362098545044]
    638234973580296093386 111894822486119643581 471092129355670248943895436625855393587837637492291773034734856298194852537 71265135291984020923622862379282581355593141495481826276517237093362098545044"
  by ((rule ec_dbl ec_add, (simp only: ec_eval)+)+, rule ec_nil, (simp only: ec_eval)+)

lemma order_chain_20: "ec_chain 638234973580296093386 111894822486119643581 471092129355670248943895436625855393587837637492291773034734856298194852537 71265135291984020923622862379282581355593141495481826276517237093362098545044
    [Dbl 37832125514264969786380938328195120931318722077783237468266317241409942105228 46562397642569464427686928829377201624466766717144171096341468578438184524739 12360686557729409285672474830054094084821393058668404424727697062023543012567 102036795511183236354762478431894588944554225480678067600959663213326122086211 33337932498487365164530799351705633058149894110196331746304323118952304394013 14226385855488629317752402013419174302303596822454788211532655650880907437989 56263131071993986133933714897265114172145609396949864987485172323285513312445,
     Add DG 156631966404104909775397301890437267877216991296963370003425115717417043962914 92199468186081026267720355241929836865595648649349942327911316020380658841642 35761290842390215295363844635421930710224046066319943759471070905223614238494 48374300374809576576212531883802197120028411808290682500388143251134613896398 11044536212598901813657852828645878410094818736431131520866811282557579751725 54719167039206905388809750116810391859573709867394701727903495498735687757520 16899496848458154338191039200890704245299942904661748766942874250588351797678 75299308053597919352513636905296690295999871620700650523086744160054054352132 45684260981295308342603913002359938964019465277739525135304914594886872863921,
     Dbl 212986254103434077739784021114444677704079175267283495485222761046143584774455 21161047113553273585814241919949710487115518499635333037790171261438168388226 391763761547135608918741254106676828930845552272696459817812827386093040579058 140107378582498507161471761929288689068487094527761193614084461616290601014488 257711437224169664042879052295686149207644758638856694233754801938030608802368 50984018708415607614612859984695909080782761758580020948459866551672288009307 61212980434213870003464252994408030332743771000335416207228867934647857542135,
     Add DG 119874333551177931478536843919160533098737826360838137266497904816625663391596 87249618823861142398189817144786920704997487045964391108167620409018314611952 17245428019098446060945481254655497188153215223431679684261455680837311859700 17853414721253818721189745949437758163833957094784124244223520320309307639296 2568437874476673866070253220584253339280041693079375754518995269930845227826 156903211209769010133608338994382430754499388979353722614628920206683184624155 23368289256253062133785641085462910812027836906943760828790849604009183375789 9872896735962792904575505999001386179553357444866862373288530352897938056815 39443808120874316365714447840915275520340577761059332126749620540066974944258,
     Dbl 33316067775293511829285816098652662276587404164410941449303680356660902337323 20172387551253644837943048357481713437246778285813408974112199789023996955911 9585804862135996446740882706949408504375780225483334192619878297424961317961 68151927014904775489317498876239898787190120673648774888399449128159349674922 19608888952611584798540819865257318039782422720248604185455245329162784562821 57513058958374212838828992131449395245633221436858651524346665232647423053556 16967612615895566677742577202810318911191384197976292663046318066314530728225,
     Add DG 113345293301219326254320711772407046933887366682559506690611106135650528347347 131494986642179445723911492936384632126549873848323514652350170277351641425862 18812409455022990623467481556949466947072872067032299929094713483334236738825 18414885519614918809695113889765361056162394255233532452402268092873530918251 3056398341497281294981606753515993131416497580094646809150637595905720877883 88629041952379649135168627582305143830737012587469780284923073638341958656819 14399306876632888826911650795930069587527475729680008689985204731056324870852 84676106243310759127231349557832159268166193515029435278881175602214299068400 77645585466844839165102228752879694456964371317118205088401717004607078502574]
    5105879788642368747095 895158579888957148648 84676106243310759127231349557832159268166193515029435278881175602214299068400 77645585466844839165102228752879694456964371317118205088401717004607078502574"
  by ((rule ec_dbl ec_add, (simp only: ec_eval)+)+, rule ec_nil, (simp only: ec_eval)+)

lemma order_chain_21: "ec_chain 5105879788642368747095 895158579888957148648 84676106243310759127231349557832159268166193515029435278881175602214299068400 77645585466844839165102228752879694456964371317118205088401717004607078502574
    [Dbl 156952869673690697342731028773040000324010503573431061130971616195385583110658 24727647858366176753148099747992782439117225499287994072573587448732276596168 212745131908956851857508042955792870579959878693910535799414165409178258478333 164821846976810515615987313515841286439414115790411014165878374094770313261678 223411305887306435888169202509655575165430771574275294051067357648918283257428 35646348503816438934815021050678780682022062390258985152460385515352820478385 105903086533281935356915278527069923071125338468111183935601890298099620398786,
     Add DG 135212003755777100158334682853177661497498525729159173062497385852945130922518 42559512724793077044738791612125027966615919578188623379794598045566551755301 72579940079041405873422281010431321282437511633080538810722167458000808880570 84752587117141153949993100517784996115595426461776616532851540233140047103193 45494020675978763078713108275220294875819011422570108336130580055098123261364 138319293497420872472591722899415138009701296118337700249439615028480742361105 86700275467374709684787598412706607058009422285527277235624299397530782425218 13119144243711761885794283159951550525590750937561848942478354494780912788943 87140627934120943493753587244511710541564482467003678713604453022482256633530,
     Dbl 106636097767008536011313823429298380283057245817949919387152806581161178980012 156041205592463405572021819365553935500997552811217865424221236529826646642371 98204095131832198385005008877785879802987225609627128794494411277763567021045 49291554433163597833608183235527208991151911203157019396072019780670463666183 45393938845424401807536795250858551615535161308620770849637962061492169049191 79619679047864359475757084933112249387708824400045393585863918722019283794423 80465931881340752756835088191963187838328496856113591486814422506806359926033,
     Add DS 127350046320069082500617721857510665082695528327316398224370937968758189577011 118447736572532821112223796694905584683740199094508293316161841173253971934869 90753791849806135089124914308061531410506067077202141733492154102965196603812 99812514584719108648230112435137906999939907021085881063968655964743071483801 71129649610499044054620726223426173902566724308971176236307941187821295274108 162680549627792506603539604805252351189408184567107388514852031995914913230540 127503328044061225579690242616506930197119530897958689156886877961435280511312 32731218657388048295788465136547806051570624498578569110469470734013205235546 8849925327938403459596842938369850408717552687527063864414633506522761540591,
     Dbl 228246803172143219483730889958220056153978822958248780275814717926365533063345 7132925140872469690948241829206382803409083293827147956346713690596926168334 449915046022971060261454705029959932909492063088753881284960862660230897468061 118462780253757528754980373046389142322015216539346499618212859451605632044719 233511210186287053403250600647084493763151941581048354575469053297542510399027 30060527640946714964379077098846571582825392624872633531714195290316407862490 13893874321725470969950518863604731273157143874212673702093314975042678512563,
     Add DE 171071840918107281083951337250113611033599589856550236640381096690152340723488 134568724936349541431703551275590219764584114172087133613303173368623493641524 85763402802019980971465412692383694993460173827074812228092366434132703750301 126707301831932781016529724271776798616168182350758640669571120616966773548628 63522139626539566291761962877717608125155910799289513655277134769960920995826 120506890925045915005586168122751423001232928901525985397779827313757110198995 89255501778208897682909850949279541681189268915187514319733198788652556175981 25345725953216995382363893984783056434862448388987212173391951984468132335158 101402963578205937070379454092460251412559648399816956101089994615375240708529]
    40847038309138949976766 7161268639111657189187 25345725953216995382363893984783056434862448388987212173391951984468132335158 101402963578205937070379454092460251412559648399816956101089994615375240708529"
  by ((rule ec_dbl ec_add, (simp only: ec_eval)+)+, rule ec_nil, (simp only: ec_eval)+)

lemma order_chain_22: "ec_chain 40847038309138949976766 7161268639111657189187 25345725953216995382363893984783056434862448388987212173391951984468132335158 101402963578205937070379454092460251412559648399816956101089994615375240708529
    [Dbl 102832995509071600874516955307053474999231959169393125507334664077955528418150 163464737952942899849705841755793524160021935605430750969892307306856785072416 91324243607834193154160190266282826241480047983394560869979235246012341275178 92675216769608079807025130458603090283845575940558608858621378087372344135651 82303292156163109033445452427768771855570568015077480219494777733099005873244 48462598420925110998909748534867874004286857114069167354228157905004622871170 13679489172151012091983896733634818710237340061380692524161137518234473072349,
     Dbl 311520746643777971616364313130397504034778296929588625748572434546797852749114 12755785251246355831938581761033428425877561841170744996090611239759576707944 838098493849632149018604731086971873614229812973750066922859022216220516899495 139095847283250136539252459052850981936300600790350806396858509587836371010362 374215911347099903480643313457400148643404829686391830981990653328702749820752 25158840374991169883228274490704799921256240989358924996827232325077086532471 64286133319427337815006438649728793863769056120580441443293733615964983496343,
     Add DE 175973528184062826165102139858255382695168741492063945175268059655391662053507 84176465938647674586647631489466157173972201925719365872102754727701188657744 13415765557282235089693402974468519668749920006918141433168207632944812217067 20388435979997551185819649248418297180100641362432424745166098115143646980575 1554361499766060550149444733303687824303679233924641977320556292736007848277 36627856010382913688786273389380129054948828562815815826335431088781410843082 4243733162928614108124728467827217322192096547731504770535586037732484671070 104323073601924451618012986110012578719577397092183673209949385244204510361052 76142192560110351321253993523532554314933681190196676759238145645449070894741,
     Dbl 325436620766613750148033316278359376918966319191955756822557841747024323566505 146029014098998883368003185835156260084480474746807799158458727602194818282646 914647924858942740859516237398269913774702532905365471906360897624000534303648 133498877170801578988037170604626191807860852628309523150563315311497630966418 375201999970493599754274868006183851305508282244740197672986298429720720888749 86616285668439068053546800514074294764986529129514714098843653940615714066297 75745302244502133030233919206507218125046758186147669210842237605303607914762,
     Add DE 114516082890614927994783613834885887851438453351908156073251638039853034519681 72717297013572879371420150932687732912694499860152138104554250738362564239325 16225324103391801192446610400256088772114415122947480616276239782852892500563 16046524181310933711846125187406846579714826074663955313193425447020807369706 2273567598564980935288107322186171193252863154807524563591802341213076270153 120000293770221068338338342624262039242400201434700476371446095990771663176042 16814997222596042247904878308527301606621950306306299005217248702518022079373 82408081135534195138779442898500163375856312360454801766855141957752885561918 11685284635459154686750961401961636189595312902022053243651497957399265289585,
     Dbl 901490761040625730677280669114230469588603444360573219588430820668499924596586 6002800132968375816900323400839902723853800221682876822469414713004122440696 7018489756895268346051234334527629368487604797769140331130760353882249747204189 130664710004489346405476282220070787288429493550889594565462498120354681698328 1017280451876834496931403827893383151335938987285264272520338428168186259258874 67535460368361044156874145687117283940696803475205771240850227845307038535253 95321712841512128778180087770361608543294674026436783174004764534717976331161]
    653552612946223199628256 114580298225786515026998 67535460368361044156874145687117283940696803475205771240850227845307038535253 95321712841512128778180087770361608543294674026436783174004764534717976331161"
  by ((rule ec_dbl ec_add, (simp only: ec_eval)+)+, rule ec_nil, (simp only: ec_eval)+)

lemma order_chain_23: "ec_chain 653552612946223199628256 114580298225786515026998 67535460368361044156874145687117283940696803475205771240850227845307038535253 95321712841512128778180087770361608543294674026436783174004764534717976331161
    [Dbl 91903612166525665320589498917939159573403484542760054896742020659472443596643 33143060634355934394734601849175469545106728786784589813811287809279302527813 72943445315547449633527217726469777195368313906306119044171417621563322506578 133264636558893832371978107562800648018142387836499343758066917136051057107187 105771487106690762628270071367147850970421025644526441308670418804427440569445 50062913046783407208467023133004543775824400304346991522240894717164816099729 18869883126448141192429766541180808888881511275476889448018162745903142905045,
     Add DG 120795439212810131884682680770851898403696187815071166692716876651133135301174 129592716131626871209224303598014142148859746770822917867378325597763029249042 24311140339556844691797602947110082279612460524323190388286105672089686765138 25361619212710741582585816348790544719612842453663809535175707106889807689190 5104248040626569646914593932817321360526357761917187526683674308526483407745 127211215950959249173585922475718692380373179000470402586835562922653237671252 26708644296166456495839228128875645556880925288112701679414079713495367906112 38643786333140353458452085665973759248721205969517152974862915802420413100140 62446849919745620530316359081726673912701327531629054287471613628281704603475,
     Dbl 47850447833638577370006809425236793101816607159631735240244385699815375892084 12921373232751883107811722369761222346176593492113540793023037761360588075000 19773935965410310287178652956865267208042962703314760644017269594995068930198 65620322732591491808966294750325062804727806641161700022115275257943255688301 27117239618218103865708095378443727523162616461943777007110258567839660582199 88815552837865057073056775924336604297263383993996016992205224552385992083502 79950863747068777783807294879973293365968807514904482377227879825262025178872,
     Add DE 112316815721188938975273638424623578319161598487426853179890067428082756502476 68511735511006234617846775259221657671772450531395324938168608518404146975215 14693791400194295435266455856655923688386227924817424514270095617168766306778 14252785935650548125555639722442219600679549769976906679519458216154007222151 1864613611642508884536910197640253796146823101745221623583238087756413316878 181584746577837475395094461165579234720710018778270784591645138043092630239812 23042751929309009996179240232812255708378298921206543181664906675094987931580 23022895497343777101533299767445277429823349881365796440017670517202196515353 99496752683776181465709359574660348398872924284929489739873025907312867049324,
     Dbl 13144752597988152518381842932656823810690498388292294223045285499807811050789 8856902506665889694786157008904275287755556377712525847247219292828352041515 1492196245878195955833313917130507185625880718420846328350654616448993175608 97340129402068799026235373832032740518444067230347560541462697357311467091305 11050080599409375110292738457593331524040788164142158920705528644372744905712 41474855332591173498868910944100444764649267316658799938012557167799564095711 103831596641113188428324395181966797224841643191454898053142826321151175001265,
     Dbl 45756100866252296802096188651714956059252467375766201874682838466130548707387 37492778410396011018846936208197082538630209790807278198454882415146133120669 18080861829790227261386964986291571187811228294324432342724227662125465093882 41813514619877672813065718294281801285418470076514261237824308310305918656793 16522919701349212388988141612292019707786502497741299161235758387652246635555 115453429950029696109374177658506551332500781905785102739645832865402480110581 67306387317351263647045308475694189082484015306648144200716131062817415050661]
    10456841807139571194052104 1833284771612584240431972 115453429950029696109374177658506551332500781905785102739645832865402480110581 67306387317351263647045308475694189082484015306648144200716131062817415050661"
  by ((rule ec_dbl ec_add, (simp only: ec_eval)+)+, rule ec_nil, (simp only: ec_eval)+)

lemma order_chain_24: "ec_chain 10456841807139571194052104 1833284771612584240431972 115453429950029696109374177658506551332500781905785102739645832865402480110581 67306387317351263647045308475694189082484015306648144200716131062817415050661
    [Dbl 394401699854305161851096815400595783358918716790324342757402001326151694341925 113159921050368521239843396623492325189592177543660646741610092235525541634409 1343379343723211880769472593211673753013302726819656533219685169050216790347223 135193953801507053807712032194461741207953837837147890026937000881180431139630 460486770214999878062656734323351993578962182814107346851828925985405013062348 96051565385838837725233130472732717977816928734277776752166415992130883642614 46080908420708916244143211228316073605600108994336893676013192201862495092365,
     Add DS 110918159982094604251141676317890196492587423993084015058068440698646589728820 152832760033164657624915673658552698916468586956284991126963071478197836768537 13826796448056427220664112704042753131210143462111837405936137069756047678833 13244797900849471453657965452700121814621812418394300709790592845672120947221 1651065295351578792259029853227322224836417942519384664533866728578235225165 204248621700136405269686440849800464652551077738577068804751960878085774414168 24389439171927004777926383833815447375993065415709677310321700491979479707924 7595032923018627879117674631620161178535835661341271986872039121953943900109 109786139191353597929132320594790598262692254127061294125335066746434614455967,
     Dbl 36903213726206936464958158010386805044936594672616006843723656240193018699248 68483686531899015986128183955803561395123227199255157746810778827368340625003 11761141821450329075248919192874772782435141196397247954031479308740362276797 76115085101045423961410704921211558211346134643239910596460209601853408909897 24258058316190136833628251547804195634086127495278651546401336024237299014725 47272037059289399341277954719096510820459685683741925429869413528009369661875 78610491280664753372416847430727189813757083409393233401154735175989181963814,
     Dbl 112582254309052984741497918648120552443848466986450543537168860339004822432749 94966385447085514248067878623212385199014614711162719813064832277645168014319 109461398173162907446682206916899513820097679943504584735815639837656990055947 144910837476415390621311635430748051985822708454014517295076505254766061490148 140893811177992134958597415372555350334119057662520101540658757640444214448977 18153288820190204143537304297036366687906961895367972174250492281152142843390 114630858882689928711453084289844328242473913907441793885333189216876012854287,
     Dbl 86456871912772375830861385227412812975331056792914737821478623984318222585840 162641726273531292391745380077324365852125412318499740049136517841208056050220 64553552407383594866326618088625583419382099067184278378259735759219413906533 69185608950622462141476402079783446371148072811190831907107554242884320370612 51657858241005375183679637390211947950506193545248100398267174167581111291177 64759769106883937425631887225940828170028873749817704306600522046176657144441 105475173290239173558636153711346757511538020089927820872920591841750986662442,
     Dbl 64735969982631054693667365099523197846933657458786590347082468316993626665862 9280359537570192689651652027673147243228024405431435811143960380558685219755 36191987183193182157745250929474110940783093006565281858677560175474306636628 145613670812286036686634368427629829042142450224009262301346888038794439374306 81408343910656540323417935770924717468551450032001396623092978103306293234390 34938187531914096162568503806998906981156408191449006044711218015291052441798 79548007763426252427162299001946326862877819787799736790525895202979273388760]
    334618937828466278209667344 58665112691602695693823120 34938187531914096162568503806998906981156408191449006044711218015291052441798 79548007763426252427162299001946326862877819787799736790525895202979273388760"
  by ((rule ec_dbl ec_add, (simp only: ec_eval)+)+, rule ec_nil, (simp only: ec_eval)+)

lemma order_chain_25: "ec_chain 334618937828466278209667344 58665112691602695693823120 34938187531914096162568503806998906981156408191449006044711218015291052441798 79548007763426252427162299001946326862877819787799736790525895202979273388760
    [Dbl 71139227692254754232098827308610016606244905442531977179195305175329328261976 66117960906282659154494011973857418518847303805091360429869749828687712841516 43705833014882076068252881029449226166791600759281150102292671827444907337854 73374692076492901101601205368483341791535179290565405513635735915648605603683 45079236076142269852587342506721582387413960967090872419687254933018132330332 77355584692737390484538283447203473042891213566524164570533066107551281509778 20211132817998573854606680402569464336822821400324846751163734144069105286732,
     Add DS 129614140675196051491836523343419441427513139160837627239701790583226191861656 178702535635875000014452204484299308185245874550297038051812529535991226574170 102253126744668981916807767822515725693454614815124322056010779811098791673333 114459038105782802237996457477970772914438066520571298729527897093625400823106 90297204221199861622961649828183047637992616348963895451078172212688322373942 165427018932773271866655062828823523994524010110631211490628646929820130067647 146084504091271744363592842619967685851651746465485333697402707039066741380844 27720654997280314041454205627067856901637188121533517119362003185639986113794 87700059480687297965816262890666860142787171061267841775160427952792532847147,
     Dbl 79166668529179372942577678195756253071528214917000575590121389851283760953669 100011486221867029913641433206738987597984766744361238138471127792295530887806 54125989497987084758603976610885612737796352806571839892931033992803369931744 92869636077663832338321600363965185887082300997950319165306323144173389421756 63494663100150293848572307299142916713112470470280865453087981042199715687937 50643108156932677126703590271790578867824871789223761993513264049375431363701 93658672035767825028986637526557946830405786767244992014182955335632918946386,
     Add DE 150489260402121318921626824077169603748600110692199108178582027931093317222277 54803927222307187372667432612637004207335471279054815301213533008033253207701 67117315290295355158302837957841489148189579464626861505115434578429323540603 87229060333402118667418589221579927229697677462807921167398556066419710584910 38903642221572238104465336892776252981728915319229961055397332671812098359027 160899002965789473171295702606637788234785490722779312521887005041688458861672 93262926535648360274288764388826945596401812604049494479220072147873308406122 5536194428459399378978872673840698486309365732085013511083843015595807173692 52202605765565709509990686328750670600463367844782253296987995002475404400944,
     Dbl 66385205965243712299985306283519128846385764178017937572676564002010688708650 59062870098779432034191465350989949096379554098444126116470402520885584604016 38059556573123749397462074512569378337593327171656462972680616577635349047671 47587668862923387271636857663904499540058257482237625517230228341564691217112 27282668614747636167256794919324373430594193273664743294997796178805591447288 73740614802852207530913000018624106799521092915487952033311198681939950628243 95663247745498656260594729448821047468421458125931051066167211247938206217912,
     Add DE 127391753756201788517417414330336075816903889565934918138784093298528797957735 52799351512576356141059340690373903569319799920368756249229277095727965936175 46755457125732863233572648780479283150084427926587575393303123855498043719396 51439262562338270551232909518248353702505918462714720776953329170348389595395 18879292924371387820096807694674444845083627227133954323777831788586035834402 164104923887211508087619118123150631180740901213747397737852077154040973188174 66263600419237163264247998584603914050349003753891566964846865523190359381960 25427780152956894866864866904161383472050176367381118334916705535807812111732 103553820045005748137508118664920308195033267945587756878975502669164750005512]
    2676951502627730225677338756 469320901532821565550584967 25427780152956894866864866904161383472050176367381118334916705535807812111732 103553820045005748137508118664920308195033267945587756878975502669164750005512"
  by ((rule ec_dbl ec_add, (simp only: ec_eval)+)+, rule ec_nil, (simp only: ec_eval)+)

lemma order_chain_26: "ec_chain 2676951502627730225677338756 469320901532821565550584967 25427780152956894866864866904161383472050176367381118334916705535807812111732 103553820045005748137508118664920308195033267945587756878975502669164750005512
    [Dbl 90653133270637062293964994111418333707346899533511257185716468205258019470858 145391974519276109568894145147306234446855489027734116223564938717019308340240 70971951762102596706802775949744624350758148082354447741682915843177372364046 83803513281418216855595842841688523916477481077289629492070936964326475979193 65609413458961192932418496938105945741914629443054419909383932438712308087132 57416356108854873434840009071160767408842679955732052882303352579390170804202 103760493479541945955055550845598731228886781875123584328599621597549712511566,
     Dbl 99382805258465847223937309303748129232453716125234847670269482014618134337654 92701531324330640301992691832030969397815527113131397661958981183002385804932 85298935757168418879345830657194033190357864443047127011951614387319956659208 75470663765992651054773147302124795171926459798560540318615479401823130483457 64775463757377550260290332520338828038960312400906548441086718308968270947089 97737781580178417803637846777723880090186204822812076603145457185475874992408 47416598661291071100903145594174926916838616443977650142788582143506426039305,
     Add DG 73120570679415121289511857126132562089334383296606081611812314182822076408495 101046000596783941300750924545020024120902641602322157172607906200159746114782 32275971703097239212214457887581001225460081421202972488203956669909527832153 20381681388667416152464261195877352966290436509906496998172865750039079071831 8996627975544064824111948379383517495710891520735762147075004873643108991522 119307935268394370015230228041308313269298774745444150056499403170733881411396 33255981199073719736160328862382798263270895505058370309621483664442841452740 94221935549100243211978603745103474674157414743008490586103638022650828252675 83425329179049750957355796492200423921040516295205807775181703243157571669663,
     Dbl 199735435833390584193161752867612672356111044600181420999572344504842483025440 57799022320688185381887343014667026469348753469672448861867900828459736987755 344533418390880981197162638103511788774712502673590117588949373811095360677883 194469441710822081810700911373692584806647015637298523589481011648683043165517 335449847672922739549258108901075436991219661850024467064280716577884938436511 15544583075594356824848677380098797720780383771350531036080210381876619758821 49727539020369267891986218801087091231051475553029021720170692519276013795024,
     Add DS 191425142292339085151526129410524116749623968956011260774154646308900853612613 149186129433504305977072666085781681291017220397592863082805571160784318065878 85901381774010840172331329781262218061981766761421597841509738434961131226973 142010428670107106437417439340160307618253751503289928848974362709030978920117 63726697041979996316731372817788357609682620481449520140615481972403162601165 72445270973740026705554019750821247235958884243122130433338359275500066433742 53744162667991488358824239991925062935912088707972204552406781460268897481204 58891401339170525542865642637965458338091484193868964642199435114285387996742 112480007917265632754361154976892139978737784061182260325902710665139800005690,
     Dbl 161909048567338020211900501205063748048200537109471675239239694190074644875175 224699898289800781235499941270308129230453208012438501338154551571877039572416 226393186103187517581366393163011880288591452806376660490490862116757007243930 95058540038256759318614267781425115386690004691040347385214241862507767136854 132917869235874968621687732834115671603634023827141040953209486152621988641341 79624950538229961647822359865228250804671464168469181296442777259686455531551 23648982053612790689647508187225624832434458908142886128636971199030969173677]
    42831224042043683610837420102 7509134424525145048809359474 79624950538229961647822359865228250804671464168469181296442777259686455531551 23648982053612790689647508187225624832434458908142886128636971199030969173677"
  by ((rule ec_dbl ec_add, (simp only: ec_eval)+)+, rule ec_nil, (simp only: ec_eval)+)

lemma order_chain_27: "ec_chain 42831224042043683610837420102 7509134424525145048809359474 79624950538229961647822359865228250804671464168469181296442777259686455531551 23648982053612790689647508187225624832434458908142886128636971199030969173677
    [Dbl 499342118909691246534806109990681404837373331699834532616757071216595115465989 39704503157787572422643415676916446533808896395209104576396655471243510543281 2153364304587267686685094686901183360258328155788841583445925658886801914100879 92319756026136243917160516153591998312933711906468747457796480824959410209972 398119965663943533826691842669755584521077753705287431484409750741210406030758 103097283749409913154232828720324160345007736927640997878103880442635879993242 92158462456333421640541199415044726574274389178590344742861808402198136458077,
     Add DG 67761068510183625938916875183532281834512851191777160336853890925662071407661 56304136801741590761112870724150224463466868867709462572534679941468035696010 28940717452152239261812993349650624994401377250954503359367281379189352908793 16935992354278792973020561350276237766176547866630428234208682976134015928501 7233353609577915469234688354802402134211397940678226855705660441552706090504 198479521612546301128768972294838975701234574255289772454248688291542736858690 49607359128432483515521948412905399549738019238098804647374037247173844625910 20409851374179807449034841434173092497043147337991789463312776159001977806215 60454391181313744098075538461231576288993410708796528574021094132636850414763,
     Dbl 118438743530878648394536662806096504120138350530103483032485291912841136848942 112879888873423010341678712067370469206407136722613970460766446468034927966959 121145892276141305633066964403888096804940729789908355498523193625066120948633 87769896171731179108284056823582756578076308198802696016720071075756485257623 89776048527030258174837711644598645100966143744970042136068940035249763456921 48432044439764823764321769619278243772236823804829657486050289091154327220255 27762429213994129050928025365816605641501421108593173374005849545237574640480,
     Add DS 158537680928168618212053037171344670698167528922532134324184567599623146151179 171151239239879444818130859521052166880567274842028711428970414134822757220422 20456011522894474455835806193911236115236444934929442107576815359564063430113 28007514582735855213193483999955544040671954596411386955711343245313916184235 3613790978131333221288293134273861372762350034666749823765403249701980919721 50742800570009908574095620901929402058868627669319264387538404370568689185198 8964302483882856939148616566427583640532787316406742203178077603814495921235 113481333107071110613797133726036749566638180801150957137969468728494472706720 45369468580870976223672523553302720816371032757988756442052687237249477963089,
     Dbl 475053877761853954482412069111377011287312380686723974743385216715531801386914 38619607788883998049288985876113186057211628257322598584768791702317550634684 1948977587873473230367085322434191490267597299482058366264159489775699384770570 204371914696125806648281338566378682205379437530820275313195288191826857706337 838465487767717474838895516192089382048128288805056499697462524162916939642084 24901507648261499389086780168345975214528727935971245864231764544576449672046 64735961485657203845412053883553568490293109207504800970208032760095171645237,
     Dbl 74888792807808278317691845968649593590324704951765631943555757243603231540081 67670777995020267792494557688736798688063307390124857139919569327864733145442 48434494317798748716012173997872236926362612494073480612007535040794959297084 39434010476355463556169575808190314907047400981954149210597752185929487531932 25504034512169522220197381226354087424069404002888220177994765173228255489293 101259586409222231256488189368843568160751311619657660693091596366555796811777 103865334940342903132804127177670118557555881139611312989098340657451786716996]
    685299584672698937773398721644 120146150792402320780949751588 101259586409222231256488189368843568160751311619657660693091596366555796811777 103865334940342903132804127177670118557555881139611312989098340657451786716996"
  by ((rule ec_dbl ec_add, (simp only: ec_eval)+)+, rule ec_nil, (simp only: ec_eval)+)

lemma order_chain_28: "ec_chain 685299584672698937773398721644 120146150792402320780949751588 101259586409222231256488189368843568160751311619657660693091596366555796811777 103865334940342903132804127177670118557555881139611312989098340657451786716996
    [Dbl 153881106418381321380413904222208146862131693979070602269711665839493564011335 10409293129696687685002748855358949337903020549286570328374078681180965049691 204499245747386197815313929634712656400675782647927652876553608417083745946911 187643317888160966078345683739386033804962932355682529435994429704445930707762 249367306167758599550448570328495300233357962371347268453902486562014936160937 29408357758377460601713490638145442209058363929615695296554750670018700775678 84846774621654643384673876472979884881921295546031713384357717314932432337043,
     Add DS 177561367609555981374661316152477472261345988797746096513680106020758772595756 114066893832218930484385008413888887640147400404590171418618546365127899523859 27098132278248559140852978261189701412588814917313012264858794006711437523681 41553628220051528614275410379152231491616982974916438240252991353482449860279 6341614334848805253436991413045967182617735514299819297114409780923811843202 52025076417629634193672283079385158406782767821045590764104463506341947717955 12175118454435731930288124168165972527920421896893275024484065587002033395996 93175370578064021831612192567448191655545580774210668571907871171585587729386 52081390436841668927932950542821142231685418793092333761706765755956270193964,
     Dbl 299438208248800774106054647066414728594609360274734243020549054973292302422541 44436260351120132278522054924412330679310668274415589275763994033325634661620 774346858665682502021602063071844334278920164045450620834404909615728852109476 137517862944557498138137808232463073759758762837170047532127356196833683941728 355621033816289648177818217715538861155838386351957471525351881603311248332565 71449596870822719117045369343673025749056802602681185079238098982660738459321 15923722482807974511934418362479876515612451517177962879598417548300001891289,
     Add DG 99408755388770819976104334560183416430463785516736973135719672385637212941582 132538876775267037889719651776715074522128806529121844435798070795366170262798 73746102201576650649400792092904963396773306326612840958222767097096576755782 63311822793065816357227295143374428950136520187750504183171224515608643967002 46967695511385011054396618903309328103501876022562306818813714802503948544405 108345523624240774433951876347433840186950670742635617766294986318608308583536 69003505428604437819487462519414678493485400152993393591044076844029985200353 78896162483898140106664478004927093415376116525686131352400696671961264547448 65162914584745607006331607119978108765984265568739894706007741871382589416824,
     Dbl 154783487630729160413550655364227504009343530675379347904762941347463987277271 12941065430578521626871147609217820747763131879739479378449805174422431404592 206904704811312711005196422547104388155876367433163918413404826780226730757445 182487040391735027159964589746233998647806290913543005852955523233866662887601 243937049113538998661764461736708488816317575314103715599191706469361558580724 12201211329479308370270873267381002620839810277783689538902757446003436331510 87107583987661223879324696709886606312008369404681510358376744334191284776035,
     Add DG 158657140930114230722878830636475439558680777841634468676055013922294515069393 61355015270413788522329373429308344725732888641618296957019744009474887378052 97295432558233499984545943801865113616934713838255468119612082525736151148301 133313210400847790857784453736029854027766466433088455590105775380544485553207 81753436344795100045319655639746846633856825312066365581763802310183375026103 120689785909201398142990831618743038149446075660009385084282550955937988296611 101410769964862852632092396939640197881515858428091926734690234673583031551730 7303514657594105650851026657325872324663719283414868494077790497974282706562 100234046069183615243044048334747861233559952873415903615734775344191402304886]
    5482396677381591502187189773159 961169206339218566247598012708 7303514657594105650851026657325872324663719283414868494077790497974282706562 100234046069183615243044048334747861233559952873415903615734775344191402304886"
  by ((rule ec_dbl ec_add, (simp only: ec_eval)+)+, rule ec_nil, (simp only: ec_eval)+)

lemma order_chain_29: "ec_chain 5482396677381591502187189773159 961169206339218566247598012708 7303514657594105650851026657325872324663719283414868494077790497974282706562 100234046069183615243044048334747861233559952873415903615734775344191402304886
    [Dbl 105245699834425473173784453334338169727167334595987519790710771340712426737949 180827384758558105915070496112172671666582398826205371536364945347177165427792 95659879760320649815996485944331474762864809731709736993235614149721490538083 87485856886510311751061962618525237387050306100743142652352949891803068506777 79517610350430349364805799456809480968721773388465095588411339220022024323424 35609747008399989323360049047488542790883397848312289881182424614080048871448 112375140849039382934907361917836527638596935013541037198016314451870347341375,
     Add DE 165522621550654006724970365301471639825541584633110580290912867366388699714530 36087458409035629466746708221358423399144323032758770117380173891795824812712 76139737340066545290317277946202828018114784759035516061485636204889812344021 108840327622696761849504299819319103563268498592515856490288869309484333613886 50066111082362671216094519848421273559268145415103307684000898829812964477113 97070193152463180766132100501941440489642126352337544118265879117158225029352 63829049625578527278267851429838888835568560643341700433979438671218280344028 54331643093253003980798933554235010154511256161615309802374129504830658513759 15251576843355779822569379702853278158483337361397341037690254199450236484453,
     Dbl 294930034454049484588274634460302154004796437076556093814991537184102549694526 1213501242327036644695464609834930395419825362623378596538023327314073984551 751206112576425142871354429776302885953555954158848959322012234808912166515432 95822429035302158712187757815167757363713848196295168504473320389649438451680 244066002116358418321989121139835239230648992201876706208014344094881041678964 74301303295267040692182160747755160644067392630960705337358393123090054733742 56942389918883831716149165528677410910223466372204176462025058275106981022095,
     Add DG 96557048964326498400967543156101281535453195488457452877599378245207896667161 91520209339191180685504904610517540127517791674095630853371430068559191131992 33896313968119219648654775632328844277453685951835474635614678172257434011788 28265558287164134025433592249848188151881909989381950563241873009464696335852 9922613092078486731815901057388572474059835857088586491407283259084506007642 116818097010124295299561926708169086146727381289017102717756265037081976760089 34196661615613140633952872402488498159176240324650375543267290272530705959692 73275295522458940816191219048273982350609996007584166659059712093916912645316 43704759118333817871019809658420912866750711184796340912174096605710560299241,
     Dbl 291920912376671514870788058572865415333990699586691736230567212438984292155008 81256496659791388453384160013984330617800084101151609246368356584778345891376 735955449496849315474817419063270119010547674650026259682719393943017410166157 112142803236082906291825830512507370788137775214144825355317245822262242636638 282720776978647079502503466372685343256397173834409817545827743637957127453135 76924581523692229947936373544454519415742205459079905343200050279563504680341 38227054722991598931914834426089073011934441319913845765480668480095210670358,
     Add DE 124207787035361766100394040804505663200682777022342964828895241700905243905637 110235544535083413469739235713105878025806816726385961549915819863570961483729 50238941758446708105776285180756718128577619454021272906061668758123727760260 53890277133060932507289498079083719110772432901732873039583469872017635731757 21797268584002794565704488991077605880368252217361617061615892593405091462579 104403930797846382564972282295184116318937047137220518691854152319109638877937 45297939032397717740263177266112395626704834340023020460947326447696379820242 88312739963162042806535076257958310950075142987499950690803481968362700474067 104836772965615194099920594459871527510473802120386676603638573173092297510816]
    43859173419052732017497518185274 7689353650713748529980784101669 88312739963162042806535076257958310950075142987499950690803481968362700474067 104836772965615194099920594459871527510473802120386676603638573173092297510816"
  by ((rule ec_dbl ec_add, (simp only: ec_eval)+)+, rule ec_nil, (simp only: ec_eval)+)

lemma order_chain_30: "ec_chain 43859173419052732017497518185274 7689353650713748529980784101669 88312739963162042806535076257958310950075142987499950690803481968362700474067 104836772965615194099920594459871527510473802120386676603638573173092297510816
    [Dbl 139337441017588972551453498224766057011126722043481189233876641098762281807722 50244841923651601128359879569438606848972552996868331767367986893189354567499 167670542929225074417810084735493364938385815385921250363923211607034806907596 166886333358815385012033140856763643142419857103055530182122292066691797916728 200821271851892139882316692936254830094305830613041194211755304788685857623677 37218495841662853218072920409882575660925270550084984548138773909579737229002 18013921415055807923421731280556069521999013869964479806368269959589456097949,
     Add DG 133639856417930685875076783493973866518595317569333173666818997458718214171901 130448677843019204478232338858638881515742244176335327509028218384076716056138 63379748315409175741326077151943887879789057062402265008456251118343552426401 73148869844782358318973592705302614487542453313975674931388804877794123673501 34691424284536186450508395175940941693088957518275388946593059292628199856745 111598576250059238222975249904756856608440277157328822894713247220028614963041 61084394639347411005072633732027664457212724500244391056516634799229206499940 41412008828919810418668655513813626905754978058396725692883110697459956937624 80418279221087539713321839348211988842856703688797352371068980649525702347272,
     Dbl 55511008951709710031161395942904667070964742255590805562738295127425410948365 32673529207614590513441101935163141904332522362406763333753730114502694926064 26612112581553911253369071018355042892351693817897483590856651243455627078357 49525816227189763648134490185416831100068485518475970257470756168836077809001 23742796645578359151814602678629803050024731799389455935921889325743430412172 107678281839046242194105150337084703658956477205561319474869938536532713800286 24391396275214264969456853633910857341026499551485350195455611201892662204057,
     Dbl 747326761419920894370902713482535932426358547585628397683692106919975875682742 14447007920168536023529361853199217875061134176012402765100102891916577766400 4823276719618951553194119927860072510630604152048250031229220681918262641277357 115306288513070745399601011495378044287941756807859344293362885859242350868648 744191384173192679539223984968338361760199664424888255524529609571780397863347 108164082563291692218075123850394567224284705063342539220964636685199197603301 27671419546100911377581764291412769408594118409727588868853215189613613032698,
     Dbl 664201347625915838463853067918365540750630478192776385809300297918856955907379 14339339130551175408790712022263005432975424930966992639040306314211975300287 3809961743447923024862306028972000409606502377762319098386580477480696648197625 167447417564477228666633599721502329146363640444540275746828061595878812232300 960504306774031839283200224694628480143630695003042808398254724494232095431070 56508754236130658975012509137580145931191049284442827513594159097229220042664 93824894652996321510051611548496682302111522853009556460446393758811520339592,
     Dbl 146487773954393267546656494976781800094777774991607588653863879823683699169612 154662396373068611204549711487922448135052997019070150319888181210701359843840 185320673108625076222591436335767235932824187272932454503977318391338293685018 76146098523254526819559088662810613504850392859248729007954220927458522814045 96331904376665551667584054511253346546283094422266908453852261808746717642833 96154744950192327579024405483457440279610641090834662545097522177679531900282 57641923767498073546882817265277332181190897020887456322638055526813610319669]
    1403493549409687424559920581928784 246059316822839952959385091253408 96154744950192327579024405483457440279610641090834662545097522177679531900282 57641923767498073546882817265277332181190897020887456322638055526813610319669"
  by ((rule ec_dbl ec_add, (simp only: ec_eval)+)+, rule ec_nil, (simp only: ec_eval)+)

lemma order_chain_31: "ec_chain 1403493549409687424559920581928784 246059316822839952959385091253408 96154744950192327579024405483457440279610641090834662545097522177679531900282 57641923767498073546882817265277332181190897020887456322638055526813610319669
    [Add DS 110814980417741114397350401307165474190793711636527129265137334513097941471152 141271744686375500322176067621591440340877798929734428480338208153246721541233 83390150553644586303568553933604243097240262020881141431703441305767085400972 79805779146927768963714634338282978667092766537080607768300538151613545254497 60055201138200716407251954611654062678568770178449063898626681399263222229734 211126649891063646309907253736748967415082094954690955785484241151465164454856 152047374188223717903846428971381986656908345039058370117526452388122642798289 820184296444876692688136755396380717798530801784270799070865034123202117089 88617324224390242285863371714489333684140204955497263417261160114508089015756,
     Dbl 60978210036826968820481472976845093229713310569516202063348981628103400975757 93317545121124435348303359939085492123095694785767317513550350770631099667867 32112229115018671422427759983573371242104893203001437710699366733036542223990 90756749390014651451327177107887165128599311776182848140372187581566191095251 47794146931934669439362824359173869191895194561537522887984392866444711608243 25855524143746420664931944656197123442469203691241986698156261460465845693501 115784690438318402000564252830750720253080120775535724874193019723118250496142,
     Dbl 38073725060571692477152935931499489841105120243025311784987046103971889520638 58822537865611655007707372462605769261329783979024080847041009011753523682403 12519063690240775971793699434929043274234344857491378143673287328321648275518 37087554343793172307103025394836912784744152656401019758035312596716635071556 12194799805024410105078037483589620580834815444763212839112169362682814827925 104560059037269443781399904270048118510995035700481530979578532871658045293608 30607692003969903397964068227270101218727068333525086744275424534976199687311,
     Dbl 623308517819058468041221369292145466771674328794345848025858322833937447099625 46269589497613420323572686764186305114255482911472248758056617935040733978066 3355268144350794613695521041811164195732090288805604850948270909414107797570714 213262820567375761342493091136575567205679785148368236317113519043485509889244 1147993213261101298077412243369298228592568314628848574507292720263986246757653 7089327707209877862477798142160459158585235217753858701922597836081370076027 112704670767529213373376102812978109763535784490318433259181468992803996759250,
     Add DS 199880397660723564113897008648462455311819117509607933108312258854696103295407 86208997686344360495682782073890662758532911460303451543794794687256335101652 18176026697167783493857034523105870576152924554419227630725266179852115511799 31375471917394260467043936426812369844141639562507942460408034188090444535307 2853113271141226389970525431899036111951297646616616712860694473057552844638 80014361023258493520659043015349679083436561982477688154923258597316885400081 12559952684979087986878087801423515648209808812168982351581182107147458422946 42867055921267579765389740135498687928418657900916734586456923246673319347609 3668261402166390618349356754290694422145975142687959119654056415776499117271,
     Dbl 786411678159800010536094733501208242226183231623200615603013667862683497472858 2217541474836683038568006144894176254849372103157198543572634075749501966711 5340980818461713953689424381922285260972790124106544267800223591649442423234088 143922622057131183553693447068093570306600887466694513694395126744106415274670 977462549320959992973467955323408918165393332503546130034609904231926988532986 14736523101452591635267278076093025475087755099862784931519380510475738744602 16936597852516458014759963527011924864819908390342188954547704719961085813871]
    22455896790554998792958729310860562 3936949069165439247350161460054546 14736523101452591635267278076093025475087755099862784931519380510475738744602 16936597852516458014759963527011924864819908390342188954547704719961085813871"
  by ((rule ec_dbl ec_add, (simp only: ec_eval)+)+, rule ec_nil, (simp only: ec_eval)+)

lemma order_chain_32: "ec_chain 22455896790554998792958729310860562 3936949069165439247350161460054546 14736523101452591635267278076093025475087755099862784931519380510475738744602 16936597852516458014759963527011924864819908390342188954547704719961085813871
    [Add DS 192233202266480850341107528714529888995316597627499006878715476180301734626832 181977070601357115854298921359856847657248787560279695848428558960099246047031 42939685338810873109074417068813683483307089594640129338899074024410294984691 71286676588736472318151998842663324918303176387508110659957363758872571814487 15923510743615502602158522305386420155874460706710894424344137503632035192632 78970543612544176919254930457993257871753094527106010452532720769305703282173 29284991022207788170724031159836499853553844960291245969184746075803688830366 51558068726224610139583332626787675456604645238397338518444243749078870134092 6094496229259753190703414402971860256681496328141084546509336738294288281014,
     Dbl 761654127503874570145287812401729698773529483767037345887432438350302815702229 11305548353374049407077857214582824662919635833454366687143753232722906363540 5009988279551093195297314919557830004572292126517724844572631811317286644038344 160809335430786490141378042210434736465584464182086322404376616490228671751570 1057767373218288333862028202703207721633712968139198046001877781434330801945258 6540822532754315421776275425040846844290165721951580153525211266759033054185 28135635033775524560050182947741389132549306078182502438186055151274565144462,
     Add DE 194591546026299680626554138923919335772134816759471290018570080713709715531793 120326964224299487841603887191453561905191951968117304877210433192391607009625 88461088540015173420008737948797845237248707274095288800421052886187185986967 148661105396338828429079524826289173221706596702122705609293351259210826275762 67581164112569893238653258899308443226673215302803431798569748239598282811376 21981324303985099890919602276297194111418183591579216334212524800700442073547 16792959590670931312048464495294643488297469473112818976392209023258068655884 100351587466085410954427658157431560586141966796012927858770270473967425652301 107217484081691522536566362507796209759186138000989569176162169366985759302395,
     Dbl 175462264086246622747540829590250200138588530177085469750680124828703756232550 64027877389139934034057652381591060065108378255705150105408625654203789035719 265881774144118777530318619939700899877093815494347731919765205899983179807544 128219188078112140105814647052755689605686430106912388202778044196784202551738 194293316474987218081440514249787952112046698603092895043473919706332873040132 87924488625289466272183996113363778833725521354741103695449810285092057772226 107600731904894795308233775025129697672193710510852835845512974728414733189989,
     Dbl 118756977506362519862917338619605183264231504746112281121513795681841913591186 20420464925659930187835226054330672191887840678533698842720617352238735030360 121797782554403238546025996618472783980370322727004895521404290165592453986868 168284938877554656128628645494283279498919101452862286003838223609091964823229 172593920988695671056184063923750625197981909600416239009621149471425565664152 35431638985051005567126335627768407188076404567519381731069170683908927620660 32361513014034034463378893005745279367415563732279153691993256094468879944829,
     Add DS 171538086382882436409248471162854507282327948159842410079165686006868545750774 166552155439839539405679991881123493154653132218342731110983007585591451916073 100545174390650137418300780595663741561561118115178661495843852740495129701635 148950821456005340357080896788382886216244530424252263299756494301058449835159 87305895936700348937979030670077194768618113896396623341186888526229343298005 109315473944536393787708465215190358534256690161712563548015502530914944871844 94921366940910836441303006297113779509486352603935260386628431253081575701112 41908254277830807202988855421265956507089699071447382222511252160902817420479 3209238058014882224838279624312594513155899155838222597194189365320608330855]
    179647174324439990343669834486884505 31495592553323513978801291680436381 41908254277830807202988855421265956507089699071447382222511252160902817420479 3209238058014882224838279624312594513155899155838222597194189365320608330855"
  by ((rule ec_dbl ec_add, (simp only: ec_eval)+)+, rule ec_nil, (simp only: ec_eval)+)

lemma order_chain_33: "ec_chain 179647174324439990343669834486884505 31495592553323513978801291680436381 41908254277830807202988855421265956507089699071447382222511252160902817420479 3209238058014882224838279624312594513155899155838222597194189365320608330855
    [Dbl 905266551067401413535069944693461719349257513094337813427520789831016516661639 4676713326338924334217213674507465870070135228071863571758773624369786273809 7077405148134819712120641439562048546913326138340949228186949050553057517148167 147803727061317177972221439637482739260145104265375582893486277638267640058500 1155534640691032551806812658716877547571881906447752578348920575185595110359787 9896616453829824654338400792471125100214579471712363368482558530544012033642 36769788288421315786299790538551774346652325921923303581745035499698113934864,
     Add DG 160961735805763714438811303111385317079306008647705794846475212837753939367261 111692810969653696615354279600643176691088932124376503733651452843968058219223 94866247109395768907496561096208272189771692624522459108217921244133101689549 131872875812882935752788321743272111612551298605575858758937185086618253001982 77722104332846322335971337923969953899414066413709406901020060387426560902244 22360660141669373708852057996086150798379739200748934197762933580786379556558 18319661770514140868909803119741423808548301345111395688064826539609687848911 103328045549476646369057327805072882155104824936603993210177208957666467148747 110762945116801555465876644186555989276251398917150924234753198961015651968485,
     Dbl 256278472365147420264308442898784908459231506160646759692103580671126089488576 213678342882851371017403385303478333614289681423854026062098348906440662002811 567211938487482082932387753581856538087319526587202087740182396654228852894554 147254329477203717409134940528223857729349162097388338892669881520662752433430 325912718702462476681489413123675503478141162728486761444038651328511263290218 71865805309589124383493372285536932279025647504856218356964911444912549386980 9553680634660074612955679473512369120252826488346256924859596984051423834661,
     Add DS 135103920058344317592881434505085982191378705222505573453269945245864923984454 189359987819213499256103205413356403401815869462275627878116666696008908026241 34585859082310347133211800658485405844630045750210815572259783193287236212360 40354096479155309604870976174932405816247162366567582616038671530413805292673 10330426338623631285985502696365152597557333252907494775468257249463804122740 91968188732519388883677612452375281961794818565200682019191228803037207292414 27469914711005707744486692833457135534147593035809916098857856547773610320702 95689705814385930923386744841849558170500813605296100377231266649784176766229 33361222941771621148716489443544726773228668154849734342717865357806595534953,
     Dbl 416520323583781645112640666106021686678400645840928418489785332948804594878866 2778215293484354527725189919355978917249417902194606033783387773053423724471 1498281800605321418083627963864219069221447562226969348271602057958590074680562 201329206663924116790138388146055272290647557282457761713812655577083029839000 724209286306745260737719092186767441767561666627131159711657547889666234942806 10152588387778009556819341704482193733123240988478902702876195080609981598892 107688309740325805691614764061078315344425293251970452984920737032153293132669,
     Add DS 196817136980155432419555465086140720737281111738882889107358661610167491772542 91225358713547768177444120825790457177643402698651431818055526647907038728233 43731595923812136959306402598920582590619564171619219334091909746171887690526 74332603910940837723378979936238962898269329316541304703660388333947877233493 16516261988537108565923989606344989059812161850782419936283669921278171919548 66181536018501042136829054600936302834934227301168050152071238532908517780866 24995007947793273749075196161281107059174282175113270668320450556351717138832 59763141606593162843561272112233798751458998352951416590262540555610298489689 25540895174310552055200683887581906866378442738521858369602169150079491825231]
    1437177394595519922749358675895076047 251964740426588111830410333443491051 59763141606593162843561272112233798751458998352951416590262540555610298489689 25540895174310552055200683887581906866378442738521858369602169150079491825231"
  by ((rule ec_dbl ec_add, (simp only: ec_eval)+)+, rule ec_nil, (simp only: ec_eval)+)

lemma order_chain_34: "ec_chain 1437177394595519922749358675895076047 251964740426588111830410333443491051 59763141606593162843561272112233798751458998352951416590262540555610298489689 25540895174310552055200683887581906866378442738521858369602169150079491825231
    [Dbl 314299632004747029319120409493416491153870498565059192225378191603436451856113 46117905461586457715113897354594757097884678719152913316246136675466197440261 853117508536017531916230652647498487236616194973457173845291326177428797734840 150108090708183729715113711822152163611371919019520936084302319476406410510881 407445085249511438298950132068558552406982981946790928191867641400361694891172 25447140135725628552018545298769542993357063999071044545417805087112722650471 35518131533056241068464645816584722253219215751722390376361149634276403781286,
     Add DG 145411212123867910541131158605086899186163524120347113669539966281185228750432 112944467725018771333189424322610228784522042294577416939035338709389768372801 9785189139817086834568955041503078405580728704418608257336441833176245515052 12288198814393290690891455105864275995996592257058890744363765931989606966001 826912504409127036870409967837535306116651239117995632065652571057260173024 122130272762242492007720326843753269914419292253978790488975012625212247958053 10320807116854927121852486184896931416172950593688984760592975919120692224792 19108956610799331967869203463704180932207756410732818095900376469809309364081 66568097100992322051363053421491910845584918542862147631044500368395563863374,
     Dbl 40464106746222948410731902525772573738555703728837657237382809643798881397511 37064539848820979205568295614812319926451063729738896696411217334086019911215 14140378203332913080375517217703493235916236391015613469288524438788746592768 47923271067367272811138386525014405393543728453582294232593741415823616101969 16747019324643052173702821125154229939185336446460431851467692396526332552448 86977774780748254580301801947377683391934012622791087902764219061894527933775 101879624212513978147256528529337033348347453749987359886105641143534628054761,
     Add DG 83880577478845284512847901956478758787586575496627070312193552306403423467128 46582975045561034254397541609857917689393804296312447429290847200131544099326 106634692162514702818544444754585699487418849808960471318899104557968704806492 77246896716222909787306623765071175635258360374884469144826480682675659687550 98201506229751729793529168553916675317907965182398177869265731426672502013480 184627907445724141271725512095323354641691212580893233181766781695186041939629 170026641757313613104729409101407657829305660770583212227863048693508675830391 18141956572340308732147274860742236603512784707538418760455021374617320665809 46644875754314070170827860449858201033431275648820412079744958784863801306474,
     Dbl 84343162104512952187999417995116267986425543427522556743546982255427741094457 59425137888835930495704988555072807394289846012880139464486196502439249872511 61435708092359066242190261763481749707622670861670788110199685339927340277664 19252156902123449002186245458871118648349535486744736512109048350125293179473 14023305056093759167272008079833766303994996771444898446436145582974823780897 114681888907533055153532014410559025808433233886434246287803557032400862157999 37048278662887306605553460306359465468159528371103122655908322510105298552976,
     Dbl 594818825946610347932906455967623745840033755521821971123551557247216149734650 39883728978571680661213965871512549508270382955273673552155945518083283866419 3055557923092401886557372813239805380349583804084520306140237366672145881983634 131459334420080808261042925821520987264779679867026241499274291887399540086502 675300769461163099788031345142716922101906775215125782436432105604046385830278 99014643724768442316060073597725946396923538685048568827986849152910156743160 24515746597709073985315233840526090642587704427253956521466411484818274129010]
    22994838313528318763989738814321216764 4031435846825409789286565335095856816 99014643724768442316060073597725946396923538685048568827986849152910156743160 24515746597709073985315233840526090642587704427253956521466411484818274129010"
  by ((rule ec_dbl ec_add, (simp only: ec_eval)+)+, rule ec_nil, (simp only: ec_eval)+)

lemma order_chain_35: "ec_chain 22994838313528318763989738814321216764 4031435846825409789286565335095856816 99014643724768442316060073597725946396923538685048568827986849152910156743160 24515746597709073985315233840526090642587704427253956521466411484818274129010
    [Add DS 107955081643164999660314733192896968073480814042313222982248007537867316628274 174397921856164499883743651046342681879480991523367928281509852195242057731892 75166871829704807560494812864230919899427484341971675778843247303685570939454 70079448766194326475337535645265612269485221327613704842215271016458248704408 48794858594212424706833955704929724401025198780907312243632745419786057433294 144222296080459579384379960123863335042923199001325741624009796999770667587560 93622447922565073443366395778038802511353934682519019522212974215720354656294 70584436881625058355251098482550519207270324349363391243434636161048323827263 100503599155479708673585659852860724977599678636008155453617392614568023066308,
     Dbl 92713863113910878865680949312600408247005807244965625069320862099951017809104 31864574719458722422564436190385963584006881488713213442974204454886455937939 74235299407093047835758185353199823678645254716024050630989607175644933853396 181734586060596692116926388404996445443733452877661017255849587358588658388184 145513528998969011993059378030431938464737307300552452070067622133134955545392 4641940058344561661895695086241981616806856137342938027042632810368500110742 86495627833028641122079129938280690418673725601251215106297221766432205533932,
     Add DG 166216412201248977431254008817614460562713731982075220187915138557929451290161 61966971425046371279574940200914260619067532445048592209099266577233966620155 84348203685901602330718837694070017624872076239617840379307022338122359897752 121079564974050924681313250752936825754732879655871437709391520844600670444659 61443052905427011534176326387289064511271056581797524310363940110438835378310 71303424865672584804247591765743909516195701163832923683676722119632298798413 51940645027535309565538087682948032104681143078319529254249545890977657764298 49130604429988172281219088329185979953881139639150578382823494698645035983992 26221173849753569563098243715220646956970860311220336627106750267539460646070,
     Dbl 160051297056349329458319794028120095464389046643046806948486913324842297499933 9949012083694189619512322930782215276562417168931567397096897026759043033156 221227700943532154625187148015688734222638453895140269656454375383311748627054 107214078563199821033051800379247606054982942015683540813930133543474936589952 148194513543775094386458314270816469968457897589581098996348410810940423024836 57708615104104546671738272958626281752168182289107601608350945163078934065703 109766620890400360200194395487999373511047974074969105477011699259583153404878,
     Add DE 143423753454949449376592141390333900864256800192315268563744346817389814520275 38695978367674652201459674651195577526693283971330701838384789084083018749209 115573678258420812643917279276358645704931171487467694486036051656314812646295 143153222690755841853781967060722630326818412031417302618306029253026864984932 115355679253745916301703702345522707881362041607328819416156103051213849183372 125070730547292342481720866729420787953533950472747600924904778771658138677995 124834817879424256283246469018117855830221361861585215996398584109068048459430 48429973794128399613588391237893401651904216482000564722903750399329630059371 51231939447366605701190019263228486011330128519473004560491454193878655241557,
     Dbl 174341846747463765543865191151227357556192714781505812646160768849454615679644 93506860940436798036057095162874028946828068953646058434377945181044298437411 262497030043402580679516652683650756208478033776435952798274128454394708254217 151792040293646812850908578758438690390131839776602693786946052660704819035911 228545013745476034177215476574483380410744377566085054167005265739484885125572 12430022737797782186250797488142619115042361371038434975415281746533645695123 28597260016173315074988046521176122746119865902901063272803125467328307387891]
    183958706508226550111917910514569734124 32251486774603278314292522680766854538 12430022737797782186250797488142619115042361371038434975415281746533645695123 28597260016173315074988046521176122746119865902901063272803125467328307387891"
  by ((rule ec_dbl ec_add, (simp only: ec_eval)+)+, rule ec_nil, (simp only: ec_eval)+)

lemma order_chain_36: "ec_chain 183958706508226550111917910514569734124 32251486774603278314292522680766854538 12430022737797782186250797488142619115042361371038434975415281746533645695123 28597260016173315074988046521176122746119865902901063272803125467328307387891
    [Dbl 41128556600949805084771293024134076657970957333326938316678172496711526897287 16312095852739056378360664045880493800853454241436762979075447204850319099169 14608581460264343375751870866453673937626198138871789889120888403158178388416 42881832653376176985062353156558252205157348220896692882235157781882566452471 15231333099294871833312168476580006289318729579529166254049934795684593566169 85340279321737800624759429340272274763154997815782306132637707972559913914315 83121579216557378445487899878180864668798711284981320763518679672151497189239]
    367917413016453100223835821029139468248 64502973549206556628585045361533709076 85340279321737800624759429340272274763154997815782306132637707972559913914315 83121579216557378445487899878180864668798711284981320763518679672151497189239"
  by ((rule ec_dbl ec_add, (simp only: ec_eval)+)+, rule ec_nil, (simp only: ec_eval)+)

lemma order_chain_end: "cpt_at 85340279321737800624759429340272274763154997815782306132637707972559913914315 83121579216557378445487899878180864668798711284981320763518679672151497189239 (comb 367917413016453100223835821029139468248 64502973549206556628585045361533709076)"
proof -
  note c0 = cpt_at_digit [of DG, unfolded dig_a.simps dig_b.simps dig_x.simps dig_y.simps]
  note c1 = ec_chain_comb [OF order_chain_0 c0]
  note c2 = ec_chain_comb [OF order_chain_1 c1]
  note c3 = ec_chain_comb [OF order_chain_2 c2]
  note c4 = ec_chain_comb [OF order_chain_3 c3]
  note c5 = ec_chain_comb [OF order_chain_4 c4]
  note c6 = ec_chain_comb [OF order_chain_5 c5]
  note c7 = ec_chain_comb [OF order_chain_6 c6]
  note c8 = ec_chain_comb [OF order_chain_7 c7]
  note c9 = ec_chain_comb [OF order_chain_8 c8]
  note c10 = ec_chain_comb [OF order_chain_9 c9]
  note c11 = ec_chain_comb [OF order_chain_10 c10]
  note c12 = ec_chain_comb [OF order_chain_11 c11]
  note c13 = ec_chain_comb [OF order_chain_12 c12]
  note c14 = ec_chain_comb [OF order_chain_13 c13]
  note c15 = ec_chain_comb [OF order_chain_14 c14]
  note c16 = ec_chain_comb [OF order_chain_15 c15]
  note c17 = ec_chain_comb [OF order_chain_16 c16]
  note c18 = ec_chain_comb [OF order_chain_17 c17]
  note c19 = ec_chain_comb [OF order_chain_18 c18]
  note c20 = ec_chain_comb [OF order_chain_19 c19]
  note c21 = ec_chain_comb [OF order_chain_20 c20]
  note c22 = ec_chain_comb [OF order_chain_21 c21]
  note c23 = ec_chain_comb [OF order_chain_22 c22]
  note c24 = ec_chain_comb [OF order_chain_23 c23]
  note c25 = ec_chain_comb [OF order_chain_24 c24]
  note c26 = ec_chain_comb [OF order_chain_25 c25]
  note c27 = ec_chain_comb [OF order_chain_26 c26]
  note c28 = ec_chain_comb [OF order_chain_27 c27]
  note c29 = ec_chain_comb [OF order_chain_28 c28]
  note c30 = ec_chain_comb [OF order_chain_29 c29]
  note c31 = ec_chain_comb [OF order_chain_30 c30]
  note c32 = ec_chain_comb [OF order_chain_31 c31]
  note c33 = ec_chain_comb [OF order_chain_32 c32]
  note c34 = ec_chain_comb [OF order_chain_33 c33]
  note c35 = ec_chain_comb [OF order_chain_34 c34]
  note c36 = ec_chain_comb [OF order_chain_35 c35]
  note c37 = ec_chain_comb [OF order_chain_36 c36]
  show ?thesis by (rule c37)
qed

end
