(* ===== verification/Group_Order_Certificate.thy ===== *)
theory Group_Order_Certificate
  imports Primality
begin

text \<open>
  The order of the group of secp256k1, the modulus of the scalars, is prime: a Pocklington
  certificate.  For a prime divisor \<open>q\<close> of \<open>n - 1\<close> it gives an element that has the order \<open>q\<close>
  modulo every prime divisor of \<open>n\<close>; its power is computed by squarings and products, each checked
  as a division with remainder.
\<close>

lemma oc_1871: "is_prime 1871"
  by (rule is_prime_trial [of _ 44]) (simp_all add: upt_rec_numeral)

lemma oc_1627771_pow0_0: "chain 1627771 0 910796 1 910796
    [(False, 509622, 1441054),
     (True, 806321, 278493),
     (False, 47646, 1573983),
     (True, 880699, 1128539),
     (False, 782419, 1316472),
     (False, 1064706, 976458),
     (True, 546363, 193695),
     (False, 23048, 887017),
     (False, 483359, 1395500),
     (False, 1196372, 603188),
     (True, 337505, 366293),
     (False, 82425, 1537174),
     (True, 860103, 1210091),
     (False, 899586, 225475),
     (True, 126161, 510969),
     (False, 160396, 1361645),
     (True, 761889, 1)]
    1871 1"
  by ((rule chain_double chain_mult, simp only: chain_eval)+, rule chain_nil, simp only: chain_eval)

lemma oc_1627771_pow0: "910796 ^ 1871 mod 1627771 = (1::nat) mod 1627771"
proof -
  have N: "1627771 + 0 = (1627771::nat)" by (simp only: arith_simps)
  have c0: "910796 ^ 1 mod 1627771 = (910796::nat) mod 1627771" by (simp only: power_one_right)
  note c1 = chain_power [OF oc_1627771_pow0_0 N c0]
  show ?thesis by (rule c1)
qed

lemma oc_1627771_cert0: "pock_cert 1627771 1871"
  by (rule pock_orderI [OF oc_1871 oc_1627771_pow0, of 910795 589711 329964])
     (simp_all only: pock_eval)

lemma oc_1627771: "is_prime 1627771"
  by (rule pocklington [of _ "[1871]"])
     (simp_all only: pock_eval list.set ball_simps oc_1627771_cert0 distinct.simps prod_list.Cons prod_list.Nil insert_iff empty_iff)

lemma oc_297159362677_pow0_0: "chain 297159362677 0 114170894341 1 114170894341
    [(False, 43865328681, 160696785244),
     (True, 61740930939, 113180740501),
     (False, 43107778617, 105773253292),
     (False, 37649768162, 16863147590),
     (False, 956946952, 270105097596),
     (False, 245513932625, 175767342091),
     (True, 67531153861, 292775161134),
     (False, 288455642806, 224344214294),
     (True, 86194758783, 120907768163),
     (False, 49194776400, 96235971769),
     (False, 31166314865, 49653695756),
     (True, 19077328746, 57464503754),
     (False, 11112452126, 152646391214),
     (False, 78412204618, 274140151410),
     (True, 105326737745, 105132027445),
     (False, 37194665835, 183647187730),
     (True, 70558650676, 114386416278),
     (False, 44031095339, 16438110781),
     (False, 909315067, 266114875602),
     (False, 238313632048, 43172589908),
     (True, 16587238431, 86189470841),
     (False, 24998791277, 282922278752),
     (True, 108700898074, 22164558334),
     (False, 1653212746, 170435774514),
     (True, 65482724921, 86729451757),
     (False, 25313009606, 114051511787),
     (True, 43819460993, 135351539106),
     (False, 61650553337, 55731676087),
     (False, 10452370376, 70172775017),
     (True, 26960915550, 54252551447),
     (False, 9904918734, 146464102891),
     (True, 56272625790, 1)]
    1627771 1"
  by ((rule chain_double chain_mult, simp only: chain_eval)+, rule chain_nil, simp only: chain_eval)

lemma oc_297159362677_pow0: "114170894341 ^ 1627771 mod 297159362677 = (1::nat) mod 297159362677"
proof -
  have N: "297159362677 + 0 = (297159362677::nat)" by (simp only: arith_simps)
  have c0: "114170894341 ^ 1 mod 297159362677 = (114170894341::nat) mod 297159362677" by (simp only: power_one_right)
  note c1 = chain_power [OF oc_297159362677_pow0_0 N c0]
  show ?thesis by (rule c1)
qed

lemma oc_297159362677_cert0: "pock_cert 297159362677 1627771"
  by (rule pock_orderI [OF oc_1627771 oc_297159362677_pow0, of 114170894340 44169280672 16970174627])
     (simp_all only: pock_eval)

lemma oc_297159362677: "is_prime 297159362677"
  by (rule pocklington [of _ "[1627771]"])
     (simp_all only: pock_eval list.set ball_simps oc_297159362677_cert0 distinct.simps prod_list.Cons prod_list.Nil insert_iff empty_iff)

lemma oc_1409: "is_prime 1409"
  by (rule is_prime_trial [of _ 38]) (simp_all add: upt_rec_numeral)

lemma oc_28181_pow0_0: "chain 28181 0 5879 1 5879
    [(False, 1226, 12735),
     (False, 5754, 26751),
     (True, 5580, 19149),
     (False, 13011, 21210),
     (True, 4424, 20846),
     (False, 15420, 4696),
     (False, 782, 14874),
     (False, 7850, 15026),
     (False, 8011, 22685),
     (False, 18260, 24165),
     (False, 20721, 8724),
     (False, 2700, 19476),
     (True, 4063, 1)]
    1409 1"
  by ((rule chain_double chain_mult, simp only: chain_eval)+, rule chain_nil, simp only: chain_eval)

lemma oc_28181_pow0: "5879 ^ 1409 mod 28181 = (1::nat) mod 28181"
proof -
  have N: "28181 + 0 = (28181::nat)" by (simp only: arith_simps)
  have c0: "5879 ^ 1 mod 28181 = (5879::nat) mod 28181" by (simp only: power_one_right)
  note c1 = chain_power [OF oc_28181_pow0_0 N c0]
  show ?thesis by (rule c1)
qed

lemma oc_28181_cert0: "pock_cert 28181 1409"
  by (rule pock_orderI [OF oc_1409 oc_28181_pow0, of 5878 16200 3379])
     (simp_all only: pock_eval)

lemma oc_28181: "is_prime 28181"
  by (rule pocklington [of _ "[1409]"])
     (simp_all only: pock_eval list.set ball_simps oc_28181_cert0 distinct.simps prod_list.Cons prod_list.Nil insert_iff empty_iff)

lemma oc_545358713_pow0_0: "chain 545358713 0 420071726 1 420071726
    [(False, 323567315, 507353481),
     (True, 390797556, 272072778),
     (False, 135733774, 229364422),
     (False, 96465018, 13392250),
     (True, 10315605, 505907135),
     (False, 469309507, 507723734),
     (True, 391082750, 56044134),
     (False, 5759410, 530570626),
     (True, 408680953, 73026987),
     (False, 9778776, 136222881),
     (False, 34026545, 518903576),
     (False, 493731767, 167251905),
     (False, 51293211, 189531582),
     (False, 65868977, 52076123),
     (True, 40112510, 43198668),
     (False, 3421830, 112069434),
     (False, 23029902, 321844230),
     (True, 247905934, 87938038),
     (False, 14179838, 325060950),
     (False, 193752513, 84706731),
     (True, 65246785, 1)]
    28181 1"
  by ((rule chain_double chain_mult, simp only: chain_eval)+, rule chain_nil, simp only: chain_eval)

lemma oc_545358713_pow0: "420071726 ^ 28181 mod 545358713 = (1::nat) mod 545358713"
proof -
  have N: "545358713 + 0 = (545358713::nat)" by (simp only: arith_simps)
  have c0: "420071726 ^ 1 mod 545358713 = (420071726::nat) mod 545358713" by (simp only: power_one_right)
  note c1 = chain_power [OF oc_545358713_pow0_0 N c0]
  show ?thesis by (rule c1)
qed

lemma oc_545358713_cert0: "pock_cert 545358713 28181"
  by (rule pock_orderI [OF oc_28181 oc_545358713_pow0, of 420071725 160797069 123856648])
     (simp_all only: pock_eval)

lemma oc_545358713: "is_prime 545358713"
  by (rule pocklington [of _ "[28181]"])
     (simp_all only: pock_eval list.set ball_simps oc_545358713_cert0 distinct.simps prod_list.Cons prod_list.Nil insert_iff empty_iff)

lemma oc_b95_pow0_0: "chain 29047611873442575647497758179 0 16062460713643416818883781819 1 16062460713643416818883781819
    [(False, 8882060435860575211001860898, 13962420916298356135395164019),
     (False, 6711367484984969150973037199, 22064455820093959904638731740),
     (False, 16760076964605227903748362209, 4464634880263987885299170189),
     (False, 686216984064496850599034270, 1959878865461990284592501391),
     (True, 1083754403533771261747240934, 4578425466655509087515911043),
     (False, 721642104178783514616319177, 20036784888616538250063049166),
     (False, 13821196400649632715561844308, 8581279066299918336701700424),
     (True, 4745190705376821116004160453, 12522312617471747338606696169),
     (False, 5398320315380473924469402987, 8456999193293045324452995888),
     (False, 2462193300673668519985543222, 26173064653863716964036395806),
     (False, 23582982186622836134788237461, 16217660352563326726487446117),
     (True, 8967881195026042958860344952, 97674879020305153327384415)]
    553 97674879020305153327384415"
  by ((rule chain_double chain_mult, simp only: chain_eval)+, rule chain_nil, simp only: chain_eval)

lemma oc_b95_pow0_1: "chain 29047611873442575647497758179 0 16062460713643416818883781819 553 97674879020305153327384415
    [(False, 328439461157691725189351, 14001705920298652828400940396),
     (True, 7742524660845081944343161286, 20987626001836824537664802130),
     (False, 15164084645309386128722764178, 16459025133962013632964825038),
     (False, 9326050951819181165697077109, 17547295592199684495553276933),
     (False, 10600099723913683339596083553, 2545365408793604098716756502),
     (False, 223043639267519127203191653, 23096343901128625743973996117),
     (False, 18364370328388745871850078021, 17285143982994731514190193930),
     (False, 10285740659665786525326747414, 7417660313315187740223245794),
     (False, 1894189607168221851461791992, 18012442360510120910523987868),
     (False, 11169526817016351009953600105, 7101309632991845248052176629),
     (True, 3926811866404586398675002221, 15548086880357056284740992592),
     (False, 8322302249574951499000144595, 12239410034909856018054985959)]
    566786 12239410034909856018054985959"
  by ((rule chain_double chain_mult, simp only: chain_eval)+, rule chain_nil, simp only: chain_eval)

lemma oc_b95_pow0_2: "chain 29047611873442575647497758179 0 16062460713643416818883781819 566786 12239410034909856018054985959
    [(False, 5157159172166333835491767032, 14533707038985188748346594953),
     (True, 8036705370286793873184444110, 24409949842482971482697683817),
     (False, 20512724209775729128514939304, 20508230193574193446249122073),
     (False, 14479245574647727547658315758, 21919285021065444531346732647),
     (False, 16540260105649878626986932323, 19433639236713856971602906792),
     (False, 13001631102350075665283204677, 2518719045208108165531928081),
     (False, 218398182140891837854133878, 26472063139654004200620854399),
     (False, 24124879178467778554313965557, 21313896019558849315836610498),
     (False, 15639225885825888467336959295, 28523103740602100162287484199),
     (True, 15772423401301081237290750030, 10431865969145056729848982611),
     (False, 3746394990140354196678004244, 9332103190469353201932665645),
     (False, 2998117378358065869155737897, 20617026712236617773351256462)]
    580389380 20617026712236617773351256462"
  by ((rule chain_double chain_mult, simp only: chain_eval)+, rule chain_nil, simp only: chain_eval)

lemma oc_b95_pow0_3: "chain 29047611873442575647497758179 0 16062460713643416818883781819 580389380 20617026712236617773351256462
    [(False, 14633278367427527635191025491, 5155810672266300511554016555),
     (False, 915131467745843036073612762, 26264266026479413740849787627),
     (False, 23747620730926812398031589784, 21078971005042511407643447793),
     (True, 11656040611107119812100851929, 16731300250362044184401398176),
     (False, 9637157412024741398762173049, 6251909111458227449743009205),
     (True, 3457118778837694071200298547, 9618651999003975589717577982),
     (False, 3185062740477135003899008282, 1412842938036244239896953846),
     (True, 781259894466710495024708499, 15384413847695572955108862553),
     (False, 8148008534001289933205034268, 13552408052749518398573399837),
     (False, 6322990159344297969736391503, 17762486307477278839507273532),
     (True, 9822123750948807617189835286, 26724915380486386890572210514),
     (False, 24587945653017704634392264435, 13633363972296779030480080331)]
    148579681338 13633363972296779030480080331"
  by ((rule chain_double chain_mult, simp only: chain_eval)+, rule chain_nil, simp only: chain_eval)

lemma oc_b95_pow0_4: "chain 29047611873442575647497758179 0 16062460713643416818883781819 148579681338 13633363972296779030480080331
    [(False, 6398757116796039193398155901, 20007319581332557133973205282),
     (True, 11063449420923982193028682983, 1)]
    297159362677 1"
  by ((rule chain_double chain_mult, simp only: chain_eval)+, rule chain_nil, simp only: chain_eval)

lemma oc_b95_pow0: "16062460713643416818883781819 ^ 297159362677 mod 29047611873442575647497758179 = (1::nat) mod 29047611873442575647497758179"
proof -
  have N: "29047611873442575647497758179 + 0 = (29047611873442575647497758179::nat)" by (simp only: arith_simps)
  have c0: "16062460713643416818883781819 ^ 1 mod 29047611873442575647497758179 = (16062460713643416818883781819::nat) mod 29047611873442575647497758179" by (simp only: power_one_right)
  note c1 = chain_power [OF oc_b95_pow0_0 N c0]
  note c2 = chain_power [OF oc_b95_pow0_1 N c1]
  note c3 = chain_power [OF oc_b95_pow0_2 N c2]
  note c4 = chain_power [OF oc_b95_pow0_3 N c3]
  note c5 = chain_power [OF oc_b95_pow0_4 N c4]
  show ?thesis by (rule c5)
qed

lemma oc_b95_cert0: "pock_cert 29047611873442575647497758179 297159362677"
  by (rule pock_orderI [OF oc_297159362677 oc_b95_pow0, of 16062460713643416818883781818 7881196461825673388358983901 4358065960676078314225264123])
     (simp_all only: pock_eval)

lemma oc_b95_pow1_0: "chain 29047611873442575647497758179 0 1548700731856248688196814844 1 1548700731856248688196814844
    [(False, 82570435301255811313557247, 3645876617431417764539771123),
     (False, 457607887610411216878585865, 26612487626802122189967141294),
     (False, 24381505122429910579871207872, 2358145191575087745662809348),
     (False, 191439102421801386215994399, 16968812750263446526075745683),
     (False, 9912711840409827524277178713, 11965920662668542846052692862),
     (False, 4929260895150780119421441405, 5754018372690423799397749549),
     (True, 306780898330828737026650516, 27459641552791357796123934992),
     (False, 25958482146244049668371207210, 28488929978597334279360769474),
     (False, 27940993389114467191909349720, 1553798142725842815668876796),
     (False, 83114876322951548446635357, 23877011394683659175249890713),
     (False, 19626800152307548538858134323, 6632740199571161257489770552),
     (False, 1514521839064817828891134463, 15025392561481875681059361827)]
    2080 15025392561481875681059361827"
  by ((rule chain_double chain_mult, simp only: chain_eval)+, rule chain_nil, simp only: chain_eval)

lemma oc_b95_pow1_1: "chain 29047611873442575647497758179 0 1548700731856248688196814844 2080 15025392561481875681059361827
    [(False, 7772150860809428186089406596, 1580308424615678430089229245),
     (False, 85975216406501482532370958, 2121418992064359455556704543),
     (True, 113105447700766350713579599, 7069344126403615037014846071),
     (False, 1720472808410409033254529783, 4476990777562239870536791884),
     (True, 238694971687618851027515378, 9099968107459999183462149434),
     (False, 2850816787196866617993442324, 11670041816761618830210752360),
     (False, 4688505086006035635491685292, 8768902973571561192658566332),
     (False, 2647159418644460201635405446, 23288127312116899302916291390),
     (False, 18670618296205224707574859472, 16608966664196061530424510612),
     (False, 9496745372881587714174325560, 21513335867618299880401859304),
     (False, 15933276104398062496376430582, 13393539169337895201195134238),
     (True, 714089130771652161173454657, 7992462148968897330403639269)]
    1065153 7992462148968897330403639269"
  by ((rule chain_double chain_mult, simp only: chain_eval)+, rule chain_nil, simp only: chain_eval)

lemma oc_b95_pow1_2: "chain 29047611873442575647497758179 0 1548700731856248688196814844 1065153 7992462148968897330403639269
    [(False, 2199129191102409748049516177, 739308934423710706384292678),
     (True, 39416950790941847746840395, 22674685261071437738452071527),
     (False, 17699952544419510277628796813, 27399726500601233166924228202),
     (False, 25845326479115303847339501010, 6068967060602785345865892014),
     (True, 323572683679385606204716231, 1643490076179762104301952467),
     (False, 92987321720959236834913423, 13524879886409610518272249372),
     (True, 721091684562914423262080453, 17129805427530039348642502881),
     (False, 10101699074728848988784996168, 17867104216310801316987642089),
     (True, 952601456412705850929877109, 19092932919670080950204744605),
     (False, 12549743815886990484758869845, 24340507609769902830131393770),
     (True, 1297737043349432533692244899, 11516776943869959903996842959),
     (False, 4566163709179832468940826988, 26310423465635220502606940829)]
    136339678 26310423465635220502606940829"
  by ((rule chain_double chain_mult, simp only: chain_eval)+, rule chain_nil, simp only: chain_eval)

lemma oc_b95_pow1_3: "chain 29047611873442575647497758179 0 1548700731856248688196814844 136339678 26310423465635220502606940829
    [(False, 23831163331328547682219763752, 24175858110786801658901479633),
     (False, 20121176155182058056134661203, 6953601713070536476526585352),
     (True, 370737811734363120934090453, 1)]
    545358713 1"
  by ((rule chain_double chain_mult, simp only: chain_eval)+, rule chain_nil, simp only: chain_eval)

lemma oc_b95_pow1: "1548700731856248688196814844 ^ 545358713 mod 29047611873442575647497758179 = (1::nat) mod 29047611873442575647497758179"
proof -
  have N: "29047611873442575647497758179 + 0 = (29047611873442575647497758179::nat)" by (simp only: arith_simps)
  have c0: "1548700731856248688196814844 ^ 1 mod 29047611873442575647497758179 = (1548700731856248688196814844::nat) mod 29047611873442575647497758179" by (simp only: power_one_right)
  note c1 = chain_power [OF oc_b95_pow1_0 N c0]
  note c2 = chain_power [OF oc_b95_pow1_1 N c1]
  note c3 = chain_power [OF oc_b95_pow1_2 N c2]
  note c4 = chain_power [OF oc_b95_pow1_3 N c3]
  show ?thesis by (rule c4)
qed

lemma oc_b95_cert1: "pock_cert 29047611873442575647497758179 545358713"
  by (rule pock_orderI [OF oc_545358713 oc_b95_pow1, of 1548700731856248688196814843 9643653164146849936640551407 514160433503204154185887900])
     (simp_all only: pock_eval)

lemma oc_b95: "is_prime 29047611873442575647497758179"
  by (rule pocklington [of _ "[297159362677, 545358713]"])
     (simp_all only: pock_eval list.set ball_simps oc_b95_cert0 oc_b95_cert1 distinct.simps prod_list.Cons prod_list.Nil insert_iff empty_iff)

lemma oc_b109_pow0_0: "chain 341948486974166000522343609283189 0 291782875431971620014836968593543 1 291782875431971620014836968593543
    [(False, 248976818551566027545203128589342, 253370822734764419273350176121211),
     (False, 187738142611350233561113280748449, 228287024803818401891706650582660),
     (True, 194796137600984102414740661053978, 218222632889842582742891846788538),
     (False, 139264009988068033466020810946752, 100725131723454874503604920425316),
     (True, 85948233965293588719927791720477, 169458664923973724228374868173435),
     (False, 83978260503270181012361342402480, 101268395701883808084549303790505),
     (True, 86411798308412271872012150749231, 214458765063765421025335364731556),
     (False, 134501434176984797917632551678694, 279152425682435008494583958505970),
     (False, 227888350827166163347486753361034, 333101266743900448248985261783474),
     (True, 284233588165899227085759536079610, 280608923727063302129926241832092),
     (False, 230272602671903888706985287951089, 230906686110560860752694939153643),
     (True, 197031481045556614095342370498011, 50176683491599789256923834490070)]
    187 50176683491599789256923834490070"
  by ((rule chain_double chain_mult, simp only: chain_eval)+, rule chain_nil, simp only: chain_eval)

lemma oc_b109_pow0_1: "chain 341948486974166000522343609283189 0 291782875431971620014836968593543 187 50176683491599789256923834490070
    [(False, 7362803644767679536497885417027, 115777115134347681229993123145797),
     (True, 98792013563348793208409699492793, 195439233382028200758215220231894),
     (False, 111702479759299557979361425553370, 1014037498529350029853771530306),
     (False, 3007096353964411281621135142, 44325234631938016529033958725798),
     (True, 37822493468382537316624907371169, 267011778199684275579761995344373),
     (False, 208497163792813350224821001562535, 36494985512932852774426555039014),
     (True, 31140982391936103527080385014212, 154438427985077272170704175804534),
     (False, 69750938948602057905085327361190, 160772887496476727611201376922246),
     (False, 75590103008432254244353157487409, 219141961984595610709836746817215),
     (True, 186992702794148905602036308228768, 199328178140197813618185541661593),
     (False, 116192128680751089001001364518006, 309761212502816290759751187696515),
     (True, 264317640593023350579508181149902, 149863935200484404262977495005167)]
    24027 149863935200484404262977495005167"
  by ((rule chain_double chain_mult, simp only: chain_eval)+, rule chain_nil, simp only: chain_eval)

lemma oc_b109_pow0_2: "chain 341948486974166000522343609283189 0 291782875431971620014836968593543 24027 149863935200484404262977495005167
    [(False, 65680065651151038079836376512731, 83592925847004195105818913918730),
     (True, 71329411295956954355843082496601, 321843683639595863883972565819801),
     (False, 302920938809505320934575866575216, 297779970860071226010717090835777),
     (False, 259316576686955929724789472928981, 173132156056457421153074668993320),
     (False, 87658652114527705656992304119761, 74778853724160414960853384624571),
     (True, 63808409138510830237723163753170, 158971149279750576864400323285923),
     (False, 73905360795569226792754316047212, 147767804699327463563712808042861),
     (True, 126089503518397412985525579574156, 74327219994326399530986602183039),
     (False, 16156046429596775477326388144549, 52404865021552003796450851588760),
     (True, 44716800293279288190495985068550, 303984109791795057122171699770730),
     (False, 270234677227542036286463561371621, 16156146739494316555933107753531),
     (True, 13785956455794088666299684102128, 59565851800558871690568212524141)]
    3075535 59565851800558871690568212524141"
  by ((rule chain_double chain_mult, simp only: chain_eval)+, rule chain_nil, simp only: chain_eval)

lemma oc_b109_pow0_3: "chain 341948486974166000522343609283189 0 291782875431971620014836968593543 3075535 59565851800558871690568212524141
    [(False, 10376097090302957425872494488600, 31058804314002925831487375642481),
     (True, 26502317089952087779307265436307, 320765778409284774178234967757160),
     (False, 300895276680337265577007318808329, 1346858609853832590075358384419),
     (False, 5304974825270822583781707514, 57087142752874768798505786785415),
     (False, 9530505300739386821783068019710, 209004827953708052910656433067035),
     (False, 127747364799012339186767344435945, 282662973327690036158847827862620),
     (True, 241194853252662954694688261391647, 146469149373650815887139960940377),
     (False, 62738139033969792774482380156305, 236032970237378036400655320045484),
     (False, 162923847191310896276654669780428, 120908420503546095654786727169364),
     (False, 42751603547135363704190320847060, 27771291800658179917282042090156),
     (True, 23697099664805861234676132101100, 205603051071335793606751847054808),
     (False, 123622756702052566354139219899861, 267816058082839708774581185180135)]
    1574674194 267816058082839708774581185180135"
  by ((rule chain_double chain_mult, simp only: chain_eval)+, rule chain_nil, simp only: chain_eval)

lemma oc_b109_pow0_4: "chain 341948486974166000522343609283189 0 291782875431971620014836968593543 1574674194 267816058082839708774581185180135
    [(False, 209755105518129652648547110390599, 236926054244150386299576204278014),
     (True, 202167776742735771663731701862142, 234243145265682459926168221132764),
     (False, 160462330421438591713266931632315, 278037046693921712409176455627161),
     (True, 237247573980623840158934810544591, 113562104318785431920257928840724),
     (False, 37714310864270665235077913812985, 254157467995153785021928910435011),
     (True, 216871252978340923279848174761467, 105330055746131825563896047655710),
     (False, 32444713359183293337624000274986, 141452330555381589180708348593746),
     (False, 58513965061236225644432415543063, 334335217530482894428276158844609),
     (True, 285286511990293193550522021586502, 225814090555158314555717839844809),
     (False, 149121886587279019787182192027222, 269891707826395290281907009275523),
     (True, 230297198451358185561299273314487, 327636008232507565258466446488946),
     (False, 313922587698543146479415022280129, 151525362002244626134460851739535)]
    201558296950 151525362002244626134460851739535"
  by ((rule chain_double chain_mult, simp only: chain_eval)+, rule chain_nil, simp only: chain_eval)

lemma oc_b109_pow0_5: "chain 341948486974166000522343609283189 0 291782875431971620014836968593543 201558296950 151525362002244626134460851739535
    [(True, 129295807731489033883796083431604, 199638425070360691055364170317349),
     (False, 116554107658868158260742692223570, 36271462912845109177139139823071),
     (True, 30950251713304500647663821804215, 192172502581606591302011884188918),
     (False, 107999515000830085301073251538858, 223532988306871918893750154352562),
     (False, 146124339673347097266705442632943, 255261252838602365443208328468617),
     (True, 217813106876656277691926722036125, 15413149000703432162975691137406),
     (False, 694739620637166651583446839134, 96910918437438990995892438890510),
     (True, 82693585494839545550924112622097, 26489558346166966189572657949597),
     (False, 2052053827125126991584231355377, 303899743993264200572011301605156),
     (False, 270084699647022823487583724960151, 12311489254582450741089426582797),
     (False, 443261992491723990808735470972, 310156177148526251900541459253501),
     (False, 281319724718231057974258896918559, 205119679740956455511961279952350)]
    51598924019632 205119679740956455511961279952350"
  by ((rule chain_double chain_mult, simp only: chain_eval)+, rule chain_nil, simp only: chain_eval)

lemma oc_b109_pow0_6: "chain 341948486974166000522343609283189 0 291782875431971620014836968593543 51598924019632 205119679740956455511961279952350
    [(True, 175027561876660890550488918783138, 226632902550515033494775237608968),
     (False, 150205292536801448175730585855568, 45379477152959980031678909578672),
     (True, 38722073159196256401464107649246, 172151641323320730564024653389402),
     (False, 86668573598783800618038410164072, 285293890704107009735054844531996),
     (False, 238025922539719023881774902716272, 122615797229373387437429301392608),
     (True, 104627425626460195048465560853683, 188549689822309656767294476095057),
     (False, 103965909738840391548276344415846, 106487444633437107171892306820355),
     (False, 33161649477969561513259216466277, 153188761802351107342824680808672),
     (False, 68626701495861181734122685143595, 339153148709800595275286385879129),
     (True, 289397627748032678417780601475083, 185561237767247445147629053584360),
     (False, 100696374668604191521475117928230, 271339836968707506557810589084130),
     (False, 215311106587136663880692768864231, 37432045338891489374640646144241)]
    13209324549026212 37432045338891489374640646144241"
  by ((rule chain_double chain_mult, simp only: chain_eval)+, rule chain_nil, simp only: chain_eval)

lemma oc_b109_pow0_7: "chain 341948486974166000522343609283189 0 291782875431971620014836968593543 13209324549026212 37432045338891489374640646144241
    [(False, 4097570457618912373448723173597, 295870136597156009237901796705248),
     (False, 256000950624569612773810846274698, 124419232200879776469697423289582),
     (True, 106166287360568306344690775476277, 116282311088728289742498899961673),
     (False, 39542727595567132825455179340721, 242856942938271006214736460519660),
     (False, 172480642494489190068002078286115, 64192332524104794213640444894865),
     (True, 54774985350304025392094863988124, 66950359141490974890216104009259),
     (False, 13108262676750088967300352575508, 188584580177270131724540080194069),
     (False, 104004390238240989994927283278063, 273601168604900003697235104393854),
     (False, 218914843356573662466196713805172, 327235609028917159038925232119808),
     (False, 313155776076343322009559419984992, 38476282258043052362703008057376),
     (True, 32831612657587596039185715462382, 216467820390839078180194652626970),
     (False, 137033263926389836228179297808478, 271762182265706686329837784304558)]
    6763174169101420706 271762182265706686329837784304558"
  by ((rule chain_double chain_mult, simp only: chain_eval)+, rule chain_nil, simp only: chain_eval)

lemma oc_b109_pow0_8: "chain 341948486974166000522343609283189 0 291782875431971620014836968593543 6763174169101420706 271762182265706686329837784304558
    [(True, 231893264616626864774242897311611, 231779036885160232178118747461515),
     (False, 157104136985028085870368531311065, 60024666074935623968509371908940),
     (True, 51218737123734718775904172020894, 116783454242767673877887997023454),
     (False, 39884297502105871080467473095385, 165556816250583775673780952107351),
     (True, 141268775073151407381905394248391, 244711002692029442462933494835694),
     (False, 175124257365299004845184338606854, 290853301554301000465206234084230),
     (True, 248183617969357653122684451953086, 46421305261172706206420179655636),
     (False, 6301936298123714149413337170240, 52189864191014601819851483469136),
     (False, 7965474415104893505056175658622, 132651314671175949059102077080938),
     (False, 51459128945702089614904433264131, 126967750008772364128482587966085),
     (False, 47143970967498481701351257664819, 131176049540366488339958496799434),
     (True, 111931844651169754597677531403888, 282741793110175705893749410815830)]
    865686293644981850609 282741793110175705893749410815830"
  by ((rule chain_double chain_mult, simp only: chain_eval)+, rule chain_nil, simp only: chain_eval)

lemma oc_b109_pow0_9: "chain 341948486974166000522343609283189 0 291782875431971620014836968593543 865686293644981850609 282741793110175705893749410815830
    [(False, 233786446252639922344184203392758, 279735828146396252824427964843638),
     (False, 228841876860423245412948225129591, 279324864591910192363537646329345),
     (False, 228169981594869602391351971840495, 246220480009305124823952215190470),
     (False, 177291396468710710935472247814024, 205661712705308217474459557178364),
     (True, 175490075801834131802312907183759, 122972677704190660813787977176201),
     (False, 44223852532739031643840062670119, 248478117108421769481274841462910),
     (True, 212025092239390260906630118806076, 65180030126862262396400442133766),
     (False, 12424199811299761432370237993980, 64969163664842993238265940140536),
     (True, 55437851345049060833155540119398, 287169567054212704002565427958826),
     (False, 241166033433375740169065498684043, 216254963279310874665298728845149),
     (False, 136763901360584915723899060689445, 20762802711822253113450632592096),
     (True, 17716792172090910949444204018030, 169094087023268813268263606538458)]
    221615691173115353755933 169094087023268813268263606538458"
  by ((rule chain_double chain_mult, simp only: chain_eval)+, rule chain_nil, simp only: chain_eval)

lemma oc_b109_pow0_10: "chain 341948486974166000522343609283189 0 291782875431971620014836968593543 221615691173115353755933 169094087023268813268263606538458
    [(False, 83617303060016100713023394613628, 40372956728576994613608342318072),
     (True, 34450035173996087488875868036821, 337337148459000843122189723106927),
     (False, 332787996044115322620291516795779, 654464245785160436857584524098),
     (True, 558450956143688820607294976211, 185056734217433054516403533482335),
     (False, 100149572768277585397707876666660, 337526629618278239515150462273485),
     (False, 333161952870641849144692328960043, 119219738885107374938913881428098),
     (True, 101729586605170592184971724962342, 321480775522453577179058702902576),
     (False, 302238181970158002466011292714536, 50440405256506243565874386700472),
     (False, 7440402807317577191139742955298, 327223091994623242966652795137462),
     (False, 313131819596590620800599090865720, 56903980917211856102904823420364),
     (True, 48555872618335373911897043910417, 290999856844971365128380845029839),
     (False, 247642320143359544784797570651708, 333020136779446337859099341829109)]
    56733616940317530561519058 333020136779446337859099341829109"
  by ((rule chain_double chain_mult, simp only: chain_eval)+, rule chain_nil, simp only: chain_eval)

lemma oc_b109_pow0_11: "chain 341948486974166000522343609283189 0 291782875431971620014836968593543 56733616940317530561519058 333020136779446337859099341829109
    [(False, 324324907771794752765151201402508, 337489357258638591978776412895869),
     (True, 287977923107620396815612606831799, 110233087297567693219985963446856),
     (False, 35535567484675566792608471923855, 156201170777396943869715996711141),
     (True, 133285651176788624101518475965975, 154999667397849042087702305268288),
     (False, 70258819116397767639086875917338, 70022188456150421087182661420062),
     (True, 59749571266032681333499152322120, 296783177865644904770081235018986),
     (False, 257583402235335608346166024122241, 35892929892871919918342858161647),
     (True, 30627251445073837309538336439901, 55784553052762080918527346321032),
     (False, 9100541390994751157079811302782, 101157582141138320641681944013226),
     (False, 29925140231470690976723348877720, 62221292924038871233846050277996),
     (False, 11321849461587289782942237842491, 215180102889530126281226485592217),
     (False, 135407754218391658663916803112283, 211392543464040445165879299664602)]
    14523805936721287823748879088 211392543464040445165879299664602"
  by ((rule chain_double chain_mult, simp only: chain_eval)+, rule chain_nil, simp only: chain_eval)

lemma oc_b109_pow0_12: "chain 341948486974166000522343609283189 0 291782875431971620014836968593543 14523805936721287823748879088 211392543464040445165879299664602
    [(True, 180380164049316880673398410720085, 315320862848019905097547387713821),
     (False, 290766739244942023814087285046826, 134235852314653542125180834811927),
     (True, 114542758533656536701623049998240, 1)]
    29047611873442575647497758179 1"
  by ((rule chain_double chain_mult, simp only: chain_eval)+, rule chain_nil, simp only: chain_eval)

lemma oc_b109_pow0: "291782875431971620014836968593543 ^ 29047611873442575647497758179 mod 341948486974166000522343609283189 = (1::nat) mod 341948486974166000522343609283189"
proof -
  have N: "341948486974166000522343609283189 + 0 = (341948486974166000522343609283189::nat)" by (simp only: arith_simps)
  have c0: "291782875431971620014836968593543 ^ 1 mod 341948486974166000522343609283189 = (291782875431971620014836968593543::nat) mod 341948486974166000522343609283189" by (simp only: power_one_right)
  note c1 = chain_power [OF oc_b109_pow0_0 N c0]
  note c2 = chain_power [OF oc_b109_pow0_1 N c1]
  note c3 = chain_power [OF oc_b109_pow0_2 N c2]
  note c4 = chain_power [OF oc_b109_pow0_3 N c3]
  note c5 = chain_power [OF oc_b109_pow0_4 N c4]
  note c6 = chain_power [OF oc_b109_pow0_5 N c5]
  note c7 = chain_power [OF oc_b109_pow0_6 N c6]
  note c8 = chain_power [OF oc_b109_pow0_7 N c7]
  note c9 = chain_power [OF oc_b109_pow0_8 N c8]
  note c10 = chain_power [OF oc_b109_pow0_9 N c9]
  note c11 = chain_power [OF oc_b109_pow0_10 N c10]
  note c12 = chain_power [OF oc_b109_pow0_11 N c11]
  note c13 = chain_power [OF oc_b109_pow0_12 N c12]
  show ?thesis by (rule c13)
qed

lemma oc_b109_cert0: "pock_cert 341948486974166000522343609283189 29047611873442575647497758179"
  by (rule pock_orderI [OF oc_b95 oc_b109_pow0, of 291782875431971620014836968593542 230912421032721991545077801069578 197036374624976603458235156404975])
     (simp_all only: pock_eval)

lemma oc_b109: "is_prime 341948486974166000522343609283189"
  by (rule pocklington [of _ "[29047611873442575647497758179]"])
     (simp_all only: pock_eval list.set ball_simps oc_b109_cert0 distinct.simps prod_list.Cons prod_list.Nil insert_iff empty_iff)

lemma oc_9349: "is_prime 9349"
  by (rule is_prime_trial [of _ 97]) (simp_all add: upt_rec_numeral)

lemma oc_44706919_pow0_0: "chain 44706919 0 24793509 1 24793509
    [(False, 13749954, 8801355),
     (False, 1732703, 37163968),
     (False, 30893663, 28150727),
     (True, 15611796, 4014519),
     (False, 360489, 10277970),
     (False, 2362870, 29623370),
     (False, 19628819, 29058239),
     (True, 16115082, 44518293),
     (False, 44330462, 37767271),
     (False, 31904832, 18854833),
     (False, 7951895, 1796384),
     (False, 72181, 5355117),
     (False, 641450, 24891139),
     (True, 13804097, 32369608),
     (False, 23436898, 21576402),
     (False, 10413178, 17887022),
     (True, 9919763, 1)]
    9349 1"
  by ((rule chain_double chain_mult, simp only: chain_eval)+, rule chain_nil, simp only: chain_eval)

lemma oc_44706919_pow0: "24793509 ^ 9349 mod 44706919 = (1::nat) mod 44706919"
proof -
  have N: "44706919 + 0 = (44706919::nat)" by (simp only: arith_simps)
  have c0: "24793509 ^ 1 mod 44706919 = (24793509::nat) mod 44706919" by (simp only: power_one_right)
  note c1 = chain_power [OF oc_44706919_pow0_0 N c0]
  show ?thesis by (rule c1)
qed

lemma oc_44706919_cert0: "pock_cert 44706919 9349"
  by (rule pock_orderI [OF oc_9349 oc_44706919_pow0, of 24793508 35850462 19881905])
     (simp_all only: pock_eval)

lemma oc_44706919: "is_prime 44706919"
  by (rule pocklington [of _ "[9349]"])
     (simp_all only: pock_eval list.set ball_simps oc_44706919_cert0 distinct.simps prod_list.Cons prod_list.Nil insert_iff empty_iff)

lemma oc_113: "is_prime 113"
  by (rule is_prime_trial [of _ 11]) (simp_all add: upt_rec_numeral)

lemma oc_19: "is_prime 19"
  by (rule is_prime_trial [of _ 5]) (simp_all add: upt_rec_numeral)

lemma oc_120233_pow0_0: "chain 120233 0 32912 1 32912
    [(False, 9009, 20647),
     (True, 5651, 97381),
     (False, 78872, 41985),
     (True, 11492, 92684),
     (False, 71447, 36705),
     (False, 11205, 46260),
     (False, 17798, 80666),
     (False, 54119, 113829),
     (True, 31159, 1)]
    113 1"
  by ((rule chain_double chain_mult, simp only: chain_eval)+, rule chain_nil, simp only: chain_eval)

lemma oc_120233_pow0: "32912 ^ 113 mod 120233 = (1::nat) mod 120233"
proof -
  have N: "120233 + 0 = (120233::nat)" by (simp only: arith_simps)
  have c0: "32912 ^ 1 mod 120233 = (32912::nat) mod 120233" by (simp only: power_one_right)
  note c1 = chain_power [OF oc_120233_pow0_0 N c0]
  show ?thesis by (rule c1)
qed

lemma oc_120233_cert0: "pock_cert 120233 113"
  by (rule pock_orderI [OF oc_113 oc_120233_pow0, of 32911 118505 32438])
     (simp_all only: pock_eval)

lemma oc_120233_pow1_0: "chain 120233 0 76217 1 76217
    [(False, 48314, 93927),
     (False, 73376, 64721),
     (False, 34839, 10354),
     (True, 6563, 61639),
     (False, 31600, 3521),
     (True, 2232, 1)]
    19 1"
  by ((rule chain_double chain_mult, simp only: chain_eval)+, rule chain_nil, simp only: chain_eval)

lemma oc_120233_pow1: "76217 ^ 19 mod 120233 = (1::nat) mod 120233"
proof -
  have N: "120233 + 0 = (120233::nat)" by (simp only: arith_simps)
  have c0: "76217 ^ 1 mod 120233 = (76217::nat) mod 120233" by (simp only: power_one_right)
  note c1 = chain_power [OF oc_120233_pow1_0 N c0]
  show ?thesis by (rule c1)
qed

lemma oc_120233_cert1: "pock_cert 120233 19"
  by (rule pock_orderI [OF oc_19 oc_120233_pow1, of 76216 83923 53199])
     (simp_all only: pock_eval)

lemma oc_120233: "is_prime 120233"
  by (rule pocklington [of _ "[113, 19]"])
     (simp_all only: pock_eval list.set ball_simps oc_120233_cert0 oc_120233_cert1 distinct.simps prod_list.Cons prod_list.Nil insert_iff empty_iff)

lemma oc_b68_pow0_0: "chain 174723607534414371449 0 69188669156729060297 1 69188669156729060297
    [(False, 27397968753228880659, 155176267967343823318),
     (False, 137815802226554030727, 89821006278863015701),
     (True, 35568152320393689175, 97090663721386358622),
     (False, 53951478651805097198, 61055043585272638982),
     (False, 21334943799539583918, 120195571821547239142),
     (True, 47596153549124186395, 91333983592954308819),
     (False, 47743385548601314621, 171404959741212518932),
     (False, 168149345348767082635, 71909199035490732509),
     (True, 28475269321645560919, 1021897499335293542),
     (False, 5976722401075888, 87729579908437384052),
     (False, 44049452157716959444, 77528755128259424348),
     (True, 30700553087227566297, 101782507658970457003)]
    341 101782507658970457003"
  by ((rule chain_double chain_mult, simp only: chain_eval)+, rule chain_nil, simp only: chain_eval)

lemma oc_b68_pow0_1: "chain 174723607534414371449 0 69188669156729060297 341 101782507658970457003
    [(False, 59291809570197257867, 82019569806496302726),
     (False, 38502008550376900419, 135190276239085293945),
     (False, 104601839714191931636, 84877418566935402461),
     (False, 41231842017500598263, 140457039913438663434),
     (True, 55619476969592027646, 89399425559954000844),
     (False, 45742286364340117482, 56927595404506140918),
     (False, 18547872060739332750, 101174348549963227974),
     (True, 40063953736716548341, 162932878537464432169),
     (False, 151937813573791357571, 124993277571229654182),
     (True, 49495993419135636268, 47583799685228099722),
     (False, 12958855557271749517, 36245946211052137151),
     (False, 7519124835352994999, 52506458574289013250)]
    174636 52506458574289013250"
  by ((rule chain_double chain_mult, simp only: chain_eval)+, rule chain_nil, simp only: chain_eval)

lemma oc_b68_pow0_2: "chain 174723607534414371449 0 69188669156729060297 174636 52506458574289013250
    [(False, 15778796185114887151, 42282616004444210701),
     (False, 10232272795919374960, 84063299425533394361),
     (True, 33288162339658027674, 171166112184491305591),
     (False, 167681049938161476251, 37203216327641901582),
     (True, 14732073486706375181, 86633642293729082585),
     (False, 42955775026563073109, 56882938925681017284),
     (False, 18518783961036543815, 63238769528533198721),
     (False, 22888389427829604933, 11922648708891277924),
     (True, 4721240641902972295, 160895158490694977973),
     (False, 148161158020085998601, 102372809644046845880),
     (True, 40538531438641748606, 85657301453424076266),
     (False, 41993027707132264393, 150672788782205987299)]
    44706918 150672788782205987299"
  by ((rule chain_double chain_mult, simp only: chain_eval)+, rule chain_nil, simp only: chain_eval)

lemma oc_b68_pow0_3: "chain 174723607534414371449 0 69188669156729060297 44706918 150672788782205987299
    [(True, 59664803635195324298, 1)]
    44706919 1"
  by ((rule chain_double chain_mult, simp only: chain_eval)+, rule chain_nil, simp only: chain_eval)

lemma oc_b68_pow0: "69188669156729060297 ^ 44706919 mod 174723607534414371449 = (1::nat) mod 174723607534414371449"
proof -
  have N: "174723607534414371449 + 0 = (174723607534414371449::nat)" by (simp only: arith_simps)
  have c0: "69188669156729060297 ^ 1 mod 174723607534414371449 = (69188669156729060297::nat) mod 174723607534414371449" by (simp only: power_one_right)
  note c1 = chain_power [OF oc_b68_pow0_0 N c0]
  note c2 = chain_power [OF oc_b68_pow0_1 N c1]
  note c3 = chain_power [OF oc_b68_pow0_2 N c2]
  note c4 = chain_power [OF oc_b68_pow0_3 N c3]
  show ?thesis by (rule c4)
qed

lemma oc_b68_cert0: "pock_cert 174723607534414371449 44706919"
  by (rule pock_orderI [OF oc_44706919 oc_b68_pow0, of 69188669156729060296 97513711501333925610 38614380841361856391])
     (simp_all only: pock_eval)

lemma oc_b68_pow1_0: "chain 174723607534414371449 0 97784642313376440036 1 97784642313376440036
    [(False, 54725497070976092996, 65911542273592410092),
     (True, 36887611677069799395, 27250696720913769957),
     (False, 4250143882983611496, 80658841211465204145),
     (True, 45140986089822196100, 19998347495772000320),
     (False, 2288951723268862803, 160693257795818790853),
     (False, 147789548678746185896, 143126083714007584305),
     (True, 80100984058104338237, 164597653818595439567),
     (False, 155058540885781239757, 12873736836824649596),
     (False, 948544403830331715, 42566326955287758181),
     (True, 23822385049468573040, 48603294082467799556),
     (False, 13520097421303321972, 142359333566542619708),
     (False, 115989934843340660387, 84590260500331914501)]
    468 84590260500331914501"
  by ((rule chain_double chain_mult, simp only: chain_eval)+, rule chain_nil, simp only: chain_eval)

lemma oc_b68_pow1_1: "chain 174723607534414371449 0 97784642313376440036 468 84590260500331914501
    [(True, 47341217840817953477, 76234122274226283863),
     (False, 33261912805783821811, 79603911412072328630),
     (True, 44550591153757038310, 170409126115617819490),
     (False, 166201182961316946860, 41843006163589659960),
     (False, 10020610205529034028, 128923945234674535028),
     (True, 72152710491161832309, 34435104024848235267),
     (False, 6786583713185770383, 128934878282397566322),
     (False, 95145716553627680626, 105953472076883760610),
     (True, 59297209547700763335, 111421442730313759545),
     (False, 71053580425068344732, 90157143933448250357),
     (False, 46520963691958540449, 52882803724773386848),
     (False, 16005798925838207000, 4058411746507432104)]
    120232 4058411746507432104"
  by ((rule chain_double chain_mult, simp only: chain_eval)+, rule chain_nil, simp only: chain_eval)

lemma oc_b68_pow1_2: "chain 174723607534414371449 0 97784642313376440036 120232 4058411746507432104
    [(True, 2271303498094664407, 1)]
    120233 1"
  by ((rule chain_double chain_mult, simp only: chain_eval)+, rule chain_nil, simp only: chain_eval)

lemma oc_b68_pow1: "97784642313376440036 ^ 120233 mod 174723607534414371449 = (1::nat) mod 174723607534414371449"
proof -
  have N: "174723607534414371449 + 0 = (174723607534414371449::nat)" by (simp only: arith_simps)
  have c0: "97784642313376440036 ^ 1 mod 174723607534414371449 = (97784642313376440036::nat) mod 174723607534414371449" by (simp only: power_one_right)
  note c1 = chain_power [OF oc_b68_pow1_0 N c0]
  note c2 = chain_power [OF oc_b68_pow1_1 N c1]
  note c3 = chain_power [OF oc_b68_pow1_2 N c2]
  show ?thesis by (rule c3)
qed

lemma oc_b68_cert1: "pock_cert 174723607534414371449 120233"
  by (rule pock_orderI [OF oc_120233 oc_b68_pow1, of 97784642313376440035 14283963398578376782 7994067152443820081])
     (simp_all only: pock_eval)

lemma oc_b68: "is_prime 174723607534414371449"
  by (rule pocklington [of _ "[44706919, 120233]"])
     (simp_all only: pock_eval list.set ball_simps oc_b68_cert0 oc_b68_cert1 distinct.simps prod_list.Cons prod_list.Nil insert_iff empty_iff)

lemma oc_order_pow0_0: "chain 115792089237316195423570985008687907853269984665640564039457584007913129639936 432420386565659656852420866394968145599 86644313145397489891193855759928671818841495415153161568930588450251036589538 1 86644313145397489891193855759928671818841495415153161568930588450251036589538
    [(False, 64833764118821606479233049918210874338912429109801366387343471965815698921023, 111382743983892039259376433949490156055890523455546746302407494192514066306693),
     (False, 107141305931140694498554440685966027161509740866780788254252051043234415689340, 43132095542345746971061801259951156107692184253879382846621377473529175328669),
     (False, 16066535098621399543956846658871141709631150931237932701309057021117623303236, 107469303707264063191740542685633823042148862101086719304859194419324325537029),
     (False, 99744734855358903898386806169231386048779022025644036142544044143700396400812, 56703082431151589570473003340825044269851680334333698062600501915146929945197),
     (False, 27767350760934367649284756192952830427899208259502751154670754585707114195380, 74789832324012762764761196107289166604984459993253367329633391435587241805749),
     (True, 55963353754612052349202325534645236813409120548280274383691959328638124404323, 20352971793522143436868511373470828192905122271552866980143507233451978835111),
     (False, 3577476350555476198400872453120165229288753631167314189470035194375193125451, 20433584720468625314432918033414732300807903681743405804004054596636859311334),
     (True, 15289938413450188239698565037860473387314510699429749482385586865563194742952, 43051978640874570045564590756737351469732378173414431583579053133055790560868),
     (False, 16006904073521141985825372364355947431387781585311797751372854567236171152512, 101236026003508421260639790433155691965365746098442428347775940994056561588880),
     (False, 88509785327201651404060698470641659604970057877873282176855813791377123424499, 23186518765562190907828647274513231902850594623032137660057276662741504092237),
     (True, 17349889840553752077425442172860500175403877421110641805649470570634242052581, 60060968952856985532323020081986238069705375526189738305284194501909973482709),
     (False, 31153423479239922916413576053971136659434920945535915300638595742615566779671, 68922671449463766870395221073052210195321504859755111427598883568006528755554)]
    538 68922671449463766870395221073052210195321504859755111427598883568006528755554"
  by ((rule chain_double chain_mult, simp only: chain_eval)+, rule chain_nil, simp only: chain_eval)

lemma oc_order_pow0_1: "chain 115792089237316195423570985008687907853269984665640564039457584007913129639936 432420386565659656852420866394968145599 86644313145397489891193855759928671818841495415153161568930588450251036589538 538 68922671449463766870395221073052210195321504859755111427598883568006528755554
    [(True, 51573104580966258920228865449240453719613069157705044357440183914857288192379, 3161613132387213231945607129815217924953468023163816917282491114635260736329),
     (False, 86325392906564389637412429218056339794660207554514582726853928169289623290, 36057108571709750793781538240368357605208422297934793293834440327569062087511),
     (False, 11228012959395485707237614316173192419973869886178548318150563510303594559032, 59153027205009657348668243847738324429825968726869651725944678873773341973337),
     (True, 44262725082581523153425052488533908912085542296720395839705202213421673312089, 54195499044132339083516241960163693583081712177839336957291967013039002008313),
     (False, 25365740751277474492152833835420235148245060104417281355406826173271307403617, 103197910108536074206419284264656391419451109328160588063734301809571002289040),
     (True, 77220405109617876636192561516489258950602338399713522994709778562885090690269, 108468983250186227681745133951699061693079070231009337962518836484441051556867),
     (False, 101609016685204765211731297571359333771920320894595850521472624656146403615578, 69184119695514175345454937285423598703404552574505176038456847276568362873903),
     (True, 51768739739216829327987877145987070101735170048819293429210085728770449864829, 59123929825978982208497903073737405050466746779985922867866452826091164053441),
     (False, 30188928285964039189898834179656760154897272780695294767921862231734725974646, 65567346374053597911511698547210803485558345949996155758882715288013369360779),
     (True, 49062399070310759417389338517583103332134856884871425914254391223917712789069, 17759638860580824433732565152372834248307114608660426360463118192094139927849),
     (False, 2723888778030679128774034450719778338870872602299413250080814238841934100919, 82557317811376230454607246030268482530962653502155127552544155380947320771098),
     (True, 61775568123938424298486254380278323018975993004720407481741608277711093512619, 48368585364599809217820867700120555241573734537359366092952927374942873034121)]
    34527 48368585364599809217820867700120555241573734537359366092952927374942873034121"
  by ((rule chain_double chain_mult, simp only: chain_eval)+, rule chain_nil, simp only: chain_eval)

lemma oc_order_pow0_2: "chain 115792089237316195423570985008687907853269984665640564039457584007913129639936 432420386565659656852420866394968145599 86644313145397489891193855759928671818841495415153161568930588450251036589538 34527 48368585364599809217820867700120555241573734537359366092952927374942873034121
    [(False, 20204489491313402961845755551445134357725607447312912215785777674401761077989, 45608938780783145085904211238293111771056589193082537868645058856316191394348),
     (True, 34128023770711189645124379000211724560844610142338967082870640746086173632465, 40863079745385467331397295168418516912717922262011099177952252268874952280519),
     (False, 14420599000122455163505131151006730686089500676056828200528191376460610268751, 33911135905987782427083884319380339578356869390728201304565377603413532346274),
     (True, 25374851580168614096205756397231278878360625862337297920265270541000334877778, 28842213403054314953802469290379089804164732147619976837782474801403487538226),
     (False, 7184197810632809947805380894016187102348488578674672059004610121286405785713, 30463472140846088390535805657791047146715570859593008379049840333867126219795),
     (True, 22795051346365519754809594877420024767391454685556979436964764468900093060965, 34174464840914936876017129466073988191508310378243786314428738527326142249505),
     (False, 10086129845790494549677239888422745819503210174428972245582857303728673921949, 67197472246424194619068290727091376611644378595120482597119081980685329242212),
     (True, 50282181332487739033593366453660505448397475727110140490837172816948540962697, 100971664277624863522095041278223021366098316673686344573162595375628333431167),
     (False, 88048130525550304233579006912962797664095189237210338472336288813916640920553, 2554556146517550775005886083047975140584373108372216199224087853909350573528),
     (True, 1911510226339678925773535704126326037333744382209147429224907368316069744793, 80873842544451178312861657429875802133144303992854561207268479081238319812823),
     (False, 56485537578476095763540377374380778842744410402705219428175877026386127603155, 102165286197456694846658619033156890913875294027513778030553277037430839396094),
     (False, 90142131233300815659152293863904794045318825739002764566248835330360552111475, 10610737328070103684412156985712191871424391019091976723280082129396017239761)]
    4419580 10610737328070103684412156985712191871424391019091976723280082129396017239761"
  by ((rule chain_double chain_mult, simp only: chain_eval)+, rule chain_nil, simp only: chain_eval)

lemma oc_order_pow0_3: "chain 115792089237316195423570985008687907853269984665640564039457584007913129639936 432420386565659656852420866394968145599 86644313145397489891193855759928671818841495415153161568930588450251036589538 4419580 10610737328070103684412156985712191871424391019091976723280082129396017239761
    [(False, 972326757267082351393519997267414485269489853210059903062775219420831799405, 82495220412920513164705632901767772500176236505104274744715316573697931867636),
     (True, 61729102199774256442161447851856071851541183989411337647967277730850857478621, 38455730300993819249183645843103211278519744372412848506919147094158888322891),
     (False, 12771539081153299821590976928406816932374793818185656612870319499594162385986, 19746074596832644955841592902708716940233091961209234105154767668771527436599),
     (False, 3367306562580135502870280186337392881821419912340103694465657484503638607884, 37194184205760798730687880105799591865772098773313574244582142270044135133893),
     (False, 11947338957644757850648872803444426926886708432239539244998739985384017011544, 3896580142549345053312173315154209619780634613431381628301731062285017709121),
     (True, 2915713087922933195014249363413237488346831600786440287611248854835589999099, 74120638875292896270796683349655573038722615703309485565843643118479232173735),
     (False, 47445979630109974171847347099866438387166191684903419997926721349127758321110, 74045447130374747197275842633763919609161517980819729372235538099429331296155),
     (True, 55406349003741867082177347851378174305292875005308211001864729539195007696684, 34757639407845058855536085084051559737159325011170567692278757772682372947882),
     (False, 10433299072182668472972111546224426252203701957204910522997257944950204955816, 52570062568346739046371293845551552624514622525134280126729056793129069071932),
     (False, 23867014548600654856103429683176307002436783376053623555118197015035065995500, 111979797336996938960224381231887454984442196429811769246304775297693272729124),
     (True, 83791670832882116673719735347401202872276902874999199997370012775038587525290, 50944767575163991037784107472340718151297416355118717296432821292957467021982),
     (False, 22414047111355456819870115405799163661969913565544045872046350545711217864521, 71771689670294315064512255368151638458788791324741485520125484065708296490747)]
    1131412634 71771689670294315064512255368151638458788791324741485520125484065708296490747"
  by ((rule chain_double chain_mult, simp only: chain_eval)+, rule chain_nil, simp only: chain_eval)

lemma oc_order_pow0_4: "chain 115792089237316195423570985008687907853269984665640564039457584007913129639936 432420386565659656852420866394968145599 86644313145397489891193855759928671818841495415153161568930588450251036589538 1131412634 71771689670294315064512255368151638458788791324741485520125484065708296490747
    [(True, 53704953384356125981154954824572886178602229964096047191211725589126703084328, 2049301408900408103029465501221101658549475539788260616868616285357048554350),
     (False, 36268766650492262362037568822003487400768521979906515592928470410131472027, 82109285169894130440885735339468558854425718742310512049240482046281069511401),
     (True, 61440316547223420475977695633280070857935699781865793084904218762510733703620, 61879242971342416259795749491031326855293117501518886195076124473209381922798),
     (False, 33068240981979353404032728077175688104655959062034414411498203011207019415084, 27062548324963322996047055980896503435634406777077977475851103474890513769496),
     (False, 6324970269255244879245262882179908323520741002107134067978918347865598225937, 49645176966931981581860530579443733914364641944426110989768272567002948075247),
     (True, 37148239466218201843463854317670967463041130990494068912271602660303902070666, 78791065440064402857974002306394717317341282007963618482998766557305144147444),
     (False, 53613610688525819943302532467489698929851797295724373562921648255539466560895, 84938278774190215142058858639183849311042353994874977088696208867130203581521),
     (False, 62305734775506918323315821458287744806795046121632381474682341282159718891772, 1715842236752991730754863306769201540669314126464862377620990534466598778277),
     (True, 1283921665534767825049835376640252532705251653919192804529399941164610394271, 32667742042289389339996467902878559288448612124424514594500732716391416122699),
     (False, 9216358191399160790145082858299465197667089545186663136908591920918742869555, 73930740248650057207450704591440985289394073362444771936687414581636360834566),
     (False, 47203175879409925931934270458004234295533298221340262939596188590147730187934, 65036473495579646196063774746654002267906367015520445313672674998968733678598),
     (True, 48665160224152414289711103597353414964685864666455983706432475901631594605251, 52582738393856782335143127425294146966926370849547608685380832369797154344137)]
    144820817365 52582738393856782335143127425294146966926370849547608685380832369797154344137"
  by ((rule chain_double chain_mult, simp only: chain_eval)+, rule chain_nil, simp only: chain_eval)

lemma oc_order_pow0_5: "chain 115792089237316195423570985008687907853269984665640564039457584007913129639936 432420386565659656852420866394968145599 86644313145397489891193855759928671818841495415153161568930588450251036589538 144820817365 52582738393856782335143127425294146966926370849547608685380832369797154344137
    [(False, 23878525685204792162356305692251186499538609082952400287321346076461334389674, 99300870335824526625643282950677435621146785682454302326152295093962923998631),
     (False, 85158346432827381249734387349978455992235735504923595076709699697584103594331, 57762405539291858510847848069286794733568723786461439486668801659350288070614),
     (True, 43222157804930251447424800757425748907971189012954812115047905694637638264248, 21834567927019799004858647696702553886916484026605387921026040749590116072756),
     (False, 4117279165613331802674843770343836163868616006405694429717068361916121458827, 1710580282417184596616871200435051044477179199441407962754716448973946272837),
     (True, 1279984277218938672203168809918975889664034497038911836869131961545776520171, 44933713186332546236082577220240841758738635233940413557970605166393745007679),
     (False, 17436757502263996584618550404638363073183258397760785922859494473219874892802, 96417952233978885032644168474820760973413263634071645189829656995663763904767),
     (True, 72147132858766896455832394043791899370498838552989771488916934249121538776341, 102136026771285037132010710576833761953940316438873056223437077408390519446729),
     (False, 90090506470133012001001718880658606235268144503419075290546888399468576050175, 68947757488830783342895267088846289322657591685200085180832072630317178440466),
     (False, 41054559893083105258003473064443066642210190916717288926954593573588109537494, 65437557228274825663327794323531316820305122643001334829450132719710936125678),
     (False, 36980711931258283323192077427205793840864291839480569206620803398773032870610, 10129185702094570605906666794042920601552397226095327888640481215146642224114),
     (False, 886074374020813114075745720758071342536821907002748253892576809578996890195, 81908567061992879418592229733173672089766904200181930314534751945183499759281),
     (False, 57940170199354846121650193122035508046852628302273874735006839872105081884348, 80110543214260307130525760091269167897408857015444137690487656592677454699685)]
    74148258491104 80110543214260307130525760091269167897408857015444137690487656592677454699685"
  by ((rule chain_double chain_mult, simp only: chain_eval)+, rule chain_nil, simp only: chain_eval)

lemma oc_order_pow0_6: "chain 115792089237316195423570985008687907853269984665640564039457584007913129639936 432420386565659656852420866394968145599 86644313145397489891193855759928671818841495415153161568930588450251036589538 74148258491104 80110543214260307130525760091269167897408857015444137690487656592677454699685
    [(False, 55424331457831947963096518065097533047680853996957483885097433912599428184709, 95329227272926696303585880002168056814311433240982529027439045915762845606292),
     (False, 78482577111361419863086278440386022904102530632828493593988939017969040304081, 102503742561667438402121577504581506184253574135823739471078916213617230499967),
     (True, 76700976962993889587850397421054432048881186842551151046622143833453328441546, 91089740061365836887122042092814765896708946350229227937398828010611587020244),
     (False, 71657233228098806416339699836260473075353401816358929340488179953808008400032, 62195863411777047557951988545048420371038596317770665589252265540505267200752),
     (True, 46539603018594640706575256027316875134068983172583687712120945657067546678195, 71401675381693886569639846199392690567567277464149192373752247187172415050861),
     (False, 44028908027248889867370564254505835495081296172708278091715982837787288279801, 26810957231253329054097542740381293719781175850048748275658125231708883854384),
     (False, 6207914827262995902172495851601485412153350383410681531821319826764309557081, 72463944629458846199344656963714850597693682509759671626539685398174556269159),
     (False, 45348722057335811368239307908044386440953681132286159774694029868970290227830, 98884046997444166577180252929042879894463988647129333414043665727728269768571),
     (True, 73992449653198226269857204364787653078150680170837198396419795247421488657651, 27430717453287696146565706049206508509827027799692812731503277317154011587811),
     (False, 6498235457691463834292847175215724929148867802623736150661498121634826736601, 63930017249154284418474288494471832715489879165633483854918300353810111643184),
     (True, 47837226795121022287977214801708097979979488195257708107906514662679781011054, 48990645184797852159458757715150614422399661773009374532429621546279168007794),
     (False, 20727524059988069025133512153447864750121203714070203184462354695506055900040, 32703333314324454781401342466629197275567589411462385883396466385888946672956)]
    18981954173722726 32703333314324454781401342466629197275567589411462385883396466385888946672956"
  by ((rule chain_double chain_mult, simp only: chain_eval)+, rule chain_nil, simp only: chain_eval)

lemma oc_order_pow0_7: "chain 115792089237316195423570985008687907853269984665640564039457584007913129639936 432420386565659656852420866394968145599 86644313145397489891193855759928671818841495415153161568930588450251036589538 18981954173722726 32703333314324454781401342466629197275567589411462385883396466385888946672956
    [(False, 9236451444241965548760699297135798512321760872899926274478994816416819575724, 89884289928475196537377963591248506657952373213393231419871955177479453102948),
     (False, 69773208421759065826279614157310682340881493233919581024830319477033116492840, 5592374337593627980031201857094597472091296357560801351765997912290525243624),
     (False, 270093155221323361087156920620246727618669615234178239209621806562937677682, 22616124687473263914833298040657503321420460781257613316397483288478978366542),
     (False, 4417306046106823191531424024664376557977245712723676666276725019871662630553, 93075968534153519624856892644651588853458540899703034898474200226179672359403),
     (False, 74816302008469818144399804943172518774536891172535321971311637630000390686568, 88704838975058023016935314364562721609402202632436516323712876755548528550993),
     (False, 67954110763684053282290740478617157212272303233675846158051737912195788659166, 31015408359455701130342976257101844344292712029728911184045957726788069143107),
     (False, 8307610321567513231406567762490672249933490699722715833889623745993201780148, 78394799609159332969450977301654809643059742908527955693313288168745024591573),
     (False, 53075686311907960830264982696922510420277997900007527140711898676163773784336, 107429567658903141025784876247266790517718216767678531418985032563748139309097),
     (True, 80386848208909759684803475372162360128152872651085078812887204503425307068080, 114386675781210790325933923068181811118131065953002344713686811459605504964226),
     (False, 112998320372814965702635828742799250407670113466185262185983661776723759562844, 38619319633680745344873995380346323143898827617170240184406361030388638164648),
     (False, 12880429559498357097027088394284294310658211009614784571986436197238930369724, 113235106880145111518278734786236108615930698221472251335482381009286214710916),
     (True, 84730987446541458116782313451763573020625584958543660383358903729454588979500, 105475427309804286488678897988553832726492742546030950599111371846105360905308)]
    19437521073892071429 105475427309804286488678897988553832726492742546030950599111371846105360905308"
  by ((rule chain_double chain_mult, simp only: chain_eval)+, rule chain_nil, simp only: chain_eval)

lemma oc_order_pow0_8: "chain 115792089237316195423570985008687907853269984665640564039457584007913129639936 432420386565659656852420866394968145599 86644313145397489891193855759928671818841495415153161568930588450251036589538 19437521073892071429 105475427309804286488678897988553832726492742546030950599111371846105360905308
    [(False, 96077943143291559173252752835276478798068465627025547026380482323692736181148, 49612082447656432382507715644728463607988773106862534056556251979366934415988),
     (False, 21256708821865181117351074669329950516167673035108691997215688448362421069954, 98491461875998199970406916824310957325592388404017856714065018463875578165646),
     (False, 83775740867667278830923796004297446921774322922573470584248859413700513810827, 72033638782112886735375849943650345221896075505326193909126713542189364810617),
     (False, 44811741029712019762292287268847416815182100051651913233242350290273318852614, 3119958750647239552903824301739621634339949312598209536304668923067777273771),
     (False, 84065696282499339880460140121761633265257915246575861392728373506317647801, 69969694238535836522928502346085855066323244559247892413409260470068062557504),
     (False, 42280592258771026584373828653486837038200567922911117577714625536482386856154, 51131071921863428970600359378520425045331318154619477656246941914701202110118),
     (False, 22578282619295162706852645564541641907603994246231085877852548811888927496685, 71045286431742005058204406247165436183225076250828200056677500006387584201079),
     (False, 43590479776416658519054801040891446779871071677841183268670090350026261867755, 33005107530106654231761814658891099952461097982450516895723270829035229360806),
     (True, 24696893294455590188755390692600520024489167920115311315809527214593168648477, 100885048806154508991754076871111539849351895919452219774140409626640947672879),
     (False, 87897136494020444683374930715083764461509422452200785236444050722069609064404, 26400927400152563147204091948861220821270605527385286546026954768028477868493),
     (False, 6019486928503419960513676262410579812820916966459273044531972860332004767081, 19181076669717303580081532081644119035906185130772282333466496763206016570752),
     (True, 14352718086213399465388347299251497547396582876264715161175877301685737512813, 9333964544835431448720996692759175460103078528368295566289432771774395552595)]
    19904021579665481143301 9333964544835431448720996692759175460103078528368295566289432771774395552595"
  by ((rule chain_double chain_mult, simp only: chain_eval)+, rule chain_nil, simp only: chain_eval)

lemma oc_order_pow0_9: "chain 115792089237316195423570985008687907853269984665640564039457584007913129639936 432420386565659656852420866394968145599 86644313145397489891193855759928671818841495415153161568930588450251036589538 19904021579665481143301 9333964544835431448720996692759175460103078528368295566289432771774395552595
    [(False, 752407998664626383327052755322895506416546502508504120939760317799693379140, 95456921962021460222249301351822984390065345921263105748013233453327907303845),
     (True, 71428018035171063123993774929035756663676890020423140017717356719446095473724, 75569550910539884178824704342050302139820122518245184921470031537049755872622),
     (False, 49319060243541056583853718630050057479972945041125854126504616169707291406156, 1204719795928030939548484055911452540149931078988846725250403993865728216312),
     (True, 901461575988289156921703171057892982881564883968356049129699674975245065209, 35066324965013948936363133076272636984622987572140935173971032583299970922423),
     (False, 10619440020913651741819915945606239901290553037577083403601560255903216839718, 35083593960757888433398604462158293906906647723034247751181773965683990513963),
     (False, 10629902036577641091554829763344221378108655713003530420517911342190637254067, 99253178403406071168971752962791161366826308468741825784345070636709847246790),
     (False, 85076566871406095533388184065771670394063458217259392042235557672993843120332, 91343439510566644255577797006167914846815550509877991868841408011567137744216),
     (True, 68350002395333306660111830300276012805462259149365191505714799823953765696518, 70459486531157020310137095118287289682166036580044367956634815280122707993642),
     (False, 42874597694316242534358987734426932990864397718189890418839933386731094023920, 106976335588026596851385238118802952710403811899829189203348811486407489883124),
     (False, 98831763475548901083589875916759508308805996171180297116380824084192274706645, 47656418923524784219692502843634577274654674973847683400215195805029676230011),
     (True, 35660101754752938942286612572404099704650024197153846126260398490764000618595, 45161831750978085062074838490626674179343622565955167389047020381729094828403),
     (False, 17614252066248714132174108324881287869220374423578285648720515861888819868340, 79765376398403829507874857912611034610328028472189453045193365617530019939829)]
    5095429524394363172685258 79765376398403829507874857912611034610328028472189453045193365617530019939829"
  by ((rule chain_double chain_mult, simp only: chain_eval)+, rule chain_nil, simp only: chain_eval)

lemma oc_order_pow0_10: "chain 115792089237316195423570985008687907853269984665640564039457584007913129639936 432420386565659656852420866394968145599 86644313145397489891193855759928671818841495415153161568930588450251036589538 5095429524394363172685258 79765376398403829507874857912611034610328028472189453045193365617530019939829
    [(True, 59686428462822218291743849778642347404435567432386335045176099803105776964098, 55798422122395792209490574131701717006451366318189766945477110865357251595976),
     (False, 26888399128614179870323320424335447273148997141402908663783725330909566502379, 76799676322989068294054468669180801381670080258827881374188054586818033864853),
     (True, 57467269557217508339171018424947125243556073670340642720160571462570907501000, 72201515269600296072268058649531949400804795508206257019599965136924003870914),
     (False, 45020854546826137653032326437852268816012060499947703464438043176459809454712, 100068691608294356997509262090444986821560256331040315615119843204204929229452),
     (False, 86480372762535862204365990376220635093148412522177899624381219872103234097755, 17265068576128839080816969049816798650739624374130179749865029821527727306869),
     (True, 12919017335640063050491651362427604599960938490044165336483733321640432469397, 93232869934840411721658093210058748730597515589253332854400494551782779631733),
     (False, 75068755504288705823153201444121299970752147598150725816493821121631600817570, 70397136509968650445900497591875313586708424966568286191817423018508975482199),
     (True, 52676409765852425024426460040571642234918210851936084911738486498091399358973, 109979638573977503673044576899044343458467686267243912380695851997802418998161),
     (False, 104458957261518255901260100242383198621690569286401408832500150466955588353635, 106248096752322567131556866660763594772952243350711818712187235776157715516926),
     (True, 79502783193102497045738811147495683336710124017679249337308532404739680916267, 47703539545754826116635608933653976665542187124358915067051501973855661840209),
     (False, 19652704257969554014598290764801306183287491697515926193361478010736205910710, 21099721123705403894658992820039595601374341114125055899237925190626656514411),
     (False, 3844806967647894065906594327782380010918477773551139083189733948754512612132, 81573513783029151079780789443019380339515504022795209792634351547313455180437)]
    652214979122478486103713244 81573513783029151079780789443019380339515504022795209792634351547313455180437"
  by ((rule chain_double chain_mult, simp only: chain_eval)+, rule chain_nil, simp only: chain_eval)

lemma oc_order_pow0_11: "chain 115792089237316195423570985008687907853269984665640564039457584007913129639936 432420386565659656852420866394968145599 86644313145397489891193855759928671818841495415153161568930588450251036589538 652214979122478486103713244 81573513783029151079780789443019380339515504022795209792634351547313455180437
    [(False, 57467122276999148554846406031450368489486943409955924019479518926843285635978, 4423483997109101015228614945408496384085623029253214633383767969504337054383),
     (False, 168985729522310101752643163578525910706464318453694718730656187027447549622, 39326434656313002496533729277243801012963364890520978607649121628696620020075),
     (False, 13356425926537694621327933853073691299772079363728368860371991489663432230847, 35673844971836192485648381617885989678147413352367333393574472222282335792186),
     (False, 10990588592510475588701782848689029591029161283518602562475997769825298038967, 110157232607419974330187530054885423083827852161390115025990899488759802828717),
     (False, 104796588226811443267515167804997405782256900275760247623653961373813309767917, 106403834080901961507415177188127974642328972871831145643139535617603460080060),
     (False, 97776765076862063372038549430514205656132530193290294276820778772471603633112, 18620604394883959355943769073694649907592989366396840755202880041949395916856),
     (True, 13933330754921309590092751097688756285000567252892550309488558976676946237298, 114061820008400177473127588671994311301669789332759133270585611512691762271102),
     (False, 112357406013846480816309734373001942672388046058992220587094020792957249758073, 91074670221744708713166650036226116489428020406708782008302284874359534761803),
     (True, 68148889084588683004500137676206234543187000184045652198941175307856376016603, 5789772351919943617057609039792005166868708634632831935027961026004309339803),
     (False, 289497012342132163133865492548445363989940490254967300271894429198509001899, 56144555561945206431289320247319628828029865701615035375188731770205509332846),
     (False, 27223026547071685757843473472811692155175178869828903425499954881937583569289, 100145909502762574505978565482010000047885348718090298731544431752201593843323),
     (False, 86613889223301193414177285803564697274916167095070724664304793703876460601495, 3114892034057414168471524643737296915130652332368515405549470753583215448514)]
    667868138621417969770202361880 3114892034057414168471524643737296915130652332368515405549470753583215448514"
  by ((rule chain_double chain_mult, simp only: chain_eval)+, rule chain_nil, simp only: chain_eval)

lemma oc_order_pow0_12: "chain 115792089237316195423570985008687907853269984665640564039457584007913129639936 432420386565659656852420866394968145599 86644313145397489891193855759928671818841495415153161568930588450251036589538 667868138621417969770202361880 3114892034057414168471524643737296915130652332368515405549470753583215448514
    [(True, 2330795502444378693843533294137927773180103997762387712223521737446556949206, 9575300636444642568057478801310935757246551284992728976112327052676824400110),
     (False, 791819051562198625201271288308691525078813682123254599743518753512051789798, 26263447234538324039979651817456456576117236351509626794923062165594276638174),
     (False, 5956958417320686155847195216244770717150890346446045569674054399782693557271, 101247726874786388719671513027517519503864869307186164259381046181907662379949),
     (False, 88530246451479778421758444864271111838248918701964539762685671614809964815608, 65175401432832619782280288971891882342366370485706837922507511650848896030705),
     (True, 48769116511488419311058283199589939516657140339970587086999714983950734383656, 19630541772020837165973146923476169353564609682317409441858915650768900408218),
     (False, 3328018112474526588296578319976636960334957332619568892246592026079638731977, 70170403604154248277853619724347952466879205433935288955392920270500895621275),
     (True, 52506751225090747796868999221553780737784182184570032680086256410252160257195, 112706700975539496895720595943561992657629774794065541109083802143830219216235),
     (False, 109703525762932322799879131893975023670461333562814920384377160712907890128161, 97014303140324522782606161862510426989888308674355598723446823069143481850968),
     (True, 72593367269202780341799704364054106871295146639997518216603635231720052219614, 85309012624435458399638457572451764463482750965830241549970197712742362646866),
     (False, 62850818936694122413562979734452849225782853968275768622734667455999807702457, 106084677504505634354362647859107094517267907196891626701922547719131633135947),
     (False, 97191085119553765328392355279854036314420417406211145681667689756907282140264, 16057265369524522973030727964712828013492445859010728023820401684775507901841),
     (True, 12015248520858937460379457643917561412693984770718680050019619029537353944513, 53021481403802711789530767991776891500891275171781059027497320297197249816577)]
    85487121743541500130585902320797 53021481403802711789530767991776891500891275171781059027497320297197249816577"
  by ((rule chain_double chain_mult, simp only: chain_eval)+, rule chain_nil, simp only: chain_eval)

lemma oc_order_pow0_13: "chain 115792089237316195423570985008687907853269984665640564039457584007913129639936 432420386565659656852420866394968145599 86644313145397489891193855759928671818841495415153161568930588450251036589538 85487121743541500130585902320797 53021481403802711789530767991776891500891275171781059027497320297197249816577
    [(False, 24278666260974668812112624549227085744194565090982529713151777717260510951178, 87552642736265944189900561939424068000709785658850976383904654397114413517943),
     (False, 66200249953119252767125860175185315581817373121627982308403260935799802558470, 6464020660947939647924265540546449471363577375467915616533075593722166566859),
     (True, 4836864366248943734735323680031591128339688332173132486869454330700312149493, 1)]
    341948486974166000522343609283189 1"
  by ((rule chain_double chain_mult, simp only: chain_eval)+, rule chain_nil, simp only: chain_eval)

lemma oc_order_pow0: "86644313145397489891193855759928671818841495415153161568930588450251036589538 ^ 341948486974166000522343609283189 mod 115792089237316195423570985008687907852837564279074904382605163141518161494337 = (1::nat) mod 115792089237316195423570985008687907852837564279074904382605163141518161494337"
proof -
  have N: "115792089237316195423570985008687907852837564279074904382605163141518161494337 + 432420386565659656852420866394968145599 = (115792089237316195423570985008687907853269984665640564039457584007913129639936::nat)" by (simp only: arith_simps)
  have c0: "86644313145397489891193855759928671818841495415153161568930588450251036589538 ^ 1 mod 115792089237316195423570985008687907852837564279074904382605163141518161494337 = (86644313145397489891193855759928671818841495415153161568930588450251036589538::nat) mod 115792089237316195423570985008687907852837564279074904382605163141518161494337" by (simp only: power_one_right)
  note c1 = chain_power [OF oc_order_pow0_0 N c0]
  note c2 = chain_power [OF oc_order_pow0_1 N c1]
  note c3 = chain_power [OF oc_order_pow0_2 N c2]
  note c4 = chain_power [OF oc_order_pow0_3 N c3]
  note c5 = chain_power [OF oc_order_pow0_4 N c4]
  note c6 = chain_power [OF oc_order_pow0_5 N c5]
  note c7 = chain_power [OF oc_order_pow0_6 N c6]
  note c8 = chain_power [OF oc_order_pow0_7 N c7]
  note c9 = chain_power [OF oc_order_pow0_8 N c8]
  note c10 = chain_power [OF oc_order_pow0_9 N c9]
  note c11 = chain_power [OF oc_order_pow0_10 N c10]
  note c12 = chain_power [OF oc_order_pow0_11 N c11]
  note c13 = chain_power [OF oc_order_pow0_12 N c12]
  note c14 = chain_power [OF oc_order_pow0_13 N c13]
  show ?thesis by (rule c14)
qed

lemma oc_order_cert0: "pock_cert 115792089237316195423570985008687907852837564279074904382605163141518161494337 341948486974166000522343609283189"
  by (rule pock_orderI [OF oc_b109 oc_order_pow0, of 86644313145397489891193855759928671818841495415153161568930588450251036589537 57112704531168816596589732607440886458891436705097388389849158079043094771009 42736002852813264955634017004243308499087223244295714589437664442505423119136])
     (simp_all only: pock_eval)

lemma oc_order_pow1_0: "chain 115792089237316195423570985008687907853269984665640564039457584007913129639936 432420386565659656852420866394968145599 58138579787377535003503259606714116115479494849592057519620557805018937774448 1 58138579787377535003503259606714116115479494849592057519620557805018937774448
    [(False, 29191065486051910348608603142179065541115710005729910647823269696245902411111, 37036342700148526867891274771425868757966339514592179532879640575696249326297),
     (False, 11846151923138387883734949355053960423112041215345939149709219456763485964106, 44704198091433028675805574732157566481947006918635161565031060234536271464487),
     (False, 17259083415467393726949741696151686070728243627475641453387236337076586308991, 19941065767232923082347440190315581154191371355271337335784602926499923489202),
     (True, 10012300933421565217768091890933032111749803881628214185068181968675650541503, 54307152592483431096920311105528850262240426659340613117310644363966921541985),
     (False, 25470365394813367946192621877923892076272594489545243223401865314104423055797, 55325572326494158604759419240804248294723500939884336664266917634640667218636),
     (False, 26434612013785973883955057338062144347424138783623953878770833961347942349873, 8200359008167120286806509256974248056089555228685557371993401579467263531295),
     (True, 4117355767753261831064319837372726431090336483244622083481498918594488278997, 2129225614650546323102057199681419648979647808547814487133580276523807810171),
     (False, 39152948599039162198459370888415623601573247788987433314850317309110469201, 39129685598604236263206808205141900749782974832620578465541978581736996634504),
     (True, 19646802844769002901887599530091127600186740926683746714446735753298826487394, 28272098171157647552812725158936709273221740294699751478336423470620113466014),
     (False, 6902989144287607408547197998073039793970200512494401849886152667838798153147, 59992703428218394073415893307371088344263206502020703960346201904131033819657),
     (True, 30122010906751253530797973297504617791569367393810497099656648247904580024428, 12524753931002337278629428440847104641250236405508513028300188006711731060100),
     (False, 1354751106620540562761107988179919263014904059336017406858371095659715395928, 44490954821862935592151950585419038735158479482869985479358228856891727150264)]
    302 44490954821862935592151950585419038735158479482869985479358228856891727150264"
  by ((rule chain_double chain_mult, simp only: chain_eval)+, rule chain_nil, simp only: chain_eval)

lemma oc_order_pow1_1: "chain 115792089237316195423570985008687907853269984665640564039457584007913129639936 432420386565659656852420866394968145599 58138579787377535003503259606714116115479494849592057519620557805018937774448 302 44490954821862935592151950585419038735158479482869985479358228856891727150264
    [(True, 22338667034724281329549146829029143492422792041783038386815980356037426593947, 77036993576809800049356595039533552335211390374080068307425038302335796676133),
     (False, 51253055527742091676920479545099712934249653839527278596865560692629867579426, 25840846750615213745449235609828351838438968107347143560421835574165695123127),
     (False, 5766796032328484518089422247508328166071821017115146757472473736452174597428, 69293768393001806235212679434648887511100133414747477434028614139547813492893),
     (False, 41467654394438208555943587372195172631470828065909992878994886430681623711662, 109268308994140400336995154398721743737955904515357846570482692987314627651355),
     (False, 103112081568618880403632463820813932132400167127100729697848768141824931535517, 25987809791880168810999633949653429430815659030651325209603600183958723468796),
     (True, 13048338302177399740579448710390486986773241558687900447850402886419236767464, 15752055475718623035402502508062949238188781398468135970922714657903192273240),
     (False, 2142868768880917175103835709395000433332718128215456332959492123838561195884, 63748182843197516501382862244353158124757263012392734144501598353163606388692),
     (True, 32007616746025237207754678471729244617858281609534170043250778289693749516338, 109911764000786299396735836839382137337106864497299692270059732959031837764110),
     (False, 104330062142719695569534023286142489266183457783631025282741741557367364695664, 94841506554705748295042980746744950359540478569515216537619623198608539637332),
     (False, 77681570691165254018878326259548005866959067475401476625815273118653041139519, 78867089442654324966233085859598416290815760733730627794565171014459742674321),
     (False, 53717122111923330392039837372936386294405471971245459748996536845754068947679, 17989994981550521533542799103582042684683962847398843289708850313345365017218),
     (False, 2795008895408321654674502803413057694257605913948323656922052610603024414040, 91491495318755757435565994758004357633831282676145893812210372875329233168044)]
    155184 91491495318755757435565994758004357633831282676145893812210372875329233168044"
  by ((rule chain_double chain_mult, simp only: chain_eval)+, rule chain_nil, simp only: chain_eval)

lemma oc_order_pow1_2: "chain 115792089237316195423570985008687907853269984665640564039457584007913129639936 432420386565659656852420866394968145599 58138579787377535003503259606714116115479494849592057519620557805018937774448 155184 91491495318755757435565994758004357633831282676145893812210372875329233168044
    [(True, 45937383421368922551918550124367845269270593656605953458038530668471183759336, 93107119509171709685560250768292727233993402913218501530749082560350618459480),
     (False, 74866389926933405329203943695219974196461012258660810570102257779537817848802, 15830934638100856817536135868448911338393732554938541370222036906773356636126),
     (True, 7948626392599649807408779502804086073552306955499316823578863531053653232854, 81024338613681255322998386937634581190328383262352036844455297188178533160650),
     (False, 56695958169729628066217561104600244567135158930583563600130474548378137350050, 40929337212326746764394226312417450241030956534451419503033237759137446755650),
     (False, 14467401492402527690017652158528441864578545509197567449799991247440526529574, 64713620280401857161412654078562521649306567855773674056009602306554342900062),
     (True, 32492357645358947148129198829417059316304694431069925323319113065650833799936, 28394029039336742991834196532547584383590401684906966860183195585358506253344),
     (False, 6962659456246155053930033193704566197527057905332623881433667448911723271243, 110164320842494646515919622933789747877444685900197101778929317278661451731445),
     (True, 55312907809245794975997188092748957575968701667575944840098470965709237277672, 58527441412015120090568102183180072722956586540570662896895853872315154573896),
     (False, 29582862014143040214403880433838299889251342119000189027983673490783191131761, 28156526242698783970534773116624593565816381318611462313062721455803302281359),
     (True, 14137239065973987768560462258068040570929977720851902250693295983591056369019, 89019862014637858075761045978956868698420041960913332632711467894654226169429),
     (False, 68437627175581976993678987516624486079765647115318148445925012750548506508696, 21217856400765664353618910515172242218728241555116058007279582732252568931489),
     (True, 10653370583415386288695433116952869454274755240782550816845563429337751679125, 27780183770315503338434282851424345265746603748737356524287099069870118177947)]
    9931887 27780183770315503338434282851424345265746603748737356524287099069870118177947"
  by ((rule chain_double chain_mult, simp only: chain_eval)+, rule chain_nil, simp only: chain_eval)

lemma oc_order_pow1_3: "chain 115792089237316195423570985008687907853269984665640564039457584007913129639936 432420386565659656852420866394968145599 58138579787377535003503259606714116115479494849592057519620557805018937774448 9931887 27780183770315503338434282851424345265746603748737356524287099069870118177947
    [(False, 6664864719133105511086769436040790297138052782995424463834561785665646183935, 90303004919825315393666455853175690996498727263289480187391033532325994258714),
     (False, 70424782480926254597269461241989485344968286944169875936011857647451993873969, 82754033419512543669298318252724899978251367605100753538702009575543679720243),
     (False, 59142468991662575604616646253909286714223430555888635377676764758854037234750, 64748641906562694652974301246300178541458981928811096627710556680007479368299),
     (True, 32509941813847889004270773063198696649085185381646042451971156874424584031328, 32035321797928834626469531174736113728184547266707403002527778994315880834416),
     (False, 8862970255191854776933432580280907827978234655365176222659711735152845807685, 32697512976003115890597531046841165054126048588079874717904521166143091481211),
     (True, 16417243868085768546130907555585980743489732716868116634751536333241152160113, 113091833398254719598892552206604961279486019686659032069653697618856581116447),
     (False, 110454547159659143381744170256384938286535172866479150877254059816671289382060, 54543992855121374275893578664310899400712911941660741616342033752818054509589),
     (False, 25693008703575288738266667032201000289003938283048482707449777466927486521823, 29565221215418913607194370130172533120230189351625737018875738304667051532570),
     (True, 14844537169039678051715469611055531147081752656075782074345825815428357662362, 26349241261531880571692109099905590952979987587689109305708981373805364727366),
     (False, 5995940824899361687674591840251673760629049419459051813796488487611343351047, 83647118318260943761698768892184915683891683216236325809068110043808815777117),
     (False, 60425893072963753917550614588803766016808951745321171669617185440599997986197, 7393838369819863407402563165780928275402589864071639865231662191348401165300),
     (True, 3712406130938111630943942362923686346904068730994000966827657605410257638564, 31676326834065410364744613761055639965657648140255319164500441283380685442332)]
    2542563125 31676326834065410364744613761055639965657648140255319164500441283380685442332"
  by ((rule chain_double chain_mult, simp only: chain_eval)+, rule chain_nil, simp only: chain_eval)

lemma oc_order_pow1_4: "chain 115792089237316195423570985008687907853269984665640564039457584007913129639936 432420386565659656852420866394968145599 58138579787377535003503259606714116115479494849592057519620557805018937774448 2542563125 31676326834065410364744613761055639965657648140255319164500441283380685442332
    [(False, 8665442417591089124708848063458748636759616915211085880207226759405939185744, 13314817492494596887115036086698323178484442326355841612801709133454450466496),
     (False, 1531057657100351013402643200428909353334853300838570914950822882802813647031, 59070402020697419595109808158517895271303772669350631344567219809712195154569),
     (False, 30134289983622790857638179837251888585572537073643638120578019623329898691391, 60700088465482598766539692952784609166749239849396517193231859840580444422994),
     (True, 30477185096113131336032040461358650194509452602694454425756136099128399913714, 85697294050891000006104034727401439405642897125270651665294983852471777219694),
     (False, 63424248202252199635031531960982270285787388929298090421892744111914445987541, 29432347591753770669081576151488258782300945845563977620640782515482497398319),
     (True, 14777822043490286601064477975564824376980540233829810417302718329418112826236, 48481522886198268536987650484349664979944674091908943655624396423199857327380),
     (False, 20298951999628372112585571907213018562575612794567841471110298100908558468507, 100404065029050800950235555824186353632385984684818904718609300866353224319541),
     (True, 50412336318630961528062587489277459625397460487568813464855857418262684915524, 28601403735892980506961572846612289798943619077326460333726770848311287500780),
     (False, 7064733878209738288625559473229469142567402967499406848270936940109640196694, 37146797833082854299574767121081025089704017249260216950758138229492853486522),
     (True, 18651205655664760336629048469460291165193368323808701713661151919681698981587, 88047208804989598723428555417616826391591807326275169976495694508533076217037),
     (False, 66950264300534865683952647676769506894884550962508230797889935807639170626612, 59141067356222604449739804368949915346547822547380263410710378489888149563125),
     (False, 30206431813012575367407006332517614195586080853054861274464293976045719784282, 68066115126284794369593958086278100217321529398939389842849887310801955154591)]
    650896160060 68066115126284794369593958086278100217321529398939389842849887310801955154591"
  by ((rule chain_double chain_mult, simp only: chain_eval)+, rule chain_nil, simp only: chain_eval)

lemma oc_order_pow1_5: "chain 115792089237316195423570985008687907853269984665640564039457584007913129639936 432420386565659656852420866394968145599 58138579787377535003503259606714116115479494849592057519620557805018937774448 650896160060 68066115126284794369593958086278100217321529398939389842849887310801955154591
    [(False, 40011334616213012476465651746539325904339763061173278696406518585587396815088, 51383152778867489361213918380297352948868924495178923455310914367282160220625),
     (False, 22801457395636783742632663278046176632289660055843441701910342945968737546939, 113267174197320055749847717951202512340461967600738443718470756046876755206182),
     (False, 110797316424199313120761582606359890010729411969967582538099306550557960154868, 30616630955504551577174191801100817004258890329348855075675048946334506034608),
     (True, 15372444295215748928105643241450129621571703890419999203798921395585070909233, 104236580159098577672322400164427935306070797623178205684307409493622615582863),
     (False, 93834256854937597912711691519184790064168621211236735192283538189281251062813, 10054402082278578755208755932530171960292393498091565584195218624779688486788),
     (True, 5048260736334879898339470381377370704535388918753556179361751428891131114410, 27410719064979124836075356163549534910436685769845142678099809655611857896854),
     (False, 6488763823229075037990058027462082271201896840721467200171601869690756534509, 5814844210178974463911819193247280511635034370194377428689849916369154521783),
     (True, 2919601730061125651848734178336801086692311075609295300569090324984988544622, 94135020294329288798863874922563000186209535564252929560235068676823431995170),
     (False, 76528561702106609006608747993227625800371495339211621073846314753168524529842, 24765628861550700960684640629162890605652778959892909598355910811275832824146),
     (False, 5296876297404380864079825370135059033376010122263015102586294271292768414644, 94663762988538349009238944854527540790298798544660568468693432330748686758288),
     (False, 77390675668560589344344630504201588194294769497388056744126589240006097195070, 86257305987976370655635745362784575851900434369208269651725783657058747372354),
     (False, 64255882118634397994063071766012000706732409588031406421545084578661161234126, 28104156053357003630239486806223775810252376572844646424657013290076243356854)]
    333258833950832 28104156053357003630239486806223775810252376572844646424657013290076243356854"
  by ((rule chain_double chain_mult, simp only: chain_eval)+, rule chain_nil, simp only: chain_eval)

lemma oc_order_pow1_6: "chain 115792089237316195423570985008687907853269984665640564039457584007913129639936 432420386565659656852420866394968145599 58138579787377535003503259606714116115479494849592057519620557805018937774448 333258833950832 28104156053357003630239486806223775810252376572844646424657013290076243356854
    [(True, 14110944278034830838130510292684308536390840202522046164745810205821951762379, 59807728260109353891347240444491954826765322432749524791702903894026048718869),
     (False, 30891267125374040511772362198187949280883464120311156778903555639506364051419, 29022271577550669542821470004779960154226189103947407138692470542909651324958),
     (False, 7274177822241597380303801041577775542471562616632264763782597690280419006602, 96316227958281667120205147559212211940693844710079354698081637556455525088890),
     (False, 80116144627970399979272192814190854241451008764352618287060215339662019705112, 68749297946407382528440535792509783971184793905446521521073980571868403481356),
     (False, 40818556770635597990458469436494283315674288970985129705741377783504239390946, 71574772543414911921256399113531569569000443688897114757716202410062531525934),
     (True, 35937304972105842830296691133045608818675524085871777400277828185991880318846, 103813113267091584577469915250222911531294166622998753816364310636323971159330),
     (False, 93073391776515609299937879987650044910326803624883549091908840781648563158325, 46894724623423620006808443148784911143806816168113566488032668526017924143375),
     (False, 18991929517737961548954711164761225406225313215398688769584547957498459043401, 19264967475622184224351986935962852387010094038723915819621920571273857670488),
     (False, 3205218718146887233596338319537622131388927286380615420489307705985669243742, 20126570070101555851498304928671902578408005425967511386104512514738580469090),
     (True, 10105441637456415613082146013162100613632787394344259107876660073411690477340, 34537109533420234624685226432488863779334786258364761793023875573517218988740),
     (False, 10301324924527405475023028846988676988297332217476344895331814077553573337717, 28499699318691480135686194188354325627269066153032699749925319410666762778971),
     (True, 14309544405577890177034908907772811904718825874617793303033394544351837288265, 111744649985373122775565076499419346381508677939525101534086284709604241477703)]
    85314261491413267 111744649985373122775565076499419346381508677939525101534086284709604241477703"
  by ((rule chain_double chain_mult, simp only: chain_eval)+, rule chain_nil, simp only: chain_eval)

lemma oc_order_pow1_7: "chain 115792089237316195423570985008687907853269984665640564039457584007913129639936 432420386565659656852420866394968145599 58138579787377535003503259606714116115479494849592057519620557805018937774448 85314261491413267 111744649985373122775565076499419346381508677939525101534086284709604241477703
    [(False, 107838686412866104083864659329558744062588870484029777336369303882918079393365, 17470576398133404990033728205521835967485410631397079432347984145690203282204),
     (False, 2635940345263696248221764421080527362742928418826087923354692899462303767320, 59501909915360937229702340044176865208049629542342529765670905930018517430776),
     (True, 29875586146697827339629592665939780866084987894383574089822399388137518181383, 88998219895202337920075561132733212237149383522904208050595466124470448283577),
     (False, 68404354707525209523067537861801840887746458107770871743712185146955482934187, 115542871690794711082711342729143071658760596919842511408849494055708063715910),
     (False, 115294190531395207889118351078241735698587689831677242023849497754632512308476, 32343750145984631126465050892645349294815910757110521637056230727807516027688),
     (False, 9034452874944322520076401283130689183347068602890844270170215083766815623081, 60210578806050716826348882755227302201396409130708830639298001796398074633047),
     (True, 30231404951899264846700071708522547154583425168076140862784028064366095063081, 38908669387179042101929495903266847393718378216795498831339802112665213710759),
     (False, 13074162176814109550415065278144149433752523528308759472290358384898092300415, 100793508380370153274828119295392571100257042971819772961909603639168187106226),
     (True, 50607873712441515157294824951061455815836668188532042658007247548542207238547, 37244955190842571821720345673992986872192740862683654011606654915918055904909),
     (False, 11979978047764802170862722804509027713680626399820056217190378194637065007686, 46845579186070531376927368952089362522525565814353871680690854531892699824099),
     (True, 23520911153208236925355823219096784499101194938033051046049863636343046087401, 45855951234819918401261559766833092324210310387956970925184925354392868274215),
     (False, 18159861157186249916962487040846826834577219128255203776412367427001035501901, 83558673810970664503189266748226654458203157003425299805820425952261469631588)]
    21840450941801796430 83558673810970664503189266748226654458203157003425299805820425952261469631588"
  by ((rule chain_double chain_mult, simp only: chain_eval)+, rule chain_nil, simp only: chain_eval)

lemma oc_order_pow1_8: "chain 115792089237316195423570985008687907853269984665640564039457584007913129639936 432420386565659656852420866394968145599 58138579787377535003503259606714116115479494849592057519620557805018937774448 21840450941801796430 83558673810970664503189266748226654458203157003425299805820425952261469631588
    [(True, 41954356781058879813637706992968602297756058638714841751676520094154555769035, 3210931646576720851596952205524353080057051297180668057597576889435367608629),
     (False, 89039606305551246877392728050060502682471051152072743801061451757698096869, 20456351013943638096397838585604603770498070494582404688817918359392094328788),
     (False, 3613910929165750849515451430665834309764367153762261665638668846334766608716, 9093138517320598478062535182371481957302859508299510539909772167299916707652),
     (False, 714083048676287200410605722405148997664460385989615853230983077842957201793, 98357008059730398724063728852996988259334920873702620891792065191618299606863),
     (True, 49384520120442983229263462206238272074470125590890661178375324784405270032079, 1)]
    174723607534414371449 1"
  by ((rule chain_double chain_mult, simp only: chain_eval)+, rule chain_nil, simp only: chain_eval)

lemma oc_order_pow1: "58138579787377535003503259606714116115479494849592057519620557805018937774448 ^ 174723607534414371449 mod 115792089237316195423570985008687907852837564279074904382605163141518161494337 = (1::nat) mod 115792089237316195423570985008687907852837564279074904382605163141518161494337"
proof -
  have N: "115792089237316195423570985008687907852837564279074904382605163141518161494337 + 432420386565659656852420866394968145599 = (115792089237316195423570985008687907853269984665640564039457584007913129639936::nat)" by (simp only: arith_simps)
  have c0: "58138579787377535003503259606714116115479494849592057519620557805018937774448 ^ 1 mod 115792089237316195423570985008687907852837564279074904382605163141518161494337 = (58138579787377535003503259606714116115479494849592057519620557805018937774448::nat) mod 115792089237316195423570985008687907852837564279074904382605163141518161494337" by (simp only: power_one_right)
  note c1 = chain_power [OF oc_order_pow1_0 N c0]
  note c2 = chain_power [OF oc_order_pow1_1 N c1]
  note c3 = chain_power [OF oc_order_pow1_2 N c2]
  note c4 = chain_power [OF oc_order_pow1_3 N c3]
  note c5 = chain_power [OF oc_order_pow1_4 N c4]
  note c6 = chain_power [OF oc_order_pow1_5 N c5]
  note c7 = chain_power [OF oc_order_pow1_6 N c6]
  note c8 = chain_power [OF oc_order_pow1_7 N c7]
  note c9 = chain_power [OF oc_order_pow1_8 N c8]
  show ?thesis by (rule c9)
qed

lemma oc_order_cert1: "pock_cert 115792089237316195423570985008687907852837564279074904382605163141518161494337 174723607534414371449"
  by (rule pock_orderI [OF oc_b68 oc_order_pow1, of 58138579787377535003503259606714116115479494849592057519620557805018937774447 82825258999207434266669200773575514537865192807825383256844795767869923999078 41586113183143042338973722588230040174089929639821822444504645032576233713145])
     (simp_all only: pock_eval)

lemma oc_order: "is_prime 115792089237316195423570985008687907852837564279074904382605163141518161494337"
  by (rule pocklington [of _ "[341948486974166000522343609283189, 174723607534414371449]"])
     (simp_all only: pock_eval list.set ball_simps oc_order_cert0 oc_order_cert1 distinct.simps prod_list.Cons prod_list.Nil insert_iff empty_iff)

end
