(* ===== verification/Curve_Order.thy ===== *)
theory Curve_Order
  imports Curve_Order_Certificate Group_Order_Certificate Scalar_Impl
begin

text \<open>
  The group of the curve is cyclic of the prime order \<open>group_order\<close>, generated by \<open>gen\<close>, and the
  endomorphism multiplies every point by \<open>sc_lambda\<close>.  The order annihilates the generator by the
  certificate; there are no other points because the curve has at most two points for each x, which
  leaves no room for a third coset, and no point of order 2.
\<close>

section \<open>The generator\<close>

definition ord :: int where
  "ord = int group_order"

lemma ord_num: "ord = 115792089237316195423570985008687907852837564279074904382605163141518161494337"
  by (simp add: ord_def group_order_def)

lemma ord_pos [simp]: "0 < ord"
  by (simp add: ord_num)

lemma ord_mod_nat: "int (k mod group_order) = int k mod ord"
  by (simp add: ord_def zmod_int)

lemma gen_combination: "zmul 367917413016453100223835821029139468248 gen + zmul 64502973549206556628585045361533709077 (endo gen) = 0"
proof -
  have "cpt_at (dig_x DE) (dig_y DS) (- endo gen)"
  proof -
    have y: "dig_y DE = dig_y DG" by (simp only: dig_y.simps)
    show ?thesis using gen_digits(2) by (simp only: cpt_at_def cpt_pt_neg pt_neg.simps dig_y_DS y)
  qed
  then have "- endo gen = comb 367917413016453100223835821029139468248 64502973549206556628585045361533709076"
    using order_chain_end by (simp only: cpt_at_def cpt_eq_iff dig_x.simps dig_y.simps)
  moreover have "comb 0 1 = endo gen" by (simp add: comb_def)
  ultimately have "comb 367917413016453100223835821029139468248 64502973549206556628585045361533709076 + comb 0 1 = 0"
    by (metis left_minus)
  then have "comb 367917413016453100223835821029139468248 64502973549206556628585045361533709077 = 0" by (simp only: comb_add) simp
  then show ?thesis unfolding comb_def by (simp only: zmul_nat [symmetric] of_nat_numeral)
qed

lemma endo_endo: "endo (endo P) = - P - endo P"
  using endo_quadratic [of P] by (metis add.inverse_inverse minus_add_distrib diff_conv_add_uminus)

lemma norm_annihilates:
  assumes "zmul a P + zmul b (endo P) = 0"
  shows "zmul (a * a - a * b + b * b) P = 0"
proof -
  have "endo (zmul a P + zmul b (endo P)) = 0" by (simp add: assms)
  then have "zmul a (endo P) + (- zmul b P - zmul b (endo P)) = 0"
    by (simp add: endo_add endo_zmul endo_endo zmul_sub zmul_neg)
  moreover have "X + (- Y - Z) = X - Y - Z" for X Y Z :: cpt by simp
  ultimately have "zmul a (endo P) - zmul b P = zmul b (endo P)" by (simp only: right_minus_eq)
  then have e: "zmul (a - b) (endo P) = zmul b P" unfolding zmul_diff by (metis add.commute diff_eq_eq)
  have "zmul (a - b) (zmul a P + zmul b (endo P)) = 0" by (simp add: assms)
  then have "zmul ((a - b) * a) P + zmul (b * b) P = 0"
    unfolding zmul_plus zmul_mult [symmetric] mult.commute [of "a - b" b] unfolding zmul_mult [of b] e .
  then show ?thesis by (simp only: zmul_add [symmetric]) (simp add: algebra_simps)
qed

lemma ord_gen: "zmul ord gen = 0"
proof -
  have "ord = 367917413016453100223835821029139468248 * 367917413016453100223835821029139468248 - 367917413016453100223835821029139468248 * 64502973549206556628585045361533709077 + 64502973549206556628585045361533709077 * 64502973549206556628585045361533709077" by (simp add: ord_num)
  then show ?thesis using norm_annihilates [OF gen_combination] by (simp only:)
qed

lemma zmul_cong:
  assumes "zmul ord P = 0" "j mod ord = k mod ord"
  shows "zmul j P = zmul k P"
proof -
  have r: "zmul i P = zmul (i mod ord) P" for i
  proof -
    have "zmul i P = zmul (i div ord * ord + i mod ord) P" by simp
    also have "\<dots> = zmul (i mod ord) P" by (simp only: zmul_add zmul_mult assms(1) zmul_simps) simp
    finally show ?thesis .
  qed
  show ?thesis using r [of j] r [of k] assms(2) by simp
qed

lemma endo_gen: "endo gen = zmul (int sc_lambda) gen"
proof -
  let ?s = "20543901438988804590581298026347034537930670627851754583310653481142845043784 :: int" and ?t = "-11444155985481165475167637510043857191 :: int"
  have o: "zmul ord (endo gen) = 0" unfolding endo_zmul [symmetric] ord_gen by simp
  have B: "zmul 64502973549206556628585045361533709077 (endo gen) = - zmul 367917413016453100223835821029139468248 gen"
    using gen_combination by (simp add: eq_neg_iff_add_eq_0 add.commute)
  have "endo gen = zmul (?s * 64502973549206556628585045361533709077 + ?t * ord) (endo gen)" by (simp add: ord_num)
  also have "\<dots> = zmul ?s (zmul 64502973549206556628585045361533709077 (endo gen)) + zmul ?t (zmul ord (endo gen))"
    by (simp only: zmul_add zmul_mult)
  also have "\<dots> = zmul (?s * - 367917413016453100223835821029139468248) gen"
    unfolding o B by (simp only: zmul_mult zmul_minus zmul_simps add_0_right zmul_neg)
  also have "\<dots> = zmul (int sc_lambda) gen"
    by (rule zmul_cong [OF ord_gen]) (simp add: ord_num sc_lambda_def)
  finally show ?thesis .
qed

lemma gen_ne_0: "gen \<noteq> 0"
  unfolding cpt_eq_iff by (simp add: gen_pt_def)

section \<open>The order is prime\<close>

lemma group_order_prime: "is_prime group_order"
  unfolding group_order_def using oc_order by simp

lemma ord_bezout:
  assumes "k mod ord \<noteq> 0"
  obtains s t where "s * k + t * ord = 1"
proof -
  define a where "a = nat (k mod ord)"
  have a: "int a = k mod ord" by (simp add: a_def)
  then have "a \<noteq> 0" using assms by (cases a) simp_all
  moreover have "a < group_order" 
  proof -
    have "int a < ord" unfolding a by simp
    then show ?thesis by (simp add: ord_def)
  qed
  ultimately have "coprime group_order a"
    by (intro is_prime_coprime [OF group_order_prime]) (auto dest: dvd_imp_le)
  then have "coprime (int group_order) (int a)" by (simp only: coprime_int_iff)
  then have "coprime ord (k mod ord)" unfolding ord_def [symmetric] a .
  then have "gcd k ord = 1" by (simp add: coprime_iff_gcd_eq_1 gcd.commute gcd_red_int [symmetric])
  then show ?thesis using bezout_int [of k ord] that by metis
qed

lemma zmul_eq_0D:
  assumes o: "zmul ord P = 0" and k: "zmul k P = 0" and P: "P \<noteq> 0"
  shows "k mod ord = 0"
proof (rule ccontr)
  assume "k mod ord \<noteq> 0"
  then obtain s t where "s * k + t * ord = 1" by (rule ord_bezout)
  then have "P = zmul (s * k + t * ord) P" by simp
  also have "\<dots> = 0" by (simp only: zmul_add zmul_mult o k zmul_simps) simp
  finally show False using P by simp
qed

lemma zmul_gen_eq_iff: "zmul j gen = zmul k gen \<longleftrightarrow> j mod ord = k mod ord"
proof
  assume "zmul j gen = zmul k gen"
  then have "zmul (j - k) gen = 0" by (simp add: zmul_diff)
  then have "(j - k) mod ord = 0" using zmul_eq_0D [OF ord_gen _ gen_ne_0] by blast
  then show "j mod ord = k mod ord" by (simp add: mod_eq_dvd_iff dvd_eq_mod_eq_0)
qed (rule zmul_cong [OF ord_gen])

section \<open>Every point is a multiple of the generator\<close>

definition multiples :: "cpt set" where
  "multiples = range (\<lambda>k. zmul k gen)"

lemma multiples_image: "multiples = (\<lambda>k. zmul k gen) ` {0..<ord}"
proof
  show "multiples \<subseteq> (\<lambda>k. zmul k gen) ` {0..<ord}"
  proof
    fix P assume "P \<in> multiples"
    then obtain k where "P = zmul k gen" by (auto simp: multiples_def)
    then have "P = zmul (k mod ord) gen" by (simp add: zmul_gen_eq_iff)
    then show "P \<in> (\<lambda>k. zmul k gen) ` {0..<ord}" by simp
  qed
qed (auto simp: multiples_def)

lemma finite_multiples: "finite multiples" and card_multiples: "card multiples = group_order"
proof -
  show "finite multiples" unfolding multiples_image by simp
  have "inj_on (\<lambda>k. zmul k gen) {0..<ord}"
    by (rule inj_onI) (simp add: zmul_gen_eq_iff)
  then show "card multiples = group_order" unfolding multiples_image by (simp add: card_image ord_def)
qed

lemma double_eq_0: "Q + Q = 0 \<Longrightarrow> Q = (0 :: cpt)"
proof (rule ccontr)
  assume q: "Q + Q = 0" "Q \<noteq> 0"
  obtain x y where xy: "cpt_pt Q = Pt x y" using q(2) by (cases "cpt_pt Q") simp_all
  have "Q = - Q" using q(1) by (simp add: eq_neg_iff_add_eq_0)
  then have "Pt x y = Pt x (- y)" using xy by (metis cpt_pt_neg pt_neg.simps(2))
  then have "y + y = 0" by (simp add: eq_neg_iff_add_eq_0)
  then have "y = 0" by (metis mult_2 mult_eq_0_iff two_fp_ne_0)
  then show False using on_curve_y_ne_0 cpt_on_curve [of Q] unfolding xy by blast
qed

lemma multiples_halve:
  assumes "P + P \<in> multiples"
  shows "P \<in> multiples"
proof -
  obtain k where k: "P + P = zmul k gen" using assms by (auto simp: multiples_def)
  define m where "m = (ord + 1) div 2"
  have "2 * m = ord + 1" by (simp add: m_def ord_num)
  then have "m * k + m * k = k + k * ord" by (metis distrib_right mult_2 mult.commute mult_1 add.commute)
  then have "(m * k + m * k) mod ord = k mod ord" by simp
  then have "zmul (m * k + m * k) gen = zmul k gen" by (simp only: zmul_gen_eq_iff)
  then have "P + P = zmul (m * k) gen + zmul (m * k) gen" by (simp only: zmul_add k)
  then have "(P - zmul (m * k) gen) + (P - zmul (m * k) gen) = 0" by (simp add: algebra_simps)
  then have "P = zmul (m * k) gen" by (metis double_eq_0 eq_iff_diff_eq_0)
  then show ?thesis by (auto simp: multiples_def)
qed

definition pt_code :: "cpt \<Rightarrow> (int \<times> bool) option" where
  "pt_code P = (case cpt_pt P of Infty \<Rightarrow> None | Pt x y \<Rightarrow> Some (rep_fp x, odd (rep_fp y)))"

lemma inj_pt_code: "inj pt_code"
proof (rule injI)
  fix P Q assume e: "pt_code P = pt_code Q"
  show "P = Q"
  proof (cases "cpt_pt P"; cases "cpt_pt Q")
    fix x y x' y' assume pq: "cpt_pt P = Pt x y" "cpt_pt Q = Pt x' y'"
    then have x: "x' = x" and o: "odd (rep_fp y) = odd (rep_fp y')" using e by (auto simp: pt_code_def fp_eq_iff)
    have c: "on_curve (Pt x y)" "on_curve (Pt x y')" using cpt_on_curve [of P] cpt_on_curve [of Q] unfolding pq x .
    have "y \<noteq> - y'" using o f52.rep_fp_minus_odd [OF on_curve_y_ne_0 [OF c(2)]] by auto
    then have "y = y'" using same_x_on_curve [OF c] by blast
    then show ?thesis by (simp add: cpt_eq_iff pq x)
  qed (use e in \<open>simp_all add: pt_code_def\<close>)
qed

lemma card_cpt: "finite (UNIV :: cpt set)" "card (UNIV :: cpt set) \<le> 2 * nat field_prime + 1"
proof -
  let ?C = "insert None (Some ` ({0..<field_prime} \<times> (UNIV :: bool set)))"
  have s: "range pt_code \<subseteq> ?C" by (auto simp: pt_code_def split: point.splits)
  have f: "finite ?C" by simp
  show "finite (UNIV :: cpt set)" using finite_subset [OF s f] inj_pt_code by (rule finite_imageD)
  have "card (UNIV :: cpt set) = card (range pt_code)" using inj_pt_code by (simp add: card_image)
  also have "\<dots> \<le> card ?C" by (rule card_mono [OF f s])
  also have "\<dots> = 2 * nat field_prime + 1" by (simp add: card_image inj_on_def card_cartesian_product card_UNIV_bool)
  finally show "card (UNIV :: cpt set) \<le> 2 * nat field_prime + 1" .
qed

lemma multiples_diff: "P \<in> multiples \<Longrightarrow> Q \<in> multiples \<Longrightarrow> P - Q \<in> multiples"
  by (auto simp: multiples_def zmul_diff [symmetric])

theorem all_multiples: "\<exists>k. (P :: cpt) = zmul k gen"
proof (rule ccontr)
  assume "\<not> ?thesis"
  then have P: "P \<notin> multiples" by (auto simp: multiples_def)
  let ?A = "(+) P ` multiples" and ?B = "(+) (- P) ` multiples"
  have card: "card ?A = group_order" "card ?B = group_order" using card_multiples by (simp_all add: card_image)
  have fin: "finite ?A" "finite ?B" using finite_multiples by simp_all
  have d1: "multiples \<inter> ?A = {}"
  proof (rule equals0I)
    fix Q assume "Q \<in> multiples \<inter> ?A"
    then obtain R where R: "R \<in> multiples" "P + R \<in> multiples" by auto
    show False using multiples_diff [OF R(2,1)] P by simp
  qed
  have d2: "(multiples \<union> ?A) \<inter> ?B = {}"
  proof (rule equals0I)
    fix Q assume "Q \<in> (multiples \<union> ?A) \<inter> ?B"
    then obtain R where R: "R \<in> multiples" "- P + R \<in> multiples \<union> ?A" by auto
    show False
    proof (cases "- P + R \<in> multiples")
      case True
      from multiples_diff [OF R(1) True] P show False by simp
    next
      case False
      then obtain S where S: "S \<in> multiples" "- P + R = P + S" using R(2) by auto
      then have "P + P = R - S" by (metis add.assoc add_diff_cancel_right' add.right_inverse add.commute add.left_neutral)
      then have "P + P \<in> multiples" using multiples_diff [OF R(1) S(1)] by simp
      with P show False using multiples_halve by blast
    qed
  qed
  have "3 * group_order = card ((multiples \<union> ?A) \<union> ?B)"
    using card_Un_disjoint [OF _ fin(2) d2] card_Un_disjoint [OF finite_multiples fin(1) d1]
      finite_multiples fin card card_multiples by simp
  also have "\<dots> \<le> card (UNIV :: cpt set)" by (rule card_mono [OF card_cpt(1)]) simp
  also have "\<dots> \<le> 2 * nat field_prime + 1" by (rule card_cpt(2))
  finally show False by (simp add: group_order_def field_prime_def)
qed

lemma ord_zmul: "zmul ord (P :: cpt) = 0"
proof -
  obtain k where "P = zmul k gen" using all_multiples by blast
  then have "zmul ord P = zmul k (zmul ord gen)" by (simp add: mult.commute flip: zmul_mult)
  then show ?thesis by (simp add: ord_gen)
qed

lemma zmul_mod: "j mod ord = k mod ord \<Longrightarrow> zmul j (P :: cpt) = zmul k P"
  by (rule zmul_cong [OF ord_zmul])

lemma zmul_eq_iff: "(P :: cpt) \<noteq> 0 \<Longrightarrow> zmul j P = zmul k P \<longleftrightarrow> j mod ord = k mod ord"
proof
  assume P: "P \<noteq> 0" and "zmul j P = zmul k P"
  then have "zmul (j - k) P = 0" by (simp add: zmul_diff)
  then have "(j - k) mod ord = 0" using zmul_eq_0D [OF ord_zmul _ P] by blast
  then show "j mod ord = k mod ord" by (simp add: mod_eq_dvd_iff dvd_eq_mod_eq_0)
qed (rule zmul_mod)

lemma zmul_nat_mod: "zmul (int (k mod group_order)) (P :: cpt) = zmul (int k) P"
  by (rule zmul_mod) (simp only: ord_mod_nat mod_mod_trivial)

text \<open>The endomorphism is multiplication by \<open>sc_lambda\<close>.\<close>

theorem endo_lambda: "endo P = zmul (int sc_lambda) P"
proof -
  obtain k where "P = zmul k gen" using all_multiples by blast
  then show ?thesis by (simp only: endo_zmul endo_gen zmul_mult [symmetric] mult.commute)
qed

end
