(* ===== verification/Ecmult_Tables.thy ===== *)
theory Ecmult_Tables
  imports Ecmult Group_Scaled Curve_Order
begin

text \<open>
  The tables of odd multiples of ecmult_impl.h: entry \<open>j\<close> stands for the multiple \<open>2 j + 1\<close> of the
  point the table is computed from, on the scale the function leaves it.
\<close>

section \<open>Loops over an array\<close>

lemma foldl_upto:
  assumes "a \<le> b" "I a s" "\<And>i s. a \<le> i \<Longrightarrow> i < b \<Longrightarrow> I i s \<Longrightarrow> I (Suc i) (f s i)"
  shows "I b (foldl f s [a..<b])"
  using assms
proof (induction b)
  case (Suc b)
  show ?case
  proof (cases "a \<le> b")
    case True
    have "I b (foldl f s [a..<b])" by (rule Suc.IH) (use True Suc.prems in simp_all)
    then show ?thesis using True Suc.prems(3) by simp
  next
    case False
    then show ?thesis using Suc.prems by (simp add: le_Suc_eq)
  qed
qed simp

lemma foldl_downto:
  assumes "a \<le> b" "I b s" "\<And>i s. a \<le> i \<Longrightarrow> i < b \<Longrightarrow> I (Suc i) s \<Longrightarrow> I i (f s i)"
  shows "I a (foldl f s (rev [a..<b]))"
  using assms
proof (induction b arbitrary: s)
  case (Suc b)
  show ?case
  proof (cases "a \<le> b")
    case True
    have "I a (foldl f (f s b) (rev [a..<b]))" by (rule Suc.IH) (use True Suc.prems in simp_all)
    then show ?thesis using True by simp
  next
    case False
    then show ?thesis using Suc.prems by (simp add: le_Suc_eq)
  qed
qed simp

lemma small_multiple:
  assumes "(A :: cpt) \<noteq> 0" "k \<noteq> 0" "\<bar>k\<bar> < ord"
  shows "zmul k A \<noteq> 0"
proof
  assume "zmul k A = 0"
  then have "k mod ord = 0" using zmul_eq_0D [OF ord_zmul _ assms(1)] by blast
  then have "ord dvd k" by (simp add: dvd_eq_mod_eq_0)
  then show False using assms(2,3) zdvd_imp_le [of ord "\<bar>k\<bar>"] by simp
qed

text \<open>Adding twice a point to an odd multiple of it is never a degenerate case.\<close>

definition odd_pt :: "cpt \<Rightarrow> nat \<Rightarrow> point" where
  "odd_pt A j = cpt_pt (zmul (2 * int j + 1) A)"

lemma on_curve_odd [simp]: "on_curve (odd_pt A j)"
  by (simp add: odd_pt_def)

lemma odd_pt_Suc: "pt_add (odd_pt A j) (cpt_pt (A + A)) = odd_pt A (Suc j)"
proof -
  have "zmul (2 * int (Suc j) + 1) A = zmul (2 * int j + 1) A + (A + A)"
    by (simp only: zmul_2 [symmetric] zmul_add [symmetric]) simp
  then show ?thesis by (simp only: odd_pt_def cpt_pt_add)
qed

lemma odd_pt_regular:
  assumes "A \<noteq> 0" "j < 2 ^ 30"
  shows "odd_pt A j \<noteq> Infty" "odd_pt A j \<noteq> cpt_pt (A + A)" "odd_pt A j \<noteq> pt_neg (cpt_pt (A + A))"
proof -
  have z: "zmul k A \<noteq> 0" if "odd k" "\<bar>k\<bar> < 2 ^ 40" for k
    by (rule small_multiple [OF assms(1)]) (use that in \<open>auto simp: ord_num\<close>)
  have "zmul (2 * int j + 1) A \<noteq> 0" "zmul (2 * int j + 1 - 2) A \<noteq> 0" "zmul (2 * int j + 1 + 2) A \<noteq> 0"
    by (rule z; use assms(2) in simp)+
  then have "zmul (2 * int j + 1) A \<noteq> 0" "zmul (2 * int j + 1) A \<noteq> A + A" "zmul (2 * int j + 1) A \<noteq> - (A + A)"
    unfolding zmul_diff [of _ 2] zmul_add [of _ 2] zmul_2 by (auto simp: eq_neg_iff_add_eq_0)
  then show "odd_pt A j \<noteq> Infty" "odd_pt A j \<noteq> cpt_pt (A + A)" "odd_pt A j \<noteq> pt_neg (cpt_pt (A + A))"
    unfolding odd_pt_def cpt_pt_neg [symmetric] cpt_pt_inject by simp_all
qed

context field_impl
begin

section \<open>The common part\<close>

text \<open>
  The table after the loop: all entries at the scale \<open>C\<close>, with the ratios of their z coordinates
  in \<open>zr\<close>.
\<close>

definition table_inv :: "cpt \<Rightarrow> nat \<Rightarrow> fp \<Rightarrow> nat \<Rightarrow> 'fe gej list \<times> 'fe list \<Rightarrow> bool" where
  "table_inv A n C m st \<longleftrightarrow> (let (prej, zr) = st in length prej = n \<and> length zr = n \<and>
     (\<forall>j < m. \<not> gej_infinity (prej ! j) \<and> gej_at mag fval C (prej ! j) (odd_pt A j)) \<and>
     (\<forall>j. 0 < j \<and> j < m \<longrightarrow> mag 8 (zr ! j) \<and> fval (zr ! j) \<noteq> 0 \<and>
        fval (gej_z (prej ! j)) = fval (gej_z (prej ! (j - 1))) * fval (zr ! j)))"

lemma table_step:
  assumes I: "table_inv A n C i (prej, zr)" and i: "0 < i" "i < n" "n \<le> 2 ^ 30" and A: "A \<noteq> 0" and C: "C \<noteq> 0"
    and d: "ge_at mag fval C d (cpt_pt (A + A))"
    and r: "gej_add_ge_var F (prej ! i) (prej ! (i - 1)) d True = (r, rz)"
  shows "table_inv A n C (Suc i) (prej[i := r], case rz of None \<Rightarrow> zr | Some z \<Rightarrow> zr[i := z])"
proof -
  note I' = I [unfolded table_inv_def Let_def prod.case]
  have l: "length prej = n" "length zr = n" and p: "\<And>j. j < i \<Longrightarrow> \<not> gej_infinity (prej ! j) \<and> gej_at mag fval C (prej ! j) (odd_pt A j)"
    and q: "\<And>j. 0 < j \<Longrightarrow> j < i \<Longrightarrow> mag 8 (zr ! j) \<and> fval (zr ! j) \<noteq> 0 \<and>
        fval (gej_z (prej ! j)) = fval (gej_z (prej ! (j - 1))) * fval (zr ! j)"
    using I' by blast+
  have prev: "gej_at mag fval C (prej ! (i - 1)) (odd_pt A (i - 1))" using p [of "i - 1"] i by simp
  have reg: "odd_pt A (i - 1) \<noteq> Infty" "odd_pt A (i - 1) \<noteq> cpt_pt (A + A)" "odd_pt A (i - 1) \<noteq> pt_neg (cpt_pt (A + A))"
    by (rule odd_pt_regular [OF A]; use i in simp)+
  have new: "gej_at mag fval C r (odd_pt A i)"
    using add_ge_at(1) [OF prev d C r] odd_pt_Suc [of A "i - 1"] i by simp
  obtain z where z: "rz = Some z" "mag 8 z" "fval z \<noteq> 0" "\<not> gej_infinity r" "fval (gej_z r) = fval (gej_z (prej ! (i - 1))) * fval z"
    using add_ge_at(2) [OF prev d C r TrueI reg] by blast
  have p': "\<not> gej_infinity (prej[i := r] ! j) \<and> gej_at mag fval C (prej[i := r] ! j) (odd_pt A j)" if "j < Suc i" for j
    using p [of j] new z(4) l(1) i(2) that by (cases "j = i") simp_all
  have q': "mag 8 (zr[i := z] ! j) \<and> fval (zr[i := z] ! j) \<noteq> 0 \<and>
      fval (gej_z (prej[i := r] ! j)) = fval (gej_z (prej[i := r] ! (j - 1))) * fval (zr[i := z] ! j)" if "0 < j" "j < Suc i" for j
  proof (cases "j = i")
    case True
    then show ?thesis using z l i by simp
  next
    case False
    then have "j < i" "j - 1 \<noteq> i" using that by simp_all
    then show ?thesis using q [OF that(1)] False by simp
  qed
  show ?thesis
    unfolding table_inv_def Let_def z(1) prod.case option.case length_list_update using l p' q' by blast
qed

lemma odd_multiples_table_law:
  assumes a: "gej_wf mag fval a" "\<not> gej_infinity a" "gej_pt fval a = cpt_pt A"
    and n: "0 < n" "n \<le> 2 ^ 30" "length prej0 = n" "length zr0 = n"
    and t: "ecmult_odd_multiples_table F n prej0 zr0 a = (prej, zr)"
  obtains C zf where "C \<noteq> 0" "length prej = n"
    and "\<And>j. j < n \<Longrightarrow> zf j \<noteq> 0 \<and> \<not> gej_infinity (prej ! j) \<and> mag 8 (gej_x (prej ! j)) \<and> mag 8 (gej_y (prej ! j))
      \<and> jac (fval (gej_x (prej ! j))) (fval (gej_y (prej ! j))) (zf j * C) = odd_pt A j"
    and "\<And>j. 0 < j \<Longrightarrow> j < n \<Longrightarrow> mag 8 (zr ! j) \<and> zf j = zf (j - 1) * fval (zr ! j)"
    and "mag 8 (gej_z (prej ! (n - 1)))" "fval (gej_z (prej ! (n - 1))) = zf (n - 1) * C"
proof -
  have A: "A \<noteq> 0"
  proof
    assume "A = 0"
    then have "gej_pt fval a = Infty" using a(3) by simp
    then show False using a(2) by (simp add: gej_pt_def jac_def)
  qed
  obtain d dz where dv: "gej_double_var F (gej_clear F) a False = (d, dz)" by (rule prod.exhaust)
  have dd: "gej_wf mag fval d" "gej_pt fval d = cpt_pt (A + A)"
    using double_pt [OF a(1) dv] by (simp_all add: a(3) cpt_pt_add)
  have "zmul 2 A \<noteq> 0" by (rule small_multiple [OF A]) (simp_all add: ord_num)
  then have "cpt_pt (A + A) \<noteq> Infty" by (simp add: zmul_2)
  then have di: "\<not> gej_infinity d" using dd(2) by (auto simp: gej_pt_def simp del: cpt_pt_eq_Infty)
  define C where "C = fval (gej_z d)"
  have d8: "mag 8 (gej_x d)" "mag 8 (gej_y d)" "mag 8 (gej_z d)" and C: "C \<noteq> 0"
    and dj: "jac (fval (gej_x d)) (fval (gej_y d)) C = cpt_pt (A + A)"
    using dd di by (auto simp: gej_wf_def gej_pt_def C_def)
  define dge where "dge = \<lparr> ge_x = gej_x d, ge_y = gej_y d, ge_infinity = False \<rparr>"
  have dat: "ge_at mag fval C dge (cpt_pt (A + A))" using d8 dj by (simp add: ge_at_def dge_def)
  define age where "age = ge_set_gej_zinv F a (gej_z d)"
  define p0 where "p0 = \<lparr> gej_x = ge_x age, gej_y = ge_y age, gej_z = gej_z a, gej_infinity = False \<rparr>"
  have a8: "mag 8 (gej_x a)" "mag 8 (gej_y a)" "mag 8 (gej_z a)" "fval (gej_z a) \<noteq> 0"
    and aj: "jac (fval (gej_x a)) (fval (gej_y a)) (fval (gej_z a)) = cpt_pt A"
    using a by (auto simp: gej_wf_def gej_pt_def)
  have ag: "ge_at mag fval (fval (gej_z a) * C) age (cpt_pt A)"
    unfolding age_def by (rule set_zinv_at [OF a8(1,2) a(2) d8(3) _ aj]) (use a8 C in \<open>simp_all add: C_def\<close>)
  then have "mag 8 (ge_x age)" "mag 8 (ge_y age)" "jac (fval (ge_x age)) (fval (ge_y age)) (fval (gej_z a) * C) = cpt_pt A"
    by (simp_all add: ge_at_def)
  then have p0: "gej_at mag fval C p0 (odd_pt A 0)" "\<not> gej_infinity p0"
    using a8 by (simp_all add: gej_at_def p0_def odd_pt_def)
  let ?f = "\<lambda>(prej, zr) i. let (r, rz) = gej_add_ge_var F (prej ! i) (prej ! (i - 1)) dge True
      in (prej[i := r], case rz of None \<Rightarrow> zr | Some z \<Rightarrow> zr[i := z])"
  obtain pj zr1 where st: "foldl ?f (prej0[0 := p0], zr0[0 := gej_z d]) [1..<n] = (pj, zr1)" by (rule prod.exhaust)
  have "table_inv A n C n (foldl ?f (prej0[0 := p0], zr0[0 := gej_z d]) [1..<n])"
  proof (rule foldl_upto [where I = "table_inv A n C"])
    show "table_inv A n C 1 (prej0[0 := p0], zr0[0 := gej_z d])" using n p0 by (simp add: table_inv_def)
    fix i s assume i: "1 \<le> i" "i < n" and I: "table_inv A n C i s"
    obtain pj zr where s: "s = (pj, zr)" by (rule prod.exhaust)
    obtain r rz where r: "gej_add_ge_var F (pj ! i) (pj ! (i - 1)) dge True = (r, rz)" by (rule prod.exhaust)
    show "table_inv A n C (Suc i) (?f s i)"
      using table_step [OF I [unfolded s] _ i(2) n(2) A C dat r] i(1) unfolding s prod.case r Let_def by simp
  qed (use n in simp)
  then have I: "length pj = n" "length zr1 = n" "\<And>j. j < n \<Longrightarrow> \<not> gej_infinity (pj ! j) \<and> gej_at mag fval C (pj ! j) (odd_pt A j)"
    "\<And>j. 0 < j \<Longrightarrow> j < n \<Longrightarrow> mag 8 (zr1 ! j) \<and> fval (zr1 ! j) \<noteq> 0 \<and> fval (gej_z (pj ! j)) = fval (gej_z (pj ! (j - 1))) * fval (zr1 ! j)"
    unfolding st by (simp_all add: table_inv_def)
  have e: "prej = pj[n - 1 := (pj ! (n - 1)) \<lparr> gej_z := fe_mul F (gej_z (pj ! (n - 1))) (gej_z d) \<rparr>]" "zr = zr1"
    using t st unfolding ecmult_odd_multiples_table_def Let_def dv fst_conv dge_def [symmetric] age_def [symmetric]
      p0_def [symmetric] by auto
  define zf where "zf j = fval (gej_z (pj ! j))" for j
  have pj: "zf j \<noteq> 0 \<and> \<not> gej_infinity (pj ! j) \<and> mag 8 (gej_x (pj ! j)) \<and> mag 8 (gej_y (pj ! j)) \<and> mag 8 (gej_z (pj ! j))
      \<and> jac (fval (gej_x (pj ! j))) (fval (gej_y (pj ! j))) (zf j * C) = odd_pt A j" if "j < n" for j
    using I(3) [OF that] by (auto simp: gej_at_def zf_def)
  have m: "rep 1 (zf (n - 1) * C) (fe_mul F (gej_z (pj ! (n - 1))) (gej_z d))"
    unfolding zf_def C_def using pj [of "n - 1"] d8(3) n(1) by (intro rep_mul [of 8 _ _ 8]) (simp_all add: rep_def)
  show ?thesis
  proof (rule that [of C zf])
    show "\<And>j. j < n \<Longrightarrow> zf j \<noteq> 0 \<and> \<not> gej_infinity (prej ! j) \<and> mag 8 (gej_x (prej ! j)) \<and> mag 8 (gej_y (prej ! j))
      \<and> jac (fval (gej_x (prej ! j))) (fval (gej_y (prej ! j))) (zf j * C) = odd_pt A j"
      using pj I(1) unfolding e by (simp add: nth_list_update)
    show "mag 8 (gej_z (prej ! (n - 1)))" "fval (gej_z (prej ! (n - 1))) = zf (n - 1) * C"
      using m n(1) I(1) mag_mono [of 1 _ 8] unfolding e by (simp_all add: rep_def)
  qed (use C I in \<open>simp_all add: e zf_def\<close>)
qed

section \<open>Entries on a common scale\<close>

lemma globalz_table_law:
  assumes a: "gej_wf mag fval a" "\<not> gej_infinity a" "gej_pt fval a = cpt_pt A"
    and t: "ecmult_odd_multiples_table_globalz_windowa F pre0 gz0 a = (pre, Z)" and l: "length pre0 = ecmult_table_size window_a"
  shows "\<forall>j < ecmult_table_size window_a. ge_at mag fval (fval Z) (pre ! j) (odd_pt A j)" and "mag 8 Z" "fval Z \<noteq> 0"
    and "length pre = ecmult_table_size window_a"
proof -
  define n where "n = ecmult_table_size window_a"
  have n: "0 < n" "n \<le> 2 ^ 30" by (simp_all add: n_def ecmult_table_size_def)
  obtain prej zr where pz: "ecmult_odd_multiples_table F n (replicate n (gej_clear F)) (replicate n (fe_clear F)) a = (prej, zr)"
    by (rule prod.exhaust)
  obtain C zf where C: "C \<noteq> 0"
    and e: "\<And>j. j < n \<Longrightarrow> zf j \<noteq> 0 \<and> \<not> gej_infinity (prej ! j) \<and> mag 8 (gej_x (prej ! j)) \<and> mag 8 (gej_y (prej ! j))
      \<and> jac (fval (gej_x (prej ! j))) (fval (gej_y (prej ! j))) (zf j * C) = odd_pt A j"
    and q: "\<And>j. 0 < j \<Longrightarrow> j < n \<Longrightarrow> mag 8 (zr ! j) \<and> zf j = zf (j - 1) * fval (zr ! j)"
    and last: "mag 8 (gej_z (prej ! (n - 1)))" "fval (gej_z (prej ! (n - 1))) = zf (n - 1) * C"
    using odd_multiples_table_law [OF a n _ _ pz] by (metis length_replicate)
  let ?f = "\<lambda>(r, zs) i. let zs = (if i \<noteq> n - 1 then fe_mul F zs (zr ! i) else zs)
      in (r[i - 1 := ge_set_gej_zinv F (prej ! (i - 1)) zs], zs)"
  define W where "W = zf (n - 1) * C"
  define I where "I = (\<lambda>k (r, zs). length r = n \<and> (\<forall>j < n. k \<le> Suc j \<longrightarrow> ge_at mag fval W (r ! j) (odd_pt A j)) \<and> mag 8 zs \<and>
      (if k = n then zs = zr ! (n - 1) else zf (k - 1) * fval zs = zf (n - 1)))"
  let ?r0 = "pre0[n - 1 := \<lparr> ge_x = gej_x (prej ! (n - 1)), ge_y = gej_y (prej ! (n - 1)), ge_infinity = False \<rparr>]"
  have n8: "n = 8" by (simp add: n_def ecmult_table_size_def)
  have "I 1 (foldl ?f (?r0, zr ! (n - 1)) (rev [1..<n]))"
  proof (rule foldl_downto)
    show "I n (?r0, zr ! (n - 1))"
    proof -
      have "ge_at mag fval W (?r0 ! j) (odd_pt A j)" if "j < n" "n \<le> Suc j" for j
      proof -
        have j: "j = n - 1" using that by simp
        show ?thesis using l n(1) e [of j] that unfolding j by (simp add: ge_at_def n_def W_def)
      qed
      then show ?thesis using l n8 q [of "n - 1"] by (simp add: I_def n_def)
    qed
    fix i s assume i: "1 \<le> i" "i < n" and s: "I (Suc i) s"
    obtain r zs where rz: "s = (r, zs)" by (rule prod.exhaust)
    define zs' where "zs' = (if i \<noteq> n - 1 then fe_mul F zs (zr ! i) else zs)"
    have h: "length r = n" "\<And>j. j < n \<Longrightarrow> Suc i \<le> Suc j \<Longrightarrow> ge_at mag fval W (r ! j) (odd_pt A j)" "mag 8 zs"
      "if Suc i = n then zs = zr ! (n - 1) else zf i * fval zs = zf (n - 1)"
      using s unfolding rz I_def by auto
    have z: "mag 8 zs' \<and> zf (i - 1) * fval zs' = zf (n - 1)"
    proof (cases "Suc i = n")
      case True
      then have "zs' = zr ! i" "i = n - 1" using h(4) by (auto simp: zs'_def)
      then show ?thesis using q [of i] i by simp
    next
      case False
      then have f: "zs' = fe_mul F zs (zr ! i)" using i by (auto simp: zs'_def)
      have m: "rep 1 (fval zs * fval (zr ! i)) zs'"
        unfolding f using h(3) q [of i] i by (intro rep_mul [of 8 _ _ 8]) (simp_all add: rep_def)
      have "zf (i - 1) * (fval zs * fval (zr ! i)) = zf i * fval zs" using q [of i] i by (simp add: mult_ac)
      then show ?thesis using m h(4) False mag_mono [of 1 zs' 8] by (simp add: rep_def)
    qed
    have i1: "i - 1 < n" using i by simp
    note ei = e [OF i1]
    have nz: "zf (n - 1) \<noteq> 0" using e [of "n - 1"] n(1) by simp
    then have "fval zs' \<noteq> 0" using z by auto
    moreover have "W = zf (i - 1) * C * fval zs'" using z unfolding W_def by (metis mult.assoc mult.commute)
    ultimately have "ge_at mag fval W (ge_set_gej_zinv F (prej ! (i - 1)) zs') (odd_pt A (i - 1))"
      using ei z C by (intro set_zinv_at [where T = "zf (i - 1) * C"]) simp_all
    then have "I i (r[i - 1 := ge_set_gej_zinv F (prej ! (i - 1)) zs'], zs')"
      using h(1,2) z i unfolding I_def by (auto simp: nth_list_update)
    then show "I i (?f s i)" unfolding rz prod.case Let_def zs'_def [symmetric] .
  qed (use n in simp)
  moreover have "pre = fst (foldl ?f (?r0, zr ! (n - 1)) (rev [1..<n]))" "Z = gej_z (prej ! (n - 1))"
    using t pz n unfolding ecmult_odd_multiples_table_globalz_windowa_def Let_def n_def [symmetric]
    by (simp_all add: ge_globalz_set_table_gej_def Let_def)
  ultimately have "I 1 (pre, snd (foldl ?f (?r0, zr ! (n - 1)) (rev [1..<n])))" and Z: "fval Z = W" "mag 8 Z"
    using last by (simp_all add: W_def)
  then show "\<forall>j < ecmult_table_size window_a. ge_at mag fval (fval Z) (pre ! j) (odd_pt A j)"
    "length pre = ecmult_table_size window_a"
    unfolding Z n_def [symmetric] by (auto simp: I_def)
  show "mag 8 Z" "fval Z \<noteq> 0" using Z e [of "n - 1"] n(1) C by (simp_all add: W_def)
qed

lemma storage_table_law:
  assumes a: "gej_wf mag fval a" "\<not> gej_infinity a" "gej_pt fval a = cpt_pt A" and n: "0 < n" "n \<le> 2 ^ 30"
  shows "length (ecmult_odd_multiples_table_storage_var F n a) = n"
    and "\<forall>j < n. ge_at mag fval 1 (ge_from_storage F (ecmult_odd_multiples_table_storage_var F n a ! j)) (odd_pt A j)"
proof -
  obtain prej zr where pz: "ecmult_odd_multiples_table F n (replicate n (gej_clear F)) (replicate n (fe_clear F)) a = (prej, zr)"
    by (rule prod.exhaust)
  obtain C zf where C: "C \<noteq> 0"
    and e: "\<And>j. j < n \<Longrightarrow> zf j \<noteq> 0 \<and> \<not> gej_infinity (prej ! j) \<and> mag 8 (gej_x (prej ! j)) \<and> mag 8 (gej_y (prej ! j))
      \<and> jac (fval (gej_x (prej ! j))) (fval (gej_y (prej ! j))) (zf j * C) = odd_pt A j"
    and q: "\<And>j. 0 < j \<Longrightarrow> j < n \<Longrightarrow> mag 8 (zr ! j) \<and> zf j = zf (j - 1) * fval (zr ! j)"
    and last: "mag 8 (gej_z (prej ! (n - 1)))" "fval (gej_z (prej ! (n - 1))) = zf (n - 1) * C"
    using odd_multiples_table_law [OF a n _ _ pz] by (metis length_replicate)
  let ?f = "\<lambda>(r, zi) i. let zi = fe_mul F zi (zr ! i) in (r[i - 1 := ge_set_gej_zinv F (prej ! (i - 1)) zi], zi)"
  define I where "I = (\<lambda>k (r, zi). length r = n \<and> (\<forall>j < n. k \<le> Suc j \<longrightarrow> ge_at mag fval 1 (r ! j) (odd_pt A j)) \<and> mag 8 zi \<and>
      zf (k - 1) * C * fval zi = 1)"
  let ?zi = "fe_inv F (gej_z (prej ! (n - 1)))"
  let ?r0 = "(replicate n (ge_clear F))[n - 1 := ge_set_gej_zinv F (prej ! (n - 1)) ?zi]"
  have put: "I k (r[k - 1 := ge_set_gej_zinv F (prej ! (k - 1)) z], z)"
    if k: "0 < k" "k \<le> n" and r: "length r = n" "\<And>j. j < n \<Longrightarrow> Suc k \<le> Suc j \<Longrightarrow> ge_at mag fval 1 (r ! j) (odd_pt A j)"
      and z: "mag 8 z" "zf (k - 1) * C * fval z = 1" for k r z
  proof -
    have "k - 1 < n" using k by simp
    note ek = e [OF this]
    have "fval z \<noteq> 0" using z(2) by auto
    then have "ge_at mag fval 1 (ge_set_gej_zinv F (prej ! (k - 1)) z) (odd_pt A (k - 1))"
      using ek z C by (intro set_zinv_at [where T = "zf (k - 1) * C"]) simp_all
    then show ?thesis using r z k unfolding I_def by (auto simp: nth_list_update)
  qed
  have zi: "mag 8 ?zi" "zf (n - 1) * C * fval ?zi = 1"
  proof -
    have W: "zf (n - 1) * C \<noteq> 0" using e [of "n - 1"] n(1) C by simp
    show "mag 8 ?zi" using inv_law [OF last(1)] mag_mono [of 1 _ 8] by simp
    have "fval ?zi = inverse (zf (n - 1) * C)" using inv_law [OF last(1)] last(2) by simp
    then show "zf (n - 1) * C * fval ?zi = 1" using right_inverse [OF W] by simp
  qed
  have "I 1 (foldl ?f (?r0, ?zi) (rev [1..<n]))"
  proof (rule foldl_downto)
    show "I n (?r0, ?zi)" by (rule put) (use n zi in simp_all)
    fix i s assume i: "1 \<le> i" "i < n" and s: "I (Suc i) s"
    obtain r z where rz: "s = (r, z)" by (rule prod.exhaust)
    define z' where "z' = fe_mul F z (zr ! i)"
    have h: "length r = n" "\<And>j. j < n \<Longrightarrow> Suc i \<le> Suc j \<Longrightarrow> ge_at mag fval 1 (r ! j) (odd_pt A j)" "mag 8 z" "zf i * C * fval z = 1"
      using s unfolding rz I_def by auto
    have m: "rep 1 (fval z * fval (zr ! i)) z'"
      unfolding z'_def using h(3) q [of i] i by (intro rep_mul [of 8 _ _ 8]) (simp_all add: rep_def)
    then have "mag 8 z'" "zf (i - 1) * C * fval z' = 1"
      using h(4) q [of i] i mag_mono [of 1 z' 8] by (simp_all add: rep_def mult_ac)
    then have "I i (r[i - 1 := ge_set_gej_zinv F (prej ! (i - 1)) z'], z')" using h i by (intro put) simp_all
    then show "I i (?f s i)" unfolding rz prod.case Let_def z'_def [symmetric] .
  qed (use n in simp)
  then obtain r z where r: "foldl ?f (?r0, ?zi) (rev [1..<n]) = (r, z)" "length r = n"
      "\<And>j. j < n \<Longrightarrow> ge_at mag fval 1 (r ! j) (odd_pt A j)"
    unfolding I_def by (cases "foldl ?f (?r0, ?zi) (rev [1..<n])") auto
  have t: "ecmult_odd_multiples_table_storage_var F n a = map (ge_to_storage F) r"
    using r(1,2) n pz by (simp add: ecmult_odd_multiples_table_storage_var_def ge_set_table_gej_var_def Let_def)
  show "length (ecmult_odd_multiples_table_storage_var F n a) = n" unfolding t using r(2) by simp
  show "\<forall>j < n. ge_at mag fval 1 (ge_from_storage F (ecmult_odd_multiples_table_storage_var F n a ! j)) (odd_pt A j)"
  proof (intro allI impI)
    fix j assume j: "j < n"
    have g: "ge_at mag fval 1 (r ! j) (odd_pt A j)" by (rule r(3) [OF j])
    then have g': "mag 8 (ge_x (r ! j))" "mag 8 (ge_y (r ! j))" "\<not> ge_infinity (r ! j)" by (simp_all add: ge_at_def)
    note rt = ge_storage_roundtrip [OF g']
    have "\<not> ge_infinity (ge_from_storage F (ge_to_storage F (r ! j)))" by (simp add: ge_from_storage_def)
    then show "ge_at mag fval 1 (ge_from_storage F (ecmult_odd_multiples_table_storage_var F n a ! j)) (odd_pt A j)"
      unfolding t using g rt nrm_mag mag_mono [of 1 _ 8] j r(2) by (auto simp: ge_at_one ge_wf_def ge_pt_def)
  qed
qed

section \<open>Reading an entry\<close>

lemma table_get_at:
  assumes t: "\<forall>j < m. ge_at mag fval S (pre ! j) (odd_pt A j)" and d: "odd d" "\<bar>d\<bar> < 2 * int m"
  shows "ge_at mag fval S (ecmult_table_get_ge F pre d) (cpt_pt (zmul d A))"
proof (cases "0 < d")
  case True
  obtain k where k: "d = 2 * k + 1" using d(1) by (rule oddE)
  define j where "j = nat k"
  have j: "2 * int j + 1 = d" "j < m" "nat ((d - 1) div 2) = j" using d(2) True k by (simp_all add: j_def)
  then show ?thesis using t True unfolding ecmult_table_get_ge_def odd_pt_def by (metis if_True)
next
  case False
  obtain k where k: "- d = 2 * k + 1" using d(1) by (metis oddE even_minus)
  define j where "j = nat k"
  have j: "2 * int j + 1 = - d" "j < m" "nat ((- d - 1) div 2) = j" using d(2) False k by (simp_all add: j_def)
  then have "ge_at mag fval S (pre ! j) (cpt_pt (- zmul d A))" using t unfolding odd_pt_def by (metis zmul_minus)
  from ge_neg_at [OF this] show ?thesis
    using False unfolding ecmult_table_get_ge_def j(3) by (simp add: cpt_pt_neg [symmetric] del: cpt_pt_neg)
qed

end

text \<open>The multiplications join the contracts of the field and of the scalars.\<close>

locale ec_impl = field_impl F fval mag nrm + scalar_impl S sval
  for F :: "('fe, 'st) field_ops" and fval mag nrm and S :: "'s scalar_ops" and sval

end
