(* ===== verification/Ecdsa_Correct.thy ===== *)
theory Ecdsa_Correct
  imports Ecdsa_Sig Ecmult_Tables
begin

text \<open>
  The scalar side of signing and the comparison at the end of verification.
\<close>

text \<open>\<open>x\<close> is congruent to the scalar modulo the order.\<close>

definition fp_mod_order :: "fp \<Rightarrow> nat" where
  "fp_mod_order x = nat (rep_fp x) mod group_order"

definition p_minus_order :: nat where
  "p_minus_order = 0x14551231950B75FC4402DA1722FC9BAEE"

lemma prime_order: "nat field_prime = group_order + p_minus_order" "p_minus_order < group_order"
  by (simp_all add: field_prime_def group_order_def p_minus_order_def)

lemma fp_mod_order_iff:
  assumes "r < group_order"
  shows "fp_mod_order x = r \<longleftrightarrow> rep_fp x = int r \<or> r < p_minus_order \<and> rep_fp x = int (r + group_order)"
proof -
  define v where "v = nat (rep_fp x)"
  have v: "rep_fp x = int v" "v < group_order + p_minus_order"
    using rep_fp_range [of x] prime_order(1) unfolding v_def by linarith+
  have "v mod group_order = (if v < group_order then v else v - group_order)"
    using v(2) prime_order(2) by (simp add: mod_if)
  then show ?thesis
    unfolding fp_mod_order_def v(1) using v(2) prime_order(2) assms by auto
qed

context ec_impl
begin

lemma order_as_fe: "nrm (ecdsa_const_order_as_fe F)" "fval (ecdsa_const_order_as_fe F) = of_nat group_order"
proof -
  have "fe_const_nat 0xFFFFFFFF 0xFFFFFFFF 0xFFFFFFFF 0xFFFFFFFE 0xBAAEDCE6 0xAF48A03B 0xBFD25E8C 0xD0364141 = group_order"
    by (simp add: fe_const_nat_def group_order_def)
  moreover have "group_order < nat field_prime" unfolding prime_order(1) by (simp add: p_minus_order_def)
  ultimately show "nrm (ecdsa_const_order_as_fe F)" "fval (ecdsa_const_order_as_fe F) = of_nat group_order"
    unfolding ecdsa_const_order_as_fe_def using const_law by metis+
qed

lemma p_minus_order_fe:
  "nrm (ecdsa_const_p_minus_order F)" "rep_fp (fval (ecdsa_const_p_minus_order F)) = int p_minus_order"
proof -
  have "fe_const_nat 0 0 0 1 0x45512319 0x50B75FC4 0x402DA172 0x2FC9BAEE = p_minus_order"
    by (simp add: fe_const_nat_def p_minus_order_def)
  moreover have l: "p_minus_order < nat field_prime" unfolding prime_order(1) by simp
  ultimately have c: "nrm (ecdsa_const_p_minus_order F)" "fval (ecdsa_const_p_minus_order F) = of_nat p_minus_order"
    unfolding ecdsa_const_p_minus_order_def using const_law by metis+
  show "nrm (ecdsa_const_p_minus_order F)" by (rule c)
  show "rep_fp (fval (ecdsa_const_p_minus_order F)) = int p_minus_order"
    unfolding c(2) rep_fp_of_nat using l by (intro mod_pos_pos_trivial) (simp, linarith)
qed

lemma of_nat_fp_iff: "v < nat field_prime \<Longrightarrow> of_nat v = x \<longleftrightarrow> rep_fp x = int v"
  by (auto simp: fp_eq_iff rep_fp_of_nat)

text \<open>A scalar read as a field element.\<close>

lemma scalar_as_fe:
  assumes r: "sval r < group_order" and xr: "fe_set_b32 F (sc_get_b32 S r) = (ok, xr)"
  shows "ok" "nrm xr" "fval xr = of_nat (sval r)" "rep_fp (fval xr) = int (sval r)"
proof -
  note g = sget_b32_law [of r]
  note s = set_b32_law [OF conjunct1 [OF g] xr]
  have l: "sval r < nat field_prime" using r prime_order(1) by linarith
  show "ok" "nrm xr" and v: "fval xr = of_nat (sval r)" using s g l by simp_all
  show "rep_fp (fval xr) = int (sval r)" using of_nat_fp_iff [OF l] v by metis
qed

lemma check_r_law:
  assumes pr: "gej_wf mag fval pr" "\<not> gej_infinity pr" "gej_pt fval pr = Pt x y" and r: "sval sigr < group_order"
  shows "ecdsa_check_r F S sigr pr \<longleftrightarrow> fp_mod_order x = sval sigr"
proof -
  obtain ok xr where xr: "fe_set_b32 F (sc_get_b32 S sigr) = (ok, xr)" by (rule prod.exhaust)
  note s = scalar_as_fe [OF r xr]
  have m: "mag 1 xr" "mag 8 xr" using nrm_mag [OF s(2)] mag_mono [of 1 xr 8] by simp_all
  have e1: "gej_eq_x_var F xr pr \<longleftrightarrow> rep_fp x = int (sval sigr)"
    using gej_eq_x_var_iff [OF pr(1,2) m(2)] pr(3) s(3) of_nat_fp_iff [of "sval sigr" x] r prime_order(1) by auto
  have c: "0 \<le> fe_cmp_var F xr (ecdsa_const_p_minus_order F) \<longleftrightarrow> p_minus_order \<le> sval sigr"
    unfolding cmp_law [OF s(2) p_minus_order_fe(1)] s(4) p_minus_order_fe(2) by (simp add: sgn_if)
  define x2 where "x2 = fe_add F xr (ecdsa_const_order_as_fe F)"
  have x2: "mag 2 x2" "fval x2 = of_nat (sval sigr + group_order)"
    using add_law [OF m(1) nrm_mag [OF order_as_fe(1)]] unfolding x2_def by (simp_all add: s(3) order_as_fe(2) numeral_2_eq_2)
  have e2: "gej_eq_x_var F x2 pr \<longleftrightarrow> rep_fp x = int (sval sigr + group_order)" if "sval sigr < p_minus_order"
    using gej_eq_x_var_iff [OF pr(1,2), of x2] mag_mono [OF x2(1), of 8] pr(3) x2(2)
      of_nat_fp_iff [of "sval sigr + group_order" x] that prime_order(1) by auto
  show ?thesis
    unfolding fp_mod_order_iff [OF r] ecdsa_check_r_def Let_def xr snd_conv x2_def [symmetric]
    using e1 c e2 by auto
qed

text \<open>The signature computed from the point \<open>rp\<close> of the nonce.\<close>

lemma sig_sign_law:
  assumes rp: "gej_wf mag fval (ecmult_gen F S ctx nonce)" "\<not> gej_infinity (ecmult_gen F S ctx nonce)"
    "gej_pt fval (ecmult_gen F S ctx nonce) = Pt x y"
    and m: "sval message < group_order"
    and r: "ecdsa_sig_sign F S ctx seckey message nonce = (ok, sigr, sigs, recid)"
    and s0: "s0 = sval nonce ^ (group_order - 2) * (fp_mod_order x * sval seckey + sval message) mod group_order"
  shows "sval sigr = fp_mod_order x" "ok \<longleftrightarrow> s0 \<noteq> 0"
    and "sval sigs = (if group_order div 2 < s0 then group_order - s0 else s0)"
    and "recid = (if int group_order \<le> rep_fp x then 2 else 0) + (if odd (rep_fp y) \<noteq> (group_order div 2 < s0) then 1 else 0)"
proof -
  let ?rp = "ecmult_gen F S ctx nonce"
  obtain q q' where q: "ge_set_gej F ?rp = (q, q')" by (rule prod.exhaust)
  have qw: "ge_wf mag fval q" "ge_pt fval q = Pt x y"
    using ge_set_gej_pt [OF rp(1)] q rp(3) by auto
  then have qi: "\<not> ge_infinity q" by (auto simp: ge_pt_def)
  then have fq: "fval (ge_x q) = x" "fval (ge_y q) = y" and mq: "mag 32 (ge_x q)" "mag 32 (ge_y q)"
    using qw mag_mono [of 8 _ 32] by (auto simp: ge_pt_def ge_wf_def)
  note nx = normalize_law [OF mq(1)] and ny = normalize_law [OF mq(2)]
  define b where "b = fe_get_b32 F (fe_normalize F (ge_x q))"
  have b: "length b = 32" "be_nat b = nat (rep_fp x)"
    using get_b32_law [of "fe_normalize F (ge_x q)"] nx fq unfolding b_def by (auto simp: nat_eq_iff)
  obtain r' ov where s: "sc_set_b32 S b = (r', ov)" by (rule prod.exhaust)
  note sl = sset_b32_law [OF b(1) s, unfolded b(2)]
  have odd: "fe_is_odd F (fe_normalize F (ge_y q)) \<longleftrightarrow> odd (rep_fp y)" using is_odd_law ny fq by simp
  obtain n o2 where n: "sc_add S (sc_mul S r' seckey) message = (n, o2)" by (rule prod.exhaust)
  have mm: "(nat (rep_fp x) mod group_order * k + c) mod group_order = (nat (rep_fp x) * k + c) mod group_order" for k c
    by (metis mod_add_left_eq mod_mult_left_eq)
  have nv: "sval n = (fp_mod_order x * sval seckey + sval message) mod group_order"
    using sadd_law [OF _ m n] unfolding smul_law conjunct1 [OF sl] fp_mod_order_def mm by (simp add: mod_simps)
  define t where "t = sc_mul S (sc_inverse S nonce) n"
  have t: "sval t = s0" unfolding t_def smul_law inverse_law nv s0 by (simp add: mod_simps)
  have t0: "s0 < group_order" unfolding s0 by simp
  define rc :: int where "rc = (if ov then 2 else 0) OR (if odd (rep_fp y) then 1 else 0)"
  have e: "(ok, sigr, sigs, recid) = (if s0 = 0 then (False, r', t, rc)
      else if group_order div 2 < s0 then (True, r', sc_negate S t, rc XOR 1) else (True, r', t, rc))"
    unfolding r [symmetric] ecdsa_sig_sign_def Let_def
    by (simp add: q b_def [symmetric] s n t_def [symmetric] odd sis_zero_law sis_high_law t rc_def)
  have or1: "(0 :: int) OR 0 = 0" "(0 :: int) OR 1 = 1" "(2 :: int) OR 0 = 2" "(2 :: int) OR 1 = 3"
    and xor1: "(0 :: int) XOR 1 = 1" "(1 :: int) XOR 1 = 0" "(2 :: int) XOR 1 = 3" "(3 :: int) XOR 1 = 2" by simp_all
  show "sval sigr = fp_mod_order x" "ok \<longleftrightarrow> s0 \<noteq> 0" using e sl by (auto simp: fp_mod_order_def split: if_splits)
  show "sval sigs = (if group_order div 2 < s0 then group_order - s0 else s0)"
    using e t snegate_law [of t] t0 by (auto split: if_splits)
  have ov: "ov \<longleftrightarrow> int group_order \<le> rep_fp x" using sl rep_fp_range(1) [of x] by (simp add: le_nat_iff)
  have "\<not> group_order div 2 < 0" by simp
  then have "recid = (if group_order div 2 < s0 then rc XOR 1 else rc)" using e by (auto split: if_splits)
  then show "recid = (if int group_order \<le> rep_fp x then 2 else 0) + (if odd (rep_fp y) \<noteq> (group_order div 2 < s0) then 1 else 0)"
    unfolding rc_def ov by (simp add: or1 xor1)
qed

end

end
