(* ===== verification/Ecmult_Correct.thy ===== *)
theory Ecmult_Correct
  imports Ecmult_Tables Wnaf
begin

text \<open>
  \<open>ecmult\<close> computes \<open>na * A + ng * G\<close>: the digits of the four parts of the scalars are summed by
  Horner's scheme, on the scale of the table of \<open>A\<close>.
\<close>

section \<open>Sums of digits\<close>

lemma zmul_sum: "zmul (\<Sum>i\<in>I. f i) P = (\<Sum>i\<in>I. zmul (f i) P)"
  by (induction I rule: infinite_finite_induct) (simp_all add: zmul_add)

lemma zmul_sum_right: "zmul k (\<Sum>i\<in>I. f i) = (\<Sum>i\<in>I. zmul k (f i))"
  by (induction I rule: infinite_finite_induct) (simp_all add: zmul_plus)

definition horner :: "nat \<Rightarrow> (nat \<Rightarrow> cpt) \<Rightarrow> nat \<Rightarrow> cpt" where
  "horner m c k = (\<Sum>i<m - k. zmul (2 ^ i) (c (k + i)))"

lemma horner_end [simp]: "horner m c m = 0"
  by (simp add: horner_def)

lemma horner_step:
  assumes "k < m"
  shows "horner m c k = horner m c (Suc k) + horner m c (Suc k) + c k"
proof -
  have "m - k = Suc (m - Suc k)" using assms by simp
  then have "horner m c k = c k + (\<Sum>i<m - Suc k. zmul (2 ^ Suc i) (c (k + Suc i)))"
    unfolding horner_def by (simp only: sum.lessThan_Suc_shift) simp
  also have "(\<Sum>i<m - Suc k. zmul (2 ^ Suc i) (c (k + Suc i))) = zmul 2 (horner m c (Suc k))"
    unfolding horner_def zmul_sum_right by (simp add: zmul_mult)
  finally show ?thesis by (simp add: zmul_2 algebra_simps)
qed

text \<open>The digit read at a position: positions at or above the count hold zero.\<close>

definition digit_at :: "int \<Rightarrow> int list \<Rightarrow> nat \<Rightarrow> int" where
  "digit_at bits ws i = (if int i < bits then ws ! i else 0)"

lemma digit_at_value:
  assumes "0 \<le> bits" "bits \<le> int (length ws)" "\<forall>j < length ws. bits \<le> int j \<longrightarrow> ws ! j = 0" "bits \<le> int m"
  shows "(\<Sum>i<m. digit_at bits ws i * 2 ^ i) = wnaf_value ws"
proof -
  have b: "nat bits \<le> m" "nat bits \<le> length ws" using assms by simp_all
  have "(\<Sum>i<m. digit_at bits ws i * 2 ^ i) = (\<Sum>i<nat bits. ws ! i * 2 ^ i)"
    by (rule sum.mono_neutral_cong_right) (use b assms(1) in \<open>auto simp: digit_at_def\<close>)
  also have "\<dots> = wnaf_value ws"
    unfolding wnaf_value_def
    by (rule sum.mono_neutral_cong_left) (use b assms in auto)
  finally show ?thesis .
qed

lemma horner_digits:
  assumes "0 \<le> bits" "bits \<le> int (length ws)" "\<forall>j < length ws. bits \<le> int j \<longrightarrow> ws ! j = 0" "bits \<le> int m"
  shows "horner m (\<lambda>i. zmul (digit_at bits ws i) P) 0 = zmul (wnaf_value ws) P"
  unfolding digit_at_value [OF assms, symmetric] horner_def zmul_sum by (simp add: mult.commute flip: zmul_mult)

lemma horner_plus: "horner m (\<lambda>i. c i + d i) k = horner m c k + horner m d k"
  by (simp add: horner_def zmul_plus sum.distrib)

section \<open>Tables\<close>

definition table_at ::
  "(nat \<Rightarrow> 'fe \<Rightarrow> bool) \<Rightarrow> ('fe \<Rightarrow> fp) \<Rightarrow> fp \<Rightarrow> nat \<Rightarrow> (nat \<Rightarrow> 'fe ge) \<Rightarrow> cpt \<Rightarrow> bool" where
  "table_at mag fval S m t A \<longleftrightarrow> (\<forall>j < m. ge_at mag fval S (t j) (odd_pt A j))"

text \<open>A built context holds the odd multiples of \<open>G\<close> and of \<open>2^128 * G\<close>.\<close>

definition ecmult_ctx_ok ::
  "('fe, 'st) field_ops \<Rightarrow> (nat \<Rightarrow> 'fe \<Rightarrow> bool) \<Rightarrow> ('fe \<Rightarrow> fp) \<Rightarrow> 'st ecmult_context \<Rightarrow> bool" where
  "ecmult_ctx_ok F mag fval ctx \<longleftrightarrow>
     (\<exists>t t'. pre_g ctx = Some t \<and> pre_g_128 ctx = Some t' \<and>
        table_at mag fval 1 (ecmult_table_size window_g) (\<lambda>j. ge_from_storage F (t ! j)) gen \<and>
        table_at mag fval 1 (ecmult_table_size window_g) (\<lambda>j. ge_from_storage F (t' ! j)) (zmul (2 ^ 128) gen))"

context ec_impl
begin

lemma mul_lambda_at:
  assumes "ge_at mag fval T b (cpt_pt P)"
  shows "ge_at mag fval T (ge_mul_lambda F b) (cpt_pt (endo P))"
proof -
  have b: "mag 8 (ge_x b)" "mag 8 (ge_y b)" "\<not> ge_infinity b" "cpt_pt P = jac (fval (ge_x b)) (fval (ge_y b)) T"
    using assms by (simp_all add: ge_at_def)
  have x: "rep 1 (fval (ge_x b) * beta_fp) (ge_x (ge_mul_lambda F b))"
    by (simp add: ge_mul_lambda_def Let_def, rule rep_weaken, (rule rep_rules rep_self [OF b(1)] beta_rep | (simp; fail))+)
  have "cpt_pt (endo P) = jac (fval (ge_x b) * beta_fp) (fval (ge_y b)) T"
    unfolding endo.rep_eq b(4) by (simp add: jac_def mult.commute)
  then show ?thesis
    unfolding ge_at_def using b x mag_mono [of 1 _ 8] cpt_on_curve [of "endo P"]
    by (simp add: rep_def ge_mul_lambda_def)
qed

lemma table_lambda:
  assumes "table_at mag fval T m (\<lambda>j. pre ! j) A"
  shows "table_at mag fval T m (\<lambda>j. map (\<lambda>i. ge_mul_lambda F (pre ! i)) [0..<m] ! j) (endo A)"
  using assms mul_lambda_at unfolding table_at_def odd_pt_def by (simp add: endo_zmul [symmetric])

text \<open>One digit.\<close>

lemma add_a_at:
  assumes r: "gej_at mag fval T r (cpt_pt P)" and T: "T \<noteq> 0"
    and t: "table_at mag fval T (ecmult_table_size window_a) (\<lambda>j. pre ! j) A"
    and w: "wnaf_shape window_a ws" "bits \<le> int (length ws)"
  shows "gej_at mag fval T (ecmult_add_a F pre bits ws i r) (cpt_pt (P + zmul (digit_at bits ws i) A))"
proof (cases "int i < bits \<and> ws ! i \<noteq> 0")
  case True
  then have "i < length ws" using w(2) by simp
  then have d: "odd (ws ! i)" "\<bar>ws ! i\<bar> < 2 * int (ecmult_table_size window_a)"
    using w(1) True by (auto simp: wnaf_shape_def ecmult_table_size_def)
  obtain r' z where a: "gej_add_ge_var F r r (ecmult_table_get_ge F pre (ws ! i)) False = (r', z)" by (rule prod.exhaust)
  note g = table_get_at [OF t [unfolded table_at_def] d]
  show ?thesis
    using add_ge_at(1) [OF r g T a] True by (simp add: ecmult_add_a_def a digit_at_def cpt_pt_add)
next
  case False
  then show ?thesis using r by (auto simp: ecmult_add_a_def digit_at_def)
qed

lemma table_get_storage_at:
  assumes t: "table_at mag fval 1 m (\<lambda>j. ge_from_storage F (pre ! j)) A" and d: "odd d" "\<bar>d\<bar> < 2 * int m"
  shows "ge_at mag fval 1 (ecmult_table_get_ge_storage F pre d) (cpt_pt (zmul d A))"
proof -
  define t' where "t' = map (\<lambda>j. ge_from_storage F (pre ! j)) [0..<m]"
  have "\<forall>j < m. ge_at mag fval 1 (t' ! j) (odd_pt A j)" using t by (simp add: t'_def table_at_def)
  note g = table_get_at [OF this d]
  have "nat ((d - 1) div 2) < m" if "0 < d" using d that by linarith
  moreover have "nat ((- d - 1) div 2) < m" if "\<not> 0 < d" using d that by linarith
  ultimately have "ecmult_table_get_ge_storage F pre d = ecmult_table_get_ge F t' d"
    by (simp add: ecmult_table_get_ge_storage_def ecmult_table_get_ge_def t'_def)
  then show ?thesis using g by simp
qed

lemma add_g_at:
  assumes r: "gej_at mag fval T r (cpt_pt P)" and T: "T \<noteq> 0" "rep 8 T Z"
    and t: "table_at mag fval 1 (ecmult_table_size window_g) (\<lambda>j. ge_from_storage F (pre ! j)) A"
    and w: "wnaf_shape window_g ws" "bits \<le> int (length ws)"
  shows "gej_at mag fval T (ecmult_add_g F pre Z bits ws i r) (cpt_pt (P + zmul (digit_at bits ws i) A))"
proof (cases "int i < bits \<and> ws ! i \<noteq> 0")
  case True
  then have "i < length ws" using w(2) by simp
  then have d: "odd (ws ! i)" "\<bar>ws ! i\<bar> < 2 * int (ecmult_table_size window_g)"
    using w(1) True by (auto simp: wnaf_shape_def ecmult_table_size_def)
  note g = table_get_storage_at [OF t d]
  show ?thesis
    using add_zinv_at [OF r g T refl] True by (simp add: ecmult_add_g_def digit_at_def cpt_pt_add)
next
  case False
  then show ?thesis using r by (auto simp: ecmult_add_g_def digit_at_def)
qed

section \<open>The multiplication\<close>

lemma signed_half: "a < 2 ^ 128 \<Longrightarrow> signed_value a = int a"
  by (simp add: signed_value_def)

lemma zmul_signed: "a < group_order \<Longrightarrow> zmul (signed_value a) (P :: cpt) = zmul (int a) P"
  by (rule zmul_mod) (simp add: signed_value_def ord_def)

lemma signed_residue:
  assumes "int a = k mod int group_order" "\<bar>k\<bar> < 2 ^ 128"
  shows "signed_value a = k"
proof (cases "0 \<le> k")
  case True
  then have "int a = k" using assms by (simp add: group_order_def)
  then show ?thesis using assms(2) by (simp add: signed_value_def)
next
  case False
  then have "k mod int group_order = k + int group_order"
    using assms(2) by (intro int_mod_pos_eq [where q = "-1"]) (simp_all add: group_order_def)
  then have "int a = k + int group_order" using assms(1) by simp
  then show ?thesis using False assms(2) by (simp add: signed_value_def group_order_def)
qed

lemma split_lambda_halves:
  assumes "sval na < group_order" "sc_split_lambda S na = (n1, n2)"
  shows "sval n1 < group_order" "sval n2 < group_order"
    and "\<bar>signed_value (sval n1)\<bar> < 2 ^ 128" "\<bar>signed_value (sval n2)\<bar> < 2 ^ 128"
    and "zmul (signed_value (sval n1)) A + zmul (signed_value (sval n2)) (endo A) = zmul (int (sval na)) A"
proof -
  note l = split_lambda_law [OF assms] and b = lattice_bounds [OF sval_less [of na]]
  show w: "sval n1 < group_order" "sval n2 < group_order" using l(1,2) by (simp_all add: swf_def)
  show "\<bar>signed_value (sval n1)\<bar> < 2 ^ 128" "\<bar>signed_value (sval n2)\<bar> < 2 ^ 128"
    unfolding signed_residue [OF l(3) b(1)] signed_residue [OF l(4) b(2)] by (rule b)+
  have "zmul (signed_value (sval n1)) A + zmul (signed_value (sval n2)) (endo A)
      = zmul (int (sval n1 + sval n2 * sc_lambda)) A"
    unfolding zmul_signed [OF w(1)] zmul_signed [OF w(2)] endo_lambda
    by (simp only: of_nat_add of_nat_mult zmul_add zmul_mult)
  also have "\<dots> = zmul (int (sval na)) A" unfolding l(5) [symmetric] by (rule zmul_nat_mod [symmetric])
  finally show "zmul (signed_value (sval n1)) A + zmul (signed_value (sval n2)) (endo A) = zmul (int (sval na)) A" .
qed

lemma split_128_halves:
  assumes "sval ng < group_order" "sc_split_128 S ng = (n1, n2)"
  shows "sval n1 < group_order" "sval n2 < group_order"
    and "\<bar>signed_value (sval n1)\<bar> < 2 ^ 128" "\<bar>signed_value (sval n2)\<bar> < 2 ^ 128"
    and "zmul (signed_value (sval n1)) P + zmul (signed_value (sval n2)) (zmul (2 ^ 128) P) = zmul (int (sval ng)) P"
proof -
  note l = split_128_law [OF assms(2)]
  have "sval ng < 2 ^ 128 * 2 ^ 128" using sval_less [of ng] by simp
  then have b: "sval n1 < 2 ^ 128" "sval n2 < 2 ^ 128" using l by (simp_all add: less_mult_imp_div_less)
  then show "sval n1 < group_order" "sval n2 < group_order" by (simp_all add: group_order_def)
  show "\<bar>signed_value (sval n1)\<bar> < 2 ^ 128" "\<bar>signed_value (sval n2)\<bar> < 2 ^ 128"
    using b unfolding signed_half [OF b(1)] signed_half [OF b(2)] by simp_all
  have "sval n1 + sval n2 * 2 ^ 128 = sval ng" using l by simp
  then have "int (sval ng) = int (sval n1) + int (sval n2) * 2 ^ 128" by (metis of_nat_add of_nat_mult of_nat_numeral of_nat_power)
  then show "zmul (signed_value (sval n1)) P + zmul (signed_value (sval n2)) (zmul (2 ^ 128) P) = zmul (int (sval ng)) P"
    unfolding signed_half [OF b(1)] signed_half [OF b(2)] by (simp only: zmul_add zmul_mult)
qed

text \<open>One turn of the loop doubles and adds the four digits of the position.\<close>

lemma ecmult_loop_at:
  assumes T: "T \<noteq> 0" "rep 8 T Z"
    and ta: "table_at mag fval T (ecmult_table_size window_a) (\<lambda>j. pa ! j) A"
    and tl: "table_at mag fval T (ecmult_table_size window_a) (\<lambda>j. pl ! j) B"
    and tg: "table_at mag fval 1 (ecmult_table_size window_g) (\<lambda>j. ge_from_storage F (pg ! j)) C"
    and th: "table_at mag fval 1 (ecmult_table_size window_g) (\<lambda>j. ge_from_storage F (ph ! j)) D"
    and wa: "wnaf_shape window_a wa" "ba \<le> int (length wa)" and wl: "wnaf_shape window_a wl" "bl \<le> int (length wl)"
    and wg: "wnaf_shape window_g wg" "bg \<le> int (length wg)" and wh: "wnaf_shape window_g wh" "bh \<le> int (length wh)"
  shows "gej_at mag fval T (foldl (\<lambda>r i.
                let r = fst (gej_double_var F r r False);
                    r = ecmult_add_a F pa ba wa i r;
                    r = ecmult_add_a F pl bl wl i r;
                    r = ecmult_add_g F pg Z bg wg i r;
                    r = ecmult_add_g F ph Z bh wh i r
                in r) (gej_set_infinity F) (rev [0..<m]))
      (cpt_pt (horner m (\<lambda>i. zmul (digit_at ba wa i) A + zmul (digit_at bl wl i) B
          + zmul (digit_at bg wg i) C + zmul (digit_at bh wh i) D) 0))"
    (is "gej_at mag fval T (foldl ?f _ _) (cpt_pt (horner m ?c 0))")
proof (rule foldl_downto [where I = "\<lambda>k r. gej_at mag fval T r (cpt_pt (horner m ?c k))"])
  show "gej_at mag fval T (gej_set_infinity F) (cpt_pt (horner m ?c m))"
    by (simp add: gej_at_infinity gej_set_infinity_def)
  fix i r assume i: "i < m" and r: "gej_at mag fval T r (cpt_pt (horner m ?c (Suc i)))"
  let ?H = "horner m ?c (Suc i)"
  obtain r1 z where d: "gej_double_var F r r False = (r1, z)" by (rule prod.exhaust)
  have "gej_at mag fval T r1 (cpt_pt (?H + ?H))" using double_at [OF r T(1) d] by (simp only: cpt_pt_add)
  note 1 = add_a_at [OF this T(1) ta wa, of i]
  note 2 = add_a_at [OF 1 T(1) tl wl, of i]
  note 3 = add_g_at [OF 2 T tg wg, of i]
  note 4 = add_g_at [OF 3 T th wh, of i]
  show "gej_at mag fval T (?f r i) (cpt_pt (horner m ?c i))"
    using 4 unfolding horner_step [OF i] Let_def d fst_conv by (simp only: add.assoc)
qed simp

lemma ecmult_law:
  assumes ctx: "ecmult_ctx_ok F mag fval ctx"
    and a: "gej_wf mag fval a" "\<not> gej_infinity a" "gej_pt fval a = cpt_pt A"
    and n: "sval na < group_order" "sval ng < group_order"
  shows "gej_wf mag fval (ecmult F S ctx a na ng) \<and>
    gej_pt fval (ecmult F S ctx a na ng) = cpt_pt (zmul (int (sval na)) A + zmul (int (sval ng)) gen)"
proof -
  obtain pg ph where p: "pre_g ctx = Some pg" "pre_g_128 ctx = Some ph"
    and tg: "table_at mag fval 1 (ecmult_table_size window_g) (\<lambda>j. ge_from_storage F (pg ! j)) gen"
    and th: "table_at mag fval 1 (ecmult_table_size window_g) (\<lambda>j. ge_from_storage F (ph ! j)) (zmul (2 ^ 128) gen)"
    using ctx unfolding ecmult_ctx_ok_def by blast
  obtain n1 nl where sl: "sc_split_lambda S na = (n1, nl)" by (rule prod.exhaust)
  obtain g1 g2 where sg: "sc_split_128 S ng = (g1, g2)" by (rule prod.exhaust)
  note l = split_lambda_halves [OF n(1) sl] and g = split_128_halves [OF n(2) sg]
  obtain ba wa where wa: "ecmult_wnaf S 130 n1 window_a = (ba, wa)" by (rule prod.exhaust)
  obtain bl wl where wl: "ecmult_wnaf S 130 nl window_a = (bl, wl)" by (rule prod.exhaust)
  obtain bg wg where wg: "ecmult_wnaf S 129 g1 window_g = (bg, wg)" by (rule prod.exhaust)
  obtain bh wh where wh: "ecmult_wnaf S 129 g2 window_g = (bh, wh)" by (rule prod.exhaust)
  have a129: "x < 2 ^ (129 - 1)" "x < 2 ^ (130 - 1)" if "x < 2 ^ 128" for x :: int using that by simp_all
  note da = ecmult_wnaf_law [OF l(1) a129(2) [OF l(3)] _ _ _ _ wa, simplified]
  note dl = ecmult_wnaf_law [OF l(2) a129(2) [OF l(4)] _ _ _ _ wl, simplified]
  note dg = ecmult_wnaf_law [OF g(1) a129(1) [OF g(3)] _ _ _ _ wg, simplified]
  note dh = ecmult_wnaf_law [OF g(2) a129(1) [OF g(4)] _ _ _ _ wh, simplified]
  obtain pa Z where ga: "ecmult_odd_multiples_table_globalz_windowa F (replicate (ecmult_table_size window_a) (ge_clear F)) (fe_clear F) a = (pa, Z)"
    by (rule prod.exhaust)
  note t = globalz_table_law [OF a ga length_replicate]
  define T where "T = fval Z"
  have T: "T \<noteq> 0" "rep 8 T Z" using t(2,3) by (simp_all add: T_def rep_def)
  have ta: "table_at mag fval T (ecmult_table_size window_a) (\<lambda>j. pa ! j) A"
    using t(1) by (simp add: table_at_def T_def)
  note tl = table_lambda [OF ta]
  define b1 where "b1 = (if ba < bl then bl else ba)"
  define b2 where "b2 = (if b1 < bg then bg else b1)"
  define b3 where "b3 = (if b2 < bh then bh else b2)"
  have b: "ba \<le> int (nat b3)" "bl \<le> int (nat b3)" "bg \<le> int (nat b3)" "bh \<le> int (nat b3)"
    unfolding b3_def b2_def b1_def by simp_all
  let ?pl = "map (\<lambda>i. ge_mul_lambda F (pa ! i)) [0..<ecmult_table_size window_a]"
  define r where "r = foldl (\<lambda>r i.
                let r = fst (gej_double_var F r r False);
                    r = ecmult_add_a F pa ba wa i r;
                    r = ecmult_add_a F ?pl bl wl i r;
                    r = ecmult_add_g F pg Z bg wg i r;
                    r = ecmult_add_g F ph Z bh wh i r
                in r) (gej_set_infinity F) (rev [0..<nat b3])"
  have "horner (nat b3) (\<lambda>i. zmul (digit_at ba wa i) A + zmul (digit_at bl wl i) (endo A)
          + zmul (digit_at bg wg i) gen + zmul (digit_at bh wh i) (zmul (2 ^ 128) gen)) 0
      = zmul (wnaf_value wa) A + zmul (wnaf_value wl) (endo A) + zmul (wnaf_value wg) gen + zmul (wnaf_value wh) (zmul (2 ^ 128) gen)"
    unfolding horner_plus using da dl dg dh b by (simp only: horner_digits)
  also have "\<dots> = zmul (int (sval na)) A + zmul (int (sval ng)) gen"
    unfolding da(2) dl(2) dg(2) dh(2) l(5) using g(5) [of gen] by (simp only: add.assoc)
  finally have H: "horner (nat b3) (\<lambda>i. zmul (digit_at ba wa i) A + zmul (digit_at bl wl i) (endo A)
          + zmul (digit_at bg wg i) gen + zmul (digit_at bh wh i) (zmul (2 ^ 128) gen)) 0
      = zmul (int (sval na)) A + zmul (int (sval ng)) gen" .
  have r: "gej_at mag fval T r (cpt_pt (zmul (int (sval na)) A + zmul (int (sval ng)) gen))"
    unfolding r_def H [symmetric]
    by (rule ecmult_loop_at [OF T ta tl tg th]) (use da dl dg dh in simp_all)
  have e: "ecmult F S ctx a na ng = (if \<not> gej_infinity r then r \<lparr> gej_z := fe_mul F (gej_z r) Z \<rparr> else r)"
    unfolding ecmult_def sl sg wa wl wg wh ga prod.case Let_def p option.sel r_def b3_def b2_def b1_def ..
  show ?thesis
    unfolding gej_at_one [symmetric] e
  proof (cases "gej_infinity r")
    case True
    then show "gej_at mag fval 1 (if \<not> gej_infinity r then r \<lparr> gej_z := fe_mul F (gej_z r) Z \<rparr> else r)
        (cpt_pt (zmul (int (sval na)) A + zmul (int (sval ng)) gen))"
      using r by (simp add: gej_at_def)
  next
    case False
    obtain X Y W where w: "rep 8 X (gej_x r)" "rep 8 Y (gej_y r)" "rep 8 W (gej_z r)" "W \<noteq> 0"
      and P: "cpt_pt (zmul (int (sval na)) A + zmul (int (sval ng)) gen) = jac X Y (W * T)"
      using r False T(1) by (rule gej_atE)
    have "rep 1 (W * T) (fe_mul F (gej_z r) Z)" by (rule rep_weaken, (rule rep_rules w T(2) | (simp; fail))+)
    moreover have "jac X Y (W * T * 1) = cpt_pt (zmul (int (sval na)) A + zmul (int (sval ng)) gen)" using P by simp
    ultimately have "gej_at mag fval 1 (r \<lparr> gej_z := fe_mul F (gej_z r) Z \<rparr>) (cpt_pt (zmul (int (sval na)) A + zmul (int (sval ng)) gen))"
      using w T(1) False by (intro gej_atI [of 8 X _ 8 Y 1 "W * T", OF _ _ _ _ _ _ _ _ _ cpt_on_curve]) simp_all
    then show "gej_at mag fval 1 (if \<not> gej_infinity r then r \<lparr> gej_z := fe_mul F (gej_z r) Z \<rparr> else r)
        (cpt_pt (zmul (int (sval na)) A + zmul (int (sval ng)) gen))" using False by simp
  qed
qed

section \<open>The context\<close>

lemma ecmult_context_build_law:
  assumes "pre_g ctx = None"
  shows "ecmult_ctx_ok F mag fval (ecmult_context_build F ctx)"
proof -
  let ?gj = "gej_set_ge F (ge_const_g F)"
  have g: "ge_wf mag fval (ge_const_g F)" "\<not> ge_infinity (ge_const_g F)" "ge_pt fval (ge_const_g F) = gen_pt"
    using ge_const_g_law by simp_all
  have gj: "gej_wf mag fval ?gj" "\<not> gej_infinity ?gj" "gej_pt fval ?gj = cpt_pt gen"
    using gej_set_ge_pt [OF g(1)] g(2,3) by (simp_all add: gej_set_ge_def)
  define h where "h = ((\<lambda>g. fst (gej_double_var F g g False)) ^^ 128) ?gj"
  have "gej_wf mag fval (((\<lambda>g. fst (gej_double_var F g g False)) ^^ k) ?gj) \<and>
      gej_pt fval (((\<lambda>g. fst (gej_double_var F g g False)) ^^ k) ?gj) = cpt_pt (zmul (2 ^ k) gen)" for k
  proof (induction k)
    case (Suc k)
    let ?g = "((\<lambda>g. fst (gej_double_var F g g False)) ^^ k) ?gj"
    obtain d z where d: "gej_double_var F ?g ?g False = (d, z)" by (rule prod.exhaust)
    have "zmul (2 ^ Suc k) gen = zmul (2 ^ k) gen + zmul (2 ^ k) gen" by (simp add: zmul_mult zmul_2)
    then show ?case using double_pt [OF Suc [THEN conjunct1] d] Suc by (simp add: d cpt_pt_add)
  qed (use gj in simp)
  then have h: "gej_wf mag fval h" "gej_pt fval h = cpt_pt (zmul (2 ^ 128) gen)" unfolding h_def by blast+
  have "zmul (2 ^ 128) gen \<noteq> 0" by (rule small_multiple [OF gen_ne_0]) (simp_all add: ord_num)
  then have "cpt_pt (zmul (2 ^ 128) gen) \<noteq> Infty" by simp
  then have hi: "\<not> gej_infinity h" using h(2) by (auto simp: gej_pt_def simp del: cpt_pt_eq_Infty)
  have n: "0 < ecmult_table_size window_g" "ecmult_table_size window_g \<le> 2 ^ 30"
    by (simp_all add: ecmult_table_size_def)
  show ?thesis
    unfolding ecmult_ctx_ok_def table_at_def
    using storage_table_law(2) [OF gj n] storage_table_law(2) [OF h(1) hi h(2) n] assms
    by (simp add: ecmult_context_build_def Let_def h_def)
qed

end

end
