(* ===== verification/Ecmult_Gen_Correct.thy ===== *)
theory Ecmult_Gen_Correct
  imports Ecmult_Gen Ecmult_Correct
begin

text \<open>
  \<open>ecmult_gen\<close> computes \<open>gn * G\<close> from a blinded table: row \<open>j\<close> holds \<open>i * 16^j * G + U j\<close>, the
  offsets \<open>U\<close> cancel over all rows, and the initial point cancels the scalar blinding.
\<close>

section \<open>The context\<close>

definition gej_full :: "(nat \<Rightarrow> 'fe \<Rightarrow> bool) \<Rightarrow> 'fe gej \<Rightarrow> bool" where
  "gej_full mag a \<longleftrightarrow> mag 8 (gej_x a) \<and> mag 8 (gej_y a) \<and> mag 8 (gej_z a)"

definition gen_table_ok ::
  "('fe, 'st) field_ops \<Rightarrow> (nat \<Rightarrow> 'fe \<Rightarrow> bool) \<Rightarrow> ('fe \<Rightarrow> fp) \<Rightarrow> 'st ge_storage list list \<Rightarrow> (nat \<Rightarrow> cpt) \<Rightarrow> bool" where
  "gen_table_ok F mag fval prec U \<longleftrightarrow> (\<Sum>j<64. U j) = 0 \<and>
     (\<forall>j < 64. \<forall>i < 16. ge_at mag fval 1 (ge_from_storage F (prec ! j ! i))
        (cpt_pt (zmul (int i * 16 ^ j) gen + U j)))"

definition gen_ctx_ok ::
  "('fe, 'st) field_ops \<Rightarrow> (nat \<Rightarrow> 'fe \<Rightarrow> bool) \<Rightarrow> ('fe \<Rightarrow> fp) \<Rightarrow> ('s \<Rightarrow> nat) \<Rightarrow> ('fe, 'st, 's) ecmult_gen_context \<Rightarrow> bool" where
  "gen_ctx_ok F mag fval sval ctx \<longleftrightarrow>
     (\<exists>prec U. gen_prec ctx = Some prec \<and> gen_table_ok F mag fval prec U) \<and>
     sval (gen_blind ctx) < group_order \<and> gej_wf mag fval (gen_initial ctx) \<and> gej_full mag (gen_initial ctx) \<and>
     gej_pt fval (gen_initial ctx) = cpt_pt (- zmul (int (sval (gen_blind ctx))) gen)"

section \<open>Digits and selection\<close>

lemma select_loop:
  "foldl (\<lambda>s i. if i = b then t i else s) s [0..<m] = (if b < m then t b else s)"
  by (induction m) (auto simp: less_Suc_eq)

lemma radix16_sum: "(\<Sum>k<m. (v div 16 ^ k mod 16) * 16 ^ k) = v mod 16 ^ m" for v :: nat
proof (induction m)
  case (Suc m)
  have "v mod 16 ^ Suc m = 16 ^ m * (v div 16 ^ m mod 16) + v mod 16 ^ m"
    by (simp only: power_Suc2 mod_mult2_eq)
  then show ?case using Suc by simp
qed simp

context ec_impl
begin

lemma add_ge_full:
  assumes "gej_full mag a" "ge_at mag fval T b Q"
  shows "gej_full mag (gej_add_ge F a b)"
proof -
  have a: "rep 8 (fval (gej_x a)) (gej_x a)" "rep 8 (fval (gej_y a)) (gej_y a)" "rep 8 (fval (gej_z a)) (gej_z a)"
    and b: "rep 8 (fval (ge_x b)) (ge_x b)" "rep 8 (fval (ge_y b)) (ge_y b)"
    using assms by (simp_all add: gej_full_def ge_at_def rep_def)
  note r = add_ge_rep [OF a b refl refl refl refl refl refl refl]
  have "mag 8 (gej_z (gej_add_ge F a b))" by (rule mag_mono [OF rep_mag [OF r(3)]]) simp_all
  then show ?thesis unfolding gej_full_def by (intro conjI rep_mag [OF r(1)] rep_mag [OF r(2)])
qed

lemma gen_get_bits:
  assumes "j < 64"
  shows "unat (sc_get_bits S a (j * 4) 4) = sval a div 16 ^ j mod 16"
proof -
  have "(j * 4 + 4 - 1) div 32 = j * 4 div 32"
  proof -
    have e: "j * 4 = 32 * (j div 8) + 4 * (j mod 8)" by presburger
    have "j mod 8 < 8" by simp
    then show ?thesis unfolding e by simp
  qed
  moreover have "j * 4 + 4 \<le> 256" using assms by simp
  ultimately have "unat (sc_get_bits S a (j * 4) 4) = sval a div 2 ^ (j * 4) mod 2 ^ 4" by (intro get_bits_law) simp_all
  moreover have "(2 :: nat) ^ (j * 4) = 16 ^ j" by (simp add: mult.commute [of j] power_mult)
  ultimately show ?thesis by simp
qed

lemma storage_cmov_ge: "ge_storage_cmov F r a (of_bool c) = (if c then a else r)"
  by (simp add: ge_storage_cmov_def storage_cmov_law)

lemma ecmult_gen_law:
  assumes ctx: "gen_ctx_ok F mag fval sval ctx" and gn: "sval gn < group_order"
  shows "gej_wf mag fval (ecmult_gen F S ctx gn) \<and> gej_full mag (ecmult_gen F S ctx gn) \<and>
    gej_pt fval (ecmult_gen F S ctx gn) = cpt_pt (zmul (int (sval gn)) gen)"
proof -
  obtain prec U where p: "gen_prec ctx = Some prec" and U: "(\<Sum>j<64. U j) = 0"
    and t: "\<And>j i. j < 64 \<Longrightarrow> i < 16 \<Longrightarrow> ge_at mag fval 1 (ge_from_storage F (prec ! j ! i)) (cpt_pt (zmul (int i * 16 ^ j) gen + U j))"
    using ctx unfolding gen_ctx_ok_def gen_table_ok_def by blast
  have bl: "sval (gen_blind ctx) < group_order" and ini: "gej_wf mag fval (gen_initial ctx)" "gej_full mag (gen_initial ctx)"
    "gej_pt fval (gen_initial ctx) = cpt_pt (- zmul (int (sval (gen_blind ctx))) gen)"
    using ctx unfolding gen_ctx_ok_def by blast+
  obtain gnb ov where add: "sc_add S gn (gen_blind ctx) = (gnb, ov)" by (rule prod.exhaust)
  have gnb: "sval gnb = (sval gn + sval (gen_blind ctx)) mod group_order" using sadd_law [OF gn bl add] by simp
  define dig where "dig j = sval gnb div 16 ^ j mod 16" for j
  define I where "I = (\<lambda>k (r, adds :: 'st ge_storage). gej_wf mag fval r \<and> gej_full mag r \<and>
      gej_pt fval r = cpt_pt (- zmul (int (sval (gen_blind ctx))) gen + (\<Sum>j<k. zmul (int (dig j) * 16 ^ j) gen + U j)))"
  let ?f = "\<lambda>(r, adds) j.
              let bits = unat (sc_get_bits S gnb (j * 4) 4);
                  adds = foldl (\<lambda>adds i. ge_storage_cmov F adds (prec ! j ! i) (of_bool (i = bits)))
                           adds [0..<16];
                  add = ge_from_storage F adds;
                  r = gej_add_ge F r add
              in (r, adds)"
  have "I 64 (foldl ?f (gen_initial ctx, ge_storage_zero F) [0..<64])"
  proof (rule foldl_upto)
    show "I 0 (gen_initial ctx, ge_storage_zero F)" using ini by (simp add: I_def)
    fix j s assume j: "j < 64" and s: "I j s"
    obtain r adds where ra: "s = (r, adds)" by (rule prod.exhaust)
    define b where "b = ge_from_storage F (prec ! j ! dig j)"
    have d: "dig j < 16" by (simp add: dig_def)
    have sel: "foldl (\<lambda>adds i. ge_storage_cmov F adds (prec ! j ! i) (of_bool (i = dig j))) adds [0..<16] = prec ! j ! dig j"
      unfolding storage_cmov_ge using select_loop [of "dig j" "\<lambda>i. prec ! j ! i" adds 16] d by simp
    have f: "?f s j = (gej_add_ge F r b, prec ! j ! dig j)"
      unfolding ra prod.case Let_def gen_get_bits [OF j] dig_def [symmetric] sel b_def ..
    have r: "gej_wf mag fval r" "gej_full mag r"
        "gej_pt fval r = cpt_pt (- zmul (int (sval (gen_blind ctx))) gen + (\<Sum>k<j. zmul (int (dig k) * 16 ^ k) gen + U k))"
      using s unfolding ra I_def by auto
    have b: "ge_at mag fval 1 b (cpt_pt (zmul (int (dig j) * 16 ^ j) gen + U j))" unfolding b_def by (rule t [OF j d])
    then have b': "ge_wf mag fval b" "\<not> ge_infinity b" "ge_pt fval b = cpt_pt (zmul (int (dig j) * 16 ^ j) gen + U j)"
      unfolding ge_at_one by blast+
    have m: "mag 8 (gej_x r)" "mag 8 (gej_y r)" "mag 8 (gej_z r)" using r(2) by (simp_all add: gej_full_def)
    show "I (Suc j) (?f s j)"
      using add_ge_pt [OF r(1) m b'(1,2)] add_ge_full [OF r(2) b]
      unfolding f I_def prod.case r(3) b'(3) cpt_pt_add [symmetric] by (simp only: sum.lessThan_Suc add.assoc simp_thms)
  qed simp
  moreover have "ecmult_gen F S ctx gn = fst (foldl ?f (gen_initial ctx, ge_storage_zero F) [0..<64])"
    unfolding ecmult_gen_def Let_def add fst_conv p option.sel by (simp only: split_def fst_conv)
  ultimately have r: "gej_wf mag fval (ecmult_gen F S ctx gn)" "gej_full mag (ecmult_gen F S ctx gn)"
    "gej_pt fval (ecmult_gen F S ctx gn)
      = cpt_pt (- zmul (int (sval (gen_blind ctx))) gen + (\<Sum>j<64. zmul (int (dig j) * 16 ^ j) gen + U j))"
    unfolding I_def by (simp_all add: split_def)
  have "(\<Sum>j<64. zmul (int (dig j) * 16 ^ j) gen + U j) = zmul (int (\<Sum>j<64. dig j * 16 ^ j)) gen"
    unfolding sum.distrib U zmul_sum [symmetric] by simp
  also have "(\<Sum>j<64. dig j * 16 ^ j) = sval gnb"
    unfolding dig_def radix16_sum using sval_less [of gnb] by simp
  also have "zmul (int (sval gnb)) gen = zmul (int (sval gn)) gen + zmul (int (sval (gen_blind ctx))) gen"
    unfolding gnb zmul_nat_mod by (simp only: of_nat_add zmul_add)
  finally have "- zmul (int (sval (gen_blind ctx))) gen + (\<Sum>j<64. zmul (int (dig j) * 16 ^ j) gen + U j)
      = zmul (int (sval gn)) gen" by simp
  then show ?thesis using r by simp
qed

end

end
