(* ===== verification/Ecdsa_Verify.thy ===== *)
theory Ecdsa_Verify
  imports Ecdsa_Correct Ecmult_Gen_Correct Recovery
begin

text \<open>
  Signatures as an equation between points: verification decides it, signing solves it, and
  recovery finds the key for which it holds.
\<close>

section \<open>The equation\<close>

text \<open>
  \<open>(r, s)\<close> signs \<open>m\<close> for the key \<open>Q\<close> when the point \<open>R\<close> with \<open>s * R = m * G + r * Q\<close> has the x
  coordinate \<open>r\<close> modulo the order.
\<close>

definition ecdsa_equation :: "nat \<Rightarrow> nat \<Rightarrow> nat \<Rightarrow> cpt \<Rightarrow> cpt \<Rightarrow> bool" where
  "ecdsa_equation r s m Q R \<longleftrightarrow> zmul (int s) R = zmul (int m) gen + zmul (int r) Q"

definition ecdsa_valid :: "nat \<Rightarrow> nat \<Rightarrow> nat \<Rightarrow> cpt \<Rightarrow> bool" where
  "ecdsa_valid r s m Q \<longleftrightarrow> r \<noteq> 0 \<and> s \<noteq> 0 \<and>
     (\<exists>R x y. ecdsa_equation r s m Q R \<and> cpt_pt R = Pt x y \<and> fp_mod_order x = r)"

text \<open>
  \<open>Q\<close> is the key the signature and its recovery id stand for: the id tells which point \<open>R\<close> is,
  by the size of its x coordinate and the parity of the other one.
\<close>

definition recid_point :: "nat \<Rightarrow> int \<Rightarrow> cpt \<Rightarrow> bool" where
  "recid_point r recid R \<longleftrightarrow> (\<exists>x y. cpt_pt R = Pt x y \<and>
     rep_fp x = int (if recid AND 2 \<noteq> 0 then r + group_order else r) \<and> (odd (rep_fp y) \<longleftrightarrow> recid AND 1 \<noteq> 0))"

definition ecdsa_recovers :: "nat \<Rightarrow> nat \<Rightarrow> int \<Rightarrow> nat \<Rightarrow> cpt \<Rightarrow> bool" where
  "ecdsa_recovers r s recid m Q \<longleftrightarrow> r \<noteq> 0 \<and> s \<noteq> 0 \<and> Q \<noteq> 0 \<and> (\<exists>R. recid_point r recid R \<and> ecdsa_equation r s m Q R)"

section \<open>Inverses\<close>

definition order_inv :: "nat \<Rightarrow> nat" where
  "order_inv s = s ^ (group_order - 2) mod group_order"

lemma order_inv_mult:
  assumes "0 < s" "s < group_order"
  shows "s * order_inv s mod group_order = 1"
proof -
  have "s * order_inv s mod group_order = s ^ Suc (group_order - 2) mod group_order"
    by (simp add: order_inv_def mod_mult_right_eq)
  also have "Suc (group_order - 2) = group_order - 1" by (simp add: group_order_def)
  also have "s ^ (group_order - 1) mod group_order = 1"
    by (rule fermat_little [OF group_order_prime]) (use assms in \<open>auto dest: dvd_imp_le\<close>)
  finally show ?thesis .
qed

text \<open>Multiples whose factor is a product with an inverse.\<close>

lemma zmul_int_cong: "j mod group_order = k mod group_order \<Longrightarrow> zmul (int j) (P :: cpt) = zmul (int k) P"
  by (rule zmul_mod) (simp only: ord_mod_nat [symmetric])

lemma zmul_nat_mult: "zmul (int (a * b)) (P :: cpt) = zmul (int a) (zmul (int b) P)"
  by (simp only: of_nat_mult zmul_mult)

lemma order_inv_cancel:
  assumes "0 < s" "s < group_order"
  shows "s * (order_inv s * k mod group_order) mod group_order = k mod group_order"
proof -
  have "s * (order_inv s * k mod group_order) mod group_order = (s * order_inv s mod group_order) * k mod group_order"
    by (simp add: mod_simps mult.assoc)
  then show ?thesis unfolding order_inv_mult [OF assms] by simp
qed

lemma zmul_order_inv:
  assumes "0 < s" "s < group_order"
  shows "zmul (int s) (zmul (int (order_inv s * k mod group_order)) (P :: cpt)) = zmul (int k) P"
  unfolding zmul_nat_mult [symmetric] by (rule zmul_int_cong [OF order_inv_cancel [OF assms]])

lemma zmul_negate: "v \<le> group_order \<Longrightarrow> zmul (int ((group_order - v) mod group_order)) (P :: cpt) = - zmul (int v) P"
  unfolding zmul_nat_mod by (simp only: of_nat_diff ord_def [symmetric] zmul_diff ord_zmul diff_0)

lemma zmul_cancel:
  assumes s: "0 < s" "s < group_order" and e: "zmul (int s) (P :: cpt) = zmul (int s) Q"
  shows "P = Q"
proof -
  have "zmul (int s) (P - Q) = 0" using e by (simp only: zmul_sub diff_self)
  moreover have "int s mod ord \<noteq> 0" using s by (simp add: ord_def)
  ultimately have "P - Q = 0" using zmul_eq_0D [OF ord_zmul] by blast
  then show ?thesis by simp
qed

text \<open>The point that verification computes is the one of the equation.\<close>

lemma verify_point:
  assumes s: "0 < s" "s < group_order"
  shows "zmul (int (order_inv s * r mod group_order)) Q + zmul (int (order_inv s * m mod group_order)) gen = R
    \<longleftrightarrow> ecdsa_equation r s m Q R" (is "?P = R \<longleftrightarrow> _")
proof -
  have "zmul (int s) ?P = zmul (int m) gen + zmul (int r) Q"
    by (simp only: zmul_plus zmul_order_inv [OF s] add.commute)
  then show ?thesis unfolding ecdsa_equation_def using zmul_cancel [OF s] by metis
qed

lemma ecdsa_equation_point_unique:
  "0 < s \<Longrightarrow> s < group_order \<Longrightarrow> ecdsa_equation r s m Q R \<Longrightarrow> ecdsa_equation r s m Q R' \<Longrightarrow> R = R'"
  using verify_point by metis

lemma ecdsa_equation_key_unique:
  assumes "0 < r" "r < group_order" "ecdsa_equation r s m Q R" "ecdsa_equation r s m Q' R"
  shows "Q = Q'"
proof -
  have "zmul (int r) Q = zmul (int r) Q'" using assms(3,4) unfolding ecdsa_equation_def by simp
  then show ?thesis by (rule zmul_cancel [OF assms(1,2)])
qed

text \<open>The point that recovery computes is the key of the equation.\<close>

lemma recover_point:
  assumes r: "0 < r" "r < group_order"
  shows "zmul (int (order_inv r * s mod group_order)) R - zmul (int (order_inv r * m mod group_order)) gen = Q
    \<longleftrightarrow> ecdsa_equation r s m Q R" (is "?P = Q \<longleftrightarrow> _")
proof -
  have p: "zmul (int r) ?P = zmul (int s) R - zmul (int m) gen"
    by (simp only: zmul_sub zmul_order_inv [OF r])
  show ?thesis
  proof
    assume "?P = Q"
    then show "ecdsa_equation r s m Q R" using p unfolding ecdsa_equation_def by (metis add_diff_cancel_left' diff_add_cancel add.commute)
  next
    assume "ecdsa_equation r s m Q R"
    then have "zmul (int r) ?P = zmul (int r) Q" unfolding p ecdsa_equation_def by simp
    then show "?P = Q" by (rule zmul_cancel [OF r])
  qed
qed

text \<open>The recovery id determines the point, and so the key.\<close>

lemma recid_point_unique:
  assumes "recid_point r recid R" "recid_point r recid R'"
  shows "R = R'"
proof -
  obtain x y x' y' where p: "cpt_pt R = Pt x y" "cpt_pt R' = Pt x' y'" and "rep_fp x = rep_fp x'"
    and y: "odd (rep_fp y) = odd (rep_fp y')"
    using assms unfolding recid_point_def by auto
  then have x: "x = x'" by (simp add: fp_eq_iff)
  have "on_curve (Pt x y)" "on_curve (Pt x y')" using cpt_on_curve [of R] cpt_on_curve [of R'] unfolding p x by blast+
  then have "y = y'" using y by (rule f52.same_parity_point)
  then show ?thesis using p x by (simp add: cpt_eq_iff)
qed

lemma ecdsa_recovers_unique:
  "ecdsa_recovers r s recid m Q \<Longrightarrow> ecdsa_recovers r s recid m Q' \<Longrightarrow> r < group_order \<Longrightarrow> Q = Q'"
  unfolding ecdsa_recovers_def using recid_point_unique ecdsa_equation_key_unique by blast

lemma ecdsa_recovers_valid:
  assumes "ecdsa_recovers r s recid m Q" "r < group_order"
  shows "ecdsa_valid r s m Q"
proof -
  obtain R x y where R: "ecdsa_equation r s m Q R" "cpt_pt R = Pt x y"
    and x: "rep_fp x = int (if recid AND 2 \<noteq> 0 then r + group_order else r)"
    using assms(1) unfolding ecdsa_recovers_def recid_point_def by blast
  have "fp_mod_order x = r" unfolding fp_mod_order_def x using assms(2) by simp
  then show ?thesis using assms(1) R unfolding ecdsa_valid_def ecdsa_recovers_def by blast
qed

section \<open>Solving the equation\<close>

lemma ecdsa_equation_neg:
  assumes "ecdsa_equation r s m Q R" "s < group_order"
  shows "ecdsa_equation r (group_order - s) m Q (- R)"
proof -
  have "zmul (int (group_order - s)) (- R) = zmul (int s - ord) R"
    using assms(2) by (simp only: ord_def of_nat_diff [OF less_imp_le] zmul_neg zmul_minus [symmetric] minus_diff_eq)
  also have "\<dots> = zmul (int s) R" by (simp only: zmul_diff ord_zmul diff_zero)
  finally show ?thesis using assms(1) unfolding ecdsa_equation_def by simp
qed

lemma sign_equation:
  assumes k: "0 < k" "k < group_order" and s: "s = order_inv k * (r * d + m) mod group_order"
  shows "ecdsa_equation r s m (zmul (int d) gen) (zmul (int k) gen)"
proof -
  have "zmul (int s) (zmul (int k) gen) = zmul (int (k * s)) gen"
    by (simp only: mult.commute [of k] zmul_nat_mult)
  also have "\<dots> = zmul (int (r * d + m)) gen"
    unfolding s by (rule zmul_int_cong [OF order_inv_cancel [OF k]])
  also have "\<dots> = zmul (int m) gen + zmul (int r) (zmul (int d) gen)"
    by (simp only: of_nat_add of_nat_mult zmul_add zmul_mult add.commute)
  finally show ?thesis unfolding ecdsa_equation_def .
qed

text \<open>The id that signing writes tells its point, or the negative of it when \<open>s\<close> is negated.\<close>

lemma recid_bits:
  "((if b then 2 else 0) + (if c then 1 else 0) :: int) AND 2 \<noteq> 0 \<longleftrightarrow> b"
  "((if b then 2 else 0) + (if c then 1 else 0) :: int) AND 1 \<noteq> 0 \<longleftrightarrow> c"
  by simp_all

lemma sign_recid:
  assumes R: "cpt_pt R = Pt x y" and r: "r = fp_mod_order x"
    and recid: "recid = (if int group_order \<le> rep_fp x then 2 else 0) + (if odd (rep_fp y) \<noteq> neg then 1 else 0)"
  shows "recid_point r recid (if neg then - R else R)"
proof -
  have "r < group_order" unfolding r fp_mod_order_def by simp
  from fp_mod_order_iff [OF this, of x] have x: "rep_fp x = int (if int group_order \<le> rep_fp x then r + group_order else r)"
    using r \<open>r < group_order\<close> by auto
  have "y \<noteq> 0" using cpt_on_curve [of R] on_curve_y_ne_0 unfolding R by blast
  then have "odd (rep_fp (- y)) \<longleftrightarrow> \<not> odd (rep_fp y)" using f52.rep_fp_minus_odd [of y] by simp
  then show ?thesis
    unfolding recid_point_def recid recid_bits using x R by (cases neg) (auto simp: cpt_pt_neg)
qed

section \<open>Verification\<close>

context ec_impl
begin

lemma inverse_var_order_inv: "sval (sc_inverse_var S a) = order_inv (sval a)"
  unfolding sc_inverse_var_def inverse_law order_inv_def ..

lemma sig_verify_law:
  assumes ctx: "ecmult_ctx_ok F mag fval ctx"
    and q: "ge_wf mag fval q" "\<not> ge_infinity q" "ge_pt fval q = cpt_pt Q"
    and l: "sval r < group_order" "sval s < group_order"
  shows "ecdsa_sig_verify F S ctx r s q m \<longleftrightarrow> ecdsa_valid (sval r) (sval s) (sval m) Q"
proof (cases "sval r = 0 \<or> sval s = 0")
  case True
  then show ?thesis by (auto simp: ecdsa_sig_verify_def ecdsa_valid_def sis_zero_law)
next
  case False
  then have s: "0 < sval s" "sval r \<noteq> 0" by simp_all
  define u1 where "u1 = sc_mul S (sc_inverse_var S s) m"
  define u2 where "u2 = sc_mul S (sc_inverse_var S s) r"
  have u: "sval u1 = order_inv (sval s) * sval m mod group_order" "sval u2 = order_inv (sval s) * sval r mod group_order"
    unfolding u1_def u2_def smul_law inverse_var_order_inv by simp_all
  then have ul: "sval u2 < group_order" "sval u1 < group_order" by simp_all
  define pr where "pr = ecmult F S ctx (gej_set_ge F q) u2 u1"
  define R where "R = zmul (int (sval u2)) Q + zmul (int (sval u1)) gen"
  have qj: "gej_wf mag fval (gej_set_ge F q)" "gej_pt fval (gej_set_ge F q) = cpt_pt Q" "\<not> gej_infinity (gej_set_ge F q)"
    using gej_set_ge_pt [OF q(1)] q(2,3) by (simp_all add: gej_set_ge_def)
  have pr: "gej_wf mag fval pr" "gej_pt fval pr = cpt_pt R"
    using ecmult_law [OF ctx qj(1,3,2) ul] unfolding pr_def R_def by blast+
  have R: "R = R' \<longleftrightarrow> ecdsa_equation (sval r) (sval s) (sval m) Q R'" for R'
    unfolding R_def u by (rule verify_point [OF s(1) l(2)])
  then have v: "ecdsa_valid (sval r) (sval s) (sval m) Q \<longleftrightarrow> (\<exists>x y. cpt_pt R = Pt x y \<and> fp_mod_order x = sval r)"
    using s unfolding ecdsa_valid_def R [symmetric] by auto
  have e: "ecdsa_sig_verify F S ctx r s q m \<longleftrightarrow> \<not> gej_infinity pr \<and> ecdsa_check_r F S r pr"
    using s unfolding ecdsa_sig_verify_def Let_def u1_def [symmetric] u2_def [symmetric] pr_def [symmetric]
    by (simp add: sis_zero_law gej_is_infinity_def)
  show ?thesis
  proof (cases "gej_infinity pr")
    case True
    then show ?thesis using e v pr(2) by (auto simp: gej_pt_def)
  next
    case False
    then obtain x y where p: "gej_pt fval pr = Pt x y" by (cases "gej_pt fval pr") (simp_all add: gej_pt_def jac_def)
    show ?thesis using e v False check_r_law [OF pr(1) False p l(1)] p pr(2) by auto
  qed
qed

section \<open>Signing\<close>

lemma sig_sign_recovers:
  assumes ctx: "gen_ctx_ok F mag fval sval ctx"
    and k: "0 < sval nonce" "sval nonce < group_order" and d: "0 < sval seckey" "sval seckey < group_order"
    and m: "sval message < group_order"
    and r: "ecdsa_sig_sign F S ctx seckey message nonce = (True, sigr, sigs, recid)" and r0: "sval sigr \<noteq> 0"
  shows "ecdsa_recovers (sval sigr) (sval sigs) recid (sval message) (zmul (int (sval seckey)) gen)"
    and "sval sigs \<le> group_order div 2" "sval sigr < group_order"
proof -
  define R where "R = zmul (int (sval nonce)) gen"
  have rp: "gej_wf mag fval (ecmult_gen F S ctx nonce)" "gej_pt fval (ecmult_gen F S ctx nonce) = cpt_pt R"
    using ecmult_gen_law [OF ctx k(2)] unfolding R_def by blast+
  have nz: "zmul (int j) gen \<noteq> 0" if "0 < j" "j < group_order" for j
    using zmul_gen_eq_iff [of "int j" 0] that by (simp add: ord_def)
  have "R \<noteq> 0" unfolding R_def by (rule nz [OF k])
  then obtain x y where xy: "cpt_pt R = Pt x y" by (cases "cpt_pt R") simp_all
  have ni: "\<not> gej_infinity (ecmult_gen F S ctx nonce)" using rp(2) xy by (auto simp: gej_pt_def)
  define s0 where "s0 = sval nonce ^ (group_order - 2) * (fp_mod_order x * sval seckey + sval message) mod group_order"
  note l = sig_sign_law [OF rp(1) ni rp(2) [unfolded xy] m r s0_def]
  have s0: "s0 = order_inv (sval nonce) * (sval sigr * sval seckey + sval message) mod group_order"
    unfolding s0_def l(1) order_inv_def by (simp add: mod_simps)
  note q = sign_equation [OF k s0, folded R_def]
  have s0l: "0 < s0" "s0 < group_order" using l(2) unfolding s0_def by simp_all
  define neg where "neg \<longleftrightarrow> group_order div 2 < s0"
  have sv: "sval sigs = (if neg then group_order - s0 else s0)" unfolding neg_def by (rule l(3))
  then have "ecdsa_equation (sval sigr) (sval sigs) (sval message) (zmul (int (sval seckey)) gen) (if neg then - R else R)"
    using q ecdsa_equation_neg [OF q s0l(2)] by simp
  moreover have "recid_point (sval sigr) recid (if neg then - R else R)"
    by (rule sign_recid [OF xy l(1)]) (use l(4) in \<open>simp add: neg_def\<close>)
  moreover have "sval sigs \<noteq> 0" using sv s0l by auto
  ultimately show "ecdsa_recovers (sval sigr) (sval sigs) recid (sval message) (zmul (int (sval seckey)) gen)"
    unfolding ecdsa_recovers_def using r0 nz [OF d] by blast
  show "sval sigs \<le> group_order div 2" unfolding l(3) by (split if_split, intro conjI impI) linarith+
  show "sval sigr < group_order" unfolding l(1) fp_mod_order_def by simp
qed

lemma sig_sign_recid:
  assumes ctx: "gen_ctx_ok F mag fval sval ctx" and k: "0 < sval nonce" "sval nonce < group_order"
    and m: "sval message < group_order"
    and r: "ecdsa_sig_sign F S ctx seckey message nonce = (ok, sigr, sigs, recid)"
  shows "0 \<le> recid \<and> recid \<le> 3"
proof -
  have rp: "gej_wf mag fval (ecmult_gen F S ctx nonce)" "gej_pt fval (ecmult_gen F S ctx nonce) = cpt_pt (zmul (int (sval nonce)) gen)"
    using ecmult_gen_law [OF ctx k(2)] by blast+
  have "zmul (int (sval nonce)) gen \<noteq> 0" using zmul_gen_eq_iff [of "int (sval nonce)" 0] k by (simp add: ord_def)
  then obtain x y where xy: "cpt_pt (zmul (int (sval nonce)) gen) = Pt x y" by (cases "cpt_pt (zmul (int (sval nonce)) gen)") simp_all
  have ni: "\<not> gej_infinity (ecmult_gen F S ctx nonce)" using rp(2) xy by (auto simp: gej_pt_def)
  show ?thesis using sig_sign_law(4) [OF rp(1) ni rp(2) [unfolded xy] m r refl] by simp
qed

section \<open>Recovery\<close>

text \<open>The x coordinate that the signature and the id stand for, when there is one.\<close>

lemma recover_x:
  assumes r: "sval sigr < group_order" and xr: "fe_set_b32 F (sc_get_b32 S sigr) = (b, fx)"
    and v: "v = (if two then sval sigr + group_order else sval sigr)"
    and fx': "fx' = (if two then fe_add F fx (ecdsa_const_order_as_fe F) else fx)"
  shows "two \<and> fe_cmp_var F fx (ecdsa_const_p_minus_order F) \<ge> 0 \<longleftrightarrow> nat field_prime \<le> v"
    and "v < nat field_prime \<Longrightarrow> mag 8 fx' \<and> rep_fp (fval fx') = int v"
proof -
  note s = scalar_as_fe [OF r xr]
  have c: "0 \<le> fe_cmp_var F fx (ecdsa_const_p_minus_order F) \<longleftrightarrow> p_minus_order \<le> sval sigr"
    unfolding cmp_law [OF s(2) p_minus_order_fe(1)] s(4) p_minus_order_fe(2) by (simp add: sgn_if)
  show "two \<and> fe_cmp_var F fx (ecdsa_const_p_minus_order F) \<ge> 0 \<longleftrightarrow> nat field_prime \<le> v"
    unfolding c v using r prime_order(1) by (cases two) auto
  assume l: "v < nat field_prime"
  have m: "mag 1 fx" "mag 8 fx" using nrm_mag [OF s(2)] mag_mono [of 1 fx 8] by simp_all
  have a: "mag 2 (fe_add F fx (ecdsa_const_order_as_fe F))"
    "fval (fe_add F fx (ecdsa_const_order_as_fe F)) = of_nat (sval sigr + group_order)"
    using add_law [OF m(1) nrm_mag [OF order_as_fe(1)]] by (simp_all add: s(3) order_as_fe(2) numeral_2_eq_2)
  show "mag 8 fx' \<and> rep_fp (fval fx') = int v"
    using l of_nat_fp_iff [OF l, of "fval fx'"] m(2) mag_mono [OF a(1), of 8] a(2) s(3) unfolding fx' v by (cases two) auto
qed

lemma sig_recover_law:
  assumes ctx: "ecmult_ctx_ok F mag fval ctx"
    and l: "sval r < group_order" "sval s < group_order" "sval m < group_order"
    and res: "ecdsa_sig_recover F S ctx r s pk m recid = (ok, q)"
  shows "ok \<longleftrightarrow> (\<exists>Q. ecdsa_recovers (sval r) (sval s) recid (sval m) Q)"
    and "ok \<Longrightarrow> ge_wf mag fval q \<and> \<not> ge_infinity q \<and> (\<exists>Q. ge_pt fval q = cpt_pt Q \<and> ecdsa_recovers (sval r) (sval s) recid (sval m) Q)"
proof -
  define v where "v = (if recid AND 2 \<noteq> 0 then sval r + group_order else sval r)"
  obtain b fx where xr: "fe_set_b32 F (sc_get_b32 S r) = (b, fx)" by (rule prod.exhaust)
  define fx' where "fx' = (if recid AND 2 \<noteq> 0 then fe_add F fx (ecdsa_const_order_as_fe F) else fx)"
  note x = recover_x [OF l(1) xr v_def fx'_def]
  obtain xok xg where xo: "ge_set_xo_var F fx' (recid AND 1 \<noteq> 0) = (xok, xg)" by (rule prod.exhaust)
  have P: "recid_point (sval r) recid R \<longleftrightarrow> (\<exists>x y. cpt_pt R = Pt x y \<and> rep_fp x = int v \<and> (odd (rep_fp y) \<longleftrightarrow> recid AND 1 \<noteq> 0))" for R
    unfolding recid_point_def v_def by (cases "recid AND 2 \<noteq> 0") simp_all
  define u1 where "u1 = sc_negate S (sc_mul S (sc_inverse_var S r) m)"
  define u2 where "u2 = sc_mul S (sc_inverse_var S r) s"
  define qj where "qj = ecmult F S ctx (gej_set_ge F xg) u2 u1"
  obtain q' qj' where qq: "ge_set_gej_var F pk qj = (q', qj')" by (rule prod.exhaust)
  have e: "(ok, q) = (if sval r = 0 \<or> sval s = 0 \<or> nat field_prime \<le> v \<or> \<not> xok then (False, pk) else (\<not> gej_infinity qj', q'))"
    unfolding res [symmetric] ecdsa_sig_recover_def Let_def xr prod.case x(1) fx'_def [symmetric] xo
      u1_def [symmetric] u2_def [symmetric] qj_def [symmetric] qq gej_is_infinity_def sis_zero_law by simp
  have "(ok \<longleftrightarrow> (\<exists>Q. ecdsa_recovers (sval r) (sval s) recid (sval m) Q)) \<and>
    (ok \<longrightarrow> ge_wf mag fval q \<and> \<not> ge_infinity q \<and> (\<exists>Q. ge_pt fval q = cpt_pt Q \<and> ecdsa_recovers (sval r) (sval s) recid (sval m) Q))"
  proof (cases "sval r = 0 \<or> sval s = 0 \<or> nat field_prime \<le> v")
    case True
    have "v < nat field_prime" if p: "recid_point (sval r) recid R" for R
    proof -
      obtain x where "rep_fp x = int v" using p unfolding P by blast
      then show ?thesis using rep_fp_range(2) [of x] by linarith
    qed
    then show ?thesis using e True unfolding ecdsa_recovers_def by auto
  next
    case False
    then have c: "sval r \<noteq> 0" "sval s \<noteq> 0" "0 < sval r" and vl: "v < nat field_prime" by simp_all
    have fx: "mag 8 fx'" "rep_fp (fval fx') = int v" using x(2) [OF vl] by simp_all
    then have fe: "z = fval fx' \<longleftrightarrow> rep_fp z = int v" for z by (auto simp: fp_eq_iff)
    note xl = ge_set_xo_var_law [OF fx(1) xo]
    show ?thesis
    proof (cases xok)
      case False
      have "\<not> recid_point (sval r) recid R" for R
        using xl(1) False cpt_on_curve [of R] fe unfolding P by metis
      then show ?thesis using e False c vl unfolding ecdsa_recovers_def by auto
    next
      case True
      note xw = xl(2) [OF True]
      define R where "R = Cpt (ge_pt fval xg)"
      have R: "ge_pt fval xg = cpt_pt R" using xw unfolding R_def by (subst Cpt_inverse) (auto simp: ge_wf_def ge_pt_def)
      have rp: "recid_point (sval r) recid R" unfolding P using xw fx(2) R [symmetric] by (auto simp: ge_pt_def)
      have xj: "gej_wf mag fval (gej_set_ge F xg)" "gej_pt fval (gej_set_ge F xg) = cpt_pt R" "\<not> gej_infinity (gej_set_ge F xg)"
        using gej_set_ge_pt [of xg] xw R by (simp_all add: gej_set_ge_def)
      define w where "w = order_inv (sval r) * sval m mod group_order"
      have u: "sval u2 = order_inv (sval r) * sval s mod group_order" "sval u1 = (group_order - w) mod group_order"
        unfolding u1_def u2_def w_def using snegate_law [of "sc_mul S (sc_inverse_var S r) m"]
        by (simp_all add: smul_law inverse_var_order_inv)
      then have ul: "sval u2 < group_order" "sval u1 < group_order" by simp_all
      define Q where "Q = zmul (int (sval u2)) R - zmul (int w) gen"
      have "w \<le> group_order" by (simp add: w_def less_imp_le)
      then have "zmul (int (sval u2)) R + zmul (int (sval u1)) gen = Q"
        unfolding Q_def u(2) by (simp only: zmul_negate diff_conv_add_uminus)
      then have qp: "gej_wf mag fval qj" "gej_pt fval qj = cpt_pt Q"
        using ecmult_law [OF ctx xj(1,3,2) ul] unfolding qj_def by simp_all
      have Q: "Q = Q' \<longleftrightarrow> ecdsa_equation (sval r) (sval s) (sval m) Q' R" for Q'
        unfolding Q_def u(1) w_def by (rule recover_point [OF c(3) l(1)])
      have rec: "ecdsa_recovers (sval r) (sval s) recid (sval m) Q' \<longleftrightarrow> Q' = Q \<and> Q \<noteq> 0" for Q'
        unfolding ecdsa_recovers_def using c rp Q [of Q'] recid_point_unique [OF rp] by blast
      have q': "ge_wf mag fval q'" "ge_pt fval q' = cpt_pt Q" "gej_pt fval qj' = cpt_pt Q"
        using ge_set_gej_pt [OF qp(1), of q' qj' pk] qq qp(2) by simp_all
      have i: "gej_infinity qj' \<longleftrightarrow> Q = 0"
        unfolding cpt_pt_eq_Infty [of Q, symmetric] q'(3) [symmetric] by (simp add: gej_pt_def jac_def)
      have i': "ge_infinity q' \<longleftrightarrow> Q = 0"
        unfolding cpt_pt_eq_Infty [of Q, symmetric] q'(2) [symmetric] by (simp add: ge_pt_def)
      show ?thesis using e c vl True q'(1,2) unfolding rec i by (auto simp: i')
    qed
  qed
  then show "ok \<longleftrightarrow> (\<exists>Q. ecdsa_recovers (sval r) (sval s) recid (sval m) Q)"
    "ok \<Longrightarrow> ge_wf mag fval q \<and> \<not> ge_infinity q \<and> (\<exists>Q. ge_pt fval q = cpt_pt Q \<and> ecdsa_recovers (sval r) (sval s) recid (sval m) Q)"
    by blast+
qed

end

end
