(* ===== verification/Ecmult_Blind.thy ===== *)
theory Ecmult_Blind
  imports Ecmult_Gen_Correct
begin

text \<open>
  Blinding the multiplication of the generator: whatever the random values, a context that computes
  multiples of \<open>G\<close> still does.
\<close>

definition rng_of :: "u8 list \<Rightarrow> rfc6979 \<Rightarrow> bool" where
  "rng_of seed rng \<longleftrightarrow> (\<exists>k. rng = rng_after hash_buf (rfc6979_initialize hash_buf seed) k)"

lemma rng_of_init: "rng_of seed (rfc6979_initialize hash_buf seed)"
  unfolding rng_of_def by (rule exI [of _ 0]) simp

lemma rng_of_next:
  assumes "rng_of seed rng" "length seed < 2 ^ 59" "rfc6979_generate hash_buf rng 32 = (rng', out)"
  shows "rng_of seed rng'" "length out = 32"
proof -
  obtain k where k: "rng = rng_after hash_buf (rfc6979_initialize hash_buf seed) k" using assms(1) by (auto simp: rng_of_def)
  have b: "length hash_buf = 64" by (simp add: hash_buf_def)
  have "rng' = rng_after hash_buf (rfc6979_initialize hash_buf seed) (Suc k)" using assms(3) k by simp
  then show "rng_of seed rng'" unfolding rng_of_def by blast
  have "out = rfc_nonce seed k" using rng_after_spec [OF b assms(2), of k] assms(3) k by simp
  then show "length out = 32" by (simp add: rfc_nonce_def split_def Let_def)
qed

context ec_impl
begin

lemma draw_fe_law:
  assumes "gen_blind_draw_fe F rng = Some (rng', s)" "rng_of seed rng" "length seed < 2 ^ 59"
  shows "rng_of seed rng' \<and> mag 8 s \<and> fval s \<noteq> 0"
proof -
  have "rng_of seed rng \<longrightarrow> rng_of seed (fst r) \<and> mag 8 (snd r) \<and> fval (snd r) \<noteq> 0" if "gen_blind_draw_fe F rng = Some r" for r
  proof (rule gen_blind_draw_fe.raw_induct [where P = "\<lambda>F' rng r. F' = F \<longrightarrow> rng_of seed rng \<longrightarrow>
      rng_of seed (fst r) \<and> mag 8 (snd r) \<and> fval (snd r) \<noteq> 0", THEN mp, OF _ that refl])
    fix f :: "('fe, 'st) field_ops \<Rightarrow> rfc6979 \<Rightarrow> (rfc6979 \<times> 'fe) option" and F' rng r
    assume IH: "\<And>F' rng r. f F' rng = Some r \<Longrightarrow> F' = F \<longrightarrow> rng_of seed rng \<longrightarrow>
        rng_of seed (fst r) \<and> mag 8 (snd r) \<and> fval (snd r) \<noteq> 0"
      and e: "(let (rng, nonce32) = rfc6979_generate hash_buf rng 32; (ok, s) = fe_set_b32 F' nonce32; retry = \<not> ok;
            retry = retry \<or> fe_is_zero F' s in if retry then f F' rng else Some (rng, s)) = Some r"
    show "F' = F \<longrightarrow> rng_of seed rng \<longrightarrow> rng_of seed (fst r) \<and> mag 8 (snd r) \<and> fval (snd r) \<noteq> 0"
    proof (intro impI)
      assume F': "F' = F" and rng: "rng_of seed rng"
      obtain rng1 out where g: "rfc6979_generate hash_buf rng 32 = (rng1, out)" by (rule prod.exhaust)
      note n = rng_of_next [OF rng assms(3) g]
      obtain ok s where s: "fe_set_b32 F out = (ok, s)" by (rule prod.exhaust)
      note l = set_b32_law [OF n(2) s]
      show "rng_of seed (fst r) \<and> mag 8 (snd r) \<and> fval (snd r) \<noteq> 0"
      proof (cases "\<not> ok \<or> fe_is_zero F s")
        case True
        then have "f F rng1 = Some r" using e by (simp add: g s F')
        then show ?thesis using IH n(1) by blast
      next
        case False
        then have "r = (rng1, s)" using e by (simp add: g s F')
        then show ?thesis using False n(1) l is_zero_law [of s] mag_mono [of 1 s 8] by simp
      qed
    qed
  qed
  then show ?thesis using assms(1,2) by fastforce
qed

lemma draw_scalar_law:
  assumes "gen_blind_draw_scalar S rng = Some (rng', b)" "rng_of seed rng" "length seed < 2 ^ 59"
  shows "sval b < group_order \<and> sval b \<noteq> 0"
proof -
  have "rng_of seed rng \<longrightarrow> sval (snd r) < group_order \<and> sval (snd r) \<noteq> 0" if "gen_blind_draw_scalar S rng = Some r" for r
  proof (rule gen_blind_draw_scalar.raw_induct [where P = "\<lambda>S' rng r. S' = S \<longrightarrow> rng_of seed rng \<longrightarrow>
      sval (snd r) < group_order \<and> sval (snd r) \<noteq> 0", THEN mp, OF _ that refl])
    fix f :: "'s scalar_ops \<Rightarrow> rfc6979 \<Rightarrow> (rfc6979 \<times> 's) option" and S' rng r
    assume IH: "\<And>S' rng r. f S' rng = Some r \<Longrightarrow> S' = S \<longrightarrow> rng_of seed rng \<longrightarrow> sval (snd r) < group_order \<and> sval (snd r) \<noteq> 0"
      and e: "(let (rng, nonce32) = rfc6979_generate hash_buf rng 32; (b, retry) = sc_set_b32 S' nonce32;
            retry = retry \<or> sc_is_zero S' b in if retry then f S' rng else Some (rng, b)) = Some r"
    show "S' = S \<longrightarrow> rng_of seed rng \<longrightarrow> sval (snd r) < group_order \<and> sval (snd r) \<noteq> 0"
    proof (intro impI)
      assume S': "S' = S" and rng: "rng_of seed rng"
      obtain rng1 out where g: "rfc6979_generate hash_buf rng 32 = (rng1, out)" by (rule prod.exhaust)
      note n = rng_of_next [OF rng assms(3) g]
      obtain b ov where s: "sc_set_b32 S out = (b, ov)" by (rule prod.exhaust)
      note l = sset_b32_law [OF n(2) s]
      show "sval (snd r) < group_order \<and> sval (snd r) \<noteq> 0"
      proof (cases "ov \<or> sc_is_zero S b")
        case True
        then have "f S rng1 = Some r" using e by (simp add: g s S')
        then show ?thesis using IH n(1) by blast
      next
        case False
        then have "r = (rng1, b)" using e by (simp add: g s S')
        then have "snd r = b" by simp
        with False l sis_zero_law [of b] show ?thesis by auto
      qed
    qed
  qed
  then show ?thesis using assms(1,2) by fastforce
qed

lemma rescale_full:
  assumes "gej_full mag a" "mag 8 s"
  shows "gej_full mag (gej_rescale F a s)"
proof -
  have r: "rep 8 (fval (gej_x a)) (gej_x a)" "rep 8 (fval (gej_y a)) (gej_y a)" "rep 8 (fval (gej_z a)) (gej_z a)" "rep 8 (fval s) s"
    using assms by (simp_all add: gej_full_def rep_def)
  have "rep 8 (fval (gej_x a) * fval s ^ 2) (gej_x (gej_rescale F a s))"
    "rep 8 (fval (gej_y a) * fval s ^ 2 * fval s) (gej_y (gej_rescale F a s))"
    "rep 8 (fval (gej_z a) * fval s) (gej_z (gej_rescale F a s))"
    by ((simp add: gej_rescale_def Let_def, rule rep_weaken, (rule rep_rules r | (simp; fail))+)[1])+
  then show ?thesis unfolding gej_full_def using rep_mag by blast
qed

text \<open>
  The function needs a table and, when it is given a seed, a valid context; without one it starts
  from \<open>-G\<close> and the blinding value 1.
\<close>

lemma gen_start_ok:
  assumes p: "gen_prec ctx = Some prec" "gen_table_ok F mag fval prec U"
  shows "gen_ctx_ok F mag fval sval (ctx \<lparr> gen_initial := gej_neg F (gej_set_ge F (ge_const_g F)), gen_blind := sc_set_int S 1 \<rparr>)"
proof -
  let ?g = "gej_set_ge F (ge_const_g F)"
  have g: "ge_wf mag fval (ge_const_g F)" "\<not> ge_infinity (ge_const_g F)" "ge_pt fval (ge_const_g F) = gen_pt"
    using ge_const_g_law by simp_all
  have gj: "gej_wf mag fval ?g" "gej_pt fval ?g = cpt_pt gen" "\<not> gej_infinity ?g"
    using gej_set_ge_pt [OF g(1)] g(2,3) by (simp_all add: gej_set_ge_def)
  note n = gej_neg_pt [OF gj(1)]
  have ni: "\<not> gej_infinity (gej_neg F ?g)" using gj(3) by (simp add: gej_neg_def)
  have f: "gej_full mag (gej_neg F ?g)" using n ni by (auto simp: gej_full_def gej_wf_def)
  have one: "sval (sc_set_int S 1) = 1" by (simp add: sset_int_law)
  show ?thesis
    unfolding gen_ctx_ok_def using p n f gj(2) by (auto simp: one cpt_pt_neg)
qed

lemma ecmult_gen_blind_law:
  assumes ctx: "if seed = None then (\<exists>prec U. gen_prec ctx = Some prec \<and> gen_table_ok F mag fval prec U)
      else gen_ctx_ok F mag fval sval ctx"
    and r: "ecmult_gen_blind F S ctx seed = Some ctx'"
  shows "gen_ctx_ok F mag fval sval ctx'"
proof -
  define c0 where "c0 = (if seed = None
      then ctx \<lparr> gen_initial := gej_neg F (gej_set_ge F (ge_const_g F)), gen_blind := sc_set_int S 1 \<rparr> else ctx)"
  have c0: "gen_ctx_ok F mag fval sval c0" using ctx gen_start_ok unfolding c0_def by (auto split: if_splits)
  define key where "key = (case seed of None \<Rightarrow> sc_get_b32 S (gen_blind c0) | Some sd \<Rightarrow> sc_get_b32 S (gen_blind c0) @ take 32 sd)"
  have key: "length key < 2 ^ 59" unfolding key_def using sget_b32_law [of "gen_blind c0"] by (auto split: option.splits)
  obtain rng s where d1: "gen_blind_draw_fe F (rfc6979_initialize hash_buf key) = Some (rng, s)"
    using r unfolding ecmult_gen_blind_def Let_def c0_def [symmetric] key_def [symmetric] by (auto split: bind_splits)
  obtain rng' b where d2: "gen_blind_draw_scalar S rng = Some (rng', b)"
    using r unfolding ecmult_gen_blind_def Let_def c0_def [symmetric] key_def [symmetric] d1 by (auto split: bind_splits)
  define c1 where "c1 = c0 \<lparr> gen_initial := gej_rescale F (gen_initial c0) s \<rparr>"
  have c': "ctx' = c1 \<lparr> gen_blind := sc_negate S b, gen_initial := ecmult_gen F S c1 b \<rparr>"
    using r unfolding ecmult_gen_blind_def Let_def c0_def [symmetric] key_def [symmetric] d1 c1_def by (simp add: d2)
  note s = draw_fe_law [OF d1 rng_of_init key]
  have b: "sval b < group_order" using draw_scalar_law [OF d2 _ key] s by blast
  obtain prec U where p: "gen_prec c0 = Some prec" "gen_table_ok F mag fval prec U" using c0 unfolding gen_ctx_ok_def by blast
  have i: "gej_wf mag fval (gen_initial c0)" "gej_full mag (gen_initial c0)" "sval (gen_blind c0) < group_order"
    "gej_pt fval (gen_initial c0) = cpt_pt (- zmul (int (sval (gen_blind c0))) gen)"
    using c0 unfolding gen_ctx_ok_def by blast+
  have c1: "gen_ctx_ok F mag fval sval c1"
    unfolding gen_ctx_ok_def c1_def using p i s gej_rescale_pt [OF i(1)] rescale_full [OF i(2)] by auto
  note m = ecmult_gen_law [OF c1 b]
  have nb: "int (sval (sc_negate S b)) mod ord = (- int (sval b)) mod ord"
    unfolding snegate_law [OF b] using b by (simp add: ord_mod_nat of_nat_diff ord_def)
  then have "zmul (int (sval (sc_negate S b))) gen = - zmul (int (sval b)) gen"
    using zmul_mod [OF nb, of gen] by (simp add: zmul_minus)
  moreover have "sval (sc_negate S b) < group_order" unfolding snegate_law [OF b] by simp
  ultimately show ?thesis
    unfolding gen_ctx_ok_def c' using m p by (auto simp: c1_def)
qed

end

end
