(* ===== verification/Ecmult_Const_Correct.thy ===== *)
theory Ecmult_Const_Correct
  imports Ecmult_Const Ecmult_Gen_Correct Wnaf_Const
begin

text \<open>
  \<open>ecmult_const\<close> returns the multiple of the point: both halves of the scalar run through the same
  number of odd digits with the constant-time addition, and the skew that made them odd is taken
  back at the end.
\<close>

section \<open>Sums of digits of several bits\<close>

definition radix_sum :: "nat \<Rightarrow> nat \<Rightarrow> (nat \<Rightarrow> cpt) \<Rightarrow> nat \<Rightarrow> cpt" where
  "radix_sum w m c k = (\<Sum>i<m - k. zmul (2 ^ (w * i)) (c (k + i)))"

lemma radix_sum_step:
  assumes "k < m"
  shows "radix_sum w m c k = zmul (2 ^ w) (radix_sum w m c (Suc k)) + c k"
proof -
  have "m - k = Suc (m - Suc k)" using assms by simp
  then have "radix_sum w m c k = c k + (\<Sum>i<m - Suc k. zmul (2 ^ (w * Suc i)) (c (k + Suc i)))"
    unfolding radix_sum_def by (simp only: sum.lessThan_Suc_shift) simp
  also have "(\<Sum>i<m - Suc k. zmul (2 ^ (w * Suc i)) (c (k + Suc i))) = zmul (2 ^ w) (radix_sum w m c (Suc k))"
    unfolding radix_sum_def zmul_sum_right by (simp add: zmul_mult power_add)
  finally show ?thesis by (simp add: algebra_simps)
qed

lemma radix_sum_last: "radix_sum w (Suc m) c m = c m"
  by (simp add: radix_sum_def)

lemma radix_sum_digits: "radix_sum w (length ws) (\<lambda>i. zmul (ws ! i) P) 0 = zmul (radix_value w ws) P"
  unfolding radix_sum_def radix_value_def zmul_sum by (simp add: mult.commute flip: zmul_mult)

lemma radix_sum_plus: "radix_sum w m (\<lambda>i. c i + d i) k = radix_sum w m c k + radix_sum w m d k"
  by (simp add: radix_sum_def zmul_plus sum.distrib)

context ec_impl
begin

section \<open>Points whose coordinates are always readable\<close>

text \<open>The constant-time addition reads the coordinates of the point at infinity too.\<close>

definition gej_on :: "fp \<Rightarrow> 'fe gej \<Rightarrow> cpt \<Rightarrow> bool" where
  "gej_on T a P \<longleftrightarrow> gej_at mag fval T a (cpt_pt P) \<and> gej_full mag a"

lemma gej_on_one: "gej_on 1 a P \<longleftrightarrow> gej_wf mag fval a \<and> gej_full mag a \<and> gej_pt fval a = cpt_pt P"
  unfolding gej_on_def gej_at_one by blast

lemma add_ge_on:
  assumes a: "gej_on B a P" and b: "ge_at mag fval B b (cpt_pt Q)" and B: "B \<noteq> 0"
  shows "gej_on B (gej_add_ge F a b) (P + Q)"
proof -
  have full: "gej_full mag a" and at: "gej_at mag fval B a (cpt_pt P)" using a by (simp_all add: gej_on_def)
  obtain x2 y2 where b': "rep 8 (x2 * B ^ 2) (ge_x b)" "rep 8 (y2 * B ^ 3) (ge_y b)" "cpt_pt Q = Pt x2 y2" "on_curve (Pt x2 y2)"
    using b B by (rule ge_atE)
  define Z where "Z = fval (gej_z a)"
  define T where "T = fval (gej_x a) + x2 * B ^ 2 * Z ^ 2"
  define M0 where "M0 = fval (gej_y a) + y2 * B ^ 3 * Z ^ 3"
  define R0 where "R0 = T ^ 2 - fval (gej_x a) * (x2 * B ^ 2 * Z ^ 2)"
  define deg where "deg = (M0 = 0 \<and> R0 = 0)"
  define R where "R = (if deg then 2 * fval (gej_y a) else R0)"
  define M where "M = (if deg then fval (gej_x a) - x2 * B ^ 2 * Z ^ 2 else M0)"
  define N where "N = (if deg then M0 else M ^ 4)"
  have ra: "rep 8 (fval (gej_x a)) (gej_x a)" "rep 8 (fval (gej_y a)) (gej_y a)" "rep 8 Z (gej_z a)"
    using full by (simp_all add: rep_def Z_def gej_full_def)
  note r = add_ge_rep [OF ra b'(1,2) T_def M0_def R0_def deg_def R_def M_def N_def]
  have "gej_at mag fval B (gej_add_ge F a b) (cpt_pt (P + Q))"
  proof (cases "gej_infinity a")
    case True
    then have P: "P = 0" using at by (simp add: gej_at_def)
    have "jac (x2 * B ^ 2) (y2 * B ^ 3) (1 * B) = cpt_pt Q" unfolding b'(3) using B by (simp add: jac_def)
    then show ?thesis
      using True r b' P by (intro gej_atI [OF r(1,2,3)]) simp_all
  next
    case False
    obtain X1 Y1 Z1 x y where x1: "rep 8 X1 (gej_x a)" "rep 8 Y1 (gej_y a)" "rep 8 Z1 (gej_z a)" "Z1 \<noteq> 0"
      and xy: "cpt_pt P = Pt x y" "on_curve (Pt x y)" "X1 = x * (Z1 * B) ^ 2" "Y1 = y * (Z1 * B) ^ 3"
      using at False B by (rule gej_atE)
    have Z1: "Z1 = Z" using x1(3) by (simp add: rep_def Z_def)
    have W: "Z * B \<noteq> 0" using x1(4) B Z1 by simp
    have e: "fval (gej_x a) = x * (Z * B) ^ 2" "fval (gej_y a) = y * (Z * B) ^ 3"
      "x2 * B ^ 2 * Z ^ 2 = x2 * (Z * B) ^ 2" "y2 * B ^ 3 * Z ^ 3 = y2 * (Z * B) ^ 3"
      using x1(1,2) xy(3,4) Z1 by (simp_all add: rep_def power_mult_distrib mult_ac)
    have c: "y ^ 2 = x ^ 3 + 7" "y2 ^ 2 = x2 ^ 3 + 7" using xy(2) b'(4) by simp_all
    note j = jac_unified [OF c W e(1,3,2,4) T_def M0_def R0_def deg_def R_def M_def N_def]
    have s: "cpt_pt (P + Q) = pt_add (Pt x y) (Pt x2 y2)" unfolding cpt_pt_add xy(1) b'(3) ..
    show ?thesis
    proof (cases "Z * M = 0")
      case True
      then have "Z * B * M = 0" by auto
      then have "cpt_pt (P + Q) = Infty" using j unfolding s by simp
      moreover have "gej_infinity (gej_add_ge F a b)" using r(4) False True by simp
      ultimately show ?thesis by (simp add: gej_at_infinity)
    next
      case nz: False
      then have "Z * B * M \<noteq> 0" using B by simp
      then have "jac (4 * (R ^ 2 - T * M ^ 2)) (- (4 * ((2 * (R ^ 2 - T * M ^ 2) - T * M ^ 2) * R + N))) (2 * (Z * M) * B) = cpt_pt (P + Q)"
        using j unfolding s by (simp add: mult_ac)
      then show ?thesis using r False nz by (intro gej_atI [OF r(1,2,3)]) simp_all
    qed
  qed
  then show ?thesis unfolding gej_on_def using add_ge_full [OF full b] by blast
qed

lemma double_on:
  assumes a: "gej_on B a P" and B: "B \<noteq> 0"
  shows "gej_on B (fst (gej_double_nonzero F a a False)) (zmul 2 P)"
proof -
  obtain d z where d: "gej_double_var F a a False = (d, z)" by (rule prod.exhaust)
  have at: "gej_at mag fval B a (cpt_pt P)" and f: "gej_full mag a" using a by (simp_all add: gej_on_def)
  have "gej_full mag d"
  proof (cases "gej_infinity a")
    case True
    then show ?thesis using d f by (auto simp: gej_double_var_def gej_full_def)
  next
    case False
    have ra: "rep 8 (fval (gej_x a)) (gej_x a)" "rep 8 (fval (gej_y a)) (gej_y a)" "rep 8 (fval (gej_z a)) (gej_z a)"
      using f by (simp_all add: rep_def gej_full_def)
    note r = double_rep [OF ra False d]
    show ?thesis unfolding gej_full_def
      using mag_mono [OF rep_mag [OF r(1)]] mag_mono [OF rep_mag [OF r(2)]] mag_mono [OF rep_mag [OF r(3)]] by simp
  qed
  moreover have "gej_at mag fval B d (cpt_pt (zmul 2 P))" using double_at [OF at B d] by (simp add: zmul_2 cpt_pt_add)
  ultimately show ?thesis unfolding gej_on_def gej_double_nonzero_def d by simp
qed

lemma doubles_on:
  assumes "gej_on B a P" "B \<noteq> 0"
  shows "gej_on B (((\<lambda>r. fst (gej_double_nonzero F r r False)) ^^ n) a) (zmul (2 ^ n) P)"
proof (induction n)
  case (Suc n)
  have "zmul (2 ^ Suc n) P = zmul 2 (zmul (2 ^ n) P)" by (simp add: zmul_mult)
  then show ?case using double_on [OF Suc assms(2)] by simp
qed (use assms in simp)

lemma set_ge_on:
  assumes "ge_at mag fval B b (cpt_pt P)"
  shows "gej_on B (gej_set_ge F b) P"
proof -
  have b: "rep 8 (fval (ge_x b)) (ge_x b)" "rep 8 (fval (ge_y b)) (ge_y b)" "\<not> ge_infinity b"
    "cpt_pt P = jac (fval (ge_x b)) (fval (ge_y b)) B"
    using assms by (simp_all add: ge_at_def rep_def)
  have o: "rep 1 1 (fe_set_int F 1)" using rep_set_int [of 1] by simp
  have "gej_at mag fval B (gej_set_ge F b) (cpt_pt P)"
    by (rule gej_atI [of 8 "fval (ge_x b)" _ 8 "fval (ge_y b)" 1 1, OF _ _ _ _ _ _ _ _ _ cpt_on_curve])
      (use b o in \<open>simp_all add: gej_set_ge_def\<close>)
  moreover have "gej_full mag (gej_set_ge F b)"
    using rep_mag [OF b(1)] rep_mag [OF b(2)] mag_mono [OF rep_mag [OF o], of 8] by (simp add: gej_full_def gej_set_ge_def)
  ultimately show ?thesis by (simp add: gej_on_def)
qed

section \<open>Reading an entry in constant time\<close>

lemma const_select_loop:
  "foldl (\<lambda>r i. r \<lparr> ge_x := if int i = int j then f i else ge_x r, ge_y := if int i = int j then g i else ge_y r \<rparr>) r [0..<m]
    = (if j < m then r \<lparr> ge_x := f j, ge_y := g j \<rparr> else r)"
  by (induction m) (auto simp: less_Suc_eq)

lemma ge_atI:
  "on_curve P \<Longrightarrow> \<not> ge_infinity b \<Longrightarrow> mag 8 (ge_x b) \<Longrightarrow> mag 8 (ge_y b)
    \<Longrightarrow> jac (fval (ge_x b)) (fval (ge_y b)) T = P \<Longrightarrow> ge_at mag fval T b P"
  unfolding ge_at_def by blast

lemma ge_at_same:
  "ge_at mag fval T b P \<Longrightarrow> \<not> ge_infinity b' \<Longrightarrow> mag 8 (ge_x b') \<Longrightarrow> mag 8 (ge_y b')
    \<Longrightarrow> fval (ge_x b') = fval (ge_x b) \<Longrightarrow> fval (ge_y b') = fval (ge_y b) \<Longrightarrow> ge_at mag fval T b' P"
  by (rule ge_atI) (simp_all only: ge_at_def, blast+)

lemma ge_atD: "ge_at mag fval T b P \<Longrightarrow> \<not> ge_infinity b \<and> mag 8 (ge_x b) \<and> mag 8 (ge_y b)"
  by (simp add: ge_at_def)

lemma const_table_get_at:
  assumes t: "\<forall>j < ecmult_table_size w. ge_at mag fval T (pre ! j) (odd_pt A j) \<and> mag 1 (ge_y (pre ! j))"
    and d: "odd d" "\<bar>d\<bar> < 2 * int (ecmult_table_size w)"
  shows "ge_at mag fval T (ecmult_const_table_get_ge F r pre d w) (cpt_pt (zmul d A))"
proof -
  define j where "j = nat (\<bar>d\<bar> div 2)"
  have j: "\<bar>d\<bar> div 2 = int j" "j < ecmult_table_size w" using d by (simp_all add: j_def)
  have od: "\<bar>d\<bar> = 2 * int j + 1" using d(1) j(1) by presburger
  have ab: "d * (of_bool (0 < d) * 2 - 1) = \<bar>d\<bar>" using d(1) by auto
  define b where "b = r \<lparr> ge_x := ge_x (pre ! j), ge_y := ge_y (pre ! j), ge_infinity := False \<rparr>"
  have e: "ecmult_const_table_get_ge F r pre d w = (if d < 0 then b \<lparr> ge_y := fe_negate F (ge_y b) 1 \<rparr> else b)"
    unfolding ecmult_const_table_get_ge_def Let_def ab j(1) cmov_law const_select_loop b_def using j(2) by auto
  have p: "ge_at mag fval T (pre ! j) (cpt_pt (zmul \<bar>d\<bar> A))" "mag 1 (ge_y (pre ! j))"
    using t j(2) unfolding odd_pt_def od by blast+
  have b: "ge_at mag fval T b (cpt_pt (zmul \<bar>d\<bar> A))" "rep 1 (fval (ge_y b)) (ge_y b)"
    using ge_at_same [OF p(1), of b] ge_atD [OF p(1)] p(2) by (simp_all add: b_def rep_def)
  show ?thesis
  proof (cases "d < 0")
    case True
    have "rep 2 (- fval (ge_y b)) (fe_negate F (ge_y b) 1)" by (rule rep_weaken, (rule rep_rules b | (simp; fail))+)
    then have n: "mag 8 (fe_negate F (ge_y b) 1)" "fval (fe_negate F (ge_y b) 1) = - fval (ge_y b)"
      using mag_mono [of 2 _ 8] by (simp_all add: rep_def)
    have "zmul \<bar>d\<bar> A = - zmul d A" using True by (simp add: zmul_minus)
    with b(1) have m: "ge_at mag fval T b (cpt_pt (- zmul d A))" by simp
    have "cpt_pt (zmul d A) = pt_neg (cpt_pt (- zmul d A))" unfolding cpt_pt_neg [symmetric] by simp
    also have "cpt_pt (- zmul d A) = jac (fval (ge_x b)) (fval (ge_y b)) T" using m unfolding ge_at_def by blast
    finally have "cpt_pt (zmul d A) = pt_neg (jac (fval (ge_x b)) (fval (ge_y b)) T)" .
    then show ?thesis using True n ge_atD [OF m] unfolding e by (intro ge_atI [OF cpt_on_curve]) (simp_all add: jac_neg)
  next
    case False
    then show ?thesis using b(1) unfolding e by simp
  qed
qed

text \<open>The tables: \<open>A\<close> with y coordinates of magnitude 1, and the same with the x coordinates moved.\<close>

lemma const_tables:
  assumes t: "\<forall>j < ecmult_table_size window_a. ge_at mag fval T (pre ! j) (odd_pt A j)" "length pre = ecmult_table_size window_a"
  defines "pre' \<equiv> map (\<lambda>p. p \<lparr> ge_y := fe_normalize_weak F (ge_y p) \<rparr>) pre"
  shows "\<forall>j < ecmult_table_size window_a. ge_at mag fval T (pre' ! j) (odd_pt A j) \<and> mag 1 (ge_y (pre' ! j))"
    and "\<forall>j < ecmult_table_size window_a.
      ge_at mag fval T (map (ge_mul_lambda F) pre' ! j) (odd_pt (endo A) j) \<and> mag 1 (ge_y (map (ge_mul_lambda F) pre' ! j))"
proof -
  have one: "ge_at mag fval T (pre' ! j) (odd_pt A j) \<and> mag 1 (ge_y (pre' ! j))" if j: "j < ecmult_table_size window_a" for j
  proof -
    have p: "ge_at mag fval T (pre ! j) (odd_pt A j)" using t(1) j by blast
    have e: "pre' ! j = (pre ! j) \<lparr> ge_y := fe_normalize_weak F (ge_y (pre ! j)) \<rparr>" using j t(2) by (simp add: pre'_def)
    have "rep 8 (fval (ge_y (pre ! j))) (ge_y (pre ! j))" using p by (simp add: ge_at_def rep_def)
    then have "rep 1 (fval (ge_y (pre ! j))) (fe_normalize_weak F (ge_y (pre ! j)))"
      by - (rule rep_weaken, (rule rep_rules | assumption | (simp; fail))+)
    then have n: "mag 1 (ge_y (pre' ! j))" "fval (ge_y (pre' ! j)) = fval (ge_y (pre ! j))" unfolding e by (simp_all add: rep_def)
    have "ge_at mag fval T (pre' ! j) (odd_pt A j)"
      by (rule ge_at_same [OF p]) (use ge_atD [OF p] n mag_mono [OF n(1), of 8] in \<open>simp_all add: e\<close>)
    with n(1) show ?thesis by blast
  qed
  then show "\<forall>j < ecmult_table_size window_a. ge_at mag fval T (pre' ! j) (odd_pt A j) \<and> mag 1 (ge_y (pre' ! j))" by blast
  have l: "length pre' = ecmult_table_size window_a" using t(2) by (simp add: pre'_def)
  have y: "ge_y (ge_mul_lambda F b) = ge_y b" for b by (simp add: ge_mul_lambda_def Let_def)
  show "\<forall>j < ecmult_table_size window_a.
      ge_at mag fval T (map (ge_mul_lambda F) pre' ! j) (odd_pt (endo A) j) \<and> mag 1 (ge_y (map (ge_mul_lambda F) pre' ! j))"
    using one l mul_lambda_at unfolding odd_pt_def by (simp add: y endo_zmul [symmetric])
qed

section \<open>Correction of the skew\<close>

lemma storage_at:
  assumes "ge_at mag fval 1 b P"
  shows "ge_at mag fval 1 (ge_from_storage F (ge_to_storage F b)) P"
proof -
  have b: "mag 8 (ge_x b)" "mag 8 (ge_y b)" "\<not> ge_infinity b" "ge_pt fval b = P" "on_curve P"
    using assms by (auto simp: ge_at_def ge_pt_def jac_one)
  note r = ge_storage_roundtrip [OF b(1-3)]
  have i: "\<not> ge_infinity (ge_from_storage F (ge_to_storage F b))" by (simp add: ge_from_storage_def)
  show ?thesis
    by (rule ge_atI [OF b(5) i]) (use r b(4) i mag_mono [OF nrm_mag, of _ 8] in \<open>auto simp: ge_pt_def jac_one\<close>)
qed

lemma const_skew_law:
  assumes a: "ge_at mag fval 1 a (cpt_pt A)" "A \<noteq> 0" and r: "gej_on 1 r P"
    and k: "k = 1 \<or> k = 2" and l: "l = 1 \<or> l = 2"
  shows "gej_on 1 (ecmult_const_skew F a k l r) (P - zmul k A - zmul l (endo A))"
proof -
  have aw: "ge_wf mag fval a" "\<not> ge_infinity a" "ge_pt fval a = cpt_pt A" using a(1) unfolding ge_at_one by blast+
  define t where "t = gej_set_ge F a"
  obtain t2 z where t2: "gej_double_var F t t False = (t2, z)" by (rule prod.exhaust)
  obtain c c' where c: "ge_set_gej F t2 = (c, c')" by (rule prod.exhaust)
  have t: "gej_wf mag fval t" "gej_pt fval t = cpt_pt A" using gej_set_ge_pt [OF aw(1)] aw(3) by (simp_all add: t_def)
  note d = double_pt [OF t(1) t2]
  have "ge_wf mag fval c" and cp: "ge_pt fval c = cpt_pt (zmul 2 A)"
    using ge_set_gej_pt [of t2 c c'] c d by (simp_all add: t(2) zmul_2 cpt_pt_add)
  moreover have "zmul 2 A \<noteq> 0" using small_multiple [OF a(2), of 2] by (simp add: ord_num)
  then have "cpt_pt (zmul 2 A) \<noteq> Infty" by simp
  then have "\<not> ge_infinity c" using cp by (auto simp: ge_pt_def simp del: cpt_pt_eq_Infty)
  ultimately have c2: "ge_at mag fval 1 c (cpt_pt (zmul 2 A))" unfolding ge_at_one by blast
  define cor where "cor m = ge_neg F (ge_from_storage F (ge_storage_cmov F (ge_to_storage F a) (ge_to_storage F c) (of_bool (m = 2))))"
    for m :: int
  have cor: "ge_at mag fval 1 (cor m) (cpt_pt (- zmul m A))" if "m = 1 \<or> m = 2" for m
    unfolding cor_def cpt_pt_neg
    by (rule ge_neg_at) (use that storage_at [OF a(1)] storage_at [OF c2] in \<open>auto simp: storage_cmov_ge\<close>)
  have e: "ecmult_const_skew F a k l r = gej_add_ge F (gej_add_ge F r (cor k)) (ge_mul_lambda F (cor l))"
    unfolding ecmult_const_skew_def Let_def t_def [symmetric] t2 fst_conv c cor_def ..
  have "endo (- zmul l A) = - zmul l (endo A)" unfolding zmul_minus [symmetric] endo_zmul ..
  with mul_lambda_at [OF cor [OF l]] have m: "ge_at mag fval 1 (ge_mul_lambda F (cor l)) (cpt_pt (- zmul l (endo A)))" by simp
  show ?thesis
    using add_ge_on [OF add_ge_on [OF r cor [OF k]] m] unfolding e by simp
qed

section \<open>The multiplication\<close>

lemma const_loop_on:
  assumes T: "T \<noteq> 0" and r: "gej_on T r (radix_sum (window_a - 1) (Suc sz) c sz)"
    and g1: "\<And>i t. i < sz \<Longrightarrow> ge_at mag fval T (ecmult_const_table_get_ge F t pa (w1 ! i) window_a) (cpt_pt (d1 i))"
    and g2: "\<And>i t. i < sz \<Longrightarrow> ge_at mag fval T (ecmult_const_table_get_ge F t pl (w2 ! i) window_a) (cpt_pt (d2 i))"
    and c: "\<And>i. i < sz \<Longrightarrow> c i = d1 i + d2 i"
  shows "gej_on T (fst (foldl (\<lambda>(r, tmpa) i.
              let r = ((\<lambda>r. fst (gej_double_nonzero F r r False)) ^^ (window_a - 1)) r;
                  tmpa = ecmult_const_table_get_ge F tmpa pa (w1 ! i) window_a;
                  r = gej_add_ge F r tmpa;
                  tmpa = ecmult_const_table_get_ge F tmpa pl (w2 ! i) window_a;
                  r = gej_add_ge F r tmpa
              in (r, tmpa)) (r, t) (rev [0..<sz]))) (radix_sum (window_a - 1) (Suc sz) c 0)"
proof -
  let ?f = "\<lambda>(r, tmpa) i.
              let r = ((\<lambda>r. fst (gej_double_nonzero F r r False)) ^^ (window_a - 1)) r;
                  tmpa = ecmult_const_table_get_ge F tmpa pa (w1 ! i) window_a;
                  r = gej_add_ge F r tmpa;
                  tmpa = ecmult_const_table_get_ge F tmpa pl (w2 ! i) window_a;
                  r = gej_add_ge F r tmpa
              in (r, tmpa)"
  have "(\<lambda>i s. gej_on T (fst s) (radix_sum (window_a - 1) (Suc sz) c i)) 0 (foldl ?f (r, t) (rev [0..<sz]))"
  proof (rule foldl_downto)
    fix i and s :: "'fe gej \<times> 'fe ge"
    assume i: "i < sz" and s: "gej_on T (fst s) (radix_sum (window_a - 1) (Suc sz) c (Suc i))"
    obtain r t where rt: "s = (r, t)" by (rule prod.exhaust)
    note d = doubles_on [OF s [unfolded rt fst_conv] T, of "window_a - 1"]
    have "gej_on T (fst (?f s i)) (zmul (2 ^ (window_a - 1)) (radix_sum (window_a - 1) (Suc sz) c (Suc i)) + d1 i + d2 i)"
      unfolding rt prod.case Let_def fst_conv by (rule add_ge_on [OF add_ge_on [OF d g1 [OF i] T] g2 [OF i] T])
    then show "gej_on T (fst (?f s i)) (radix_sum (window_a - 1) (Suc sz) c i)"
      unfolding radix_sum_step [OF less_SucI [OF i]] c [OF i] by (simp only: add.assoc)
  qed (use r in simp_all)
  then show ?thesis .
qed

lemma const_digit:
  assumes "odd_digits (window_a - 1) ws" "i < length ws"
  shows "odd (ws ! i)" "\<bar>ws ! i\<bar> < 2 * int (ecmult_table_size window_a)"
  using assms nth_mem [OF assms(2)] unfolding odd_digits_def by (auto simp: ecmult_table_size_def)

lemma ecmult_const_law:
  assumes a: "ge_wf mag fval a" "\<not> ge_infinity a" "ge_pt fval a = cpt_pt A" and n: "sval n < group_order"
  shows "gej_on 1 (ecmult_const F S a n) (zmul (int (sval n)) A)"
proof -
  have a1: "ge_at mag fval 1 a (cpt_pt A)" unfolding ge_at_one using a by blast
  have "cpt_pt A \<noteq> Infty" using a(2,3) by (auto simp: ge_pt_def simp del: cpt_pt_eq_Infty)
  then have A: "A \<noteq> 0" by simp
  obtain n1 nl where sl: "sc_split_lambda S n = (n1, nl)" by (rule prod.exhaust)
  obtain k1 w1 where w1: "wnaf_const S n1 (window_a - 1) = (k1, w1)" by (rule prod.exhaust)
  obtain kl wl where wl: "wnaf_const S nl (window_a - 1) = (kl, wl)" by (rule prod.exhaust)
  note h = split_lambda_halves [OF n sl]
  have v: "int (sval s) = signed_value (sval s) mod int group_order" if "sval s < group_order" for s
    using that by (simp add: signed_value_def mod_pos_pos_trivial)
  have w: "2 \<le> window_a - 1" "window_a - 1 < 16" by simp_all
  note l1 = wnaf_const_law [OF h(1,3) v [OF h(1)] w w1] and ll = wnaf_const_law [OF h(2,4) v [OF h(2)] w wl]
  define sz where "sz = wnaf_size (window_a - 1)"
  have len: "length w1 = Suc sz" "length wl = Suc sz" using l1(1) ll(1) by (simp_all add: sz_def)
  let ?r = "gej_set_ge F a"
  have gj: "gej_wf mag fval ?r" "gej_pt fval ?r = cpt_pt A" "\<not> gej_infinity ?r"
    using gej_set_ge_pt [OF a(1)] a(2,3) by (simp_all add: gej_set_ge_def)
  obtain pre Z where g: "ecmult_odd_multiples_table_globalz_windowa F (replicate (ecmult_table_size window_a) (ge_clear F)) (fe_clear F) ?r = (pre, Z)"
    by (rule prod.exhaust)
  note t = globalz_table_law [OF gj(1,3,2) g length_replicate]
  define pa where "pa = map (\<lambda>p. p \<lparr> ge_y := fe_normalize_weak F (ge_y p) \<rparr>) pre"
  define pl where "pl = map (ge_mul_lambda F) pa"
  note tb = const_tables [OF t(1,4), folded pa_def, folded pl_def]
  define T where "T = fval Z"
  have T: "T \<noteq> 0" "rep 8 T Z" using t(2,3) by (simp_all add: T_def rep_def)
  define d1 where "d1 i = zmul (w1 ! i) A" for i
  define d2 where "d2 i = zmul (wl ! i) (endo A)" for i
  have g1: "ge_at mag fval T (ecmult_const_table_get_ge F q pa (w1 ! i) window_a) (cpt_pt (d1 i))" if "i < Suc sz" for i q
    unfolding T_def d1_def by (rule const_table_get_at [OF tb(1) const_digit [OF l1(2)]]) (use that len in simp_all)
  have g2: "ge_at mag fval T (ecmult_const_table_get_ge F q pl (wl ! i) window_a) (cpt_pt (d2 i))" if "i < Suc sz" for i q
    unfolding T_def d2_def by (rule const_table_get_at [OF tb(2) const_digit [OF ll(2)]]) (use that len in simp_all)
  define t0 where "t0 = ecmult_const_table_get_ge F (ge_clear F) pa (w1 ! sz) window_a"
  define t1 where "t1 = ecmult_const_table_get_ge F t0 pl (wl ! sz) window_a"
  define r0 where "r0 = gej_add_ge F (gej_set_ge F t0) t1"
  have r0: "gej_on T r0 (radix_sum (window_a - 1) (Suc sz) (\<lambda>i. d1 i + d2 i) sz)"
    unfolding r0_def radix_sum_last t0_def t1_def by (rule add_ge_on [OF set_ge_on [OF g1] g2 T(1)]) simp_all
  define res where "res = foldl (\<lambda>(r, tmpa) i.
              let r = ((\<lambda>r. fst (gej_double_nonzero F r r False)) ^^ (window_a - 1)) r;
                  tmpa = ecmult_const_table_get_ge F tmpa pa (w1 ! i) window_a;
                  r = gej_add_ge F r tmpa;
                  tmpa = ecmult_const_table_get_ge F tmpa pl (wl ! i) window_a;
                  r = gej_add_ge F r tmpa
              in (r, tmpa)) (r0, t1) (rev [0..<sz])"
  define P where "P = zmul (radix_value (window_a - 1) w1) A + zmul (radix_value (window_a - 1) wl) (endo A)"
  have "radix_sum (window_a - 1) (Suc sz) (\<lambda>i. d1 i + d2 i) 0 = P"
    unfolding P_def radix_sum_plus d1_def d2_def using radix_sum_digits [of _ w1 A] radix_sum_digits [of _ wl "endo A"] len by simp
  then have rT: "gej_on T (fst res) P"
    using const_loop_on [OF T(1) r0, of pa w1 d1 pl wl d2 t1] g1 g2 unfolding res_def by simp
  define r1 where "r1 = (fst res) \<lparr> gej_z := fe_mul F (gej_z (fst res)) Z \<rparr>"
  have r1: "gej_on 1 r1 P"
  proof -
    have f: "gej_full mag (fst res)" and at: "gej_at mag fval T (fst res) (cpt_pt P)" using rT by (simp_all add: gej_on_def)
    have z: "rep 8 (fval (gej_z (fst res))) (gej_z (fst res))" using f by (simp add: gej_full_def rep_def)
    have "rep 1 (fval (gej_z (fst res)) * T) (fe_mul F (gej_z (fst res)) Z)"
      by (rule rep_weaken, (rule rep_rules z T(2) | (simp; fail))+)
    then have zz: "mag 8 (gej_z r1)" "fval (gej_z r1) = fval (gej_z (fst res)) * T"
      using mag_mono [of 1 _ 8] by (simp_all add: r1_def rep_def)
    have i: "gej_infinity r1 = gej_infinity (fst res)" "gej_x r1 = gej_x (fst res)" "gej_y r1 = gej_y (fst res)" by (simp_all add: r1_def)
    have "gej_at mag fval 1 r1 (cpt_pt P)" using at T(1) zz unfolding gej_at_def i by simp
    moreover have "gej_full mag r1" using f zz(1) unfolding gej_full_def i by blast
    ultimately show ?thesis by (simp add: gej_on_def)
  qed
  have e: "ecmult_const F S a n = ecmult_const_skew F a k1 kl r1"
    unfolding ecmult_const_def sl w1 wl prod.case Let_def g pa_def [symmetric] pl_def [symmetric] sz_def [symmetric]
      t0_def [symmetric] t1_def [symmetric] r0_def [symmetric] res_def [unfolded Let_def, symmetric]
    by (simp add: r1_def split_def)
  have "P - zmul k1 A - zmul kl (endo A) = zmul (signed_value (sval n1)) A + zmul (signed_value (sval nl)) (endo A)"
    unfolding P_def l1(3) ll(3) zmul_add by simp
  also have "\<dots> = zmul (int (sval n)) A" by (rule h(5))
  finally show ?thesis using const_skew_law [OF a1 A r1 l1(4) ll(4)] unfolding e by simp
qed

end

end
