(* ===== verification/Secp256k1_Theorems.thy ===== *)
theory Secp256k1_Theorems
  imports Secp256k1_Keys Ecdsa_Verify Ecmult_Blind Ecmult_Const_Correct
begin

text \<open>
  The properties of the public functions that concern keys and signature objects, and the end of
  signature verification.
\<close>

interpretation ec52: ec_impl fe52_ops fe52_fval fe52_mag fe52_nrm sc64_ops sc64_val
  by (rule ec_impl.intro) (rule f52.field_impl_axioms, rule s64.scalar_impl_axioms)

section \<open>Public keys\<close>

text \<open>
  C15: secp256k1_ec_pubkey_parse accepts exactly the SEC 1 encodings of points of the curve:
  compressed, uncompressed and hybrid, with coordinates below the field prime and a consistent
  parity; the object then holds the one point the bytes stand for, otherwise it is zeroed.
\<close>

theorem ec_pubkey_parse_exact:
  "\<exists>obj. ec_pubkey_parse (Some old) (Some pub) = ([], (pubkey_accepted pub, Some obj)) \<and>
     (if pubkey_accepted pub then \<exists>P. pubkey_denotes pub P \<and> key_object obj P else obj = replicate 64 0)"
  by (rule ec_pubkey_parse_law)

text \<open>
  C16: every key object that holds a point survives serialising and parsing: the bytes
  secp256k1_ec_pubkey_serialize writes, in either form, are the SEC 1 encoding of the point, the rest
  of the buffer is zeroed or untouched, and parsing them gives an object that holds the same point.
\<close>

theorem ec_pubkey_serialize_parse:
  assumes "key_object obj P" "(if c then 33 else 65) \<le> n"
  shows "ec_pubkey_serialize (Some out) (Some n) (Some obj) (if c then 0x102 else 0x2) =
      ([], (True, Some (length (point_bytes c P)),
        Some (point_bytes c P @ replicate (n - length (point_bytes c P)) 0 @ drop n out)))
    \<and> (\<exists>obj'. ec_pubkey_parse (Some old) (Some (point_bytes c P)) = ([], (True, Some obj')) \<and> key_object obj' P)"
proof
  have P: "on_curve P" "P \<noteq> Infty" using assms(1) by (auto elim: key_objectE)
  note a = point_bytes_accepted [OF P, of c] and d = point_bytes_denote [OF P, of c]
  show "\<exists>obj'. ec_pubkey_parse (Some old) (Some (point_bytes c P)) = ([], (True, Some obj')) \<and> key_object obj' P"
    using ec_pubkey_parse_law [of old "point_bytes c P", unfolded eqTrueI [OF a] if_True] pubkey_denotes_unique [OF d]
    by blast
qed (rule ec_pubkey_serialize_law [OF assms])

lemma generator_object: "key_object (pubkey_save g52) gen_pt"
  using pubkey_load_save [OF g52(1,2)] unfolding g52(3) .

theorem ec_pubkey_serialize_parse_witness:
  "ec_pubkey_serialize (Some (replicate 33 7)) (Some 33) (Some (pubkey_save g52)) 0x102 =
     ([], (True, Some 33, Some (point_bytes True gen_pt)))"
proof -
  have l: "length (point_bytes True gen_pt) = 33" by (simp add: point_bytes_length gen_pt_def)
  show ?thesis
    using ec_pubkey_serialize_parse [OF generator_object, of True 33 "replicate 33 7", THEN conjunct1, unfolded l] by simp
qed

text \<open>
  secp256k1_ext_reencode_pubkey, the function Go converts keys with, maps an accepted encoding
  of a point to the encoding of the requested length of the same point, so converting twice is
  converting once; what it does not accept leaves the buffer alone.
\<close>

theorem ext_reencode_pubkey_converts:
  assumes "n = 33 \<or> n = 65" "length out = n" "pubkey_accepted pub" "pubkey_denotes pub P"
  shows "ext_reencode_pubkey (Some out) n pub = ([], (True, Some (point_bytes (n = 33) P)))
    \<and> ext_reencode_pubkey (Some out) n (point_bytes c P) = ([], (True, Some (point_bytes (n = 33) P)))"
proof
  show "ext_reencode_pubkey (Some out) n pub = ([], (True, Some (point_bytes (n = 33) P)))"
    by (rule reencode_law [OF assms])
  have P: "on_curve P" "P \<noteq> Infty" using pubkey_denotes_curve [OF assms(4)] by blast+
  show "ext_reencode_pubkey (Some out) n (point_bytes c P) = ([], (True, Some (point_bytes (n = 33) P)))"
    by (rule reencode_law [OF assms(1,2) point_bytes_accepted [OF P] point_bytes_denote [OF P]])
qed

theorem ext_reencode_pubkey_converts_witness:
  "ext_reencode_pubkey (Some (replicate 33 0)) 33 (point_bytes False gen_pt) = ([], (True, Some (point_bytes True gen_pt)))"
proof -
  have P: "on_curve gen_pt" "gen_pt \<noteq> Infty" by (rule gen_on_curve) (simp add: gen_pt_def)
  show ?thesis
    using ext_reencode_pubkey_converts [of 33 "replicate 33 0" "point_bytes False gen_pt" gen_pt]
      point_bytes_accepted [OF P, of False] point_bytes_denote [OF P, of False] by simp
qed

section \<open>Secret keys\<close>

text \<open>
  C34: the tweaks of a secret key: secp256k1_ec_privkey_tweak_add and secp256k1_ec_privkey_tweak_mul
  succeed exactly when the tweak is below the order and the resulting key (for the product: the tweak)
  is not zero; then they write the sum or the product modulo the order, otherwise they wipe the key.
\<close>

theorem ec_privkey_tweaks:
  assumes "length k = 32" "length t = 32"
  shows "(let x = (be_nat k + be_nat t) mod group_order; ok = (be_nat t < group_order \<and> x \<noteq> 0)
      in ec_privkey_tweak_add (Some k) (Some t) = ([], (ok, Some (if ok then nat_be 32 x else replicate 32 0))))
    \<and> (let x = be_nat k * be_nat t mod group_order; ok = (be_nat t < group_order \<and> be_nat t \<noteq> 0)
      in ec_privkey_tweak_mul (Some k) (Some t) = ([], (ok, Some (if ok then nat_be 32 x else replicate 32 0))))"
  unfolding Let_def using privkey_tweak_add_law [OF assms] privkey_tweak_mul_law [OF assms] by blast

theorem ec_privkey_tweaks_witness:
  "ec_privkey_tweak_add (Some (nat_be 32 5)) (Some (nat_be 32 (group_order - 5))) = ([], (False, Some (replicate 32 0)))
   \<and> ec_privkey_tweak_mul (Some (nat_be 32 5)) (Some (nat_be 32 7)) = ([], (True, Some (nat_be 32 35)))"
proof -
  have v: "be_nat (nat_be 32 5) = 5" "be_nat (nat_be 32 7) = 7"
    "be_nat (nat_be 32 (group_order - 5)) = group_order - 5"
    by (rule nat_be_32, simp add: group_order_def)+
  have l: "length (nat_be 32 x) = 32" for x by simp
  note t = ec_privkey_tweaks [OF l l, unfolded Let_def]
  show ?thesis
    using t [of 5 "group_order - 5", unfolded v] t [of 5 7, unfolded v] by (simp add: group_order_def)
qed

section \<open>Signature objects\<close>

text \<open>
  C38: secp256k1_ecdsa_signature_parse_compact accepts 64 bytes exactly when both numbers are below
  the order, serialising the object it fills gives the bytes back, and a rejected input leaves a
  zeroed object.
\<close>

theorem ecdsa_signature_compact_roundtrip:
  assumes "length bs = 64"
  shows "let ok = (be_nat (take 32 bs) < group_order \<and> be_nat (drop 32 bs) < group_order)
    in \<exists>obj. ecdsa_signature_parse_compact (Some old) (Some bs) = ([], (ok, Some obj)) \<and>
      (if ok then ecdsa_signature_serialize_compact (Some out) (Some obj) = ([], (True, Some bs)) else obj = replicate 64 0)"
proof -
  have l: "length (take 32 bs) = 32" "length (drop 32 bs) = 32" using assms by simp_all
  have "nat_be 32 (be_nat (take 32 bs)) @ nat_be 32 (be_nat (drop 32 bs)) = bs"
    using nat_be_be_nat [of "take 32 bs"] nat_be_be_nat [of "drop 32 bs"] unfolding l by simp
  then show ?thesis
    using signature_parse_compact_law [OF assms refl refl, of old] signature_serialize_compact_law [of out]
    unfolding Let_def by (metis (no_types, lifting))
qed

theorem ecdsa_signature_compact_roundtrip_witness:
  "\<exists>obj. ecdsa_signature_parse_compact (Some []) (Some (nat_be 32 5 @ nat_be 32 7)) = ([], (True, Some obj)) \<and>
     ecdsa_signature_serialize_compact (Some []) (Some obj) = ([], (True, Some (nat_be 32 5 @ nat_be 32 7)))"
proof -
  have l: "length (nat_be 32 5 @ nat_be 32 7) = 64" by simp
  have "take 32 (nat_be 32 5 @ nat_be 32 7) = nat_be 32 5" "drop 32 (nat_be 32 5 @ nat_be 32 7) = nat_be 32 7" by simp_all
  moreover have "be_nat (nat_be 32 5) < group_order" "be_nat (nat_be 32 7) < group_order"
    by (simp_all add: nat_be_32 group_order_def)
  ultimately show ?thesis
    using ecdsa_signature_compact_roundtrip [OF l, of "[]" "[]"] by (simp only: Let_def simp_thms if_True)
qed

lemma min_half: "min a (n - a) \<le> n div (2 :: nat)"
  by linarith

text \<open>
  secp256k1_ecdsa_signature_normalize replaces s by the smaller of s and its negative and
  reports whether it had to; normalising the result again changes nothing.
\<close>

theorem ecdsa_signature_normalize_low:
  assumes "ecdsa_signature_load sig = (r, s)" "sc64_val s < group_order"
  shows "\<exists>s'. ecdsa_signature_normalize (Some old) (Some sig) =
      ([], (group_order div 2 < sc64_val s, Some (ecdsa_signature_save r s')))
    \<and> sc64_val s' = min (sc64_val s) (group_order - sc64_val s) \<and> sc64_val s' \<le> group_order div 2
    \<and> ecdsa_signature_normalize (Some old) (Some (ecdsa_signature_save r s')) = ([], (False, Some (ecdsa_signature_save r s')))"
proof -
  obtain s' where s': "ecdsa_signature_normalize (Some old) (Some sig) =
      ([], (group_order div 2 < sc64_val s, Some (ecdsa_signature_save r s')))"
    "sc64_val s' = min (sc64_val s) (group_order - sc64_val s)"
    using signature_normalize_law [OF assms] by blast
  have lo: "sc64_val s' \<le> group_order div 2" unfolding s'(2) by (rule min_half)
  moreover have "sc64_val s' < group_order" using lo by (rule le_less_trans) (simp add: group_order_def)
  then obtain s'' where n: "ecdsa_signature_normalize (Some old) (Some (ecdsa_signature_save r s')) =
      ([], (False, Some (ecdsa_signature_save r s'')))" "sc64_val s'' = sc64_val s'"
    using signature_normalize_law [of "ecdsa_signature_save r s'" r s' old] lo by (auto simp: min_def group_order_def)
  then have "s'' = s'" by (simp add: s64.sval_inj)
  ultimately show ?thesis using s' n(1) by blast
qed

theorem ecdsa_signature_normalize_low_witness:
  "\<exists>s'. ecdsa_signature_normalize (Some []) (Some (ecdsa_signature_save (Sc64 9 0 0 0) (sc64_negate (Sc64 5 0 0 0)))) =
     ([], (True, Some (ecdsa_signature_save (Sc64 9 0 0 0) s'))) \<and> sc64_val s' = 5"
proof -
  have v: "sc64_val (sc64_negate (Sc64 5 0 0 0)) = group_order - 5"
    using s64.snegate_law [of "Sc64 5 0 0 0"] by (simp add: group_order_def)
  have e: "group_order - 5 < group_order" "(group_order div 2 < group_order - 5) = True"
    "min (group_order - 5) (group_order - (group_order - 5)) = 5" by (simp_all add: group_order_def)
  show ?thesis
    using ecdsa_signature_normalize_low [OF signature_load_save, of "sc64_negate (Sc64 5 0 0 0)" "[]" "Sc64 9 0 0 0",
      unfolded v e(2,3), OF e(1)] by blast
qed

section \<open>The end of verification\<close>

text \<open>
  The comparison at the end of secp256k1_ecdsa_sig_verify, which avoids the inversion and tries
  the x coordinates r and r + order, decides whether r is the x coordinate of the point modulo the
  order.
\<close>

theorem ecdsa_check_r_exact:
  assumes "gej52_wf pr" "\<not> gej_infinity pr" "gej52_pt pr = Pt x y" "sc64_val sigr < group_order"
  shows "ecdsa_check_r fe52_ops sc64_ops sigr pr \<longleftrightarrow> nat (rep_fp x) mod group_order = sc64_val sigr"
  using ec52.check_r_law [OF assms] unfolding fp_mod_order_def .

theorem ecdsa_check_r_exact_witness: "\<not> ecdsa_check_r fe52_ops sc64_ops (Sc64 1 0 0 0) gj52"
proof -
  have "rep_fp (of_nat gen_x) = int gen_x" unfolding rep_fp_of_nat by (simp add: field_prime_def gen_x_def)
  then have x: "nat (rep_fp (of_nat gen_x)) mod group_order = gen_x" by (simp add: gen_x_def group_order_def)
  show ?thesis
    using ecdsa_check_r_exact [of gj52, OF _ gj52_mag(4) gj52(2) [unfolded gen_pt_def], of "Sc64 1 0 0 0"] gj52(1)
    unfolding x by (simp add: gen_x_def group_order_def)
qed

end
