(* ===== verification/Secp256k1_Signing.thy ===== *)
theory Secp256k1_Signing
  imports Secp256k1_Theorems
begin

text \<open>
  The loop of the signing functions over the attempts of the nonce function, and the guards of
  signing and verification.
\<close>

section \<open>Attempts\<close>

text \<open>One turn of the loop: \<open>None\<close> asks for another attempt, otherwise the outcome of the loop.\<close>

definition sign_attempt ::
  "(fe52, fe52_storage, sc64) ecmult_gen_context \<Rightarrow> bool \<times> u8 list \<Rightarrow> sc64 \<Rightarrow> sc64 \<Rightarrow> (sc64 \<times> sc64 \<times> int) option option" where
  "sign_attempt ctx nonce sec msg =
     (let (ret, nonce32) = nonce
      in if \<not> ret then Some None
         else if be_nat nonce32 = 0 \<or> group_order \<le> be_nat nonce32 then None
         else let (ok, r, s, recid) = ecdsa_sig_sign fe52_ops sc64_ops ctx sec msg (fst (sc_set_b32 sc64_ops nonce32))
              in if ok then Some (Some (r, s, recid)) else None)"

lemma sign_loop_step:
  assumes "length (snd (noncefp count)) = 32"
  shows "sign_loop ctx noncefp sec msg count =
    (case sign_attempt ctx (noncefp count) sec msg of
       None \<Rightarrow> sign_loop ctx noncefp sec msg (count + 1) | Some res \<Rightarrow> Some res)"
proof -
  obtain ret nonce32 where f: "noncefp count = (ret, nonce32)" by (rule prod.exhaust)
  obtain non ov where n: "sc_set_b32 sc64_ops nonce32 = (non, ov)" by (rule prod.exhaust)
  obtain ok r s recid where sg: "ecdsa_sig_sign fe52_ops sc64_ops ctx sec msg non = (ok, r, s, recid)"
    by (rule prod_cases4)
  have l: "length nonce32 = 32" using assms f by simp
  note v = s64.sset_b32_law [OF l n]
  have c: "(\<not> ov \<and> \<not> sc_is_zero sc64_ops non) = (\<not> (be_nat nonce32 = 0 \<or> group_order \<le> be_nat nonce32))"
    using v s64.sis_zero_law [of non] by auto
  show ?thesis
    unfolding sign_loop.simps [of ctx noncefp sec msg count] sign_attempt_def f n sg prod.case Let_def c fst_conv
    by simp
qed

lemma sign_loop_first:
  assumes "\<And>j. length (snd (noncefp j)) = 32" "\<And>j. j < k \<Longrightarrow> sign_attempt ctx (noncefp (count + of_nat j)) sec msg = None"
    "sign_attempt ctx (noncefp (count + of_nat k)) sec msg = Some res"
  shows "sign_loop ctx noncefp sec msg count = Some res"
  using assms(2,3)
proof (induction k arbitrary: count)
  case 0
  then show ?case by (simp add: sign_loop_step assms(1))
next
  case (Suc k)
  have "sign_attempt ctx (noncefp count) sec msg = None" using Suc.prems(1) [of 0] by simp
  moreover have "sign_attempt ctx (noncefp (count + 1 + of_nat j)) sec msg = None" if "j < k" for j
    using Suc.prems(1) [of "Suc j"] that by (simp add: add.assoc)
  then have "sign_loop ctx noncefp sec msg (count + 1) = Some res"
    using Suc.IH [of "count + 1"] Suc.prems(2) by (simp add: add.assoc)
  ultimately show ?case by (simp add: sign_loop_step assms(1))
qed

text \<open>
  C31: signing ends as soon as an attempt is decisive: if the nonce function gives zero, a number that
  is not below the order or a nonce whose signature has s = 0 on the first k attempts, and attempt k
  settles the matter, secp256k1_ecdsa_sign returns the signature of attempt k, or fails with a zeroed
  signature if the nonce function refuses there.
\<close>

theorem ecdsa_sign_first_attempt:
  assumes "ecmult_gen_context_is_built (ecmult_gen_ctx ctx)" "length key = 32" "0 < be_nat key" "be_nat key < group_order"
    and "sc_set_b32 sc64_ops key = (sec, o1)" "sc_set_b32 sc64_ops msg32 = (msg, o2)"
    and "\<And>j. length (snd (f msg32 key None data j)) = 32"
    and "\<And>j. j < k \<Longrightarrow> sign_attempt (ecmult_gen_ctx ctx) (f msg32 key None data (of_nat j)) sec msg = None"
    and "sign_attempt (ecmult_gen_ctx ctx) (f msg32 key None data (of_nat k)) sec msg = Some res"
  shows "ecdsa_sign ctx (Some sig) (Some msg32) (Some key) (Some f) data =
    Some ([], (case res of None \<Rightarrow> (False, Some (replicate 64 0)) | Some (r, s, recid) \<Rightarrow> (True, Some (ecdsa_signature_save r s))))"
proof -
  note v = s64.sset_b32_law [OF assms(2,5)]
  have k: "\<not> o1" "\<not> sc_is_zero sc64_ops sec" using v assms(3,4) s64.sis_zero_law [of sec] by simp_all
  have "sign_loop (ecmult_gen_ctx ctx) (f msg32 key None data) sec msg 0 = Some res"
    by (rule sign_loop_first [where k = k]) (simp_all add: assms(7-9))
  then have "sign_core ctx msg32 key (Some f) data = Some res"
    unfolding sign_core_def Let_def assms(5,6) prod.case option.case fst_conv using k by simp
  then show ?thesis
    using assms(1) by (simp add: ecdsa_sign_def split: option.splits)
qed

theorem ecdsa_sign_first_attempt_witness:
  "ecdsa_sign \<lparr> ecmult_ctx = ecmult_context_init, ecmult_gen_ctx = \<lparr> gen_prec = Some [], gen_blind = Sc64 0 0 0 0, gen_initial = gj52 \<rparr>,
       illegal_callback = Default_Illegal_Callback, error_callback = Default_Error_Callback \<rparr>
     (Some []) (Some (nat_be 32 1)) (Some (nat_be 32 2)) (Some (\<lambda>m k a d j. (j < 3, nat_be 32 0))) None
   = Some ([], (False, Some (replicate 64 0)))"
proof -
  define ctx where "ctx = \<lparr> ecmult_ctx = ecmult_context_init,
    ecmult_gen_ctx = \<lparr> gen_prec = Some [], gen_blind = Sc64 0 0 0 0, gen_initial = gj52 \<rparr>,
    illegal_callback = Default_Illegal_Callback, error_callback = Default_Error_Callback \<rparr>"
  define f :: nonce_function where "f = (\<lambda>m k a d j. (j < 3, nat_be 32 0))"
  obtain sec o1 where s: "sc_set_b32 sc64_ops (nat_be 32 2) = (sec, o1)" by (rule prod.exhaust)
  obtain msg o2 where m: "sc_set_b32 sc64_ops (nat_be 32 1) = (msg, o2)" by (rule prod.exhaust)
  have b: "be_nat (nat_be 32 2) = 2" "be_nat (nat_be 32 0) = 0" by (rule nat_be_32, simp)+
  have lt: "(of_nat j :: u32) < 3" if "j < 3" for j
  proof -
    have "j = 0 \<or> j = 1 \<or> j = 2" using that by linarith
    then show ?thesis by (elim disjE) simp_all
  qed
  have "sign_attempt (ecmult_gen_ctx ctx) (f (nat_be 32 1) (nat_be 32 2) None None (of_nat j)) sec msg = None" if "j < 3" for j
    using lt [OF that] b(2) by (simp add: sign_attempt_def f_def)
  moreover have "sign_attempt (ecmult_gen_ctx ctx) (f (nat_be 32 1) (nat_be 32 2) None None (of_nat 3)) sec msg = Some None"
    by (simp add: sign_attempt_def f_def)
  moreover have "ecmult_gen_context_is_built (ecmult_gen_ctx ctx)" by (simp add: ctx_def ecmult_gen_context_is_built_def)
  ultimately show ?thesis
    unfolding ctx_def [symmetric] f_def [symmetric]
    using ecdsa_sign_first_attempt [of ctx "nat_be 32 2" sec o1 "nat_be 32 1" msg o2 f None 3 None "[]"] s m b
    by (simp add: f_def group_order_def)
qed


section \<open>Guards\<close>

text \<open>
  C33: each of the six functions that test the secret key refuses one that is zero or not below the order.
  secp256k1_ec_seckey_verify returns 0; secp256k1_ecdsa_sign, secp256k1_ecdsa_sign_recoverable and
  secp256k1_ec_pubkey_create fail with a zeroed output, the signing functions whatever the nonce function is;
  secp256k1_ecdh and secp256k1_ext_scalar_mul fail and leave their output as it was.
\<close>

theorem invalid_seckey_refused:
  assumes "length key = 32" "be_nat key = 0 \<or> group_order \<le> be_nat key"
    and "ecmult_gen_context_is_built (ecmult_gen_ctx ctx)" "key_object obj P"
  shows "ec_seckey_verify (Some key) = ([], False)
    \<and> ecdsa_sign ctx (Some sig) (Some msg32) (Some key) f data = Some ([], (False, Some (replicate 64 0)))
    \<and> ecdsa_sign_recoverable ctx (Some rsig) (Some msg32) (Some key) f data = Some ([], (False, Some (replicate 65 0)))
    \<and> ec_pubkey_create ctx (Some old) (Some key) = ([], (False, Some (replicate 64 0)))
    \<and> ecdh (Some res) (Some obj) (Some key) = ([], (False, Some res))
    \<and> ext_scalar_mul (Some point) (Some key) = ([], (False, Some point))"
proof (intro conjI)
  obtain sec ov where s: "sc_set_b32 sc64_ops key = (sec, ov)" by (rule prod.exhaust)
  note v = s64.sset_b32_law [OF assms(1) s]
  have z: "(\<not> ov \<and> \<not> sc_is_zero sc64_ops sec) = False" "(ov \<or> sc_is_zero sc64_ops sec) = True"
    using v assms(2) s64.sis_zero_law [of sec] by auto
  have core: "sign_core ctx msg32 key f data = Some None" unfolding sign_core_def Let_def s prod.case z if_False ..
  show "ec_seckey_verify (Some key) = ([], False)"
    unfolding ec_seckey_verify_def arg_check_def Let_def option.sel s prod.case z by simp
  show "ecdsa_sign ctx (Some sig) (Some msg32) (Some key) f data = Some ([], (False, Some (replicate 64 0)))"
    using core assms(3) by (simp add: ecdsa_sign_def)
  show "ecdsa_sign_recoverable ctx (Some rsig) (Some msg32) (Some key) f data = Some ([], (False, Some (replicate 65 0)))"
    using core assms(3) by (simp add: ecdsa_sign_recoverable_def)
  show "ec_pubkey_create ctx (Some old) (Some key) = ([], (False, Some (replicate 64 0)))"
    unfolding ec_pubkey_create_def arg_check_def Let_def option.sel s prod.case z using assms(3) by simp
  obtain q where q: "pubkey_load obj = ([], (True, q))" using assms(4) by (auto elim: key_objectE)
  show "ecdh (Some res) (Some obj) (Some key) = ([], (False, Some res))"
    unfolding ecdh_def arg_check_def Let_def option.sel q api_bind_def s prod.case z by simp
  show "ext_scalar_mul (Some point) (Some key) = ([], (False, Some point))"
    unfolding ext_scalar_mul_def arg_check_def Let_def option.sel s prod.case z by simp
qed

theorem invalid_seckey_refused_witness:
  "ec_seckey_verify (Some (nat_be 32 group_order)) = ([], False)
    \<and> ext_scalar_mul (Some (replicate 64 1)) (Some (nat_be 32 group_order)) = ([], (False, Some (replicate 64 1)))"
  using invalid_seckey_refused [of "nat_be 32 group_order" "\<lparr> ecmult_ctx = ecmult_context_init,
      ecmult_gen_ctx = \<lparr> gen_prec = Some [], gen_blind = Sc64 0 0 0 0, gen_initial = gj52 \<rparr>,
      illegal_callback = Default_Illegal_Callback, error_callback = Default_Error_Callback \<rparr>",
      OF _ _ _ generator_object]
  by (simp add: nat_be_32 group_order_def ecmult_gen_context_is_built_def)

text \<open>
  Of a signature (r, s) and its malleated twin (r, -s) secp256k1_ecdsa_verify accepts at most
  one, whatever the message, the key and the table are: only s up to half of the order passes.
\<close>

theorem ecdsa_verify_not_malleable:
  "\<not> (snd (ecdsa_verify ctx (Some (ecdsa_signature_save r s)) m p)
    \<and> snd (ecdsa_verify ctx (Some (ecdsa_signature_save r (sc64_negate s))) m p))"
proof
  assume a: "snd (ecdsa_verify ctx (Some (ecdsa_signature_save r s)) m p)
    \<and> snd (ecdsa_verify ctx (Some (ecdsa_signature_save r (sc64_negate s))) m p)"
  have low: "\<not> sc_is_high sc64_ops s" "\<not> sc_is_zero sc64_ops s"
    if "snd (ecdsa_verify ctx (Some (ecdsa_signature_save r s)) m p)" for s
    using that by (auto simp: ecdsa_verify_def arg_check_def api_bind_def ecdsa_sig_verify_def Let_def
        split: if_splits prod.splits)
  have "\<not> group_order div 2 < sc64_val s" "sc64_val s \<noteq> 0" "\<not> group_order div 2 < sc64_val (sc64_negate s)"
    using low(1,2) [of s] low(1) [of "sc64_negate s"] a s64.sis_high_law [of s] s64.sis_high_law [of "sc64_negate s"]
      s64.sis_zero_law [of s] by simp_all
  moreover have "sc64_val s < group_order" using calculation(1) by (simp add: group_order_def)
  then have "sc64_val (sc64_negate s) = (group_order - sc64_val s) mod group_order" using s64.snegate_law [of s] by simp
  ultimately show False by (simp add: group_order_def)
qed

end
