(* ===== verification/Secp256k1_Points.thy ===== *)
theory Secp256k1_Points
  imports Secp256k1_Theorems
begin

text \<open>
  The public functions in terms of points of the curve: what they compute when the contexts are
  right and the key objects hold points.
\<close>

section \<open>Contexts\<close>

abbreviation verify_ctx_ok :: "secp256k1_context \<Rightarrow> bool" where
  "verify_ctx_ok ctx \<equiv> ecmult_ctx_ok fe52_ops fe52_mag fe52_fval (ecmult_ctx ctx)"

abbreviation sign_ctx_ok :: "secp256k1_context \<Rightarrow> bool" where
  "sign_ctx_ok ctx \<equiv> gen_ctx_ok fe52_ops fe52_mag fe52_fval sc64_val (ecmult_gen_ctx ctx)"

lemma verify_ctx_built: "verify_ctx_ok ctx \<Longrightarrow> ecmult_context_is_built (ecmult_ctx ctx)"
  by (auto simp: ecmult_ctx_ok_def ecmult_context_is_built_def)

lemma sign_ctx_built: "sign_ctx_ok ctx \<Longrightarrow> ecmult_gen_context_is_built (ecmult_gen_ctx ctx)"
  by (auto simp: gen_ctx_ok_def ecmult_gen_context_is_built_def)

section \<open>Key objects and points\<close>

text \<open>The object holds the point of the group.\<close>

definition key_of :: "u8 list \<Rightarrow> cpt \<Rightarrow> bool" where
  "key_of obj P \<longleftrightarrow> key_object obj (cpt_pt P)"

lemma key_ofE:
  assumes "key_of obj P"
  obtains q where "pubkey_load obj = ([], (True, q))" "ge52_wf q" "\<not> ge_infinity q" "ge52_pt q = cpt_pt P" "P \<noteq> 0"
  using assms unfolding key_of_def by (rule key_objectE) (use that in auto)

lemma key_ofI: "ge52_wf q \<Longrightarrow> \<not> ge_infinity q \<Longrightarrow> ge52_pt q = cpt_pt P \<Longrightarrow> key_of (pubkey_save q) P"
  unfolding key_of_def using pubkey_load_save [of q] by simp

lemma key_of_unique: "key_of obj P \<Longrightarrow> key_of obj Q \<Longrightarrow> P = Q"
  unfolding key_of_def using key_object_unique by (auto simp: cpt_eq_iff)

lemma key_of_Cpt: "key_object obj P \<Longrightarrow> key_of obj (Cpt P)"
  unfolding key_of_def by (subst Cpt_inverse) (auto elim: key_objectE)

lemma gej_affine_key:
  assumes "gej52_wf a" "gej52_pt a = cpt_pt P" "P \<noteq> 0"
  shows "key_of (pubkey_save (fst (ge_set_gej fe52_ops a))) P"
proof -
  obtain q a' where q: "ge_set_gej fe52_ops a = (q, a')" by (rule prod.exhaust)
  have w: "ge52_wf q" "ge52_pt q = cpt_pt P" using f52.ge_set_gej_pt [OF assms(1)] q assms(2) by auto
  have "cpt_pt P \<noteq> Infty" using assms(3) by simp
  then have "\<not> ge_infinity q" using w(2) by (auto simp: ge_pt_def simp del: cpt_pt_eq_Infty)
  from key_ofI [OF w(1) this w(2)] show ?thesis unfolding q by simp
qed

lemma gej_infinite_iff: "gej52_pt a = cpt_pt P \<Longrightarrow> gej_infinity a \<longleftrightarrow> P = 0"
  unfolding cpt_pt_eq_Infty [of P, symmetric] by (simp add: gej_pt_def jac_def del: cpt_pt_eq_Infty split: if_splits) (metis point.distinct(1))

section \<open>Secret keys\<close>

text \<open>A valid secret key, its number, and the point of the public key.\<close>

definition seckey_ok :: "u8 list \<Rightarrow> bool" where
  "seckey_ok key \<longleftrightarrow> length key = 32 \<and> 0 < be_nat key \<and> be_nat key < group_order"

definition pubkey_point :: "u8 list \<Rightarrow> cpt" where
  "pubkey_point key = zmul (int (be_nat key)) gen"

lemma zmul_gen_ne_0: "0 < k \<Longrightarrow> k < group_order \<Longrightarrow> zmul (int k) gen \<noteq> 0"
  using zmul_gen_eq_iff [of "int k" 0] by (simp add: ord_def)

lemma seckey_scalar:
  assumes "seckey_ok key" "sc_set_b32 sc64_ops key = (sec, ov)"
  shows "sc64_val sec = be_nat key" "\<not> ov" "\<not> sc_is_zero sc64_ops sec" "0 < sc64_val sec" "sc64_val sec < group_order"
proof -
  have k: "length key = 32" "0 < be_nat key" "be_nat key < group_order" using assms(1) by (simp_all add: seckey_ok_def)
  note v = s64.sset_b32_law [OF k(1) assms(2)]
  show "sc64_val sec = be_nat key" "\<not> ov" using v k by simp_all
  then show "0 < sc64_val sec" "sc64_val sec < group_order" using k by simp_all
  then show "\<not> sc_is_zero sc64_ops sec" using s64.sis_zero_law [of sec] by simp
qed

lemma pubkey_create_law:
  assumes ctx: "sign_ctx_ok ctx" and key: "seckey_ok key"
  shows "\<exists>obj. ec_pubkey_create ctx (Some old) (Some key) = ([], (True, Some obj)) \<and> key_of obj (pubkey_point key)"
proof -
  obtain sec ov where s: "sc_set_b32 sc64_ops key = (sec, ov)" by (rule prod.exhaust)
  note v = seckey_scalar [OF key s]
  note g = ec52.ecmult_gen_law [OF ctx v(5)]
  have "key_of (pubkey_save (fst (ge_set_gej fe52_ops (ecmult_gen fe52_ops sc64_ops (ecmult_gen_ctx ctx) sec)))) (pubkey_point key)"
    unfolding pubkey_point_def v(1) [symmetric] by (rule gej_affine_key) (use g zmul_gen_ne_0 [OF v(4,5)] in simp_all)
  then show ?thesis
    unfolding ec_pubkey_create_def arg_check_def Let_def option.sel s prod.case
    using sign_ctx_built [OF ctx] v(2,3) by auto
qed

section \<open>Verification\<close>

lemma verify_law:
  assumes ctx: "verify_ctx_ok ctx" and k: "key_of obj Q" and m: "length msg = 32"
    and l: "ecdsa_signature_load sig = (r, s)" "sc64_val r < group_order" "sc64_val s < group_order"
  shows "ecdsa_verify ctx (Some sig) (Some msg) (Some obj) = ([], sc64_val s \<le> group_order div 2 \<and>
    ecdsa_valid (sc64_val r) (sc64_val s) (be_nat msg mod group_order) Q)"
proof -
  obtain q where q: "pubkey_load obj = ([], (True, q))" "ge52_wf q" "\<not> ge_infinity q" "ge52_pt q = cpt_pt Q"
    using k by (rule key_ofE)
  obtain mm ov where mm: "sc_set_b32 sc64_ops msg = (mm, ov)" by (rule prod.exhaust)
  have mv: "sc64_val mm = be_nat msg mod group_order" using s64.sset_b32_law [OF m mm] by simp
  have h: "sc_is_high sc64_ops s \<longleftrightarrow> \<not> sc64_val s \<le> group_order div 2" using s64.sis_high_law [of s] by (simp add: not_le)
  show ?thesis
    using ec52.sig_verify_law [OF ctx q(2-4) l(2,3), of mm] verify_ctx_built [OF ctx]
    unfolding ecdsa_verify_def arg_check_def Let_def option.sel l(1) prod.case mm fst_conv q(1) api_bind_def h mv by auto
qed

section \<open>Signing\<close>

text \<open>What the loop returns is the signature of some nonce in range.\<close>

lemma sign_loop_result:
  assumes "\<And>j. length (snd (f j)) = 32"
    and "sign_loop ctx f sec msg count = Some (Some (r, s, recid))"
  shows "\<exists>k. 0 < sc64_val k \<and> sc64_val k < group_order \<and> ecdsa_sig_sign fe52_ops sc64_ops ctx sec msg k = (True, r, s, recid)"
proof -
  have "(\<forall>j. length (snd (f j)) = 32) \<longrightarrow> (\<forall>r s recid. res = Some (r, s, recid) \<longrightarrow>
      (\<exists>k. 0 < sc64_val k \<and> sc64_val k < group_order \<and> ecdsa_sig_sign fe52_ops sc64_ops ctx sec msg k = (True, r, s, recid)))"
    if "sign_loop ctx f sec msg count = Some res" for res
  proof (rule sign_loop.raw_induct [OF _ that, where P = "\<lambda>ctx f sec msg count res. (\<forall>j. length (snd (f j)) = 32) \<longrightarrow>
      (\<forall>r s recid. res = Some (r, s, recid) \<longrightarrow> (\<exists>k. 0 < sc64_val k \<and> sc64_val k < group_order \<and>
        ecdsa_sig_sign fe52_ops sc64_ops ctx sec msg k = (True, r, s, recid)))"], intro impI allI, goal_cases)
    case (1 loop ctx f sec msg count res r s recid)
    obtain ret n32 where n: "f count = (ret, n32)" by (rule prod.exhaust)
    obtain non ov where no: "sc_set_b32 sc64_ops n32 = (non, ov)" by (rule prod.exhaust)
    obtain ok r1 s1 rc where sg: "ecdsa_sig_sign fe52_ops sc64_ops ctx sec msg non = (ok, r1, s1, rc)" by (rule prod_cases4)
    have ln: "length n32 = 32" using 1(3) n by (metis snd_conv)
    note v = s64.sset_b32_law [OF ln no]
    note e = 1(2) [unfolded n prod.case Let_def no sg]
    show ?case
    proof (cases "ret \<and> \<not> ov \<and> \<not> sc_is_zero sc64_ops non \<and> ok")
      case True
      then have "(r1, s1, rc) = (r, s, recid)" using e 1(4) by simp
      then show ?thesis using True v s64.sis_zero_law [of non] sg by (intro exI [of _ non]) simp
    next
      case False
      then have "loop ctx f sec msg (count + 1) = Some res" using e 1(4) by (auto split: if_splits)
      from 1(1) [OF this] 1(3,4) show ?thesis by blast
    qed
  qed
  from this [OF assms(2)] assms(1) show ?thesis by blast
qed

text \<open>The nonce functions that give 32 bytes; the standard one does.\<close>

definition nonce_fun :: "nonce_function option \<Rightarrow> nonce_function" where
  "nonce_fun noncefp = (case noncefp of None \<Rightarrow> nonce_function_rfc6979 | Some f \<Rightarrow> f)"

lemma sign_core_recovers:
  assumes ctx: "sign_ctx_ok ctx" and key: "seckey_ok key" and m: "length msg = 32"
    and f: "\<And>j. length (snd (nonce_fun noncefp msg key None data j)) = 32"
    and r: "sign_core ctx msg key noncefp data = Some (Some (r, s, recid))" and r0: "sc64_val r \<noteq> 0"
  shows "ecdsa_recovers (sc64_val r) (sc64_val s) recid (be_nat msg mod group_order) (pubkey_point key)"
    and "sc64_val s \<le> group_order div 2" "sc64_val r < group_order" "0 \<le> recid" "recid \<le> 3"
proof -
  obtain sec ov where sc: "sc_set_b32 sc64_ops key = (sec, ov)" by (rule prod.exhaust)
  note v = seckey_scalar [OF key sc]
  obtain mm om where mm: "sc_set_b32 sc64_ops msg = (mm, om)" by (rule prod.exhaust)
  have mv: "sc64_val mm = be_nat msg mod group_order" using s64.sset_b32_law [OF m mm] by simp
  have "sign_loop (ecmult_gen_ctx ctx) (nonce_fun noncefp msg key None data) sec mm 0 = Some (Some (r, s, recid))"
    using r v(2,3) unfolding sign_core_def Let_def sc mm prod.case fst_conv nonce_fun_def by simp
  from sign_loop_result [OF f this] obtain k where k: "0 < sc64_val k" "sc64_val k < group_order"
    "ecdsa_sig_sign fe52_ops sc64_ops (ecmult_gen_ctx ctx) sec mm k = (True, r, s, recid)" by blast
  have ml: "sc64_val mm < group_order" unfolding mv by simp
  note l = ec52.sig_sign_recovers [OF ctx k(1,2) v(4,5) ml k(3) r0]
  show "ecdsa_recovers (sc64_val r) (sc64_val s) recid (be_nat msg mod group_order) (pubkey_point key)"
    "sc64_val s \<le> group_order div 2" "sc64_val r < group_order"
    using l unfolding mv v(1) pubkey_point_def by blast+
  show "0 \<le> recid" "recid \<le> 3" using ec52.sig_sign_recid [OF ctx k(1,2) ml k(3)] by simp_all
qed

end
