(* ===== verification/Secp256k1_Multiples.thy ===== *)
theory Secp256k1_Multiples
  imports Secp256k1_Points
begin

text \<open>
  The public functions that multiply and add points: recovery, tweaks of public keys, sums of keys,
  key agreement, and the multiplication the Go package calls.
\<close>

section \<open>Recovery\<close>

lemma recover_law:
  assumes ctx: "verify_ctx_ok ctx" and m: "length msg = 32"
    and l: "ecdsa_recoverable_signature_load sig = (r, s, recid)" "sc64_val r < group_order" "sc64_val s < group_order"
  shows "\<exists>ok obj. ecdsa_recover ctx (Some old) (Some sig) (Some msg) = ([], (ok, Some obj)) \<and>
    (ok \<longleftrightarrow> (\<exists>Q. ecdsa_recovers (sc64_val r) (sc64_val s) recid (be_nat msg mod group_order) Q)) \<and>
    (if ok then \<exists>Q. key_of obj Q \<and> ecdsa_recovers (sc64_val r) (sc64_val s) recid (be_nat msg mod group_order) Q
     else obj = replicate 64 0)"
proof -
  obtain mm ov where mm: "sc_set_b32 sc64_ops msg = (mm, ov)" by (rule prod.exhaust)
  have mv: "sc64_val mm = be_nat msg mod group_order" using s64.sset_b32_law [OF m mm] by simp
  then have ml: "sc64_val mm < group_order" by simp
  obtain ok q where q: "ecdsa_sig_recover fe52_ops sc64_ops (ecmult_ctx ctx) r s (ge_clear fe52_ops) mm recid = (ok, q)"
    by (rule prod.exhaust)
  note v = ec52.sig_recover_law [OF ctx l(2,3) ml q, unfolded mv]
  have e: "ecdsa_recover ctx (Some old) (Some sig) (Some msg) = ([], (ok, Some (if ok then pubkey_save q else replicate 64 0)))"
    using verify_ctx_built [OF ctx]
    unfolding ecdsa_recover_def arg_check_def Let_def option.sel l(1) prod.case mm fst_conv q by simp
  show ?thesis
  proof (cases ok)
    case True
    with v(2) obtain Q where "ge52_wf q" "\<not> ge_infinity q" "ge52_pt q = cpt_pt Q"
      "ecdsa_recovers (sc64_val r) (sc64_val s) recid (be_nat msg mod group_order) Q" by blast
    then show ?thesis unfolding e using True key_ofI [of q Q] v(1) by auto
  next
    case False
    then show ?thesis unfolding e using v(1) by auto
  qed
qed

lemma recoverable_load_save:
  assumes "0 \<le> recid" "recid \<le> 3"
  shows "ecdsa_recoverable_signature_load (ecdsa_recoverable_signature_save r s recid) = (r, s, recid)"
proof -
  have "scalar_load (scalar_bytes r @ scalar_bytes s @ [word_of_int recid]) 0 = r"
    using scalar_load_bytes [of "[]" r] by simp
  moreover have "scalar_load (scalar_bytes r @ scalar_bytes s @ [word_of_int recid]) 32 = s"
    using scalar_load_bytes [of "scalar_bytes r" s] by simp
  moreover have "(scalar_bytes r @ scalar_bytes s @ [word_of_int recid]) ! 64 = (word_of_int recid :: u8)"
    by (simp add: nth_append)
  moreover have "int (unat (word_of_int recid :: u8)) = recid"
    using assms by (simp add: uint_nat [symmetric] uint_word_of_int take_bit_int_eq_self)
  ultimately show ?thesis by (simp add: ecdsa_recoverable_signature_load_def ecdsa_recoverable_signature_save_def)
qed

section \<open>Tweaks of public keys\<close>

lemma ge_to_gej:
  assumes "ge52_wf q" "\<not> ge_infinity q" "ge52_pt q = P"
  shows "gej52_wf (gej_set_ge fe52_ops q)" "\<not> gej_infinity (gej_set_ge fe52_ops q)" "gej52_pt (gej_set_ge fe52_ops q) = P"
  using f52.gej_set_ge_pt [OF assms(1)] assms(2,3) by (simp_all add: gej_set_ge_def)

lemma pubkey_tweak_add_law:
  assumes ctx: "verify_ctx_ok ctx" and k: "key_of obj P" and t: "length tweak = 32"
    and ok: "ok \<longleftrightarrow> be_nat tweak < group_order \<and> P + zmul (int (be_nat tweak)) gen \<noteq> 0"
  shows "\<exists>obj'. ec_pubkey_tweak_add ctx (Some obj) (Some tweak) = ([], (ok, Some obj')) \<and>
    (if ok then key_of obj' (P + zmul (int (be_nat tweak)) gen) else obj' = replicate 64 0)"
proof -
  obtain q where q: "pubkey_load obj = ([], (True, q))" "ge52_wf q" "\<not> ge_infinity q" "ge52_pt q = cpt_pt P"
    using k by (rule key_ofE)
  obtain tw ov where tw: "sc_set_b32 sc64_ops tweak = (tw, ov)" by (rule prod.exhaust)
  note v = s64.sset_b32_law [OF t tw]
  have one: "sc64_val (sc_set_int sc64_ops 1) = 1" using s64.sset_int_law [of 1] by simp
  have lt: "sc64_val (sc_set_int sc64_ops 1) < group_order" "sc64_val tw < group_order" unfolding one using v by simp_all
  define pt where "pt = ecmult fe52_ops sc64_ops (ecmult_ctx ctx) (gej_set_ge fe52_ops q) (sc_set_int sc64_ops 1) tw"
  have p: "gej52_wf pt" "gej52_pt pt = cpt_pt (P + zmul (int (sc64_val tw)) gen)"
    using ec52.ecmult_law [OF ctx ge_to_gej [OF q(2-4)] lt] unfolding pt_def one by simp_all
  have e: "ec_pubkey_tweak_add ctx (Some obj) (Some tweak) = ([], (\<not> ov \<and> \<not> gej_infinity pt,
      Some (if \<not> ov \<and> \<not> gej_infinity pt then pubkey_save (fst (ge_set_gej fe52_ops pt)) else replicate 64 0)))"
    using verify_ctx_built [OF ctx]
    unfolding ec_pubkey_tweak_add_def pubkey_tweak_def arg_check_def Let_def option.sel tw prod.case q(1) api_bind_def
      eckey_pubkey_tweak_add_def pt_def [symmetric] gej_is_infinity_def by simp
  have i: "gej_infinity pt \<longleftrightarrow> P + zmul (int (sc64_val tw)) gen = 0" by (rule gej_infinite_iff [OF p(2)])
  have "ok \<longleftrightarrow> \<not> ov \<and> \<not> gej_infinity pt" unfolding ok i using v by (auto simp: mod_less)
  moreover have "key_of (pubkey_save (fst (ge_set_gej fe52_ops pt))) (P + zmul (int (be_nat tweak)) gen)" if "\<not> ov \<and> \<not> gej_infinity pt"
  proof -
    have "sc64_val tw = be_nat tweak" using that v by simp
    then show ?thesis using gej_affine_key [OF p] that i by simp
  qed
  ultimately show ?thesis unfolding e by auto
qed

lemma pubkey_tweak_mul_law:
  assumes ctx: "verify_ctx_ok ctx" and k: "key_of obj P" and t: "length tweak = 32"
    and ok: "ok \<longleftrightarrow> be_nat tweak < group_order \<and> be_nat tweak \<noteq> 0"
  shows "\<exists>obj'. ec_pubkey_tweak_mul ctx (Some obj) (Some tweak) = ([], (ok, Some obj')) \<and>
    (if ok then key_of obj' (zmul (int (be_nat tweak)) P) else obj' = replicate 64 0)"
proof -
  obtain q where q: "pubkey_load obj = ([], (True, q))" "ge52_wf q" "\<not> ge_infinity q" "ge52_pt q = cpt_pt P" "P \<noteq> 0"
    using k by (rule key_ofE)
  obtain tw ov where tw: "sc_set_b32 sc64_ops tweak = (tw, ov)" by (rule prod.exhaust)
  note v = s64.sset_b32_law [OF t tw]
  have zero: "sc64_val (sc_set_int sc64_ops 0) = 0" using s64.sset_int_law [of 0] by simp
  have lt: "sc64_val tw < group_order" "sc64_val (sc_set_int sc64_ops 0) < group_order" unfolding zero using v by simp_all
  define pt where "pt = ecmult fe52_ops sc64_ops (ecmult_ctx ctx) (gej_set_ge fe52_ops q) tw (sc_set_int sc64_ops 0)"
  have p: "gej52_wf pt" "gej52_pt pt = cpt_pt (zmul (int (sc64_val tw)) P)"
    using ec52.ecmult_law [OF ctx ge_to_gej [OF q(2-4)] lt] unfolding pt_def zero by simp_all
  have z: "sc_is_zero sc64_ops tw \<longleftrightarrow> sc64_val tw = 0" by (rule s64.sis_zero_law)
  have e: "ec_pubkey_tweak_mul ctx (Some obj) (Some tweak) = ([], (\<not> ov \<and> sc64_val tw \<noteq> 0,
      Some (if \<not> ov \<and> sc64_val tw \<noteq> 0 then pubkey_save (fst (ge_set_gej fe52_ops pt)) else replicate 64 0)))"
    using verify_ctx_built [OF ctx]
    unfolding ec_pubkey_tweak_mul_def pubkey_tweak_def arg_check_def Let_def option.sel tw prod.case q(1) api_bind_def
      eckey_pubkey_tweak_mul_def pt_def [symmetric] z by simp
  have "ok \<longleftrightarrow> \<not> ov \<and> sc64_val tw \<noteq> 0" unfolding ok using v by (auto simp: mod_less)
  moreover have "key_of (pubkey_save (fst (ge_set_gej fe52_ops pt))) (zmul (int (be_nat tweak)) P)" if "\<not> ov \<and> sc64_val tw \<noteq> 0"
  proof -
    have w: "sc64_val tw = be_nat tweak" using that v by simp
    have "zmul (int (sc64_val tw)) P \<noteq> 0" by (rule small_multiple [OF q(5)]) (use that lt in \<open>simp_all add: ord_def\<close>)
    then show ?thesis using gej_affine_key [OF p] w by simp
  qed
  ultimately show ?thesis unfolding e by auto
qed

section \<open>Sums of keys\<close>

lemma combine_loop_law:
  assumes "list_all2 key_of objs Ps" "ec52.gej_on 1 Qj Q"
  shows "\<exists>Rj. combine_loop objs Qj = ([], Rj) \<and> ec52.gej_on 1 Rj (Q + sum_list Ps)"
  using assms
proof (induction objs Ps arbitrary: Qj Q rule: list_all2_induct)
  case (Cons obj objs P Ps)
  obtain q where q: "pubkey_load obj = ([], (True, q))" "ge52_wf q" "\<not> ge_infinity q" "ge52_pt q = cpt_pt P"
    using Cons.hyps(1) by (rule key_ofE)
  have "ge_at fe52_mag fe52_fval 1 q (cpt_pt P)" using q f52.ge_at_one by blast
  from Cons.IH [OF ec52.add_ge_on [OF Cons.prems this]] show ?case
    by (auto simp: q(1) api_bind_def add.assoc)
qed simp

lemma set_infinity_on: "ec52.gej_on 1 (gej_set_infinity fe52_ops) 0"
proof -
  have "fe52_mag 8 (fe_clear fe52_ops)" using f52.mag_mono [OF f52.nrm_mag [OF f52.clear_law [THEN conjunct1]], of 8] by simp
  then show ?thesis by (simp add: ec52.gej_on_def gej_at_def gej_full_def gej_set_infinity_def)
qed

lemma pubkey_combine_law:
  assumes k: "list_all2 key_of objs Ps" and n: "objs \<noteq> []"
  shows "\<exists>obj. ec_pubkey_combine (Some old) (Some objs) (length objs) = ([], (sum_list Ps \<noteq> 0, Some obj)) \<and>
    (if sum_list Ps \<noteq> 0 then key_of obj (sum_list Ps) else obj = replicate 64 0)"
proof -
  obtain Rj where R: "combine_loop objs (gej_set_infinity fe52_ops) = ([], Rj)" "ec52.gej_on 1 Rj (0 + sum_list Ps)"
    using combine_loop_law [OF k set_infinity_on] by blast
  have p: "gej52_wf Rj" "gej52_pt Rj = cpt_pt (sum_list Ps)" using R(2) unfolding ec52.gej_on_one by simp_all
  have i: "gej_infinity Rj \<longleftrightarrow> sum_list Ps = 0" by (rule gej_infinite_iff [OF p(2)])
  have "1 \<le> length objs" using n by (cases objs) simp_all
  then have e: "ec_pubkey_combine (Some old) (Some objs) (length objs) = ([], (sum_list Ps \<noteq> 0,
      Some (if sum_list Ps \<noteq> 0 then pubkey_save (fst (ge_set_gej fe52_ops Rj)) else replicate 64 0)))"
    unfolding ec_pubkey_combine_def arg_check_def Let_def option.sel take_all [OF order_refl] R(1) api_bind_def gej_is_infinity_def
    by (simp add: i)
  show ?thesis unfolding e using gej_affine_key [OF p] by auto
qed

section \<open>Coordinates as bytes\<close>

lemma affine_bytes:
  assumes "gej52_wf a" "gej52_pt a = Pt x y"
  defines "q \<equiv> fst (ge_set_gej fe52_ops a)"
  shows "fe_get_b32 fe52_ops (fe_normalize fe52_ops (ge_x q)) = nat_be 32 (nat (rep_fp x))"
    and "fe_get_b32 fe52_ops (fe_normalize fe52_ops (ge_y q)) = nat_be 32 (nat (rep_fp y))"
    and "fe_is_odd fe52_ops (fe_normalize fe52_ops (ge_y q)) \<longleftrightarrow> odd (rep_fp y)"
proof -
  obtain a' where q: "ge_set_gej fe52_ops a = (q, a')" unfolding q_def by (metis prod.collapse)
  have w: "ge52_wf q" "ge52_pt q = Pt x y" using f52.ge_set_gej_pt [OF assms(1)] q assms(2) by auto
  then have i: "\<not> ge_infinity q" by (auto simp: ge_pt_def)
  then have f: "fe52_fval (ge_x q) = x" "fe52_fval (ge_y q) = y" and m: "fe52_mag 32 (ge_x q)" "fe52_mag 32 (ge_y q)"
    using w f52.mag_mono [of 8 _ 32] by (auto simp: ge_pt_def ge_wf_def)
  note nx = f52.normalize_law [OF m(1)] and ny = f52.normalize_law [OF m(2)]
  have "int (be_nat (fe_get_b32 fe52_ops (fe_normalize fe52_ops (ge_x q)))) = rep_fp x"
    "int (be_nat (fe_get_b32 fe52_ops (fe_normalize fe52_ops (ge_y q)))) = rep_fp y"
    using f52.get_b32_law nx ny f by simp_all
  then show "fe_get_b32 fe52_ops (fe_normalize fe52_ops (ge_x q)) = nat_be 32 (nat (rep_fp x))"
    "fe_get_b32 fe52_ops (fe_normalize fe52_ops (ge_y q)) = nat_be 32 (nat (rep_fp y))"
    using nat_be_rep f52.get_b32_law nx ny by metis+
  show "fe_is_odd fe52_ops (fe_normalize fe52_ops (ge_y q)) \<longleftrightarrow> odd (rep_fp y)" using f52.is_odd_law ny f by simp
qed

section \<open>Key agreement\<close>

lemma ecdh_law:
  assumes k: "key_of obj P" and s: "seckey_ok key"
  shows "ecdh (Some res) (Some obj) (Some key) =
    ([], (True, Some (fips_sha256 (point_bytes True (cpt_pt (zmul (int (be_nat key)) P))))))"
proof -
  obtain q where q: "pubkey_load obj = ([], (True, q))" "ge52_wf q" "\<not> ge_infinity q" "ge52_pt q = cpt_pt P" "P \<noteq> 0"
    using k by (rule key_ofE)
  obtain sec ov where sc: "sc_set_b32 sc64_ops key = (sec, ov)" by (rule prod.exhaust)
  note v = seckey_scalar [OF s sc]
  define R where "R = ecmult_const fe52_ops sc64_ops q sec"
  have R: "gej52_wf R" "gej52_pt R = cpt_pt (zmul (int (be_nat key)) P)"
    using ec52.ecmult_const_law [OF q(2-4) v(5)] unfolding R_def ec52.gej_on_one v(1) by simp_all
  have "zmul (int (be_nat key)) P \<noteq> 0" by (rule small_multiple [OF q(5)]) (use s in \<open>simp_all add: seckey_ok_def ord_def\<close>)
  then obtain x y where xy: "cpt_pt (zmul (int (be_nat key)) P) = Pt x y" by (cases "cpt_pt (zmul (int (be_nat key)) P)") simp_all
  note b = affine_bytes [OF R(1) R(2) [unfolded xy]]
  have o: "(0x02 :: u8) OR of_bool c = (if c then 3 else 2)" for c by simp
  have "snd (sha256_finalize (sha256_write (sha256_write (sha256_initialize hash_buf) [if odd (rep_fp y) then 3 else 2])
      (nat_be 32 (nat (rep_fp x))))) = fips_sha256 (point_bytes True (Pt x y))"
    using digest_of_writes [of hash_buf "[[if odd (rep_fp y) then 3 else 2], nat_be 32 (nat (rep_fp x))]"] by (simp add: hash_buf_def)
  then show ?thesis
    unfolding xy ecdh_def arg_check_def Let_def option.sel q(1) api_bind_def prod.case sc R_def [symmetric]
    using v(2,3) b by (simp add: o split_def)
qed

section \<open>The multiplication for the Go package\<close>

lemma scalar_mul_law:
  assumes P: "cpt_pt P = Pt px py" and s: "seckey_ok key"
  shows "ext_scalar_mul (Some (nat_be 32 (nat (rep_fp px)) @ nat_be 32 (nat (rep_fp py)))) (Some key) =
    ([], (True, Some (drop 1 (point_bytes False (cpt_pt (zmul (int (be_nat key)) P))))))"
proof -
  let ?bx = "nat_be 32 (nat (rep_fp px))" and ?by = "nat_be 32 (nat (rep_fp py))"
  obtain kx fx where fx: "fe_set_b32 fe52_ops ?bx = (kx, fx)" by (rule prod.exhaust)
  obtain ky fy where fy: "fe_set_b32 fe52_ops ?by = (ky, fy)" by (rule prod.exhaust)
  have b: "be_nat ?bx < nat field_prime" "be_nat ?by < nat field_prime"
    using f52.rep_fp_less_prime [OF rep_fp_be] by simp_all
  note lx = f52.set_b32_law [OF nat_be_length fx] and ly = f52.set_b32_law [OF nat_be_length fy]
  have f: "fe52_fval fx = px" "fe52_fval fy = py" "fe52_mag 1 fx" "fe52_mag 1 fy"
    using lx ly b fp_bytes_be [of px] fp_bytes_be [of py] f52.nrm_mag by (auto simp: fp_bytes_def)
  define q where "q = ge_set_xy fx fy"
  have q: "ge52_wf q" "\<not> ge_infinity q" "ge52_pt q = cpt_pt P"
    using f f52.mag_mono [of 1 _ 8] cpt_on_curve [of P] unfolding P by (auto simp: q_def ge_set_xy_def ge_wf_def ge_pt_def)
  obtain sec ov where sc: "sc_set_b32 sc64_ops key = (sec, ov)" by (rule prod.exhaust)
  note v = seckey_scalar [OF s sc]
  define R where "R = ecmult_const fe52_ops sc64_ops q sec"
  have R: "gej52_wf R" "gej52_pt R = cpt_pt (zmul (int (be_nat key)) P)"
    using ec52.ecmult_const_law [OF q v(5)] unfolding R_def ec52.gej_on_one v(1) by simp_all
  have "P \<noteq> 0" using P by auto
  then have "zmul (int (be_nat key)) P \<noteq> 0" by (rule small_multiple) (use s in \<open>simp_all add: seckey_ok_def ord_def\<close>)
  then obtain x y where xy: "cpt_pt (zmul (int (be_nat key)) P) = Pt x y" by (cases "cpt_pt (zmul (int (be_nat key)) P)") simp_all
  note b = affine_bytes [OF R(1) R(2) [unfolded xy]]
  show ?thesis
    unfolding xy ext_scalar_mul_def arg_check_def Let_def option.sel using v(2,3) b
    by (simp add: fx [simplified] fy [simplified] sc [simplified] q_def [symmetric] R_def [symmetric])
qed

end
