(* ===== verification/Secp256k1_Contexts.thy ===== *)
theory Secp256k1_Contexts
  imports Secp256k1_Multiples
begin

text \<open>
  Contexts: creation gives a context that is right for verification, every table of the right shape
  gives one that is right for signing, and randomising keeps it right.
\<close>

section \<open>Every point can be stored\<close>

lemma point_ge:
  assumes "P \<noteq> 0"
  obtains q where "ge_at fe52_mag fe52_fval 1 q (cpt_pt P)"
proof -
  have P: "cpt_pt P \<noteq> Infty" using assms by simp
  obtain ok q where r: "eckey_pubkey_parse fe52_ops (ge_clear fe52_ops) (point_bytes False (cpt_pt P)) = (ok, q)"
    by (rule prod.exhaust)
  note l = eckey_parse_law [OF r]
  have ok: ok using l(1) point_bytes_accepted [OF cpt_on_curve P, of False] by simp
  have "ge52_pt q = cpt_pt P"
    using l(2) [OF ok] point_bytes_denote [OF cpt_on_curve P, of False] pubkey_denotes_unique by blast
  then have "ge_at fe52_mag fe52_fval 1 q (cpt_pt P)" using l(2) [OF ok] f52.ge_at_one by blast
  then show thesis by (rule that)
qed

lemma point_storage:
  assumes "P \<noteq> 0"
  shows "\<exists>st. ge_at fe52_mag fe52_fval 1 (ge_from_storage fe52_ops st) (cpt_pt P)"
  using point_ge [OF assms] ec52.storage_at by blast

section \<open>Signing contexts\<close>

text \<open>Offsets that cancel and keep every entry away from the point at infinity.\<close>

definition sample_offset :: "nat \<Rightarrow> cpt" where
  "sample_offset j = zmul (if j = 63 then - 63 else 1) gen"

lemma sample_offset_sum: "(\<Sum>j<64. sample_offset j) = 0"
proof -
  have "(\<Sum>j<64. sample_offset j) = (\<Sum>j<63. sample_offset j) + sample_offset 63"
    by (simp add: eval_nat_numeral)
  also have "(\<Sum>j<63. sample_offset j) = (\<Sum>j<(63 :: nat). zmul 1 gen)" by (rule sum.cong) (simp_all add: sample_offset_def)
  also have "\<dots> = zmul 63 gen" unfolding zmul_sum [symmetric] by simp
  finally show ?thesis by (simp add: sample_offset_def zmul_minus)
qed

lemma sample_entry:
  assumes "j < 64" "i < 16"
  shows "zmul (int i * 16 ^ j) gen + sample_offset j \<noteq> 0"
proof -
  define k where "k = int i * 16 ^ j + (if j = 63 then - 63 else 1)"
  have e: "zmul (int i * 16 ^ j) gen + sample_offset j = zmul k gen"
    unfolding sample_offset_def k_def by (simp only: zmul_add)
  have o: "ord = 115792089237316195423570985008687907852837564279074904382605163141518161494337" by (rule ord_num)
  have "k \<noteq> 0 \<and> \<bar>k\<bar> < ord"
  proof (cases "j = 63")
    case True
    have "i = 0 \<or> 1 \<le> i" by linarith
    then show ?thesis
    proof
      assume "1 \<le> i"
      then have "(16 :: int) ^ 63 \<le> int i * 16 ^ 63" "int i * 16 ^ 63 \<le> 15 * 16 ^ 63" using assms(2) by simp_all
      then show ?thesis unfolding k_def o True by simp
    qed (simp add: k_def o True)
  next
    case False
    then have "(16 :: int) ^ j \<le> 16 ^ 62" using assms(1) by (intro power_increasing) simp_all
    then have "int i * 16 ^ j \<le> 15 * 16 ^ 62" using assms(2) by (intro mult_mono) simp_all
    moreover have "0 \<le> int i * 16 ^ j" by simp
    ultimately have "0 < int i * 16 ^ j + 1 \<and> \<bar>int i * 16 ^ j + 1\<bar> < ord" unfolding o by simp
    moreover have "k = int i * 16 ^ j + 1" unfolding k_def using False by simp
    ultimately have "0 < k" "\<bar>k\<bar> < ord" by (simp_all only:)
    then show ?thesis by auto
  qed
  then show ?thesis unfolding e using small_multiple [OF gen_ne_0] by blast
qed

lemma sign_ctx_exists: "\<exists>g. gen_ctx_ok fe52_ops fe52_mag fe52_fval sc64_val g"
proof -
  have "\<forall>P. \<exists>st. P \<noteq> 0 \<longrightarrow> ge_at fe52_mag fe52_fval 1 (ge_from_storage fe52_ops st) (cpt_pt P)"
    using point_storage by blast
  then obtain st where st: "\<And>P. P \<noteq> 0 \<Longrightarrow> ge_at fe52_mag fe52_fval 1 (ge_from_storage fe52_ops (st P)) (cpt_pt P)" by metis
  define prec where "prec = map (\<lambda>j. map (\<lambda>i. st (zmul (int i * 16 ^ j) gen + sample_offset j)) [0..<16]) [0..<64]"
  have t: "gen_table_ok fe52_ops fe52_mag fe52_fval prec sample_offset"
    unfolding gen_table_ok_def by (intro conjI sample_offset_sum allI impI) (simp add: prec_def st [OF sample_entry])
  define g where "g = \<lparr> gen_prec = Some prec, gen_blind = Sc64 0 0 0 0, gen_initial = gj52 \<rparr>"
  have "gen_prec g = Some prec" by (simp add: g_def)
  from ec52.gen_start_ok [OF this t] show ?thesis by blast
qed

text \<open>Some context that is right for both; the callbacks do not matter.\<close>

lemma full_ctx_exists: "\<exists>ctx. verify_ctx_ok ctx \<and> sign_ctx_ok ctx"
proof -
  obtain g where g: "gen_ctx_ok fe52_ops fe52_mag fe52_fval sc64_val g" using sign_ctx_exists by blast
  have "ecmult_ctx_ok fe52_ops fe52_mag fe52_fval (ecmult_context_build fe52_ops ecmult_context_init)"
    by (rule ec52.ecmult_context_build_law) (simp add: ecmult_context_init_def)
  with g show ?thesis
    by (intro exI [of _ "\<lparr> ecmult_ctx = ecmult_context_build fe52_ops ecmult_context_init, ecmult_gen_ctx = g,
      illegal_callback = Default_Illegal_Callback, error_callback = Default_Error_Callback \<rparr>"]) simp
qed

section \<open>Creating and randomising\<close>

lemma context_create_verify_law:
  assumes "context_create mem flags = Some (l, Some ctx)" "flags AND 0x100 \<noteq> 0"
  shows "verify_ctx_ok ctx"
proof -
  have b: "ecmult_ctx_ok fe52_ops fe52_mag fe52_fval (ecmult_context_build fe52_ops ecmult_context_init)"
    by (rule ec52.ecmult_context_build_law) (simp add: ecmult_context_init_def)
  have "ecmult_ctx ctx = ecmult_context_build fe52_ops ecmult_context_init"
    using assms by (auto simp: context_create_def Let_def split: if_splits bind_splits)
  then show ?thesis using b by simp
qed

lemma context_randomize_law:
  assumes "sign_ctx_ok ctx" "context_randomize ctx seed = Some (l, (ok, ctx'))"
  shows "l = []" "ok" "sign_ctx_ok ctx'" "ecmult_ctx ctx' = ecmult_ctx ctx"
proof -
  obtain g where g: "ecmult_gen_blind fe52_ops sc64_ops (ecmult_gen_ctx ctx) seed = Some g"
    and e: "l = []" "ok" "ctx' = ctx \<lparr> ecmult_gen_ctx := g \<rparr>"
    using assms(2) sign_ctx_built [OF assms(1)] by (auto simp: context_randomize_def split: bind_splits)
  have "gen_ctx_ok fe52_ops fe52_mag fe52_fval sc64_val g"
    by (rule ec52.ecmult_gen_blind_law [OF _ g]) (use assms(1) in \<open>auto simp: gen_ctx_ok_def\<close>)
  then show "l = []" "ok" "sign_ctx_ok ctx'" "ecmult_ctx ctx' = ecmult_ctx ctx" using e by simp_all
qed

section \<open>A signature with a known nonce\<close>

text \<open>The nonce function that always gives the same 32 bytes.\<close>

definition const_nonce :: "nat \<Rightarrow> nonce_function" where
  "const_nonce k = (\<lambda>msg key algo data counter. (True, nat_be 32 k))"

lemma const_nonce_length [simp]: "length (snd (const_nonce k msg key algo data j)) = 32"
  by (simp add: const_nonce_def)

lemma sign_const_nonce:
  assumes ctx: "sign_ctx_ok ctx" and key: "seckey_ok key" and m: "length msg = 32"
    and k: "0 < k" "k < group_order" and xy: "cpt_pt (zmul (int k) gen) = Pt x y"
    and nz: "(fp_mod_order x * be_nat key + be_nat msg) mod group_order \<noteq> 0"
  shows "\<exists>r s recid. sign_core ctx msg key (Some (const_nonce k)) data = Some (Some (r, s, recid)) \<and> sc64_val r = fp_mod_order x
    \<and> sc64_val s < group_order"
proof -
  obtain sec ov where sc: "sc_set_b32 sc64_ops key = (sec, ov)" by (rule prod.exhaust)
  note v = seckey_scalar [OF key sc]
  obtain mm om where mm: "sc_set_b32 sc64_ops msg = (mm, om)" by (rule prod.exhaust)
  have mv: "sc64_val mm = be_nat msg mod group_order" using s64.sset_b32_law [OF m mm] by simp
  have nb: "be_nat (nat_be 32 k) = k" by (rule nat_be_32) (use k(2) in \<open>simp add: group_order_def\<close>)
  obtain non ovn where no: "sc_set_b32 sc64_ops (nat_be 32 k) = (non, ovn)" by (rule prod.exhaust)
  have nv: "sc64_val non = k" "\<not> ovn" using s64.sset_b32_law [OF nat_be_length no] k nb by simp_all
  obtain ok r s recid where sg: "ecdsa_sig_sign fe52_ops sc64_ops (ecmult_gen_ctx ctx) sec mm non = (ok, r, s, recid)"
    by (rule prod_cases4)
  have rp: "gej52_wf (ecmult_gen fe52_ops sc64_ops (ecmult_gen_ctx ctx) non)"
    "gej52_pt (ecmult_gen fe52_ops sc64_ops (ecmult_gen_ctx ctx) non) = Pt x y"
    using ec52.ecmult_gen_law [OF ctx, of non] nv k(2) xy by simp_all
  then have ni: "\<not> gej_infinity (ecmult_gen fe52_ops sc64_ops (ecmult_gen_ctx ctx) non)" by (auto simp: gej_pt_def)
  have ml: "sc64_val mm < group_order" unfolding mv by simp
  note l = ec52.sig_sign_law [OF rp(1) ni rp(2) ml sg refl, unfolded nv(1) v(1) mv]
  have "ok"
  proof (rule ccontr)
    assume "\<not> ok"
    then have z: "k ^ (group_order - 2) * (fp_mod_order x * be_nat key + be_nat msg mod group_order) mod group_order = 0"
      using l(2) by simp
    have "(fp_mod_order x * be_nat key + be_nat msg) mod group_order
        = k * (order_inv k * (fp_mod_order x * be_nat key + be_nat msg mod group_order) mod group_order) mod group_order"
      unfolding order_inv_cancel [OF k] by (simp add: mod_simps)
    also have "order_inv k * (fp_mod_order x * be_nat key + be_nat msg mod group_order) mod group_order = 0"
      using z by (simp add: order_inv_def mod_simps)
    finally show False using nz by simp
  qed
  moreover have "\<not> sc_is_zero sc64_ops non" using s64.sis_zero_law [of non] nv k by simp
  ultimately have "sign_core ctx msg key (Some (const_nonce k)) data = Some (Some (r, s, recid))"
    unfolding sign_core_def Let_def sc mm prod.case fst_conv option.case
    using v(2,3) nv(2) sg by (subst sign_loop.simps) (simp add: const_nonce_def no [simplified])
  moreover have "sc64_val s < group_order"
  proof -
    have h: "t < group_order \<Longrightarrow> (if group_order div 2 < t then group_order - t else t) < group_order" for t
      by (simp add: group_order_def)
    show ?thesis unfolding l(3) by (rule h) simp
  qed
  ultimately show ?thesis using l(1) by blast
qed

text \<open>The generator is the point of the nonce 1.\<close>

lemma gen_x_mod_order: "fp_mod_order (of_nat gen_x) = gen_x"
proof -
  have "rep_fp (of_nat gen_x) = int gen_x" unfolding rep_fp_of_nat by (simp add: field_prime_def gen_x_def)
  then show ?thesis by (simp add: fp_mod_order_def gen_x_def group_order_def)
qed

end
