(* ===== verification/Secp256k1_Ecdsa.thy ===== *)
theory Secp256k1_Ecdsa
  imports Secp256k1_Contexts
begin

text \<open>
  The properties of the signature functions: what verification accepts, that signatures verify and
  lead back to the key, and the same for the functions the Go package calls.
\<close>

section \<open>Samples\<close>

lemma sample_secret: "seckey_ok (nat_be 32 1)" "pubkey_point (nat_be 32 1) = gen"
proof -
  have b: "be_nat (nat_be 32 1) = 1" by (rule nat_be_32) simp
  show "seckey_ok (nat_be 32 1)" unfolding seckey_ok_def b by simp
  show "pubkey_point (nat_be 32 1) = gen" unfolding pubkey_point_def b by simp
qed

lemma gen_affine: "cpt_pt (zmul (int 1) gen) = Pt (of_nat gen_x) (of_nat gen_y)"
  by (simp add: gen_pt_def [symmetric])

lemma generator_key: "key_of (pubkey_save g52) gen"
  unfolding key_of_def using generator_object by simp

lemma sample_sign:
  assumes "sign_ctx_ok ctx"
  shows "\<exists>r s recid. sign_core ctx (nat_be 32 1) (nat_be 32 1) (Some (const_nonce 1)) data = Some (Some (r, s, recid))
    \<and> sc64_val r \<noteq> 0 \<and> sc64_val r < group_order \<and> sc64_val s < group_order"
proof -
  have b: "be_nat (nat_be 32 1) = 1" by (rule nat_be_32) simp
  have "(fp_mod_order (of_nat gen_x) * be_nat (nat_be 32 1) + be_nat (nat_be 32 1)) mod group_order \<noteq> 0"
    unfolding gen_x_mod_order b by (simp add: gen_x_def group_order_def)
  from sign_const_nonce [OF assms sample_secret(1) nat_be_length _ _ gen_affine this, of data]
  obtain r s recid where r: "sign_core ctx (nat_be 32 1) (nat_be 32 1) (Some (const_nonce 1)) data = Some (Some (r, s, recid))"
    "sc64_val r = gen_x" "sc64_val s < group_order" unfolding gen_x_mod_order by auto
  moreover have "gen_x \<noteq> 0" "gen_x < group_order" by (simp_all add: gen_x_def group_order_def)
  ultimately show ?thesis by auto
qed

text \<open>With s = 1, R = G, Q = G and m = 1 - r the equation holds.\<close>

lemma sample_equation: "ecdsa_equation gen_x 1 (group_order + 1 - gen_x) gen gen"
proof -
  have "gen_x < group_order" by (simp add: gen_x_def group_order_def)
  then have "zmul (int (group_order + 1 - gen_x)) gen + zmul (int gen_x) gen = zmul (int (group_order + 1)) gen"
    by (simp only: zmul_add [symmetric] of_nat_add [symmetric]) simp
  also have "\<dots> = zmul (int 1) gen" by (rule zmul_int_cong) (simp add: group_order_def)
  finally show ?thesis unfolding ecdsa_equation_def ..
qed

lemma sample_valid: "ecdsa_valid gen_x 1 (group_order + 1 - gen_x) gen"
proof -
  have "gen_x \<noteq> 0" by (simp add: gen_x_def)
  then show ?thesis
    unfolding ecdsa_valid_def using sample_equation gen_x_mod_order by (auto simp: gen_pt_def intro!: exI [of _ gen])
qed

lemma sample_recovers: "ecdsa_recovers gen_x 1 0 (group_order + 1 - gen_x) gen"
proof -
  have "rep_fp (of_nat gen_x) = int gen_x" "rep_fp (of_nat gen_y) = int gen_y"
    unfolding rep_fp_of_nat by (simp_all add: field_prime_def gen_x_def gen_y_def)
  then have "recid_point gen_x 0 gen" unfolding recid_point_def by (simp add: gen_pt_def gen_y_def)
  then show ?thesis unfolding ecdsa_recovers_def using sample_equation gen_ne_0 by (auto simp: gen_x_def)
qed

lemma sample_message:
  "be_nat (nat_be 32 (group_order + 1 - gen_x)) mod group_order = group_order + 1 - gen_x" "be_nat (nat_be 32 gen_x) = gen_x"
proof -
  have "be_nat (nat_be 32 (group_order + 1 - gen_x)) = group_order + 1 - gen_x"
    by (rule nat_be_32) (simp add: group_order_def gen_x_def)
  then show "be_nat (nat_be 32 (group_order + 1 - gen_x)) mod group_order = group_order + 1 - gen_x"
    by (simp add: group_order_def gen_x_def)
  show "be_nat (nat_be 32 gen_x) = gen_x" by (rule nat_be_32) (simp add: gen_x_def)
qed

section \<open>Verification\<close>

text \<open>
  C1: secp256k1_ecdsa_verify accepts exactly the valid signatures: with a built table and a key object
  that holds the point Q, the signature (r, s) passes for a message if and only if s is at most half
  of the order, r and s are not zero and the point R with s R = m G + r Q exists, is not infinity and
  has the x coordinate r modulo the order.
\<close>

theorem ecdsa_verify_exact:
  assumes "verify_ctx_ok ctx" "key_of obj Q" "length msg = 32"
    and "ecdsa_signature_load sig = (r, s)" "sc64_val r < group_order" "sc64_val s < group_order"
  shows "ecdsa_verify ctx (Some sig) (Some msg) (Some obj) = ([], sc64_val s \<le> group_order div 2 \<and>
    ecdsa_valid (sc64_val r) (sc64_val s) (be_nat msg mod group_order) Q)"
  by (rule verify_law [OF assms])

theorem ecdsa_verify_exact_witness:
  "\<exists>ctx r. ecdsa_verify ctx (Some (ecdsa_signature_save r (Sc64 1 0 0 0))) (Some (nat_be 32 (group_order + 1 - gen_x)))
     (Some (pubkey_save g52)) = ([], True)"
proof -
  obtain ctx where ctx: "verify_ctx_ok ctx" using full_ctx_exists by blast
  obtain r ov where r: "sc_set_b32 sc64_ops (nat_be 32 gen_x) = (r, ov)" by (rule prod.exhaust)
  have rv: "sc64_val r = gen_x" using s64.sset_b32_law [OF nat_be_length r] sample_message(2) by (simp add: gen_x_def group_order_def)
  have sv: "sc64_val (Sc64 1 0 0 0) = 1" by simp
  have "gen_x < group_order" "1 \<le> group_order div 2" "1 < group_order" by (simp_all add: group_order_def gen_x_def)
  then have "ecdsa_verify ctx (Some (ecdsa_signature_save r (Sc64 1 0 0 0))) (Some (nat_be 32 (group_order + 1 - gen_x)))
     (Some (pubkey_save g52)) = ([], True)"
    using ecdsa_verify_exact [OF ctx generator_key nat_be_length signature_load_save, of r "Sc64 1 0 0 0" "group_order + 1 - gen_x"]
      sample_valid
    unfolding rv sv sample_message(1) by simp
  then show ?thesis by blast
qed

section \<open>Signing\<close>

lemma sign_result:
  assumes "ecdsa_sign ctx (Some old) (Some msg) (Some key) noncefp data = Some ([], (True, Some sig))"
  obtains r s recid where "sign_core ctx msg key noncefp data = Some (Some (r, s, recid))" "sig = ecdsa_signature_save r s"
  using assms by (auto simp: ecdsa_sign_def split: if_splits bind_splits option.splits)

text \<open>
  C2: A signature that secp256k1_ecdsa_sign returns is accepted by secp256k1_ecdsa_verify for the same
  message and the key secp256k1_ec_pubkey_create makes, whatever nonce function was used and however
  often the signing context was blinded, provided r is not zero.
\<close>

theorem ecdsa_sign_then_verify:
  assumes "sign_ctx_ok sctx" "verify_ctx_ok vctx" "seckey_ok key" "length msg = 32"
    and "\<And>j. length (snd (nonce_fun noncefp msg key None data j)) = 32"
    and "ecdsa_sign sctx (Some old) (Some msg) (Some key) noncefp data = Some ([], (True, Some sig))"
    and "ec_pubkey_create sctx (Some old') (Some key) = ([], (True, Some obj))"
    and "sc64_val (fst (ecdsa_signature_load sig)) \<noteq> 0"
  shows "ecdsa_verify vctx (Some sig) (Some msg) (Some obj) = ([], True)"
proof -
  obtain r s recid where r: "sign_core sctx msg key noncefp data = Some (Some (r, s, recid))" "sig = ecdsa_signature_save r s"
    using assms(6) by (rule sign_result)
  have r0: "sc64_val r \<noteq> 0" using assms(8) r(2) by simp
  note l = sign_core_recovers [OF assms(1,3,4,5) r(1) r0]
  have k: "key_of obj (pubkey_point key)" using pubkey_create_law [OF assms(1,3), of old'] assms(7) by auto
  have "sc64_val s < group_order" using l(2) by (rule le_less_trans) (simp add: group_order_def)
  from verify_law [OF assms(2) k assms(4) signature_load_save l(3) this]
  show ?thesis using l(2) ecdsa_recovers_valid [OF l(1,3)] by (simp add: r(2))
qed

theorem ecdsa_sign_then_verify_witness:
  "\<exists>ctx sig obj. ecdsa_sign ctx (Some []) (Some (nat_be 32 1)) (Some (nat_be 32 1)) (Some (const_nonce 1)) None = Some ([], (True, Some sig))
     \<and> ecdsa_verify ctx (Some sig) (Some (nat_be 32 1)) (Some obj) = ([], True)"
proof -
  obtain ctx where ctx: "verify_ctx_ok ctx" "sign_ctx_ok ctx" using full_ctx_exists by blast
  obtain r s recid where r: "sign_core ctx (nat_be 32 1) (nat_be 32 1) (Some (const_nonce 1)) None = Some (Some (r, s, recid))"
    "sc64_val r \<noteq> 0" using sample_sign [OF ctx(2)] by blast
  have sg: "ecdsa_sign ctx (Some []) (Some (nat_be 32 1)) (Some (nat_be 32 1)) (Some (const_nonce 1)) None
      = Some ([], (True, Some (ecdsa_signature_save r s)))"
    unfolding ecdsa_sign_def using r sign_ctx_built [OF ctx(2)] by simp
  obtain obj where obj: "ec_pubkey_create ctx (Some []) (Some (nat_be 32 1)) = ([], (True, Some obj))"
    using pubkey_create_law [OF ctx(2) sample_secret(1)] by blast
  have "ecdsa_verify ctx (Some (ecdsa_signature_save r s)) (Some (nat_be 32 1)) (Some obj) = ([], True)"
    by (rule ecdsa_sign_then_verify [OF ctx(2,1) sample_secret(1) nat_be_length _ sg obj]) (simp_all add: r nonce_fun_def)
  with sg show ?thesis by blast
qed

text \<open>
  C3: The recovery id leads back to the signer: secp256k1_ecdsa_recover, given what
  secp256k1_ecdsa_sign_recoverable returned and the message, succeeds and its key is the public key
  of the secret key, again provided r is not zero.
\<close>

theorem ecdsa_recover_signer:
  assumes "sign_ctx_ok sctx" "verify_ctx_ok vctx" "seckey_ok key" "length msg = 32"
    and "\<And>j. length (snd (nonce_fun noncefp msg key None data j)) = 32"
    and "ecdsa_sign_recoverable sctx (Some old) (Some msg) (Some key) noncefp data = Some ([], (True, Some sig))"
    and "sc64_val (fst (ecdsa_recoverable_signature_load sig)) \<noteq> 0"
  shows "\<exists>obj. ecdsa_recover vctx (Some old') (Some sig) (Some msg) = ([], (True, Some obj)) \<and> key_of obj (pubkey_point key)"
proof -
  obtain r s recid where r: "sign_core sctx msg key noncefp data = Some (Some (r, s, recid))"
    "sig = ecdsa_recoverable_signature_save r s recid"
    using assms(6) by (auto simp: ecdsa_sign_recoverable_def split: if_splits bind_splits option.splits)
  have r1: "r = fst (ecdsa_recoverable_signature_load sig)"
    unfolding r(2) ecdsa_recoverable_signature_load_def ecdsa_recoverable_signature_save_def
    using scalar_load_bytes [of "[]" r] by simp
  then have r0: "sc64_val r \<noteq> 0" using assms(7) by simp
  note l = sign_core_recovers [OF assms(1,3,4,5) r(1) r0]
  have "sc64_val s < group_order" using l(2) by (rule le_less_trans) (simp add: group_order_def)
  from recover_law [OF assms(2,4) recoverable_load_save [OF l(4,5)] l(3) this, of old']
  show ?thesis using l(1) ecdsa_recovers_unique [OF l(1) _ l(3)] unfolding r(2) by (metis (full_types))
qed

theorem ecdsa_recover_signer_witness:
  "\<exists>ctx sig obj. ecdsa_sign_recoverable ctx (Some []) (Some (nat_be 32 1)) (Some (nat_be 32 1)) (Some (const_nonce 1)) None = Some ([], (True, Some sig))
     \<and> ecdsa_recover ctx (Some []) (Some sig) (Some (nat_be 32 1)) = ([], (True, Some obj)) \<and> key_of obj gen"
proof -
  obtain ctx where ctx: "verify_ctx_ok ctx" "sign_ctx_ok ctx" using full_ctx_exists by blast
  obtain r s recid where r: "sign_core ctx (nat_be 32 1) (nat_be 32 1) (Some (const_nonce 1)) None = Some (Some (r, s, recid))"
    "sc64_val r \<noteq> 0" using sample_sign [OF ctx(2)] by blast
  have sg: "ecdsa_sign_recoverable ctx (Some []) (Some (nat_be 32 1)) (Some (nat_be 32 1)) (Some (const_nonce 1)) None
      = Some ([], (True, Some (ecdsa_recoverable_signature_save r s recid)))"
    unfolding ecdsa_sign_recoverable_def using r sign_ctx_built [OF ctx(2)] by simp
  have f: "fst (ecdsa_recoverable_signature_load (ecdsa_recoverable_signature_save r s recid)) = r"
    unfolding ecdsa_recoverable_signature_load_def ecdsa_recoverable_signature_save_def
    using scalar_load_bytes [of "[]" r] by simp
  have "\<exists>obj. ecdsa_recover ctx (Some []) (Some (ecdsa_recoverable_signature_save r s recid)) (Some (nat_be 32 1)) = ([], (True, Some obj))
      \<and> key_of obj (pubkey_point (nat_be 32 1))"
    by (rule ecdsa_recover_signer [OF ctx(2,1) sample_secret(1) nat_be_length _ sg]) (simp_all add: r f nonce_fun_def)
  with sg show ?thesis unfolding sample_secret(2) by blast
qed

section \<open>Signatures with r = 0\<close>

text \<open>The order of the group is the x coordinate of a point, which gives r = 0.\<close>

definition zero_r_y :: nat where
  "zero_r_y = 46605186122817444562674479269041419054299536315261365605869734459454995077649"

lemma order_square: "115792089237316195423570985008687907852837564279074904382605163141518161494337 * 115792089237316195423570985008687907852837564279074904382605163141518161494337 = 115792089237316195423570985008687907852405143892509244725752742275127488317012 * 115792089237316195423570985008687907853269984665640564039457584007908834671663 + (71195301480278335217902614539929261251202386653889648103568916106083405838613 :: nat)"
  by (simp only: arith_simps)

lemma order_cube: "71195301480278335217902614539929261251202386653889648103568916106083405838613 * 115792089237316195423570985008687907852837564279074904382605163141518161494337 + 7 = 71195301480278335217902614539929261250936510979734878899421343923314716432688 * 115792089237316195423570985008687907853269984665640564039457584007908834671663 + (108151030074228567027080063205947167212138114504359820420295568593193614914444 :: nat)"
  by (simp only: arith_simps)

lemma zero_r_square: "46605186122817444562674479269041419054299536315261365605869734459454995077649 * 46605186122817444562674479269041419054299536315261365605869734459454995077649 = 18758132682888612790349799137230518592412540942420574608124304445054634793339 * 115792089237316195423570985008687907853269984665640564039457584007908834671663 + (108151030074228567027080063205947167212138114504359820420295568593193614914444 :: nat)"
  by (simp only: arith_simps)

lemma zero_r_on_curve: "on_curve (Pt (of_nat group_order) (of_nat zero_r_y))"
proof -
  define n :: nat where "n = 115792089237316195423570985008687907852837564279074904382605163141518161494337"
  have n: "group_order = n" by (simp add: n_def group_order_def)
  have "(of_nat zero_r_y :: fp) ^ 2 = of_nat 108151030074228567027080063205947167212138114504359820420295568593193614914444"
    unfolding power2_eq_square of_nat_mult [symmetric] zero_r_y_def zero_r_square by (rule of_nat_prime_part)
  moreover have "(of_nat n :: fp) * of_nat n = of_nat 71195301480278335217902614539929261251202386653889648103568916106083405838613"
    unfolding of_nat_mult [symmetric] n_def order_square by (rule of_nat_prime_part)
  then have "(of_nat n :: fp) ^ 3 + 7 = of_nat (71195301480278335217902614539929261251202386653889648103568916106083405838613 * n + 7)"
    by (simp only: power3_eq_cube of_nat_add of_nat_mult of_nat_numeral)
  then have "(of_nat n :: fp) ^ 3 + 7 = of_nat 108151030074228567027080063205947167212138114504359820420295568593193614914444"
    unfolding n_def order_cube of_nat_prime_part .
  ultimately show ?thesis by (simp only: n on_curve.simps)
qed

lemma zero_r_nonce:
  obtains k x y where "0 < k" "k < group_order" "cpt_pt (zmul (int k) gen) = Pt x y" "fp_mod_order x = 0"
proof -
  define P where "P = Cpt (Pt (of_nat group_order) (of_nat zero_r_y))"
  have P: "cpt_pt P = Pt (of_nat group_order) (of_nat zero_r_y)" unfolding P_def using zero_r_on_curve by (simp add: Cpt_inverse)
  obtain j where j: "P = zmul j gen" using all_multiples by blast
  define k where "k = nat (j mod ord)"
  have k: "int k = j mod ord" by (simp add: k_def)
  then have kp: "P = zmul (int k) gen" unfolding j by (intro zmul_mod) simp
  have "int k < ord" unfolding k by simp
  then have "k < group_order" by (simp add: ord_def)
  moreover have "k \<noteq> 0" using kp P by (intro notI) simp
  moreover have "rep_fp (of_nat group_order) = int group_order"
    unfolding rep_fp_of_nat by (simp add: field_prime_def group_order_def)
  then have "fp_mod_order (of_nat group_order) = 0" by (simp add: fp_mod_order_def)
  ultimately show thesis using that [of k] P kp by simp
qed

text \<open>A signature with r = 0 is rejected before anything else is computed.\<close>

lemma ecdsa_verify_zero_r: "sc64_val r = 0 \<Longrightarrow> \<not> snd (ecdsa_verify ctx (Some (ecdsa_signature_save r s)) m p)"
  using s64.sis_zero_law [of r]
  by (auto simp: ecdsa_verify_def arg_check_def api_bind_def ecdsa_sig_verify_def Let_def signature_load_save
      split: if_splits prod.splits)

text \<open>
  C32: secp256k1_ecdsa_sig_sign does not reject r = 0, although its comment asks for the check.  One nonce k in
  range gives r = 0 with every secret key: for every valid key and every message that is not a multiple of
  the order secp256k1_ecdsa_sign then reports success with a signature object whose r is 0, and
  secp256k1_ecdsa_verify rejects that object in every context, for every message and every public key.
\<close>

theorem ecdsa_sign_zero_r:
  "\<exists>k. 0 < k \<and> k < group_order \<and>
    (\<forall>sctx key msg old data.
       sign_ctx_ok sctx \<longrightarrow> seckey_ok key \<longrightarrow> length msg = 32 \<longrightarrow> be_nat msg mod group_order \<noteq> 0 \<longrightarrow>
       (\<exists>sig. ecdsa_sign sctx (Some old) (Some msg) (Some key) (Some (const_nonce k)) data = Some ([], (True, Some sig))
          \<and> sc64_val (fst (ecdsa_signature_load sig)) = 0
          \<and> (\<forall>vctx m p. \<not> snd (ecdsa_verify vctx (Some sig) m p))))"
proof -
  obtain k x y where k: "0 < k" "k < group_order" and xy: "cpt_pt (zmul (int k) gen) = Pt x y" and x: "fp_mod_order x = 0"
    by (rule zero_r_nonce)
  have "\<exists>sig. ecdsa_sign sctx (Some old) (Some msg) (Some key) (Some (const_nonce k)) data = Some ([], (True, Some sig))
      \<and> sc64_val (fst (ecdsa_signature_load sig)) = 0 \<and> (\<forall>vctx m p. \<not> snd (ecdsa_verify vctx (Some sig) m p))"
    if c: "sign_ctx_ok sctx" "seckey_ok key" "length msg = 32" "be_nat msg mod group_order \<noteq> 0" for sctx key msg old data
  proof -
    have nz: "(fp_mod_order x * be_nat key + be_nat msg) mod group_order \<noteq> 0" unfolding x using c(4) by simp
    obtain r s recid where r: "sign_core sctx msg key (Some (const_nonce k)) data = Some (Some (r, s, recid))"
      "sc64_val r = 0"
      using sign_const_nonce [OF c(1-3) k xy nz, of data] x by auto
    have "ecdsa_sign sctx (Some old) (Some msg) (Some key) (Some (const_nonce k)) data
        = Some ([], (True, Some (ecdsa_signature_save r s)))"
      unfolding ecdsa_sign_def using r sign_ctx_built [OF c(1)] by simp
    then show ?thesis using ecdsa_verify_zero_r [OF r(2)] r(2) by (auto simp: signature_load_save)
  qed
  with k show ?thesis by blast
qed

theorem ecdsa_sign_zero_r_witness:
  "\<exists>ctx k sig. ecdsa_sign ctx (Some []) (Some (nat_be 32 1)) (Some (nat_be 32 1)) (Some (const_nonce k)) None = Some ([], (True, Some sig))
     \<and> sc64_val (fst (ecdsa_signature_load sig)) = 0
     \<and> \<not> snd (ecdsa_verify ctx (Some sig) (Some (nat_be 32 2)) (Some (pubkey_save g52)))"
proof -
  obtain ctx where ctx: "sign_ctx_ok ctx" using full_ctx_exists by blast
  have "be_nat (nat_be 32 1) = 1" by (rule nat_be_32) simp
  then have m: "be_nat (nat_be 32 1) mod group_order \<noteq> 0" by (simp add: group_order_def)
  obtain k where "\<forall>sctx key msg old data. sign_ctx_ok sctx \<longrightarrow> seckey_ok key \<longrightarrow> length msg = 32 \<longrightarrow>
      be_nat msg mod group_order \<noteq> 0 \<longrightarrow>
      (\<exists>sig. ecdsa_sign sctx (Some old) (Some msg) (Some key) (Some (const_nonce k)) data = Some ([], (True, Some sig))
        \<and> sc64_val (fst (ecdsa_signature_load sig)) = 0 \<and> (\<forall>vctx m p. \<not> snd (ecdsa_verify vctx (Some sig) m p)))"
    using ecdsa_sign_zero_r by (elim exE conjE)
  from this [rule_format, OF ctx sample_secret(1) nat_be_length m, of "[]" None] show ?thesis by blast
qed

section \<open>The functions for the Go package\<close>

text \<open>
  C5: secp256k1_ext_ecdsa_verify, from 64 bytes of a signature, 32 of a message and any bytes of a key to the
  verdict: it accepts if and only if the key is an accepted encoding, r is below the order, s is at most half of
  it, and the signature is valid for the point the key stands for.
\<close>

theorem ext_ecdsa_verify_exact:
  assumes "verify_ctx_ok ctx" "length sig = 64" "length msg = 32"
  shows "ext_ecdsa_verify ctx sig msg pub = ([], pubkey_accepted pub \<and>
    be_nat (take 32 sig) < group_order \<and> be_nat (drop 32 sig) \<le> group_order div 2 \<and>
    (\<exists>Q. pubkey_denotes pub (cpt_pt Q) \<and>
      ecdsa_valid (be_nat (take 32 sig)) (be_nat (drop 32 sig)) (be_nat msg mod group_order) Q))"
proof -
  define r where "r = be_nat (take 32 sig)"
  define s where "s = be_nat (drop 32 sig)"
  obtain obj where obj: "ecdsa_signature_parse_compact (Some (replicate 64 0)) (Some sig) = ([], (r < group_order \<and> s < group_order, Some obj))"
    "r < group_order \<and> s < group_order \<Longrightarrow> \<exists>a b. obj = ecdsa_signature_save a b \<and> sc64_val a = r \<and> sc64_val b = s"
    using signature_parse_compact_law [OF assms(2) r_def s_def, of "replicate 64 0"] by metis
  obtain kobj where k: "ec_pubkey_parse (Some (replicate 64 0)) (Some pub) = ([], (pubkey_accepted pub, Some kobj))"
    "pubkey_accepted pub \<Longrightarrow> \<exists>P. pubkey_denotes pub P \<and> key_object kobj P"
    using ec_pubkey_parse_law [of "replicate 64 0" pub] by metis
  have h: "s < group_order" if "s \<le> group_order div 2" using that by (rule le_less_trans) (simp add: group_order_def)
  show ?thesis
  proof (cases "r < group_order \<and> s < group_order \<and> pubkey_accepted pub")
    case False
    then show ?thesis
      unfolding ext_ecdsa_verify_def obj(1) k(1) api_bind_def r_def [symmetric] s_def [symmetric] using h by auto
  next
    case True
    then obtain a b where ab: "obj = ecdsa_signature_save a b" "sc64_val a = r" "sc64_val b = s" using obj(2) by blast
    obtain P where P: "pubkey_denotes pub P" "key_object kobj P" using k(2) True by blast
    have cP: "cpt_pt (Cpt P) = P" using pubkey_denotes_curve [OF P(1)] by (simp add: Cpt_inverse)
    note q = key_of_Cpt [OF P(2)]
    have d: "pubkey_denotes pub (cpt_pt Q) \<longleftrightarrow> Q = Cpt P" for Q
      using pubkey_denotes_unique [OF P(1)] P(1) cP by (metis cpt_pt_inverse)
    have "ecdsa_verify ctx (Some obj) (Some msg) (Some kobj)
        = ([], s \<le> group_order div 2 \<and> ecdsa_valid r s (be_nat msg mod group_order) (Cpt P))"
      unfolding ab(1) using verify_law [OF assms(1) q assms(3) signature_load_save] ab(2,3) True by simp
    then show ?thesis
      unfolding ext_ecdsa_verify_def obj(1) k(1) api_bind_def r_def [symmetric] s_def [symmetric] d using True by simp
  qed
qed

theorem ext_ecdsa_verify_exact_witness:
  "\<exists>ctx. ext_ecdsa_verify ctx (nat_be 32 gen_x @ nat_be 32 1) (nat_be 32 (group_order + 1 - gen_x)) (point_bytes True gen_pt) = ([], True)"
proof -
  obtain ctx where ctx: "verify_ctx_ok ctx" using full_ctx_exists by blast
  have P: "on_curve gen_pt" "gen_pt \<noteq> Infty" by (rule gen_on_curve) (simp add: gen_pt_def)
  have l: "length (nat_be 32 gen_x @ nat_be 32 1) = 64" "take 32 (nat_be 32 gen_x @ nat_be 32 1) = nat_be 32 gen_x"
    "drop 32 (nat_be 32 gen_x @ nat_be 32 1) = nat_be 32 1" by simp_all
  have b: "be_nat (nat_be 32 1) = 1" by (rule nat_be_32) simp
  have "\<exists>Q. pubkey_denotes (point_bytes True gen_pt) (cpt_pt Q) \<and> ecdsa_valid gen_x 1 (group_order + 1 - gen_x) Q"
    using point_bytes_denote [OF P, of True] sample_valid by (intro exI [of _ gen]) simp
  moreover have "gen_x < group_order" "1 \<le> group_order div 2" by (simp_all add: group_order_def gen_x_def)
  ultimately show ?thesis
    using ext_ecdsa_verify_exact [OF ctx l(1) nat_be_length, of "group_order + 1 - gen_x" "point_bytes True gen_pt"]
      point_bytes_accepted [OF P, of True]
    unfolding l(2,3) b sample_message by auto
qed

text \<open>
  C6: secp256k1_ext_ecdsa_recover, from 65 bytes of a signature with its id and 32 of a message: for an id from 0
  to 3 it writes the uncompressed encoding of the key the signature and the id stand for, and fails without
  touching the buffer exactly when a number is not below the order or there is no such key.
\<close>

theorem ext_ecdsa_recover_exact:
  assumes "verify_ctx_ok ctx" "length sig = 65" "unat (sig ! 64) \<le> 3" "length msg = 32" "length out = 65"
    and "r = be_nat (take 32 sig)" "s = be_nat (take 32 (drop 32 sig))" "recid = int (unat (sig ! 64))"
    and "ok \<longleftrightarrow> r < group_order \<and> s < group_order \<and> (\<exists>Q. ecdsa_recovers r s recid (be_nat msg mod group_order) Q)"
  shows "\<exists>out'. ext_ecdsa_recover ctx (Some out) sig msg = ([], (ok, Some out')) \<and> (if ok then \<exists>Q. ecdsa_recovers r s recid (be_nat msg mod group_order) Q \<and> out' = point_bytes False (cpt_pt Q)
      else out' = out)"
proof -
  obtain a ova where a: "sc_set_b32 sc64_ops (take 32 sig) = (a, ova)" by (rule prod.exhaust)
  obtain b ovb where b: "sc_set_b32 sc64_ops (take 32 (drop 32 sig)) = (b, ovb)" by (rule prod.exhaust)
  have "length (take 32 sig) = 32" "length (take 32 (drop 32 sig)) = 32" using assms(2) by simp_all
  note v = s64.sset_b32_law [OF this(1) a] s64.sset_b32_law [OF this(2) b]
  have ov: "ova \<longleftrightarrow> \<not> r < group_order" "ovb \<longleftrightarrow> \<not> s < group_order" using v unfolding assms(6,7) by auto
  have rc: "0 \<le> recid" "recid \<le> 3" using assms(3) unfolding assms(8) by linarith+
  have p: "ecdsa_recoverable_signature_parse_compact (Some (replicate 65 0)) (Some sig) recid =
      ([], (r < group_order \<and> s < group_order,
        Some (if r < group_order \<and> s < group_order then ecdsa_recoverable_signature_save a b recid else replicate 65 0)))"
    unfolding ecdsa_recoverable_signature_parse_compact_def arg_check_def Let_def option.sel a b prod.case ov using rc by simp
  show ?thesis
  proof (cases "r < group_order \<and> s < group_order")
    case False
    then show ?thesis unfolding ext_ecdsa_recover_def assms(8) [symmetric] p api_bind_def using assms(9) by auto
  next
    case True
    then have ab: "sc64_val a = r" "sc64_val b = s" using v unfolding assms(6,7) by simp_all
    have lt: "sc64_val a < group_order" "sc64_val b < group_order" using True ab by simp_all
    have okQ: "ok \<longleftrightarrow> (\<exists>Q. ecdsa_recovers r s recid (be_nat msg mod group_order) Q)" using assms(9) True by simp
    obtain obj where e: "ecdsa_recover ctx (Some (replicate 64 0)) (Some (ecdsa_recoverable_signature_save a b recid)) (Some msg) = ([], (ok, Some obj))"
      and key: "ok \<Longrightarrow> \<exists>Q. key_of obj Q \<and> ecdsa_recovers r s recid (be_nat msg mod group_order) Q"
      using recover_law [OF assms(1,4) recoverable_load_save [OF rc] lt, of "replicate 64 0"] unfolding ab okQ by metis
    show ?thesis
    proof (cases ok)
      case False
      then show ?thesis unfolding ext_ecdsa_recover_def assms(8) [symmetric] p api_bind_def using True e by simp
    next
      case okT: True
      then obtain Q where Q: "key_of obj Q" "ecdsa_recovers r s recid (be_nat msg mod group_order) Q" using key by blast
      have "cpt_pt Q \<noteq> Infty" using Q(2) by (simp add: ecdsa_recovers_def)
      then have len: "length (point_bytes False (cpt_pt Q)) = 65" by (simp add: point_bytes_length)
      have "ec_pubkey_serialize (Some out) (Some 65) (Some obj) ec_uncompressed = ([], (True, Some 65, Some (point_bytes False (cpt_pt Q))))"
        using ec_pubkey_serialize_law [OF Q(1) [unfolded key_of_def], of False 65 out] assms(5) unfolding len by simp
      then show ?thesis
        unfolding ext_ecdsa_recover_def assms(8) [symmetric] p api_bind_def using True okT e Q(2) by auto
    qed
  qed
qed

theorem ext_ecdsa_recover_exact_witness:
  "\<exists>ctx. ext_ecdsa_recover ctx (Some (replicate 65 0)) (nat_be 32 gen_x @ nat_be 32 1 @ [0]) (nat_be 32 (group_order + 1 - gen_x))
     = ([], (True, Some (point_bytes False gen_pt)))"
proof -
  obtain ctx where ctx: "verify_ctx_ok ctx" using full_ctx_exists by blast
  define sig :: "u8 list" where "sig = nat_be 32 gen_x @ nat_be 32 1 @ [0]"
  have l: "length sig = 65" "unat (sig ! 64) \<le> 3" "int (unat (sig ! 64)) = 0" "take 32 sig = nat_be 32 gen_x"
    "take 32 (drop 32 sig) = nat_be 32 1" by (simp_all add: sig_def nth_append)
  have b: "be_nat (nat_be 32 1) = 1" by (rule nat_be_32) simp
  have lt: "gen_x < group_order" "1 < group_order" by (simp_all add: gen_x_def group_order_def)
  have Q: "ecdsa_recovers gen_x 1 0 (group_order + 1 - gen_x) Q \<longleftrightarrow> Q = gen" for Q
    using sample_recovers ecdsa_recovers_unique [OF _ sample_recovers lt(1)] by blast
  have out: "length (replicate 65 (0 :: u8)) = 65" by simp
  note e = ext_ecdsa_recover_exact [OF ctx l(1,2) nat_be_length out refl refl refl refl, of "group_order + 1 - gen_x",
      unfolded l(3-5) b sample_message Q]
  show ?thesis using e lt unfolding sig_def [symmetric] by (intro exI [of _ ctx]) auto
qed

end
