(* ===== verification/Secp256k1_Products.thy ===== *)
theory Secp256k1_Products
  imports Secp256k1_Ecdsa
begin

text \<open>
  The properties of the multiplications and of the public functions built on them: public keys and
  their tweaks, sums of keys, key agreement, the multiplication the Go package calls.
\<close>

section \<open>Multiplications\<close>

lemma built_ctx_ok: "ecmult_ctx_ok fe52_ops fe52_mag fe52_fval (ecmult_context_build fe52_ops ecmult_context_init)"
  by (rule ec52.ecmult_context_build_law) (simp add: ecmult_context_init_def)

text \<open>
  C4: secp256k1_ecmult computes na A + ng G: the split of both scalars, the signed digits, the table of
  odd multiples on an isomorphic curve, the two tables of the context and the common loop together return
  a well-formed representation of the sum of the two multiples.
\<close>

theorem ecmult52_correct:
  assumes "ecmult_ctx_ok fe52_ops fe52_mag fe52_fval ctx" "gej52_wf a" "\<not> gej_infinity a" "gej52_pt a = cpt_pt A"
    and "sc64_val na < group_order" "sc64_val ng < group_order"
  shows "gej52_wf (ecmult fe52_ops sc64_ops ctx a na ng) \<and>
    gej52_pt (ecmult fe52_ops sc64_ops ctx a na ng) = cpt_pt (zmul (int (sc64_val na)) A + zmul (int (sc64_val ng)) gen)"
  by (rule ec52.ecmult_law [OF assms])

theorem ecmult52_correct_witness:
  "gej52_pt (ecmult fe52_ops sc64_ops (ecmult_context_build fe52_ops ecmult_context_init) gj52 (Sc64 2 0 0 0) (Sc64 3 0 0 0))
     = cpt_pt (zmul 5 gen)"
proof -
  have v: "sc64_val (Sc64 2 0 0 0) = 2" "sc64_val (Sc64 3 0 0 0) = 3" by simp_all
  have l: "sc64_val (Sc64 2 0 0 0) < group_order" "sc64_val (Sc64 3 0 0 0) < group_order" unfolding v by (simp_all add: group_order_def)
  have g: "gej52_pt gj52 = cpt_pt gen" using gj52(2) by simp
  have "zmul (int 2) gen + zmul (int 3) gen = zmul 5 gen" by (simp only: zmul_add [symmetric]) simp
  then show ?thesis using ecmult52_correct [OF built_ctx_ok gj52(1) gj52_mag(4) g l] unfolding v by simp
qed

text \<open>
  C7: secp256k1_ecmult_const computes n A for every scalar n with a fixed sequence of doublings and
  unified additions over the odd digits of both halves of n, and takes their skew back.
\<close>

theorem ecmult_const52_correct:
  assumes "ge52_wf a" "\<not> ge_infinity a" "ge52_pt a = cpt_pt A" "sc64_val n < group_order"
  shows "gej52_wf (ecmult_const fe52_ops sc64_ops a n) \<and>
    gej52_pt (ecmult_const fe52_ops sc64_ops a n) = cpt_pt (zmul (int (sc64_val n)) A)"
  using ec52.ecmult_const_law [OF assms] unfolding ec52.gej_on_one by blast

theorem ecmult_const52_correct_witness:
  "gej52_pt (ecmult_const fe52_ops sc64_ops g52 (Sc64 7 0 0 0)) = cpt_pt (zmul 7 gen)"
proof -
  have v: "sc64_val (Sc64 7 0 0 0) = 7" by simp
  have l: "sc64_val (Sc64 7 0 0 0) < group_order" unfolding v by (simp add: group_order_def)
  have g: "ge52_pt g52 = cpt_pt gen" using g52(3) by simp
  have "zmul (int 7) gen = zmul 7 gen" by (simp only: of_nat_numeral)
  then show ?thesis using ecmult_const52_correct [OF g52(1,2) g l] unfolding v by (simp only: simp_thms)
qed

text \<open>
  C8: secp256k1_ecmult_gen computes n G from every right table, whatever offsets its rows have and
  however the scalar is blinded: the offsets cancel over the rows and the initial point cancels the blinding.
\<close>

theorem ecmult_gen52_correct:
  assumes "gen_ctx_ok fe52_ops fe52_mag fe52_fval sc64_val ctx" "sc64_val n < group_order"
  shows "gej52_wf (ecmult_gen fe52_ops sc64_ops ctx n) \<and>
    gej52_pt (ecmult_gen fe52_ops sc64_ops ctx n) = cpt_pt (zmul (int (sc64_val n)) gen)"
  using ec52.ecmult_gen_law [OF assms] by blast

theorem ecmult_gen52_correct_witness:
  "\<exists>ctx. gej52_pt (ecmult_gen fe52_ops sc64_ops ctx (Sc64 7 0 0 0)) = cpt_pt (zmul 7 gen)"
proof -
  obtain ctx where c: "gen_ctx_ok fe52_ops fe52_mag fe52_fval sc64_val ctx" using sign_ctx_exists by blast
  have v: "sc64_val (Sc64 7 0 0 0) = 7" by simp
  have l: "sc64_val (Sc64 7 0 0 0) < group_order" unfolding v by (simp add: group_order_def)
  have "zmul (int 7) gen = zmul 7 gen" by (simp only: of_nat_numeral)
  then show ?thesis using ecmult_gen52_correct [OF c l] unfolding v by (intro exI [of _ ctx]) (simp only: simp_thms)
qed

text \<open>
  C27: secp256k1_scalar_inverse computes the inverse modulo the order, which is prime, of every scalar
  that is not zero.
\<close>

theorem sc64_inverse_correct:
  assumes "0 < sc64_val a" "sc64_val a < group_order"
  shows "sc64_val a * sc64_val (sc_inverse sc64_ops a) mod group_order = 1"
  using order_inv_mult [OF assms] ec52.inverse_var_order_inv [of a] by (simp add: sc_inverse_var_def)

theorem sc64_inverse_correct_witness: "2 * sc64_val (sc_inverse sc64_ops (Sc64 2 0 0 0)) mod group_order = 1"
proof -
  have v: "sc64_val (Sc64 2 0 0 0) = 2" by simp
  have "0 < sc64_val (Sc64 2 0 0 0)" "sc64_val (Sc64 2 0 0 0) < group_order" unfolding v by (simp_all add: group_order_def)
  from sc64_inverse_correct [OF this] show ?thesis unfolding v .
qed

section \<open>Contexts\<close>

text \<open>
  C36: secp256k1_context_create with the verification flag returns a context whose two tables hold the odd
  multiples of G and of 2^128 G, which is what verification and the tweaks of public keys rely on.
\<close>

theorem context_create_verify_ok:
  assumes "context_create mem flags = Some (l, Some ctx)" "flags AND 0x100 \<noteq> 0"
  shows "ecmult_ctx_ok fe52_ops fe52_mag fe52_fval (ecmult_ctx ctx)"
  by (rule context_create_verify_law [OF assms])

theorem context_create_verify_ok_witness:
  "\<exists>mem ctx. context_create mem 0x101 = Some ([], Some ctx) \<and> ecmult_ctx_ok fe52_ops fe52_mag fe52_fval (ecmult_ctx ctx)"
proof -
  obtain mem :: secp256k1_context where True by blast
  obtain ctx where c: "context_create mem 0x101 = Some ([], Some ctx)" by (simp add: context_create_def Let_def)
  have "(0x101 :: u32) AND 0x100 \<noteq> 0" by simp
  from context_create_verify_ok [OF c this] c show ?thesis by blast
qed

section \<open>Public keys\<close>

text \<open>
  C20: secp256k1_ec_pubkey_create gives, for a valid secret key k, an object that holds the point k G.
\<close>

theorem ec_pubkey_create_point:
  assumes "sign_ctx_ok ctx" "seckey_ok key"
  shows "\<exists>obj. ec_pubkey_create ctx (Some old) (Some key) = ([], (True, Some obj)) \<and> key_of obj (zmul (int (be_nat key)) gen)"
  using pubkey_create_law [OF assms, of old] unfolding pubkey_point_def .

theorem ec_pubkey_create_point_witness:
  "\<exists>ctx obj. ec_pubkey_create ctx (Some []) (Some (nat_be 32 1)) = ([], (True, Some obj)) \<and> key_of obj gen"
proof -
  obtain ctx where c: "sign_ctx_ok ctx" using full_ctx_exists by blast
  from ec_pubkey_create_point [OF c sample_secret(1), of "[]"] show ?thesis
    unfolding pubkey_point_def [symmetric] sample_secret(2) by blast
qed

text \<open>
  C18: Tweaking commutes with making the public key: for the public key of a valid secret key,
  secp256k1_ec_pubkey_tweak_add fails exactly when secp256k1_ec_privkey_tweak_add does, and otherwise the
  object it makes holds the public key of the tweaked secret key; the same holds for the multiplicative
  tweaks.
\<close>

theorem ec_tweaks_commute:
  assumes "verify_ctx_ok ctx" "seckey_ok key" "length tweak = 32" "key_of obj (pubkey_point key)"
    and "ec_privkey_tweak_add (Some key) (Some tweak) = ([], (ok1, Some key1))"
    and "ec_privkey_tweak_mul (Some key) (Some tweak) = ([], (ok2, Some key2))"
  shows "(\<exists>obj1. ec_pubkey_tweak_add ctx (Some obj) (Some tweak) = ([], (ok1, Some obj1)) \<and>
      (if ok1 then seckey_ok key1 \<and> key_of obj1 (pubkey_point key1) else obj1 = replicate 64 0))
    \<and> (\<exists>obj2. ec_pubkey_tweak_mul ctx (Some obj) (Some tweak) = ([], (ok2, Some obj2)) \<and>
      (if ok2 then seckey_ok key2 \<and> key_of obj2 (pubkey_point key2) else obj2 = replicate 64 0))"
proof -
  have k: "length key = 32" "0 < be_nat key" "be_nat key < group_order" using assms(2) by (simp_all add: seckey_ok_def)
  have nb: "be_nat (nat_be 32 x) = x" if "x < group_order" for x
    by (rule nat_be_32) (use that in \<open>simp add: group_order_def\<close>)
  have so: "seckey_ok (nat_be 32 x) \<and> pubkey_point (nat_be 32 x) = zmul (int x) gen" if "x \<noteq> 0" "x < group_order" for x
    unfolding seckey_ok_def pubkey_point_def using that nb by simp
  define t where "t = be_nat tweak"
  define x1 where "x1 = (be_nat key + t) mod group_order"
  define x2 where "x2 = be_nat key * t mod group_order"
  have p1: "pubkey_point key + zmul (int t) gen = zmul (int x1) gen"
    unfolding x1_def zmul_nat_mod pubkey_point_def by (simp only: of_nat_add zmul_add)
  have p2: "zmul (int t) (pubkey_point key) = zmul (int x2) gen"
    unfolding x2_def zmul_nat_mod pubkey_point_def mult.commute [of "be_nat key"] zmul_nat_mult ..
  have xl: "x1 < group_order" "x2 < group_order" unfolding x1_def x2_def by simp_all
  have z1: "zmul (int x1) gen = 0 \<longleftrightarrow> x1 = 0" using zmul_gen_ne_0 [OF _ xl(1)] by (cases "x1 = 0") auto
  have o1: "ok1 \<longleftrightarrow> t < group_order \<and> pubkey_point key + zmul (int t) gen \<noteq> 0" "ok1 \<Longrightarrow> key1 = nat_be 32 x1 \<and> x1 \<noteq> 0"
    using privkey_tweak_add_law [OF k(1) assms(3) refl refl] assms(5) unfolding p1 z1 unfolding x1_def t_def by auto
  have o2: "ok2 \<longleftrightarrow> t < group_order \<and> t \<noteq> 0" "ok2 \<Longrightarrow> key2 = nat_be 32 x2"
    using privkey_tweak_mul_law [OF k(1) assms(3) refl refl] assms(6) unfolding x2_def t_def by auto
  have x20: "x2 \<noteq> 0" if ok2
  proof
    assume "x2 = 0"
    then have "zmul (int t) (pubkey_point key) = 0" unfolding p2 by simp
    moreover have "pubkey_point key \<noteq> 0" unfolding pubkey_point_def by (rule zmul_gen_ne_0 [OF k(2,3)])
    then have "zmul (int t) (pubkey_point key) \<noteq> 0" using o2(1) that by (intro small_multiple) (simp_all add: ord_def)
    ultimately show False by simp
  qed
  show ?thesis
    using pubkey_tweak_add_law [OF assms(1,4,3) o1(1) [unfolded t_def]] pubkey_tweak_mul_law [OF assms(1,4,3) o2(1) [unfolded t_def]]
      o1(2) o2(2) x20 so [OF _ xl(1)] so [OF _ xl(2)]
    unfolding t_def [symmetric] p1 p2 by (cases ok1; cases ok2) auto
qed

theorem ec_tweaks_commute_witness:
  "\<exists>ctx obj1. ec_pubkey_tweak_add ctx (Some (pubkey_save g52)) (Some (nat_be 32 6)) = ([], (True, Some obj1))
     \<and> key_of obj1 (pubkey_point (nat_be 32 7))"
proof -
  obtain ctx where c: "verify_ctx_ok ctx" using full_ctx_exists by blast
  have b: "be_nat (nat_be 32 1) = 1" "be_nat (nat_be 32 6) = 6" by (rule nat_be_32, simp)+
  have l: "length (nat_be 32 x) = 32" for x by simp
  have a: "ec_privkey_tweak_add (Some (nat_be 32 1)) (Some (nat_be 32 6)) = ([], (True, Some (nat_be 32 7)))"
    "ec_privkey_tweak_mul (Some (nat_be 32 1)) (Some (nat_be 32 6)) = ([], (True, Some (nat_be 32 6)))"
    using privkey_tweak_add_law [OF l l refl refl, of 1 6] privkey_tweak_mul_law [OF l l refl refl, of 1 6]
    unfolding b by (simp_all add: group_order_def)
  have k: "key_of (pubkey_save g52) (pubkey_point (nat_be 32 1))" unfolding sample_secret(2) by (rule generator_key)
  show ?thesis using ec_tweaks_commute [OF c sample_secret(1) l k a] by auto
qed

text \<open>
  C37: secp256k1_ec_pubkey_combine adds the points of any positive number of keys: it fails with a zeroed
  object exactly when the sum is the point at infinity.
\<close>

theorem ec_pubkey_combine_sum:
  assumes "list_all2 key_of objs Ps" "objs \<noteq> []"
  shows "\<exists>obj. ec_pubkey_combine (Some old) (Some objs) (length objs) = ([], (sum_list Ps \<noteq> 0, Some obj)) \<and>
    (if sum_list Ps \<noteq> 0 then key_of obj (sum_list Ps) else obj = replicate 64 0)"
  by (rule pubkey_combine_law [OF assms])

theorem ec_pubkey_combine_sum_witness:
  "\<exists>obj. ec_pubkey_combine (Some []) (Some [pubkey_save g52, pubkey_save g52]) 2 = ([], (True, Some obj)) \<and> key_of obj (gen + gen)"
proof -
  have l: "list_all2 key_of [pubkey_save g52, pubkey_save g52] [gen, gen]" using generator_key by simp
  have "gen + gen \<noteq> 0" using double_eq_0 [of gen] gen_ne_0 by auto
  then show ?thesis using ec_pubkey_combine_sum [OF l, of "[]"] by (simp add: numeral_2_eq_2)
qed

section \<open>Key agreement\<close>

text \<open>
  C17: Two parties that call secp256k1_ecdh with their own secret key and the public key
  secp256k1_ec_pubkey_create made for the other get the same 32 bytes: the SHA-256 digest of the compressed
  encoding of a b G.
\<close>

theorem ecdh_agreement:
  assumes "sign_ctx_ok ctx" "seckey_ok a" "seckey_ok b"
    and "ec_pubkey_create ctx (Some old) (Some a) = ([], (True, Some obja))"
    and "ec_pubkey_create ctx (Some old') (Some b) = ([], (True, Some objb))"
  defines "secret \<equiv> fips_sha256 (point_bytes True (cpt_pt (zmul (int (be_nat a * be_nat b)) gen)))"
  shows "ecdh (Some res) (Some objb) (Some a) = ([], (True, Some secret)) \<and> ecdh (Some res') (Some obja) (Some b) = ([], (True, Some secret))"
proof -
  have k: "key_of obja (pubkey_point a)" "key_of objb (pubkey_point b)"
    using pubkey_create_law [OF assms(1,2), of old] pubkey_create_law [OF assms(1,3), of old'] assms(4,5) by auto
  have "zmul (int (be_nat a)) (pubkey_point b) = zmul (int (be_nat a * be_nat b)) gen"
    unfolding pubkey_point_def zmul_nat_mult ..
  moreover have "zmul (int (be_nat b)) (pubkey_point a) = zmul (int (be_nat a * be_nat b)) gen"
    unfolding pubkey_point_def zmul_nat_mult [symmetric] mult.commute [of "be_nat b"] ..
  ultimately show ?thesis
    using ecdh_law [OF k(2) assms(2), of res] ecdh_law [OF k(1) assms(3), of res'] unfolding secret_def by simp
qed

theorem ecdh_agreement_witness:
  "\<exists>obj. ecdh (Some []) (Some obj) (Some (nat_be 32 1)) = ([], (True, Some (fips_sha256 (point_bytes True gen_pt))))"
proof -
  obtain ctx where c: "sign_ctx_ok ctx" using full_ctx_exists by blast
  obtain obj where o: "ec_pubkey_create ctx (Some []) (Some (nat_be 32 1)) = ([], (True, Some obj))"
    using pubkey_create_law [OF c sample_secret(1)] by blast
  have "be_nat (nat_be 32 1) = 1" by (rule nat_be_32) simp
  then show ?thesis using ecdh_agreement [OF c sample_secret(1,1) o o, of "[]"] by auto
qed

text \<open>
  C19: secp256k1_ext_scalar_mul, which the Go package calls to multiply points, writes the coordinates of k P
  for the coordinates of a point P of the curve and a valid secret key k.
\<close>

theorem ext_scalar_mul_exact:
  assumes "cpt_pt P = Pt x y" "seckey_ok key"
  shows "ext_scalar_mul (Some (nat_be 32 (nat (rep_fp x)) @ nat_be 32 (nat (rep_fp y)))) (Some key) =
    ([], (True, Some (drop 1 (point_bytes False (cpt_pt (zmul (int (be_nat key)) P))))))"
  by (rule scalar_mul_law [OF assms])

theorem ext_scalar_mul_exact_witness:
  "ext_scalar_mul (Some (nat_be 32 gen_x @ nat_be 32 gen_y)) (Some (nat_be 32 1)) = ([], (True, Some (nat_be 32 gen_x @ nat_be 32 gen_y)))"
proof -
  have r: "rep_fp (of_nat gen_x) = int gen_x" "rep_fp (of_nat gen_y) = int gen_y"
    unfolding rep_fp_of_nat by (simp_all add: field_prime_def gen_x_def gen_y_def)
  have g: "cpt_pt gen = Pt (of_nat gen_x) (of_nat gen_y)" by (simp add: gen_pt_def)
  have b: "be_nat (nat_be 32 1) = 1" by (rule nat_be_32) simp
  show ?thesis using ext_scalar_mul_exact [OF g sample_secret(1)] unfolding b r by (simp add: gen_pt_def r)
qed

end
