(* ===== verification/Lax_Der.thy ===== *)
theory Lax_Der
  imports Secp256k1
begin

text \<open>
  Parsers for sloppy DER (contrib/lax_der_parsing.c, contrib/lax_der_privatekey_parsing.c).  As in
  \<open>Ecdsa_Der\<close>, \<open>None\<close> is a read outside the input and an inner \<open>None\<close> the early return of 0.
\<close>

section \<open>Signatures\<close>

text \<open>\<open>while (lenbyte > 0 && input[pos] == 0) { pos++; lenbyte--; }\<close>\<close>

fun lax_skip_zeros :: "u8 list \<Rightarrow> nat \<Rightarrow> nat \<Rightarrow> (nat \<times> nat) option" where
  "lax_skip_zeros input pos 0 = Some (pos, 0)"
| "lax_skip_zeros input pos (Suc lenbyte) =
     do {
       b \<leftarrow> rd input pos;
       if b = 0 then lax_skip_zeros input (pos + 1) lenbyte else Some (pos, Suc lenbyte)
     }"

text \<open>The value of the length octets: fewer than eight, so a \<open>size_t\<close> does not wrap.\<close>

fun lax_len_loop :: "u8 list \<Rightarrow> nat \<Rightarrow> nat \<Rightarrow> nat \<Rightarrow> (nat \<times> nat) option" where
  "lax_len_loop input pos 0 rlen = Some (pos, rlen)"
| "lax_len_loop input pos (Suc lenbyte) rlen =
     do {
       b \<leftarrow> rd input pos;
       lax_len_loop input (pos + 1) lenbyte (rlen * 2 ^ 8 + unat b)
     }"

text \<open>
  An integer: its position, its length and the position after it.  The code has this text twice,
  for R and for S.
\<close>

definition lax_integer :: "u8 list \<Rightarrow> nat \<Rightarrow> (nat \<times> nat \<times> nat) option option" where
  "lax_integer input pos =
     (let inputlen = length input
      in do {
        absent \<leftarrow> (if pos = inputlen then Some True else do { b \<leftarrow> rd input pos; Some (b \<noteq> 0x02) });
        if absent then Some None
        else
          let pos = pos + 1
          in if pos = inputlen then Some None
             else do {
               b \<leftarrow> rd input pos;
               let lenbyte = unat b;
               let pos = pos + 1;
               l \<leftarrow> (if b AND 0x80 \<noteq> 0 then
                      let lenbyte = lenbyte - 0x80
                      in if inputlen < pos + lenbyte then Some None
                         else do {
                           (pos, lenbyte) \<leftarrow> lax_skip_zeros input pos lenbyte;
                           if 8 \<le> lenbyte then Some None
                           else do {
                             (pos, rlen) \<leftarrow> lax_len_loop input pos lenbyte 0;
                             Some (Some (pos, rlen))
                           }
                         }
                    else Some (Some (pos, lenbyte)));
               (case l of
                  None \<Rightarrow> Some None
                | Some (pos, rlen) \<Rightarrow>
                    if inputlen - pos < rlen then Some None else Some (Some (pos, rlen, pos + rlen)))
             }
      })"

text \<open>
  Half of the compact signature: the contents octets of an integer right aligned in 32 bytes, or
  an overflow, which leaves the zeros.
\<close>

definition lax_copy :: "u8 list \<Rightarrow> nat \<Rightarrow> nat \<Rightarrow> (bool \<times> u8 list) option" where
  "lax_copy input rpos rlen =
     do {
       (rpos, rlen) \<leftarrow> lax_skip_zeros input rpos rlen;
       if 32 < rlen then Some (True, replicate 32 0)
       else do {
         bs \<leftarrow> rd_range input rpos rlen;
         Some (False, replicate (32 - rlen) 0 @ bs)
       }
     }"

text \<open>The sequence header: the position after it.\<close>

definition lax_sequence :: "u8 list \<Rightarrow> nat option option" where
  "lax_sequence input =
     (let inputlen = length input; pos = 0 :: nat
      in do {
        absent \<leftarrow> (if pos = inputlen then Some True else do { b \<leftarrow> rd input pos; Some (b \<noteq> 0x30) });
        if absent then Some None
        else
          let pos = pos + 1
          in if pos = inputlen then Some None
             else do {
               b \<leftarrow> rd input pos;
               let pos = pos + 1;
               if b AND 0x80 \<noteq> 0 then
                 let lenbyte = unat b - 0x80
                 in if inputlen < pos + lenbyte then Some None else Some (Some (pos + lenbyte))
               else Some (Some pos)
             }
      })"

text \<open>\<open>sig\<close> is the signature object, always overwritten.\<close>

definition ecdsa_signature_parse_der_lax :: "u8 list option \<Rightarrow> u8 list \<Rightarrow> (bool \<times> u8 list option) api option" where
  "ecdsa_signature_parse_der_lax sig input =
     (let tmpsig = replicate 64 0;
          (l0, r0, sig) = ecdsa_signature_parse_compact sig (Some tmpsig)
      in do {
        sq \<leftarrow> lax_sequence input;
        (case sq of
           None \<Rightarrow> Some (l0, (False, sig))
         | Some pos \<Rightarrow> do {
             ri \<leftarrow> lax_integer input pos;
             (case ri of
                None \<Rightarrow> Some (l0, (False, sig))
              | Some (rpos, rlen, pos) \<Rightarrow> do {
                  si \<leftarrow> lax_integer input pos;
                  (case si of
                     None \<Rightarrow> Some (l0, (False, sig))
                   | Some (spos, slen, pos) \<Rightarrow> do {
                       (ovr, rb) \<leftarrow> lax_copy input rpos rlen;
                       (ovs, sb) \<leftarrow> lax_copy input spos slen;
                       let overflow = (ovr \<or> ovs);
                       let (l1, ok, sig) = (if \<not> overflow then ecdsa_signature_parse_compact sig (Some (rb @ sb))
                                            else ([], False, sig));
                       let overflow = (overflow \<or> \<not> ok);
                       let (l2, r2, sig) = (if overflow then ecdsa_signature_parse_compact sig (Some (replicate 64 0))
                                            else ([], True, sig));
                       Some (l0 @ l1 @ l2, (True, sig))
                     })
                })
           })
      })"

section \<open>Private keys\<close>

text \<open>The condition \<open>end < privkey + n\<close> is \<open>length privkey < p + n\<close> for the position \<open>p\<close>.\<close>

definition ec_privkey_import_der :: "u8 list \<Rightarrow> (bool \<times> u8 list) api option" where
  "ec_privkey_import_der privkey =
     (let e = length privkey; zero = replicate 32 0; fail = ([], (False, zero)); p = 0 :: nat
      in do {
        bad \<leftarrow> (if e < p + 1 then Some True else do { b \<leftarrow> rd privkey p; Some (b \<noteq> 0x30) });
        if bad then Some fail
        else do {
          let p = p + 1;
          bad \<leftarrow> (if e < p + 1 then Some True else do { b \<leftarrow> rd privkey p; Some (b AND 0x80 = 0) });
          if bad then Some fail
          else do {
            b \<leftarrow> rd privkey p;
            let lenb = unat (b AND 0x7F);
            let p = p + 1;
            if lenb < 1 \<or> 2 < lenb then Some fail
            else if e < p + lenb then Some fail
            else do {
              lo \<leftarrow> rd privkey (p + lenb - 1);
              hi \<leftarrow> (if 1 < lenb then rd privkey (p + lenb - 2) else Some 0);
              let len = unat lo + 2 ^ 8 * unat hi;
              let p = p + lenb;
              if e < p + len then Some fail
              else if e < p + 3 then Some fail
              else do {
                v \<leftarrow> rd_range privkey p 3;
                if v \<noteq> [0x02, 0x01, 0x01] then Some fail
                else do {
                  let p = p + 3;
                  if e < p + 2 then Some fail
                  else do {
                    tag \<leftarrow> rd privkey p;
                    n \<leftarrow> rd privkey (p + 1);
                    if tag \<noteq> 0x04 \<or> n > 0x20 \<or> e < p + 2 + unat n then Some fail
                    else do {
                      bs \<leftarrow> rd_range privkey (p + 2) (unat n);
                      let out32 = replicate (32 - unat n) 0 @ bs;
                      let (l, ok) = ec_seckey_verify (Some out32);
                      Some (l, if ok then (True, out32) else (False, zero))
                    }
                  }
                }
              }
            }
          }
        }
      })"

definition der_begin_compressed :: "u8 list" where
  "der_begin_compressed = [0x30,0x81,0xD3,0x02,0x01,0x01,0x04,0x20]"

definition der_middle_compressed :: "u8 list" where
  "der_middle_compressed = [
     0xA0,0x81,0x85,0x30,0x81,0x82,0x02,0x01,0x01,0x30,0x2C,0x06,0x07,0x2A,0x86,0x48,
     0xCE,0x3D,0x01,0x01,0x02,0x21,0x00,0xFF,0xFF,0xFF,0xFF,0xFF,0xFF,0xFF,0xFF,0xFF,
     0xFF,0xFF,0xFF,0xFF,0xFF,0xFF,0xFF,0xFF,0xFF,0xFF,0xFF,0xFF,0xFF,0xFF,0xFF,0xFF,
     0xFF,0xFF,0xFE,0xFF,0xFF,0xFC,0x2F,0x30,0x06,0x04,0x01,0x00,0x04,0x01,0x07,0x04,
     0x21,0x02,0x79,0xBE,0x66,0x7E,0xF9,0xDC,0xBB,0xAC,0x55,0xA0,0x62,0x95,0xCE,0x87,
     0x0B,0x07,0x02,0x9B,0xFC,0xDB,0x2D,0xCE,0x28,0xD9,0x59,0xF2,0x81,0x5B,0x16,0xF8,
     0x17,0x98,0x02,0x21,0x00,0xFF,0xFF,0xFF,0xFF,0xFF,0xFF,0xFF,0xFF,0xFF,0xFF,0xFF,
     0xFF,0xFF,0xFF,0xFF,0xFE,0xBA,0xAE,0xDC,0xE6,0xAF,0x48,0xA0,0x3B,0xBF,0xD2,0x5E,
     0x8C,0xD0,0x36,0x41,0x41,0x02,0x01,0x01,0xA1,0x24,0x03,0x22,0x00]"

definition der_begin_full :: "u8 list" where
  "der_begin_full = [0x30,0x82,0x01,0x13,0x02,0x01,0x01,0x04,0x20]"

definition der_middle_full :: "u8 list" where
  "der_middle_full = [
     0xA0,0x81,0xA5,0x30,0x81,0xA2,0x02,0x01,0x01,0x30,0x2C,0x06,0x07,0x2A,0x86,0x48,
     0xCE,0x3D,0x01,0x01,0x02,0x21,0x00,0xFF,0xFF,0xFF,0xFF,0xFF,0xFF,0xFF,0xFF,0xFF,
     0xFF,0xFF,0xFF,0xFF,0xFF,0xFF,0xFF,0xFF,0xFF,0xFF,0xFF,0xFF,0xFF,0xFF,0xFF,0xFF,
     0xFF,0xFF,0xFE,0xFF,0xFF,0xFC,0x2F,0x30,0x06,0x04,0x01,0x00,0x04,0x01,0x07,0x04,
     0x41,0x04,0x79,0xBE,0x66,0x7E,0xF9,0xDC,0xBB,0xAC,0x55,0xA0,0x62,0x95,0xCE,0x87,
     0x0B,0x07,0x02,0x9B,0xFC,0xDB,0x2D,0xCE,0x28,0xD9,0x59,0xF2,0x81,0x5B,0x16,0xF8,
     0x17,0x98,0x48,0x3A,0xDA,0x77,0x26,0xA3,0xC4,0x65,0x5D,0xA4,0xFB,0xFC,0x0E,0x11,
     0x08,0xA8,0xFD,0x17,0xB4,0x48,0xA6,0x85,0x54,0x19,0x9C,0x47,0xD0,0x8F,0xFB,0x10,
     0xD4,0xB8,0x02,0x21,0x00,0xFF,0xFF,0xFF,0xFF,0xFF,0xFF,0xFF,0xFF,0xFF,0xFF,0xFF,
     0xFF,0xFF,0xFF,0xFF,0xFE,0xBA,0xAE,0xDC,0xE6,0xAF,0x48,0xA0,0x3B,0xBF,0xD2,0x5E,
     0x8C,0xD0,0x36,0x41,0x41,0x02,0x01,0x01,0xA1,0x44,0x03,0x42,0x00]"

text \<open>
  The bytes written at \<open>privkey\<close>, whose old contents matter only where the serialisation of the
  key leaves them, and \<open>*privkeylen\<close>.
\<close>

definition ec_privkey_export_der ::
  "secp256k1_context \<Rightarrow> u8 list \<Rightarrow> u8 list \<Rightarrow> bool \<Rightarrow> (bool \<times> nat \<times> u8 list) api" where
  "ec_privkey_export_der ctx privkey key32 compressed =
     api_bind (ec_pubkey_create ctx (Some (replicate 64 0)) (Some key32)) (\<lambda>(ok, pubkey).
       if \<not> ok then ([], (False, 0, privkey))
       else
         let head = (if compressed then der_begin_compressed @ take 32 key32 @ der_middle_compressed
                     else der_begin_full @ take 32 key32 @ der_middle_full);
             pubkeylen = (if compressed then 33 else 65);
             flags = (if compressed then ec_compressed else ec_uncompressed)
         in api_bind (ec_pubkey_serialize (Some (drop (length head) privkey)) (Some pubkeylen) pubkey flags)
              (\<lambda>(r, pubkeylen, out). ([], (True, length head + the pubkeylen, head @ the out))))"

end
