(* ===== verification/Lax_Der_Correct.thy ===== *)
theory Lax_Der_Correct
  imports Lax_Der Secp256k1_Keys
begin

text \<open>
  The lenient parser stays inside its input, leaves a valid signature object for every input, and
  agrees with the strict parser on what that accepts.
\<close>

section \<open>The loops\<close>

lemma skip_zeros_law:
  assumes "pos + n \<le> length input"
  obtains k where "lax_skip_zeros input pos n = Some (pos + k, n - k)" "k \<le> n"
    "be_nat (take n (drop pos input)) = be_nat (take (n - k) (drop (pos + k) input))"
    "k < n \<Longrightarrow> input ! (pos + k) \<noteq> 0"
  using assms
proof (induction n arbitrary: pos thesis)
  case 0
  then show ?case by simp
next
  case (Suc n)
  then have r: "rd input pos = Some (input ! pos)" and l: "pos + 1 + n \<le> length input" by (simp_all add: rd_def)
  have t: "take (Suc n) (drop pos input) = input ! pos # take n (drop (pos + 1) input)"
    using Suc.prems(2) by (simp add: take_Suc_conv_app_nth Cons_nth_drop_Suc [symmetric])
  show ?case
  proof (cases "input ! pos = 0")
    case True
    obtain k where k: "lax_skip_zeros input (pos + 1) n = Some (pos + 1 + k, n - k)" "k \<le> n"
      "be_nat (take n (drop (pos + 1) input)) = be_nat (take (n - k) (drop (pos + 1 + k) input))"
      "k < n \<Longrightarrow> input ! (pos + 1 + k) \<noteq> 0"
      using Suc.IH [OF _ l] by blast
    show ?thesis by (rule Suc.prems(1) [of "Suc k"]) (use k True r t in simp_all)
  next
    case False
    show ?thesis by (rule Suc.prems(1) [of 0]) (use False r in simp_all)
  qed
qed

lemma len_loop_defined:
  "pos + n \<le> length input \<Longrightarrow> \<exists>rlen. lax_len_loop input pos n acc = Some (pos + n, rlen)"
proof (induction n arbitrary: pos acc)
  case (Suc n)
  then show ?case using Suc.IH [of "pos + 1"] by (simp add: rd_def)
qed simp

text \<open>An integer is never read outside the input, and its contents lie inside.\<close>

lemma lax_integer_defined:
  assumes "pos \<le> length input"
  shows "\<exists>res. lax_integer input pos = Some res \<and>
    (\<forall>rpos rlen p'. res = Some (rpos, rlen, p') \<longrightarrow> p' = rpos + rlen \<and> rpos + rlen \<le> length input)"
proof (cases "pos < length input \<and> input ! pos = 0x02 \<and> pos + 1 < length input")
  case False
  then have "lax_integer input pos = Some None"
    using assms by (auto simp: lax_integer_def Let_def rd_def)
  then show ?thesis by simp
next
  case True
  define b where "b = input ! (pos + 1)"
  have r: "rd input pos = Some 0x02" "rd input (pos + 1) = Some b" "pos \<noteq> length input" "pos + 1 \<noteq> length input"
    using True by (simp_all add: rd_def b_def)
  define q n where "q = pos + 1 + 1" and "n = unat b - 0x80"
  have e: "lax_integer input pos =
      do { l \<leftarrow> (if b AND 0x80 \<noteq> 0 then
             (if length input < q + n then Some None
              else do {
                (pos, lenbyte) \<leftarrow> lax_skip_zeros input q n;
                if 8 \<le> lenbyte then Some None
                else do { (pos, rlen) \<leftarrow> lax_len_loop input pos lenbyte 0; Some (Some (pos, rlen)) } })
           else Some (Some (q, unat b)));
         (case l of None \<Rightarrow> Some None
          | Some (pos, rlen) \<Rightarrow> if length input - pos < rlen then Some None else Some (Some (pos, rlen, pos + rlen))) }"
    unfolding lax_integer_def Let_def using r by (simp add: q_def n_def)
  have q: "q \<le> length input" using True by (simp add: q_def)
  show ?thesis
  proof (cases "b AND 0x80 = 0")
    case True
    then show ?thesis unfolding e using q by auto
  next
    case False
    show ?thesis
    proof (cases "length input < q + n")
      case True
      then show ?thesis unfolding e using False by simp
    next
      case nl: False
      then obtain k where k: "lax_skip_zeros input q n = Some (q + k, n - k)" "k \<le> n"
        using skip_zeros_law [of q n input] by (metis not_le_imp_less)
      then have "q + k + (n - k) \<le> length input" using nl by simp
      then obtain rlen where "lax_len_loop input (q + k) (n - k) 0 = Some (q + k + (n - k), rlen)"
        using len_loop_defined by blast
      then show ?thesis unfolding e using False nl k by auto
    qed
  qed
qed

text \<open>The copy of an integer to 32 bytes keeps its value, or reports that it does not fit.\<close>

lemma be_nat_leading_zeros: "be_nat (replicate k 0 @ bs) = be_nat bs"
  by (induction k) simp_all

lemma lax_copy_law:
  assumes "rpos + rlen \<le> length input"
  obtains ov bs where "lax_copy input rpos rlen = Some (ov, bs)" "length bs = 32"
    "ov \<longleftrightarrow> 2 ^ 256 \<le> be_nat (take rlen (drop rpos input))"
    "\<not> ov \<Longrightarrow> be_nat bs = be_nat (take rlen (drop rpos input))"
proof -
  obtain k where k: "lax_skip_zeros input rpos rlen = Some (rpos + k, rlen - k)" "k \<le> rlen"
    "be_nat (take rlen (drop rpos input)) = be_nat (take (rlen - k) (drop (rpos + k) input))"
    "k < rlen \<Longrightarrow> input ! (rpos + k) \<noteq> 0"
    using skip_zeros_law [OF assms] by blast
  define bs where "bs = take (rlen - k) (drop (rpos + k) input)"
  have l: "length bs = rlen - k" unfolding bs_def using assms k(2) by simp
  show thesis
  proof (cases "32 < rlen - k")
    case True
    then obtain c cs where bs: "bs = c # cs" using l by (cases bs) auto
    have "bs ! 0 = input ! (rpos + k)" unfolding bs_def using True assms k(2) by simp
    then have "c \<noteq> 0" using k(4) True bs by simp
    then have "1 \<le> unat c" by (simp add: Suc_le_eq unat_gt_0)
    then have "1 * 256 ^ length cs \<le> unat c * 256 ^ length cs" by (rule mult_le_mono1)
    moreover have "256 ^ 32 \<le> (256 :: nat) ^ length cs" using True l bs by (intro power_increasing) simp_all
    moreover have "(256 :: nat) ^ 32 = 2 ^ 256" by simp
    ultimately have "2 ^ 256 \<le> be_nat bs" unfolding bs be_nat.simps by linarith
    then show ?thesis using that [of True "replicate 32 0"] True k(1,3) by (simp add: lax_copy_def bs_def)
  next
    case False
    have "be_nat bs < 256 ^ (rlen - k)" using be_nat_less [of bs] l by simp
    also have "\<dots> \<le> 256 ^ 32" using False by (intro power_increasing) simp_all
    finally have "\<not> 2 ^ 256 \<le> be_nat bs" by simp
    moreover have "rd_range input (rpos + k) (rlen - k) = Some bs" using assms k(2) by (simp add: rd_range_def bs_def)
    ultimately show ?thesis
      using that [of False "replicate (32 - (rlen - k)) 0 @ bs"] False k(1,3) l
      by (simp add: lax_copy_def bs_def [symmetric] be_nat_leading_zeros)
  qed
qed


section \<open>Signatures\<close>

text \<open>Every signature object the parsers leave holds two numbers below the order.\<close>

definition signature_object :: "u8 list \<Rightarrow> bool" where
  "signature_object obj \<longleftrightarrow> length obj = 64 \<and>
     sc64_val (fst (ecdsa_signature_load obj)) < group_order \<and> sc64_val (snd (ecdsa_signature_load obj)) < group_order"

lemma zero_object: "signature_object (replicate 64 0)"
proof -
  have z: "le64_bytes 0 = replicate 8 0" by (simp add: le64_bytes_def numeral_eq_Suc)
  have "scalar_bytes (Sc64 0 0 0 0) = replicate 32 0"
    unfolding scalar_bytes_def sc64.sel z replicate_add [symmetric] by simp
  then have "replicate 64 0 = ecdsa_signature_save (Sc64 0 0 0 0) (Sc64 0 0 0 0)"
    unfolding ecdsa_signature_save_def using replicate_add [of 32 32 "0 :: u8"] by simp
  then show ?thesis unfolding signature_object_def signature_load_save by simp
qed

lemma save_object: "sc64_val r < group_order \<Longrightarrow> sc64_val s < group_order \<Longrightarrow> signature_object (ecdsa_signature_save r s)"
  by (simp add: signature_object_def)

lemma parse_compact_object:
  assumes "length bs = 64"
  shows "\<exists>ok obj. ecdsa_signature_parse_compact (Some old) (Some bs) = ([], (ok, Some obj)) \<and> signature_object obj"
  using signature_parse_compact_law [OF assms refl refl, of old] zero_object save_object
  by (auto split: if_splits)

lemma lax_sequence_defined:
  "\<exists>res. lax_sequence input = Some res \<and> (\<forall>pos. res = Some pos \<longrightarrow> pos \<le> length input)"
proof (cases "1 < length input \<and> input ! 0 = 0x30")
  case True
  then have "rd input 0 = Some 0x30" "rd input 1 = Some (input ! 1)" "length input \<noteq> 0" "length input \<noteq> 1"
    by (auto simp: rd_def)
  then show ?thesis using True by (auto simp: lax_sequence_def Let_def)
next
  case False
  then have "lax_sequence input = Some None"
    by (cases "length input = 0"; cases "length input = 1") (auto simp: lax_sequence_def Let_def rd_def)
  then show ?thesis by simp
qed

lemma parse_der_lax_defined:
  "\<exists>ok obj. ecdsa_signature_parse_der_lax (Some old) input = Some ([], (ok, Some obj)) \<and> signature_object obj"
proof -
  have l64: "length (replicate 64 (0 :: u8)) = 64" by simp
  obtain ok0 obj0 where c0: "ecdsa_signature_parse_compact (Some old) (Some (replicate 64 0)) = ([], (ok0, Some obj0))"
    "signature_object obj0" using parse_compact_object [OF l64] by blast
  obtain sq where sq: "lax_sequence input = Some sq" "\<And>pos. sq = Some pos \<Longrightarrow> pos \<le> length input"
    using lax_sequence_defined by blast
  show ?thesis
  proof (cases sq)
    case None
    then show ?thesis using c0 sq(1) by (auto simp: ecdsa_signature_parse_der_lax_def)
  next
    case s: (Some pos)
    obtain ri where ri: "lax_integer input pos = Some ri"
      "\<And>rpos rlen p'. ri = Some (rpos, rlen, p') \<Longrightarrow> p' = rpos + rlen \<and> rpos + rlen \<le> length input"
      using lax_integer_defined [OF sq(2) [OF s]] by blast
    show ?thesis
    proof (cases ri)
      case None
      then show ?thesis using c0 sq(1) s ri(1) by (auto simp: ecdsa_signature_parse_der_lax_def)
    next
      case (Some x)
      obtain rpos rlen p' where x: "ri = Some (rpos, rlen, p')" using Some by (metis prod_cases3)
      note rb = ri(2) [OF x]
      then have "p' \<le> length input" by simp
      then obtain si where si: "lax_integer input p' = Some si"
        "\<And>spos slen q. si = Some (spos, slen, q) \<Longrightarrow> q = spos + slen \<and> spos + slen \<le> length input"
        using lax_integer_defined by blast
      show ?thesis
      proof (cases si)
        case None
        then show ?thesis using c0 sq(1) s ri(1) si(1) x by (auto simp: ecdsa_signature_parse_der_lax_def)
      next
        case (Some y)
        obtain spos slen q where y: "si = Some (spos, slen, q)" using Some by (metis prod_cases3)
        note sb = si(2) [OF y]
        obtain ovr rbs where r: "lax_copy input rpos rlen = Some (ovr, rbs)" "length rbs = 32"
          using lax_copy_law rb by blast
        obtain ovs sbs where sc: "lax_copy input spos slen = Some (ovs, sbs)" "length sbs = 32"
          using lax_copy_law sb by blast
        have "length (rbs @ sbs) = 64" using r(2) sc(2) by simp
        then obtain ok1 obj1 where c1: "ecdsa_signature_parse_compact (Some obj0) (Some (rbs @ sbs)) = ([], (ok1, Some obj1))"
          "signature_object obj1" using parse_compact_object by blast
        obtain ok2 obj2 where c2: "ecdsa_signature_parse_compact (Some obj0) (Some (replicate 64 0)) = ([], (ok2, Some obj2))"
          "signature_object obj2" using parse_compact_object [OF l64] by blast
        obtain ok3 obj3 where c3: "ecdsa_signature_parse_compact (Some obj1) (Some (replicate 64 0)) = ([], (ok3, Some obj3))"
          "signature_object obj3" using parse_compact_object [OF l64] by blast
        have "ecdsa_signature_parse_der_lax (Some old) input =
          Some ([], (True, Some (if ovr \<or> ovs then obj2 else if ok1 then obj1 else obj3)))"
          by (simp add: ecdsa_signature_parse_der_lax_def c0(1) sq(1) s ri(1) x si(1) y r(1) sc(1) c1(1) c2(1) c3(1))
        then show ?thesis using c1(2) c2(2) c3(2) by auto
      qed
    qed
  qed
qed


section \<open>Agreement with the strict parser\<close>

lemma lax_integer_encoded:
  assumes d: "drop pos input = 0x02 # of_nat (length c) # c @ rest" and c: "length c < 128"
  shows "lax_integer input pos = Some (Some (pos + 2, length c, pos + 2 + length c))"
    "take (length c) (drop (pos + 2) input) = c" "drop (pos + 2 + length c) input = rest"
    "pos + 2 + length c \<le> length input"
proof -
  have l: "length input - pos = 2 + length c + length rest" using arg_cong [OF d, of length] by simp
  then have n: "pos < length input" "pos + 1 < length input" by simp_all
  have i: "input ! pos = 0x02" "input ! (pos + 1) = of_nat (length c)"
    using nth_drop [of pos input 0] nth_drop [of pos input 1] n unfolding d by simp_all
  have u: "unat (of_nat (length c) :: u8) = length c" using c by (simp add: unat_of_nat)
  have "unat ((of_nat (length c) :: u8) AND 0x80) = 0"
  proof -
    have "(of_nat (length c) :: u8) < 0x80" using c u by (simp add: word_less_nat_alt)
    then show ?thesis by (simp add: and80_less [symmetric])
  qed
  then have b: "(of_nat (length c) :: u8) AND 0x80 = 0" by (simp add: unat_eq_0)
  have r: "rd input pos = Some 0x02" "rd input (pos + 1) = Some (of_nat (length c))"
    using n i by (simp_all add: rd_def)
  have le: "\<not> length input - (pos + 1 + 1) < length c" using l by simp
  show "lax_integer input pos = Some (Some (pos + 2, length c, pos + 2 + length c))"
    unfolding lax_integer_def Let_def using n r le by (simp add: b u)
  have d2: "drop (pos + 2) input = c @ rest"
    using arg_cong [OF d, of "drop 2"] by (simp add: add.commute numeral_2_eq_2)
  then show "take (length c) (drop (pos + 2) input) = c" by simp
  have "drop (pos + 2 + length c) input = drop (length c) (drop (pos + 2) input)" by (simp add: add.commute)
  then show "drop (pos + 2 + length c) input = rest" unfolding d2 by simp
  show "pos + 2 + length c \<le> length input" using l n by simp
qed

lemma lax_parses_serialized:
  assumes "sc64_val r < group_order" "sc64_val s < group_order"
  shows "ecdsa_signature_parse_der_lax (Some old) (s64.der_sig r s) = Some ([], (True, Some (ecdsa_signature_save r s)))"
proof -
  define c d where "c = s64.der_int r" and "d = s64.der_int s"
  note c = s64.der_int_spec [of r, folded c_def] and d = s64.der_int_spec [of s, folded d_def]
  define sig where "sig = s64.der_sig r s"
  have e: "drop 2 sig = 0x02 # of_nat (length c) # c @ [0x02, of_nat (length d)] @ d" "sig ! 0 = 0x30"
    "sig ! 1 = of_nat (4 + length d + length c)" and ls: "length sig = 6 + length d + length c"
    unfolding sig_def s64.der_sig_def c_def [symmetric] d_def [symmetric] by (simp_all add: numeral_2_eq_2)
  have "unat (of_nat (4 + length d + length c) :: u8) = 4 + length d + length c"
    using c(2) d(2) unfolding unat_of_nat by simp
  then have "(of_nat (4 + length d + length c) :: u8) < 0x80" using c(2) d(2) by (simp add: word_less_nat_alt)
  then have b: "sig ! 1 AND 0x80 = 0" unfolding e(3) by (simp only: and80_less(1))
  have rd: "rd sig 0 = Some 0x30" "rd sig 1 = Some (sig ! 1)" using e ls by (simp_all add: rd_def)
  have sq: "lax_sequence sig = Some (Some 2)"
    unfolding lax_sequence_def Let_def using rd ls b by (simp add: numeral_2_eq_2)
  note ri = lax_integer_encoded [OF e(1)]
  have lc: "length c < 128" "length d < 128" using c(2) d(2) by simp_all
  define p where "p = 2 + 2 + length c"
  have dp: "drop p sig = 0x02 # of_nat (length d) # d @ []" using ri(3) [OF lc(1)] by (simp add: p_def)
  note si = lax_integer_encoded [OF dp lc(2)]
  obtain ovr rbs where rc: "lax_copy sig (2 + 2) (length c) = Some (ovr, rbs)" "length rbs = 32"
    "ovr \<longleftrightarrow> 2 ^ 256 \<le> be_nat c" "\<not> ovr \<Longrightarrow> be_nat rbs = be_nat c"
    using lax_copy_law [OF ri(4) [OF lc(1)]] unfolding ri(2) [OF lc(1)] by blast
  obtain ovs sbs where sc: "lax_copy sig (p + 2) (length d) = Some (ovs, sbs)" "length sbs = 32"
    "ovs \<longleftrightarrow> 2 ^ 256 \<le> be_nat d" "\<not> ovs \<Longrightarrow> be_nat sbs = be_nat d"
    using lax_copy_law [OF si(4)] unfolding si(2) by blast
  have "\<not> ovr" "\<not> ovs" using rc(3) sc(3) c(3) d(3) s64.sval_less [of r] s64.sval_less [of s] by simp_all
  then have v: "be_nat rbs = sc64_val r" "be_nat sbs = sc64_val s" using rc(4) sc(4) c(3) d(3) by simp_all
  have l: "length (rbs @ sbs) = 64" and t: "take 32 (rbs @ sbs) = rbs" "drop 32 (rbs @ sbs) = sbs"
    using rc(2) sc(2) by simp_all
  have pc: "ecdsa_signature_parse_compact (Some x) (Some (rbs @ sbs)) = ([], (True, Some (ecdsa_signature_save r s)))" for x
    using signature_parse_compact_law [OF l refl refl, of x, unfolded t v] assms by (auto dest!: s64.sval_inj)
  have l64: "length (replicate 64 (0 :: u8)) = 64" by simp
  obtain ok0 obj0 where c0: "ecdsa_signature_parse_compact (Some old) (Some (replicate 64 0)) = ([], (ok0, Some obj0))"
    using parse_compact_object [OF l64] by blast
  show ?thesis
    unfolding sig_def [symmetric] ecdsa_signature_parse_der_lax_def Let_def c0 prod.case sq
    using ri(1) [OF lc(1)] si(1) rc(1) sc(1) \<open>\<not> ovr\<close> \<open>\<not> ovs\<close> by (simp add: p_def pc)
qed

section \<open>Private keys\<close>

lemma privkey_import_defined:
  "\<exists>ok out. ec_privkey_import_der privkey = Some ([], (ok, out)) \<and> length out = 32 \<and>
     (if ok then 0 < be_nat out \<and> be_nat out < group_order else out = replicate 32 0)" (is "?P (ec_privkey_import_der privkey)")
proof -
  have fail: "?P (Some ([], (False, replicate 32 0)))" by auto
  have last: "?P (let (l, ok) = ec_seckey_verify (Some bs) in Some (l, if ok then (True, bs) else (False, replicate 32 0)))"
    if "length bs = 32" for bs
    using seckey_verify_law [OF that] that by auto
  show ?thesis
  proof (cases "0 < length privkey \<and> privkey ! 0 = 0x30 \<and> 1 < length privkey \<and> privkey ! 1 AND 0x80 \<noteq> 0")
    case False
    then have "ec_privkey_import_der privkey = Some ([], (False, replicate 32 0))"
      by (auto simp: ec_privkey_import_der_def Let_def rd_def)
    then show ?thesis using fail by simp
  next
    case True
    obtain lenb where lenb: "unat (privkey ! Suc 0 AND 0x7F) = lenb" by simp
    have r: "rd privkey 0 = Some 0x30" "rd privkey 1 = Some (privkey ! 1)" using True by (simp_all add: rd_def)
    show ?thesis
    proof (cases "(lenb < 1 \<or> 2 < lenb) \<or> length privkey < 2 + lenb")
      case f: True
      then have "ec_privkey_import_der privkey = Some ([], (False, replicate 32 0))"
        using True r by (auto simp: ec_privkey_import_der_def Let_def lenb numeral_2_eq_2)
      then show ?thesis using fail by simp
    next
      case g: False
      then obtain lo hi where lh: "rd privkey (2 + lenb - 1) = Some lo"
        "(if 1 < lenb then rd privkey (2 + lenb - 2) else Some 0) = Some hi"
      proof -
        have "rd privkey (2 + lenb - 1) = Some (privkey ! (2 + lenb - 1))" using g by (simp add: rd_def)
        moreover have "\<exists>hi. (if 1 < lenb then rd privkey (2 + lenb - 2) else Some 0) = Some hi"
          using g by (simp add: rd_def)
        ultimately show thesis using that by blast
      qed
      define p where "p = 2 + lenb"
      define len where "len = unat lo + 2 ^ 8 * unat hi"
      have e: "ec_privkey_import_der privkey =
        (if length privkey < p + len then Some ([], (False, replicate 32 0))
         else if length privkey < p + 3 then Some ([], (False, replicate 32 0))
         else do {
           v \<leftarrow> rd_range privkey p 3;
           if v \<noteq> [0x02, 0x01, 0x01] then Some ([], (False, replicate 32 0))
           else if length privkey < p + 3 + 2 then Some ([], (False, replicate 32 0))
           else do {
             tag \<leftarrow> rd privkey (p + 3);
             n \<leftarrow> rd privkey (p + 3 + 1);
             if tag \<noteq> 0x04 \<or> n > 0x20 \<or> length privkey < p + 3 + 2 + unat n then Some ([], (False, replicate 32 0))
             else do {
               bs \<leftarrow> rd_range privkey (p + 3 + 2) (unat n);
               (let (l, ok) = ec_seckey_verify (Some (replicate (32 - unat n) 0 @ bs))
                in Some (l, if ok then (True, replicate (32 - unat n) 0 @ bs) else (False, replicate 32 0)))
             }
           }
         })"
        using True r g lh unfolding p_def len_def
        by (simp add: ec_privkey_import_der_def Let_def lenb numeral_2_eq_2 add.assoc cong del: if_weak_cong)
      show ?thesis
      proof (cases "p + 3 + 2 \<le> length privkey")
        case False
        then show ?thesis unfolding e using fail by (auto simp: rd_range_def)
      next
        case c: True
        define n where "n = privkey ! (p + 3 + 1)"
        have r5: "rd_range privkey p 3 = Some (take 3 (drop p privkey))" "rd privkey (p + 3) = Some (privkey ! (p + 3))"
          "rd privkey (p + 3 + 1) = Some n" using c by (simp_all add: rd_def rd_range_def n_def)
        show ?thesis
        proof (cases "n > 0x20 \<or> length privkey < p + 3 + 2 + unat n")
          case True
          then show ?thesis unfolding e r5 using fail by auto
        next
          case False
          then have n: "unat n \<le> 32" "rd_range privkey (p + 3 + 2) (unat n) = Some (take (unat n) (drop (p + 3 + 2) privkey))"
            by (simp_all add: word_less_nat_alt rd_range_def)
          define bs where "bs = replicate (32 - unat n) 0 @ take (unat n) (drop (p + 3 + 2) privkey)"
          have "unat n \<le> length privkey - (p + 3 + 2)" using False by linarith
          then have "length (take (unat n) (drop (p + 3 + 2) privkey)) = unat n" by simp
          then have "length bs = 32" using n(1) by (simp add: bs_def)
          from last [OF this] fail show ?thesis
            unfolding e r5 Option.bind.simps n(2) bs_def [symmetric] by (simp split: if_split)
        qed
      qed
    qed
  qed
qed

end
