(* ===== verification/Lax_Der_Theorems.thy ===== *)
theory Lax_Der_Theorems
  imports Lax_Der_Correct
begin

text \<open>
  The properties of the lenient parsers.
\<close>

text \<open>
  C35: ecdsa_signature_parse_der_lax never reads outside its input, whatever the bytes and lengths
  in it are, reports no illegal argument, and always leaves a signature object with two numbers
  below the order.
\<close>

theorem lax_der_safe:
  "\<exists>ok obj. ecdsa_signature_parse_der_lax (Some old) input = Some ([], (ok, Some obj)) \<and> signature_object obj"
  by (rule parse_der_lax_defined)

text \<open>
  The lenient parser extends the strict one: a signature with non-zero numbers that
  secp256k1_ecdsa_signature_parse_der accepts gives the same object in both.
\<close>

theorem lax_der_extends_strict:
  assumes "length input < 2 ^ 31"
    and "ecdsa_signature_parse_der (Some old) (Some input) = Some ([], (True, Some (ecdsa_signature_save r s)))"
    and "sc64_val r \<noteq> 0" "sc64_val s \<noteq> 0"
  shows "ecdsa_signature_parse_der_lax (Some old') input = Some ([], (True, Some (ecdsa_signature_save r s)))"
proof -
  obtain res where res: "ecdsa_sig_parse sc64_ops input = Some res"
    "\<And>r s. res = Some (r, s) \<Longrightarrow> sc64_val r < group_order \<and> sc64_val s < group_order \<and>
       (sc64_val r \<noteq> 0 \<and> sc64_val s \<noteq> 0 \<longrightarrow> input = s64.der_sig r s)"
    by (rule s64.sig_parse_defined [OF assms(1)]) blast
  obtain r' s' where rs: "res = Some (r', s')" "ecdsa_signature_save r' s' = ecdsa_signature_save r s"
    using assms(2) res(1) by (cases res) (auto simp: ecdsa_signature_parse_der_def)
  have "(r', s') = (r, s)" using arg_cong [OF rs(2), of ecdsa_signature_load] by simp
  then have "sc64_val r < group_order" "sc64_val s < group_order" "input = s64.der_sig r s"
    using res(2) [OF rs(1)] assms(3,4) by simp_all
  then show ?thesis using lax_parses_serialized by simp
qed

theorem lax_der_extends_strict_witness:
  "ecdsa_signature_parse_der_lax (Some []) [0x30, 6, 2, 1, 1, 2, 1, 9] =
     Some ([], (True, Some (ecdsa_signature_save (Sc64 1 0 0 0) (Sc64 9 0 0 0))))"
proof -
  let ?sig = "[0x30, 6, 2, 1, 1, 2, 1, 9] :: u8 list"
  have p: "ecdsa_sig_parse sc64_ops ?sig = Some (Some (Sc64 1 0 0 0, Sc64 9 0 0 0))" by code_simp
  have l: "length ?sig = 8" by simp
  have "length ?sig < 2 ^ 31" unfolding l by simp
  moreover have "ecdsa_signature_parse_der (Some []) (Some ?sig) =
      Some ([], (True, Some (ecdsa_signature_save (Sc64 1 0 0 0) (Sc64 9 0 0 0))))"
    unfolding ecdsa_signature_parse_der_def option.sel p by simp
  ultimately show ?thesis by (rule lax_der_extends_strict) simp_all
qed

text \<open>
  The parser of private keys never reads outside its input and returns either a valid secret key of
  32 bytes or a failure with a zeroed key.
\<close>

theorem privkey_import_safe:
  "\<exists>ok out. ec_privkey_import_der privkey = Some ([], (ok, out)) \<and> length out = 32 \<and>
     (if ok then 0 < be_nat out \<and> be_nat out < group_order else out = replicate 32 0)"
  by (rule privkey_import_defined)

end
