(* ===== verification/Spec2Isabelle.thy ===== *)
theory Spec2Isabelle
  imports Group_Theorems Scalar_Theorems Hash_Theorems Ecmult_Theorems Secp256k1_Signing Secp256k1_Products Lax_Der_Theorems
begin

text \<open>
  Verification of the elliptic curve library libsecp256k1 as it is vendored in
  src/crypto/secp256k1/libsecp256k1 and built by src/crypto/secp256k1/secp256.go: a 64-bit
  build with 52-bit field limbs and 64-bit scalar limbs, the endomorphism enabled, no bignum
  library and VERIFY off.  It is the C code that signs and checks the transactions of the chain.

  The library is a stack.  Field elements and scalars are two number types with a fixed interface
  and several representations; points of the curve are built on field elements; the point
  multiplications join points and scalars; signatures and keys use them, together with a hash; the
  public functions check arguments and convert between opaque bytes and the types below; the
  functions of ext.h are what the Go package calls.  Every level is a record of operations or a
  group of definitions that takes the level below as an argument, as the C code takes it through
  its headers.

  Theories, from the bottom:

  \<^item> \<open>Prelude\<close>: machine integers and byte strings, with the lemmas all parts share.
  \<^item> \<open>Numeral_Eval\<close>, \<open>Primality\<close>: products and remainders of large numerals by rewriting, and
    Pocklington's criterion over them.  \<open>Field_Prime_Certificate\<close> and \<open>Group_Order_Certificate\<close> are
    the certificates, step by step, that the field prime and the group order are prime;
    \<open>Prime_Field\<close> has the residues modulo the field prime as the type \<open>fp\<close>, a field.
  \<^item> \<open>Field_Interface\<close>: field.h, as the record \<open>field_ops\<close> and the locale \<open>field_impl\<close> with the
    contract its comments state (magnitudes, normal form, values).
  \<^item> \<open>Field_5x52\<close>, \<open>Field_5x52_Ops\<close>, \<open>Field_5x52_Mul\<close>: field_5x52_impl.h and
    field_5x52_int128_impl.h, limb by limb on 64- and 128-bit words; the contract is interpreted on
    them as \<open>f52\<close>.  The limbs of a magnitude \<open>m\<close> element are below \<open>2 m\<close> times their bound, and 32
    is the largest magnitude the contract uses.
  \<^item> \<open>Field_Impl\<close>, \<open>Field_Theorems\<close>: field_impl.h (inverse, square root, inversion of arrays).
  \<^item> \<open>Curve\<close>: the affine group law, the specification of the group module.
  \<^item> \<open>Group\<close>, \<open>Group_Correct\<close>, \<open>Group_Convert\<close>, \<open>Group_Theorems\<close>: group.h, group_impl.h; every
    addition and doubling formula refines the affine law on well-formed points.
  \<^item> \<open>Curve_Ring\<close>, \<open>Curve_Ideals\<close>, \<open>Curve_Group\<close>, \<open>Curve_Multiples\<close>: the affine law is associative
    (through the ideals of points in the coordinate ring), so the points form the abelian group
    \<open>cpt\<close>, with the multiples \<open>nmul\<close> and \<open>zmul\<close>.  \<open>Curve_Endo\<close> is the endomorphism.
    \<open>Curve_Chain\<close> and \<open>Curve_Order_Certificate\<close> compute the order of the generator point by point;
    \<open>Curve_Order\<close> concludes that the whole group is generated by it and has the prime order that
    scalars are reduced by, and that the endomorphism is the multiplication by lambda.
  \<^item> \<open>Scalar_Interface\<close>, \<open>Scalar_4x64\<close>, \<open>Scalar_4x64_Correct\<close>, \<open>Scalar_4x64_Mul\<close>,
    \<open>Scalar_4x64_Reduce\<close>, \<open>Scalar_4x64_Bits\<close>: scalar.h and scalar_4x64_impl.h, in the same way: the
    locale \<open>scalar_impl\<close>, interpreted as \<open>s64\<close>.
  \<^item> \<open>Scalar_Impl\<close>, \<open>Scalar_Theorems\<close>: scalar_impl.h (inverse, split along the endomorphism).
  \<^item> \<open>Hash\<close>, \<open>Hash_Correct\<close>, \<open>Hash_Theorems\<close>: hash_impl.h; SHA-256 against FIPS 180-4 and the
    generator of nonces against RFC 6979.  \<open>Fips_Constants\<close> computes the constants of the standard
    from the square and cube roots of primes that define them, and the tables of the code are
    compared with these.
  \<^item> \<open>Ecdsa_Der\<close>, \<open>Ecdsa_Der_Correct\<close>: the DER part of ecdsa_impl.h.  A read outside the input is
    the value \<open>None\<close>, so that no such read is a theorem.
  \<^item> \<open>Ecmult\<close>, \<open>Ecmult_Const\<close>, \<open>Ecmult_Gen\<close>: ecmult_impl.h, ecmult_const_impl.h and
    ecmult_gen_impl.h: tables of odd multiples, signed digits, the multiplications, the blinded table
    of the generator.  \<open>Wnaf\<close>, \<open>Wnaf_Const\<close> and \<open>Ecmult_Theorems\<close> show that the digits stand for the
    scalar and that the loop over them ends.
  \<^item> \<open>Group_Scaled\<close>, \<open>Ecmult_Tables\<close>: points held up to a common scale of their coordinates, and the
    tables of odd multiples on such points.  On them \<open>Ecmult_Correct\<close> shows that the
    multiplication returns the sum of the two multiples and that the context it needs is the one
    the code builds; \<open>Ecmult_Gen_Correct\<close> shows it of the multiplication of the generator for every
    blinded table, \<open>Ecmult_Const_Correct\<close> of the constant-time multiplication, and
    \<open>Ecmult_Blind\<close> that blinding again keeps the table right.
  \<^item> \<open>Eckey\<close>: eckey_impl.h.  \<open>Ecdsa_Sig\<close>, \<open>Ecdsa_Correct\<close>, \<open>Ecdsa_Verify\<close>: signing and
    verification in ecdsa_impl.h and recovery, against the ECDSA equation between points.
  \<^item> \<open>Secp256k1\<close>: secp256k1.c, the public functions, on the bytes of the opaque objects.
    \<open>Recovery\<close>: modules/recovery.  \<open>Ecdh_Ext\<close>: modules/ecdh and ext.h.
    \<open>Secp256k1_Objects\<close>, \<open>Secp256k1_Keys\<close>, \<open>Secp256k1_Theorems\<close>, \<open>Secp256k1_Signing\<close>: what the
    objects hold, keys and their encodings, tweaks, compact signatures, the loop of signing, guards.
    \<open>Secp256k1_Points\<close>, \<open>Secp256k1_Multiples\<close>, \<open>Secp256k1_Contexts\<close>: the public functions as
    operations on points, and the contexts they need.  \<open>Secp256k1_Ecdsa\<close>: what verification accepts,
    that signatures verify and lead back to the key; \<open>Secp256k1_Products\<close>: the multiplications, public
    keys and their tweaks and sums, key agreement.
  \<^item> \<open>Lax_Der\<close>, \<open>Lax_Der_Correct\<close>, \<open>Lax_Der_Theorems\<close>: the lenient parsers of contrib.

  Conventions.  Out-parameters are results, and an object whose old contents matter is passed in and
  returned.  A pointer that may be NULL is an option.  A public function returns the list of messages
  it passed to the illegal-argument callback with its result.  A loop with a bound is a fold or a
  recursion with the bound as fuel; a loop without one (drawing random values until one is in range)
  is a partial function whose value \<open>None\<close> means that it does not end.

  The theorems on signing hold for every context whose table has rows of multiples with offsets that
  cancel (\<open>gen_ctx_ok\<close>), which blinding preserves.  That \<open>ecmult_gen_context_build\<close> makes such a table
  is not among them: it needs that no entry is the point at infinity, which depends on the discrete
  logarithm of a point chosen so that nobody knows it.  The tables for verification have no such
  condition, and their construction is proved.

  Not modelled: the 32-bit representations (field_10x26, scalar_8x32), the assembly, the bignum
  configuration, the static table of the generator, tests, benchmarks and bindings; that memory is
  wiped after use where the memory is a temporary; timing.  Memory allocation succeeds.
\<close>

end
